(* ===== verification/Go_Prelude.thy ===== *)
theory Go_Prelude
  imports Main "HOL-Library.Word" "HOL-Library.Multiset"
begin

text \<open>
  Shared vocabulary of the development: Go's fixed-width integers, the outcome of running a
  piece of Go code (a value, a returned error, a panic of the running goroutine, a goroutine
  that blocks for ever, a crash of the process), the state-passing combinators in which the
  stateful code is written, and the list and map lemmas that the components share.
\<close>

section \<open>Integers\<close>

type_synonym byte = "8 word"
type_synonym uint16 = "16 word"
type_synonym uint32 = "32 word"
type_synonym uint64 = "64 word"

text \<open>
  Signed Go integers are the same words read by \<open>sint\<close>. A \<open>float32\<close> that the code only
  copies is its IEEE bit pattern.
\<close>

type_synonym int32 = "32 word"
type_synonym float32 = "32 word"

text \<open>The protobuf fields of a message that the code passes on without looking at them.\<close>

type_synonym pb = "byte list"

text \<open>\<open>binary.LittleEndian\<close> and \<open>binary.BigEndian\<close> on two bytes.\<close>

definition le16 :: "uint16 \<Rightarrow> byte list" where
  "le16 n = [ucast n, ucast (drop_bit 8 n)]"

definition be16_of :: "byte \<Rightarrow> byte \<Rightarrow> uint16" where
  "be16_of hi lo = push_bit 8 (ucast hi) + ucast lo"

lemma length_le16 [simp]: "length (le16 n) = 2"
  by (simp add: le16_def)

section \<open>Outcomes and errors\<close>

datatype grpc_code =
  InvalidArgument | Internal | DeadlineExceeded | ResourceExhausted | Unauthenticated

text \<open>
  The errors the code returns: a gRPC status error, an error of the domain socket, an error of
  the client's stream, an error made by \<open>fmt.Errorf\<close> (with its fixed text).
\<close>

datatype go_error = GrpcError grpc_code string | SocketError | StreamError | Errorf string

datatype 'a outcome =
    Ret 'a           \<comment> \<open>the code returned a value and no error\<close>
  | Fail go_error    \<comment> \<open>the code returned an error\<close>
  | Panic            \<comment> \<open>the running goroutine panicked\<close>
  | Blocked          \<comment> \<open>the running goroutine waits and nothing will wake it\<close>
  | Crash            \<comment> \<open>a panic nobody recovers: the process is gone\<close>

type_synonym ('w, 'a) go = "'w \<Rightarrow> 'a outcome \<times> 'w"

definition returnM :: "'a \<Rightarrow> ('w, 'a) go" where
  "returnM a w = (Ret a, w)"

definition failM :: "go_error \<Rightarrow> ('w, 'a) go" where
  "failM e w = (Fail e, w)"

definition panicM :: "('w, 'a) go" where
  "panicM w = (Panic, w)"

definition bindM :: "('w, 'a) go \<Rightarrow> ('a \<Rightarrow> ('w, 'b) go) \<Rightarrow> ('w, 'b) go" where
  "bindM m k w = (case m w of
      (Ret a, w') \<Rightarrow> k a w'
    | (Fail e, w') \<Rightarrow> (Fail e, w')
    | (Panic, w') \<Rightarrow> (Panic, w')
    | (Blocked, w') \<Rightarrow> (Blocked, w')
    | (Crash, w') \<Rightarrow> (Crash, w'))"

text \<open>A call whose error the caller looks at (\<open>x, err := m\<close>).\<close>

definition tryM :: "('w, 'a) go \<Rightarrow> ('w, go_error + 'a) go" where
  "tryM m w = (case m w of
      (Ret a, w') \<Rightarrow> (Ret (Inr a), w')
    | (Fail e, w') \<Rightarrow> (Ret (Inl e), w')
    | (Panic, w') \<Rightarrow> (Panic, w')
    | (Blocked, w') \<Rightarrow> (Blocked, w')
    | (Crash, w') \<Rightarrow> (Crash, w'))"

text \<open>
  \<open>defer f()\<close> around the rest of a function: \<open>f\<close> runs when the rest returns or panics; its own
  result is dropped, but its panic, block or crash is not.
\<close>

definition deferM :: "('w, 'b) go \<Rightarrow> ('w, 'a) go \<Rightarrow> ('w, 'a) go" where
  "deferM f m w = (case m w of
      (Blocked, w') \<Rightarrow> (Blocked, w')
    | (Crash, w') \<Rightarrow> (Crash, w')
    | (r, w') \<Rightarrow> (case f w' of
          (Panic, w'') \<Rightarrow> (Panic, w'')
        | (Blocked, w'') \<Rightarrow> (Blocked, w'')
        | (Crash, w'') \<Rightarrow> (Crash, w'')
        | (_, w'') \<Rightarrow> (r, w'')))"

named_theorems go_defs "the combinators of the Go monad"

declare returnM_def [go_defs] failM_def [go_defs] panicM_def [go_defs]
  bindM_def [go_defs] tryM_def [go_defs] deferM_def [go_defs]

lemma bindM_return [simp]: "bindM (returnM a) k = k a"
  by (simp add: fun_eq_iff go_defs)

lemma bindM_fail [simp]: "bindM (failM e) k = failM e"
  by (simp add: fun_eq_iff go_defs)

lemma bindM_panic [simp]: "bindM panicM k = panicM"
  by (simp add: fun_eq_iff go_defs)

lemma bindM_assoc: "bindM (bindM m k) h = bindM m (\<lambda>a. bindM (k a) h)"
  by (auto simp: fun_eq_iff bindM_def split: prod.split outcome.split)

section \<open>Lists and maps\<close>

text \<open>The position of the first occurrence, as a Go \<open>for idx, v := range\<close> with a \<open>break\<close> finds it.\<close>

fun index_of :: "'a \<Rightarrow> 'a list \<Rightarrow> nat option" where
  "index_of x [] = None"
| "index_of x (y # ys) = (if y = x then Some 0 else map_option Suc (index_of x ys))"

lemma index_of_None_iff: "index_of x xs = None \<longleftrightarrow> x \<notin> set xs"
  by (induction xs) auto

lemma index_of_absent [simp]: "x \<notin> set xs \<Longrightarrow> index_of x xs = None"
  by (simp add: index_of_None_iff)

lemma index_of_Some: "index_of x xs = Some i \<Longrightarrow> i < length xs \<and> xs ! i = x"
  by (induction xs arbitrary: i) (auto split: if_splits)

lemma index_of_append_new: "x \<notin> set xs \<Longrightarrow> index_of x (xs @ [x]) = Some (length xs)"
  by (induction xs) auto

text \<open>Removal by moving the last element into the hole and dropping the last slot.\<close>

definition swap_remove :: "nat \<Rightarrow> 'a list \<Rightarrow> 'a list" where
  "swap_remove i xs = butlast (xs[i := last xs])"

lemma mset_swap_remove:
  assumes "i < length xs"
  shows "mset (swap_remove i xs) = mset xs - {# xs ! i #}"
proof -
  from assms obtain ys y where xs: "xs = ys @ [y]" by (cases xs rule: rev_cases) auto
  show ?thesis
  proof (cases "i = length ys")
    case True
    then show ?thesis by (simp add: xs swap_remove_def)
  next
    case False
    with assms xs have i: "i < length ys" by simp
    then have "butlast (xs[i := last xs]) = ys[i := y]"
      by (simp add: xs list_update_append butlast_append)
    with i show ?thesis
      by (simp add: xs swap_remove_def mset_update nth_append)
  qed
qed

lemma set_swap_remove:
  assumes "distinct xs" "i < length xs"
  shows "set (swap_remove i xs) = set xs - {xs ! i}"
proof -
  have "set (swap_remove i xs) = set_mset (mset xs - {# xs ! i #})"
    using mset_swap_remove [OF assms(2)] by (metis set_mset_mset)
  also have "\<dots> = set xs - {xs ! i}"
    using assms(1) by (simp flip: mset_remove1 add: set_remove1_eq)
  finally show ?thesis .
qed

lemma distinct_swap_remove:
  assumes "distinct xs" "i < length xs"
  shows "distinct (swap_remove i xs)"
proof -
  have "mset (swap_remove i xs) = mset (remove1 (xs ! i) xs)"
    using mset_swap_remove [OF assms(2)] by simp
  then show ?thesis
    by (metis assms(1) distinct_remove1 mset_eq_imp_distinct_iff)
qed

lemma swap_remove_last: "swap_remove (length xs) (xs @ [x]) = xs"
  by (simp add: swap_remove_def)

lemma length_swap_remove [simp]: "length (swap_remove i xs) = length xs - 1"
  by (simp add: swap_remove_def)

section \<open>Runs\<close>

lemma four_steps: "r a b \<Longrightarrow> r b c \<Longrightarrow> r c d \<Longrightarrow> r d e \<Longrightarrow> r\<^sup>*\<^sup>* a e"
  by (rule rtranclp.rtrancl_into_rtrancl [OF rtranclp.rtrancl_into_rtrancl
        [OF rtranclp.rtrancl_into_rtrancl [OF r_into_rtranclp]]])

end
