(* ===== verification/Listeners.thy ===== *)
theory Listeners
  imports Go_Prelude
begin

text \<open>
  Buffered Go channels and the registry of listener channels that every manager of
  \<open>cloud/ipc_manager.go\<close> keeps: \<open>CreateChannel\<close>, \<open>CreateUniqueChannel\<close>, \<open>SafeClose\<close>,
  \<open>deleteListenerUnsafe\<close> and \<open>SendToListeners\<close>. The file repeats these functions for each of
  its three managers; here they are written once, over any type of tags and of messages, and
  \<open>Ipc_Managers\<close> instantiates them. A function that returns \<open>None\<close> panics (send on or close of a
  closed channel).

  The locale \<open>listener_registry\<close> is what the RPC handlers need of a registry: a fresh channel is
  registered last under its tag, unregistering it cannot panic, removes exactly it, and delivery
  of a message never registers anything.
\<close>

section \<open>Channels and the registry\<close>

record 'm go_chan =
  cap :: nat
  buf :: "'m list"
  closed :: bool

record ('t, 'm) manager =
  managedChannels :: "'t \<Rightarrow> nat list option"   \<comment> \<open>the Go map: \<open>None\<close> is an absent key\<close>
  chans :: "nat \<Rightarrow> 'm go_chan option"           \<comment> \<open>the channels made so far, by identity\<close>
  next_chan :: nat

definition empty_manager :: "('t, 'm) manager" where
  "empty_manager = \<lparr>managedChannels = (\<lambda>_. None), chans = (\<lambda>_. None), next_chan = 0\<rparr>"

text \<open>Reading an absent key of a Go map gives the nil slice.\<close>

definition listeners :: "('t, 'm) manager \<Rightarrow> 't \<Rightarrow> nat list" where
  "listeners m t = (case managedChannels m t of None \<Rightarrow> [] | Some ls \<Rightarrow> ls)"

definition CreateChannel_reg :: "'t \<Rightarrow> nat \<Rightarrow> ('t, 'm) manager \<Rightarrow> nat \<times> ('t, 'm) manager" where
  "CreateChannel_reg tag numChannels m =
     (let result = next_chan m in
      (result, m\<lparr>managedChannels := (managedChannels m)(tag \<mapsto> listeners m tag @ [result]),
                 chans := (chans m)(result \<mapsto> \<lparr>cap = numChannels, buf = [], closed = False\<rparr>),
                 next_chan := Suc result\<rparr>))"

text \<open>
  \<open>SafeClose\<close>: a \<open>select\<close> that receives if it can and closes the channel unless the receive says
  it is closed already. A message waiting in the buffer is received, and so dropped.
\<close>

definition SafeClose_reg :: "nat \<Rightarrow> ('t, 'm) manager \<Rightarrow> ('t, 'm) manager option" where
  "SafeClose_reg l m = (case chans m l of
      None \<Rightarrow> None
    | Some c \<Rightarrow> (case buf c of
          _ # rest \<Rightarrow> (if closed c then None
                       else Some (m\<lparr>chans := (chans m)(l \<mapsto> c\<lparr>buf := rest, closed := True\<rparr>)\<rparr>))
        | [] \<Rightarrow> (if closed c then Some m
                  else Some (m\<lparr>chans := (chans m)(l \<mapsto> c\<lparr>closed := True\<rparr>)\<rparr>))))"

text \<open>
  \<open>deleteListenerUnsafe\<close>: the listener's slot takes the last listener, the slice is cut by one,
  and a tag without listeners loses its key. A listener that is not found only logs a warning.
\<close>

definition deleteListenerUnsafe_reg ::
    "nat \<Rightarrow> 't \<Rightarrow> ('t, 'm) manager \<Rightarrow> ('t, 'm) manager option" where
  "deleteListenerUnsafe_reg l tag m =
     (let chanSlice = listeners m tag;
          removed = (case index_of l chanSlice of
              None \<Rightarrow> Some m
            | Some idx \<Rightarrow> SafeClose_reg l
                (m\<lparr>managedChannels := (managedChannels m)(tag \<mapsto> swap_remove idx chanSlice)\<rparr>))
      in map_option (\<lambda>m'. if listeners m' tag = []
                           then m'\<lparr>managedChannels := (managedChannels m')(tag := None)\<rparr>
                           else m') removed)"

text \<open>
  \<open>SendToListeners\<close>. Every listener gets a goroutine that sends or gives up after 250 ms; a
  buffer with room takes the message at once, a full buffer that nobody drains times out and the
  listener is marked for deletion. The marks go to a channel of capacity five that is drained
  only after all goroutines are done, so a sixth mark blocks them, and the caller, for ever.
\<close>

datatype 's send_result = Sent 's | Deadlock | SendPanic

fun offer_all :: "'m \<Rightarrow> nat list \<Rightarrow> ('t, 'm) manager \<Rightarrow> (nat list \<times> ('t, 'm) manager) option" where
  "offer_all msg [] m = Some ([], m)"
| "offer_all msg (l # ls) m = (case chans m l of
      None \<Rightarrow> None
    | Some c \<Rightarrow>
        if closed c then None
        else if length (buf c) < cap c
        then offer_all msg ls (m\<lparr>chans := (chans m)(l \<mapsto> c\<lparr>buf := buf c @ [msg]\<rparr>)\<rparr>)
        else map_option (\<lambda>(marked, m'). (l # marked, m')) (offer_all msg ls m))"

fun delete_all :: "nat list \<Rightarrow> 't \<Rightarrow> ('t, 'm) manager \<Rightarrow> ('t, 'm) manager option" where
  "delete_all [] tag m = Some m"
| "delete_all (l # ls) tag m = (case deleteListenerUnsafe_reg l tag m of
      None \<Rightarrow> None
    | Some m' \<Rightarrow> delete_all ls tag m')"

definition markedCapacity :: nat where
  "markedCapacity = 5"

definition SendToListeners_reg ::
    "'t \<Rightarrow> 'm \<Rightarrow> ('t, 'm) manager \<Rightarrow> ('t, 'm) manager send_result" where
  "SendToListeners_reg tag msg m = (case managedChannels m tag of
      None \<Rightarrow> Sent m
    | Some chanList \<Rightarrow> (case offer_all msg chanList m of
          None \<Rightarrow> SendPanic
        | Some (marked, m') \<Rightarrow>
            if markedCapacity < length marked then Deadlock
            else (case delete_all marked tag m' of
                None \<Rightarrow> SendPanic
              | Some m'' \<Rightarrow> Sent m'')))"

text \<open>Receiving from a channel: a message, "closed and empty" (\<open>ok\<close> is false), or nothing yet.\<close>

datatype 'm recv_result = Received 'm | ClosedEmpty | WouldBlock

definition receive_reg :: "nat \<Rightarrow> ('t, 'm) manager \<Rightarrow> 'm recv_result \<times> ('t, 'm) manager" where
  "receive_reg l m = (case chans m l of
      None \<Rightarrow> (WouldBlock, m)
    | Some c \<Rightarrow> (case buf c of
          x # rest \<Rightarrow> (Received x, m\<lparr>chans := (chans m)(l \<mapsto> c\<lparr>buf := rest\<rparr>)\<rparr>)
        | [] \<Rightarrow> (if closed c then ClosedEmpty else WouldBlock, m)))"

section \<open>The invariant of a registry\<close>

text \<open>
  Every registered channel exists, is open and is registered once under one tag; a key that is
  present has a listener; buffers hold no more than their capacity; channel identities are
  below the counter; and a channel registered under a tag holds only messages of that tag
  (\<open>ty\<close> gives a message's tag).
\<close>

definition wf_manager :: "('m \<Rightarrow> 't) \<Rightarrow> ('t, 'm) manager \<Rightarrow> bool" where
  "wf_manager ty m \<longleftrightarrow>
     (\<forall>t. managedChannels m t \<noteq> Some [] \<and> distinct (listeners m t)) \<and>
     (\<forall>t u. t \<noteq> u \<longrightarrow> set (listeners m t) \<inter> set (listeners m u) = {}) \<and>
     (\<forall>t. \<forall>l \<in> set (listeners m t). \<exists>c. chans m l = Some c \<and> \<not> closed c \<and>
            (\<forall>x \<in> set (buf c). ty x = t)) \<and>
     (\<forall>l c. chans m l = Some c \<longrightarrow> l < next_chan m \<and> length (buf c) \<le> cap c)"

lemma wf_managerI:
  assumes "\<And>t. managedChannels m t \<noteq> Some []" "\<And>t. distinct (listeners m t)"
    and "\<And>t u. t \<noteq> u \<Longrightarrow> set (listeners m t) \<inter> set (listeners m u) = {}"
    and "\<And>t l. l \<in> set (listeners m t) \<Longrightarrow>
           \<exists>c. chans m l = Some c \<and> \<not> closed c \<and> (\<forall>x \<in> set (buf c). ty x = t)"
    and "\<And>l c. chans m l = Some c \<Longrightarrow> l < next_chan m \<and> length (buf c) \<le> cap c"
  shows "wf_manager ty m"
  using assms unfolding wf_manager_def by blast

lemma wf_managerD:
  assumes "wf_manager ty m"
  shows "managedChannels m t \<noteq> Some []" and "distinct (listeners m t)"
    and "t \<noteq> u \<Longrightarrow> set (listeners m t) \<inter> set (listeners m u) = {}"
    and "l \<in> set (listeners m t) \<Longrightarrow>
           \<exists>c. chans m l = Some c \<and> \<not> closed c \<and> (\<forall>x \<in> set (buf c). ty x = t)"
    and "chans m l = Some c \<Longrightarrow> l < next_chan m \<and> length (buf c) \<le> cap c"
  using assms unfolding wf_manager_def by blast+

lemma listeners_lt: "wf_manager ty m \<Longrightarrow> l \<in> set (listeners m t) \<Longrightarrow> l < next_chan m"
  using wf_managerD(4,5) by metis

lemma wf_empty_manager [simp]: "wf_manager ty empty_manager"
  by (rule wf_managerI) (auto simp: empty_manager_def listeners_def)

lemma listeners_empty_manager [simp]: "listeners empty_manager t = []"
  by (simp add: empty_manager_def listeners_def)

lemma listeners_chans_upd [simp]: "listeners (m\<lparr>chans := f\<rparr>) = listeners m"
  by (simp add: fun_eq_iff listeners_def)

lemma listeners_next_upd [simp]: "listeners (m\<lparr>next_chan := n\<rparr>) = listeners m"
  by (simp add: fun_eq_iff listeners_def)

lemma listeners_managed_upd [simp]:
  "listeners (m\<lparr>managedChannels := (managedChannels m)(t := v)\<rparr>) u =
     (if u = t then (case v of None \<Rightarrow> [] | Some ls \<Rightarrow> ls) else listeners m u)"
  by (simp add: listeners_def)

subsection \<open>CreateChannel\<close>

lemma CreateChannel_listeners:
  "CreateChannel_reg t n m = (c, m') \<Longrightarrow>
     listeners m' u = (if u = t then listeners m t @ [c] else listeners m u)"
  by (auto simp: CreateChannel_reg_def Let_def listeners_def)

lemma CreateChannel_fresh:
  "wf_manager ty m \<Longrightarrow> CreateChannel_reg t n m = (c, m') \<Longrightarrow> c \<notin> set (listeners m u)"
  using listeners_lt by (fastforce simp: CreateChannel_reg_def Let_def)

lemma CreateChannel_wf:
  assumes wf: "wf_manager ty m" and eq: "CreateChannel_reg t n m = (c, m')"
  shows "wf_manager ty m'"
proof (rule wf_managerI)
  have c: "c = next_chan m" and m': "chans m' = (chans m)(c \<mapsto> \<lparr>cap = n, buf = [], closed = False\<rparr>)"
    and next_m': "next_chan m' = Suc c"
    and managed: "managedChannels m' = (managedChannels m)(t \<mapsto> listeners m t @ [c])"
    using eq by (auto simp: CreateChannel_reg_def Let_def)
  note ls = CreateChannel_listeners [OF eq]
  note fresh = CreateChannel_fresh [OF wf eq]
  show "managedChannels m' u \<noteq> Some []" for u
    using wf_managerD(1) [OF wf] by (simp add: managed)
  show "distinct (listeners m' u)" for u
    using wf_managerD(2) [OF wf] fresh by (simp add: ls)
  show "set (listeners m' u) \<inter> set (listeners m' v) = {}" if "u \<noteq> v" for u v
    using wf_managerD(3) [OF wf that] fresh that by (auto simp: ls)
  show "\<exists>d. chans m' l = Some d \<and> \<not> closed d \<and> (\<forall>x \<in> set (buf d). ty x = u)"
    if "l \<in> set (listeners m' u)" for l u
    using that wf_managerD(4) [OF wf] fresh by (auto simp: ls m' split: if_splits)
  show "l < next_chan m' \<and> length (buf d) \<le> cap d" if "chans m' l = Some d" for l d
    using that wf_managerD(5) [OF wf, of l d] by (auto simp: m' next_m' c split: if_splits)
qed

subsection \<open>deleteListenerUnsafe\<close>

lemma delete_absent:
  assumes "wf_manager ty m" "l \<notin> set (listeners m t)"
  shows "deleteListenerUnsafe_reg l t m = Some m"
proof (cases "listeners m t = []")
  case True
  then have "managedChannels m t = None"
    using wf_managerD(1) [OF assms(1), of t] by (auto simp: listeners_def split: option.splits)
  then have "(managedChannels m)(t := None) = managedChannels m" by auto
  then show ?thesis using True by (simp add: deleteListenerUnsafe_reg_def)
next
  case False
  with assms(2) show ?thesis by (simp add: deleteListenerUnsafe_reg_def Let_def)
qed

lemma delete_present:
  assumes wf: "wf_manager ty m" and l: "l \<in> set (listeners m t)"
  obtains c i where "chans m l = Some c" "\<not> closed c" "index_of l (listeners m t) = Some i"
    "deleteListenerUnsafe_reg l t m = Some (m\<lparr>
       managedChannels := (managedChannels m)(t :=
         if swap_remove i (listeners m t) = [] then None else Some (swap_remove i (listeners m t))),
       chans := (chans m)(l \<mapsto> c\<lparr>buf := tl (buf c), closed := True\<rparr>)\<rparr>)"
proof -
  from l obtain i where i: "index_of l (listeners m t) = Some i"
    by (metis index_of_None_iff option.exhaust)
  from wf_managerD(4) [OF wf l] obtain c where c: "chans m l = Some c" "\<not> closed c" by blast
  let ?m = "m\<lparr>managedChannels := (managedChannels m)(t \<mapsto> swap_remove i (listeners m t))\<rparr>"
  let ?d = "c\<lparr>buf := tl (buf c), closed := True\<rparr>"
  have "SafeClose_reg l ?m = Some (?m\<lparr>chans := (chans m)(l \<mapsto> ?d)\<rparr>)"
  proof (cases "buf c")
    case Nil
    then have "?d = c\<lparr>closed := True\<rparr>" by (cases c) simp
    with Nil c show ?thesis unfolding SafeClose_reg_def by (simp only: simp_thms) simp
  next
    case (Cons x rest)
    with c show ?thesis by (simp add: SafeClose_reg_def)
  qed
  with i have "deleteListenerUnsafe_reg l t m = Some (m\<lparr>
       managedChannels := (managedChannels m)(t :=
         if swap_remove i (listeners m t) = [] then None else Some (swap_remove i (listeners m t))),
       chans := (chans m)(l \<mapsto> ?d)\<rparr>)"
    by (simp add: deleteListenerUnsafe_reg_def)
  with c i that show ?thesis by blast
qed

lemma delete_total: "wf_manager ty m \<Longrightarrow> \<exists>m'. deleteListenerUnsafe_reg l t m = Some m'"
  by (metis delete_absent delete_present)

lemma delete_listeners:
  assumes "wf_manager ty m" "deleteListenerUnsafe_reg l t m = Some m'"
  shows "listeners m' u = (if u = t then (case index_of l (listeners m t) of
            None \<Rightarrow> listeners m t | Some i \<Rightarrow> swap_remove i (listeners m t)) else listeners m u)"
proof (cases "l \<in> set (listeners m t)")
  case False
  with assms show ?thesis
    using delete_absent [OF assms(1) False] by simp
next
  case True
  from assms(1) True show ?thesis
  proof (rule delete_present)
    fix c i
    assume "index_of l (listeners m t) = Some i"
      "deleteListenerUnsafe_reg l t m = Some (m\<lparr>
       managedChannels := (managedChannels m)(t :=
         if swap_remove i (listeners m t) = [] then None else Some (swap_remove i (listeners m t))),
       chans := (chans m)(l \<mapsto> c\<lparr>buf := tl (buf c), closed := True\<rparr>)\<rparr>)"
    with assms(2) show ?thesis by (auto simp: listeners_def)
  qed
qed

lemma delete_listeners_set:
  assumes "wf_manager ty m" "deleteListenerUnsafe_reg l t m = Some m'"
  shows "set (listeners m' u) = (if u = t then set (listeners m t) - {l} else set (listeners m u))"
proof (cases "index_of l (listeners m t)")
  case None
  with delete_listeners [OF assms] show ?thesis by (simp add: index_of_None_iff)
next
  case (Some i)
  from index_of_Some [OF Some] set_swap_remove [OF wf_managerD(2) [OF assms(1)], of i t]
  show ?thesis by (simp add: delete_listeners [OF assms] Some)
qed

lemma delete_last_listeners:
  assumes "wf_manager ty m" "deleteListenerUnsafe_reg l t m = Some m'" "listeners m t = ls @ [l]"
  shows "listeners m' u = (if u = t then ls else listeners m u)"
proof -
  have "l \<notin> set ls" using wf_managerD(2) [OF assms(1), of t] assms(3) by simp
  then show ?thesis
    by (simp add: delete_listeners [OF assms(1,2)] assms(3) index_of_append_new swap_remove_last)
qed

lemma delete_chans:
  assumes "wf_manager ty m" "deleteListenerUnsafe_reg l t m = Some m'"
  shows "k \<noteq> l \<Longrightarrow> chans m' k = chans m k"
    and "next_chan m' = next_chan m"
    and "l \<in> set (listeners m t) \<Longrightarrow> chans m l = Some c \<Longrightarrow>
           chans m' l = Some (c\<lparr>buf := tl (buf c), closed := True\<rparr>)"
proof -
  have "(k \<noteq> l \<longrightarrow> chans m' k = chans m k) \<and> next_chan m' = next_chan m \<and>
      (l \<in> set (listeners m t) \<longrightarrow> chans m l = Some c \<longrightarrow>
         chans m' l = Some (c\<lparr>buf := tl (buf c), closed := True\<rparr>))"
  proof (cases "l \<in> set (listeners m t)")
    case False
    with assms show ?thesis by (simp add: delete_absent)
  next
    case True
    from assms(1) True obtain d i where d: "chans m l = Some d"
      and upd: "deleteListenerUnsafe_reg l t m = Some (m\<lparr>
       managedChannels := (managedChannels m)(t :=
         if swap_remove i (listeners m t) = [] then None else Some (swap_remove i (listeners m t))),
       chans := (chans m)(l \<mapsto> d\<lparr>buf := tl (buf d), closed := True\<rparr>)\<rparr>)"
      by (rule delete_present)
    from upd assms(2) have "chans m' = (chans m)(l \<mapsto> d\<lparr>buf := tl (buf d), closed := True\<rparr>)"
      and "next_chan m' = next_chan m" by (metis (no_types, lifting) manager.select_convs(2,3)
         manager.simps option.inject manager.surjective manager.update_convs)+
    with d show ?thesis by simp
  qed
  then show "k \<noteq> l \<Longrightarrow> chans m' k = chans m k" and "next_chan m' = next_chan m"
    and "l \<in> set (listeners m t) \<Longrightarrow> chans m l = Some c \<Longrightarrow>
           chans m' l = Some (c\<lparr>buf := tl (buf c), closed := True\<rparr>)"
    by simp_all
qed

lemma delete_wf:
  assumes wf: "wf_manager ty m" and eq: "deleteListenerUnsafe_reg l t m = Some m'"
  shows "wf_manager ty m'"
proof (cases "l \<in> set (listeners m t)")
  case False
  with assms show ?thesis by (simp add: delete_absent)
next
  case True
  from wf True obtain c i where ci: "chans m l = Some c" "index_of l (listeners m t) = Some i"
    and upd: "deleteListenerUnsafe_reg l t m = Some (m\<lparr>
       managedChannels := (managedChannels m)(t :=
         if swap_remove i (listeners m t) = [] then None else Some (swap_remove i (listeners m t))),
       chans := (chans m)(l \<mapsto> c\<lparr>buf := tl (buf c), closed := True\<rparr>)\<rparr>)"
    by (rule delete_present)
  note set_m' = delete_listeners_set [OF wf eq]
  show ?thesis
  proof (rule wf_managerI)
    show "managedChannels m' u \<noteq> Some []" for u
      using upd eq wf_managerD(1) [OF wf, of u] by auto
    show "distinct (listeners m' u)" for u
      using wf_managerD(2) [OF wf] distinct_swap_remove index_of_Some [OF ci(2)]
      by (auto simp: delete_listeners [OF wf eq] ci(2))
    show "set (listeners m' u) \<inter> set (listeners m' v) = {}" if "u \<noteq> v" for u v
      using wf_managerD(3) [OF wf that] that by (auto simp: set_m' split: if_splits)
    show "\<exists>d. chans m' k = Some d \<and> \<not> closed d \<and> (\<forall>x \<in> set (buf d). ty x = u)"
      if k: "k \<in> set (listeners m' u)" for k u
    proof -
      have "k \<in> set (listeners m u)" "k \<noteq> l"
        using k True wf_managerD(3) [OF wf, of u t] by (auto simp: set_m' split: if_splits)
      then show ?thesis using wf_managerD(4) [OF wf] delete_chans(1) [OF wf eq] by simp
    qed
    show "k < next_chan m' \<and> length (buf d) \<le> cap d" if "chans m' k = Some d" for k d
      using that upd eq wf_managerD(5) [OF wf] ci(1) by (fastforce split: if_splits)
  qed
qed

lemma delete_all_spec:
  assumes "wf_manager ty m"
  shows "\<exists>m'. delete_all ls t m = Some m' \<and> wf_manager ty m' \<and>
     (\<forall>u. set (listeners m' u) = (if u = t then set (listeners m t) - set ls else set (listeners m u))) \<and>
     (\<forall>k. k \<notin> set ls \<longrightarrow> chans m' k = chans m k) \<and> next_chan m' = next_chan m \<and>
     (ls = [] \<longrightarrow> m' = m)"
  using assms
proof (induction ls arbitrary: m)
  case Nil
  then show ?case by simp
next
  case (Cons l ls)
  obtain m1 where m1: "deleteListenerUnsafe_reg l t m = Some m1"
    using delete_total [OF Cons.prems] by blast
  from Cons.IH [OF delete_wf [OF Cons.prems m1]] obtain m2 where "delete_all ls t m1 = Some m2"
    "wf_manager ty m2" "next_chan m2 = next_chan m1"
    "\<And>u. set (listeners m2 u) = (if u = t then set (listeners m1 t) - set ls else set (listeners m1 u))"
    "\<And>k. k \<notin> set ls \<Longrightarrow> chans m2 k = chans m1 k"
    by auto
  then show ?case
    using m1 delete_listeners_set [OF Cons.prems m1] delete_chans [OF Cons.prems m1] by auto
qed

subsection \<open>SendToListeners\<close>

text \<open>A listener is stuck when its buffer is full (nobody drains it within the 250 ms).\<close>

definition stuck :: "('t, 'm) manager \<Rightarrow> nat \<Rightarrow> bool" where
  "stuck m l \<longleftrightarrow> (case chans m l of None \<Rightarrow> True | Some c \<Rightarrow> cap c \<le> length (buf c))"

definition appended :: "'m \<Rightarrow> nat set \<Rightarrow> ('t, 'm) manager \<Rightarrow> nat \<Rightarrow> 'm go_chan option" where
  "appended msg ls m = (\<lambda>l. if l \<in> ls \<and> \<not> stuck m l
      then map_option (\<lambda>c. c\<lparr>buf := buf c @ [msg]\<rparr>) (chans m l) else chans m l)"

lemma offer_all_eq:
  assumes "distinct ls" "\<And>l. l \<in> set ls \<Longrightarrow> \<exists>c. chans m l = Some c \<and> \<not> closed c"
  shows "offer_all msg ls m =
     Some (filter (stuck m) ls, m\<lparr>chans := appended msg (set ls) m\<rparr>)"
  using assms
proof (induction ls arbitrary: m)
  case Nil
  have "m\<lparr>chans := chans m\<rparr> = m" by simp
  then show ?case by (simp add: appended_def)
next
  case (Cons l ls)
  from Cons.prems(2) obtain c where c: "chans m l = Some c" "\<not> closed c" by auto
  show ?case
  proof (cases "length (buf c) < cap c")
    case True
    let ?m = "m\<lparr>chans := (chans m)(l \<mapsto> c\<lparr>buf := buf c @ [msg]\<rparr>)\<rparr>"
    have same: "stuck ?m k = stuck m k" "chans ?m k = chans m k" if "k \<in> set ls" for k
      using that Cons.prems(1) by (auto simp: stuck_def)
    have "offer_all msg ls ?m = Some (filter (stuck ?m) ls, ?m\<lparr>chans := appended msg (set ls) ?m\<rparr>)"
      using Cons.prems by (intro Cons.IH) auto
    moreover have "filter (stuck ?m) ls = filter (stuck m) ls"
      by (rule filter_cong) (simp_all add: same)
    moreover have "appended msg (set ls) ?m = appended msg (set (l # ls)) m"
      using c True same Cons.prems(1) by (auto simp: appended_def fun_eq_iff stuck_def)
    moreover have "\<not> stuck m l" using c True by (simp add: stuck_def)
    ultimately show ?thesis using c True by simp
  next
    case False
    then have "stuck m l" using c by (simp add: stuck_def)
    moreover have "appended msg (set ls) m = appended msg (set (l # ls)) m"
      using \<open>stuck m l\<close> by (auto simp: appended_def)
    moreover have "offer_all msg ls m =
        Some (filter (stuck m) ls, m\<lparr>chans := appended msg (set ls) m\<rparr>)"
      using Cons.prems by (intro Cons.IH) auto
    ultimately show ?thesis using c False by simp
  qed
qed

lemma appended_wf:
  assumes wf: "wf_manager ty m" and ty: "ty msg = t"
  shows "wf_manager ty (m\<lparr>chans := appended msg (set (listeners m t)) m\<rparr>)"
proof (rule wf_managerI, simp_all)
  show "managedChannels m u \<noteq> Some []" "distinct (listeners m u)" for u
    using wf_managerD(1,2) [OF wf] by auto
  show "set (listeners m u) \<inter> set (listeners m v) = {}" if "u \<noteq> v" for u v
    using wf_managerD(3) [OF wf that] .
  show "\<exists>c. appended msg (set (listeners m t)) m l = Some c \<and> \<not> closed c \<and> (\<forall>x\<in>set (buf c). ty x = u)"
    if l: "l \<in> set (listeners m u)" for l u
  proof -
    from wf_managerD(4) [OF wf l] obtain c where
      "chans m l = Some c" "\<not> closed c" "\<forall>x\<in>set (buf c). ty x = u" by blast
    moreover have "u = t" if "l \<in> set (listeners m t)"
      using that l wf_managerD(3) [OF wf, of u t] by auto
    ultimately show ?thesis using ty by (auto simp: appended_def)
  qed
  show "l < next_chan m \<and> length (buf c) \<le> cap c"
    if "appended msg (set (listeners m t)) m l = Some c" for l c
    using that wf_managerD(5) [OF wf] by (fastforce simp: appended_def stuck_def split: if_splits)
qed

theorem SendToListeners_spec:
  assumes wf: "wf_manager ty m" and ty: "ty msg = t"
  defines "S \<equiv> filter (stuck m) (listeners m t)"
  shows "length S > markedCapacity \<Longrightarrow> SendToListeners_reg t msg m = Deadlock"
    and "length S \<le> markedCapacity \<Longrightarrow> \<exists>m'. SendToListeners_reg t msg m = Sent m' \<and>
       wf_manager ty m' \<and> next_chan m' = next_chan m \<and>
       (\<forall>u. set (listeners m' u) =
          (if u = t then set (listeners m t) - set S else set (listeners m u))) \<and>
       (\<forall>k. k \<notin> set S \<longrightarrow> chans m' k = appended msg (set (listeners m t)) m k) \<and>
       (S = [] \<longrightarrow> listeners m' = listeners m)"
proof -
  let ?m = "m\<lparr>chans := appended msg (set (listeners m t)) m\<rparr>"
  show "SendToListeners_reg t msg m = Deadlock" if "length S > markedCapacity"
  proof -
    from that have "listeners m t \<noteq> []" by (auto simp: S_def)
    then obtain ls where ls: "managedChannels m t = Some ls" "listeners m t = ls"
      by (auto simp: listeners_def split: option.splits)
    have "offer_all msg ls m = Some (filter (stuck m) ls, m\<lparr>chans := appended msg (set ls) m\<rparr>)"
      using wf_managerD(2) [OF wf, of t] wf_managerD(4) [OF wf, of _ t] ls
      by (intro offer_all_eq) auto
    with ls that show ?thesis by (simp add: SendToListeners_reg_def S_def)
  qed
  show "\<exists>m'. SendToListeners_reg t msg m = Sent m' \<and>
       wf_manager ty m' \<and> next_chan m' = next_chan m \<and>
       (\<forall>u. set (listeners m' u) =
          (if u = t then set (listeners m t) - set S else set (listeners m u))) \<and>
       (\<forall>k. k \<notin> set S \<longrightarrow> chans m' k = appended msg (set (listeners m t)) m k) \<and>
       (S = [] \<longrightarrow> listeners m' = listeners m)"
    if small: "length S \<le> markedCapacity"
  proof (cases "managedChannels m t")
    case None
    then have "listeners m t = []" by (simp add: listeners_def)
    then show ?thesis using None wf
      by (simp add: SendToListeners_reg_def S_def appended_def)
  next
    case (Some ls)
    then have ls: "listeners m t = ls" by (simp add: listeners_def)
    have "offer_all msg ls m = Some (filter (stuck m) ls, m\<lparr>chans := appended msg (set ls) m\<rparr>)"
      using wf_managerD(2) [OF wf, of t] wf_managerD(4) [OF wf, of _ t] ls
      by (intro offer_all_eq) auto
    then have offer: "offer_all msg ls m = Some (S, ?m)" by (simp add: S_def ls)
    note spec = delete_all_spec [OF appended_wf [OF wf ty], of S t]
    from spec obtain m' where m': "delete_all S t ?m = Some m'" "wf_manager ty m'"
      "\<forall>u. set (listeners m' u) =
         (if u = t then set (listeners ?m t) - set S else set (listeners ?m u))"
      "\<forall>k. k \<notin> set S \<longrightarrow> chans m' k = chans ?m k"
      "next_chan m' = next_chan ?m" "S = [] \<longrightarrow> m' = ?m"
      by (elim exE conjE)
    have "SendToListeners_reg t msg m = Sent m'"
      using small by (simp add: SendToListeners_reg_def Some offer m'(1))
    moreover have "S = [] \<longrightarrow> listeners m' = listeners m" using m'(6) by simp
    moreover have "\<forall>u. set (listeners m' u) =
         (if u = t then set (listeners m t) - set S else set (listeners m u))"
      using m'(3) by simp
    moreover have "\<forall>k. k \<notin> set S \<longrightarrow> chans m' k = appended msg (set (listeners m t)) m k"
      using m'(4) by simp
    moreover have "next_chan m' = next_chan m" using m'(5) by simp
    ultimately show ?thesis using m'(2) by blast
  qed
qed

subsection \<open>Receiving\<close>

lemma receive_cases:
  assumes wf: "wf_manager ty m" and l: "l \<in> set (listeners m t)"
  obtains c x rest where "chans m l = Some c" "buf c = x # rest" "ty x = t"
      "receive_reg l m = (Received x, m\<lparr>chans := (chans m)(l \<mapsto> c\<lparr>buf := rest\<rparr>)\<rparr>)"
  | c where "chans m l = Some c" "buf c = []" "receive_reg l m = (WouldBlock, m)"
proof -
  from wf_managerD(4) [OF wf l] obtain c where
    c: "chans m l = Some c" "\<not> closed c" "\<forall>x\<in>set (buf c). ty x = t" by blast
  show ?thesis
  proof (cases "buf c")
    case Nil
    with c that(2) show ?thesis by (simp add: receive_reg_def)
  next
    case (Cons x rest)
    with c that(1) show ?thesis by (simp add: receive_reg_def)
  qed
qed

lemma receive_listeners: "receive_reg l m = (r, m') \<Longrightarrow> listeners m' = listeners m"
  by (auto simp: receive_reg_def split: option.splits list.splits)

lemma receive_next: "receive_reg l m = (r, m') \<Longrightarrow> next_chan m' = next_chan m"
  by (auto simp: receive_reg_def split: option.splits list.splits)

lemma receive_wf:
  assumes wf: "wf_manager ty m" and eq: "receive_reg l m = (r, m')"
  shows "wf_manager ty m'"
proof (rule wf_managerI)
  have managed: "managedChannels m' = managedChannels m"
    using eq by (auto simp: receive_reg_def split: option.splits list.splits)
  show "managedChannels m' u \<noteq> Some []" "distinct (listeners m' u)" for u
    using wf_managerD(1,2) [OF wf] by (simp_all add: managed receive_listeners [OF eq])
  show "set (listeners m' u) \<inter> set (listeners m' v) = {}" if "u \<noteq> v" for u v
    using wf_managerD(3) [OF wf that] by (simp add: receive_listeners [OF eq])
  show "\<exists>c. chans m' k = Some c \<and> \<not> closed c \<and> (\<forall>x\<in>set (buf c). ty x = u)"
    if "k \<in> set (listeners m' u)" for k u
  proof -
    from that have "k \<in> set (listeners m u)" by (simp add: receive_listeners [OF eq])
    from wf_managerD(4) [OF wf this] obtain c where
      "chans m k = Some c" "\<not> closed c" "\<forall>x\<in>set (buf c). ty x = u" by blast
    then show ?thesis using eq by (auto simp: receive_reg_def split: option.splits list.splits)
  qed
  show "k < next_chan m' \<and> length (buf d) \<le> cap d" if d: "chans m' k = Some d" for k d
  proof (cases "k = l")
    case False
    then have "chans m' k = chans m k"
      using eq by (auto simp: receive_reg_def split: option.splits list.splits)
    with d wf_managerD(5) [OF wf] show ?thesis by (simp add: receive_next [OF eq])
  next
    case True
    with d eq obtain c where "chans m k = Some c" "cap d = cap c" "length (buf d) \<le> length (buf c)"
      by (auto simp: receive_reg_def split: option.splits list.splits)
    with wf_managerD(5) [OF wf, of k c] show ?thesis by (simp add: receive_next [OF eq])
  qed
qed

lemma SendToListeners_sent:
  assumes "wf_manager ty m" "SendToListeners_reg (ty x) x m = Sent m'"
  shows "wf_manager ty m'" and "set (listeners m' u) \<subseteq> set (listeners m u)"
    and "next_chan m' = next_chan m"
  using SendToListeners_spec [OF assms(1) refl, of x] assms(2)
  by (cases "length (filter (stuck m) (listeners m (ty x))) \<le> markedCapacity"; auto)+

lemma SendToListeners_safe:
  "wf_manager ty m \<Longrightarrow> SendToListeners_reg (ty x) x m \<noteq> SendPanic"
  using SendToListeners_spec [of ty m x, OF _ refl]
  by (cases "length (filter (stuck m) (listeners m (ty x))) \<le> markedCapacity") auto

subsection \<open>What a channel can hold\<close>

text \<open>
  A channel made under a tag stays typed after it was removed: its buffer only shrinks. So the
  messages left in a closed channel are still of the channel's tag.
\<close>

definition buf_of :: "('t, 'm) manager \<Rightarrow> nat \<Rightarrow> 'm list" where
  "buf_of m k = (case chans m k of None \<Rightarrow> [] | Some c \<Rightarrow> buf c)"

definition typed_chan :: "('m \<Rightarrow> 't) \<Rightarrow> 't \<Rightarrow> nat \<Rightarrow> ('t, 'm) manager \<Rightarrow> bool" where
  "typed_chan ty t c m \<longleftrightarrow> c < next_chan m \<and> (\<forall>x \<in> set (buf_of m c). ty x = t) \<and>
     (\<forall>u. u \<noteq> t \<longrightarrow> c \<notin> set (listeners m u))"

lemma delete_buf:
  assumes "wf_manager ty m" "deleteListenerUnsafe_reg l t m = Some m'"
  shows "set (buf_of m' k) \<subseteq> set (buf_of m k)"
proof (cases "k = l \<and> l \<in> set (listeners m t)")
  case True
  then obtain c where c: "chans m l = Some c" using wf_managerD(4) [OF assms(1)] by blast
  with True delete_chans(3) [OF assms, of c] show ?thesis
    by (cases "buf c") (auto simp: buf_of_def)
next
  case False
  then have "chans m' k = chans m k"
    using assms delete_chans(1) [OF assms, of k] by (cases "k = l") (auto simp: delete_absent)
  then show ?thesis by (simp add: buf_of_def)
qed

lemma delete_all_buf:
  "wf_manager ty m \<Longrightarrow> delete_all ls t m = Some m' \<Longrightarrow> set (buf_of m' k) \<subseteq> set (buf_of m k)"
proof (induction ls arbitrary: m)
  case Nil
  then show ?case by simp
next
  case (Cons l ls)
  from Cons.prems(2) obtain m1 where "deleteListenerUnsafe_reg l t m = Some m1"
    "delete_all ls t m1 = Some m'" by (auto split: option.splits)
  with Cons delete_buf [of ty m l t m1 k] delete_wf [of ty m l t m1] show ?case by blast
qed

lemma appended_buf:
  "set (buf_of (m\<lparr>chans := appended msg ls m\<rparr>) k) \<subseteq>
     set (buf_of m k) \<union> (if k \<in> ls then {msg} else {})"
  by (cases "chans m k") (auto simp: buf_of_def appended_def)

lemma SendToListeners_buf:
  assumes wf: "wf_manager ty m" and sent: "SendToListeners_reg (ty x) x m = Sent m'"
  shows "set (buf_of m' k) \<subseteq> set (buf_of m k) \<union> (if k \<in> set (listeners m (ty x)) then {x} else {})"
proof (cases "managedChannels m (ty x)")
  case None
  with sent show ?thesis by (simp add: SendToListeners_reg_def)
next
  case (Some ls)
  then have ls: "listeners m (ty x) = ls" by (simp add: listeners_def)
  let ?m = "m\<lparr>chans := appended x (set ls) m\<rparr>"
  have "offer_all x ls m = Some (filter (stuck m) ls, ?m)"
    using wf_managerD(2) [OF wf, of "ty x"] wf_managerD(4) [OF wf, of _ "ty x"] ls
    by (intro offer_all_eq) auto
  with sent Some have "delete_all (filter (stuck m) ls) (ty x) ?m = Some m'"
    by (auto simp: SendToListeners_reg_def split: if_splits option.splits)
  moreover have "wf_manager ty ?m" using appended_wf [OF wf refl] ls by metis
  ultimately have "set (buf_of m' k) \<subseteq> set (buf_of ?m k)" by (rule delete_all_buf [rotated])
  also have "\<dots> \<subseteq> set (buf_of m k) \<union> (if k \<in> set ls then {x} else {})"
    by (rule appended_buf)
  finally show ?thesis by (simp add: ls)
qed

lemma receive_buf:
  assumes "receive_reg l m = (r, m')"
  shows "set (buf_of m' k) \<subseteq> set (buf_of m k)" and "r = Received x \<Longrightarrow> x \<in> set (buf_of m l)"
proof -
  have "set (buf_of m' k) \<subseteq> set (buf_of m k) \<and> (r = Received x \<longrightarrow> x \<in> set (buf_of m l))"
  proof (cases "chans m l")
    case None
    with assms show ?thesis by (auto simp: receive_reg_def)
  next
    case (Some c)
    with assms show ?thesis
      by (cases "buf c") (auto simp: receive_reg_def buf_of_def split: if_splits)
  qed
  then show "set (buf_of m' k) \<subseteq> set (buf_of m k)" and "r = Received x \<Longrightarrow> x \<in> set (buf_of m l)"
    by blast+
qed

lemma create_buf:
  "CreateChannel_reg t n m = (c, m') \<Longrightarrow> buf_of m' k = (if k = c then [] else buf_of m k)"
  by (auto simp: CreateChannel_reg_def Let_def buf_of_def)

lemma create_next: "CreateChannel_reg t n m = (c, m') \<Longrightarrow> c = next_chan m \<and> next_chan m' = Suc c"
  by (auto simp: CreateChannel_reg_def Let_def)

lemma typed_chan_create:
  assumes "wf_manager ty m" "CreateChannel_reg t n m = (c, m')"
  shows "typed_chan ty t c m'" and "typed_chan ty u d m \<Longrightarrow> typed_chan ty u d m'"
  using CreateChannel_fresh [OF assms] CreateChannel_listeners [OF assms(2)] create_buf [OF assms(2)]
    create_next [OF assms(2)]
  by (auto simp: typed_chan_def)

lemma typed_chan_delete:
  assumes "wf_manager ty m" "deleteListenerUnsafe_reg l t m = Some m'" "typed_chan ty u d m"
  shows "typed_chan ty u d m'"
  using assms(3) delete_buf [OF assms(1,2), of d] delete_listeners_set [OF assms(1,2)]
    delete_chans(2) [OF assms(1,2)]
  by (auto simp: typed_chan_def split: if_splits)

lemma typed_chan_receive:
  assumes "receive_reg l m = (r, m')" "typed_chan ty u d m"
  shows "typed_chan ty u d m'"
  using assms(2) receive_buf(1) [OF assms(1), of d] receive_listeners [OF assms(1)]
    receive_next [OF assms(1)]
  by (auto simp: typed_chan_def)

lemma typed_chan_send:
  assumes "wf_manager ty m" "SendToListeners_reg (ty x) x m = Sent m'" "typed_chan ty u d m"
  shows "typed_chan ty u d m'"
proof -
  from assms(3) have "d \<in> set (listeners m (ty x)) \<Longrightarrow> ty x = u" by (auto simp: typed_chan_def)
  then show ?thesis
    using assms(3) SendToListeners_buf [OF assms(1,2), of d] SendToListeners_sent [OF assms(1,2)]
    by (fastforce simp: typed_chan_def split: if_splits)
qed

section \<open>The interface the RPC handlers rely on\<close>

text \<open>
  A registry with fresh channels, registered last, whose removal is total and exact. The
  client's pattern is: create a channel, let any messages be delivered, remove it.
\<close>

locale listener_registry =
  fixes listening :: "'s \<Rightarrow> 't \<Rightarrow> nat list"
    and create :: "'t \<Rightarrow> nat \<Rightarrow> 's \<Rightarrow> nat \<times> 's"
    and remove :: "nat \<Rightarrow> 't \<Rightarrow> 's \<Rightarrow> 's option"
    and good :: "'s \<Rightarrow> bool"
  assumes create_good: "good s \<Longrightarrow> create t n s = (c, s') \<Longrightarrow> good s'"
    and create_fresh: "good s \<Longrightarrow> create t n s = (c, s') \<Longrightarrow> c \<notin> set (listening s u)"
    and create_listening: "create t n s = (c, s') \<Longrightarrow>
          listening s' u = (if u = t then listening s t @ [c] else listening s u)"
    and remove_defined: "good s \<Longrightarrow> \<exists>s'. remove c t s = Some s'"
    and remove_good: "good s \<Longrightarrow> remove c t s = Some s' \<Longrightarrow> good s'"
    and remove_set: "good s \<Longrightarrow> remove c t s = Some s' \<Longrightarrow>
          set (listening s' u) = (if u = t then set (listening s t) - {c} else set (listening s u))"
    and remove_last: "good s \<Longrightarrow> remove c t s = Some s' \<Longrightarrow> listening s t = ls @ [c] \<Longrightarrow>
          listening s' u = (if u = t then ls else listening s u)"
begin

lemma create_remove_restores:
  assumes "good s" "create t n s = (c, s1)" "remove c t s1 = Some s2"
  shows "listening s2 = listening s"
  using remove_last [OF create_good [OF assms(1,2)] assms(3)] create_listening [OF assms(2)]
  by (auto simp: fun_eq_iff)

lemma remove_twice:
  assumes "good s" "remove c t s = Some s1" "remove c t s1 = Some s2"
  shows "set (listening s2 u) = set (listening s1 u)"
  using remove_set [OF assms(1,2)] remove_set [OF remove_good [OF assms(1,2)] assms(3)] by auto

end

text \<open>A registry through which messages are delivered under their tags.\<close>

locale message_registry = listener_registry listening create remove good
  for listening :: "'s \<Rightarrow> 't \<Rightarrow> nat list"
    and create :: "'t \<Rightarrow> nat \<Rightarrow> 's \<Rightarrow> nat \<times> 's"
    and remove :: "nat \<Rightarrow> 't \<Rightarrow> 's \<Rightarrow> 's option"
    and good :: "'s \<Rightarrow> bool" +
  fixes dispatch :: "'t \<Rightarrow> 'm \<Rightarrow> 's \<Rightarrow> 's send_result"
    and tag_of :: "'m \<Rightarrow> 't"
  assumes dispatch_safe: "good s \<Longrightarrow> dispatch (tag_of x) x s \<noteq> SendPanic"
    and dispatch_good: "good s \<Longrightarrow> dispatch (tag_of x) x s = Sent s' \<Longrightarrow> good s'"
    and dispatch_set: "good s \<Longrightarrow> dispatch (tag_of x) x s = Sent s' \<Longrightarrow>
          set (listening s' u) \<subseteq> set (listening s u)"
begin

text \<open>Deliveries until the list ends or one of them deadlocks.\<close>

fun dispatches :: "'m list \<Rightarrow> 's \<Rightarrow> 's send_result" where
  "dispatches [] s = Sent s"
| "dispatches (x # xs) s = (case dispatch (tag_of x) x s of
      Sent s' \<Rightarrow> dispatches xs s' | Deadlock \<Rightarrow> Deadlock | SendPanic \<Rightarrow> SendPanic)"

lemma dispatches_good:
  "good s \<Longrightarrow> dispatches xs s = Sent s' \<Longrightarrow>
     good s' \<and> (\<forall>u. set (listening s' u) \<subseteq> set (listening s u))"
proof (induction xs arbitrary: s)
  case Nil
  then show ?case by simp
next
  case (Cons x xs)
  from Cons.prems(2) obtain s1 where "dispatch (tag_of x) x s = Sent s1" "dispatches xs s1 = Sent s'"
    by (auto split: send_result.splits)
  with Cons dispatch_good dispatch_set show ?case by (meson subset_trans)
qed

lemma dispatches_safe: "good s \<Longrightarrow> dispatches xs s \<noteq> SendPanic"
proof (induction xs arbitrary: s)
  case (Cons x xs)
  then show ?case using dispatch_safe dispatch_good by (auto split: send_result.splits)
qed simp

text \<open>A whole session: whatever is delivered meanwhile, no channel of the session stays behind.\<close>

lemma session_leaves_nothing:
  assumes "good s" "create t n s = (c, s1)" "dispatches xs s1 = Sent s2" "remove c t s2 = Some s3"
  shows "good s3" and "set (listening s3 u) \<subseteq> set (listening s u)"
proof -
  from create_good [OF assms(1,2)] have "good s1" .
  with dispatches_good assms(3) have s2: "good s2" "set (listening s2 u) \<subseteq> set (listening s1 u)"
    by blast+
  with remove_good assms(4) show "good s3" by blast
  from s2 show "set (listening s3 u) \<subseteq> set (listening s u)"
    using remove_set [OF s2(1) assms(4), of u] create_listening [OF assms(2), of u]
    by (auto split: if_splits)
qed

end

interpretation reg: message_registry listeners CreateChannel_reg deleteListenerUnsafe_reg
    "wf_manager ty" SendToListeners_reg ty for ty :: "'m \<Rightarrow> 't"
proof unfold_locales
  fix m m' m'' :: "('t, 'm) manager" and t u :: 't and c n :: nat and ls :: "nat list" and x :: 'm
  show "wf_manager ty m \<Longrightarrow> CreateChannel_reg t n m = (c, m') \<Longrightarrow> wf_manager ty m'"
    by (rule CreateChannel_wf)
  show "wf_manager ty m \<Longrightarrow> CreateChannel_reg t n m = (c, m') \<Longrightarrow> c \<notin> set (listeners m u)"
    by (rule CreateChannel_fresh)
  show "CreateChannel_reg t n m = (c, m') \<Longrightarrow>
      listeners m' u = (if u = t then listeners m t @ [c] else listeners m u)"
    by (rule CreateChannel_listeners)
  show "wf_manager ty m \<Longrightarrow> \<exists>m'. deleteListenerUnsafe_reg c t m = Some m'"
    by (rule delete_total)
  show "wf_manager ty m \<Longrightarrow> deleteListenerUnsafe_reg c t m = Some m' \<Longrightarrow> wf_manager ty m'"
    by (rule delete_wf)
  show "wf_manager ty m \<Longrightarrow> deleteListenerUnsafe_reg c t m = Some m' \<Longrightarrow>
      set (listeners m' u) = (if u = t then set (listeners m t) - {c} else set (listeners m u))"
    by (rule delete_listeners_set)
  show "wf_manager ty m \<Longrightarrow> deleteListenerUnsafe_reg c t m = Some m' \<Longrightarrow> listeners m t = ls @ [c] \<Longrightarrow>
      listeners m' u = (if u = t then ls else listeners m u)"
    by (rule delete_last_listeners)
  show "wf_manager ty m \<Longrightarrow> SendToListeners_reg (ty x) x m \<noteq> SendPanic"
    by (rule SendToListeners_safe)
  show "wf_manager ty m \<Longrightarrow> SendToListeners_reg (ty x) x m = Sent m' \<Longrightarrow> wf_manager ty m'"
    by (rule SendToListeners_sent(1))
  show "wf_manager ty m \<Longrightarrow> SendToListeners_reg (ty x) x m = Sent m' \<Longrightarrow>
      set (listeners m' u) \<subseteq> set (listeners m u)"
    by (rule SendToListeners_sent(2))
qed

end
