(* ===== verification/Registry_Steps.thy ===== *)
theory Registry_Steps
  imports Listeners
begin

text \<open>
  The registry under any sequence of its operations, as the handlers and the manager's loop
  interleave them (each holds the lock while it runs), and the two halves of
  \<open>CreateUniqueChannel\<close>, between which the lock is free.
\<close>

section \<open>Sequences of operations\<close>

datatype ('t, 'm) registry_op = Create 't nat | Remove nat 't | Send 'm | Receive nat

inductive registry_step ::
    "('m \<Rightarrow> 't) \<Rightarrow> ('t, 'm) manager \<Rightarrow> ('t, 'm) registry_op \<Rightarrow> ('t, 'm) manager \<Rightarrow> bool" for ty where
  create: "CreateChannel_reg t n m = (c, m') \<Longrightarrow> registry_step ty m (Create t n) m'"
| remove: "deleteListenerUnsafe_reg c t m = Some m' \<Longrightarrow> registry_step ty m (Remove c t) m'"
| send: "SendToListeners_reg (ty x) x m = Sent m' \<Longrightarrow> registry_step ty m (Send x) m'"
| receive: "receive_reg c m = (r, m') \<Longrightarrow> registry_step ty m (Receive c) m'"

inductive reachable :: "('m \<Rightarrow> 't) \<Rightarrow> ('t, 'm) manager \<Rightarrow> bool" for ty where
  start: "reachable ty empty_manager"
| step: "reachable ty m \<Longrightarrow> registry_step ty m op m' \<Longrightarrow> reachable ty m'"

inductive_cases registry_stepE: "registry_step ty m op m'"

lemma step_wf: "registry_step ty m op m' \<Longrightarrow> wf_manager ty m \<Longrightarrow> wf_manager ty m'"
  by (erule registry_stepE)
    (blast intro: CreateChannel_wf delete_wf SendToListeners_sent(1) receive_wf)+

lemma reachable_wf: "reachable ty m \<Longrightarrow> wf_manager ty m"
  by (induction rule: reachable.induct) (auto intro: step_wf)

section \<open>Creating the only channel\<close>

text \<open>
  What a call of \<open>CreateUniqueChannel\<close> has done so far: nothing, found no listener, created its
  channel, or given up.
\<close>

datatype caller = Idle | Checked | Holds nat | Refused

record ('t, 'm) contest =
  registry :: "('t, 'm) manager"
  callers :: "nat \<Rightarrow> caller"

inductive unique_step :: "'t \<Rightarrow> ('t, 'm) contest \<Rightarrow> ('t, 'm) contest \<Rightarrow> bool" for t where
  check_free: "callers s i = Idle \<Longrightarrow> managedChannels (registry s) t = None \<Longrightarrow>
    unique_step t s (s\<lparr>callers := (callers s)(i := Checked)\<rparr>)"
| check_busy: "callers s i = Idle \<Longrightarrow> managedChannels (registry s) t \<noteq> None \<Longrightarrow>
    unique_step t s (s\<lparr>callers := (callers s)(i := Refused)\<rparr>)"
| create: "callers s i = Checked \<Longrightarrow> CreateChannel_reg t 1 (registry s) = (c, m') \<Longrightarrow>
    unique_step t s \<lparr>registry = m', callers = (callers s)(i := Holds c)\<rparr>"
| remove: "callers s i = Holds c \<Longrightarrow> deleteListenerUnsafe_reg c t (registry s) = Some m' \<Longrightarrow>
    unique_step t s \<lparr>registry = m', callers = (callers s)(i := Idle)\<rparr>"

text \<open>The same without the gap: the test and the creation are one step.\<close>

inductive atomic_step :: "'t \<Rightarrow> ('t, 'm) contest \<Rightarrow> ('t, 'm) contest \<Rightarrow> bool" for t where
  refuse: "callers s i = Idle \<Longrightarrow> managedChannels (registry s) t \<noteq> None \<Longrightarrow>
    atomic_step t s (s\<lparr>callers := (callers s)(i := Refused)\<rparr>)"
| take: "callers s i = Idle \<Longrightarrow> managedChannels (registry s) t = None \<Longrightarrow>
    CreateChannel_reg t 1 (registry s) = (c, m') \<Longrightarrow>
    atomic_step t s \<lparr>registry = m', callers = (callers s)(i := Holds c)\<rparr>"
| give_back: "callers s i = Holds c \<Longrightarrow> deleteListenerUnsafe_reg c t (registry s) = Some m' \<Longrightarrow>
    atomic_step t s \<lparr>registry = m', callers = (callers s)(i := Idle)\<rparr>"

definition contest_start :: "('t, 'm) contest" where
  "contest_start = \<lparr>registry = empty_manager, callers = (\<lambda>_. Idle)\<rparr>"

definition only_holder :: "('m \<Rightarrow> 't) \<Rightarrow> 't \<Rightarrow> ('t, 'm) contest \<Rightarrow> bool" where
  "only_holder ty t s \<longleftrightarrow> wf_manager ty (registry s) \<and>
     (listeners (registry s) t = [] \<and> (\<forall>i c. callers s i \<noteq> Holds c) \<or>
      (\<exists>i c. listeners (registry s) t = [c] \<and> callers s i = Holds c \<and>
         (\<forall>j d. callers s j = Holds d \<longrightarrow> j = i)))"

lemma only_holder_step:
  assumes "atomic_step t s s'" "only_holder ty t s"
  shows "only_holder ty t s'"
  using assms(1)
proof cases
  case (refuse i)
  then show ?thesis using assms(2)
    by (auto simp: only_holder_def) (metis caller.distinct(3))+
next
  case (take i c m')
  have wf: "wf_manager ty (registry s)" using assms(2) by (simp add: only_holder_def)
  have free: "listeners (registry s) t = []" using take by (simp add: listeners_def)
  then have "\<And>j d. callers s j \<noteq> Holds d" using assms(2) by (auto simp: only_holder_def)
  then show ?thesis
    using take free CreateChannel_wf [OF wf take(4)] CreateChannel_listeners [OF take(4), of t]
    by (auto simp: only_holder_def)
next
  case (give_back i c m')
  have wf: "wf_manager ty (registry s)" using assms(2) by (simp add: only_holder_def)
  have none: "\<not> (\<forall>i c. callers s i \<noteq> Holds c)" using give_back(2) by blast
  from assms(2) have "(listeners (registry s) t = [] \<and> (\<forall>i c. callers s i \<noteq> Holds c)) \<or>
      (\<exists>k d. listeners (registry s) t = [d] \<and> callers s k = Holds d \<and>
         (\<forall>j e. callers s j = Holds e \<longrightarrow> j = k))" unfolding only_holder_def by (rule conjunct2)
  with none have "\<exists>k d. listeners (registry s) t = [d] \<and> callers s k = Holds d \<and>
      (\<forall>j e. callers s j = Holds e \<longrightarrow> j = k)" by (elim disjE) (erule conjE, erule notE, assumption)
  then obtain k d where kd: "listeners (registry s) t = [d]" "callers s k = Holds d"
    and holders: "\<forall>j e. callers s j = Holds e \<longrightarrow> j = k" by (elim exE conjE)
  have ik: "i = k" using holders [THEN spec, of i, THEN spec, of c] give_back(2) by (rule mp)
  have one: "listeners (registry s) t = [c]" using kd give_back(2) by (simp add: ik)
  have only: "j = i" if "callers s j = Holds e" for j e
    using holders [THEN spec, of j, THEN spec, of e] that unfolding ik by (rule mp)
  have "listeners m' t = []" using delete_last_listeners [OF wf give_back(3), of "[]" t] one by simp
  then show ?thesis
    using delete_wf [OF wf give_back(3)] only unfolding give_back(1) only_holder_def
    by (auto split: if_splits)
qed

section \<open>Properties\<close>



text \<open>
  The test and the creation of \<open>CreateUniqueChannel\<close> are apart: two callers can both find no
  listener and then both hold a channel under the same tag.
\<close>

theorem unique_channel_race:
  "\<exists>(s :: ('t, 'm) contest) c d. (unique_step t)\<^sup>*\<^sup>* contest_start s \<and> callers s 0 = Holds c \<and> callers s 1 = Holds d \<and>
     c \<noteq> d \<and> listeners (registry s) t = [c, d]"
proof -
  let ?start = "contest_start :: ('t, 'm) contest"
  let ?one = "?start\<lparr>callers := (callers ?start)(0 := Checked)\<rparr>"
  let ?two = "?one\<lparr>callers := (callers ?one)(1 := Checked)\<rparr>"
  obtain c m1 where cm: "CreateChannel_reg t 1 (registry ?two) = (c, m1)" by fastforce
  let ?three = "\<lparr>registry = m1, callers = (callers ?two)(0 := Holds c)\<rparr>"
  obtain d m2 where dm: "CreateChannel_reg t 1 (registry ?three) = (d, m2)" by fastforce
  let ?four = "\<lparr>registry = m2, callers = (callers ?three)(1 := Holds d)\<rparr>"
  have free: "managedChannels (registry ?start) t = None" by (simp add: contest_start_def empty_manager_def)
  have "unique_step t ?start ?one"
    by (rule unique_step.check_free [OF _ free]) (simp add: contest_start_def)
  moreover have "unique_step t ?one ?two"
    by (rule unique_step.check_free) (use free in \<open>simp_all add: contest_start_def\<close>)
  moreover have "unique_step t ?two ?three" by (rule unique_step.create [OF _ cm]) simp
  moreover have "unique_step t ?three ?four" by (rule unique_step.create [OF _ dm]) simp
  ultimately have "(unique_step t)\<^sup>*\<^sup>* ?start ?four" by (rule four_steps)
  moreover have "listeners (registry ?four) t = [c, d]" "c \<noteq> d"
    using CreateChannel_listeners [OF cm, of t] CreateChannel_listeners [OF dm, of t]
      create_next [OF cm] create_next [OF dm]
    by (simp_all add: contest_start_def)
  ultimately show ?thesis by (intro exI [of _ ?four] exI [of _ c] exI [of _ d]) simp
qed

text \<open>
  Were the test and the creation one step, at most one caller would hold a channel, and its
  channel would be the tag's only listener.
\<close>

theorem atomic_unique_channel:
  assumes "(atomic_step t)\<^sup>*\<^sup>* contest_start s" "callers s i = Holds c" "callers s j = Holds d"
  shows "i = j \<and> c = d \<and> listeners (registry s) t = [c]"
proof -
  have start: "only_holder (\<lambda>_. t) t contest_start"
    by (simp add: only_holder_def contest_start_def)
  have "only_holder (\<lambda>_. t) t s"
    using assms(1) by (induction rule: rtranclp_induct) (auto intro: start only_holder_step)
  with assms(2,3) show ?thesis unfolding only_holder_def by (elim conjE disjE exE) (auto, metis caller.inject)
qed

theorem atomic_unique_channel_witness:
  "\<exists>s :: (bool, nat) contest. callers s 3 = Holds 0 \<and> listeners (registry s) True = [0]"
proof -
  let ?start = "contest_start :: (bool, nat) contest"
  obtain m where cm: "CreateChannel_reg True 1 (registry ?start) = (0, m)"
    by (simp add: CreateChannel_reg_def Let_def contest_start_def empty_manager_def)
  let ?u = "\<lparr>registry = m, callers = (callers ?start)(3 := Holds 0)\<rparr>"
  have "atomic_step True ?start ?u"
    by (rule atomic_step.take [OF _ _ cm]) (simp_all add: contest_start_def empty_manager_def)
  then have "listeners (registry ?u) True = [0]"
    using atomic_unique_channel [of True ?u 3 0 3 0] by auto
  then show ?thesis by (intro exI [of _ ?u]) simp
qed


text \<open>In the example six handlers listen whose channels have no room.\<close>

primrec crowd :: "nat \<Rightarrow> (bool, nat) manager" where
  "crowd 0 = empty_manager"
| "crowd (Suc n) = snd (CreateChannel_reg True 0 (crowd n))"

lemma crowd_wf: "wf_manager (\<lambda>_. True) (crowd n)"
proof (induction n)
  case (Suc n)
  obtain c m where "CreateChannel_reg True 0 (crowd n) = (c, m)" by fastforce
  with CreateChannel_wf [OF Suc this] show ?case by simp
qed simp


text \<open>
  Otherwise a delivery appends the message to every channel of its tag that has room, removes
  and closes those that have none, touches no other channel, and keeps the registry well formed.
\<close>

theorem SendToListeners_delivers:
  assumes wf: "wf_manager ty m" and room: "length (filter (stuck m) (listeners m (ty x))) \<le> 5"
  shows "\<exists>m'. SendToListeners_reg (ty x) x m = Sent m' \<and> wf_manager ty m' \<and>
    (\<forall>u. set (listeners m' u) = {c \<in> set (listeners m u). u = ty x \<longrightarrow> \<not> stuck m c}) \<and>
    (\<forall>c \<in> set (listeners m' (ty x)). buf_of m' c = buf_of m c @ [x]) \<and>
    (\<forall>u c. u \<noteq> ty x \<longrightarrow> c \<in> set (listeners m u) \<longrightarrow> buf_of m' c = buf_of m c)"
proof -
  let ?S = "filter (stuck m) (listeners m (ty x))"
  from SendToListeners_spec(2) [OF wf refl, of x, unfolded markedCapacity_def, OF room]
  obtain m' where m': "SendToListeners_reg (ty x) x m = Sent m'" "wf_manager ty m'"
    "\<forall>u. set (listeners m' u) = (if u = ty x then set (listeners m (ty x)) - set ?S else set (listeners m u))"
    "\<forall>k. k \<notin> set ?S \<longrightarrow> chans m' k = appended x (set (listeners m (ty x))) m k"
    by (elim exE conjE)
  have ls: "\<forall>u. set (listeners m' u) = {c \<in> set (listeners m u). u = ty x \<longrightarrow> \<not> stuck m c}"
    using m'(3) by auto
  have mine: "buf_of m' c = buf_of m c @ [x]" if "c \<in> set (listeners m' (ty x))" for c
  proof -
    from that ls have c: "c \<in> set (listeners m (ty x))" "\<not> stuck m c" by auto
    then have "chans m' c = appended x (set (listeners m (ty x))) m c" using m'(4) by auto
    with c show ?thesis by (cases "chans m c") (auto simp: buf_of_def appended_def stuck_def)
  qed
  have other: "buf_of m' c = buf_of m c" if "u \<noteq> ty x" "c \<in> set (listeners m u)" for u c
  proof -
    have "c \<notin> set (listeners m (ty x))" using wf_managerD(3) [OF wf that(1)] that(2) by auto
    then have "chans m' c = chans m c" using m'(4) by (auto simp: appended_def)
    then show ?thesis by (simp add: buf_of_def)
  qed
  show ?thesis using m'(1,2) ls mine other by blast
qed

theorem SendToListeners_delivers_witness:
  "\<exists>m'. SendToListeners_reg True 7 (crowd 3) = Sent m' \<and> listeners m' True = []"
proof -
  have all: "listeners (crowd 3) True = [0, 1, 2]" "filter (stuck (crowd 3)) [0, 1, 2] = [0, 1, 2]"
    by (simp_all add: eval_nat_numeral CreateChannel_reg_def Let_def listeners_def empty_manager_def stuck_def)
  obtain m' where m': "SendToListeners_reg True 7 (crowd 3) = Sent m'"
    "set (listeners m' True) = {c \<in> set (listeners (crowd 3) True). True = True \<longrightarrow> \<not> stuck (crowd 3) c}"
    using SendToListeners_delivers [OF crowd_wf, of 3 7] all by auto
  have "\<forall>c \<in> set [0, 1, 2]. stuck (crowd 3) c" using all(2) by (simp only: filter_id_conv)
  then have "c \<notin> set (listeners m' True)" for c using m'(2) unfolding all(1) by (metis (lifting) mem_Collect_eq)
  then have "set (listeners m' True) = {}" by (simp add: set_eq_iff)
  then show ?thesis using m'(1) by simp
qed

text \<open>
  A handler's session with the registry, over any deliveries: the channel it created is removed
  and no listener is there that was not there before; without deliveries the listeners are exactly
  as before.
\<close>

theorem session_restores_registry:
  assumes "wf_manager ty m" "CreateChannel_reg t n m = (c, m1)" "reg.dispatches ty xs m1 = Sent m2"
  shows "\<exists>m3. deleteListenerUnsafe_reg c t m2 = Some m3 \<and> wf_manager ty m3 \<and>
    (\<forall>u. set (listeners m3 u) \<subseteq> set (listeners m u)) \<and> (xs = [] \<longrightarrow> listeners m3 = listeners m)"
proof -
  have wf1: "wf_manager ty m1" by (rule CreateChannel_wf [OF assms(1,2)])
  then have "wf_manager ty m2" using reg.dispatches_good assms(3) by blast
  from delete_total [OF this] obtain m3 where m3: "deleteListenerUnsafe_reg c t m2 = Some m3" by blast
  have "listeners m3 = listeners m" if "xs = []"
    using reg.create_remove_restores [OF assms(1,2), of m3] m3 that assms(3) by simp
  then show ?thesis using m3 reg.session_leaves_nothing [OF assms m3] by blast
qed

theorem session_restores_registry_witness:
  "\<exists>m3. deleteListenerUnsafe_reg 0 True (crowd 1) = Some m3 \<and> listeners m3 = listeners (crowd 0)"
proof -
  have "CreateChannel_reg True 0 (crowd 0) = (0, crowd 1)"
    by (simp add: CreateChannel_reg_def Let_def empty_manager_def)
  from session_restores_registry [OF crowd_wf this, of "[]"] show ?thesis by auto
qed

end
