(* ===== verification/Engine_Messages.thy ===== *)
theory Engine_Messages
  imports Go_Prelude
begin

text \<open>
  The messages that cross the gateway: the protobuf messages of
  \<open>internal/proto/external_interface\<close> (wrapped in a \<open>GatewayWrapper\<close>) and the CLAD messages of
  \<open>internal/clad/gateway\<close>. A message whose fields the gateway only passes on keeps them as
  undecoded bytes (\<open>pb\<close>); a message whose fields the gateway reads or computes is a record of
  these fields. Enum values are words of the enum's underlying integer type.
\<close>

section \<open>Protobuf messages\<close>

datatype status_code =
  UNKNOWN | RESPONSE_RECEIVED | REQUEST_PROCESSING | OK | FORBIDDEN | NOT_FOUND
| ERROR_UPDATE_IN_PROGRESS

text \<open>A response message: the \<open>Status\<close> pointer, which the handlers set, and the other fields.\<close>

record response =
  Status :: "status_code option"
  Fields :: pb

text \<open>A request that carries an action tag.\<close>

record action_request =
  IdTag :: int32
  actionFields :: pb

datatype utterance_state =
  UtteranceInvalid | UtteranceGenerating | UtteranceReady | UtterancePlaying | UtteranceFinished

record say_text_response =
  sayStatus :: "status_code option"
  State :: utterance_state
  sayFields :: pb

record photo_path_message =
  Success :: bool
  FullPath :: string

record audio_chunk =
  acRobotTimeStamp :: uint32
  acGroupId :: uint32
  acChunkId :: uint32
  acAudioChunkCount :: uint32
  acSignalPower :: "byte list"
  acRest :: pb

record image_chunk =
  icFrameTimeStamp :: uint32
  icImageId :: uint32
  icWidth :: uint32
  icHeight :: uint32
  icImageEncoding :: int32
  icImageChunkCount :: uint32
  icChunkId :: uint32
  icData :: "byte list"

subsection \<open>Structures shared by events\<close>

record pose_struct =
  poseX :: float32  poseY :: float32  poseZ :: float32
  poseQ0 :: float32  poseQ1 :: float32  poseQ2 :: float32  poseQ3 :: float32
  poseOriginId :: uint32

record clad_rect =
  XTopLeft :: float32
  YTopLeft :: float32
  rectWidth :: float32
  rectHeight :: float32

type_synonym clad_point = "float32 \<times> float32"

record observed_face =
  faceFaceId :: int32
  faceTimestamp :: uint32
  facePose :: pose_struct
  faceImgRect :: clad_rect
  faceName :: string
  faceExpression :: int32
  faceExpressionValues :: "uint32 list"
  faceEyesNoseMouth :: "clad_point list \<times> clad_point list \<times> clad_point list \<times> clad_point list"

record observed_object =
  objTimestamp :: uint32
  objFamily :: int32
  objType :: int32
  objObjectId :: int32
  objImgRect :: clad_rect
  objPose :: pose_struct
  objTopFaceOrientationRad :: float32
  objIsActive :: uint32

datatype update_status =
  NO_UPDATE | READY_TO_REBOOT_INTO_NEW_OS_VERSION | IN_PROGRESS_DOWNLOAD
| FAILURE_INTERRUPTED_DOWNLOAD | IN_PROGRESS_STARTING | IN_PROGRESS_OTHER | FAILURE_OTHER

record check_update_status_response =
  cuStatus :: status_code
  UpdateStatus :: update_status
  Progress :: int
  Expected :: int
  ExitCode :: int
  ErrorText :: string
  UpdatePhase :: string
  UpdateVersion :: string

datatype object_event =
    ObjectAvailable string
  | ObjectConnectionState uint32 string int32 bool  \<comment> \<open>object, factory id, type, connected\<close>
  | ObjectMoved uint32 uint32                       \<comment> \<open>timestamp, object\<close>
  | ObjectStoppedMoving uint32 uint32
  | ObjectUpAxisChanged uint32 uint32 int32
  | ObjectTapped uint32 uint32
  | RobotObservedObject observed_object

datatype event =
    KeepAlive
  | ConnectionResponse bool
  | ObjectEvent object_event
  | RobotObservedFace observed_face
  | RobotChangedObservedFaceId int32 int32
  | CheckUpdateStatusResponse check_update_status_response
  | OtherEvent string pb   \<comment> \<open>any other member of the oneof, with its protobuf field name\<close>

text \<open>The protobuf field name of the member of \<open>Event.event_type\<close> (the struct tags' \<open>name=\<close>).\<close>

fun orig_name :: "event \<Rightarrow> string" where
  "orig_name KeepAlive = ''keep_alive''"
| "orig_name (ConnectionResponse _) = ''connection_response''"
| "orig_name (ObjectEvent _) = ''object_event''"
| "orig_name (RobotObservedFace _) = ''robot_observed_face''"
| "orig_name (RobotChangedObservedFaceId _ _) = ''robot_changed_observed_face_id''"
| "orig_name (CheckUpdateStatusResponse _) = ''check_update_status_response''"
| "orig_name (OtherEvent n _) = n"

subsection \<open>The gateway wrapper\<close>

text \<open>
  The members of the wrapper's oneof. A member whose payload the gateway only passes on is
  \<open>Request\<close> or \<open>Response\<close> with the member's name. \<open>EventMsg None\<close> is a wrapper whose \<open>Event\<close>
  is nil or has no event type.
\<close>

datatype oneof =
    Request string pb
  | ActionRequest string action_request
  | Response string response
  | ControlRelease
  | ControlRequest pb
  | BehaviorControlResponse pb
  | AudioSendModeRequest bool          \<comment> \<open>voice-detect mode, or off\<close>
  | AudioChunk audio_chunk
  | ImageChunk image_chunk
  | SayTextResponse say_text_response
  | PhotoPathMessage photo_path_message
  | ThumbnailPathMessage photo_path_message
  | ListAnimationsResponse "string list"
  | ListAnimationTriggersResponse "string list"
  | ExternalAudioStreamResponse pb
  | EventMsg "event option"

record gateway_wrapper =
  ConnectionId :: uint64
  OneofMessageType :: "oneof option"

text \<open>
  \<open>reflect.TypeOf(m).String()\<close> of a member, the key under which listeners are registered. For a
  wrapper without a member the Go expression panics; \<open>NilType\<close> stands for that case and no
  channel is ever made under it.
\<close>

datatype oneof_type =
    NilType | RequestType string | ResponseType string | ControlReleaseType | ControlRequestType
  | BehaviorControlResponseType | AudioSendModeRequestType | AudioChunkType | ImageChunkType
  | SayTextResponseType | PhotoPathMessageType | ThumbnailPathMessageType
  | ListAnimationsResponseType | ListAnimationTriggersResponseType
  | ExternalAudioStreamResponseType | EventType

fun reflectType :: "oneof \<Rightarrow> oneof_type" where
  "reflectType (Request n _) = RequestType n"
| "reflectType (ActionRequest n _) = RequestType n"
| "reflectType (Response n _) = ResponseType n"
| "reflectType ControlRelease = ControlReleaseType"
| "reflectType (ControlRequest _) = ControlRequestType"
| "reflectType (BehaviorControlResponse _) = BehaviorControlResponseType"
| "reflectType (AudioSendModeRequest _) = AudioSendModeRequestType"
| "reflectType (AudioChunk _) = AudioChunkType"
| "reflectType (ImageChunk _) = ImageChunkType"
| "reflectType (SayTextResponse _) = SayTextResponseType"
| "reflectType (PhotoPathMessage _) = PhotoPathMessageType"
| "reflectType (ThumbnailPathMessage _) = ThumbnailPathMessageType"
| "reflectType (ListAnimationsResponse _) = ListAnimationsResponseType"
| "reflectType (ListAnimationTriggersResponse _) = ListAnimationTriggersResponseType"
| "reflectType (ExternalAudioStreamResponse _) = ExternalAudioStreamResponseType"
| "reflectType (EventMsg _) = EventType"

definition wrapper_type :: "gateway_wrapper \<Rightarrow> oneof_type" where
  "wrapper_type m = (case OneofMessageType m of None \<Rightarrow> NilType | Some x \<Rightarrow> reflectType x)"

text \<open>The generated getters: nil (\<open>None\<close>) unless the wrapper holds that member.\<close>

definition GetResponse :: "string \<Rightarrow> gateway_wrapper \<Rightarrow> response option" where
  "GetResponse n m = (case OneofMessageType m of
      Some (Response n' r) \<Rightarrow> (if n' = n then Some r else None) | _ \<Rightarrow> None)"

definition GetSayTextResponse :: "gateway_wrapper \<Rightarrow> say_text_response option" where
  "GetSayTextResponse m = (case OneofMessageType m of Some (SayTextResponse r) \<Rightarrow> Some r | _ \<Rightarrow> None)"

definition GetPhotoPathMessage :: "gateway_wrapper \<Rightarrow> photo_path_message option" where
  "GetPhotoPathMessage m =
     (case OneofMessageType m of Some (PhotoPathMessage r) \<Rightarrow> Some r | _ \<Rightarrow> None)"

definition GetThumbnailPathMessage :: "gateway_wrapper \<Rightarrow> photo_path_message option" where
  "GetThumbnailPathMessage m =
     (case OneofMessageType m of Some (ThumbnailPathMessage r) \<Rightarrow> Some r | _ \<Rightarrow> None)"

definition GetAnimationNames :: "gateway_wrapper \<Rightarrow> string list option" where
  "GetAnimationNames m =
     (case OneofMessageType m of Some (ListAnimationsResponse r) \<Rightarrow> Some r | _ \<Rightarrow> None)"

definition GetAnimationTriggerNames :: "gateway_wrapper \<Rightarrow> string list option" where
  "GetAnimationTriggerNames m =
     (case OneofMessageType m of Some (ListAnimationTriggersResponse r) \<Rightarrow> Some r | _ \<Rightarrow> None)"

named_theorems getter_defs "the getters of the wrapper's members"

declare GetResponse_def [getter_defs] GetSayTextResponse_def [getter_defs]
  GetPhotoPathMessage_def [getter_defs] GetThumbnailPathMessage_def [getter_defs]
  GetAnimationNames_def [getter_defs] GetAnimationTriggerNames_def [getter_defs]

text \<open>A message that arrived under a member's type has that member: its getter is not nil.\<close>

lemma wrapper_type_getters:
  "wrapper_type m = ResponseType n \<Longrightarrow> \<exists>r. GetResponse n m = Some r"
  "wrapper_type m = SayTextResponseType \<Longrightarrow> \<exists>s. GetSayTextResponse m = Some s"
  "wrapper_type m = PhotoPathMessageType \<Longrightarrow> \<exists>p. GetPhotoPathMessage m = Some p"
  "wrapper_type m = ThumbnailPathMessageType \<Longrightarrow> \<exists>p. GetThumbnailPathMessage m = Some p"
  "wrapper_type m = ListAnimationsResponseType \<Longrightarrow> \<exists>ns. GetAnimationNames m = Some ns"
  "wrapper_type m = ListAnimationTriggersResponseType \<Longrightarrow> \<exists>ns. GetAnimationTriggerNames m = Some ns"
  by (cases "OneofMessageType m"; cases "the (OneofMessageType m)";
      simp add: wrapper_type_def getter_defs)+

end
