(* ===== verification/Clad_Messages.thy ===== *)
theory Clad_Messages
  imports Engine_Messages
begin

text \<open>
  The messages of \<open>internal/clad/gateway\<close>, which the gateway exchanges with the engine: structures as
  records (a structure with one field is this field, some with few fields are tuples), unions as
  datatypes with a constructor for the union that holds nothing.
\<close>

section \<open>CLAD structures\<close>

record smile_amount =
  SmileAmount_WasChecked :: bool
  SmileAmount_Amount :: float32
  SmileAmount_Confidence :: float32

record gaze =
  Gaze_WasChecked :: bool
  Gaze_LeftRightDeg :: float32
  Gaze_UpDownDeg :: float32

record blink_amount =
  BlinkAmount_WasChecked :: bool
  BlinkAmount_BlinkAmountLeft :: float32
  BlinkAmount_BlinkAmountRight :: float32

record pose_struct3d =
  cladX :: float32  cladY :: float32  cladZ :: float32
  cladQ0 :: float32  cladQ1 :: float32  cladQ2 :: float32  cladQ3 :: float32
  cladOriginID :: uint32

record clad_rect_c =
  cXTopLeft :: float32
  cYTopLeft :: float32
  cWidth :: float32
  cHeight :: float32

record clad_observed_face =
  cfFaceID :: int32
  cfTimestamp :: uint32
  cfPose :: pose_struct3d
  cfImgRect :: clad_rect_c
  cfName :: string
  cfExpression :: "8 word"
  cfSmileAmount :: smile_amount
  cfGaze :: gaze
  cfBlinkAmount :: blink_amount
  cfExpressionValues :: "byte list"
  cfLeftEye :: "clad_point list"
  cfRightEye :: "clad_point list"
  cfNose :: "clad_point list"
  cfMouth :: "clad_point list"

record clad_observed_object =
  coTimestamp :: uint32
  coObjectFamily :: int32
  coObjectType :: int32
  coObjectID :: int32
  coImgRect :: clad_rect_c
  coPose :: pose_struct3d
  coTopFaceOrientationRad :: float32
  coIsActive :: "8 word"

record known_face =
  SecondsSinceFirstEnrolled :: uint64
  SecondsSinceLastUpdated :: uint64
  SecondsSinceLastSeen :: uint64
  LastSeenSecondsSinceEpoch :: uint64
  kfFaceID :: int32
  kfName :: string

record map_begin =
  mbOriginId :: uint32
  mbRootDepth :: int32
  mbRootSizeMm :: float32
  mbRootCenterX :: float32
  mbRootCenterY :: float32

record map_quad =
  mqContent :: "8 word"
  mqDepth :: "8 word"
  mqColorRGBA :: uint32

text \<open>\<open>FaceData\<close> is an array of 600 pixels.\<close>

record face_image_chunk =
  FaceData :: "uint16 list"
  NumPixels :: uint16
  ChunkIndex :: "8 word"
  NumChunks :: "8 word"
  DurationMs :: uint32
  InterruptRunning :: bool

record define_custom_box =
  bxCustomType :: int32
  bxMarkerFront :: "16 word"  bxMarkerBack :: "16 word"  bxMarkerTop :: "16 word"
  bxMarkerBottom :: "16 word"  bxMarkerLeft :: "16 word"  bxMarkerRight :: "16 word"
  bxXSizeMm :: float32  bxYSizeMm :: float32  bxZSizeMm :: float32
  bxMarkerWidthMm :: float32  bxMarkerHeightMm :: float32
  bxIsUnique :: bool

record define_custom_cube =
  cbCustomType :: int32
  cbMarker :: "16 word"
  cbSizeMm :: float32
  cbMarkerWidthMm :: float32
  cbMarkerHeightMm :: float32
  cbIsUnique :: bool

record define_custom_wall =
  wlCustomType :: int32
  wlMarker :: "16 word"
  wlWidthMm :: float32
  wlHeightMm :: float32
  wlMarkerWidthMm :: float32
  wlMarkerHeightMm :: float32
  wlIsUnique :: bool

record drive_arc =
  DriveArc_Speed :: float32
  DriveArc_Accel :: float32
  DriveArc_CurvatureRadiusMm :: "16 word"

record set_face_to_enroll =
  SetFaceToEnroll_Name :: string
  SetFaceToEnroll_ObservedID :: int32
  SetFaceToEnroll_SaveID :: int32
  SetFaceToEnroll_SaveToRobot :: bool
  SetFaceToEnroll_SayName :: bool
  SetFaceToEnroll_UseMusic :: bool

record enable_vision_mode =
  EnableVisionMode_Mode :: uint32
  EnableVisionMode_Enable :: bool

record path_motion_profile =
  PathMotionProfile_SpeedMmps :: float32
  PathMotionProfile_AccelMmps2 :: float32
  PathMotionProfile_DecelMmps2 :: float32
  PathMotionProfile_PointTurnSpeedRadPerSec :: float32
  PathMotionProfile_PointTurnAccelRadPerSec2 :: float32
  PathMotionProfile_PointTurnDecelRadPerSec2 :: float32
  PathMotionProfile_DockSpeedMmps :: float32
  PathMotionProfile_DockAccelMmps2 :: float32
  PathMotionProfile_DockDecelMmps2 :: float32
  PathMotionProfile_ReverseSpeedMmps :: float32
  PathMotionProfile_IsCustom :: bool

record goto_pose =
  GotoPose_XMm :: float32
  GotoPose_YMm :: float32
  GotoPose_Rad :: float32
  GotoPose_MotionProf :: path_motion_profile
  GotoPose_Level :: byte

record drive_straight =
  DriveStraight_SpeedMmps :: float32
  DriveStraight_DistMm :: float32
  DriveStraight_ShouldPlayAnimation :: bool

record turn_in_place =
  TurnInPlace_AngleRad :: float32
  TurnInPlace_SpeedRadPerSec :: float32
  TurnInPlace_AccelRadPerSec2 :: float32
  TurnInPlace_TolRad :: float32
  TurnInPlace_IsAbsolute :: byte

record set_head_angle =
  SetHeadAngle_AngleRad :: float32
  SetHeadAngle_MaxSpeedRadPerSec :: float32
  SetHeadAngle_AccelRadPerSec2 :: float32
  SetHeadAngle_DurationSec :: float32

record set_lift_height =
  SetLiftHeight_HeightMm :: float32
  SetLiftHeight_MaxSpeedRadPerSec :: float32
  SetLiftHeight_AccelRadPerSec2 :: float32
  SetLiftHeight_DurationSec :: float32

record align_with_object =
  AlignWithObject_ObjectID :: int32
  AlignWithObject_MotionProf :: path_motion_profile
  AlignWithObject_DistanceFromMarkerMm :: float32
  AlignWithObject_ApproachAngleRad :: float32
  AlignWithObject_UseApproachAngle :: bool
  AlignWithObject_UsePreDockPose :: bool
  AlignWithObject_AlignmentType :: byte

record set_lift_angle =
  SetLiftAngle_AngleRad :: float32
  SetLiftAngle_MaxSpeedRadPerSec :: float32
  SetLiftAngle_AccelRadPerSec2 :: float32
  SetLiftAngle_DurationSec :: float32

record active_accel =
  ActiveAccel_X :: float32
  ActiveAccel_Y :: float32
  ActiveAccel_Z :: float32

record object_accel =
  ObjectAccel_Timestamp :: uint32
  ObjectAccel_ObjectID :: uint32
  ObjectAccel_Accel :: active_accel

datatype action_completed =
    AnimationCompleted string
  | ActionCompletedInvalid

record robot_completed_action =
  RobotCompletedAction_IdTag :: uint32
  RobotCompletedAction_ActionType :: int32
  RobotCompletedAction_Result :: uint32
  RobotCompletedAction_SubActionResults :: "uint32 list"
  RobotCompletedAction_CompletionInfo :: action_completed

record accel_data =
  AccelData_X :: float32
  AccelData_Y :: float32
  AccelData_Z :: float32

record gyro_data =
  GyroData_X :: float32
  GyroData_Y :: float32
  GyroData_Z :: float32

section \<open>CLAD unions\<close>

datatype clad_event =
    ReplaceMe
  | EventInvalid

datatype external_to_robot =
    UiDeviceConnectionWrongVersionClad string
  | MoveHead float32
  | MoveLift float32
  | DriveArcClad drive_arc
  | RobotHistoryRequestClad
  | DisplayFaceImageRGBChunk face_image_chunk
  | AppIntentClad string string
  | CancelFaceEnrollmentClad
  | RequestEnrolledNamesClad
  | UpdateEnrolledFaceByIDClad int32 string string
  | EraseEnrolledFaceByIDClad int32
  | EraseAllEnrolledFacesClad
  | SetFaceToEnrollClad set_face_to_enroll
  | EnableVisionModeClad enable_vision_mode
  | GotoPoseClad goto_pose
  | DriveStraightClad drive_straight
  | TurnInPlaceClad turn_in_place
  | SetHeadAngleClad set_head_angle
  | SetLiftHeightClad set_lift_height
  | AlignWithObjectClad align_with_object
  | SetLiftAngleClad set_lift_angle
  | DeleteCustomMarkerObjects
  | DeleteFixedCustomObjects
  | UndefineAllCustomMarkerObjects
  | CreateFixedCustomObjectClad pose_struct3d float32 float32 float32
  | DefineCustomBox define_custom_box
  | DefineCustomCube define_custom_cube
  | DefineCustomWall define_custom_wall
  | SetMemoryMapBroadcastFrequency_sec float32
  | ExternalInvalid

datatype robot_to_external =
    UiDeviceConnected string
  | RobotCompletedAction robot_completed_action
  | CladEvent clad_event
  | EnrolledNamesResponse "known_face list"
  | RobotObservedFaceClad clad_observed_face
  | RobotChangedObservedFaceIDClad int32 int32
  | ObjectConnectionStateClad uint32 string int32 bool
  | ObjectMovedClad uint32 uint32
  | ObjectStoppedMovingClad uint32 uint32
  | ObjectUpAxisChangedClad uint32 uint32 byte
  | ObjectTappedClad uint32 uint32
  | ObjectAccelClad object_accel
  | RobotObservedObjectClad clad_observed_object
  | ObjectAvailableClad string int32 "8 word"
  | RobotDeletedFixedCustomObjects
  | RobotDeletedCustomMarkerObjects
  | CreatedFixedCustomObject uint32
  | DefinedCustomObject bool
  | MemoryMapMessageBegin map_begin
  | MemoryMapMessage "map_quad list"
  | MemoryMapMessageEnd
  | RobotInvalid

text \<open>\<open>MessageRobotToExternalTag\<close>, with its numeric values.\<close>

definition "Tag_UiDeviceConnected = (0x0 :: 8 word)"
definition "Tag_EnrolledNamesResponse = (0x5 :: 8 word)"
definition "Tag_RobotDeletedFixedCustomObjects = (0x12 :: 8 word)"
definition "Tag_RobotDeletedCustomMarkerObjects = (0x13 :: 8 word)"
definition "Tag_CreatedFixedCustomObject = (0x14 :: 8 word)"
definition "Tag_DefinedCustomObject = (0x15 :: 8 word)"
definition "Tag_MemoryMapMessageBegin = (0x16 :: 8 word)"
definition "Tag_MemoryMapMessage = (0x17 :: 8 word)"
definition "Tag_MemoryMapMessageEnd = (0x18 :: 8 word)"

lemmas robot_tag_defs = Tag_UiDeviceConnected_def Tag_EnrolledNamesResponse_def
  Tag_RobotDeletedFixedCustomObjects_def Tag_RobotDeletedCustomMarkerObjects_def
  Tag_CreatedFixedCustomObject_def Tag_DefinedCustomObject_def Tag_MemoryMapMessageBegin_def
  Tag_MemoryMapMessage_def Tag_MemoryMapMessageEnd_def

primrec robotTag :: "robot_to_external \<Rightarrow> 8 word" where
  "robotTag (UiDeviceConnected _) = Tag_UiDeviceConnected"
| "robotTag (RobotCompletedAction _) = 0x1"
| "robotTag (CladEvent _) = 0x2"
| "robotTag (EnrolledNamesResponse _) = Tag_EnrolledNamesResponse"
| "robotTag (RobotObservedFaceClad _) = 0x6"
| "robotTag (RobotChangedObservedFaceIDClad _ _) = 0x7"
| "robotTag (ObjectConnectionStateClad _ _ _ _) = 0xa"
| "robotTag (ObjectMovedClad _ _) = 0xb"
| "robotTag (ObjectStoppedMovingClad _ _) = 0xc"
| "robotTag (ObjectUpAxisChangedClad _ _ _) = 0xd"
| "robotTag (ObjectTappedClad _ _) = 0xe"
| "robotTag (ObjectAccelClad _) = 0xf"
| "robotTag (RobotObservedObjectClad _) = 0x10"
| "robotTag (ObjectAvailableClad _ _ _) = 0x11"
| "robotTag RobotDeletedFixedCustomObjects = Tag_RobotDeletedFixedCustomObjects"
| "robotTag RobotDeletedCustomMarkerObjects = Tag_RobotDeletedCustomMarkerObjects"
| "robotTag (CreatedFixedCustomObject _) = Tag_CreatedFixedCustomObject"
| "robotTag (DefinedCustomObject _) = Tag_DefinedCustomObject"
| "robotTag (MemoryMapMessageBegin _) = Tag_MemoryMapMessageBegin"
| "robotTag (MemoryMapMessage _) = Tag_MemoryMapMessage"
| "robotTag MemoryMapMessageEnd = Tag_MemoryMapMessageEnd"
| "robotTag RobotInvalid = 255"

lemma robotTag_cases:
  "robotTag m = Tag_EnrolledNamesResponse \<Longrightarrow> \<exists>fs. m = EnrolledNamesResponse fs"
  "robotTag m = Tag_CreatedFixedCustomObject \<Longrightarrow> \<exists>i. m = CreatedFixedCustomObject i"
  "robotTag m = Tag_DefinedCustomObject \<Longrightarrow> \<exists>b. m = DefinedCustomObject b"
  "robotTag m = Tag_MemoryMapMessageBegin \<Longrightarrow> \<exists>b. m = MemoryMapMessageBegin b"
  "robotTag m = Tag_MemoryMapMessage \<Longrightarrow> \<exists>qs. m = MemoryMapMessage qs"
  by (cases m; simp add: robot_tag_defs)+

end
