(* ===== verification/Clad_Convert.thy ===== *)
theory Clad_Convert
  imports Clad_Messages
begin

text \<open>
  The conversions between CLAD and protobuf messages at the top of \<open>cloud/message_handler.go\<close>. A conversion of an integer type truncates or extends as Go does:
  \<open>ucast\<close> from an unsigned type, \<open>scast\<close> from a signed one.
\<close>

section \<open>Requests whose fields the conversions read\<close>

record custom_box_definition =
  MarkerFront :: int32  MarkerBack :: int32  MarkerTop :: int32
  MarkerBottom :: int32  MarkerLeft :: int32  MarkerRight :: int32
  boxXSizeMm :: float32  boxYSizeMm :: float32  boxZSizeMm :: float32
  boxMarkerWidthMm :: float32  boxMarkerHeightMm :: float32

record custom_cube_definition =
  cubeMarker :: int32
  cubeSizeMm :: float32
  cubeMarkerWidthMm :: float32
  cubeMarkerHeightMm :: float32

record custom_wall_definition =
  wallMarker :: int32
  wallWidthMm :: float32
  wallHeightMm :: float32
  wallMarkerWidthMm :: float32
  wallMarkerHeightMm :: float32

datatype custom_definition =
    CustomBox custom_box_definition
  | CustomCube custom_cube_definition
  | CustomWall custom_wall_definition

record define_custom_object_request =
  CustomType :: int32
  IsUnique :: bool
  CustomObjectDefinition :: "custom_definition option"

record create_fixed_custom_object_request =
  fxPose :: "pose_struct option"   \<comment> \<open>\<open>None\<close>: the client left the field out\<close>
  fxXSizeMm :: float32
  fxYSizeMm :: float32
  fxZSizeMm :: float32

record update_enrolled_face_request =
  ueFaceId :: int32
  ueOldName :: string
  ueNewName :: string

text \<open>
  \<open>dfSpare\<close> is what lies between the length and the capacity of the slice \<open>FaceData\<close>: a slice
  expression may reach into it.
\<close>

record display_face_request =
  dfFaceData :: "byte list"
  dfSpare :: "byte list"
  dfDurationMs :: uint32
  dfInterruptRunning :: bool

section \<open>From protobuf to CLAD\<close>

definition ProtoMoveHeadToClad :: "float32 \<Rightarrow> external_to_robot" where
  "ProtoMoveHeadToClad speedRadPerSec = MoveHead speedRadPerSec"

definition ProtoMoveLiftToClad :: "float32 \<Rightarrow> external_to_robot" where
  "ProtoMoveLiftToClad speedRadPerSec = MoveLift speedRadPerSec"

definition FaceImageChunkToClad ::
    "uint16 list \<Rightarrow> uint16 \<Rightarrow> 8 word \<Rightarrow> 8 word \<Rightarrow> uint32 \<Rightarrow> bool \<Rightarrow> external_to_robot" where
  "FaceImageChunkToClad faceData pixelCount chunkIndex chunkCount durationMs interruptRunning =
     DisplayFaceImageRGBChunk
       \<lparr>FaceData = faceData, NumPixels = pixelCount, ChunkIndex = chunkIndex,
        NumChunks = chunkCount, DurationMs = durationMs, InterruptRunning = interruptRunning\<rparr>"

definition ProtoAppIntentToClad :: "string \<Rightarrow> string \<Rightarrow> external_to_robot" where
  "ProtoAppIntentToClad intent param = AppIntentClad intent param"

definition ProtoRequestEnrolledNamesToClad :: "external_to_robot" where
  "ProtoRequestEnrolledNamesToClad = RequestEnrolledNamesClad"

definition ProtoCancelFaceEnrollmentToClad :: "external_to_robot" where
  "ProtoCancelFaceEnrollmentToClad = CancelFaceEnrollmentClad"

definition ProtoUpdateEnrolledFaceByIDToClad ::
    "update_enrolled_face_request \<Rightarrow> external_to_robot" where
  "ProtoUpdateEnrolledFaceByIDToClad msg =
     UpdateEnrolledFaceByIDClad (ueFaceId msg) (ueOldName msg) (ueNewName msg)"

definition ProtoEraseEnrolledFaceByIDToClad :: "int32 \<Rightarrow> external_to_robot" where
  "ProtoEraseEnrolledFaceByIDToClad faceId = EraseEnrolledFaceByIDClad faceId"

definition ProtoEraseAllEnrolledFacesToClad :: "external_to_robot" where
  "ProtoEraseAllEnrolledFacesToClad = EraseAllEnrolledFacesClad"

definition ProtoPoseToClad :: "pose_struct \<Rightarrow> pose_struct3d" where
  "ProtoPoseToClad msg =
     \<lparr>cladX = poseX msg, cladY = poseY msg, cladZ = poseZ msg,
      cladQ0 = poseQ0 msg, cladQ1 = poseQ1 msg, cladQ2 = poseQ2 msg, cladQ3 = poseQ3 msg,
      cladOriginID = poseOriginId msg\<rparr>"

text \<open>A missing pose is a nil pointer that \<open>ProtoPoseToClad\<close> reads through: \<open>None\<close> is the panic.\<close>

definition ProtoCreateFixedCustomObjectToClad ::
    "create_fixed_custom_object_request \<Rightarrow> external_to_robot option" where
  "ProtoCreateFixedCustomObjectToClad msg = map_option
     (\<lambda>pose. CreateFixedCustomObjectClad (ProtoPoseToClad pose)
        (fxXSizeMm msg) (fxYSizeMm msg) (fxZSizeMm msg)) (fxPose msg)"

text \<open>
  \<open>CustomType_CUSTOM_TYPE_00\<close> is 1 in the protobuf enum, \<open>ObjectType_CustomType00\<close> is 14 in the
  CLAD enum; markers are counted from 1 in protobuf and from 0 in CLAD, whose enum has 16 bits.
\<close>

definition custom_object_type :: "int32 \<Rightarrow> int32" where
  "custom_object_type customType = customType - 1 + 14"

definition custom_marker :: "int32 \<Rightarrow> 16 word" where
  "custom_marker m = ucast (m - 1)"

definition ProtoDefineCustomBoxToClad ::
    "define_custom_object_request \<Rightarrow> custom_box_definition \<Rightarrow> external_to_robot" where
  "ProtoDefineCustomBoxToClad msg def = DefineCustomBox
     \<lparr>bxCustomType = custom_object_type (CustomType msg),
      bxMarkerFront = custom_marker (MarkerFront def),
      bxMarkerBack = custom_marker (MarkerBack def),
      bxMarkerTop = custom_marker (MarkerTop def),
      bxMarkerBottom = custom_marker (MarkerBottom def),
      bxMarkerLeft = custom_marker (MarkerLeft def),
      bxMarkerRight = custom_marker (MarkerRight def),
      bxXSizeMm = boxXSizeMm def, bxYSizeMm = boxYSizeMm def, bxZSizeMm = boxZSizeMm def,
      bxMarkerWidthMm = boxMarkerWidthMm def, bxMarkerHeightMm = boxMarkerHeightMm def,
      bxIsUnique = IsUnique msg\<rparr>"

definition ProtoDefineCustomCubeToClad ::
    "define_custom_object_request \<Rightarrow> custom_cube_definition \<Rightarrow> external_to_robot" where
  "ProtoDefineCustomCubeToClad msg def = DefineCustomCube
     \<lparr>cbCustomType = custom_object_type (CustomType msg),
      cbMarker = custom_marker (cubeMarker def), cbSizeMm = cubeSizeMm def,
      cbMarkerWidthMm = cubeMarkerWidthMm def, cbMarkerHeightMm = cubeMarkerHeightMm def,
      cbIsUnique = IsUnique msg\<rparr>"

definition ProtoDefineCustomWallToClad ::
    "define_custom_object_request \<Rightarrow> custom_wall_definition \<Rightarrow> external_to_robot" where
  "ProtoDefineCustomWallToClad msg def = DefineCustomWall
     \<lparr>wlCustomType = custom_object_type (CustomType msg),
      wlMarker = custom_marker (wallMarker def),
      wlWidthMm = wallWidthMm def, wlHeightMm = wallHeightMm def,
      wlMarkerWidthMm = wallMarkerWidthMm def, wlMarkerHeightMm = wallMarkerHeightMm def,
      wlIsUnique = IsUnique msg\<rparr>"

text \<open>\<open>copy\<close> into an array of three: missing elements stay 0, surplus ones are dropped.\<close>

definition SliceToArray :: "uint32 list \<Rightarrow> uint32 list" where
  "SliceToArray msg = take 3 msg @ replicate (3 - length msg) 0"

section \<open>From CLAD to protobuf\<close>

definition CladCladRectToProto :: "clad_rect_c \<Rightarrow> clad_rect" where
  "CladCladRectToProto msg =
     \<lparr>XTopLeft = cXTopLeft msg, YTopLeft = cYTopLeft msg,
      rectWidth = cWidth msg, rectHeight = cHeight msg\<rparr>"

definition CladCladPointsToProto :: "clad_point list \<Rightarrow> clad_point list" where
  "CladCladPointsToProto msg = map (\<lambda>(x, y). (x, y)) msg"

definition CladExpressionValuesToProto :: "byte list \<Rightarrow> uint32 list" where
  "CladExpressionValuesToProto msg = map ucast msg"

definition CladPoseToProto :: "pose_struct3d \<Rightarrow> pose_struct" where
  "CladPoseToProto msg =
     \<lparr>poseX = cladX msg, poseY = cladY msg, poseZ = cladZ msg,
      poseQ0 = cladQ0 msg, poseQ1 = cladQ1 msg, poseQ2 = cladQ2 msg, poseQ3 = cladQ3 msg,
      poseOriginId = cladOriginID msg\<rparr>"

text \<open>The CLAD expression is an \<open>int8\<close> with -1 for unknown; the addition is on the \<open>int8\<close>.\<close>

definition CladRobotObservedFaceToProto :: "clad_observed_face \<Rightarrow> observed_face" where
  "CladRobotObservedFaceToProto msg =
     \<lparr>faceFaceId = cfFaceID msg, faceTimestamp = cfTimestamp msg,
      facePose = CladPoseToProto (cfPose msg),
      faceImgRect = CladCladRectToProto (cfImgRect msg), faceName = cfName msg,
      faceExpression = scast (cfExpression msg + 1),
      faceExpressionValues = CladExpressionValuesToProto (cfExpressionValues msg),
      faceEyesNoseMouth =
        (CladCladPointsToProto (cfLeftEye msg), CladCladPointsToProto (cfRightEye msg),
         CladCladPointsToProto (cfNose msg), CladCladPointsToProto (cfMouth msg))\<rparr>"

definition CladRobotChangedObservedFaceIDToProto :: "int32 \<Rightarrow> int32 \<Rightarrow> event" where
  "CladRobotChangedObservedFaceIDToProto oldID newID = RobotChangedObservedFaceId oldID newID"

text \<open>Both branches of \<open>CladEventToProto\<close> return nil: no CLAD event has a protobuf counterpart.\<close>

definition CladEventToProto :: "clad_event \<Rightarrow> event option" where
  "CladEventToProto msg = (case msg of EventInvalid \<Rightarrow> None | _ \<Rightarrow> None)"

definition CladObjectConnectionStateToProto ::
    "uint32 \<Rightarrow> string \<Rightarrow> int32 \<Rightarrow> bool \<Rightarrow> object_event" where
  "CladObjectConnectionStateToProto objectID factoryID objectType connected =
     ObjectConnectionState objectID factoryID (objectType + 1) connected"

definition CladObjectAvailableToProto :: "string \<Rightarrow> object_event" where
  "CladObjectAvailableToProto factoryId = ObjectAvailable factoryId"

definition CladObjectMovedToProto :: "uint32 \<Rightarrow> uint32 \<Rightarrow> object_event" where
  "CladObjectMovedToProto timestamp objectID = ObjectMoved timestamp objectID"

definition CladObjectStoppedMovingToProto :: "uint32 \<Rightarrow> uint32 \<Rightarrow> object_event" where
  "CladObjectStoppedMovingToProto timestamp objectID = ObjectStoppedMoving timestamp objectID"

text \<open>The CLAD axis is a \<open>uint8\<close> with 7 for unknown; 0 is the invalid axis in protobuf.\<close>

definition up_axis_proto :: "8 word \<Rightarrow> int32" where
  "up_axis_proto a = (if a \<noteq> 7 then ucast (a + 1) else 0)"

definition CladObjectUpAxisChangedToProto :: "uint32 \<Rightarrow> uint32 \<Rightarrow> 8 word \<Rightarrow> object_event" where
  "CladObjectUpAxisChangedToProto timestamp objectID upAxis =
     ObjectUpAxisChanged timestamp objectID (up_axis_proto upAxis)"

definition CladObjectTappedToProto :: "uint32 \<Rightarrow> uint32 \<Rightarrow> object_event" where
  "CladObjectTappedToProto timestamp objectID = ObjectTapped timestamp objectID"

definition CladRobotObservedObjectToProto :: "clad_observed_object \<Rightarrow> observed_object" where
  "CladRobotObservedObjectToProto msg =
     \<lparr>objTimestamp = coTimestamp msg, objFamily = coObjectFamily msg + 1,
      objType = coObjectType msg + 1, objObjectId = coObjectID msg,
      objImgRect = CladCladRectToProto (coImgRect msg), objPose = CladPoseToProto (coPose msg),
      objTopFaceOrientationRad = coTopFaceOrientationRad msg,
      objIsActive = ucast (coIsActive msg)\<rparr>"

record nav_map_info =
  RootDepth :: int32
  RootSizeMm :: float32
  RootCenterX :: float32
  RootCenterY :: float32
  RootCenterZ :: float32

record nav_map_quad_info =
  Content :: int32
  Depth :: uint32
  ColorRgba :: uint32

definition CladMemoryMapBeginToProtoNavMapInfo :: "map_begin \<Rightarrow> nav_map_info" where
  "CladMemoryMapBeginToProtoNavMapInfo msg =
     \<lparr>RootDepth = mbRootDepth msg, RootSizeMm = mbRootSizeMm msg,
      RootCenterX = mbRootCenterX msg, RootCenterY = mbRootCenterY msg, RootCenterZ = 0\<rparr>"

definition CladMemoryMapQuadInfoToProto :: "map_quad \<Rightarrow> nav_map_quad_info" where
  "CladMemoryMapQuadInfoToProto msg =
     \<lparr>Content = ucast (mqContent msg), Depth = ucast (mqDepth msg), ColorRgba = mqColorRGBA msg\<rparr>"

text \<open>
  The event that the CLAD manager makes of a CLAD message; \<open>None\<close> for a message it hands to its
  own listeners instead. An unknown CLAD event becomes the nil event.
\<close>

fun clad_to_event :: "robot_to_external \<Rightarrow> event option option" where
  "clad_to_event (CladEvent msg) = Some (CladEventToProto msg)"
| "clad_to_event (RobotObservedFaceClad f) =
     Some (Some (RobotObservedFace (CladRobotObservedFaceToProto f)))"
| "clad_to_event (RobotChangedObservedFaceIDClad old new) =
     Some (Some (CladRobotChangedObservedFaceIDToProto old new))"
| "clad_to_event (ObjectAvailableClad i _ _) = Some (Some (ObjectEvent (CladObjectAvailableToProto i)))"
| "clad_to_event (ObjectConnectionStateClad i f t c) =
     Some (Some (ObjectEvent (CladObjectConnectionStateToProto i f t c)))"
| "clad_to_event (ObjectMovedClad t i) = Some (Some (ObjectEvent (CladObjectMovedToProto t i)))"
| "clad_to_event (ObjectStoppedMovingClad t i) =
     Some (Some (ObjectEvent (CladObjectStoppedMovingToProto t i)))"
| "clad_to_event (ObjectUpAxisChangedClad t i a) =
     Some (Some (ObjectEvent (CladObjectUpAxisChangedToProto t i a)))"
| "clad_to_event (ObjectTappedClad t i) = Some (Some (ObjectEvent (CladObjectTappedToProto t i)))"
| "clad_to_event (RobotObservedObjectClad m) =
     Some (Some (ObjectEvent (RobotObservedObject (CladRobotObservedObjectToProto m))))"
| "clad_to_event _ = None"

section \<open>Facts about the conversions\<close>

lemma pose_roundtrip: "CladPoseToProto (ProtoPoseToClad p) = p"
  by (simp add: CladPoseToProto_def ProtoPoseToClad_def)

lemma pose_roundtrip_clad: "ProtoPoseToClad (CladPoseToProto p) = p"
  by (simp add: CladPoseToProto_def ProtoPoseToClad_def)

lemma up_axis_proto_bounds:
  "a < 7 \<Longrightarrow> 1 \<le> uint (up_axis_proto a) \<and> uint (up_axis_proto a) \<le> 7"
  unfolding up_axis_proto_def by (auto simp: unsigned_ucast_eq word_less_def uint_word_ariths
      take_bit_eq_mod)

end
