(* ===== verification/Go_Bytes.thy ===== *)
theory Go_Bytes
  imports Go_Prelude
begin

unbundle bit_operations_syntax

text \<open>
  \<open>binary.LittleEndian\<close>: integers as bytes and back; and the trimming of strings.
\<close>

fun le_bytes :: "nat \<Rightarrow> 'a::len word \<Rightarrow> byte list" where
  "le_bytes 0 w = []"
| "le_bytes (Suc n) w = ucast w # le_bytes n (drop_bit 8 w)"

fun le_value :: "byte list \<Rightarrow> 'a::len word" where
  "le_value [] = 0"
| "le_value (b # bs) = ucast b OR push_bit 8 (le_value bs)"

lemma length_le_bytes [simp]: "length (le_bytes n w) = n"
  by (induction n arbitrary: w) auto

lemma le_value_le_bytes: "le_value (le_bytes n w) = take_bit (8 * n) w"
proof (induction n arbitrary: w)
  case (Suc n)
  show ?case
    by (rule bit_word_eqI) (auto simp: Suc bit_simps)
qed simp

lemma le_value_bytes [simp]: "LENGTH('a) \<le> 8 * n \<Longrightarrow> le_value (le_bytes n w) = (w :: 'a::len word)"
  by (simp add: le_value_le_bytes take_bit_word_eq_self)

text \<open>And the other way round: what was read is written as the same bytes.\<close>

lemma bit_le_value: "bit (le_value bs :: 'a::len word) n \<Longrightarrow> n < 8 * length bs"
proof (induction bs arbitrary: n)
  case (Cons b bs)
  then show ?case by (fastforce simp: bit_simps dest: bit_imp_le_length)
qed simp

lemma le_bytes_le_value:
  "8 * length bs \<le> LENGTH('a) \<Longrightarrow> le_bytes (length bs) (le_value bs :: 'a::len word) = bs"
proof (induction bs)
  case (Cons b bs)
  have "ucast (ucast b OR push_bit 8 (le_value bs :: 'a word)) = b"
    using Cons.prems by (intro bit_word_eqI) (auto simp: bit_simps)
  moreover have "drop_bit 8 (ucast b OR push_bit 8 (le_value bs)) = (le_value bs :: 'a word)"
    using Cons.prems by (intro bit_word_eqI) (auto simp: bit_simps dest: bit_imp_le_length bit_le_value)
  ultimately show ?case using Cons by simp
qed simp

definition le32 :: "uint32 \<Rightarrow> byte list" where "le32 = le_bytes 4"

definition le64 :: "uint64 \<Rightarrow> byte list" where "le64 = le_bytes 8"

text \<open>The readers take the bytes they need from the front.\<close>

definition le16_of :: "byte list \<Rightarrow> uint16" where "le16_of b = le_value (take 2 b)"

definition le32_of :: "byte list \<Rightarrow> uint32" where "le32_of b = le_value (take 4 b)"

definition le64_of :: "byte list \<Rightarrow> uint64" where "le64_of b = le_value (take 8 b)"

lemma le16_bytes: "le16 n = le_bytes 2 n"
  by (simp add: le16_def numeral_2_eq_2)

lemma length_le [simp]: "length (le32 n) = 4" "length (le64 m) = 8"
  by (simp_all add: le32_def le64_def)

lemma le_of_le [simp]:
  "le16_of (le16 k @ bs) = k" "le32_of (le32 n @ bs) = n" "le64_of (le64 m @ bs) = m"
  by (simp_all add: le16_of_def le32_of_def le64_of_def le16_bytes le32_def le64_def)

lemma le_le_of:
  "length b = 2 \<Longrightarrow> le16 (le16_of b) = b"
  "length b = 4 \<Longrightarrow> le32 (le32_of b) = b"
  "length b = 8 \<Longrightarrow> le64 (le64_of b) = b"
  using le_bytes_le_value [of b, where 'a = 16] le_bytes_le_value [of b, where 'a = 32]
    le_bytes_le_value [of b, where 'a = 64]
  by (simp_all add: le16_of_def le32_of_def le64_of_def le16_bytes le32_def le64_def)

section \<open>Strings\<close>

definition is_space :: "char \<Rightarrow> bool" where
  "is_space c \<longleftrightarrow> (of_char c :: nat) \<in> {9, 10, 11, 12, 13, 32}"

text \<open>\<open>strings.TrimSpace\<close>, on ASCII.\<close>

definition TrimSpace :: "string \<Rightarrow> string" where
  "TrimSpace s = rev (dropWhile is_space (rev (dropWhile is_space s)))"

end
