(* ===== verification/Clad_Codec.thy ===== *)
theory Clad_Codec
  imports Go_Bytes "HOL-Library.Sublist"
begin

text \<open>
  What the generated CLAD code of \<open>internal/clad\<close> is made of. \<open>Pack\<close> appends to a buffer, \<open>Unpack\<close>
  takes from its front; both may return an error, so they are pieces of code whose state is the
  buffer. The parts are \<open>binary.Write\<close> and \<open>binary.Read\<close> in little-endian order, strings and slices
  with a length of one or two bytes, arrays, and loops over slices of structures.

  \<open>wired m u v n k a\<close> relates the two directions: \<open>m\<close> writes what \<open>u\<close> reads as \<open>a\<close> provided \<open>v\<close>,
  and fails otherwise; \<open>n\<close> is the size as \<open>Size\<close> computes it, and at most \<open>k\<close> bytes are written.
  \<open>reader u\<close> says that \<open>u\<close> never panics and looks at no more than it takes. Both are closed under
  sequencing, so that the proof for a structure only follows its fields. The locale \<open>wire_codec\<close> is
  what users of a message type rely on.
\<close>

type_synonym writer = "(byte list, unit) go"
type_synonym 'a reader = "(byte list, 'a) go"

section \<open>The buffer\<close>

definition binary_Write :: "byte list \<Rightarrow> writer" where
  "binary_Write d buf = (Ret (), buf @ d)"

text \<open>A read that cannot be served takes what there is.\<close>

definition binary_Read :: "nat \<Rightarrow> byte list reader" where
  "binary_Read n buf =
     (if n \<le> length buf then (Ret (take n buf), drop n buf)
      else (Fail (Errorf (if buf = [] then ''EOF'' else ''unexpected EOF'')), []))"

definition buf_Next :: "nat \<Rightarrow> byte list reader" where
  "buf_Next n buf = (Ret (take n buf), drop n buf)"

section \<open>Fields\<close>

definition write_word :: "'a::len word \<Rightarrow> writer" where
  "write_word w = binary_Write (le_bytes (LENGTH('a) div 8) w)"

definition read_word :: "'a::len word reader" where
  "read_word = bindM (binary_Read (LENGTH('a) div 8)) (\<lambda>d. returnM (le_value d))"

definition write_bool :: "bool \<Rightarrow> writer" where
  "write_bool b = binary_Write [if b then 1 else 0]"

definition read_bool :: "bool reader" where
  "read_bool = bindM (binary_Read 1) (\<lambda>d. returnM (d \<noteq> [0]))"

text \<open>The length of a string or slice, in an unsigned integer of the given width.\<close>

definition write_length :: "'n::len itself \<Rightarrow> string \<Rightarrow> nat \<Rightarrow> writer" where
  "write_length N field n =
     (if n > 2 ^ LENGTH('n) - 1 then failM (Errorf (''max_length overflow in field '' @ field))
      else write_word (of_nat n :: 'n word))"

definition read_length :: "'n::len itself \<Rightarrow> nat reader" where
  "read_length N = bindM read_word (\<lambda>n :: 'n word. returnM (unat n))"

definition byte_of :: "char \<Rightarrow> byte" where "byte_of c = word_of_nat (of_char c)"

definition char_at :: "byte \<Rightarrow> char" where "char_at b = char_of (unat b)"

definition write_string :: "'n::len itself \<Rightarrow> string \<Rightarrow> string \<Rightarrow> writer" where
  "write_string N field s = bindM (write_length N field (length s)) (\<lambda>_. binary_Write (map byte_of s))"

definition read_string :: "'n::len itself \<Rightarrow> string reader" where
  "read_string N = bindM (read_length N) (\<lambda>n. bindM (buf_Next n) (\<lambda>d.
     if length d \<noteq> n then failM (Errorf ''string byte mismatch'') else returnM (map char_at d)))"

text \<open>Lengths of 32 bits are not checked; a string of 4 GiB is left out.\<close>

definition write_string32 :: "string \<Rightarrow> writer" where
  "write_string32 s =
     (if length s < 2 ^ 32 then bindM (write_word (of_nat (length s) :: uint32)) (\<lambda>_. binary_Write (map byte_of s))
      else failM (Errorf ''string of 4 GiB''))"

text \<open>
  A slice or array of values of a fixed layout is read and written at once. An array of another length than its
  own does not exist in Go; here it is one that is not written.
\<close>

fun pieces :: "nat \<Rightarrow> nat \<Rightarrow> 'a list \<Rightarrow> 'a list list" where
  "pieces k 0 xs = []"
| "pieces k (Suc n) xs = take k xs # pieces k n (drop k xs)"

definition read_bulk :: "nat \<Rightarrow> (byte list \<Rightarrow> 'a) \<Rightarrow> nat \<Rightarrow> 'a list reader" where
  "read_bulk k dec n = bindM (binary_Read (n * k)) (\<lambda>d. returnM (map dec (pieces k n d)))"

definition write_bulk :: "'n::len itself \<Rightarrow> string \<Rightarrow> ('a \<Rightarrow> byte list) \<Rightarrow> 'a list \<Rightarrow> writer" where
  "write_bulk N field enc xs =
     bindM (write_length N field (length xs)) (\<lambda>_. binary_Write (concat (map enc xs)))"

definition read_bulk_slice :: "'n::len itself \<Rightarrow> nat \<Rightarrow> (byte list \<Rightarrow> 'a) \<Rightarrow> 'a list reader" where
  "read_bulk_slice N k dec = bindM (read_length N) (read_bulk k dec)"

definition write_array :: "nat \<Rightarrow> ('a \<Rightarrow> byte list) \<Rightarrow> 'a list \<Rightarrow> writer" where
  "write_array n enc xs =
     (if length xs = n then binary_Write (concat (map enc xs)) else failM (Errorf ''not an array of this length''))"

text \<open>A slice of structures is written and read by a loop.\<close>

fun write_each :: "('a \<Rightarrow> writer) \<Rightarrow> 'a list \<Rightarrow> writer" where
  "write_each pack [] = returnM ()"
| "write_each pack (x # xs) = bindM (pack x) (\<lambda>_. write_each pack xs)"

fun read_each :: "'a reader \<Rightarrow> nat \<Rightarrow> 'a list reader" where
  "read_each unpack 0 = returnM []"
| "read_each unpack (Suc n) = bindM unpack (\<lambda>x. bindM (read_each unpack n) (\<lambda>xs. returnM (x # xs)))"

definition write_slice :: "'n::len itself \<Rightarrow> string \<Rightarrow> ('a \<Rightarrow> writer) \<Rightarrow> 'a list \<Rightarrow> writer" where
  "write_slice N field pack xs = bindM (write_length N field (length xs)) (\<lambda>_. write_each pack xs)"

definition read_slice :: "'n::len itself \<Rightarrow> 'a reader \<Rightarrow> 'a list reader" where
  "read_slice N unpack = bindM (read_length N) (read_each unpack)"

fun total_size :: "('a \<Rightarrow> uint32) \<Rightarrow> 'a list \<Rightarrow> uint32" where
  "total_size f [] = 0"
| "total_size f (x # xs) = f x + total_size f xs"

section \<open>Writing what is read\<close>

definition wired :: "writer \<Rightarrow> 'a reader \<Rightarrow> bool \<Rightarrow> uint32 \<Rightarrow> nat \<Rightarrow> 'a \<Rightarrow> bool" where
  "wired m u v n k a \<longleftrightarrow>
     (if v then \<exists>d. n = of_nat (length d) \<and> length d \<le> k \<and> (\<forall>buf. m buf = (Ret (), buf @ d)) \<and>
                  (\<forall>rest. u (d @ rest) = (Ret a, rest))
      else \<forall>buf. \<exists>e buf'. m buf = (Fail (Errorf e), buf'))"

named_theorems wire "what is written is read"

lemma wired_eq:
  assumes "wired m u v n k b" "v = v'" "n = n'" "k \<le> k'"
  shows "wired m u v' n' k' b"
proof (cases v)
  case True
  then obtain d where "n = of_nat (length d)" "length d \<le> k" "\<forall>buf. m buf = (Ret (), buf @ d)"
      "\<forall>rest. u (d @ rest) = (Ret b, rest)"
    using assms(1) by (auto simp: wired_def)
  with True assms show ?thesis by (auto simp: wired_def intro!: exI [of _ d])
qed (use assms in \<open>simp add: wired_def\<close>)

lemma wired_bind [wire]:
  assumes "wired m u v n k a" "wired (m' ()) (u' a) v' n' k' b"
  shows "wired (bindM m m') (bindM u u') (v \<and> v') (n + n') (k + k') b"
proof (cases v)
  case v: True
  then obtain d where d: "n = of_nat (length d)" "length d \<le> k" "\<And>buf. m buf = (Ret (), buf @ d)"
      "\<And>rest. u (d @ rest) = (Ret a, rest)"
    using assms(1) by (auto simp: wired_def)
  show ?thesis
  proof (cases v')
    case True
    then obtain e where "n' = of_nat (length e)" "length e \<le> k'" "\<And>buf. m' () buf = (Ret (), buf @ e)"
        "\<And>rest. u' a (e @ rest) = (Ret b, rest)"
      using assms(2) by (auto simp: wired_def)
    with d v True show ?thesis
      by (auto simp: wired_def bindM_def intro!: exI [of _ "d @ e"])
  next
    case False
    then have "\<exists>e buf'. m' () buf = (Fail (Errorf e), buf')" for buf using assms(2) by (simp add: wired_def)
    with d v False show ?thesis by (simp add: wired_def bindM_def)
  qed
next
  case False
  have "\<exists>e buf'. bindM m m' buf = (Fail (Errorf e), buf')" for buf
  proof -
    obtain e buf' where "m buf = (Fail (Errorf e), buf')"
      using assms(1) False unfolding wired_def by (simp only: if_False) blast
    then show ?thesis by (simp add: bindM_def)
  qed
  with False show ?thesis by (simp add: wired_def)
qed

lemma wired_return [wire]: "b = a \<Longrightarrow> wired (returnM ()) (returnM b) True 0 0 a"
  by (simp add: wired_def returnM_def)

lemma wired_read:
  assumes "d = e" "length d = n" "dec e = a"
  shows "wired (binary_Write d) (bindM (binary_Read n) (\<lambda>d. returnM (dec d))) True (of_nat n) n a"
  using assms by (auto simp: wired_def binary_Write_def binary_Read_def bindM_def returnM_def intro!: exI [of _ d])

lemma wired_word [wire]:
  "8 dvd LENGTH('a) \<Longrightarrow> wired (write_word w) read_word True (of_nat (LENGTH('a) div 8)) (LENGTH('a) div 8) w"
  for w :: "'a::len word"
  unfolding write_word_def read_word_def by (rule wired_read [OF refl]) simp_all

lemma wired_bool [wire]: "wired (write_bool b) read_bool True 1 1 b"
  unfolding write_bool_def read_bool_def
  using wired_read [of "[if b then 1 else 0]" _ 1 "\<lambda>d. d \<noteq> [0]" b, OF refl] by simp

lemma wired_map:
  assumes "wired m u v n k a" "f a = b"
  shows "wired m (bindM u (\<lambda>x. returnM (f x))) v n k b"
proof (cases v)
  case True
  then obtain d where "n = of_nat (length d)" "length d \<le> k" "\<forall>buf. m buf = (Ret (), buf @ d)"
      "\<forall>rest. u (d @ rest) = (Ret a, rest)"
    using assms(1) by (auto simp: wired_def)
  with True assms(2) show ?thesis by (auto simp: wired_def bindM_def returnM_def intro!: exI [of _ d])
qed (use assms in \<open>simp add: wired_def\<close>)

lemma write_length_max:
  "write_length TYPE('n::len) field m =
     (if m < 2 ^ LENGTH('n) then write_word (of_nat m :: 'n word)
      else failM (Errorf (''max_length overflow in field '' @ field)))"
proof -
  have "m > 2 ^ LENGTH('n) - 1 \<longleftrightarrow> \<not> m < 2 ^ LENGTH('n)"
    using zero_less_power [of "2::nat" "LENGTH('n)"] by linarith
  then show ?thesis by (simp add: write_length_def)
qed

lemma wired_length:
  assumes "8 dvd LENGTH('n::len)"
  shows "wired (write_length TYPE('n) field m) (read_length TYPE('n)) (m < 2 ^ LENGTH('n))
     (of_nat (LENGTH('n) div 8)) (LENGTH('n) div 8) m"
proof (cases "m < 2 ^ LENGTH('n)")
  case True
  then have "unat (of_nat m :: 'n word) = m" by (simp add: unat_of_nat take_bit_nat_eq_self)
  then have "wired (write_word (of_nat m :: 'n word)) (read_length TYPE('n)) True
      (of_nat (LENGTH('n) div 8)) (LENGTH('n) div 8) m"
    unfolding read_length_def by (intro wired_map [OF wired_word [OF assms]])
  with True show ?thesis by (simp add: write_length_max)
next
  case False
  then show ?thesis by (auto simp: write_length_max wired_def failM_def)
qed

lemma char_at_byte_of [simp]: "char_at (byte_of c) = c"
  by (simp add: char_at_def byte_of_def unat_of_nat take_bit_nat_eq_self)

lemma wired_next:
  "length d = n \<Longrightarrow> n < K \<Longrightarrow> wired (binary_Write d) (buf_Next n) True (of_nat n) (K - 1) d"
  by (auto simp: wired_def binary_Write_def buf_Next_def intro!: exI [of _ d])

text \<open>What follows a length may rely on the length having been in range.\<close>

lemma wired_after_length:
  assumes "8 dvd LENGTH('n::len)"
    "m < 2 ^ LENGTH('n) \<Longrightarrow> wired w (u m) v n k a"
    "\<not> m < 2 ^ LENGTH('n) \<Longrightarrow> \<not> v'" "m < 2 ^ LENGTH('n) \<Longrightarrow> v' = v"
  shows "wired (bindM (write_length TYPE('n) field m) (\<lambda>_. w)) (bindM (read_length TYPE('n)) u) v'
     (of_nat (LENGTH('n) div 8) + n) (LENGTH('n) div 8 + k) a"
proof (cases "m < 2 ^ LENGTH('n)")
  case True
  show ?thesis
    by (rule wired_eq [OF wired_bind [OF wired_length [OF assms(1)], of "\<lambda>_. w"]]) (use True assms in auto)
next
  case False
  then have "\<exists>e buf'. bindM (write_length TYPE('n) field m) (\<lambda>_. w) buf = (Fail (Errorf e), buf')" for buf
    by (auto simp: write_length_max failM_def bindM_def)
  with assms(3) [OF False] show ?thesis by (simp add: wired_def)
qed

lemma wired_string [wire]:
  assumes "8 dvd LENGTH('n::len)"
  shows "wired (write_string TYPE('n) field s) (read_string TYPE('n)) (length s < 2 ^ LENGTH('n))
     (of_nat (LENGTH('n) div 8) + of_nat (length s)) (LENGTH('n) div 8 + (2 ^ LENGTH('n) - 1)) s"
  unfolding write_string_def read_string_def
proof (rule wired_after_length [OF assms])
  assume s: "length s < 2 ^ LENGTH('n)"
  show "wired (binary_Write (map byte_of s)) (bindM (buf_Next (length s)) (\<lambda>d.
      if length d \<noteq> length s then failM (Errorf ''string byte mismatch'') else returnM (map char_at d)))
      True (of_nat (length s)) (2 ^ LENGTH('n) - 1) s"
    using s by (auto simp: wired_def binary_Write_def buf_Next_def bindM_def returnM_def comp_def intro!: exI [of _ "map byte_of s"])
qed simp_all

lemma wired_string32 [wire]:
  "wired (write_string32 s) (read_string TYPE(32)) (length s < 2 ^ 32) (4 + of_nat (length s)) (4 + (2 ^ 32 - 1)) s"
proof (cases "length s < 2 ^ 32")
  case True
  then have "write_string32 s = write_string TYPE(32) [] s"
    by (simp add: write_string32_def write_string_def write_length_max)
  then show ?thesis using wired_string [where 'n = 32, of "[]" s] by simp
next
  case False
  then show ?thesis by (simp add: write_string32_def wired_def failM_def)
qed

definition layout :: "nat \<Rightarrow> ('a \<Rightarrow> byte list) \<Rightarrow> (byte list \<Rightarrow> 'a) \<Rightarrow> bool" where
  "layout k enc dec \<longleftrightarrow> (\<forall>x. length (enc x) = k \<and> dec (enc x) = x)"

lemma layoutD [simp]: "layout k enc dec \<Longrightarrow> length (enc x) = k" "layout k enc dec \<Longrightarrow> dec (enc x) = x"
  by (simp_all add: layout_def)

lemma layout_word [simp]: "LENGTH('a::len) = 8 * k \<Longrightarrow> layout k (le_bytes k) (le_value :: byte list \<Rightarrow> 'a word)"
  by (simp add: layout_def)

lemma length_bulk [simp]: "layout k enc dec \<Longrightarrow> length (concat (map enc xs)) = length xs * k"
  by (induction xs) simp_all

lemma pieces_bulk:
  "layout k enc dec \<Longrightarrow> map dec (pieces k (length xs) (concat (map enc xs) @ rest)) = xs"
  by (induction xs) simp_all

lemma wired_pieces:
  assumes "layout k enc dec"
  shows "wired (binary_Write (concat (map enc xs))) (read_bulk k dec (length xs)) True
     (of_nat (length xs * k)) (length xs * k) xs"
  unfolding read_bulk_def
  by (rule wired_read [OF refl]) (use assms pieces_bulk [OF assms, of xs "[]"] in simp_all)

lemma wired_bulk [wire]:
  assumes "8 dvd LENGTH('n::len)" "layout k enc dec"
  shows "wired (write_bulk TYPE('n) field enc xs) (read_bulk_slice TYPE('n) k dec) (length xs < 2 ^ LENGTH('n))
     (of_nat (LENGTH('n) div 8) + of_nat (length xs) * of_nat k) (LENGTH('n) div 8 + (2 ^ LENGTH('n) - 1) * k) xs"
  unfolding write_bulk_def read_bulk_slice_def
proof (rule wired_after_length [OF assms(1)])
  assume "length xs < 2 ^ LENGTH('n)"
  then show "wired (binary_Write (concat (map enc xs))) (read_bulk k dec (length xs)) True
      (of_nat (length xs) * of_nat k) ((2 ^ LENGTH('n) - 1) * k) xs"
    by (intro wired_eq [OF wired_pieces [OF assms(2)]] mult_le_mono1) simp_all
qed simp_all

lemma wired_array [wire]:
  assumes "layout k enc dec"
  shows "wired (write_array n enc xs) (read_bulk k dec n) (length xs = n) (of_nat n * of_nat k) (n * k) xs"
proof (cases "length xs = n")
  case True
  then show ?thesis using wired_pieces [OF assms, of xs] by (auto simp: write_array_def)
next
  case False
  then show ?thesis by (simp add: write_array_def wired_def failM_def)
qed

lemma wired_each:
  assumes "\<And>x. wired (pack x) unpack (fits x) (sz x) K x"
  shows "wired (write_each pack xs) (read_each unpack (length xs)) (list_all fits xs) (total_size sz xs) (length xs * K) xs"
proof (induction xs)
  case Nil
  show ?case by (simp add: wired_return)
next
  case (Cons x xs)
  have "wired (write_each pack xs) (bindM (read_each unpack (length xs)) (\<lambda>xs. returnM (x # xs)))
      (list_all fits xs) (total_size sz xs) (length xs * K) (x # xs)"
    by (rule wired_map [OF Cons.IH refl])
  from wired_bind [OF assms [of x], of "\<lambda>_. write_each pack xs"
      "\<lambda>x. bindM (read_each unpack (length xs)) (\<lambda>xs. returnM (x # xs))", OF this]
  show ?case by simp
qed

lemma wired_slice [wire]:
  assumes "8 dvd LENGTH('n::len)" "\<And>x. wired (pack x) unpack (fits x) (sz x) K x"
  shows "wired (write_slice TYPE('n) field pack xs) (read_slice TYPE('n) unpack)
     (length xs < 2 ^ LENGTH('n) \<and> list_all fits xs)
     (of_nat (LENGTH('n) div 8) + total_size sz xs) (LENGTH('n) div 8 + (2 ^ LENGTH('n) - 1) * K) xs"
  unfolding write_slice_def read_slice_def
proof (rule wired_after_length [OF assms(1)])
  assume "length xs < 2 ^ LENGTH('n)"
  then show "wired (write_each pack xs) (read_each unpack (length xs)) (list_all fits xs)
      (total_size sz xs) ((2 ^ LENGTH('n) - 1) * K) xs"
    by (intro wired_eq [OF wired_each [OF assms(2)]] refl mult_le_mono1) simp
qed simp_all

text \<open>A union: the tag and the structure that belongs to it, or nothing.\<close>

lemma wired_member:
  fixes t :: "8 word"
  assumes "wired p u v n k x" "p' = p" "us t = bindM u (\<lambda>x. returnM (f x))" "f x = y"
  shows "wired (bindM (write_word t) (\<lambda>_. p')) (bindM read_word us) v (1 + n) (1 + k) y"
proof -
  have "wired (bindM (write_word t) (\<lambda>_. p)) (bindM read_word us) (True \<and> v)
      (of_nat (LENGTH(8) div 8) + n) (LENGTH(8) div 8 + k) y"
    by (rule wired_bind [OF wired_word]) (use wired_map [where f = f, OF assms(1,4)] assms(3) in simp_all)
  then show ?thesis by (simp add: assms(2))
qed

lemma wired_invalid:
  fixes t :: "8 word"
  assumes "p = returnM ()" "us t = returnM y"
  shows "wired (bindM (write_word t) (\<lambda>_. p)) (bindM read_word us) True 1 1 y"
proof -
  have "wired (bindM (write_word t) (\<lambda>_. p)) (bindM read_word us) (True \<and> True)
      (of_nat (LENGTH(8) div 8) + 0) (LENGTH(8) div 8 + 0) y"
    by (rule wired_bind [OF wired_word]) (use wired_return [of y y] assms in simp_all)
  then show ?thesis by simp
qed

section \<open>Reading anything\<close>

definition reader :: "'a reader \<Rightarrow> bool" where
  "reader u \<longleftrightarrow> (\<forall>buf. (\<exists>a d rest. buf = d @ rest \<and> (\<forall>r. u (d @ r) = (Ret a, r))) \<or>
     (\<exists>e buf'. u buf = (Fail (Errorf e), buf')))"

named_theorems reads "readers"

lemma readerE:
  assumes "reader u"
  obtains a d rest where "buf = d @ rest" "\<And>r. u (d @ r) = (Ret a, r)"
  | e buf' where "u buf = (Fail (Errorf e), buf')"
proof -
  have "(\<exists>a d rest. buf = d @ rest \<and> (\<forall>r. u (d @ r) = (Ret a, r))) \<or> (\<exists>e buf'. u buf = (Fail (Errorf e), buf'))"
    using assms unfolding reader_def by (rule spec)
  then show thesis by (elim disjE exE conjE) (use that in \<open>simp_all\<close>)
qed

lemma reader_bind:
  assumes "reader u" "\<And>a. reader (u' a)"
  shows "reader (bindM u u')"
  unfolding reader_def
proof
  fix buf
  show "(\<exists>a d rest. buf = d @ rest \<and> (\<forall>r. bindM u u' (d @ r) = (Ret a, r))) \<or>
     (\<exists>e buf'. bindM u u' buf = (Fail (Errorf e), buf'))"
  proof (rule readerE [OF assms(1), of buf])
    fix a d rest
    assume d: "buf = d @ rest" "\<And>r. u (d @ r) = (Ret a, r)"
    show ?thesis
    proof (rule readerE [OF assms(2) [of a], of rest])
      fix b d' rest'
      assume "rest = d' @ rest'" "\<And>r. u' a (d' @ r) = (Ret b, r)"
      with d show ?thesis
        by (intro disjI1 exI [of _ b] exI [of _ "d @ d'"] exI [of _ rest']) (simp add: bindM_def)
    next
      fix e buf'
      assume "u' a rest = (Fail (Errorf e), buf')"
      with d show ?thesis by (simp add: bindM_def)
    qed
  next
    fix e buf'
    assume "u buf = (Fail (Errorf e), buf')"
    then show ?thesis by (simp add: bindM_def)
  qed
qed

lemma reader_return [reads]: "reader (returnM a)"
proof -
  have "\<exists>d rest. buf = d @ rest \<and> (\<forall>r. returnM a (d @ r) = (Ret a, r))" for buf :: "byte list"
    by (intro exI [of _ "[]"] exI [of _ buf]) (simp add: returnM_def)
  then show ?thesis unfolding reader_def by blast
qed

lemma reader_fail [reads]: "reader (failM (Errorf e))"
  by (simp add: reader_def failM_def)

lemma reader_binary [reads]: "reader (binary_Read n)"
  unfolding reader_def
proof
  fix buf
  show "(\<exists>a d rest. buf = d @ rest \<and> (\<forall>r. binary_Read n (d @ r) = (Ret a, r))) \<or>
     (\<exists>e buf'. binary_Read n buf = (Fail (Errorf e), buf'))"
  proof (cases "n \<le> length buf")
    case True
    then show ?thesis
      by (intro disjI1 exI [of _ "take n buf"] exI [of _ "drop n buf"]) (simp add: binary_Read_def)
  next
    case False
    then show ?thesis by (simp add: binary_Read_def)
  qed
qed

lemma reader_string [reads]: "reader (read_string N)"
proof -
  have "reader (bindM (buf_Next n) (\<lambda>d. if length d \<noteq> n then failM (Errorf e) else returnM (f d)))" for n e and f :: "byte list \<Rightarrow> string"
    unfolding reader_def
  proof
    fix buf
    let ?u = "bindM (buf_Next n) (\<lambda>d. if length d \<noteq> n then failM (Errorf e) else returnM (f d))"
    show "(\<exists>a d rest. buf = d @ rest \<and> (\<forall>r. ?u (d @ r) = (Ret a, r))) \<or> (\<exists>e buf'. ?u buf = (Fail (Errorf e), buf'))"
    proof (cases "n \<le> length buf")
      case True
      then show ?thesis
        by (intro disjI1 exI [of _ "f (take n buf)"] exI [of _ "take n buf"] exI [of _ "drop n buf"])
          (simp add: buf_Next_def bindM_def returnM_def)
    next
      case False
      then show ?thesis by (simp add: buf_Next_def bindM_def failM_def)
    qed
  qed
  note this [reads]
  show ?thesis
    unfolding read_string_def read_length_def read_word_def by (rule reads | rule reader_bind)+
qed

lemma reader_fields [reads]:
  "reader read_word" "reader read_bool" "reader (read_length N)" "reader (read_bulk k dec n)"
  "reader (read_bulk_slice N k dec)"
  unfolding read_word_def read_bool_def read_length_def read_bulk_def read_bulk_slice_def by (rule reads reader_bind)+

lemma reader_each [reads]: "reader unpack \<Longrightarrow> reader (read_each unpack n)"
  by (induction n) (simp_all add: reads reader_bind)

lemma reader_slice [reads]: "reader unpack \<Longrightarrow> reader (read_slice N unpack)"
  unfolding read_slice_def by (rule reads reader_bind)+

lemma reader_if [reads]: "reader u \<Longrightarrow> reader u' \<Longrightarrow> reader (if b then u else u')"
  by simp

section \<open>Message types\<close>

text \<open>
  A message that is packed is read back, whatever follows it; what is cut short is refused with an
  error; what cannot be packed is refused with an error.
\<close>

definition reads_back :: "('a \<Rightarrow> writer) \<Rightarrow> 'a reader \<Rightarrow> ('a \<Rightarrow> bool) \<Rightarrow> bool" where
  "reads_back pack unpack fits \<longleftrightarrow> (\<forall>x.
     if fits x then \<exists>d. pack x [] = (Ret (), d) \<and> (\<forall>rest. unpack (d @ rest) = (Ret x, rest)) \<and>
                      (\<forall>b. strict_prefix b d \<longrightarrow> (\<exists>e buf. unpack b = (Fail (Errorf e), buf)))
     else \<exists>e buf. pack x [] = (Fail (Errorf e), buf))"

locale wire_codec =
  fixes pack :: "'a \<Rightarrow> writer" and unpack :: "'a reader" and fits :: "'a \<Rightarrow> bool"
    and sz :: "'a \<Rightarrow> uint32" and most :: nat
  assumes pack_wired: "wired (pack x) unpack (fits x) (sz x) most x"
    and unpack_reader: "reader unpack"
begin

definition bytes :: "'a \<Rightarrow> byte list" where
  "bytes x = snd (pack x [])"

lemma packed:
  assumes "fits x"
  shows "pack x buf = (Ret (), buf @ bytes x)" "unpack (bytes x @ rest) = (Ret x, rest)"
    "sz x = of_nat (length (bytes x))" "length (bytes x) \<le> most"
proof -
  obtain d where d: "sz x = of_nat (length d)" "length d \<le> most" "\<forall>buf. pack x buf = (Ret (), buf @ d)"
      "\<forall>rest. unpack (d @ rest) = (Ret x, rest)"
    using pack_wired [of x] assms by (auto simp: wired_def)
  then have "bytes x = d" by (simp add: bytes_def)
  with d show "pack x buf = (Ret (), buf @ bytes x)" "unpack (bytes x @ rest) = (Ret x, rest)"
    "sz x = of_nat (length (bytes x))" "length (bytes x) \<le> most"
    by simp_all
qed

lemma not_packed: "\<not> fits x \<Longrightarrow> \<exists>e buf'. pack x buf = (Fail (Errorf e), buf')"
  using pack_wired [of x] by (simp add: wired_def)

lemma bytes_inject: "fits x \<Longrightarrow> fits y \<Longrightarrow> bytes x = bytes y \<Longrightarrow> x = y"
  using packed(2) [of x "[]"] packed(2) [of y "[]"] by simp

text \<open>Nothing makes \<open>unpack\<close> panic.\<close>

lemma unpack_cases: "(\<exists>x rest. unpack buf = (Ret x, rest)) \<or> (\<exists>e rest. unpack buf = (Fail (Errorf e), rest))"
  by (rule readerE [OF unpack_reader, of buf]) auto

text \<open>A message that is cut short is refused.\<close>

lemma cut_short_refused:
  assumes "fits x" "strict_prefix b (bytes x)"
  shows "\<exists>e buf'. unpack b = (Fail (Errorf e), buf')"
proof (rule readerE [OF unpack_reader, of b])
  fix y d rest
  assume d: "b = d @ rest" "\<And>r. unpack (d @ r) = (Ret y, r)"
  obtain c cs where "bytes x = b @ c # cs" using assms(2) by (auto elim: strict_prefixE')
  then have "unpack (bytes x) = (Ret y, rest @ c # cs)" using d by simp
  moreover have "unpack (bytes x) = (Ret x, [])" using packed(2) [OF assms(1), of "[]"] by simp
  ultimately show ?thesis by simp
qed blast

lemma read_back: "reads_back pack unpack fits"
  unfolding reads_back_def
proof
  fix x
  show "if fits x then \<exists>d. pack x [] = (Ret (), d) \<and> (\<forall>rest. unpack (d @ rest) = (Ret x, rest)) \<and>
          (\<forall>b. strict_prefix b d \<longrightarrow> (\<exists>e buf. unpack b = (Fail (Errorf e), buf)))
        else \<exists>e buf. pack x [] = (Fail (Errorf e), buf)"
    using packed [of x] cut_short_refused [of x] not_packed [of x "[]"] by simp
qed

end

end
