(* ===== verification/Clad_To_Robot.thy ===== *)
theory Clad_To_Robot
  imports Clad_Messages Clad_Codec
begin

text \<open>
  The code of \<open>internal/clad/gateway/messageExternalToRobot.go\<close> that writes and reads the messages to the
  engine, and of the pose of \<open>shared.go\<close>.
\<close>

subsection \<open>\<open>PoseStruct3d\<close>\<close>

definition Pack_PoseStruct3d :: "pose_struct3d \<Rightarrow> writer" where
  "Pack_PoseStruct3d x =
     bindM (write_word (cladX x)) (\<lambda>_.
     bindM (write_word (cladY x)) (\<lambda>_.
     bindM (write_word (cladZ x)) (\<lambda>_.
     bindM (write_word (cladQ0 x)) (\<lambda>_.
     bindM (write_word (cladQ1 x)) (\<lambda>_.
     bindM (write_word (cladQ2 x)) (\<lambda>_.
     bindM (write_word (cladQ3 x)) (\<lambda>_.
     bindM (write_word (cladOriginID x)) (\<lambda>_.
     returnM ()))))))))"

definition Unpack_PoseStruct3d :: "pose_struct3d reader" where
  "Unpack_PoseStruct3d =
     bindM read_word (\<lambda>x.
     bindM read_word (\<lambda>y.
     bindM read_word (\<lambda>z.
     bindM read_word (\<lambda>q0.
     bindM read_word (\<lambda>q1.
     bindM read_word (\<lambda>q2.
     bindM read_word (\<lambda>q3.
     bindM read_word (\<lambda>originID.
     returnM \<lparr>cladX = x, cladY = y, cladZ = z, cladQ0 = q0, cladQ1 = q1, cladQ2 = q2, cladQ3 = q3, cladOriginID = originID\<rparr>))))))))"

definition Size_PoseStruct3d :: "pose_struct3d \<Rightarrow> uint32" where
  "Size_PoseStruct3d x = 4 + 4 + 4 + 4 + 4 + 4 + 4 + 4"

lemma wired_PoseStruct3d [wire]:
  "wired (Pack_PoseStruct3d x) Unpack_PoseStruct3d True (Size_PoseStruct3d x) 32 x"
  unfolding Pack_PoseStruct3d_def Unpack_PoseStruct3d_def
  by (rule wired_eq, (rule wire | simp add: Size_PoseStruct3d_def)+)

lemma reader_PoseStruct3d [reads]: "reader Unpack_PoseStruct3d"
  unfolding Unpack_PoseStruct3d_def by (rule reads reader_bind)+

subsection \<open>\<open>UiDeviceConnectionWrongVersion\<close>\<close>

definition Pack_UiDeviceConnectionWrongVersion :: "string \<Rightarrow> writer" where
  "Pack_UiDeviceConnectionWrongVersion x =
     bindM (write_string TYPE(8) ''PlaceHolder'' x) (\<lambda>_.
     returnM ())"

definition Unpack_UiDeviceConnectionWrongVersion :: "string reader" where
  "Unpack_UiDeviceConnectionWrongVersion =
     bindM (read_string TYPE(8)) (\<lambda>placeHolder.
     returnM placeHolder)"

definition Size_UiDeviceConnectionWrongVersion :: "string \<Rightarrow> uint32" where
  "Size_UiDeviceConnectionWrongVersion x = 1 + of_nat (length x)"

definition fits_UiDeviceConnectionWrongVersion :: "string \<Rightarrow> bool" where
  "fits_UiDeviceConnectionWrongVersion x \<longleftrightarrow> length x < 2 ^ 8"

lemma wired_UiDeviceConnectionWrongVersion [wire]:
  "wired (Pack_UiDeviceConnectionWrongVersion x) Unpack_UiDeviceConnectionWrongVersion (fits_UiDeviceConnectionWrongVersion x) (Size_UiDeviceConnectionWrongVersion x) 256 x"
  unfolding Pack_UiDeviceConnectionWrongVersion_def Unpack_UiDeviceConnectionWrongVersion_def
  by (rule wired_eq, (rule wire | simp add: fits_UiDeviceConnectionWrongVersion_def Size_UiDeviceConnectionWrongVersion_def)+)

lemma reader_UiDeviceConnectionWrongVersion [reads]: "reader Unpack_UiDeviceConnectionWrongVersion"
  unfolding Unpack_UiDeviceConnectionWrongVersion_def by (rule reads reader_bind)+

subsection \<open>\<open>MoveHead\<close>\<close>

definition Pack_MoveHead :: "float32 \<Rightarrow> writer" where
  "Pack_MoveHead x =
     bindM (write_word x) (\<lambda>_.
     returnM ())"

definition Unpack_MoveHead :: "float32 reader" where
  "Unpack_MoveHead =
     bindM read_word (\<lambda>speedRadPerSec.
     returnM speedRadPerSec)"

definition Size_MoveHead :: "float32 \<Rightarrow> uint32" where
  "Size_MoveHead x = 4"

lemma wired_MoveHead [wire]:
  "wired (Pack_MoveHead x) Unpack_MoveHead True (Size_MoveHead x) 4 x"
  unfolding Pack_MoveHead_def Unpack_MoveHead_def
  by (rule wired_eq, (rule wire | simp add: Size_MoveHead_def)+)

lemma reader_MoveHead [reads]: "reader Unpack_MoveHead"
  unfolding Unpack_MoveHead_def by (rule reads reader_bind)+

subsection \<open>\<open>MoveLift\<close>\<close>

definition Pack_MoveLift :: "float32 \<Rightarrow> writer" where
  "Pack_MoveLift x =
     bindM (write_word x) (\<lambda>_.
     returnM ())"

definition Unpack_MoveLift :: "float32 reader" where
  "Unpack_MoveLift =
     bindM read_word (\<lambda>speedRadPerSec.
     returnM speedRadPerSec)"

definition Size_MoveLift :: "float32 \<Rightarrow> uint32" where
  "Size_MoveLift x = 4"

lemma wired_MoveLift [wire]:
  "wired (Pack_MoveLift x) Unpack_MoveLift True (Size_MoveLift x) 4 x"
  unfolding Pack_MoveLift_def Unpack_MoveLift_def
  by (rule wired_eq, (rule wire | simp add: Size_MoveLift_def)+)

lemma reader_MoveLift [reads]: "reader Unpack_MoveLift"
  unfolding Unpack_MoveLift_def by (rule reads reader_bind)+

subsection \<open>\<open>DriveArc\<close>\<close>

definition Pack_DriveArc :: "drive_arc \<Rightarrow> writer" where
  "Pack_DriveArc x =
     bindM (write_word (DriveArc_Speed x)) (\<lambda>_.
     bindM (write_word (DriveArc_Accel x)) (\<lambda>_.
     bindM (write_word (DriveArc_CurvatureRadiusMm x)) (\<lambda>_.
     returnM ())))"

definition Unpack_DriveArc :: "drive_arc reader" where
  "Unpack_DriveArc =
     bindM read_word (\<lambda>speed.
     bindM read_word (\<lambda>accel.
     bindM read_word (\<lambda>curvatureRadiusMm.
     returnM \<lparr>DriveArc_Speed = speed, DriveArc_Accel = accel, DriveArc_CurvatureRadiusMm = curvatureRadiusMm\<rparr>)))"

definition Size_DriveArc :: "drive_arc \<Rightarrow> uint32" where
  "Size_DriveArc x = 4 + 4 + 2"

lemma wired_DriveArc [wire]:
  "wired (Pack_DriveArc x) Unpack_DriveArc True (Size_DriveArc x) 10 x"
  unfolding Pack_DriveArc_def Unpack_DriveArc_def
  by (rule wired_eq, (rule wire | simp add: Size_DriveArc_def)+)

lemma reader_DriveArc [reads]: "reader Unpack_DriveArc"
  unfolding Unpack_DriveArc_def by (rule reads reader_bind)+

subsection \<open>\<open>DisplayFaceImageRGBChunk\<close>\<close>

definition Pack_DisplayFaceImageRGBChunk :: "face_image_chunk \<Rightarrow> writer" where
  "Pack_DisplayFaceImageRGBChunk x =
     bindM (write_array 600 (le_bytes 2) (FaceData x)) (\<lambda>_.
     bindM (write_word (NumPixels x)) (\<lambda>_.
     bindM (write_word (ChunkIndex x)) (\<lambda>_.
     bindM (write_word (NumChunks x)) (\<lambda>_.
     bindM (write_word (DurationMs x)) (\<lambda>_.
     bindM (write_bool (InterruptRunning x)) (\<lambda>_.
     returnM ()))))))"

definition Unpack_DisplayFaceImageRGBChunk :: "face_image_chunk reader" where
  "Unpack_DisplayFaceImageRGBChunk =
     bindM (read_bulk 2 le_value 600) (\<lambda>faceData.
     bindM read_word (\<lambda>numPixels.
     bindM read_word (\<lambda>chunkIndex.
     bindM read_word (\<lambda>numChunks.
     bindM read_word (\<lambda>durationMs.
     bindM read_bool (\<lambda>interruptRunning.
     returnM \<lparr>FaceData = faceData, NumPixels = numPixels, ChunkIndex = chunkIndex, NumChunks = numChunks, DurationMs = durationMs, InterruptRunning = interruptRunning\<rparr>))))))"

definition Size_DisplayFaceImageRGBChunk :: "face_image_chunk \<Rightarrow> uint32" where
  "Size_DisplayFaceImageRGBChunk x = 600 * 2 + 2 + 1 + 1 + 4 + 1"

definition fits_DisplayFaceImageRGBChunk :: "face_image_chunk \<Rightarrow> bool" where
  "fits_DisplayFaceImageRGBChunk x \<longleftrightarrow> length (FaceData x) = 600"

lemma wired_DisplayFaceImageRGBChunk [wire]:
  "wired (Pack_DisplayFaceImageRGBChunk x) Unpack_DisplayFaceImageRGBChunk (fits_DisplayFaceImageRGBChunk x) (Size_DisplayFaceImageRGBChunk x) 1209 x"
  unfolding Pack_DisplayFaceImageRGBChunk_def Unpack_DisplayFaceImageRGBChunk_def
  by (rule wired_eq, (rule wire | simp add: fits_DisplayFaceImageRGBChunk_def Size_DisplayFaceImageRGBChunk_def)+)

lemma reader_DisplayFaceImageRGBChunk [reads]: "reader Unpack_DisplayFaceImageRGBChunk"
  unfolding Unpack_DisplayFaceImageRGBChunk_def by (rule reads reader_bind)+

subsection \<open>\<open>RobotHistoryRequest\<close>\<close>

definition Pack_RobotHistoryRequest :: "unit \<Rightarrow> writer" where
  "Pack_RobotHistoryRequest x =
     returnM ()"

definition Unpack_RobotHistoryRequest :: "unit reader" where
  "Unpack_RobotHistoryRequest =
     returnM ()"

definition Size_RobotHistoryRequest :: "unit \<Rightarrow> uint32" where
  "Size_RobotHistoryRequest x = 0"

lemma wired_RobotHistoryRequest [wire]:
  "wired (Pack_RobotHistoryRequest x) Unpack_RobotHistoryRequest True (Size_RobotHistoryRequest x) 0 x"
  unfolding Pack_RobotHistoryRequest_def Unpack_RobotHistoryRequest_def
  by (rule wired_eq, (rule wire | simp add: Size_RobotHistoryRequest_def)+)

lemma reader_RobotHistoryRequest [reads]: "reader Unpack_RobotHistoryRequest"
  unfolding Unpack_RobotHistoryRequest_def by (rule reads reader_bind)+

subsection \<open>\<open>AppIntent\<close>\<close>

definition Pack_AppIntent :: "(string \<times> string) \<Rightarrow> writer" where
  "Pack_AppIntent x =
     bindM (write_string TYPE(8) ''Intent'' (fst x)) (\<lambda>_.
     bindM (write_string TYPE(8) ''Param'' (snd x)) (\<lambda>_.
     returnM ()))"

definition Unpack_AppIntent :: "(string \<times> string) reader" where
  "Unpack_AppIntent =
     bindM (read_string TYPE(8)) (\<lambda>intent.
     bindM (read_string TYPE(8)) (\<lambda>param.
     returnM (intent, param)))"

definition Size_AppIntent :: "(string \<times> string) \<Rightarrow> uint32" where
  "Size_AppIntent x = 1 + of_nat (length (fst x)) + 1 + of_nat (length (snd x))"

definition fits_AppIntent :: "(string \<times> string) \<Rightarrow> bool" where
  "fits_AppIntent x \<longleftrightarrow> length (fst x) < 2 ^ 8 \<and> length (snd x) < 2 ^ 8"

lemma wired_AppIntent [wire]:
  "wired (Pack_AppIntent x) Unpack_AppIntent (fits_AppIntent x) (Size_AppIntent x) 512 x"
  unfolding Pack_AppIntent_def Unpack_AppIntent_def
  by (rule wired_eq, (rule wire | simp add: fits_AppIntent_def Size_AppIntent_def)+)

lemma reader_AppIntent [reads]: "reader Unpack_AppIntent"
  unfolding Unpack_AppIntent_def by (rule reads reader_bind)+

subsection \<open>\<open>CancelFaceEnrollment\<close>\<close>

definition Pack_CancelFaceEnrollment :: "unit \<Rightarrow> writer" where
  "Pack_CancelFaceEnrollment x =
     returnM ()"

definition Unpack_CancelFaceEnrollment :: "unit reader" where
  "Unpack_CancelFaceEnrollment =
     returnM ()"

definition Size_CancelFaceEnrollment :: "unit \<Rightarrow> uint32" where
  "Size_CancelFaceEnrollment x = 0"

lemma wired_CancelFaceEnrollment [wire]:
  "wired (Pack_CancelFaceEnrollment x) Unpack_CancelFaceEnrollment True (Size_CancelFaceEnrollment x) 0 x"
  unfolding Pack_CancelFaceEnrollment_def Unpack_CancelFaceEnrollment_def
  by (rule wired_eq, (rule wire | simp add: Size_CancelFaceEnrollment_def)+)

lemma reader_CancelFaceEnrollment [reads]: "reader Unpack_CancelFaceEnrollment"
  unfolding Unpack_CancelFaceEnrollment_def by (rule reads reader_bind)+

subsection \<open>\<open>RequestEnrolledNames\<close>\<close>

definition Pack_RequestEnrolledNames :: "unit \<Rightarrow> writer" where
  "Pack_RequestEnrolledNames x =
     returnM ()"

definition Unpack_RequestEnrolledNames :: "unit reader" where
  "Unpack_RequestEnrolledNames =
     returnM ()"

definition Size_RequestEnrolledNames :: "unit \<Rightarrow> uint32" where
  "Size_RequestEnrolledNames x = 0"

lemma wired_RequestEnrolledNames [wire]:
  "wired (Pack_RequestEnrolledNames x) Unpack_RequestEnrolledNames True (Size_RequestEnrolledNames x) 0 x"
  unfolding Pack_RequestEnrolledNames_def Unpack_RequestEnrolledNames_def
  by (rule wired_eq, (rule wire | simp add: Size_RequestEnrolledNames_def)+)

lemma reader_RequestEnrolledNames [reads]: "reader Unpack_RequestEnrolledNames"
  unfolding Unpack_RequestEnrolledNames_def by (rule reads reader_bind)+

subsection \<open>\<open>UpdateEnrolledFaceByID\<close>\<close>

definition Pack_UpdateEnrolledFaceByID :: "(int32 \<times> string \<times> string) \<Rightarrow> writer" where
  "Pack_UpdateEnrolledFaceByID x =
     bindM (write_word (fst x)) (\<lambda>_.
     bindM (write_string TYPE(8) ''OldName'' (fst (snd x))) (\<lambda>_.
     bindM (write_string TYPE(8) ''NewName'' (snd (snd x))) (\<lambda>_.
     returnM ())))"

definition Unpack_UpdateEnrolledFaceByID :: "(int32 \<times> string \<times> string) reader" where
  "Unpack_UpdateEnrolledFaceByID =
     bindM read_word (\<lambda>faceID.
     bindM (read_string TYPE(8)) (\<lambda>oldName.
     bindM (read_string TYPE(8)) (\<lambda>newName.
     returnM (faceID, oldName, newName))))"

definition Size_UpdateEnrolledFaceByID :: "(int32 \<times> string \<times> string) \<Rightarrow> uint32" where
  "Size_UpdateEnrolledFaceByID x = 4 + 1 + of_nat (length (fst (snd x))) + 1 + of_nat (length (snd (snd x)))"

definition fits_UpdateEnrolledFaceByID :: "(int32 \<times> string \<times> string) \<Rightarrow> bool" where
  "fits_UpdateEnrolledFaceByID x \<longleftrightarrow> length (fst (snd x)) < 2 ^ 8 \<and> length (snd (snd x)) < 2 ^ 8"

lemma wired_UpdateEnrolledFaceByID [wire]:
  "wired (Pack_UpdateEnrolledFaceByID x) Unpack_UpdateEnrolledFaceByID (fits_UpdateEnrolledFaceByID x) (Size_UpdateEnrolledFaceByID x) 516 x"
  unfolding Pack_UpdateEnrolledFaceByID_def Unpack_UpdateEnrolledFaceByID_def
  by (rule wired_eq, (rule wire | simp add: fits_UpdateEnrolledFaceByID_def Size_UpdateEnrolledFaceByID_def)+)

lemma reader_UpdateEnrolledFaceByID [reads]: "reader Unpack_UpdateEnrolledFaceByID"
  unfolding Unpack_UpdateEnrolledFaceByID_def by (rule reads reader_bind)+

subsection \<open>\<open>EraseEnrolledFaceByID\<close>\<close>

definition Pack_EraseEnrolledFaceByID :: "int32 \<Rightarrow> writer" where
  "Pack_EraseEnrolledFaceByID x =
     bindM (write_word x) (\<lambda>_.
     returnM ())"

definition Unpack_EraseEnrolledFaceByID :: "int32 reader" where
  "Unpack_EraseEnrolledFaceByID =
     bindM read_word (\<lambda>faceID.
     returnM faceID)"

definition Size_EraseEnrolledFaceByID :: "int32 \<Rightarrow> uint32" where
  "Size_EraseEnrolledFaceByID x = 4"

lemma wired_EraseEnrolledFaceByID [wire]:
  "wired (Pack_EraseEnrolledFaceByID x) Unpack_EraseEnrolledFaceByID True (Size_EraseEnrolledFaceByID x) 4 x"
  unfolding Pack_EraseEnrolledFaceByID_def Unpack_EraseEnrolledFaceByID_def
  by (rule wired_eq, (rule wire | simp add: Size_EraseEnrolledFaceByID_def)+)

lemma reader_EraseEnrolledFaceByID [reads]: "reader Unpack_EraseEnrolledFaceByID"
  unfolding Unpack_EraseEnrolledFaceByID_def by (rule reads reader_bind)+

subsection \<open>\<open>EraseAllEnrolledFaces\<close>\<close>

definition Pack_EraseAllEnrolledFaces :: "unit \<Rightarrow> writer" where
  "Pack_EraseAllEnrolledFaces x =
     returnM ()"

definition Unpack_EraseAllEnrolledFaces :: "unit reader" where
  "Unpack_EraseAllEnrolledFaces =
     returnM ()"

definition Size_EraseAllEnrolledFaces :: "unit \<Rightarrow> uint32" where
  "Size_EraseAllEnrolledFaces x = 0"

lemma wired_EraseAllEnrolledFaces [wire]:
  "wired (Pack_EraseAllEnrolledFaces x) Unpack_EraseAllEnrolledFaces True (Size_EraseAllEnrolledFaces x) 0 x"
  unfolding Pack_EraseAllEnrolledFaces_def Unpack_EraseAllEnrolledFaces_def
  by (rule wired_eq, (rule wire | simp add: Size_EraseAllEnrolledFaces_def)+)

lemma reader_EraseAllEnrolledFaces [reads]: "reader Unpack_EraseAllEnrolledFaces"
  unfolding Unpack_EraseAllEnrolledFaces_def by (rule reads reader_bind)+

subsection \<open>\<open>SetFaceToEnroll\<close>\<close>

definition Pack_SetFaceToEnroll :: "set_face_to_enroll \<Rightarrow> writer" where
  "Pack_SetFaceToEnroll x =
     bindM (write_string TYPE(8) ''Name'' (SetFaceToEnroll_Name x)) (\<lambda>_.
     bindM (write_word (SetFaceToEnroll_ObservedID x)) (\<lambda>_.
     bindM (write_word (SetFaceToEnroll_SaveID x)) (\<lambda>_.
     bindM (write_bool (SetFaceToEnroll_SaveToRobot x)) (\<lambda>_.
     bindM (write_bool (SetFaceToEnroll_SayName x)) (\<lambda>_.
     bindM (write_bool (SetFaceToEnroll_UseMusic x)) (\<lambda>_.
     returnM ()))))))"

definition Unpack_SetFaceToEnroll :: "set_face_to_enroll reader" where
  "Unpack_SetFaceToEnroll =
     bindM (read_string TYPE(8)) (\<lambda>name.
     bindM read_word (\<lambda>observedID.
     bindM read_word (\<lambda>saveID.
     bindM read_bool (\<lambda>saveToRobot.
     bindM read_bool (\<lambda>sayName.
     bindM read_bool (\<lambda>useMusic.
     returnM \<lparr>SetFaceToEnroll_Name = name, SetFaceToEnroll_ObservedID = observedID, SetFaceToEnroll_SaveID = saveID, SetFaceToEnroll_SaveToRobot = saveToRobot, SetFaceToEnroll_SayName = sayName, SetFaceToEnroll_UseMusic = useMusic\<rparr>))))))"

definition Size_SetFaceToEnroll :: "set_face_to_enroll \<Rightarrow> uint32" where
  "Size_SetFaceToEnroll x = 1 + of_nat (length (SetFaceToEnroll_Name x)) + 4 + 4 + 1 + 1 + 1"

definition fits_SetFaceToEnroll :: "set_face_to_enroll \<Rightarrow> bool" where
  "fits_SetFaceToEnroll x \<longleftrightarrow> length (SetFaceToEnroll_Name x) < 2 ^ 8"

lemma wired_SetFaceToEnroll [wire]:
  "wired (Pack_SetFaceToEnroll x) Unpack_SetFaceToEnroll (fits_SetFaceToEnroll x) (Size_SetFaceToEnroll x) 267 x"
  unfolding Pack_SetFaceToEnroll_def Unpack_SetFaceToEnroll_def
  by (rule wired_eq, (rule wire | simp add: fits_SetFaceToEnroll_def Size_SetFaceToEnroll_def)+)

lemma reader_SetFaceToEnroll [reads]: "reader Unpack_SetFaceToEnroll"
  unfolding Unpack_SetFaceToEnroll_def by (rule reads reader_bind)+

subsection \<open>\<open>EnableVisionMode\<close>\<close>

definition Pack_EnableVisionMode :: "enable_vision_mode \<Rightarrow> writer" where
  "Pack_EnableVisionMode x =
     bindM (write_word (EnableVisionMode_Mode x)) (\<lambda>_.
     bindM (write_bool (EnableVisionMode_Enable x)) (\<lambda>_.
     returnM ()))"

definition Unpack_EnableVisionMode :: "enable_vision_mode reader" where
  "Unpack_EnableVisionMode =
     bindM read_word (\<lambda>mode.
     bindM read_bool (\<lambda>enable.
     returnM \<lparr>EnableVisionMode_Mode = mode, EnableVisionMode_Enable = enable\<rparr>))"

definition Size_EnableVisionMode :: "enable_vision_mode \<Rightarrow> uint32" where
  "Size_EnableVisionMode x = 4 + 1"

lemma wired_EnableVisionMode [wire]:
  "wired (Pack_EnableVisionMode x) Unpack_EnableVisionMode True (Size_EnableVisionMode x) 5 x"
  unfolding Pack_EnableVisionMode_def Unpack_EnableVisionMode_def
  by (rule wired_eq, (rule wire | simp add: Size_EnableVisionMode_def)+)

lemma reader_EnableVisionMode [reads]: "reader Unpack_EnableVisionMode"
  unfolding Unpack_EnableVisionMode_def by (rule reads reader_bind)+

subsection \<open>\<open>PathMotionProfile\<close>\<close>

definition Pack_PathMotionProfile :: "path_motion_profile \<Rightarrow> writer" where
  "Pack_PathMotionProfile x =
     bindM (write_word (PathMotionProfile_SpeedMmps x)) (\<lambda>_.
     bindM (write_word (PathMotionProfile_AccelMmps2 x)) (\<lambda>_.
     bindM (write_word (PathMotionProfile_DecelMmps2 x)) (\<lambda>_.
     bindM (write_word (PathMotionProfile_PointTurnSpeedRadPerSec x)) (\<lambda>_.
     bindM (write_word (PathMotionProfile_PointTurnAccelRadPerSec2 x)) (\<lambda>_.
     bindM (write_word (PathMotionProfile_PointTurnDecelRadPerSec2 x)) (\<lambda>_.
     bindM (write_word (PathMotionProfile_DockSpeedMmps x)) (\<lambda>_.
     bindM (write_word (PathMotionProfile_DockAccelMmps2 x)) (\<lambda>_.
     bindM (write_word (PathMotionProfile_DockDecelMmps2 x)) (\<lambda>_.
     bindM (write_word (PathMotionProfile_ReverseSpeedMmps x)) (\<lambda>_.
     bindM (write_bool (PathMotionProfile_IsCustom x)) (\<lambda>_.
     returnM ())))))))))))"

definition Unpack_PathMotionProfile :: "path_motion_profile reader" where
  "Unpack_PathMotionProfile =
     bindM read_word (\<lambda>speedMmps.
     bindM read_word (\<lambda>accelMmps2.
     bindM read_word (\<lambda>decelMmps2.
     bindM read_word (\<lambda>pointTurnSpeedRadPerSec.
     bindM read_word (\<lambda>pointTurnAccelRadPerSec2.
     bindM read_word (\<lambda>pointTurnDecelRadPerSec2.
     bindM read_word (\<lambda>dockSpeedMmps.
     bindM read_word (\<lambda>dockAccelMmps2.
     bindM read_word (\<lambda>dockDecelMmps2.
     bindM read_word (\<lambda>reverseSpeedMmps.
     bindM read_bool (\<lambda>isCustom.
     returnM \<lparr>PathMotionProfile_SpeedMmps = speedMmps, PathMotionProfile_AccelMmps2 = accelMmps2, PathMotionProfile_DecelMmps2 = decelMmps2, PathMotionProfile_PointTurnSpeedRadPerSec = pointTurnSpeedRadPerSec, PathMotionProfile_PointTurnAccelRadPerSec2 = pointTurnAccelRadPerSec2, PathMotionProfile_PointTurnDecelRadPerSec2 = pointTurnDecelRadPerSec2, PathMotionProfile_DockSpeedMmps = dockSpeedMmps, PathMotionProfile_DockAccelMmps2 = dockAccelMmps2, PathMotionProfile_DockDecelMmps2 = dockDecelMmps2, PathMotionProfile_ReverseSpeedMmps = reverseSpeedMmps, PathMotionProfile_IsCustom = isCustom\<rparr>)))))))))))"

definition Size_PathMotionProfile :: "path_motion_profile \<Rightarrow> uint32" where
  "Size_PathMotionProfile x = 4 + 4 + 4 + 4 + 4 + 4 + 4 + 4 + 4 + 4 + 1"

lemma wired_PathMotionProfile [wire]:
  "wired (Pack_PathMotionProfile x) Unpack_PathMotionProfile True (Size_PathMotionProfile x) 41 x"
  unfolding Pack_PathMotionProfile_def Unpack_PathMotionProfile_def
  by (rule wired_eq, (rule wire | simp add: Size_PathMotionProfile_def)+)

lemma reader_PathMotionProfile [reads]: "reader Unpack_PathMotionProfile"
  unfolding Unpack_PathMotionProfile_def by (rule reads reader_bind)+

subsection \<open>\<open>GotoPose\<close>\<close>

definition Pack_GotoPose :: "goto_pose \<Rightarrow> writer" where
  "Pack_GotoPose x =
     bindM (write_word (GotoPose_XMm x)) (\<lambda>_.
     bindM (write_word (GotoPose_YMm x)) (\<lambda>_.
     bindM (write_word (GotoPose_Rad x)) (\<lambda>_.
     bindM (Pack_PathMotionProfile (GotoPose_MotionProf x)) (\<lambda>_.
     bindM (write_word (GotoPose_Level x)) (\<lambda>_.
     returnM ())))))"

definition Unpack_GotoPose :: "goto_pose reader" where
  "Unpack_GotoPose =
     bindM read_word (\<lambda>xMm.
     bindM read_word (\<lambda>yMm.
     bindM read_word (\<lambda>rad.
     bindM Unpack_PathMotionProfile (\<lambda>motionProf.
     bindM read_word (\<lambda>level.
     returnM \<lparr>GotoPose_XMm = xMm, GotoPose_YMm = yMm, GotoPose_Rad = rad, GotoPose_MotionProf = motionProf, GotoPose_Level = level\<rparr>)))))"

definition Size_GotoPose :: "goto_pose \<Rightarrow> uint32" where
  "Size_GotoPose x = 4 + 4 + 4 + Size_PathMotionProfile (GotoPose_MotionProf x) + 1"

lemma wired_GotoPose [wire]:
  "wired (Pack_GotoPose x) Unpack_GotoPose True (Size_GotoPose x) 54 x"
  unfolding Pack_GotoPose_def Unpack_GotoPose_def
  by (rule wired_eq, (rule wire | simp add: Size_GotoPose_def)+)

lemma reader_GotoPose [reads]: "reader Unpack_GotoPose"
  unfolding Unpack_GotoPose_def by (rule reads reader_bind)+

subsection \<open>\<open>DriveStraight\<close>\<close>

definition Pack_DriveStraight :: "drive_straight \<Rightarrow> writer" where
  "Pack_DriveStraight x =
     bindM (write_word (DriveStraight_SpeedMmps x)) (\<lambda>_.
     bindM (write_word (DriveStraight_DistMm x)) (\<lambda>_.
     bindM (write_bool (DriveStraight_ShouldPlayAnimation x)) (\<lambda>_.
     returnM ())))"

definition Unpack_DriveStraight :: "drive_straight reader" where
  "Unpack_DriveStraight =
     bindM read_word (\<lambda>speedMmps.
     bindM read_word (\<lambda>distMm.
     bindM read_bool (\<lambda>shouldPlayAnimation.
     returnM \<lparr>DriveStraight_SpeedMmps = speedMmps, DriveStraight_DistMm = distMm, DriveStraight_ShouldPlayAnimation = shouldPlayAnimation\<rparr>)))"

definition Size_DriveStraight :: "drive_straight \<Rightarrow> uint32" where
  "Size_DriveStraight x = 4 + 4 + 1"

lemma wired_DriveStraight [wire]:
  "wired (Pack_DriveStraight x) Unpack_DriveStraight True (Size_DriveStraight x) 9 x"
  unfolding Pack_DriveStraight_def Unpack_DriveStraight_def
  by (rule wired_eq, (rule wire | simp add: Size_DriveStraight_def)+)

lemma reader_DriveStraight [reads]: "reader Unpack_DriveStraight"
  unfolding Unpack_DriveStraight_def by (rule reads reader_bind)+

subsection \<open>\<open>TurnInPlace\<close>\<close>

definition Pack_TurnInPlace :: "turn_in_place \<Rightarrow> writer" where
  "Pack_TurnInPlace x =
     bindM (write_word (TurnInPlace_AngleRad x)) (\<lambda>_.
     bindM (write_word (TurnInPlace_SpeedRadPerSec x)) (\<lambda>_.
     bindM (write_word (TurnInPlace_AccelRadPerSec2 x)) (\<lambda>_.
     bindM (write_word (TurnInPlace_TolRad x)) (\<lambda>_.
     bindM (write_word (TurnInPlace_IsAbsolute x)) (\<lambda>_.
     returnM ())))))"

definition Unpack_TurnInPlace :: "turn_in_place reader" where
  "Unpack_TurnInPlace =
     bindM read_word (\<lambda>angleRad.
     bindM read_word (\<lambda>speedRadPerSec.
     bindM read_word (\<lambda>accelRadPerSec2.
     bindM read_word (\<lambda>tolRad.
     bindM read_word (\<lambda>isAbsolute.
     returnM \<lparr>TurnInPlace_AngleRad = angleRad, TurnInPlace_SpeedRadPerSec = speedRadPerSec, TurnInPlace_AccelRadPerSec2 = accelRadPerSec2, TurnInPlace_TolRad = tolRad, TurnInPlace_IsAbsolute = isAbsolute\<rparr>)))))"

definition Size_TurnInPlace :: "turn_in_place \<Rightarrow> uint32" where
  "Size_TurnInPlace x = 4 + 4 + 4 + 4 + 1"

lemma wired_TurnInPlace [wire]:
  "wired (Pack_TurnInPlace x) Unpack_TurnInPlace True (Size_TurnInPlace x) 17 x"
  unfolding Pack_TurnInPlace_def Unpack_TurnInPlace_def
  by (rule wired_eq, (rule wire | simp add: Size_TurnInPlace_def)+)

lemma reader_TurnInPlace [reads]: "reader Unpack_TurnInPlace"
  unfolding Unpack_TurnInPlace_def by (rule reads reader_bind)+

subsection \<open>\<open>SetHeadAngle\<close>\<close>

definition Pack_SetHeadAngle :: "set_head_angle \<Rightarrow> writer" where
  "Pack_SetHeadAngle x =
     bindM (write_word (SetHeadAngle_AngleRad x)) (\<lambda>_.
     bindM (write_word (SetHeadAngle_MaxSpeedRadPerSec x)) (\<lambda>_.
     bindM (write_word (SetHeadAngle_AccelRadPerSec2 x)) (\<lambda>_.
     bindM (write_word (SetHeadAngle_DurationSec x)) (\<lambda>_.
     returnM ()))))"

definition Unpack_SetHeadAngle :: "set_head_angle reader" where
  "Unpack_SetHeadAngle =
     bindM read_word (\<lambda>angleRad.
     bindM read_word (\<lambda>maxSpeedRadPerSec.
     bindM read_word (\<lambda>accelRadPerSec2.
     bindM read_word (\<lambda>durationSec.
     returnM \<lparr>SetHeadAngle_AngleRad = angleRad, SetHeadAngle_MaxSpeedRadPerSec = maxSpeedRadPerSec, SetHeadAngle_AccelRadPerSec2 = accelRadPerSec2, SetHeadAngle_DurationSec = durationSec\<rparr>))))"

definition Size_SetHeadAngle :: "set_head_angle \<Rightarrow> uint32" where
  "Size_SetHeadAngle x = 4 + 4 + 4 + 4"

lemma wired_SetHeadAngle [wire]:
  "wired (Pack_SetHeadAngle x) Unpack_SetHeadAngle True (Size_SetHeadAngle x) 16 x"
  unfolding Pack_SetHeadAngle_def Unpack_SetHeadAngle_def
  by (rule wired_eq, (rule wire | simp add: Size_SetHeadAngle_def)+)

lemma reader_SetHeadAngle [reads]: "reader Unpack_SetHeadAngle"
  unfolding Unpack_SetHeadAngle_def by (rule reads reader_bind)+

subsection \<open>\<open>SetLiftHeight\<close>\<close>

definition Pack_SetLiftHeight :: "set_lift_height \<Rightarrow> writer" where
  "Pack_SetLiftHeight x =
     bindM (write_word (SetLiftHeight_HeightMm x)) (\<lambda>_.
     bindM (write_word (SetLiftHeight_MaxSpeedRadPerSec x)) (\<lambda>_.
     bindM (write_word (SetLiftHeight_AccelRadPerSec2 x)) (\<lambda>_.
     bindM (write_word (SetLiftHeight_DurationSec x)) (\<lambda>_.
     returnM ()))))"

definition Unpack_SetLiftHeight :: "set_lift_height reader" where
  "Unpack_SetLiftHeight =
     bindM read_word (\<lambda>heightMm.
     bindM read_word (\<lambda>maxSpeedRadPerSec.
     bindM read_word (\<lambda>accelRadPerSec2.
     bindM read_word (\<lambda>durationSec.
     returnM \<lparr>SetLiftHeight_HeightMm = heightMm, SetLiftHeight_MaxSpeedRadPerSec = maxSpeedRadPerSec, SetLiftHeight_AccelRadPerSec2 = accelRadPerSec2, SetLiftHeight_DurationSec = durationSec\<rparr>))))"

definition Size_SetLiftHeight :: "set_lift_height \<Rightarrow> uint32" where
  "Size_SetLiftHeight x = 4 + 4 + 4 + 4"

lemma wired_SetLiftHeight [wire]:
  "wired (Pack_SetLiftHeight x) Unpack_SetLiftHeight True (Size_SetLiftHeight x) 16 x"
  unfolding Pack_SetLiftHeight_def Unpack_SetLiftHeight_def
  by (rule wired_eq, (rule wire | simp add: Size_SetLiftHeight_def)+)

lemma reader_SetLiftHeight [reads]: "reader Unpack_SetLiftHeight"
  unfolding Unpack_SetLiftHeight_def by (rule reads reader_bind)+

subsection \<open>\<open>AlignWithObject\<close>\<close>

definition Pack_AlignWithObject :: "align_with_object \<Rightarrow> writer" where
  "Pack_AlignWithObject x =
     bindM (write_word (AlignWithObject_ObjectID x)) (\<lambda>_.
     bindM (Pack_PathMotionProfile (AlignWithObject_MotionProf x)) (\<lambda>_.
     bindM (write_word (AlignWithObject_DistanceFromMarkerMm x)) (\<lambda>_.
     bindM (write_word (AlignWithObject_ApproachAngleRad x)) (\<lambda>_.
     bindM (write_bool (AlignWithObject_UseApproachAngle x)) (\<lambda>_.
     bindM (write_bool (AlignWithObject_UsePreDockPose x)) (\<lambda>_.
     bindM (write_word (AlignWithObject_AlignmentType x)) (\<lambda>_.
     returnM ())))))))"

definition Unpack_AlignWithObject :: "align_with_object reader" where
  "Unpack_AlignWithObject =
     bindM read_word (\<lambda>objectID.
     bindM Unpack_PathMotionProfile (\<lambda>motionProf.
     bindM read_word (\<lambda>distanceFromMarkerMm.
     bindM read_word (\<lambda>approachAngleRad.
     bindM read_bool (\<lambda>useApproachAngle.
     bindM read_bool (\<lambda>usePreDockPose.
     bindM read_word (\<lambda>alignmentType.
     returnM \<lparr>AlignWithObject_ObjectID = objectID, AlignWithObject_MotionProf = motionProf, AlignWithObject_DistanceFromMarkerMm = distanceFromMarkerMm, AlignWithObject_ApproachAngleRad = approachAngleRad, AlignWithObject_UseApproachAngle = useApproachAngle, AlignWithObject_UsePreDockPose = usePreDockPose, AlignWithObject_AlignmentType = alignmentType\<rparr>)))))))"

definition Size_AlignWithObject :: "align_with_object \<Rightarrow> uint32" where
  "Size_AlignWithObject x = 4 + Size_PathMotionProfile (AlignWithObject_MotionProf x) + 4 + 4 + 1 + 1 + 1"

lemma wired_AlignWithObject [wire]:
  "wired (Pack_AlignWithObject x) Unpack_AlignWithObject True (Size_AlignWithObject x) 56 x"
  unfolding Pack_AlignWithObject_def Unpack_AlignWithObject_def
  by (rule wired_eq, (rule wire | simp add: Size_AlignWithObject_def)+)

lemma reader_AlignWithObject [reads]: "reader Unpack_AlignWithObject"
  unfolding Unpack_AlignWithObject_def by (rule reads reader_bind)+

subsection \<open>\<open>SetLiftAngle\<close>\<close>

definition Pack_SetLiftAngle :: "set_lift_angle \<Rightarrow> writer" where
  "Pack_SetLiftAngle x =
     bindM (write_word (SetLiftAngle_AngleRad x)) (\<lambda>_.
     bindM (write_word (SetLiftAngle_MaxSpeedRadPerSec x)) (\<lambda>_.
     bindM (write_word (SetLiftAngle_AccelRadPerSec2 x)) (\<lambda>_.
     bindM (write_word (SetLiftAngle_DurationSec x)) (\<lambda>_.
     returnM ()))))"

definition Unpack_SetLiftAngle :: "set_lift_angle reader" where
  "Unpack_SetLiftAngle =
     bindM read_word (\<lambda>angleRad.
     bindM read_word (\<lambda>maxSpeedRadPerSec.
     bindM read_word (\<lambda>accelRadPerSec2.
     bindM read_word (\<lambda>durationSec.
     returnM \<lparr>SetLiftAngle_AngleRad = angleRad, SetLiftAngle_MaxSpeedRadPerSec = maxSpeedRadPerSec, SetLiftAngle_AccelRadPerSec2 = accelRadPerSec2, SetLiftAngle_DurationSec = durationSec\<rparr>))))"

definition Size_SetLiftAngle :: "set_lift_angle \<Rightarrow> uint32" where
  "Size_SetLiftAngle x = 4 + 4 + 4 + 4"

lemma wired_SetLiftAngle [wire]:
  "wired (Pack_SetLiftAngle x) Unpack_SetLiftAngle True (Size_SetLiftAngle x) 16 x"
  unfolding Pack_SetLiftAngle_def Unpack_SetLiftAngle_def
  by (rule wired_eq, (rule wire | simp add: Size_SetLiftAngle_def)+)

lemma reader_SetLiftAngle [reads]: "reader Unpack_SetLiftAngle"
  unfolding Unpack_SetLiftAngle_def by (rule reads reader_bind)+

subsection \<open>\<open>DeleteCustomMarkerObjects\<close>\<close>

definition Pack_DeleteCustomMarkerObjects :: "unit \<Rightarrow> writer" where
  "Pack_DeleteCustomMarkerObjects x =
     returnM ()"

definition Unpack_DeleteCustomMarkerObjects :: "unit reader" where
  "Unpack_DeleteCustomMarkerObjects =
     returnM ()"

definition Size_DeleteCustomMarkerObjects :: "unit \<Rightarrow> uint32" where
  "Size_DeleteCustomMarkerObjects x = 0"

lemma wired_DeleteCustomMarkerObjects [wire]:
  "wired (Pack_DeleteCustomMarkerObjects x) Unpack_DeleteCustomMarkerObjects True (Size_DeleteCustomMarkerObjects x) 0 x"
  unfolding Pack_DeleteCustomMarkerObjects_def Unpack_DeleteCustomMarkerObjects_def
  by (rule wired_eq, (rule wire | simp add: Size_DeleteCustomMarkerObjects_def)+)

lemma reader_DeleteCustomMarkerObjects [reads]: "reader Unpack_DeleteCustomMarkerObjects"
  unfolding Unpack_DeleteCustomMarkerObjects_def by (rule reads reader_bind)+

subsection \<open>\<open>DeleteFixedCustomObjects\<close>\<close>

definition Pack_DeleteFixedCustomObjects :: "unit \<Rightarrow> writer" where
  "Pack_DeleteFixedCustomObjects x =
     returnM ()"

definition Unpack_DeleteFixedCustomObjects :: "unit reader" where
  "Unpack_DeleteFixedCustomObjects =
     returnM ()"

definition Size_DeleteFixedCustomObjects :: "unit \<Rightarrow> uint32" where
  "Size_DeleteFixedCustomObjects x = 0"

lemma wired_DeleteFixedCustomObjects [wire]:
  "wired (Pack_DeleteFixedCustomObjects x) Unpack_DeleteFixedCustomObjects True (Size_DeleteFixedCustomObjects x) 0 x"
  unfolding Pack_DeleteFixedCustomObjects_def Unpack_DeleteFixedCustomObjects_def
  by (rule wired_eq, (rule wire | simp add: Size_DeleteFixedCustomObjects_def)+)

lemma reader_DeleteFixedCustomObjects [reads]: "reader Unpack_DeleteFixedCustomObjects"
  unfolding Unpack_DeleteFixedCustomObjects_def by (rule reads reader_bind)+

subsection \<open>\<open>UndefineAllCustomMarkerObjects\<close>\<close>

definition Pack_UndefineAllCustomMarkerObjects :: "unit \<Rightarrow> writer" where
  "Pack_UndefineAllCustomMarkerObjects x =
     returnM ()"

definition Unpack_UndefineAllCustomMarkerObjects :: "unit reader" where
  "Unpack_UndefineAllCustomMarkerObjects =
     returnM ()"

definition Size_UndefineAllCustomMarkerObjects :: "unit \<Rightarrow> uint32" where
  "Size_UndefineAllCustomMarkerObjects x = 0"

lemma wired_UndefineAllCustomMarkerObjects [wire]:
  "wired (Pack_UndefineAllCustomMarkerObjects x) Unpack_UndefineAllCustomMarkerObjects True (Size_UndefineAllCustomMarkerObjects x) 0 x"
  unfolding Pack_UndefineAllCustomMarkerObjects_def Unpack_UndefineAllCustomMarkerObjects_def
  by (rule wired_eq, (rule wire | simp add: Size_UndefineAllCustomMarkerObjects_def)+)

lemma reader_UndefineAllCustomMarkerObjects [reads]: "reader Unpack_UndefineAllCustomMarkerObjects"
  unfolding Unpack_UndefineAllCustomMarkerObjects_def by (rule reads reader_bind)+

subsection \<open>\<open>CreateFixedCustomObject\<close>\<close>

definition Pack_CreateFixedCustomObject :: "(pose_struct3d \<times> float32 \<times> float32 \<times> float32) \<Rightarrow> writer" where
  "Pack_CreateFixedCustomObject x =
     bindM (Pack_PoseStruct3d (fst x)) (\<lambda>_.
     bindM (write_word (fst (snd x))) (\<lambda>_.
     bindM (write_word (fst (snd (snd x)))) (\<lambda>_.
     bindM (write_word (snd (snd (snd x)))) (\<lambda>_.
     returnM ()))))"

definition Unpack_CreateFixedCustomObject :: "(pose_struct3d \<times> float32 \<times> float32 \<times> float32) reader" where
  "Unpack_CreateFixedCustomObject =
     bindM Unpack_PoseStruct3d (\<lambda>pose.
     bindM read_word (\<lambda>xSizeMm.
     bindM read_word (\<lambda>ySizeMm.
     bindM read_word (\<lambda>zSizeMm.
     returnM (pose, xSizeMm, ySizeMm, zSizeMm)))))"

definition Size_CreateFixedCustomObject :: "(pose_struct3d \<times> float32 \<times> float32 \<times> float32) \<Rightarrow> uint32" where
  "Size_CreateFixedCustomObject x = Size_PoseStruct3d (fst x) + 4 + 4 + 4"

lemma wired_CreateFixedCustomObject [wire]:
  "wired (Pack_CreateFixedCustomObject x) Unpack_CreateFixedCustomObject True (Size_CreateFixedCustomObject x) 44 x"
  unfolding Pack_CreateFixedCustomObject_def Unpack_CreateFixedCustomObject_def
  by (rule wired_eq, (rule wire | simp add: Size_CreateFixedCustomObject_def)+)

lemma reader_CreateFixedCustomObject [reads]: "reader Unpack_CreateFixedCustomObject"
  unfolding Unpack_CreateFixedCustomObject_def by (rule reads reader_bind)+

subsection \<open>\<open>DefineCustomBox\<close>\<close>

definition Pack_DefineCustomBox :: "define_custom_box \<Rightarrow> writer" where
  "Pack_DefineCustomBox x =
     bindM (write_word (bxCustomType x)) (\<lambda>_.
     bindM (write_word (bxMarkerFront x)) (\<lambda>_.
     bindM (write_word (bxMarkerBack x)) (\<lambda>_.
     bindM (write_word (bxMarkerTop x)) (\<lambda>_.
     bindM (write_word (bxMarkerBottom x)) (\<lambda>_.
     bindM (write_word (bxMarkerLeft x)) (\<lambda>_.
     bindM (write_word (bxMarkerRight x)) (\<lambda>_.
     bindM (write_word (bxXSizeMm x)) (\<lambda>_.
     bindM (write_word (bxYSizeMm x)) (\<lambda>_.
     bindM (write_word (bxZSizeMm x)) (\<lambda>_.
     bindM (write_word (bxMarkerWidthMm x)) (\<lambda>_.
     bindM (write_word (bxMarkerHeightMm x)) (\<lambda>_.
     bindM (write_bool (bxIsUnique x)) (\<lambda>_.
     returnM ())))))))))))))"

definition Unpack_DefineCustomBox :: "define_custom_box reader" where
  "Unpack_DefineCustomBox =
     bindM read_word (\<lambda>customType.
     bindM read_word (\<lambda>markerFront.
     bindM read_word (\<lambda>markerBack.
     bindM read_word (\<lambda>markerTop.
     bindM read_word (\<lambda>markerBottom.
     bindM read_word (\<lambda>markerLeft.
     bindM read_word (\<lambda>markerRight.
     bindM read_word (\<lambda>xSizeMm.
     bindM read_word (\<lambda>ySizeMm.
     bindM read_word (\<lambda>zSizeMm.
     bindM read_word (\<lambda>markerWidthMm.
     bindM read_word (\<lambda>markerHeightMm.
     bindM read_bool (\<lambda>isUnique.
     returnM \<lparr>bxCustomType = customType, bxMarkerFront = markerFront, bxMarkerBack = markerBack, bxMarkerTop = markerTop, bxMarkerBottom = markerBottom, bxMarkerLeft = markerLeft, bxMarkerRight = markerRight, bxXSizeMm = xSizeMm, bxYSizeMm = ySizeMm, bxZSizeMm = zSizeMm, bxMarkerWidthMm = markerWidthMm, bxMarkerHeightMm = markerHeightMm, bxIsUnique = isUnique\<rparr>)))))))))))))"

definition Size_DefineCustomBox :: "define_custom_box \<Rightarrow> uint32" where
  "Size_DefineCustomBox x = 4 + 2 + 2 + 2 + 2 + 2 + 2 + 4 + 4 + 4 + 4 + 4 + 1"

lemma wired_DefineCustomBox [wire]:
  "wired (Pack_DefineCustomBox x) Unpack_DefineCustomBox True (Size_DefineCustomBox x) 37 x"
  unfolding Pack_DefineCustomBox_def Unpack_DefineCustomBox_def
  by (rule wired_eq, (rule wire | simp add: Size_DefineCustomBox_def)+)

lemma reader_DefineCustomBox [reads]: "reader Unpack_DefineCustomBox"
  unfolding Unpack_DefineCustomBox_def by (rule reads reader_bind)+

subsection \<open>\<open>DefineCustomCube\<close>\<close>

definition Pack_DefineCustomCube :: "define_custom_cube \<Rightarrow> writer" where
  "Pack_DefineCustomCube x =
     bindM (write_word (cbCustomType x)) (\<lambda>_.
     bindM (write_word (cbMarker x)) (\<lambda>_.
     bindM (write_word (cbSizeMm x)) (\<lambda>_.
     bindM (write_word (cbMarkerWidthMm x)) (\<lambda>_.
     bindM (write_word (cbMarkerHeightMm x)) (\<lambda>_.
     bindM (write_bool (cbIsUnique x)) (\<lambda>_.
     returnM ()))))))"

definition Unpack_DefineCustomCube :: "define_custom_cube reader" where
  "Unpack_DefineCustomCube =
     bindM read_word (\<lambda>customType.
     bindM read_word (\<lambda>marker.
     bindM read_word (\<lambda>sizeMm.
     bindM read_word (\<lambda>markerWidthMm.
     bindM read_word (\<lambda>markerHeightMm.
     bindM read_bool (\<lambda>isUnique.
     returnM \<lparr>cbCustomType = customType, cbMarker = marker, cbSizeMm = sizeMm, cbMarkerWidthMm = markerWidthMm, cbMarkerHeightMm = markerHeightMm, cbIsUnique = isUnique\<rparr>))))))"

definition Size_DefineCustomCube :: "define_custom_cube \<Rightarrow> uint32" where
  "Size_DefineCustomCube x = 4 + 2 + 4 + 4 + 4 + 1"

lemma wired_DefineCustomCube [wire]:
  "wired (Pack_DefineCustomCube x) Unpack_DefineCustomCube True (Size_DefineCustomCube x) 19 x"
  unfolding Pack_DefineCustomCube_def Unpack_DefineCustomCube_def
  by (rule wired_eq, (rule wire | simp add: Size_DefineCustomCube_def)+)

lemma reader_DefineCustomCube [reads]: "reader Unpack_DefineCustomCube"
  unfolding Unpack_DefineCustomCube_def by (rule reads reader_bind)+

subsection \<open>\<open>DefineCustomWall\<close>\<close>

definition Pack_DefineCustomWall :: "define_custom_wall \<Rightarrow> writer" where
  "Pack_DefineCustomWall x =
     bindM (write_word (wlCustomType x)) (\<lambda>_.
     bindM (write_word (wlMarker x)) (\<lambda>_.
     bindM (write_word (wlWidthMm x)) (\<lambda>_.
     bindM (write_word (wlHeightMm x)) (\<lambda>_.
     bindM (write_word (wlMarkerWidthMm x)) (\<lambda>_.
     bindM (write_word (wlMarkerHeightMm x)) (\<lambda>_.
     bindM (write_bool (wlIsUnique x)) (\<lambda>_.
     returnM ())))))))"

definition Unpack_DefineCustomWall :: "define_custom_wall reader" where
  "Unpack_DefineCustomWall =
     bindM read_word (\<lambda>customType.
     bindM read_word (\<lambda>marker.
     bindM read_word (\<lambda>widthMm.
     bindM read_word (\<lambda>heightMm.
     bindM read_word (\<lambda>markerWidthMm.
     bindM read_word (\<lambda>markerHeightMm.
     bindM read_bool (\<lambda>isUnique.
     returnM \<lparr>wlCustomType = customType, wlMarker = marker, wlWidthMm = widthMm, wlHeightMm = heightMm, wlMarkerWidthMm = markerWidthMm, wlMarkerHeightMm = markerHeightMm, wlIsUnique = isUnique\<rparr>)))))))"

definition Size_DefineCustomWall :: "define_custom_wall \<Rightarrow> uint32" where
  "Size_DefineCustomWall x = 4 + 2 + 4 + 4 + 4 + 4 + 1"

lemma wired_DefineCustomWall [wire]:
  "wired (Pack_DefineCustomWall x) Unpack_DefineCustomWall True (Size_DefineCustomWall x) 23 x"
  unfolding Pack_DefineCustomWall_def Unpack_DefineCustomWall_def
  by (rule wired_eq, (rule wire | simp add: Size_DefineCustomWall_def)+)

lemma reader_DefineCustomWall [reads]: "reader Unpack_DefineCustomWall"
  unfolding Unpack_DefineCustomWall_def by (rule reads reader_bind)+

subsection \<open>\<open>SetMemoryMapBroadcastFrequency_sec\<close>\<close>

definition Pack_SetMemoryMapBroadcastFrequency_sec :: "float32 \<Rightarrow> writer" where
  "Pack_SetMemoryMapBroadcastFrequency_sec x =
     bindM (write_word x) (\<lambda>_.
     returnM ())"

definition Unpack_SetMemoryMapBroadcastFrequency_sec :: "float32 reader" where
  "Unpack_SetMemoryMapBroadcastFrequency_sec =
     bindM read_word (\<lambda>frequency.
     returnM frequency)"

definition Size_SetMemoryMapBroadcastFrequency_sec :: "float32 \<Rightarrow> uint32" where
  "Size_SetMemoryMapBroadcastFrequency_sec x = 4"

lemma wired_SetMemoryMapBroadcastFrequency_sec [wire]:
  "wired (Pack_SetMemoryMapBroadcastFrequency_sec x) Unpack_SetMemoryMapBroadcastFrequency_sec True (Size_SetMemoryMapBroadcastFrequency_sec x) 4 x"
  unfolding Pack_SetMemoryMapBroadcastFrequency_sec_def Unpack_SetMemoryMapBroadcastFrequency_sec_def
  by (rule wired_eq, (rule wire | simp add: Size_SetMemoryMapBroadcastFrequency_sec_def)+)

lemma reader_SetMemoryMapBroadcastFrequency_sec [reads]: "reader Unpack_SetMemoryMapBroadcastFrequency_sec"
  unfolding Unpack_SetMemoryMapBroadcastFrequency_sec_def by (rule reads reader_bind)+

subsection \<open>\<open>MessageExternalToRobot\<close>\<close>

primrec Tag_MessageExternalToRobot :: "external_to_robot \<Rightarrow> 8 word" where
  "Tag_MessageExternalToRobot (UiDeviceConnectionWrongVersionClad x) = 0"
| "Tag_MessageExternalToRobot (MoveHead x) = 3"
| "Tag_MessageExternalToRobot (MoveLift x) = 4"
| "Tag_MessageExternalToRobot (DriveArcClad x) = 5"
| "Tag_MessageExternalToRobot RobotHistoryRequestClad = 6"
| "Tag_MessageExternalToRobot (DisplayFaceImageRGBChunk x) = 8"
| "Tag_MessageExternalToRobot (AppIntentClad a b) = 9"
| "Tag_MessageExternalToRobot CancelFaceEnrollmentClad = 10"
| "Tag_MessageExternalToRobot RequestEnrolledNamesClad = 11"
| "Tag_MessageExternalToRobot (UpdateEnrolledFaceByIDClad a b c) = 12"
| "Tag_MessageExternalToRobot (EraseEnrolledFaceByIDClad x) = 13"
| "Tag_MessageExternalToRobot EraseAllEnrolledFacesClad = 14"
| "Tag_MessageExternalToRobot (SetFaceToEnrollClad x) = 15"
| "Tag_MessageExternalToRobot (EnableVisionModeClad x) = 16"
| "Tag_MessageExternalToRobot (GotoPoseClad x) = 18"
| "Tag_MessageExternalToRobot (DriveStraightClad x) = 19"
| "Tag_MessageExternalToRobot (TurnInPlaceClad x) = 20"
| "Tag_MessageExternalToRobot (SetHeadAngleClad x) = 21"
| "Tag_MessageExternalToRobot (SetLiftHeightClad x) = 22"
| "Tag_MessageExternalToRobot (AlignWithObjectClad x) = 24"
| "Tag_MessageExternalToRobot (SetLiftAngleClad x) = 25"
| "Tag_MessageExternalToRobot DeleteCustomMarkerObjects = 26"
| "Tag_MessageExternalToRobot DeleteFixedCustomObjects = 27"
| "Tag_MessageExternalToRobot UndefineAllCustomMarkerObjects = 28"
| "Tag_MessageExternalToRobot (CreateFixedCustomObjectClad a b c d) = 29"
| "Tag_MessageExternalToRobot (DefineCustomBox x) = 30"
| "Tag_MessageExternalToRobot (DefineCustomCube x) = 31"
| "Tag_MessageExternalToRobot (DefineCustomWall x) = 32"
| "Tag_MessageExternalToRobot (SetMemoryMapBroadcastFrequency_sec x) = 33"
| "Tag_MessageExternalToRobot ExternalInvalid = 255"

text \<open>\<open>m.value.Pack\<close>, on the structure that the message holds.\<close>

primrec packValue_MessageExternalToRobot :: "external_to_robot \<Rightarrow> writer" where
  "packValue_MessageExternalToRobot (UiDeviceConnectionWrongVersionClad x) = Pack_UiDeviceConnectionWrongVersion x"
| "packValue_MessageExternalToRobot (MoveHead x) = Pack_MoveHead x"
| "packValue_MessageExternalToRobot (MoveLift x) = Pack_MoveLift x"
| "packValue_MessageExternalToRobot (DriveArcClad x) = Pack_DriveArc x"
| "packValue_MessageExternalToRobot RobotHistoryRequestClad = Pack_RobotHistoryRequest ()"
| "packValue_MessageExternalToRobot (DisplayFaceImageRGBChunk x) = Pack_DisplayFaceImageRGBChunk x"
| "packValue_MessageExternalToRobot (AppIntentClad a b) = Pack_AppIntent (a, b)"
| "packValue_MessageExternalToRobot CancelFaceEnrollmentClad = Pack_CancelFaceEnrollment ()"
| "packValue_MessageExternalToRobot RequestEnrolledNamesClad = Pack_RequestEnrolledNames ()"
| "packValue_MessageExternalToRobot (UpdateEnrolledFaceByIDClad a b c) = Pack_UpdateEnrolledFaceByID (a, b, c)"
| "packValue_MessageExternalToRobot (EraseEnrolledFaceByIDClad x) = Pack_EraseEnrolledFaceByID x"
| "packValue_MessageExternalToRobot EraseAllEnrolledFacesClad = Pack_EraseAllEnrolledFaces ()"
| "packValue_MessageExternalToRobot (SetFaceToEnrollClad x) = Pack_SetFaceToEnroll x"
| "packValue_MessageExternalToRobot (EnableVisionModeClad x) = Pack_EnableVisionMode x"
| "packValue_MessageExternalToRobot (GotoPoseClad x) = Pack_GotoPose x"
| "packValue_MessageExternalToRobot (DriveStraightClad x) = Pack_DriveStraight x"
| "packValue_MessageExternalToRobot (TurnInPlaceClad x) = Pack_TurnInPlace x"
| "packValue_MessageExternalToRobot (SetHeadAngleClad x) = Pack_SetHeadAngle x"
| "packValue_MessageExternalToRobot (SetLiftHeightClad x) = Pack_SetLiftHeight x"
| "packValue_MessageExternalToRobot (AlignWithObjectClad x) = Pack_AlignWithObject x"
| "packValue_MessageExternalToRobot (SetLiftAngleClad x) = Pack_SetLiftAngle x"
| "packValue_MessageExternalToRobot DeleteCustomMarkerObjects = Pack_DeleteCustomMarkerObjects ()"
| "packValue_MessageExternalToRobot DeleteFixedCustomObjects = Pack_DeleteFixedCustomObjects ()"
| "packValue_MessageExternalToRobot UndefineAllCustomMarkerObjects = Pack_UndefineAllCustomMarkerObjects ()"
| "packValue_MessageExternalToRobot (CreateFixedCustomObjectClad a b c d) = Pack_CreateFixedCustomObject (a, b, c, d)"
| "packValue_MessageExternalToRobot (DefineCustomBox x) = Pack_DefineCustomBox x"
| "packValue_MessageExternalToRobot (DefineCustomCube x) = Pack_DefineCustomCube x"
| "packValue_MessageExternalToRobot (DefineCustomWall x) = Pack_DefineCustomWall x"
| "packValue_MessageExternalToRobot (SetMemoryMapBroadcastFrequency_sec x) = Pack_SetMemoryMapBroadcastFrequency_sec x"
| "packValue_MessageExternalToRobot ExternalInvalid = returnM ()"

definition Pack_MessageExternalToRobot :: "external_to_robot \<Rightarrow> writer" where
  "Pack_MessageExternalToRobot m = bindM (write_word (Tag_MessageExternalToRobot m)) (\<lambda>_. packValue_MessageExternalToRobot m)"

definition unpackStruct_MessageExternalToRobot :: "8 word \<Rightarrow> external_to_robot reader" where
  "unpackStruct_MessageExternalToRobot tag =
     (if tag = 0 then bindM Unpack_UiDeviceConnectionWrongVersion (\<lambda>x. returnM (UiDeviceConnectionWrongVersionClad x))
      else if tag = 3 then bindM Unpack_MoveHead (\<lambda>x. returnM (MoveHead x))
      else if tag = 4 then bindM Unpack_MoveLift (\<lambda>x. returnM (MoveLift x))
      else if tag = 5 then bindM Unpack_DriveArc (\<lambda>x. returnM (DriveArcClad x))
      else if tag = 6 then bindM Unpack_RobotHistoryRequest (\<lambda>_. returnM RobotHistoryRequestClad)
      else if tag = 8 then bindM Unpack_DisplayFaceImageRGBChunk (\<lambda>x. returnM (DisplayFaceImageRGBChunk x))
      else if tag = 9 then bindM Unpack_AppIntent (\<lambda>x. returnM (case x of (a, b) \<Rightarrow> AppIntentClad a b))
      else if tag = 10 then bindM Unpack_CancelFaceEnrollment (\<lambda>_. returnM CancelFaceEnrollmentClad)
      else if tag = 11 then bindM Unpack_RequestEnrolledNames (\<lambda>_. returnM RequestEnrolledNamesClad)
      else if tag = 12 then bindM Unpack_UpdateEnrolledFaceByID (\<lambda>x. returnM (case x of (a, b, c) \<Rightarrow> UpdateEnrolledFaceByIDClad a b c))
      else if tag = 13 then bindM Unpack_EraseEnrolledFaceByID (\<lambda>x. returnM (EraseEnrolledFaceByIDClad x))
      else if tag = 14 then bindM Unpack_EraseAllEnrolledFaces (\<lambda>_. returnM EraseAllEnrolledFacesClad)
      else if tag = 15 then bindM Unpack_SetFaceToEnroll (\<lambda>x. returnM (SetFaceToEnrollClad x))
      else if tag = 16 then bindM Unpack_EnableVisionMode (\<lambda>x. returnM (EnableVisionModeClad x))
      else if tag = 18 then bindM Unpack_GotoPose (\<lambda>x. returnM (GotoPoseClad x))
      else if tag = 19 then bindM Unpack_DriveStraight (\<lambda>x. returnM (DriveStraightClad x))
      else if tag = 20 then bindM Unpack_TurnInPlace (\<lambda>x. returnM (TurnInPlaceClad x))
      else if tag = 21 then bindM Unpack_SetHeadAngle (\<lambda>x. returnM (SetHeadAngleClad x))
      else if tag = 22 then bindM Unpack_SetLiftHeight (\<lambda>x. returnM (SetLiftHeightClad x))
      else if tag = 24 then bindM Unpack_AlignWithObject (\<lambda>x. returnM (AlignWithObjectClad x))
      else if tag = 25 then bindM Unpack_SetLiftAngle (\<lambda>x. returnM (SetLiftAngleClad x))
      else if tag = 26 then bindM Unpack_DeleteCustomMarkerObjects (\<lambda>_. returnM DeleteCustomMarkerObjects)
      else if tag = 27 then bindM Unpack_DeleteFixedCustomObjects (\<lambda>_. returnM DeleteFixedCustomObjects)
      else if tag = 28 then bindM Unpack_UndefineAllCustomMarkerObjects (\<lambda>_. returnM UndefineAllCustomMarkerObjects)
      else if tag = 29 then bindM Unpack_CreateFixedCustomObject (\<lambda>x. returnM (case x of (a, b, c, d) \<Rightarrow> CreateFixedCustomObjectClad a b c d))
      else if tag = 30 then bindM Unpack_DefineCustomBox (\<lambda>x. returnM (DefineCustomBox x))
      else if tag = 31 then bindM Unpack_DefineCustomCube (\<lambda>x. returnM (DefineCustomCube x))
      else if tag = 32 then bindM Unpack_DefineCustomWall (\<lambda>x. returnM (DefineCustomWall x))
      else if tag = 33 then bindM Unpack_SetMemoryMapBroadcastFrequency_sec (\<lambda>x. returnM (SetMemoryMapBroadcastFrequency_sec x))
      else failM (Errorf ''invalid tag to unpackStruct''))"

definition Unpack_MessageExternalToRobot :: "external_to_robot reader" where
  "Unpack_MessageExternalToRobot = bindM read_word (\<lambda>tag. if tag = 255 then returnM ExternalInvalid else unpackStruct_MessageExternalToRobot tag)"

primrec Size_MessageExternalToRobot :: "external_to_robot \<Rightarrow> uint32" where
  "Size_MessageExternalToRobot (UiDeviceConnectionWrongVersionClad x) = 1 + Size_UiDeviceConnectionWrongVersion x"
| "Size_MessageExternalToRobot (MoveHead x) = 1 + Size_MoveHead x"
| "Size_MessageExternalToRobot (MoveLift x) = 1 + Size_MoveLift x"
| "Size_MessageExternalToRobot (DriveArcClad x) = 1 + Size_DriveArc x"
| "Size_MessageExternalToRobot RobotHistoryRequestClad = 1 + Size_RobotHistoryRequest ()"
| "Size_MessageExternalToRobot (DisplayFaceImageRGBChunk x) = 1 + Size_DisplayFaceImageRGBChunk x"
| "Size_MessageExternalToRobot (AppIntentClad a b) = 1 + Size_AppIntent (a, b)"
| "Size_MessageExternalToRobot CancelFaceEnrollmentClad = 1 + Size_CancelFaceEnrollment ()"
| "Size_MessageExternalToRobot RequestEnrolledNamesClad = 1 + Size_RequestEnrolledNames ()"
| "Size_MessageExternalToRobot (UpdateEnrolledFaceByIDClad a b c) = 1 + Size_UpdateEnrolledFaceByID (a, b, c)"
| "Size_MessageExternalToRobot (EraseEnrolledFaceByIDClad x) = 1 + Size_EraseEnrolledFaceByID x"
| "Size_MessageExternalToRobot EraseAllEnrolledFacesClad = 1 + Size_EraseAllEnrolledFaces ()"
| "Size_MessageExternalToRobot (SetFaceToEnrollClad x) = 1 + Size_SetFaceToEnroll x"
| "Size_MessageExternalToRobot (EnableVisionModeClad x) = 1 + Size_EnableVisionMode x"
| "Size_MessageExternalToRobot (GotoPoseClad x) = 1 + Size_GotoPose x"
| "Size_MessageExternalToRobot (DriveStraightClad x) = 1 + Size_DriveStraight x"
| "Size_MessageExternalToRobot (TurnInPlaceClad x) = 1 + Size_TurnInPlace x"
| "Size_MessageExternalToRobot (SetHeadAngleClad x) = 1 + Size_SetHeadAngle x"
| "Size_MessageExternalToRobot (SetLiftHeightClad x) = 1 + Size_SetLiftHeight x"
| "Size_MessageExternalToRobot (AlignWithObjectClad x) = 1 + Size_AlignWithObject x"
| "Size_MessageExternalToRobot (SetLiftAngleClad x) = 1 + Size_SetLiftAngle x"
| "Size_MessageExternalToRobot DeleteCustomMarkerObjects = 1 + Size_DeleteCustomMarkerObjects ()"
| "Size_MessageExternalToRobot DeleteFixedCustomObjects = 1 + Size_DeleteFixedCustomObjects ()"
| "Size_MessageExternalToRobot UndefineAllCustomMarkerObjects = 1 + Size_UndefineAllCustomMarkerObjects ()"
| "Size_MessageExternalToRobot (CreateFixedCustomObjectClad a b c d) = 1 + Size_CreateFixedCustomObject (a, b, c, d)"
| "Size_MessageExternalToRobot (DefineCustomBox x) = 1 + Size_DefineCustomBox x"
| "Size_MessageExternalToRobot (DefineCustomCube x) = 1 + Size_DefineCustomCube x"
| "Size_MessageExternalToRobot (DefineCustomWall x) = 1 + Size_DefineCustomWall x"
| "Size_MessageExternalToRobot (SetMemoryMapBroadcastFrequency_sec x) = 1 + Size_SetMemoryMapBroadcastFrequency_sec x"
| "Size_MessageExternalToRobot ExternalInvalid = 1"

primrec fits_MessageExternalToRobot :: "external_to_robot \<Rightarrow> bool" where
  "fits_MessageExternalToRobot (UiDeviceConnectionWrongVersionClad x) = fits_UiDeviceConnectionWrongVersion x"
| "fits_MessageExternalToRobot (MoveHead x) = True"
| "fits_MessageExternalToRobot (MoveLift x) = True"
| "fits_MessageExternalToRobot (DriveArcClad x) = True"
| "fits_MessageExternalToRobot RobotHistoryRequestClad = True"
| "fits_MessageExternalToRobot (DisplayFaceImageRGBChunk x) = fits_DisplayFaceImageRGBChunk x"
| "fits_MessageExternalToRobot (AppIntentClad a b) = fits_AppIntent (a, b)"
| "fits_MessageExternalToRobot CancelFaceEnrollmentClad = True"
| "fits_MessageExternalToRobot RequestEnrolledNamesClad = True"
| "fits_MessageExternalToRobot (UpdateEnrolledFaceByIDClad a b c) = fits_UpdateEnrolledFaceByID (a, b, c)"
| "fits_MessageExternalToRobot (EraseEnrolledFaceByIDClad x) = True"
| "fits_MessageExternalToRobot EraseAllEnrolledFacesClad = True"
| "fits_MessageExternalToRobot (SetFaceToEnrollClad x) = fits_SetFaceToEnroll x"
| "fits_MessageExternalToRobot (EnableVisionModeClad x) = True"
| "fits_MessageExternalToRobot (GotoPoseClad x) = True"
| "fits_MessageExternalToRobot (DriveStraightClad x) = True"
| "fits_MessageExternalToRobot (TurnInPlaceClad x) = True"
| "fits_MessageExternalToRobot (SetHeadAngleClad x) = True"
| "fits_MessageExternalToRobot (SetLiftHeightClad x) = True"
| "fits_MessageExternalToRobot (AlignWithObjectClad x) = True"
| "fits_MessageExternalToRobot (SetLiftAngleClad x) = True"
| "fits_MessageExternalToRobot DeleteCustomMarkerObjects = True"
| "fits_MessageExternalToRobot DeleteFixedCustomObjects = True"
| "fits_MessageExternalToRobot UndefineAllCustomMarkerObjects = True"
| "fits_MessageExternalToRobot (CreateFixedCustomObjectClad a b c d) = True"
| "fits_MessageExternalToRobot (DefineCustomBox x) = True"
| "fits_MessageExternalToRobot (DefineCustomCube x) = True"
| "fits_MessageExternalToRobot (DefineCustomWall x) = True"
| "fits_MessageExternalToRobot (SetMemoryMapBroadcastFrequency_sec x) = True"
| "fits_MessageExternalToRobot ExternalInvalid = True"

lemma wired_MessageExternalToRobot [wire]:
  "wired (Pack_MessageExternalToRobot m) Unpack_MessageExternalToRobot (fits_MessageExternalToRobot m) (Size_MessageExternalToRobot m) 1210 m"
proof (cases m)
  case (UiDeviceConnectionWrongVersionClad x)
  show ?thesis unfolding UiDeviceConnectionWrongVersionClad Pack_MessageExternalToRobot_def Unpack_MessageExternalToRobot_def
    by (rule wired_eq, rule wired_member [where f = UiDeviceConnectionWrongVersionClad, OF wired_UiDeviceConnectionWrongVersion [of "x"]])
      (simp_all add: unpackStruct_MessageExternalToRobot_def)
next
  case (MoveHead x)
  show ?thesis unfolding MoveHead Pack_MessageExternalToRobot_def Unpack_MessageExternalToRobot_def
    by (rule wired_eq, rule wired_member [where f = MoveHead, OF wired_MoveHead [of "x"]])
      (simp_all add: unpackStruct_MessageExternalToRobot_def)
next
  case (MoveLift x)
  show ?thesis unfolding MoveLift Pack_MessageExternalToRobot_def Unpack_MessageExternalToRobot_def
    by (rule wired_eq, rule wired_member [where f = MoveLift, OF wired_MoveLift [of "x"]])
      (simp_all add: unpackStruct_MessageExternalToRobot_def)
next
  case (DriveArcClad x)
  show ?thesis unfolding DriveArcClad Pack_MessageExternalToRobot_def Unpack_MessageExternalToRobot_def
    by (rule wired_eq, rule wired_member [where f = DriveArcClad, OF wired_DriveArc [of "x"]])
      (simp_all add: unpackStruct_MessageExternalToRobot_def)
next
  case RobotHistoryRequestClad
  show ?thesis unfolding RobotHistoryRequestClad Pack_MessageExternalToRobot_def Unpack_MessageExternalToRobot_def
    by (rule wired_eq, rule wired_member [where f = "\<lambda>_. RobotHistoryRequestClad", OF wired_RobotHistoryRequest [of "()"]])
      (simp_all add: unpackStruct_MessageExternalToRobot_def)
next
  case (DisplayFaceImageRGBChunk x)
  show ?thesis unfolding DisplayFaceImageRGBChunk Pack_MessageExternalToRobot_def Unpack_MessageExternalToRobot_def
    by (rule wired_eq, rule wired_member [where f = DisplayFaceImageRGBChunk, OF wired_DisplayFaceImageRGBChunk [of "x"]])
      (simp_all add: unpackStruct_MessageExternalToRobot_def)
next
  case (AppIntentClad a b)
  show ?thesis unfolding AppIntentClad Pack_MessageExternalToRobot_def Unpack_MessageExternalToRobot_def
    by (rule wired_eq, rule wired_member [where f = "\<lambda>(a, b). AppIntentClad a b", OF wired_AppIntent [of "(a, b)"]])
      (simp_all add: unpackStruct_MessageExternalToRobot_def)
next
  case CancelFaceEnrollmentClad
  show ?thesis unfolding CancelFaceEnrollmentClad Pack_MessageExternalToRobot_def Unpack_MessageExternalToRobot_def
    by (rule wired_eq, rule wired_member [where f = "\<lambda>_. CancelFaceEnrollmentClad", OF wired_CancelFaceEnrollment [of "()"]])
      (simp_all add: unpackStruct_MessageExternalToRobot_def)
next
  case RequestEnrolledNamesClad
  show ?thesis unfolding RequestEnrolledNamesClad Pack_MessageExternalToRobot_def Unpack_MessageExternalToRobot_def
    by (rule wired_eq, rule wired_member [where f = "\<lambda>_. RequestEnrolledNamesClad", OF wired_RequestEnrolledNames [of "()"]])
      (simp_all add: unpackStruct_MessageExternalToRobot_def)
next
  case (UpdateEnrolledFaceByIDClad a b c)
  show ?thesis unfolding UpdateEnrolledFaceByIDClad Pack_MessageExternalToRobot_def Unpack_MessageExternalToRobot_def
    by (rule wired_eq, rule wired_member [where f = "\<lambda>(a, b, c). UpdateEnrolledFaceByIDClad a b c", OF wired_UpdateEnrolledFaceByID [of "(a, b, c)"]])
      (simp_all add: unpackStruct_MessageExternalToRobot_def)
next
  case (EraseEnrolledFaceByIDClad x)
  show ?thesis unfolding EraseEnrolledFaceByIDClad Pack_MessageExternalToRobot_def Unpack_MessageExternalToRobot_def
    by (rule wired_eq, rule wired_member [where f = EraseEnrolledFaceByIDClad, OF wired_EraseEnrolledFaceByID [of "x"]])
      (simp_all add: unpackStruct_MessageExternalToRobot_def)
next
  case EraseAllEnrolledFacesClad
  show ?thesis unfolding EraseAllEnrolledFacesClad Pack_MessageExternalToRobot_def Unpack_MessageExternalToRobot_def
    by (rule wired_eq, rule wired_member [where f = "\<lambda>_. EraseAllEnrolledFacesClad", OF wired_EraseAllEnrolledFaces [of "()"]])
      (simp_all add: unpackStruct_MessageExternalToRobot_def)
next
  case (SetFaceToEnrollClad x)
  show ?thesis unfolding SetFaceToEnrollClad Pack_MessageExternalToRobot_def Unpack_MessageExternalToRobot_def
    by (rule wired_eq, rule wired_member [where f = SetFaceToEnrollClad, OF wired_SetFaceToEnroll [of "x"]])
      (simp_all add: unpackStruct_MessageExternalToRobot_def)
next
  case (EnableVisionModeClad x)
  show ?thesis unfolding EnableVisionModeClad Pack_MessageExternalToRobot_def Unpack_MessageExternalToRobot_def
    by (rule wired_eq, rule wired_member [where f = EnableVisionModeClad, OF wired_EnableVisionMode [of "x"]])
      (simp_all add: unpackStruct_MessageExternalToRobot_def)
next
  case (GotoPoseClad x)
  show ?thesis unfolding GotoPoseClad Pack_MessageExternalToRobot_def Unpack_MessageExternalToRobot_def
    by (rule wired_eq, rule wired_member [where f = GotoPoseClad, OF wired_GotoPose [of "x"]])
      (simp_all add: unpackStruct_MessageExternalToRobot_def)
next
  case (DriveStraightClad x)
  show ?thesis unfolding DriveStraightClad Pack_MessageExternalToRobot_def Unpack_MessageExternalToRobot_def
    by (rule wired_eq, rule wired_member [where f = DriveStraightClad, OF wired_DriveStraight [of "x"]])
      (simp_all add: unpackStruct_MessageExternalToRobot_def)
next
  case (TurnInPlaceClad x)
  show ?thesis unfolding TurnInPlaceClad Pack_MessageExternalToRobot_def Unpack_MessageExternalToRobot_def
    by (rule wired_eq, rule wired_member [where f = TurnInPlaceClad, OF wired_TurnInPlace [of "x"]])
      (simp_all add: unpackStruct_MessageExternalToRobot_def)
next
  case (SetHeadAngleClad x)
  show ?thesis unfolding SetHeadAngleClad Pack_MessageExternalToRobot_def Unpack_MessageExternalToRobot_def
    by (rule wired_eq, rule wired_member [where f = SetHeadAngleClad, OF wired_SetHeadAngle [of "x"]])
      (simp_all add: unpackStruct_MessageExternalToRobot_def)
next
  case (SetLiftHeightClad x)
  show ?thesis unfolding SetLiftHeightClad Pack_MessageExternalToRobot_def Unpack_MessageExternalToRobot_def
    by (rule wired_eq, rule wired_member [where f = SetLiftHeightClad, OF wired_SetLiftHeight [of "x"]])
      (simp_all add: unpackStruct_MessageExternalToRobot_def)
next
  case (AlignWithObjectClad x)
  show ?thesis unfolding AlignWithObjectClad Pack_MessageExternalToRobot_def Unpack_MessageExternalToRobot_def
    by (rule wired_eq, rule wired_member [where f = AlignWithObjectClad, OF wired_AlignWithObject [of "x"]])
      (simp_all add: unpackStruct_MessageExternalToRobot_def)
next
  case (SetLiftAngleClad x)
  show ?thesis unfolding SetLiftAngleClad Pack_MessageExternalToRobot_def Unpack_MessageExternalToRobot_def
    by (rule wired_eq, rule wired_member [where f = SetLiftAngleClad, OF wired_SetLiftAngle [of "x"]])
      (simp_all add: unpackStruct_MessageExternalToRobot_def)
next
  case DeleteCustomMarkerObjects
  show ?thesis unfolding DeleteCustomMarkerObjects Pack_MessageExternalToRobot_def Unpack_MessageExternalToRobot_def
    by (rule wired_eq, rule wired_member [where f = "\<lambda>_. DeleteCustomMarkerObjects", OF wired_DeleteCustomMarkerObjects [of "()"]])
      (simp_all add: unpackStruct_MessageExternalToRobot_def)
next
  case DeleteFixedCustomObjects
  show ?thesis unfolding DeleteFixedCustomObjects Pack_MessageExternalToRobot_def Unpack_MessageExternalToRobot_def
    by (rule wired_eq, rule wired_member [where f = "\<lambda>_. DeleteFixedCustomObjects", OF wired_DeleteFixedCustomObjects [of "()"]])
      (simp_all add: unpackStruct_MessageExternalToRobot_def)
next
  case UndefineAllCustomMarkerObjects
  show ?thesis unfolding UndefineAllCustomMarkerObjects Pack_MessageExternalToRobot_def Unpack_MessageExternalToRobot_def
    by (rule wired_eq, rule wired_member [where f = "\<lambda>_. UndefineAllCustomMarkerObjects", OF wired_UndefineAllCustomMarkerObjects [of "()"]])
      (simp_all add: unpackStruct_MessageExternalToRobot_def)
next
  case (CreateFixedCustomObjectClad a b c d)
  show ?thesis unfolding CreateFixedCustomObjectClad Pack_MessageExternalToRobot_def Unpack_MessageExternalToRobot_def
    by (rule wired_eq, rule wired_member [where f = "\<lambda>(a, b, c, d). CreateFixedCustomObjectClad a b c d", OF wired_CreateFixedCustomObject [of "(a, b, c, d)"]])
      (simp_all add: unpackStruct_MessageExternalToRobot_def)
next
  case (DefineCustomBox x)
  show ?thesis unfolding DefineCustomBox Pack_MessageExternalToRobot_def Unpack_MessageExternalToRobot_def
    by (rule wired_eq, rule wired_member [where f = DefineCustomBox, OF wired_DefineCustomBox [of "x"]])
      (simp_all add: unpackStruct_MessageExternalToRobot_def)
next
  case (DefineCustomCube x)
  show ?thesis unfolding DefineCustomCube Pack_MessageExternalToRobot_def Unpack_MessageExternalToRobot_def
    by (rule wired_eq, rule wired_member [where f = DefineCustomCube, OF wired_DefineCustomCube [of "x"]])
      (simp_all add: unpackStruct_MessageExternalToRobot_def)
next
  case (DefineCustomWall x)
  show ?thesis unfolding DefineCustomWall Pack_MessageExternalToRobot_def Unpack_MessageExternalToRobot_def
    by (rule wired_eq, rule wired_member [where f = DefineCustomWall, OF wired_DefineCustomWall [of "x"]])
      (simp_all add: unpackStruct_MessageExternalToRobot_def)
next
  case (SetMemoryMapBroadcastFrequency_sec x)
  show ?thesis unfolding SetMemoryMapBroadcastFrequency_sec Pack_MessageExternalToRobot_def Unpack_MessageExternalToRobot_def
    by (rule wired_eq, rule wired_member [where f = SetMemoryMapBroadcastFrequency_sec, OF wired_SetMemoryMapBroadcastFrequency_sec [of "x"]])
      (simp_all add: unpackStruct_MessageExternalToRobot_def)
next
  case ExternalInvalid
  show ?thesis unfolding ExternalInvalid Pack_MessageExternalToRobot_def Unpack_MessageExternalToRobot_def
    by (rule wired_eq, rule wired_invalid) simp_all
qed

lemma reader_MessageExternalToRobot [reads]: "reader Unpack_MessageExternalToRobot"
  unfolding Unpack_MessageExternalToRobot_def unpackStruct_MessageExternalToRobot_def by (rule reads reader_bind)+

end
