(* ===== verification/Clad_From_Robot.thy ===== *)
theory Clad_From_Robot
  imports Clad_To_Robot
begin

text \<open>
  The code of \<open>internal/clad/gateway/messageRobotToExternal.go\<close> that writes and reads the messages from
  the engine.
\<close>

text \<open>A point and a map quad have a fixed layout: slices of them are read and written at once.\<close>

definition layout_CladPoint2d :: "clad_point \<Rightarrow> byte list" where
  "layout_CladPoint2d x = le_bytes 4 (fst x) @ le_bytes 4 (snd x)"

definition parse_CladPoint2d :: "byte list \<Rightarrow> clad_point" where
  "parse_CladPoint2d d = (le_value (take 4 d), le_value (drop 4 d))"

definition layout_MemoryMapQuadInfo :: "map_quad \<Rightarrow> byte list" where
  "layout_MemoryMapQuadInfo x = le_bytes 1 (mqContent x) @ le_bytes 1 (mqDepth x) @ le_bytes 4 (mqColorRGBA x)"

definition parse_MemoryMapQuadInfo :: "byte list \<Rightarrow> map_quad" where
  "parse_MemoryMapQuadInfo d =
     \<lparr>mqContent = le_value (take 1 d), mqDepth = le_value (take 1 (drop 1 d)), mqColorRGBA = le_value (drop 2 d)\<rparr>"

lemma layouts [simp]:
  "layout 8 layout_CladPoint2d parse_CladPoint2d"
  "layout 6 layout_MemoryMapQuadInfo parse_MemoryMapQuadInfo"
  by (simp_all add: layout_def layout_CladPoint2d_def parse_CladPoint2d_def layout_MemoryMapQuadInfo_def
      parse_MemoryMapQuadInfo_def)

subsection \<open>\<open>UiDeviceConnected\<close>\<close>

definition Pack_UiDeviceConnected :: "string \<Rightarrow> writer" where
  "Pack_UiDeviceConnected x =
     bindM (write_string TYPE(8) ''Placeholder'' x) (\<lambda>_.
     returnM ())"

definition Unpack_UiDeviceConnected :: "string reader" where
  "Unpack_UiDeviceConnected =
     bindM (read_string TYPE(8)) (\<lambda>placeholder.
     returnM placeholder)"

definition Size_UiDeviceConnected :: "string \<Rightarrow> uint32" where
  "Size_UiDeviceConnected x = 1 + of_nat (length x)"

definition fits_UiDeviceConnected :: "string \<Rightarrow> bool" where
  "fits_UiDeviceConnected x \<longleftrightarrow> length x < 2 ^ 8"

lemma wired_UiDeviceConnected [wire]:
  "wired (Pack_UiDeviceConnected x) Unpack_UiDeviceConnected (fits_UiDeviceConnected x) (Size_UiDeviceConnected x) 256 x"
  unfolding Pack_UiDeviceConnected_def Unpack_UiDeviceConnected_def
  by (rule wired_eq, (rule wire | simp add: fits_UiDeviceConnected_def Size_UiDeviceConnected_def)+)

lemma reader_UiDeviceConnected [reads]: "reader Unpack_UiDeviceConnected"
  unfolding Unpack_UiDeviceConnected_def by (rule reads reader_bind)+

subsection \<open>\<open>AnimationCompleted\<close>\<close>

definition Pack_AnimationCompleted :: "string \<Rightarrow> writer" where
  "Pack_AnimationCompleted x =
     bindM (write_string TYPE(8) ''AnimationName'' x) (\<lambda>_.
     returnM ())"

definition Unpack_AnimationCompleted :: "string reader" where
  "Unpack_AnimationCompleted =
     bindM (read_string TYPE(8)) (\<lambda>animationName.
     returnM animationName)"

definition Size_AnimationCompleted :: "string \<Rightarrow> uint32" where
  "Size_AnimationCompleted x = 1 + of_nat (length x)"

definition fits_AnimationCompleted :: "string \<Rightarrow> bool" where
  "fits_AnimationCompleted x \<longleftrightarrow> length x < 2 ^ 8"

lemma wired_AnimationCompleted [wire]:
  "wired (Pack_AnimationCompleted x) Unpack_AnimationCompleted (fits_AnimationCompleted x) (Size_AnimationCompleted x) 256 x"
  unfolding Pack_AnimationCompleted_def Unpack_AnimationCompleted_def
  by (rule wired_eq, (rule wire | simp add: fits_AnimationCompleted_def Size_AnimationCompleted_def)+)

lemma reader_AnimationCompleted [reads]: "reader Unpack_AnimationCompleted"
  unfolding Unpack_AnimationCompleted_def by (rule reads reader_bind)+

subsection \<open>\<open>ActionCompletedUnion\<close>\<close>

primrec Tag_ActionCompletedUnion :: "action_completed \<Rightarrow> 8 word" where
  "Tag_ActionCompletedUnion (AnimationCompleted x) = 1"
| "Tag_ActionCompletedUnion ActionCompletedInvalid = 255"

text \<open>\<open>m.value.Pack\<close>, on the structure that the message holds.\<close>

primrec packValue_ActionCompletedUnion :: "action_completed \<Rightarrow> writer" where
  "packValue_ActionCompletedUnion (AnimationCompleted x) = Pack_AnimationCompleted x"
| "packValue_ActionCompletedUnion ActionCompletedInvalid = returnM ()"

definition Pack_ActionCompletedUnion :: "action_completed \<Rightarrow> writer" where
  "Pack_ActionCompletedUnion m = bindM (write_word (Tag_ActionCompletedUnion m)) (\<lambda>_. packValue_ActionCompletedUnion m)"

definition unpackStruct_ActionCompletedUnion :: "8 word \<Rightarrow> action_completed reader" where
  "unpackStruct_ActionCompletedUnion tag =
     (if tag = 1 then bindM Unpack_AnimationCompleted (\<lambda>x. returnM (AnimationCompleted x))
      else failM (Errorf ''invalid tag to unpackStruct''))"

definition Unpack_ActionCompletedUnion :: "action_completed reader" where
  "Unpack_ActionCompletedUnion = bindM read_word (\<lambda>tag. if tag = 255 then returnM ActionCompletedInvalid else unpackStruct_ActionCompletedUnion tag)"

primrec Size_ActionCompletedUnion :: "action_completed \<Rightarrow> uint32" where
  "Size_ActionCompletedUnion (AnimationCompleted x) = 1 + Size_AnimationCompleted x"
| "Size_ActionCompletedUnion ActionCompletedInvalid = 1"

primrec fits_ActionCompletedUnion :: "action_completed \<Rightarrow> bool" where
  "fits_ActionCompletedUnion (AnimationCompleted x) = fits_AnimationCompleted x"
| "fits_ActionCompletedUnion ActionCompletedInvalid = True"

lemma wired_ActionCompletedUnion [wire]:
  "wired (Pack_ActionCompletedUnion m) Unpack_ActionCompletedUnion (fits_ActionCompletedUnion m) (Size_ActionCompletedUnion m) 257 m"
proof (cases m)
  case (AnimationCompleted x)
  show ?thesis unfolding AnimationCompleted Pack_ActionCompletedUnion_def Unpack_ActionCompletedUnion_def
    by (rule wired_eq, rule wired_member [where f = AnimationCompleted, OF wired_AnimationCompleted [of "x"]])
      (simp_all add: unpackStruct_ActionCompletedUnion_def)
next
  case ActionCompletedInvalid
  show ?thesis unfolding ActionCompletedInvalid Pack_ActionCompletedUnion_def Unpack_ActionCompletedUnion_def
    by (rule wired_eq, rule wired_invalid) simp_all
qed

lemma reader_ActionCompletedUnion [reads]: "reader Unpack_ActionCompletedUnion"
  unfolding Unpack_ActionCompletedUnion_def unpackStruct_ActionCompletedUnion_def by (rule reads reader_bind)+

subsection \<open>\<open>ActiveAccel\<close>\<close>

definition Pack_ActiveAccel :: "active_accel \<Rightarrow> writer" where
  "Pack_ActiveAccel x =
     bindM (write_word (ActiveAccel_X x)) (\<lambda>_.
     bindM (write_word (ActiveAccel_Y x)) (\<lambda>_.
     bindM (write_word (ActiveAccel_Z x)) (\<lambda>_.
     returnM ())))"

definition Unpack_ActiveAccel :: "active_accel reader" where
  "Unpack_ActiveAccel =
     bindM read_word (\<lambda>x.
     bindM read_word (\<lambda>y.
     bindM read_word (\<lambda>z.
     returnM \<lparr>ActiveAccel_X = x, ActiveAccel_Y = y, ActiveAccel_Z = z\<rparr>)))"

definition Size_ActiveAccel :: "active_accel \<Rightarrow> uint32" where
  "Size_ActiveAccel x = 4 + 4 + 4"

lemma wired_ActiveAccel [wire]:
  "wired (Pack_ActiveAccel x) Unpack_ActiveAccel True (Size_ActiveAccel x) 12 x"
  unfolding Pack_ActiveAccel_def Unpack_ActiveAccel_def
  by (rule wired_eq, (rule wire | simp add: Size_ActiveAccel_def)+)

lemma reader_ActiveAccel [reads]: "reader Unpack_ActiveAccel"
  unfolding Unpack_ActiveAccel_def by (rule reads reader_bind)+

subsection \<open>\<open>ObjectConnectionState\<close>\<close>

definition Pack_ObjectConnectionState :: "(uint32 \<times> string \<times> int32 \<times> bool) \<Rightarrow> writer" where
  "Pack_ObjectConnectionState x =
     bindM (write_word (fst x)) (\<lambda>_.
     bindM (write_string TYPE(8) ''FactoryID'' (fst (snd x))) (\<lambda>_.
     bindM (write_word (fst (snd (snd x)))) (\<lambda>_.
     bindM (write_bool (snd (snd (snd x)))) (\<lambda>_.
     returnM ()))))"

definition Unpack_ObjectConnectionState :: "(uint32 \<times> string \<times> int32 \<times> bool) reader" where
  "Unpack_ObjectConnectionState =
     bindM read_word (\<lambda>objectID.
     bindM (read_string TYPE(8)) (\<lambda>factoryID.
     bindM read_word (\<lambda>objectType.
     bindM read_bool (\<lambda>connected.
     returnM (objectID, factoryID, objectType, connected)))))"

definition Size_ObjectConnectionState :: "(uint32 \<times> string \<times> int32 \<times> bool) \<Rightarrow> uint32" where
  "Size_ObjectConnectionState x = 4 + 1 + of_nat (length (fst (snd x))) + 4 + 1"

definition fits_ObjectConnectionState :: "(uint32 \<times> string \<times> int32 \<times> bool) \<Rightarrow> bool" where
  "fits_ObjectConnectionState x \<longleftrightarrow> length (fst (snd x)) < 2 ^ 8"

lemma wired_ObjectConnectionState [wire]:
  "wired (Pack_ObjectConnectionState x) Unpack_ObjectConnectionState (fits_ObjectConnectionState x) (Size_ObjectConnectionState x) 265 x"
  unfolding Pack_ObjectConnectionState_def Unpack_ObjectConnectionState_def
  by (rule wired_eq, (rule wire | simp add: fits_ObjectConnectionState_def Size_ObjectConnectionState_def)+)

lemma reader_ObjectConnectionState [reads]: "reader Unpack_ObjectConnectionState"
  unfolding Unpack_ObjectConnectionState_def by (rule reads reader_bind)+

subsection \<open>\<open>ObjectMoved\<close>\<close>

definition Pack_ObjectMoved :: "(uint32 \<times> uint32) \<Rightarrow> writer" where
  "Pack_ObjectMoved x =
     bindM (write_word (fst x)) (\<lambda>_.
     bindM (write_word (snd x)) (\<lambda>_.
     returnM ()))"

definition Unpack_ObjectMoved :: "(uint32 \<times> uint32) reader" where
  "Unpack_ObjectMoved =
     bindM read_word (\<lambda>timestamp.
     bindM read_word (\<lambda>objectID.
     returnM (timestamp, objectID)))"

definition Size_ObjectMoved :: "(uint32 \<times> uint32) \<Rightarrow> uint32" where
  "Size_ObjectMoved x = 4 + 4"

lemma wired_ObjectMoved [wire]:
  "wired (Pack_ObjectMoved x) Unpack_ObjectMoved True (Size_ObjectMoved x) 8 x"
  unfolding Pack_ObjectMoved_def Unpack_ObjectMoved_def
  by (rule wired_eq, (rule wire | simp add: Size_ObjectMoved_def)+)

lemma reader_ObjectMoved [reads]: "reader Unpack_ObjectMoved"
  unfolding Unpack_ObjectMoved_def by (rule reads reader_bind)+

subsection \<open>\<open>ObjectAvailable\<close>\<close>

definition Pack_ObjectAvailable :: "(string \<times> int32 \<times> 8 word) \<Rightarrow> writer" where
  "Pack_ObjectAvailable x =
     bindM (write_string TYPE(8) ''FactoryId'' (fst x)) (\<lambda>_.
     bindM (write_word (fst (snd x))) (\<lambda>_.
     bindM (write_word (snd (snd x))) (\<lambda>_.
     returnM ())))"

definition Unpack_ObjectAvailable :: "(string \<times> int32 \<times> 8 word) reader" where
  "Unpack_ObjectAvailable =
     bindM (read_string TYPE(8)) (\<lambda>factoryId.
     bindM read_word (\<lambda>objectType.
     bindM read_word (\<lambda>rssi.
     returnM (factoryId, objectType, rssi))))"

definition Size_ObjectAvailable :: "(string \<times> int32 \<times> 8 word) \<Rightarrow> uint32" where
  "Size_ObjectAvailable x = 1 + of_nat (length (fst x)) + 4 + 1"

definition fits_ObjectAvailable :: "(string \<times> int32 \<times> 8 word) \<Rightarrow> bool" where
  "fits_ObjectAvailable x \<longleftrightarrow> length (fst x) < 2 ^ 8"

lemma wired_ObjectAvailable [wire]:
  "wired (Pack_ObjectAvailable x) Unpack_ObjectAvailable (fits_ObjectAvailable x) (Size_ObjectAvailable x) 261 x"
  unfolding Pack_ObjectAvailable_def Unpack_ObjectAvailable_def
  by (rule wired_eq, (rule wire | simp add: fits_ObjectAvailable_def Size_ObjectAvailable_def)+)

lemma reader_ObjectAvailable [reads]: "reader Unpack_ObjectAvailable"
  unfolding Unpack_ObjectAvailable_def by (rule reads reader_bind)+

subsection \<open>\<open>ObjectStoppedMoving\<close>\<close>

definition Pack_ObjectStoppedMoving :: "(uint32 \<times> uint32) \<Rightarrow> writer" where
  "Pack_ObjectStoppedMoving x =
     bindM (write_word (fst x)) (\<lambda>_.
     bindM (write_word (snd x)) (\<lambda>_.
     returnM ()))"

definition Unpack_ObjectStoppedMoving :: "(uint32 \<times> uint32) reader" where
  "Unpack_ObjectStoppedMoving =
     bindM read_word (\<lambda>timestamp.
     bindM read_word (\<lambda>objectID.
     returnM (timestamp, objectID)))"

definition Size_ObjectStoppedMoving :: "(uint32 \<times> uint32) \<Rightarrow> uint32" where
  "Size_ObjectStoppedMoving x = 4 + 4"

lemma wired_ObjectStoppedMoving [wire]:
  "wired (Pack_ObjectStoppedMoving x) Unpack_ObjectStoppedMoving True (Size_ObjectStoppedMoving x) 8 x"
  unfolding Pack_ObjectStoppedMoving_def Unpack_ObjectStoppedMoving_def
  by (rule wired_eq, (rule wire | simp add: Size_ObjectStoppedMoving_def)+)

lemma reader_ObjectStoppedMoving [reads]: "reader Unpack_ObjectStoppedMoving"
  unfolding Unpack_ObjectStoppedMoving_def by (rule reads reader_bind)+

subsection \<open>\<open>ObjectUpAxisChanged\<close>\<close>

definition Pack_ObjectUpAxisChanged :: "(uint32 \<times> uint32 \<times> byte) \<Rightarrow> writer" where
  "Pack_ObjectUpAxisChanged x =
     bindM (write_word (fst x)) (\<lambda>_.
     bindM (write_word (fst (snd x))) (\<lambda>_.
     bindM (write_word (snd (snd x))) (\<lambda>_.
     returnM ())))"

definition Unpack_ObjectUpAxisChanged :: "(uint32 \<times> uint32 \<times> byte) reader" where
  "Unpack_ObjectUpAxisChanged =
     bindM read_word (\<lambda>timestamp.
     bindM read_word (\<lambda>objectID.
     bindM read_word (\<lambda>upAxis.
     returnM (timestamp, objectID, upAxis))))"

definition Size_ObjectUpAxisChanged :: "(uint32 \<times> uint32 \<times> byte) \<Rightarrow> uint32" where
  "Size_ObjectUpAxisChanged x = 4 + 4 + 1"

lemma wired_ObjectUpAxisChanged [wire]:
  "wired (Pack_ObjectUpAxisChanged x) Unpack_ObjectUpAxisChanged True (Size_ObjectUpAxisChanged x) 9 x"
  unfolding Pack_ObjectUpAxisChanged_def Unpack_ObjectUpAxisChanged_def
  by (rule wired_eq, (rule wire | simp add: Size_ObjectUpAxisChanged_def)+)

lemma reader_ObjectUpAxisChanged [reads]: "reader Unpack_ObjectUpAxisChanged"
  unfolding Unpack_ObjectUpAxisChanged_def by (rule reads reader_bind)+

subsection \<open>\<open>ObjectTapped\<close>\<close>

definition Pack_ObjectTapped :: "(uint32 \<times> uint32) \<Rightarrow> writer" where
  "Pack_ObjectTapped x =
     bindM (write_word (fst x)) (\<lambda>_.
     bindM (write_word (snd x)) (\<lambda>_.
     returnM ()))"

definition Unpack_ObjectTapped :: "(uint32 \<times> uint32) reader" where
  "Unpack_ObjectTapped =
     bindM read_word (\<lambda>timestamp.
     bindM read_word (\<lambda>objectID.
     returnM (timestamp, objectID)))"

definition Size_ObjectTapped :: "(uint32 \<times> uint32) \<Rightarrow> uint32" where
  "Size_ObjectTapped x = 4 + 4"

lemma wired_ObjectTapped [wire]:
  "wired (Pack_ObjectTapped x) Unpack_ObjectTapped True (Size_ObjectTapped x) 8 x"
  unfolding Pack_ObjectTapped_def Unpack_ObjectTapped_def
  by (rule wired_eq, (rule wire | simp add: Size_ObjectTapped_def)+)

lemma reader_ObjectTapped [reads]: "reader Unpack_ObjectTapped"
  unfolding Unpack_ObjectTapped_def by (rule reads reader_bind)+

subsection \<open>\<open>ObjectAccel\<close>\<close>

definition Pack_ObjectAccel :: "object_accel \<Rightarrow> writer" where
  "Pack_ObjectAccel x =
     bindM (write_word (ObjectAccel_Timestamp x)) (\<lambda>_.
     bindM (write_word (ObjectAccel_ObjectID x)) (\<lambda>_.
     bindM (Pack_ActiveAccel (ObjectAccel_Accel x)) (\<lambda>_.
     returnM ())))"

definition Unpack_ObjectAccel :: "object_accel reader" where
  "Unpack_ObjectAccel =
     bindM read_word (\<lambda>timestamp.
     bindM read_word (\<lambda>objectID.
     bindM Unpack_ActiveAccel (\<lambda>accel.
     returnM \<lparr>ObjectAccel_Timestamp = timestamp, ObjectAccel_ObjectID = objectID, ObjectAccel_Accel = accel\<rparr>)))"

definition Size_ObjectAccel :: "object_accel \<Rightarrow> uint32" where
  "Size_ObjectAccel x = 4 + 4 + Size_ActiveAccel (ObjectAccel_Accel x)"

lemma wired_ObjectAccel [wire]:
  "wired (Pack_ObjectAccel x) Unpack_ObjectAccel True (Size_ObjectAccel x) 20 x"
  unfolding Pack_ObjectAccel_def Unpack_ObjectAccel_def
  by (rule wired_eq, (rule wire | simp add: Size_ObjectAccel_def)+)

lemma reader_ObjectAccel [reads]: "reader Unpack_ObjectAccel"
  unfolding Unpack_ObjectAccel_def by (rule reads reader_bind)+

subsection \<open>\<open>RobotCompletedAction\<close>\<close>

definition Pack_RobotCompletedAction :: "robot_completed_action \<Rightarrow> writer" where
  "Pack_RobotCompletedAction x =
     bindM (write_word (RobotCompletedAction_IdTag x)) (\<lambda>_.
     bindM (write_word (RobotCompletedAction_ActionType x)) (\<lambda>_.
     bindM (write_word (RobotCompletedAction_Result x)) (\<lambda>_.
     bindM (write_bulk TYPE(8) ''SubActionResults'' (le_bytes 4) (RobotCompletedAction_SubActionResults x)) (\<lambda>_.
     bindM (Pack_ActionCompletedUnion (RobotCompletedAction_CompletionInfo x)) (\<lambda>_.
     returnM ())))))"

definition Unpack_RobotCompletedAction :: "robot_completed_action reader" where
  "Unpack_RobotCompletedAction =
     bindM read_word (\<lambda>idTag.
     bindM read_word (\<lambda>actionType.
     bindM read_word (\<lambda>result.
     bindM (read_bulk_slice TYPE(8) 4 le_value) (\<lambda>subActionResults.
     bindM Unpack_ActionCompletedUnion (\<lambda>completionInfo.
     returnM \<lparr>RobotCompletedAction_IdTag = idTag, RobotCompletedAction_ActionType = actionType, RobotCompletedAction_Result = result, RobotCompletedAction_SubActionResults = subActionResults, RobotCompletedAction_CompletionInfo = completionInfo\<rparr>)))))"

definition Size_RobotCompletedAction :: "robot_completed_action \<Rightarrow> uint32" where
  "Size_RobotCompletedAction x = 4 + 4 + 4 + 1 + of_nat (length (RobotCompletedAction_SubActionResults x)) * 4 + Size_ActionCompletedUnion (RobotCompletedAction_CompletionInfo x)"

definition fits_RobotCompletedAction :: "robot_completed_action \<Rightarrow> bool" where
  "fits_RobotCompletedAction x \<longleftrightarrow> length (RobotCompletedAction_SubActionResults x) < 2 ^ 8 \<and> fits_ActionCompletedUnion (RobotCompletedAction_CompletionInfo x)"

lemma wired_RobotCompletedAction [wire]:
  "wired (Pack_RobotCompletedAction x) Unpack_RobotCompletedAction (fits_RobotCompletedAction x) (Size_RobotCompletedAction x) 1290 x"
  unfolding Pack_RobotCompletedAction_def Unpack_RobotCompletedAction_def
  by (rule wired_eq, (rule wire | simp add: fits_RobotCompletedAction_def Size_RobotCompletedAction_def)+)

lemma reader_RobotCompletedAction [reads]: "reader Unpack_RobotCompletedAction"
  unfolding Unpack_RobotCompletedAction_def by (rule reads reader_bind)+

subsection \<open>\<open>LoadedKnownFace\<close>\<close>

definition Pack_LoadedKnownFace :: "known_face \<Rightarrow> writer" where
  "Pack_LoadedKnownFace x =
     bindM (write_word (SecondsSinceFirstEnrolled x)) (\<lambda>_.
     bindM (write_word (SecondsSinceLastUpdated x)) (\<lambda>_.
     bindM (write_word (SecondsSinceLastSeen x)) (\<lambda>_.
     bindM (write_word (LastSeenSecondsSinceEpoch x)) (\<lambda>_.
     bindM (write_word (kfFaceID x)) (\<lambda>_.
     bindM (write_string TYPE(8) ''Name'' (kfName x)) (\<lambda>_.
     returnM ()))))))"

definition Unpack_LoadedKnownFace :: "known_face reader" where
  "Unpack_LoadedKnownFace =
     bindM read_word (\<lambda>secondsSinceFirstEnrolled.
     bindM read_word (\<lambda>secondsSinceLastUpdated.
     bindM read_word (\<lambda>secondsSinceLastSeen.
     bindM read_word (\<lambda>lastSeenSecondsSinceEpoch.
     bindM read_word (\<lambda>faceID.
     bindM (read_string TYPE(8)) (\<lambda>name.
     returnM \<lparr>SecondsSinceFirstEnrolled = secondsSinceFirstEnrolled, SecondsSinceLastUpdated = secondsSinceLastUpdated, SecondsSinceLastSeen = secondsSinceLastSeen, LastSeenSecondsSinceEpoch = lastSeenSecondsSinceEpoch, kfFaceID = faceID, kfName = name\<rparr>))))))"

definition Size_LoadedKnownFace :: "known_face \<Rightarrow> uint32" where
  "Size_LoadedKnownFace x = 8 + 8 + 8 + 8 + 4 + 1 + of_nat (length (kfName x))"

definition fits_LoadedKnownFace :: "known_face \<Rightarrow> bool" where
  "fits_LoadedKnownFace x \<longleftrightarrow> length (kfName x) < 2 ^ 8"

lemma wired_LoadedKnownFace [wire]:
  "wired (Pack_LoadedKnownFace x) Unpack_LoadedKnownFace (fits_LoadedKnownFace x) (Size_LoadedKnownFace x) 292 x"
  unfolding Pack_LoadedKnownFace_def Unpack_LoadedKnownFace_def
  by (rule wired_eq, (rule wire | simp add: fits_LoadedKnownFace_def Size_LoadedKnownFace_def)+)

lemma reader_LoadedKnownFace [reads]: "reader Unpack_LoadedKnownFace"
  unfolding Unpack_LoadedKnownFace_def by (rule reads reader_bind)+

subsection \<open>\<open>EnrolledNamesResponse\<close>\<close>

definition Pack_EnrolledNamesResponse :: "known_face list \<Rightarrow> writer" where
  "Pack_EnrolledNamesResponse x =
     bindM (write_slice TYPE(8) ''Faces'' Pack_LoadedKnownFace x) (\<lambda>_.
     returnM ())"

definition Unpack_EnrolledNamesResponse :: "known_face list reader" where
  "Unpack_EnrolledNamesResponse =
     bindM (read_slice TYPE(8) Unpack_LoadedKnownFace) (\<lambda>faces.
     returnM faces)"

definition Size_EnrolledNamesResponse :: "known_face list \<Rightarrow> uint32" where
  "Size_EnrolledNamesResponse x = 1 + total_size Size_LoadedKnownFace x"

definition fits_EnrolledNamesResponse :: "known_face list \<Rightarrow> bool" where
  "fits_EnrolledNamesResponse x \<longleftrightarrow> length x < 2 ^ 8 \<and> list_all fits_LoadedKnownFace x"

lemma wired_EnrolledNamesResponse [wire]:
  "wired (Pack_EnrolledNamesResponse x) Unpack_EnrolledNamesResponse (fits_EnrolledNamesResponse x) (Size_EnrolledNamesResponse x) 74461 x"
  unfolding Pack_EnrolledNamesResponse_def Unpack_EnrolledNamesResponse_def
  by (rule wired_eq, (rule wire | simp add: fits_EnrolledNamesResponse_def Size_EnrolledNamesResponse_def)+)

lemma reader_EnrolledNamesResponse [reads]: "reader Unpack_EnrolledNamesResponse"
  unfolding Unpack_EnrolledNamesResponse_def by (rule reads reader_bind)+

subsection \<open>\<open>AccelData\<close>\<close>

definition Pack_AccelData :: "accel_data \<Rightarrow> writer" where
  "Pack_AccelData x =
     bindM (write_word (AccelData_X x)) (\<lambda>_.
     bindM (write_word (AccelData_Y x)) (\<lambda>_.
     bindM (write_word (AccelData_Z x)) (\<lambda>_.
     returnM ())))"

definition Unpack_AccelData :: "accel_data reader" where
  "Unpack_AccelData =
     bindM read_word (\<lambda>x.
     bindM read_word (\<lambda>y.
     bindM read_word (\<lambda>z.
     returnM \<lparr>AccelData_X = x, AccelData_Y = y, AccelData_Z = z\<rparr>)))"

definition Size_AccelData :: "accel_data \<Rightarrow> uint32" where
  "Size_AccelData x = 4 + 4 + 4"

lemma wired_AccelData [wire]:
  "wired (Pack_AccelData x) Unpack_AccelData True (Size_AccelData x) 12 x"
  unfolding Pack_AccelData_def Unpack_AccelData_def
  by (rule wired_eq, (rule wire | simp add: Size_AccelData_def)+)

lemma reader_AccelData [reads]: "reader Unpack_AccelData"
  unfolding Unpack_AccelData_def by (rule reads reader_bind)+

subsection \<open>\<open>GyroData\<close>\<close>

definition Pack_GyroData :: "gyro_data \<Rightarrow> writer" where
  "Pack_GyroData x =
     bindM (write_word (GyroData_X x)) (\<lambda>_.
     bindM (write_word (GyroData_Y x)) (\<lambda>_.
     bindM (write_word (GyroData_Z x)) (\<lambda>_.
     returnM ())))"

definition Unpack_GyroData :: "gyro_data reader" where
  "Unpack_GyroData =
     bindM read_word (\<lambda>x.
     bindM read_word (\<lambda>y.
     bindM read_word (\<lambda>z.
     returnM \<lparr>GyroData_X = x, GyroData_Y = y, GyroData_Z = z\<rparr>)))"

definition Size_GyroData :: "gyro_data \<Rightarrow> uint32" where
  "Size_GyroData x = 4 + 4 + 4"

lemma wired_GyroData [wire]:
  "wired (Pack_GyroData x) Unpack_GyroData True (Size_GyroData x) 12 x"
  unfolding Pack_GyroData_def Unpack_GyroData_def
  by (rule wired_eq, (rule wire | simp add: Size_GyroData_def)+)

lemma reader_GyroData [reads]: "reader Unpack_GyroData"
  unfolding Unpack_GyroData_def by (rule reads reader_bind)+

subsection \<open>\<open>CladPoint2d\<close>\<close>

definition Pack_CladPoint2d :: "(float32 \<times> float32) \<Rightarrow> writer" where
  "Pack_CladPoint2d x =
     bindM (write_word (fst x)) (\<lambda>_.
     bindM (write_word (snd x)) (\<lambda>_.
     returnM ()))"

definition Unpack_CladPoint2d :: "(float32 \<times> float32) reader" where
  "Unpack_CladPoint2d =
     bindM read_word (\<lambda>x.
     bindM read_word (\<lambda>y.
     returnM (x, y)))"

definition Size_CladPoint2d :: "(float32 \<times> float32) \<Rightarrow> uint32" where
  "Size_CladPoint2d x = 4 + 4"

lemma wired_CladPoint2d [wire]:
  "wired (Pack_CladPoint2d x) Unpack_CladPoint2d True (Size_CladPoint2d x) 8 x"
  unfolding Pack_CladPoint2d_def Unpack_CladPoint2d_def
  by (rule wired_eq, (rule wire | simp add: Size_CladPoint2d_def)+)

lemma reader_CladPoint2d [reads]: "reader Unpack_CladPoint2d"
  unfolding Unpack_CladPoint2d_def by (rule reads reader_bind)+

subsection \<open>\<open>CladRect\<close>\<close>

definition Pack_CladRect :: "clad_rect_c \<Rightarrow> writer" where
  "Pack_CladRect x =
     bindM (write_word (cXTopLeft x)) (\<lambda>_.
     bindM (write_word (cYTopLeft x)) (\<lambda>_.
     bindM (write_word (cWidth x)) (\<lambda>_.
     bindM (write_word (cHeight x)) (\<lambda>_.
     returnM ()))))"

definition Unpack_CladRect :: "clad_rect_c reader" where
  "Unpack_CladRect =
     bindM read_word (\<lambda>xTopLeft.
     bindM read_word (\<lambda>yTopLeft.
     bindM read_word (\<lambda>width.
     bindM read_word (\<lambda>height.
     returnM \<lparr>cXTopLeft = xTopLeft, cYTopLeft = yTopLeft, cWidth = width, cHeight = height\<rparr>))))"

definition Size_CladRect :: "clad_rect_c \<Rightarrow> uint32" where
  "Size_CladRect x = 4 + 4 + 4 + 4"

lemma wired_CladRect [wire]:
  "wired (Pack_CladRect x) Unpack_CladRect True (Size_CladRect x) 16 x"
  unfolding Pack_CladRect_def Unpack_CladRect_def
  by (rule wired_eq, (rule wire | simp add: Size_CladRect_def)+)

lemma reader_CladRect [reads]: "reader Unpack_CladRect"
  unfolding Unpack_CladRect_def by (rule reads reader_bind)+

subsection \<open>\<open>SmileAmount\<close>\<close>

definition Pack_SmileAmount :: "smile_amount \<Rightarrow> writer" where
  "Pack_SmileAmount x =
     bindM (write_bool (SmileAmount_WasChecked x)) (\<lambda>_.
     bindM (write_word (SmileAmount_Amount x)) (\<lambda>_.
     bindM (write_word (SmileAmount_Confidence x)) (\<lambda>_.
     returnM ())))"

definition Unpack_SmileAmount :: "smile_amount reader" where
  "Unpack_SmileAmount =
     bindM read_bool (\<lambda>wasChecked.
     bindM read_word (\<lambda>amount.
     bindM read_word (\<lambda>confidence.
     returnM \<lparr>SmileAmount_WasChecked = wasChecked, SmileAmount_Amount = amount, SmileAmount_Confidence = confidence\<rparr>)))"

definition Size_SmileAmount :: "smile_amount \<Rightarrow> uint32" where
  "Size_SmileAmount x = 1 + 4 + 4"

lemma wired_SmileAmount [wire]:
  "wired (Pack_SmileAmount x) Unpack_SmileAmount True (Size_SmileAmount x) 9 x"
  unfolding Pack_SmileAmount_def Unpack_SmileAmount_def
  by (rule wired_eq, (rule wire | simp add: Size_SmileAmount_def)+)

lemma reader_SmileAmount [reads]: "reader Unpack_SmileAmount"
  unfolding Unpack_SmileAmount_def by (rule reads reader_bind)+

subsection \<open>\<open>Gaze\<close>\<close>

definition Pack_Gaze :: "gaze \<Rightarrow> writer" where
  "Pack_Gaze x =
     bindM (write_bool (Gaze_WasChecked x)) (\<lambda>_.
     bindM (write_word (Gaze_LeftRightDeg x)) (\<lambda>_.
     bindM (write_word (Gaze_UpDownDeg x)) (\<lambda>_.
     returnM ())))"

definition Unpack_Gaze :: "gaze reader" where
  "Unpack_Gaze =
     bindM read_bool (\<lambda>wasChecked.
     bindM read_word (\<lambda>leftRightDeg.
     bindM read_word (\<lambda>upDownDeg.
     returnM \<lparr>Gaze_WasChecked = wasChecked, Gaze_LeftRightDeg = leftRightDeg, Gaze_UpDownDeg = upDownDeg\<rparr>)))"

definition Size_Gaze :: "gaze \<Rightarrow> uint32" where
  "Size_Gaze x = 1 + 4 + 4"

lemma wired_Gaze [wire]:
  "wired (Pack_Gaze x) Unpack_Gaze True (Size_Gaze x) 9 x"
  unfolding Pack_Gaze_def Unpack_Gaze_def
  by (rule wired_eq, (rule wire | simp add: Size_Gaze_def)+)

lemma reader_Gaze [reads]: "reader Unpack_Gaze"
  unfolding Unpack_Gaze_def by (rule reads reader_bind)+

subsection \<open>\<open>BlinkAmount\<close>\<close>

definition Pack_BlinkAmount :: "blink_amount \<Rightarrow> writer" where
  "Pack_BlinkAmount x =
     bindM (write_bool (BlinkAmount_WasChecked x)) (\<lambda>_.
     bindM (write_word (BlinkAmount_BlinkAmountLeft x)) (\<lambda>_.
     bindM (write_word (BlinkAmount_BlinkAmountRight x)) (\<lambda>_.
     returnM ())))"

definition Unpack_BlinkAmount :: "blink_amount reader" where
  "Unpack_BlinkAmount =
     bindM read_bool (\<lambda>wasChecked.
     bindM read_word (\<lambda>blinkAmountLeft.
     bindM read_word (\<lambda>blinkAmountRight.
     returnM \<lparr>BlinkAmount_WasChecked = wasChecked, BlinkAmount_BlinkAmountLeft = blinkAmountLeft, BlinkAmount_BlinkAmountRight = blinkAmountRight\<rparr>)))"

definition Size_BlinkAmount :: "blink_amount \<Rightarrow> uint32" where
  "Size_BlinkAmount x = 1 + 4 + 4"

lemma wired_BlinkAmount [wire]:
  "wired (Pack_BlinkAmount x) Unpack_BlinkAmount True (Size_BlinkAmount x) 9 x"
  unfolding Pack_BlinkAmount_def Unpack_BlinkAmount_def
  by (rule wired_eq, (rule wire | simp add: Size_BlinkAmount_def)+)

lemma reader_BlinkAmount [reads]: "reader Unpack_BlinkAmount"
  unfolding Unpack_BlinkAmount_def by (rule reads reader_bind)+

subsection \<open>\<open>RobotObservedObject\<close>\<close>

definition Pack_RobotObservedObject :: "clad_observed_object \<Rightarrow> writer" where
  "Pack_RobotObservedObject x =
     bindM (write_word (coTimestamp x)) (\<lambda>_.
     bindM (write_word (coObjectFamily x)) (\<lambda>_.
     bindM (write_word (coObjectType x)) (\<lambda>_.
     bindM (write_word (coObjectID x)) (\<lambda>_.
     bindM (Pack_CladRect (coImgRect x)) (\<lambda>_.
     bindM (Pack_PoseStruct3d (coPose x)) (\<lambda>_.
     bindM (write_word (coTopFaceOrientationRad x)) (\<lambda>_.
     bindM (write_word (coIsActive x)) (\<lambda>_.
     returnM ()))))))))"

definition Unpack_RobotObservedObject :: "clad_observed_object reader" where
  "Unpack_RobotObservedObject =
     bindM read_word (\<lambda>timestamp.
     bindM read_word (\<lambda>objectFamily.
     bindM read_word (\<lambda>objectType.
     bindM read_word (\<lambda>objectID.
     bindM Unpack_CladRect (\<lambda>imgRect.
     bindM Unpack_PoseStruct3d (\<lambda>pose.
     bindM read_word (\<lambda>topFaceOrientationRad.
     bindM read_word (\<lambda>isActive.
     returnM \<lparr>coTimestamp = timestamp, coObjectFamily = objectFamily, coObjectType = objectType, coObjectID = objectID, coImgRect = imgRect, coPose = pose, coTopFaceOrientationRad = topFaceOrientationRad, coIsActive = isActive\<rparr>))))))))"

definition Size_RobotObservedObject :: "clad_observed_object \<Rightarrow> uint32" where
  "Size_RobotObservedObject x = 4 + 4 + 4 + 4 + Size_CladRect (coImgRect x) + Size_PoseStruct3d (coPose x) + 4 + 1"

lemma wired_RobotObservedObject [wire]:
  "wired (Pack_RobotObservedObject x) Unpack_RobotObservedObject True (Size_RobotObservedObject x) 69 x"
  unfolding Pack_RobotObservedObject_def Unpack_RobotObservedObject_def
  by (rule wired_eq, (rule wire | simp add: Size_RobotObservedObject_def)+)

lemma reader_RobotObservedObject [reads]: "reader Unpack_RobotObservedObject"
  unfolding Unpack_RobotObservedObject_def by (rule reads reader_bind)+

subsection \<open>\<open>RobotObservedPossibleObject\<close>\<close>

definition Pack_RobotObservedPossibleObject :: "clad_observed_object \<Rightarrow> writer" where
  "Pack_RobotObservedPossibleObject x =
     bindM (Pack_RobotObservedObject x) (\<lambda>_.
     returnM ())"

definition Unpack_RobotObservedPossibleObject :: "clad_observed_object reader" where
  "Unpack_RobotObservedPossibleObject =
     bindM Unpack_RobotObservedObject (\<lambda>possibleObject.
     returnM possibleObject)"

definition Size_RobotObservedPossibleObject :: "clad_observed_object \<Rightarrow> uint32" where
  "Size_RobotObservedPossibleObject x = Size_RobotObservedObject x"

lemma wired_RobotObservedPossibleObject [wire]:
  "wired (Pack_RobotObservedPossibleObject x) Unpack_RobotObservedPossibleObject True (Size_RobotObservedPossibleObject x) 69 x"
  unfolding Pack_RobotObservedPossibleObject_def Unpack_RobotObservedPossibleObject_def
  by (rule wired_eq, (rule wire | simp add: Size_RobotObservedPossibleObject_def)+)

lemma reader_RobotObservedPossibleObject [reads]: "reader Unpack_RobotObservedPossibleObject"
  unfolding Unpack_RobotObservedPossibleObject_def by (rule reads reader_bind)+

subsection \<open>\<open>RobotObservedFace\<close>\<close>

definition Pack_RobotObservedFace :: "clad_observed_face \<Rightarrow> writer" where
  "Pack_RobotObservedFace x =
     bindM (write_word (cfFaceID x)) (\<lambda>_.
     bindM (write_word (cfTimestamp x)) (\<lambda>_.
     bindM (Pack_PoseStruct3d (cfPose x)) (\<lambda>_.
     bindM (Pack_CladRect (cfImgRect x)) (\<lambda>_.
     bindM (write_string TYPE(8) ''Name'' (cfName x)) (\<lambda>_.
     bindM (write_word (cfExpression x)) (\<lambda>_.
     bindM (Pack_SmileAmount (cfSmileAmount x)) (\<lambda>_.
     bindM (Pack_Gaze (cfGaze x)) (\<lambda>_.
     bindM (Pack_BlinkAmount (cfBlinkAmount x)) (\<lambda>_.
     bindM (write_bulk TYPE(8) ''ExpressionValues'' (le_bytes 1) (cfExpressionValues x)) (\<lambda>_.
     bindM (write_bulk TYPE(8) ''LeftEye'' layout_CladPoint2d (cfLeftEye x)) (\<lambda>_.
     bindM (write_bulk TYPE(8) ''RightEye'' layout_CladPoint2d (cfRightEye x)) (\<lambda>_.
     bindM (write_bulk TYPE(8) ''Nose'' layout_CladPoint2d (cfNose x)) (\<lambda>_.
     bindM (write_bulk TYPE(8) ''Mouth'' layout_CladPoint2d (cfMouth x)) (\<lambda>_.
     returnM ()))))))))))))))"

definition Unpack_RobotObservedFace :: "clad_observed_face reader" where
  "Unpack_RobotObservedFace =
     bindM read_word (\<lambda>faceID.
     bindM read_word (\<lambda>timestamp.
     bindM Unpack_PoseStruct3d (\<lambda>pose.
     bindM Unpack_CladRect (\<lambda>imgRect.
     bindM (read_string TYPE(8)) (\<lambda>name.
     bindM read_word (\<lambda>expression.
     bindM Unpack_SmileAmount (\<lambda>smileAmount.
     bindM Unpack_Gaze (\<lambda>gaze.
     bindM Unpack_BlinkAmount (\<lambda>blinkAmount.
     bindM (read_bulk_slice TYPE(8) 1 le_value) (\<lambda>expressionValues.
     bindM (read_bulk_slice TYPE(8) 8 parse_CladPoint2d) (\<lambda>leftEye.
     bindM (read_bulk_slice TYPE(8) 8 parse_CladPoint2d) (\<lambda>rightEye.
     bindM (read_bulk_slice TYPE(8) 8 parse_CladPoint2d) (\<lambda>nose.
     bindM (read_bulk_slice TYPE(8) 8 parse_CladPoint2d) (\<lambda>mouth.
     returnM \<lparr>cfFaceID = faceID, cfTimestamp = timestamp, cfPose = pose, cfImgRect = imgRect, cfName = name, cfExpression = expression, cfSmileAmount = smileAmount, cfGaze = gaze, cfBlinkAmount = blinkAmount, cfExpressionValues = expressionValues, cfLeftEye = leftEye, cfRightEye = rightEye, cfNose = nose, cfMouth = mouth\<rparr>))))))))))))))"

definition Size_RobotObservedFace :: "clad_observed_face \<Rightarrow> uint32" where
  "Size_RobotObservedFace x = 4 + 4 + Size_PoseStruct3d (cfPose x) + Size_CladRect (cfImgRect x) + 1 + of_nat (length (cfName x)) + 1 + Size_SmileAmount (cfSmileAmount x) + Size_Gaze (cfGaze x) + Size_BlinkAmount (cfBlinkAmount x) + 1 + of_nat (length (cfExpressionValues x)) + 1 + of_nat (length (cfLeftEye x)) * 8 + 1 + of_nat (length (cfRightEye x)) * 8 + 1 + of_nat (length (cfNose x)) * 8 + 1 + of_nat (length (cfMouth x)) * 8"

definition fits_RobotObservedFace :: "clad_observed_face \<Rightarrow> bool" where
  "fits_RobotObservedFace x \<longleftrightarrow> length (cfName x) < 2 ^ 8 \<and> length (cfExpressionValues x) < 2 ^ 8 \<and> length (cfLeftEye x) < 2 ^ 8 \<and> length (cfRightEye x) < 2 ^ 8 \<and> length (cfNose x) < 2 ^ 8 \<and> length (cfMouth x) < 2 ^ 8"

lemma wired_RobotObservedFace [wire]:
  "wired (Pack_RobotObservedFace x) Unpack_RobotObservedFace (fits_RobotObservedFace x) (Size_RobotObservedFace x) 8760 x"
  unfolding Pack_RobotObservedFace_def Unpack_RobotObservedFace_def
  by (rule wired_eq, (rule wire | simp add: fits_RobotObservedFace_def Size_RobotObservedFace_def)+)

lemma reader_RobotObservedFace [reads]: "reader Unpack_RobotObservedFace"
  unfolding Unpack_RobotObservedFace_def by (rule reads reader_bind)+

subsection \<open>\<open>RobotChangedObservedFaceID\<close>\<close>

definition Pack_RobotChangedObservedFaceID :: "(int32 \<times> int32) \<Rightarrow> writer" where
  "Pack_RobotChangedObservedFaceID x =
     bindM (write_word (fst x)) (\<lambda>_.
     bindM (write_word (snd x)) (\<lambda>_.
     returnM ()))"

definition Unpack_RobotChangedObservedFaceID :: "(int32 \<times> int32) reader" where
  "Unpack_RobotChangedObservedFaceID =
     bindM read_word (\<lambda>oldID.
     bindM read_word (\<lambda>newID.
     returnM (oldID, newID)))"

definition Size_RobotChangedObservedFaceID :: "(int32 \<times> int32) \<Rightarrow> uint32" where
  "Size_RobotChangedObservedFaceID x = 4 + 4"

lemma wired_RobotChangedObservedFaceID [wire]:
  "wired (Pack_RobotChangedObservedFaceID x) Unpack_RobotChangedObservedFaceID True (Size_RobotChangedObservedFaceID x) 8 x"
  unfolding Pack_RobotChangedObservedFaceID_def Unpack_RobotChangedObservedFaceID_def
  by (rule wired_eq, (rule wire | simp add: Size_RobotChangedObservedFaceID_def)+)

lemma reader_RobotChangedObservedFaceID [reads]: "reader Unpack_RobotChangedObservedFaceID"
  unfolding Unpack_RobotChangedObservedFaceID_def by (rule reads reader_bind)+

subsection \<open>\<open>RequiredEmptyMessage\<close>\<close>

definition Pack_RequiredEmptyMessage :: "unit \<Rightarrow> writer" where
  "Pack_RequiredEmptyMessage x =
     returnM ()"

definition Unpack_RequiredEmptyMessage :: "unit reader" where
  "Unpack_RequiredEmptyMessage =
     returnM ()"

definition Size_RequiredEmptyMessage :: "unit \<Rightarrow> uint32" where
  "Size_RequiredEmptyMessage x = 0"

lemma wired_RequiredEmptyMessage [wire]:
  "wired (Pack_RequiredEmptyMessage x) Unpack_RequiredEmptyMessage True (Size_RequiredEmptyMessage x) 0 x"
  unfolding Pack_RequiredEmptyMessage_def Unpack_RequiredEmptyMessage_def
  by (rule wired_eq, (rule wire | simp add: Size_RequiredEmptyMessage_def)+)

lemma reader_RequiredEmptyMessage [reads]: "reader Unpack_RequiredEmptyMessage"
  unfolding Unpack_RequiredEmptyMessage_def by (rule reads reader_bind)+

subsection \<open>\<open>Event\<close>\<close>

primrec Tag_Event :: "clad_event \<Rightarrow> 8 word" where
  "Tag_Event ReplaceMe = 0"
| "Tag_Event EventInvalid = 255"

text \<open>\<open>m.value.Pack\<close>, on the structure that the message holds.\<close>

primrec packValue_Event :: "clad_event \<Rightarrow> writer" where
  "packValue_Event ReplaceMe = Pack_RequiredEmptyMessage ()"
| "packValue_Event EventInvalid = returnM ()"

definition Pack_Event :: "clad_event \<Rightarrow> writer" where
  "Pack_Event m = bindM (write_word (Tag_Event m)) (\<lambda>_. packValue_Event m)"

definition unpackStruct_Event :: "8 word \<Rightarrow> clad_event reader" where
  "unpackStruct_Event tag =
     (if tag = 0 then bindM Unpack_RequiredEmptyMessage (\<lambda>_. returnM ReplaceMe)
      else failM (Errorf ''invalid tag to unpackStruct''))"

definition Unpack_Event :: "clad_event reader" where
  "Unpack_Event = bindM read_word (\<lambda>tag. if tag = 255 then returnM EventInvalid else unpackStruct_Event tag)"

primrec Size_Event :: "clad_event \<Rightarrow> uint32" where
  "Size_Event ReplaceMe = 1 + Size_RequiredEmptyMessage ()"
| "Size_Event EventInvalid = 1"

lemma wired_Event [wire]:
  "wired (Pack_Event m) Unpack_Event True (Size_Event m) 1 m"
proof (cases m)
  case ReplaceMe
  show ?thesis unfolding ReplaceMe Pack_Event_def Unpack_Event_def
    by (rule wired_eq, rule wired_member [where f = "\<lambda>_. ReplaceMe", OF wired_RequiredEmptyMessage [of "()"]])
      (simp_all add: unpackStruct_Event_def)
next
  case EventInvalid
  show ?thesis unfolding EventInvalid Pack_Event_def Unpack_Event_def
    by (rule wired_eq, rule wired_invalid) simp_all
qed

lemma reader_Event [reads]: "reader Unpack_Event"
  unfolding Unpack_Event_def unpackStruct_Event_def by (rule reads reader_bind)+

subsection \<open>\<open>RobotDeletedFixedCustomObjects\<close>\<close>

definition Pack_RobotDeletedFixedCustomObjects :: "unit \<Rightarrow> writer" where
  "Pack_RobotDeletedFixedCustomObjects x =
     returnM ()"

definition Unpack_RobotDeletedFixedCustomObjects :: "unit reader" where
  "Unpack_RobotDeletedFixedCustomObjects =
     returnM ()"

definition Size_RobotDeletedFixedCustomObjects :: "unit \<Rightarrow> uint32" where
  "Size_RobotDeletedFixedCustomObjects x = 0"

lemma wired_RobotDeletedFixedCustomObjects [wire]:
  "wired (Pack_RobotDeletedFixedCustomObjects x) Unpack_RobotDeletedFixedCustomObjects True (Size_RobotDeletedFixedCustomObjects x) 0 x"
  unfolding Pack_RobotDeletedFixedCustomObjects_def Unpack_RobotDeletedFixedCustomObjects_def
  by (rule wired_eq, (rule wire | simp add: Size_RobotDeletedFixedCustomObjects_def)+)

lemma reader_RobotDeletedFixedCustomObjects [reads]: "reader Unpack_RobotDeletedFixedCustomObjects"
  unfolding Unpack_RobotDeletedFixedCustomObjects_def by (rule reads reader_bind)+

subsection \<open>\<open>RobotDeletedCustomMarkerObjects\<close>\<close>

definition Pack_RobotDeletedCustomMarkerObjects :: "unit \<Rightarrow> writer" where
  "Pack_RobotDeletedCustomMarkerObjects x =
     returnM ()"

definition Unpack_RobotDeletedCustomMarkerObjects :: "unit reader" where
  "Unpack_RobotDeletedCustomMarkerObjects =
     returnM ()"

definition Size_RobotDeletedCustomMarkerObjects :: "unit \<Rightarrow> uint32" where
  "Size_RobotDeletedCustomMarkerObjects x = 0"

lemma wired_RobotDeletedCustomMarkerObjects [wire]:
  "wired (Pack_RobotDeletedCustomMarkerObjects x) Unpack_RobotDeletedCustomMarkerObjects True (Size_RobotDeletedCustomMarkerObjects x) 0 x"
  unfolding Pack_RobotDeletedCustomMarkerObjects_def Unpack_RobotDeletedCustomMarkerObjects_def
  by (rule wired_eq, (rule wire | simp add: Size_RobotDeletedCustomMarkerObjects_def)+)

lemma reader_RobotDeletedCustomMarkerObjects [reads]: "reader Unpack_RobotDeletedCustomMarkerObjects"
  unfolding Unpack_RobotDeletedCustomMarkerObjects_def by (rule reads reader_bind)+

subsection \<open>\<open>CreatedFixedCustomObject\<close>\<close>

definition Pack_CreatedFixedCustomObject :: "uint32 \<Rightarrow> writer" where
  "Pack_CreatedFixedCustomObject x =
     bindM (write_word x) (\<lambda>_.
     returnM ())"

definition Unpack_CreatedFixedCustomObject :: "uint32 reader" where
  "Unpack_CreatedFixedCustomObject =
     bindM read_word (\<lambda>objectID.
     returnM objectID)"

definition Size_CreatedFixedCustomObject :: "uint32 \<Rightarrow> uint32" where
  "Size_CreatedFixedCustomObject x = 4"

lemma wired_CreatedFixedCustomObject [wire]:
  "wired (Pack_CreatedFixedCustomObject x) Unpack_CreatedFixedCustomObject True (Size_CreatedFixedCustomObject x) 4 x"
  unfolding Pack_CreatedFixedCustomObject_def Unpack_CreatedFixedCustomObject_def
  by (rule wired_eq, (rule wire | simp add: Size_CreatedFixedCustomObject_def)+)

lemma reader_CreatedFixedCustomObject [reads]: "reader Unpack_CreatedFixedCustomObject"
  unfolding Unpack_CreatedFixedCustomObject_def by (rule reads reader_bind)+

subsection \<open>\<open>DefinedCustomObject\<close>\<close>

definition Pack_DefinedCustomObject :: "bool \<Rightarrow> writer" where
  "Pack_DefinedCustomObject x =
     bindM (write_bool x) (\<lambda>_.
     returnM ())"

definition Unpack_DefinedCustomObject :: "bool reader" where
  "Unpack_DefinedCustomObject =
     bindM read_bool (\<lambda>success.
     returnM success)"

definition Size_DefinedCustomObject :: "bool \<Rightarrow> uint32" where
  "Size_DefinedCustomObject x = 1"

lemma wired_DefinedCustomObject [wire]:
  "wired (Pack_DefinedCustomObject x) Unpack_DefinedCustomObject True (Size_DefinedCustomObject x) 1 x"
  unfolding Pack_DefinedCustomObject_def Unpack_DefinedCustomObject_def
  by (rule wired_eq, (rule wire | simp add: Size_DefinedCustomObject_def)+)

lemma reader_DefinedCustomObject [reads]: "reader Unpack_DefinedCustomObject"
  unfolding Unpack_DefinedCustomObject_def by (rule reads reader_bind)+

subsection \<open>\<open>MemoryMapQuadInfo\<close>\<close>

definition Pack_MemoryMapQuadInfo :: "map_quad \<Rightarrow> writer" where
  "Pack_MemoryMapQuadInfo x =
     bindM (write_word (mqContent x)) (\<lambda>_.
     bindM (write_word (mqDepth x)) (\<lambda>_.
     bindM (write_word (mqColorRGBA x)) (\<lambda>_.
     returnM ())))"

definition Unpack_MemoryMapQuadInfo :: "map_quad reader" where
  "Unpack_MemoryMapQuadInfo =
     bindM read_word (\<lambda>content.
     bindM read_word (\<lambda>depth.
     bindM read_word (\<lambda>colorRGBA.
     returnM \<lparr>mqContent = content, mqDepth = depth, mqColorRGBA = colorRGBA\<rparr>)))"

definition Size_MemoryMapQuadInfo :: "map_quad \<Rightarrow> uint32" where
  "Size_MemoryMapQuadInfo x = 1 + 1 + 4"

lemma wired_MemoryMapQuadInfo [wire]:
  "wired (Pack_MemoryMapQuadInfo x) Unpack_MemoryMapQuadInfo True (Size_MemoryMapQuadInfo x) 6 x"
  unfolding Pack_MemoryMapQuadInfo_def Unpack_MemoryMapQuadInfo_def
  by (rule wired_eq, (rule wire | simp add: Size_MemoryMapQuadInfo_def)+)

lemma reader_MemoryMapQuadInfo [reads]: "reader Unpack_MemoryMapQuadInfo"
  unfolding Unpack_MemoryMapQuadInfo_def by (rule reads reader_bind)+

subsection \<open>\<open>MemoryMapMessageBegin\<close>\<close>

definition Pack_MemoryMapMessageBegin :: "map_begin \<Rightarrow> writer" where
  "Pack_MemoryMapMessageBegin x =
     bindM (write_word (mbOriginId x)) (\<lambda>_.
     bindM (write_word (mbRootDepth x)) (\<lambda>_.
     bindM (write_word (mbRootSizeMm x)) (\<lambda>_.
     bindM (write_word (mbRootCenterX x)) (\<lambda>_.
     bindM (write_word (mbRootCenterY x)) (\<lambda>_.
     returnM ())))))"

definition Unpack_MemoryMapMessageBegin :: "map_begin reader" where
  "Unpack_MemoryMapMessageBegin =
     bindM read_word (\<lambda>originId.
     bindM read_word (\<lambda>rootDepth.
     bindM read_word (\<lambda>rootSizeMm.
     bindM read_word (\<lambda>rootCenterX.
     bindM read_word (\<lambda>rootCenterY.
     returnM \<lparr>mbOriginId = originId, mbRootDepth = rootDepth, mbRootSizeMm = rootSizeMm, mbRootCenterX = rootCenterX, mbRootCenterY = rootCenterY\<rparr>)))))"

definition Size_MemoryMapMessageBegin :: "map_begin \<Rightarrow> uint32" where
  "Size_MemoryMapMessageBegin x = 4 + 4 + 4 + 4 + 4"

lemma wired_MemoryMapMessageBegin [wire]:
  "wired (Pack_MemoryMapMessageBegin x) Unpack_MemoryMapMessageBegin True (Size_MemoryMapMessageBegin x) 20 x"
  unfolding Pack_MemoryMapMessageBegin_def Unpack_MemoryMapMessageBegin_def
  by (rule wired_eq, (rule wire | simp add: Size_MemoryMapMessageBegin_def)+)

lemma reader_MemoryMapMessageBegin [reads]: "reader Unpack_MemoryMapMessageBegin"
  unfolding Unpack_MemoryMapMessageBegin_def by (rule reads reader_bind)+

subsection \<open>\<open>MemoryMapMessage\<close>\<close>

definition Pack_MemoryMapMessage :: "map_quad list \<Rightarrow> writer" where
  "Pack_MemoryMapMessage x =
     bindM (write_bulk TYPE(16) ''QuadInfos'' layout_MemoryMapQuadInfo x) (\<lambda>_.
     returnM ())"

definition Unpack_MemoryMapMessage :: "map_quad list reader" where
  "Unpack_MemoryMapMessage =
     bindM (read_bulk_slice TYPE(16) 6 parse_MemoryMapQuadInfo) (\<lambda>quadInfos.
     returnM quadInfos)"

definition Size_MemoryMapMessage :: "map_quad list \<Rightarrow> uint32" where
  "Size_MemoryMapMessage x = 2 + of_nat (length x) * 6"

definition fits_MemoryMapMessage :: "map_quad list \<Rightarrow> bool" where
  "fits_MemoryMapMessage x \<longleftrightarrow> length x < 2 ^ 16"

lemma wired_MemoryMapMessage [wire]:
  "wired (Pack_MemoryMapMessage x) Unpack_MemoryMapMessage (fits_MemoryMapMessage x) (Size_MemoryMapMessage x) 393212 x"
  unfolding Pack_MemoryMapMessage_def Unpack_MemoryMapMessage_def
  by (rule wired_eq, (rule wire | simp add: fits_MemoryMapMessage_def Size_MemoryMapMessage_def)+)

lemma reader_MemoryMapMessage [reads]: "reader Unpack_MemoryMapMessage"
  unfolding Unpack_MemoryMapMessage_def by (rule reads reader_bind)+

subsection \<open>\<open>MemoryMapMessageEnd\<close>\<close>

definition Pack_MemoryMapMessageEnd :: "unit \<Rightarrow> writer" where
  "Pack_MemoryMapMessageEnd x =
     returnM ()"

definition Unpack_MemoryMapMessageEnd :: "unit reader" where
  "Unpack_MemoryMapMessageEnd =
     returnM ()"

definition Size_MemoryMapMessageEnd :: "unit \<Rightarrow> uint32" where
  "Size_MemoryMapMessageEnd x = 0"

lemma wired_MemoryMapMessageEnd [wire]:
  "wired (Pack_MemoryMapMessageEnd x) Unpack_MemoryMapMessageEnd True (Size_MemoryMapMessageEnd x) 0 x"
  unfolding Pack_MemoryMapMessageEnd_def Unpack_MemoryMapMessageEnd_def
  by (rule wired_eq, (rule wire | simp add: Size_MemoryMapMessageEnd_def)+)

lemma reader_MemoryMapMessageEnd [reads]: "reader Unpack_MemoryMapMessageEnd"
  unfolding Unpack_MemoryMapMessageEnd_def by (rule reads reader_bind)+

subsection \<open>\<open>MessageRobotToExternal\<close>\<close>

text \<open>\<open>m.value.Pack\<close>, on the structure that the message holds.\<close>

primrec packValue_MessageRobotToExternal :: "robot_to_external \<Rightarrow> writer" where
  "packValue_MessageRobotToExternal (UiDeviceConnected x) = Pack_UiDeviceConnected x"
| "packValue_MessageRobotToExternal (RobotCompletedAction x) = Pack_RobotCompletedAction x"
| "packValue_MessageRobotToExternal (CladEvent x) = Pack_Event x"
| "packValue_MessageRobotToExternal (EnrolledNamesResponse x) = Pack_EnrolledNamesResponse x"
| "packValue_MessageRobotToExternal (RobotObservedFaceClad x) = Pack_RobotObservedFace x"
| "packValue_MessageRobotToExternal (RobotChangedObservedFaceIDClad a b) = Pack_RobotChangedObservedFaceID (a, b)"
| "packValue_MessageRobotToExternal (ObjectConnectionStateClad a b c d) = Pack_ObjectConnectionState (a, b, c, d)"
| "packValue_MessageRobotToExternal (ObjectMovedClad a b) = Pack_ObjectMoved (a, b)"
| "packValue_MessageRobotToExternal (ObjectStoppedMovingClad a b) = Pack_ObjectStoppedMoving (a, b)"
| "packValue_MessageRobotToExternal (ObjectUpAxisChangedClad a b c) = Pack_ObjectUpAxisChanged (a, b, c)"
| "packValue_MessageRobotToExternal (ObjectTappedClad a b) = Pack_ObjectTapped (a, b)"
| "packValue_MessageRobotToExternal (ObjectAccelClad x) = Pack_ObjectAccel x"
| "packValue_MessageRobotToExternal (RobotObservedObjectClad x) = Pack_RobotObservedObject x"
| "packValue_MessageRobotToExternal (ObjectAvailableClad a b c) = Pack_ObjectAvailable (a, b, c)"
| "packValue_MessageRobotToExternal RobotDeletedFixedCustomObjects = Pack_RobotDeletedFixedCustomObjects ()"
| "packValue_MessageRobotToExternal RobotDeletedCustomMarkerObjects = Pack_RobotDeletedCustomMarkerObjects ()"
| "packValue_MessageRobotToExternal (CreatedFixedCustomObject x) = Pack_CreatedFixedCustomObject x"
| "packValue_MessageRobotToExternal (DefinedCustomObject x) = Pack_DefinedCustomObject x"
| "packValue_MessageRobotToExternal (MemoryMapMessageBegin x) = Pack_MemoryMapMessageBegin x"
| "packValue_MessageRobotToExternal (MemoryMapMessage x) = Pack_MemoryMapMessage x"
| "packValue_MessageRobotToExternal MemoryMapMessageEnd = Pack_MemoryMapMessageEnd ()"
| "packValue_MessageRobotToExternal RobotInvalid = returnM ()"

definition Pack_MessageRobotToExternal :: "robot_to_external \<Rightarrow> writer" where
  "Pack_MessageRobotToExternal m = bindM (write_word (robotTag m)) (\<lambda>_. packValue_MessageRobotToExternal m)"

definition unpackStruct_MessageRobotToExternal :: "8 word \<Rightarrow> robot_to_external reader" where
  "unpackStruct_MessageRobotToExternal tag =
     (if tag = 0 then bindM Unpack_UiDeviceConnected (\<lambda>x. returnM (UiDeviceConnected x))
      else if tag = 1 then bindM Unpack_RobotCompletedAction (\<lambda>x. returnM (RobotCompletedAction x))
      else if tag = 2 then bindM Unpack_Event (\<lambda>x. returnM (CladEvent x))
      else if tag = 5 then bindM Unpack_EnrolledNamesResponse (\<lambda>x. returnM (EnrolledNamesResponse x))
      else if tag = 6 then bindM Unpack_RobotObservedFace (\<lambda>x. returnM (RobotObservedFaceClad x))
      else if tag = 7 then bindM Unpack_RobotChangedObservedFaceID (\<lambda>x. returnM (case x of (a, b) \<Rightarrow> RobotChangedObservedFaceIDClad a b))
      else if tag = 10 then bindM Unpack_ObjectConnectionState (\<lambda>x. returnM (case x of (a, b, c, d) \<Rightarrow> ObjectConnectionStateClad a b c d))
      else if tag = 11 then bindM Unpack_ObjectMoved (\<lambda>x. returnM (case x of (a, b) \<Rightarrow> ObjectMovedClad a b))
      else if tag = 12 then bindM Unpack_ObjectStoppedMoving (\<lambda>x. returnM (case x of (a, b) \<Rightarrow> ObjectStoppedMovingClad a b))
      else if tag = 13 then bindM Unpack_ObjectUpAxisChanged (\<lambda>x. returnM (case x of (a, b, c) \<Rightarrow> ObjectUpAxisChangedClad a b c))
      else if tag = 14 then bindM Unpack_ObjectTapped (\<lambda>x. returnM (case x of (a, b) \<Rightarrow> ObjectTappedClad a b))
      else if tag = 15 then bindM Unpack_ObjectAccel (\<lambda>x. returnM (ObjectAccelClad x))
      else if tag = 16 then bindM Unpack_RobotObservedObject (\<lambda>x. returnM (RobotObservedObjectClad x))
      else if tag = 17 then bindM Unpack_ObjectAvailable (\<lambda>x. returnM (case x of (a, b, c) \<Rightarrow> ObjectAvailableClad a b c))
      else if tag = 18 then bindM Unpack_RobotDeletedFixedCustomObjects (\<lambda>_. returnM RobotDeletedFixedCustomObjects)
      else if tag = 19 then bindM Unpack_RobotDeletedCustomMarkerObjects (\<lambda>_. returnM RobotDeletedCustomMarkerObjects)
      else if tag = 20 then bindM Unpack_CreatedFixedCustomObject (\<lambda>x. returnM (CreatedFixedCustomObject x))
      else if tag = 21 then bindM Unpack_DefinedCustomObject (\<lambda>x. returnM (DefinedCustomObject x))
      else if tag = 22 then bindM Unpack_MemoryMapMessageBegin (\<lambda>x. returnM (MemoryMapMessageBegin x))
      else if tag = 23 then bindM Unpack_MemoryMapMessage (\<lambda>x. returnM (MemoryMapMessage x))
      else if tag = 24 then bindM Unpack_MemoryMapMessageEnd (\<lambda>_. returnM MemoryMapMessageEnd)
      else failM (Errorf ''invalid tag to unpackStruct''))"

definition Unpack_MessageRobotToExternal :: "robot_to_external reader" where
  "Unpack_MessageRobotToExternal = bindM read_word (\<lambda>tag. if tag = 255 then returnM RobotInvalid else unpackStruct_MessageRobotToExternal tag)"

primrec Size_MessageRobotToExternal :: "robot_to_external \<Rightarrow> uint32" where
  "Size_MessageRobotToExternal (UiDeviceConnected x) = 1 + Size_UiDeviceConnected x"
| "Size_MessageRobotToExternal (RobotCompletedAction x) = 1 + Size_RobotCompletedAction x"
| "Size_MessageRobotToExternal (CladEvent x) = 1 + Size_Event x"
| "Size_MessageRobotToExternal (EnrolledNamesResponse x) = 1 + Size_EnrolledNamesResponse x"
| "Size_MessageRobotToExternal (RobotObservedFaceClad x) = 1 + Size_RobotObservedFace x"
| "Size_MessageRobotToExternal (RobotChangedObservedFaceIDClad a b) = 1 + Size_RobotChangedObservedFaceID (a, b)"
| "Size_MessageRobotToExternal (ObjectConnectionStateClad a b c d) = 1 + Size_ObjectConnectionState (a, b, c, d)"
| "Size_MessageRobotToExternal (ObjectMovedClad a b) = 1 + Size_ObjectMoved (a, b)"
| "Size_MessageRobotToExternal (ObjectStoppedMovingClad a b) = 1 + Size_ObjectStoppedMoving (a, b)"
| "Size_MessageRobotToExternal (ObjectUpAxisChangedClad a b c) = 1 + Size_ObjectUpAxisChanged (a, b, c)"
| "Size_MessageRobotToExternal (ObjectTappedClad a b) = 1 + Size_ObjectTapped (a, b)"
| "Size_MessageRobotToExternal (ObjectAccelClad x) = 1 + Size_ObjectAccel x"
| "Size_MessageRobotToExternal (RobotObservedObjectClad x) = 1 + Size_RobotObservedObject x"
| "Size_MessageRobotToExternal (ObjectAvailableClad a b c) = 1 + Size_ObjectAvailable (a, b, c)"
| "Size_MessageRobotToExternal RobotDeletedFixedCustomObjects = 1 + Size_RobotDeletedFixedCustomObjects ()"
| "Size_MessageRobotToExternal RobotDeletedCustomMarkerObjects = 1 + Size_RobotDeletedCustomMarkerObjects ()"
| "Size_MessageRobotToExternal (CreatedFixedCustomObject x) = 1 + Size_CreatedFixedCustomObject x"
| "Size_MessageRobotToExternal (DefinedCustomObject x) = 1 + Size_DefinedCustomObject x"
| "Size_MessageRobotToExternal (MemoryMapMessageBegin x) = 1 + Size_MemoryMapMessageBegin x"
| "Size_MessageRobotToExternal (MemoryMapMessage x) = 1 + Size_MemoryMapMessage x"
| "Size_MessageRobotToExternal MemoryMapMessageEnd = 1 + Size_MemoryMapMessageEnd ()"
| "Size_MessageRobotToExternal RobotInvalid = 1"

primrec fits_MessageRobotToExternal :: "robot_to_external \<Rightarrow> bool" where
  "fits_MessageRobotToExternal (UiDeviceConnected x) = fits_UiDeviceConnected x"
| "fits_MessageRobotToExternal (RobotCompletedAction x) = fits_RobotCompletedAction x"
| "fits_MessageRobotToExternal (CladEvent x) = True"
| "fits_MessageRobotToExternal (EnrolledNamesResponse x) = fits_EnrolledNamesResponse x"
| "fits_MessageRobotToExternal (RobotObservedFaceClad x) = fits_RobotObservedFace x"
| "fits_MessageRobotToExternal (RobotChangedObservedFaceIDClad a b) = True"
| "fits_MessageRobotToExternal (ObjectConnectionStateClad a b c d) = fits_ObjectConnectionState (a, b, c, d)"
| "fits_MessageRobotToExternal (ObjectMovedClad a b) = True"
| "fits_MessageRobotToExternal (ObjectStoppedMovingClad a b) = True"
| "fits_MessageRobotToExternal (ObjectUpAxisChangedClad a b c) = True"
| "fits_MessageRobotToExternal (ObjectTappedClad a b) = True"
| "fits_MessageRobotToExternal (ObjectAccelClad x) = True"
| "fits_MessageRobotToExternal (RobotObservedObjectClad x) = True"
| "fits_MessageRobotToExternal (ObjectAvailableClad a b c) = fits_ObjectAvailable (a, b, c)"
| "fits_MessageRobotToExternal RobotDeletedFixedCustomObjects = True"
| "fits_MessageRobotToExternal RobotDeletedCustomMarkerObjects = True"
| "fits_MessageRobotToExternal (CreatedFixedCustomObject x) = True"
| "fits_MessageRobotToExternal (DefinedCustomObject x) = True"
| "fits_MessageRobotToExternal (MemoryMapMessageBegin x) = True"
| "fits_MessageRobotToExternal (MemoryMapMessage x) = fits_MemoryMapMessage x"
| "fits_MessageRobotToExternal MemoryMapMessageEnd = True"
| "fits_MessageRobotToExternal RobotInvalid = True"

lemma wired_MessageRobotToExternal [wire]:
  "wired (Pack_MessageRobotToExternal m) Unpack_MessageRobotToExternal (fits_MessageRobotToExternal m) (Size_MessageRobotToExternal m) 393213 m"
proof (cases m)
  case (UiDeviceConnected x)
  show ?thesis unfolding UiDeviceConnected Pack_MessageRobotToExternal_def Unpack_MessageRobotToExternal_def
    by (rule wired_eq, rule wired_member [where f = UiDeviceConnected, OF wired_UiDeviceConnected [of "x"]])
      (simp_all add: unpackStruct_MessageRobotToExternal_def robot_tag_defs)
next
  case (RobotCompletedAction x)
  show ?thesis unfolding RobotCompletedAction Pack_MessageRobotToExternal_def Unpack_MessageRobotToExternal_def
    by (rule wired_eq, rule wired_member [where f = RobotCompletedAction, OF wired_RobotCompletedAction [of "x"]])
      (simp_all add: unpackStruct_MessageRobotToExternal_def robot_tag_defs)
next
  case (CladEvent x)
  show ?thesis unfolding CladEvent Pack_MessageRobotToExternal_def Unpack_MessageRobotToExternal_def
    by (rule wired_eq, rule wired_member [where f = CladEvent, OF wired_Event [of "x"]])
      (simp_all add: unpackStruct_MessageRobotToExternal_def robot_tag_defs)
next
  case (EnrolledNamesResponse x)
  show ?thesis unfolding EnrolledNamesResponse Pack_MessageRobotToExternal_def Unpack_MessageRobotToExternal_def
    by (rule wired_eq, rule wired_member [where f = EnrolledNamesResponse, OF wired_EnrolledNamesResponse [of "x"]])
      (simp_all add: unpackStruct_MessageRobotToExternal_def robot_tag_defs)
next
  case (RobotObservedFaceClad x)
  show ?thesis unfolding RobotObservedFaceClad Pack_MessageRobotToExternal_def Unpack_MessageRobotToExternal_def
    by (rule wired_eq, rule wired_member [where f = RobotObservedFaceClad, OF wired_RobotObservedFace [of "x"]])
      (simp_all add: unpackStruct_MessageRobotToExternal_def robot_tag_defs)
next
  case (RobotChangedObservedFaceIDClad a b)
  show ?thesis unfolding RobotChangedObservedFaceIDClad Pack_MessageRobotToExternal_def Unpack_MessageRobotToExternal_def
    by (rule wired_eq, rule wired_member [where f = "\<lambda>(a, b). RobotChangedObservedFaceIDClad a b", OF wired_RobotChangedObservedFaceID [of "(a, b)"]])
      (simp_all add: unpackStruct_MessageRobotToExternal_def robot_tag_defs)
next
  case (ObjectConnectionStateClad a b c d)
  show ?thesis unfolding ObjectConnectionStateClad Pack_MessageRobotToExternal_def Unpack_MessageRobotToExternal_def
    by (rule wired_eq, rule wired_member [where f = "\<lambda>(a, b, c, d). ObjectConnectionStateClad a b c d", OF wired_ObjectConnectionState [of "(a, b, c, d)"]])
      (simp_all add: unpackStruct_MessageRobotToExternal_def robot_tag_defs)
next
  case (ObjectMovedClad a b)
  show ?thesis unfolding ObjectMovedClad Pack_MessageRobotToExternal_def Unpack_MessageRobotToExternal_def
    by (rule wired_eq, rule wired_member [where f = "\<lambda>(a, b). ObjectMovedClad a b", OF wired_ObjectMoved [of "(a, b)"]])
      (simp_all add: unpackStruct_MessageRobotToExternal_def robot_tag_defs)
next
  case (ObjectStoppedMovingClad a b)
  show ?thesis unfolding ObjectStoppedMovingClad Pack_MessageRobotToExternal_def Unpack_MessageRobotToExternal_def
    by (rule wired_eq, rule wired_member [where f = "\<lambda>(a, b). ObjectStoppedMovingClad a b", OF wired_ObjectStoppedMoving [of "(a, b)"]])
      (simp_all add: unpackStruct_MessageRobotToExternal_def robot_tag_defs)
next
  case (ObjectUpAxisChangedClad a b c)
  show ?thesis unfolding ObjectUpAxisChangedClad Pack_MessageRobotToExternal_def Unpack_MessageRobotToExternal_def
    by (rule wired_eq, rule wired_member [where f = "\<lambda>(a, b, c). ObjectUpAxisChangedClad a b c", OF wired_ObjectUpAxisChanged [of "(a, b, c)"]])
      (simp_all add: unpackStruct_MessageRobotToExternal_def robot_tag_defs)
next
  case (ObjectTappedClad a b)
  show ?thesis unfolding ObjectTappedClad Pack_MessageRobotToExternal_def Unpack_MessageRobotToExternal_def
    by (rule wired_eq, rule wired_member [where f = "\<lambda>(a, b). ObjectTappedClad a b", OF wired_ObjectTapped [of "(a, b)"]])
      (simp_all add: unpackStruct_MessageRobotToExternal_def robot_tag_defs)
next
  case (ObjectAccelClad x)
  show ?thesis unfolding ObjectAccelClad Pack_MessageRobotToExternal_def Unpack_MessageRobotToExternal_def
    by (rule wired_eq, rule wired_member [where f = ObjectAccelClad, OF wired_ObjectAccel [of "x"]])
      (simp_all add: unpackStruct_MessageRobotToExternal_def robot_tag_defs)
next
  case (RobotObservedObjectClad x)
  show ?thesis unfolding RobotObservedObjectClad Pack_MessageRobotToExternal_def Unpack_MessageRobotToExternal_def
    by (rule wired_eq, rule wired_member [where f = RobotObservedObjectClad, OF wired_RobotObservedObject [of "x"]])
      (simp_all add: unpackStruct_MessageRobotToExternal_def robot_tag_defs)
next
  case (ObjectAvailableClad a b c)
  show ?thesis unfolding ObjectAvailableClad Pack_MessageRobotToExternal_def Unpack_MessageRobotToExternal_def
    by (rule wired_eq, rule wired_member [where f = "\<lambda>(a, b, c). ObjectAvailableClad a b c", OF wired_ObjectAvailable [of "(a, b, c)"]])
      (simp_all add: unpackStruct_MessageRobotToExternal_def robot_tag_defs)
next
  case RobotDeletedFixedCustomObjects
  show ?thesis unfolding RobotDeletedFixedCustomObjects Pack_MessageRobotToExternal_def Unpack_MessageRobotToExternal_def
    by (rule wired_eq, rule wired_member [where f = "\<lambda>_. RobotDeletedFixedCustomObjects", OF wired_RobotDeletedFixedCustomObjects [of "()"]])
      (simp_all add: unpackStruct_MessageRobotToExternal_def robot_tag_defs)
next
  case RobotDeletedCustomMarkerObjects
  show ?thesis unfolding RobotDeletedCustomMarkerObjects Pack_MessageRobotToExternal_def Unpack_MessageRobotToExternal_def
    by (rule wired_eq, rule wired_member [where f = "\<lambda>_. RobotDeletedCustomMarkerObjects", OF wired_RobotDeletedCustomMarkerObjects [of "()"]])
      (simp_all add: unpackStruct_MessageRobotToExternal_def robot_tag_defs)
next
  case (CreatedFixedCustomObject x)
  show ?thesis unfolding CreatedFixedCustomObject Pack_MessageRobotToExternal_def Unpack_MessageRobotToExternal_def
    by (rule wired_eq, rule wired_member [where f = CreatedFixedCustomObject, OF wired_CreatedFixedCustomObject [of "x"]])
      (simp_all add: unpackStruct_MessageRobotToExternal_def robot_tag_defs)
next
  case (DefinedCustomObject x)
  show ?thesis unfolding DefinedCustomObject Pack_MessageRobotToExternal_def Unpack_MessageRobotToExternal_def
    by (rule wired_eq, rule wired_member [where f = DefinedCustomObject, OF wired_DefinedCustomObject [of "x"]])
      (simp_all add: unpackStruct_MessageRobotToExternal_def robot_tag_defs)
next
  case (MemoryMapMessageBegin x)
  show ?thesis unfolding MemoryMapMessageBegin Pack_MessageRobotToExternal_def Unpack_MessageRobotToExternal_def
    by (rule wired_eq, rule wired_member [where f = MemoryMapMessageBegin, OF wired_MemoryMapMessageBegin [of "x"]])
      (simp_all add: unpackStruct_MessageRobotToExternal_def robot_tag_defs)
next
  case (MemoryMapMessage x)
  show ?thesis unfolding MemoryMapMessage Pack_MessageRobotToExternal_def Unpack_MessageRobotToExternal_def
    by (rule wired_eq, rule wired_member [where f = MemoryMapMessage, OF wired_MemoryMapMessage [of "x"]])
      (simp_all add: unpackStruct_MessageRobotToExternal_def robot_tag_defs)
next
  case MemoryMapMessageEnd
  show ?thesis unfolding MemoryMapMessageEnd Pack_MessageRobotToExternal_def Unpack_MessageRobotToExternal_def
    by (rule wired_eq, rule wired_member [where f = "\<lambda>_. MemoryMapMessageEnd", OF wired_MemoryMapMessageEnd [of "()"]])
      (simp_all add: unpackStruct_MessageRobotToExternal_def robot_tag_defs)
next
  case RobotInvalid
  show ?thesis unfolding RobotInvalid Pack_MessageRobotToExternal_def Unpack_MessageRobotToExternal_def
    by (rule wired_eq, rule wired_invalid) simp_all
qed

lemma reader_MessageRobotToExternal [reads]: "reader Unpack_MessageRobotToExternal"
  unfolding Unpack_MessageRobotToExternal_def unpackStruct_MessageRobotToExternal_def by (rule reads reader_bind)+

end
