(* ===== verification/Clad_Wire.thy ===== *)
theory Clad_Wire
  imports Clad_From_Robot
begin

text \<open>
  The two unions of the CLAD socket as message types that their users can rely on, and what the
  managers get from them: the bytes of a request, the message in a block.
\<close>

interpretation toRobot: wire_codec Pack_MessageExternalToRobot Unpack_MessageExternalToRobot
    fits_MessageExternalToRobot Size_MessageExternalToRobot 1210
  by unfold_locales (rule wired_MessageExternalToRobot, rule reader_MessageExternalToRobot)

interpretation fromRobot: wire_codec Pack_MessageRobotToExternal Unpack_MessageRobotToExternal
    fits_MessageRobotToExternal Size_MessageRobotToExternal 393213
  by unfold_locales (rule wired_MessageRobotToExternal, rule reader_MessageRobotToExternal)

text \<open>What \<open>Write\<close> of the CLAD manager puts into its buffer: the size in 16 bits and the message.\<close>

definition clad_datagram :: "external_to_robot \<Rightarrow> unit outcome \<times> byte list" where
  "clad_datagram msg = bindM (write_word (ucast (Size_MessageExternalToRobot msg) :: uint16))
     (\<lambda>_. Pack_MessageExternalToRobot msg) []"

text \<open>The bytes of a request, if it can be packed.\<close>

definition clad_bytes :: "external_to_robot \<Rightarrow> byte list option" where
  "clad_bytes msg = (if fits_MessageExternalToRobot msg then Some (toRobot.bytes msg) else None)"

text \<open>The size is the length of the bytes, which 16 bits can hold.\<close>

lemma clad_datagram_bytes:
  "clad_bytes msg = Some d \<Longrightarrow> clad_datagram msg = (Ret (), le16 (of_nat (length d)) @ d) \<and> length d \<le> 1210"
  "clad_bytes msg = None \<Longrightarrow> \<exists>e d. clad_datagram msg = (Fail (Errorf e), d)"
proof -
  assume "clad_bytes msg = Some d"
  then have msg: "fits_MessageExternalToRobot msg" "d = toRobot.bytes msg"
    by (auto simp: clad_bytes_def split: if_splits)
  note packed = toRobot.packed [OF msg(1)]
  have len: "length d \<le> 1210" using packed(4) by (simp add: msg)
  then have "(ucast (of_nat (length d) :: uint32) :: uint16) = of_nat (length d)"
    by (simp add: word_eq_iff_unsigned unsigned_ucast_eq unsigned_of_nat take_bit_nat_eq_self)
  then show "clad_datagram msg = (Ret (), le16 (of_nat (length d)) @ d) \<and> length d \<le> 1210"
    using len packed(1,3) by (simp add: clad_datagram_def bindM_def write_word_def binary_Write_def le16_bytes msg(2))
next
  assume "clad_bytes msg = None"
  then have "\<not> fits_MessageExternalToRobot msg" by (simp add: clad_bytes_def split: if_splits)
  from toRobot.not_packed [OF this] obtain e d where "Pack_MessageExternalToRobot msg (le_bytes 2 (ucast (Size_MessageExternalToRobot msg) :: uint16)) = (Fail (Errorf e), d)"
    by metis
  then show "\<exists>e d. clad_datagram msg = (Fail (Errorf e), d)"
    by (simp add: clad_datagram_def bindM_def write_word_def binary_Write_def)
qed

text \<open>The message at the front of the bytes, if they can be decoded.\<close>

definition clad_message :: "byte list \<Rightarrow> robot_to_external option" where
  "clad_message b = (case Unpack_MessageRobotToExternal b of (Ret m, _) \<Rightarrow> Some m | _ \<Rightarrow> None)"

lemma clad_message_cases:
  obtains m rest where "Unpack_MessageRobotToExternal b = (Ret m, rest)" "clad_message b = Some m"
  | e rest where "Unpack_MessageRobotToExternal b = (Fail (Errorf e), rest)" "clad_message b = None"
  using fromRobot.unpack_cases [of b] by (auto simp: clad_message_def)

lemma clad_message_bytes:
  "fits_MessageRobotToExternal m \<Longrightarrow> clad_message (fromRobot.bytes m @ rest) = Some m"
  by (simp add: clad_message_def fromRobot.packed(2))

end
