(* ===== verification/Ipc_Managers.thy ===== *)
theory Ipc_Managers
  imports Listeners Clad_Convert Clad_Wire
begin

text \<open>
  \<open>cloud/ipc_manager.go\<close>: the state of the gateway process and the managers of its domain
  sockets. The state holds the two engine managers' registries, the datagrams written to the two
  engine sockets, and the environment in which a handler runs: the blocks that the sockets will
  deliver (with what else may wake a waiting \<open>select\<close> between them), the writes that will fail, the random numbers, the outcomes of sends on the client's stream, and the
  serialisation library (\<open>proto.Marshal\<close>/\<open>Unmarshal\<close> and the generated CLAD \<open>Pack\<close>/\<open>Unpack\<close>,
  which are parameters here).

  A handler runs until it returns. When it waits on a channel the next block arrives and the
  managers' \<open>ProcessMessages\<close> loops handle it; when no block is left it waits for ever.
\<close>

section \<open>The gateway's state\<close>

datatype arrival =
    ProtoBlock "byte list option"  \<comment> \<open>\<open>ReadBlock\<close> of the proto socket; \<open>None\<close> is nil\<close>
  | CladBlock "byte list option"
  | TimerFires
  | PeerDone                            \<comment> \<open>the other goroutine of a stream closes \<open>done\<close>\<close>

text \<open>What becomes of a send on the client's stream: the context may be done after it.\<close>

datatype send_fate = Delivered | SendFails | ContextDone

record nav_map_feed_response =
  OriginId :: uint32
  MapInfo :: nav_map_info
  QuadInfos :: "nav_map_quad_info list"

record audio_feed_response =
  afRobotTimeStamp :: uint32
  afGroupId :: uint32
  afSignalPower :: "byte list"
  afRest :: pb

record camera_image =
  ciFrameTimeStamp :: uint32
  ciImageId :: uint32
  ciImageEncoding :: int32
  ciData :: "byte list"

text \<open>What the streaming handlers send to their clients.\<close>

datatype stream_msg =
    EventResponse "status_code option" "event option"
  | BehaviorResponse pb
  | BehaviorKeepAlive
  | AudioFeedResponse audio_feed_response
  | CameraFeedResponse camera_image
  | NavMapFeedResponse nav_map_feed_response
  | ExternalAudioResponse pb

record gateway =
  proto_mgr :: "(oneof_type, gateway_wrapper) manager"
  clad_mgr :: "(8 word, robot_to_external) manager"
  proto_alive :: bool                 \<comment> \<open>the proto \<open>ProcessMessages\<close> loop has not returned\<close>
  clad_alive :: bool
  proto_sock :: "byte list list"      \<comment> \<open>datagrams written so far, oldest first\<close>
  clad_sock :: "byte list list"
  stream_out :: "stream_msg list"     \<comment> \<open>messages sent to the client\<close>
  connectionId :: string
  lastResult :: "response option"
  lastProgress :: int
  lastExpected :: int
  arrivals :: "arrival list"
  write_faults :: "bool list"         \<comment> \<open>does the next write fail? the empty list: no more faults\<close>
  stream_fates :: "send_fate list"    \<comment> \<open>the empty list: all delivered\<close>
  rand_source :: "nat \<Rightarrow> uint64"    \<comment> \<open>the stream of random numbers and the next one's index\<close>
  rand_next :: nat
  marshal :: "gateway_wrapper \<Rightarrow> byte list option"
  unmarshal :: "byte list \<Rightarrow> gateway_wrapper option"

definition wf_gateway :: "gateway \<Rightarrow> bool" where
  "wf_gateway w \<longleftrightarrow> wf_manager wrapper_type (proto_mgr w) \<and> wf_manager robotTag (clad_mgr w)"

section \<open>What the managers share\<close>

text \<open>
  The managers differ in the type of their messages and in the field of the state that holds
  their registry. These functions take that field's selector and update.
\<close>

definition mgr_CreateChannel ::
    "(gateway \<Rightarrow> ('t, 'm) manager) \<Rightarrow> (('t, 'm) manager \<Rightarrow> gateway \<Rightarrow> gateway) \<Rightarrow> 't \<Rightarrow> nat \<Rightarrow> (gateway, nat) go" where
  "mgr_CreateChannel get put tag numChannels w =
     (let (c, m) = CreateChannel_reg tag numChannels (get w) in (Ret c, put m w))"

definition mgr_deleteListenerCallback ::
    "(gateway \<Rightarrow> ('t, 'm) manager) \<Rightarrow> (('t, 'm) manager \<Rightarrow> gateway \<Rightarrow> gateway) \<Rightarrow> nat \<Rightarrow> 't \<Rightarrow> (gateway, unit) go" where
  "mgr_deleteListenerCallback get put listener tag w =
     (case deleteListenerUnsafe_reg listener tag (get w) of
        None \<Rightarrow> (Panic, w)
      | Some m \<Rightarrow> (Ret (), put m w))"

text \<open>
  \<open>SendToListeners\<close> runs on the manager's own goroutine, where nothing recovers a panic. After a
  deadlock the registry's lock stays taken, and a handler blocks in its deferred callback at the
  latest, whatever it did before.
\<close>

definition mgr_SendToListeners ::
    "(gateway \<Rightarrow> ('t, 'm) manager) \<Rightarrow> (('t, 'm) manager \<Rightarrow> gateway \<Rightarrow> gateway) \<Rightarrow> 't \<Rightarrow> 'm \<Rightarrow> (gateway, unit) go" where
  "mgr_SendToListeners get put tag msg w = (case SendToListeners_reg tag msg (get w) of
      Sent m \<Rightarrow> (Ret (), put m w)
    | Deadlock \<Rightarrow> (Blocked, w)
    | SendPanic \<Rightarrow> (Crash, w))"

text \<open>A datagram: the 16-bit length, little endian, and the message. The length wraps at 65536.\<close>

definition frame :: "byte list \<Rightarrow> byte list" where
  "frame data = le16 (of_nat (length data)) @ data"

definition next_fault :: "bool list \<Rightarrow> bool" where
  "next_fault fs = (case fs of [] \<Rightarrow> False | f # _ \<Rightarrow> f)"

abbreviation put_proto :: "(oneof_type, gateway_wrapper) manager \<Rightarrow> gateway \<Rightarrow> gateway" where
  "put_proto m w \<equiv> w\<lparr>proto_mgr := m\<rparr>"

abbreviation put_clad :: "(8 word, robot_to_external) manager \<Rightarrow> gateway \<Rightarrow> gateway" where
  "put_clad m w \<equiv> w\<lparr>clad_mgr := m\<rparr>"

section \<open>EngineProtoIpcManager\<close>

definition EngineProto_CreateChannel :: "oneof_type \<Rightarrow> nat \<Rightarrow> (gateway, nat) go" where
  "EngineProto_CreateChannel = mgr_CreateChannel proto_mgr put_proto"

text \<open>\<open>CreateUniqueChannel\<close>: \<open>None\<close> when there is a listener under the tag already.\<close>

definition EngineProto_CreateUniqueChannel ::
    "oneof_type \<Rightarrow> nat \<Rightarrow> (gateway, nat option) go" where
  "EngineProto_CreateUniqueChannel tag numChannels w =
     (if managedChannels (proto_mgr w) tag \<noteq> None then (Ret None, w)
      else bindM (EngineProto_CreateChannel tag numChannels) (\<lambda>c. returnM (Some c)) w)"

definition EngineProto_deleteListenerCallback :: "nat \<Rightarrow> oneof_type \<Rightarrow> (gateway, unit) go" where
  "EngineProto_deleteListenerCallback = mgr_deleteListenerCallback proto_mgr put_proto"

definition EngineProto_SendToListeners ::
    "oneof_type \<Rightarrow> gateway_wrapper \<Rightarrow> (gateway, unit) go" where
  "EngineProto_SendToListeners = mgr_SendToListeners proto_mgr put_proto"

text \<open>\<open>conn.Write\<close> of a datagram.\<close>

definition proto_conn_write :: "byte list \<Rightarrow> (gateway, unit) go" where
  "proto_conn_write b w =
     (let w' = w\<lparr>write_faults := tl (write_faults w)\<rparr> in
      if next_fault (write_faults w) then (Fail SocketError, w')
      else (Ret (), w'\<lparr>proto_sock := proto_sock w @ [b]\<rparr>))"

text \<open>
  \<open>WriteWithID\<close> stores the connection id in the message before it tests the message for nil, so
  a nil message panics and the test never fails.
\<close>

definition EngineProto_WriteWithID :: "gateway_wrapper option \<Rightarrow> uint64 \<Rightarrow> (gateway, unit) go" where
  "EngineProto_WriteWithID msg connID w = (case msg of
      None \<Rightarrow> (Panic, w)
    | Some m \<Rightarrow> (case marshal w (m\<lparr>ConnectionId := connID\<rparr>) of
          None \<Rightarrow> (Fail (GrpcError Internal ''marshal''), w)
        | Some data \<Rightarrow> proto_conn_write (frame data) w))"

definition rand_Uint64 :: "(gateway, uint64) go" where
  "rand_Uint64 w = (Ret (rand_source w (rand_next w)), w\<lparr>rand_next := Suc (rand_next w)\<rparr>)"

definition EngineProto_Write :: "oneof \<Rightarrow> (gateway, uint64) go" where
  "EngineProto_Write x = bindM rand_Uint64 (\<lambda>connectionID.
     bindM (EngineProto_WriteWithID
              (Some \<lparr>ConnectionId = 0, OneofMessageType = Some x\<rparr>) connectionID) (\<lambda>_.
     returnM connectionID))"

text \<open>
  One round of \<open>ProcessMessages\<close>: a nil block ends the loop; a block shorter than its length
  prefix and a block that does not decode are dropped; a message without a member makes
  \<open>reflect.TypeOf(nil).String()\<close> panic on the manager's goroutine.
\<close>

definition EngineProto_ProcessBlock :: "byte list option \<Rightarrow> (gateway, unit) go" where
  "EngineProto_ProcessBlock block w =
     (if \<not> proto_alive w then (Ret (), w)
      else case block of
        None \<Rightarrow> (Ret (), w\<lparr>proto_alive := False\<rparr>)
      | Some b \<Rightarrow>
          if length b < 2 then (Ret (), w)
          else (case unmarshal w (drop 2 b) of
              None \<Rightarrow> (Ret (), w)
            | Some msg \<Rightarrow> (case OneofMessageType msg of
                  None \<Rightarrow> (Crash, w)
                | Some x \<Rightarrow> EngineProto_SendToListeners (reflectType x) msg w)))"

section \<open>EngineCladIpcManager\<close>

definition EngineClad_CreateChannel :: "8 word \<Rightarrow> nat \<Rightarrow> (gateway, nat) go" where
  "EngineClad_CreateChannel = mgr_CreateChannel clad_mgr put_clad"

definition EngineClad_deleteListenerCallback :: "nat \<Rightarrow> 8 word \<Rightarrow> (gateway, unit) go" where
  "EngineClad_deleteListenerCallback = mgr_deleteListenerCallback clad_mgr put_clad"

definition EngineClad_SendToListeners :: "robot_to_external \<Rightarrow> (gateway, unit) go" where
  "EngineClad_SendToListeners msg = mgr_SendToListeners clad_mgr put_clad (robotTag msg) msg"

definition clad_conn_write :: "byte list \<Rightarrow> (gateway, unit) go" where
  "clad_conn_write b w =
     (let w' = w\<lparr>write_faults := tl (write_faults w)\<rparr> in
      if next_fault (write_faults w) then (Fail SocketError, w')
      else (Ret (), w'\<lparr>clad_sock := clad_sock w @ [b]\<rparr>))"

text \<open>Here the nil test comes first: a nil message is an \<open>InvalidArgument\<close> error.\<close>

definition EngineClad_Write :: "external_to_robot option \<Rightarrow> (gateway, unit) go" where
  "EngineClad_Write msg w = (case msg of
      None \<Rightarrow> (Fail (GrpcError InvalidArgument ''Unable to parse request''), w)
    | Some m \<Rightarrow> (case clad_datagram m of
          (Ret _, data) \<Rightarrow> clad_conn_write data w
        | (Fail (Errorf e), _) \<Rightarrow> (Fail (GrpcError Internal e), w)
        | _ \<Rightarrow> (Panic, w)))"

text \<open>The error text of a message that cannot be packed.\<close>

definition pack_error :: "external_to_robot \<Rightarrow> string" where
  "pack_error m = (case clad_datagram m of (Fail (Errorf e), _) \<Rightarrow> e | _ \<Rightarrow> [])"

lemma EngineClad_Write_eq:
  "EngineClad_Write msg w = (case msg of
      None \<Rightarrow> (Fail (GrpcError InvalidArgument ''Unable to parse request''), w)
    | Some m \<Rightarrow> (case clad_bytes m of
          None \<Rightarrow> (Fail (GrpcError Internal (pack_error m)), w)
        | Some data \<Rightarrow> clad_conn_write (frame data) w))"
proof (cases msg)
  case (Some m)
  show ?thesis
  proof (cases "clad_bytes m")
    case None
    from clad_datagram_bytes(2) [OF None] Some None show ?thesis
      by (auto simp: EngineClad_Write_def pack_error_def)
  next
    case (Some d)
    from clad_datagram_bytes(1) [OF Some] \<open>msg = Some m\<close> Some show ?thesis
      by (simp add: EngineClad_Write_def frame_def)
  qed
qed (simp add: EngineClad_Write_def)

text \<open>\<open>SendEventToChannel\<close> hands an event, which may be nil, to the proto manager's listeners.\<close>

definition SendEventToChannel :: "event option \<Rightarrow> (gateway, unit) go" where
  "SendEventToChannel e =
     EngineProto_SendToListeners EventType
       \<lparr>ConnectionId = 0, OneofMessageType = Some (EventMsg e)\<rparr>"

definition EngineClad_ProcessBlock :: "byte list option \<Rightarrow> (gateway, unit) go" where
  "EngineClad_ProcessBlock block w =
     (if \<not> clad_alive w then (Ret (), w)
      else case block of
        None \<Rightarrow> (Ret (), w\<lparr>clad_alive := False\<rparr>)
      | Some b \<Rightarrow>
          if length b < 2 then (Ret (), w)
          else (case Unpack_MessageRobotToExternal (drop 2 b) of
              (Ret msg, _) \<Rightarrow> (case clad_to_event msg of
                  Some e \<Rightarrow> SendEventToChannel e w
                | None \<Rightarrow> EngineClad_SendToListeners msg w)
            | (Fail _, _) \<Rightarrow> (Ret (), w)
            | _ \<Rightarrow> (Crash, w)))"

lemma EngineClad_ProcessBlock_eq:
  "EngineClad_ProcessBlock block w =
     (if \<not> clad_alive w then (Ret (), w)
      else case block of
        None \<Rightarrow> (Ret (), w\<lparr>clad_alive := False\<rparr>)
      | Some b \<Rightarrow>
          if length b < 2 then (Ret (), w)
          else (case clad_message (drop 2 b) of
              None \<Rightarrow> (Ret (), w)
            | Some msg \<Rightarrow> (case clad_to_event msg of
                  Some e \<Rightarrow> SendEventToChannel e w
                | None \<Rightarrow> EngineClad_SendToListeners msg w)))"
proof (cases block)
  case (Some b)
  show ?thesis
    by (rule clad_message_cases [of "drop 2 b"]) (simp_all add: Some EngineClad_ProcessBlock_def)
qed (simp add: EngineClad_ProcessBlock_def)

section \<open>Waiting\<close>

definition arrive :: "arrival \<Rightarrow> (gateway, unit) go" where
  "arrive a = (case a of
      ProtoBlock b \<Rightarrow> EngineProto_ProcessBlock b
    | CladBlock b \<Rightarrow> EngineClad_ProcessBlock b
    | TimerFires \<Rightarrow> returnM ()
    | PeerDone \<Rightarrow> returnM ())"

datatype 'm wake = GotMessage 'm | GotClosed | Woken arrival

text \<open>
  A \<open>select\<close> over one channel and whatever else wakes it (a timer, the \<open>done\<close> channel). When nothing
  else does this is a plain receive.
\<close>

fun mgr_select ::
    "(gateway \<Rightarrow> ('t, 'm) manager) \<Rightarrow> (('t, 'm) manager \<Rightarrow> gateway \<Rightarrow> gateway) \<Rightarrow>
     (arrival \<Rightarrow> bool) \<Rightarrow> nat \<Rightarrow> arrival list \<Rightarrow> (gateway, 'm wake) go" where
  "mgr_select get put wakes c arr w = (case receive_reg c (get w) of
      (Received x, m) \<Rightarrow> (Ret (GotMessage x), (put m w)\<lparr>arrivals := arr\<rparr>)
    | (ClosedEmpty, _) \<Rightarrow> (Ret GotClosed, w\<lparr>arrivals := arr\<rparr>)
    | (WouldBlock, _) \<Rightarrow> (case arr of
          [] \<Rightarrow> (Blocked, w\<lparr>arrivals := []\<rparr>)
        | a # as \<Rightarrow>
            if wakes a then (Ret (Woken a), w\<lparr>arrivals := as\<rparr>)
            else bindM (arrive a) (\<lambda>_. mgr_select get put wakes c as) w))"

declare mgr_select.simps [simp del]

text \<open>\<open>x, ok := <-c\<close>: \<open>None\<close> when the channel is closed and empty.\<close>

definition mgr_recv ::
    "(gateway \<Rightarrow> ('t, 'm) manager) \<Rightarrow> (('t, 'm) manager \<Rightarrow> gateway \<Rightarrow> gateway) \<Rightarrow> nat \<Rightarrow>
     (gateway, 'm option) go" where
  "mgr_recv get put c w = bindM (\<lambda>v. mgr_select get put (\<lambda>_. False) c (arrivals v) v) (\<lambda>k. case k of
      GotMessage x \<Rightarrow> returnM (Some x) | _ \<Rightarrow> returnM None) w"

definition proto_recv :: "nat \<Rightarrow> (gateway, gateway_wrapper option) go" where
  "proto_recv = mgr_recv proto_mgr put_proto"

definition clad_recv :: "nat \<Rightarrow> (gateway, robot_to_external option) go" where
  "clad_recv = mgr_recv clad_mgr put_clad"

text \<open>\<open>select\<close> over a channel of the proto manager and \<open>time.After\<close>.\<close>

definition proto_recv_timeout :: "nat \<Rightarrow> (gateway, gateway_wrapper wake) go" where
  "proto_recv_timeout c w = mgr_select proto_mgr put_proto (\<lambda>a. a = TimerFires) c (arrivals w) w"

section \<open>A gateway at rest\<close>

text \<open>
  The state after \<open>Init\<close>, with the given arrivals and decoder; every protobuf message is encoded as no
  bytes. The examples that go with the theorems run in it.
\<close>

definition gateway_at_rest ::
    "arrival list \<Rightarrow> (byte list \<Rightarrow> gateway_wrapper option) \<Rightarrow> gateway" where
  "gateway_at_rest arr decode =
     \<lparr>proto_mgr = empty_manager, clad_mgr = empty_manager, proto_alive = True, clad_alive = True,
      proto_sock = [], clad_sock = [], stream_out = [], connectionId = [], lastResult = None,
      lastProgress = 0, lastExpected = 0, arrivals = arr, write_faults = [], stream_fates = [],
      rand_source = (\<lambda>n. of_nat n), rand_next = 0,
      marshal = (\<lambda>_. Some []), unmarshal = decode\<rparr>"

lemma gateway_at_rest_wf [simp]: "wf_gateway (gateway_at_rest arr decode)"
  by (simp add: gateway_at_rest_def wf_gateway_def)

text \<open>A decoder that knows one message, as the given bytes.\<close>

definition knows :: "byte list \<Rightarrow> 'm \<Rightarrow> byte list \<Rightarrow> 'm option" where
  "knows bs m b = (if b = bs then Some m else None)"

end
