(* ===== verification/Engine_Link.thy ===== *)
theory Engine_Link
  imports Ipc_Managers
begin

text \<open>
  What a handler can rely on while it talks to the engine. \<open>ok I m Q\<close> says that \<open>m\<close>, started in a
  well-formed gateway where \<open>I\<close> holds, never panics, and that when it returns the gateway is
  well-formed again, no listener was left behind (\<open>shrinks\<close>), every channel still holds only
  messages of its tag (\<open>keeps\<close>), and \<open>Q\<close> holds of the value. The locale \<open>manager_link\<close> states what
  is needed of a manager's field of the state to prove this for waiting on its channels and for a
  whole session (create a channel, run a body, remove the channel on every path); it is
  interpreted for the two engine managers.
\<close>

section \<open>Relations between gateway states\<close>

definition shrinks :: "gateway \<Rightarrow> gateway \<Rightarrow> bool" where
  "shrinks w w' \<longleftrightarrow>
     (\<forall>t. set (listeners (proto_mgr w') t) \<subseteq> set (listeners (proto_mgr w) t)) \<and>
     (\<forall>t. set (listeners (clad_mgr w') t) \<subseteq> set (listeners (clad_mgr w) t))"

definition keeps :: "gateway \<Rightarrow> gateway \<Rightarrow> bool" where
  "keeps w w' \<longleftrightarrow>
     (\<forall>t c. typed_chan wrapper_type t c (proto_mgr w) \<longrightarrow> typed_chan wrapper_type t c (proto_mgr w')) \<and>
     (\<forall>t c. typed_chan robotTag t c (clad_mgr w) \<longrightarrow> typed_chan robotTag t c (clad_mgr w'))"

lemma shrinks_refl [simp]: "shrinks w w" by (simp add: shrinks_def)
lemma keeps_refl [simp]: "keeps w w" by (simp add: keeps_def)

lemma shrinks_trans: "shrinks a b \<Longrightarrow> shrinks b c \<Longrightarrow> shrinks a c"
  unfolding shrinks_def by (meson subset_trans)

lemma keeps_trans: "keeps a b \<Longrightarrow> keeps b c \<Longrightarrow> keeps a c"
  unfolding keeps_def by blast

text \<open>States with the same two registries are interchangeable for these relations.\<close>

definition same_mgrs :: "gateway \<Rightarrow> gateway \<Rightarrow> bool" where
  "same_mgrs w w' \<longleftrightarrow> proto_mgr w' = proto_mgr w \<and> clad_mgr w' = clad_mgr w"

lemma same_mgrs_good:
  assumes "same_mgrs w w'"
  shows "wf_gateway w' = wf_gateway w" "shrinks w w'" "keeps w w'"
  using assms by (auto simp: same_mgrs_def wf_gateway_def shrinks_def keeps_def)

section \<open>Safe computations\<close>

definition ok_res :: "gateway \<Rightarrow> ('a \<Rightarrow> bool) \<Rightarrow> 'a outcome \<times> gateway \<Rightarrow> bool" where
  "ok_res w Q p \<longleftrightarrow> (case p of
      (Ret a, w') \<Rightarrow> wf_gateway w' \<and> shrinks w w' \<and> keeps w w' \<and> Q a
    | (Fail e, w') \<Rightarrow> wf_gateway w' \<and> shrinks w w' \<and> keeps w w'
    | (Panic, w') \<Rightarrow> False
    | (Blocked, w') \<Rightarrow> True
    | (Crash, w') \<Rightarrow> True)"

definition ok :: "(gateway \<Rightarrow> bool) \<Rightarrow> (gateway, 'a) go \<Rightarrow> ('a \<Rightarrow> bool) \<Rightarrow> bool" where
  "ok I m Q \<longleftrightarrow> (\<forall>w. wf_gateway w \<longrightarrow> I w \<longrightarrow> ok_res w Q (m w))"

lemma ok_res_simps [simp]:
  "ok_res w Q (Ret a, w') \<longleftrightarrow> wf_gateway w' \<and> shrinks w w' \<and> keeps w w' \<and> Q a"
  "ok_res w Q (Fail e, w') \<longleftrightarrow> wf_gateway w' \<and> shrinks w w' \<and> keeps w w'"
  "ok_res w Q (Panic, w') \<longleftrightarrow> False"
  "ok_res w Q (Blocked, w')"
  "ok_res w Q (Crash, w')"
  by (simp_all add: ok_res_def)

definition stable :: "(gateway \<Rightarrow> bool) \<Rightarrow> bool" where
  "stable I \<longleftrightarrow> (\<forall>w w'. keeps w w' \<longrightarrow> I w \<longrightarrow> I w')"

lemma stable_True [simp]: "stable (\<lambda>_. True)" by (simp add: stable_def)

lemma stable_conj [simp]: "stable I \<Longrightarrow> stable J \<Longrightarrow> stable (\<lambda>w. I w \<and> J w)"
  unfolding stable_def by blast

lemma okD:
  assumes "ok I m Q" "wf_gateway w" "I w" "m w = (r, w')"
  shows "r \<noteq> Panic"
    and "r = Ret a \<Longrightarrow> wf_gateway w' \<and> shrinks w w' \<and> keeps w w' \<and> Q a"
    and "r = Fail e \<Longrightarrow> wf_gateway w' \<and> shrinks w w' \<and> keeps w w'"
proof -
  have c: "ok_res w Q (r, w')" using assms unfolding ok_def by metis
  from c show "r \<noteq> Panic" by auto
  from c show "r = Ret a \<Longrightarrow> wf_gateway w' \<and> shrinks w w' \<and> keeps w w' \<and> Q a" by auto
  from c show "r = Fail e \<Longrightarrow> wf_gateway w' \<and> shrinks w w' \<and> keeps w w'" by auto
qed

lemma okI:
  assumes "\<And>w a w'. wf_gateway w \<Longrightarrow> I w \<Longrightarrow> m w = (Ret a, w') \<Longrightarrow>
             wf_gateway w' \<and> shrinks w w' \<and> keeps w w' \<and> Q a"
    and "\<And>w e w'. wf_gateway w \<Longrightarrow> I w \<Longrightarrow> m w = (Fail e, w') \<Longrightarrow>
             wf_gateway w' \<and> shrinks w w' \<and> keeps w w'"
    and "\<And>w w'. wf_gateway w \<Longrightarrow> I w \<Longrightarrow> m w \<noteq> (Panic, w')"
  shows "ok I m Q"
  unfolding ok_def
proof (intro allI impI)
  fix w assume w: "wf_gateway w" "I w"
  obtain r v where mw: "m w = (r, v)" by fastforce
  show "ok_res w Q (m w)"
    using assms(1,2) [OF w] assms(3) [OF w, of v] mw by (cases r) simp_all
qed

lemma ok_weaken: "ok I m Q \<Longrightarrow> (\<And>w. J w \<Longrightarrow> I w) \<Longrightarrow> (\<And>a. Q a \<Longrightarrow> R a) \<Longrightarrow> ok J m R"
  using okD [of I m Q]
  by (intro okI) metis+

lemma ok_return: "Q a \<Longrightarrow> ok I (returnM a) Q"
  by (simp add: ok_def returnM_def)

lemma ok_fail [simp]: "ok I (failM e) Q"
  by (simp add: ok_def failM_def)

lemma ok_bind:
  assumes m: "ok I m Q" and k: "\<And>a. Q a \<Longrightarrow> ok I (k a) R" and I: "stable I"
  shows "ok I (bindM m k) R"
proof (rule okI)
  fix w assume w: "wf_gateway w" "I w"
  obtain r v where mw: "m w = (r, v)" by fastforce
  have step: "wf_gateway v \<and> I v \<and> shrinks w v \<and> keeps w v \<and> Q a" if "r = Ret a" for a
    using okD(2) [OF m w mw that] I w(2) by (auto simp: stable_def)
  {
    fix a w' assume "bindM m k w = (Ret a, w')"
    then obtain b where "r = Ret b" "k b v = (Ret a, w')"
      by (auto simp: bindM_def mw split: outcome.splits)
    then show "wf_gateway w' \<and> shrinks w w' \<and> keeps w w' \<and> R a"
      using step okD(2) [OF k] shrinks_trans keeps_trans by metis
  next
    fix e w' assume f: "bindM m k w = (Fail e, w')"
    show "wf_gateway w' \<and> shrinks w w' \<and> keeps w w'"
    proof (cases "\<exists>b. r = Ret b")
      case True
      then obtain b where "r = Ret b" "k b v = (Fail e, w')" using f by (auto simp: bindM_def mw)
      then show ?thesis using step okD(3) [OF k] shrinks_trans keeps_trans by metis
    next
      case False
      with f have "r = Fail e" "w' = v" by (auto simp: bindM_def mw split: outcome.splits)
      then show ?thesis using okD(3) [OF m w mw] by blast
    qed
  next
    fix w' show "bindM m k w \<noteq> (Panic, w')"
    proof (cases "\<exists>b. r = Ret b")
      case True
      then obtain b where "r = Ret b" by blast
      then show ?thesis using step okD(1) [OF k, of b v] by (auto simp: bindM_def mw)
    next
      case False
      then show ?thesis using okD(1) [OF m w mw]
        by (auto simp: bindM_def mw split: outcome.splits)
    qed
  }
qed

lemma ok_try:
  assumes "ok I m Q" shows "ok I (tryM m) (\<lambda>_. True)"
proof (rule okI)
  fix w assume w: "wf_gateway w" "I w"
  obtain r v where mw: "m w = (r, v)" by fastforce
  note D = okD [OF assms w mw]
  show "wf_gateway w' \<and> shrinks w w' \<and> keeps w w' \<and> True" if "tryM m w = (Ret a, w')" for a w'
    using that D by (cases r) (auto simp: tryM_def mw)
  show "wf_gateway w' \<and> shrinks w w' \<and> keeps w w'" if "tryM m w = (Fail e, w')" for e w'
    using that by (cases r) (auto simp: tryM_def mw)
  show "tryM m w \<noteq> (Panic, w')" for w'
    using D(1) by (cases r) (auto simp: tryM_def mw)
qed

lemma ok_same:
  assumes "\<And>w r w'. m w = (r, w') \<Longrightarrow> same_mgrs w w' \<and> r \<noteq> Panic"
    and "\<And>w a w'. m w = (Ret a, w') \<Longrightarrow> Q a"
  shows "ok I m Q"
  using assms same_mgrs_good by (intro okI) blast+

lemma ok_cases:
  "(\<And>x. o1 = Some x \<Longrightarrow> ok I (f x) Q) \<Longrightarrow> (o1 = None \<Longrightarrow> ok I g Q) \<Longrightarrow>
     ok I (case o1 of None \<Rightarrow> g | Some x \<Rightarrow> f x) Q"
  by (cases o1) auto

section \<open>Writing\<close>

lemma proto_conn_write_same: "proto_conn_write b w = (r, w') \<Longrightarrow> same_mgrs w w' \<and> r \<noteq> Panic"
  by (auto simp: proto_conn_write_def Let_def same_mgrs_def split: if_splits)

lemma ok_WriteWithID: "ok I (EngineProto_WriteWithID (Some m) i) (\<lambda>_. True)"
  by (rule ok_same)
    (auto simp: EngineProto_WriteWithID_def same_mgrs_def split: option.splits
      dest: proto_conn_write_same)

lemma ok_rand: "ok I rand_Uint64 (\<lambda>_. True)"
  by (rule ok_same) (auto simp: rand_Uint64_def same_mgrs_def)

lemma ok_Write:
  assumes "stable I" shows "ok I (EngineProto_Write x) (\<lambda>_. True)"
  unfolding EngineProto_Write_def
  by (intro ok_bind [OF ok_rand] ok_bind [OF ok_WriteWithID] ok_return assms) simp_all

lemma ok_clad_Write: "ok I (EngineClad_Write m) (\<lambda>_. True)"
  by (rule ok_same)
    (auto simp: EngineClad_Write_eq clad_conn_write_def Let_def same_mgrs_def
      split: option.splits if_splits)

section \<open>Arrivals\<close>

lemma send_proto_ok:
  assumes "wrapper_type x = t"
  shows "ok I (EngineProto_SendToListeners t x) (\<lambda>_. True)"
proof (rule okI)
  fix w assume wf: "wf_gateway w"
  then have m: "wf_manager wrapper_type (proto_mgr w)" by (simp add: wf_gateway_def)
  {
    fix a w' assume "EngineProto_SendToListeners t x w = (Ret a, w')"
    then obtain m' where m': "SendToListeners_reg (wrapper_type x) x (proto_mgr w) = Sent m'"
      and w': "w' = w\<lparr>proto_mgr := m'\<rparr>"
      by (auto simp: EngineProto_SendToListeners_def mgr_SendToListeners_def assms
            split: send_result.splits)
    show "wf_gateway w' \<and> shrinks w w' \<and> keeps w w' \<and> True"
      using wf SendToListeners_sent [OF m m'] typed_chan_send [OF m m']
      by (simp add: w' wf_gateway_def shrinks_def keeps_def)
  next
    fix e w' assume "EngineProto_SendToListeners t x w = (Fail e, w')"
    then show "wf_gateway w' \<and> shrinks w w' \<and> keeps w w'"
      by (auto simp: EngineProto_SendToListeners_def mgr_SendToListeners_def
            split: send_result.splits)
  next
    fix w' show "EngineProto_SendToListeners t x w \<noteq> (Panic, w')"
      by (auto simp: EngineProto_SendToListeners_def mgr_SendToListeners_def
            split: send_result.splits)
  }
qed

lemma send_clad_ok: "ok I (EngineClad_SendToListeners x) (\<lambda>_. True)"
proof (rule okI)
  fix w assume wf: "wf_gateway w"
  then have m: "wf_manager robotTag (clad_mgr w)" by (simp add: wf_gateway_def)
  {
    fix a w' assume "EngineClad_SendToListeners x w = (Ret a, w')"
    then obtain m' where m': "SendToListeners_reg (robotTag x) x (clad_mgr w) = Sent m'"
      and w': "w' = w\<lparr>clad_mgr := m'\<rparr>"
      by (auto simp: EngineClad_SendToListeners_def mgr_SendToListeners_def
            split: send_result.splits)
    show "wf_gateway w' \<and> shrinks w w' \<and> keeps w w' \<and> True"
      using wf SendToListeners_sent [OF m m'] typed_chan_send [OF m m']
      by (simp add: w' wf_gateway_def shrinks_def keeps_def)
  next
    fix e w' assume "EngineClad_SendToListeners x w = (Fail e, w')"
    then show "wf_gateway w' \<and> shrinks w w' \<and> keeps w w'"
      by (auto simp: EngineClad_SendToListeners_def mgr_SendToListeners_def
            split: send_result.splits)
  next
    fix w' show "EngineClad_SendToListeners x w \<noteq> (Panic, w')"
      by (auto simp: EngineClad_SendToListeners_def mgr_SendToListeners_def
            split: send_result.splits)
  }
qed

lemma ok_at: "(\<And>w. wf_gateway w \<Longrightarrow> I w \<Longrightarrow> \<exists>m'. ok I m' Q \<and> m w = m' w) \<Longrightarrow> ok I m Q"
  unfolding ok_def by metis

text \<open>The ways a block can be handled, with the message it carried.\<close>

lemma proto_process_cases:
  obtains (dropped) "EngineProto_ProcessBlock b w = (Ret (), w)"
  | (ended) "b = None" "EngineProto_ProcessBlock b w = (Ret (), w\<lparr>proto_alive := False\<rparr>)"
  | (memberless) a msg where "b = Some a" "unmarshal w (drop 2 a) = Some msg"
      "OneofMessageType msg = None" "EngineProto_ProcessBlock b w = (Crash, w)"
  | (sent) a msg x where "b = Some a" "2 \<le> length a" "proto_alive w"
      "unmarshal w (drop 2 a) = Some msg" "OneofMessageType msg = Some x"
      "EngineProto_ProcessBlock b w = EngineProto_SendToListeners (reflectType x) msg w"
proof (cases "proto_alive w")
  case False
  then show ?thesis by (intro dropped) (simp add: EngineProto_ProcessBlock_def)
next
  case alive: True
  show ?thesis
  proof (cases b)
    case None
    with alive show ?thesis by (intro ended) (simp_all add: EngineProto_ProcessBlock_def)
  next
    case (Some a)
    show ?thesis
    proof (cases "length a < 2 \<or> unmarshal w (drop 2 a) = None")
      case True
      with Some show ?thesis by (intro dropped) (auto simp: EngineProto_ProcessBlock_def)
    next
      case False
      then obtain msg where msg: "2 \<le> length a" "unmarshal w (drop 2 a) = Some msg" by auto
      show ?thesis
      proof (cases "OneofMessageType msg")
        case None
        with Some alive msg show ?thesis
          by (intro memberless [of a msg]) (simp_all add: EngineProto_ProcessBlock_def)
      next
        case (Some x)
        with \<open>b = Some a\<close> alive msg show ?thesis
          by (intro sent [of a msg x]) (simp_all add: EngineProto_ProcessBlock_def)
      qed
    qed
  qed
qed

lemma clad_process_cases:
  obtains (dropped) "EngineClad_ProcessBlock b w = (Ret (), w)"
  | (ended) "b = None" "EngineClad_ProcessBlock b w = (Ret (), w\<lparr>clad_alive := False\<rparr>)"
  | (event) a msg e where "b = Some a" "2 \<le> length a" "clad_alive w"
      "clad_message (drop 2 a) = Some msg" "clad_to_event msg = Some e"
      "EngineClad_ProcessBlock b w = SendEventToChannel e w"
  | (sent) a msg where "b = Some a" "2 \<le> length a" "clad_alive w"
      "clad_message (drop 2 a) = Some msg" "clad_to_event msg = None"
      "EngineClad_ProcessBlock b w = EngineClad_SendToListeners msg w"
proof (cases "clad_alive w")
  case False
  then show ?thesis by (intro dropped) (simp add: EngineClad_ProcessBlock_eq)
next
  case alive: True
  show ?thesis
  proof (cases b)
    case None
    with alive show ?thesis by (intro ended) (simp_all add: EngineClad_ProcessBlock_eq)
  next
    case (Some a)
    show ?thesis
    proof (cases "length a < 2 \<or> clad_message (drop 2 a) = None")
      case True
      with Some show ?thesis by (intro dropped) (auto simp: EngineClad_ProcessBlock_eq)
    next
      case False
      then obtain msg where msg: "2 \<le> length a" "clad_message (drop 2 a) = Some msg" by auto
      show ?thesis
      proof (cases "clad_to_event msg")
        case None
        with Some alive msg show ?thesis
          by (intro sent [of a msg]) (simp_all add: EngineClad_ProcessBlock_eq)
      next
        case (Some e)
        with \<open>b = Some a\<close> alive msg show ?thesis
          by (intro event [of a msg e]) (simp_all add: EngineClad_ProcessBlock_eq)
      qed
    qed
  qed
qed

lemma proto_process_ok: "ok I (EngineProto_ProcessBlock b) (\<lambda>_. True)"
proof (rule ok_at)
  fix w :: gateway
  have same: "ok I (\<lambda>w. (Ret (), f w)) (\<lambda>_. True)" if "\<And>w. same_mgrs w (f w)" for f
    by (rule ok_same) (use that in auto)
  have crash: "ok I (\<lambda>w. (Crash :: unit outcome, w)) (\<lambda>_. True)" by (simp add: ok_def)
  have send: "ok I (EngineProto_SendToListeners (reflectType x) m) (\<lambda>_. True)"
    if "OneofMessageType m = Some x" for x m
    by (rule send_proto_ok) (simp add: wrapper_type_def that)
  have id: "ok I (\<lambda>w. (Ret (), w)) (\<lambda>_. True)" by (rule same) (simp add: same_mgrs_def)
  have dead: "ok I (\<lambda>w. (Ret (), w\<lparr>proto_alive := False\<rparr>)) (\<lambda>_. True)"
    by (rule same) (simp add: same_mgrs_def)
  show "\<exists>m'. ok I m' (\<lambda>_. True) \<and> EngineProto_ProcessBlock b w = m' w"
  proof (cases rule: proto_process_cases [of b w])
    case dropped then show ?thesis using id by blast
  next
    case ended then show ?thesis using dead by blast
  next
    case memberless then show ?thesis using crash by blast
  next
    case (sent a msg x) then show ?thesis using send [OF sent(5)] by blast
  qed
qed

lemma clad_process_ok: "ok I (EngineClad_ProcessBlock b) (\<lambda>_. True)"
proof (rule ok_at)
  fix w :: gateway
  have id: "ok I (\<lambda>w. (Ret (), w)) (\<lambda>_. True)" by (rule ok_same) (auto simp: same_mgrs_def)
  have dead: "ok I (\<lambda>w. (Ret (), w\<lparr>clad_alive := False\<rparr>)) (\<lambda>_. True)"
    by (rule ok_same) (auto simp: same_mgrs_def)
  have ev: "ok I (SendEventToChannel e) (\<lambda>_. True)" for e
    unfolding SendEventToChannel_def by (rule send_proto_ok) (simp add: wrapper_type_def)
  show "\<exists>m'. ok I m' (\<lambda>_. True) \<and> EngineClad_ProcessBlock b w = m' w"
  proof (cases rule: clad_process_cases [of b w])
    case dropped then show ?thesis using id by blast
  next
    case ended then show ?thesis using dead by blast
  next
    case (event a msg e) then show ?thesis using ev by blast
  next
    case (sent a msg) then show ?thesis using send_clad_ok by blast
  qed
qed

lemma arrive_ok: "ok I (arrive a) (\<lambda>_. True)"
  by (cases a) (auto simp: arrive_def proto_process_ok clad_process_ok ok_return)


section \<open>Sessions with a manager\<close>

text \<open>
  What a manager's field of the state owes: it is a field (\<open>get\<close> and \<open>put\<close> are a lens), and the
  relations on gateway states see through it to the registry.
\<close>

locale manager_link =
  fixes get :: "gateway \<Rightarrow> ('t, 'm) manager"
    and put :: "('t, 'm) manager \<Rightarrow> gateway \<Rightarrow> gateway"
    and ty :: "'m \<Rightarrow> 't"
  assumes get_put: "get (put m w) = m"
    and put_get: "put (get w) w = w"
    and get_arrivals: "get (w\<lparr>arrivals := as\<rparr>) = get w"
    and wf_get: "wf_gateway w \<Longrightarrow> wf_manager ty (get w)"
    and wf_put: "wf_gateway w \<Longrightarrow> wf_manager ty m \<Longrightarrow> wf_gateway (put m w)"
    and shrinks_get: "shrinks w w' \<Longrightarrow> set (listeners (get w') t) \<subseteq> set (listeners (get w) t)"
    and keeps_get: "keeps w w' \<Longrightarrow> typed_chan ty t c (get w) \<Longrightarrow> typed_chan ty t c (get w')"
    and shrinks_put: "shrinks (put m w) w' \<Longrightarrow>
          (\<And>t. set (listeners m' t) \<subseteq> set (listeners (get w) t)) \<Longrightarrow> shrinks w (put m' w')"
    and keeps_put: "keeps (put m w) w' \<Longrightarrow>
          (\<And>t c. typed_chan ty t c (get w) \<Longrightarrow> typed_chan ty t c m') \<Longrightarrow> keeps w (put m' w')"
begin

lemma put_one:
  assumes "wf_gateway w" "wf_manager ty m"
    and "\<And>t. set (listeners m t) \<subseteq> set (listeners (get w) t)"
    and "\<And>t c. typed_chan ty t c (get w) \<Longrightarrow> typed_chan ty t c m"
  shows "wf_gateway (put m w) \<and> shrinks w (put m w) \<and> keeps w (put m w)"
  using wf_put [OF assms(1,2)] shrinks_put [of "get w" w w m] keeps_put [of "get w" w w m] assms(3,4)
  by (simp add: put_get)

lemma stable_typed [simp]: "stable (\<lambda>w. typed_chan ty t c (get w))"
  using keeps_get by (auto simp: stable_def)

lemma arrivals_res:
  "wf_gateway w \<Longrightarrow> wf_gateway (w\<lparr>arrivals := as\<rparr>) \<and> shrinks w (w\<lparr>arrivals := as\<rparr>) \<and> keeps w (w\<lparr>arrivals := as\<rparr>)"
  using same_mgrs_good [of w "w\<lparr>arrivals := as\<rparr>"] by (simp add: same_mgrs_def)

lemma arrivals_after:
  assumes "wf_gateway v \<and> shrinks w v \<and> keeps w v"
  shows "wf_gateway (v\<lparr>arrivals := as\<rparr>) \<and> shrinks w (v\<lparr>arrivals := as\<rparr>) \<and> keeps w (v\<lparr>arrivals := as\<rparr>)"
  using assms arrivals_res [of v as] shrinks_trans keeps_trans by blast

definition typed_wake :: "'t \<Rightarrow> (arrival \<Rightarrow> bool) \<Rightarrow> 'm wake \<Rightarrow> bool" where
  "typed_wake t wakes k \<longleftrightarrow> (\<forall>x. k = GotMessage x \<longrightarrow> ty x = t) \<and> (\<forall>a. k = Woken a \<longrightarrow> wakes a)"

lemma select_ready:
  assumes wf: "wf_gateway w" and ty: "typed_chan ty t c (get w)"
    and rm: "receive_reg c (get w) = (r, m)" and r: "r \<noteq> WouldBlock"
  shows "ok_res w (typed_wake t wakes) (mgr_select get put wakes c arr w)"
proof -
  note rec = put_one [OF wf receive_wf [OF wf_get [OF wf] rm] _ typed_chan_receive [OF rm]]
  show ?thesis
  proof (cases r)
    case (Received x)
    have "ty x = t" using ty receive_buf(2) [OF rm Received] by (auto simp: typed_chan_def)
    then show ?thesis
      using arrivals_after [OF rec] receive_listeners [OF rm]
      by (simp add: mgr_select.simps [of _ _ _ _ arr] rm Received typed_wake_def)
  next
    case ClosedEmpty
    then show ?thesis using arrivals_res [OF wf]
      by (simp add: mgr_select.simps [of _ _ _ _ arr] rm typed_wake_def)
  qed (use r in simp)
qed

lemma ok_select: "ok (\<lambda>w. typed_chan ty t c (get w)) (mgr_select get put wakes c arr) (typed_wake t wakes)"
proof (induction arr)
  case (Cons a arr)
  have go: "ok (\<lambda>w. typed_chan ty t c (get w))
      (bindM (arrive a) (\<lambda>_. mgr_select get put wakes c arr)) (typed_wake t wakes)"
    by (rule ok_bind [OF arrive_ok Cons.IH stable_typed])
  show ?case unfolding ok_def
  proof (intro allI impI)
    fix w assume wf: "wf_gateway w" and ty: "typed_chan ty t c (get w)"
    obtain r m where rm: "receive_reg c (get w) = (r, m)" by fastforce
    show "ok_res w (typed_wake t wakes) (mgr_select get put wakes c (a # arr) w)"
    proof (cases "r = WouldBlock")
      case False
      then show ?thesis by (rule select_ready [OF wf ty rm])
    next
      case True
      show ?thesis
      proof (cases "wakes a")
        case wakes: True
        then show ?thesis using arrivals_res [OF wf] True rm
          by (simp add: mgr_select.simps [of _ _ _ _ "_ # arr"] typed_wake_def)
      next
        case False
        then show ?thesis using go True rm wf ty
          by (auto simp: mgr_select.simps [of _ _ _ _ "a # arr"] ok_def)
      qed
    qed
  qed
next
  case Nil
  show ?case unfolding ok_def
  proof (intro allI impI)
    fix w assume wf: "wf_gateway w" and ty: "typed_chan ty t c (get w)"
    obtain r m where rm: "receive_reg c (get w) = (r, m)" by fastforce
    show "ok_res w (typed_wake t wakes) (mgr_select get put wakes c [] w)"
    proof (cases "r = WouldBlock")
      case False
      then show ?thesis by (rule select_ready [OF wf ty rm])
    next
      case True
      then show ?thesis by (simp add: mgr_select.simps [of _ _ _ _ "[]"] rm)
    qed
  qed
qed

lemma ok_select_now:
  "ok (\<lambda>w. typed_chan ty t c (get w)) (\<lambda>w. mgr_select get put wakes c (arrivals w) w) (typed_wake t wakes)"
  using ok_select by (auto simp: ok_def)

lemma ok_recv:
  "ok (\<lambda>w. typed_chan ty t c (get w)) (mgr_recv get put c) (\<lambda>o1. \<forall>x. o1 = Some x \<longrightarrow> ty x = t)"
  unfolding mgr_recv_def
  by (intro ok_bind [OF ok_select_now])
    (auto simp: typed_wake_def intro: ok_return split: wake.split)

text \<open>
  A session: make a channel under a tag, run a body that may rely on the channel, and remove the
  channel however the body ends.
\<close>

lemma create_res:
  assumes wf: "wf_gateway w" and eq: "CreateChannel_reg t n (get w) = (c, m)"
  shows "wf_gateway (put m w)" "typed_chan ty t c (get (put m w))" "keeps w (put m w)"
    "set (listeners m u) = (if u = t then insert c (set (listeners (get w) u)) else set (listeners (get w) u))"
  using wf_put [OF wf CreateChannel_wf [OF wf_get [OF wf] eq]]
    typed_chan_create [OF wf_get [OF wf] eq] keeps_put [of "get w" w w m]
    CreateChannel_listeners [OF eq]
  by (auto simp: get_put put_get)

lemma remove_res:
  assumes wf: "wf_gateway w" and eq: "CreateChannel_reg t n (get w) = (c, m)"
    and v: "wf_gateway v" "shrinks (put m w) v" "keeps (put m w) v"
  obtains m' where "deleteListenerUnsafe_reg c t (get v) = Some m'"
    "wf_gateway (put m' v) \<and> shrinks w (put m' v) \<and> keeps w (put m' v)"
proof -
  obtain m' where d: "deleteListenerUnsafe_reg c t (get v) = Some m'"
    using delete_total [OF wf_get [OF v(1)]] by blast
  have ls: "set (listeners m' u) \<subseteq> set (listeners (get w) u)" for u
    using delete_listeners_set [OF wf_get [OF v(1)] d, of u] shrinks_get [OF v(2), of u]
      create_res(4) [OF wf eq, of u]
    by (auto simp: get_put split: if_splits)
  have ty: "typed_chan ty u k m'" if "typed_chan ty u k (get w)" for u k
    using typed_chan_delete [OF wf_get [OF v(1)] d] keeps_get [OF v(3)]
      keeps_get [OF create_res(3) [OF wf eq] that] by blast
  show ?thesis
    using that [OF d] wf_put [OF v(1) delete_wf [OF wf_get [OF v(1)] d]]
      shrinks_put [OF v(2) ls] keeps_put [OF v(3) ty] by blast
qed

lemma ok_session:
  assumes body: "\<And>c. ok (\<lambda>w. typed_chan ty t c (get w) \<and> I w) (body c) Q" and I: "stable I"
  shows "ok I (bindM (mgr_CreateChannel get put t n) (\<lambda>c.
           deferM (mgr_deleteListenerCallback get put c t) (body c))) Q"
  unfolding ok_def
proof (intro allI impI)
  fix w assume wf: "wf_gateway w" and Iw: "I w"
  obtain c m where cm: "CreateChannel_reg t n (get w) = (c, m)" by fastforce
  let ?w1 = "put m w"
  note w1 = create_res [OF wf cm]
  have I1: "I ?w1" using I w1(3) Iw by (auto simp: stable_def)
  obtain r v where bv: "body c ?w1 = (r, v)" by fastforce
  note bodyD = okD [OF body w1(1) conjI [OF w1(2) I1] bv]
  have "ok_res w Q (deferM (mgr_deleteListenerCallback get put c t) (body c) ?w1)"
  proof (cases r)
    case (Ret a)
    with bodyD(2) have v: "wf_gateway v" "shrinks ?w1 v" "keeps ?w1 v" "Q a" by auto
    obtain m' where "deleteListenerUnsafe_reg c t (get v) = Some m'"
      "wf_gateway (put m' v) \<and> shrinks w (put m' v) \<and> keeps w (put m' v)"
      by (rule remove_res [OF wf cm v(1-3)])
    then show ?thesis using Ret v(4) by (simp add: deferM_def bv mgr_deleteListenerCallback_def)
  next
    case (Fail e)
    with bodyD(3) have v: "wf_gateway v" "shrinks ?w1 v" "keeps ?w1 v" by auto
    obtain m' where "deleteListenerUnsafe_reg c t (get v) = Some m'"
      "wf_gateway (put m' v) \<and> shrinks w (put m' v) \<and> keeps w (put m' v)"
      by (rule remove_res [OF wf cm v])
    then show ?thesis using Fail by (simp add: deferM_def bv mgr_deleteListenerCallback_def)
  next
    case Panic
    with bodyD(1) show ?thesis by simp
  qed (simp_all add: deferM_def bv)
  then show "ok_res w Q (bindM (mgr_CreateChannel get put t n) (\<lambda>c.
      deferM (mgr_deleteListenerCallback get put c t) (body c)) w)"
    by (simp add: bindM_def mgr_CreateChannel_def cm)
qed

end

interpretation proto: manager_link proto_mgr put_proto wrapper_type
  by unfold_locales (auto simp: wf_gateway_def shrinks_def keeps_def)

interpretation clad: manager_link clad_mgr put_clad robotTag
  by unfold_locales (auto simp: wf_gateway_def shrinks_def keeps_def)

end
