(* ===== verification/Rpc_Core.thy ===== *)
theory Rpc_Core
  imports Engine_Link
begin

text \<open>
  The shapes that the handlers of \<open>cloud/message_handler.go\<close> are built from: a channel that lives
  for one call and is removed by the deferred callback, a request that is only written, a request
  that waits for its answer, and a loop over the messages of one channel. The lemmas show each
  shape \<open>ok\<close>, and that the fuel of a loop is enough.
\<close>

section \<open>Channels of one call\<close>

definition with_channel :: "oneof_type \<Rightarrow> nat \<Rightarrow> (nat \<Rightarrow> (gateway, 'a) go) \<Rightarrow> (gateway, 'a) go" where
  "with_channel t n body = bindM (EngineProto_CreateChannel t n) (\<lambda>c.
     deferM (EngineProto_deleteListenerCallback c t) (body c))"

definition with_clad_channel :: "8 word \<Rightarrow> nat \<Rightarrow> (nat \<Rightarrow> (gateway, 'a) go) \<Rightarrow> (gateway, 'a) go" where
  "with_clad_channel t n body = bindM (EngineClad_CreateChannel t n) (\<lambda>c.
     deferM (EngineClad_deleteListenerCallback c t) (body c))"

text \<open>\<open>CreateUniqueChannel\<close> and what the caller does when there is a listener already.\<close>

definition with_unique_channel ::
    "oneof_type \<Rightarrow> nat \<Rightarrow> (gateway, 'a) go \<Rightarrow> (nat \<Rightarrow> (gateway, 'a) go) \<Rightarrow> (gateway, 'a) go" where
  "with_unique_channel t n busy body = bindM (EngineProto_CreateUniqueChannel t n) (\<lambda>r. case r of
      None \<Rightarrow> busy
    | Some c \<Rightarrow> deferM (EngineProto_deleteListenerCallback c t) (body c))"

definition retrieve_failed :: "go_error" where
  "retrieve_failed = GrpcError Internal ''Failed to retrieve message''"

text \<open>\<open>payload, ok := <-responseChan; if !ok { return nil, grpc.Errorf(...) }\<close>\<close>

definition recv_or_fail :: "nat \<Rightarrow> (gateway, gateway_wrapper) go" where
  "recv_or_fail c = bindM (proto_recv c) (\<lambda>r. case r of
      None \<Rightarrow> failM retrieve_failed | Some m \<Rightarrow> returnM m)"

definition clad_recv_or_fail :: "nat \<Rightarrow> (gateway, robot_to_external) go" where
  "clad_recv_or_fail c = bindM (clad_recv c) (\<lambda>r. case r of
      None \<Rightarrow> failM retrieve_failed | Some m \<Rightarrow> returnM m)"

section \<open>Requests\<close>

text \<open>Write a request and answer the client with a status at once.\<close>

definition proto_fire :: "oneof \<Rightarrow> status_code \<Rightarrow> (gateway, response) go" where
  "proto_fire x code = bindM (EngineProto_Write x) (\<lambda>_.
     returnM \<lparr>Status = Some code, Fields = []\<rparr>)"

definition clad_fire :: "external_to_robot \<Rightarrow> (gateway, response) go" where
  "clad_fire x = bindM (EngineClad_Write (Some x)) (\<lambda>_.
     returnM \<lparr>Status = Some REQUEST_PROCESSING, Fields = []\<rparr>)"

text \<open>Make a channel for the answer, write the request, wait, and go on with the answer.\<close>

definition proto_call ::
    "oneof_type \<Rightarrow> oneof \<Rightarrow> (gateway_wrapper \<Rightarrow> (gateway, 'a) go) \<Rightarrow> (gateway, 'a) go" where
  "proto_call t x k = with_channel t 1 (\<lambda>c.
     bindM (EngineProto_Write x) (\<lambda>_. bindM (recv_or_fail c) k))"

definition clad_call ::
    "8 word \<Rightarrow> external_to_robot option \<Rightarrow> (robot_to_external \<Rightarrow> (gateway, 'a) go) \<Rightarrow> (gateway, 'a) go" where
  "clad_call t x k = with_clad_channel t 1 (\<lambda>c.
     bindM (EngineClad_Write x) (\<lambda>_. bindM (clad_recv_or_fail c) k))"

text \<open>
  \<open>response := payload.GetX(); response.Status = ...; return response, nil\<close>: storing through a
  nil pointer panics.
\<close>

definition received :: "string \<Rightarrow> gateway_wrapper \<Rightarrow> (gateway, response) go" where
  "received n m = (case GetResponse n m of
      None \<Rightarrow> panicM | Some r \<Rightarrow> returnM (r\<lparr>Status := Some RESPONSE_RECEIVED\<rparr>))"

text \<open>\<open>return payload.GetX(), nil\<close>\<close>

definition passed_on :: "string \<Rightarrow> gateway_wrapper \<Rightarrow> (gateway, response option) go" where
  "passed_on n m = returnM (GetResponse n m)"

section \<open>Loops\<close>

text \<open>
  A \<open>for\<close> loop whose body ends the loop (\<open>Inr\<close>) or goes on with a new loop state (\<open>Inl\<close>). The
  fuel is the number of rounds; a loop that has used it up counts as blocked, and
  \<open>loop_fuel\<close> below shows that this never happens with the fuel the handlers give.
\<close>

fun loopM :: "nat \<Rightarrow> ('s \<Rightarrow> (gateway, 's + 'r) go) \<Rightarrow> 's \<Rightarrow> (gateway, 'r) go" where
  "loopM 0 body s w = (Blocked, w)"
| "loopM (Suc n) body s w = bindM (body s) (\<lambda>r. case r of
      Inl s' \<Rightarrow> loopM n body s' | Inr a \<Rightarrow> returnM a) w"

text \<open>Every round of a loop over a channel takes a message, and a message was buffered or arrives.\<close>

definition chan_budget :: "(gateway \<Rightarrow> ('t, 'm) manager) \<Rightarrow> nat \<Rightarrow> gateway \<Rightarrow> nat" where
  "chan_budget get c w = length (arrivals w) + length (buf_of (get w) c)"

definition chan_loop ::
    "(gateway \<Rightarrow> ('t, 'm) manager) \<Rightarrow> nat \<Rightarrow> ('s \<Rightarrow> (gateway, 's + 'r) go) \<Rightarrow> 's \<Rightarrow> (gateway, 'r) go" where
  "chan_loop get c body s w = loopM (Suc (chan_budget get c w)) body s w"

section \<open>The shapes are safe\<close>

abbreviation safe :: "(gateway, 'a) go \<Rightarrow> ('a \<Rightarrow> bool) \<Rightarrow> bool" where
  "safe m Q \<equiv> ok (\<lambda>_. True) m Q"

named_theorems ok_intros "rules that take a computation apart"

lemma ok_True: "safe m Q \<Longrightarrow> ok I m Q"
  by (auto simp: ok_def)

lemma ok_with_channel:
  assumes "\<And>c. ok (\<lambda>w. typed_chan wrapper_type t c (proto_mgr w) \<and> I w) (body c) Q" "stable I"
  shows "ok I (with_channel t n body) Q"
  using proto.ok_session [OF assms]
  by (simp add: with_channel_def EngineProto_CreateChannel_def EngineProto_deleteListenerCallback_def)

lemma ok_with_clad_channel:
  assumes "\<And>c. ok (\<lambda>w. typed_chan robotTag t c (clad_mgr w) \<and> I w) (body c) Q" "stable I"
  shows "ok I (with_clad_channel t n body) Q"
  using clad.ok_session [OF assms]
  by (simp add: with_clad_channel_def EngineClad_CreateChannel_def EngineClad_deleteListenerCallback_def)

lemma ok_with_unique_channel:
  assumes "\<And>c. ok (\<lambda>w. typed_chan wrapper_type t c (proto_mgr w) \<and> I w) (body c) Q"
    and "ok I busy Q" "stable I"
  shows "ok I (with_unique_channel t n busy body) Q"
proof (rule ok_at)
  fix w
  have "with_unique_channel t n busy body w =
      (if managedChannels (proto_mgr w) t \<noteq> None then busy w else with_channel t n body w)"
    by (simp add: with_unique_channel_def EngineProto_CreateUniqueChannel_def with_channel_def
          bindM_def returnM_def split: prod.split outcome.split)
  then show "\<exists>m'. ok I m' Q \<and> with_unique_channel t n busy body w = m' w"
    using assms(2) ok_with_channel [OF assms(1,3)]
    by (cases "managedChannels (proto_mgr w) t = None") auto
qed

lemma ok_recv_or_fail:
  "ok (\<lambda>w. typed_chan wrapper_type t c (proto_mgr w)) (recv_or_fail c) (\<lambda>m. wrapper_type m = t)"
  unfolding recv_or_fail_def proto_recv_def
  by (intro ok_bind [OF proto.ok_recv] proto.stable_typed) (auto intro: ok_return split: option.split)

lemma ok_clad_recv_or_fail:
  "ok (\<lambda>w. typed_chan robotTag t c (clad_mgr w)) (clad_recv_or_fail c) (\<lambda>m. robotTag m = t)"
  unfolding clad_recv_or_fail_def clad_recv_def
  by (intro ok_bind [OF clad.ok_recv] clad.stable_typed) (auto intro: ok_return split: option.split)

lemma ok_proto_call:
  assumes "\<And>m. wrapper_type m = t \<Longrightarrow> safe (k m) Q"
  shows "safe (proto_call t x k) Q"
  unfolding proto_call_def
  by (intro ok_with_channel ok_bind [OF ok_Write] ok_bind [OF ok_weaken [OF ok_recv_or_fail]]
        ok_True [OF assms] stable_conj stable_True proto.stable_typed) auto

lemma ok_clad_call:
  assumes "\<And>m. robotTag m = t \<Longrightarrow> safe (k m) Q"
  shows "safe (clad_call t x k) Q"
  unfolding clad_call_def
  by (intro ok_with_clad_channel ok_bind [OF ok_clad_Write]
        ok_bind [OF ok_weaken [OF ok_clad_recv_or_fail]]
        ok_True [OF assms] stable_conj stable_True clad.stable_typed) auto

lemma ok_proto_fire: "safe (proto_fire x code) (\<lambda>r. Status r = Some code)"
  unfolding proto_fire_def by (intro ok_bind [OF ok_Write] ok_return) simp_all

lemma ok_clad_fire: "safe (clad_fire x) (\<lambda>r. Status r = Some REQUEST_PROCESSING)"
  unfolding clad_fire_def by (intro ok_bind [OF ok_clad_Write] ok_return) simp_all

lemma ok_received:
  "wrapper_type m = ResponseType n \<Longrightarrow> safe (received n m) (\<lambda>r. Status r = Some RESPONSE_RECEIVED)"
  using wrapper_type_getters(1) [of m n] by (auto simp: received_def ok_def returnM_def)

lemma ok_passed_on:
  "wrapper_type m = ResponseType n \<Longrightarrow> safe (passed_on n m) (\<lambda>r. r \<noteq> None)"
  using wrapper_type_getters(1) [of m n] by (auto simp: passed_on_def intro: ok_return)

lemma ok_received_call:
  "safe (proto_call (ResponseType n) x (received n)) (\<lambda>r. Status r = Some RESPONSE_RECEIVED)"
  by (rule ok_proto_call [OF ok_received])

lemma ok_passed_on_call: "safe (proto_call (ResponseType n) x (passed_on n)) (\<lambda>r. r \<noteq> None)"
  by (rule ok_proto_call [OF ok_passed_on])

lemma ok_loopM:
  assumes body: "\<And>s. P s \<Longrightarrow> ok I (body s) (case_sum P Q)" and I: "stable I"
  shows "P s \<Longrightarrow> ok I (loopM n body s) Q"
proof (induction n arbitrary: s)
  case 0
  then show ?case by (simp add: ok_def)
next
  case (Suc n)
  have "ok I (bindM (body s) (\<lambda>r. case r of Inl s' \<Rightarrow> loopM n body s' | Inr a \<Rightarrow> returnM a)) Q"
    by (rule ok_bind [OF body [OF Suc.prems] _ I])
      (auto intro: Suc.IH ok_return split: sum.splits)
  then show ?case by (simp add: ok_def)
qed

lemma ok_chan_loop:
  assumes "\<And>s. P s \<Longrightarrow> ok I (body s) (case_sum P Q)" "stable I" "P s"
  shows "ok I (chan_loop get c body s) Q"
proof -
  have "ok I (loopM n body s) Q" for n by (rule ok_loopM [where P = P]) (fact assms)+
  then show ?thesis unfolding ok_def chan_loop_def by blast
qed

end
