(* ===== verification/Engine_Answers.thy ===== *)
theory Engine_Answers
  imports Rpc_Core
begin

text \<open>
  When a call returns, and with what. If the engine's answer is among the arrivals, nothing that
  comes before it is a message of the same kind or ends the loops, and no kind of message has more
  listeners than \<open>SendToListeners\<close> can mark for deletion, then waiting on the call's channel
  returns that answer. \<open>answering\<close> states what is needed of a manager for this, and is interpreted
  for both engine managers.
\<close>

section \<open>What an arrival carries\<close>

datatype delivery =
    Nothing | ToProto gateway_wrapper | ToEvent "event option" | ToClad robot_to_external
  | EndsProto | EndsClad | Crashes

definition proto_carried :: "gateway \<Rightarrow> byte list \<Rightarrow> delivery" where
  "proto_carried w b = (if length b < 2 then Nothing else case unmarshal w (drop 2 b) of
      None \<Rightarrow> Nothing
    | Some m \<Rightarrow> if OneofMessageType m = None then Crashes else ToProto m)"

definition clad_carried :: "gateway \<Rightarrow> byte list \<Rightarrow> delivery" where
  "clad_carried w b = (if length b < 2 then Nothing else case clad_message (drop 2 b) of
      None \<Rightarrow> Nothing
    | Some x \<Rightarrow> (case clad_to_event x of
          Some e \<Rightarrow> ToEvent e
        | None \<Rightarrow> ToClad x))"

definition carried :: "gateway \<Rightarrow> arrival \<Rightarrow> delivery" where
  "carried w a = (case a of
      TimerFires \<Rightarrow> Nothing
    | PeerDone \<Rightarrow> Nothing
    | ProtoBlock None \<Rightarrow> EndsProto
    | ProtoBlock (Some b) \<Rightarrow> proto_carried w b
    | CladBlock None \<Rightarrow> EndsClad
    | CladBlock (Some b) \<Rightarrow> clad_carried w b)"

section \<open>States that differ in the registries and the loops only\<close>

definition same_io :: "gateway \<Rightarrow> gateway \<Rightarrow> bool" where
  "same_io w v \<longleftrightarrow> (\<exists>p q a b. v = w\<lparr>proto_mgr := p, clad_mgr := q, proto_alive := a, clad_alive := b\<rparr>)"

lemma same_ioI: "v = w\<lparr>proto_mgr := p, clad_mgr := q, proto_alive := a, clad_alive := b\<rparr> \<Longrightarrow> same_io w v"
  by (auto simp: same_io_def)

lemma same_io_refl [simp]: "same_io w w"
proof -
  have "w = w\<lparr>proto_mgr := proto_mgr w, clad_mgr := clad_mgr w,
      proto_alive := proto_alive w, clad_alive := clad_alive w\<rparr>" by simp
  then show ?thesis by (rule same_ioI)
qed

lemma same_io_trans: "same_io u v \<Longrightarrow> same_io v w \<Longrightarrow> same_io u w"
  unfolding same_io_def by (elim exE) (simp, blast)

lemma same_ioD:
  assumes "same_io w v"
  shows "proto_sock v = proto_sock w" "clad_sock v = clad_sock w" "stream_out v = stream_out w"
    "write_faults v = write_faults w" "stream_fates v = stream_fates w" "arrivals v = arrivals w"
    "rand_source v = rand_source w" "rand_next v = rand_next w" "marshal v = marshal w"
    "unmarshal v = unmarshal w" "lastResult v = lastResult w"
  using assms by (auto simp: same_io_def)

lemma carried_codec:
  "unmarshal v = unmarshal w \<Longrightarrow> carried v = carried w"
  by (auto simp: fun_eq_iff carried_def proto_carried_def clad_carried_def
      split: arrival.split option.split)

lemma same_io_carried: "same_io w v \<Longrightarrow> carried v = carried w"
  by (intro carried_codec same_ioD)

section \<open>Registries with room\<close>

definition roomy :: "gateway \<Rightarrow> bool" where
  "roomy w \<longleftrightarrow> (\<forall>t. length (listeners (proto_mgr w) t) \<le> markedCapacity) \<and>
     (\<forall>t. length (listeners (clad_mgr w) t) \<le> markedCapacity)"

lemma listeners_length:
  assumes "wf_manager ty m'" "wf_manager ty m" "set (listeners m' t) \<subseteq> set (listeners m t)"
  shows "length (listeners m' t) \<le> length (listeners m t)"
  using wf_managerD(2) [OF assms(1), of t] wf_managerD(2) [OF assms(2), of t] card_mono [OF _ assms(3)]
  by (simp add: distinct_card)

lemma roomy_shrinks: "wf_gateway w \<Longrightarrow> wf_gateway v \<Longrightarrow> shrinks w v \<Longrightarrow> roomy w \<Longrightarrow> roomy v"
  unfolding roomy_def wf_gateway_def shrinks_def by (meson listeners_length order_trans)

lemma send_with_room:
  assumes wf: "wf_manager ty m" and room: "length (listeners m (ty x)) \<le> markedCapacity"
  obtains m' where "SendToListeners_reg (ty x) x m = Sent m'" "wf_manager ty m'"
    "\<And>u. set (listeners m' u) \<subseteq> set (listeners m u)"
    "\<And>c u. c \<in> set (listeners m u) \<Longrightarrow> u \<noteq> ty x \<Longrightarrow>
       c \<in> set (listeners m' u) \<and> chans m' c = chans m c"
    "\<And>c ch. c \<in> set (listeners m (ty x)) \<Longrightarrow> chans m c = Some ch \<Longrightarrow> length (buf ch) < cap ch \<Longrightarrow>
       c \<in> set (listeners m' (ty x)) \<and> chans m' c = Some (ch\<lparr>buf := buf ch @ [x]\<rparr>)"
proof -
  let ?S = "filter (stuck m) (listeners m (ty x))"
  have "length ?S \<le> markedCapacity" using room length_filter_le order_trans by blast
  from SendToListeners_spec(2) [OF wf refl this] obtain m' where
    m': "SendToListeners_reg (ty x) x m = Sent m'" "wf_manager ty m'"
    "\<And>u. set (listeners m' u) =
       (if u = ty x then set (listeners m (ty x)) - set ?S else set (listeners m u))"
    "\<And>k. k \<notin> set ?S \<Longrightarrow> chans m' k = appended x (set (listeners m (ty x))) m k"
    by blast
  have other: "c \<in> set (listeners m' u) \<and> chans m' c = chans m c"
    if "c \<in> set (listeners m u)" "u \<noteq> ty x" for c u
  proof -
    have "c \<notin> set (listeners m (ty x))" using wf_managerD(3) [OF wf, of u "ty x"] that by auto
    then show ?thesis using that m'(3) m'(4) [of c] by (auto simp: appended_def)
  qed
  have mine: "c \<in> set (listeners m' (ty x)) \<and> chans m' c = Some (ch\<lparr>buf := buf ch @ [x]\<rparr>)"
    if "c \<in> set (listeners m (ty x))" "chans m c = Some ch" "length (buf ch) < cap ch" for c ch
  proof -
    have "\<not> stuck m c" using that by (simp add: stuck_def)
    then show ?thesis using that m'(3) m'(4) [of c] by (auto simp: appended_def)
  qed
  have sub: "set (listeners m' u) \<subseteq> set (listeners m u)" for u by (auto simp: m'(3))
  show thesis by (rule that [OF m'(1,2) sub other mine])
qed

section \<open>Waiting for an answer\<close>

text \<open>
  \<open>steady\<close>: the state is well formed, roomy and the manager's loop runs. A quiet arrival leaves a
  channel alone; an answering one puts its message into every channel of its tag with room.
\<close>

locale answering = manager_link get put ty
  for get :: "gateway \<Rightarrow> ('t, 'm) manager"
    and put :: "('t, 'm) manager \<Rightarrow> gateway \<Rightarrow> gateway"
    and ty :: "'m \<Rightarrow> 't" +
  fixes quiet :: "'t \<Rightarrow> delivery \<Rightarrow> bool"
    and answer :: "'m \<Rightarrow> delivery"
    and alive :: "gateway \<Rightarrow> bool"
  assumes quiet_step: "wf_gateway w \<Longrightarrow> roomy w \<Longrightarrow> alive w \<Longrightarrow> c \<in> set (listeners (get w) t) \<Longrightarrow>
      quiet t (carried w a) \<Longrightarrow>
      \<exists>v. arrive a w = (Ret (), v) \<and> alive v \<and> same_io w v \<and> wf_gateway v \<and> shrinks w v \<and>
          c \<in> set (listeners (get v) t) \<and> chans (get v) c = chans (get w) c"
    and answer_step: "wf_gateway w \<Longrightarrow> roomy w \<Longrightarrow> alive w \<Longrightarrow> c \<in> set (listeners (get w) (ty m)) \<Longrightarrow>
      chans (get w) c = Some ch \<Longrightarrow> length (buf ch) < cap ch \<Longrightarrow> carried w a = answer m \<Longrightarrow>
      \<exists>v. arrive a w = (Ret (), v) \<and> alive v \<and> same_io w v \<and> wf_gateway v \<and> shrinks w v \<and>
          c \<in> set (listeners (get v) (ty m)) \<and> chans (get v) c = Some (ch\<lparr>buf := buf ch @ [m]\<rparr>)"
    and io_put: "same_io w (put p w)"
    and alive_put: "alive (put p w) = alive w"
begin

lemma select_answer:
  assumes "wf_gateway w" "roomy w" "alive w" "c \<in> set (listeners (get w) (ty m))"
    and "chans (get w) c = Some ch" "buf ch = []" "0 < cap ch"
    and "list_all (quiet (ty m)) (map (carried w) pre)" "carried w a = answer m"
    and "\<forall>x \<in> set (pre @ [a]). \<not> wakes x"
  shows "\<exists>v. mgr_select get put wakes c (pre @ a # rest) w = (Ret (GotMessage m), v\<lparr>arrivals := rest\<rparr>) \<and>
    same_io w v \<and> wf_gateway v \<and> shrinks w v \<and> c \<in> set (listeners (get v) (ty m)) \<and>
    chans (get v) c = Some ch \<and> alive v"
  using assms
proof (induction pre arbitrary: w)
  case Nil
  have block: "receive_reg c (get w) = (WouldBlock, get w)"
    using wf_managerD(4) [OF wf_get [OF Nil.prems(1)] Nil.prems(4)] Nil.prems(5,6)
    by (simp add: receive_reg_def)
  from answer_step [OF Nil.prems(1-5)] Nil.prems(6,7,9) obtain v where
    v: "arrive a w = (Ret (), v)" "same_io w v" "wf_gateway v" "shrinks w v"
      "c \<in> set (listeners (get v) (ty m))" "chans (get v) c = Some (ch\<lparr>buf := [m]\<rparr>)" "alive v"
    by fastforce
  have ch: "ch\<lparr>buf := []\<rparr> = ch" using Nil.prems(6) by simp
  let ?p = "(get v)\<lparr>chans := (chans (get v))(c \<mapsto> ch\<lparr>buf := []\<rparr>)\<rparr>"
  have got: "receive_reg c (get v) = (Received m, ?p)" by (simp add: receive_reg_def v(6))
  note ready = put_one [OF v(3) receive_wf [OF wf_get [OF v(3)] got] _ typed_chan_receive [OF got]]
  have "mgr_select get put wakes c ([] @ a # rest) w = (Ret (GotMessage m), (put ?p v)\<lparr>arrivals := rest\<rparr>)"
    using Nil.prems(10) by (auto simp: mgr_select.simps [of _ _ _ _ "_ # rest"]
        mgr_select.simps [of _ _ _ _ rest] block bindM_def v(1) got)
  moreover have "same_io w (put ?p v)" using same_io_trans [OF v(2) io_put] .
  moreover have "wf_gateway (put ?p v) \<and> shrinks w (put ?p v)"
    using ready receive_listeners [OF got] shrinks_trans [OF v(4)] by simp
  ultimately show ?case using v(5,7)
    by (intro exI [of _ "put ?p v"]) (simp add: get_put alive_put ch)
next
  case (Cons b pre)
  have block: "receive_reg c (get w) = (WouldBlock, get w)"
    using wf_managerD(4) [OF wf_get [OF Cons.prems(1)] Cons.prems(4)] Cons.prems(5,6)
    by (simp add: receive_reg_def)
  from quiet_step [OF Cons.prems(1-4), of b] Cons.prems(8) obtain v where
    v: "arrive b w = (Ret (), v)" "alive v" "same_io w v" "wf_gateway v" "shrinks w v"
      "c \<in> set (listeners (get v) (ty m))" "chans (get v) c = chans (get w) c"
    by auto
  have "carried v = carried w" using same_io_carried [OF v(3)] .
  then have "\<exists>u. mgr_select get put wakes c (pre @ a # rest) v = (Ret (GotMessage m), u\<lparr>arrivals := rest\<rparr>) \<and>
      same_io v u \<and> wf_gateway u \<and> shrinks v u \<and> c \<in> set (listeners (get u) (ty m)) \<and>
      chans (get u) c = Some ch \<and> alive u"
    using Cons.prems(5-10) roomy_shrinks [OF Cons.prems(1) v(4,5) Cons.prems(2)] v
    by (intro Cons.IH) auto
  then obtain u where u: "mgr_select get put wakes c (pre @ a # rest) v = (Ret (GotMessage m), u\<lparr>arrivals := rest\<rparr>)"
    "same_io v u" "wf_gateway u" "shrinks v u" "c \<in> set (listeners (get u) (ty m))"
    "chans (get u) c = Some ch" "alive u" by blast
  have "mgr_select get put wakes c ((b # pre) @ a # rest) w = (Ret (GotMessage m), u\<lparr>arrivals := rest\<rparr>)"
    using Cons.prems(10) u(1)
    by (auto simp: mgr_select.simps [of _ _ _ _ "b # _"] block bindM_def v(1))
  then show ?case
    using u same_io_trans [OF v(3) u(2)] shrinks_trans [OF v(5) u(4)] by blast
qed

lemma recv_answer:
  assumes "wf_gateway w" "roomy w" "alive w" "c \<in> set (listeners (get w) (ty m))"
    and "chans (get w) c = Some ch" "buf ch = []" "0 < cap ch"
    and "list_all (quiet (ty m)) (map (carried w) pre)" "carried w a = answer m"
    and "arrivals w = pre @ a # rest"
  shows "\<exists>v. mgr_recv get put c w = (Ret (Some m), v\<lparr>arrivals := rest\<rparr>) \<and>
    same_io w v \<and> wf_gateway v \<and> shrinks w v \<and> c \<in> set (listeners (get v) (ty m)) \<and>
    chans (get v) c = Some ch \<and> alive v"
  using select_answer [OF assms(1-9), of "\<lambda>_. False" rest]
  by (auto simp: mgr_recv_def bindM_def returnM_def assms(10))

end

text \<open>The managers' loops, by what an arrival carries.\<close>

lemma arrive_cases:
  obtains (none) "arrive a w = (Ret (), w)" "\<And>m. carried w a = ToProto m \<Longrightarrow> \<not> proto_alive w"
      "\<And>x. carried w a = ToClad x \<Longrightarrow> \<not> clad_alive w"
      "\<And>e. carried w a = ToEvent e \<Longrightarrow> \<not> clad_alive w"
  | (proto) m where "carried w a = ToProto m" "arrive a w = EngineProto_SendToListeners (wrapper_type m) m w"
  | (event) e where "carried w a = ToEvent e" "arrive a w = SendEventToChannel e w"
  | (clad) x where "carried w a = ToClad x" "arrive a w = EngineClad_SendToListeners x w"
  | (end_proto) "carried w a = EndsProto"
  | (end_clad) "carried w a = EndsClad" "arrive a w = (Ret (), w\<lparr>clad_alive := False\<rparr>)"
  | (crash) "carried w a = Crashes"
proof (cases a)
  case TimerFires
  then show ?thesis by (intro none) (simp_all add: arrive_def carried_def returnM_def)
next
  case PeerDone
  then show ?thesis by (intro none) (simp_all add: arrive_def carried_def returnM_def)
next
  case (ProtoBlock b)
  show ?thesis
  proof (cases b)
    case None then show ?thesis using ProtoBlock by (intro end_proto) (simp add: carried_def)
  next
    case (Some bs)
    with ProtoBlock have a: "carried w a = proto_carried w bs"
      "arrive a w = EngineProto_ProcessBlock (Some bs) w" by (simp_all add: carried_def arrive_def)
    show ?thesis
    proof (cases "proto_carried w bs")
      case (ToProto m)
      show ?thesis
      proof (cases "proto_alive w")
        case True
        with ToProto a show ?thesis
          by (intro proto [of m]) (auto simp: proto_carried_def EngineProto_ProcessBlock_def
              wrapper_type_def split: if_splits option.splits)
      next
        case False
        with ToProto a show ?thesis by (intro none) (simp_all add: EngineProto_ProcessBlock_def)
      qed
    next
      case Nothing
      with a show ?thesis
        by (intro none) (auto simp: proto_carried_def EngineProto_ProcessBlock_def
            split: if_splits option.splits)
    next
      case Crashes with a show ?thesis by (intro crash) simp
    qed (auto simp: proto_carried_def split: if_splits option.splits)
  qed
next
  case (CladBlock b)
  show ?thesis
  proof (cases "clad_alive w")
    case False
    then show ?thesis using CladBlock
      by (intro none) (auto simp: arrive_def EngineClad_ProcessBlock_eq carried_def clad_carried_def
          split: option.splits if_splits)
  next
    case alive: True
    show ?thesis
    proof (cases b)
      case None
      then show ?thesis using CladBlock alive
        by (intro end_clad) (simp_all add: carried_def arrive_def EngineClad_ProcessBlock_eq)
    next
      case (Some bs)
      with CladBlock have a: "carried w a = clad_carried w bs"
        "arrive a w = EngineClad_ProcessBlock (Some bs) w" by (simp_all add: carried_def arrive_def)
      show ?thesis
      proof (cases "clad_carried w bs")
        case (ToClad x)
        with alive a show ?thesis
          by (intro clad [of x]) (auto simp: clad_carried_def EngineClad_ProcessBlock_eq
              split: if_splits option.splits)
      next
        case (ToEvent e)
        with alive a show ?thesis
          by (intro event [of e]) (auto simp: clad_carried_def EngineClad_ProcessBlock_eq
              split: if_splits option.splits)
      next
        case Nothing
        with a alive show ?thesis
          by (intro none) (auto simp: clad_carried_def EngineClad_ProcessBlock_eq
              split: if_splits option.splits)
      qed (auto simp: clad_carried_def split: if_splits option.splits)
    qed
  qed
qed

text \<open>Sending with room, on the gateway's state.\<close>

lemma proto_send_room:
  assumes wf: "wf_gateway w" and room: "roomy w"
  obtains p where "EngineProto_SendToListeners (wrapper_type m) m w = (Ret (), put_proto p w)"
    "wf_gateway (put_proto p w)" "shrinks w (put_proto p w)"
    "\<And>c u. c \<in> set (listeners (proto_mgr w) u) \<Longrightarrow> u \<noteq> wrapper_type m \<Longrightarrow>
       c \<in> set (listeners p u) \<and> chans p c = chans (proto_mgr w) c"
    "\<And>c ch. c \<in> set (listeners (proto_mgr w) (wrapper_type m)) \<Longrightarrow> chans (proto_mgr w) c = Some ch \<Longrightarrow>
       length (buf ch) < cap ch \<Longrightarrow>
       c \<in> set (listeners p (wrapper_type m)) \<and> chans p c = Some (ch\<lparr>buf := buf ch @ [m]\<rparr>)"
proof (rule send_with_room [of wrapper_type "proto_mgr w" m])
  show "wf_manager wrapper_type (proto_mgr w)" using wf by (simp add: wf_gateway_def)
  show "length (listeners (proto_mgr w) (wrapper_type m)) \<le> markedCapacity"
    using room by (simp add: roomy_def)
  fix p
  assume p: "SendToListeners_reg (wrapper_type m) m (proto_mgr w) = Sent p" "wf_manager wrapper_type p"
    "\<And>u. set (listeners p u) \<subseteq> set (listeners (proto_mgr w) u)"
    "\<And>c u. c \<in> set (listeners (proto_mgr w) u) \<Longrightarrow> u \<noteq> wrapper_type m \<Longrightarrow>
       c \<in> set (listeners p u) \<and> chans p c = chans (proto_mgr w) c"
    "\<And>c ch. c \<in> set (listeners (proto_mgr w) (wrapper_type m)) \<Longrightarrow> chans (proto_mgr w) c = Some ch \<Longrightarrow>
       length (buf ch) < cap ch \<Longrightarrow>
       c \<in> set (listeners p (wrapper_type m)) \<and> chans p c = Some (ch\<lparr>buf := buf ch @ [m]\<rparr>)"
  show thesis
    by (rule that [of p, OF _ _ _ p(4,5)])
      (use wf p(1-3) in \<open>simp_all add: EngineProto_SendToListeners_def mgr_SendToListeners_def
        wf_gateway_def shrinks_def\<close>)
qed

lemma clad_send_room:
  assumes wf: "wf_gateway w" and room: "roomy w"
  obtains p where "EngineClad_SendToListeners m w = (Ret (), put_clad p w)"
    "wf_gateway (put_clad p w)" "shrinks w (put_clad p w)"
    "\<And>c u. c \<in> set (listeners (clad_mgr w) u) \<Longrightarrow> u \<noteq> robotTag m \<Longrightarrow>
       c \<in> set (listeners p u) \<and> chans p c = chans (clad_mgr w) c"
    "\<And>c ch. c \<in> set (listeners (clad_mgr w) (robotTag m)) \<Longrightarrow> chans (clad_mgr w) c = Some ch \<Longrightarrow>
       length (buf ch) < cap ch \<Longrightarrow>
       c \<in> set (listeners p (robotTag m)) \<and> chans p c = Some (ch\<lparr>buf := buf ch @ [m]\<rparr>)"
proof (rule send_with_room [of robotTag "clad_mgr w" m])
  show "wf_manager robotTag (clad_mgr w)" using wf by (simp add: wf_gateway_def)
  show "length (listeners (clad_mgr w) (robotTag m)) \<le> markedCapacity"
    using room by (simp add: roomy_def)
  fix p
  assume p: "SendToListeners_reg (robotTag m) m (clad_mgr w) = Sent p" "wf_manager robotTag p"
    "\<And>u. set (listeners p u) \<subseteq> set (listeners (clad_mgr w) u)"
    "\<And>c u. c \<in> set (listeners (clad_mgr w) u) \<Longrightarrow> u \<noteq> robotTag m \<Longrightarrow>
       c \<in> set (listeners p u) \<and> chans p c = chans (clad_mgr w) c"
    "\<And>c ch. c \<in> set (listeners (clad_mgr w) (robotTag m)) \<Longrightarrow> chans (clad_mgr w) c = Some ch \<Longrightarrow>
       length (buf ch) < cap ch \<Longrightarrow>
       c \<in> set (listeners p (robotTag m)) \<and> chans p c = Some (ch\<lparr>buf := buf ch @ [m]\<rparr>)"
  show thesis
    by (rule that [of p, OF _ _ _ p(4,5)])
      (use wf p(1-3) in \<open>simp_all add: EngineClad_SendToListeners_def mgr_SendToListeners_def
        wf_gateway_def shrinks_def\<close>)
qed

lemma same_io_proto [simp]: "same_io w (put_proto p w)"
  by (rule same_ioI [where p = p and q = "clad_mgr w" and a = "proto_alive w" and b = "clad_alive w"]) simp

lemma same_io_clad [simp]: "same_io w (put_clad p w)"
  by (rule same_ioI [where p = "proto_mgr w" and q = p and a = "proto_alive w" and b = "clad_alive w"]) simp

lemma same_io_clad_dead [simp]: "same_io w (w\<lparr>clad_alive := a\<rparr>)"
  by (rule same_ioI [where p = "proto_mgr w" and q = "clad_mgr w" and a = "proto_alive w" and b = a]) simp

lemma same_mgrs_clad_dead: "same_mgrs w (w\<lparr>clad_alive := a\<rparr>)"
  by (simp add: same_mgrs_def)

section \<open>The two managers\<close>

definition quiet_proto :: "oneof_type \<Rightarrow> delivery \<Rightarrow> bool" where
  "quiet_proto t d = (case d of
      ToProto m \<Rightarrow> wrapper_type m \<noteq> t | ToEvent _ \<Rightarrow> t \<noteq> EventType
    | EndsProto \<Rightarrow> False | Crashes \<Rightarrow> False | _ \<Rightarrow> True)"

definition quiet_clad :: "8 word \<Rightarrow> delivery \<Rightarrow> bool" where
  "quiet_clad t d = (case d of
      ToClad x \<Rightarrow> robotTag x \<noteq> t | EndsProto \<Rightarrow> False | EndsClad \<Rightarrow> False | Crashes \<Rightarrow> False
    | _ \<Rightarrow> True)"

interpretation proto: answering proto_mgr put_proto wrapper_type quiet_proto ToProto proto_alive
proof unfold_locales
  fix w c t a
  assume w: "wf_gateway w" "roomy w" "proto_alive w" "c \<in> set (listeners (proto_mgr w) t)"
    and q: "quiet_proto t (carried w a)"
  show "\<exists>v. arrive a w = (Ret (), v) \<and> proto_alive v \<and> same_io w v \<and> wf_gateway v \<and> shrinks w v \<and>
      c \<in> set (listeners (proto_mgr v) t) \<and> chans (proto_mgr v) c = chans (proto_mgr w) c"
  proof (cases rule: arrive_cases [of a w])
    case none with w show ?thesis by simp
  next
    case (proto m)
    then have "wrapper_type m \<noteq> t" using q by (simp add: quiet_proto_def)
    then obtain p where "EngineProto_SendToListeners (wrapper_type m) m w = (Ret (), put_proto p w)"
      "wf_gateway (put_proto p w)" "shrinks w (put_proto p w)"
      "c \<in> set (listeners p t) \<and> chans p c = chans (proto_mgr w) c"
      using proto_send_room [OF w(1,2), of m] w(4) by metis
    with proto w show ?thesis by simp
  next
    case (event e)
    let ?m = "\<lparr>ConnectionId = 0, OneofMessageType = Some (EventMsg e)\<rparr>"
    have ty: "wrapper_type ?m = EventType" by (simp add: wrapper_type_def)
    have "t \<noteq> EventType" using q event(1) by (simp add: quiet_proto_def)
    then obtain p where "EngineProto_SendToListeners EventType ?m w = (Ret (), put_proto p w)"
      "wf_gateway (put_proto p w)" "shrinks w (put_proto p w)"
      "c \<in> set (listeners p t) \<and> chans p c = chans (proto_mgr w) c"
      using proto_send_room [OF w(1,2), of ?m, unfolded ty] w(4) by metis
    with event w show ?thesis by (simp add: SendEventToChannel_def)
  next
    case (clad x)
    obtain p where "EngineClad_SendToListeners x w = (Ret (), put_clad p w)"
      "wf_gateway (put_clad p w)" "shrinks w (put_clad p w)"
      by (rule clad_send_room [OF w(1,2), of x])
    with clad w show ?thesis by simp
  next
    case end_proto with q show ?thesis by (simp add: quiet_proto_def)
  next
    case end_clad
    with w same_mgrs_good [OF same_mgrs_clad_dead [where w = w and a = False]] show ?thesis by simp
  next
    case crash with q show ?thesis by (simp add: quiet_proto_def)
  qed
next
  fix w c m ch a
  assume w: "wf_gateway w" "roomy w" "proto_alive w" "c \<in> set (listeners (proto_mgr w) (wrapper_type m))"
    "chans (proto_mgr w) c = Some ch" "length (buf ch) < cap ch" and a: "carried w a = ToProto m"
  obtain p where "EngineProto_SendToListeners (wrapper_type m) m w = (Ret (), put_proto p w)"
    "wf_gateway (put_proto p w)" "shrinks w (put_proto p w)"
    "c \<in> set (listeners p (wrapper_type m)) \<and> chans p c = Some (ch\<lparr>buf := buf ch @ [m]\<rparr>)"
    using proto_send_room [OF w(1,2), of m] w(4-6) by metis
  moreover have "arrive a w = EngineProto_SendToListeners (wrapper_type m) m w"
    by (cases rule: arrive_cases [of a w]) (use a w(3) in simp_all)
  ultimately show "\<exists>v. arrive a w = (Ret (), v) \<and> proto_alive v \<and> same_io w v \<and> wf_gateway v \<and>
      shrinks w v \<and> c \<in> set (listeners (proto_mgr v) (wrapper_type m)) \<and>
      chans (proto_mgr v) c = Some (ch\<lparr>buf := buf ch @ [m]\<rparr>)"
    using w(3) by simp
qed simp_all


interpretation clad: answering clad_mgr put_clad robotTag quiet_clad ToClad
  "\<lambda>w. proto_alive w \<and> clad_alive w"
proof unfold_locales
  fix w c t a
  assume w: "wf_gateway w" "roomy w" "proto_alive w \<and> clad_alive w" "c \<in> set (listeners (clad_mgr w) t)"
    and q: "quiet_clad t (carried w a)"
  show "\<exists>v. arrive a w = (Ret (), v) \<and> (proto_alive v \<and> clad_alive v) \<and> same_io w v \<and>
      wf_gateway v \<and> shrinks w v \<and>
      c \<in> set (listeners (clad_mgr v) t) \<and> chans (clad_mgr v) c = chans (clad_mgr w) c"
  proof (cases rule: arrive_cases [of a w])
    case none with w show ?thesis by simp
  next
    case (proto m)
    obtain p where "EngineProto_SendToListeners (wrapper_type m) m w = (Ret (), put_proto p w)"
      "wf_gateway (put_proto p w)" "shrinks w (put_proto p w)"
      by (rule proto_send_room [OF w(1,2), of m])
    with proto w show ?thesis by simp
  next
    case (event e)
    let ?m = "\<lparr>ConnectionId = 0, OneofMessageType = Some (EventMsg e)\<rparr>"
    have ty: "wrapper_type ?m = EventType" by (simp add: wrapper_type_def)
    obtain p where "EngineProto_SendToListeners EventType ?m w = (Ret (), put_proto p w)"
      "wf_gateway (put_proto p w)" "shrinks w (put_proto p w)"
      by (rule proto_send_room [OF w(1,2), of ?m, unfolded ty])
    with event w show ?thesis by (simp add: SendEventToChannel_def)
  next
    case (clad x)
    then have "robotTag x \<noteq> t" using q by (simp add: quiet_clad_def)
    then obtain p where "EngineClad_SendToListeners x w = (Ret (), put_clad p w)"
      "wf_gateway (put_clad p w)" "shrinks w (put_clad p w)"
      "c \<in> set (listeners p t) \<and> chans p c = chans (clad_mgr w) c"
      using clad_send_room [OF w(1,2), of x] w(4) by metis
    with clad w show ?thesis by simp
  qed (use q in \<open>simp_all add: quiet_clad_def\<close>)
next
  fix w c m ch a
  assume w: "wf_gateway w" "roomy w" "proto_alive w \<and> clad_alive w"
    "c \<in> set (listeners (clad_mgr w) (robotTag m))" "chans (clad_mgr w) c = Some ch"
    "length (buf ch) < cap ch" and a: "carried w a = ToClad m"
  obtain p where "EngineClad_SendToListeners m w = (Ret (), put_clad p w)"
    "wf_gateway (put_clad p w)" "shrinks w (put_clad p w)"
    "c \<in> set (listeners p (robotTag m)) \<and> chans p c = Some (ch\<lparr>buf := buf ch @ [m]\<rparr>)"
    using clad_send_room [OF w(1,2), of m] w(4-6) by metis
  moreover have "arrive a w = EngineClad_SendToListeners m w"
    by (cases rule: arrive_cases [of a w]) (use a w(3) in simp_all)
  ultimately show "\<exists>v. arrive a w = (Ret (), v) \<and> (proto_alive v \<and> clad_alive v) \<and> same_io w v \<and>
      wf_gateway v \<and> shrinks w v \<and> c \<in> set (listeners (clad_mgr v) (robotTag m)) \<and>
      chans (clad_mgr v) c = Some (ch\<lparr>buf := buf ch @ [m]\<rparr>)"
    using w(3) by simp
qed simp_all

section \<open>A call that is answered\<close>

text \<open>
  \<open>answered w t m rest\<close>: the wire is in order, there is room for one more listener, and the first
  message of the type that arrives is \<open>m\<close>, with \<open>rest\<close> left to arrive.
\<close>

definition room_for :: "gateway \<Rightarrow> oneof_type \<Rightarrow> bool" where
  "room_for w t \<longleftrightarrow> roomy w \<and> length (listeners (proto_mgr w) t) < markedCapacity"

definition answered :: "gateway \<Rightarrow> gateway_wrapper \<Rightarrow> arrival list \<Rightarrow> bool" where
  "answered w m rest \<longleftrightarrow> wf_gateway w \<and> proto_alive w \<and> room_for w (wrapper_type m) \<and>
     (\<exists>pre a. arrivals w = pre @ a # rest \<and> carried w a = ToProto m \<and>
        list_all (quiet_proto (wrapper_type m)) (map (carried w) pre))"

text \<open>The request is written: no fault is due and the message can be encoded, as \<open>d\<close>.\<close>

definition written :: "gateway \<Rightarrow> oneof \<Rightarrow> byte list \<Rightarrow> bool" where
  "written w x d \<longleftrightarrow> \<not> next_fault (write_faults w) \<and>
     marshal w \<lparr>ConnectionId = rand_source w (rand_next w), OneofMessageType = Some x\<rparr> = Some d"

lemma Write_written:
  assumes "written w x d"
  shows "EngineProto_Write x w = (Ret (rand_source w (rand_next w)),
    w\<lparr>rand_next := Suc (rand_next w), write_faults := tl (write_faults w),
      proto_sock := proto_sock w @ [frame d]\<rparr>)"
  using assms
  by (simp add: written_def EngineProto_Write_def rand_Uint64_def EngineProto_WriteWithID_def
      proto_conn_write_def bindM_def returnM_def)

lemma create_roomy:
  assumes "room_for w t" "CreateChannel_reg t n (proto_mgr w) = (c, p)"
  shows "roomy (put_proto p w)"
  using assms CreateChannel_listeners [OF assms(2)]
  by (auto simp: roomy_def room_for_def)

text \<open>The state in which a handler waits: its channel is registered and empty, its request written.\<close>

definition waiting :: "gateway \<Rightarrow> oneof_type \<Rightarrow> nat \<Rightarrow> nat \<Rightarrow> gateway \<Rightarrow> bool" where
  "waiting w t c n v \<longleftrightarrow> wf_gateway v \<and> roomy v \<and> proto_alive v \<and>
     c \<in> set (listeners (proto_mgr v) t) \<and>
     chans (proto_mgr v) c = Some \<lparr>cap = n, buf = [], closed = False\<rparr> \<and> carried v = carried w"

text \<open>What a call leaves as it is for the client's stream and for the calls that follow.\<close>

definition same_stream :: "gateway \<Rightarrow> gateway \<Rightarrow> bool" where
  "same_stream w v \<longleftrightarrow> stream_out v = stream_out w \<and> stream_fates v = stream_fates w \<and>
     carried v = carried w \<and> write_faults v = tl (write_faults w) \<and> marshal v = marshal w"

lemma open_written_state:
  assumes wf: "wf_gateway w" and room: "room_for w t" and alive: "proto_alive w" and wr: "written w x d"
    and cp: "CreateChannel_reg t n (proto_mgr w) = (c, p)"
  obtains v where "EngineProto_Write x (put_proto p w) = (Ret (rand_source w (rand_next w)), v)"
    "waiting w t c n v" "shrinks (put_proto p w) v" "arrivals v = arrivals w"
    "proto_sock v = proto_sock w @ [frame d]" "wf_gateway (put_proto p w)" "same_stream w v"
proof
  let ?w1 = "put_proto p w"
  let ?v = "?w1\<lparr>rand_next := Suc (rand_next w), write_faults := tl (write_faults w),
      proto_sock := proto_sock w @ [frame d]\<rparr>"
  show "EngineProto_Write x ?w1 = (Ret (rand_source w (rand_next w)), ?v)"
    using Write_written [of ?w1 x d] wr by (simp add: written_def)
  show wf1: "wf_gateway ?w1" using proto.create_res(1) [OF wf cp] .
  have mgrs: "same_mgrs ?w1 ?v" by (simp add: same_mgrs_def)
  show "shrinks ?w1 ?v" using same_mgrs_good(2) [OF mgrs] .
  have car: "carried ?v = carried w" by (rule carried_codec) simp_all
  then show "same_stream w ?v" by (simp add: same_stream_def)
  note car
  moreover have "chans p c = Some \<lparr>cap = n, buf = [], closed = False\<rparr>"
    using cp by (auto simp: CreateChannel_reg_def Let_def)
  ultimately show "waiting w t c n ?v"
    using same_mgrs_good(1) [OF mgrs] wf1 create_roomy [OF room cp] alive
      CreateChannel_listeners [OF cp, of t]
    by (simp add: waiting_def roomy_def)
qed simp_all

lemma open_written:
  assumes wf: "wf_gateway w" and room: "room_for w t" and alive: "proto_alive w" and wr: "written w x d"
    and cp: "CreateChannel_reg t n (proto_mgr w) = (c, p)"
  obtains v where "EngineProto_Write x (put_proto p w) = (Ret (rand_source w (rand_next w)), v)"
    "waiting w t c n v" "shrinks (put_proto p w) v" "arrivals v = arrivals w"
    "proto_sock v = proto_sock w @ [frame d]" "wf_gateway (put_proto p w)"
  using open_written_state [OF assms] that by blast

lemma with_channel_returns:
  assumes wf: "wf_gateway w" and cp: "CreateChannel_reg t n (proto_mgr w) = (c, p)"
    and body: "body c (put_proto p w) = (Ret y, v)" and v: "wf_gateway v" "shrinks (put_proto p w) v"
  obtains q where "with_channel t n body w = (Ret y, put_proto q v)"
    "wf_gateway (put_proto q v)" "shrinks w (put_proto q v)"
proof -
  obtain q where q: "deleteListenerUnsafe_reg c t (proto_mgr v) = Some q"
    using delete_total [OF proto.wf_get [OF v(1)]] by blast
  have wfq: "wf_gateway (put_proto q v)"
    using proto.wf_put [OF v(1) delete_wf [OF proto.wf_get [OF v(1)] q]] .
  have shq: "shrinks w (put_proto q v)"
  proof (rule proto.shrinks_put [OF v(2)])
    show "set (listeners q u) \<subseteq> set (listeners (proto_mgr w) u)" for u
      using delete_listeners_set [OF proto.wf_get [OF v(1)] q, of u] proto.shrinks_get [OF v(2), of u]
        CreateChannel_listeners [OF cp, of u] by (auto split: if_splits)
  qed
  have "EngineProto_CreateChannel t n w = (Ret c, put_proto p w)"
    by (simp add: EngineProto_CreateChannel_def mgr_CreateChannel_def cp)
  moreover have "EngineProto_deleteListenerCallback c t v = (Ret (), put_proto q v)"
    using q by (simp add: EngineProto_deleteListenerCallback_def mgr_deleteListenerCallback_def)
  ultimately have "with_channel t n body w = (Ret y, put_proto q v)"
    unfolding with_channel_def by (subst bindM_def) (simp add: deferM_def body)
  then show thesis using wfq shq that by blast
qed

text \<open>What the handler remembers of the answer, the result of a cloud check, may change as well.\<close>

theorem call_answered_state:
  assumes ans: "answered w m rest" and wr: "written w x d" and t: "wrapper_type m = t"
    and k: "\<And>u. k m u = (Ret y, u\<lparr>lastResult := l u\<rparr>)"
  shows "\<exists>w'. proto_call t x k w = (Ret y, w') \<and> arrivals w' = rest \<and>
    proto_sock w' = proto_sock w @ [frame d] \<and> wf_gateway w' \<and> shrinks w w' \<and>
    proto_alive w' \<and> same_stream w w'"
proof -
  from ans t obtain pre a where wf: "wf_gateway w" and alive: "proto_alive w" and room: "room_for w t"
    and arr: "arrivals w = pre @ a # rest" and a: "carried w a = ToProto m"
    and pre: "list_all (quiet_proto t) (map (carried w) pre)"
    by (auto simp: answered_def)
  obtain c p where cp: "CreateChannel_reg t 1 (proto_mgr w) = (c, p)" by fastforce
  obtain v where sent: "EngineProto_Write x (put_proto p w) = (Ret (rand_source w (rand_next w)), v)"
    and wait: "waiting w t c 1 v" and v: "shrinks (put_proto p w) v" "arrivals v = arrivals w"
    "proto_sock v = proto_sock w @ [frame d]" and str: "same_stream w v"
    by (rule open_written_state [OF wf room alive wr cp])
  have "\<exists>u. mgr_recv proto_mgr put_proto c v = (Ret (Some m), u\<lparr>arrivals := rest\<rparr>) \<and>
    same_io v u \<and> wf_gateway u \<and> shrinks v u \<and> c \<in> set (listeners (proto_mgr u) (wrapper_type m)) \<and>
    chans (proto_mgr u) c = Some \<lparr>cap = 1, buf = [], closed = False\<rparr> \<and> proto_alive u"
    using wait a pre by (intro proto.recv_answer) (simp_all add: waiting_def t v(2) arr)
  then obtain u where u: "mgr_recv proto_mgr put_proto c v = (Ret (Some m), u\<lparr>arrivals := rest\<rparr>)"
    "same_io v u" "wf_gateway u" "shrinks v u" "proto_alive u" by blast
  let ?u = "u\<lparr>arrivals := rest, lastResult := l (u\<lparr>arrivals := rest\<rparr>)\<rparr>"
  have body: "bindM (EngineProto_Write x) (\<lambda>_. bindM (recv_or_fail c) k) (put_proto p w) = (Ret y, ?u)"
    by (simp add: bindM_def sent recv_or_fail_def proto_recv_def u(1) k returnM_def)
  have "same_mgrs (u\<lparr>arrivals := rest\<rparr>) ?u" by (simp add: same_mgrs_def)
  then have "wf_gateway ?u" "shrinks (put_proto p w) ?u"
    using same_mgrs_good proto.arrivals_res [OF u(3)] shrinks_trans [OF v(1) u(4)] shrinks_trans by blast+
  from with_channel_returns [where body = "\<lambda>c. bindM (EngineProto_Write x) (\<lambda>_. bindM (recv_or_fail c) k)",
      OF wf cp body this]
  obtain q where "proto_call t x k w = (Ret y, put_proto q ?u)"
    "wf_gateway (put_proto q ?u)" "shrinks w (put_proto q ?u)"
    unfolding proto_call_def by blast
  moreover have "carried (put_proto q ?u) = carried u" by (rule carried_codec) simp_all
  then have "same_stream w (put_proto q ?u)"
    using same_ioD [OF u(2)] same_io_carried [OF u(2)] str by (simp add: same_stream_def)
  ultimately show ?thesis using same_ioD(1) [OF u(2)] v(3) u(5) by simp
qed

theorem call_answered_remembering:
  assumes "answered w m rest" "written w x d" "wrapper_type m = t"
    and "\<And>u. k m u = (Ret y, u\<lparr>lastResult := l u\<rparr>)"
  shows "\<exists>w'. proto_call t x k w = (Ret y, w') \<and> arrivals w' = rest \<and>
    proto_sock w' = proto_sock w @ [frame d] \<and> wf_gateway w' \<and> shrinks w w'"
  using call_answered_state [where k = k and l = l, OF assms] by blast

theorem call_answered:
  assumes "answered w m rest" "written w x d" "wrapper_type m = t" "k m = returnM y"
  shows "\<exists>w'. proto_call t x k w = (Ret y, w') \<and> arrivals w' = rest \<and>
    proto_sock w' = proto_sock w @ [frame d] \<and> wf_gateway w' \<and> shrinks w w'"
  using assms by (intro call_answered_remembering [where l = lastResult]) (auto simp: returnM_def dest: fun_cong)

text \<open>A request that cannot be written: the error is returned and the registry is as before.\<close>

theorem call_not_written:
  assumes wf: "wf_gateway w" and fault: "next_fault (write_faults w)"
    and enc: "\<And>i. marshal w \<lparr>ConnectionId = i, OneofMessageType = Some x\<rparr> \<noteq> None"
  shows "\<exists>w'. proto_call t x k w = (Fail SocketError, w') \<and> wf_gateway w' \<and>
    proto_sock w' = proto_sock w \<and> arrivals w' = arrivals w \<and>
    listeners (proto_mgr w') = listeners (proto_mgr w) \<and> clad_mgr w' = clad_mgr w"
proof -
  obtain c p where cp: "CreateChannel_reg t 1 (proto_mgr w) = (c, p)" by fastforce
  let ?v = "(put_proto p w)\<lparr>rand_next := Suc (rand_next w), write_faults := tl (write_faults w)\<rparr>"
  have wfm: "wf_manager wrapper_type (proto_mgr w)" using wf by (simp add: wf_gateway_def)
  obtain q where q: "deleteListenerUnsafe_reg c t p = Some q"
    using delete_total [OF CreateChannel_wf [OF wfm cp]] by blast
  have body: "bindM (EngineProto_Write x) (\<lambda>_. bindM (recv_or_fail c) k) (put_proto p w) =
      (Fail SocketError, ?v)"
    using fault enc
    by (auto simp: EngineProto_Write_def rand_Uint64_def EngineProto_WriteWithID_def
        proto_conn_write_def bindM_def split: option.split)
  have "EngineProto_CreateChannel t 1 w = (Ret c, put_proto p w)"
    by (simp add: EngineProto_CreateChannel_def mgr_CreateChannel_def cp del: One_nat_def)
  moreover have "EngineProto_deleteListenerCallback c t ?v = (Ret (), put_proto q ?v)"
    using q by (simp add: EngineProto_deleteListenerCallback_def mgr_deleteListenerCallback_def)
  ultimately have "proto_call t x k w = (Fail SocketError, put_proto q ?v)"
    unfolding proto_call_def with_channel_def
    by (subst bindM_def) (simp add: deferM_def body del: One_nat_def)
  moreover have "wf_gateway (put_proto q ?v)"
    using wf delete_wf [OF CreateChannel_wf [OF wfm cp] q] by (simp add: wf_gateway_def)
  moreover have "listeners q = listeners (proto_mgr w)"
    using reg.create_remove_restores [OF wfm cp q] .
  ultimately show ?thesis by simp
qed

section \<open>Loops that are answered\<close>

text \<open>
  The arrivals of a loop in segments: each ends with an arrival that carries a message of the
  type; before it come arrivals that leave the channel alone, and nothing else wakes the loop.
\<close>

type_synonym segment = "arrival list \<times> arrival \<times> gateway_wrapper"

definition segment :: "(arrival \<Rightarrow> delivery) \<Rightarrow> oneof_type \<Rightarrow> segment \<Rightarrow> bool" where
  "segment car t s = (case s of (pre, a, m) \<Rightarrow>
     list_all (quiet_proto t) (map car pre) \<and> car a = ToProto m \<and> wrapper_type m = t \<and>
     TimerFires \<notin> set (pre @ [a]) \<and> PeerDone \<notin> set (pre @ [a]))"

definition arrivals_of :: "segment list \<Rightarrow> arrival list" where
  "arrivals_of segs = concat (map (\<lambda>(pre, a, m). pre @ [a]) segs)"

lemma arrivals_of_simps [simp]:
  "arrivals_of [] = []" "arrivals_of ((pre, a, m) # segs) = pre @ a # arrivals_of segs"
  by (simp_all add: arrivals_of_def)

lemma length_arrivals_of: "length segs \<le> length (arrivals_of segs)"
  by (induction segs) auto

lemma waiting_select:
  assumes w: "waiting w0 t c n w" and n: "0 < n" and seg: "segment (carried w0) t (pre, a, m)"
    and arr: "arrivals w = pre @ a # rest" and wakes: "\<And>x. wakes x \<Longrightarrow> x = TimerFires \<or> x = PeerDone"
  obtains v where "mgr_select proto_mgr put_proto wakes c (arrivals w) w = (Ret (GotMessage m), v\<lparr>arrivals := rest\<rparr>)"
    "waiting w0 t c n (v\<lparr>arrivals := rest\<rparr>)" "same_io w v" "shrinks w (v\<lparr>arrivals := rest\<rparr>)"
proof -
  have "\<exists>v. mgr_select proto_mgr put_proto wakes c (pre @ a # rest) w = (Ret (GotMessage m), v\<lparr>arrivals := rest\<rparr>) \<and>
    same_io w v \<and> wf_gateway v \<and> shrinks w v \<and> c \<in> set (listeners (proto_mgr v) (wrapper_type m)) \<and>
    chans (proto_mgr v) c = Some \<lparr>cap = n, buf = [], closed = False\<rparr> \<and> proto_alive v"
    using w n seg wakes by (intro proto.select_answer) (auto simp: waiting_def segment_def)
  then obtain v where v: "mgr_select proto_mgr put_proto wakes c (pre @ a # rest) w = (Ret (GotMessage m), v\<lparr>arrivals := rest\<rparr>)"
    "same_io w v" "wf_gateway v" "shrinks w v" "c \<in> set (listeners (proto_mgr v) (wrapper_type m))"
    "chans (proto_mgr v) c = Some \<lparr>cap = n, buf = [], closed = False\<rparr>" "proto_alive v" by blast
  have "roomy v" using roomy_shrinks [OF _ v(3,4)] w by (simp add: waiting_def)
  moreover have "carried (v\<lparr>arrivals := rest\<rparr>) = carried v" by (rule carried_codec) simp_all
  ultimately have "waiting w0 t c n (v\<lparr>arrivals := rest\<rparr>)"
    using v w seg proto.arrivals_res [OF v(3), of rest] same_io_carried [OF v(2)]
    by (simp add: waiting_def segment_def roomy_def)
  moreover have "shrinks w (v\<lparr>arrivals := rest\<rparr>)"
    using proto.arrivals_res [OF v(3), of rest] shrinks_trans [OF v(4)] by blast
  ultimately show thesis using that [of v] v(1,2) arr by simp
qed

text \<open>A loop whose rounds each wait once, over segments of which exactly the last one ends it.\<close>

lemma loop_answered:
  assumes body: "\<And>s v m u. waiting w0 t c n v \<Longrightarrow> P m \<Longrightarrow>
      mgr_select proto_mgr put_proto wakes c (arrivals v) v = (Ret (GotMessage m), u) \<Longrightarrow>
      body s v = (Ret (step s m), u)"
    and wakes: "\<And>x. wakes x \<Longrightarrow> x = TimerFires \<or> x = PeerDone"
    and "waiting w0 t c n w" "0 < n" "list_all (segment (carried w0) t) (segs @ [(pre, a, m)])"
    and "arrivals w = arrivals_of (segs @ [(pre, a, m)]) @ rest" "length segs < fuel"
    and "\<And>s p b x. (p, b, x) \<in> set segs \<Longrightarrow> P x \<and> step s x = Inl (next s x)"
    and "\<And>s. P m \<and> step s m = Inr (final s)"
  shows "\<exists>v. loopM fuel body s w =
      (Ret (final (foldl next s (map (\<lambda>(p, b, x). x) segs))), v) \<and>
    arrivals v = rest \<and> wf_gateway v \<and> shrinks w v \<and> proto_sock v = proto_sock w"
  using assms(3-9)
proof (induction segs arbitrary: fuel s w)
  case Nil
  from Nil.prems(5) obtain k where fuel: "fuel = Suc k" by (cases fuel) auto
  from Nil.prems(3,4) have seg: "segment (carried w0) t (pre, a, m)" and arr: "arrivals w = pre @ a # rest"
    by simp_all
  obtain v where v: "mgr_select proto_mgr put_proto wakes c (arrivals w) w = (Ret (GotMessage m), v\<lparr>arrivals := rest\<rparr>)"
    "waiting w0 t c n (v\<lparr>arrivals := rest\<rparr>)" "same_io w v" "shrinks w (v\<lparr>arrivals := rest\<rparr>)"
    by (rule waiting_select [OF Nil.prems(1,2) seg arr wakes])
  from body [OF Nil.prems(1) _ v(1), of s] Nil.prems(7) have
    "loopM fuel body s w = (Ret (final s), v\<lparr>arrivals := rest\<rparr>)"
    by (simp add: fuel bindM_def returnM_def)
  then show ?case using v by (simp add: waiting_def same_ioD(1) [OF v(3)])
next
  case (Cons sg segs)
  obtain p b x where sg: "sg = (p, b, x)" by (cases sg) auto
  from Cons.prems(5) obtain k where fuel: "fuel = Suc k" by (cases fuel) auto
  let ?rest = "arrivals_of (segs @ [(pre, a, m)]) @ rest"
  from Cons.prems(3,4) have seg: "segment (carried w0) t (p, b, x)" and arr: "arrivals w = p @ b # ?rest"
    by (simp_all add: sg)
  obtain v where v: "mgr_select proto_mgr put_proto wakes c (arrivals w) w = (Ret (GotMessage x), v\<lparr>arrivals := ?rest\<rparr>)"
    "waiting w0 t c n (v\<lparr>arrivals := ?rest\<rparr>)" "same_io w v" "shrinks w (v\<lparr>arrivals := ?rest\<rparr>)"
    by (rule waiting_select [OF Cons.prems(1,2) seg arr wakes])
  let ?v = "v\<lparr>arrivals := ?rest\<rparr>"
  have x: "P x" and "step s x = Inl (next s x)" using Cons.prems(6) [of p b x] by (simp_all add: sg)
  with body [OF Cons.prems(1) x v(1), of s] have
    "loopM fuel body s w = loopM k body (next s x) ?v"
    by (simp add: fuel bindM_def)
  moreover have "\<exists>u. loopM k body (next s x) ?v =
      (Ret (final (foldl next (next s x) (map (\<lambda>(p, b, x). x) segs))), u) \<and>
    arrivals u = rest \<and> wf_gateway u \<and> shrinks ?v u \<and> proto_sock u = proto_sock ?v"
    using Cons.prems(2-7) fuel by (intro Cons.IH [OF v(2)]) auto
  ultimately show ?case
    using shrinks_trans [OF v(4)] same_ioD(1) [OF v(3)] by (auto simp: sg)
qed

end
