(* ===== verification/Rpc_Handlers.thy ===== *)
theory Rpc_Handlers
  imports Engine_Answers
begin

text \<open>
  The unary handlers of \<open>rpcService\<close> (\<open>cloud/message_handler.go\<close>) that send one protobuf request
  to the engine: those that only write it, those that wait for the answer, the actions (whose tag
  is validated first) and the updates (of which one of a kind may run at a time). Every handler is
  a definition of its own; the tables list the handlers of each shape with the members of the
  wrapper that they use, and the theorems are about the tables.
\<close>

section \<open>Requests that are only written\<close>

definition DriveWheels :: "pb \<Rightarrow> (gateway, response) go" where
  "DriveWheels req = proto_fire (Request ''DriveWheelsRequest'' req) REQUEST_PROCESSING"

definition StopAllMotors :: "pb \<Rightarrow> (gateway, response) go" where
  "StopAllMotors req = proto_fire (Request ''StopAllMotorsRequest'' req) REQUEST_PROCESSING"

definition CancelBehavior :: "pb \<Rightarrow> (gateway, response) go" where
  "CancelBehavior req = proto_fire (Request ''CancelBehaviorRequest'' req) REQUEST_PROCESSING"

definition CancelActionByIdTag :: "pb \<Rightarrow> (gateway, response) go" where
  "CancelActionByIdTag req = proto_fire (Request ''CancelActionByIdTagRequest'' req) REQUEST_PROCESSING"

definition DisconnectCube :: "pb \<Rightarrow> (gateway, response) go" where
  "DisconnectCube req = proto_fire (Request ''DisconnectCubeRequest'' req) REQUEST_PROCESSING"

definition FlashCubeLights :: "pb \<Rightarrow> (gateway, response) go" where
  "FlashCubeLights req = proto_fire (Request ''FlashCubeLightsRequest'' req) REQUEST_PROCESSING"

definition ForgetPreferredCube :: "pb \<Rightarrow> (gateway, response) go" where
  "ForgetPreferredCube req = proto_fire (Request ''ForgetPreferredCubeRequest'' req) REQUEST_PROCESSING"

definition SetPreferredCube :: "pb \<Rightarrow> (gateway, response) go" where
  "SetPreferredCube req = proto_fire (Request ''SetPreferredCubeRequest'' req) REQUEST_PROCESSING"

definition SetCubeLights :: "pb \<Rightarrow> (gateway, response) go" where
  "SetCubeLights req = proto_fire (Request ''SetCubeLightsRequest'' req) REQUEST_PROCESSING"

definition AlexaOptIn :: "pb \<Rightarrow> (gateway, response) go" where
  "AlexaOptIn req = proto_fire (Request ''AlexaOptInRequest'' req) REQUEST_PROCESSING"

definition SetEyeColor :: "pb \<Rightarrow> (gateway, response) go" where
  "SetEyeColor req = proto_fire (Request ''SetEyeColorRequest'' req) REQUEST_PROCESSING"

text \<open>These two answer RESPONSE\_RECEIVED without having received anything.\<close>

definition PlayAnimationTrigger :: "pb \<Rightarrow> (gateway, response) go" where
  "PlayAnimationTrigger req = proto_fire (Request ''PlayAnimationTriggerRequest'' req) RESPONSE_RECEIVED"

definition PlayAnimation :: "pb \<Rightarrow> (gateway, response) go" where
  "PlayAnimation req = proto_fire (Request ''PlayAnimationRequest'' req) RESPONSE_RECEIVED"

section \<open>Requests that wait for the engine's answer\<close>

definition SetFaceToEnroll :: "pb \<Rightarrow> (gateway, response) go" where
  "SetFaceToEnroll req = proto_call (ResponseType ''SetFaceToEnrollResponse'')
     (Request ''SetFaceToEnrollRequest'' req) (received ''SetFaceToEnrollResponse'')"

definition EnrollFace :: "pb \<Rightarrow> (gateway, response) go" where
  "EnrollFace req = proto_call (ResponseType ''EnrollFaceResponse'')
     (Request ''EnrollFaceRequest'' req) (received ''EnrollFaceResponse'')"

definition DriveOffCharger :: "pb \<Rightarrow> (gateway, response) go" where
  "DriveOffCharger req = proto_call (ResponseType ''DriveOffChargerResponse'')
     (Request ''DriveOffChargerRequest'' req) (received ''DriveOffChargerResponse'')"

definition DriveOnCharger :: "pb \<Rightarrow> (gateway, response) go" where
  "DriveOnCharger req = proto_call (ResponseType ''DriveOnChargerResponse'')
     (Request ''DriveOnChargerRequest'' req) (received ''DriveOnChargerResponse'')"

definition FindFaces :: "pb \<Rightarrow> (gateway, response) go" where
  "FindFaces req = proto_call (ResponseType ''FindFacesResponse'')
     (Request ''FindFacesRequest'' req) (received ''FindFacesResponse'')"

definition LookAroundInPlace :: "pb \<Rightarrow> (gateway, response) go" where
  "LookAroundInPlace req = proto_call (ResponseType ''LookAroundInPlaceResponse'')
     (Request ''LookAroundInPlaceRequest'' req) (received ''LookAroundInPlaceResponse'')"

definition RollBlock :: "pb \<Rightarrow> (gateway, response) go" where
  "RollBlock req = proto_call (ResponseType ''RollBlockResponse'')
     (Request ''RollBlockRequest'' req) (received ''RollBlockResponse'')"

definition PhotosInfo :: "pb \<Rightarrow> (gateway, response) go" where
  "PhotosInfo req = proto_call (ResponseType ''PhotosInfoResponse'')
     (Request ''PhotosInfoRequest'' req) (received ''PhotosInfoResponse'')"

definition DeletePhoto :: "pb \<Rightarrow> (gateway, response) go" where
  "DeletePhoto req = proto_call (ResponseType ''DeletePhotoResponse'')
     (Request ''DeletePhotoRequest'' req) (received ''DeletePhotoResponse'')"

definition ConnectCube :: "pb \<Rightarrow> (gateway, response) go" where
  "ConnectCube req = proto_call (ResponseType ''ConnectCubeResponse'')
     (Request ''ConnectCubeRequest'' req) (received ''ConnectCubeResponse'')"

definition CubesAvailable :: "pb \<Rightarrow> (gateway, response) go" where
  "CubesAvailable req = proto_call (ResponseType ''CubesAvailableResponse'')
     (Request ''CubesAvailableRequest'' req) (received ''CubesAvailableResponse'')"

definition SetMasterVolume :: "pb \<Rightarrow> (gateway, response) go" where
  "SetMasterVolume req = proto_call (ResponseType ''MasterVolumeResponse'')
     (Request ''MasterVolumeRequest'' req) (received ''MasterVolumeResponse'')"

definition BatteryState :: "pb \<Rightarrow> (gateway, response) go" where
  "BatteryState req = proto_call (ResponseType ''BatteryStateResponse'')
     (Request ''BatteryStateRequest'' req) (received ''BatteryStateResponse'')"

definition VersionState :: "pb \<Rightarrow> (gateway, response) go" where
  "VersionState req = proto_call (ResponseType ''VersionStateResponse'')
     (Request ''VersionStateRequest'' req) (received ''VersionStateResponse'')"

definition EnableFaceDetection :: "pb \<Rightarrow> (gateway, response) go" where
  "EnableFaceDetection req = proto_call (ResponseType ''EnableFaceDetectionResponse'')
     (Request ''EnableFaceDetectionRequest'' req) (received ''EnableFaceDetectionResponse'')"

definition EnableMotionDetection :: "pb \<Rightarrow> (gateway, response) go" where
  "EnableMotionDetection req = proto_call (ResponseType ''EnableMotionDetectionResponse'')
     (Request ''EnableMotionDetectionRequest'' req) (received ''EnableMotionDetectionResponse'')"

definition EnableMirrorMode :: "pb \<Rightarrow> (gateway, response) go" where
  "EnableMirrorMode req = proto_call (ResponseType ''EnableMirrorModeResponse'')
     (Request ''EnableMirrorModeRequest'' req) (received ''EnableMirrorModeResponse'')"

definition EnableImageStreaming :: "pb \<Rightarrow> (gateway, response) go" where
  "EnableImageStreaming req = proto_call (ResponseType ''EnableImageStreamingResponse'')
     (Request ''EnableImageStreamingRequest'' req) (received ''EnableImageStreamingResponse'')"

definition GetFeatureFlag :: "pb \<Rightarrow> (gateway, response) go" where
  "GetFeatureFlag req = proto_call (ResponseType ''FeatureFlagResponse'')
     (Request ''FeatureFlagRequest'' req) (received ''FeatureFlagResponse'')"

definition GetFeatureFlagList :: "pb \<Rightarrow> (gateway, response) go" where
  "GetFeatureFlagList req = proto_call (ResponseType ''FeatureFlagListResponse'')
     (Request ''FeatureFlagListRequest'' req) (received ''FeatureFlagListResponse'')"

definition GetAlexaAuthState :: "pb \<Rightarrow> (gateway, response) go" where
  "GetAlexaAuthState req = proto_call (ResponseType ''AlexaAuthStateResponse'')
     (Request ''AlexaAuthStateRequest'' req) (received ''AlexaAuthStateResponse'')"

definition SetCameraSettings :: "pb \<Rightarrow> (gateway, response) go" where
  "SetCameraSettings req = proto_call (ResponseType ''SetCameraSettingsResponse'')
     (Request ''SetCameraSettingsRequest'' req) (received ''SetCameraSettingsResponse'')"

text \<open>The answer is returned as the engine sent it.\<close>

definition RobotStatusHistory :: "pb \<Rightarrow> (gateway, response option) go" where
  "RobotStatusHistory req = proto_call (ResponseType ''RobotHistoryResponse'')
     (Request ''RobotHistoryRequest'' req) (passed_on ''RobotHistoryResponse'')"

definition PullJdocs :: "pb \<Rightarrow> (gateway, response option) go" where
  "PullJdocs req = proto_call (ResponseType ''PullJdocsResponse'')
     (Request ''PullJdocsRequest'' req) (passed_on ''PullJdocsResponse'')"

definition GetCameraConfig :: "pb \<Rightarrow> (gateway, response option) go" where
  "GetCameraConfig req = proto_call (ResponseType ''CameraConfigResponse'')
     (Request ''CameraConfigRequest'' req) (passed_on ''CameraConfigResponse'')"

subsection \<open>Actions\<close>

text \<open>\<open>FIRST_SDK_TAG\<close> and \<open>LAST_SDK_TAG\<close>.\<close>

definition FIRST_SDK_TAG :: int where
  "FIRST_SDK_TAG = 2000001"

definition LAST_SDK_TAG :: int where
  "LAST_SDK_TAG = 3000000"

definition ValidateActionTag :: "int32 \<Rightarrow> (gateway, unit) go" where
  "ValidateActionTag idTag =
     (if sint idTag < FIRST_SDK_TAG \<or> sint idTag > LAST_SDK_TAG
      then failM (GrpcError InvalidArgument ''Invalid Action tag_id'')
      else returnM ())"

definition action_call :: "string \<Rightarrow> string \<Rightarrow> action_request \<Rightarrow> (gateway, response) go" where
  "action_call reqName respName req = bindM (ValidateActionTag (IdTag req)) (\<lambda>_.
     proto_call (ResponseType respName) (ActionRequest reqName req) (received respName))"

definition GoToPose :: "action_request \<Rightarrow> (gateway, response) go" where
  "GoToPose req = action_call ''GoToPoseRequest'' ''GoToPoseResponse'' req"

definition DockWithCube :: "action_request \<Rightarrow> (gateway, response) go" where
  "DockWithCube req = action_call ''DockWithCubeRequest'' ''DockWithCubeResponse'' req"

definition DriveStraight :: "action_request \<Rightarrow> (gateway, response) go" where
  "DriveStraight req = action_call ''DriveStraightRequest'' ''DriveStraightResponse'' req"

definition TurnInPlace :: "action_request \<Rightarrow> (gateway, response) go" where
  "TurnInPlace req = action_call ''TurnInPlaceRequest'' ''TurnInPlaceResponse'' req"

definition SetHeadAngle :: "action_request \<Rightarrow> (gateway, response) go" where
  "SetHeadAngle req = action_call ''SetHeadAngleRequest'' ''SetHeadAngleResponse'' req"

definition SetLiftHeight :: "action_request \<Rightarrow> (gateway, response) go" where
  "SetLiftHeight req = action_call ''SetLiftHeightRequest'' ''SetLiftHeightResponse'' req"

definition TurnTowardsFace :: "action_request \<Rightarrow> (gateway, response) go" where
  "TurnTowardsFace req = action_call ''TurnTowardsFaceRequest'' ''TurnTowardsFaceResponse'' req"

definition GoToObject :: "action_request \<Rightarrow> (gateway, response) go" where
  "GoToObject req = action_call ''GoToObjectRequest'' ''GoToObjectResponse'' req"

definition RollObject :: "action_request \<Rightarrow> (gateway, response) go" where
  "RollObject req = action_call ''RollObjectRequest'' ''RollObjectResponse'' req"

definition PopAWheelie :: "action_request \<Rightarrow> (gateway, response) go" where
  "PopAWheelie req = action_call ''PopAWheelieRequest'' ''PopAWheelieResponse'' req"

definition PickupObject :: "action_request \<Rightarrow> (gateway, response) go" where
  "PickupObject req = action_call ''PickupObjectRequest'' ''PickupObjectResponse'' req"

definition PlaceObjectOnGroundHere :: "action_request \<Rightarrow> (gateway, response) go" where
  "PlaceObjectOnGroundHere req = action_call ''PlaceObjectOnGroundHereRequest'' ''PlaceObjectOnGroundHereResponse'' req"

section \<open>Updates that exclude each other\<close>

definition update_call :: "string \<Rightarrow> string \<Rightarrow> pb \<Rightarrow> (gateway, response option) go" where
  "update_call reqName respName req = with_unique_channel (ResponseType respName) 1
     (returnM (Some \<lparr>Status = Some ERROR_UPDATE_IN_PROGRESS, Fields = []\<rparr>))
     (\<lambda>c. bindM (EngineProto_Write (Request reqName req)) (\<lambda>_.
        bindM (recv_or_fail c) (passed_on respName)))"

definition UpdateSettings :: "pb \<Rightarrow> (gateway, response option) go" where
  "UpdateSettings req = update_call ''UpdateSettingsRequest'' ''UpdateSettingsResponse'' req"

definition UpdateAccountSettings :: "pb \<Rightarrow> (gateway, response option) go" where
  "UpdateAccountSettings req = update_call ''UpdateAccountSettingsRequest'' ''UpdateAccountSettingsResponse'' req"

definition UpdateUserEntitlements :: "pb \<Rightarrow> (gateway, response option) go" where
  "UpdateUserEntitlements req = update_call ''UpdateUserEntitlementsRequest'' ''UpdateUserEntitlementsResponse'' req"

section \<open>The tables\<close>

definition written_handlers :: "(status_code \<times> string \<times> (pb \<Rightarrow> (gateway, response) go)) list" where
  "written_handlers = [
     (REQUEST_PROCESSING, ''DriveWheelsRequest'', DriveWheels),
     (REQUEST_PROCESSING, ''StopAllMotorsRequest'', StopAllMotors),
     (REQUEST_PROCESSING, ''CancelBehaviorRequest'', CancelBehavior),
     (REQUEST_PROCESSING, ''CancelActionByIdTagRequest'', CancelActionByIdTag),
     (REQUEST_PROCESSING, ''DisconnectCubeRequest'', DisconnectCube),
     (REQUEST_PROCESSING, ''FlashCubeLightsRequest'', FlashCubeLights),
     (REQUEST_PROCESSING, ''ForgetPreferredCubeRequest'', ForgetPreferredCube),
     (REQUEST_PROCESSING, ''SetPreferredCubeRequest'', SetPreferredCube),
     (REQUEST_PROCESSING, ''SetCubeLightsRequest'', SetCubeLights),
     (REQUEST_PROCESSING, ''AlexaOptInRequest'', AlexaOptIn),
     (REQUEST_PROCESSING, ''SetEyeColorRequest'', SetEyeColor),
     (RESPONSE_RECEIVED, ''PlayAnimationTriggerRequest'', PlayAnimationTrigger),
     (RESPONSE_RECEIVED, ''PlayAnimationRequest'', PlayAnimation)]"

definition received_handlers :: "(string \<times> string \<times> (pb \<Rightarrow> (gateway, response) go)) list" where
  "received_handlers = [
     (''SetFaceToEnrollRequest'', ''SetFaceToEnrollResponse'', SetFaceToEnroll),
     (''EnrollFaceRequest'', ''EnrollFaceResponse'', EnrollFace),
     (''DriveOffChargerRequest'', ''DriveOffChargerResponse'', DriveOffCharger),
     (''DriveOnChargerRequest'', ''DriveOnChargerResponse'', DriveOnCharger),
     (''FindFacesRequest'', ''FindFacesResponse'', FindFaces),
     (''LookAroundInPlaceRequest'', ''LookAroundInPlaceResponse'', LookAroundInPlace),
     (''RollBlockRequest'', ''RollBlockResponse'', RollBlock),
     (''PhotosInfoRequest'', ''PhotosInfoResponse'', PhotosInfo),
     (''DeletePhotoRequest'', ''DeletePhotoResponse'', DeletePhoto),
     (''ConnectCubeRequest'', ''ConnectCubeResponse'', ConnectCube),
     (''CubesAvailableRequest'', ''CubesAvailableResponse'', CubesAvailable),
     (''MasterVolumeRequest'', ''MasterVolumeResponse'', SetMasterVolume),
     (''BatteryStateRequest'', ''BatteryStateResponse'', BatteryState),
     (''VersionStateRequest'', ''VersionStateResponse'', VersionState),
     (''EnableFaceDetectionRequest'', ''EnableFaceDetectionResponse'', EnableFaceDetection),
     (''EnableMotionDetectionRequest'', ''EnableMotionDetectionResponse'', EnableMotionDetection),
     (''EnableMirrorModeRequest'', ''EnableMirrorModeResponse'', EnableMirrorMode),
     (''EnableImageStreamingRequest'', ''EnableImageStreamingResponse'', EnableImageStreaming),
     (''FeatureFlagRequest'', ''FeatureFlagResponse'', GetFeatureFlag),
     (''FeatureFlagListRequest'', ''FeatureFlagListResponse'', GetFeatureFlagList),
     (''AlexaAuthStateRequest'', ''AlexaAuthStateResponse'', GetAlexaAuthState),
     (''SetCameraSettingsRequest'', ''SetCameraSettingsResponse'', SetCameraSettings)]"

definition passed_on_handlers :: "(string \<times> string \<times> (pb \<Rightarrow> (gateway, response option) go)) list" where
  "passed_on_handlers = [
     (''RobotHistoryRequest'', ''RobotHistoryResponse'', RobotStatusHistory),
     (''PullJdocsRequest'', ''PullJdocsResponse'', PullJdocs),
     (''CameraConfigRequest'', ''CameraConfigResponse'', GetCameraConfig)]"

definition action_handlers :: "(string \<times> string \<times> (action_request \<Rightarrow> (gateway, response) go)) list" where
  "action_handlers = [
     (''GoToPoseRequest'', ''GoToPoseResponse'', GoToPose),
     (''DockWithCubeRequest'', ''DockWithCubeResponse'', DockWithCube),
     (''DriveStraightRequest'', ''DriveStraightResponse'', DriveStraight),
     (''TurnInPlaceRequest'', ''TurnInPlaceResponse'', TurnInPlace),
     (''SetHeadAngleRequest'', ''SetHeadAngleResponse'', SetHeadAngle),
     (''SetLiftHeightRequest'', ''SetLiftHeightResponse'', SetLiftHeight),
     (''TurnTowardsFaceRequest'', ''TurnTowardsFaceResponse'', TurnTowardsFace),
     (''GoToObjectRequest'', ''GoToObjectResponse'', GoToObject),
     (''RollObjectRequest'', ''RollObjectResponse'', RollObject),
     (''PopAWheelieRequest'', ''PopAWheelieResponse'', PopAWheelie),
     (''PickupObjectRequest'', ''PickupObjectResponse'', PickupObject),
     (''PlaceObjectOnGroundHereRequest'', ''PlaceObjectOnGroundHereResponse'', PlaceObjectOnGroundHere)]"

definition update_handlers :: "(string \<times> string \<times> (pb \<Rightarrow> (gateway, response option) go)) list" where
  "update_handlers = [
     (''UpdateSettingsRequest'', ''UpdateSettingsResponse'', UpdateSettings),
     (''UpdateAccountSettingsRequest'', ''UpdateAccountSettingsResponse'', UpdateAccountSettings),
     (''UpdateUserEntitlementsRequest'', ''UpdateUserEntitlementsResponse'', UpdateUserEntitlements)]"

lemmas written_defs = written_handlers_def DriveWheels_def StopAllMotors_def CancelBehavior_def CancelActionByIdTag_def DisconnectCube_def FlashCubeLights_def ForgetPreferredCube_def SetPreferredCube_def SetCubeLights_def AlexaOptIn_def SetEyeColor_def PlayAnimationTrigger_def PlayAnimation_def
lemmas received_defs = received_handlers_def SetFaceToEnroll_def EnrollFace_def DriveOffCharger_def DriveOnCharger_def FindFaces_def LookAroundInPlace_def RollBlock_def PhotosInfo_def DeletePhoto_def ConnectCube_def CubesAvailable_def SetMasterVolume_def BatteryState_def VersionState_def EnableFaceDetection_def EnableMotionDetection_def EnableMirrorMode_def EnableImageStreaming_def GetFeatureFlag_def GetFeatureFlagList_def GetAlexaAuthState_def SetCameraSettings_def
lemmas passed_on_defs = passed_on_handlers_def RobotStatusHistory_def PullJdocs_def GetCameraConfig_def
lemmas action_defs = action_handlers_def GoToPose_def DockWithCube_def DriveStraight_def TurnInPlace_def SetHeadAngle_def SetLiftHeight_def TurnTowardsFace_def GoToObject_def RollObject_def PopAWheelie_def PickupObject_def PlaceObjectOnGroundHere_def
lemmas update_defs = update_handlers_def UpdateSettings_def UpdateAccountSettings_def UpdateUserEntitlements_def

text \<open>Each handler of a table is the shape of the table, with its own members.\<close>

lemma written_shape:
  "(code, rq, h) \<in> set written_handlers \<Longrightarrow> h x = proto_fire (Request rq x) code"
  by (auto simp: written_defs)

lemma received_shape:
  "(rq, rs, h) \<in> set received_handlers \<Longrightarrow>
     h x = proto_call (ResponseType rs) (Request rq x) (received rs)"
  by (auto simp: received_defs)

lemma passed_on_shape:
  "(rq, rs, h) \<in> set passed_on_handlers \<Longrightarrow>
     h x = proto_call (ResponseType rs) (Request rq x) (passed_on rs)"
  by (auto simp: passed_on_defs)

lemma action_shape: "(rq, rs, h) \<in> set action_handlers \<Longrightarrow> h x = action_call rq rs x"
  by (auto simp: action_defs)

lemma update_shape: "(rq, rs, h) \<in> set update_handlers \<Longrightarrow> h x = update_call rq rs x"
  by (auto simp: update_defs)

section \<open>Safety\<close>

lemma ok_ValidateActionTag: "ok I (ValidateActionTag t) (\<lambda>_. True)"
  by (auto simp: ValidateActionTag_def intro: ok_return)

lemma ok_action_call: "safe (action_call rq rs x) (\<lambda>r. Status r = Some RESPONSE_RECEIVED)"
  unfolding action_call_def
  by (intro ok_bind [OF ok_ValidateActionTag] ok_received_call) simp_all

lemma ok_update_call: "safe (update_call rq rs x) (\<lambda>r. r \<noteq> None)"
  unfolding update_call_def
  by (intro ok_with_unique_channel ok_bind [OF ok_Write] ok_bind [OF ok_weaken [OF ok_recv_or_fail]]
        ok_True [OF ok_passed_on] ok_return stable_conj stable_True proto.stable_typed) auto

section \<open>Properties\<close>

text \<open>
  C1. No handler of the tables panics, whatever the engine sends and whichever writes fail; when
  it returns, the registries are well formed, no listener was left behind and channels hold only
  messages of their kind, and the status of its response is that of its table.
\<close>

theorem engine_handlers_safe:
  "(\<forall>(code, rq, h) \<in> set written_handlers. \<forall>x. safe (h x) (\<lambda>r. Status r = Some code)) \<and>
   (\<forall>(rq, rs, h) \<in> set received_handlers. \<forall>x. safe (h x) (\<lambda>r. Status r = Some RESPONSE_RECEIVED)) \<and>
   (\<forall>(rq, rs, h) \<in> set passed_on_handlers. \<forall>x. safe (h x) (\<lambda>r. r \<noteq> None)) \<and>
   (\<forall>(rq, rs, h) \<in> set action_handlers. \<forall>x. safe (h x) (\<lambda>r. Status r = Some RESPONSE_RECEIVED)) \<and>
   (\<forall>(rq, rs, h) \<in> set update_handlers. \<forall>x. safe (h x) (\<lambda>r. r \<noteq> None))"
  by (auto simp: written_shape received_shape passed_on_shape action_shape update_shape
      simp del: not_None_eq
      intro: ok_proto_fire ok_received_call ok_passed_on_call ok_action_call ok_update_call)

theorem engine_handlers_safe_witness:
  "safe (DriveOffCharger []) (\<lambda>r. Status r = Some RESPONSE_RECEIVED)"
proof -
  have "(''DriveOffChargerRequest'', ''DriveOffChargerResponse'', DriveOffCharger) \<in> set received_handlers"
    by (simp add: received_handlers_def)
  then show ?thesis using engine_handlers_safe by fast
qed


text \<open>In the example the battery's state arrives behind two blocks that mean nothing.\<close>

definition battery_answer :: gateway_wrapper where
  "battery_answer = \<lparr>ConnectionId = 0, OneofMessageType =
     Some (Response ''BatteryStateResponse'' \<lparr>Status = None, Fields = [7]\<rparr>)\<rparr>"

definition battery_gateway :: gateway where
  "battery_gateway = gateway_at_rest
     [ProtoBlock (Some [3]), CladBlock None, ProtoBlock (Some [0, 0, 42])] (knows [42] battery_answer)"

lemma battery_answered: "answered battery_gateway battery_answer []"
proof -
  have "\<exists>pre a. arrivals battery_gateway = pre @ a # [] \<and> carried battery_gateway a = ToProto battery_answer \<and>
      list_all (quiet_proto (wrapper_type battery_answer)) (map (carried battery_gateway) pre)"
    by (intro exI [of _ "[ProtoBlock (Some [3]), CladBlock None]"] exI [of _ "ProtoBlock (Some [0, 0, 42])"])
      (simp add: battery_gateway_def gateway_at_rest_def carried_def proto_carried_def knows_def
        quiet_proto_def battery_answer_def)
  then show ?thesis
    by (simp add: answered_def battery_gateway_def room_for_def roomy_def markedCapacity_def)
      (simp add: gateway_at_rest_def)
qed


text \<open>
  When the request cannot be written the handler returns the socket's error; nothing was sent,
  nothing was taken from the arrivals, and the listeners are exactly those from before.
\<close>

theorem received_handlers_not_written:
  assumes "(rq, rs, h) \<in> set received_handlers" "wf_gateway w" "next_fault (write_faults w)"
    and "\<And>i. marshal w \<lparr>ConnectionId = i, OneofMessageType = Some (Request rq x)\<rparr> \<noteq> None"
  shows "\<exists>w'. h x w = (Fail SocketError, w') \<and> wf_gateway w' \<and>
    proto_sock w' = proto_sock w \<and> arrivals w' = arrivals w \<and>
    listeners (proto_mgr w') = listeners (proto_mgr w) \<and> clad_mgr w' = clad_mgr w"
  unfolding received_shape [OF assms(1)] by (rule call_not_written [OF assms(2-4)])

theorem received_handlers_not_written_witness:
  "\<exists>w'. DriveOnCharger [] (battery_gateway\<lparr>write_faults := [True]\<rparr>) = (Fail SocketError, w') \<and>
    listeners (proto_mgr w') = (\<lambda>_. [])"
proof -
  have "(''DriveOnChargerRequest'', ''DriveOnChargerResponse'', DriveOnCharger) \<in> set received_handlers"
    by (simp add: received_handlers_def)
  from received_handlers_not_written [OF this, of "battery_gateway\<lparr>write_faults := [True]\<rparr>" "[]"]
  show ?thesis
    by (auto simp: battery_gateway_def gateway_at_rest_def wf_gateway_def next_fault_def fun_eq_iff)
qed

text \<open>
  An action's tag is checked before anything else: outside of the SDK's range the handler
  fails with InvalidArgument and the gateway is untouched; inside it is a call like the others,
  with the request unchanged.
\<close>

theorem action_handlers_check_tag:
  assumes "(rq, rs, h) \<in> set action_handlers"
  shows "h x w = (if sint (IdTag x) \<in> {2000001..3000000}
    then proto_call (ResponseType rs) (ActionRequest rq x) (received rs) w
    else (Fail (GrpcError InvalidArgument ''Invalid Action tag_id''), w))"
  by (auto simp: action_shape [OF assms] action_call_def ValidateActionTag_def FIRST_SDK_TAG_def
      LAST_SDK_TAG_def bindM_def failM_def returnM_def)

theorem action_handlers_check_tag_witness:
  "GoToPose \<lparr>IdTag = -1, actionFields = []\<rparr> battery_gateway =
     (Fail (GrpcError InvalidArgument ''Invalid Action tag_id''), battery_gateway)"
proof -
  have "(''GoToPoseRequest'', ''GoToPoseResponse'', GoToPose) \<in> set action_handlers"
    by (simp add: action_handlers_def)
  from action_handlers_check_tag [OF this] show ?thesis by simp
qed

text \<open>
  Of one kind of update only one runs: while a listener waits for the answer a second call
  returns ERROR_UPDATE_IN_PROGRESS at once and changes nothing; otherwise the call registers its
  channel, as the only listener, writes its request and returns the answer as it came.
\<close>

theorem update_handlers_exclude:
  assumes "(rq, rs, h) \<in> set update_handlers" "wf_gateway w"
  shows "h x w = (if listeners (proto_mgr w) (ResponseType rs) \<noteq> []
    then (Ret (Some \<lparr>Status = Some ERROR_UPDATE_IN_PROGRESS, Fields = []\<rparr>), w)
    else proto_call (ResponseType rs) (Request rq x) (passed_on rs) w)"
proof -
  have "managedChannels (proto_mgr w) (ResponseType rs) \<noteq> Some []"
    using wf_managerD(1) [of wrapper_type "proto_mgr w" "ResponseType rs"] assms(2)
    by (simp add: wf_gateway_def)
  then have "managedChannels (proto_mgr w) (ResponseType rs) = None \<longleftrightarrow>
      listeners (proto_mgr w) (ResponseType rs) = []"
    by (auto simp: listeners_def split: option.splits)
  then show ?thesis
    by (simp add: update_shape [OF assms(1)] update_call_def with_unique_channel_def proto_call_def
        with_channel_def EngineProto_CreateUniqueChannel_def bindM_def returnM_def
        split: prod.split outcome.split)
qed

theorem update_handlers_exclude_witness:
  "UpdateSettings [] (put_proto (snd (CreateChannel_reg (ResponseType ''UpdateSettingsResponse'') 1 empty_manager))
     battery_gateway) =
   (Ret (Some \<lparr>Status = Some ERROR_UPDATE_IN_PROGRESS, Fields = []\<rparr>),
    put_proto (snd (CreateChannel_reg (ResponseType ''UpdateSettingsResponse'') 1 empty_manager)) battery_gateway)"
proof -
  let ?t = "ResponseType ''UpdateSettingsResponse''"
  obtain c p where cp: "CreateChannel_reg ?t 1 empty_manager = (c, p :: (oneof_type, gateway_wrapper) manager)"
    by fastforce
  have "(''UpdateSettingsRequest'', ''UpdateSettingsResponse'', UpdateSettings) \<in> set update_handlers"
    by (simp add: update_handlers_def)
  moreover have "wf_gateway (put_proto p battery_gateway)"
    using CreateChannel_wf [OF wf_empty_manager cp]
    by (simp add: wf_gateway_def battery_gateway_def gateway_at_rest_def)
  ultimately show ?thesis
    using update_handlers_exclude [of _ "''UpdateSettingsResponse''" UpdateSettings "put_proto p battery_gateway" "[]"]
      CreateChannel_listeners [OF cp, of ?t] cp by auto
qed

end
