(* ===== verification/Rpc_Clad.thy ===== *)
theory Rpc_Clad
  imports Rpc_Handlers
begin

text \<open>
  The unary handlers of \<open>rpcService\<close> that talk to the engine over CLAD: motors, intents, face
  enrolment, custom objects, and the image for the face, which is cut into 30 chunks.
\<close>

section \<open>Requests that are only written\<close>

definition MoveHead_rpc :: "float32 \<Rightarrow> (gateway, response) go" where
  "MoveHead_rpc speed = clad_fire (ProtoMoveHeadToClad speed)"

definition MoveLift_rpc :: "float32 \<Rightarrow> (gateway, response) go" where
  "MoveLift_rpc speed = clad_fire (ProtoMoveLiftToClad speed)"

definition AppIntent :: "string \<Rightarrow> string \<Rightarrow> (gateway, response) go" where
  "AppIntent intent param = clad_fire (ProtoAppIntentToClad intent param)"

definition CancelFaceEnrollment :: "(gateway, response) go" where
  "CancelFaceEnrollment = clad_fire ProtoCancelFaceEnrollmentToClad"

definition UpdateEnrolledFaceByID :: "update_enrolled_face_request \<Rightarrow> (gateway, response) go" where
  "UpdateEnrolledFaceByID req = clad_fire (ProtoUpdateEnrolledFaceByIDToClad req)"

definition EraseEnrolledFaceByID :: "int32 \<Rightarrow> (gateway, response) go" where
  "EraseEnrolledFaceByID faceId = clad_fire (ProtoEraseEnrolledFaceByIDToClad faceId)"

definition EraseAllEnrolledFaces :: "(gateway, response) go" where
  "EraseAllEnrolledFaces = clad_fire ProtoEraseAllEnrolledFacesToClad"

definition SetNavMapBroadcastFrequency :: "float32 \<Rightarrow> (gateway, unit) go" where
  "SetNavMapBroadcastFrequency frequency =
     EngineClad_Write (Some (SetMemoryMapBroadcastFrequency_sec frequency))"

section \<open>Requests with an answer\<close>

text \<open>The generated getters of the union return nil for another member; reading through it panics.\<close>

definition RequestEnrolledNames :: "(gateway, status_code \<times> known_face list) go" where
  "RequestEnrolledNames = clad_call Tag_EnrolledNamesResponse (Some ProtoRequestEnrolledNamesToClad)
     (\<lambda>names. case names of
         EnrolledNamesResponse faces \<Rightarrow> returnM (RESPONSE_RECEIVED, faces)
       | _ \<Rightarrow> panicM)"

text \<open>
  \<open>DeleteCustomObjects\<close>: the modes are those of \<open>CustomObjectDeletionMode\<close>; any other mode leaves
  the tag 0 and a nil message, which \<open>Write\<close> refuses.
\<close>

definition deletion_request :: "int32 \<Rightarrow> 8 word \<times> external_to_robot option" where
  "deletion_request mode =
     (if mode = 3 then (Tag_RobotDeletedCustomMarkerObjects, Some UndefineAllCustomMarkerObjects)
      else if mode = 1 then (Tag_RobotDeletedFixedCustomObjects, Some DeleteFixedCustomObjects)
      else if mode = 2 then (Tag_RobotDeletedCustomMarkerObjects, Some DeleteCustomMarkerObjects)
      else (0, None))"

definition DeleteCustomObjects :: "int32 \<Rightarrow> (gateway, response) go" where
  "DeleteCustomObjects mode = (case deletion_request mode of (responseMessageType, cladMsg) \<Rightarrow>
     clad_call responseMessageType cladMsg (\<lambda>_.
       returnM \<lparr>Status = Some RESPONSE_RECEIVED, Fields = []\<rparr>))"

definition CreateFixedCustomObject ::
    "create_fixed_custom_object_request \<Rightarrow> (gateway, status_code \<times> uint32) go" where
  "CreateFixedCustomObject req = with_clad_channel Tag_CreatedFixedCustomObject 1 (\<lambda>c.
     case ProtoCreateFixedCustomObjectToClad req of
       None \<Rightarrow> panicM
     | Some cladData \<Rightarrow>
         bindM (EngineClad_Write (Some cladData)) (\<lambda>_.
         bindM (clad_recv_or_fail c) (\<lambda>chanResponse. case chanResponse of
             CreatedFixedCustomObject objectId \<Rightarrow> returnM (RESPONSE_RECEIVED, objectId)
           | _ \<Rightarrow> panicM)))"

definition DefineCustomObject ::
    "define_custom_object_request \<Rightarrow> (gateway, status_code \<times> bool) go" where
  "DefineCustomObject req = with_clad_channel Tag_DefinedCustomObject 1 (\<lambda>c.
     case CustomObjectDefinition req of
       None \<Rightarrow> failM (GrpcError InvalidArgument ''DefineCustomObjectRequest has unexpected type'')
     | Some def \<Rightarrow>
         bindM (EngineClad_Write (Some (case def of
             CustomBox b \<Rightarrow> ProtoDefineCustomBoxToClad req b
           | CustomCube b \<Rightarrow> ProtoDefineCustomCubeToClad req b
           | CustomWall b \<Rightarrow> ProtoDefineCustomWallToClad req b))) (\<lambda>_.
         bindM (clad_recv_or_fail c) (\<lambda>chanResponse. case chanResponse of
             DefinedCustomObject success \<Rightarrow> returnM (RESPONSE_RECEIVED, success)
           | _ \<Rightarrow> panicM)))"

section \<open>The image on the face\<close>

definition faceImagePixelsPerChunk :: int where
  "faceImagePixelsPerChunk = 600"

definition totalPixels :: int where
  "totalPixels = 17664"

text \<open>The pixels of a byte slice, each two bytes, big endian.\<close>

fun pixels_of :: "byte list \<Rightarrow> uint16 list" where
  "pixels_of (hi # lo # bs) = be16_of hi lo # pixels_of bs"
| "pixels_of bs = []"

definition chunk_pixels :: "int \<Rightarrow> int \<Rightarrow> int \<Rightarrow> int" where
  "chunk_pixels chunkCount n i =
     (if i = chunkCount - 1 then n - faceImagePixelsPerChunk * i else faceImagePixelsPerChunk)"

text \<open>
  One pass of the loop: the slice of the face data is decoded into the array of 600 pixels, whose
  remaining pixels are those of the chunk before. A slice expression out of order or beyond the
  capacity panics, and so does an index beyond the array.
\<close>

definition face_chunk ::
    "display_face_request \<Rightarrow> int \<Rightarrow> int \<Rightarrow> int \<Rightarrow> uint16 list \<Rightarrow> int \<Rightarrow> uint16 list option" where
  "face_chunk req chunkCount pixelsPerChunk n arr i =
     (let pixelCount = chunk_pixels chunkCount n i;
          firstByte = pixelsPerChunk * 2 * i;
          finalByte = firstByte + pixelCount * 2;
          backing = dfFaceData req @ dfSpare req
      in if firstByte < 0 \<or> finalByte < firstByte \<or> finalByte > int (length backing) \<or>
            pixelCount > faceImagePixelsPerChunk then None
         else Some (pixels_of (take (nat (pixelCount * 2)) (drop (nat firstByte) backing))
                      @ drop (nat pixelCount) arr))"

text \<open>The loop over the chunks \<open>idxs\<close>, with the array between the passes.\<close>

fun send_face_chunks ::
    "display_face_request \<Rightarrow> int \<Rightarrow> int \<Rightarrow> int \<Rightarrow> int list \<Rightarrow> uint16 list \<Rightarrow> (gateway, unit) go" where
  "send_face_chunks req chunkCount pixelsPerChunk n [] arr = returnM ()"
| "send_face_chunks req chunkCount pixelsPerChunk n (i # idxs) arr =
     (case face_chunk req chunkCount pixelsPerChunk n arr i of
        None \<Rightarrow> panicM
      | Some arr' \<Rightarrow>
          bindM (EngineClad_Write (Some (FaceImageChunkToClad arr'
            (of_int (chunk_pixels chunkCount n i)) (of_int i) (of_int chunkCount)
            (dfDurationMs req) (dfInterruptRunning req)))) (\<lambda>_.
          send_face_chunks req chunkCount pixelsPerChunk n idxs arr'))"

definition SendFaceDataAsChunks ::
    "display_face_request \<Rightarrow> int \<Rightarrow> int \<Rightarrow> int \<Rightarrow> (gateway, unit) go" where
  "SendFaceDataAsChunks req chunkCount pixelsPerChunk n =
     send_face_chunks req chunkCount pixelsPerChunk n (map int [0..<nat chunkCount]) (replicate 600 0)"

text \<open>The handler drops the error of the sending.\<close>

definition DisplayFaceImageRGB :: "display_face_request \<Rightarrow> (gateway, response) go" where
  "DisplayFaceImageRGB req =
     (let chunkCount = (totalPixels + faceImagePixelsPerChunk + 1) div faceImagePixelsPerChunk in
      bindM (tryM (SendFaceDataAsChunks req chunkCount faceImagePixelsPerChunk totalPixels)) (\<lambda>_.
      returnM \<lparr>Status = Some REQUEST_PROCESSING, Fields = []\<rparr>))"

section \<open>Safety\<close>

lemma ok_RequestEnrolledNames: "safe RequestEnrolledNames (\<lambda>r. fst r = RESPONSE_RECEIVED)"
  unfolding RequestEnrolledNames_def
  by (rule ok_clad_call) (auto dest!: robotTag_cases(1) simp: ok_return)

lemma ok_DeleteCustomObjects: "safe (DeleteCustomObjects mode) (\<lambda>r. Status r = Some RESPONSE_RECEIVED)"
  unfolding DeleteCustomObjects_def
  by (auto intro!: ok_clad_call ok_return split: prod.split)

lemma ok_clad_answer:
  assumes "\<And>m. robotTag m = t \<Longrightarrow> safe (k m) Q"
  shows "ok (\<lambda>w. typed_chan robotTag t c (clad_mgr w))
    (bindM (EngineClad_Write x) (\<lambda>_. bindM (clad_recv_or_fail c) k)) Q"
  by (intro ok_bind [OF ok_clad_Write] ok_bind [OF ok_weaken [OF ok_clad_recv_or_fail]]
        ok_True [OF assms] stable_conj stable_True clad.stable_typed) auto

lemma ok_CreateFixedCustomObject:
  assumes "fxPose req \<noteq> None"
  shows "safe (CreateFixedCustomObject req) (\<lambda>r. fst r = RESPONSE_RECEIVED)"
  unfolding CreateFixedCustomObject_def
proof (rule ok_with_clad_channel [where I = "\<lambda>_. True", simplified])
  fix c
  obtain x where x: "ProtoCreateFixedCustomObjectToClad req = Some x"
    using assms by (auto simp: ProtoCreateFixedCustomObjectToClad_def)
  show "ok (\<lambda>w. typed_chan robotTag Tag_CreatedFixedCustomObject c (clad_mgr w))
    (case ProtoCreateFixedCustomObjectToClad req of
       None \<Rightarrow> panicM
     | Some cladData \<Rightarrow>
         bindM (EngineClad_Write (Some cladData)) (\<lambda>_.
         bindM (clad_recv_or_fail c) (\<lambda>chanResponse. case chanResponse of
             CreatedFixedCustomObject objectId \<Rightarrow> returnM (RESPONSE_RECEIVED, objectId)
           | _ \<Rightarrow> panicM))) (\<lambda>r. fst r = RESPONSE_RECEIVED)"
    by (simp add: x, rule ok_clad_answer) (auto dest!: robotTag_cases(2) simp: ok_return)
qed

lemma ok_DefineCustomObject: "safe (DefineCustomObject req) (\<lambda>r. fst r = RESPONSE_RECEIVED)"
  unfolding DefineCustomObject_def
proof (rule ok_with_clad_channel [where I = "\<lambda>_. True", simplified])
  fix c
  show "ok (\<lambda>w. typed_chan robotTag Tag_DefinedCustomObject c (clad_mgr w))
    (case CustomObjectDefinition req of
       None \<Rightarrow> failM (GrpcError InvalidArgument ''DefineCustomObjectRequest has unexpected type'')
     | Some def \<Rightarrow>
         bindM (EngineClad_Write (Some (case def of
             CustomBox b \<Rightarrow> ProtoDefineCustomBoxToClad req b
           | CustomCube b \<Rightarrow> ProtoDefineCustomCubeToClad req b
           | CustomWall b \<Rightarrow> ProtoDefineCustomWallToClad req b))) (\<lambda>_.
         bindM (clad_recv_or_fail c) (\<lambda>chanResponse. case chanResponse of
             DefinedCustomObject success \<Rightarrow> returnM (RESPONSE_RECEIVED, success)
           | _ \<Rightarrow> panicM))) (\<lambda>r. fst r = RESPONSE_RECEIVED)"
    by (cases "CustomObjectDefinition req", simp, simp, rule ok_clad_answer)
      (auto dest!: robotTag_cases(3) simp: ok_return)
qed

section \<open>Properties\<close>

text \<open>
  The CLAD handlers never panic, leave no listener behind and return the status they promise;
  for the creation of a fixed object this needs the request's pose.
\<close>

theorem clad_handlers_safe:
  "safe (MoveHead_rpc f) (\<lambda>r. Status r = Some REQUEST_PROCESSING) \<and>
   safe (MoveLift_rpc f) (\<lambda>r. Status r = Some REQUEST_PROCESSING) \<and>
   safe (AppIntent i p) (\<lambda>r. Status r = Some REQUEST_PROCESSING) \<and>
   safe CancelFaceEnrollment (\<lambda>r. Status r = Some REQUEST_PROCESSING) \<and>
   safe (UpdateEnrolledFaceByID u) (\<lambda>r. Status r = Some REQUEST_PROCESSING) \<and>
   safe (EraseEnrolledFaceByID k) (\<lambda>r. Status r = Some REQUEST_PROCESSING) \<and>
   safe EraseAllEnrolledFaces (\<lambda>r. Status r = Some REQUEST_PROCESSING) \<and>
   safe RequestEnrolledNames (\<lambda>r. fst r = RESPONSE_RECEIVED) \<and>
   safe (DeleteCustomObjects mode) (\<lambda>r. Status r = Some RESPONSE_RECEIVED) \<and>
   safe (DefineCustomObject d) (\<lambda>r. fst r = RESPONSE_RECEIVED) \<and>
   (fxPose x \<noteq> None \<longrightarrow> safe (CreateFixedCustomObject x) (\<lambda>r. fst r = RESPONSE_RECEIVED))"
  unfolding MoveHead_rpc_def MoveLift_rpc_def AppIntent_def CancelFaceEnrollment_def
    UpdateEnrolledFaceByID_def EraseEnrolledFaceByID_def EraseAllEnrolledFaces_def
  by (intro conjI impI ok_clad_fire ok_RequestEnrolledNames ok_DeleteCustomObjects ok_DefineCustomObject
      ok_CreateFixedCustomObject)

definition sample_object :: create_fixed_custom_object_request where
  "sample_object = \<lparr>fxPose = Some \<lparr>poseX = 0, poseY = 0, poseZ = 0, poseQ0 = 0, poseQ1 = 0, poseQ2 = 0,
     poseQ3 = 0, poseOriginId = 1\<rparr>, fxXSizeMm = 0, fxYSizeMm = 0, fxZSizeMm = 0\<rparr>"

theorem clad_handlers_safe_witness:
  "safe (CreateFixedCustomObject sample_object) (\<lambda>r. fst r = RESPONSE_RECEIVED)"
proof -
  have "fxPose sample_object \<noteq> None" by (simp add: sample_object_def)
  then show ?thesis using clad_handlers_safe [where x = sample_object] by blast
qed

text \<open>
  A request to create a fixed object whose pose is missing makes the handler panic; its channel
  is removed again and nothing is written.
\<close>

theorem CreateFixedCustomObject_no_pose:
  assumes "wf_gateway w" "fxPose req = None"
  shows "\<exists>w'. CreateFixedCustomObject req w = (Panic, w') \<and>
    listeners (clad_mgr w') = listeners (clad_mgr w) \<and> clad_sock w' = clad_sock w"
proof -
  have wf: "wf_manager robotTag (clad_mgr w)" using assms(1) by (simp add: wf_gateway_def)
  obtain c p where cp: "CreateChannel_reg Tag_CreatedFixedCustomObject 1 (clad_mgr w) = (c, p)"
    by fastforce
  obtain q where q: "deleteListenerUnsafe_reg c Tag_CreatedFixedCustomObject p = Some q"
    using delete_total [OF CreateChannel_wf [OF wf cp]] by blast
  have "CreateFixedCustomObject req w = (Panic, put_clad q w)"
    using assms(2) cp q
    by (simp add: CreateFixedCustomObject_def with_clad_channel_def ProtoCreateFixedCustomObjectToClad_def
        EngineClad_CreateChannel_def mgr_CreateChannel_def EngineClad_deleteListenerCallback_def
        mgr_deleteListenerCallback_def bindM_def deferM_def panicM_def)
  then show ?thesis using reg.create_remove_restores [OF wf cp q] by simp
qed

theorem CreateFixedCustomObject_no_pose_witness:
  "\<exists>w'. CreateFixedCustomObject (sample_object\<lparr>fxPose := None\<rparr>) (gateway_at_rest [] (\<lambda>_. None)) =
     (Panic, w')"
proof -
  have "fxPose (sample_object\<lparr>fxPose := None\<rparr>) = None" by simp
  from CreateFixedCustomObject_no_pose [OF gateway_at_rest_wf this] show ?thesis by blast
qed

end
