(* ===== verification/Face_Image.thy ===== *)
theory Face_Image
  imports Rpc_Clad
begin

text \<open>
  The image for the robot's face: what \<open>SendFaceDataAsChunks\<close> writes puts together to the pixels
  that the client sent, and data that is too short makes the handler panic.
\<close>

lemma length_pixels_of [simp]: "length (pixels_of bs) = length bs div 2"
  by (induction bs rule: pixels_of.induct) auto

lemma pixels_of_append: "even (length a) \<Longrightarrow> pixels_of (a @ b) = pixels_of a @ pixels_of b"
  by (induction a rule: pixels_of.induct) auto

text \<open>The pixels of a chunk that count.\<close>

definition chunk_data :: "face_image_chunk \<Rightarrow> uint16 list" where
  "chunk_data c = take (unat (NumPixels c)) (FaceData c)"

definition chunk_ok :: "display_face_request \<Rightarrow> nat \<Rightarrow> face_image_chunk \<Rightarrow> bool" where
  "chunk_ok req i c \<longleftrightarrow> ChunkIndex c = of_nat i \<and> NumChunks c = 30 \<and> length (FaceData c) = 600 \<and>
     DurationMs c = dfDurationMs req \<and> InterruptRunning c = dfInterruptRunning req"

lemma length_chunk_ok [simp]: "chunk_ok req i c \<Longrightarrow> length (FaceData c) = 600"
  by (simp add: chunk_ok_def)

definition chunk_datagram :: "face_image_chunk \<Rightarrow> byte list" where
  "chunk_datagram c = frame (toRobot.bytes (DisplayFaceImageRGBChunk c))"

lemma chunk_fits: "length (FaceData c) = 600 \<Longrightarrow> fits_MessageExternalToRobot (DisplayFaceImageRGBChunk c)"
  by (simp add: fits_DisplayFaceImageRGBChunk_def)

text \<open>What the engine reads from the datagram.\<close>

lemma chunk_read:
  assumes "length (FaceData c) = 600"
  shows "Unpack_MessageExternalToRobot (drop 2 (chunk_datagram c)) = (Ret (DisplayFaceImageRGBChunk c), [])"
  using toRobot.packed(2) [OF chunk_fits [OF assms], of "[]"] by (simp add: chunk_datagram_def frame_def)

lemma chunk_write:
  assumes "write_faults w = []" "length (FaceData c) = 600"
  shows "EngineClad_Write (Some (DisplayFaceImageRGBChunk c)) w = (Ret (), w\<lparr>clad_sock := clad_sock w @ [chunk_datagram c]\<rparr>)"
proof -
  have "w\<lparr>write_faults := []\<rparr> = w" using assms(1) by (cases w) simp
  moreover have "clad_bytes (DisplayFaceImageRGBChunk c) = Some (toRobot.bytes (DisplayFaceImageRGBChunk c))"
    using chunk_fits [OF assms(2)] by (simp add: clad_bytes_def)
  ultimately show ?thesis using assms(1)
    by (simp add: EngineClad_Write_eq clad_conn_write_def next_fault_def chunk_datagram_def)
qed

lemma face_chunk_length:
  assumes "face_chunk req k pp n arr i = Some arr'" "length arr = 600"
  shows "length arr' = 600"
proof -
  define p where "p = chunk_pixels k n i"
  define first where "first = pp * 2 * i"
  define bk where "bk = dfFaceData req @ dfSpare req"
  have bounds: "\<not> (first < 0 \<or> first + p * 2 < first \<or> first + p * 2 > int (length bk) \<or> p > 600)"
  proof
    assume "first < 0 \<or> first + p * 2 < first \<or> first + p * 2 > int (length bk) \<or> p > 600"
    then have "face_chunk req k pp n arr i = None"
      unfolding face_chunk_def Let_def p_def [symmetric] first_def [symmetric] bk_def [symmetric] faceImagePixelsPerChunk_def
      by (rule if_P)
    with assms(1) show False by simp
  qed
  then have "face_chunk req k pp n arr i = Some (pixels_of (take (nat (p * 2)) (drop (nat first) bk)) @ drop (nat p) arr)"
    unfolding face_chunk_def Let_def p_def [symmetric] first_def [symmetric] bk_def [symmetric] faceImagePixelsPerChunk_def
    by (rule if_not_P)
  with assms(1) have arr': "arr' = pixels_of (take (nat (p * 2)) (drop (nat first) bk)) @ drop (nat p) arr" by simp
  have "length (take (nat (p * 2)) (drop (nat first) bk)) = nat (p * 2)" using bounds by simp linarith
  then have "length (pixels_of (take (nat (p * 2)) (drop (nat first) bk))) = nat p" using bounds by simp
  then have "length arr' = nat p + (600 - nat p)" by (simp only: arr' length_append length_drop assms(2))
  moreover have "nat p \<le> 600" using bounds by (simp add: nat_le_iff)
  ultimately show ?thesis by simp
qed

lemma send_chunks:
  assumes "write_faults w = []" "35328 \<le> length backing"
    and bk: "backing = dfFaceData req @ dfSpare req" and "length arr = 600" "i \<le> 30"
  shows "\<exists>cs. send_face_chunks req 30 600 17664 (map int [i..<30]) arr w =
      (Ret (), w\<lparr>clad_sock := clad_sock w @ map chunk_datagram cs\<rparr>) \<and>
    concat (map chunk_data cs) = pixels_of (take (35328 - 1200 * i) (drop (1200 * i) backing)) \<and>
    length cs = 30 - i \<and> (\<forall>j < 30 - i. chunk_ok req (i + j) (cs ! j))"
  using assms(1,4,5)
proof (induction "30 - i" arbitrary: i arr w)
  case 0
  then have i: "i = 30" by simp
  have "w\<lparr>clad_sock := clad_sock w\<rparr> = w" by simp
  then show ?case by (intro exI [of _ "[]"]) (simp add: i returnM_def)
next
  case (Suc k)
  define num where "num = (if i = 29 then 264 else 600 :: nat)"
  define slice where "slice = take (num * 2) (drop (1200 * i) backing)"
  define arr' where "arr' = pixels_of slice @ drop num arr"
  have i: "i < 30" using Suc.hyps(2) by simp
  then have idxs: "map int [i..<30] = int i # map int [Suc i..<30]" by (simp add: upt_conv_Cons)
  have num: "chunk_pixels 30 17664 (int i) = int num"
    by (auto simp: chunk_pixels_def faceImagePixelsPerChunk_def num_def)
  have fits: "1200 * i + num * 2 \<le> 35328" using i by (auto simp: num_def)
  have len: "length slice = num * 2" using fits assms(2) by (simp add: slice_def)
  have chunk: "face_chunk req 30 600 17664 arr (int i) = Some arr'"
  proof -
    have "int num \<le> 600" by (simp add: num_def)
    moreover have "600 * 2 * int i + int num * 2 \<le> int (length backing)" using fits assms(2) by linarith
    moreover have "nat (600 * 2 * int i) = 1200 * i" by simp
    moreover have "nat (int num * 2) = num * 2" by simp
    ultimately show ?thesis
      by (simp add: face_chunk_def num bk [symmetric] arr'_def slice_def
          faceImagePixelsPerChunk_def Let_def)
  qed
  define c where "c = \<lparr>FaceData = arr', NumPixels = of_nat num, ChunkIndex = of_nat i, NumChunks = 30,
    DurationMs = dfDurationMs req, InterruptRunning = dfInterruptRunning req\<rparr>"
  have arr': "length arr' = 600" using Suc.prems(2) len by (simp add: arr'_def num_def)
  let ?w = "w\<lparr>clad_sock := clad_sock w @ [chunk_datagram c]\<rparr>"
  have wrt: "EngineClad_Write (Some (DisplayFaceImageRGBChunk c)) w = (Ret (), ?w)"
    by (rule chunk_write [OF Suc.prems(1)]) (simp add: c_def arr')
  obtain cs where cs: "send_face_chunks req 30 600 17664 (map int [Suc i..<30]) arr' ?w =
      (Ret (), ?w\<lparr>clad_sock := clad_sock ?w @ map chunk_datagram cs\<rparr>)"
    "concat (map chunk_data cs) = pixels_of (take (35328 - 1200 * Suc i) (drop (1200 * Suc i) backing))"
    "length cs = 30 - Suc i" "\<forall>j < 30 - Suc i. chunk_ok req (Suc i + j) (cs ! j)"
    using Suc.hyps(1) [of "Suc i" ?w arr'] Suc.hyps(2) Suc.prems arr' i by fastforce
  have data: "chunk_data c = pixels_of slice"
  proof -
    have "unat (NumPixels c) = num" by (simp add: c_def num_def)
    then show ?thesis by (simp add: chunk_data_def c_def arr'_def len)
  qed
  show ?case
  proof (intro exI [of _ "c # cs"] conjI)
    show "send_face_chunks req 30 600 17664 (map int [i..<30]) arr w = (Ret (),
        w\<lparr>clad_sock := clad_sock w @ map chunk_datagram (c # cs)\<rparr>)"
      using cs(1) wrt
      by (simp add: idxs chunk bindM_def FaceImageChunkToClad_def num c_def)
    have "take (35328 - 1200 * i) (drop (1200 * i) backing) =
        slice @ take (35328 - 1200 * Suc i) (drop (1200 * Suc i) backing)"
    proof (cases "i = 29")
      case True
      then show ?thesis by (simp add: slice_def num_def)
    next
      case False
      then have "35328 - 1200 * i = 1200 + (35328 - 1200 * Suc i)" using i by simp
      then show ?thesis using False by (simp only: take_add slice_def num_def drop_drop) (simp add: algebra_simps)
    qed
    then show "concat (map chunk_data (c # cs)) = pixels_of (take (35328 - 1200 * i) (drop (1200 * i) backing))"
      using len cs(2) data by (simp add: pixels_of_append)
    show "length (c # cs) = 30 - i" using cs(3) i by simp
    show "\<forall>j < 30 - i. chunk_ok req (i + j) ((c # cs) ! j)"
    proof (intro allI impI)
      fix j assume "j < 30 - i"
      then show "chunk_ok req (i + j) ((c # cs) ! j)"
        using cs(4) arr' by (cases j) (auto simp: chunk_ok_def c_def)
    qed
  qed
qed

lemma send_chunks_panic:
  assumes "write_faults w = []" "i \<in> set idxs" "\<And>arr. face_chunk req k pp n arr i = None" "length arr = 600"
  shows "\<exists>w'. send_face_chunks req k pp n idxs arr w = (Panic, w')"
  using assms(1,2,4)
proof (induction idxs arbitrary: arr w)
  case (Cons j idxs)
  show ?case
  proof (cases "face_chunk req k pp n arr j")
    case None
    then show ?thesis by (simp add: panicM_def)
  next
    case (Some arr')
    with assms(3) Cons.prems(2) have i: "i \<in> set idxs" by auto
    have len: "length arr' = 600" using face_chunk_length [OF Some Cons.prems(3)] .
    with Some i Cons.IH [of "w\<lparr>clad_sock := clad_sock w @ [d]\<rparr>" arr' for d] Cons.prems(1) show ?thesis
      by (simp add: bindM_def FaceImageChunkToClad_def chunk_write)
  qed
qed simp

lemma DisplayFaceImageRGB_eq: "DisplayFaceImageRGB req =
    bindM (tryM (send_face_chunks req 30 600 17664 (map int [0..<30]) (replicate 600 0))) (\<lambda>_.
    returnM \<lparr>Status = Some REQUEST_PROCESSING, Fields = []\<rparr>)"
  by (simp add: DisplayFaceImageRGB_def SendFaceDataAsChunks_def totalPixels_def
      faceImagePixelsPerChunk_def Let_def)

text \<open>
  C39. With enough face data and a wire in order, the handler writes exactly 30 datagrams; the engine
  reads them as chunks numbered in order and marked with the request's duration and flag, and the
  pixels that count in them put together are the 17664 big-endian pixels of the request.
\<close>

theorem face_image_sent:
  assumes "write_faults w = []" "35328 \<le> length (dfFaceData req @ dfSpare req)"
  shows "\<exists>ds cs. DisplayFaceImageRGB req w = (Ret \<lparr>Status = Some REQUEST_PROCESSING, Fields = []\<rparr>,
      w\<lparr>clad_sock := clad_sock w @ ds\<rparr>) \<and>
    map (\<lambda>d. Unpack_MessageExternalToRobot (drop 2 d)) ds = map (\<lambda>c. (Ret (DisplayFaceImageRGBChunk c), [])) cs \<and>
    concat (map chunk_data cs) = pixels_of (take 35328 (dfFaceData req @ dfSpare req)) \<and>
    length cs = 30 \<and> (\<forall>j < 30. chunk_ok req j (cs ! j))"
proof -
  obtain cs where cs: "send_face_chunks req 30 600 17664 (map int [0..<30]) (replicate 600 0) w =
      (Ret (), w\<lparr>clad_sock := clad_sock w @ map chunk_datagram cs\<rparr>)"
    "concat (map chunk_data cs) = pixels_of (take 35328 (dfFaceData req @ dfSpare req))"
    "length cs = 30" "\<forall>j < 30. chunk_ok req j (cs ! j)"
    using send_chunks [OF assms refl, of "replicate 600 0" 0] by auto
  from cs(1) have "DisplayFaceImageRGB req w = (Ret \<lparr>Status = Some REQUEST_PROCESSING, Fields = []\<rparr>,
      w\<lparr>clad_sock := clad_sock w @ map chunk_datagram cs\<rparr>)"
    by (simp add: DisplayFaceImageRGB_eq bindM_def tryM_def returnM_def del: upt_rec_numeral)
  moreover have "length (FaceData c) = 600" if "c \<in> set cs" for c
    using that cs(3,4) length_chunk_ok by (metis in_set_conv_nth)
  then have "map (\<lambda>d. Unpack_MessageExternalToRobot (drop 2 d)) (map chunk_datagram cs) =
      map (\<lambda>c. (Ret (DisplayFaceImageRGBChunk c), [])) cs"
    by (simp add: chunk_read)
  ultimately show ?thesis using cs(2-4) by (intro exI conjI)
qed

text \<open>In the example the image is black.\<close>

definition black_face :: display_face_request where
  "black_face = \<lparr>dfFaceData = replicate 35328 0, dfSpare = [], dfDurationMs = 1000, dfInterruptRunning = True\<rparr>"

theorem face_image_sent_witness:
  "\<exists>ds. clad_sock (snd (DisplayFaceImageRGB black_face (gateway_at_rest [] (\<lambda>_. None)))) = ds \<and>
     length ds = 30 \<and> (\<forall>d \<in> set ds. \<exists>c. Unpack_MessageExternalToRobot (drop 2 d) = (Ret (DisplayFaceImageRGBChunk c), []))"
proof -
  let ?w = "gateway_at_rest [] (\<lambda>_. None)"
  have w: "write_faults ?w = []" "35328 \<le> length (dfFaceData black_face @ dfSpare black_face)" "clad_sock ?w = []"
    by (simp_all add: gateway_at_rest_def black_face_def)
  obtain ds cs where ds: "DisplayFaceImageRGB black_face ?w = (Ret \<lparr>Status = Some REQUEST_PROCESSING, Fields = []\<rparr>,
      ?w\<lparr>clad_sock := clad_sock ?w @ ds\<rparr>)"
    "map (\<lambda>d. Unpack_MessageExternalToRobot (drop 2 d)) ds = map (\<lambda>c. (Ret (DisplayFaceImageRGBChunk c), [])) cs"
    "length cs = 30"
    using face_image_sent [OF w(1,2)] by (elim exE conjE)
  have "\<exists>c. Unpack_MessageExternalToRobot (drop 2 d) = (Ret (DisplayFaceImageRGBChunk c), [])" if "d \<in> set ds" for d
  proof -
    from that have "Unpack_MessageExternalToRobot (drop 2 d) \<in> set (map (\<lambda>d. Unpack_MessageExternalToRobot (drop 2 d)) ds)"
      by simp
    then show ?thesis unfolding ds(2) by auto
  qed
  moreover have "length ds = 30" using arg_cong [OF ds(2), of length] ds(3) by simp
  ultimately show ?thesis using ds(1) w(3) by (intro exI [of _ ds]) simp
qed

text \<open>
  With less face data the handler panics, whatever was sent.
\<close>

theorem face_image_short:
  assumes "write_faults w = []" "length (dfFaceData req @ dfSpare req) < 35328"
  shows "\<exists>w'. DisplayFaceImageRGB req w = (Panic, w')"
proof -
  have "face_chunk req 30 600 17664 arr 29 = None" for arr
    using assms(2) by (simp add: face_chunk_def chunk_pixels_def faceImagePixelsPerChunk_def)
  moreover have "29 \<in> set (map int [0..<30])" by (simp add: image_iff)
  ultimately obtain w' where
    "send_face_chunks req 30 600 17664 (map int [0..<30]) (replicate 600 0) w = (Panic, w')"
    using send_chunks_panic [OF assms(1), of 29, where arr = "replicate 600 0"] by (metis length_replicate)
  then show ?thesis by (simp add: DisplayFaceImageRGB_eq bindM_def tryM_def del: upt_rec_numeral)
qed

theorem face_image_short_witness:
  "\<exists>w'. DisplayFaceImageRGB (black_face\<lparr>dfFaceData := []\<rparr>) (gateway_at_rest [] (\<lambda>_. None)) = (Panic, w')"
  by (rule face_image_short) (simp_all add: gateway_at_rest_def black_face_def)

end
