(* ===== verification/Loop_Fuel.thy ===== *)
theory Loop_Fuel
  imports Rpc_Core
begin

text \<open>
  The loops of the handlers never run out of the fuel that \<open>chan_loop\<close> gives them: handling one
  arrival puts at most one message into a channel, so every round that takes a message or a
  wake-up lowers the number of arrivals and buffered messages.
\<close>

section \<open>Buffers grow by one message per arrival\<close>

definition grows :: "gateway \<Rightarrow> gateway \<Rightarrow> bool" where
  "grows w w' \<longleftrightarrow>
     (\<forall>c. length (buf_of (proto_mgr w') c) \<le> Suc (length (buf_of (proto_mgr w) c))) \<and>
     (\<forall>c. length (buf_of (clad_mgr w') c) \<le> Suc (length (buf_of (clad_mgr w) c)))"

lemma grows_same: "same_mgrs w w' \<Longrightarrow> grows w w'"
  by (auto simp: grows_def same_mgrs_def le_SucI)

lemma delete_buf_length:
  assumes "wf_manager ty m" "deleteListenerUnsafe_reg l t m = Some m'"
  shows "length (buf_of m' k) \<le> length (buf_of m k)"
proof (cases "k = l \<and> l \<in> set (listeners m t)")
  case True
  then obtain c where c: "chans m l = Some c" using wf_managerD(4) [OF assms(1)] by blast
  with True delete_chans(3) [OF assms, of c] show ?thesis by (auto simp: buf_of_def)
next
  case False
  then show ?thesis
    using delete_chans(1) [OF assms, of k] delete_absent [OF assms(1), of l t] assms(2)
    by (cases "k = l") (auto simp: buf_of_def)
qed

lemma delete_all_buf_length:
  "wf_manager ty m \<Longrightarrow> delete_all ls t m = Some m' \<Longrightarrow> length (buf_of m' k) \<le> length (buf_of m k)"
proof (induction ls arbitrary: m)
  case (Cons l ls)
  from Cons.prems(2) obtain m1 where m1: "deleteListenerUnsafe_reg l t m = Some m1"
    "delete_all ls t m1 = Some m'" by (auto split: option.splits)
  then show ?case
    using Cons.IH [OF delete_wf [OF Cons.prems(1) m1(1)] m1(2)] delete_buf_length [OF Cons.prems(1) m1(1), of k]
    by linarith
qed simp

lemma appended_buf_length:
  "length (buf_of (m\<lparr>chans := appended msg ls m\<rparr>) k) \<le> Suc (length (buf_of m k))"
  by (cases "chans m k") (auto simp: buf_of_def appended_def)

lemma send_buf_length:
  assumes wf: "wf_manager ty m" and sent: "SendToListeners_reg (ty x) x m = Sent m'"
  shows "length (buf_of m' k) \<le> Suc (length (buf_of m k))"
proof (cases "managedChannels m (ty x)")
  case None
  with sent show ?thesis by (simp add: SendToListeners_reg_def)
next
  case (Some ls)
  then have ls: "listeners m (ty x) = ls" by (simp add: listeners_def)
  let ?a = "m\<lparr>chans := appended x (set ls) m\<rparr>"
  have "offer_all x ls m = Some (filter (stuck m) ls, ?a)"
    using wf_managerD(2) [OF wf, of "ty x"] wf_managerD(4) [OF wf, of _ "ty x"] by (intro offer_all_eq) (auto simp: ls)
  then have "delete_all (filter (stuck m) ls) (ty x) ?a = Some m'"
    using sent Some by (auto simp: SendToListeners_reg_def split: if_splits option.splits)
  moreover have "wf_manager ty ?a" using appended_wf [OF wf refl] ls by metis
  ultimately have "length (buf_of m' k) \<le> length (buf_of ?a k)" by (rule delete_all_buf_length [rotated])
  with appended_buf_length [where m = m and msg = x and ls = "set ls" and k = k] show ?thesis by linarith
qed

lemma proto_send_grows:
  assumes "wf_gateway w" "wrapper_type x = t" "EngineProto_SendToListeners t x w = (Ret u, v)"
  shows "grows w v"
proof -
  obtain m' where "SendToListeners_reg (wrapper_type x) x (proto_mgr w) = Sent m'"
    "v = w\<lparr>proto_mgr := m'\<rparr>"
    using assms(2,3)
    by (auto simp: EngineProto_SendToListeners_def mgr_SendToListeners_def split: send_result.splits)
  with send_buf_length [of wrapper_type "proto_mgr w" x m'] assms(1) show ?thesis
    by (auto simp: grows_def wf_gateway_def le_SucI)
qed

lemma clad_send_grows:
  assumes "wf_gateway w" "EngineClad_SendToListeners x w = (Ret u, v)"
  shows "grows w v"
proof -
  obtain m' where "SendToListeners_reg (robotTag x) x (clad_mgr w) = Sent m'"
    "v = w\<lparr>clad_mgr := m'\<rparr>"
    using assms(2)
    by (auto simp: EngineClad_SendToListeners_def mgr_SendToListeners_def split: send_result.splits)
  with send_buf_length [of robotTag "clad_mgr w" x m'] assms(1) show ?thesis
    by (auto simp: grows_def wf_gateway_def le_SucI)
qed

lemma arrive_grows:
  assumes wf: "wf_gateway w" and a: "arrive a w = (Ret u, v)"
  shows "wf_gateway v \<and> grows w v"
proof -
  have id: "grows w w" by (rule grows_same) (simp add: same_mgrs_def)
  have "grows w v"
  proof (cases a)
    case (ProtoBlock b)
    with a have p: "EngineProto_ProcessBlock b w = (Ret u, v)" by (simp add: arrive_def)
    show ?thesis
    proof (cases rule: proto_process_cases [of b w])
      case dropped with p id show ?thesis by simp
    next
      case ended with p show ?thesis by (intro grows_same) (auto simp: same_mgrs_def)
    next
      case memberless with p show ?thesis by simp
    next
      case (sent a msg x)
      with p show ?thesis
        by (intro proto_send_grows [OF wf, of msg "reflectType x"]) (simp_all add: wrapper_type_def)
    qed
  next
    case (CladBlock b)
    with a have p: "EngineClad_ProcessBlock b w = (Ret u, v)" by (simp add: arrive_def)
    show ?thesis
    proof (cases rule: clad_process_cases [of b w])
      case dropped with p id show ?thesis by simp
    next
      case ended with p show ?thesis by (intro grows_same) (auto simp: same_mgrs_def)
    next
      case (event a msg e)
      with p show ?thesis unfolding SendEventToChannel_def
        by (intro proto_send_grows [OF wf, of _ EventType]) (simp_all add: wrapper_type_def)
    next
      case (sent a msg) with p show ?thesis by (intro clad_send_grows [OF wf]) simp
    qed
  next
    case TimerFires
    with a id show ?thesis by (simp add: arrive_def returnM_def)
  next
    case PeerDone
    with a id show ?thesis by (simp add: arrive_def returnM_def)
  qed
  moreover have "wf_gateway v" using okD(2) [OF arrive_ok wf, of "\<lambda>_. True" a "Ret u" v u] a by simp
  ultimately show ?thesis by blast
qed

lemma receive_buf_length:
  assumes "receive_reg l m = (Received x, m')"
  shows "Suc (length (buf_of m' l)) = length (buf_of m l)"
  using assms by (auto simp: receive_reg_def buf_of_def split: option.splits list.splits if_splits)

section \<open>A wait that is woken uses up budget\<close>

locale manager_budget = manager_link get put ty
  for get :: "gateway \<Rightarrow> ('t, 'm) manager"
    and put :: "('t, 'm) manager \<Rightarrow> gateway \<Rightarrow> gateway"
    and ty :: "'m \<Rightarrow> 't" +
  assumes grows_get: "grows w w' \<Longrightarrow> length (buf_of (get w') c) \<le> Suc (length (buf_of (get w) c))"
begin

lemma select_budget:
  "wf_gateway w \<Longrightarrow> mgr_select get put wakes c arr w = (Ret k, w') \<Longrightarrow> k \<noteq> GotClosed \<Longrightarrow>
     wf_gateway w' \<and> chan_budget get c w' < length arr + length (buf_of (get w) c)"
proof (induction arr arbitrary: w)
  case Nil
  obtain r m where rm: "receive_reg c (get w) = (r, m)" by fastforce
  with Nil.prems obtain x where r: "r = Received x" "w' = (put m w)\<lparr>arrivals := []\<rparr>"
    by (cases r) (auto simp: mgr_select.simps [of _ _ _ _ "[]"])
  have "wf_gateway w'"
    using wf_put [OF Nil.prems(1) receive_wf [OF wf_get [OF Nil.prems(1)] rm]] arrivals_res r(2) by blast
  then show ?case
    using receive_buf_length [of c "get w" x m] rm r by (simp add: chan_budget_def get_arrivals get_put)
next
  case (Cons a arr)
  obtain r m where rm: "receive_reg c (get w) = (r, m)" by fastforce
  note sel = mgr_select.simps [of _ _ _ _ "_ # arr"]
  show ?case
  proof (cases r)
    case (Received x)
    then have w': "w' = (put m w)\<lparr>arrivals := a # arr\<rparr>" using Cons.prems(2) rm by (simp add: sel)
    have "wf_gateway w'"
      using wf_put [OF Cons.prems(1) receive_wf [OF wf_get [OF Cons.prems(1)] rm]] arrivals_res w' by blast
    then show ?thesis
      using receive_buf_length [of c "get w" x m] rm Received w'
      by (simp add: chan_budget_def get_arrivals get_put)
  next
    case ClosedEmpty
    then show ?thesis using Cons.prems rm by (simp add: sel)
  next
    case WouldBlock
    show ?thesis
    proof (cases "wakes a")
      case True
      then have "w' = w\<lparr>arrivals := arr\<rparr>" using Cons.prems(2) rm WouldBlock by (auto simp: sel)
      then show ?thesis using arrivals_res [OF Cons.prems(1), of arr]
        by (simp add: chan_budget_def get_arrivals)
    next
      case False
      then have "bindM (arrive a) (\<lambda>_. mgr_select get put wakes c arr) w = (Ret k, w')"
        using Cons.prems(2) rm WouldBlock by (auto simp: sel)
      then obtain v where v: "arrive a w = (Ret (), v)" "mgr_select get put wakes c arr v = (Ret k, w')"
        by (auto simp: bindM_def split: prod.splits outcome.splits)
      then show ?thesis
        using arrive_grows [OF Cons.prems(1) v(1)] Cons.IH [of v] Cons.prems(3) grows_get [of w v c]
        by fastforce
    qed
  qed
qed

lemma recv_budget:
  assumes "wf_gateway w" "mgr_recv get put c w = (Ret (Some x), w')"
  shows "wf_gateway w' \<and> chan_budget get c w' < chan_budget get c w"
proof -
  from assms(2) obtain k where "mgr_select get put (\<lambda>_. False) c (arrivals w) w = (Ret k, w')" "k \<noteq> GotClosed"
    by (auto simp: mgr_recv_def go_defs split: prod.splits outcome.splits wake.splits)
  from select_budget [OF assms(1) this] show ?thesis by (simp add: chan_budget_def)
qed

text \<open>More fuel than \<open>chan_loop\<close> gives does not change a loop whose rounds use up budget.\<close>

lemma loop_fuel:
  assumes body: "\<And>s s' w w'. wf_gateway w \<Longrightarrow> body s w = (Ret (Inl s'), w') \<Longrightarrow>
      wf_gateway w' \<and> chan_budget get c w' < chan_budget get c w"
    and "wf_gateway w" "chan_budget get c w < n"
  shows "loopM n body s w = chan_loop get c body s w"
proof -
  have "loopM n body s w = loopM n' body s w"
    if "wf_gateway w" "chan_budget get c w < n" "chan_budget get c w < n'" for n n' s w
    using that
  proof (induction n arbitrary: n' s w)
    case (Suc n)
    from Suc.prems(3) obtain k where k: "n' = Suc k" by (cases n') auto
    show ?case
    proof (cases "\<exists>s' w'. body s w = (Ret (Inl s'), w')")
      case True
      then obtain s' w' where b: "body s w = (Ret (Inl s'), w')" by blast
      with body [OF Suc.prems(1) b] Suc.IH [of w' k s'] Suc.prems(2,3) k
      show ?thesis by (simp add: bindM_def)
    next
      case False
      then show ?thesis using k
        by (auto simp: bindM_def split: prod.split outcome.split sum.split)
    qed
  qed simp
  from this [OF assms(2,3), of "Suc (chan_budget get c w)"] show ?thesis
    unfolding chan_loop_def by blast
qed

end

interpretation proto: manager_budget proto_mgr put_proto wrapper_type
  by unfold_locales (auto simp: grows_def)

interpretation clad: manager_budget clad_mgr put_clad robotTag
  by unfold_locales (auto simp: grows_def)

end
