(* ===== verification/Rpc_Special.thy ===== *)
theory Rpc_Special
  imports Rpc_Handlers Loop_Fuel
begin

text \<open>
  The unary handlers of \<open>rpcService\<close> with a shape of their own: onboarding, the version check, the
  animation lists (several answers until an end marker, with a timeout), speech (answers until the
  utterance has ended), photos (a file is read), marker detection, the cloud check (a rate limit
  and a remembered result) and the handlers that talk to the engine over CLAD.
\<close>

section \<open>Onboarding\<close>

text \<open>\<open>OnboardingInputResponse\<close>: a status and the answer, with the name of its member.\<close>

record onboarding_response =
  obStatus :: status_code
  obMessage :: "(string \<times> response option) option"

definition onboarding_call :: "string \<Rightarrow> string \<Rightarrow> pb \<Rightarrow> (gateway, onboarding_response) go" where
  "onboarding_call rq rs req = proto_call (ResponseType rs) (Request rq req) (\<lambda>m.
     returnM \<lparr>obStatus = REQUEST_PROCESSING, obMessage = Some (rs, GetResponse rs m)\<rparr>)"

definition onboarding_fire :: "string \<Rightarrow> pb \<Rightarrow> (gateway, onboarding_response) go" where
  "onboarding_fire rq req = bindM (EngineProto_Write (Request rq req)) (\<lambda>_.
     returnM \<lparr>obStatus = REQUEST_PROCESSING, obMessage = None\<rparr>)"

definition SendOnboardingComplete :: "pb \<Rightarrow> (gateway, onboarding_response) go" where
  "SendOnboardingComplete = onboarding_call ''OnboardingCompleteRequest'' ''OnboardingCompleteResponse''"

definition SendOnboardingWakeUpStarted :: "pb \<Rightarrow> (gateway, onboarding_response) go" where
  "SendOnboardingWakeUpStarted =
     onboarding_call ''OnboardingWakeUpStartedRequest'' ''OnboardingWakeUpStartedResponse''"

definition SendOnboardingWakeUp :: "pb \<Rightarrow> (gateway, onboarding_response) go" where
  "SendOnboardingWakeUp = onboarding_call ''OnboardingWakeUpRequest'' ''OnboardingWakeUpResponse''"

definition SendOnboardingSetPhase :: "pb \<Rightarrow> (gateway, onboarding_response) go" where
  "SendOnboardingSetPhase = onboarding_call ''OnboardingSetPhaseRequest'' ''OnboardingSetPhaseResponse''"

definition SendOnboardingPhaseProgress :: "pb \<Rightarrow> (gateway, onboarding_response) go" where
  "SendOnboardingPhaseProgress =
     onboarding_call ''OnboardingPhaseProgressRequest'' ''OnboardingPhaseProgressResponse''"

definition SendOnboardingChargeInfo :: "pb \<Rightarrow> (gateway, onboarding_response) go" where
  "SendOnboardingChargeInfo =
     onboarding_call ''OnboardingChargeInfoRequest'' ''OnboardingChargeInfoResponse''"

definition SendOnboardingSkipOnboarding :: "pb \<Rightarrow> (gateway, onboarding_response) go" where
  "SendOnboardingSkipOnboarding = onboarding_fire ''OnboardingSkipOnboarding''"

definition SendOnboardingRestart :: "pb \<Rightarrow> (gateway, onboarding_response) go" where
  "SendOnboardingRestart = onboarding_fire ''OnboardingRestart''"

definition SendOnboardingMarkCompleteAndExit :: "pb \<Rightarrow> (gateway, onboarding_response) go" where
  "SendOnboardingMarkCompleteAndExit = onboarding_fire ''OnboardingMarkCompleteAndExit''"

datatype onboarding_input =
    OnboardingCompleteRequest pb
  | OnboardingWakeUpStartedRequest pb
  | OnboardingWakeUpRequest pb
  | OnboardingSkipOnboarding pb
  | OnboardingRestart pb
  | OnboardingSetPhaseRequest pb
  | OnboardingPhaseProgressRequest pb
  | OnboardingChargeInfoRequest pb
  | OnboardingMarkCompleteAndExit pb

definition SendOnboardingInput :: "onboarding_input option \<Rightarrow> (gateway, onboarding_response) go" where
  "SendOnboardingInput x = (case x of
      Some (OnboardingCompleteRequest req) \<Rightarrow> SendOnboardingComplete req
    | Some (OnboardingWakeUpStartedRequest req) \<Rightarrow> SendOnboardingWakeUpStarted req
    | Some (OnboardingWakeUpRequest req) \<Rightarrow> SendOnboardingWakeUp req
    | Some (OnboardingSkipOnboarding req) \<Rightarrow> SendOnboardingSkipOnboarding req
    | Some (OnboardingRestart req) \<Rightarrow> SendOnboardingRestart req
    | Some (OnboardingSetPhaseRequest req) \<Rightarrow> SendOnboardingSetPhase req
    | Some (OnboardingPhaseProgressRequest req) \<Rightarrow> SendOnboardingPhaseProgress req
    | Some (OnboardingChargeInfoRequest req) \<Rightarrow> SendOnboardingChargeInfo req
    | Some (OnboardingMarkCompleteAndExit req) \<Rightarrow> SendOnboardingMarkCompleteAndExit req
    | None \<Rightarrow> failM (GrpcError InvalidArgument ''OnboardingInputRequest.OneofMessageType has unexpected type''))"

lemmas onboarding_defs = SendOnboardingComplete_def SendOnboardingWakeUpStarted_def
  SendOnboardingWakeUp_def SendOnboardingSetPhase_def SendOnboardingPhaseProgress_def
  SendOnboardingChargeInfo_def SendOnboardingSkipOnboarding_def SendOnboardingRestart_def
  SendOnboardingMarkCompleteAndExit_def

text \<open>\<open>SendAppDisconnected\<close> drops the error of the write.\<close>

definition SendAppDisconnected :: "(gateway, unit) go" where
  "SendAppDisconnected = bindM (tryM (EngineProto_Write (Request ''AppDisconnected'' []))) (\<lambda>_. returnM ())"

text \<open>\<open>OnboardingStateResponse\<close> and \<open>LatestAttentionTransferResponse\<close>: a status around the answer.\<close>

record wrapped_response =
  wrStatus :: status_code
  wrAnswer :: "response option"

definition wrapped_call :: "string \<Rightarrow> string \<Rightarrow> pb \<Rightarrow> (gateway, wrapped_response) go" where
  "wrapped_call rq rs req = proto_call (ResponseType rs) (Request rq req) (\<lambda>m.
     returnM \<lparr>wrStatus = RESPONSE_RECEIVED, wrAnswer = GetResponse rs m\<rparr>)"

definition GetOnboardingState :: "pb \<Rightarrow> (gateway, wrapped_response) go" where
  "GetOnboardingState = wrapped_call ''OnboardingStateRequest'' ''OnboardingState''"

definition GetLatestAttentionTransfer :: "pb \<Rightarrow> (gateway, wrapped_response) go" where
  "GetLatestAttentionTransfer =
     wrapped_call ''LatestAttentionTransferRequest'' ''LatestAttentionTransfer''"

text \<open>The answer's only field is copied into a new response, without a status.\<close>

definition IsImageStreamingEnabled :: "pb \<Rightarrow> (gateway, response) go" where
  "IsImageStreamingEnabled req = proto_call (ResponseType ''IsImageStreamingEnabledResponse'')
     (Request ''IsImageStreamingEnabledRequest'' req) (\<lambda>m.
       case GetResponse ''IsImageStreamingEnabledResponse'' m of
         None \<Rightarrow> panicM | Some r \<Rightarrow> returnM \<lparr>Status = None, Fields = Fields r\<rparr>)"

section \<open>The version check\<close>

datatype version_result = UNSUPPORTED | SUCCESS

definition PROTOCOL_VERSION_CURRENT :: int where "PROTOCOL_VERSION_CURRENT = 5"
definition PROTOCOL_VERSION_MINIMUM :: int where "PROTOCOL_VERSION_MINIMUM = 0"

text \<open>The host's version and the verdict on the client's.\<close>

definition ProtocolVersion :: "uint64 \<Rightarrow> int \<times> version_result" where
  "ProtocolVersion clientVersion = (PROTOCOL_VERSION_CURRENT,
     if sint clientVersion < PROTOCOL_VERSION_MINIMUM then UNSUPPORTED else SUCCESS)"

section \<open>Animation lists\<close>

text \<open>\<open>strings.Contains\<close>\<close>

fun contains :: "'a list \<Rightarrow> 'a list \<Rightarrow> bool" where
  "contains s sub = (take (length sub) s = sub \<or> (case s of [] \<Rightarrow> False | _ # s' \<Rightarrow> contains s' sub))"

declare contains.simps [simp del]

text \<open>\<open>strings.ToLower\<close> on the bytes of an ASCII name.\<close>

definition lower_char :: "char \<Rightarrow> char" where
  "lower_char c = (if of_char c \<in> {65 .. 90 :: nat} then char_of ((of_char c :: nat) + 32) else c)"

definition ToLower :: "string \<Rightarrow> string" where
  "ToLower = map lower_char"

definition endOfAnimationList :: string where
  "endOfAnimationList = ''EndOfListAnimationsResponses''"

definition hidden_animation :: "string \<Rightarrow> bool" where
  "hidden_animation name = contains name ''_avs_''"

definition hidden_trigger :: "string \<Rightarrow> bool" where
  "hidden_trigger name =
     (contains (ToLower name) ''deprecated'' \<or> contains (ToLower name) ''alexa'')"

text \<open>
  The inner loop over the names of one answer: the end marker sets \<open>done\<close> and the loop goes on
  with the names behind it.
\<close>

fun collect_names ::
    "(string \<Rightarrow> bool) \<Rightarrow> string list \<Rightarrow> bool \<times> string list \<Rightarrow> bool \<times> string list" where
  "collect_names hidden [] (is_done, anims) = (is_done, anims)"
| "collect_names hidden (n # ns) (is_done, anims) =
     (if n = endOfAnimationList then collect_names hidden ns (True, anims)
      else if hidden n then collect_names hidden ns (is_done, anims)
      else collect_names hidden ns (is_done, anims @ [n]))"

definition list_body ::
    "(string \<Rightarrow> bool) \<Rightarrow> (gateway_wrapper \<Rightarrow> string list option) \<Rightarrow> string \<Rightarrow> nat \<Rightarrow>
     string list \<Rightarrow> (gateway, string list + string list) go" where
  "list_body hidden get late c anims = bindM (proto_recv_timeout c) (\<lambda>k. case k of
      GotClosed \<Rightarrow> failM retrieve_failed
    | Woken _ \<Rightarrow> failM (GrpcError DeadlineExceeded late)
    | GotMessage m \<Rightarrow> (case get m of
          None \<Rightarrow> panicM
        | Some names \<Rightarrow> (case collect_names hidden names (False, anims) of
              (True, anims') \<Rightarrow> returnM (Inr anims')
            | (False, anims') \<Rightarrow> returnM (Inl anims'))))"

definition list_call ::
    "oneof_type \<Rightarrow> oneof \<Rightarrow> (string \<Rightarrow> bool) \<Rightarrow> (gateway_wrapper \<Rightarrow> string list option) \<Rightarrow> string \<Rightarrow>
     (gateway, status_code \<times> string list) go" where
  "list_call t x hidden get late = with_channel t 500 (\<lambda>c.
     bindM (EngineProto_Write x) (\<lambda>_.
     bindM (chan_loop proto_mgr c (list_body hidden get late c) []) (\<lambda>anims.
     returnM (RESPONSE_RECEIVED, anims))))"

definition ListAnimations :: "pb \<Rightarrow> (gateway, status_code \<times> string list) go" where
  "ListAnimations req = list_call ListAnimationsResponseType (Request ''ListAnimationsRequest'' req)
     hidden_animation GetAnimationNames ''ListAnimations request timed out''"

definition ListAnimationTriggers :: "pb \<Rightarrow> (gateway, status_code \<times> string list) go" where
  "ListAnimationTriggers req = list_call ListAnimationTriggersResponseType
     (Request ''ListAnimationTriggersRequest'' req)
     hidden_trigger GetAnimationTriggerNames ''ListAnimationTriggers request timed out''"

section \<open>Speech\<close>

text \<open>\<open>GetState\<close> of a nil answer is the enum's zero, \<open>INVALID\<close>.\<close>

definition say_body :: "nat \<Rightarrow> unit \<Rightarrow> (gateway, unit + say_text_response) go" where
  "say_body c _ = bindM (recv_or_fail c) (\<lambda>m. case GetSayTextResponse m of
      None \<Rightarrow> failM (GrpcError Internal ''Failed to say text'')
    | Some r \<Rightarrow>
        if State r = UtteranceFinished then returnM (Inr (r\<lparr>sayStatus := Some RESPONSE_RECEIVED\<rparr>))
        else if State r = UtteranceInvalid then failM (GrpcError Internal ''Failed to say text'')
        else returnM (Inl ()))"

definition SayText :: "pb \<Rightarrow> (gateway, say_text_response) go" where
  "SayText req = with_channel SayTextResponseType 1 (\<lambda>c.
     bindM (EngineProto_Write (Request ''SayTextRequest'' req)) (\<lambda>_.
     chan_loop proto_mgr c (say_body c) ()))"

section \<open>Photos\<close>

record photo_response =
  photoStatus :: status_code
  photoSuccess :: bool
  photoImage :: "byte list"

text \<open>\<open>ioutil.ReadFile\<close> is the parameter \<open>readFile\<close>: the contents of a path, or an error.\<close>

definition SendImageHelper :: "(string \<Rightarrow> byte list option) \<Rightarrow> string \<Rightarrow> (gateway, byte list) go" where
  "SendImageHelper readFile fullpath = (case readFile fullpath of
      None \<Rightarrow> failM (Errorf ''open'') | Some dat \<Rightarrow> returnM dat)"

text \<open>When the engine found no photo the response says so and there is no error.\<close>

definition photo_reply ::
    "(string \<Rightarrow> byte list option) \<Rightarrow> photo_path_message option \<Rightarrow> (gateway, photo_response) go" where
  "photo_reply readFile p = (case p of
      None \<Rightarrow> returnM \<lparr>photoStatus = NOT_FOUND, photoSuccess = False, photoImage = []\<rparr>
    | Some msg \<Rightarrow>
        if \<not> Success msg then returnM \<lparr>photoStatus = NOT_FOUND, photoSuccess = False, photoImage = []\<rparr>
        else bindM (SendImageHelper readFile (FullPath msg)) (\<lambda>imageData.
          returnM \<lparr>photoStatus = RESPONSE_RECEIVED, photoSuccess = True, photoImage = imageData\<rparr>))"

definition Photo :: "(string \<Rightarrow> byte list option) \<Rightarrow> pb \<Rightarrow> (gateway, photo_response) go" where
  "Photo readFile req = proto_call PhotoPathMessageType (Request ''PhotoRequest'' req) (\<lambda>payload.
     photo_reply readFile (GetPhotoPathMessage payload))"

definition Thumbnail :: "(string \<Rightarrow> byte list option) \<Rightarrow> pb \<Rightarrow> (gateway, photo_response) go" where
  "Thumbnail readFile req = proto_call ThumbnailPathMessageType (Request ''ThumbnailRequest'' req)
     (\<lambda>payload. photo_reply readFile (GetThumbnailPathMessage payload))"

section \<open>Marker detection\<close>

text \<open>The request's field \<open>Enable\<close> decides whether the answer is waited for.\<close>

definition EnableMarkerDetection :: "bool \<Rightarrow> pb \<Rightarrow> (gateway, response) go" where
  "EnableMarkerDetection enable request =
     with_channel (ResponseType ''EnableMarkerDetectionResponse'') 1 (\<lambda>c.
       bindM (EngineProto_Write (Request ''EnableMarkerDetectionRequest'' request)) (\<lambda>_.
       if \<not> enable then returnM \<lparr>Status = Some REQUEST_PROCESSING, Fields = []\<rparr>
       else bindM (recv_or_fail c) (received ''EnableMarkerDetectionResponse'')))"

section \<open>Rate-limited handlers\<close>

text \<open>
  \<open>allowed\<close> is what the handler's limiter answers. A refused cloud check gets the last result, or
  an unknown one, which is remembered.
\<close>

definition CheckCloudConnection :: "bool \<Rightarrow> pb \<Rightarrow> (gateway, response) go" where
  "CheckCloudConnection allowed req =
     (if \<not> allowed then (\<lambda>w.
        let r = (case lastResult w of
                   Some r \<Rightarrow> r | None \<Rightarrow> \<lparr>Status = Some UNKNOWN, Fields = []\<rparr>)
        in (Ret r, w\<lparr>lastResult := Some r\<rparr>))
      else proto_call (ResponseType ''CheckCloudResponse'') (Request ''CheckCloudRequest'' req)
        (\<lambda>payload. bindM (received ''CheckCloudResponse'' payload) (\<lambda>cloudResponse w.
           (Ret cloudResponse, w\<lparr>lastResult := Some cloudResponse\<rparr>))))"

definition UploadDebugLogs :: "bool \<Rightarrow> (gateway, response) go" where
  "UploadDebugLogs allowed =
     (if \<not> allowed then failM (GrpcError ResourceExhausted
        ''Maximum upload rate exceeded. Please wait and try again later.'')
      else returnM \<lparr>Status = Some OK, Fields = []\<rparr>)"

text \<open>Whoever is let through by the limiter is authorized; no credentials are looked at.\<close>

datatype auth_code = AUTHORIZED

definition UserAuthentication :: "bool \<Rightarrow> bool \<Rightarrow> (gateway, status_code \<times> auth_code \<times> byte list) go" where
  "UserAuthentication IsOnRobot allowed =
     (if \<not> IsOnRobot then
        failM (GrpcError Internal ''User authentication is only available on the robot'')
      else if \<not> allowed then failM (GrpcError ResourceExhausted
        ''Maximum auth rate exceeded. Please wait and try again later.'')
      else returnM (RESPONSE_RECEIVED, AUTHORIZED, []))"

section \<open>Safety\<close>

lemma ok_onboarding_call:
  "safe (onboarding_call rq rs req) (\<lambda>r. obStatus r = REQUEST_PROCESSING \<and> (\<exists>a. obMessage r = Some (rs, Some a)))"
  unfolding onboarding_call_def
  by (rule ok_proto_call, rule ok_return) (use wrapper_type_getters(1) in auto)

lemma ok_onboarding_fire:
  "safe (onboarding_fire rq req) (\<lambda>r. obStatus r = REQUEST_PROCESSING \<and> obMessage r = None)"
  unfolding onboarding_fire_def by (intro ok_bind [OF ok_Write] ok_return) simp_all

lemma ok_SendOnboardingInput:
  "safe (SendOnboardingInput x) (\<lambda>r. obStatus r = REQUEST_PROCESSING \<and>
     (\<forall>n a. obMessage r = Some (n, a) \<longrightarrow> a \<noteq> None))"
  unfolding SendOnboardingInput_def onboarding_defs
  by (cases x; cases "the x")
    (auto intro!: ok_weaken [OF ok_onboarding_call] ok_weaken [OF ok_onboarding_fire])

lemma ok_SendAppDisconnected: "safe SendAppDisconnected (\<lambda>_. True)"
proof -
  have "safe (tryM (EngineProto_Write (Request ''AppDisconnected'' []))) (\<lambda>_. True)"
    using ok_Write [OF stable_True] by (rule ok_try)
  then show ?thesis unfolding SendAppDisconnected_def by (rule ok_bind) (auto intro: ok_return)
qed

lemma ok_wrapped_call:
  "safe (wrapped_call rq rs req) (\<lambda>r. wrStatus r = RESPONSE_RECEIVED \<and> wrAnswer r \<noteq> None)"
  unfolding wrapped_call_def
  by (rule ok_proto_call, rule ok_return) (use wrapper_type_getters(1) in auto)

lemma ok_IsImageStreamingEnabled: "safe (IsImageStreamingEnabled req) (\<lambda>r. Status r = None)"
  unfolding IsImageStreamingEnabled_def
proof (rule ok_proto_call)
  fix m assume "wrapper_type m = ResponseType ''IsImageStreamingEnabledResponse''"
  then obtain r where "GetResponse ''IsImageStreamingEnabledResponse'' m = Some r"
    using wrapper_type_getters(1) by blast
  then show "safe (case GetResponse ''IsImageStreamingEnabledResponse'' m of
      None \<Rightarrow> panicM | Some r \<Rightarrow> returnM \<lparr>Status = None, Fields = Fields r\<rparr>) (\<lambda>r. Status r = None)"
    by (simp add: ok_return)
qed

subsection \<open>Animation lists\<close>

definition listed :: "(string \<Rightarrow> bool) \<Rightarrow> string list \<Rightarrow> string list" where
  "listed hidden = filter (\<lambda>n. n \<noteq> endOfAnimationList \<and> \<not> hidden n)"

lemma listed_Nil [simp]: "listed hidden [] = []"
  by (simp add: listed_def)

lemma listed_append [simp]: "listed hidden (a @ b) = listed hidden a @ listed hidden b"
  by (simp add: listed_def)

lemma collect_names_eq:
  "collect_names hidden ns (d, anims) = (d \<or> endOfAnimationList \<in> set ns, anims @ listed hidden ns)"
  by (induction ns arbitrary: d anims) (auto simp: listed_def)

lemma ok_list_body:
  assumes get: "\<And>m. wrapper_type m = t \<Longrightarrow> \<exists>ns. get m = Some ns"
    and anims: "listed hidden anims = anims"
  shows "ok (\<lambda>w. typed_chan wrapper_type t c (proto_mgr w)) (list_body hidden get late c anims)
    (case_sum (\<lambda>a. listed hidden a = a) (\<lambda>a. listed hidden a = a))"
  unfolding list_body_def proto_recv_timeout_def
proof (rule ok_bind [OF proto.ok_select_now _ proto.stable_typed])
  fix k assume k: "proto.typed_wake t (\<lambda>a. a = TimerFires) k"
  let ?Q = "case_sum (\<lambda>a. listed hidden a = a) (\<lambda>a. listed hidden a = a)"
  show "ok (\<lambda>w. typed_chan wrapper_type t c (proto_mgr w)) (case k of
      GotMessage m \<Rightarrow> (case get m of
          None \<Rightarrow> panicM
        | Some names \<Rightarrow> (case collect_names hidden names (False, anims) of
              (True, anims') \<Rightarrow> returnM (Inr anims')
            | (False, anims') \<Rightarrow> returnM (Inl anims')))
    | GotClosed \<Rightarrow> failM retrieve_failed
    | Woken _ \<Rightarrow> failM (GrpcError DeadlineExceeded late)) ?Q"
  proof (cases k)
    case (GotMessage m)
    with k get obtain ns where "get m = Some ns" unfolding proto.typed_wake_def by blast
    moreover have "listed hidden (anims @ listed hidden ns) = anims @ listed hidden ns"
      using anims by (simp add: listed_def)
    ultimately show ?thesis using GotMessage
      by (auto simp: collect_names_eq intro!: ok_return split: bool.split)
  qed simp_all
qed

lemma ok_list_call:
  assumes "\<And>m. wrapper_type m = t \<Longrightarrow> \<exists>ns. get m = Some ns"
  shows "safe (list_call t x hidden get late)
    (\<lambda>(code, anims). code = RESPONSE_RECEIVED \<and> listed hidden anims = anims)"
  unfolding list_call_def
proof (rule ok_with_channel)
  fix c
  let ?I = "\<lambda>w. typed_chan wrapper_type t c (proto_mgr w) \<and> True"
  have "ok ?I (chan_loop proto_mgr c (list_body hidden get late c) []) (\<lambda>a. listed hidden a = a)"
    by (rule ok_chan_loop [where P = "\<lambda>a. listed hidden a = a"])
      (auto intro: ok_weaken [OF ok_list_body [OF assms]])
  then show "ok ?I (bindM (EngineProto_Write x) (\<lambda>_.
      bindM (chan_loop proto_mgr c (list_body hidden get late c) []) (\<lambda>anims.
      returnM (RESPONSE_RECEIVED, anims))))
    (\<lambda>(code, anims). code = RESPONSE_RECEIVED \<and> listed hidden anims = anims)"
    by (intro ok_bind [OF ok_Write] ok_bind [where Q = "\<lambda>a. listed hidden a = a"] ok_return) auto
qed simp

subsection \<open>Speech, photos, markers, the cloud check\<close>

lemma ok_say_body:
  "ok (\<lambda>w. typed_chan wrapper_type SayTextResponseType c (proto_mgr w)) (say_body c s)
     (case_sum (\<lambda>_. True) (\<lambda>r. State r = UtteranceFinished \<and> sayStatus r = Some RESPONSE_RECEIVED))"
  unfolding say_body_def
  by (rule ok_bind [OF ok_recv_or_fail _ proto.stable_typed])
    (auto intro!: ok_return split: option.split)

lemma ok_SayText:
  "safe (SayText req) (\<lambda>r. State r = UtteranceFinished \<and> sayStatus r = Some RESPONSE_RECEIVED)"
  unfolding SayText_def
proof (rule ok_with_channel)
  fix c
  let ?Q = "\<lambda>r. State r = UtteranceFinished \<and> sayStatus r = Some RESPONSE_RECEIVED"
  have "ok (\<lambda>w. typed_chan wrapper_type SayTextResponseType c (proto_mgr w) \<and> True)
      (chan_loop proto_mgr c (say_body c) ()) ?Q"
    by (rule ok_chan_loop [where P = "\<lambda>_. True"]) (auto intro: ok_weaken [OF ok_say_body])
  then show "ok (\<lambda>w. typed_chan wrapper_type SayTextResponseType c (proto_mgr w) \<and> True)
      (bindM (EngineProto_Write (Request ''SayTextRequest'' req)) (\<lambda>_. chan_loop proto_mgr c (say_body c) ())) ?Q"
    by (intro ok_bind [OF ok_Write]) auto
qed simp

lemma ok_photo_reply:
  "safe (photo_reply readFile p) (\<lambda>r. photoSuccess r \<longleftrightarrow> photoStatus r = RESPONSE_RECEIVED)"
  by (auto simp: photo_reply_def SendImageHelper_def intro!: ok_return split: option.split)

lemma ok_Photo:
  "safe (Photo readFile req) (\<lambda>r. photoSuccess r \<longleftrightarrow> photoStatus r = RESPONSE_RECEIVED)"
  "safe (Thumbnail readFile req) (\<lambda>r. photoSuccess r \<longleftrightarrow> photoStatus r = RESPONSE_RECEIVED)"
  unfolding Photo_def Thumbnail_def by (intro ok_proto_call ok_photo_reply)+

lemma ok_EnableMarkerDetection:
  "safe (EnableMarkerDetection enable req)
     (\<lambda>r. Status r = Some (if enable then RESPONSE_RECEIVED else REQUEST_PROCESSING))"
proof (cases enable)
  case True
  then show ?thesis unfolding EnableMarkerDetection_def
    by (simp, intro ok_with_channel ok_bind [OF ok_Write] ok_bind [OF ok_weaken [OF ok_recv_or_fail]]
        ok_True [OF ok_received] stable_conj stable_True proto.stable_typed) auto
next
  case False
  then show ?thesis unfolding EnableMarkerDetection_def
    by (simp, intro ok_with_channel ok_bind [OF ok_Write] ok_return) auto
qed

lemma ok_CheckCloudConnection: "safe (CheckCloudConnection allowed req) (\<lambda>_. True)"
proof (cases allowed)
  case True
  have set: "safe (\<lambda>w. (Ret r, w\<lparr>lastResult := Some r\<rparr>)) (\<lambda>_. True)" for r
    by (rule ok_same) (auto simp: same_mgrs_def)
  show ?thesis unfolding CheckCloudConnection_def using True
    by (auto intro!: ok_proto_call ok_bind [OF ok_received] set)
next
  case False
  then show ?thesis unfolding CheckCloudConnection_def
    by (auto intro!: ok_same simp: same_mgrs_def Let_def)
qed

section \<open>Loops that end\<close>

lemma list_body_step:
  assumes "mgr_select proto_mgr put_proto (\<lambda>a. a = TimerFires) c (arrivals v) v = (Ret (GotMessage m), u)"
    and "get m = Some ns"
  shows "list_body hidden get late c anims v = (Ret (if endOfAnimationList \<in> set ns
     then Inr (anims @ listed hidden ns) else Inl (anims @ listed hidden ns)), u)"
  using assms by (simp add: list_body_def proto_recv_timeout_def bindM_def collect_names_eq returnM_def
      split: bool.split)

lemma foldl_listed:
  "foldl (\<lambda>a m. a @ listed hidden (ns m)) s ms = s @ listed hidden (concat (map ns ms))"
  by (induction ms arbitrary: s) (simp_all add: listed_def)

lemma list_call_answered:
  assumes wf: "wf_gateway w" and alive: "proto_alive w" and room: "room_for w t" and wr: "written w x d"
    and segs: "list_all (segment (carried w) t) (segs @ [(pre, a, m)])"
    and arr: "arrivals w = arrivals_of (segs @ [(pre, a, m)]) @ rest"
    and get: "\<And>m. wrapper_type m = t \<Longrightarrow> get m = Some (ns m)"
    and more: "\<And>p b y. (p, b, y) \<in> set segs \<Longrightarrow> endOfAnimationList \<notin> set (ns y)"
    and last: "endOfAnimationList \<in> set (ns m)"
  shows "\<exists>w'. list_call t x hidden get late w = (Ret (RESPONSE_RECEIVED,
      listed hidden (concat (map (\<lambda>(p, b, y). ns y) (segs @ [(pre, a, m)])))), w') \<and>
    arrivals w' = rest \<and> proto_sock w' = proto_sock w @ [frame d] \<and> wf_gateway w' \<and> shrinks w w'"
proof -
  obtain c p where cp: "CreateChannel_reg t 500 (proto_mgr w) = (c, p)" by fastforce
  obtain v where sent: "EngineProto_Write x (put_proto p w) = (Ret (rand_source w (rand_next w)), v)"
    and wait: "waiting w t c 500 v" and v: "shrinks (put_proto p w) v" "arrivals v = arrivals w"
    "proto_sock v = proto_sock w @ [frame d]"
    by (rule open_written [OF wf room alive wr cp])
  define step where "step s y = (if endOfAnimationList \<in> set (ns y)
    then Inr (s @ listed hidden (ns y)) else Inl (s @ listed hidden (ns y)))" for s y
  let ?next = "\<lambda>s y. s @ listed hidden (ns y)"
  have "\<exists>u. loopM (Suc (chan_budget proto_mgr c v)) (list_body hidden get late c) [] v =
      (Ret ((\<lambda>s. ?next s m) (foldl ?next [] (map (\<lambda>(p, b, x). x) segs))), u) \<and>
    arrivals u = rest \<and> wf_gateway u \<and> shrinks v u \<and> proto_sock u = proto_sock v"
  proof (rule loop_answered [where wakes = "\<lambda>a. a = TimerFires" and step = step and P = "\<lambda>y. wrapper_type y = t"])
    show "list_body hidden get late c s v' = (Ret (step s y), u)"
      if "waiting w t c 500 v'" "wrapper_type y = t"
        "mgr_select proto_mgr put_proto (\<lambda>a. a = TimerFires) c (arrivals v') v' = (Ret (GotMessage y), u)" for s v' y u
      using list_body_step [where get = get, OF that(3) get [OF that(2)]] by (simp add: step_def)
    show "length segs < Suc (chan_budget proto_mgr c v)"
      using length_arrivals_of [of "segs @ [(pre, a, m)]"] by (simp add: chan_budget_def v(2) arr)
    show "wrapper_type y = t \<and> step s y = Inl (?next s y)" if "(p, b, y) \<in> set segs" for s p b y
      using segs that more [OF that] by (auto simp: step_def segment_def list_all_iff)
    show "wrapper_type m = t \<and> step s m = Inr (?next s m)" for s
      using segs last by (simp add: step_def segment_def)
  qed (use wait segs arr v(2) in simp_all)
  then obtain u where u: "loopM (Suc (chan_budget proto_mgr c v)) (list_body hidden get late c) [] v =
      (Ret (foldl ?next [] (map (\<lambda>(p, b, x). x) segs) @ listed hidden (ns m)), u)"
    "arrivals u = rest" "wf_gateway u" "shrinks v u" "proto_sock u = proto_sock v" by blast
  let ?body = "\<lambda>c. bindM (EngineProto_Write x) (\<lambda>_.
     bindM (chan_loop proto_mgr c (list_body hidden get late c) []) (\<lambda>anims.
     returnM (RESPONSE_RECEIVED, anims)))"
  have "?body c (put_proto p w) = (Ret (RESPONSE_RECEIVED,
      listed hidden (concat (map (\<lambda>(p, b, y). ns y) (segs @ [(pre, a, m)])))), u)"
    using u(1) by (simp add: bindM_def sent chan_loop_def foldl_listed returnM_def
        case_prod_unfold comp_def del: loopM.simps)
  from with_channel_returns [where body = ?body, OF wf cp this u(3) shrinks_trans [OF v(1) u(4)]]
  obtain q where "list_call t x hidden get late w = (Ret (RESPONSE_RECEIVED,
      listed hidden (concat (map (\<lambda>(p, b, y). ns y) (segs @ [(pre, a, m)])))), put_proto q u)"
    "wf_gateway (put_proto q u)" "shrinks w (put_proto q u)"
    unfolding list_call_def by blast
  then show ?thesis using u(2,5) v(3) by simp
qed

lemma say_body_step:
  assumes "mgr_select proto_mgr put_proto (\<lambda>_. False) c (arrivals v) v = (Ret (GotMessage m), u)"
    and "GetSayTextResponse m = Some r" "State r \<noteq> UtteranceInvalid"
  shows "say_body c s v = (Ret (if State r = UtteranceFinished
     then Inr (r\<lparr>sayStatus := Some RESPONSE_RECEIVED\<rparr>) else Inl ()), u)"
  using assms by (simp add: say_body_def recv_or_fail_def proto_recv_def mgr_recv_def bindM_def returnM_def)

lemma SayText_answered:
  assumes wf: "wf_gateway w" and alive: "proto_alive w" and room: "room_for w SayTextResponseType"
    and wr: "written w (Request ''SayTextRequest'' req) d"
    and segs: "list_all (segment (carried w) SayTextResponseType) (segs @ [(pre, a, m)])"
    and arr: "arrivals w = arrivals_of (segs @ [(pre, a, m)]) @ rest"
    and more: "\<And>p b y. (p, b, y) \<in> set segs \<Longrightarrow> \<exists>r. GetSayTextResponse y = Some r \<and>
        State r \<noteq> UtteranceInvalid \<and> State r \<noteq> UtteranceFinished"
    and last: "GetSayTextResponse m = Some r" "State r = UtteranceFinished"
  shows "\<exists>w'. SayText req w = (Ret (r\<lparr>sayStatus := Some RESPONSE_RECEIVED\<rparr>), w') \<and>
    arrivals w' = rest \<and> proto_sock w' = proto_sock w @ [frame d] \<and> wf_gateway w' \<and> shrinks w w'"
proof -
  obtain c p where cp: "CreateChannel_reg SayTextResponseType 1 (proto_mgr w) = (c, p)" by fastforce
  obtain v where sent: "EngineProto_Write (Request ''SayTextRequest'' req) (put_proto p w) =
      (Ret (rand_source w (rand_next w)), v)"
    and wait: "waiting w SayTextResponseType c 1 v" and v: "shrinks (put_proto p w) v"
    "arrivals v = arrivals w" "proto_sock v = proto_sock w @ [frame d]"
    by (rule open_written [OF wf room alive wr cp])
  define step where "step (s :: unit) y = (let r = the (GetSayTextResponse y) in
    if State r = UtteranceFinished then Inr (r\<lparr>sayStatus := Some RESPONSE_RECEIVED\<rparr>) else Inl ())" for s y
  let ?P = "\<lambda>y. \<exists>r. GetSayTextResponse y = Some r \<and> State r \<noteq> UtteranceInvalid"
  have "\<exists>u. loopM (Suc (chan_budget proto_mgr c v)) (say_body c) () v =
      (Ret ((\<lambda>s. r\<lparr>sayStatus := Some RESPONSE_RECEIVED\<rparr>)
         (foldl (\<lambda>s y. ()) () (map (\<lambda>(p, b, x). x) segs))), u) \<and>
    arrivals u = rest \<and> wf_gateway u \<and> shrinks v u \<and> proto_sock u = proto_sock v"
  proof (rule loop_answered [where wakes = "\<lambda>_. False" and step = step and P = ?P])
    show "say_body c s v' = (Ret (step s y), u)"
      if "waiting w SayTextResponseType c 1 v'" "?P y"
        "mgr_select proto_mgr put_proto (\<lambda>_. False) c (arrivals v') v' = (Ret (GotMessage y), u)" for s v' y u
      using that(2) say_body_step [OF that(3)] by (auto simp: step_def Let_def)
    show "length segs < Suc (chan_budget proto_mgr c v)"
      using length_arrivals_of [of "segs @ [(pre, a, m)]"] by (simp add: chan_budget_def v(2) arr)
    show "?P y \<and> step s y = Inl ()" if "(p, b, y) \<in> set segs" for s p b y
      using more [OF that] by (auto simp: step_def)
    show "?P m \<and> step s m = Inr (r\<lparr>sayStatus := Some RESPONSE_RECEIVED\<rparr>)" for s
      using last by (simp add: step_def)
  qed (use wait segs arr v(2) in simp_all)
  then obtain u where u: "loopM (Suc (chan_budget proto_mgr c v)) (say_body c) () v =
      (Ret (r\<lparr>sayStatus := Some RESPONSE_RECEIVED\<rparr>), u)"
    "arrivals u = rest" "wf_gateway u" "shrinks v u" "proto_sock u = proto_sock v" by blast
  let ?body = "\<lambda>c. bindM (EngineProto_Write (Request ''SayTextRequest'' req)) (\<lambda>_.
     chan_loop proto_mgr c (say_body c) ())"
  have "?body c (put_proto p w) = (Ret (r\<lparr>sayStatus := Some RESPONSE_RECEIVED\<rparr>), u)"
    using u(1) by (simp add: bindM_def sent chan_loop_def del: loopM.simps)
  from with_channel_returns [where body = ?body, OF wf cp this u(3) shrinks_trans [OF v(1) u(4)]]
  obtain q where "SayText req w = (Ret (r\<lparr>sayStatus := Some RESPONSE_RECEIVED\<rparr>), put_proto q u)"
    "wf_gateway (put_proto q u)" "shrinks w (put_proto q u)"
    unfolding SayText_def by blast
  then show ?thesis using u(2,5) v(3) by simp
qed

section \<open>The fuel of the loops\<close>

lemma say_body_budget:
  assumes "wf_gateway w" "say_body c s w = (Ret (Inl s'), w')"
  shows "wf_gateway w' \<and> chan_budget proto_mgr c w' < chan_budget proto_mgr c w"
proof -
  from assms(2) obtain m where "mgr_recv proto_mgr put_proto c w = (Ret (Some m), w')"
    by (auto simp: say_body_def recv_or_fail_def proto_recv_def go_defs
        split: prod.splits outcome.splits option.splits if_splits)
  then show ?thesis by (rule proto.recv_budget [OF assms(1)])
qed

lemma list_body_budget:
  assumes "wf_gateway w" "list_body hidden get late c anims w = (Ret (Inl a), w')"
  shows "wf_gateway w' \<and> chan_budget proto_mgr c w' < chan_budget proto_mgr c w"
proof -
  from assms(2) obtain m where
    "mgr_select proto_mgr put_proto (\<lambda>a. a = TimerFires) c (arrivals w) w = (Ret (GotMessage m), w')"
    by (auto simp: list_body_def proto_recv_timeout_def go_defs
        split: prod.splits outcome.splits option.splits if_splits bool.splits wake.splits)
  from proto.select_budget [OF assms(1) this] show ?thesis by (simp add: chan_budget_def)
qed

section \<open>Properties\<close>

text \<open>
  The special handlers never panic, leave no listener behind and return what they promise: an
  onboarding answer is not nil, a list holds no hidden name and no end marker, speech has finished,
  a photo is there exactly if the status says so, and marker detection says whether it waited.
\<close>

theorem special_handlers_safe:
  "safe (SendOnboardingInput input) (\<lambda>r. obStatus r = REQUEST_PROCESSING \<and>
     (\<forall>n a. obMessage r = Some (n, a) \<longrightarrow> a \<noteq> None)) \<and>
   safe (GetOnboardingState req) (\<lambda>r. wrStatus r = RESPONSE_RECEIVED \<and> wrAnswer r \<noteq> None) \<and>
   safe (GetLatestAttentionTransfer req) (\<lambda>r. wrStatus r = RESPONSE_RECEIVED \<and> wrAnswer r \<noteq> None) \<and>
   safe (IsImageStreamingEnabled req) (\<lambda>r. Status r = None) \<and>
   safe (ListAnimations req) (\<lambda>(code, anims). code = RESPONSE_RECEIVED \<and> listed hidden_animation anims = anims) \<and>
   safe (ListAnimationTriggers req) (\<lambda>(code, anims). code = RESPONSE_RECEIVED \<and> listed hidden_trigger anims = anims) \<and>
   safe (SayText req) (\<lambda>r. State r = UtteranceFinished \<and> sayStatus r = Some RESPONSE_RECEIVED) \<and>
   safe (Photo readFile req) (\<lambda>r. photoSuccess r \<longleftrightarrow> photoStatus r = RESPONSE_RECEIVED) \<and>
   safe (Thumbnail readFile req) (\<lambda>r. photoSuccess r \<longleftrightarrow> photoStatus r = RESPONSE_RECEIVED) \<and>
   safe (EnableMarkerDetection enable req)
     (\<lambda>r. Status r = Some (if enable then RESPONSE_RECEIVED else REQUEST_PROCESSING)) \<and>
   safe (CheckCloudConnection allowed req) (\<lambda>_. True) \<and> safe SendAppDisconnected (\<lambda>_. True)"
  unfolding GetOnboardingState_def GetLatestAttentionTransfer_def ListAnimations_def ListAnimationTriggers_def
  by (intro conjI ok_SendOnboardingInput ok_wrapped_call ok_IsImageStreamingEnabled ok_list_call ok_SayText
      ok_Photo ok_EnableMarkerDetection ok_CheckCloudConnection ok_SendAppDisconnected wrapper_type_getters(5,6))

theorem special_handlers_safe_witness:
  "safe (SendOnboardingInput None) (\<lambda>r. obStatus r = REQUEST_PROCESSING \<and>
     (\<forall>n a. obMessage r = Some (n, a) \<longrightarrow> a \<noteq> None))"
  using special_handlers_safe [of None] by blast

text \<open>
  \<open>ListAnimations\<close> returns, in order, all names of all answers up to and including the one with
  the end marker, without the marker and without the Alexa animations, if no timer fires before.
\<close>

theorem ListAnimations_answered:
  assumes "wf_gateway w" "proto_alive w" "room_for w ListAnimationsResponseType"
    and "written w (Request ''ListAnimationsRequest'' req) d"
    and "list_all (segment (carried w) ListAnimationsResponseType) (segs @ [(pre, a, m)])"
    and "arrivals w = arrivals_of (segs @ [(pre, a, m)]) @ rest"
    and "\<forall>(p, b, y) \<in> set segs. endOfAnimationList \<notin> set (the (GetAnimationNames y))"
    and "endOfAnimationList \<in> set (the (GetAnimationNames m))"
  shows "\<exists>w'. ListAnimations req w = (Ret (RESPONSE_RECEIVED,
      filter (\<lambda>n. n \<noteq> endOfAnimationList \<and> \<not> contains n ''_avs_'')
        (concat (map (\<lambda>(p, b, y). the (GetAnimationNames y)) (segs @ [(pre, a, m)])))), w') \<and>
    arrivals w' = rest \<and> proto_sock w' = proto_sock w @ [frame d] \<and> wf_gateway w' \<and> shrinks w w'"
proof -
  have "GetAnimationNames y = Some (the (GetAnimationNames y))"
    if "wrapper_type y = ListAnimationsResponseType" for y
    using wrapper_type_getters(5) [OF that] by auto
  from list_call_answered [where get = GetAnimationNames and ns = "\<lambda>y. the (GetAnimationNames y)"
      and hidden = hidden_animation and late = "''ListAnimations request timed out''",
      OF assms(1-6) this _ assms(8)] assms(7)
  show ?thesis unfolding ListAnimations_def listed_def hidden_animation_def by fast
qed

text \<open>In the example there are two answers, with one Alexa animation.\<close>

definition animation_answer :: "string list \<Rightarrow> gateway_wrapper" where
  "animation_answer ns = \<lparr>ConnectionId = 0, OneofMessageType = Some (ListAnimationsResponse ns)\<rparr>"

definition animation_gateway :: gateway where
  "animation_gateway = gateway_at_rest [ProtoBlock (Some [0, 0, 1]), ProtoBlock (Some [0, 0, 2])]
     (\<lambda>b. if b = [1] then Some (animation_answer [''anim_a'', ''x_avs_y''])
          else knows [2] (animation_answer [endOfAnimationList, ''anim_b'']) b)"

theorem ListAnimations_answered_witness:
  "\<exists>w'. ListAnimations [] animation_gateway = (Ret (RESPONSE_RECEIVED, [''anim_a'', ''anim_b'']), w') \<and>
    arrivals w' = []"
proof -
  let ?m1 = "animation_answer [''anim_a'', ''x_avs_y'']"
  let ?m2 = "animation_answer [endOfAnimationList, ''anim_b'']"
  let ?segs = "[([] :: arrival list, ProtoBlock (Some [0, 0, 1]), ?m1)]"
  have car: "carried animation_gateway (ProtoBlock (Some [0, 0, 1])) = ToProto ?m1"
    "carried animation_gateway (ProtoBlock (Some [0, 0, 2])) = ToProto ?m2"
    by (simp_all add: carried_def proto_carried_def animation_gateway_def gateway_at_rest_def knows_def
        animation_answer_def)
  have names: "GetAnimationNames (animation_answer ns) = Some ns"
    "wrapper_type (animation_answer ns) = ListAnimationsResponseType" for ns
    by (simp_all add: animation_answer_def GetAnimationNames_def wrapper_type_def)
  have filtered: "filter (\<lambda>n. n \<noteq> endOfAnimationList \<and> \<not> contains n ''_avs_'')
      [''anim_a'', ''x_avs_y'', endOfAnimationList, ''anim_b''] = [''anim_a'', ''anim_b'']"
    by (simp add: endOfAnimationList_def contains.simps)
  have "\<exists>w'. ListAnimations [] animation_gateway = (Ret (RESPONSE_RECEIVED,
      filter (\<lambda>n. n \<noteq> endOfAnimationList \<and> \<not> contains n ''_avs_'')
        (concat (map (\<lambda>(p, b, y). the (GetAnimationNames y))
          (?segs @ [([], ProtoBlock (Some [0, 0, 2]), ?m2)])))), w') \<and>
    arrivals w' = [] \<and> proto_sock w' = proto_sock animation_gateway @ [frame []] \<and>
    wf_gateway w' \<and> shrinks animation_gateway w'"
  proof (rule ListAnimations_answered [where segs = ?segs and m = ?m2 and rest = "[]" and d = "[]"])
    show "wf_gateway animation_gateway" by (simp add: animation_gateway_def)
    show "proto_alive animation_gateway" "room_for animation_gateway ListAnimationsResponseType"
      "written animation_gateway (Request ''ListAnimationsRequest'' []) []"
      by (simp_all add: animation_gateway_def gateway_at_rest_def room_for_def roomy_def
          markedCapacity_def written_def next_fault_def)
    show "list_all (segment (carried animation_gateway) ListAnimationsResponseType)
        (?segs @ [([], ProtoBlock (Some [0, 0, 2]), ?m2)])"
      by (simp add: segment_def car names)
    show "arrivals animation_gateway = arrivals_of (?segs @ [([], ProtoBlock (Some [0, 0, 2]), ?m2)]) @ []"
      by (simp add: animation_gateway_def gateway_at_rest_def)
  qed (simp_all add: names, simp_all add: endOfAnimationList_def)
  then show ?thesis using filtered by (simp add: names) blast
qed

text \<open>
  \<open>SayText\<close> returns the answer that says the utterance has finished, after any number of
  answers that say it is still under way.
\<close>

theorem SayText_finishes:
  assumes "wf_gateway w" "proto_alive w" "room_for w SayTextResponseType"
    and "written w (Request ''SayTextRequest'' req) d"
    and "list_all (segment (carried w) SayTextResponseType) (segs @ [(pre, a, m)])"
    and "arrivals w = arrivals_of (segs @ [(pre, a, m)]) @ rest"
    and "\<forall>(p, b, y) \<in> set segs. \<exists>r. GetSayTextResponse y = Some r \<and>
        State r \<in> {UtteranceGenerating, UtteranceReady, UtterancePlaying}"
    and "GetSayTextResponse m = Some r" "State r = UtteranceFinished"
  shows "\<exists>w'. SayText req w = (Ret (r\<lparr>sayStatus := Some RESPONSE_RECEIVED\<rparr>), w') \<and>
    arrivals w' = rest \<and> proto_sock w' = proto_sock w @ [frame d] \<and> wf_gateway w' \<and> shrinks w w'"
proof (rule SayText_answered [OF assms(1-6) _ assms(8,9)])
  show "\<exists>r. GetSayTextResponse y = Some r \<and> State r \<noteq> UtteranceInvalid \<and> State r \<noteq> UtteranceFinished"
    if "(p, b, y) \<in> set segs" for p b y
    using assms(7) that by fastforce
qed

definition speech :: "utterance_state \<Rightarrow> gateway_wrapper" where
  "speech st = \<lparr>ConnectionId = 0, OneofMessageType =
     Some (SayTextResponse \<lparr>sayStatus = None, State = st, sayFields = []\<rparr>)\<rparr>"

definition speech_gateway :: gateway where
  "speech_gateway = gateway_at_rest [ProtoBlock (Some [0, 0, 1]), ProtoBlock (Some [0, 0, 2])]
     (\<lambda>b. if b = [1] then Some (speech UtterancePlaying) else knows [2] (speech UtteranceFinished) b)"

theorem SayText_finishes_witness:
  "\<exists>w'. SayText [] speech_gateway =
     (Ret \<lparr>sayStatus = Some RESPONSE_RECEIVED, State = UtteranceFinished, sayFields = []\<rparr>, w')"
proof -
  let ?r = "\<lparr>sayStatus = None, State = UtteranceFinished, sayFields = []\<rparr>"
  let ?segs = "[([] :: arrival list, ProtoBlock (Some [0, 0, 1]), speech UtterancePlaying)]"
  have car: "carried speech_gateway (ProtoBlock (Some [0, 0, 1])) = ToProto (speech UtterancePlaying)"
    "carried speech_gateway (ProtoBlock (Some [0, 0, 2])) = ToProto (speech UtteranceFinished)"
    by (simp_all add: carried_def proto_carried_def speech_gateway_def gateway_at_rest_def knows_def speech_def)
  have get: "GetSayTextResponse (speech st) = Some \<lparr>sayStatus = None, State = st, sayFields = []\<rparr>"
    "wrapper_type (speech st) = SayTextResponseType" for st
    by (simp_all add: speech_def GetSayTextResponse_def wrapper_type_def)
  have "\<exists>w'. SayText [] speech_gateway = (Ret (?r\<lparr>sayStatus := Some RESPONSE_RECEIVED\<rparr>), w') \<and>
    arrivals w' = [] \<and> proto_sock w' = proto_sock speech_gateway @ [frame []] \<and> wf_gateway w' \<and>
    shrinks speech_gateway w'"
  proof (rule SayText_finishes)
    show "wf_gateway speech_gateway" by (simp add: speech_gateway_def)
    show "proto_alive speech_gateway" "room_for speech_gateway SayTextResponseType"
      "written speech_gateway (Request ''SayTextRequest'' []) []"
      by (simp_all add: speech_gateway_def gateway_at_rest_def room_for_def roomy_def
          markedCapacity_def written_def next_fault_def)
    show "list_all (segment (carried speech_gateway) SayTextResponseType)
        (?segs @ [([], ProtoBlock (Some [0, 0, 2]), speech UtteranceFinished)])"
      by (simp add: segment_def car get)
    show "arrivals speech_gateway =
        arrivals_of (?segs @ [([], ProtoBlock (Some [0, 0, 2]), speech UtteranceFinished)]) @ []"
      by (simp add: speech_gateway_def gateway_at_rest_def)
  qed (simp_all add: get)
  then show ?thesis by auto
qed

text \<open>
  A cloud check that the limiter refuses gets the result of the last check that was let
  through, and does not talk to the engine.
\<close>

theorem cloud_check_remembered:
  assumes "CheckCloudConnection True x w = (Ret r, w')"
  shows "CheckCloudConnection False y w' = (Ret r, w')"
proof -
  have "lastResult w' = Some r"
    using assms
    by (auto simp: CheckCloudConnection_def proto_call_def with_channel_def EngineProto_CreateChannel_def
        mgr_CreateChannel_def EngineProto_deleteListenerCallback_def mgr_deleteListenerCallback_def
        bindM_def deferM_def split: prod.splits outcome.splits option.splits)
  then show ?thesis by (cases w') (simp add: CheckCloudConnection_def)
qed

definition cloud_answer :: gateway_wrapper where
  "cloud_answer = \<lparr>ConnectionId = 0, OneofMessageType =
     Some (Response ''CheckCloudResponse'' \<lparr>Status = None, Fields = [1]\<rparr>)\<rparr>"

definition cloud_gateway :: gateway where
  "cloud_gateway = gateway_at_rest [ProtoBlock (Some [0, 0, 9])] (knows [9] cloud_answer)"

lemma cloud_check_runs:
  "\<exists>w'. CheckCloudConnection True [] cloud_gateway =
     (Ret \<lparr>Status = Some RESPONSE_RECEIVED, Fields = [1]\<rparr>, w')"
proof -
  have "answered cloud_gateway cloud_answer []"
  proof -
    have "\<exists>pre a. arrivals cloud_gateway = pre @ a # [] \<and> carried cloud_gateway a = ToProto cloud_answer \<and>
        list_all (quiet_proto (wrapper_type cloud_answer)) (map (carried cloud_gateway) pre)"
      by (intro exI [of _ "[]"] exI [of _ "ProtoBlock (Some [0, 0, 9])"])
        (simp add: cloud_gateway_def gateway_at_rest_def carried_def proto_carried_def knows_def cloud_answer_def)
    then show ?thesis
      by (simp add: answered_def cloud_gateway_def room_for_def roomy_def markedCapacity_def)
        (simp add: gateway_at_rest_def)
  qed
  moreover have "written cloud_gateway (Request ''CheckCloudRequest'' []) []"
    by (simp add: written_def cloud_gateway_def gateway_at_rest_def next_fault_def)
  moreover have "wrapper_type cloud_answer = ResponseType ''CheckCloudResponse''"
    by (simp add: cloud_answer_def wrapper_type_def)
  ultimately show ?thesis
    unfolding CheckCloudConnection_def
    using call_answered_remembering [where k = "\<lambda>payload. bindM (received ''CheckCloudResponse'' payload)
        (\<lambda>r w. (Ret r, w\<lparr>lastResult := Some r\<rparr>))" and l = "\<lambda>_. Some \<lparr>Status = Some RESPONSE_RECEIVED, Fields = [1]\<rparr>"]
    by (fastforce simp: bindM_def received_def GetResponse_def cloud_answer_def returnM_def)
qed

theorem cloud_check_remembered_witness:
  "\<exists>w'. CheckCloudConnection False [5] w' = (Ret \<lparr>Status = Some RESPONSE_RECEIVED, Fields = [1]\<rparr>, w') \<and>
     CheckCloudConnection True [] cloud_gateway = (Ret \<lparr>Status = Some RESPONSE_RECEIVED, Fields = [1]\<rparr>, w')"
  using cloud_check_runs cloud_check_remembered by blast



end
