(* ===== verification/Event_Stream.thy ===== *)
theory Event_Stream
  imports Rpc_Special
begin

text \<open>
  \<open>EventStream\<close> of \<open>cloud/message_handler.go\<close>: the connection id that makes a client the primary
  one, the filters on events, the loop that hands the engine's events to the client with a ping
  every second. The lemmas say what the client gets, when the loop can panic, and how many
  clients can believe to be the primary one.
\<close>

section \<open>Sending on a stream\<close>

definition next_fate :: "send_fate list \<Rightarrow> send_fate" where
  "next_fate fs = (case fs of [] \<Rightarrow> Delivered | f # _ \<Rightarrow> f)"

text \<open>\<open>stream.Send\<close> and the look at the stream's context that always follows it.\<close>

definition stream_Send :: "stream_msg \<Rightarrow> (gateway, unit) go" where
  "stream_Send x w =
     (let w' = w\<lparr>stream_fates := tl (stream_fates w)\<rparr>; out = stream_out w @ [x] in
      case next_fate (stream_fates w) of
        Delivered \<Rightarrow> (Ret (), w'\<lparr>stream_out := out\<rparr>)
      | SendFails \<Rightarrow> (Fail StreamError, w')
      | ContextDone \<Rightarrow> (Fail StreamError, w'\<lparr>stream_out := out\<rparr>))"

lemma ok_stream_Send: "ok I (stream_Send x) (\<lambda>_. True)"
  by (rule ok_same) (auto simp: stream_Send_def Let_def same_mgrs_def split: send_fate.splits)

lemma stream_Send_delivered:
  "stream_fates w = [] \<Longrightarrow> stream_Send x w = (Ret (), w\<lparr>stream_out := stream_out w @ [x]\<rparr>)"
  by (cases w) (simp add: stream_Send_def next_fate_def)

section \<open>Filters\<close>

fun isMember :: "string \<Rightarrow> string list \<Rightarrow> bool" where
  "isMember needle [] = False"
| "isMember needle (word # haystack) = (if word = needle then True else isMember needle haystack)"

lemma isMember_iff [simp]: "isMember x xs \<longleftrightarrow> x \<in> set xs"
  by (induction xs) auto

text \<open>
  A list is \<open>None\<close> when the client gave none. An event that is nil, or has no type, makes the
  reflection on its type panic (the outer \<open>None\<close>).
\<close>

definition checkFilters :: "event option \<Rightarrow> string list option \<Rightarrow> string list option \<Rightarrow> bool option" where
  "checkFilters event whiteList blackList =
     (if whiteList = None \<and> blackList = None then Some True
      else case event of
        None \<Rightarrow> None
      | Some e \<Rightarrow>
          (let responseType = orig_name e in
           if (case whiteList of None \<Rightarrow> False | Some l \<Rightarrow> isMember responseType l) then Some True
           else if (case blackList of None \<Rightarrow> False | Some l \<Rightarrow> \<not> isMember responseType l) then Some True
           else Some False))"

section \<open>The primary connection\<close>

definition onDisconnect :: "(gateway, unit) go" where
  "onDisconnect = bindM SendAppDisconnected (\<lambda>_ w. (Ret (), w\<lparr>connectionId := []\<rparr>))"

definition checkConnectionID :: "string \<Rightarrow> (gateway, bool) go" where
  "checkConnectionID cid w =
     (if connectionId w \<noteq> [] \<and> cid \<noteq> connectionId w then (Ret False, w)
      else (Ret True, w\<lparr>connectionId := cid\<rparr>))"

section \<open>The stream\<close>

definition GetEvent :: "gateway_wrapper \<Rightarrow> event option" where
  "GetEvent m = (case OneofMessageType m of Some (EventMsg e) \<Rightarrow> e | _ \<Rightarrow> None)"

text \<open>What one round of the loop does when it was woken.\<close>

definition event_handle ::
    "string list option \<Rightarrow> string list option \<Rightarrow> gateway_wrapper wake \<Rightarrow> (gateway, unit + unit) go" where
  "event_handle whiteList blackList k = (case k of
      GotClosed \<Rightarrow> failM (GrpcError Internal ''EventStream: event channel closed'')
    | GotMessage m \<Rightarrow> (case checkFilters (GetEvent m) whiteList blackList of
          None \<Rightarrow> panicM
        | Some True \<Rightarrow> bindM (stream_Send (EventResponse None (GetEvent m))) (\<lambda>_. returnM (Inl ()))
        | Some False \<Rightarrow> returnM (Inl ()))
    | Woken _ \<Rightarrow> bindM (stream_Send (EventResponse None (Some KeepAlive))) (\<lambda>_. returnM (Inl ())))"

definition event_body ::
    "string list option \<Rightarrow> string list option \<Rightarrow> nat \<Rightarrow> unit \<Rightarrow> (gateway, unit + unit) go" where
  "event_body whiteList blackList c _ =
     bindM (proto_recv_timeout c) (event_handle whiteList blackList)"

definition event_stream ::
    "string list option \<Rightarrow> string list option \<Rightarrow> bool \<Rightarrow> (gateway, unit) go" where
  "event_stream whiteList blackList isPrimary =
     bindM (stream_Send (EventResponse (Some RESPONSE_RECEIVED) (Some (ConnectionResponse isPrimary)))) (\<lambda>_.
     with_channel EventType 512 (\<lambda>c. chan_loop proto_mgr c (event_body whiteList blackList c) ()))"

definition EventStream ::
    "string \<Rightarrow> string list option \<Rightarrow> string list option \<Rightarrow> (gateway, unit) go" where
  "EventStream cid whiteList blackList = bindM (checkConnectionID cid) (\<lambda>isPrimary.
     if isPrimary then deferM onDisconnect (event_stream whiteList blackList True)
     else event_stream whiteList blackList False)"

section \<open>Safety\<close>

lemma ok_deferM:
  assumes m: "ok I m Q" and f: "ok I f (\<lambda>_. True)" and I: "stable I"
  shows "ok I (deferM f m) Q"
proof (rule okI)
  fix w assume w: "wf_gateway w" "I w"
  obtain r v where mw: "m w = (r, v)" by fastforce
  obtain s u where fv: "f v = (s, u)" by fastforce
  note M = okD [OF m w mw]
  have F: "s \<noteq> Panic \<and> (\<forall>b. s = Ret b \<longrightarrow> wf_gateway u \<and> shrinks w u \<and> keeps w u) \<and>
      (\<forall>e. s = Fail e \<longrightarrow> wf_gateway u \<and> shrinks w u \<and> keeps w u)"
    if "wf_gateway v" "shrinks w v" "keeps w v"
  proof -
    have "I v" using I w(2) that(3) by (auto simp: stable_def)
    note D = okD [OF f that(1) this fv]
    show ?thesis using D(1) D(2,3) shrinks_trans [OF that(2)] keeps_trans [OF that(3)] by blast
  qed
  show "wf_gateway w' \<and> shrinks w w' \<and> keeps w w' \<and> Q a" if "deferM f m w = (Ret a, w')" for a w'
    using that M F by (cases r; cases s) (auto simp: deferM_def mw fv)
  show "wf_gateway w' \<and> shrinks w w' \<and> keeps w w'" if "deferM f m w = (Fail e, w')" for e w'
    using that M F by (cases r; cases s) (auto simp: deferM_def mw fv)
  show "deferM f m w \<noteq> (Panic, w')" for w'
    using M F by (cases r; cases s) (auto simp: deferM_def mw fv)
qed

lemma ok_onDisconnect: "safe onDisconnect (\<lambda>_. True)"
proof -
  have "safe (\<lambda>w. (Ret (), w\<lparr>connectionId := []\<rparr>)) (\<lambda>_. True)"
    by (rule ok_same) (auto simp: same_mgrs_def)
  then show ?thesis unfolding onDisconnect_def by (intro ok_bind [OF ok_SendAppDisconnected]) simp_all
qed

lemma ok_checkConnectionID: "safe (checkConnectionID cid) (\<lambda>_. True)"
  by (rule ok_same) (auto simp: checkConnectionID_def same_mgrs_def split: if_splits)

lemma ok_event_body:
  "ok (\<lambda>w. typed_chan wrapper_type EventType c (proto_mgr w)) (event_body None None c s)
     (case_sum (\<lambda>_. True) (\<lambda>_. False))"
  unfolding event_body_def proto_recv_timeout_def event_handle_def
  by (rule ok_bind [OF proto.ok_select_now _ proto.stable_typed])
    (auto simp: checkFilters_def intro!: ok_bind [OF ok_stream_Send] ok_return split: wake.split)

lemma ok_event_stream: "safe (event_stream None None p) (\<lambda>_. False)"
proof -
  have "ok (\<lambda>w. typed_chan wrapper_type EventType c (proto_mgr w))
      (chan_loop proto_mgr c (event_body None None c) ()) (\<lambda>_. False)" for c
    by (rule ok_chan_loop [where P = "\<lambda>_. True"]) (auto intro: ok_event_body)
  then have "safe (with_channel EventType 512 (\<lambda>c. chan_loop proto_mgr c (event_body None None c) ()))
      (\<lambda>_. False)"
    by (intro ok_with_channel [where I = "\<lambda>_. True", simplified])
  then show ?thesis unfolding event_stream_def by (intro ok_bind [OF ok_stream_Send]) simp_all
qed

lemma ok_EventStream: "safe (EventStream cid None None) (\<lambda>_. False)"
  unfolding EventStream_def
  by (intro ok_bind [OF ok_checkConnectionID])
    (auto intro: ok_deferM ok_event_stream ok_onDisconnect)

section \<open>What the client gets\<close>

definition shown :: "string list option \<Rightarrow> string list option \<Rightarrow> event option \<Rightarrow> stream_msg list" where
  "shown whiteList blackList e =
     (if checkFilters e whiteList blackList = Some True then [EventResponse None e] else [])"

definition event_out ::
    "(arrival \<Rightarrow> delivery) \<Rightarrow> string list option \<Rightarrow> string list option \<Rightarrow> arrival \<Rightarrow> stream_msg list" where
  "event_out car whiteList blackList a =
     (if a = TimerFires then [EventResponse None (Some KeepAlive)]
      else case car a of
        ToProto m \<Rightarrow> if wrapper_type m = EventType then shown whiteList blackList (GetEvent m) else []
      | ToEvent e \<Rightarrow> shown whiteList blackList e
      | _ \<Rightarrow> [])"

text \<open>No loop ends, and no event comes that the filters cannot look at.\<close>

definition event_benign ::
    "(arrival \<Rightarrow> delivery) \<Rightarrow> string list option \<Rightarrow> string list option \<Rightarrow> arrival \<Rightarrow> bool" where
  "event_benign car whiteList blackList a = (case car a of
      ToProto m \<Rightarrow> wrapper_type m = EventType \<longrightarrow> checkFilters (GetEvent m) whiteList blackList \<noteq> None
    | ToEvent e \<Rightarrow> checkFilters e whiteList blackList \<noteq> None
    | EndsProto \<Rightarrow> False | EndsClad \<Rightarrow> False | Crashes \<Rightarrow> False | _ \<Rightarrow> True)"

lemma arrive_keeps_clad:
  assumes "arrive a w = (Ret (), v)" "carried w a \<noteq> EndsClad" "carried w a \<noteq> EndsProto" "carried w a \<noteq> Crashes"
  shows "clad_alive v = clad_alive w"
  using assms
  by (cases rule: arrive_cases [of a w])
    (auto simp: EngineProto_SendToListeners_def EngineClad_SendToListeners_def SendEventToChannel_def
      mgr_SendToListeners_def split: send_result.splits)

definition listening :: "gateway \<Rightarrow> nat \<Rightarrow> gateway \<Rightarrow> bool" where
  "listening w0 c w \<longleftrightarrow> waiting w0 EventType c 512 w \<and> clad_alive w \<and> stream_fates w = []"

lemma listening_upd:
  "listening w0 c w \<Longrightarrow> listening w0 c (w\<lparr>arrivals := as, stream_out := out\<rparr>)"
  "listening w0 c w \<Longrightarrow> listening w0 c (w\<lparr>arrivals := as\<rparr>)"
proof -
  have "carried (w\<lparr>arrivals := as, stream_out := out\<rparr>) = carried w"
    "carried (w\<lparr>arrivals := as\<rparr>) = carried w" by (rule carried_codec; simp)+
  then show "listening w0 c w \<Longrightarrow> listening w0 c (w\<lparr>arrivals := as, stream_out := out\<rparr>)"
    "listening w0 c w \<Longrightarrow> listening w0 c (w\<lparr>arrivals := as\<rparr>)"
    by (simp_all add: listening_def waiting_def wf_gateway_def roomy_def)
qed

lemma listening_blocks: "listening w0 c w \<Longrightarrow> receive_reg c (proto_mgr w) = (WouldBlock, proto_mgr w)"
  by (simp add: listening_def waiting_def receive_reg_def)

text \<open>An arrival that is no event leaves the stream waiting.\<close>

lemma listening_quiet:
  assumes l: "listening w0 c w" and q: "quiet_proto EventType (carried w0 a)" "carried w0 a \<noteq> EndsClad"
  obtains v where "arrive a w = (Ret (), v)" "listening w0 c v" "stream_out v = stream_out w"
proof -
  from l have w: "wf_gateway w" "roomy w" "proto_alive w" "c \<in> set (listeners (proto_mgr w) EventType)"
    and car: "carried w = carried w0" by (simp_all add: listening_def waiting_def)
  from proto.quiet_step [OF w, of a] q(1) car obtain v where
    v: "arrive a w = (Ret (), v)" "proto_alive v" "same_io w v" "wf_gateway v" "shrinks w v"
      "c \<in> set (listeners (proto_mgr v) EventType)" "chans (proto_mgr v) c = chans (proto_mgr w) c"
    by auto
  have "clad_alive v" using arrive_keeps_clad [OF v(1)] q car l
    by (auto simp: quiet_proto_def listening_def split: delivery.splits)
  then have "listening w0 c v"
    using l v roomy_shrinks [OF w(1) v(4,5) w(2)] same_io_carried [OF v(3)] same_ioD(5) [OF v(3)]
    by (simp add: listening_def waiting_def)
  with that v(1) same_ioD(3) [OF v(3)] show thesis by blast
qed

text \<open>An event is put into the stream's channel and taken out at once.\<close>

lemma listening_event:
  assumes l: "listening w0 c w" and m: "wrapper_type m = EventType"
    and a: "carried w0 a = ToProto m \<or> carried w0 a = ToEvent e \<and>
      m = \<lparr>ConnectionId = 0, OneofMessageType = Some (EventMsg e)\<rparr>"
    and wakes: "\<not> wakes a"
  obtains u where "mgr_select proto_mgr put_proto wakes c (a # as) w = (Ret (GotMessage m), u\<lparr>arrivals := as\<rparr>)"
    "listening w0 c u" "stream_out u = stream_out w"
proof -
  from l have w: "wf_gateway w" "roomy w" "proto_alive w" "c \<in> set (listeners (proto_mgr w) EventType)"
    "chans (proto_mgr w) c = Some \<lparr>cap = 512, buf = [], closed = False\<rparr>" "clad_alive w"
    and car: "carried w = carried w0" by (simp_all add: listening_def waiting_def)
  obtain p where p: "EngineProto_SendToListeners (wrapper_type m) m w = (Ret (), put_proto p w)"
    "wf_gateway (put_proto p w)" "shrinks w (put_proto p w)"
    "c \<in> set (listeners p EventType) \<and> chans p c = Some \<lparr>cap = 512, buf = [m], closed = False\<rparr>"
    using proto_send_room [OF w(1,2), of m] w(4,5) m by (metis append_Nil go_chan.select_convs(1,2)
        go_chan.update_convs(2) less_numeral_extra(3) list.size(3) zero_less_numeral)
  have arr: "arrive a w = (Ret (), put_proto p w)"
    using p(1) a car w(3,6) m
    by (cases rule: arrive_cases [of a w]) (auto simp: SendEventToChannel_def)
  let ?q = "p\<lparr>chans := (chans p)(c \<mapsto> \<lparr>cap = 512, buf = [], closed = False\<rparr>)\<rparr>"
  let ?u = "put_proto ?q w"
  have got: "receive_reg c p = (Received m, ?q)" using p(4) by (simp add: receive_reg_def)
  have "mgr_select proto_mgr put_proto wakes c (a # as) w = (Ret (GotMessage m), ?u\<lparr>arrivals := as\<rparr>)"
    using wakes listening_blocks [OF l]
    by (simp add: mgr_select.simps [of _ _ _ _ "_ # as"] mgr_select.simps [of _ _ _ _ as] bindM_def arr got)
  moreover have "listening w0 c ?u"
  proof -
    have wfp: "wf_manager wrapper_type p" using p(2) by (simp add: wf_gateway_def)
    have "wf_gateway ?u" using receive_wf [OF wfp got] w(1) by (simp add: wf_gateway_def)
    moreover have "roomy ?u"
      using roomy_shrinks [OF w(1) p(2,3) w(2)] by (simp add: roomy_def)
    moreover have "carried ?u = carried w" by (rule carried_codec) simp_all
    ultimately show ?thesis using l p(4) by (simp add: listening_def waiting_def)
  qed
  ultimately show thesis using that [of ?u] by simp
qed

definition event_wait ::
    "string list option \<Rightarrow> string list option \<Rightarrow> nat \<Rightarrow> nat \<Rightarrow> arrival list \<Rightarrow> (gateway, unit) go" where
  "event_wait whiteList blackList c n arrs =
     bindM (mgr_select proto_mgr put_proto (\<lambda>a. a = TimerFires) c arrs) (\<lambda>k.
     bindM (event_handle whiteList blackList k) (\<lambda>r. case r of
        Inl s \<Rightarrow> loopM n (event_body whiteList blackList c) s | Inr a \<Rightarrow> returnM a))"

lemma loop_event_wait:
  "loopM (Suc n) (event_body wl bl c) () w = event_wait wl bl c n (arrivals w) w"
  by (simp add: event_wait_def event_body_def proto_recv_timeout_def bindM_def
      split: prod.split outcome.split)

lemma event_wait_out:
  assumes "listening w0 c w" "length arrs \<le> n" "list_all (event_benign (carried w0) wl bl) arrs"
  shows "\<exists>w'. event_wait wl bl c n arrs w = (Blocked, w') \<and>
    stream_out w' = stream_out w @ concat (map (event_out (carried w0) wl bl) arrs)"
  using assms
proof (induction arrs arbitrary: n w)
  case Nil
  then show ?case
    by (simp add: event_wait_def bindM_def mgr_select.simps [of _ _ _ _ "[]"] listening_blocks)
next
  case (Cons a as)
  from Cons.prems(2) obtain k where n: "n = Suc k" "length as \<le> k" by (cases n) auto
  have benign: "event_benign (carried w0) wl bl a" "list_all (event_benign (carried w0) wl bl) as"
    using Cons.prems(3) by simp_all
  note go_on = Cons.IH [OF _ n(2) benign(2)]
  have after: "\<exists>w'. loopM n (event_body wl bl c) () u = (Blocked, w') \<and>
      stream_out w' = stream_out u @ concat (map (event_out (carried w0) wl bl) as)"
    if "listening w0 c u" "arrivals u = as" for u
    using go_on [OF that(1)] unfolding n(1) loop_event_wait that(2) .
  have event: "\<exists>w'. event_wait wl bl c n (a # as) w = (Blocked, w') \<and>
      stream_out w' = stream_out w @ shown wl bl (GetEvent m) @
        concat (map (event_out (carried w0) wl bl) as)"
    if m: "wrapper_type m = EventType" "checkFilters (GetEvent m) wl bl \<noteq> None" "a \<noteq> TimerFires"
      "carried w0 a = ToProto m \<or> carried w0 a = ToEvent e \<and>
        m = \<lparr>ConnectionId = 0, OneofMessageType = Some (EventMsg e)\<rparr>" for m e
  proof -
    obtain u where u: "mgr_select proto_mgr put_proto (\<lambda>a. a = TimerFires) c (a # as) w =
        (Ret (GotMessage m), u\<lparr>arrivals := as\<rparr>)" "listening w0 c u" "stream_out u = stream_out w"
      using listening_event [OF Cons.prems(1) m(1,4), of "\<lambda>a. a = TimerFires" as] m(3) by blast
    have fates: "stream_fates u = []" using u(2) by (simp add: listening_def)
    show ?thesis
    proof (cases "checkFilters (GetEvent m) wl bl = Some True")
      case True
      let ?v = "u\<lparr>arrivals := as, stream_out := stream_out u @ [EventResponse None (GetEvent m)]\<rparr>"
      have "event_wait wl bl c n (a # as) w = loopM n (event_body wl bl c) () ?v"
        by (simp add: event_wait_def bindM_def u(1) event_handle_def True stream_Send_delivered fates
            returnM_def)
      with after [of ?v] listening_upd(1) [OF u(2)] show ?thesis by (simp add: shown_def True u(3))
    next
      case False
      with m(2) have no: "checkFilters (GetEvent m) wl bl = Some False" by auto
      have "event_wait wl bl c n (a # as) w = loopM n (event_body wl bl c) () (u\<lparr>arrivals := as\<rparr>)"
        by (simp add: event_wait_def bindM_def u(1) event_handle_def no returnM_def)
      with after [of "u\<lparr>arrivals := as\<rparr>"] listening_upd(2) [OF u(2)] show ?thesis
        by (simp add: shown_def no u(3))
    qed
  qed
  show ?case
  proof (cases "a = TimerFires")
    case True
    let ?v = "w\<lparr>arrivals := as, stream_out := stream_out w @ [EventResponse None (Some KeepAlive)]\<rparr>"
    have "event_wait wl bl c n (a # as) w = loopM n (event_body wl bl c) () ?v"
      using listening_blocks [OF Cons.prems(1)] Cons.prems(1)
      by (simp add: event_wait_def bindM_def mgr_select.simps [of _ _ _ _ "_ # as"] True event_handle_def
          stream_Send_delivered listening_def returnM_def)
    with after [of ?v] listening_upd(1) [OF Cons.prems(1)] show ?thesis
      by (simp add: event_out_def [of _ _ _ TimerFires] True)
  next
    case timer: False
    show ?thesis
    proof (cases "quiet_proto EventType (carried w0 a)")
      case True
      obtain v where v: "arrive a w = (Ret (), v)" "listening w0 c v" "stream_out v = stream_out w"
        by (rule listening_quiet [OF Cons.prems(1) True])
          (use benign(1) in \<open>auto simp: event_benign_def\<close>)
      have "event_wait wl bl c n (a # as) w = event_wait wl bl c n as v"
        using listening_blocks [OF Cons.prems(1)] timer
        by (simp add: event_wait_def bindM_def mgr_select.simps [of _ _ _ _ "a # as"] v(1))
      moreover have "event_out (carried w0) wl bl a = []"
        using True timer by (auto simp: event_out_def quiet_proto_def split: delivery.splits)
      ultimately show ?thesis
        using Cons.IH [OF v(2) _ benign(2), of n] n v(3) by simp
    next
      case False
      with benign(1) consider m where "carried w0 a = ToProto m" "wrapper_type m = EventType"
          "checkFilters (GetEvent m) wl bl \<noteq> None"
        | e where "carried w0 a = ToEvent e" "checkFilters e wl bl \<noteq> None"
        by (auto simp: event_benign_def quiet_proto_def split: delivery.splits)
      then show ?thesis
      proof cases
        case 1
        then show ?thesis using event [of m] timer by (simp add: event_out_def [of _ _ _ a])
      next
        case 2
        let ?m = "\<lparr>ConnectionId = 0, OneofMessageType = Some (EventMsg e)\<rparr>"
        have "GetEvent ?m = e" "wrapper_type ?m = EventType" by (simp_all add: GetEvent_def wrapper_type_def)
        then show ?thesis using event [of ?m e] 2 timer by (simp add: event_out_def [of _ _ _ a])
      qed
    qed
  qed
qed

lemma open_channel:
  assumes wf: "wf_gateway w" and room: "room_for w t" and alive: "proto_alive w"
    and cp: "CreateChannel_reg t n (proto_mgr w) = (c, p)"
  shows "waiting w t c n (put_proto p w)"
proof -
  have "carried (put_proto p w) = carried w" by (rule carried_codec) simp_all
  moreover have "chans p c = Some \<lparr>cap = n, buf = [], closed = False\<rparr>"
    using cp by (auto simp: CreateChannel_reg_def Let_def)
  ultimately show ?thesis
    using proto.create_res(1) [OF wf cp] create_roomy [OF room cp] alive CreateChannel_listeners [OF cp, of t]
    by (simp add: waiting_def)
qed

lemma event_stream_out:
  assumes "wf_gateway w" "proto_alive w" "clad_alive w" "room_for w EventType" "stream_fates w = []"
    and "list_all (event_benign (carried w) wl bl) (arrivals w)"
  shows "\<exists>w'. event_stream wl bl p w = (Blocked, w') \<and> stream_out w' = stream_out w @
    EventResponse (Some RESPONSE_RECEIVED) (Some (ConnectionResponse p)) #
    concat (map (event_out (carried w) wl bl) (arrivals w))"
proof -
  let ?w = "w\<lparr>stream_out := stream_out w @ [EventResponse (Some RESPONSE_RECEIVED) (Some (ConnectionResponse p))]\<rparr>"
  have car: "carried ?w = carried w" by (rule carried_codec) simp_all
  obtain c q where cq: "CreateChannel_reg EventType 512 (proto_mgr w) = (c, q)" by fastforce
  have "waiting ?w EventType c 512 (put_proto q ?w)"
    by (rule open_channel) (use assms(1,2,4) cq in \<open>simp_all add: wf_gateway_def room_for_def roomy_def\<close>)
  then have "listening ?w c (put_proto q ?w)" using assms(3,5) by (simp add: listening_def)
  from event_wait_out [OF this, of "arrivals w" "chan_budget proto_mgr c (put_proto q ?w)" wl bl]
  obtain w' where w': "event_wait wl bl c (chan_budget proto_mgr c (put_proto q ?w)) (arrivals w)
      (put_proto q ?w) = (Blocked, w')"
    "stream_out w' = stream_out ?w @ concat (map (event_out (carried w) wl bl) (arrivals w))"
    using assms(6) by (auto simp: car chan_budget_def)
  have "chan_loop proto_mgr c (event_body wl bl c) () (put_proto q ?w) = (Blocked, w')"
    using w'(1) unfolding chan_loop_def loop_event_wait by simp
  moreover have "EngineProto_CreateChannel EventType 512 ?w = (Ret c, put_proto q ?w)"
    by (simp add: EngineProto_CreateChannel_def mgr_CreateChannel_def cq)
  ultimately have "event_stream wl bl p w = (Blocked, w')"
    by (simp add: event_stream_def with_channel_def bindM_def stream_Send_delivered assms(5) deferM_def)
  with w'(2) show ?thesis by simp
qed

section \<open>How many primary connections\<close>

text \<open>
  The clients of the event stream, as they come and go: each has an id and was told whether it is
  the primary one. \<open>connectionId\<close> is the gateway's variable of that name.
\<close>

record clients =
  currentId :: string
  client :: "nat \<Rightarrow> (string \<times> bool) option"

inductive client_step :: "clients \<Rightarrow> clients \<Rightarrow> bool" where
  connect: "client s i = None \<Longrightarrow> checkConnectionID cid (w\<lparr>connectionId := currentId s\<rparr>) = (Ret p, w') \<Longrightarrow>
    client_step s \<lparr>currentId = connectionId w', client = (client s)(i \<mapsto> (cid, p))\<rparr>"
| leave: "client s i = Some (cid, False) \<Longrightarrow>
    client_step s (s\<lparr>client := (client s)(i := None)\<rparr>)"
| leave_primary: "client s i = Some (cid, True) \<Longrightarrow>
    onDisconnect (w\<lparr>connectionId := currentId s\<rparr>) = (Ret (), w') \<Longrightarrow>
    client_step s \<lparr>currentId = connectionId w', client = (client s)(i := None)\<rparr>"

inductive_cases client_stepE: "client_step s s'"

definition no_clients :: clients where
  "no_clients = \<lparr>currentId = [], client = (\<lambda>_. None)\<rparr>"

text \<open>The ids of a run: every client has its own, and it is not empty.\<close>

definition own_ids :: "clients \<Rightarrow> bool" where
  "own_ids s \<longleftrightarrow> (\<forall>i cid p. client s i = Some (cid, p) \<longrightarrow> cid \<noteq> []) \<and>
     (\<forall>i j cid p q. client s i = Some (cid, p) \<longrightarrow> client s j = Some (cid, q) \<longrightarrow> i = j)"

definition one_primary :: "clients \<Rightarrow> bool" where
  "one_primary s \<longleftrightarrow> (\<forall>i cid. client s i = Some (cid, True) \<longrightarrow> currentId s = cid)"

inductive own_run :: "clients \<Rightarrow> bool" where
  start: "own_run no_clients"
| step: "own_run s \<Longrightarrow> client_step s s' \<Longrightarrow> own_ids s' \<Longrightarrow> own_run s'"

lemma own_run_ids: "own_run s \<Longrightarrow> own_ids s"
  by (induction rule: own_run.induct) (auto simp: own_ids_def no_clients_def)

lemma checkConnectionID_result:
  "checkConnectionID cid w = (Ret p, w') \<Longrightarrow>
     (p \<longleftrightarrow> connectionId w = [] \<or> cid = connectionId w) \<and>
     connectionId w' = (if p then cid else connectionId w)"
  by (auto simp: checkConnectionID_def split: if_splits)

lemma onDisconnect_result: "onDisconnect w = (Ret (), w') \<Longrightarrow> connectionId w' = []"
  by (auto simp: onDisconnect_def bindM_def split: prod.splits outcome.splits)

lemma own_run_primary: "own_run s \<Longrightarrow> one_primary s"
proof (induction rule: own_run.induct)
  case start
  show ?case by (simp add: one_primary_def no_clients_def)
next
  case (step s s')
  have ids: "own_ids s" using own_run_ids [OF step(1)] .
  from step(2) show ?case
  proof cases
    case (connect i cid w p w')
    note c = checkConnectionID_result [OF connect(3)]
    show ?thesis unfolding one_primary_def
    proof (intro allI impI)
      fix j b assume j: "client s' j = Some (b, True)"
      show "currentId s' = b"
      proof (cases "j = i")
        case True
        with j connect c show ?thesis by auto
      next
        case False
        with j connect have sj: "client s j = Some (b, True)" by simp
        with step(4) have cur: "currentId s = b" by (simp add: one_primary_def)
        have "b \<noteq> []" using ids sj by (auto simp: own_ids_def)
        have "b \<noteq> cid"
        proof
          assume "b = cid"
          then have "client s' j = Some (cid, True)" "client s' i = Some (cid, p)" using j connect by simp_all
          with step(3) False show False unfolding own_ids_def by blast
        qed
        with c cur \<open>b \<noteq> []\<close> connect show ?thesis by auto
      qed
    qed
  next
    case (leave i cid)
    then show ?thesis using step(4) by (auto simp: one_primary_def)
  next
    case (leave_primary i cid w w')
    have "client s j \<noteq> Some (b, True)" if "j \<noteq> i" for j b
    proof
      assume j: "client s j = Some (b, True)"
      then have "b = cid" using step(4) leave_primary(2) unfolding one_primary_def by metis
      with ids j leave_primary(2) that show False unfolding own_ids_def by blast
    qed
    then show ?thesis using leave_primary(1) by (auto simp: one_primary_def)
  qed
qed

section \<open>Properties\<close>

text \<open>
  An unfiltered event stream never panics and never ends without an error, whatever arrives
  and whichever sends fail, and leaves no listener behind when it ends.
\<close>

theorem EventStream_safe: "safe (EventStream cid None None) (\<lambda>_. False)"
  by (rule ok_EventStream)

text \<open>
  C16. A client of the event stream gets the connection response, then every event that its
  filters let through, exactly once and in the order of arrival, with one ping for every tick.
\<close>

theorem EventStream_delivers:
  assumes "wf_gateway w" "proto_alive w" "clad_alive w" "room_for w EventType" "stream_fates w = []"
    and "list_all (event_benign (carried w) wl bl) (arrivals w)"
  shows "\<exists>w'. EventStream cid wl bl w = (Blocked, w') \<and> stream_out w' = stream_out w @
    EventResponse (Some RESPONSE_RECEIVED)
      (Some (ConnectionResponse (connectionId w = [] \<or> cid = connectionId w))) #
    concat (map (event_out (carried w) wl bl) (arrivals w))"
proof (cases "connectionId w = [] \<or> cid = connectionId w")
  case True
  let ?w = "w\<lparr>connectionId := cid\<rparr>"
  have car: "carried ?w = carried w" by (rule carried_codec) simp_all
  obtain w' where "event_stream wl bl True ?w = (Blocked, w')" "stream_out w' = stream_out ?w @
    EventResponse (Some RESPONSE_RECEIVED) (Some (ConnectionResponse True)) #
    concat (map (event_out (carried ?w) wl bl) (arrivals ?w))"
    using event_stream_out [of ?w wl bl True] assms
    by (auto simp: wf_gateway_def room_for_def roomy_def car)
  moreover have "checkConnectionID cid w = (Ret True, ?w)" using True by (auto simp: checkConnectionID_def)
  ultimately show ?thesis using True by (simp add: EventStream_def bindM_def deferM_def car)
next
  case False
  then have "checkConnectionID cid w = (Ret False, w)" by (simp add: checkConnectionID_def)
  then show ?thesis using False event_stream_out [OF assms, of False] by (auto simp: EventStream_def bindM_def)
qed

text \<open>In the example a black list hides the keep-alive event that the engine sends.\<close>

definition event_gateway :: gateway where
  "event_gateway = gateway_at_rest [ProtoBlock (Some [0, 0, 1]), TimerFires, ProtoBlock (Some [0, 0, 2])]
     (\<lambda>b. if b = [1] then Some \<lparr>ConnectionId = 0, OneofMessageType = Some (EventMsg (Some KeepAlive))\<rparr>
          else knows [2] \<lparr>ConnectionId = 0,
            OneofMessageType = Some (EventMsg (Some (OtherEvent ''robot_state'' [])))\<rparr> b)"

theorem EventStream_delivers_witness:
  "\<exists>w'. EventStream ''me'' None (Some [''keep_alive'']) event_gateway = (Blocked, w') \<and>
    stream_out w' = [EventResponse (Some RESPONSE_RECEIVED) (Some (ConnectionResponse True)),
      EventResponse None (Some KeepAlive), EventResponse None (Some (OtherEvent ''robot_state'' []))]"
proof -
  have "list_all (event_benign (carried event_gateway) None (Some [''keep_alive''])) (arrivals event_gateway)"
    by (simp add: event_gateway_def gateway_at_rest_def carried_def proto_carried_def knows_def
        event_benign_def checkFilters_def GetEvent_def)
  moreover have "wf_gateway event_gateway" by (simp add: event_gateway_def)
  moreover have "proto_alive event_gateway" "clad_alive event_gateway" "room_for event_gateway EventType"
    "stream_fates event_gateway = []"
    by (simp_all add: event_gateway_def gateway_at_rest_def room_for_def roomy_def markedCapacity_def)
  moreover have "concat (map (event_out (carried event_gateway) None (Some [''keep_alive''])) (arrivals event_gateway)) =
      [EventResponse None (Some KeepAlive), EventResponse None (Some (OtherEvent ''robot_state'' []))]"
    by (simp add: event_gateway_def gateway_at_rest_def carried_def proto_carried_def knows_def
        event_out_def shown_def checkFilters_def GetEvent_def wrapper_type_def)
  ultimately show ?thesis
    using EventStream_delivers [of event_gateway None "Some [''keep_alive'']" "''me''"]
    by (auto simp: event_gateway_def gateway_at_rest_def)
qed

text \<open>
  A stream with a filter panics on an event without a type, which is what every CLAD event
  turns into.
\<close>

theorem filtered_stream_panics:
  assumes "wl \<noteq> None \<or> bl \<noteq> None" "clad_to_event (robot_to_external.CladEvent tag) = Some e"
    and "OneofMessageType m = Some (EventMsg e)"
  shows "event_handle wl bl (GotMessage m) w = (Panic, w)"
proof -
  have "e = None" using assms(2) by (simp add: CladEventToProto_def split: clad_event.splits)
  then show ?thesis using assms(1,3)
    by (auto simp: event_handle_def GetEvent_def checkFilters_def panicM_def)
qed

theorem filtered_stream_panics_witness:
  "event_handle (Some []) None
     (GotMessage \<lparr>ConnectionId = 0, OneofMessageType = Some (EventMsg None)\<rparr>) event_gateway = (Panic, event_gateway)"
  by (rule filtered_stream_panics [of _ _ ReplaceMe None]) (simp_all add: CladEventToProto_def)

text \<open>
  If every client has an id of its own that is not empty, at most one client at a time was
  told that it is the primary one.
\<close>

theorem one_primary_connection:
  assumes "own_run s" "client s i = Some (a, True)" "client s j = Some (b, True)"
  shows "i = j"
proof -
  have "a = b" using own_run_primary [OF assms(1)] assms(2,3) unfolding one_primary_def by metis
  then show ?thesis using own_run_ids [OF assms(1)] assms(2,3) unfolding own_ids_def by blast
qed

theorem one_primary_connection_witness:
  "\<exists>s. own_run s \<and> client s 4 = Some (''me'', True) \<and>
     (\<forall>j b. client s j = Some (b, True) \<longrightarrow> j = 4)"
proof -
  let ?s = "\<lparr>currentId = ''me'', client = (client no_clients)(4 \<mapsto> (''me'', True))\<rparr>"
  let ?w = "gateway_at_rest [] (\<lambda>_. None)"
  have "checkConnectionID ''me'' (?w\<lparr>connectionId := currentId no_clients\<rparr>) = (Ret True, ?w\<lparr>connectionId := ''me''\<rparr>)"
    by (simp add: checkConnectionID_def no_clients_def)
  from client_step.connect [OF _ this, of 4] have "client_step no_clients ?s"
    by (simp add: no_clients_def)
  then have run: "own_run ?s"
  proof (rule own_run.step [OF own_run.start])
    show "own_ids ?s" unfolding own_ids_def no_clients_def by (simp split: if_split)
  qed
  have only: "j = 4" if "client ?s j = Some (b, True)" for j b
  proof (rule one_primary_connection [OF run that])
    show "client ?s 4 = Some (''me'', True)" by simp
  qed
  show ?thesis
  proof (intro exI conjI allI impI)
    show "own_run ?s" by (rule run)
    show "client ?s 4 = Some (''me'', True)" by simp
    show "j = 4" if "client ?s j = Some (b, True)" for j b using that by (rule only)
  qed
qed

text \<open>
  Clients that share an id are all primary, and when one of them leaves, a client with another
  id becomes primary beside the one that stayed.
\<close>

theorem shared_id_two_primaries:
  "\<exists>s. client_step\<^sup>*\<^sup>* no_clients s \<and> client s 1 = Some (''a'', True) \<and> client s 2 = Some (''b'', True)"
proof -
  let ?w = "gateway_at_rest [] (\<lambda>_. None)"
  let ?one = "\<lparr>currentId = ''a'', client = (client no_clients)(0 \<mapsto> (''a'', True))\<rparr>"
  let ?two = "\<lparr>currentId = ''a'', client = (client ?one)(1 \<mapsto> (''a'', True))\<rparr>"
  let ?three = "\<lparr>currentId = [], client = (client ?two)(0 := None)\<rparr>"
  let ?four = "\<lparr>currentId = ''b'', client = (client ?three)(2 \<mapsto> (''b'', True))\<rparr>"
  have connect: "client_step s \<lparr>currentId = cid, client = (client s)(i \<mapsto> (cid, True))\<rparr>"
    if "client s i = None" "currentId s = [] \<or> currentId s = cid" for s i cid
    using client_step.connect [OF that(1), of cid ?w True "?w\<lparr>connectionId := cid\<rparr>"] that(2)
    by (auto simp: checkConnectionID_def)
  have "client_step no_clients ?one" by (rule connect) (simp_all add: no_clients_def)
  moreover have "client_step ?one ?two" by (rule connect) (simp_all add: no_clients_def)
  moreover have "client_step ?two ?three"
  proof -
    obtain w' where "onDisconnect (?w\<lparr>connectionId := currentId ?two\<rparr>) = (Ret (), w')"
      by (simp add: onDisconnect_def SendAppDisconnected_def bindM_def tryM_def EngineProto_Write_def
          rand_Uint64_def EngineProto_WriteWithID_def proto_conn_write_def gateway_at_rest_def
          next_fault_def returnM_def)
    from client_step.leave_primary [of ?two 0 "''a''", OF _ this] onDisconnect_result [OF this]
    show ?thesis by simp
  qed
  moreover have "client_step ?three ?four" by (rule connect) (simp_all add: no_clients_def)
  ultimately have "client_step\<^sup>*\<^sup>* no_clients ?four" by (rule four_steps)
  then show ?thesis by (intro exI [of _ ?four]) simp
qed

end
