(* ===== verification/Feed_Loops.thy ===== *)
theory Feed_Loops
  imports Event_Stream
begin

text \<open>
  The loops of the streaming handlers: they wait on one channel of the proto manager, and on
  whatever else may wake them, and turn each thing that wakes them into messages for the client.
  \<open>select_loop_out\<close> computes what such a loop sends, from what the engine's blocks carry and a pure
  description of one round.
\<close>

section \<open>The loop\<close>

definition proto_select :: "(arrival \<Rightarrow> bool) \<Rightarrow> nat \<Rightarrow> (gateway, gateway_wrapper wake) go" where
  "proto_select wakes c w = mgr_select proto_mgr put_proto wakes c (arrivals w) w"

definition select_body ::
    "(arrival \<Rightarrow> bool) \<Rightarrow> nat \<Rightarrow> (gateway_wrapper wake \<Rightarrow> 's \<Rightarrow> (gateway, 's + 'r) go) \<Rightarrow> 's \<Rightarrow> (gateway, 's + 'r) go" where
  "select_body wakes c handle s = bindM (proto_select wakes c) (\<lambda>k. handle k s)"

definition select_loop ::
    "(arrival \<Rightarrow> bool) \<Rightarrow> nat \<Rightarrow> (gateway_wrapper wake \<Rightarrow> 's \<Rightarrow> (gateway, 's + 'r) go) \<Rightarrow> 's \<Rightarrow> (gateway, 'r) go" where
  "select_loop wakes c handle = chan_loop proto_mgr c (select_body wakes c handle)"

lemma ok_select_loop:
  assumes "\<And>k s. proto.typed_wake t wakes k \<Longrightarrow> P s \<Longrightarrow> safe (handle k s) (case_sum P Q)" "P s"
  shows "ok (\<lambda>w. typed_chan wrapper_type t c (proto_mgr w)) (select_loop wakes c handle s) Q"
  unfolding select_loop_def
proof (rule ok_chan_loop [where P = P])
  show "ok (\<lambda>w. typed_chan wrapper_type t c (proto_mgr w)) (select_body wakes c handle s) (case_sum P Q)"
    if "P s" for s
    unfolding select_body_def proto_select_def
    by (rule ok_bind [OF proto.ok_select_now _ proto.stable_typed]) (rule ok_True [OF assms(1) [OF _ that]])
qed (use assms(2) in auto)

section \<open>States that differ in what a loop changes\<close>

definition same_feed :: "gateway \<Rightarrow> gateway \<Rightarrow> bool" where
  "same_feed w v \<longleftrightarrow> (\<exists>p q a b as out. v = w\<lparr>proto_mgr := p, clad_mgr := q, proto_alive := a,
     clad_alive := b, arrivals := as, stream_out := out\<rparr>)"

lemma same_feedI:
  "v = w\<lparr>proto_mgr := p, clad_mgr := q, proto_alive := a, clad_alive := b, arrivals := as,
     stream_out := out\<rparr> \<Longrightarrow> same_feed w v"
  unfolding same_feed_def by (intro exI)

lemma same_feed_refl [simp]: "same_feed w w"
  by (rule same_feedI [where p = "proto_mgr w" and q = "clad_mgr w" and a = "proto_alive w"
        and b = "clad_alive w" and as = "arrivals w" and out = "stream_out w"]) simp

lemma same_feed_trans: "same_feed u v \<Longrightarrow> same_feed v w \<Longrightarrow> same_feed u w"
  unfolding same_feed_def by (elim exE) (simp, blast)

lemma same_io_feed: "same_io w v \<Longrightarrow> same_feed w (v\<lparr>arrivals := as, stream_out := out\<rparr>)"
  unfolding same_io_def by (elim exE) (rule same_feedI, simp)

lemma same_feedD:
  assumes "same_feed w v"
  shows "proto_sock v = proto_sock w" "clad_sock v = clad_sock w" "write_faults v = write_faults w"
    "stream_fates v = stream_fates w" "rand_source v = rand_source w" "rand_next v = rand_next w"
    "marshal v = marshal w" "unmarshal v = unmarshal w"
  using assms by (auto simp: same_feed_def)

lemma waiting_upd:
  assumes "waiting w0 t c n w"
  shows "waiting w0 t c n (w\<lparr>arrivals := as, stream_out := out\<rparr>)"
proof -
  have "carried (w\<lparr>arrivals := as, stream_out := out\<rparr>) = carried w" by (rule carried_codec) simp_all
  then show ?thesis using assms by (simp add: waiting_def wf_gateway_def roomy_def)
qed

lemma shrinks_upd: "shrinks w v \<Longrightarrow> shrinks w (v\<lparr>arrivals := as, stream_out := out\<rparr>)"
  using shrinks_trans [of w v "v\<lparr>arrivals := as, stream_out := out\<rparr>"] same_mgrs_good(2)
  by (simp add: same_mgrs_def)

section \<open>One wait\<close>

lemma waiting_blocks: "waiting w0 t c n w \<Longrightarrow> receive_reg c (proto_mgr w) = (WouldBlock, proto_mgr w)"
  by (simp add: waiting_def receive_reg_def)

lemma waiting_quiet:
  assumes w: "waiting w0 t c n w" and q: "quiet_proto t (carried w0 a)"
  obtains v where "arrive a w = (Ret (), v)" "waiting w0 t c n v" "same_io w v" "shrinks w v"
proof -
  from w have W: "wf_gateway w" "roomy w" "proto_alive w" "c \<in> set (listeners (proto_mgr w) t)"
    and car: "carried w = carried w0" by (simp_all add: waiting_def)
  from proto.quiet_step [OF W, of a] q car obtain v where
    v: "arrive a w = (Ret (), v)" "proto_alive v" "same_io w v" "wf_gateway v" "shrinks w v"
      "c \<in> set (listeners (proto_mgr v) t)" "chans (proto_mgr v) c = chans (proto_mgr w) c"
    by auto
  have "waiting w0 t c n v"
    using w v roomy_shrinks [OF W(1) v(4,5) W(2)] same_io_carried [OF v(3)] by (simp add: waiting_def)
  with that v show thesis by blast
qed

lemma waiting_message:
  assumes w: "waiting w0 t c n w" and n: "0 < n" and a: "carried w0 a = ToProto m" "wrapper_type m = t"
    and "\<not> wakes a"
  obtains v where "mgr_select proto_mgr put_proto wakes c (a # as) w = (Ret (GotMessage m), v\<lparr>arrivals := as\<rparr>)"
    "waiting w0 t c n v" "same_io w v" "shrinks w v"
proof -
  have "\<exists>v. mgr_select proto_mgr put_proto wakes c ([] @ a # as) w = (Ret (GotMessage m), v\<lparr>arrivals := as\<rparr>) \<and>
    same_io w v \<and> wf_gateway v \<and> shrinks w v \<and> c \<in> set (listeners (proto_mgr v) (wrapper_type m)) \<and>
    chans (proto_mgr v) c = Some \<lparr>cap = n, buf = [], closed = False\<rparr> \<and> proto_alive v"
    using w n a assms(5) by (intro proto.select_answer) (auto simp: waiting_def)
  then obtain v where v: "mgr_select proto_mgr put_proto wakes c (a # as) w = (Ret (GotMessage m), v\<lparr>arrivals := as\<rparr>)"
    "same_io w v" "wf_gateway v" "shrinks w v" "c \<in> set (listeners (proto_mgr v) (wrapper_type m))"
    "chans (proto_mgr v) c = Some \<lparr>cap = n, buf = [], closed = False\<rparr>" "proto_alive v" by auto
  have "roomy v" using roomy_shrinks [OF _ v(3,4)] w by (simp add: waiting_def)
  then have "waiting w0 t c n v"
    using v w a same_io_carried [OF v(2)] by (simp add: waiting_def)
  with that v show thesis by blast
qed

section \<open>A whole loop\<close>

text \<open>What wakes the loop, of an arrival.\<close>

definition wake_of ::
    "(arrival \<Rightarrow> delivery) \<Rightarrow> oneof_type \<Rightarrow> (arrival \<Rightarrow> bool) \<Rightarrow> arrival \<Rightarrow> gateway_wrapper wake list" where
  "wake_of car t wakes a = (if wakes a then [Woken a] else case car a of
      ToProto m \<Rightarrow> if wrapper_type m = t then [GotMessage m] else []
    | _ \<Rightarrow> [])"

definition wakes_in ::
    "(arrival \<Rightarrow> delivery) \<Rightarrow> oneof_type \<Rightarrow> (arrival \<Rightarrow> bool) \<Rightarrow> arrival list \<Rightarrow> gateway_wrapper wake list" where
  "wakes_in car t wakes as = concat (map (wake_of car t wakes) as)"

text \<open>The proto loop does not end and nothing crashes it.\<close>

definition tame :: "delivery \<Rightarrow> bool" where
  "tame d \<longleftrightarrow> d \<noteq> EndsProto \<and> d \<noteq> Crashes"

text \<open>
  A round as a pure function: the new loop state or the result, and what is sent. The rounds go on
  until one gives a result.
\<close>

fun rounds :: "('k \<Rightarrow> 's \<Rightarrow> ('s + 'r) \<times> stream_msg list) \<Rightarrow> 'k list \<Rightarrow> 's \<Rightarrow> ('s + 'r) \<times> stream_msg list" where
  "rounds p [] s = (Inl s, [])"
| "rounds p (k # ks) s = (case p k s of
      (Inl s', out) \<Rightarrow> (let (r, outs) = rounds p ks s' in (r, out @ outs))
    | (Inr r, out) \<Rightarrow> (Inr r, out))"

text \<open>The rounds are as \<open>p\<close> says, where \<open>G\<close> holds.\<close>

definition described ::
    "('k \<Rightarrow> 's \<Rightarrow> (gateway, 's + 'r) go) \<Rightarrow> ('k \<Rightarrow> 's \<Rightarrow> ('s + 'r) \<times> stream_msg list) \<Rightarrow> ('k \<Rightarrow> 's \<Rightarrow> bool) \<Rightarrow> bool" where
  "described handle p G \<longleftrightarrow> (\<forall>k s u. stream_fates u = [] \<longrightarrow> G k s \<longrightarrow>
     handle k s u = (Ret (fst (p k s)), u\<lparr>stream_out := stream_out u @ snd (p k s)\<rparr>))"

fun guarded :: "('k \<Rightarrow> 's \<Rightarrow> ('s + 'r) \<times> stream_msg list) \<Rightarrow> ('k \<Rightarrow> 's \<Rightarrow> bool) \<Rightarrow> 'k list \<Rightarrow> 's \<Rightarrow> bool" where
  "guarded p G [] s = True"
| "guarded p G (k # ks) s = (G k s \<and> (case fst (p k s) of Inl s' \<Rightarrow> guarded p G ks s' | Inr _ \<Rightarrow> True))"

definition outcome_of :: "'s + 'r \<Rightarrow> 'r outcome" where
  "outcome_of x = (case x of Inl _ \<Rightarrow> Blocked | Inr r \<Rightarrow> Ret r)"

definition select_wait where
  "select_wait wakes c handle n s arrs = bindM (mgr_select proto_mgr put_proto wakes c arrs) (\<lambda>k.
     bindM (handle k s) (\<lambda>r. case r of Inl s' \<Rightarrow> loopM n (select_body wakes c handle) s' | Inr a \<Rightarrow> returnM a))"

lemma loop_select_wait:
  "loopM (Suc n) (select_body wakes c handle) s w = select_wait wakes c handle n s (arrivals w) w"
  by (simp add: select_wait_def select_body_def proto_select_def bindM_def
      split: prod.split outcome.split)

lemma select_wait_out:
  assumes t: "t \<noteq> EventType" and n: "0 < n" and d: "described handle p G"
    and "waiting w0 t c n w" "stream_fates w = []" "length arrs \<le> fuel"
    and "list_all (\<lambda>a. tame (carried w0 a)) arrs" "guarded p G (wakes_in (carried w0) t wakes arrs) s"
  shows "\<exists>w'. select_wait wakes c handle fuel s arrs w =
      (outcome_of (fst (rounds p (wakes_in (carried w0) t wakes arrs) s)), w') \<and>
    stream_out w' = stream_out w @ snd (rounds p (wakes_in (carried w0) t wakes arrs) s) \<and>
    same_feed w w' \<and> waiting w0 t c n w' \<and> shrinks w w'"
  using assms(4-)
proof (induction arrs arbitrary: fuel s w)
  case Nil
  have "same_feed w (w\<lparr>arrivals := []\<rparr>)" "waiting w0 t c n (w\<lparr>arrivals := []\<rparr>)" "shrinks w (w\<lparr>arrivals := []\<rparr>)"
    using waiting_upd [OF Nil.prems(1), where as = "[]" and out = "stream_out w"]
      same_io_feed [where as = "[]" and out = "stream_out w", OF same_io_refl [of w]]
      shrinks_upd [where as = "[]" and out = "stream_out w", OF shrinks_refl [of w]] by simp_all
  then show ?case
    by (simp add: select_wait_def bindM_def mgr_select.simps [of _ _ _ _ "[]"] waiting_blocks [OF Nil.prems(1)]
        wakes_in_def outcome_of_def)
next
  case (Cons a as)
  from Cons.prems(3) obtain j where fuel: "fuel = Suc j" "length as \<le> j" by (cases fuel) auto
  have tame: "tame (carried w0 a)" "list_all (\<lambda>a. tame (carried w0 a)) as" using Cons.prems(4) by simp_all
  let ?ks = "wakes_in (carried w0) t wakes as"
  have woken: ?case if k: "wake_of (carried w0) t wakes a = [k]"
    and sel: "mgr_select proto_mgr put_proto wakes c (a # as) w = (Ret k, v\<lparr>arrivals := as\<rparr>)"
      "waiting w0 t c n v" "same_io w v" "shrinks w v" for k v
  proof -
    have ks: "wakes_in (carried w0) t wakes (a # as) = k # ?ks" using k by (simp add: wakes_in_def)
    let ?v = "v\<lparr>arrivals := as, stream_out := stream_out v @ snd (p k s)\<rparr>"
    have fates: "stream_fates v = []" and out: "stream_out v = stream_out w"
      using same_ioD [OF sel(3)] Cons.prems(2) by simp_all
    have "handle k s (v\<lparr>arrivals := as\<rparr>) = (Ret (fst (p k s)), ?v)"
      using d Cons.prems(5) fates unfolding ks described_def by simp
    moreover have "loopM fuel (select_body wakes c handle) s' ?v = select_wait wakes c handle j s' as ?v" for s'
      by (simp add: fuel(1) loop_select_wait del: loopM.simps)
    ultimately have run: "select_wait wakes c handle fuel s (a # as) w = (case fst (p k s) of
        Inl s' \<Rightarrow> select_wait wakes c handle j s' as ?v | Inr r \<Rightarrow> (Ret r, ?v))"
      by (subst select_wait_def) (simp add: bindM_def sel(1) returnM_def split: sum.split)
    have V: "waiting w0 t c n ?v" "same_feed w ?v" "shrinks w ?v"
      by (rule waiting_upd [OF sel(2)], rule same_io_feed [OF sel(3)], rule shrinks_upd [OF sel(4)])
    show ?case
    proof (cases "p k s")
      case (Pair x out')
      show ?thesis
      proof (cases x)
        case (Inr r)
        then show ?thesis using V by (simp add: run ks Pair outcome_of_def out)
      next
        case (Inl s')
        have "\<exists>w'. select_wait wakes c handle j s' as ?v = (outcome_of (fst (rounds p ?ks s')), w') \<and>
          stream_out w' = stream_out ?v @ snd (rounds p ?ks s') \<and>
          same_feed ?v w' \<and> waiting w0 t c n w' \<and> shrinks ?v w'"
          using Cons.prems(5) unfolding ks
          by (intro Cons.IH V(1) tame(2) fuel(2)) (simp_all add: fates Pair Inl)
        then show ?thesis
          using same_feed_trans [OF V(2)] shrinks_trans [OF V(3)]
          by (auto simp: run ks Pair Inl out split: prod.split)
      qed
    qed
  qed
  show ?case
  proof (cases "wakes a")
    case True
    have "mgr_select proto_mgr put_proto wakes c (a # as) w = (Ret (Woken a), w\<lparr>arrivals := as\<rparr>)"
      by (simp add: mgr_select.simps [of _ _ _ _ "_ # as"] waiting_blocks [OF Cons.prems(1)] True)
    from woken [OF _ this Cons.prems(1) same_io_refl shrinks_refl] show ?thesis by (simp add: wake_of_def True)
  next
    case wk: False
    show ?thesis
    proof (cases "quiet_proto t (carried w0 a)")
      case True
      obtain v where v: "arrive a w = (Ret (), v)" "waiting w0 t c n v" "same_io w v" "shrinks w v"
        by (rule waiting_quiet [OF Cons.prems(1) True])
      have "select_wait wakes c handle fuel s (a # as) w = select_wait wakes c handle fuel s as v"
        by (simp add: select_wait_def bindM_def mgr_select.simps [of _ _ _ _ "a # as"]
            waiting_blocks [OF Cons.prems(1)] wk v(1))
      moreover have ks: "wakes_in (carried w0) t wakes (a # as) = ?ks"
        using True wk by (auto simp: wakes_in_def wake_of_def quiet_proto_def split: delivery.splits)
      moreover have fates: "stream_fates v = []" and out: "stream_out v = stream_out w"
        using same_ioD [OF v(3)] Cons.prems(2) by simp_all
      moreover have "same_feed w v"
        using same_io_feed [where as = "arrivals v" and out = "stream_out v", OF v(3)] by simp
      moreover have "\<exists>w'. select_wait wakes c handle fuel s as v = (outcome_of (fst (rounds p ?ks s)), w') \<and>
          stream_out w' = stream_out v @ snd (rounds p ?ks s) \<and>
          same_feed v w' \<and> waiting w0 t c n w' \<and> shrinks v w'"
        using Cons.prems(5) fuel unfolding ks by (intro Cons.IH v(2) fates tame(2)) simp_all
      ultimately show ?thesis
        unfolding ks by (elim exE conjE) (intro exI conjI, simp_all, erule (1) same_feed_trans,
          erule shrinks_trans [OF v(4)])
    next
      case False
      then obtain m where m: "carried w0 a = ToProto m" "wrapper_type m = t"
        using tame(1) t by (auto simp: quiet_proto_def tame_def split: delivery.splits)
      obtain v where "mgr_select proto_mgr put_proto wakes c (a # as) w = (Ret (GotMessage m), v\<lparr>arrivals := as\<rparr>)"
        "waiting w0 t c n v" "same_io w v" "shrinks w v"
        by (rule waiting_message [where as = as and wakes = wakes, OF Cons.prems(1) n m wk])
      from woken [OF _ this] show ?thesis by (simp add: wake_of_def wk m)
    qed
  qed
qed

lemma select_loop_out:
  assumes "t \<noteq> EventType" "0 < n" "described handle p G" "waiting w0 t c n w" "stream_fates w = []"
    and "list_all (\<lambda>a. tame (carried w0 a)) (arrivals w)"
    and "guarded p G (wakes_in (carried w0) t wakes (arrivals w)) s"
  shows "\<exists>w'. select_loop wakes c handle s w =
      (outcome_of (fst (rounds p (wakes_in (carried w0) t wakes (arrivals w)) s)), w') \<and>
    stream_out w' = stream_out w @ snd (rounds p (wakes_in (carried w0) t wakes (arrivals w)) s) \<and>
    same_feed w w' \<and> waiting w0 t c n w' \<and> shrinks w w'"
  unfolding select_loop_def chan_loop_def loop_select_wait
  by (rule select_wait_out [OF assms(1-5) _ assms(6,7)]) (simp add: chan_budget_def)

end
