(* ===== verification/Kept_Relations.thy ===== *)
theory Kept_Relations
  imports Feed_Loops
begin

text \<open>
  What a handler never changes, however it ends. \<open>kept\<close> is the interface: a reflexive and transitive
  relation on gateway states that allows what waiting and the registries change. Everything that
  the handlers are built from keeps such a relation. It is interpreted for the settings of the
  wire (the encoder, and that no write fails) and for the datagrams written so far.
\<close>

lemma same_feed_put [simp]: "same_feed w (put_proto p w)" "same_feed w (put_clad q w)"
  "same_feed w (w\<lparr>arrivals := as\<rparr>)"
  using same_io_feed [where as = "arrivals w" and out = "stream_out w", OF same_io_proto [of w p]]
    same_io_feed [where as = "arrivals w" and out = "stream_out w", OF same_io_clad [of w q]]
    same_io_feed [where as = as and out = "stream_out w", OF same_io_refl [of w]]
  by simp_all

lemma same_feed_arrive: "same_feed w (snd (arrive a w))"
proof -
  have send: "same_feed w (snd (mgr_SendToListeners proto_mgr put_proto t m w))"
    "same_feed w (snd (mgr_SendToListeners clad_mgr put_clad u x w))" for t m u x
    by (simp_all add: mgr_SendToListeners_def split: send_result.splits)
  have dead: "same_feed w (w\<lparr>proto_alive := False\<rparr>)" "same_feed w (w\<lparr>clad_alive := False\<rparr>)"
    by (rule same_feedI [where p = "proto_mgr w" and q = "clad_mgr w" and a = False
        and b = "clad_alive w" and as = "arrivals w" and out = "stream_out w"], simp)
      (rule same_feedI [where p = "proto_mgr w" and q = "clad_mgr w" and a = "proto_alive w"
        and b = False and as = "arrivals w" and out = "stream_out w"], simp)
  show ?thesis
    using send dead
    by (cases a) (auto simp: arrive_def returnM_def EngineProto_ProcessBlock_def EngineClad_ProcessBlock_eq
        EngineProto_SendToListeners_def EngineClad_SendToListeners_def SendEventToChannel_def
        split: option.splits)
qed

lemma same_feed_select_proto: "same_feed w (snd (mgr_select proto_mgr put_proto wakes c arrs w))"
proof (induction arrs arbitrary: w)
  case Nil
  show ?case
    using same_feed_trans [OF same_feed_put(1) same_feed_put(3)]
    by (auto simp: mgr_select.simps [of _ _ _ _ "[]"] split: prod.split recv_result.split)
next
  case (Cons a as)
  obtain r v where v: "arrive a w = (r, v)" by fastforce
  have "same_feed w v" using same_feed_arrive [of w a] v by simp
  then show ?case
    using same_feed_trans [OF same_feed_put(1) same_feed_put(3)] same_feed_trans [OF _ Cons.IH]
    by (auto simp: mgr_select.simps [of _ _ _ _ "a # as"] bindM_def v split: prod.split recv_result.split outcome.split)
qed

locale kept =
  fixes R :: "gateway \<Rightarrow> gateway \<Rightarrow> bool"
  assumes R_refl: "R w w"
    and R_trans: "R u v \<Longrightarrow> R v w \<Longrightarrow> R u w"
    and R_feed: "same_feed w v \<Longrightarrow> R w v"
begin

definition always :: "(gateway, 'a) go \<Rightarrow> bool" where
  "always m \<longleftrightarrow> (\<forall>w. R w (snd (m w)))"

lemma alwaysI: "(\<And>w. R w (snd (m w))) \<Longrightarrow> always m"
  by (simp add: always_def)

lemma alwaysD: "always m \<Longrightarrow> m w = (r, w') \<Longrightarrow> R w w'"
  unfolding always_def by (metis snd_conv)

lemma always_simple [simp]: "always (returnM a)" "always (failM e)" "always panicM"
  by (simp_all add: always_def go_defs R_refl)

lemma always_bind:
  assumes "always m" "\<And>a. always (k a)"
  shows "always (bindM m k)"
proof (rule alwaysI)
  fix w
  obtain r v where m: "m w = (r, v)" by fastforce
  show "R w (snd (bindM m k w))"
    using alwaysD [OF assms(1) m] assms(2) R_trans
    by (cases r) (auto simp: bindM_def m always_def)
qed

lemma always_defer:
  assumes "always f" "always m"
  shows "always (deferM f m)"
proof (rule alwaysI)
  fix w
  obtain r v where m: "m w = (r, v)" by fastforce
  obtain s u where f: "f v = (s, u)" by fastforce
  show "R w (snd (deferM f m w))"
    using alwaysD [OF assms(2) m] R_trans [OF alwaysD [OF assms(2) m] alwaysD [OF assms(1) f]]
    by (cases r; cases s) (auto simp: deferM_def m f)
qed

lemma always_loopM:
  assumes "\<And>s. always (body s)"
  shows "always (loopM n body s)"
proof (induction n arbitrary: s)
  case 0
  show ?case by (simp add: always_def R_refl)
next
  case (Suc n)
  have "always (bindM (body s) (\<lambda>r. case r of Inl s' \<Rightarrow> loopM n body s' | Inr a \<Rightarrow> returnM a))"
    by (rule always_bind [OF assms]) (auto intro: Suc.IH split: sum.split)
  then show ?case by (simp add: always_def)
qed

lemma always_chan_loop: "(\<And>s. always (body s)) \<Longrightarrow> always (chan_loop get c body s)"
  using always_loopM [of body] by (simp add: always_def chan_loop_def del: loopM.simps)

lemma always_select: "always (proto_select wakes c)"
  using same_feed_select_proto R_feed by (simp add: always_def proto_select_def)

lemma always_select_loop: "(\<And>k s. always (handle k s)) \<Longrightarrow> always (select_loop wakes c handle s)"
  unfolding select_loop_def select_body_def
  by (intro always_chan_loop always_bind [OF always_select])

lemma always_recv: "always (proto_recv c)"
proof -
  have "always (\<lambda>v. mgr_select proto_mgr put_proto (\<lambda>_. False) c (arrivals v) v)"
    using same_feed_select_proto R_feed by (simp add: always_def)
  then have "always (bindM (\<lambda>v. mgr_select proto_mgr put_proto (\<lambda>_. False) c (arrivals v) v) (\<lambda>k. case k of
      GotMessage x \<Rightarrow> returnM (Some x) | _ \<Rightarrow> returnM None))"
    by (rule always_bind) (simp split: wake.split)
  then show ?thesis by (simp add: always_def proto_recv_def mgr_recv_def)
qed

lemma always_recv_or_fail: "always (recv_or_fail c)"
  unfolding recv_or_fail_def by (rule always_bind [OF always_recv]) (simp split: option.split)

lemma always_create: "always (EngineProto_CreateChannel t n)" "always (EngineProto_deleteListenerCallback c t)"
  by (auto simp: always_def EngineProto_CreateChannel_def mgr_CreateChannel_def Let_def
      EngineProto_deleteListenerCallback_def mgr_deleteListenerCallback_def R_refl R_feed
      split: prod.split option.split)

lemma always_with_channel: "(\<And>c. always (body c)) \<Longrightarrow> always (with_channel t n body)"
  unfolding with_channel_def by (intro always_bind always_create always_defer)

end

text \<open>The wire: the encoder stays, and if no write fails this stays so.\<close>

definition same_wire :: "gateway \<Rightarrow> gateway \<Rightarrow> bool" where
  "same_wire w v \<longleftrightarrow> marshal v = marshal w \<and> (write_faults w = [] \<longrightarrow> write_faults v = [])"

interpretation wire: kept same_wire
  by unfold_locales (auto simp: same_wire_def same_feedD)

definition same_sock :: "gateway \<Rightarrow> gateway \<Rightarrow> bool" where
  "same_sock w v \<longleftrightarrow> proto_sock v = proto_sock w \<and> clad_sock v = clad_sock w"

interpretation sock: kept same_sock
  by unfold_locales (auto simp: same_sock_def same_feedD)

lemma wire_Write: "wire.always (EngineProto_Write x)"
proof -
  have "wire.always rand_Uint64" "wire.always (EngineProto_WriteWithID m i)" for m i
    by (auto simp: wire.always_def rand_Uint64_def EngineProto_WriteWithID_def proto_conn_write_def Let_def
        same_wire_def split: option.split)
  then show ?thesis unfolding EngineProto_Write_def by (intro wire.always_bind) simp_all
qed

lemma wire_proto_call: "(\<And>m. wire.always (k m)) \<Longrightarrow> wire.always (proto_call t x k)"
  unfolding proto_call_def
  by (intro wire.always_with_channel wire.always_bind wire_Write wire.always_recv_or_fail)

lemma stream_Send_kept: "wire.always (stream_Send x)" "sock.always (stream_Send x)"
  by (auto simp: wire.always_def sock.always_def stream_Send_def Let_def same_wire_def same_sock_def
      split: send_fate.split)

text \<open>With a wire in order, the last datagram after a call, however it ended, is its request.\<close>

definition encodable :: "gateway \<Rightarrow> bool" where
  "encodable w \<longleftrightarrow> write_faults w = [] \<and> (\<forall>m. marshal w m \<noteq> None)"

definition last_written :: "gateway \<Rightarrow> oneof \<Rightarrow> gateway \<Rightarrow> bool" where
  "last_written w x w' \<longleftrightarrow> (\<exists>i d. marshal w \<lparr>ConnectionId = i, OneofMessageType = Some x\<rparr> = Some d \<and>
     proto_sock w' \<noteq> [] \<and> last (proto_sock w') = frame d)"

lemma same_wire_encodable: "same_wire w v \<Longrightarrow> encodable w \<Longrightarrow> encodable v"
  by (simp add: same_wire_def encodable_def)

lemma Write_last:
  assumes "encodable w"
  obtains v where "EngineProto_Write x w = (Ret (rand_source w (rand_next w)), v)" "last_written w x v"
proof -
  obtain d where d: "marshal w \<lparr>ConnectionId = rand_source w (rand_next w), OneofMessageType = Some x\<rparr> = Some d"
    using assms by (auto simp: encodable_def)
  then have "written w x d" using assms by (simp add: written_def encodable_def next_fault_def)
  from Write_written [OF this] d that show thesis by (auto simp: last_written_def)
qed

lemma call_last:
  assumes enc: "encodable w" and k: "\<And>m. sock.always (k m)" and run: "proto_call t x k w = (r, w')"
  shows "last_written w x w'"
proof -
  obtain c p where cp: "EngineProto_CreateChannel t 1 w = (Ret c, put_proto p w)"
    by (cases "CreateChannel_reg t 1 (proto_mgr w)")
      (simp add: EngineProto_CreateChannel_def mgr_CreateChannel_def del: One_nat_def)
  have "encodable (put_proto p w)" using enc by (simp add: encodable_def)
  from Write_last [OF this, of x] obtain v where
    v: "EngineProto_Write x (put_proto p w) = (Ret (rand_source w (rand_next w)), v)" "last_written w x v"
    by (auto simp: last_written_def)
  let ?rest = "bindM (recv_or_fail c) k"
  have rest: "sock.always ?rest" by (intro sock.always_bind sock.always_recv_or_fail k)
  have "proto_call t x k w = deferM (EngineProto_deleteListenerCallback c t) (\<lambda>_. ?rest v) (put_proto p w)"
    unfolding proto_call_def with_channel_def by (subst bindM_def) (simp add: cp bindM_def [of "EngineProto_Write x"] v deferM_def del: One_nat_def)
  also have "\<dots> = deferM (EngineProto_deleteListenerCallback c t) ?rest v" by (simp add: deferM_def)
  finally have "same_sock v w'"
    using sock.alwaysD [OF sock.always_defer [OF sock.always_create(2) rest]] run by metis
  then show ?thesis using v(2) by (simp add: last_written_def same_sock_def)
qed

text \<open>What is deferred runs however the rest ends, unless the rest waits for ever.\<close>

lemma deferred_last:
  assumes run: "deferM f m w = (r, w')" "r \<noteq> Blocked" "r \<noteq> Crash"
    and m: "wire.always m" and enc: "encodable w"
    and f: "\<And>v s u. encodable v \<Longrightarrow> f v = (s, u) \<Longrightarrow> last_written v x u"
  shows "last_written w x w'"
proof -
  obtain s v where mw: "m w = (s, v)" by fastforce
  obtain t u where fv: "f v = (t, u)" by fastforce
  have wire: "same_wire w v" using wire.alwaysD [OF m mw] .
  have "w' = u" using run mw fv by (cases s; cases t) (auto simp: deferM_def)
  moreover have "last_written v x u" using f [OF same_wire_encodable [OF wire enc] fv] .
  ultimately show ?thesis using wire by (simp add: last_written_def same_wire_def)
qed


text \<open>What evaluates a handler in a concrete gateway, for the examples.\<close>

lemmas run_defs = gateway_at_rest_def empty_manager_def listeners_def markedCapacity_def bindM_def deferM_def
  returnM_def failM_def Let_def EngineProto_Write_def rand_Uint64_def EngineProto_WriteWithID_def
  proto_conn_write_def next_fault_def with_channel_def EngineProto_CreateChannel_def mgr_CreateChannel_def
  CreateChannel_reg_def EngineProto_deleteListenerCallback_def mgr_deleteListenerCallback_def
  deleteListenerUnsafe_reg_def SafeClose_reg_def swap_remove_def receive_reg_def arrive_def
  EngineProto_ProcessBlock_def EngineProto_SendToListeners_def mgr_SendToListeners_def SendToListeners_reg_def
  mgr_select.simps [of _ _ _ _ "_ # _"] mgr_select.simps [of _ _ _ _ "[]"] proto_select_def select_loop_def
  select_body_def chan_loop_def chan_budget_def stream_Send_def next_fate_def

end
