(* ===== verification/Chunk_Assembly.thy ===== *)
theory Chunk_Assembly
  imports Engine_Messages
begin

text \<open>
  The caches of \<open>AudioFeed\<close> and \<open>CameraFeed\<close> in \<open>cloud/message_handler.go\<close>: the engine sends a
  group of audio samples, or an image, in numbered chunks, and \<open>UnpackAudioChunk\<close> and
  \<open>UnpackCameraImageChunk\<close> put them together. The lemmas compare the cache with the plain list of
  the chunks that arrived: a group is complete exactly if the chunks since the last one with
  number 0 are all of one group, in order, and the last of them is the first that says so.
\<close>

section \<open>The caches\<close>

text \<open>\<open>AudioFeedCache\<close>, and \<open>CameraFeedCache\<close>, whose \<open>ImageId\<close> is the \<open>GroupId\<close> here.\<close>

record feed_cache =
  Data :: "byte list"
  GroupId :: int32
  Invalid :: bool
  Size :: int32
  LastChunkId :: int32

definition ResetCache :: feed_cache where
  "ResetCache = \<lparr>Data = [], GroupId = -1, Invalid = False, Size = 0, LastChunkId = -1\<rparr>"

text \<open>The cache that a feed starts with: \<open>LastChunkId\<close> is not given and is 0.\<close>

definition new_cache :: feed_cache where
  "new_cache = \<lparr>Data = [], GroupId = -1, Invalid = False, Size = 0, LastChunkId = 0\<rparr>"

text \<open>\<open>make([]byte, n)\<close> on the robot's 32-bit processor: a length that is no \<open>int\<close> panics.\<close>

definition make_bytes :: "uint32 \<Rightarrow> byte list option" where
  "make_bytes n = (if unat n < 2 ^ 31 then Some (replicate (unat n) 0) else None)"

text \<open>\<open>copy(data[lo:hi], src)\<close>: the slice expression panics when it is out of range.\<close>

definition copy_slice :: "byte list \<Rightarrow> int32 \<Rightarrow> int32 \<Rightarrow> byte list \<Rightarrow> byte list option" where
  "copy_slice d lo hi src =
     (if 0 \<le> sint lo \<and> sint lo \<le> sint hi \<and> sint hi \<le> int (length d) then
        (let a = nat (sint lo); n = min (nat (sint hi) - a) (length src)
         in Some (take a d @ take n src @ drop (a + n) d))
      else None)"

text \<open>Is the group ready, and the cache afterwards; \<open>None\<close> is a panic.\<close>

definition UnpackAudioChunk :: "audio_chunk \<Rightarrow> feed_cache \<Rightarrow> (bool \<times> feed_cache) option" where
  "UnpackAudioChunk audioChunk cache =
     (let groupId = acGroupId audioChunk; chunkId = acChunkId audioChunk;
          cache = (if GroupId cache \<noteq> -1 \<and> chunkId = 0 then cache\<lparr>GroupId := -1\<rparr> else cache)
      in if GroupId cache = -1 \<and> chunkId \<noteq> 0 then Some (False, cache\<lparr>Invalid := True\<rparr>)
      else case (if GroupId cache = -1 then
                   map_option (\<lambda>d. ResetCache\<lparr>Data := d, GroupId := groupId\<rparr>) (make_bytes (1600 * 2))
                 else Some cache) of
        None \<Rightarrow> None
      | Some cache \<Rightarrow>
          if chunkId \<noteq> LastChunkId cache + 1 \<or> groupId \<noteq> GroupId cache then
            Some (False, ResetCache\<lparr>Invalid := True\<rparr>)
          else let dataSize = of_nat (length (acSignalPower audioChunk)) in
            (case copy_slice (Data cache) (Size cache) (Size cache + dataSize) (acSignalPower audioChunk) of
               None \<Rightarrow> None
             | Some d \<Rightarrow> Some (chunkId = acAudioChunkCount audioChunk - 1,
                 cache\<lparr>Data := d, Size := Size cache + dataSize, LastChunkId := chunkId\<rparr>)))"

definition UnpackCameraImageChunk :: "image_chunk \<Rightarrow> feed_cache \<Rightarrow> (bool \<times> feed_cache) option" where
  "UnpackCameraImageChunk imageChunk cache =
     (let imageId = icImageId imageChunk; chunkId = icChunkId imageChunk;
          cache = (if GroupId cache \<noteq> -1 \<and> chunkId = 0 then cache\<lparr>GroupId := -1\<rparr> else cache)
      in if GroupId cache = -1 \<and> chunkId \<noteq> 0 then Some (False, cache\<lparr>Invalid := True\<rparr>)
      else case (if GroupId cache = -1 then
                   map_option (\<lambda>d. ResetCache\<lparr>Data := d, GroupId := imageId\<rparr>)
                     (make_bytes (icWidth imageChunk * icHeight imageChunk * 3))
                 else Some cache) of
        None \<Rightarrow> None
      | Some cache \<Rightarrow>
          if chunkId \<noteq> LastChunkId cache + 1 \<or> imageId \<noteq> GroupId cache then
            Some (False, ResetCache\<lparr>Invalid := True\<rparr>)
          else let dataSize = of_nat (length (icData imageChunk)) in
            (case copy_slice (Data cache) (Size cache) (Size cache + dataSize) (icData imageChunk) of
               None \<Rightarrow> None
             | Some d \<Rightarrow> Some (chunkId = icImageChunkCount imageChunk - 1,
                 cache\<lparr>Data := d, Size := Size cache + dataSize, LastChunkId := chunkId\<rparr>)))"

text \<open>\<open>cache.Data[0:cache.Size]\<close>\<close>

definition cached :: "feed_cache \<Rightarrow> byte list" where
  "cached cache = take (nat (sint (Size cache))) (Data cache)"

section \<open>Groups of chunks\<close>

text \<open>What both kinds of chunk have: the buffer that a first chunk makes is \<open>cvRoom\<close>.\<close>

record chunk_view =
  cvGroup :: int32
  cvChunk :: int32
  cvCount :: uint32
  cvPayload :: "byte list"
  cvRoom :: uint32

definition audio_view :: "audio_chunk \<Rightarrow> chunk_view" where
  "audio_view c = \<lparr>cvGroup = acGroupId c, cvChunk = acChunkId c, cvCount = acAudioChunkCount c,
     cvPayload = acSignalPower c, cvRoom = 1600 * 2\<rparr>"

definition image_view :: "image_chunk \<Rightarrow> chunk_view" where
  "image_view c = \<lparr>cvGroup = icImageId c, cvChunk = icChunkId c, cvCount = icImageChunkCount c,
     cvPayload = icData c, cvRoom = icWidth c * icHeight c * 3\<rparr>"

text \<open>The chunks from the last one with number 0 on.\<close>

definition since_start :: "chunk_view list \<Rightarrow> chunk_view list" where
  "since_start h = (case dropWhile (\<lambda>c. cvChunk c \<noteq> 0) (rev h) of
      [] \<Rightarrow> [] | s # _ \<Rightarrow> s # rev (takeWhile (\<lambda>c. cvChunk c \<noteq> 0) (rev h)))"

definition is_last :: "chunk_view \<Rightarrow> bool" where
  "is_last c \<longleftrightarrow> cvChunk c = cvCount c - 1"

definition in_order :: "chunk_view list \<Rightarrow> bool" where
  "in_order cs \<longleftrightarrow> map cvChunk cs = map of_nat [0..<length cs] \<and>
     list_all (\<lambda>c. cvGroup c = cvGroup (hd cs)) cs"

text \<open>
  The group that the last chunk of \<open>h\<close> belongs to, so far, or none. A group with the number that
  marks an empty cache (\<open>0xFFFFFFFF\<close>) has one chunk only.
\<close>

definition group_of :: "chunk_view list \<Rightarrow> chunk_view list" where
  "group_of h = (let cs = since_start h in
     if cs \<noteq> [] \<and> in_order cs \<and> list_all (\<lambda>c. \<not> is_last c) (butlast cs) \<and>
        (cvGroup (hd cs) \<noteq> -1 \<or> length cs = 1) then cs else [])"

definition payload :: "chunk_view list \<Rightarrow> byte list" where
  "payload cs = concat (map cvPayload cs)"

definition completed :: "chunk_view list \<Rightarrow> byte list option" where
  "completed h = (let cs = group_of h in
     if cs \<noteq> [] \<and> is_last (last cs) then Some (payload cs) else None)"

definition too_long :: "chunk_view list \<Rightarrow> bool" where
  "too_long h \<longleftrightarrow> (let cs = group_of h in
     cs \<noteq> [] \<and> (2 ^ 31 \<le> unat (cvRoom (hd cs)) \<or> unat (cvRoom (hd cs)) < length (payload cs)))"

definition open_group :: "chunk_view list \<Rightarrow> chunk_view list" where
  "open_group h = (let cs = group_of h in
     if cs = [] \<or> is_last (last cs) \<or> cvGroup (hd cs) = -1 then [] else cs)"


lemma since_start_snoc:
  "since_start (h @ [c]) =
     (if cvChunk c = 0 then [c] else if since_start h = [] then [] else since_start h @ [c])"
proof (cases "\<forall>x \<in> set h. cvChunk x \<noteq> 0")
  case True
  then have "dropWhile (\<lambda>c. cvChunk c \<noteq> 0) (rev h) = []" by simp
  then show ?thesis by (simp add: since_start_def del: dropWhile_eq_Nil_conv)
next
  case False
  then have "dropWhile (\<lambda>c. cvChunk c \<noteq> 0) (rev h) \<noteq> []" by simp
  then obtain s r where "dropWhile (\<lambda>c. cvChunk c \<noteq> 0) (rev h) = s # r" by (meson neq_Nil_conv)
  then show ?thesis by (simp add: since_start_def)
qed

lemma in_order_snoc:
  "in_order (cs @ [c]) \<longleftrightarrow> in_order cs \<and> cvChunk c = of_nat (length cs) \<and>
     (cs \<noteq> [] \<longrightarrow> cvGroup c = cvGroup (hd cs))"
  by (cases cs) (auto simp: in_order_def)

lemma in_order_Nil [simp]: "in_order []"
  by (simp add: in_order_def)

lemma group_of_Nil [simp]: "group_of [] = []" "open_group [] = []"
  by (simp_all add: group_of_def since_start_def open_group_def)

lemma open_groupD:
  assumes "open_group h \<noteq> []"
  shows "open_group h = group_of h" "open_group h = since_start h" "in_order (open_group h)"
    "list_all (\<lambda>c. \<not> is_last c) (open_group h)" "cvGroup (hd (open_group h)) \<noteq> -1"
proof -
  show og: "open_group h = group_of h" using assms by (simp add: open_group_def Let_def split: if_splits)
  then show gs: "open_group h = since_start h"
    using assms by (simp add: group_of_def Let_def split: if_splits)
  have "group_of h \<noteq> []" using assms og by simp
  then have "in_order (since_start h)" "list_all (\<lambda>c. \<not> is_last c) (butlast (since_start h))"
    by (simp_all add: group_of_def Let_def split: if_splits)
  moreover have "\<not> is_last (last (group_of h))" "cvGroup (hd (group_of h)) \<noteq> -1"
    using assms by (simp_all add: open_group_def Let_def split: if_splits)
  ultimately show "in_order (open_group h)" "list_all (\<lambda>c. \<not> is_last c) (open_group h)"
    "cvGroup (hd (open_group h)) \<noteq> -1"
    using assms unfolding og [symmetric] gs [symmetric]
    by (simp_all, metis append_butlast_last_id list_all_append list.pred_inject)
qed

lemma open_groupI:
  assumes "group_of (h @ [c]) \<noteq> []" "cvChunk c \<noteq> 0"
  shows "open_group h \<noteq> []"
proof -
  have S: "since_start (h @ [c]) \<noteq> []" "in_order (since_start (h @ [c]))"
    "list_all (\<lambda>c. \<not> is_last c) (butlast (since_start (h @ [c])))"
    "cvGroup (hd (since_start (h @ [c]))) \<noteq> -1 \<or> length (since_start (h @ [c])) = 1"
    using assms(1) by (simp_all add: group_of_def Let_def split: if_splits)
  have ne: "since_start h \<noteq> []" using S(1) assms(2) by (simp add: since_start_snoc split: if_splits)
  then have snoc: "since_start (h @ [c]) = since_start h @ [c]" using assms(2) by (simp add: since_start_snoc)
  have T: "in_order (since_start h)" "list_all (\<lambda>c. \<not> is_last c) (since_start h)"
    "cvGroup (hd (since_start h)) \<noteq> -1"
    using S ne by (simp_all add: snoc in_order_snoc hd_append)
  then have "list_all (\<lambda>c. \<not> is_last c) (butlast (since_start h))" "\<not> is_last (last (since_start h))"
    using ne by (auto simp: list_all_iff dest: in_set_butlastD)
  then show ?thesis using T ne by (simp add: open_group_def group_of_def)
qed

lemma group_of_snoc:
  "group_of (h @ [c]) =
     (if cvChunk c = 0 then [c]
      else let cs = open_group h in
        if cs \<noteq> [] \<and> cvChunk c = of_nat (length cs) \<and> cvGroup c = cvGroup (hd cs) then cs @ [c] else [])"
proof (cases "cvChunk c = 0")
  case True
  then show ?thesis by (simp add: group_of_def since_start_snoc in_order_def)
next
  case False
  show ?thesis
  proof (cases "open_group h = []")
    case True
    have "group_of (h @ [c]) = []" using open_groupI [OF _ False] True by blast
    then show ?thesis using True False by simp
  next
    case opn: False
    note og = open_groupD(2) [OF opn]
    note S = open_groupD(3-5) [OF opn, unfolded og]
    have ne: "since_start h \<noteq> []" using opn unfolding og .
    have "group_of (h @ [c]) = (if in_order (since_start h @ [c]) then since_start h @ [c] else [])"
      using S(2,3) ne False by (simp add: group_of_def since_start_snoc hd_append)
    then show ?thesis using S(1) ne False by (simp add: in_order_snoc og Let_def)
  qed
qed

section \<open>The cache holds the open group\<close>

text \<open>The code of both functions, on what the chunks have in common.\<close>

definition unpack_chunk :: "chunk_view \<Rightarrow> feed_cache \<Rightarrow> (bool \<times> feed_cache) option" where
  "unpack_chunk c cache =
     (let cache = (if GroupId cache \<noteq> -1 \<and> cvChunk c = 0 then cache\<lparr>GroupId := -1\<rparr> else cache)
      in if GroupId cache = -1 \<and> cvChunk c \<noteq> 0 then Some (False, cache\<lparr>Invalid := True\<rparr>)
      else case (if GroupId cache = -1 then
                   map_option (\<lambda>d. ResetCache\<lparr>Data := d, GroupId := cvGroup c\<rparr>) (make_bytes (cvRoom c))
                 else Some cache) of
        None \<Rightarrow> None
      | Some cache \<Rightarrow>
          if cvChunk c \<noteq> LastChunkId cache + 1 \<or> cvGroup c \<noteq> GroupId cache then
            Some (False, ResetCache\<lparr>Invalid := True\<rparr>)
          else let dataSize = of_nat (length (cvPayload c)) in
            (case copy_slice (Data cache) (Size cache) (Size cache + dataSize) (cvPayload c) of
               None \<Rightarrow> None
             | Some d \<Rightarrow> Some (is_last c,
                 cache\<lparr>Data := d, Size := Size cache + dataSize, LastChunkId := cvChunk c\<rparr>)))"

lemma unpack_views:
  "UnpackAudioChunk a = unpack_chunk (audio_view a)"
  "UnpackCameraImageChunk i = unpack_chunk (image_view i)"
  by (rule ext, simp only: UnpackAudioChunk_def UnpackCameraImageChunk_def unpack_chunk_def
      audio_view_def image_view_def is_last_def Let_def chunk_view.select_convs)+

definition holds :: "feed_cache \<Rightarrow> chunk_view list \<Rightarrow> bool" where
  "holds cache cs \<longleftrightarrow> (if cs = [] then GroupId cache = -1
     else GroupId cache = cvGroup (hd cs) \<and> cvGroup (hd cs) \<noteq> -1 \<and>
       LastChunkId cache + 1 = of_nat (length cs) \<and>
       length (Data cache) = unat (cvRoom (hd cs)) \<and> unat (cvRoom (hd cs)) < 2 ^ 31 \<and>
       length (payload cs) \<le> unat (cvRoom (hd cs)) \<and>
       Size cache = of_nat (length (payload cs)) \<and> take (length (payload cs)) (Data cache) = payload cs)"

lemma sint_of_nat32: "n < 2 ^ 31 \<Longrightarrow> sint (of_nat n :: int32) = int n"
  by (simp add: signed_of_nat signed_take_bit_int_eq_self)

lemma copy_slice_append:
  assumes "length p < 2 ^ 31" "length d < 2 ^ 31" "n \<le> length d"
  shows "copy_slice d (of_nat n) (of_nat n + of_nat (length p)) p =
    (if n + length p \<le> length d then Some (take n d @ p @ drop (n + length p) d) else None)"
proof (cases "n + length p < 2 ^ 31")
  case True
  have "sint (of_nat n + of_nat (length p) :: int32) = int (n + length p)"
    using sint_of_nat32 [OF True] by simp
  moreover have "sint (of_nat n :: int32) = int n" using sint_of_nat32 [of n] assms by simp
  ultimately show ?thesis by (auto simp: copy_slice_def nat_int_add)
next
  case False
  define m where "m = n + length p"
  have m: "2 ^ 31 \<le> m" "m < 2 ^ 32" using False assms by (simp_all add: m_def)
  have "sint (of_nat m :: int32) < 0"
  proof -
    have "m div 2 ^ 31 = 1" using m by (simp add: div_nat_eqI)
    then have "int m div 2 ^ 31 = 1" by (metis of_nat_1 of_nat_numeral of_nat_power zdiv_int)
    then have "bit (int m) 31" by (simp add: bit_iff_odd)
    then have "signed_take_bit 31 (int m) = take_bit 32 (int m) - 2 ^ 32"
      by (simp add: signed_take_bit_eq_take_bit_minus)
    moreover have "take_bit 32 (int m) = int m" using m(2) by (simp add: take_bit_int_eq_self)
    ultimately show ?thesis using m(2) by (simp add: signed_of_nat)
  qed
  then have "\<not> (0 \<le> sint (of_nat m :: int32))" by simp
  moreover have "sint (of_nat n :: int32) = int n" using sint_of_nat32 [of n] assms by simp
  ultimately show ?thesis using False assms by (simp add: copy_slice_def m_def)
qed


text \<open>The first chunk of a group, and one that goes on with it; any other ends the group.\<close>

lemma unpack_start:
  assumes "cvChunk c = 0" "length (cvPayload c) < 2 ^ 31"
  shows "unpack_chunk c cache =
    (if 2 ^ 31 \<le> unat (cvRoom c) \<or> unat (cvRoom c) < length (cvPayload c) then None
     else Some (is_last c, \<lparr>Data = cvPayload c @ drop (length (cvPayload c)) (replicate (unat (cvRoom c)) 0),
       GroupId = cvGroup c, Invalid = False, Size = of_nat (length (cvPayload c)), LastChunkId = 0\<rparr>))"
  using assms copy_slice_append [of "cvPayload c" "replicate (unat (cvRoom c)) 0" 0]
  by (auto simp: unpack_chunk_def Let_def make_bytes_def ResetCache_def)

lemma unpack_reject:
  assumes "cvChunk c \<noteq> 0" "holds cache cs"
    and "\<not> (cs \<noteq> [] \<and> cvChunk c = of_nat (length cs) \<and> cvGroup c = cvGroup (hd cs))"
  shows "\<exists>cache'. unpack_chunk c cache = Some (False, cache') \<and> holds cache' []"
  using assms by (auto simp: unpack_chunk_def Let_def holds_def ResetCache_def split: if_splits)

lemma unpack_continue:
  assumes c: "cvChunk c \<noteq> 0" "length (cvPayload c) < 2 ^ 31" and holds: "holds cache cs" "cs \<noteq> []"
    and fits: "cvChunk c = of_nat (length cs)" "cvGroup c = cvGroup (hd cs)"
  shows "if unat (cvRoom (hd cs)) < length (payload (cs @ [c])) then unpack_chunk c cache = None
    else \<exists>cache'. unpack_chunk c cache = Some (is_last c, cache') \<and> holds cache' (cs @ [c]) \<and>
      cached cache' = payload (cs @ [c])"
proof -
  let ?n = "length (payload cs)" and ?k = "length (cvPayload c)"
  have H: "GroupId cache = cvGroup (hd cs)" "cvGroup (hd cs) \<noteq> -1" "LastChunkId cache + 1 = of_nat (length cs)"
    "length (Data cache) = unat (cvRoom (hd cs))" "unat (cvRoom (hd cs)) < 2 ^ 31" "?n \<le> unat (cvRoom (hd cs))"
    "Size cache = of_nat ?n" "take ?n (Data cache) = payload cs"
    using holds by (simp_all add: holds_def)
  have slice: "copy_slice (Data cache) (of_nat ?n) (of_nat ?n + of_nat ?k) (cvPayload c) =
      (if ?n + ?k \<le> unat (cvRoom (hd cs)) then Some (payload cs @ cvPayload c @ drop (?n + ?k) (Data cache))
       else None)"
    using copy_slice_append [of "cvPayload c" "Data cache" ?n] c H by simp
  have len: "length (payload (cs @ [c])) = ?n + ?k" by (simp add: payload_def)
  have unpack: "unpack_chunk c cache = (case copy_slice (Data cache) (Size cache) (Size cache + of_nat ?k) (cvPayload c) of
      None \<Rightarrow> None
    | Some d \<Rightarrow> Some (is_last c, cache\<lparr>Data := d, Size := Size cache + of_nat ?k, LastChunkId := cvChunk c\<rparr>))"
    using c H(1-3) fits by (simp add: unpack_chunk_def Let_def)
  show ?thesis
  proof (cases "?n + ?k \<le> unat (cvRoom (hd cs))")
    case False
    then show ?thesis by (simp add: unpack H(7) slice len)
  next
    case True
    let ?cache = "cache\<lparr>Data := payload cs @ cvPayload c @ drop (?n + ?k) (Data cache),
      Size := of_nat ?n + of_nat ?k, LastChunkId := cvChunk c\<rparr>"
    have "holds ?cache (cs @ [c])"
      using True H holds(2) fits by (simp add: holds_def len payload_def)
    moreover have "cached ?cache = payload (cs @ [c])"
    proof -
      have "sint (of_nat (?n + ?k) :: int32) = int (?n + ?k)" using True H(5) by (intro sint_of_nat32) simp
      then show ?thesis using nat_int [of "?n + ?k"] by (simp add: cached_def payload_def)
    qed
    ultimately show ?thesis using True by (simp add: unpack H(7) slice len)
  qed
qed

section \<open>A feed\<close>

text \<open>
  What the loop of a feed does with a chunk: when the group is ready its data go out and the cache
  is reset.
\<close>

definition feed_step ::
    "('c \<Rightarrow> feed_cache \<Rightarrow> (bool \<times> feed_cache) option) \<Rightarrow> 'c \<Rightarrow> feed_cache \<Rightarrow> (byte list option \<times> feed_cache) option" where
  "feed_step unpack c cache = (case unpack c cache of
      None \<Rightarrow> None
    | Some (ready, cache') \<Rightarrow> Some (if ready then (Some (cached cache'), ResetCache) else (None, cache')))"

fun feed_run ::
    "('c \<Rightarrow> feed_cache \<Rightarrow> (bool \<times> feed_cache) option) \<Rightarrow> feed_cache \<Rightarrow> 'c list \<Rightarrow> byte list option list option" where
  "feed_run unpack cache [] = Some []"
| "feed_run unpack cache (c # cs) = (case feed_step unpack c cache of
      None \<Rightarrow> None
    | Some (out, cache') \<Rightarrow> map_option ((#) out) (feed_run unpack cache' cs))"

text \<open>The prefixes of a list that are not empty, the shortest first.\<close>

definition heads :: "'a list \<Rightarrow> 'a list list" where
  "heads xs = map (\<lambda>k. take (Suc k) xs) [0..<length xs]"

lemma heads_simps [simp]:
  "heads [] = []" "heads (x # xs) = [x] # map ((#) x) (heads xs)"
  by (simp_all add: heads_def upt_conv_Cons map_Suc_upt [symmetric] del: upt_Suc)

locale chunk_reassembly =
  fixes view :: "'c \<Rightarrow> chunk_view"
    and unpack :: "'c \<Rightarrow> feed_cache \<Rightarrow> (bool \<times> feed_cache) option"
  assumes unpack: "unpack c cache = unpack_chunk (view c) cache"
begin

lemma step_refines:
  assumes "holds cache (open_group h)" "length (cvPayload (view c)) < 2 ^ 31"
  shows "if too_long (h @ [view c]) then feed_step unpack c cache = None
    else \<exists>cache'. feed_step unpack c cache = Some (completed (h @ [view c]), cache') \<and>
      holds cache' (open_group (h @ [view c]))"
proof (cases "cvChunk (view c) = 0")
  case True
  then have g: "group_of (h @ [view c]) = [view c]" by (simp add: group_of_snoc)
  have sint: "sint (of_nat (length (cvPayload (view c))) :: int32) = int (length (cvPayload (view c)))"
    using sint_of_nat32 [OF assms(2)] .
  show ?thesis
    using unpack_start [OF True assms(2), of cache] True sint
    by (auto simp: too_long_def completed_def open_group_def g payload_def feed_step_def unpack cached_def
        holds_def ResetCache_def)
next
  case False
  show ?thesis
  proof (cases "open_group h \<noteq> [] \<and> cvChunk (view c) = of_nat (length (open_group h)) \<and>
      cvGroup (view c) = cvGroup (hd (open_group h))")
    case True
    then have g: "group_of (h @ [view c]) = open_group h @ [view c]" using False by (simp add: group_of_snoc)
    have "unat (cvRoom (hd (open_group h))) < 2 ^ 31" "cvGroup (hd (open_group h)) \<noteq> -1"
      using assms(1) True by (simp_all add: holds_def)
    then show ?thesis
      using unpack_continue [OF False assms(2,1)] True
      by (auto simp: too_long_def completed_def open_group_def [of "h @ [view c]"] g feed_step_def unpack
          hd_append holds_def ResetCache_def split: if_splits)
  next
    case rej: False
    then have g: "group_of (h @ [view c]) = []" using False by (auto simp: group_of_snoc Let_def)
    show ?thesis
      using unpack_reject [OF False assms(1) rej]
      by (auto simp: too_long_def completed_def open_group_def [of "h @ [view c]"] g feed_step_def unpack)
  qed
qed

lemma run_refines:
  assumes "holds cache (open_group h)" "list_all (\<lambda>c. length (cvPayload (view c)) < 2 ^ 31) cs"
  shows "feed_run unpack cache cs = (let hs = map ((@) h) (heads (map view cs)) in
    if list_ex too_long hs then None else Some (map completed hs))"
  using assms
proof (induction cs arbitrary: cache h)
  case Nil
  then show ?case by simp
next
  case (Cons c cs)
  have step: "if too_long (h @ [view c]) then feed_step unpack c cache = None
    else \<exists>cache'. feed_step unpack c cache = Some (completed (h @ [view c]), cache') \<and>
      holds cache' (open_group (h @ [view c]))"
    by (rule step_refines) (use Cons.prems in simp_all)
  show ?case
  proof (cases "too_long (h @ [view c])")
    case True
    with step show ?thesis by simp
  next
    case False
    with step obtain cache' where "feed_step unpack c cache = Some (completed (h @ [view c]), cache')"
      "holds cache' (open_group (h @ [view c]))" by auto
    with Cons.IH [OF this(2)] Cons.prems(2) False show ?thesis by (simp add: Let_def comp_def list_ex_iff)
  qed
qed

lemma fresh_run:
  assumes "list_all (\<lambda>c. length (cvPayload (view c)) < 2 ^ 31) cs"
  shows "feed_run unpack new_cache cs = (let hs = heads (map view cs) in
    if list_ex too_long hs then None else Some (map completed hs))"
  using run_refines [of new_cache "[]" cs] assms by (simp add: holds_def new_cache_def Let_def map_idI)

end

interpretation audio: chunk_reassembly audio_view UnpackAudioChunk
  by unfold_locales (simp add: unpack_views)

interpretation image: chunk_reassembly image_view UnpackCameraImageChunk
  by unfold_locales (simp add: unpack_views)

end
