(* ===== verification/Media_Feed.thy ===== *)
theory Media_Feed
  imports Kept_Relations Chunk_Assembly
begin

text \<open>
  \<open>AudioFeed\<close>, \<open>CameraFeed\<close> and \<open>CaptureSingleImage\<close> of \<open>cloud/message_handler.go\<close>: they switch the
  engine's stream of chunks on, put the chunks together with the caches of \<open>Chunk_Assembly\<close>, hand
  every complete group to the client, and switch the stream off when they end.
\<close>

section \<open>The feeds\<close>

definition GetAudioChunk :: "gateway_wrapper \<Rightarrow> audio_chunk option" where
  "GetAudioChunk m = (case OneofMessageType m of Some (AudioChunk c) \<Rightarrow> Some c | _ \<Rightarrow> None)"

definition GetImageChunk :: "gateway_wrapper \<Rightarrow> image_chunk option" where
  "GetImageChunk m = (case OneofMessageType m of Some (ImageChunk c) \<Rightarrow> Some c | _ \<Rightarrow> None)"

text \<open>The getters of a nil chunk give zeros.\<close>

definition audio_chunk_of :: "gateway_wrapper \<Rightarrow> audio_chunk" where
  "audio_chunk_of m = (case GetAudioChunk m of Some c \<Rightarrow> c | None \<Rightarrow>
     \<lparr>acRobotTimeStamp = 0, acGroupId = 0, acChunkId = 0, acAudioChunkCount = 0, acSignalPower = [], acRest = []\<rparr>)"

definition image_chunk_of :: "gateway_wrapper \<Rightarrow> image_chunk" where
  "image_chunk_of m = (case GetImageChunk m of Some c \<Rightarrow> c | None \<Rightarrow>
     \<lparr>icFrameTimeStamp = 0, icImageId = 0, icWidth = 0, icHeight = 0, icImageEncoding = 0,
       icImageChunkCount = 0, icChunkId = 0, icData = []\<rparr>)"

definition AudioSendMode :: "bool \<Rightarrow> (gateway, uint64) go" where
  "AudioSendMode voice_detect = EngineProto_Write (AudioSendModeRequest voice_detect)"

definition audio_response :: "audio_chunk \<Rightarrow> byte list \<Rightarrow> audio_feed_response" where
  "audio_response c d = \<lparr>afRobotTimeStamp = acRobotTimeStamp c, afGroupId = acGroupId c,
     afSignalPower = d, afRest = acRest c\<rparr>"

definition audio_handle :: "gateway_wrapper wake \<Rightarrow> feed_cache \<Rightarrow> (gateway, feed_cache + unit) go" where
  "audio_handle k cache = (case k of
      GotMessage m \<Rightarrow> (case UnpackAudioChunk (audio_chunk_of m) cache of
          None \<Rightarrow> panicM
        | Some (readyToSend, cache') \<Rightarrow>
            if readyToSend then
              bindM (stream_Send (AudioFeedResponse (audio_response (audio_chunk_of m) (cached cache'))))
                (\<lambda>_. returnM (Inl ResetCache))
            else returnM (Inl cache'))
    | _ \<Rightarrow> failM (GrpcError Internal ''AudioChunk engine stream died unexpectedly''))"

definition AudioFeed :: "(gateway, unit) go" where
  "AudioFeed = bindM (AudioSendMode True) (\<lambda>_. deferM (AudioSendMode False)
     (with_channel AudioChunkType 1024 (\<lambda>c. select_loop (\<lambda>_. False) c audio_handle new_cache)))"

text \<open>
  \<open>EnableImageStreamingRequest\<close> as the protobuf library encodes it: field 1 is \<open>Enable\<close>, field 2
  \<open>EnableHighResolution\<close>, and false is left out.
\<close>

definition image_streaming_request :: "bool \<Rightarrow> bool \<Rightarrow> pb" where
  "image_streaming_request enable high =
     (if enable then [0x08, 1] else []) @ (if high then [0x10, 1] else [])"

definition image_of :: "image_chunk \<Rightarrow> uint32 \<Rightarrow> byte list \<Rightarrow> camera_image" where
  "image_of c imageId d = \<lparr>ciFrameTimeStamp = icFrameTimeStamp c, ciImageId = imageId,
     ciImageEncoding = icImageEncoding c, ciData = d\<rparr>"

definition image_died :: go_error where
  "image_died = GrpcError Internal ''ImageChunk engine stream died unexpectedly''"

definition camera_handle :: "gateway_wrapper wake \<Rightarrow> feed_cache \<Rightarrow> (gateway, feed_cache + unit) go" where
  "camera_handle k cache = (case k of
      GotMessage m \<Rightarrow> (case UnpackCameraImageChunk (image_chunk_of m) cache of
          None \<Rightarrow> panicM
        | Some (readyToSend, cache') \<Rightarrow>
            if readyToSend then
              bindM (stream_Send (CameraFeedResponse (image_of (image_chunk_of m) (GroupId cache') (cached cache'))))
                (\<lambda>_. returnM (Inl ResetCache))
            else returnM (Inl cache'))
    | _ \<Rightarrow> failM image_died)"

definition CameraFeed :: "(gateway, unit) go" where
  "CameraFeed = bindM (EnableImageStreaming (image_streaming_request True False)) (\<lambda>_.
     deferM (EnableImageStreaming (image_streaming_request False False))
       (with_channel ImageChunkType 1024 (\<lambda>c. select_loop (\<lambda>_. False) c camera_handle new_cache)))"

definition capture_handle :: "gateway_wrapper wake \<Rightarrow> feed_cache \<Rightarrow> (gateway, feed_cache + status_code \<times> camera_image) go" where
  "capture_handle k cache = (case k of
      GotMessage m \<Rightarrow> (case UnpackCameraImageChunk (image_chunk_of m) cache of
          None \<Rightarrow> panicM
        | Some (readyToSend, cache') \<Rightarrow>
            if readyToSend then
              returnM (Inr (RESPONSE_RECEIVED, image_of (image_chunk_of m) (GroupId cache') (cached cache')))
            else returnM (Inl cache'))
    | _ \<Rightarrow> failM image_died)"

definition CaptureSingleImage :: "bool \<Rightarrow> (gateway, status_code \<times> camera_image) go" where
  "CaptureSingleImage enableHighResolution =
     bindM (EnableImageStreaming (image_streaming_request True enableHighResolution)) (\<lambda>_.
     deferM (EnableImageStreaming (image_streaming_request False False))
       (with_channel ImageChunkType 1024 (\<lambda>c. select_loop (\<lambda>_. False) c capture_handle new_cache)))"

section \<open>The streams are switched off\<close>

lemma feeds_wire:
  "wire.always (with_channel AudioChunkType 1024 (\<lambda>c. select_loop (\<lambda>_. False) c audio_handle new_cache))"
  "wire.always (with_channel ImageChunkType 1024 (\<lambda>c. select_loop (\<lambda>_. False) c camera_handle new_cache))"
  "wire.always (with_channel ImageChunkType 1024 (\<lambda>c. select_loop (\<lambda>_. False) c capture_handle new_cache))"
  by (intro wire.always_with_channel wire.always_select_loop;
      auto simp: audio_handle_def camera_handle_def capture_handle_def
        intro!: wire.always_bind stream_Send_kept split: wake.split option.split)+

lemma received_sock: "sock.always (received n m)"
  by (simp add: received_def split: option.split)

lemma EnableImageStreaming_last:
  assumes "encodable v" "EnableImageStreaming x v = (s, u)"
  shows "last_written v (Request ''EnableImageStreamingRequest'' x) u"
  using call_last [OF assms(1) received_sock assms(2) [unfolded EnableImageStreaming_def]] .

lemma EnableImageStreaming_wire: "wire.always (EnableImageStreaming x)"
  unfolding EnableImageStreaming_def
  by (rule wire_proto_call) (simp add: received_def split: option.split)

lemma AudioSendMode_last:
  assumes "encodable v" "AudioSendMode b v = (s, u)"
  shows "last_written v (AudioSendModeRequest b) u"
  using Write_last [OF assms(1), of "AudioSendModeRequest b"] assms(2) unfolding AudioSendMode_def by auto

text \<open>Once the first request is answered, a feed ends with the request that switches the stream off.\<close>

lemma first_then_last:
  assumes run: "bindM m (\<lambda>_. deferM f b) w = (r, w')" "r \<noteq> Blocked" "r \<noteq> Crash" "encodable w"
    and m: "wire.always m" "\<And>s v. m w = (s, v) \<Longrightarrow> \<exists>a. s = Ret a"
    and b: "wire.always b" and f: "\<And>v s u. encodable v \<Longrightarrow> f v = (s, u) \<Longrightarrow> last_written v x u"
  shows "last_written w x w'"
proof -
  obtain s v where mw: "m w = (s, v)" by fastforce
  with m(2) obtain a where "s = Ret a" by blast
  with run(1) mw have dfr: "deferM f b v = (r, w')" by (simp add: bindM_def)
  have "same_wire w v" using wire.alwaysD [OF m(1) mw] .
  moreover have "last_written v x w'"
    using deferred_last [OF dfr run(2,3) b same_wire_encodable [OF calculation run(4)] f] .
  ultimately show ?thesis by (simp add: last_written_def same_wire_def)
qed


section \<open>What the client gets\<close>

text \<open>The messages of one type among the arrivals, in order.\<close>

definition messages_in :: "(arrival \<Rightarrow> delivery) \<Rightarrow> oneof_type \<Rightarrow> arrival list \<Rightarrow> gateway_wrapper list" where
  "messages_in car t as = concat (map (\<lambda>a. case car a of
     ToProto m \<Rightarrow> if wrapper_type m = t then [m] else [] | _ \<Rightarrow> []) as)"

lemma wakes_in_plain: "wakes_in car t (\<lambda>_. False) as = map GotMessage (messages_in car t as)"
  by (induction as) (auto simp: wakes_in_def messages_in_def wake_of_def split: delivery.split)

text \<open>A feed sends one message for every beginning of the chunks that completes a group.\<close>

definition feed_out :: "('c \<Rightarrow> chunk_view) \<Rightarrow> ('c \<Rightarrow> byte list \<Rightarrow> stream_msg) \<Rightarrow> 'c list \<Rightarrow> stream_msg list" where
  "feed_out view resp cs = concat (map (\<lambda>h. case completed (map view h) of
     None \<Rightarrow> [] | Some d \<Rightarrow> [resp (last h) d]) (heads cs))"

definition feed_round ::
    "(gateway_wrapper \<Rightarrow> 'c) \<Rightarrow> ('c \<Rightarrow> feed_cache \<Rightarrow> (bool \<times> feed_cache) option) \<Rightarrow> ('c \<Rightarrow> byte list \<Rightarrow> stream_msg) \<Rightarrow>
     gateway_wrapper wake \<Rightarrow> feed_cache \<Rightarrow> (feed_cache + unit) \<times> stream_msg list" where
  "feed_round chunk unp resp k cache = (case k of
      GotMessage m \<Rightarrow> (case feed_step unp (chunk m) cache of
          Some (out, cache') \<Rightarrow> (Inl cache', case out of None \<Rightarrow> [] | Some d \<Rightarrow> [resp (chunk m) d])
        | None \<Rightarrow> (Inl cache, []))
    | _ \<Rightarrow> (Inl cache, []))"

definition feed_guard ::
    "(gateway_wrapper \<Rightarrow> 'c) \<Rightarrow> ('c \<Rightarrow> feed_cache \<Rightarrow> (bool \<times> feed_cache) option) \<Rightarrow>
     gateway_wrapper wake \<Rightarrow> feed_cache \<Rightarrow> bool" where
  "feed_guard chunk unp k cache = (case k of
      GotMessage m \<Rightarrow> feed_step unp (chunk m) cache \<noteq> None | _ \<Rightarrow> False)"

lemma feed_rounds:
  "feed_run unp cache (map chunk ms) = Some outs \<Longrightarrow>
     guarded (feed_round chunk unp resp) (feed_guard chunk unp) (map GotMessage ms) cache \<and>
     (\<exists>s. rounds (feed_round chunk unp resp) (map GotMessage ms) cache =
       (Inl s, concat (map2 (\<lambda>c out. case out of None \<Rightarrow> [] | Some d \<Rightarrow> [resp c d]) (map chunk ms) outs)))"
proof (induction ms arbitrary: cache outs)
  case Nil
  then show ?case by simp
next
  case (Cons m ms)
  from Cons.prems obtain out cache' os where
    step: "feed_step unp (chunk m) cache = Some (out, cache')" and
    os: "feed_run unp cache' (map chunk ms) = Some os" "outs = out # os"
    by (auto split: option.splits)
  from Cons.IH [OF os(1)] show ?case
    by (auto simp: feed_round_def feed_guard_def step os(2))
qed

lemma heads_last: "map2 f cs (map g (heads cs)) = map (\<lambda>h. f (last h) (g h)) (heads cs)"
  by (rule nth_equalityI) (auto simp: heads_def take_Suc_conv_app_nth)

lemma heads_map: "heads (map f xs) = map (map f) (heads xs)"
  by (simp add: heads_def take_map comp_def)

context chunk_reassembly
begin

definition fits :: "'c list \<Rightarrow> bool" where
  "fits cs \<longleftrightarrow> list_all (\<lambda>c. length (cvPayload (view c)) < 2 ^ 31) cs \<and>
     \<not> list_ex too_long (heads (map view cs))"

lemma rounds_out:
  assumes "fits (map chunk ms)"
  shows "guarded (feed_round chunk unpack resp) (feed_guard chunk unpack) (map GotMessage ms) new_cache \<and>
    (\<exists>s. rounds (feed_round chunk unpack resp) (map GotMessage ms) new_cache =
      (Inl s, feed_out view resp (map chunk ms)))"
proof -
  have "feed_run unpack new_cache (map chunk ms) = Some (map completed (heads (map view (map chunk ms))))"
    using assms fresh_run [of "map chunk ms"] by (simp add: fits_def Let_def)
  from feed_rounds [where resp = resp, OF this] show ?thesis
    unfolding heads_map [of view] map_map [of completed] heads_last feed_out_def by simp
qed

end

text \<open>What the loop of a feed sends, from the state in which it has just made its channel.\<close>

lemma feed_loop_out:
  assumes t: "t \<noteq> EventType" and d: "described handle (feed_round chunk unp resp) (feed_guard chunk unp)"
    and view: "chunk_reassembly view unp" and n: "0 < n"
    and w: "wf_gateway w" "proto_alive w" "room_for w t" "stream_fates w = []"
      "list_all (\<lambda>a. tame (carried w a)) (arrivals w)"
    and fits: "chunk_reassembly.fits view (map chunk (messages_in (carried w) t (arrivals w)))"
  shows "\<exists>w'. with_channel t n (\<lambda>c. select_loop (\<lambda>_. False) c handle new_cache) w = (Blocked, w') \<and>
    stream_out w' = stream_out w @ feed_out view resp (map chunk (messages_in (carried w) t (arrivals w)))"
proof -
  obtain c p where cp: "CreateChannel_reg t n (proto_mgr w) = (c, p)" by fastforce
  have wait: "waiting w t c n (put_proto p w)" by (rule open_channel [OF w(1,3,2) cp])
  let ?ms = "messages_in (carried w) t (arrivals w)"
  from chunk_reassembly.rounds_out [OF view fits, of resp] obtain s where
    g: "guarded (feed_round chunk unp resp) (feed_guard chunk unp) (map GotMessage ?ms) new_cache" and
    r: "rounds (feed_round chunk unp resp) (map GotMessage ?ms) new_cache =
      (Inl s, feed_out view resp (map chunk ?ms))" by blast
  have "\<exists>w'. select_loop (\<lambda>_. False) c handle new_cache (put_proto p w) =
      (outcome_of (fst (rounds (feed_round chunk unp resp) (map GotMessage ?ms) new_cache)), w') \<and>
    stream_out w' = stream_out (put_proto p w) @
      snd (rounds (feed_round chunk unp resp) (map GotMessage ?ms) new_cache) \<and>
    same_feed (put_proto p w) w' \<and> waiting w t c n w' \<and> shrinks (put_proto p w) w'"
    using select_loop_out [OF t n d wait, where wakes = "\<lambda>_. False" and s = new_cache] w(4,5) g
    by (simp add: wakes_in_plain)
  then obtain w' where "select_loop (\<lambda>_. False) c handle new_cache (put_proto p w) = (Blocked, w')"
    "stream_out w' = stream_out w @ feed_out view resp (map chunk ?ms)"
    by (auto simp: r outcome_of_def)
  moreover have "EngineProto_CreateChannel t n w = (Ret c, put_proto p w)"
    by (simp add: EngineProto_CreateChannel_def mgr_CreateChannel_def cp)
  ultimately show ?thesis by (simp add: with_channel_def bindM_def deferM_def)
qed

lemma audio_described:
  "described audio_handle (feed_round audio_chunk_of UnpackAudioChunk (\<lambda>c d. AudioFeedResponse (audio_response c d)))
     (feed_guard audio_chunk_of UnpackAudioChunk)"
  unfolding described_def
  by (auto simp: audio_handle_def feed_round_def feed_guard_def feed_step_def bindM_def returnM_def
      stream_Send_delivered split: wake.splits option.splits)

lemma unpack_group:
  assumes "unpack_chunk v cache = Some (True, cache')"
  shows "GroupId cache' = cvGroup v"
proof (cases "GroupId cache = -1 \<or> cvChunk v = 0")
  case True
  then have "unpack_chunk v cache = (if cvChunk v \<noteq> 0 then Some (False, cache\<lparr>Invalid := True\<rparr>) else
      case make_bytes (cvRoom v) of None \<Rightarrow> None | Some b \<Rightarrow>
     (case copy_slice b 0 (of_nat (length (cvPayload v))) (cvPayload v) of
               None \<Rightarrow> None
             | Some d \<Rightarrow> Some (is_last v,
                 \<lparr>Data = d, GroupId = cvGroup v, Invalid = False, Size = of_nat (length (cvPayload v)), LastChunkId = cvChunk v\<rparr>)))"
    by (cases "make_bytes (cvRoom v)") (auto simp add: unpack_chunk_def ResetCache_def Let_def cong: option.case_cong)
  with assms show ?thesis by (auto split: if_splits option.splits)
next
  case False
  then have "unpack_chunk v cache = (if cvChunk v \<noteq> LastChunkId cache + 1 \<or> cvGroup v \<noteq> GroupId cache then
            Some (False, ResetCache\<lparr>Invalid := True\<rparr>)
          else let dataSize = of_nat (length (cvPayload v)) in
            (case copy_slice (Data cache) (Size cache) (Size cache + dataSize) (cvPayload v) of
               None \<Rightarrow> None
             | Some d \<Rightarrow> Some (is_last v,
                 cache\<lparr>Data := d, Size := Size cache + dataSize, LastChunkId := cvChunk v\<rparr>)))"
    by (simp add: unpack_chunk_def)
  with assms show ?thesis by (auto simp: Let_def split: if_splits option.splits)
qed
lemma camera_group:
  "UnpackCameraImageChunk c cache = Some (True, cache') \<Longrightarrow> GroupId cache' = icImageId c"
  using unpack_group [of "image_view c"] by (simp add: unpack_views image_view_def)

lemma camera_described:
  "described camera_handle (feed_round image_chunk_of UnpackCameraImageChunk
       (\<lambda>c d. CameraFeedResponse (image_of c (icImageId c) d)))
     (feed_guard image_chunk_of UnpackCameraImageChunk)"
  unfolding described_def
proof (intro allI impI)
  fix k s and u :: gateway
  assume u: "stream_fates u = []" and g: "feed_guard image_chunk_of UnpackCameraImageChunk k s"
  from g obtain m where k: "k = GotMessage m" by (cases k) (simp_all add: feed_guard_def)
  from g obtain ready s' where un: "UnpackCameraImageChunk (image_chunk_of m) s = Some (ready, s')"
    by (auto simp: k feed_guard_def feed_step_def split: option.splits)
  show "camera_handle k s u = (Ret (fst (feed_round image_chunk_of UnpackCameraImageChunk
      (\<lambda>c d. CameraFeedResponse (image_of c (icImageId c) d)) k s)),
    u\<lparr>stream_out := stream_out u @ snd (feed_round image_chunk_of UnpackCameraImageChunk
      (\<lambda>c d. CameraFeedResponse (image_of c (icImageId c) d)) k s)\<rparr>)"
  proof (cases ready)
    case True
    have "GroupId s' = icImageId (image_chunk_of m)" using camera_group [of _ s s'] un True by simp
    then show ?thesis
      using stream_Send_delivered [OF u]
      by (simp add: camera_handle_def feed_round_def feed_step_def k un True bindM_def returnM_def)
  next
    case False
    then show ?thesis by (simp add: camera_handle_def feed_round_def feed_step_def k un returnM_def)
  qed
qed


section \<open>Properties\<close>

text \<open>
  C19. The chunks of a feed, fed to a fresh cache, come out as if the feed had kept all of them: a
  group is handed out with the concatenation of its payloads exactly when the chunks since the last
  one with number 0 are a complete group, and the feed panics exactly if a group is longer than
  its buffer.
\<close>

theorem chunks_reassembled:
  assumes "list_all (\<lambda>c. length (acSignalPower c) < 2 ^ 31) cs" "list_all (\<lambda>c. length (icData c) < 2 ^ 31) imgs"
  shows "feed_run UnpackAudioChunk new_cache cs = (let hs = heads (map audio_view cs) in
      if list_ex too_long hs then None else Some (map completed hs)) \<and>
    feed_run UnpackCameraImageChunk new_cache imgs = (let hs = heads (map image_view imgs) in
      if list_ex too_long hs then None else Some (map completed hs))"
  using assms audio.fresh_run [of cs] image.fresh_run [of imgs]
  by (simp_all add: audio_view_def image_view_def)

text \<open>In the example the second chunk of group 7 is lost and group 8 is complete.\<close>

definition sample_chunk :: "uint32 \<Rightarrow> uint32 \<Rightarrow> byte list \<Rightarrow> audio_chunk" where
  "sample_chunk g i d = \<lparr>acRobotTimeStamp = 0, acGroupId = g, acChunkId = i, acAudioChunkCount = 2,
     acSignalPower = d, acRest = []\<rparr>"

theorem chunks_reassembled_witness:
  "feed_run UnpackAudioChunk new_cache
     [sample_chunk 7 0 [1], sample_chunk 8 0 [2], sample_chunk 8 1 [3, 4]] = Some [None, None, Some [2, 3, 4]]"
proof -
  let ?cs = "[sample_chunk 7 0 [1], sample_chunk 8 0 [2], sample_chunk 8 1 [3, 4]]"
  have groups: "group_of [audio_view (?cs ! 0)] = [audio_view (?cs ! 0)]"
    "group_of [audio_view (?cs ! 0), audio_view (?cs ! 1)] = [audio_view (?cs ! 1)]"
    "group_of (map audio_view ?cs) = [audio_view (?cs ! 1), audio_view (?cs ! 2)]"
    by (simp_all add: group_of_def since_start_def in_order_def is_last_def audio_view_def sample_chunk_def)
  have "feed_run UnpackAudioChunk new_cache ?cs = (let hs = heads (map audio_view ?cs) in
      if list_ex too_long hs then None else Some (map completed hs))"
    by (rule chunks_reassembled [where imgs = "[]", THEN conjunct1]) (simp_all add: sample_chunk_def)
  also have "\<dots> = Some [None, None, Some [2, 3, 4]]"
    using groups
    by (simp add: too_long_def completed_def payload_def Let_def)
      (simp add: is_last_def audio_view_def sample_chunk_def)
  finally show ?thesis .
qed


text \<open>
  C20. A client of the audio feed gets one message for every complete group of chunks, with the
  group's samples and the last chunk's time and directions, in order and nothing else, while the
  engine is told once to send audio.
\<close>

theorem AudioFeed_delivers:
  assumes "wf_gateway w" "proto_alive w" "room_for w AudioChunkType" "stream_fates w = []"
    and "written w (AudioSendModeRequest True) d" "list_all (\<lambda>a. tame (carried w a)) (arrivals w)"
    and "audio.fits (map audio_chunk_of (messages_in (carried w) AudioChunkType (arrivals w)))"
  shows "\<exists>w'. AudioFeed w = (Blocked, w') \<and> stream_out w' = stream_out w @
    feed_out audio_view (\<lambda>c d. AudioFeedResponse (audio_response c d))
      (map audio_chunk_of (messages_in (carried w) AudioChunkType (arrivals w)))"
proof -
  let ?v = "w\<lparr>rand_next := Suc (rand_next w), write_faults := tl (write_faults w),
      proto_sock := proto_sock w @ [frame d]\<rparr>"
  have car: "carried ?v = carried w" by (rule carried_codec) simp_all
  have "AudioSendMode True w = (Ret (rand_source w (rand_next w)), ?v)"
    unfolding AudioSendMode_def by (rule Write_written [OF assms(5)])
  moreover from feed_loop_out [OF _ audio_described audio.chunk_reassembly_axioms, of AudioChunkType 1024 ?v]
  obtain w' where "with_channel AudioChunkType 1024 (\<lambda>c. select_loop (\<lambda>_. False) c audio_handle new_cache) ?v =
      (Blocked, w')" "stream_out w' = stream_out w @
    feed_out audio_view (\<lambda>c d. AudioFeedResponse (audio_response c d))
      (map audio_chunk_of (messages_in (carried w) AudioChunkType (arrivals w)))"
    using assms by (auto simp: car wf_gateway_def room_for_def roomy_def)
  ultimately show ?thesis by (simp add: AudioFeed_def bindM_def deferM_def)
qed

definition audio_gateway :: gateway where
  "audio_gateway = gateway_at_rest (map (\<lambda>i. ProtoBlock (Some [0, 0, i])) [1, 2, 3])
     (\<lambda>b. Some \<lparr>ConnectionId = 0, OneofMessageType = Some (AudioChunk
        (if b = [1] then sample_chunk 7 0 [1] else if b = [2] then sample_chunk 8 0 [2]
         else sample_chunk 8 1 [3, 4]))\<rparr>)"

theorem AudioFeed_delivers_witness:
  "\<exists>w'. AudioFeed audio_gateway = (Blocked, w') \<and>
     stream_out w' = [AudioFeedResponse (audio_response (sample_chunk 8 1 [3, 4]) [2, 3, 4])]"
proof -
  let ?cs = "[sample_chunk 7 0 [1], sample_chunk 8 0 [2], sample_chunk 8 1 [3, 4]]"
  have cs: "map audio_chunk_of (messages_in (carried audio_gateway) AudioChunkType (arrivals audio_gateway)) = ?cs"
    by (simp add: audio_gateway_def gateway_at_rest_def messages_in_def carried_def proto_carried_def
        wrapper_type_def audio_chunk_of_def GetAudioChunk_def)
  have groups: "group_of [audio_view (?cs ! 0)] = [audio_view (?cs ! 0)]"
    "group_of [audio_view (?cs ! 0), audio_view (?cs ! 1)] = [audio_view (?cs ! 1)]"
    "group_of (map audio_view ?cs) = [audio_view (?cs ! 1), audio_view (?cs ! 2)]"
    by (simp_all add: group_of_def since_start_def in_order_def is_last_def audio_view_def sample_chunk_def)
  have "audio.fits ?cs"
    using groups by (simp add: audio.fits_def too_long_def payload_def Let_def)
      (simp add: audio_view_def sample_chunk_def)
  moreover have "feed_out audio_view (\<lambda>c d. AudioFeedResponse (audio_response c d)) ?cs =
      [AudioFeedResponse (audio_response (sample_chunk 8 1 [3, 4]) [2, 3, 4])]"
    using groups by (simp add: feed_out_def completed_def payload_def Let_def)
      (simp add: is_last_def audio_view_def sample_chunk_def)
  moreover have "list_all (\<lambda>a. tame (carried audio_gateway a)) (arrivals audio_gateway)"
    by (simp add: audio_gateway_def gateway_at_rest_def tame_def carried_def proto_carried_def)
  moreover have "wf_gateway audio_gateway" "proto_alive audio_gateway" "room_for audio_gateway AudioChunkType"
    "stream_fates audio_gateway = []" "written audio_gateway (AudioSendModeRequest True) []" "stream_out audio_gateway = []"
    by (simp add: audio_gateway_def)
      (simp_all add: audio_gateway_def gateway_at_rest_def room_for_def roomy_def markedCapacity_def
        written_def next_fault_def)
  ultimately show ?thesis using AudioFeed_delivers [of audio_gateway "[]"] unfolding cs by simp
qed

text \<open>
  The camera feed, once the engine has answered that images will come, hands out every
  complete image that arrives, with the concatenated data of its chunks.
\<close>

theorem CameraFeed_delivers:
  assumes "answered w m rest" "wrapper_type m = ResponseType ''EnableImageStreamingResponse''"
    and "written w (Request ''EnableImageStreamingRequest'' (image_streaming_request True False)) d"
    and "room_for w ImageChunkType" "stream_fates w = []" "list_all (\<lambda>a. tame (carried w a)) rest"
    and "image.fits (map image_chunk_of (messages_in (carried w) ImageChunkType rest))"
  shows "\<exists>w'. CameraFeed w = (Blocked, w') \<and> stream_out w' = stream_out w @
    feed_out image_view (\<lambda>c d. CameraFeedResponse (image_of c (icImageId c) d))
      (map image_chunk_of (messages_in (carried w) ImageChunkType rest))"
proof -
  let ?n = "''EnableImageStreamingResponse''" and ?x = "image_streaming_request True False"
  obtain r where "GetResponse ?n m = Some r" using wrapper_type_getters(1) [OF assms(2)] by blast
  then have "received ?n m u = (Ret (r\<lparr>Status := Some RESPONSE_RECEIVED\<rparr>), u\<lparr>lastResult := lastResult u\<rparr>)" for u
    by (simp add: received_def returnM_def)
  from call_answered_state [where k = "received ?n" and l = lastResult, OF assms(1,3,2) this]
  obtain v where v: "EnableImageStreaming ?x w = (Ret (r\<lparr>Status := Some RESPONSE_RECEIVED\<rparr>), v)"
    "arrivals v = rest" "wf_gateway v" "shrinks w v" "proto_alive v" "same_stream w v"
    unfolding EnableImageStreaming_def by blast
  have wf: "wf_gateway w" and "roomy w" using assms(1) by (simp_all add: answered_def room_for_def)
  then have "roomy v" using roomy_shrinks v(3,4) by blast
  moreover have "length (listeners (proto_mgr v) ImageChunkType) \<le> length (listeners (proto_mgr w) ImageChunkType)"
    using v(3,4) wf by (intro listeners_length [of wrapper_type]) (auto simp: wf_gateway_def shrinks_def)
  ultimately have room: "room_for v ImageChunkType" using assms(4) by (simp add: room_for_def)
  have str: "carried v = carried w" "stream_fates v = []" "stream_out v = stream_out w"
    using v(6) assms(5) by (simp_all add: same_stream_def)
  from feed_loop_out [OF _ camera_described image.chunk_reassembly_axioms _ v(3,5) room str(2), of 1024]
  obtain w' where "with_channel ImageChunkType 1024 (\<lambda>c. select_loop (\<lambda>_. False) c camera_handle new_cache) v =
      (Blocked, w')" "stream_out w' = stream_out w @
    feed_out image_view (\<lambda>c d. CameraFeedResponse (image_of c (icImageId c) d))
      (map image_chunk_of (messages_in (carried w) ImageChunkType rest))"
    using assms(6,7) by (auto simp: str v(2))
  then show ?thesis using v(1) by (simp add: CameraFeed_def bindM_def deferM_def)
qed


definition camera_gateway :: gateway where
  "camera_gateway = gateway_at_rest [ProtoBlock (Some [0, 0, 1]), ProtoBlock (Some [0, 0, 2])]
     (\<lambda>b. Some \<lparr>ConnectionId = 0, OneofMessageType = Some (if b = [1]
        then Response ''EnableImageStreamingResponse'' \<lparr>Status = None, Fields = []\<rparr>
        else ImageChunk \<lparr>icFrameTimeStamp = 5, icImageId = 3, icWidth = 1, icHeight = 2, icImageEncoding = 1,
          icImageChunkCount = 1, icChunkId = 0, icData = [9, 9, 8]\<rparr>)\<rparr>)"

theorem CameraFeed_delivers_witness:
  "\<exists>w'. CameraFeed camera_gateway = (Blocked, w') \<and> stream_out w' =
     [CameraFeedResponse \<lparr>ciFrameTimeStamp = 5, ciImageId = 3, ciImageEncoding = 1, ciData = [9, 9, 8]\<rparr>]"
proof -
  let ?m = "\<lparr>ConnectionId = 0, OneofMessageType =
    Some (Response ''EnableImageStreamingResponse'' \<lparr>Status = None, Fields = []\<rparr>)\<rparr>"
  let ?rest = "[ProtoBlock (Some [0, 0, 2])]"
  let ?c = "\<lparr>icFrameTimeStamp = 5, icImageId = 3, icWidth = 1, icHeight = 2, icImageEncoding = 1,
    icImageChunkCount = 1, icChunkId = 0, icData = [9, 9, 8]\<rparr>"
  note defs = camera_gateway_def gateway_at_rest_def
  have "\<exists>pre a. arrivals camera_gateway = pre @ a # ?rest \<and> carried camera_gateway a = ToProto ?m \<and>
      list_all (quiet_proto (wrapper_type ?m)) (map (carried camera_gateway) pre)"
    by (intro exI [of _ "[]"] exI [of _ "ProtoBlock (Some [0, 0, 1])"])
      (simp add: defs carried_def proto_carried_def)
  then have "answered camera_gateway ?m ?rest"
    by (simp add: answered_def camera_gateway_def room_for_def roomy_def markedCapacity_def)
      (simp add: gateway_at_rest_def)
  moreover have cs: "map image_chunk_of (messages_in (carried camera_gateway) ImageChunkType ?rest) = [?c]"
    by (simp add: defs messages_in_def carried_def proto_carried_def wrapper_type_def image_chunk_of_def
        GetImageChunk_def)
  have group: "group_of [image_view ?c] = [image_view ?c]"
    by (simp add: group_of_def since_start_def in_order_def is_last_def image_view_def)
  have "image.fits [?c]"
    using group by (simp add: image.fits_def too_long_def payload_def Let_def) (simp add: image_view_def)
  moreover have "feed_out image_view (\<lambda>c d. CameraFeedResponse (image_of c (icImageId c) d)) [?c] =
      [CameraFeedResponse \<lparr>ciFrameTimeStamp = 5, ciImageId = 3, ciImageEncoding = 1, ciData = [9, 9, 8]\<rparr>]"
    using group by (simp add: feed_out_def completed_def payload_def Let_def)
      (simp add: is_last_def image_view_def image_of_def)
  moreover have "wrapper_type ?m = ResponseType ''EnableImageStreamingResponse''"
    by (simp add: wrapper_type_def)
  moreover have "written camera_gateway (Request ''EnableImageStreamingRequest'' (image_streaming_request True False)) []"
    "room_for camera_gateway ImageChunkType" "stream_fates camera_gateway = []" "stream_out camera_gateway = []"
    "list_all (\<lambda>a. tame (carried camera_gateway a)) ?rest"
    by (simp_all add: defs written_def next_fault_def room_for_def roomy_def markedCapacity_def tame_def
        carried_def proto_carried_def)
  ultimately show ?thesis using CameraFeed_delivers [of camera_gateway ?m ?rest "[]"] unfolding cs by simp
qed

text \<open>
  A feed that ends, however it ends, has switched the engine's stream off: with a wire in
  order the last datagram written is the request to do so.
\<close>

theorem feeds_switched_off:
  assumes "encodable w" "r \<noteq> Blocked" "r \<noteq> Crash" "s \<noteq> Blocked" "s \<noteq> Crash"
  shows "(AudioFeed w = (r, u) \<longrightarrow> last_written w (AudioSendModeRequest False) u) \<and>
    (CameraFeed w = (r, u) \<and> (\<exists>a v. EnableImageStreaming (image_streaming_request True False) w = (Ret a, v)) \<longrightarrow>
      last_written w (Request ''EnableImageStreamingRequest'' []) u) \<and>
    (CaptureSingleImage high w = (s, u) \<and> (\<exists>a v. EnableImageStreaming (image_streaming_request True high) w = (Ret a, v)) \<longrightarrow>
      last_written w (Request ''EnableImageStreamingRequest'' []) u)"
proof (intro conjI impI)
  have off: "image_streaming_request False False = []" by (simp add: image_streaming_request_def)
  have voice: "wire.always (AudioSendMode True)" using wire_Write by (simp add: AudioSendMode_def)
  show "last_written w (AudioSendModeRequest False) u" if "AudioFeed w = (r, u)"
  proof (rule first_then_last [OF that [unfolded AudioFeed_def] assms(2,3,1) voice _ feeds_wire(1)])
    show "\<exists>a. s = Ret a" if "AudioSendMode True w = (s, v)" for s v
      using that Write_last [OF assms(1), of "AudioSendModeRequest True"] by (auto simp: AudioSendMode_def)
  qed (rule AudioSendMode_last)
  show "last_written w (Request ''EnableImageStreamingRequest'' []) u"
    if "CameraFeed w = (r, u) \<and> (\<exists>a v. EnableImageStreaming (image_streaming_request True False) w = (Ret a, v))"
    by (rule first_then_last [OF conjunct1 [OF that, unfolded CameraFeed_def off] assms(2,3,1) EnableImageStreaming_wire _ feeds_wire(2)])
      (use that EnableImageStreaming_last in auto)
  show "last_written w (Request ''EnableImageStreamingRequest'' []) u"
    if "CaptureSingleImage high w = (s, u) \<and> (\<exists>a v. EnableImageStreaming (image_streaming_request True high) w = (Ret a, v))"
    by (rule first_then_last [OF conjunct1 [OF that, unfolded CaptureSingleImage_def off] assms(4,5,1) EnableImageStreaming_wire _ feeds_wire(3)])
      (use that EnableImageStreaming_last in auto)
qed


text \<open>In the example the client goes while it is sent the first group, of one chunk.\<close>

definition leaving_gateway :: gateway where
  "leaving_gateway = (gateway_at_rest [ProtoBlock (Some [0, 0, 1])]
     (\<lambda>_. Some \<lparr>ConnectionId = 0, OneofMessageType =
        Some (AudioChunk ((sample_chunk 7 0 [1])\<lparr>acAudioChunkCount := 1\<rparr>))\<rparr>))
     \<lparr>stream_fates := [ContextDone]\<rparr>"

theorem feeds_switched_off_witness:
  "\<exists>u. AudioFeed leaving_gateway = (Fail StreamError, u) \<and>
     last_written leaving_gateway (AudioSendModeRequest False) u"
proof -
  have "\<exists>u. AudioFeed leaving_gateway = (Fail StreamError, u)"
    by (simp add: AudioFeed_def AudioSendMode_def leaving_gateway_def audio_handle_def audio_chunk_of_def
        GetAudioChunk_def sample_chunk_def UnpackAudioChunk_def make_bytes_def ResetCache_def new_cache_def
        copy_slice_def cached_def run_defs)
  then obtain u where u: "AudioFeed leaving_gateway = (Fail StreamError, u)" by blast
  have "encodable leaving_gateway" by (simp add: encodable_def leaving_gateway_def gateway_at_rest_def)
  from feeds_switched_off [OF this, of "Fail StreamError" "Fail StreamError" u] u show ?thesis by auto
qed

end
