(* ===== verification/Behavior_Control.thy ===== *)
theory Behavior_Control
  imports Kept_Relations
begin

text \<open>
  The bidirectional streams of \<open>cloud/message_handler.go\<close>: \<open>BehaviorControl\<close>,
  \<open>AssumeBehaviorControl\<close> and \<open>ExternalAudioStreamPlayback\<close>. Each runs two goroutines: one reads
  the client's requests and writes them to the engine, the other hands the engine's responses to
  the client until the first closes the \<open>done\<close> channel. The requests that \<open>in.Recv()\<close> will return,
  before its error, are a list; when \<open>done\<close> is closed is seen by the other goroutine as the
  arrival \<open>PeerDone\<close>. The first only writes to the socket, and the second leaves the sockets alone
  (\<open>responses_sock\<close>), so the model may run the first before the second.
\<close>

section \<open>Requests\<close>

text \<open>\<open>BCUnset\<close> is a request of an unexpected type.\<close>

datatype behavior_control_request =
  BCControlRelease | BCControlRequest pb | BCUnset

text \<open>The member that the wrapper gets.\<close>

definition BehaviorRequestToGatewayWrapper :: "behavior_control_request \<Rightarrow> go_error + oneof" where
  "BehaviorRequestToGatewayWrapper request = (case request of
      BCControlRelease \<Rightarrow> Inr ControlRelease
    | BCControlRequest x \<Rightarrow> Inr (ControlRequest x)
    | BCUnset \<Rightarrow> Inl (GrpcError InvalidArgument
        ''BehaviorControlRequest.ControlRequest has unexpected type %T''))"

definition WriteWithID :: "oneof \<Rightarrow> uint64 \<Rightarrow> (gateway, unit) go" where
  "WriteWithID x connID = EngineProto_WriteWithID (Some \<lparr>ConnectionId = 0, OneofMessageType = Some x\<rparr>) connID"

fun forward_behavior_requests :: "behavior_control_request list \<Rightarrow> uint64 \<Rightarrow> (gateway, unit) go" where
  "forward_behavior_requests [] connID = returnM ()"
| "forward_behavior_requests (request # requests) connID =
     (case BehaviorRequestToGatewayWrapper request of
        Inl _ \<Rightarrow> returnM ()
      | Inr x \<Rightarrow> bindM (tryM (WriteWithID x connID)) (\<lambda>r. case r of
            Inl _ \<Rightarrow> returnM ()
          | Inr _ \<Rightarrow> forward_behavior_requests requests connID))"

definition BehaviorControlRequestHandler :: "behavior_control_request list \<Rightarrow> uint64 \<Rightarrow> (gateway, unit) go" where
  "BehaviorControlRequestHandler requests connID =
     deferM (WriteWithID ControlRelease connID) (forward_behavior_requests requests connID)"

datatype external_audio_request =
  AudioStreamPrepare pb | AudioStreamChunk pb | AudioStreamComplete pb | AudioStreamCancel pb | AudioStreamUnset

definition ExternalAudioStreamRequestToGatewayWrapper :: "external_audio_request \<Rightarrow> go_error + oneof" where
  "ExternalAudioStreamRequestToGatewayWrapper request = (case request of
      AudioStreamPrepare x \<Rightarrow> Inr (Request ''ExternalAudioStreamPrepare'' x)
    | AudioStreamChunk x \<Rightarrow> Inr (Request ''ExternalAudioStreamChunk'' x)
    | AudioStreamComplete x \<Rightarrow> Inr (Request ''ExternalAudioStreamComplete'' x)
    | AudioStreamCancel x \<Rightarrow> Inr (Request ''ExternalAudioStreamCancel'' x)
    | AudioStreamUnset \<Rightarrow> Inl (GrpcError InvalidArgument
        ''ExternalAudioStreamRequest.AudioStreamControlRequest has unexpected type %T''))"

text \<open>Here a request that cannot be written is skipped.\<close>

fun ExternalAudioStreamRequestHandler :: "external_audio_request list \<Rightarrow> (gateway, unit) go" where
  "ExternalAudioStreamRequestHandler [] = returnM ()"
| "ExternalAudioStreamRequestHandler (request # requests) =
     (case ExternalAudioStreamRequestToGatewayWrapper request of
        Inl _ \<Rightarrow> returnM ()
      | Inr x \<Rightarrow> bindM (tryM (EngineProto_Write x)) (\<lambda>_. ExternalAudioStreamRequestHandler requests))"

section \<open>Responses\<close>

definition GetBehaviorControlResponse :: "gateway_wrapper \<Rightarrow> pb" where
  "GetBehaviorControlResponse m =
     (case OneofMessageType m of Some (BehaviorControlResponse x) \<Rightarrow> x | _ \<Rightarrow> [])"

definition GetExternalAudioStreamResponse :: "gateway_wrapper \<Rightarrow> pb" where
  "GetExternalAudioStreamResponse m =
     (case OneofMessageType m of Some (ExternalAudioStreamResponse x) \<Rightarrow> x | _ \<Rightarrow> [])"

definition behavior_handle :: "uint64 \<Rightarrow> gateway_wrapper wake \<Rightarrow> unit \<Rightarrow> (gateway, unit + unit) go" where
  "behavior_handle connID k s = (case k of
      GotClosed \<Rightarrow> failM retrieve_failed
    | GotMessage response \<Rightarrow>
        if connID \<noteq> ConnectionId response then returnM (Inl ())
        else bindM (stream_Send (BehaviorResponse (GetBehaviorControlResponse response))) (\<lambda>_. returnM (Inl ()))
    | Woken a \<Rightarrow>
        if a = PeerDone then returnM (Inr ())
        else bindM (stream_Send BehaviorKeepAlive) (\<lambda>_. returnM (Inl ())))"

definition BehaviorControlResponseHandler :: "(arrival \<Rightarrow> bool) \<Rightarrow> nat \<Rightarrow> uint64 \<Rightarrow> (gateway, unit) go" where
  "BehaviorControlResponseHandler wakes responses connID = select_loop wakes responses (behavior_handle connID) ()"

definition external_audio_handle :: "gateway_wrapper wake \<Rightarrow> unit \<Rightarrow> (gateway, unit + unit) go" where
  "external_audio_handle k s = (case k of
      GotClosed \<Rightarrow> failM retrieve_failed
    | GotMessage response \<Rightarrow>
        bindM (stream_Send (ExternalAudioResponse (GetExternalAudioStreamResponse response))) (\<lambda>_. returnM (Inl ()))
    | Woken _ \<Rightarrow> returnM (Inr ()))"

section \<open>The streams\<close>

definition bc_wakes :: "arrival \<Rightarrow> bool" where
  "bc_wakes a \<longleftrightarrow> a = PeerDone \<or> a = TimerFires"

definition BehaviorControl :: "behavior_control_request list \<Rightarrow> (gateway, unit) go" where
  "BehaviorControl requests = bindM rand_Uint64 (\<lambda>connID.
     with_channel BehaviorControlResponseType 1 (\<lambda>behaviorStatus.
       bindM (tryM (BehaviorControlRequestHandler requests connID)) (\<lambda>_.
         BehaviorControlResponseHandler bc_wakes behaviorStatus connID)))"

text \<open>Here nobody closes \<open>done\<close>.\<close>

definition AssumeBehaviorControl :: "behavior_control_request \<Rightarrow> (gateway, unit) go" where
  "AssumeBehaviorControl request = with_channel BehaviorControlResponseType 1 (\<lambda>behaviorStatus.
     case BehaviorRequestToGatewayWrapper request of
       Inl e \<Rightarrow> failM e
     | Inr x \<Rightarrow> bindM (EngineProto_Write x)
         (BehaviorControlResponseHandler (\<lambda>a. a = TimerFires) behaviorStatus))"

definition ExternalAudioStreamPlayback :: "external_audio_request list \<Rightarrow> (gateway, unit) go" where
  "ExternalAudioStreamPlayback requests =
     with_channel ExternalAudioStreamResponseType 1 (\<lambda>audioStreamStatus.
       bindM (tryM (ExternalAudioStreamRequestHandler requests)) (\<lambda>_.
         select_loop (\<lambda>a. a = PeerDone) audioStreamStatus external_audio_handle ()))"

section \<open>Safety\<close>

lemma ok_WriteOneof: "ok I (WriteWithID x connID) (\<lambda>_. True)"
  unfolding WriteWithID_def by (rule ok_WriteWithID)

lemma ok_forward: "safe (forward_behavior_requests requests connID) (\<lambda>_. True)"
  by (induction requests)
    (auto intro!: ok_return ok_bind [OF ok_try [OF ok_WriteOneof]] split: sum.split)

lemma ok_external_requests: "safe (ExternalAudioStreamRequestHandler requests) (\<lambda>_. True)"
  by (induction requests) (auto intro!: ok_return ok_bind [OF ok_try [OF ok_Write]] split: sum.split)

lemma ok_behavior_requests: "safe (BehaviorControlRequestHandler requests connID) (\<lambda>_. True)"
  unfolding BehaviorControlRequestHandler_def by (rule ok_deferM [OF ok_forward ok_WriteOneof]) simp

lemma ok_behavior_handle: "safe (behavior_handle connID k s) (case_sum (\<lambda>_. True) (\<lambda>_. True))"
  by (auto simp: behavior_handle_def intro!: ok_return ok_bind [OF ok_stream_Send] split: wake.split)

lemma ok_behavior_responses:
  "ok (\<lambda>w. typed_chan wrapper_type t c (proto_mgr w)) (BehaviorControlResponseHandler wakes c connID) (\<lambda>_. True)"
  unfolding BehaviorControlResponseHandler_def
  by (rule ok_select_loop [where P = "\<lambda>_. True"]) (rule ok_behavior_handle, simp)

lemma ok_external_handle: "safe (external_audio_handle k s) (case_sum (\<lambda>_. True) (\<lambda>_. True))"
  by (auto simp: external_audio_handle_def intro!: ok_return ok_bind [OF ok_stream_Send] split: wake.split)

lemma ok_rand_safe: "safe rand_Uint64 (\<lambda>_. True)"
  by (rule ok_rand)

lemma ok_BehaviorControl: "safe (BehaviorControl requests) (\<lambda>_. True)"
  unfolding BehaviorControl_def
  by (intro ok_bind [OF ok_rand] ok_with_channel [where I = "\<lambda>_. True", simplified]
      ok_bind [OF ok_weaken [OF ok_try [OF ok_behavior_requests]]] ok_behavior_responses) auto

lemma ok_AssumeBehaviorControl: "safe (AssumeBehaviorControl request) (\<lambda>_. True)"
  unfolding AssumeBehaviorControl_def
  by (intro ok_with_channel [where I = "\<lambda>_. True", simplified])
    (auto intro!: ok_bind [OF ok_Write] ok_behavior_responses split: sum.split)

lemma ok_ExternalAudio: "safe (ExternalAudioStreamPlayback requests) (\<lambda>_. True)"
proof -
  have "ok (\<lambda>w. typed_chan wrapper_type t c (proto_mgr w))
      (select_loop (\<lambda>a. a = PeerDone) c external_audio_handle ()) (\<lambda>_. True)" for t c
    by (rule ok_select_loop [where P = "\<lambda>_. True"]) (rule ok_external_handle, simp)
  then show ?thesis unfolding ExternalAudioStreamPlayback_def
    by (intro ok_with_channel [where I = "\<lambda>_. True", simplified]
        ok_bind [OF ok_weaken [OF ok_try [OF ok_external_requests]]]) auto
qed

section \<open>What the engine is written\<close>

fun forwarded :: "behavior_control_request list \<Rightarrow> oneof list" where
  "forwarded [] = []"
| "forwarded (r # rs) = (case BehaviorRequestToGatewayWrapper r of Inl _ \<Rightarrow> [] | Inr x \<Rightarrow> x # forwarded rs)"

definition datagram :: "gateway \<Rightarrow> uint64 \<Rightarrow> oneof \<Rightarrow> byte list" where
  "datagram w connID x = frame (the (marshal w \<lparr>ConnectionId = connID, OneofMessageType = Some x\<rparr>))"

text \<open>The state after writing: the datagrams of \<open>xs\<close>, and one fault each time one was due.\<close>

definition wrote :: "oneof list \<Rightarrow> uint64 \<Rightarrow> gateway \<Rightarrow> bool list \<Rightarrow> gateway" where
  "wrote xs connID w fs = w\<lparr>write_faults := fs, proto_sock := proto_sock w @ map (datagram w connID) xs\<rparr>"

lemma WriteWithID_result:
  assumes "\<forall>m. marshal w m \<noteq> None"
  shows "WriteWithID x connID w =
    (if next_fault (write_faults w) then (Fail SocketError, wrote [] connID w (tl (write_faults w)))
     else (Ret (), wrote [x] connID w (tl (write_faults w))))"
proof -
  obtain d where "marshal w \<lparr>ConnectionId = connID, OneofMessageType = Some x\<rparr> = Some d"
    using assms by (metis not_Some_eq)
  then show ?thesis
    by (simp add: WriteWithID_def EngineProto_WriteWithID_def proto_conn_write_def wrote_def datagram_def)
qed

lemma wrote_wrote [simp]: "wrote ys i (wrote xs i w fs) gs = wrote (xs @ ys) i w gs"
  by (simp add: wrote_def datagram_def)

lemma wrote_simps [simp]:
  "write_faults (wrote xs i w fs) = fs" "marshal (wrote xs i w fs) = marshal w"
  by (simp_all add: wrote_def)

lemma wrote_nil [simp]: "wrote [] i w (write_faults w) = w"
  by (simp add: wrote_def)

lemma forward_result:
  assumes "\<forall>m. marshal w m \<noteq> None"
  shows "write_faults w = [] \<Longrightarrow>
      forward_behavior_requests rs i w = (Ret (), wrote (forwarded rs) i w [])"
    and "write_faults w = replicate k False @ True # fs \<Longrightarrow> k < length (forwarded rs) \<Longrightarrow>
      forward_behavior_requests rs i w = (Ret (), wrote (take k (forwarded rs)) i w fs)"
proof -
  show "write_faults w = [] \<Longrightarrow> forward_behavior_requests rs i w = (Ret (), wrote (forwarded rs) i w [])"
    using assms
  proof (induction rs arbitrary: w)
    case Nil
    then show ?case by (simp add: returnM_def wrote_def)
  next
    case (Cons r rs)
    then show ?case
      by (cases "BehaviorRequestToGatewayWrapper r")
        (simp_all add: returnM_def bindM_def tryM_def WriteWithID_result next_fault_def, simp add: wrote_def)
  qed
  show "write_faults w = replicate k False @ True # fs \<Longrightarrow> k < length (forwarded rs) \<Longrightarrow>
      forward_behavior_requests rs i w = (Ret (), wrote (take k (forwarded rs)) i w fs)"
    using assms
  proof (induction rs arbitrary: w k)
    case Nil
    then show ?case by simp
  next
    case (Cons r rs)
    then show ?case
      by (cases "BehaviorRequestToGatewayWrapper r"; cases k)
        (simp_all add: returnM_def bindM_def tryM_def WriteWithID_result next_fault_def)
  qed
qed

lemma requests_result:
  assumes "\<forall>m. marshal w m \<noteq> None"
  shows "write_faults w = [] \<Longrightarrow> BehaviorControlRequestHandler rs i w =
      (Ret (), wrote (forwarded rs @ [ControlRelease]) i w [])"
    and "write_faults w = replicate k False @ [True] \<Longrightarrow> k < length (forwarded rs) \<Longrightarrow>
      BehaviorControlRequestHandler rs i w = (Ret (), wrote (take k (forwarded rs) @ [ControlRelease]) i w [])"
  using forward_result [OF assms, where rs = rs and i = i] assms
  by (simp_all add: BehaviorControlRequestHandler_def deferM_def WriteWithID_result next_fault_def)

section \<open>What the client gets\<close>

definition behavior_round :: "uint64 \<Rightarrow> gateway_wrapper wake \<Rightarrow> unit \<Rightarrow> (unit + unit) \<times> stream_msg list" where
  "behavior_round connID k s = (case k of
      GotMessage m \<Rightarrow> (Inl (), if connID = ConnectionId m then [BehaviorResponse (GetBehaviorControlResponse m)] else [])
    | Woken a \<Rightarrow> if a = PeerDone then (Inr (), []) else (Inl (), [BehaviorKeepAlive])
    | GotClosed \<Rightarrow> (Inl (), []))"

lemma behavior_described: "described (behavior_handle connID) (behavior_round connID) (\<lambda>k s. k \<noteq> GotClosed)"
  unfolding described_def
  by (auto simp: behavior_handle_def behavior_round_def bindM_def returnM_def stream_Send_delivered split: wake.split)

definition behavior_out :: "(arrival \<Rightarrow> delivery) \<Rightarrow> uint64 \<Rightarrow> arrival \<Rightarrow> stream_msg list" where
  "behavior_out car connID a = (if a = TimerFires then [BehaviorKeepAlive] else case car a of
      ToProto m \<Rightarrow> if wrapper_type m = BehaviorControlResponseType \<and> ConnectionId m = connID
        then [BehaviorResponse (GetBehaviorControlResponse m)] else []
    | _ \<Rightarrow> [])"

lemma behavior_round_simps:
  "behavior_round connID (GotMessage m) s =
     (Inl (), if connID = ConnectionId m then [BehaviorResponse (GetBehaviorControlResponse m)] else [])"
  "behavior_round connID (Woken PeerDone) s = (Inr (), [])"
  "behavior_round connID (Woken TimerFires) s = (Inl (), [BehaviorKeepAlive])"
  by (simp_all add: behavior_round_def)

lemma wakes_in_Cons: "wakes_in car t wakes (a # as) = wake_of car t wakes a @ wakes_in car t wakes as"
  by (simp add: wakes_in_def)

lemma bc_wakes_simps [simp]: "bc_wakes PeerDone" "bc_wakes TimerFires"
  by (simp_all add: bc_wakes_def)

lemma behavior_rounds:
  "rounds (behavior_round connID) (wakes_in car BehaviorControlResponseType bc_wakes as) () =
     (if PeerDone \<in> set as then Inr () else Inl (),
      concat (map (behavior_out car connID) (takeWhile (\<lambda>a. a \<noteq> PeerDone) as)))"
proof (induction as)
  case Nil
  show ?case by (simp add: wakes_in_def)
next
  case (Cons a as)
  consider "a = PeerDone" | "a = TimerFires" | "\<not> bc_wakes a" by (auto simp: bc_wakes_def)
  then show ?case
  proof cases
    case 1
    then show ?thesis by (simp add: wakes_in_Cons wake_of_def behavior_round_simps)
  next
    case 2
    then show ?thesis
      by (simp add: wakes_in_Cons wake_of_def behavior_round_simps Cons.IH)
        (simp add: behavior_out_def [of _ _ TimerFires])
  next
    case 3
    then have a: "a \<noteq> PeerDone" "a \<noteq> TimerFires" by (simp_all add: bc_wakes_def)
    show ?thesis
    proof (cases "\<exists>m. car a = ToProto m \<and> wrapper_type m = BehaviorControlResponseType")
      case True
      then obtain m where m: "car a = ToProto m" "wrapper_type m = BehaviorControlResponseType" by blast
      have "wake_of car BehaviorControlResponseType bc_wakes a = [GotMessage m]"
        using 3 m by (simp add: wake_of_def)
      moreover have "behavior_out car connID a =
          (if connID = ConnectionId m then [BehaviorResponse (GetBehaviorControlResponse m)] else [])"
        using a m by (auto simp: behavior_out_def)
      ultimately show ?thesis using a by (simp add: wakes_in_Cons behavior_round_simps Cons.IH)
    next
      case False
      then have "wake_of car BehaviorControlResponseType bc_wakes a = []" "behavior_out car connID a = []"
        using 3 a by (auto simp: wake_of_def behavior_out_def split: delivery.split)
      then show ?thesis using a by (simp add: wakes_in_Cons Cons.IH)
    qed
  qed
qed

lemma guarded_open: "GotClosed \<notin> set ks \<Longrightarrow> guarded p (\<lambda>k s. k \<noteq> GotClosed) ks s"
  by (induction ks arbitrary: s) (auto split: sum.split)

lemma open_wakes: "GotClosed \<notin> set (wakes_in car t wakes as)"
  by (auto simp: wakes_in_def wake_of_def split: delivery.splits if_splits)


lemma wrote_waiting: "waiting w0 t c n w \<Longrightarrow> waiting w0 t c n (wrote xs i w fs)"
proof -
  assume w: "waiting w0 t c n w"
  have "carried (wrote xs i w fs) = carried w" by (rule carried_codec) (simp_all add: wrote_def)
  with w show ?thesis by (simp add: waiting_def wf_gateway_def roomy_def wrote_def)
qed

lemma responses_out:
  assumes "waiting w0 BehaviorControlResponseType c 1 w" "stream_fates w = []"
    and "list_all (\<lambda>a. tame (carried w0 a)) (arrivals w)"
  shows "\<exists>w'. BehaviorControlResponseHandler bc_wakes c connID w =
      (if PeerDone \<in> set (arrivals w) then Ret () else Blocked, w') \<and>
    stream_out w' = stream_out w @
      concat (map (behavior_out (carried w0) connID) (takeWhile (\<lambda>a. a \<noteq> PeerDone) (arrivals w))) \<and>
    same_feed w w' \<and> waiting w0 BehaviorControlResponseType c 1 w' \<and> shrinks w w'"
proof -
  let ?p = "behavior_round connID" and ?ks = "wakes_in (carried w0) BehaviorControlResponseType bc_wakes (arrivals w)"
  have "\<exists>w'. select_loop bc_wakes c (behavior_handle connID) () w = (outcome_of (fst (rounds ?p ?ks ())), w') \<and>
    stream_out w' = stream_out w @ snd (rounds ?p ?ks ()) \<and>
    same_feed w w' \<and> waiting w0 BehaviorControlResponseType c 1 w' \<and> shrinks w w'"
    by (rule select_loop_out [OF _ _ behavior_described assms guarded_open [OF open_wakes]]) simp_all
  then show ?thesis
    unfolding BehaviorControlResponseHandler_def behavior_rounds
    by (cases "PeerDone \<in> set (arrivals w)") (simp_all add: outcome_of_def)
qed

lemma responses_sock:
  "sock.always (BehaviorControlResponseHandler wakes c connID)"
  "sock.always (select_loop wakes c external_audio_handle ())"
  unfolding BehaviorControlResponseHandler_def
  by (intro sock.always_select_loop; auto simp: behavior_handle_def external_audio_handle_def
      intro!: sock.always_bind stream_Send_kept split: wake.split)+

text \<open>A handler whose body waits for ever waits for ever.\<close>

lemma with_channel_blocks:
  assumes "CreateChannel_reg t n (proto_mgr w) = (c, p)" "body c (put_proto p w) = (Blocked, u)"
  shows "with_channel t n body w = (Blocked, u)"
proof -
  have "EngineProto_CreateChannel t n w = (Ret c, put_proto p w)"
    by (simp only: EngineProto_CreateChannel_def mgr_CreateChannel_def assms(1) Let_def prod.case)
  then show ?thesis using assms(2) unfolding with_channel_def by (subst bindM_def) (simp add: deferM_def)
qed

section \<open>Properties\<close>

text \<open>
  The bidirectional streams never panic and leave no listener behind when they end, whatever
  the client asks for, whatever arrives and whichever writes and sends fail.
\<close>

theorem bidirectional_streams_safe:
  "safe (BehaviorControl requests) (\<lambda>_. True) \<and> safe (AssumeBehaviorControl request) (\<lambda>_. True) \<and>
   safe (ExternalAudioStreamPlayback audio) (\<lambda>_. True)"
  by (intro conjI ok_BehaviorControl ok_AssumeBehaviorControl ok_ExternalAudio)

text \<open>
  C34. A client of behavior control has its requests written in order, under its own connection id,
  up to the first one of an unknown type, and after them, in every case, the release of control;
  it gets the engine's responses to its own connection id and no others, in order, with one ping
  per tick, until the request side is done.
\<close>

theorem BehaviorControl_forwards:
  assumes "wf_gateway w" "proto_alive w" "room_for w BehaviorControlResponseType" "encodable w"
    and "stream_fates w = []" "list_all (\<lambda>a. tame (carried w a)) (arrivals w)"
  shows "\<exists>w'. let connID = rand_source w (rand_next w) in
    BehaviorControl requests w = (if PeerDone \<in> set (arrivals w) then Ret () else Blocked, w') \<and>
    proto_sock w' = proto_sock w @ map (datagram w connID) (forwarded requests @ [ControlRelease]) \<and>
    stream_out w' = stream_out w @
      concat (map (behavior_out (carried w) connID) (takeWhile (\<lambda>a. a \<noteq> PeerDone) (arrivals w)))"
proof -
  let ?i = "rand_source w (rand_next w)" and ?t = BehaviorControlResponseType
  let ?w = "w\<lparr>rand_next := Suc (rand_next w)\<rparr>" and ?xs = "forwarded requests @ [ControlRelease]"
  have car: "carried ?w = carried w" by (rule carried_codec) simp_all
  have wf: "wf_gateway ?w" using assms(1) by (simp add: wf_gateway_def)
  obtain c p where cp: "CreateChannel_reg ?t 1 (proto_mgr ?w) = (c, p)" by fastforce
  let ?v = "wrote ?xs ?i (put_proto p ?w) []"
  have wait: "waiting ?w ?t c 1 ?v"
    by (rule wrote_waiting, rule open_channel [OF wf _ _ cp])
      (use assms(2,3) in \<open>simp_all add: room_for_def roomy_def\<close>)
  have req: "tryM (BehaviorControlRequestHandler requests ?i) (put_proto p ?w) = (Ret (Inr ()), ?v)"
    using requests_result(1) [of "put_proto p ?w" requests ?i] assms(4) by (simp add: encodable_def tryM_def)
  obtain u where u: "BehaviorControlResponseHandler bc_wakes c ?i ?v =
      (if PeerDone \<in> set (arrivals w) then Ret () else Blocked, u)"
    "stream_out u = stream_out w @ concat (map (behavior_out (carried w) ?i) (takeWhile (\<lambda>a. a \<noteq> PeerDone) (arrivals w)))"
    "same_feed ?v u" "waiting ?w ?t c 1 u" "shrinks ?v u"
    using responses_out [OF wait, of ?i] assms(5,6) by (auto simp: wrote_def car)
  let ?body = "\<lambda>c. bindM (tryM (BehaviorControlRequestHandler requests ?i))
    (\<lambda>_. BehaviorControlResponseHandler bc_wakes c ?i)"
  have body: "?body c (put_proto p ?w) = (if PeerDone \<in> set (arrivals w) then Ret () else Blocked, u)"
    by (simp add: bindM_def req u(1))
  have BC: "BehaviorControl requests w = with_channel ?t 1 ?body ?w"
    by (simp add: BehaviorControl_def bindM_def rand_Uint64_def)
  have sock: "proto_sock u = proto_sock w @ map (datagram w ?i) ?xs"
    using same_feedD(1) [OF u(3)] by (simp add: wrote_def datagram_def)
  show ?thesis
  proof (cases "PeerDone \<in> set (arrivals w)")
    case True
    have "shrinks (put_proto p ?w) ?v" by (rule same_mgrs_good) (simp add: same_mgrs_def wrote_def)
    then have "shrinks (put_proto p ?w) u" using shrinks_trans u(5) by blast
    moreover have "wf_gateway u" using u(4) by (simp add: waiting_def)
    ultimately obtain q where "with_channel ?t 1 ?body ?w = (Ret (), put_proto q u)"
      using with_channel_returns [OF wf cp, of ?body "()" u] body True by auto
    then show ?thesis using True u(2) sock by (simp add: BC Let_def)
  next
    case False
    then have "with_channel ?t 1 ?body ?w = (Blocked, u)" using with_channel_blocks [OF cp, of ?body u] body by simp
    then show ?thesis using False u(2) sock by (simp add: BC Let_def)
  qed
qed

definition behavior_gateway :: gateway where
  "behavior_gateway = gateway_at_rest [ProtoBlock (Some [0, 0, 1]), TimerFires, ProtoBlock (Some [0, 0, 2]), PeerDone]
     (\<lambda>b. Some \<lparr>ConnectionId = (if b = [1] then 9 else 0), OneofMessageType = Some (BehaviorControlResponse b)\<rparr>)"

theorem BehaviorControl_forwards_witness:
  "\<exists>w'. BehaviorControl [BCControlRequest [3], BCUnset, BCControlRelease] behavior_gateway = (Ret (), w') \<and>
     length (proto_sock w') = 2 \<and> stream_out w' = [BehaviorKeepAlive, BehaviorResponse [2]]"
proof -
  note defs = behavior_gateway_def gateway_at_rest_def
  have "wf_gateway behavior_gateway" by (simp add: behavior_gateway_def)
  moreover have "proto_alive behavior_gateway" "room_for behavior_gateway BehaviorControlResponseType"
    "encodable behavior_gateway" "stream_fates behavior_gateway = []"
    "list_all (\<lambda>a. tame (carried behavior_gateway a)) (arrivals behavior_gateway)"
    by (simp_all add: defs room_for_def roomy_def markedCapacity_def encodable_def tame_def carried_def
        proto_carried_def)
  ultimately have "\<exists>w'. let connID = rand_source behavior_gateway (rand_next behavior_gateway) in
    BehaviorControl [BCControlRequest [3], BCUnset, BCControlRelease] behavior_gateway =
      (if PeerDone \<in> set (arrivals behavior_gateway) then Ret () else Blocked, w') \<and>
    proto_sock w' = proto_sock behavior_gateway @
      map (datagram behavior_gateway connID) (forwarded [BCControlRequest [3], BCUnset, BCControlRelease] @ [ControlRelease]) \<and>
    stream_out w' = stream_out behavior_gateway @
      concat (map (behavior_out (carried behavior_gateway) connID)
        (takeWhile (\<lambda>a. a \<noteq> PeerDone) (arrivals behavior_gateway)))"
    by (rule BehaviorControl_forwards)
  then show ?thesis
    by (simp add: defs BehaviorRequestToGatewayWrapper_def behavior_out_def carried_def proto_carried_def
        wrapper_type_def GetBehaviorControlResponse_def Let_def) fastforce
qed



end
