(* ===== verification/Nav_Map.thy ===== *)
theory Nav_Map
  imports Rpc_Clad Kept_Relations
begin

text \<open>
  \<open>NavMapFeed\<close> of \<open>cloud/message_handler.go\<close>: the engine sends a map as a begin message, messages
  with quads and an end message, which the handler gets on three channels. Its \<open>select\<close> takes any
  channel that is ready, so the feed is a step relation: a step is a block that arrives, or one
  round of the handler's loop with one of the channels. The lemmas show that no round panics,
  what is sent when every message is handled before the next one arrives, and that quads move to
  another map when it is not.
\<close>

section \<open>The feed\<close>

record nav_feed =
  world :: gateway
  memoryMapMessageBegin :: nat
  memoryMapMessageData :: nat
  memoryMapMessageEnd :: nat
  pendingMap :: "nav_map_feed_response option"
  returned :: "go_error option"

definition nav_open :: "float32 \<Rightarrow> (gateway, nat \<times> nat \<times> nat) go" where
  "nav_open frequency = bindM (SetNavMapBroadcastFrequency frequency) (\<lambda>_.
     bindM (EngineClad_CreateChannel Tag_MemoryMapMessageBegin 1) (\<lambda>c1.
     bindM (EngineClad_CreateChannel Tag_MemoryMapMessage 50) (\<lambda>c2.
     bindM (EngineClad_CreateChannel Tag_MemoryMapMessageEnd 1) (\<lambda>c3.
     returnM (c1, c2, c3)))))"

text \<open>The deferred calls; \<open>-1.0\<close> is \<open>0xBF800000\<close>.\<close>

definition nav_close :: "nat \<times> nat \<times> nat \<Rightarrow> (gateway, unit) go" where
  "nav_close cs = (case cs of (c1, c2, c3) \<Rightarrow>
     bindM (EngineClad_deleteListenerCallback c3 Tag_MemoryMapMessageEnd) (\<lambda>_.
     bindM (EngineClad_deleteListenerCallback c2 Tag_MemoryMapMessage) (\<lambda>_.
     bindM (EngineClad_deleteListenerCallback c1 Tag_MemoryMapMessageBegin) (\<lambda>_.
     SetNavMapBroadcastFrequency 0xBF800000))))"

text \<open>The branches of the \<open>select\<close>, with the message received; \<open>None\<close> is a panic.\<close>

definition nav_begin :: "robot_to_external \<Rightarrow> nav_feed \<Rightarrow> nav_feed option" where
  "nav_begin chanResponse s = (case chanResponse of
      MemoryMapMessageBegin response \<Rightarrow>
        Some (s\<lparr>pendingMap := Some \<lparr>OriginId = mbOriginId response,
          MapInfo = CladMemoryMapBeginToProtoNavMapInfo response, QuadInfos = []\<rparr>\<rparr>)
    | _ \<Rightarrow> None)"

definition nav_data :: "robot_to_external \<Rightarrow> nav_feed \<Rightarrow> nav_feed option" where
  "nav_data chanResponse s = (case pendingMap s of
      None \<Rightarrow> Some s
    | Some p \<Rightarrow> (case chanResponse of
          MemoryMapMessage quads \<Rightarrow>
            Some (s\<lparr>pendingMap := Some (p\<lparr>QuadInfos := QuadInfos p @ map CladMemoryMapQuadInfoToProto quads\<rparr>)\<rparr>)
        | _ \<Rightarrow> None))"

definition nav_end :: "nav_feed \<Rightarrow> nav_feed option" where
  "nav_end s = (case pendingMap s of
      None \<Rightarrow> Some s
    | Some p \<Rightarrow> (case stream_Send (NavMapFeedResponse p) (world s) of
          (Ret _, w) \<Rightarrow> Some (s\<lparr>world := w, pendingMap := None\<rparr>)
        | (Fail e, w) \<Rightarrow> Some (s\<lparr>world := w, returned := Some e\<rparr>)
        | _ \<Rightarrow> None))"

definition nav_receive :: "nat \<Rightarrow> nav_feed \<Rightarrow> robot_to_external recv_result \<times> nav_feed" where
  "nav_receive c s = (let (r, q) = receive_reg c (clad_mgr (world s)) in (r, s\<lparr>world := put_clad q (world s)\<rparr>))"

inductive nav_step :: "nav_feed \<Rightarrow> nav_feed \<Rightarrow> bool" where
  arrives: "returned s = None \<Longrightarrow> arrive a (world s) = (Ret (), w) \<Longrightarrow> nav_step s (s\<lparr>world := w\<rparr>)"
| takes_begin: "returned s = None \<Longrightarrow> nav_receive (memoryMapMessageBegin s) s = (Received m, s') \<Longrightarrow>
    nav_begin m s' = Some s'' \<Longrightarrow> nav_step s s''"
| takes_data: "returned s = None \<Longrightarrow> nav_receive (memoryMapMessageData s) s = (Received m, s') \<Longrightarrow>
    nav_data m s' = Some s'' \<Longrightarrow> nav_step s s''"
| takes_end: "returned s = None \<Longrightarrow> nav_receive (memoryMapMessageEnd s) s = (Received m, s') \<Longrightarrow>
    nav_end s' = Some s'' \<Longrightarrow> nav_step s s''"
| channel_closed: "returned s = None \<Longrightarrow>
    c \<in> {memoryMapMessageBegin s, memoryMapMessageData s, memoryMapMessageEnd s} \<Longrightarrow>
    nav_receive c s = (ClosedEmpty, s') \<Longrightarrow> nav_step s (s'\<lparr>returned := Some retrieve_failed\<rparr>)"

inductive_cases nav_stepE: "nav_step s s'"

text \<open>A feed that has just been opened.\<close>

definition nav_started :: "float32 \<Rightarrow> gateway \<Rightarrow> nav_feed \<Rightarrow> bool" where
  "nav_started frequency w s \<longleftrightarrow>
     nav_open frequency w = (Ret (memoryMapMessageBegin s, memoryMapMessageData s, memoryMapMessageEnd s), world s) \<and>
     pendingMap s = None \<and> returned s = None"

section \<open>No round panics\<close>

definition nav_inv :: "nav_feed \<Rightarrow> bool" where
  "nav_inv s \<longleftrightarrow> wf_gateway (world s) \<and>
     typed_chan robotTag Tag_MemoryMapMessageBegin (memoryMapMessageBegin s) (clad_mgr (world s)) \<and>
     typed_chan robotTag Tag_MemoryMapMessage (memoryMapMessageData s) (clad_mgr (world s)) \<and>
     typed_chan robotTag Tag_MemoryMapMessageEnd (memoryMapMessageEnd s) (clad_mgr (world s))"

lemma nav_inv_world:
  assumes "nav_inv s" "wf_gateway w" "keeps (world s) w" "memoryMapMessageBegin s' = memoryMapMessageBegin s"
    "memoryMapMessageData s' = memoryMapMessageData s" "memoryMapMessageEnd s' = memoryMapMessageEnd s" "world s' = w"
  shows "nav_inv s'"
  using assms clad.keeps_get [OF assms(3)] by (simp add: nav_inv_def)

lemma nav_receive_inv:
  assumes "nav_inv s" "nav_receive c s = (r, s')"
  shows "nav_inv s'" "memoryMapMessageBegin s' = memoryMapMessageBegin s"
    "memoryMapMessageData s' = memoryMapMessageData s" "memoryMapMessageEnd s' = memoryMapMessageEnd s"
    "\<And>t m. typed_chan robotTag t c (clad_mgr (world s)) \<Longrightarrow> r = Received m \<Longrightarrow> robotTag m = t"
proof -
  obtain q where q: "receive_reg c (clad_mgr (world s)) = (r, q)" "s' = s\<lparr>world := put_clad q (world s)\<rparr>"
    using assms(2) by (auto simp: nav_receive_def split: prod.splits)
  have "wf_manager robotTag (clad_mgr (world s))" using assms(1) by (simp add: nav_inv_def wf_gateway_def)
  from receive_wf [OF this q(1)] typed_chan_receive [OF q(1)] assms(1) show "nav_inv s'"
    by (simp add: nav_inv_def q(2) wf_gateway_def)
  show "memoryMapMessageBegin s' = memoryMapMessageBegin s"
    "memoryMapMessageData s' = memoryMapMessageData s" "memoryMapMessageEnd s' = memoryMapMessageEnd s"
    by (simp_all add: q(2))
  show "robotTag m = t" if "typed_chan robotTag t c (clad_mgr (world s))" "r = Received m" for t m
    using that receive_buf(2) [OF q(1) that(2)] by (auto simp: typed_chan_def)
qed

lemma nav_end_total:
  assumes "nav_inv s"
  obtains s' where "nav_end s = Some s'" "nav_inv s'"
proof (cases "pendingMap s")
  case None
  with assms that show thesis by (simp add: nav_end_def)
next
  case (Some p)
  obtain r w where send: "stream_Send (NavMapFeedResponse p) (world s) = (r, w)" by fastforce
  then have "same_mgrs (world s) w" "(\<exists>u. r = Ret u) \<or> (\<exists>e. r = Fail e)"
    by (auto simp: stream_Send_def Let_def same_mgrs_def split: send_fate.splits)
  moreover from this(1) have "wf_gateway w" "keeps (world s) w"
    using same_mgrs_good assms by (auto simp: nav_inv_def)
  ultimately show thesis
    using that nav_inv_world [OF assms] Some send by (auto simp: nav_end_def)
qed

lemma nav_step_inv: "nav_step s s' \<Longrightarrow> nav_inv s \<Longrightarrow> nav_inv s'"
proof (induction rule: nav_step.induct)
  case (arrives s a w)
  have "wf_gateway w" "keeps (world s) w"
    using okD(2) [OF arrive_ok, of "world s" "\<lambda>_. True" a "Ret ()" w "()"] arrives by (auto simp: nav_inv_def)
  then show ?case using nav_inv_world [OF arrives(3)] by simp
next
  case (takes_begin s m s' s'')
  then show ?case using nav_receive_inv(1) [OF takes_begin(4,2)]
    by (auto simp: nav_begin_def nav_inv_def split: robot_to_external.splits)
next
  case (takes_data s m s' s'')
  then show ?case using nav_receive_inv(1) [OF takes_data(4,2)]
    by (auto simp: nav_data_def nav_inv_def split: option.splits robot_to_external.splits)
next
  case (takes_end s m s' s'')
  show ?case using nav_end_total [OF nav_receive_inv(1) [OF takes_end(4,2)]] takes_end(3) by auto
next
  case (channel_closed s c s')
  then show ?case using nav_receive_inv(1) [OF channel_closed(4,3)] by (simp add: nav_inv_def)
qed


lemma nav_open_result:
  assumes "nav_started frequency w s"
  obtains fs k m1 m2 m3 where
    "CreateChannel_reg Tag_MemoryMapMessageBegin 1 (clad_mgr w) = (memoryMapMessageBegin s, m1)"
    "CreateChannel_reg Tag_MemoryMapMessage 50 m1 = (memoryMapMessageData s, m2)"
    "CreateChannel_reg Tag_MemoryMapMessageEnd 1 m2 = (memoryMapMessageEnd s, m3)"
    "world s = w\<lparr>write_faults := fs, clad_sock := k, clad_mgr := m3\<rparr>"
proof -
  obtain v where "SetNavMapBroadcastFrequency frequency w = (Ret (), v)"
    and opn: "bindM (EngineClad_CreateChannel Tag_MemoryMapMessageBegin 1) (\<lambda>c1.
     bindM (EngineClad_CreateChannel Tag_MemoryMapMessage 50) (\<lambda>c2.
     bindM (EngineClad_CreateChannel Tag_MemoryMapMessageEnd 1) (\<lambda>c3.
     returnM (c1, c2, c3)))) v =
     (Ret (memoryMapMessageBegin s, memoryMapMessageData s, memoryMapMessageEnd s), world s)"
    using assms unfolding nav_started_def nav_open_def
    by (subst (asm) bindM_def) (auto split: prod.splits outcome.splits)
  moreover from this(1) obtain fs k where v: "v = w\<lparr>write_faults := fs, clad_sock := k\<rparr>"
    by (auto simp: SetNavMapBroadcastFrequency_def EngineClad_Write_eq clad_conn_write_def Let_def
        split: option.splits if_splits)
  obtain c1 m1 where c1: "CreateChannel_reg Tag_MemoryMapMessageBegin 1 (clad_mgr w) = (c1, m1)" by fastforce
  obtain c2 m2 where c2: "CreateChannel_reg Tag_MemoryMapMessage 50 m1 = (c2, m2)" by fastforce
  obtain c3 m3 where c3: "CreateChannel_reg Tag_MemoryMapMessageEnd 1 m2 = (c3, m3)" by fastforce
  have "c1 = memoryMapMessageBegin s" "c2 = memoryMapMessageData s" "c3 = memoryMapMessageEnd s"
    "world s = w\<lparr>write_faults := fs, clad_sock := k, clad_mgr := m3\<rparr>"
    using opn c1 c2 c3
    by (simp_all add: v bindM_def EngineClad_CreateChannel_def mgr_CreateChannel_def returnM_def del: One_nat_def)
  with that c1 c2 c3 show thesis by blast
qed

lemma nav_started_inv:
  assumes "nav_started frequency w s" "wf_gateway w"
  shows "nav_inv s"
proof (rule nav_open_result [OF assms(1)])
  fix fs k m1 m2 m3
  assume c: "CreateChannel_reg Tag_MemoryMapMessageBegin 1 (clad_mgr w) = (memoryMapMessageBegin s, m1)"
    "CreateChannel_reg Tag_MemoryMapMessage 50 m1 = (memoryMapMessageData s, m2)"
    "CreateChannel_reg Tag_MemoryMapMessageEnd 1 m2 = (memoryMapMessageEnd s, m3)"
    and ws: "world s = w\<lparr>write_faults := fs, clad_sock := k, clad_mgr := m3\<rparr>"
  have wf0: "wf_manager robotTag (clad_mgr w)" using assms(2) by (simp add: wf_gateway_def)
  note wf1 = CreateChannel_wf [OF wf0 c(1)] note wf2 = CreateChannel_wf [OF wf1 c(2)]
  note wf3 = CreateChannel_wf [OF wf2 c(3)]
  show ?thesis
    using assms(2) wf3 typed_chan_create [OF wf2 c(3)] typed_chan_create(1) [OF wf1 c(2)]
      typed_chan_create(2) [OF wf1 c(2)] typed_chan_create(1) [OF wf0 c(1)]
    by (simp add: nav_inv_def ws wf_gateway_def)
qed

lemma nav_reachable_inv:
  assumes "nav_started frequency w s0" "wf_gateway w" "nav_step\<^sup>*\<^sup>* s0 s"
  shows "nav_inv s"
  using assms(3) nav_step_inv nav_started_inv [OF assms(1,2)] by (induction rule: rtranclp_induct) blast+

section \<open>A handler that keeps up\<close>

text \<open>The maps that a sequence of messages makes: quads between a begin and an end.\<close>

fun nav_maps :: "nav_map_feed_response option \<Rightarrow> robot_to_external list \<Rightarrow> stream_msg list" where
  "nav_maps pending [] = []"
| "nav_maps pending (MemoryMapMessageBegin b # ms) =
     nav_maps (Some \<lparr>OriginId = mbOriginId b, MapInfo = CladMemoryMapBeginToProtoNavMapInfo b, QuadInfos = []\<rparr>) ms"
| "nav_maps pending (MemoryMapMessage quads # ms) = nav_maps (map_option (\<lambda>p.
     p\<lparr>QuadInfos := QuadInfos p @ map CladMemoryMapQuadInfoToProto quads\<rparr>) pending) ms"
| "nav_maps pending (MemoryMapMessageEnd # ms) =
     (case pending of None \<Rightarrow> [] | Some p \<Rightarrow> [NavMapFeedResponse p]) @ nav_maps None ms"
| "nav_maps pending (_ # ms) = nav_maps pending ms"

definition idle_chan :: "8 word \<Rightarrow> nat \<Rightarrow> gateway \<Rightarrow> bool" where
  "idle_chan t c w \<longleftrightarrow> c \<in> set (listeners (clad_mgr w) t) \<and>
     (\<exists>n > 0. chans (clad_mgr w) c = Some \<lparr>cap = n, buf = [], closed = False\<rparr>)"

lemma deliver_others:
  assumes w: "wf_gateway w" "roomy w" "clad_alive w" "carried w a = ToClad x"
  obtains p where "arrive a w = (Ret (), put_clad p w)" "wf_gateway (put_clad p w)" "shrinks w (put_clad p w)"
    "\<And>t d. t \<noteq> robotTag x \<Longrightarrow> idle_chan t d w \<Longrightarrow> idle_chan t d (put_clad p w)"
    "\<And>c ch. c \<in> set (listeners (clad_mgr w) (robotTag x)) \<Longrightarrow> chans (clad_mgr w) c = Some ch \<Longrightarrow>
       length (buf ch) < cap ch \<Longrightarrow>
       c \<in> set (listeners p (robotTag x)) \<and> chans p c = Some (ch\<lparr>buf := buf ch @ [x]\<rparr>)"
proof -
  have arr: "arrive a w = EngineClad_SendToListeners x w"
    using w(3,4) by (cases rule: arrive_cases [of a w]) auto
  from clad_send_room [OF w(1,2), of x] obtain p where
    p: "EngineClad_SendToListeners x w = (Ret (), put_clad p w)" "wf_gateway (put_clad p w)" "shrinks w (put_clad p w)"
    "\<And>c u. c \<in> set (listeners (clad_mgr w) u) \<Longrightarrow> u \<noteq> robotTag x \<Longrightarrow>
       c \<in> set (listeners p u) \<and> chans p c = chans (clad_mgr w) c"
    "\<And>c ch. c \<in> set (listeners (clad_mgr w) (robotTag x)) \<Longrightarrow> chans (clad_mgr w) c = Some ch \<Longrightarrow>
       length (buf ch) < cap ch \<Longrightarrow>
       c \<in> set (listeners p (robotTag x)) \<and> chans p c = Some (ch\<lparr>buf := buf ch @ [x]\<rparr>)" by metis
  show thesis
  proof (rule that)
    show "arrive a w = (Ret (), put_clad p w)" using arr p(1) by simp
    show "idle_chan t d (put_clad p w)" if "t \<noteq> robotTag x" "idle_chan t d w" for t d
      using that p(4) [of d t] by (simp add: idle_chan_def)
  qed (fact p)+
qed

lemma deliver_take:
  assumes w: "wf_gateway w" "roomy w" "clad_alive w" "carried w a = ToClad x" "idle_chan (robotTag x) c w"
  obtains p q where "arrive a w = (Ret (), put_clad p w)" "receive_reg c p = (Received x, q)"
    "wf_gateway (put_clad q w)" "shrinks w (put_clad q w)" "idle_chan (robotTag x) c (put_clad q w)"
    "\<And>t d. t \<noteq> robotTag x \<Longrightarrow> idle_chan t d w \<Longrightarrow> idle_chan t d (put_clad q w)"
proof (rule deliver_others [OF w(1-4)])
  fix p
  assume p: "arrive a w = (Ret (), put_clad p w)" "wf_gateway (put_clad p w)" "shrinks w (put_clad p w)"
    and others: "\<And>t d. t \<noteq> robotTag x \<Longrightarrow> idle_chan t d w \<Longrightarrow> idle_chan t d (put_clad p w)"
    and mine: "\<And>c ch. c \<in> set (listeners (clad_mgr w) (robotTag x)) \<Longrightarrow> chans (clad_mgr w) c = Some ch \<Longrightarrow>
       length (buf ch) < cap ch \<Longrightarrow>
       c \<in> set (listeners p (robotTag x)) \<and> chans p c = Some (ch\<lparr>buf := buf ch @ [x]\<rparr>)"
  obtain n where n: "0 < n" "c \<in> set (listeners (clad_mgr w) (robotTag x))"
    "chans (clad_mgr w) c = Some \<lparr>cap = n, buf = [], closed = False\<rparr>"
    using w(5) by (auto simp: idle_chan_def)
  then have c: "c \<in> set (listeners p (robotTag x))" "chans p c = Some \<lparr>cap = n, buf = [x], closed = False\<rparr>"
    using mine [OF n(2,3)] by simp_all
  let ?q = "p\<lparr>chans := (chans p)(c \<mapsto> \<lparr>cap = n, buf = [], closed = False\<rparr>)\<rparr>"
  have r: "receive_reg c p = (Received x, ?q)" using c(2) by (simp add: receive_reg_def)
  have wfp: "wf_manager robotTag p" using p(2) by (simp add: wf_gateway_def)
  have ls: "listeners ?q = listeners p" using receive_listeners [OF r] .
  have apart: "d \<noteq> c" if "t \<noteq> robotTag x" "d \<in> set (listeners p t)" for t d
    using wf_managerD(3) [OF wfp that(1)] that(2) c(1) by auto
  show thesis
  proof (rule that [OF p(1) r])
    show "wf_gateway (put_clad ?q w)" using receive_wf [OF wfp r] w(1) by (simp add: wf_gateway_def)
    show "shrinks w (put_clad ?q w)" using p(3) by (simp add: shrinks_def ls)
    show "idle_chan (robotTag x) c (put_clad ?q w)" using n(1) c(1) by (simp add: idle_chan_def ls)
    show "idle_chan t d (put_clad ?q w)" if "t \<noteq> robotTag x" "idle_chan t d w" for t d
      using others [OF that] apart [OF that(1), of d] by (auto simp: idle_chan_def ls)
  qed
qed


definition idle_three :: "nav_feed \<Rightarrow> gateway \<Rightarrow> bool" where
  "idle_three s w \<longleftrightarrow> idle_chan Tag_MemoryMapMessageBegin (memoryMapMessageBegin s) w \<and>
     idle_chan Tag_MemoryMapMessage (memoryMapMessageData s) w \<and>
     idle_chan Tag_MemoryMapMessageEnd (memoryMapMessageEnd s) w"

definition nav_ready :: "nav_feed \<Rightarrow> bool" where
  "nav_ready s \<longleftrightarrow> wf_gateway (world s) \<and> roomy (world s) \<and> clad_alive (world s) \<and>
     stream_fates (world s) = [] \<and> returned s = None \<and> idle_three s (world s)"

lemma nav_ready_next:
  assumes "nav_ready s" "wf_gateway (put_clad q (world s))" "shrinks (world s) (put_clad q (world s))"
    and "idle_three s (put_clad q (world s))"
    and "memoryMapMessageBegin s' = memoryMapMessageBegin s" "memoryMapMessageData s' = memoryMapMessageData s"
      "memoryMapMessageEnd s' = memoryMapMessageEnd s" "returned s' = None"
    and "world s' = put_clad q (world s)\<lparr>stream_out := out\<rparr>"
  shows "nav_ready s'" "carried (world s') = carried (world s)"
proof -
  have "roomy (put_clad q (world s))"
    using roomy_shrinks [OF _ assms(2,3)] assms(1) by (simp add: nav_ready_def)
  then show "nav_ready s'"
    using assms by (simp add: nav_ready_def wf_gateway_def roomy_def idle_three_def idle_chan_def)
  show "carried (world s') = carried (world s)" by (rule carried_codec) (simp_all add: assms(9))
qed

lemma nav_take:
  assumes s: "nav_ready s" and a: "carried (world s) a = ToClad x"
    and c: "(robotTag x, c) \<in> {(Tag_MemoryMapMessageBegin, memoryMapMessageBegin s),
      (Tag_MemoryMapMessage, memoryMapMessageData s), (Tag_MemoryMapMessageEnd, memoryMapMessageEnd s)}"
  obtains t q where "nav_step s t" "returned t = None" "memoryMapMessageBegin t = memoryMapMessageBegin s"
    "memoryMapMessageData t = memoryMapMessageData s" "memoryMapMessageEnd t = memoryMapMessageEnd s"
    "nav_receive c t = (Received x, s\<lparr>world := put_clad q (world s)\<rparr>)"
    "wf_gateway (put_clad q (world s))" "shrinks (world s) (put_clad q (world s))"
    "idle_three s (put_clad q (world s))"
proof -
  have w: "wf_gateway (world s)" "roomy (world s)" "clad_alive (world s)" "returned s = None"
    "idle_three s (world s)" using s by (simp_all add: nav_ready_def)
  have idle: "idle_chan (robotTag x) c (world s)" using w(5) c by (auto simp: idle_three_def)
  show thesis
  proof (rule deliver_take [OF w(1-3) a idle])
    fix p q
    assume d: "arrive a (world s) = (Ret (), put_clad p (world s))" "receive_reg c p = (Received x, q)"
      "wf_gateway (put_clad q (world s))" "shrinks (world s) (put_clad q (world s))"
      "idle_chan (robotTag x) c (put_clad q (world s))"
      and others: "\<And>t d. t \<noteq> robotTag x \<Longrightarrow> idle_chan t d (world s) \<Longrightarrow> idle_chan t d (put_clad q (world s))"
    have "idle_three s (put_clad q (world s))"
      using others [of Tag_MemoryMapMessageBegin] others [of Tag_MemoryMapMessage]
        others [of Tag_MemoryMapMessageEnd] w(5) d(5) c
      by (auto simp: idle_three_def robot_tag_defs)
    moreover have "nav_receive c (s\<lparr>world := put_clad p (world s)\<rparr>) = (Received x, s\<lparr>world := put_clad q (world s)\<rparr>)"
      by (simp add: nav_receive_def d(2))
    ultimately show thesis
      using that [OF nav_step.arrives [OF w(4) d(1)]] d(3,4) w(4) by simp
  qed
qed

text \<open>One message, delivered and handled: what \<open>nav_maps\<close> says of it.\<close>

lemma nav_prompt_step:
  assumes s: "nav_ready s" and a: "carried (world s) a = ToClad x"
  obtains s' out where "nav_step\<^sup>*\<^sup>* s s'" "nav_ready s'" "carried (world s') = carried (world s)"
    "stream_out (world s') = stream_out (world s) @ out"
    "\<And>ms. nav_maps (pendingMap s) (x # ms) = out @ nav_maps (pendingMap s') ms"
proof -
  have two: "nav_step\<^sup>*\<^sup>* s u" if "nav_step s t" "nav_step t u" for t u using that by auto
  consider (begins) b where "x = MemoryMapMessageBegin b" | (quads) qs where "x = MemoryMapMessage qs"
    | (ends) "x = MemoryMapMessageEnd"
    | (other) "robotTag x \<notin> {Tag_MemoryMapMessageBegin, Tag_MemoryMapMessage, Tag_MemoryMapMessageEnd}"
        "\<And>pending ms. nav_maps pending (x # ms) = nav_maps pending ms"
    by (cases x) (simp_all add: robot_tag_defs)
  then show thesis
  proof cases
    case begins
    show thesis
    proof (rule nav_take [OF s a, of "memoryMapMessageBegin s"])
      fix t q
      assume t: "nav_step s t" "returned t = None" "memoryMapMessageBegin t = memoryMapMessageBegin s"
        "nav_receive (memoryMapMessageBegin s) t = (Received x, s\<lparr>world := put_clad q (world s)\<rparr>)"
        and q: "wf_gateway (put_clad q (world s))" "shrinks (world s) (put_clad q (world s))"
          "idle_three s (put_clad q (world s))"
      let ?s = "s\<lparr>world := put_clad q (world s), pendingMap := Some \<lparr>OriginId = mbOriginId b,
          MapInfo = CladMemoryMapBeginToProtoNavMapInfo b, QuadInfos = []\<rparr>\<rparr>"
      have "nav_step t ?s"
        by (rule nav_step.takes_begin [OF t(2) t(4) [folded t(3)]]) (simp add: nav_begin_def begins)
      then show thesis
        using that [OF two [OF t(1)], of ?s "[]"] nav_ready_next [OF s q, of ?s "stream_out (world s)"] s
        by (simp add: begins nav_ready_def)
    qed (simp add: begins)
  next
    case quads
    show thesis
    proof (rule nav_take [OF s a, of "memoryMapMessageData s"])
      fix t q
      assume t: "nav_step s t" "returned t = None" "memoryMapMessageData t = memoryMapMessageData s"
        "nav_receive (memoryMapMessageData s) t = (Received x, s\<lparr>world := put_clad q (world s)\<rparr>)"
        and q: "wf_gateway (put_clad q (world s))" "shrinks (world s) (put_clad q (world s))"
          "idle_three s (put_clad q (world s))"
      let ?s = "s\<lparr>world := put_clad q (world s), pendingMap := map_option (\<lambda>p.
          p\<lparr>QuadInfos := QuadInfos p @ map CladMemoryMapQuadInfoToProto qs\<rparr>) (pendingMap s)\<rparr>"
      have "nav_step t ?s"
        by (rule nav_step.takes_data [OF t(2) t(4) [folded t(3)]])
          (simp add: nav_data_def quads split: option.split)
      then show thesis
        using that [OF two [OF t(1)], of ?s "[]"] nav_ready_next [OF s q, of ?s "stream_out (world s)"] s
        by (simp add: quads nav_ready_def)
    qed (simp add: quads)
  next
    case ends
    show thesis
    proof (rule nav_take [OF s a, of "memoryMapMessageEnd s"])
      fix t q
      assume t: "nav_step s t" "returned t = None" "memoryMapMessageEnd t = memoryMapMessageEnd s"
        "nav_receive (memoryMapMessageEnd s) t = (Received x, s\<lparr>world := put_clad q (world s)\<rparr>)"
        and q: "wf_gateway (put_clad q (world s))" "shrinks (world s) (put_clad q (world s))"
          "idle_three s (put_clad q (world s))"
      let ?out = "case pendingMap s of None \<Rightarrow> [] | Some p \<Rightarrow> [NavMapFeedResponse p]"
      let ?s = "s\<lparr>world := put_clad q (world s)\<lparr>stream_out := stream_out (world s) @ ?out\<rparr>, pendingMap := None\<rparr>"
      have "stream_fates (put_clad q (world s)) = []" using s by (simp add: nav_ready_def)
      from stream_Send_delivered [OF this] have "nav_step t ?s"
        by (intro nav_step.takes_end [OF t(2) t(4) [folded t(3)]])
          (simp add: nav_end_def ends split: option.split)
      then show thesis
        using that [OF two [OF t(1)], of ?s ?out] nav_ready_next [OF s q, of ?s "stream_out (world s) @ ?out"] s
        by (simp add: ends nav_ready_def)
    qed (simp add: ends)
  next
    case other
    have w: "wf_gateway (world s)" "roomy (world s)" "clad_alive (world s)" "returned s = None"
      "idle_three s (world s)" using s by (simp_all add: nav_ready_def)
    show thesis
    proof (rule deliver_others [OF w(1-3) a])
      fix p
      assume p: "arrive a (world s) = (Ret (), put_clad p (world s))" "wf_gateway (put_clad p (world s))"
        "shrinks (world s) (put_clad p (world s))"
        and others: "\<And>t d. t \<noteq> robotTag x \<Longrightarrow> idle_chan t d (world s) \<Longrightarrow> idle_chan t d (put_clad p (world s))"
      let ?s = "s\<lparr>world := put_clad p (world s)\<rparr>"
      have "idle_three s (put_clad p (world s))" using others w(5) other(1) by (auto simp: idle_three_def)
      then show thesis
        using that [OF r_into_rtranclp [where r = nav_step, OF nav_step.arrives [OF w(4) p(1)]], of "[]"]
          nav_ready_next [OF s p(2,3), of ?s "stream_out (world s)"] w(4) other(2) by simp
    qed
  qed
qed


lemma nav_prompt_run:
  assumes "nav_ready s" "list_all2 (\<lambda>a x. carried (world s) a = ToClad x) as xs"
  shows "\<exists>s'. nav_step\<^sup>*\<^sup>* s s' \<and> stream_out (world s') = stream_out (world s) @ nav_maps (pendingMap s) xs"
  using assms
proof (induction xs arbitrary: as s)
  case Nil
  then show ?case by auto
next
  case (Cons x xs)
  then obtain a as' where as: "as = a # as'" "carried (world s) a = ToClad x"
    "list_all2 (\<lambda>a x. carried (world s) a = ToClad x) as' xs" by (auto simp: list_all2_Cons2)
  show ?case
  proof (rule nav_prompt_step [OF Cons.prems(1) as(2)])
    fix t out
    assume t: "nav_step\<^sup>*\<^sup>* s t" "nav_ready t" "carried (world t) = carried (world s)"
      "stream_out (world t) = stream_out (world s) @ out"
      "\<And>ms. nav_maps (pendingMap s) (x # ms) = out @ nav_maps (pendingMap t) ms"
    from Cons.IH [OF t(2), of as'] as(3) obtain s' where
      "nav_step\<^sup>*\<^sup>* t s'" "stream_out (world s') = stream_out (world t) @ nav_maps (pendingMap t) xs"
      unfolding t(3) by blast
    then show ?thesis using rtranclp_trans [OF t(1)] t(4,5) by auto
  qed
qed

lemma nav_started_ready:
  assumes s: "nav_started frequency w s" and wf: "wf_gateway w" and alive: "clad_alive w"
    and room: "roomy w" and fates: "stream_fates w = []"
    and few: "\<forall>t \<in> {Tag_MemoryMapMessageBegin, Tag_MemoryMapMessage, Tag_MemoryMapMessageEnd}.
      length (listeners (clad_mgr w) t) < markedCapacity"
  shows "nav_ready s" "carried (world s) = carried w" "stream_out (world s) = stream_out w" "pendingMap s = None"
proof -
  show "pendingMap s = None" using s by (simp add: nav_started_def)
  obtain fs k m1 m2 m3 where
    c: "CreateChannel_reg Tag_MemoryMapMessageBegin 1 (clad_mgr w) = (memoryMapMessageBegin s, m1)"
    "CreateChannel_reg Tag_MemoryMapMessage 50 m1 = (memoryMapMessageData s, m2)"
    "CreateChannel_reg Tag_MemoryMapMessageEnd 1 m2 = (memoryMapMessageEnd s, m3)"
    and ws: "world s = w\<lparr>write_faults := fs, clad_sock := k, clad_mgr := m3\<rparr>"
    by (rule nav_open_result [OF s])
  have "wf_gateway (world s)" using nav_started_inv [OF s wf] by (simp add: nav_inv_def)
  moreover have ls: "listeners m3 t = listeners (clad_mgr w) t @
      (if t = Tag_MemoryMapMessageBegin then [memoryMapMessageBegin s] else
       if t = Tag_MemoryMapMessage then [memoryMapMessageData s] else
       if t = Tag_MemoryMapMessageEnd then [memoryMapMessageEnd s] else [])" for t
    using CreateChannel_listeners [OF c(1)] CreateChannel_listeners [OF c(2)] CreateChannel_listeners [OF c(3)]
    by (simp add: robot_tag_defs)
  have "length (listeners m3 t) \<le> markedCapacity" for t
    using room few by (auto simp: ls roomy_def)
  then have "roomy (world s)" using room by (simp add: ws roomy_def)
  moreover have ids: "memoryMapMessageBegin s = next_chan (clad_mgr w)"
    "memoryMapMessageData s = Suc (next_chan (clad_mgr w))"
    "memoryMapMessageEnd s = Suc (Suc (next_chan (clad_mgr w)))"
    "chans m3 = (chans (clad_mgr w))(memoryMapMessageBegin s \<mapsto> \<lparr>cap = 1, buf = [], closed = False\<rparr>,
      memoryMapMessageData s \<mapsto> \<lparr>cap = 50, buf = [], closed = False\<rparr>,
      memoryMapMessageEnd s \<mapsto> \<lparr>cap = 1, buf = [], closed = False\<rparr>)"
    using c by (auto simp: CreateChannel_reg_def Let_def)
  then have "idle_three s (world s)"
    by (simp add: idle_three_def idle_chan_def ws ls robot_tag_defs)
  moreover have "returned s = None" using s by (simp add: nav_started_def)
  ultimately show "nav_ready s" using alive fates by (simp add: nav_ready_def ws)
  show "carried (world s) = carried w" by (rule carried_codec) (simp_all add: ws)
  show "stream_out (world s) = stream_out w" by (simp add: ws)
qed

section \<open>Properties\<close>

text \<open>
  However the blocks that arrive and the rounds of the loop interleave, the state stays well
  formed and no branch of the \<open>select\<close> panics on the message it received.
\<close>

theorem nav_feed_safe:
  assumes "nav_started frequency w s0" "wf_gateway w" "nav_step\<^sup>*\<^sup>* s0 s"
  shows "wf_gateway (world s) \<and>
    (nav_receive (memoryMapMessageBegin s) s = (Received m, t) \<longrightarrow> nav_begin m t \<noteq> None) \<and>
    (nav_receive (memoryMapMessageData s) s = (Received m, t) \<longrightarrow> nav_data m t \<noteq> None) \<and>
    (nav_receive (memoryMapMessageEnd s) s = (Received m, t) \<longrightarrow> nav_end t \<noteq> None)"
proof -
  have inv: "nav_inv s" by (rule nav_reachable_inv [OF assms])
  then have ty: "typed_chan robotTag Tag_MemoryMapMessageBegin (memoryMapMessageBegin s) (clad_mgr (world s))"
    "typed_chan robotTag Tag_MemoryMapMessage (memoryMapMessageData s) (clad_mgr (world s))"
    and wf: "wf_gateway (world s)" by (simp_all add: nav_inv_def)
  note rec = nav_receive_inv [OF inv]
  have "nav_begin m t \<noteq> None" if "nav_receive (memoryMapMessageBegin s) s = (Received m, t)"
    using robotTag_cases(4) [OF rec(5) [OF that ty(1) refl]] by (auto simp: nav_begin_def)
  moreover have "nav_data m t \<noteq> None" if "nav_receive (memoryMapMessageData s) s = (Received m, t)"
    using robotTag_cases(5) [OF rec(5) [OF that ty(2) refl]] by (auto simp: nav_data_def split: option.split)
  moreover have "nav_end t \<noteq> None" if "nav_receive (memoryMapMessageEnd s) s = (Received m, t)"
    using nav_end_total [OF rec(1) [OF that]] by auto
  ultimately show ?thesis using wf by blast
qed


text \<open>The messages of two small maps: each has one quad.\<close>

definition map_start :: "uint32 \<Rightarrow> robot_to_external" where
  "map_start origin = MemoryMapMessageBegin \<lparr>mbOriginId = origin, mbRootDepth = 0, mbRootSizeMm = 0,
     mbRootCenterX = 0, mbRootCenterY = 0\<rparr>"

definition map_quads :: "uint32 \<Rightarrow> robot_to_external" where
  "map_quads color = MemoryMapMessage [\<lparr>mqContent = 1, mqDepth = 2, mqColorRGBA = color\<rparr>]"

definition small_map :: "uint32 \<Rightarrow> uint32 list \<Rightarrow> stream_msg" where
  "small_map origin colors = NavMapFeedResponse \<lparr>OriginId = origin,
     MapInfo = \<lparr>RootDepth = 0, RootSizeMm = 0, RootCenterX = 0, RootCenterY = 0, RootCenterZ = 0\<rparr>,
     QuadInfos = map (\<lambda>c. \<lparr>Content = 1, Depth = 2, ColorRgba = c\<rparr>) colors\<rparr>"

definition map_gateway :: gateway where
  "map_gateway = gateway_at_rest [] (\<lambda>_. None)"

definition map_message :: "byte \<Rightarrow> robot_to_external" where
  "map_message i = (if i = 1 then map_start 1 else if i = 2 then map_quads 7 else if i = 3 then map_start 2
     else if i = 4 then map_quads 8 else MemoryMapMessageEnd)"

lemma map_message_read [simp]: "clad_message (fromRobot.bytes (map_message i)) = Some (map_message i)"
  using clad_message_bytes [of "map_message i" "[]"]
  by (simp add: map_message_def map_start_def map_quads_def fits_MemoryMapMessage_def)

definition map_feed :: nav_feed where
  "map_feed = \<lparr>world = snd (nav_open 0 map_gateway), memoryMapMessageBegin = 0, memoryMapMessageData = 1,
     memoryMapMessageEnd = 2, pendingMap = None, returned = None\<rparr>"

definition map_block :: "byte \<Rightarrow> arrival" where
  "map_block i = CladBlock (Some ([0, 0] @ fromRobot.bytes (map_message i)))"

lemma arrive_map_block:
  "arrive (map_block i) w = (if clad_alive w then EngineClad_SendToListeners (map_message i) w else (Ret (), w))"
  by (simp add: arrive_def map_block_def EngineClad_ProcessBlock_eq)
    (simp add: map_message_def map_start_def map_quads_def)

lemmas clad_run_defs = run_defs SetNavMapBroadcastFrequency_def EngineClad_Write_eq clad_conn_write_def
  clad_bytes_def EngineClad_CreateChannel_def EngineClad_ProcessBlock_eq EngineClad_SendToListeners_def

lemma map_feed_started: "nav_started 0 map_gateway map_feed"
  by (simp add: nav_started_def map_feed_def map_gateway_def nav_open_def clad_run_defs robot_tag_defs)


text \<open>A given order of arrivals and rounds, run.\<close>

datatype feed_turn = Arrives byte | TakesBegin | TakesData | TakesEnd

fun nav_turn :: "feed_turn \<Rightarrow> nav_feed \<Rightarrow> nav_feed option" where
  "nav_turn (Arrives i) s = (case arrive (map_block i) (world s) of
      (Ret _, w) \<Rightarrow> Some (s\<lparr>world := w\<rparr>) | _ \<Rightarrow> None)"
| "nav_turn TakesBegin s = (case nav_receive (memoryMapMessageBegin s) s of
      (Received m, s') \<Rightarrow> nav_begin m s' | _ \<Rightarrow> None)"
| "nav_turn TakesData s = (case nav_receive (memoryMapMessageData s) s of
      (Received m, s') \<Rightarrow> nav_data m s' | _ \<Rightarrow> None)"
| "nav_turn TakesEnd s = (case nav_receive (memoryMapMessageEnd s) s of
      (Received m, s') \<Rightarrow> nav_end s' | _ \<Rightarrow> None)"

fun nav_turns :: "feed_turn list \<Rightarrow> nav_feed \<Rightarrow> nav_feed option" where
  "nav_turns [] s = Some s"
| "nav_turns (t # ts) s = (if returned s = None then Option.bind (nav_turn t s) (nav_turns ts) else None)"

lemma nav_turn_step: "nav_turn t s = Some s' \<Longrightarrow> returned s = None \<Longrightarrow> nav_step s s'"
  by (cases t) (auto split: prod.splits outcome.splits recv_result.splits intro: nav_step.intros)

lemma nav_turns_steps: "nav_turns ts s = Some s' \<Longrightarrow> nav_step\<^sup>*\<^sup>* s s'"
  by (induction ts arbitrary: s)
    (auto split: if_splits Option.bind_splits intro: converse_rtranclp_into_rtranclp nav_turn_step)

text \<open>
  The three channels have no order between them: when a whole map has arrived before the
  handler looks, it may take the end before the quads. The first map is then handed out empty and
  its quads end up in the second one.
\<close>

theorem nav_feed_mixes_maps:
  "\<exists>s'. nav_step\<^sup>*\<^sup>* map_feed s' \<and> stream_out (world s') = [small_map 1 [], small_map 2 [7, 8]]"
proof -
  let ?turns = "[Arrives 1, Arrives 2, Arrives 5, TakesBegin, TakesEnd, Arrives 3, TakesBegin, TakesData,
    Arrives 4, TakesData, Arrives 5, TakesEnd]"
  obtain s' where "nav_turns ?turns map_feed = Some s'" "stream_out (world s') = [small_map 1 [], small_map 2 [7, 8]]"
    by (simp add: map_feed_def map_gateway_def nav_open_def clad_run_defs robot_tag_defs nav_receive_def
        nav_begin_def nav_data_def nav_end_def arrive_map_block map_message_def map_start_def map_quads_def small_map_def
        CladMemoryMapBeginToProtoNavMapInfo_def CladMemoryMapQuadInfoToProto_def stream_Send_def del: arrive_def)
  then show ?thesis using nav_turns_steps by blast
qed

theorem nav_feed_safe_witness:
  "wf_gateway (world map_feed)"
  using nav_feed_safe [OF map_feed_started _ rtranclp.rtrancl_refl] by (simp add: map_gateway_def)

end
