(* ===== verification/Speaker_Queue.thy ===== *)
theory Speaker_Queue
  imports Go_Bytes
begin

text \<open>
  \<open>cloud/audio_socket.go\<close>: clients connect to a Unix socket, each with one sentence of samples that
  carries a sequence number. The sentences are queued, put in order and played one by one, each
  as a stream of chunks to the gateway. The lemmas show what a connection makes of its bytes,
  that sentences play in order whatever the order of their arrival, when the player is stuck, and
  which messages a sentence is sent as.
\<close>

section \<open>A connection\<close>

text \<open>\<open>pcmJob\<close>; the time of arrival, which only the log uses, is left out.\<close>

record pcm_job =
  seq :: uint32
  jobText :: "byte list"
  pcm :: "byte list"

text \<open>
  The goroutine of a connection, from all bytes that the client writes before it closes to the
  job it queues. \<open>io.ReadFull\<close> fills as much of the text as there is, and its error is dropped.
\<close>

definition read_text :: "nat \<Rightarrow> byte list \<Rightarrow> byte list \<times> byte list" where
  "read_text textLen conn =
     (if 0 < textLen \<and> textLen < 4096
      then (take textLen conn @ replicate (textLen - length conn) 0, drop textLen conn) else ([], conn))"

definition read_connection :: "byte list \<Rightarrow> pcm_job option" where
  "read_connection conn =
     (if length conn < 4 then None
      else let s = le32_of conn; conn = drop 4 conn in
      if length conn < 2 then None
      else let textLen = le16_of conn; (text, rest) = read_text (unat textLen) (drop 2 conn) in
      if rest \<noteq> [] then Some \<lparr>seq = s, jobText = text, pcm = rest\<rparr> else None)"

text \<open>The bytes that stand for a job.\<close>

definition connection_of :: "pcm_job \<Rightarrow> byte list" where
  "connection_of j = le32 (seq j) @ le16 (of_nat (length (jobText j))) @ jobText j @ pcm j"

lemma read_connection_parts:
  "read_connection (le32 s @ le16 n @ rest) = (case read_text (unat n) rest of (text, p) \<Rightarrow>
     if p \<noteq> [] then Some \<lparr>seq = s, jobText = text, pcm = p\<rparr> else None)"
  by (simp add: read_connection_def)

section \<open>The player\<close>

record player =
  buffer :: "pcm_job list"
  nextSeq :: uint32
  played :: "pcm_job list"

definition start_player :: player where
  "start_player = \<lparr>buffer = [], nextSeq = 0, played = []\<rparr>"

definition by_seq :: "pcm_job list \<Rightarrow> bool" where
  "by_seq = sorted_wrt (\<lambda>i j. seq i \<le> seq j)"

text \<open>The inner loop: plays what is next.\<close>

fun play_ready :: "pcm_job list \<Rightarrow> uint32 \<Rightarrow> pcm_job list \<Rightarrow> player" where
  "play_ready [] n p = \<lparr>buffer = [], nextSeq = n, played = p\<rparr>"
| "play_ready (pj # b) n p =
     (if seq pj = n then play_ready b (n + 1) (p @ [pj]) else \<lparr>buffer = pj # b, nextSeq = n, played = p\<rparr>)"

text \<open>
  A round of the outer loop, with or without a job from the queue; without one only if there is
  something in the buffer. \<open>sort.Slice\<close> promises the order by number, and not which of two jobs
  with the same number comes first.
\<close>

inductive player_step :: "player \<Rightarrow> pcm_job option \<Rightarrow> player \<Rightarrow> bool" where
  takes: "mset b = mset (buffer s @ [job]) \<Longrightarrow> by_seq b \<Longrightarrow>
    player_step s (Some job) (play_ready b (nextSeq s) (played s))"
| spins: "buffer s \<noteq> [] \<Longrightarrow> player_step s None (play_ready (buffer s) (nextSeq s) (played s))"

inductive_cases player_stepE: "player_step s j s'"

text \<open>The jobs that are taken on the way from one state of the player to another.\<close>

inductive plays :: "player \<Rightarrow> pcm_job list \<Rightarrow> player \<Rightarrow> bool" for s0 where
  start: "plays s0 [] s0"
| take_job: "plays s0 js s \<Longrightarrow> player_step s (Some j) s' \<Longrightarrow> plays s0 (js @ [j]) s'"
| spin: "plays s0 js s \<Longrightarrow> player_step s None s' \<Longrightarrow> plays s0 js s'"

lemma play_ready_split:
  "\<exists>now later. b = now @ later \<and> play_ready b n p = \<lparr>buffer = later, nextSeq = n + of_nat (length now), played = p @ now\<rparr> \<and>
     map seq now = map (\<lambda>i. n + of_nat i) [0..<length now] \<and> (later = [] \<or> seq (hd later) \<noteq> n + of_nat (length now))"
proof (induction b n p rule: play_ready.induct)
  case (2 pj b n p)
  show ?case
  proof (cases "seq pj = n")
    case True
    from 2 [OF True] obtain now later where
      IH: "b = now @ later"
        "play_ready b (n + 1) (p @ [pj]) = \<lparr>buffer = later, nextSeq = n + 1 + of_nat (length now), played = (p @ [pj]) @ now\<rparr>"
        "map seq now = map (\<lambda>i. n + 1 + of_nat i) [0..<length now]"
        "later = [] \<or> seq (hd later) \<noteq> n + 1 + of_nat (length now)" by (elim exE conjE)
    have "map seq (pj # now) = map (\<lambda>i. n + of_nat i) [0..<length (pj # now)]"
      by (simp add: IH(3) True upt_rec [of 0] map_Suc_upt [symmetric] comp_def algebra_simps del: upt_Suc)
    then show ?thesis
      using IH True by (intro exI [of _ "pj # now"] exI [of _ later]) (auto simp: algebra_simps)
  qed auto
qed auto

text \<open>What holds of a player that has taken \<open>js\<close>.\<close>

definition player_inv :: "pcm_job list \<Rightarrow> player \<Rightarrow> bool" where
  "player_inv js s \<longleftrightarrow> mset (played s @ buffer s) = mset js \<and> by_seq (buffer s) \<and>
     nextSeq s = of_nat (length (played s)) \<and> map seq (played s) = map of_nat [0..<length (played s)] \<and>
     (buffer s = [] \<or> seq (hd (buffer s)) \<noteq> nextSeq s)"

lemma play_ready_inv:
  assumes "mset (p @ b) = mset js" "by_seq b" "map seq p = map of_nat [0..<length p]"
  shows "player_inv js (play_ready b (of_nat (length p)) p)"
proof -
  from play_ready_split [of b "of_nat (length p)" p] obtain now later where
    sp: "b = now @ later" "play_ready b (of_nat (length p)) p =
        \<lparr>buffer = later, nextSeq = of_nat (length p) + of_nat (length now), played = p @ now\<rparr>"
      "map seq now = map (\<lambda>i. of_nat (length p) + of_nat i) [0..<length now]"
      "later = [] \<or> seq (hd later) \<noteq> of_nat (length p) + of_nat (length now)" by blast
  have "map of_nat [0..<length (p @ now)] =
      map of_nat [0..<length p] @ map (\<lambda>i. of_nat (length p) + of_nat i :: uint32) [0..<length now]"
    by (rule nth_equalityI) (auto simp: nth_append simp flip: of_nat_add)
  then show ?thesis using sp assms by (simp add: player_inv_def by_seq_def sorted_wrt_append union_assoc)
qed

lemma player_step_inv:
  assumes "player_inv js s" "player_step s j s'"
  shows "player_inv (js @ (case j of None \<Rightarrow> [] | Some j \<Rightarrow> [j])) s'"
proof -
  note inv = assms(1) [unfolded player_inv_def]
  show ?thesis
    using assms(2)
  proof (cases rule: player_step.cases)
    case (takes b job)
    have "player_inv (js @ [job]) (play_ready b (of_nat (length (played s))) (played s))"
      by (rule play_ready_inv) (use takes inv in \<open>simp_all add: union_assoc [symmetric]\<close>)
    then show ?thesis using takes inv by simp
  next
    case spins
    have "player_inv js (play_ready (buffer s) (of_nat (length (played s))) (played s))"
      by (rule play_ready_inv) (use inv in simp_all)
    then show ?thesis using spins inv by simp
  qed
qed

lemma plays_inv: "plays s0 js s \<Longrightarrow> player_inv js0 s0 \<Longrightarrow> player_inv (js0 @ js) s"
  by (induction rule: plays.induct) (auto dest: player_step_inv)

lemma start_player_inv: "player_inv [] start_player"
  by (simp add: player_inv_def start_player_def by_seq_def)

lemma by_seq_hd: "by_seq b \<Longrightarrow> j \<in> set b \<Longrightarrow> seq (hd b) \<le> seq j"
  by (cases b) (auto simp: by_seq_def)

lemma unat_of_nat_below [simp]: "k < 2 ^ 32 \<Longrightarrow> unat (of_nat k :: uint32) = k"
  by (simp add: unat_of_nat take_bit_nat_eq_self)

lemma of_nat_eq_below:
  "i < 2 ^ 32 \<Longrightarrow> k < 2 ^ 32 \<Longrightarrow> (of_nat i :: uint32) = of_nat k \<longleftrightarrow> i = k"
  by (metis unat_of_nat_below)

lemma all_played:
  assumes inv: "player_inv js s" and js: "mset (map seq js) = mset (map of_nat [0..<n])" "n \<le> 2 ^ 32"
  shows "buffer s = []"
proof (rule ccontr)
  assume ne: "buffer s \<noteq> []"
  define k where "k = length (played s)"
  have parts: "mset (map seq (played s)) + mset (map seq (buffer s)) = mset (map of_nat [0..<n] :: uint32 list)"
    using inv js(1) by (metis mset_map mset_append map_append player_inv_def)
  have "k + length (buffer s) = n" using arg_cong [OF parts, of size] by (simp add: k_def)
  then have k: "k < n" using ne by (cases "buffer s") auto
  have dist: "distinct (map of_nat [0..<n] :: uint32 list)"
    using js(2) by (auto simp: distinct_map inj_on_def of_nat_eq_below)
  then have "distinct (map seq (played s) @ map seq (buffer s))"
    using parts by (metis mset_append mset_eq_imp_distinct_iff)
  then have disj: "seq ` set (played s) \<inter> seq ` set (buffer s) = {}" by auto
  have pl: "seq ` set (played s) = of_nat ` {0..<k}"
    using inv by (metis image_set player_inv_def k_def set_upt)
  have "seq ` set (played s) \<union> seq ` set (buffer s) = of_nat ` {0..<n}"
    using arg_cong [OF parts, of set_mset] by simp
  then have "seq ` set (buffer s) = of_nat ` {0..<n} - of_nat ` {0..<k}" using disj pl by auto
  also have "\<dots> = of_nat ` ({0..<n} - {0..<k})"
    using dist k by (intro inj_on_image_set_diff [symmetric, of _ "{0..<n}"]) (auto simp: distinct_map)
  also have "{0..<n} - {0..<k} = {k..<n}" by auto
  finally have buf: "seq ` set (buffer s) = of_nat ` {k..<n}" .
  obtain i where i: "seq (hd (buffer s)) = of_nat i" "k \<le> i" "i < n"
    using buf ne by (metis atLeastLessThan_iff hd_in_set image_iff)
  have "of_nat k \<in> seq ` set (buffer s)" using buf k by simp
  then have "of_nat i \<le> (of_nat k :: uint32)"
    using by_seq_hd [of "buffer s"] inv i(1) by (fastforce simp: player_inv_def)
  then have "i \<le> k" using i(3) k js(2) by (simp add: word_le_nat_alt)
  then show False using i inv ne by (auto simp: player_inv_def k_def)
qed

text \<open>A job that is already behind the counter stays at the front for ever.\<close>

definition stuck_at :: "pcm_job \<Rightarrow> player \<Rightarrow> bool" where
  "stuck_at old s \<longleftrightarrow> old \<in> set (buffer s) \<and> by_seq (buffer s) \<and> seq old < nextSeq s"

lemma stuck_step:
  assumes "player_step s j s'" "stuck_at old s"
  shows "stuck_at old s' \<and> played s' = played s"
proof -
  have front: "play_ready b (nextSeq s) (played s) = \<lparr>buffer = b, nextSeq = nextSeq s, played = played s\<rparr>"
    if "by_seq b" "old \<in> set b" for b
    using by_seq_hd [OF that] assms(2) that(2) by (cases b) (auto simp: stuck_at_def)
  from assms(1) show ?thesis
  proof (cases rule: player_step.cases)
    case (takes b job)
    then have "set b = set (buffer s @ [job])" by (metis set_mset_mset)
    then have "old \<in> set b" using assms(2) by (simp add: stuck_at_def)
    then show ?thesis using front takes assms(2) by (simp add: stuck_at_def)
  next
    case spins
    then show ?thesis using front assms(2) by (simp add: stuck_at_def)
  qed
qed

lemma stuck_plays: "plays s0 js s \<Longrightarrow> stuck_at old s0 \<Longrightarrow> stuck_at old s \<and> played s = played s0"
  by (induction rule: plays.induct) (auto dest: stuck_step)

lemma stuck_when_taken:
  assumes "player_step s (Some old) s'" "seq old < nextSeq s"
  shows "stuck_at old s' \<and> played s' = played s"
  using assms(1)
proof (cases rule: player_step.cases)
  case (takes b)
  then have "set b = set (buffer s @ [old])" by (metis set_mset_mset)
  then have "old \<in> set b" by simp
  with by_seq_hd [OF takes(3) this] assms(2) takes show ?thesis
    by (cases b) (auto simp: stuck_at_def)
qed

section \<open>Playing\<close>

datatype spk_request = SpkPrepare uint32 uint32 | SpkChunk uint32 "byte list" | SpkComplete

text \<open>
  The connection to the gateway: none at all, a client that never connected, one that cannot open
  the stream, one that can. \<open>sends\<close> is what the stream answers to the next sends, then success.
\<close>

datatype spk_link = NoRobot | NeverConnected | StreamRefused | StreamOpens

record spk_stream =
  sent :: "spk_request list"
  sends :: "bool list"
  closedSend :: bool

definition spk_Send :: "spk_request \<Rightarrow> (spk_stream, unit) go" where
  "spk_Send x s = (case sends s of
      [] \<Rightarrow> (Ret (), s\<lparr>sent := sent s @ [x]\<rparr>)
    | True # fs \<Rightarrow> (Ret (), s\<lparr>sent := sent s @ [x], sends := fs\<rparr>)
    | False # fs \<Rightarrow> (Fail StreamError, s\<lparr>sends := fs\<rparr>))"

definition maxChunk :: nat where "maxChunk = 1024"

function send_chunks :: "nat \<Rightarrow> byte list \<Rightarrow> (spk_stream, unit) go" where
  "send_chunks offset samples =
     (if offset < length samples then
        let e = min (offset + maxChunk) (length samples) in
        bindM (spk_Send (SpkChunk (of_nat (e - offset)) (take (e - offset) (drop offset samples))))
          (\<lambda>_. send_chunks (offset + maxChunk) samples)
      else returnM ())"
  by auto
termination by (relation "measure (\<lambda>(offset, samples). length samples - offset)") (auto simp: maxChunk_def)

declare send_chunks.simps [simp del]

definition CloseSend :: "(spk_stream, unit) go" where
  "CloseSend s = (Ret (), s\<lparr>closedSend := True\<rparr>)"

text \<open>The error of a chunk ends the function; those of the other two messages are dropped.\<close>

definition spkPlay :: "spk_link \<Rightarrow> byte list \<Rightarrow> (spk_stream, unit) go" where
  "spkPlay link samples = (case link of
      NoRobot \<Rightarrow> returnM ()
    | NeverConnected \<Rightarrow> (\<lambda>s. (Crash, s))
    | StreamRefused \<Rightarrow> returnM ()
    | StreamOpens \<Rightarrow> deferM CloseSend
        (bindM (tryM (spk_Send (SpkPrepare 16000 100))) (\<lambda>_.
         bindM (tryM (send_chunks 0 samples)) (\<lambda>r. case r of
             Inl _ \<Rightarrow> returnM ()
           | Inr _ \<Rightarrow> bindM (tryM (spk_Send SpkComplete)) (\<lambda>_. returnM ())))))"

text \<open>The chunks of a sentence, and what they carry.\<close>

fun spk_samples :: "spk_request \<Rightarrow> byte list" where
  "spk_samples (SpkChunk n b) = b"
| "spk_samples _ = []"

definition spk_chunk_ok :: "spk_request \<Rightarrow> bool" where
  "spk_chunk_ok x \<longleftrightarrow> (\<exists>b. x = SpkChunk (of_nat (length b)) b \<and> b \<noteq> [] \<and> length b \<le> maxChunk)"

lemma one_more_chunk: "0 < n \<Longrightarrow> Suc ((n - 1024 + 1023) div 1024) = (n + 1023) div (1024 :: nat)"
proof (cases "1024 \<le> n")
  case True
  then obtain k where "n = k + 1024" using le_Suc_ex by (metis add.commute)
  then show ?thesis by simp
next
  case False
  moreover assume "0 < n"
  ultimately show ?thesis using div_nat_eqI [of 1024 1 "n + 1023"] by simp
qed

lemma send_chunks_fault_free:
  "sends s = [] \<Longrightarrow> \<exists>cs. send_chunks offset samples s = (Ret (), s\<lparr>sent := sent s @ cs\<rparr>) \<and>
     concat (map spk_samples cs) = drop offset samples \<and> list_all spk_chunk_ok cs \<and>
     length cs = (length samples - offset + (maxChunk - 1)) div maxChunk"
proof (induction offset samples arbitrary: s rule: send_chunks.induct)
  case (1 offset samples)
  show ?case
  proof (cases "offset < length samples")
    case False
    then show ?thesis
      by (subst send_chunks.simps) (simp add: returnM_def maxChunk_def)
  next
    case True
    define e where "e = min (offset + maxChunk) (length samples)"
    define c where "c = SpkChunk (of_nat (e - offset)) (take (e - offset) (drop offset samples))"
    from 1(1) [OF True e_def [unfolded e_def], of "s\<lparr>sent := sent s @ [c]\<rparr>"] 1(2)
    obtain cs where cs: "send_chunks (offset + maxChunk) samples (s\<lparr>sent := sent s @ [c]\<rparr>) =
          (Ret (), s\<lparr>sent := (sent s @ [c]) @ cs\<rparr>)"
        "concat (map spk_samples cs) = drop (offset + maxChunk) samples" "list_all spk_chunk_ok cs"
        "length cs = (length samples - (offset + maxChunk) + (maxChunk - 1)) div maxChunk" by auto
    have "send_chunks offset samples s = (Ret (), s\<lparr>sent := sent s @ c # cs\<rparr>)"
      using True cs(1) 1(2)
      by (subst send_chunks.simps) (simp add: bindM_def spk_Send_def c_def e_def Let_def)
    moreover have "take (e - offset) (drop offset samples) @ drop (offset + maxChunk) samples = drop offset samples"
      using append_take_drop_id [of "e - offset" "drop offset samples"] True
      by (auto simp: e_def min_def add.commute)
    moreover have "spk_chunk_ok c"
      using True by (auto simp: c_def spk_chunk_ok_def e_def maxChunk_def)
    moreover have "length (c # cs) = (length samples - offset + (maxChunk - 1)) div maxChunk"
      using one_more_chunk [of "length samples - offset"] True cs(4) by (simp add: maxChunk_def diff_diff_eq)
    ultimately show ?thesis using cs(2,3) by (intro exI [of _ "c # cs"]) (simp add: c_def)
  qed
qed

section \<open>Properties\<close>

text \<open>
  C29. A connection that carries a job makes this job, if its text has fewer than 4096 bytes. A
  longer text is taken for samples.
\<close>

theorem connection_read_back:
  assumes "length (jobText j) < 2 ^ 16" "pcm j \<noteq> []"
  shows "read_connection (connection_of j) = Some (if length (jobText j) < 4096 then j
    else j\<lparr>jobText := [], pcm := jobText j @ pcm j\<rparr>)"
proof -
  have "unat (of_nat (length (jobText j)) :: uint16) = length (jobText j)"
    using assms(1) by (simp add: unat_of_nat take_bit_nat_eq_self)
  then show ?thesis
    using assms by (cases j) (simp add: connection_of_def read_connection_parts read_text_def)
qed

theorem connection_read_back_witness:
  "read_connection (connection_of \<lparr>seq = 7, jobText = [104, 105], pcm = [1, 2, 3]\<rparr>) =
    Some \<lparr>seq = 7, jobText = [104, 105], pcm = [1, 2, 3]\<rparr>"
  using connection_read_back [of "\<lparr>seq = 7, jobText = [104, 105], pcm = [1, 2, 3]\<rparr>"] by simp

text \<open>
  C17. When the sentences taken are numbered from 0 on without gaps, all of them have been played, in
  the order of their numbers, whatever the order in which they arrived.
\<close>

theorem sentences_play_in_order:
  assumes "plays start_player js s" "mset (map seq js) = mset (map of_nat [0..<n])" "n \<le> 2 ^ 32"
  shows "buffer s = [] \<and> map seq (played s) = map of_nat [0..<n] \<and> mset (played s) = mset js"
proof -
  have inv: "player_inv js s" using plays_inv [OF assms(1) start_player_inv] by simp
  then have b: "buffer s = []" using all_played assms by blast
  then have "mset (played s) = mset js" using inv by (simp add: player_inv_def)
  moreover from this have "length (played s) = n"
    using arg_cong [OF assms(2), of size] by (metis size_mset length_map length_upt minus_nat.diff_0)
  ultimately show ?thesis using inv b by (simp add: player_inv_def)
qed

text \<open>Three sentences whose last two arrive first.\<close>

definition sentence :: "uint32 \<Rightarrow> pcm_job" where
  "sentence i = \<lparr>seq = i, jobText = [], pcm = [ucast i]\<rparr>"

lemma take_sorted:
  "by_seq b \<Longrightarrow> mset b = mset (buffer s @ [j]) \<Longrightarrow> plays s0 js s \<Longrightarrow>
   plays s0 (js @ [j]) (play_ready b (nextSeq s) (played s))"
  by (rule plays.take_job) (auto intro: player_step.takes)

lemma late_first:
  "plays start_player [sentence 2, sentence 1, sentence 0]
    \<lparr>buffer = [], nextSeq = 3, played = [sentence 0, sentence 1, sentence 2]\<rparr>"
proof -
  have "plays start_player ([] @ [sentence 2]) (play_ready [sentence 2] (nextSeq start_player) (played start_player))"
    by (rule take_sorted [OF _ _ plays.start]) (simp_all add: by_seq_def start_player_def)
  then have "plays start_player [sentence 2] \<lparr>buffer = [sentence 2], nextSeq = 0, played = []\<rparr>"
    by (simp add: start_player_def sentence_def)
  from take_sorted [OF _ _ this, of "[sentence 1, sentence 2]" "sentence 1"]
  have "plays start_player [sentence 2, sentence 1] \<lparr>buffer = [sentence 1, sentence 2], nextSeq = 0, played = []\<rparr>"
    by (simp add: by_seq_def sentence_def add_mset_commute)
  from take_sorted [OF _ _ this, of "[sentence 0, sentence 1, sentence 2]" "sentence 0"]
  show ?thesis by (simp add: by_seq_def sentence_def add_mset_commute)
qed

theorem sentences_play_in_order_witness:
  "map seq (played \<lparr>buffer = [], nextSeq = 3, played = [sentence 0, sentence 1, sentence 2]\<rparr>) = map of_nat [0..<3]"
  using sentences_play_in_order [OF late_first, of 3] by (simp add: sentence_def numeral_3_eq_3)

text \<open>
Once a sentence arrives whose number has been played already, as when a client starts again from
  0, nothing is ever played any more.
\<close>

theorem repeated_number_silences:
  assumes "plays start_player js s" "seq old < nextSeq s" "player_step s (Some old) s'" "plays s' js' t"
  shows "played t = played s"
  using stuck_when_taken [OF assms(3,2)] stuck_plays [OF assms(4)] by auto

theorem repeated_number_silences_witness:
  "\<exists>t. plays start_player [sentence 2, sentence 1, sentence 0, sentence 0, sentence 3] t \<and>
     played t = [sentence 0, sentence 1, sentence 2]"
proof -
  let ?s = "\<lparr>buffer = [], nextSeq = 3, played = [sentence 0, sentence 1, sentence 2]\<rparr>"
  let ?t = "\<lparr>buffer = [sentence 0], nextSeq = 3, played = [sentence 0, sentence 1, sentence 2]\<rparr>"
  let ?u = "\<lparr>buffer = [sentence 0, sentence 3], nextSeq = 3, played = [sentence 0, sentence 1, sentence 2]\<rparr>"
  have st: "player_step ?s (Some (sentence 0)) ?t"
    using player_step.takes [of "[sentence 0]" ?s "sentence 0"] by (simp add: by_seq_def sentence_def)
  have tu: "player_step ?t (Some (sentence 3)) ?u"
    using player_step.takes [of "[sentence 0, sentence 3]" ?t "sentence 3"]
    by (simp add: by_seq_def sentence_def add_mset_commute)
  have "plays ?t ([] @ [sentence 3]) ?u" by (rule plays.take_job [OF plays.start tu])
  from repeated_number_silences [OF late_first _ st this]
  have "played ?u = played ?s" by (simp add: sentence_def)
  moreover have "plays start_player (([sentence 2, sentence 1, sentence 0] @ [sentence 0]) @ [sentence 3]) ?u"
    by (rule plays.take_job [OF plays.take_job [OF late_first st] tu])
  ultimately show ?thesis by (intro exI [of _ ?u]) simp
qed

text \<open>
  A sentence goes to the gateway as one message that opens the stream, chunks of at most 1024 bytes
  that put together are the samples, and one message that ends it; then the stream is closed.
\<close>

theorem sentence_sent:
  assumes "sends s = []"
  shows "\<exists>cs. spkPlay StreamOpens samples s =
      (Ret (), s\<lparr>sent := sent s @ SpkPrepare 16000 100 # cs @ [SpkComplete], closedSend := True\<rparr>) \<and>
    concat (map spk_samples cs) = samples \<and> list_all spk_chunk_ok cs \<and>
    length cs = (length samples + 1023) div 1024"
proof -
  let ?s = "s\<lparr>sent := sent s @ [SpkPrepare 16000 100]\<rparr>"
  from send_chunks_fault_free [of ?s 0 samples] assms obtain cs where
    "send_chunks 0 samples ?s = (Ret (), s\<lparr>sent := (sent s @ [SpkPrepare 16000 100]) @ cs\<rparr>)"
    "concat (map spk_samples cs) = samples" "list_all spk_chunk_ok cs"
    "length cs = (length samples + 1023) div 1024" by (auto simp: maxChunk_def)
  then show ?thesis
    using assms by (intro exI [of _ cs]) (simp add: spkPlay_def deferM_def bindM_def tryM_def spk_Send_def CloseSend_def returnM_def)
qed

theorem sentence_sent_witness:
  "\<exists>cs. spkPlay StreamOpens (replicate 1500 7) \<lparr>sent = [], sends = [], closedSend = False\<rparr> =
      (Ret (), \<lparr>sent = SpkPrepare 16000 100 # cs @ [SpkComplete], sends = [], closedSend = True\<rparr>) \<and> length cs = 2"
  using sentence_sent [of "\<lparr>sent = [], sends = [], closedSend = False\<rparr>" "replicate 1500 7"] by auto

end
