(* ===== verification/Robot_Motion.thy ===== *)
theory Robot_Motion
  imports Go_Prelude Complex_Main
begin

text \<open>
  \<open>RobotClient\<close> of \<open>cloud/robot.go\<close>: the gRPC client through which the tools of the MCP server move
  the robot. A motion takes behavior control, starts a motor, sleeps for a computed time, stops
  the motor and gives control back. The lemmas show this for every fate of the calls, bound speeds
  and times, and show what goes wrong when two activities overlap and when a drive is slow.
\<close>

section \<open>Floating point\<close>

text \<open>
  A \<open>float64\<close> by its value; the sign of a zero, which no branch here looks at, is left out.
\<close>

datatype f64 = Fin rat | PlusInf | MinusInf | NaN

text \<open>
  What the processor does: the \<open>float64\<close> nearest to an exact result, conversion to \<open>float32\<close>, and
  to \<open>int\<close> when the value does not fit, which Go leaves open.
\<close>

record float_machine =
  round64 :: "rat \<Rightarrow> f64"
  round32 :: "f64 \<Rightarrow> float32"
  outOfRange :: "f64 \<Rightarrow> int"

fun fless :: "f64 \<Rightarrow> f64 \<Rightarrow> bool" where
  "fless (Fin a) (Fin b) = (a < b)"
| "fless (Fin _) PlusInf = True"
| "fless MinusInf (Fin _) = True"
| "fless MinusInf PlusInf = True"
| "fless _ _ = False"

fun fabs :: "f64 \<Rightarrow> f64" where
  "fabs (Fin a) = Fin \<bar>a\<bar>"
| "fabs MinusInf = PlusInf"
| "fabs x = x"

fun fneg :: "f64 \<Rightarrow> f64" where
  "fneg (Fin a) = Fin (- a)"
| "fneg PlusInf = MinusInf"
| "fneg MinusInf = PlusInf"
| "fneg NaN = NaN"

text \<open>An infinity with the sign of \<open>a\<close>, for a product or quotient of \<open>a\<close> with it.\<close>

definition infinity :: "rat \<Rightarrow> f64" where
  "infinity a = (if a > 0 then PlusInf else if a < 0 then MinusInf else NaN)"

fun fmul :: "float_machine \<Rightarrow> f64 \<Rightarrow> f64 \<Rightarrow> f64" where
  "fmul M (Fin a) (Fin b) = round64 M (a * b)"
| "fmul M (Fin a) PlusInf = infinity a"
| "fmul M (Fin a) MinusInf = infinity (- a)"
| "fmul M PlusInf (Fin b) = infinity b"
| "fmul M MinusInf (Fin b) = infinity (- b)"
| "fmul M PlusInf PlusInf = PlusInf"
| "fmul M MinusInf MinusInf = PlusInf"
| "fmul M PlusInf MinusInf = MinusInf"
| "fmul M MinusInf PlusInf = MinusInf"
| "fmul M _ _ = NaN"

fun fdiv :: "float_machine \<Rightarrow> f64 \<Rightarrow> f64 \<Rightarrow> f64" where
  "fdiv M (Fin a) (Fin b) = (if b = 0 then infinity a else round64 M (a / b))"
| "fdiv M (Fin a) PlusInf = Fin 0"
| "fdiv M (Fin a) MinusInf = Fin 0"
| "fdiv M PlusInf (Fin b) = (if b < 0 then MinusInf else PlusInf)"
| "fdiv M MinusInf (Fin b) = (if b < 0 then PlusInf else MinusInf)"
| "fdiv M _ _ = NaN"

text \<open>\<open>int(x)\<close> and \<open>time.Duration(x)\<close>: the fraction is dropped.\<close>

definition truncated :: "rat \<Rightarrow> int" where
  "truncated q = (if 0 \<le> q then \<lfloor>q\<rfloor> else \<lceil>q\<rceil>)"

definition f64_int :: "float_machine \<Rightarrow> nat \<Rightarrow> f64 \<Rightarrow> int" where
  "f64_int M bits x = (case x of
      Fin q \<Rightarrow> if - (2 ^ (bits - 1)) \<le> truncated q \<and> truncated q < 2 ^ (bits - 1) then truncated q else outOfRange M x
    | _ \<Rightarrow> outOfRange M x)"

section \<open>The client\<close>

datatype robot_rpc =
  CallDriveWheels float32 float32 float32 float32 | CallMoveHead float32 | CallMoveLift float32 |
  CallStopAllMotors | CallBatteryState | CallSetMasterVolume int | CallAppIntent string |
  CallPlayAnimation string uint32

text \<open>What the client did, with the behavior control streams numbered as they are opened.\<close>

datatype robot_event =
  Calls robot_rpc | Sleeps int | OpensControl nat | AsksControl nat | ReleasesControl nat | CancelsControl nat

text \<open>
  What becomes of the next call, send or receive. \<open>NoStatus\<close> is an answer without a status,
  \<open>Denied\<close> an answer to a request for control that does not grant it.
\<close>

datatype fate = Fine | Fails | NoStatus | Denied

record battery_state =
  batteryVolts :: float32
  batteryLevel :: int32
  isCharging :: bool
  isOnChargerPlatform :: bool
  suggestedChargerSec :: float32

record prox_data =
  distanceMm :: uint32
  foundObject :: bool
  unobstructed :: bool
  signalQuality :: float32

record robot_state =
  stateStatus :: uint32
  headAngleRad :: float32
  liftHeightMm :: float32
  proxData :: "prox_data option"

record robot_client =
  machine :: float_machine
  connected :: bool
  fates :: "fate list"
  events :: "robot_event list"
  bcStream :: "nat option"
  nextStream :: nat
  battery :: battery_state
  robotState :: "robot_state option"
  animations :: "(string \<times> uint32) list"
  cancelFile :: bool

definition add_event :: "robot_event \<Rightarrow> (robot_client, unit) go" where
  "add_event e w = (Ret (), w\<lparr>events := events w @ [e]\<rparr>)"

definition next_fate :: "(robot_client, fate) go" where
  "next_fate w = (case fates w of [] \<Rightarrow> (Ret Fine, w) | f # fs \<Rightarrow> (Ret f, w\<lparr>fates := fs\<rparr>))"

text \<open>A call; the value says whether the response has a status.\<close>

definition rpc :: "robot_rpc \<Rightarrow> (robot_client, bool) go" where
  "rpc c = bindM (add_event (Calls c)) (\<lambda>_. bindM next_fate (\<lambda>f.
     if f = Fails then failM StreamError else returnM (f \<noteq> NoStatus)))"

text \<open>The same without the response; an operation on a stream is one of these, too.\<close>

definition attempt :: "robot_event \<Rightarrow> (robot_client, fate) go" where
  "attempt e = bindM (add_event e) (\<lambda>_. bindM next_fate (\<lambda>f.
     if f = Fails then failM StreamError else returnM f))"

definition rpc_with :: "(float_machine \<Rightarrow> robot_rpc) \<Rightarrow> (robot_client, bool) go" where
  "rpc_with c w = rpc (c (machine w)) w"

definition rc_DriveWheels :: "f64 \<Rightarrow> f64 \<Rightarrow> f64 \<Rightarrow> f64 \<Rightarrow> (robot_client, bool) go" where
  "rc_DriveWheels l r l2 r2 =
     rpc_with (\<lambda>M. CallDriveWheels (round32 M l) (round32 M r) (round32 M l2) (round32 M r2))"

definition rc_MoveHead :: "f64 \<Rightarrow> (robot_client, bool) go" where
  "rc_MoveHead v = rpc_with (\<lambda>M. CallMoveHead (round32 M v))"

definition rc_MoveLift :: "f64 \<Rightarrow> (robot_client, bool) go" where
  "rc_MoveLift v = rpc_with (\<lambda>M. CallMoveLift (round32 M v))"

section \<open>Behavior control\<close>

definition open_control :: "(robot_client, nat) go" where
  "open_control = bindM next_fate (\<lambda>f w.
     if f = Fails then (Fail (Errorf ''behavior control: %w''), w)
     else (Ret (nextStream w), w\<lparr>nextStream := Suc (nextStream w), events := events w @ [OpensControl (nextStream w)]\<rparr>))"

text \<open>\<open>if err != nil { cancel(); return fmt.Errorf(\<dots>) }\<close>\<close>

definition or_cancel :: "nat \<Rightarrow> string \<Rightarrow> (robot_client, 'a) go \<Rightarrow> (robot_client, 'a) go" where
  "or_cancel s msg m = bindM (tryM m) (\<lambda>r. case r of
      Inl _ \<Rightarrow> bindM (add_event (CancelsControl s)) (\<lambda>_. failM (Errorf msg))
    | Inr a \<Rightarrow> returnM a)"

definition recv_control :: "(robot_client, fate) go" where
  "recv_control = bindM next_fate (\<lambda>f. if f = Fails then failM StreamError else returnM f)"

definition StartForegroundActivity :: "(robot_client, unit) go" where
  "StartForegroundActivity = bindM open_control (\<lambda>stream.
     bindM (or_cancel stream ''control request: %w'' (attempt (AsksControl stream))) (\<lambda>_.
     bindM (or_cancel stream ''control recv: %w'' recv_control) (\<lambda>f.
       if f = Denied then
         bindM (add_event (CancelsControl stream)) (\<lambda>_. failM (Errorf ''control not granted''))
       else (\<lambda>w. (Ret (), w\<lparr>bcStream := Some stream\<rparr>)))))"

definition StopForegroundActivity :: "(robot_client, unit) go" where
  "StopForegroundActivity w = (case bcStream w of
      None \<Rightarrow> (Ret (), w)
    | Some stream \<Rightarrow> deferM (bindM (add_event (CancelsControl stream)) (\<lambda>_ w. (Ret (), w\<lparr>bcStream := None\<rparr>)))
        (bindM (attempt (ReleasesControl stream)) (\<lambda>_. returnM ())) w)"

definition with_control :: "(robot_client, unit) go \<Rightarrow> (robot_client, unit) go" where
  "with_control m = bindM StartForegroundActivity (\<lambda>_. deferM StopForegroundActivity m)"

section \<open>Motions\<close>

definition timed :: "(robot_client, bool) go \<Rightarrow> int \<Rightarrow> (robot_client, bool) go \<Rightarrow> (robot_client, unit) go" where
  "timed start ms stop = with_control (bindM start (\<lambda>_. bindM (add_event (Sleeps ms)) (\<lambda>_. bindM stop (\<lambda>_. returnM ()))))"

definition capped :: "rat \<Rightarrow> f64 \<Rightarrow> f64" where
  "capped m ms = (if fless (Fin m) ms then Fin m else ms)"

definition straight_speed :: "f64 \<Rightarrow> f64" where
  "straight_speed speedMmps =
     (let s = fabs speedMmps;
          s = (if fless s (Fin 20) then Fin 20 else s);
          s = (if fless (Fin 300) s then Fin 300 else s)
      in if fless speedMmps (Fin 0) then fneg s else s)"

definition straight_ms :: "float_machine \<Rightarrow> f64 \<Rightarrow> f64 \<Rightarrow> f64" where
  "straight_ms M speedMmps distMm = capped 30000 (fabs (fmul M (fdiv M distMm speedMmps) (Fin 1000)))"

definition DriveStraightTimed :: "f64 \<Rightarrow> f64 \<Rightarrow> (robot_client, unit) go" where
  "DriveStraightTimed speedMmps distMm w =
     (if \<not> fless (Fin 0) distMm \<and> distMm \<noteq> NaN then (Fail (Errorf ''distance must be positive''), w)
      else let M = machine w; s = straight_speed speedMmps in
        timed (rc_DriveWheels s s (Fin 200) (Fin 200)) (f64_int M 64 (straight_ms M speedMmps distMm))
          (rc_DriveWheels (Fin 0) (Fin 0) (Fin 0) (Fin 0)) w)"

definition small_angle :: "float_machine \<Rightarrow> f64 \<Rightarrow> bool" where
  "small_angle M angle = fless angle (round64 M (1 / 100))"

definition turn_ms :: "float_machine \<Rightarrow> f64 \<Rightarrow> f64 \<Rightarrow> f64" where
  "turn_ms M angleRad speedRadPerSec = capped 30000 (fabs (fmul M (fdiv M angleRad speedRadPerSec) (Fin 1000)))"

definition TurnInPlaceTimed :: "f64 \<Rightarrow> f64 \<Rightarrow> (robot_client, unit) go" where
  "TurnInPlaceTimed angleRad speedRadPerSec w =
     (let M = machine w in
      if small_angle M (fabs angleRad) then (Ret (), w)
      else let dir = (if fless angleRad (Fin 0) then Fin (- 1) else Fin 1);
               wheelSpeed = fmul M speedRadPerSec (Fin 24) in
        timed (rc_DriveWheels (fmul M dir wheelSpeed) (fmul M (fneg dir) wheelSpeed) (Fin 200) (Fin 200))
          (f64_int M 64 (turn_ms M angleRad speedRadPerSec))
          (rc_DriveWheels (Fin 0) (Fin 0) (Fin 0) (Fin 0)) w)"

definition MoveHeadTimed :: "f64 \<Rightarrow> f64 \<Rightarrow> (robot_client, unit) go" where
  "MoveHeadTimed angleRad speedRadPerSec w =
     (let M = machine w in
      if small_angle M (fabs angleRad) then (Ret (), w)
      else let back = fless angleRad (Fin 0);
               dir = (if back then Fin (- 1) else Fin 1);
               angle = (if back then fneg angleRad else angleRad) in
        timed (rc_MoveHead (fmul M dir speedRadPerSec))
          (f64_int M 64 (capped 10000 (fmul M (fdiv M angle speedRadPerSec) (Fin 1000))))
          (rc_MoveHead (Fin 0)) w)"

text \<open>\<open>math.Pi\<close> to twenty places, which round to the same \<open>float64\<close>.\<close>

definition math_Pi :: rat where "math_Pi = 314159265358979323846 / 10 ^ 20"

definition MoveLiftTimed :: "f64 \<Rightarrow> f64 \<Rightarrow> (robot_client, unit) go" where
  "MoveLiftTimed heightMm speedRadPerSec w =
     (let M = machine w;
          targetRad = fdiv M (fmul M (fmul M heightMm (Fin 2)) (round64 M math_Pi)) (Fin 100) in
      if small_angle M targetRad then (Ret (), w)
      else timed (rc_MoveLift speedRadPerSec)
        (f64_int M 64 (capped 10000 (fmul M (fdiv M targetRad speedRadPerSec) (Fin 1000))))
        (rc_MoveLift (Fin 0)) w)"

text \<open>The other calls.\<close>

definition rc_PlayAnimation :: "string \<Rightarrow> int \<Rightarrow> (robot_client, bool) go" where
  "rc_PlayAnimation name loops = rpc (CallPlayAnimation name (of_int loops))"

text \<open>
  The animation that is under way is told to end, and a goroutine starts the new one; the list of
  the animations started has the one that is not told to end last.
\<close>

definition PlayAnimationCancelPrev :: "string \<Rightarrow> int \<Rightarrow> (robot_client, unit) go" where
  "PlayAnimationCancelPrev name loops w = (Ret (), w\<lparr>animations := animations w @ [(name, of_int loops)]\<rparr>)"

text \<open>That goroutine; the wait for the end, or for ten seconds, leaves the client alone.\<close>

definition animation_activity :: "string \<Rightarrow> uint32 \<Rightarrow> (robot_client, unit) go" where
  "animation_activity name loops =
     with_control (bindM (tryM (rpc (CallPlayAnimation name loops))) (\<lambda>_. returnM ()))"

section \<open>What a motion does\<close>

lemmas robot_defs = go_defs add_event_def next_fate_def rpc_def attempt_def rpc_with_def open_control_def
  or_cancel_def recv_control_def StartForegroundActivity_def StopForegroundActivity_def with_control_def timed_def

text \<open>The courses that a motion can take, on the stream \<open>s\<close>; only the last one succeeds.\<close>

definition motion_done :: "nat \<Rightarrow> robot_rpc \<Rightarrow> int \<Rightarrow> robot_rpc \<Rightarrow> robot_event list" where
  "motion_done s start ms stop = [OpensControl s, AsksControl s, Calls start, Sleeps ms, Calls stop,
     ReleasesControl s, CancelsControl s]"

definition motion_failed :: "nat \<Rightarrow> robot_rpc \<Rightarrow> robot_event list set" where
  "motion_failed s start = {[], [OpensControl s, AsksControl s, CancelsControl s],
     [OpensControl s, AsksControl s, Calls start, ReleasesControl s, CancelsControl s]}"

lemma timed_courses:
  assumes "timed (rpc_with c) ms (rpc_with d) w = (r, w')"
  shows "\<exists>es. events w' = events w @ es \<and>
     (es = motion_done (nextStream w) (c (machine w)) ms (d (machine w)) \<or>
      es \<in> motion_failed (nextStream w) (c (machine w)) \<and> r \<noteq> Ret ()) \<and>
     (es = [] \<or> es = [OpensControl (nextStream w), AsksControl (nextStream w), CancelsControl (nextStream w)] \<or> bcStream w' = None) \<and>
     (r = Ret () \<or> (\<exists>e. r = Fail e))"
proof -
  show ?thesis
    using assms
    by (auto simp: robot_defs motion_done_def motion_failed_def split: list.splits if_splits)
qed

section \<open>Speeds and times\<close>

text \<open>
  What is used of IEEE arithmetic: rounding gives a number and does not turn the sign, numbers that
  are not large do not overflow, 0.01 is not rounded to 0, and \<open>math.Pi\<close> is a positive number.
\<close>

definition sane :: "float_machine \<Rightarrow> bool" where
  "sane M \<longleftrightarrow> (\<forall>q. round64 M q \<noteq> NaN \<and> (0 \<le> q \<longrightarrow> \<not> fless (round64 M q) (Fin 0))) \<and>
     (\<forall>q. \<bar>q\<bar> \<le> 1000 \<longrightarrow> (\<exists>p. round64 M q = Fin p)) \<and> fless (Fin 0) (round64 M (1 / 100)) \<and> (\<exists>p > 0. round64 M math_Pi = Fin p)"

definition nonneg :: "f64 \<Rightarrow> bool" where
  "nonneg x \<longleftrightarrow> x \<noteq> NaN \<and> \<not> fless x (Fin 0)"

lemma nonneg_cases: "nonneg x \<longleftrightarrow> x = PlusInf \<or> (\<exists>q \<ge> 0. x = Fin q)"
  by (cases x) (auto simp: nonneg_def)

lemma sane_round: "sane M \<Longrightarrow> 0 \<le> q \<Longrightarrow> nonneg (round64 M q)" "sane M \<Longrightarrow> round64 M q \<noteq> NaN"
  by (simp_all add: sane_def nonneg_def)

lemma sleep_bounds:
  assumes "nonneg x" "0 \<le> m" "m \<le> 30000"
  shows "0 \<le> f64_int M 64 (capped m x) \<and> f64_int M 64 (capped m x) \<le> 30000"
proof -
  have "\<exists>q. capped m x = Fin q \<and> 0 \<le> q \<and> q \<le> m"
    using assms by (auto simp: nonneg_cases capped_def)
  then obtain q where q: "capped m x = Fin q" "0 \<le> q" "q \<le> m" by blast
  have "0 \<le> truncated q" "truncated q \<le> 30000"
    using q assms(3) by (simp_all add: truncated_def floor_le_iff)
  then show ?thesis by (simp add: f64_int_def q(1))
qed

lemma nonneg_fabs: "x \<noteq> NaN \<Longrightarrow> nonneg (fabs x)"
  by (cases x) (auto simp: nonneg_def)

lemma fmul_pos: "sane M \<Longrightarrow> nonneg x \<Longrightarrow> 0 < b \<Longrightarrow> nonneg (fmul M x (Fin b))"
  by (auto simp: nonneg_cases [of x] sane_round infinity_def) (simp add: nonneg_def)

lemma fdiv_pos: "sane M \<Longrightarrow> nonneg x \<Longrightarrow> 0 < b \<Longrightarrow> nonneg (fdiv M x (Fin b))"
  by (auto simp: nonneg_cases [of x] sane_round) (simp add: nonneg_def)

lemma ratio_number: "sane M \<Longrightarrow> a \<noteq> 0 \<Longrightarrow> fmul M (fdiv M (Fin a) (Fin b)) (Fin 1000) \<noteq> NaN"
  by (cases "round64 M (a / b)") (auto simp: sane_round infinity_def sane_def)

lemma straight_ms_bounds:
  "sane M \<Longrightarrow> 0 < d \<Longrightarrow> 0 \<le> f64_int M 64 (straight_ms M (Fin v) (Fin d)) \<and>
     f64_int M 64 (straight_ms M (Fin v) (Fin d)) \<le> 30000"
  unfolding straight_ms_def by (rule sleep_bounds [OF nonneg_fabs [OF ratio_number]]) auto

lemma turn_ms_bounds:
  "sane M \<Longrightarrow> a \<noteq> 0 \<Longrightarrow> 0 \<le> f64_int M 64 (turn_ms M (Fin a) (Fin v)) \<and>
     f64_int M 64 (turn_ms M (Fin a) (Fin v)) \<le> 30000"
  unfolding turn_ms_def by (rule sleep_bounds [OF nonneg_fabs [OF ratio_number]]) auto

lemma angle_ms_bounds:
  "sane M \<Longrightarrow> nonneg x \<Longrightarrow> 0 < v \<Longrightarrow>
     0 \<le> f64_int M 64 (capped 10000 (fmul M (fdiv M x (Fin v)) (Fin 1000))) \<and>
     f64_int M 64 (capped 10000 (fmul M (fdiv M x (Fin v)) (Fin 1000))) \<le> 30000"
  by (rule sleep_bounds) (auto intro: fmul_pos fdiv_pos)

text \<open>The angle of the lift.\<close>

lemma not_nan:
  "sane M \<Longrightarrow> x \<noteq> NaN \<Longrightarrow> b \<noteq> 0 \<Longrightarrow> fmul M x (Fin b) \<noteq> NaN"
  "sane M \<Longrightarrow> x \<noteq> NaN \<Longrightarrow> b \<noteq> 0 \<Longrightarrow> fdiv M x (Fin b) \<noteq> NaN"
  by (cases x; auto simp: sane_round infinity_def)+

lemma fless_trans0: "fless x (Fin 0) \<Longrightarrow> fless (Fin 0) c \<Longrightarrow> fless x c"
  by (cases x; cases c) auto

lemma large_angle: "sane M \<Longrightarrow> \<not> small_angle M x \<Longrightarrow> x \<noteq> NaN \<Longrightarrow> nonneg x"
  unfolding small_angle_def nonneg_def sane_def using fless_trans0 by blast

section \<open>Properties\<close>

text \<open>The command that stops the motor that a command starts.\<close>

fun motor_stop :: "float_machine \<Rightarrow> robot_rpc \<Rightarrow> robot_rpc option" where
  "motor_stop M (CallDriveWheels _ _ _ _) = (let z = round32 M (Fin 0) in Some (CallDriveWheels z z z z))"
| "motor_stop M (CallMoveHead _) = Some (CallMoveHead (round32 M (Fin 0)))"
| "motor_stop M (CallMoveLift _) = Some (CallMoveLift (round32 M (Fin 0)))"
| "motor_stop M _ = None"

definition motion_course :: "robot_client \<Rightarrow> bool \<Rightarrow> robot_event list \<Rightarrow> bool" where
  "motion_course w failed es \<longleftrightarrow> es = [] \<or> (\<exists>start stop ms. motor_stop (machine w) start = Some stop \<and>
     0 \<le> ms \<and> ms \<le> 30000 \<and> (es = motion_done (nextStream w) start ms stop \<or>
       es \<in> motion_failed (nextStream w) start \<and> failed))"

definition motion_safe :: "(robot_client, 'a) go \<Rightarrow> robot_client \<Rightarrow> bool" where
  "motion_safe m w \<longleftrightarrow> (case m w of (r, w') \<Rightarrow> bcStream w' = None \<and> ((\<exists>a. r = Ret a) \<or> (\<exists>e. r = Fail e)) \<and>
     (\<exists>es. events w' = events w @ es \<and> motion_course w (\<exists>e. r = Fail e) es))"

lemma timed_safe:
  assumes "bcStream w = None" "motor_stop (machine w) (c (machine w)) = Some (d (machine w))" "0 \<le> ms \<and> ms \<le> 30000"
  shows "motion_safe (timed (rpc_with c) ms (rpc_with d)) w"
proof -
  obtain r w' where run: "timed (rpc_with c) ms (rpc_with d) w = (r, w')" by fastforce
  have "bcStream w' = None" if "es = [] \<or> es = [OpensControl (nextStream w), AsksControl (nextStream w), CancelsControl (nextStream w)]"
    "events w' = events w @ es" for es
    using run that assms(1) by (auto simp: robot_defs split: list.splits if_splits)
  with timed_courses [OF run] assms(2,3) show ?thesis
    unfolding motion_safe_def run motion_course_def prod.case by blast
qed

lemma motion_safe_nothing: "bcStream w = None \<Longrightarrow> (\<exists>a. m w = (Ret a, w)) \<or> (\<exists>e. m w = (Fail e, w)) \<Longrightarrow> motion_safe m w"
  by (auto simp: motion_safe_def motion_course_def)

lemma motion_safe_at: "m w = m' w \<Longrightarrow> motion_safe m' w \<Longrightarrow> motion_safe m w"
  by (simp add: motion_safe_def)

lemma motor_safe:
  assumes "bcStream w = None" "0 \<le> ms \<and> ms \<le> 30000"
  shows "motion_safe (timed (rc_DriveWheels a b c d) ms (rc_DriveWheels (Fin 0) (Fin 0) (Fin 0) (Fin 0))) w"
    "motion_safe (timed (rc_MoveHead a) ms (rc_MoveHead (Fin 0))) w"
    "motion_safe (timed (rc_MoveLift a) ms (rc_MoveLift (Fin 0))) w"
  unfolding rc_DriveWheels_def rc_MoveHead_def rc_MoveLift_def
  by (rule timed_safe [OF assms(1) _ assms(2)]; simp add: Let_def)+

lemma motion_safe_bind: "motion_safe m w \<Longrightarrow> motion_safe (bindM m (\<lambda>_. returnM x)) w"
  by (auto simp: motion_safe_def bindM_def returnM_def split: prod.splits outcome.splits)

text \<open>
  A motion with finite arguments does nothing, or takes control, starts a motor, waits at most 30
  seconds, stops this motor and gives control back; when a call before the wait fails it gives back
  the control that it has and reports the error.
\<close>

lemma motions_safe:
  assumes "sane (machine w)" "bcStream w = None" "0 < u"
  shows "motion_safe (DriveStraightTimed (Fin v) (Fin d)) w \<and> motion_safe (TurnInPlaceTimed (Fin a) (Fin v)) w \<and>
    motion_safe (MoveHeadTimed (Fin a) (Fin u)) w \<and> motion_safe (MoveLiftTimed (Fin h) (Fin u)) w"
proof (intro conjI)
  note motor = motor_safe [OF assms(2)]
  show "motion_safe (DriveStraightTimed (Fin v) (Fin d)) w"
  proof (cases "0 < d")
    case True
    show ?thesis
      by (rule motion_safe_at [OF _ motor(1) [OF straight_ms_bounds [OF assms(1) True]]])
        (simp add: DriveStraightTimed_def Let_def True)
  qed (simp add: motion_safe_nothing assms DriveStraightTimed_def)
  show "motion_safe (TurnInPlaceTimed (Fin a) (Fin v)) w"
  proof (cases "small_angle (machine w) (fabs (Fin a))")
    case False
    then have "a \<noteq> 0" using assms(1) by (auto simp: small_angle_def sane_def)
    from False show ?thesis
      by (intro motion_safe_at [OF _ motor(1) [OF turn_ms_bounds [OF assms(1) \<open>a \<noteq> 0\<close>]]])
        (simp add: TurnInPlaceTimed_def Let_def)
  qed (simp add: motion_safe_nothing assms TurnInPlaceTimed_def)
  show "motion_safe (MoveHeadTimed (Fin a) (Fin u)) w"
  proof (cases "small_angle (machine w) (fabs (Fin a))")
    case False
    have "nonneg (if fless (Fin a) (Fin 0) then fneg (Fin a) else Fin a)" by (simp add: nonneg_def)
    from False show ?thesis
      by (intro motion_safe_at [OF _ motor(2) [OF angle_ms_bounds [OF assms(1) \<open>nonneg _\<close> assms(3)]]])
        (simp add: MoveHeadTimed_def Let_def)
  qed (simp add: motion_safe_nothing assms MoveHeadTimed_def)
  show "motion_safe (MoveLiftTimed (Fin h) (Fin u)) w"
  proof -
    let ?M = "machine w"
    let ?t = "fdiv ?M (fmul ?M (fmul ?M (Fin h) (Fin 2)) (round64 ?M math_Pi)) (Fin 100)"
    obtain p where "0 < p" "round64 ?M math_Pi = Fin p" using assms(1) by (auto simp: sane_def)
    then have number: "?t \<noteq> NaN" by (simp add: not_nan assms(1) del: fmul.simps fdiv.simps)
    show ?thesis
    proof (cases "small_angle ?M ?t")
      case False
      with number have "nonneg ?t" using large_angle [OF assms(1)] by simp
      from False show ?thesis
        by (intro motion_safe_at [OF _ motor(3) [OF angle_ms_bounds [OF assms(1) \<open>nonneg ?t\<close> assms(3)]]])
          (simp add: MoveLiftTimed_def Let_def)
    qed (simp add: motion_safe_nothing assms MoveLiftTimed_def)
  qed
qed

text \<open>A client at rest whose calls succeed; its machine has the bits of the \<open>float32\<close>s that occur.\<close>

definition plain_machine :: float_machine where
  "plain_machine = \<lparr>round64 = Fin,
     round32 = (\<lambda>x. if x = Fin 20 then 0x41A00000 else if x = Fin 200 then 0x43480000 else 0),
     outOfRange = (\<lambda>_. 0)\<rparr>"

definition idle_client :: robot_client where
  "idle_client = \<lparr>machine = plain_machine, connected = True, fates = [], events = [], bcStream = None,
     nextStream = 0, battery = \<lparr>batteryVolts = 0, batteryLevel = 2, isCharging = False,
     isOnChargerPlatform = False, suggestedChargerSec = 0\<rparr>, robotState = None, animations = [], cancelFile = False\<rparr>"

lemma sane_plain_machine: "sane plain_machine"
  unfolding sane_def plain_machine_def
  by (auto simp: math_Pi_def intro!: exI [of _ math_Pi])

text \<open>
  A drive that asks for less than 20 mm/s runs at 20 mm/s, but for the time that the speed asked for
  would need, so that it covers \<open>20 / v\<close> times the distance.
\<close>

theorem slow_drive_overshoots:
  assumes "0 < v" "v < 20" "0 < d" "d / v * 1000 \<le> 30000" "fates w = []"
    and "round64 (machine w) (d / v) = Fin (d / v)" "round64 (machine w) (d / v * 1000) = Fin (d / v * 1000)"
  shows "\<exists>w'. DriveStraightTimed (Fin v) (Fin d) w = (Ret (), w') \<and>
    (let f = round32 (machine w) in events w' = events w @ motion_done (nextStream w)
      (CallDriveWheels (f (Fin 20)) (f (Fin 20)) (f (Fin 200)) (f (Fin 200))) (truncated (d / v * 1000))
      (CallDriveWheels (f (Fin 0)) (f (Fin 0)) (f (Fin 0)) (f (Fin 0))))"
proof -
  have "straight_speed (Fin v) = Fin 20" using assms(1,2) by (simp add: straight_speed_def)
  moreover have "straight_ms (machine w) (Fin v) (Fin d) = Fin (d / v * 1000)"
    using assms by (simp add: straight_ms_def capped_def del: times_divide_eq_left)
  moreover have "f64_int (machine w) 64 (Fin (d / v * 1000)) = truncated (d / v * 1000)"
  proof -
    have "0 \<le> truncated (d / v * 1000)" "truncated (d / v * 1000) \<le> 30000"
      using assms(1-4) by (simp_all add: truncated_def floor_le_iff)
    then show ?thesis by (simp add: f64_int_def)
  qed
  ultimately show ?thesis
    using assms(3,5) by (simp add: DriveStraightTimed_def Let_def rc_DriveWheels_def robot_defs motion_done_def)
qed

theorem slow_drive_overshoots_witness:
  "\<exists>w'. DriveStraightTimed (Fin 5) (Fin 100) idle_client = (Ret (), w') \<and>
    events w' = motion_done 0 (CallDriveWheels 0x41A00000 0x41A00000 0x43480000 0x43480000) 20000 (CallDriveWheels 0 0 0 0)"
  using slow_drive_overshoots [of 5 100 idle_client]
  by (simp add: idle_client_def plain_machine_def truncated_def Let_def)

section \<open>Overlapping activities\<close>

text \<open>
  The activities that run, by number: animations run in goroutines of their own, and motions and the
  activity tools in that of the server. All share \<open>bcStream\<close>.
\<close>

inductive activity_step :: "nat set \<times> robot_client \<Rightarrow> nat set \<times> robot_client \<Rightarrow> bool" where
  begins: "i \<notin> running \<Longrightarrow> StartForegroundActivity w = (Ret (), w') \<Longrightarrow>
    activity_step (running, w) (insert i running, w')"
| refused: "StartForegroundActivity w = (Fail e, w') \<Longrightarrow> activity_step (running, w) (running, w')"
| ends: "i \<in> running \<Longrightarrow> StopForegroundActivity w = (r, w') \<Longrightarrow>
    activity_step (running, w) (running - {i}, w')"

definition streams_open :: "robot_event list \<Rightarrow> nat set" where
  "streams_open es = fold (\<lambda>e S. case e of
     OpensControl s \<Rightarrow> insert s S | CancelsControl s \<Rightarrow> S - {s} | _ \<Rightarrow> S) es {}"

text \<open>
  When two activities overlap, the first one to end takes the control from the other, and after both
  have ended the stream of the first is still open: nobody gives back its control.
\<close>

theorem overlapping_activities_leak:
  "(\<exists>w. activity_step\<^sup>*\<^sup>* ({}, idle_client) ({2}, w) \<and> bcStream w = None \<and> ReleasesControl 1 \<in> set (events w)) \<and>
   (\<exists>w. activity_step\<^sup>*\<^sup>* ({}, idle_client) ({}, w) \<and> bcStream w = None \<and> streams_open (events w) = {0})"
proof -
  define w1 where "w1 = idle_client\<lparr>nextStream := 1, events := [OpensControl 0, AsksControl 0], bcStream := Some 0\<rparr>"
  define w2 where "w2 = w1\<lparr>nextStream := 2, events := events w1 @ [OpensControl 1, AsksControl 1], bcStream := Some 1\<rparr>"
  define w3 where "w3 = w2\<lparr>events := events w2 @ [ReleasesControl 1, CancelsControl 1], bcStream := None\<rparr>"
  note ws = w1_def w2_def w3_def idle_client_def robot_defs
  have s1: "activity_step ({}, idle_client) ({1}, w1)"
    by (rule activity_step.begins) (simp_all add: ws)
  have s2: "activity_step ({1}, w1) ({1, 2}, w2)"
    using activity_step.begins [of 2 "{1}" w1 w2] by (simp add: ws insert_commute)
  have s3: "activity_step ({1, 2}, w2) ({2}, w3)"
    using activity_step.ends [of 1 "{1, 2}" w2 "Ret ()" w3] by (simp add: ws)
  have s4: "activity_step ({2}, w3) ({}, w3)"
    using activity_step.ends [of 2 "{2}" w3 "Ret ()" w3] by (simp add: ws)
  have "activity_step\<^sup>*\<^sup>* ({}, idle_client) ({2}, w3)"
    by (rule rtranclp.rtrancl_into_rtrancl [OF rtranclp.rtrancl_into_rtrancl [OF r_into_rtranclp [where r = activity_step, OF s1] s2] s3])
  moreover from this s4 have "activity_step\<^sup>*\<^sup>* ({}, idle_client) ({}, w3)" by (rule rtranclp.rtrancl_into_rtrancl)
  moreover have "bcStream w3 = None" "ReleasesControl 1 \<in> set (events w3)" "streams_open (events w3) = {0}"
    by (auto simp: ws streams_open_def)
  ultimately show ?thesis by blast
qed

end
