(* ===== verification/Robot_Link.thy ===== *)
theory Robot_Link
  imports Robot_Motion
begin

text \<open>
  How the client of \<open>cloud/robot.go\<close> gets and keeps its connection: \<open>connect\<close>, \<open>ConnectWithRetry\<close>, the
  loop of \<open>main\<close> that reconnects, and \<open>eventStreamLoop\<close>. The lemmas bound the attempts and the waits,
  and show that a connection whose version check fails is never made again.
\<close>

section \<open>Connecting\<close>

text \<open>What an attempt meets; a connection that fails or does not answer \<open>SUCCESS\<close> to the version check is closed.\<close>

datatype attempt_result = DialFails | VersionCheckFails | VersionMismatch | Connects

text \<open>\<open>conn\<close>: is \<open>rc.conn\<close> set; \<open>connAlive\<close>: is it open; the event loops started; the waits in nanoseconds.\<close>

record robot_link =
  conn :: bool
  connAlive :: bool
  eventLoops :: nat
  waits :: "int list"

definition connect :: "attempt_result \<Rightarrow> robot_link \<Rightarrow> bool \<times> robot_link" where
  "connect a l = (case a of
      DialFails \<Rightarrow> (False, l)
    | VersionCheckFails \<Rightarrow> (False, l\<lparr>conn := True, connAlive := False\<rparr>)
    | VersionMismatch \<Rightarrow> (False, l\<lparr>conn := True, connAlive := False\<rparr>)
    | Connects \<Rightarrow> (True, l\<lparr>conn := True, connAlive := True, eventLoops := Suc (eventLoops l)\<rparr>))"

text \<open>The next wait; all products here are exact as \<open>float64\<close>.\<close>

definition next_backoff :: "int \<Rightarrow> int" where
  "next_backoff backoff = min (backoff * 3 div 2) 30000000000"

definition close_old :: "robot_link \<Rightarrow> robot_link" where
  "close_old l = (if conn l then l\<lparr>connAlive := False\<rparr> else l)"

fun connect_attempts :: "nat \<Rightarrow> int \<Rightarrow> (nat \<Rightarrow> attempt_result) \<Rightarrow> robot_link \<Rightarrow> bool \<times> robot_link" where
  "connect_attempts 0 backoff as l = (False, l)"
| "connect_attempts (Suc n) backoff as l =
     (let (ok, l) = connect (as 0) (close_old l) in
      if ok then (True, l)
      else connect_attempts n (next_backoff backoff) (\<lambda>i. as (Suc i)) (l\<lparr>waits := waits l @ [backoff]\<rparr>))"

definition ConnectWithRetry :: "(nat \<Rightarrow> attempt_result) \<Rightarrow> robot_link \<Rightarrow> bool \<times> robot_link" where
  "ConnectWithRetry = connect_attempts 10 1000000000"

text \<open>One round of the goroutine in \<open>main\<close>, and the start of the client.\<close>

definition reconnect_round :: "(nat \<Rightarrow> attempt_result) \<Rightarrow> robot_link \<Rightarrow> robot_link" where
  "reconnect_round as l =
     (let l = (if conn l then l
        else let (ok, l) = ConnectWithRetry as l in if ok then l\<lparr>eventLoops := Suc (eventLoops l)\<rparr> else l)
      in l\<lparr>waits := waits l @ [10000000000]\<rparr>)"

definition new_link :: "attempt_result \<Rightarrow> robot_link" where
  "new_link a = snd (connect a \<lparr>conn = False, connAlive = False, eventLoops = 0, waits = []\<rparr>)"

lemma connect_attempts_result:
  "fst (connect_attempts n b as l) \<longleftrightarrow> (\<exists>i < n. as i = Connects)"
proof (induction n arbitrary: b as l)
  case (Suc n)
  have "(\<exists>i < Suc n. as i = Connects) \<longleftrightarrow> as 0 = Connects \<or> (\<exists>i < n. as (Suc i) = Connects)"
    by (simp add: Ex_less_Suc2)
  with Suc show ?case by (auto simp: connect_def Let_def split: attempt_result.split prod.split)
qed simp

lemma connect_attempts_waits:
  assumes "0 \<le> b" "b \<le> 30000000000"
  shows "\<exists>ws. waits (snd (connect_attempts n b as l)) = waits l @ ws \<and> length ws \<le> n \<and>
    (\<forall>t \<in> set ws. 0 \<le> t \<and> t \<le> 30000000000)"
  using assms
proof (induction n arbitrary: b as l)
  case (Suc n)
  obtain ok l1 where c: "connect (as 0) (close_old l) = (ok, l1)" by fastforce
  then have w: "waits l1 = waits l"
    by (auto simp: connect_def close_old_def split: attempt_result.splits if_splits)
  let ?l' = "l1\<lparr>waits := waits l @ [b]\<rparr>"
  show ?case
  proof (cases ok)
    case True
    then show ?thesis using w c by simp
  next
    case False
    then have run: "connect_attempts (Suc n) b as l =
        connect_attempts n (next_backoff b) (\<lambda>i. as (Suc i)) ?l'"
      using w c by simp
    from Suc.IH [of "next_backoff b" "\<lambda>i. as (Suc i)" ?l'] Suc.prems obtain ws where
      "waits (snd (connect_attempts n (next_backoff b) (\<lambda>i. as (Suc i)) ?l')) = (waits l @ [b]) @ ws"
      "length ws \<le> n" "\<forall>t \<in> set ws. 0 \<le> t \<and> t \<le> 30000000000" by (auto simp: next_backoff_def)
    with Suc.prems show ?thesis unfolding run by (intro exI [of _ "b # ws"]) auto
  qed
qed simp

text \<open>
  The client connects if one of ten attempts does; it waits at most ten times, and never for more
  than thirty seconds.
\<close>

lemma ConnectWithRetry_result:
  "(fst (ConnectWithRetry as l) \<longleftrightarrow> (\<exists>i < 10. as i = Connects)) \<and>
   (\<exists>ws. waits (snd (ConnectWithRetry as l)) = waits l @ ws \<and> length ws \<le> 10 \<and>
     (\<forall>t \<in> set ws. 0 \<le> t \<and> t \<le> 30000000000))"
  using connect_attempts_result [of 10 1000000000 as l] connect_attempts_waits [of 1000000000 10 as l]
  by (simp add: ConnectWithRetry_def)

text \<open>
  A client whose version check fails when it starts has a closed connection, which counts as one:
  no round of the loop that reconnects ever makes a new one.
\<close>

theorem failed_handshake_is_final:
  assumes "a = VersionCheckFails \<or> a = VersionMismatch"
  shows "conn (fold reconnect_round rounds (new_link a)) \<and> \<not> connAlive (fold reconnect_round rounds (new_link a)) \<and>
    eventLoops (fold reconnect_round rounds (new_link a)) = 0"
proof -
  have "conn (fold reconnect_round rounds l) \<and> \<not> connAlive (fold reconnect_round rounds l) \<and>
      eventLoops (fold reconnect_round rounds l) = 0"
    if "conn l" "\<not> connAlive l" "eventLoops l = 0" for l
    using that by (induction rounds arbitrary: l) (auto simp: reconnect_round_def)
  from this [of "new_link a"] show ?thesis using assms by (auto simp: new_link_def connect_def)
qed

theorem failed_handshake_is_final_witness:
  "\<not> connAlive (fold reconnect_round [\<lambda>_. Connects, \<lambda>_. Connects] (new_link VersionMismatch))"
  using failed_handshake_is_final [of VersionMismatch "[\<lambda>_. Connects, \<lambda>_. Connects]"] by simp

text \<open>A connection made in a later round is read by two event loops.\<close>

lemma reconnected_twice: "eventLoops (reconnect_round (\<lambda>_. Connects) (new_link DialFails)) = 2"
  by (simp add: reconnect_round_def new_link_def connect_def close_old_def ConnectWithRetry_def eval_nat_numeral)

section \<open>Sensor data\<close>

text \<open>What \<open>Recv\<close> gives until it fails.\<close>

datatype sensor_event = NoEvent | OtherEvent | StateEvent robot_state

fun eventStreamLoop :: "sensor_event list \<Rightarrow> robot_client \<Rightarrow> robot_client" where
  "eventStreamLoop [] w = w"
| "eventStreamLoop (StateEvent rs # es) w = eventStreamLoop es (w\<lparr>robotState := Some rs\<rparr>)"
| "eventStreamLoop (_ # es) w = eventStreamLoop es w"

lemma eventStreamLoop_latest:
  "eventStreamLoop (es @ [StateEvent rs] @ replicate n OtherEvent) w = w\<lparr>robotState := Some rs\<rparr>"
proof (induction es arbitrary: w)
  case Nil
  have "eventStreamLoop (replicate n OtherEvent) v = v" for v by (induction n) auto
  then show ?case by simp
next
  case (Cons e es)
  then show ?case by (cases e) auto
qed

end
