(* ===== verification/Mic_Direction.thy ===== *)
theory Mic_Direction
  imports Robot_Motion Go_Bytes
begin

text \<open>
  \<open>cloud/audio.go\<close>: the subscriber to the microphone socket of the robot's audio process. Each
  packet is samples, the end of an utterance, or the direction of a sound; samples and ends become
  notifications to the MCP client. The lemmas show that a packet is read within its bounds although
  the buffer is used again and again, that what a sender packs is what the client is told, and
  which orders of starting and stopping lead to two readers of one socket.
\<close>

section \<open>Packets\<close>

text \<open>\<open>Degrees\<close> is a \<open>float64\<close> without a fraction.\<close>

record mic_direction =
  dirTimestamp :: uint32
  Direction :: uint16
  Confidence :: uint16
  SelectedDirection :: uint16
  SelectedConfidence :: uint16
  ActiveState :: int32
  LatestPowerValue :: float32
  LatestNoiseFloor :: float32
  Degrees :: nat

definition dirToDegrees :: "uint16 \<Rightarrow> nat" where
  "dirToDegrees d = (unat d * 30 + 360) mod 360"

text \<open>
  The notifications: the samples, which go out in base64, with their number; and the end of an
  utterance with the last direction and what is known of the robot's sensors.
\<close>

datatype mic_notification =
  AudioChunkNote "byte list" uint64 | AudioDoneNote uint64 mic_direction "robot_state option"

text \<open>\<open>buf[lo:hi]\<close> for bounds within the buffer.\<close>

definition slice :: "byte list \<Rightarrow> nat \<Rightarrow> nat \<Rightarrow> byte list" where
  "slice buf lo hi = take (hi - lo) (drop lo buf)"

definition direction_of :: "byte list \<Rightarrow> mic_direction" where
  "direction_of buf = \<lparr>dirTimestamp = le32_of (slice buf 1 5), Direction = le16_of (slice buf 5 7),
     Confidence = le16_of (slice buf 7 9), SelectedDirection = le16_of (slice buf 9 11),
     SelectedConfidence = le16_of (slice buf 11 13), ActiveState = le32_of (slice buf 65 69),
     LatestPowerValue = le32_of (slice buf 69 73), LatestNoiseFloor = le32_of (slice buf 73 77),
     Degrees = dirToDegrees (le16_of (slice buf 5 7))\<rparr>"

text \<open>What a reader knows: the number of its last chunk, and the direction kept for all.\<close>

record mic_reader =
  chunkCount :: uint64
  lastDir :: mic_direction

text \<open>One packet of \<open>n\<close> bytes in the buffer, with what the robot client knows.\<close>

definition mic_packet ::
    "robot_state option \<Rightarrow> byte list \<Rightarrow> nat \<Rightarrow> mic_reader \<Rightarrow> mic_notification list \<times> mic_reader" where
  "mic_packet robot buf n s =
     (if n < 1 then ([], s)
      else if buf ! 0 = 1 then
        (if n < 3 then ([], s)
         else let dataLen = le16_of (slice buf 1 3); pcmEnd = 3 + unat dataLen * 2 in
           if pcmEnd > n then ([], s)
           else let timestamp = chunkCount s + 1 in
             ([AudioChunkNote (slice buf 3 pcmEnd) timestamp], s\<lparr>chunkCount := timestamp\<rparr>))
      else if buf ! 0 = 2 then ([AudioDoneNote (chunkCount s) (lastDir s) robot], s)
      else if buf ! 0 = 0xDA then
        (if n < 77 then ([], s) else ([], s\<lparr>lastDir := direction_of buf\<rparr>))
      else ([], s))"

text \<open>\<open>Read\<close> overwrites the front of the buffer.\<close>

definition mic_read :: "byte list \<Rightarrow> byte list \<Rightarrow> byte list \<times> nat" where
  "mic_read packet buf = (let p = take (length buf) packet in (p @ drop (length p) buf, length p))"

fun mic_packets ::
    "robot_state option \<Rightarrow> byte list list \<Rightarrow> byte list \<Rightarrow> mic_reader \<Rightarrow> mic_notification list \<times> mic_reader" where
  "mic_packets robot [] buf s = ([], s)"
| "mic_packets robot (p # ps) buf s =
     (let (buf, n) = mic_read p buf; (out, s) = mic_packet robot buf n s;
          (outs, s) = mic_packets robot ps buf s
      in (out @ outs, s))"

text \<open>The packets of the sender, and what they mean.\<close>

definition audio_packet :: "byte list \<Rightarrow> byte list" where
  "audio_packet samples = 1 # le16 (of_nat (length samples div 2)) @ samples"

lemma slice_take: "hi \<le> n \<Longrightarrow> slice (take n buf) lo hi = slice buf lo hi"
  by (simp add: slice_def drop_take)

lemma mic_packet_local:
  assumes "take n b = take n b'"
  shows "mic_packet robot b n s = mic_packet robot b' n s"
proof -
  have sl: "slice b lo hi = slice b' lo hi" if "hi \<le> n" for lo hi
    using slice_take [OF that] assms by metis
  have hd: "b ! 0 = b' ! 0" if "\<not> n < 1"
    using assms that by (metis nth_take not_less_eq One_nat_def)
  show ?thesis
    using hd by (auto simp: mic_packet_def direction_of_def Let_def sl)
qed

lemma mic_packet_read:
  assumes "mic_read p buf = (b, n)" "length p \<le> length buf"
  shows "mic_packet robot b n s = mic_packet robot p (length p) s"
  using assms mic_packet_local [of n b p] by (auto simp: mic_read_def)

text \<open>So the packets can be read one by one, whatever the buffer held before.\<close>

fun packets_alone ::
    "robot_state option \<Rightarrow> byte list list \<Rightarrow> mic_reader \<Rightarrow> mic_notification list \<times> mic_reader" where
  "packets_alone robot [] s = ([], s)"
| "packets_alone robot (p # ps) s =
     (let (out, s) = mic_packet robot p (length p) s; (outs, s) = packets_alone robot ps s in (out @ outs, s))"

lemma length_mic_read: "mic_read p buf = (b, n) \<Longrightarrow> length b = length buf"
  by (auto simp: mic_read_def)

lemma mic_packets_alone:
  "\<forall>p \<in> set ps. length p \<le> length buf \<Longrightarrow> mic_packets robot ps buf s = packets_alone robot ps s"
proof (induction ps arbitrary: buf s)
  case (Cons p ps)
  obtain b n where r: "mic_read p buf = (b, n)" by fastforce
  with Cons.prems have "mic_packet robot b n s = mic_packet robot p (length p) s"
    using mic_packet_read by simp
  with Cons.IH [of b] Cons.prems length_mic_read [OF r] r show ?case
    by (auto simp: Let_def split: prod.split)
qed simp

lemma audio_packet_note:
  assumes "even (length samples)" "length samples < 131072"
  shows "mic_packet robot (audio_packet samples) (length (audio_packet samples)) s =
    ([AudioChunkNote samples (chunkCount s + 1)], s\<lparr>chunkCount := chunkCount s + 1\<rparr>)"
proof -
  have "unat (of_nat (length samples div 2) :: uint16) = length samples div 2"
    using assms(2) by (simp add: unat_of_nat take_bit_nat_eq_self)
  moreover have "slice (audio_packet samples) 1 3 = le16 (of_nat (length samples div 2))"
    by (simp add: slice_def audio_packet_def)
  moreover have "slice (audio_packet samples) 3 (3 + length samples) = samples"
    by (simp add: slice_def audio_packet_def numeral_3_eq_3)
  ultimately show ?thesis
    using assms(1) le_of_le(1) [of "of_nat (length samples div 2)" "[]"]
    by (simp add: mic_packet_def Let_def) (simp add: audio_packet_def)
qed

text \<open>The notifications of samples, numbered on from \<open>n\<close>.\<close>

fun numbered :: "uint64 \<Rightarrow> byte list list \<Rightarrow> mic_notification list" where
  "numbered n [] = []"
| "numbered n (x # xs) = AudioChunkNote x n # numbered (n + 1) xs"

text \<open>
  C33. The reader reads each packet as if its buffer were new: no byte of an earlier packet is used. The
  samples that the robot packs go out to the client as they are, in order, numbered one by one.
\<close>

theorem mic_packets_read:
  assumes "\<forall>p \<in> set ps \<union> set (map audio_packet xs). length p \<le> length buf"
    and "\<forall>x \<in> set xs. even (length x) \<and> length x < 131072"
  shows "mic_packets robot ps buf s = packets_alone robot ps s \<and>
    mic_packets robot (map audio_packet xs) buf s =
      (numbered (chunkCount s + 1) xs, s\<lparr>chunkCount := chunkCount s + of_nat (length xs)\<rparr>)"
proof
  show "mic_packets robot ps buf s = packets_alone robot ps s"
    using mic_packets_alone assms(1) by blast
  have "packets_alone robot (map audio_packet xs) s =
      (numbered (chunkCount s + 1) xs, s\<lparr>chunkCount := chunkCount s + of_nat (length xs)\<rparr>)"
    using assms(2) by (induction xs arbitrary: s) (simp_all add: audio_packet_note Let_def algebra_simps)
  with assms(1) show "mic_packets robot (map audio_packet xs) buf s =
      (numbered (chunkCount s + 1) xs, s\<lparr>chunkCount := chunkCount s + of_nat (length xs)\<rparr>)"
    by (subst mic_packets_alone) auto
qed

definition quiet_reader :: mic_reader where
  "quiet_reader = \<lparr>chunkCount = 0, lastDir = direction_of (replicate 77 0)\<rparr>"

theorem mic_packets_read_witness:
  "fst (mic_packets None (map audio_packet [[1, 2, 3, 4], [5, 6]]) (replicate 65536 9) quiet_reader) =
    [AudioChunkNote [1, 2, 3, 4] 1, AudioChunkNote [5, 6] 2]"
  using mic_packets_read [of "[]" "[[1, 2, 3, 4], [5, 6]]" "replicate 65536 9" None quiet_reader]
  by (simp add: audio_packet_def quiet_reader_def)

section \<open>Starting and stopping\<close>

text \<open>
  Each start makes a new connection and a new \<open>done\<close>, both numbered, and a goroutine, which uses
  whatever connection and \<open>done\<close> the subscriber has when it looks.
\<close>

datatype mic_loop = AtTop | Reading nat | Handling | Gone

record subscriber =
  active :: bool
  generation :: nat
  ended :: "nat set"
  loops :: "mic_loop list"

definition new_subscriber :: subscriber where
  "new_subscriber = \<lparr>active = False, generation = 0, ended = {}, loops = []\<rparr>"

text \<open>\<open>Start\<close>, when the socket can be dialed or not, and \<open>Stop\<close>.\<close>

definition Start :: "bool \<Rightarrow> subscriber \<Rightarrow> bool \<times> subscriber" where
  "Start dialed s = (if active s then (True, s) else if \<not> dialed then (False, s)
     else (True, s\<lparr>active := True, generation := Suc (generation s), loops := loops s @ [AtTop]\<rparr>))"

definition Stop :: "subscriber \<Rightarrow> subscriber" where
  "Stop s = (if \<not> active s then s else s\<lparr>active := False, ended := insert (generation s) (ended s)\<rparr>)"

text \<open>What a goroutine does next; a packet arrives when it reads an open connection.\<close>

definition loop_next :: "subscriber \<Rightarrow> mic_loop \<Rightarrow> mic_loop" where
  "loop_next s l = (case l of
      AtTop \<Rightarrow> if generation s \<in> ended s then Gone else Reading (generation s)
    | Reading g \<Rightarrow> if g \<in> ended s then Gone else Handling
    | Handling \<Rightarrow> AtTop
    | Gone \<Rightarrow> Gone)"

inductive subscriber_step :: "subscriber \<Rightarrow> subscriber \<Rightarrow> bool" where
  starts: "Start True s = (ok, s') \<Longrightarrow> subscriber_step s s'"
| stops: "subscriber_step s (Stop s)"
| moves: "i < length (loops s) \<Longrightarrow> subscriber_step s (s\<lparr>loops := (loops s)[i := loop_next s (loops s ! i)]\<rparr>)"

text \<open>A subscriber that is never stopped has one reader at most.\<close>

lemma one_reader_step: "subscriber_step s s' \<Longrightarrow> active s \<Longrightarrow> length (loops s') = length (loops s)"
  by (induction rule: subscriber_step.induct) (auto simp: Start_def Stop_def)

text \<open>
  When it is stopped and started again while its goroutine handles a packet, this goroutine does not
  see that its connection has ended, and goes on to read the new one beside the new goroutine.
\<close>

lemma two_readers:
  "\<exists>s. subscriber_step\<^sup>*\<^sup>* new_subscriber s \<and> loops s = [Reading 2, Reading 2]"
proof -
  let ?move = "\<lambda>i s. s\<lparr>loops := (loops s)[i := loop_next s (loops s ! i)]\<rparr>"
  define s1 where "s1 = snd (Start True new_subscriber)"
  define s2 where "s2 = ?move 0 (?move 0 s1)"
  define s3 where "s3 = snd (Start True (Stop s2))"
  define s4 where "s4 = ?move 1 (?move 0 (?move 0 s3))"
  note defs = Start_def Stop_def new_subscriber_def loop_next_def s1_def s2_def s3_def s4_def
  have move: "subscriber_step\<^sup>*\<^sup>* s (?move i u)" if "subscriber_step\<^sup>*\<^sup>* s u" "i < length (loops u)" for i s u
    using rtranclp.rtrancl_into_rtrancl [OF that(1) subscriber_step.moves [OF that(2)]] .
  have start: "subscriber_step\<^sup>*\<^sup>* s (snd (Start True u))" if "subscriber_step\<^sup>*\<^sup>* s u" for s u
    using rtranclp.rtrancl_into_rtrancl [OF that subscriber_step.starts [of u "fst (Start True u)"]] by simp
  have "subscriber_step\<^sup>*\<^sup>* new_subscriber s1" unfolding s1_def by (rule start) simp
  then have "subscriber_step\<^sup>*\<^sup>* new_subscriber s2" unfolding s2_def by (intro move) (simp_all add: defs)
  from rtranclp.rtrancl_into_rtrancl [OF this subscriber_step.stops]
  have "subscriber_step\<^sup>*\<^sup>* new_subscriber s3" unfolding s3_def by (rule start)
  then have "subscriber_step\<^sup>*\<^sup>* new_subscriber s4" unfolding s4_def by (intro move) (simp_all add: defs)
  moreover have "loops s4 = [Reading 2, Reading 2]" by (simp add: defs)
  ultimately show ?thesis by blast
qed

end
