(* ===== verification/Mcp_Transport.thy ===== *)
theory Mcp_Transport
  imports Go_Prelude Complex_Main
begin

text \<open>
  \<open>cloud/transport.go\<close>: the JSON-RPC layer of the MCP server. Lines from stdin are decoded to requests,
  given to the handler of their method, and answered on stdout. The locale \<open>method_handlers\<close> says
  what the handlers owe the transport; in it, each request with an id is answered once.
\<close>

section \<open>JSON\<close>

text \<open>
  A value as \<open>encoding/json\<close> parses it: numbers are exact, and objects keep the order of their
  members and those that occur twice.
\<close>

datatype json =
  JNull | JBool bool | JNum rat | JStr string | JArr "json list" | JObj "(string \<times> json) list"

text \<open>Names of fields are compared without case; of other letters than ASCII's the model knows no cases.\<close>

definition lower :: "char \<Rightarrow> char" where
  "lower c = (let n = of_char c :: nat in if 65 \<le> n \<and> n \<le> 90 then char_of (n + 32) else c)"

definition to_lower :: "string \<Rightarrow> string" where
  "to_lower = map lower"

text \<open>A member for a field of type \<open>string\<close>: null leaves it alone, other types are errors.\<close>

definition as_string :: "json \<Rightarrow> string \<Rightarrow> string option" where
  "as_string v old = (case v of JStr s \<Rightarrow> Some s | JNull \<Rightarrow> Some old | _ \<Rightarrow> None)"

text \<open>Members are assigned one after the other.\<close>

fun assign_fields :: "(string \<Rightarrow> json \<Rightarrow> 'a \<Rightarrow> 'a option) \<Rightarrow> (string \<times> json) list \<Rightarrow> 'a \<Rightarrow> 'a option" where
  "assign_fields set_field [] r = Some r"
| "assign_fields set_field ((k, v) # ms) r = Option.bind (set_field (to_lower k) v r) (assign_fields set_field ms)"

text \<open>\<open>json.Unmarshal\<close> into a struct: null leaves it alone, and anything but an object is an error.\<close>

definition unmarshal :: "(string \<Rightarrow> json \<Rightarrow> 'a \<Rightarrow> 'a option) \<Rightarrow> 'a \<Rightarrow> json \<Rightarrow> 'a option" where
  "unmarshal set_field zero v = (case v of
      JNull \<Rightarrow> Some zero | JObj ms \<Rightarrow> assign_fields set_field ms zero | _ \<Rightarrow> None)"

section \<open>Requests and replies\<close>

text \<open>A \<open>json.RawMessage\<close> is the value that its text stands for, or \<open>None\<close> when it is empty.\<close>

record jsonrpc_request =
  JSONRPC :: string
  ID :: "json option"
  Method :: string
  Params :: "json option"

definition no_request :: jsonrpc_request where
  "no_request = \<lparr>JSONRPC = '''', ID = None, Method = '''', Params = None\<rparr>"

definition set_request_field :: "string \<Rightarrow> json \<Rightarrow> jsonrpc_request \<Rightarrow> jsonrpc_request option" where
  "set_request_field k v r =
     (if k = ''jsonrpc'' then map_option (\<lambda>x. r\<lparr>JSONRPC := x\<rparr>) (as_string v (JSONRPC r))
      else if k = ''id'' then Some (r\<lparr>ID := Some v\<rparr>)
      else if k = ''method'' then map_option (\<lambda>x. r\<lparr>Method := x\<rparr>) (as_string v (Method r))
      else if k = ''params'' then Some (r\<lparr>Params := Some v\<rparr>)
      else Some r)"

definition unmarshal_request :: "json \<Rightarrow> jsonrpc_request option" where
  "unmarshal_request = unmarshal set_request_field no_request"

record jsonrpc_notification =
  nJSONRPC :: string
  nMethod :: string
  nParams :: "json option"

definition set_notification_field :: "string \<Rightarrow> json \<Rightarrow> jsonrpc_notification \<Rightarrow> jsonrpc_notification option" where
  "set_notification_field k v r =
     (if k = ''jsonrpc'' then map_option (\<lambda>x. r\<lparr>nJSONRPC := x\<rparr>) (as_string v (nJSONRPC r))
      else if k = ''method'' then map_option (\<lambda>x. r\<lparr>nMethod := x\<rparr>) (as_string v (nMethod r))
      else if k = ''params'' then Some (r\<lparr>nParams := Some v\<rparr>)
      else Some r)"

definition unmarshal_notification :: "json \<Rightarrow> jsonrpc_notification option" where
  "unmarshal_notification = unmarshal set_notification_field \<lparr>nJSONRPC = '''', nMethod = '''', nParams = None\<rparr>"

text \<open>What is written to stdout, with its id; a nil result is the empty object.\<close>

datatype 'r reply = Response json 'r | EmptyResponse json | ErrorResponse json int string

text \<open>A handler gets the parameters; \<open>None\<close> is the result nil. (No handler looks at the id.)\<close>

type_synonym ('w, 'r) method_handler = "json option \<Rightarrow> ('w, 'r option) go"

text \<open>\<open>err.Error()\<close>\<close>

definition error_text :: "go_error \<Rightarrow> string" where
  "error_text e = (case e of Errorf s \<Rightarrow> s | GrpcError _ s \<Rightarrow> s | SocketError \<Rightarrow> ''socket error'' | StreamError \<Rightarrow> ''stream error'')"

definition no_id :: "json option \<Rightarrow> bool" where
  "no_id i \<longleftrightarrow> i = None \<or> i = Some JNull"

definition sendError :: "json option \<Rightarrow> int \<Rightarrow> string \<Rightarrow> 'r reply list" where
  "sendError i code msg = (if no_id i then [] else [ErrorResponse (the i) code msg])"

definition sendResponse :: "json option \<Rightarrow> 'r option \<Rightarrow> 'r reply list" where
  "sendResponse i result = (case result of None \<Rightarrow> [EmptyResponse (the i)] | Some x \<Rightarrow> [Response (the i) x])"

definition handleRequest :: "(string \<Rightarrow> ('w, 'r) method_handler option) \<Rightarrow> jsonrpc_request \<Rightarrow> ('w, 'r reply list) go" where
  "handleRequest handlers req = (case handlers (Method req) of
      None \<Rightarrow> returnM (sendError (ID req) (-32601) (''Method not found: '' @ Method req))
    | Some h \<Rightarrow> bindM (tryM (h (Params req))) (\<lambda>r. case r of
          Inl e \<Rightarrow> returnM (sendError (ID req) (-32603) (error_text e))
        | Inr result \<Rightarrow> returnM (if no_id (ID req) then [] else sendResponse (ID req) result)))"

definition handleNotification :: "(string \<Rightarrow> ('w, 'r) method_handler option) \<Rightarrow> jsonrpc_notification \<Rightarrow> ('w, 'r reply list) go" where
  "handleNotification handlers notif = (case handlers (nMethod notif) of
      None \<Rightarrow> returnM []
    | Some h \<Rightarrow> bindM (tryM (h (nParams notif))) (\<lambda>_. returnM []))"

text \<open>A line: \<open>None\<close> when it is no JSON.\<close>

definition handleMessage :: "(string \<Rightarrow> ('w, 'r) method_handler option) \<Rightarrow> json option \<Rightarrow> ('w, 'r reply list) go" where
  "handleMessage handlers raw = (case Option.bind raw unmarshal_request of
      None \<Rightarrow> returnM []
    | Some req \<Rightarrow>
        if Method req = '''' then (case Option.bind raw unmarshal_notification of
            None \<Rightarrow> returnM []
          | Some notif \<Rightarrow> if nMethod notif = '''' then returnM [] else handleNotification handlers notif)
        else handleRequest handlers req)"

text \<open>\<open>Run\<close>, over the lines up to the end of the input; what follows the last line break is dropped.\<close>

fun transport_Run :: "(string \<Rightarrow> ('w, 'r) method_handler option) \<Rightarrow> json option list \<Rightarrow> ('w, 'r reply list) go" where
  "transport_Run handlers [] = returnM []"
| "transport_Run handlers (raw # lines) = bindM (handleMessage handlers raw) (\<lambda>out.
     bindM (transport_Run handlers lines) (\<lambda>outs. returnM (out @ outs)))"

section \<open>Each request is answered once\<close>

fun reply_id :: "'r reply \<Rightarrow> json" where
  "reply_id (Response i _) = i"
| "reply_id (EmptyResponse i) = i"
| "reply_id (ErrorResponse i _ _) = i"

text \<open>The ids that a line asks an answer for.\<close>

definition asked_id :: "json option \<Rightarrow> json list" where
  "asked_id raw = (case Option.bind raw unmarshal_request of
      Some req \<Rightarrow> if Method req = '''' \<or> no_id (ID req) then [] else [the (ID req)]
    | None \<Rightarrow> [])"

text \<open>The branch for notifications is never taken: it decodes the same method again.\<close>

lemma same_field:
  assumes "set_request_field k v r = Some r'" "set_notification_field k v n = Some n'" "Method r = nMethod n"
  shows "Method r' = nMethod n'"
proof -
  consider "k = ''method''" | "k = ''jsonrpc''" | "k = ''params''" | "k = ''id''"
    | "k \<noteq> ''method''" "k \<noteq> ''jsonrpc''" "k \<noteq> ''params''" "k \<noteq> ''id''" by blast
  then show ?thesis
  proof cases
    case 1
    with assms show ?thesis by (auto simp: set_request_field_def set_notification_field_def)
  next
    case 2
    with assms show ?thesis by (auto simp: set_request_field_def set_notification_field_def)
  next
    case 3
    with assms show ?thesis by (auto simp: set_request_field_def set_notification_field_def)
  next
    case 4
    with assms show ?thesis by (auto simp: set_request_field_def set_notification_field_def)
  next
    case 5
    with assms show ?thesis by (auto simp: set_request_field_def set_notification_field_def)
  qed
qed

lemma same_method:
  assumes "assign_fields set_request_field ms r = Some req" "assign_fields set_notification_field ms n = Some notif"
    "Method r = nMethod n"
  shows "Method req = nMethod notif"
  using assms
proof (induction set_request_field ms r arbitrary: n rule: assign_fields.induct)
  case (2 k v ms r)
  then obtain r' n' where s: "set_request_field (to_lower k) v r = Some r'" "set_notification_field (to_lower k) v n = Some n'"
    "assign_fields set_request_field ms r' = Some req" "assign_fields set_notification_field ms n' = Some notif"
    by (auto simp: Option.bind_eq_Some_conv)
  have "Method r' = nMethod n'"
    using same_field [OF s(1,2) 2(4)] .
  then show ?case using 2(1) s by blast
qed simp

lemma notifications_dead:
  assumes "Option.bind raw unmarshal_request = Some req" "Method req = ''''"
    "Option.bind raw unmarshal_notification = Some notif"
  shows "nMethod notif = ''''"
proof -
  obtain v where v: "unmarshal_request v = Some req" "unmarshal_notification v = Some notif"
    using assms(1,3) by (auto simp: Option.bind_eq_Some_conv)
  show ?thesis
  proof (cases v)
    case (JObj ms)
    with v have "Method req = nMethod notif"
      by (intro same_method [of ms no_request req "\<lparr>nJSONRPC = [], nMethod = [], nParams = None\<rparr>" notif])
        (simp_all add: unmarshal_request_def unmarshal_notification_def unmarshal_def no_request_def)
    with assms(2) show ?thesis by simp
  qed (use v in \<open>auto simp: unmarshal_request_def unmarshal_notification_def unmarshal_def\<close>)
qed

locale method_handlers =
  fixes handlers :: "string \<Rightarrow> ('w, 'r) method_handler option" and good :: "'w \<Rightarrow> bool"
  assumes returns: "handlers m = Some h \<Longrightarrow> good w \<Longrightarrow> h p w = (r, w') \<Longrightarrow>
    good w' \<and> ((\<exists>x. r = Ret x) \<or> (\<exists>e. r = Fail e))"
begin

lemma handleRequest_answers:
  assumes "good w"
  shows "\<exists>out w'. handleRequest handlers req w = (Ret out, w') \<and> good w' \<and>
    map reply_id out = (if no_id (ID req) then [] else [the (ID req)])"
proof (cases "handlers (Method req)")
  case None
  with assms show ?thesis by (simp add: handleRequest_def returnM_def sendError_def)
next
  case (Some h)
  obtain r w' where h: "h (Params req) w = (r, w')" by fastforce
  from returns [OF Some assms h] show ?thesis
    using Some h
    by (auto simp: handleRequest_def go_defs sendError_def sendResponse_def split: option.split)
qed

lemma handleMessage_answers:
  assumes "good w"
  shows "\<exists>out w'. handleMessage handlers raw w = (Ret out, w') \<and> good w' \<and> map reply_id out = asked_id raw"
proof (cases "Option.bind raw unmarshal_request")
  case None
  with assms show ?thesis by (simp add: handleMessage_def asked_id_def returnM_def)
next
  case (Some req)
  show ?thesis
  proof (cases "Method req = ''''")
    case True
    with notifications_dead [OF Some True] Some assms show ?thesis
      by (auto simp: handleMessage_def asked_id_def returnM_def split: option.split)
  next
    case False
    with Some handleRequest_answers [OF assms, of req] show ?thesis
      by (auto simp: handleMessage_def asked_id_def)
  qed
qed

lemma transport_Run_answers:
  assumes "good w"
  shows "\<exists>out w'. transport_Run handlers lines w = (Ret out, w') \<and> good w' \<and>
    map reply_id out = concat (map asked_id lines)"
  using assms
proof (induction lines arbitrary: w)
  case (Cons raw lines)
  from handleMessage_answers [OF Cons.prems, of raw] obtain out w1 where
    m: "handleMessage handlers raw w = (Ret out, w1)" "good w1" "map reply_id out = asked_id raw" by blast
  from Cons.IH [OF m(2)] m(1,3) show ?case by (auto simp: go_defs)
qed (simp add: returnM_def)

end

end
