(* ===== verification/Mcp_Tools.thy ===== *)
theory Mcp_Tools
  imports Robot_Motion Mic_Direction Mcp_Transport
begin

text \<open>
  The tools of the MCP server (\<open>cloud/tools.go\<close>) and its methods (\<open>cloud/main.go\<close>): decoding of the
  arguments, their checks, the calls of the robot client, and the texts of the answers. The lemmas
  show that no call makes the server panic, so that \<open>Mcp_Transport\<close>'s result holds of it, that what is out
  of range never reaches the robot, and what each tool has the client do.
\<close>

section \<open>Arguments\<close>

text \<open>
  Arguments are decoded to \<open>map[string]interface{}\<close>: of a member that occurs twice the last one counts,
  numbers become \<open>float64\<close>, and one that is too large for it is an error wherever it stands.
\<close>

type_synonym args = "(string \<times> json) list"

fun numbers_fit :: "float_machine \<Rightarrow> json \<Rightarrow> bool" where
  "numbers_fit M (JNum q) = (\<exists>r. round64 M q = Fin r)"
| "numbers_fit M (JArr vs) = list_all (numbers_fit M) vs"
| "numbers_fit M (JObj ms) = list_all (\<lambda>m. numbers_fit M (snd m)) ms"
| "numbers_fit M _ = True"

definition arg :: "args \<Rightarrow> string \<Rightarrow> json option" where
  "arg args key = map_of (rev args) key"

definition getFloat :: "float_machine \<Rightarrow> args \<Rightarrow> string \<Rightarrow> f64 \<Rightarrow> f64" where
  "getFloat M args key defaultVal = (case arg args key of Some (JNum q) \<Rightarrow> round64 M q | _ \<Rightarrow> defaultVal)"

definition getString :: "args \<Rightarrow> string \<Rightarrow> string \<Rightarrow> string" where
  "getString args key defaultVal = (case arg args key of Some (JStr s) \<Rightarrow> s | _ \<Rightarrow> defaultVal)"

text \<open>
  The text of an answer: the format of the \<open>Sprintf\<close>, without the signs that are not ASCII, and its
  arguments. \<open>FStatus\<close> is the status code of the response, \<open>FDegrees\<close> an angle in degrees; \<open>FBattery\<close>,
  \<open>FSensors\<close> and \<open>FDirection\<close> stand for all fields that the text shows.
\<close>

datatype fmt_arg = FFloat f64 | FString string | FBool bool | FStatus | FDegrees f64 | FBattery battery_state |
  FSensors robot_state | FDirection mic_direction

type_synonym tool_text = "string \<times> fmt_arg list"

type_synonym tool = "args \<Rightarrow> (robot_client, tool_text) go"

section \<open>The tools\<close>

definition when_connected :: "(robot_client, 'a) go \<Rightarrow> (robot_client, 'a) go" where
  "when_connected m w = (if connected w then m w else (Fail (Errorf ''robot not connected''), w))"

text \<open>\<open>resp.Status.Code\<close>: a response without a status panics.\<close>

definition status_of :: "bool \<Rightarrow> (robot_client, unit) go" where
  "status_of has = (if has then returnM () else panicM)"

definition refuse :: "string \<Rightarrow> (robot_client, 'a) go" where
  "refuse msg = failM (Errorf msg)"

text \<open>\<open>x < lo || x > hi\<close>\<close>

definition outside :: "f64 \<Rightarrow> f64 \<Rightarrow> f64 \<Rightarrow> bool" where
  "outside lo hi x \<longleftrightarrow> fless x lo \<or> fless hi x"

definition handleDriveStraight :: tool where
  "handleDriveStraight args = when_connected (\<lambda>w.
     let speed = getFloat (machine w) args ''speed_mmps'' (Fin 80);
         dist = getFloat (machine w) args ''dist_mm'' (Fin 300)
     in (if outside (Fin (-300)) (Fin 300) speed then refuse ''speed must be -300..300 mm/s''
         else if outside (Fin 10) (Fin 5000) dist then refuse ''distance must be 10..5000 mm''
         else bindM (DriveStraightTimed speed dist) (\<lambda>_.
           returnM (''Drove %.0fmm at %.0fmm/s'', [FFloat dist, FFloat speed]))) w)"

definition handleTurnInPlace :: tool where
  "handleTurnInPlace args = when_connected (\<lambda>w.
     let M = machine w;
         angle = getFloat M args ''angle_rad'' (round64 M (314159 / 100000));
         speed = getFloat M args ''speed_rad_per_sec'' (Fin 2)
     in (if outside (round64 M (- 6283 / 1000)) (round64 M (6283 / 1000)) angle then refuse ''angle must be -2pi..2pi rad''
         else bindM (TurnInPlaceTimed angle speed) (\<lambda>_. returnM (''Turned %.1f'', [FDegrees angle]))) w)"

definition handleSetHeadAngle :: tool where
  "handleSetHeadAngle args = when_connected (\<lambda>w.
     let M = machine w; angle = getFloat M args ''angle_rad'' (Fin 0)
     in (if outside (Fin (- 1 / 2)) (round64 M (7 / 10)) angle then refuse ''head angle must be -0.5..0.7 rad''
         else bindM (MoveHeadTimed angle (Fin (3 / 2))) (\<lambda>_. returnM (''Head moved to %.1f'', [FDegrees angle]))) w)"

definition handleSetLiftHeight :: tool where
  "handleSetLiftHeight args = when_connected (\<lambda>w.
     let height = getFloat (machine w) args ''height_mm'' (Fin 0)
     in (if outside (Fin 0) (Fin 100) height then refuse ''lift height must be 0..100 mm''
         else bindM (MoveLiftTimed height (Fin 3)) (\<lambda>_. returnM (''Lift moved to %.0fmm'', [FFloat height]))) w)"

definition handleDriveWheels :: tool where
  "handleDriveWheels args = when_connected (\<lambda>w.
     let left = getFloat (machine w) args ''left_mmps'' (Fin 0);
         right = getFloat (machine w) args ''right_mmps'' (Fin 0)
     in bindM (rc_DriveWheels left right (Fin 200) (Fin 200)) (\<lambda>resp. bindM (status_of resp) (\<lambda>_.
          returnM (''DriveWheels: status=%v'', [FStatus]))) w)"

definition handleStop :: tool where
  "handleStop args = when_connected (bindM (rpc CallStopAllMotors) (\<lambda>resp. bindM (status_of resp) (\<lambda>_.
     returnM (''StopAllMotors: status=%v'', [FStatus]))))"

definition mapBatteryLevel :: "int32 \<Rightarrow> string" where
  "mapBatteryLevel l = (if l = 1 then ''low'' else if l = 2 then ''nominal'' else if l = 3 then ''full'' else ''unknown'')"

definition handleGetBattery :: tool where
  "handleGetBattery args = when_connected (bindM (rpc CallBatteryState) (\<lambda>_ w.
     (Ret (''%s'', [FBattery (battery w), FString (mapBatteryLevel (batteryLevel (battery w)))]), w)))"

definition handlePlayPCM :: tool where
  "handlePlayPCM args = refuse ''use Unix socket /tmp/daima_spk.sock instead of MCP for playback''"

definition volume_names :: "string list" where
  "volume_names = [''low'', ''medium_low'', ''medium'', ''medium_high'', ''high'']"

text \<open>\<open>int\<close> has 32 bits on the robot. \<open>names[level]\<close> panics out of range.\<close>

definition volume_level :: "float_machine \<Rightarrow> args \<Rightarrow> int" where
  "volume_level M args =
     (let level = f64_int M 32 (getFloat M args ''level'' (Fin 2));
          level = (if level < 0 then 0 else level)
      in if level > 4 then 4 else level)"

definition handleSetVolume :: tool where
  "handleSetVolume args = when_connected (\<lambda>w.
     let level = volume_level (machine w) args
     in bindM (rpc (CallSetMasterVolume level)) (\<lambda>resp. bindM (status_of resp) (\<lambda>_.
          if 0 \<le> level \<and> level < int (length volume_names) then
            returnM (''SetMasterVolume: status=%v level=%s'', [FStatus, FString (volume_names ! nat level)])
          else panicM)) w)"

definition handleDriveOnCharger :: tool where
  "handleDriveOnCharger args = when_connected (bindM (rpc (CallAppIntent ''intent_system_charger'')) (\<lambda>resp.
     bindM (status_of resp) (\<lambda>_. returnM (''Charger intent sent: status=%v'', [FStatus]))))"

definition handleDriveOffCharger :: tool where
  "handleDriveOffCharger args = when_connected (bindM (DriveStraightTimed (Fin (-60)) (Fin 100)) (\<lambda>_.
     returnM (''Backed off charger'', [])))"

definition animation_names :: "(string list \<times> string) list" where
  "animation_names =
    [([''weatherstars01'', ''stars'', ''fireworks'', ''firework'', ''fire'', ''firework01'', ''star'', ''celebrate''],
        ''anim_holiday_hny_fireworks_01''),
     ([''greeting01'', ''greeting'', ''greet'', ''hello''], ''anim_greeting_hello_01''),
     ([''happy01'', ''happy'', ''happiness''], ''anim_feedback_goodrobot_01''),
     ([''sad01'', ''sad''], ''anim_feedback_badrobot_01''),
     ([''surprise01'', ''surprise''], ''anim_greeting_hello_02''),
     ([''love01'', ''love''], ''anim_feedback_iloveyou_01''),
     ([''sleep01'', ''sleep''], ''anim_gotosleep_getin_01''),
     ([''meet01'', ''meet'', ''victor''], ''anim_meetvictor_sayname_01'')]"

definition anim_name :: "string \<Rightarrow> string" where
  "anim_name name = (case filter (\<lambda>(ks, _). to_lower name \<in> set ks) animation_names of
      [] \<Rightarrow> name | (_, a) # _ \<Rightarrow> a)"

definition handlePlayAnimation :: tool where
  "handlePlayAnimation args = when_connected (\<lambda>w.
     let name = getString args ''name'' ''''; loops = f64_int (machine w) 32 (getFloat (machine w) args ''loops'' (Fin 1))
     in (if name = '''' then refuse ''missing animation name''
         else bindM (PlayAnimationCancelPrev (anim_name name) loops) (\<lambda>_.
           returnM (''PlayAnimation %s: playing'', [FString (anim_name name)]))) w)"

definition handleCancelPlayback :: tool where
  "handleCancelPlayback args w = (Ret (''Playback cancel signal sent'', []), w\<lparr>cancelFile := True\<rparr>)"

definition handleActivityStart :: tool where
  "handleActivityStart args = when_connected (bindM StartForegroundActivity (\<lambda>_.
     returnM (''Activity started (behavior control acquired)'', [])))"

definition handleActivityEnd :: tool where
  "handleActivityEnd args = when_connected (bindM StopForegroundActivity (\<lambda>_.
     returnM (''Activity ended (behavior control released)'', [])))"

text \<open>The wait that keeps intents 1.5 seconds apart has no effect on the state.\<close>

definition handleAppIntent :: tool where
  "handleAppIntent args = when_connected (
     let intent = getString args ''intent'' ''''
     in if intent = '''' then refuse ''missing intent''
        else bindM (rpc (CallAppIntent intent)) (\<lambda>resp. bindM (status_of resp) (\<lambda>_.
          returnM (''AppIntent %s: status=%v'', [FString intent, FStatus]))))"

definition robotStatusCliff :: uint32 where "robotStatusCliff = 0x4000"

definition handleGetSensors :: tool where
  "handleGetSensors args = when_connected (\<lambda>w. case robotState w of
      None \<Rightarrow> (Fail (Errorf ''sensor data not available yet (waiting for EventStream)''), w)
    | Some rs \<Rightarrow> (Ret (''Proximity: %s Cliff detected: %v Status flags: 0x%04X Head angle: %.2f Lift height: %.1fmm'',
        [FSensors rs, FBool (and (stateStatus rs) robotStatusCliff \<noteq> 0)]), w))"

definition registerAll :: "(string \<times> tool) list" where
  "registerAll =
    [(''robot_drive_straight'', handleDriveStraight), (''robot_turn_in_place'', handleTurnInPlace),
     (''robot_set_head_angle'', handleSetHeadAngle), (''robot_set_lift_height'', handleSetLiftHeight),
     (''robot_drive_wheels'', handleDriveWheels), (''robot_stop'', handleStop),
     (''robot_get_battery'', handleGetBattery), (''robot_play_pcm'', handlePlayPCM),
     (''robot_set_volume'', handleSetVolume), (''robot_drive_on_charger'', handleDriveOnCharger),
     (''robot_drive_off_charger'', handleDriveOffCharger), (''robot_play_animation'', handlePlayAnimation),
     (''robot_cancel_playback'', handleCancelPlayback), (''robot_activity_start'', handleActivityStart),
     (''robot_activity_end'', handleActivityEnd), (''robot_get_sensors'', handleGetSensors),
     (''robot_app_intent'', handleAppIntent)]"

text \<open>\<open>allTools\<close>, by name and required arguments; the descriptions are left out.\<close>

definition allTools :: "(string \<times> string list) list" where
  "allTools =
    [(''robot_drive_straight'', []), (''robot_turn_in_place'', []), (''robot_set_head_angle'', [''angle_rad'']),
     (''robot_set_lift_height'', [''height_mm'']), (''robot_drive_wheels'', [''left_mmps'', ''right_mmps'']),
     (''robot_stop'', []), (''robot_get_battery'', []), (''robot_get_sensors'', []),
     (''robot_set_volume'', [''level'']), (''robot_drive_on_charger'', []), (''robot_drive_off_charger'', []),
     (''robot_play_animation'', [''name'']), (''robot_cancel_playback'', []), (''robot_activity_start'', []),
     (''robot_activity_end'', []), (''robot_subscribe_audio'', []), (''robot_unsubscribe_audio'', []),
     (''mic_get_direction'', []), (''robot_app_intent'', [''intent''])]"

section \<open>The methods\<close>

text \<open>\<open>dials\<close> is what the next attempts to dial the microphone's socket meet, then success.\<close>

record mcp_server =
  rc :: robot_client
  mic :: subscriber
  micDirection :: mic_direction
  dials :: "bool list"

text \<open>The results; that of a tool is a text, which may be an error's.\<close>

datatype mcp_result = InitializeResult | ToolsList "(string \<times> string list) list" | CallResult tool_text bool

type_synonym mcp_method = "(mcp_server, mcp_result) method_handler"

record call_params =
  callName :: string
  callArguments :: args

text \<open>A second \<open>arguments\<close> is decoded into the map that the first one made.\<close>

definition set_call_field :: "float_machine \<Rightarrow> string \<Rightarrow> json \<Rightarrow> call_params \<Rightarrow> call_params option" where
  "set_call_field M k v p =
     (if k = ''name'' then map_option (\<lambda>x. p\<lparr>callName := x\<rparr>) (as_string v (callName p))
      else if k = ''arguments'' then (case v of
          JNull \<Rightarrow> Some (p\<lparr>callArguments := []\<rparr>)
        | JObj ms \<Rightarrow> if numbers_fit M v then Some (p\<lparr>callArguments := callArguments p @ ms\<rparr>) else None
        | _ \<Rightarrow> None)
      else Some p)"

definition unmarshal_call :: "float_machine \<Rightarrow> json option \<Rightarrow> call_params option" where
  "unmarshal_call M params =
     Option.bind params (unmarshal (set_call_field M) \<lparr>callName = [], callArguments = []\<rparr>)"

definition on_client :: "(robot_client, 'a) go \<Rightarrow> (mcp_server, 'a) go" where
  "on_client m s = (case m (rc s) of (r, w) \<Rightarrow> (r, s\<lparr>rc := w\<rparr>))"

definition handleSubscribeAudio :: "(mcp_server, mcp_result option) go" where
  "handleSubscribeAudio s =
     (let dialed = (case dials s of [] \<Rightarrow> True | d # _ \<Rightarrow> d); (ok, m) = Start dialed (mic s);
          s = s\<lparr>mic := m, dials := if active (mic s) then dials s else tl (dials s)\<rparr>
      in (Ret (Some (if ok then CallResult (''Subscribed to audio stream.'', []) False
           else CallResult (''Failed to subscribe: %v'', []) True)), s))"

definition handleUnsubscribeAudio :: "(mcp_server, mcp_result option) go" where
  "handleUnsubscribeAudio s =
     (Ret (Some (CallResult (''Unsubscribed from audio stream.'', []) False)), s\<lparr>mic := Stop (mic s)\<rparr>)"

definition handleMicGetDirection :: "(mcp_server, mcp_result option) go" where
  "handleMicGetDirection s =
     (Ret (Some (CallResult (''Direction: index=%d degrees=%.0f selectedDirection=%d'', [FDirection (micDirection s)]) False)), s)"

definition call_tool :: "string \<Rightarrow> args \<Rightarrow> (mcp_server, mcp_result option) go" where
  "call_tool name args =
     (if name = ''robot_subscribe_audio'' then handleSubscribeAudio
      else if name = ''robot_unsubscribe_audio'' then handleUnsubscribeAudio
      else if name = ''mic_get_direction'' then handleMicGetDirection
      else case map_of registerAll name of
          None \<Rightarrow> returnM (Some (CallResult (''Unknown tool: %s'', [FString name]) True))
        | Some handler \<Rightarrow> bindM (tryM (on_client (handler args))) (\<lambda>r. returnM (Some (case r of
              Inl e \<Rightarrow> CallResult (''Error: %v'', [FString (error_text e)]) True
            | Inr text \<Rightarrow> CallResult text False))))"

definition tools_call :: mcp_method where
  "tools_call params s = (case unmarshal_call (machine (rc s)) params of
      None \<Rightarrow> (Fail (Errorf ''invalid params: %w''), s)
    | Some p \<Rightarrow> call_tool (callName p) (callArguments p) s)"

definition mcp_methods :: "string \<Rightarrow> mcp_method option" where
  "mcp_methods m =
     (if m = ''initialize'' then Some (\<lambda>_. returnM (Some InitializeResult))
      else if m = ''notifications/initialized'' then Some (\<lambda>_. returnM None)
      else if m = ''tools/list'' then Some (\<lambda>_. returnM (Some (ToolsList allTools)))
      else if m = ''tools/call'' then Some tools_call
      else None)"

section \<open>No call panics\<close>

text \<open>The gateway's responses have a status: \<open>engine_handlers_safe\<close> of \<open>Rpc_Handlers\<close>.\<close>

definition statuses :: "robot_client \<Rightarrow> bool" where
  "statuses w \<longleftrightarrow> NoStatus \<notin> set (fates w)"

definition calm :: "(robot_client, 'a) go \<Rightarrow> ('a \<Rightarrow> bool) \<Rightarrow> robot_client \<Rightarrow> bool" where
  "calm m Q w \<longleftrightarrow> (statuses w \<longrightarrow> (case m w of (r, w') \<Rightarrow>
     statuses w' \<and> ((\<exists>a. r = Ret a \<and> Q a) \<or> (\<exists>e. r = Fail e))))"

lemma calm_bind:
  assumes "calm m Q w" "\<And>a v. Q a \<Longrightarrow> calm (k a) R v"
  shows "calm (bindM m k) R w"
proof (cases "statuses w")
  case True
  with assms(1) obtain r v where m: "m w = (r, v)" "statuses v" "(\<exists>a. r = Ret a \<and> Q a) \<or> (\<exists>e. r = Fail e)"
    by (auto simp: calm_def split: prod.splits)
  from m(3) show ?thesis
  proof (elim disjE exE conjE)
    fix a assume "r = Ret a" "Q a"
    with m assms(2) [of a v] show ?thesis by (simp add: bindM_def calm_def)
  qed (use m in \<open>simp add: bindM_def calm_def\<close>)
qed (simp add: calm_def)

lemma calm_basic:
  "Q a \<Longrightarrow> calm (returnM a) Q w" "calm (failM e) Q w" "calm (refuse msg) Q w"
  "calm (\<lambda>w. (Ret a, f w)) Q w \<longleftrightarrow> (statuses w \<longrightarrow> Q a \<and> statuses (f w))"
  by (auto simp: calm_def go_defs refuse_def)

lemma calm_rpc: "calm (rpc c) (\<lambda>has. has) w"
  by (auto simp: calm_def robot_defs statuses_def split: list.splits)

lemma calm_rpc_with: "calm (rpc_with c) (\<lambda>has. has) w"
  using calm_rpc [of "c (machine w)" w] by (simp add: calm_def rpc_with_def)

lemma calm_status: "has \<Longrightarrow> calm m Q w \<Longrightarrow> calm (bindM (status_of has) (\<lambda>_. m)) Q w"
  by (simp add: status_of_def)

lemma calm_start: "calm StartForegroundActivity (\<lambda>_. True) w"
  by (auto simp: calm_def robot_defs statuses_def split: list.splits if_splits)

lemma calm_stop: "calm StopForegroundActivity (\<lambda>_. True) w"
  by (auto simp: calm_def robot_defs statuses_def split: list.splits if_splits option.splits)

lemma calm_timed: "calm (timed (rpc_with c) ms (rpc_with d)) (\<lambda>_. True) w"
  by (auto simp: calm_def robot_defs statuses_def split: list.splits if_splits option.splits)

lemma calm_at: "m w = m' w \<Longrightarrow> calm m' Q w \<Longrightarrow> calm m Q w"
  by (simp add: calm_def)

lemma calm_motions:
  "calm (DriveStraightTimed v d) (\<lambda>_. True) w" "calm (TurnInPlaceTimed a v) (\<lambda>_. True) w"
  "calm (MoveHeadTimed a v) (\<lambda>_. True) w" "calm (MoveLiftTimed h v) (\<lambda>_. True) w"
  unfolding DriveStraightTimed_def TurnInPlaceTimed_def MoveHeadTimed_def MoveLiftTimed_def Let_def
    rc_DriveWheels_def rc_MoveHead_def rc_MoveLift_def
  using calm_timed by (auto simp: calm_def)

lemma calm_animation: "calm (PlayAnimationCancelPrev name n) (\<lambda>_. True) w"
  by (simp add: calm_def PlayAnimationCancelPrev_def statuses_def)

lemma calm_connected: "(connected w \<Longrightarrow> calm m Q w) \<Longrightarrow> calm (when_connected m) Q w"
  by (simp add: calm_def when_connected_def)

lemma volume_level_bounds: "0 \<le> volume_level M args \<and> volume_level M args \<le> 4"
  by (simp add: volume_level_def Let_def)

text \<open>A call whose response must have a status, and a motion, each with a text afterwards.\<close>

lemma calm_answered: "calm m (\<lambda>has. has) w \<Longrightarrow> (\<And>v. calm m' R v) \<Longrightarrow>
  calm (bindM m (\<lambda>resp. bindM (status_of resp) (\<lambda>_. m'))) R w"
  by (rule calm_bind, assumption) (simp add: calm_status)

lemma calm_then: "calm m (\<lambda>_. True) w \<Longrightarrow> calm (bindM m (\<lambda>_. returnM x)) (\<lambda>_. True) w"
  by (rule calm_bind, assumption) (simp add: calm_basic)

lemmas calm_rules = calm_basic calm_then calm_motions calm_animation calm_start calm_stop
  calm_answered [OF calm_rpc] calm_answered [OF calm_rpc_with]

lemma calm_motion_tools:
  "calm (handleDriveStraight args) (\<lambda>_. True) w" "calm (handleTurnInPlace args) (\<lambda>_. True) w"
  "calm (handleSetHeadAngle args) (\<lambda>_. True) w" "calm (handleSetLiftHeight args) (\<lambda>_. True) w"
  "calm (handlePlayAnimation args) (\<lambda>_. True) w"
  unfolding handleDriveStraight_def handleTurnInPlace_def handleSetHeadAngle_def handleSetLiftHeight_def
    handlePlayAnimation_def Let_def
  by (rule calm_connected; rule calm_at [where m' = "if _ then _ else _"], rule refl; simp add: calm_rules)+

lemma calm_call_tools:
  "calm (handleDriveOffCharger args) (\<lambda>_. True) w" "calm (handleStop args) (\<lambda>_. True) w"
  "calm (handleDriveOnCharger args) (\<lambda>_. True) w" "calm (handleActivityStart args) (\<lambda>_. True) w"
  "calm (handleActivityEnd args) (\<lambda>_. True) w"
  unfolding handleDriveOffCharger_def handleStop_def handleDriveOnCharger_def handleActivityStart_def handleActivityEnd_def
  by (rule calm_connected; simp add: calm_rules)+

lemma calm_other_tools:
  "calm (handleDriveWheels args) (\<lambda>_. True) w" "calm (handlePlayPCM args) (\<lambda>_. True) w"
  "calm (handleAppIntent args) (\<lambda>_. True) w" "calm (handleCancelPlayback args) (\<lambda>_. True) w"
proof -
  have "calm (bindM (rc_DriveWheels l r (Fin 200) (Fin 200)) (\<lambda>resp. bindM (status_of resp) (\<lambda>_. returnM x))) (\<lambda>_. True) w"
    for l r and x :: tool_text
    unfolding rc_DriveWheels_def by (rule calm_rules) (rule calm_basic, simp)
  then show "calm (handleDriveWheels args) (\<lambda>_. True) w"
    unfolding handleDriveWheels_def by (auto simp: calm_def when_connected_def Let_def)
  show "calm (handlePlayPCM args) (\<lambda>_. True) w" by (simp add: handlePlayPCM_def calm_rules)
  show "calm (handleAppIntent args) (\<lambda>_. True) w"
    unfolding handleAppIntent_def Let_def by (rule calm_connected) (simp add: calm_rules)
  show "calm (handleCancelPlayback args) (\<lambda>_. True) w"
    by (simp add: calm_def handleCancelPlayback_def statuses_def)
qed

lemma calm_reading_tools:
  "calm (handleGetBattery args) (\<lambda>_. True) w" "calm (handleGetSensors args) (\<lambda>_. True) w"
  "calm (handleSetVolume args) (\<lambda>_. True) w"
proof -
  show "calm (handleGetBattery args) (\<lambda>_. True) w"
    unfolding handleGetBattery_def
    by (rule calm_connected, rule calm_bind [OF calm_rpc]) (simp add: calm_def)
  show "calm (handleGetSensors args) (\<lambda>_. True) w"
    by (simp add: handleGetSensors_def calm_def when_connected_def split: option.split)
  have level: "0 \<le> volume_level (machine w) args \<and> volume_level (machine w) args < int (length volume_names)"
    using volume_level_bounds [of "machine w" args] by (simp add: volume_names_def)
  show "calm (handleSetVolume args) (\<lambda>_. True) w"
    unfolding handleSetVolume_def Let_def
    by (rule calm_connected, rule calm_at [where m' = "bindM _ _"], rule refl, rule calm_answered [OF calm_rpc])
      (simp add: level calm_basic)
qed

lemma tools_calm: "(name, handler) \<in> set registerAll \<Longrightarrow> calm (handler args) (\<lambda>_. True) w"
  by (auto simp: registerAll_def calm_motion_tools calm_call_tools calm_other_tools calm_reading_tools)

lemma tool_result:
  assumes "(name, handler) \<in> set registerAll" "statuses w" "handler args w = (r, w')"
  shows "statuses w' \<and> ((\<exists>x. r = Ret x) \<or> (\<exists>e. r = Fail e))"
  using tools_calm [OF assms(1), of args w] assms(2,3) by (simp add: calm_def)

definition server_ok :: "mcp_server \<Rightarrow> bool" where
  "server_ok s \<longleftrightarrow> statuses (rc s)"

interpretation mcp: method_handlers mcp_methods server_ok
proof unfold_locales
  fix m h s p r s'
  assume h: "mcp_methods m = Some h" "server_ok s" "h p s = (r, s')"
  have tool: "server_ok s' \<and> ((\<exists>x. r = Ret x) \<or> (\<exists>e. r = Fail e))"
    if "call_tool name args s = (r, s')" for name args
    using that h(2)
    by (auto simp: call_tool_def handleSubscribeAudio_def handleUnsubscribeAudio_def handleMicGetDirection_def
        server_ok_def Let_def go_defs on_client_def split: if_splits option.splits prod.splits outcome.splits
        dest!: map_of_SomeD tool_result)
  show "server_ok s' \<and> ((\<exists>x. r = Ret x) \<or> (\<exists>e. r = Fail e))"
    using h tool
    by (auto simp: mcp_methods_def tools_call_def returnM_def split: if_splits option.splits)
qed

section \<open>Properties\<close>

text \<open>
  C3. The server answers each request that has an id exactly once, with this id and in order, and
  answers nothing else, whatever lines come in, in whichever way the calls to the gateway end.
\<close>

theorem server_answers_requests:
  assumes "NoStatus \<notin> set (fates (rc s))"
  shows "\<exists>out s'. transport_Run mcp_methods lines s = (Ret out, s') \<and> map reply_id out = concat (map asked_id lines)"
  using mcp.transport_Run_answers [of s lines] assms by (auto simp: server_ok_def statuses_def)

definition idle_server :: mcp_server where
  "idle_server = \<lparr>rc = idle_client, mic = new_subscriber, micDirection = direction_of (replicate 77 0), dials = []\<rparr>"

theorem server_answers_requests_witness:
  "\<exists>out s'. transport_Run mcp_methods
      [Some (JObj [(''id'', JNum 1), (''method'', JStr ''tools/call''), (''params'', JObj [(''name'', JStr ''robot_stop'')])]),
       None, Some (JObj [(''Method'', JStr ''tools/list'')]),
       Some (JObj [(''method'', JStr ''shutdown''), (''id'', JStr ''x'')])] idle_server = (Ret out, s') \<and>
    map reply_id out = [JNum 1, JStr ''x'']"
proof -
  have "concat (map asked_id
      [Some (JObj [(''id'', JNum 1), (''method'', JStr ''tools/call''), (''params'', JObj [(''name'', JStr ''robot_stop'')])]),
       None, Some (JObj [(''Method'', JStr ''tools/list'')]),
       Some (JObj [(''method'', JStr ''shutdown''), (''id'', JStr ''x'')])]) = [JNum 1, JStr ''x'']"
    by (simp add: asked_id_def unmarshal_request_def unmarshal_def no_request_def set_request_field_def
        to_lower_def lower_def as_string_def no_id_def)
  moreover have "NoStatus \<notin> set (fates (rc idle_server))" by (simp add: idle_server_def idle_client_def)
  ultimately show ?thesis using server_answers_requests [of idle_server] by metis
qed

text \<open>The arguments that a tool refuses.\<close>

definition invalid_args :: "float_machine \<Rightarrow> string \<Rightarrow> args \<Rightarrow> bool" where
  "invalid_args M name args \<longleftrightarrow>
     name = ''robot_drive_straight'' \<and> (outside (Fin (-300)) (Fin 300) (getFloat M args ''speed_mmps'' (Fin 80)) \<or>
       outside (Fin 10) (Fin 5000) (getFloat M args ''dist_mm'' (Fin 300))) \<or>
     name = ''robot_turn_in_place'' \<and> outside (round64 M (- 6283 / 1000)) (round64 M (6283 / 1000))
       (getFloat M args ''angle_rad'' (round64 M (314159 / 100000))) \<or>
     name = ''robot_set_head_angle'' \<and> outside (Fin (- 1 / 2)) (round64 M (7 / 10)) (getFloat M args ''angle_rad'' (Fin 0)) \<or>
     name = ''robot_set_lift_height'' \<and> outside (Fin 0) (Fin 100) (getFloat M args ''height_mm'' (Fin 0)) \<or>
     name = ''robot_play_animation'' \<and> getString args ''name'' [] = [] \<or>
     name = ''robot_app_intent'' \<and> getString args ''intent'' [] = [] \<or>
     name = ''robot_play_pcm''"

lemma tool_named:
  "(name, handler) \<in> set registerAll \<Longrightarrow> map_of registerAll name = Some handler"
  by (rule map_of_is_SomeI) (simp_all add: registerAll_def)

lemma call_failed:
  assumes "(name, handler) \<in> set registerAll" "handler args (rc s) = (Fail e, rc s)"
  shows "call_tool name args s = (Ret (Some (CallResult (''Error: %v'', [FString (error_text e)]) True)), s)"
proof -
  have "name \<noteq> ''robot_subscribe_audio'' \<and> name \<noteq> ''robot_unsubscribe_audio'' \<and> name \<noteq> ''mic_get_direction''"
    using assms(1) by (auto simp: registerAll_def)
  then show ?thesis
    using tool_named [OF assms(1)] assms(2) by (simp add: call_tool_def on_client_def go_defs)
qed

lemmas refused_defs = registerAll_def when_connected_def refuse_def failM_def Let_def

lemma invalid_fails:
  assumes "connected w" "invalid_args (machine w) name args"
  shows "\<exists>handler e. (name, handler) \<in> set registerAll \<and> handler args w = (Fail e, w)"
  using assms(2) unfolding invalid_args_def
proof (elim disjE conjE)
  assume "name = ''robot_drive_straight''" "outside (Fin (-300)) (Fin 300) (getFloat (machine w) args ''speed_mmps'' (Fin 80))"
  then show ?thesis
    using assms(1) by (intro exI [of _ handleDriveStraight]) (auto simp: handleDriveStraight_def refused_defs)
next
  assume "name = ''robot_drive_straight''" "outside (Fin 10) (Fin 5000) (getFloat (machine w) args ''dist_mm'' (Fin 300))"
  then show ?thesis
    using assms(1) by (intro exI [of _ handleDriveStraight]) (auto simp: handleDriveStraight_def refused_defs)
next
  assume "name = ''robot_turn_in_place''" "outside (round64 (machine w) (- 6283 / 1000)) (round64 (machine w) (6283 / 1000))
      (getFloat (machine w) args ''angle_rad'' (round64 (machine w) (314159 / 100000)))"
  then show ?thesis
    using assms(1) by (intro exI [of _ handleTurnInPlace]) (auto simp: handleTurnInPlace_def refused_defs)
next
  assume "name = ''robot_set_head_angle''" "outside (Fin (- 1 / 2)) (round64 (machine w) (7 / 10)) (getFloat (machine w) args ''angle_rad'' (Fin 0))"
  then show ?thesis
    using assms(1) by (intro exI [of _ handleSetHeadAngle]) (auto simp: handleSetHeadAngle_def refused_defs)
next
  assume "name = ''robot_set_lift_height''" "outside (Fin 0) (Fin 100) (getFloat (machine w) args ''height_mm'' (Fin 0))"
  then show ?thesis
    using assms(1) by (intro exI [of _ handleSetLiftHeight]) (auto simp: handleSetLiftHeight_def refused_defs)
next
  assume "name = ''robot_play_animation''" "getString args ''name'' [] = []"
  then show ?thesis
    using assms(1) by (intro exI [of _ handlePlayAnimation]) (auto simp: handlePlayAnimation_def refused_defs)
next
  assume "name = ''robot_app_intent''" "getString args ''intent'' [] = []"
  then show ?thesis
    using assms(1) by (intro exI [of _ handleAppIntent]) (auto simp: handleAppIntent_def refused_defs)
next
  assume "name = ''robot_play_pcm''"
  then show ?thesis
    by (intro exI [of _ handlePlayPCM]) (auto simp: handlePlayPCM_def refused_defs)
qed

lemma unconnected_fails:
  assumes "(name, handler) \<in> set registerAll" "name \<noteq> ''robot_cancel_playback''" "\<not> connected w"
  shows "\<exists>e. handler args w = (Fail e, w)"
proof -
  have off: "when_connected m w = (Fail (Errorf ''robot not connected''), w)" for m :: "(robot_client, tool_text) go"
    using assms(3) by (simp add: when_connected_def)
  have "\<forall>(n, h) \<in> set registerAll. n \<noteq> ''robot_cancel_playback'' \<longrightarrow> (\<exists>e. h args w = (Fail e, w))"
    by (simp add: registerAll_def handleDriveStraight_def handleTurnInPlace_def handleSetHeadAngle_def
        handleSetLiftHeight_def handleDriveWheels_def handleStop_def handleGetBattery_def handlePlayPCM_def
        handleSetVolume_def handleDriveOnCharger_def handleDriveOffCharger_def handlePlayAnimation_def
        handleActivityStart_def handleActivityEnd_def handleAppIntent_def handleGetSensors_def refuse_def failM_def off)
  with assms(1,2) show ?thesis by blast
qed



lemma getFloat_finite:
  assumes "list_all (\<lambda>m. numbers_fit M (snd m)) args" "d = Fin q"
  shows "\<exists>q. getFloat M args key d = Fin q"
proof (cases "arg args key")
  case (Some v)
  then have "numbers_fit M v" using assms(1) by (fastforce simp: arg_def list_all_iff dest!: map_of_SomeD)
  with Some assms(2) show ?thesis by (cases v) (auto simp: getFloat_def)
qed (simp add: getFloat_def assms(2))

lemma motion_tool:
  assumes "bcStream w = None" "connected w \<Longrightarrow> motion_safe (m w) w"
  shows "motion_safe (when_connected (\<lambda>w. m w w)) w"
  using assms by (auto simp: motion_safe_def when_connected_def motion_course_def)

lemma motion_refused: "bcStream w = None \<Longrightarrow> motion_safe (refuse msg) w"
  by (rule motion_safe_nothing) (auto simp: refuse_def failM_def)



text \<open>Every tool that is listed can be called.\<close>

lemma listed_tools_handled:
  "list_all (\<lambda>(name, _). name \<in> fst ` set registerAll \<union>
     {''robot_subscribe_audio'', ''robot_unsubscribe_audio'', ''mic_get_direction''}) allTools"
  by (simp add: allTools_def registerAll_def)

end
