(* ===== verification/Update_Status.thy ===== *)
theory Update_Status
  imports Ipc_Managers Robot_Motion Go_Bytes
begin

text \<open>
  The update status of \<open>cloud/message_handler.go\<close>: \<open>GetUpdateStatus\<close> reads what the update engine leaves in
  files, \<open>StartUpdateEngine\<close> restarts it and starts \<open>UpdateStatusStream\<close>, which sends the status to the
  event streams. The lemmas show what each combination of files is reported as, and that the
  progress that clients see never goes back.
\<close>

section \<open>Strings\<close>

fun starts_with :: "string \<Rightarrow> string \<Rightarrow> bool" where
  "starts_with [] s = True"
| "starts_with (p # ps) [] = False"
| "starts_with (p # ps) (c # s) = (p = c \<and> starts_with ps s)"

fun has_substring :: "string \<Rightarrow> string \<Rightarrow> bool" where
  "has_substring [] p = (p = [])"
| "has_substring (c # s) p = (starts_with p (c # s) \<or> has_substring s p)"

text \<open>\<open>strconv.ParseInt(s, 0, 64)\<close>: a sign, a prefix that says the base, digits with underscores between.\<close>

definition digit_of :: "char \<Rightarrow> nat option" where
  "digit_of c = (let n = of_char c :: nat in
     if 48 \<le> n \<and> n \<le> 57 then Some (n - 48)
     else if 97 \<le> n \<and> n \<le> 122 then Some (n - 87)
     else if 65 \<le> n \<and> n \<le> 90 then Some (n - 55) else None)"

fun digits_value :: "nat \<Rightarrow> int \<Rightarrow> string \<Rightarrow> int option" where
  "digits_value base acc [] = Some acc"
| "digits_value base acc (c # s) =
     (if c = CHR ''_'' then digits_value base acc s
      else case digit_of c of
        None \<Rightarrow> None
      | Some d \<Rightarrow> if d < base then digits_value base (acc * int base + int d) s else None)"

text \<open>The base and the digits; \<open>0\<close> alone is decimal, and a prefix counts as a digit for underscores.\<close>

definition base_of :: "string \<Rightarrow> nat \<times> bool \<times> string" where
  "base_of s = (case s of
      CHR ''0'' # c # r \<Rightarrow>
        if r \<noteq> [] \<and> c \<in> {CHR ''b'', CHR ''B''} then (2, True, r)
        else if r \<noteq> [] \<and> c \<in> {CHR ''o'', CHR ''O''} then (8, True, r)
        else if r \<noteq> [] \<and> c \<in> {CHR ''x'', CHR ''X''} then (16, True, r)
        else (8, True, c # r)
    | _ \<Rightarrow> (10, False, s))"

text \<open>Underscores stand between digits: \<open>last_digit\<close> says whether the last character was one.\<close>

fun underscores_ok :: "bool \<Rightarrow> string \<Rightarrow> bool" where
  "underscores_ok last_digit [] = True"
| "underscores_ok last_digit [c] = (c \<noteq> CHR ''_'')"
| "underscores_ok last_digit (c # d # s) =
     (if c = CHR ''_'' then last_digit \<and> d \<noteq> CHR ''_'' \<and> underscores_ok False (d # s)
      else underscores_ok True (d # s))"

definition ParseInt :: "string \<Rightarrow> int option" where
  "ParseInt s =
     (let (neg, r) = (case s of
          CHR ''-'' # r \<Rightarrow> (True, r) | CHR ''+'' # r \<Rightarrow> (False, r) | _ \<Rightarrow> (False, s));
          (base, prefixed, ds) = base_of r
      in if ds = [] \<or> \<not> underscores_ok prefixed ds then None
         else Option.bind (digits_value base 0 ds) (\<lambda>n.
           let v = (if neg then - n else n) in if - (2 ^ 63) \<le> v \<and> v < 2 ^ 63 then Some v else None))"

section \<open>The files\<close>

text \<open>The update engine's files that matter, with their text when they can be read, and whether \<open>done\<close> exists.\<close>

record run_files =
  progressFile :: "string option"
  expectedFile :: "string option"
  exitCodeFile :: "string option"
  errorFile :: "string option"
  phaseFile :: "string option"
  manifestFile :: "string option"
  doneExists :: bool

definition ReadStringFromFile :: "string option \<Rightarrow> string \<Rightarrow> string" where
  "ReadStringFromFile file defaultValue = (case file of None \<Rightarrow> defaultValue | Some d \<Rightarrow> TrimSpace d)"

definition ReadInt64FromFile :: "string option \<Rightarrow> int \<Rightarrow> int" where
  "ReadInt64FromFile file defaultValue =
     (let s = ReadStringFromFile file [] in
      if s \<noteq> [] then (case ParseInt s of Some v \<Rightarrow> v | None \<Rightarrow> defaultValue) else defaultValue)"

text \<open>The first match of \<open>update_version\s*=\s*(\S*)\<close>, its group.\<close>

definition regexp_space :: "char \<Rightarrow> bool" where
  "regexp_space c \<longleftrightarrow> (of_char c :: nat) \<in> {9, 10, 12, 13, 32}"

definition version_here :: "string \<Rightarrow> string option" where
  "version_here s =
     (if starts_with ''update_version'' s then
        (case dropWhile regexp_space (drop (length ''update_version'') s) of
           CHR ''='' # r \<Rightarrow> Some (takeWhile (\<lambda>c. \<not> regexp_space c) (dropWhile regexp_space r))
         | _ \<Rightarrow> None)
      else None)"

fun manifest_version :: "string \<Rightarrow> string option" where
  "manifest_version [] = None"
| "manifest_version (c # s) = (case version_here (c # s) of Some v \<Rightarrow> Some v | None \<Rightarrow> manifest_version s)"

definition otaExitCodeNotAvailable :: int where "otaExitCodeNotAvailable = -1"
definition otaExitCodeSuccess :: int where "otaExitCodeSuccess = 0"
definition otaExitCodeIOError :: int where "otaExitCodeIOError = 208"
definition otaExitCodeSocketTimeout :: int where "otaExitCodeSocketTimeout = 215"

definition name_not_known :: string where
  "name_not_known = ''Failed to open URL: <urlopen error [Errno -2] Name or service not known>''"

definition forbidden :: string where
  "forbidden = ''Failed to open URL: HTTP Error 403: Forbidden''"

definition initial_status :: "run_files \<Rightarrow> check_update_status_response" where
  "initial_status f = \<lparr>cuStatus = OK, UpdateStatus = NO_UPDATE, Progress = ReadInt64FromFile (progressFile f) (-1),
     Expected = ReadInt64FromFile (expectedFile f) (-1),
     ExitCode = ReadInt64FromFile (exitCodeFile f) otaExitCodeNotAvailable,
     ErrorText = ReadStringFromFile (errorFile f) [], UpdatePhase = ReadStringFromFile (phaseFile f) [],
     UpdateVersion = (case manifestFile f of None \<Rightarrow> [] | Some d \<Rightarrow> (case manifest_version d of None \<Rightarrow> [] | Some v \<Rightarrow> v))\<rparr>"

definition GetUpdateStatus :: "run_files \<Rightarrow> check_update_status_response" where
  "GetUpdateStatus f =
     (let s = initial_status f in
      if ExitCode s > otaExitCodeSuccess then
        let s' = s\<lparr>UpdateStatus :=
              if UpdatePhase s = ''download'' \<and> (ErrorText s = name_not_known \<or> ExitCode s = otaExitCodeIOError \<or>
                ExitCode s = otaExitCodeSocketTimeout) then FAILURE_INTERRUPTED_DOWNLOAD else FAILURE_OTHER\<rparr>
        in if has_substring (ErrorText s') forbidden
           then s'\<lparr>UpdateStatus := NO_UPDATE, ErrorText := [], ExitCode := otaExitCodeSuccess\<rparr> else s'
      else if doneExists f then
        s\<lparr>UpdateStatus := READY_TO_REBOOT_INTO_NEW_OS_VERSION, ErrorText := [], ExitCode := otaExitCodeSuccess\<rparr>
      else
        let s = (if ExitCode s = otaExitCodeNotAvailable then s\<lparr>UpdateStatus := IN_PROGRESS_STARTING, ErrorText := []\<rparr> else s)
        in if Progress s > 0 then
             s\<lparr>UpdateStatus := if UpdatePhase s = ''download'' then IN_PROGRESS_DOWNLOAD else IN_PROGRESS_OTHER\<rparr>
           else s)"

section \<open>The stream of status messages\<close>

definition ratio :: "float_machine \<Rightarrow> int \<Rightarrow> int \<Rightarrow> f64" where
  "ratio M p e = fdiv M (round64 M (of_int p)) (round64 M (of_int e))"

text \<open>The status as it is sent, and the last known good values afterwards.\<close>

definition smooth_progress ::
    "float_machine \<Rightarrow> check_update_status_response \<Rightarrow> int \<times> int \<Rightarrow> check_update_status_response \<times> int \<times> int" where
  "smooth_progress M s known = (case known of (p, e) \<Rightarrow>
     if Progress s > 0 \<and> Expected s > 0 \<and> Progress s \<le> Expected s \<and> fless (ratio M p e) (ratio M (Progress s) (Expected s))
     then (s, Progress s, Expected s) else (s\<lparr>Progress := p, Expected := e\<rparr>, p, e))"

text \<open>
  The rounds of the loop, each with the files it finds; they end when the client has gone, or after
  the second status with an exit code.
\<close>

fun update_rounds :: "float_machine \<Rightarrow> run_files list \<Rightarrow> bool \<Rightarrow> (gateway, unit) go" where
  "update_rounds M [] updateStarted = returnM ()"
| "update_rounds M (f # fs) updateStarted = (\<lambda>w.
     let (s, p, e) = smooth_progress M (GetUpdateStatus f) (lastProgress w, lastExpected w);
         w = w\<lparr>lastProgress := p, lastExpected := e\<rparr>
     in bindM (EngineProto_SendToListeners EventType
          \<lparr>ConnectionId = 0, OneofMessageType = Some (EventMsg (Some (CheckUpdateStatusResponse s)))\<rparr>)
        (\<lambda>_. if ExitCode s \<noteq> otaExitCodeNotAvailable \<and> updateStarted then returnM () else update_rounds M fs True) w)"

definition UpdateStatusStream :: "float_machine \<Rightarrow> bool \<Rightarrow> run_files list \<Rightarrow> (gateway, unit) go" where
  "UpdateStatusStream M statusStreamRunning fs = (if statusStreamRunning then returnM () else update_rounds M fs False)"

text \<open>
  The commands of \<open>systemctl\<close>: is the service active, can it be stopped, can the other one be
  started. The value says whether the engine was restarted.
\<close>

definition StartUpdateEngine :: "run_files \<Rightarrow> bool \<Rightarrow> bool \<Rightarrow> bool \<Rightarrow> (gateway, status_code \<times> bool) go" where
  "StartUpdateEngine f is_active stops restarts w =
     (let restart = (UpdateStatus (GetUpdateStatus f) \<noteq> READY_TO_REBOOT_INTO_NEW_OS_VERSION \<and> \<not> is_active)
      in if restart \<and> \<not> (stops \<and> restarts) then (Fail (Errorf ''exit status''), w)
         else (Ret (RESPONSE_RECEIVED, restart), w\<lparr>lastProgress := 0, lastExpected := 1\<rparr>))"

definition CheckUpdateStatus :: "run_files \<Rightarrow> (gateway, check_update_status_response) go" where
  "CheckUpdateStatus f = returnM (GetUpdateStatus f)"

text \<open>The status, and whether a reboot has been set off.\<close>

definition UpdateAndRestart :: "run_files \<Rightarrow> (gateway, status_code \<times> bool) go" where
  "UpdateAndRestart f = returnM (if doneExists f then (OK, True) else (NOT_FOUND, False))"

section \<open>What is sent\<close>

text \<open>The statuses that a stream sends, as a list.\<close>

fun update_statuses :: "float_machine \<Rightarrow> run_files list \<Rightarrow> bool \<Rightarrow> int \<times> int \<Rightarrow> check_update_status_response list" where
  "update_statuses M [] updateStarted known = []"
| "update_statuses M (f # fs) updateStarted known =
     (let (s, known) = smooth_progress M (GetUpdateStatus f) known in
      s # (if ExitCode s \<noteq> otaExitCodeNotAvailable \<and> updateStarted then [] else update_statuses M fs True known))"

fun send_statuses :: "check_update_status_response list \<Rightarrow> (gateway, unit) go" where
  "send_statuses [] = returnM ()"
| "send_statuses (s # ss) = bindM (EngineProto_SendToListeners EventType
     \<lparr>ConnectionId = 0, OneofMessageType = Some (EventMsg (Some (CheckUpdateStatusResponse s)))\<rparr>) (\<lambda>_. send_statuses ss)"

lemma send_known:
  "EngineProto_SendToListeners t x (w\<lparr>lastProgress := p, lastExpected := e\<rparr>) =
   (case EngineProto_SendToListeners t x w of (r, w') \<Rightarrow> (r, w'\<lparr>lastProgress := p, lastExpected := e\<rparr>))"
  by (simp add: EngineProto_SendToListeners_def mgr_SendToListeners_def split: send_result.split)

lemma send_statuses_known:
  "send_statuses ss (w\<lparr>lastProgress := p, lastExpected := e\<rparr>) =
   (case send_statuses ss w of (r, w') \<Rightarrow> (r, w'\<lparr>lastProgress := p, lastExpected := e\<rparr>))"
proof (induction ss arbitrary: w)
  case (Cons s ss)
  show ?case
    by (simp add: bindM_def send_known Cons split: prod.split outcome.split)
qed (simp add: returnM_def)

lemma bindM_stop: "\<nexists>a. r = Ret a \<Longrightarrow> m w = (r, v) \<Longrightarrow> bindM m k w = (r, v)" for m :: "('w, 'a) go" and k :: "'a \<Rightarrow> ('w, 'a) go"
  by (cases r) (auto simp: bindM_def)

lemma update_rounds_send:
  "\<exists>p e. update_rounds M fs st w =
     (case send_statuses (update_statuses M fs st (lastProgress w, lastExpected w)) w of
        (r, w') \<Rightarrow> (r, w'\<lparr>lastProgress := p, lastExpected := e\<rparr>))"
proof (induction fs arbitrary: st w)
  case Nil
  show ?case by (intro exI [of _ "lastProgress w"] exI [of _ "lastExpected w"]) (simp add: returnM_def)
next
  case (Cons f fs)
  obtain s p e where sm: "smooth_progress M (GetUpdateStatus f) (lastProgress w, lastExpected w) = (s, p, e)"
    by (metis prod_cases3)
  let ?x = "\<lparr>ConnectionId = 0, OneofMessageType = Some (EventMsg (Some (CheckUpdateStatusResponse s)))\<rparr> :: gateway_wrapper"
  obtain r v where send: "EngineProto_SendToListeners EventType ?x w = (r, v)" by fastforce
  then have v: "lastProgress v = lastProgress w" "lastExpected v = lastExpected w"
    by (auto simp: EngineProto_SendToListeners_def mgr_SendToListeners_def split: send_result.splits)
  show ?case
  proof (cases "ExitCode s \<noteq> otaExitCodeNotAvailable \<and> st")
    case True
    then show ?thesis
      by (intro exI [of _ p] exI [of _ e])
        (auto simp: sm send send_known bindM_def returnM_def Let_def split: outcome.split)
  next
    case False
    obtain p' e' where IH: "update_rounds M fs True (v\<lparr>lastProgress := p, lastExpected := e\<rparr>) =
      (case send_statuses (update_statuses M fs True (p, e)) (v\<lparr>lastProgress := p, lastExpected := e\<rparr>) of
        (r, w') \<Rightarrow> (r, w'\<lparr>lastProgress := p', lastExpected := e'\<rparr>))"
      using Cons.IH [of True "v\<lparr>lastProgress := p, lastExpected := e\<rparr>"] by auto
    show ?thesis
    proof (cases "\<exists>a. r = Ret a")
      case True
      then obtain a where r: "r = Ret a" by blast
      have "update_rounds M (f # fs) st w = update_rounds M fs True (v\<lparr>lastProgress := p, lastExpected := e\<rparr>)"
        using False by (auto simp: sm send send_known bindM_def r)
      moreover have "send_statuses (update_statuses M (f # fs) st (lastProgress w, lastExpected w)) w =
          send_statuses (update_statuses M fs True (p, e)) v"
        using False by (auto simp: sm send bindM_def r)
      ultimately show ?thesis
        by (intro exI [of _ p'] exI [of _ e']) (simp add: IH send_statuses_known split: prod.split)
    next
      case False
      then have no: "\<nexists>a. r = Ret a" .
      have "update_rounds M (f # fs) st w = (r, v\<lparr>lastProgress := p, lastExpected := e\<rparr>)"
        by (simp add: sm send_known send bindM_stop [where m = "EngineProto_SendToListeners EventType ?x", OF no])
      moreover have "send_statuses (update_statuses M (f # fs) st (lastProgress w, lastExpected w)) w = (r, v)"
        by (simp add: sm bindM_stop [where m = "EngineProto_SendToListeners EventType ?x", OF no send])
      ultimately show ?thesis by (intro exI [of _ p] exI [of _ e]) simp
    qed
  qed
qed

lemma fless_trans: "fless x y \<Longrightarrow> fless y z \<Longrightarrow> fless x z"
  by (cases x; cases y; cases z) auto

definition progress_le :: "float_machine \<Rightarrow> int \<times> int \<Rightarrow> int \<times> int \<Rightarrow> bool" where
  "progress_le M a b \<longleftrightarrow> a = b \<or> fless (ratio M (fst a) (snd a)) (ratio M (fst b) (snd b))"

lemma progress_le_trans: "progress_le M a b \<Longrightarrow> progress_le M b c \<Longrightarrow> progress_le M a c"
  by (auto simp: progress_le_def dest: fless_trans)

definition fraction_ok :: "int \<times> int \<Rightarrow> bool" where
  "fraction_ok a \<longleftrightarrow> 0 \<le> fst a \<and> fst a \<le> snd a \<and> 0 < snd a"

definition progress_shown :: "check_update_status_response \<Rightarrow> int \<times> int" where
  "progress_shown s = (Progress s, Expected s)"

lemma smooth_progress_shown:
  assumes "smooth_progress M s known = (s', known')"
  shows "progress_shown s' = known'" "progress_le M known known'" "fraction_ok known \<Longrightarrow> fraction_ok known'"
  using assms by (auto simp: smooth_progress_def progress_shown_def progress_le_def fraction_ok_def split: prod.splits if_splits)

lemma update_statuses_shown:
  "fraction_ok known \<Longrightarrow> sorted_wrt (progress_le M) (known # map progress_shown (update_statuses M fs st known)) \<and>
     list_all fraction_ok (map progress_shown (update_statuses M fs st known))"
proof (induction fs arbitrary: st known)
  case (Cons f fs)
  obtain s k where sm: "smooth_progress M (GetUpdateStatus f) known = (s, k)" by (rule prod.exhaust)
  note k = smooth_progress_shown [OF sm]
  from Cons.IH [OF k(3) [OF Cons.prems], of True] k Cons.prems show ?case
    by (auto simp: sm Let_def intro: progress_le_trans)
qed simp

section \<open>Properties\<close>

text \<open>
  The status is an error exactly if there is an exit code above 0 whose error is not that there is no
  update; a finished update is reported if nothing failed, and progress if neither is the case.
\<close>

theorem update_status_cases:
  fixes f :: run_files
  defines "s \<equiv> initial_status f" and "r \<equiv> GetUpdateStatus f"
  shows "(UpdateStatus r \<in> {FAILURE_OTHER, FAILURE_INTERRUPTED_DOWNLOAD} \<longleftrightarrow> ExitCode s > 0 \<and> \<not> has_substring (ErrorText s) forbidden) \<and>
    (UpdateStatus r = READY_TO_REBOOT_INTO_NEW_OS_VERSION \<longleftrightarrow> ExitCode s \<le> 0 \<and> doneExists f) \<and>
    (UpdateStatus r \<in> {IN_PROGRESS_DOWNLOAD, IN_PROGRESS_OTHER} \<longleftrightarrow> ExitCode s \<le> 0 \<and> \<not> doneExists f \<and> Progress s > 0)"
  by (auto simp: s_def r_def GetUpdateStatus_def Let_def otaExitCodeSuccess_def otaExitCodeNotAvailable_def
      initial_status_def)

text \<open>
  After an update has been started, a stream of statuses shows progress that never falls, with a part
  that is never more than the whole, whatever the files hold; and these are the statuses that the
  event listeners are sent.
\<close>

theorem update_progress_never_falls:
  "sorted_wrt (progress_le M) (map progress_shown (update_statuses M fs False (0, 1))) \<and>
   list_all fraction_ok (map progress_shown (update_statuses M fs False (0, 1))) \<and>
   (\<exists>p e. UpdateStatusStream M False fs (w\<lparr>lastProgress := 0, lastExpected := 1\<rparr>) =
     (case send_statuses (update_statuses M fs False (0, 1)) (w\<lparr>lastProgress := 0, lastExpected := 1\<rparr>) of
        (r, w') \<Rightarrow> (r, w'\<lparr>lastProgress := p, lastExpected := e\<rparr>)))"
proof -
  have "fraction_ok (0, 1)" by (simp add: fraction_ok_def)
  from update_statuses_shown [OF this, of M fs False]
    update_rounds_send [of M fs False "w\<lparr>lastProgress := 0, lastExpected := 1\<rparr>"]
  show ?thesis by (simp add: UpdateStatusStream_def)
qed

text \<open>What is sent first on a fresh process is the quotient 0 by 0, which no ratio exceeds.\<close>

end
