(* ===== verification/Clad_Delivery.thy ===== *)
theory Clad_Delivery
  imports Engine_Answers
begin

text \<open>
  The CLAD manager with the code that encodes and decodes its messages: what the engine reads from
  what \<open>Write\<close> writes, and what \<open>ProcessMessages\<close> makes of what the engine packs.
\<close>

lemma le16_of_frame: "length d < 2 ^ 16 \<Longrightarrow> unat (le16_of (frame d)) = length d"
  by (simp add: frame_def unat_of_nat take_bit_nat_eq_self)

text \<open>
  C4. With a socket in order, a request whose strings are short enough for their length fields is written as one
  datagram of at most 1212 bytes: its length without the first two bytes, which hold it, and bytes
  that the engine reads as just this request. Any other request is refused with an error of the
  handler and nothing is written.
\<close>

theorem clad_requests_read_back:
  assumes "write_faults w = []"
  shows "if fits_MessageExternalToRobot m
    then \<exists>d. EngineClad_Write (Some m) w = (Ret (), w\<lparr>clad_sock := clad_sock w @ [d]\<rparr>) \<and>
           length d \<le> 1212 \<and> unat (le16_of d) = length d - 2 \<and>
           Unpack_MessageExternalToRobot (drop 2 d) = (Ret m, [])
    else \<exists>e. EngineClad_Write (Some m) w = (Fail (GrpcError Internal e), w)"
proof (cases "fits_MessageExternalToRobot m")
  case True
  note packed = toRobot.packed [OF True]
  let ?d = "frame (toRobot.bytes m)"
  have "w\<lparr>write_faults := []\<rparr> = w" using assms by (cases w) simp
  then have "EngineClad_Write (Some m) w = (Ret (), w\<lparr>clad_sock := clad_sock w @ [?d]\<rparr>)"
    using True assms by (simp add: EngineClad_Write_eq clad_bytes_def clad_conn_write_def next_fault_def)
  moreover have "length ?d \<le> 1212" "unat (le16_of ?d) = length ?d - 2"
    using packed(4) le16_of_frame [of "toRobot.bytes m"] by (simp_all add: frame_def)
  moreover have "Unpack_MessageExternalToRobot (drop 2 ?d) = (Ret m, [])"
    using packed(2) [of "[]"] by (simp add: frame_def)
  ultimately show ?thesis using True by auto
next
  case False
  then show ?thesis by (simp add: EngineClad_Write_eq clad_bytes_def)
qed

theorem clad_requests_read_back_witness:
  "(\<exists>d. EngineClad_Write (Some (AppIntentClad ''intent'' ''x'')) (gateway_at_rest [] (\<lambda>_. None)) =
       (Ret (), (gateway_at_rest [] (\<lambda>_. None))\<lparr>clad_sock := [d]\<rparr>) \<and>
     Unpack_MessageExternalToRobot (drop 2 d) = (Ret (AppIntentClad ''intent'' ''x''), [])) \<and>
   (\<exists>e. EngineClad_Write (Some (AppIntentClad (replicate 256 CHR ''x'') [])) (gateway_at_rest [] (\<lambda>_. None)) =
       (Fail (GrpcError Internal e), gateway_at_rest [] (\<lambda>_. None)))"
proof -
  let ?w = "gateway_at_rest [] (\<lambda>_. None)"
  have w: "write_faults ?w = []" "clad_sock ?w = []" by (simp_all add: gateway_at_rest_def)
  note th = clad_requests_read_back [OF w(1)]
  have "fits_MessageExternalToRobot (AppIntentClad ''intent'' ''x'')"
    "\<not> fits_MessageExternalToRobot (AppIntentClad (replicate 256 CHR ''x'') [])"
    by (simp_all add: fits_AppIntent_def)
  with th [of "AppIntentClad ''intent'' ''x''"] th [of "AppIntentClad (replicate 256 CHR ''x'') []"] w(2)
  show ?thesis by auto
qed

text \<open>
  C8. What the engine packs reaches the gateway: a block of two bytes, the bytes of a message, and
  anything after them is handed on as the message, as an event to the event streams or to those
  that listen for its tag. A block in which the message is cut short changes nothing, and no block
  crashes the process in being decoded.
\<close>

theorem clad_blocks_read:
  assumes "fits_MessageRobotToExternal m" "length h = 2" "clad_alive w"
    and "strict_prefix b (snd (Pack_MessageRobotToExternal m []))"
  shows "EngineClad_ProcessBlock (Some (h @ snd (Pack_MessageRobotToExternal m []) @ junk)) w =
      (case clad_to_event m of Some e \<Rightarrow> SendEventToChannel e w | None \<Rightarrow> EngineClad_SendToListeners m w) \<and>
    EngineClad_ProcessBlock (Some (h @ b)) w = (Ret (), w) \<and>
    ((\<exists>x. fst (Unpack_MessageRobotToExternal block) = Ret x) \<or>
      (\<exists>e. fst (Unpack_MessageRobotToExternal block) = Fail (Errorf e)))"
proof (intro conjI)
  note packed = fromRobot.packed [OF assms(1)]
  have bytes: "snd (Pack_MessageRobotToExternal m []) = fromRobot.bytes m" using packed(1) [of "[]"] by simp
  show "EngineClad_ProcessBlock (Some (h @ snd (Pack_MessageRobotToExternal m []) @ junk)) w =
      (case clad_to_event m of Some e \<Rightarrow> SendEventToChannel e w | None \<Rightarrow> EngineClad_SendToListeners m w)"
    using packed(2) [of junk] assms(2,3) by (simp add: EngineClad_ProcessBlock_def bytes)
  obtain e r where "Unpack_MessageRobotToExternal b = (Fail (Errorf e), r)"
    using fromRobot.cut_short_refused [OF assms(1), of b] assms(4) by (auto simp: bytes)
  then show "EngineClad_ProcessBlock (Some (h @ b)) w = (Ret (), w)"
    using assms(2,3) by (simp add: EngineClad_ProcessBlock_def)
qed (use fromRobot.unpack_cases [of block] in auto)

theorem clad_blocks_read_witness:
  "EngineClad_ProcessBlock (Some ([0, 0] @ snd (Pack_MessageRobotToExternal (ObjectMovedClad 7 3) []) @ [])) (gateway_at_rest [] (\<lambda>_. None)) =
     SendEventToChannel (Some (ObjectEvent (ObjectMoved 7 3))) (gateway_at_rest [] (\<lambda>_. None))"
proof -
  have "snd (Pack_MessageRobotToExternal (ObjectMovedClad 7 3) []) \<noteq> []"
    by (simp add: Pack_MessageRobotToExternal_def Pack_ObjectMoved_def bindM_def returnM_def write_word_def binary_Write_def)
  then have "strict_prefix [] (snd (Pack_MessageRobotToExternal (ObjectMovedClad 7 3) []))"
    by (simp add: strict_prefix_def)
  from clad_blocks_read [OF _ _ _ this, where h = "[0, 0]" and junk = "[]" and w = "gateway_at_rest [] (\<lambda>_. None)"]
  show ?thesis by (simp add: gateway_at_rest_def CladObjectMovedToProto_def)
qed

end
