(* ===== verification/Clad_Token.thy ===== *)
theory Clad_Token
  imports Clad_Codec
begin

text \<open>
  The messages of the token service, \<open>internal/clad/cloud/common.go\<close> and \<open>token.go\<close>: structures, unions, and
  the code that writes and reads them.
\<close>

subsection \<open>\<open>Void\<close>\<close>

definition Pack_Void :: "unit \<Rightarrow> writer" where
  "Pack_Void x =
     returnM ()"

definition Unpack_Void :: "unit reader" where
  "Unpack_Void =
     returnM ()"

definition Size_Void :: "unit \<Rightarrow> uint32" where
  "Size_Void x = 0"

lemma wired_Void [wire]:
  "wired (Pack_Void x) Unpack_Void True (Size_Void x) 0 x"
  unfolding Pack_Void_def Unpack_Void_def
  by (rule wired_eq, (rule wire | simp add: Size_Void_def)+)

lemma reader_Void [reads]: "reader Unpack_Void"
  unfolding Unpack_Void_def by (rule reads reader_bind)+

record auth_request =
  AuthRequest_SessionToken :: string
  AuthRequest_ClientName :: string
  AuthRequest_AppId :: string

subsection \<open>\<open>AuthRequest\<close>\<close>

definition Pack_AuthRequest :: "auth_request \<Rightarrow> writer" where
  "Pack_AuthRequest x =
     bindM (write_string TYPE(8) ''SessionToken'' (AuthRequest_SessionToken x)) (\<lambda>_.
     bindM (write_string TYPE(8) ''ClientName'' (AuthRequest_ClientName x)) (\<lambda>_.
     bindM (write_string TYPE(8) ''AppId'' (AuthRequest_AppId x)) (\<lambda>_.
     returnM ())))"

definition Unpack_AuthRequest :: "auth_request reader" where
  "Unpack_AuthRequest =
     bindM (read_string TYPE(8)) (\<lambda>sessionToken.
     bindM (read_string TYPE(8)) (\<lambda>clientName.
     bindM (read_string TYPE(8)) (\<lambda>appId.
     returnM \<lparr>AuthRequest_SessionToken = sessionToken, AuthRequest_ClientName = clientName, AuthRequest_AppId = appId\<rparr>)))"

definition Size_AuthRequest :: "auth_request \<Rightarrow> uint32" where
  "Size_AuthRequest x = 1 + of_nat (length (AuthRequest_SessionToken x)) + 1 + of_nat (length (AuthRequest_ClientName x)) + 1 + of_nat (length (AuthRequest_AppId x))"

definition fits_AuthRequest :: "auth_request \<Rightarrow> bool" where
  "fits_AuthRequest x \<longleftrightarrow> length (AuthRequest_SessionToken x) < 2 ^ 8 \<and> length (AuthRequest_ClientName x) < 2 ^ 8 \<and> length (AuthRequest_AppId x) < 2 ^ 8"

lemma wired_AuthRequest [wire]:
  "wired (Pack_AuthRequest x) Unpack_AuthRequest (fits_AuthRequest x) (Size_AuthRequest x) 768 x"
  unfolding Pack_AuthRequest_def Unpack_AuthRequest_def
  by (rule wired_eq, (rule wire | simp add: fits_AuthRequest_def Size_AuthRequest_def)+)

lemma reader_AuthRequest [reads]: "reader Unpack_AuthRequest"
  unfolding Unpack_AuthRequest_def by (rule reads reader_bind)+

record auth_response =
  AuthResponse_AppToken :: string
  AuthResponse_JwtToken :: string
  AuthResponse_Error :: byte

subsection \<open>\<open>AuthResponse\<close>\<close>

definition Pack_AuthResponse :: "auth_response \<Rightarrow> writer" where
  "Pack_AuthResponse x =
     bindM (write_string TYPE(16) ''AppToken'' (AuthResponse_AppToken x)) (\<lambda>_.
     bindM (write_string TYPE(16) ''JwtToken'' (AuthResponse_JwtToken x)) (\<lambda>_.
     bindM (write_word (AuthResponse_Error x)) (\<lambda>_.
     returnM ())))"

definition Unpack_AuthResponse :: "auth_response reader" where
  "Unpack_AuthResponse =
     bindM (read_string TYPE(16)) (\<lambda>appToken.
     bindM (read_string TYPE(16)) (\<lambda>jwtToken.
     bindM read_word (\<lambda>error.
     returnM \<lparr>AuthResponse_AppToken = appToken, AuthResponse_JwtToken = jwtToken, AuthResponse_Error = error\<rparr>)))"

definition Size_AuthResponse :: "auth_response \<Rightarrow> uint32" where
  "Size_AuthResponse x = 2 + of_nat (length (AuthResponse_AppToken x)) + 2 + of_nat (length (AuthResponse_JwtToken x)) + 1"

definition fits_AuthResponse :: "auth_response \<Rightarrow> bool" where
  "fits_AuthResponse x \<longleftrightarrow> length (AuthResponse_AppToken x) < 2 ^ 16 \<and> length (AuthResponse_JwtToken x) < 2 ^ 16"

lemma wired_AuthResponse [wire]:
  "wired (Pack_AuthResponse x) Unpack_AuthResponse (fits_AuthResponse x) (Size_AuthResponse x) 131075 x"
  unfolding Pack_AuthResponse_def Unpack_AuthResponse_def
  by (rule wired_eq, (rule wire | simp add: fits_AuthResponse_def Size_AuthResponse_def)+)

lemma reader_AuthResponse [reads]: "reader Unpack_AuthResponse"
  unfolding Unpack_AuthResponse_def by (rule reads reader_bind)+

record reassociate_request =
  ReassociateRequest_SessionToken :: string
  ReassociateRequest_ClientName :: string
  ReassociateRequest_AppId :: string

subsection \<open>\<open>ReassociateRequest\<close>\<close>

definition Pack_ReassociateRequest :: "reassociate_request \<Rightarrow> writer" where
  "Pack_ReassociateRequest x =
     bindM (write_string TYPE(8) ''SessionToken'' (ReassociateRequest_SessionToken x)) (\<lambda>_.
     bindM (write_string TYPE(8) ''ClientName'' (ReassociateRequest_ClientName x)) (\<lambda>_.
     bindM (write_string TYPE(8) ''AppId'' (ReassociateRequest_AppId x)) (\<lambda>_.
     returnM ())))"

definition Unpack_ReassociateRequest :: "reassociate_request reader" where
  "Unpack_ReassociateRequest =
     bindM (read_string TYPE(8)) (\<lambda>sessionToken.
     bindM (read_string TYPE(8)) (\<lambda>clientName.
     bindM (read_string TYPE(8)) (\<lambda>appId.
     returnM \<lparr>ReassociateRequest_SessionToken = sessionToken, ReassociateRequest_ClientName = clientName, ReassociateRequest_AppId = appId\<rparr>)))"

definition Size_ReassociateRequest :: "reassociate_request \<Rightarrow> uint32" where
  "Size_ReassociateRequest x = 1 + of_nat (length (ReassociateRequest_SessionToken x)) + 1 + of_nat (length (ReassociateRequest_ClientName x)) + 1 + of_nat (length (ReassociateRequest_AppId x))"

definition fits_ReassociateRequest :: "reassociate_request \<Rightarrow> bool" where
  "fits_ReassociateRequest x \<longleftrightarrow> length (ReassociateRequest_SessionToken x) < 2 ^ 8 \<and> length (ReassociateRequest_ClientName x) < 2 ^ 8 \<and> length (ReassociateRequest_AppId x) < 2 ^ 8"

lemma wired_ReassociateRequest [wire]:
  "wired (Pack_ReassociateRequest x) Unpack_ReassociateRequest (fits_ReassociateRequest x) (Size_ReassociateRequest x) 768 x"
  unfolding Pack_ReassociateRequest_def Unpack_ReassociateRequest_def
  by (rule wired_eq, (rule wire | simp add: fits_ReassociateRequest_def Size_ReassociateRequest_def)+)

lemma reader_ReassociateRequest [reads]: "reader Unpack_ReassociateRequest"
  unfolding Unpack_ReassociateRequest_def by (rule reads reader_bind)+

record secondary_auth_request =
  SecondaryAuthRequest_SessionToken :: string
  SecondaryAuthRequest_ClientName :: string
  SecondaryAuthRequest_AppId :: string

subsection \<open>\<open>SecondaryAuthRequest\<close>\<close>

definition Pack_SecondaryAuthRequest :: "secondary_auth_request \<Rightarrow> writer" where
  "Pack_SecondaryAuthRequest x =
     bindM (write_string TYPE(8) ''SessionToken'' (SecondaryAuthRequest_SessionToken x)) (\<lambda>_.
     bindM (write_string TYPE(8) ''ClientName'' (SecondaryAuthRequest_ClientName x)) (\<lambda>_.
     bindM (write_string TYPE(8) ''AppId'' (SecondaryAuthRequest_AppId x)) (\<lambda>_.
     returnM ())))"

definition Unpack_SecondaryAuthRequest :: "secondary_auth_request reader" where
  "Unpack_SecondaryAuthRequest =
     bindM (read_string TYPE(8)) (\<lambda>sessionToken.
     bindM (read_string TYPE(8)) (\<lambda>clientName.
     bindM (read_string TYPE(8)) (\<lambda>appId.
     returnM \<lparr>SecondaryAuthRequest_SessionToken = sessionToken, SecondaryAuthRequest_ClientName = clientName, SecondaryAuthRequest_AppId = appId\<rparr>)))"

definition Size_SecondaryAuthRequest :: "secondary_auth_request \<Rightarrow> uint32" where
  "Size_SecondaryAuthRequest x = 1 + of_nat (length (SecondaryAuthRequest_SessionToken x)) + 1 + of_nat (length (SecondaryAuthRequest_ClientName x)) + 1 + of_nat (length (SecondaryAuthRequest_AppId x))"

definition fits_SecondaryAuthRequest :: "secondary_auth_request \<Rightarrow> bool" where
  "fits_SecondaryAuthRequest x \<longleftrightarrow> length (SecondaryAuthRequest_SessionToken x) < 2 ^ 8 \<and> length (SecondaryAuthRequest_ClientName x) < 2 ^ 8 \<and> length (SecondaryAuthRequest_AppId x) < 2 ^ 8"

lemma wired_SecondaryAuthRequest [wire]:
  "wired (Pack_SecondaryAuthRequest x) Unpack_SecondaryAuthRequest (fits_SecondaryAuthRequest x) (Size_SecondaryAuthRequest x) 768 x"
  unfolding Pack_SecondaryAuthRequest_def Unpack_SecondaryAuthRequest_def
  by (rule wired_eq, (rule wire | simp add: fits_SecondaryAuthRequest_def Size_SecondaryAuthRequest_def)+)

lemma reader_SecondaryAuthRequest [reads]: "reader Unpack_SecondaryAuthRequest"
  unfolding Unpack_SecondaryAuthRequest_def by (rule reads reader_bind)+

subsection \<open>\<open>JwtRequest\<close>\<close>

definition Pack_JwtRequest :: "bool \<Rightarrow> writer" where
  "Pack_JwtRequest x =
     bindM (write_bool x) (\<lambda>_.
     returnM ())"

definition Unpack_JwtRequest :: "bool reader" where
  "Unpack_JwtRequest =
     bindM read_bool (\<lambda>forceRefresh.
     returnM forceRefresh)"

definition Size_JwtRequest :: "bool \<Rightarrow> uint32" where
  "Size_JwtRequest x = 1"

lemma wired_JwtRequest [wire]:
  "wired (Pack_JwtRequest x) Unpack_JwtRequest True (Size_JwtRequest x) 1 x"
  unfolding Pack_JwtRequest_def Unpack_JwtRequest_def
  by (rule wired_eq, (rule wire | simp add: Size_JwtRequest_def)+)

lemma reader_JwtRequest [reads]: "reader Unpack_JwtRequest"
  unfolding Unpack_JwtRequest_def by (rule reads reader_bind)+

record jwt_response =
  JwtResponse_JwtToken :: string
  JwtResponse_Error :: byte

subsection \<open>\<open>JwtResponse\<close>\<close>

definition Pack_JwtResponse :: "jwt_response \<Rightarrow> writer" where
  "Pack_JwtResponse x =
     bindM (write_string TYPE(16) ''JwtToken'' (JwtResponse_JwtToken x)) (\<lambda>_.
     bindM (write_word (JwtResponse_Error x)) (\<lambda>_.
     returnM ()))"

definition Unpack_JwtResponse :: "jwt_response reader" where
  "Unpack_JwtResponse =
     bindM (read_string TYPE(16)) (\<lambda>jwtToken.
     bindM read_word (\<lambda>error.
     returnM \<lparr>JwtResponse_JwtToken = jwtToken, JwtResponse_Error = error\<rparr>))"

definition Size_JwtResponse :: "jwt_response \<Rightarrow> uint32" where
  "Size_JwtResponse x = 2 + of_nat (length (JwtResponse_JwtToken x)) + 1"

definition fits_JwtResponse :: "jwt_response \<Rightarrow> bool" where
  "fits_JwtResponse x \<longleftrightarrow> length (JwtResponse_JwtToken x) < 2 ^ 16"

lemma wired_JwtResponse [wire]:
  "wired (Pack_JwtResponse x) Unpack_JwtResponse (fits_JwtResponse x) (Size_JwtResponse x) 65538 x"
  unfolding Pack_JwtResponse_def Unpack_JwtResponse_def
  by (rule wired_eq, (rule wire | simp add: fits_JwtResponse_def Size_JwtResponse_def)+)

lemma reader_JwtResponse [reads]: "reader Unpack_JwtResponse"
  unfolding Unpack_JwtResponse_def by (rule reads reader_bind)+

datatype token_request =
    TokenRequestWithAuth auth_request
  | TokenRequestWithSecondary secondary_auth_request
  | TokenRequestWithReassociate reassociate_request
  | TokenRequestWithJwt bool
  | TokenRequestInvalid

subsection \<open>\<open>TokenRequest\<close>\<close>

primrec Tag_TokenRequest :: "token_request \<Rightarrow> 8 word" where
  "Tag_TokenRequest (TokenRequestWithAuth x) = 0"
| "Tag_TokenRequest (TokenRequestWithSecondary x) = 1"
| "Tag_TokenRequest (TokenRequestWithReassociate x) = 2"
| "Tag_TokenRequest (TokenRequestWithJwt x) = 3"
| "Tag_TokenRequest TokenRequestInvalid = 255"

text \<open>\<open>m.value.Pack\<close>, on the structure that the message holds.\<close>

primrec packValue_TokenRequest :: "token_request \<Rightarrow> writer" where
  "packValue_TokenRequest (TokenRequestWithAuth x) = Pack_AuthRequest x"
| "packValue_TokenRequest (TokenRequestWithSecondary x) = Pack_SecondaryAuthRequest x"
| "packValue_TokenRequest (TokenRequestWithReassociate x) = Pack_ReassociateRequest x"
| "packValue_TokenRequest (TokenRequestWithJwt x) = Pack_JwtRequest x"
| "packValue_TokenRequest TokenRequestInvalid = returnM ()"

definition Pack_TokenRequest :: "token_request \<Rightarrow> writer" where
  "Pack_TokenRequest m = bindM (write_word (Tag_TokenRequest m)) (\<lambda>_. packValue_TokenRequest m)"

definition unpackStruct_TokenRequest :: "8 word \<Rightarrow> token_request reader" where
  "unpackStruct_TokenRequest tag =
     (if tag = 0 then bindM Unpack_AuthRequest (\<lambda>x. returnM (TokenRequestWithAuth x))
      else if tag = 1 then bindM Unpack_SecondaryAuthRequest (\<lambda>x. returnM (TokenRequestWithSecondary x))
      else if tag = 2 then bindM Unpack_ReassociateRequest (\<lambda>x. returnM (TokenRequestWithReassociate x))
      else if tag = 3 then bindM Unpack_JwtRequest (\<lambda>x. returnM (TokenRequestWithJwt x))
      else failM (Errorf ''invalid tag to unpackStruct''))"

definition Unpack_TokenRequest :: "token_request reader" where
  "Unpack_TokenRequest = bindM read_word (\<lambda>tag. if tag = 255 then returnM TokenRequestInvalid else unpackStruct_TokenRequest tag)"

primrec Size_TokenRequest :: "token_request \<Rightarrow> uint32" where
  "Size_TokenRequest (TokenRequestWithAuth x) = 1 + Size_AuthRequest x"
| "Size_TokenRequest (TokenRequestWithSecondary x) = 1 + Size_SecondaryAuthRequest x"
| "Size_TokenRequest (TokenRequestWithReassociate x) = 1 + Size_ReassociateRequest x"
| "Size_TokenRequest (TokenRequestWithJwt x) = 1 + Size_JwtRequest x"
| "Size_TokenRequest TokenRequestInvalid = 1"

primrec fits_TokenRequest :: "token_request \<Rightarrow> bool" where
  "fits_TokenRequest (TokenRequestWithAuth x) = fits_AuthRequest x"
| "fits_TokenRequest (TokenRequestWithSecondary x) = fits_SecondaryAuthRequest x"
| "fits_TokenRequest (TokenRequestWithReassociate x) = fits_ReassociateRequest x"
| "fits_TokenRequest (TokenRequestWithJwt x) = True"
| "fits_TokenRequest TokenRequestInvalid = True"

lemma wired_TokenRequest [wire]:
  "wired (Pack_TokenRequest m) Unpack_TokenRequest (fits_TokenRequest m) (Size_TokenRequest m) 769 m"
proof (cases m)
  case (TokenRequestWithAuth x)
  show ?thesis unfolding TokenRequestWithAuth Pack_TokenRequest_def Unpack_TokenRequest_def
    by (rule wired_eq, rule wired_member [where f = TokenRequestWithAuth, OF wired_AuthRequest [of "x"]])
      (simp_all add: unpackStruct_TokenRequest_def)
next
  case (TokenRequestWithSecondary x)
  show ?thesis unfolding TokenRequestWithSecondary Pack_TokenRequest_def Unpack_TokenRequest_def
    by (rule wired_eq, rule wired_member [where f = TokenRequestWithSecondary, OF wired_SecondaryAuthRequest [of "x"]])
      (simp_all add: unpackStruct_TokenRequest_def)
next
  case (TokenRequestWithReassociate x)
  show ?thesis unfolding TokenRequestWithReassociate Pack_TokenRequest_def Unpack_TokenRequest_def
    by (rule wired_eq, rule wired_member [where f = TokenRequestWithReassociate, OF wired_ReassociateRequest [of "x"]])
      (simp_all add: unpackStruct_TokenRequest_def)
next
  case (TokenRequestWithJwt x)
  show ?thesis unfolding TokenRequestWithJwt Pack_TokenRequest_def Unpack_TokenRequest_def
    by (rule wired_eq, rule wired_member [where f = TokenRequestWithJwt, OF wired_JwtRequest [of "x"]])
      (simp_all add: unpackStruct_TokenRequest_def)
next
  case TokenRequestInvalid
  show ?thesis unfolding TokenRequestInvalid Pack_TokenRequest_def Unpack_TokenRequest_def
    by (rule wired_eq, rule wired_invalid) simp_all
qed

lemma reader_TokenRequest [reads]: "reader Unpack_TokenRequest"
  unfolding Unpack_TokenRequest_def unpackStruct_TokenRequest_def by (rule reads reader_bind)+

datatype token_response =
    TokenResponseWithAuth auth_response
  | TokenResponseWithJwt jwt_response
  | TokenResponseInvalid

subsection \<open>\<open>TokenResponse\<close>\<close>

primrec Tag_TokenResponse :: "token_response \<Rightarrow> 8 word" where
  "Tag_TokenResponse (TokenResponseWithAuth x) = 0"
| "Tag_TokenResponse (TokenResponseWithJwt x) = 1"
| "Tag_TokenResponse TokenResponseInvalid = 255"

text \<open>\<open>m.value.Pack\<close>, on the structure that the message holds.\<close>

primrec packValue_TokenResponse :: "token_response \<Rightarrow> writer" where
  "packValue_TokenResponse (TokenResponseWithAuth x) = Pack_AuthResponse x"
| "packValue_TokenResponse (TokenResponseWithJwt x) = Pack_JwtResponse x"
| "packValue_TokenResponse TokenResponseInvalid = returnM ()"

definition Pack_TokenResponse :: "token_response \<Rightarrow> writer" where
  "Pack_TokenResponse m = bindM (write_word (Tag_TokenResponse m)) (\<lambda>_. packValue_TokenResponse m)"

definition unpackStruct_TokenResponse :: "8 word \<Rightarrow> token_response reader" where
  "unpackStruct_TokenResponse tag =
     (if tag = 0 then bindM Unpack_AuthResponse (\<lambda>x. returnM (TokenResponseWithAuth x))
      else if tag = 1 then bindM Unpack_JwtResponse (\<lambda>x. returnM (TokenResponseWithJwt x))
      else failM (Errorf ''invalid tag to unpackStruct''))"

definition Unpack_TokenResponse :: "token_response reader" where
  "Unpack_TokenResponse = bindM read_word (\<lambda>tag. if tag = 255 then returnM TokenResponseInvalid else unpackStruct_TokenResponse tag)"

primrec Size_TokenResponse :: "token_response \<Rightarrow> uint32" where
  "Size_TokenResponse (TokenResponseWithAuth x) = 1 + Size_AuthResponse x"
| "Size_TokenResponse (TokenResponseWithJwt x) = 1 + Size_JwtResponse x"
| "Size_TokenResponse TokenResponseInvalid = 1"

primrec fits_TokenResponse :: "token_response \<Rightarrow> bool" where
  "fits_TokenResponse (TokenResponseWithAuth x) = fits_AuthResponse x"
| "fits_TokenResponse (TokenResponseWithJwt x) = fits_JwtResponse x"
| "fits_TokenResponse TokenResponseInvalid = True"

lemma wired_TokenResponse [wire]:
  "wired (Pack_TokenResponse m) Unpack_TokenResponse (fits_TokenResponse m) (Size_TokenResponse m) 131076 m"
proof (cases m)
  case (TokenResponseWithAuth x)
  show ?thesis unfolding TokenResponseWithAuth Pack_TokenResponse_def Unpack_TokenResponse_def
    by (rule wired_eq, rule wired_member [where f = TokenResponseWithAuth, OF wired_AuthResponse [of "x"]])
      (simp_all add: unpackStruct_TokenResponse_def)
next
  case (TokenResponseWithJwt x)
  show ?thesis unfolding TokenResponseWithJwt Pack_TokenResponse_def Unpack_TokenResponse_def
    by (rule wired_eq, rule wired_member [where f = TokenResponseWithJwt, OF wired_JwtResponse [of "x"]])
      (simp_all add: unpackStruct_TokenResponse_def)
next
  case TokenResponseInvalid
  show ?thesis unfolding TokenResponseInvalid Pack_TokenResponse_def Unpack_TokenResponse_def
    by (rule wired_eq, rule wired_invalid) simp_all
qed

lemma reader_TokenResponse [reads]: "reader Unpack_TokenResponse"
  unfolding Unpack_TokenResponse_def unpackStruct_TokenResponse_def by (rule reads reader_bind)+

end
