(* ===== verification/Clad_Cloud.thy ===== *)
theory Clad_Cloud
  imports Clad_Token
begin

text \<open>
  The messages of the cloud services in \<open>internal/clad/cloud\<close> and \<open>internal/clad/vision\<close>: documents, the
  microphone's stream to the voice service, log uploads, and images for off-board vision.
\<close>

section \<open>Documents\<close>

record doc =
  Doc_DocVersion :: uint64
  Doc_FmtVersion :: uint64
  Doc_Metadata :: string
  Doc_JsonDoc :: string

subsection \<open>\<open>Doc\<close>\<close>

definition Pack_Doc :: "doc \<Rightarrow> writer" where
  "Pack_Doc x =
     bindM (write_word (Doc_DocVersion x)) (\<lambda>_.
     bindM (write_word (Doc_FmtVersion x)) (\<lambda>_.
     bindM (write_string TYPE(8) ''Metadata'' (Doc_Metadata x)) (\<lambda>_.
     bindM (write_string32 (Doc_JsonDoc x)) (\<lambda>_.
     returnM ()))))"

definition Unpack_Doc :: "doc reader" where
  "Unpack_Doc =
     bindM read_word (\<lambda>docVersion.
     bindM read_word (\<lambda>fmtVersion.
     bindM (read_string TYPE(8)) (\<lambda>metadata.
     bindM (read_string TYPE(32)) (\<lambda>jsonDoc.
     returnM \<lparr>Doc_DocVersion = docVersion, Doc_FmtVersion = fmtVersion, Doc_Metadata = metadata, Doc_JsonDoc = jsonDoc\<rparr>))))"

definition Size_Doc :: "doc \<Rightarrow> uint32" where
  "Size_Doc x = 8 + 8 + 1 + of_nat (length (Doc_Metadata x)) + 4 + of_nat (length (Doc_JsonDoc x))"

definition fits_Doc :: "doc \<Rightarrow> bool" where
  "fits_Doc x \<longleftrightarrow> length (Doc_Metadata x) < 2 ^ 8 \<and> length (Doc_JsonDoc x) < 2 ^ 32"

lemma wired_Doc [wire]:
  "wired (Pack_Doc x) Unpack_Doc (fits_Doc x) (Size_Doc x) 4294967571 x"
  unfolding Pack_Doc_def Unpack_Doc_def
  by (rule wired_eq, (rule wire | simp add: fits_Doc_def Size_Doc_def)+)

lemma reader_Doc [reads]: "reader Unpack_Doc"
  unfolding Unpack_Doc_def by (rule reads reader_bind)+

record write_request =
  WriteRequest_Account :: string
  WriteRequest_Thing :: string
  WriteRequest_DocName :: string
  WriteRequest_Doc :: doc

subsection \<open>\<open>WriteRequest\<close>\<close>

definition Pack_WriteRequest :: "write_request \<Rightarrow> writer" where
  "Pack_WriteRequest x =
     bindM (write_string TYPE(16) ''Account'' (WriteRequest_Account x)) (\<lambda>_.
     bindM (write_string TYPE(16) ''Thing'' (WriteRequest_Thing x)) (\<lambda>_.
     bindM (write_string TYPE(16) ''DocName'' (WriteRequest_DocName x)) (\<lambda>_.
     bindM (Pack_Doc (WriteRequest_Doc x)) (\<lambda>_.
     returnM ()))))"

definition Unpack_WriteRequest :: "write_request reader" where
  "Unpack_WriteRequest =
     bindM (read_string TYPE(16)) (\<lambda>account.
     bindM (read_string TYPE(16)) (\<lambda>thing.
     bindM (read_string TYPE(16)) (\<lambda>docName.
     bindM Unpack_Doc (\<lambda>doc.
     returnM \<lparr>WriteRequest_Account = account, WriteRequest_Thing = thing, WriteRequest_DocName = docName, WriteRequest_Doc = doc\<rparr>))))"

definition Size_WriteRequest :: "write_request \<Rightarrow> uint32" where
  "Size_WriteRequest x = 2 + of_nat (length (WriteRequest_Account x)) + 2 + of_nat (length (WriteRequest_Thing x)) + 2 + of_nat (length (WriteRequest_DocName x)) + Size_Doc (WriteRequest_Doc x)"

definition fits_WriteRequest :: "write_request \<Rightarrow> bool" where
  "fits_WriteRequest x \<longleftrightarrow> length (WriteRequest_Account x) < 2 ^ 16 \<and> length (WriteRequest_Thing x) < 2 ^ 16 \<and> length (WriteRequest_DocName x) < 2 ^ 16 \<and> fits_Doc (WriteRequest_Doc x)"

lemma wired_WriteRequest [wire]:
  "wired (Pack_WriteRequest x) Unpack_WriteRequest (fits_WriteRequest x) (Size_WriteRequest x) 4295164182 x"
  unfolding Pack_WriteRequest_def Unpack_WriteRequest_def
  by (rule wired_eq, (rule wire | simp add: fits_WriteRequest_def Size_WriteRequest_def)+)

lemma reader_WriteRequest [reads]: "reader Unpack_WriteRequest"
  unfolding Unpack_WriteRequest_def by (rule reads reader_bind)+

record write_response =
  WriteResponse_Status :: byte
  WriteResponse_LatestVersion :: uint64

subsection \<open>\<open>WriteResponse\<close>\<close>

definition Pack_WriteResponse :: "write_response \<Rightarrow> writer" where
  "Pack_WriteResponse x =
     bindM (write_word (WriteResponse_Status x)) (\<lambda>_.
     bindM (write_word (WriteResponse_LatestVersion x)) (\<lambda>_.
     returnM ()))"

definition Unpack_WriteResponse :: "write_response reader" where
  "Unpack_WriteResponse =
     bindM read_word (\<lambda>status.
     bindM read_word (\<lambda>latestVersion.
     returnM \<lparr>WriteResponse_Status = status, WriteResponse_LatestVersion = latestVersion\<rparr>))"

definition Size_WriteResponse :: "write_response \<Rightarrow> uint32" where
  "Size_WriteResponse x = 1 + 8"

lemma wired_WriteResponse [wire]:
  "wired (Pack_WriteResponse x) Unpack_WriteResponse True (Size_WriteResponse x) 9 x"
  unfolding Pack_WriteResponse_def Unpack_WriteResponse_def
  by (rule wired_eq, (rule wire | simp add: Size_WriteResponse_def)+)

lemma reader_WriteResponse [reads]: "reader Unpack_WriteResponse"
  unfolding Unpack_WriteResponse_def by (rule reads reader_bind)+

record read_item =
  ReadItem_DocName :: string
  ReadItem_MyDocVersion :: uint64

subsection \<open>\<open>ReadItem\<close>\<close>

definition Pack_ReadItem :: "read_item \<Rightarrow> writer" where
  "Pack_ReadItem x =
     bindM (write_string TYPE(8) ''DocName'' (ReadItem_DocName x)) (\<lambda>_.
     bindM (write_word (ReadItem_MyDocVersion x)) (\<lambda>_.
     returnM ()))"

definition Unpack_ReadItem :: "read_item reader" where
  "Unpack_ReadItem =
     bindM (read_string TYPE(8)) (\<lambda>docName.
     bindM read_word (\<lambda>myDocVersion.
     returnM \<lparr>ReadItem_DocName = docName, ReadItem_MyDocVersion = myDocVersion\<rparr>))"

definition Size_ReadItem :: "read_item \<Rightarrow> uint32" where
  "Size_ReadItem x = 1 + of_nat (length (ReadItem_DocName x)) + 8"

definition fits_ReadItem :: "read_item \<Rightarrow> bool" where
  "fits_ReadItem x \<longleftrightarrow> length (ReadItem_DocName x) < 2 ^ 8"

lemma wired_ReadItem [wire]:
  "wired (Pack_ReadItem x) Unpack_ReadItem (fits_ReadItem x) (Size_ReadItem x) 264 x"
  unfolding Pack_ReadItem_def Unpack_ReadItem_def
  by (rule wired_eq, (rule wire | simp add: fits_ReadItem_def Size_ReadItem_def)+)

lemma reader_ReadItem [reads]: "reader Unpack_ReadItem"
  unfolding Unpack_ReadItem_def by (rule reads reader_bind)+

record read_request =
  ReadRequest_Account :: string
  ReadRequest_Thing :: string
  ReadRequest_Items :: "read_item list"

subsection \<open>\<open>ReadRequest\<close>\<close>

definition Pack_ReadRequest :: "read_request \<Rightarrow> writer" where
  "Pack_ReadRequest x =
     bindM (write_string TYPE(16) ''Account'' (ReadRequest_Account x)) (\<lambda>_.
     bindM (write_string TYPE(16) ''Thing'' (ReadRequest_Thing x)) (\<lambda>_.
     bindM (write_slice TYPE(16) ''Items'' Pack_ReadItem (ReadRequest_Items x)) (\<lambda>_.
     returnM ())))"

definition Unpack_ReadRequest :: "read_request reader" where
  "Unpack_ReadRequest =
     bindM (read_string TYPE(16)) (\<lambda>account.
     bindM (read_string TYPE(16)) (\<lambda>thing.
     bindM (read_slice TYPE(16) Unpack_ReadItem) (\<lambda>items.
     returnM \<lparr>ReadRequest_Account = account, ReadRequest_Thing = thing, ReadRequest_Items = items\<rparr>)))"

definition Size_ReadRequest :: "read_request \<Rightarrow> uint32" where
  "Size_ReadRequest x = 2 + of_nat (length (ReadRequest_Account x)) + 2 + of_nat (length (ReadRequest_Thing x)) + 2 + total_size Size_ReadItem (ReadRequest_Items x)"

definition fits_ReadRequest :: "read_request \<Rightarrow> bool" where
  "fits_ReadRequest x \<longleftrightarrow> length (ReadRequest_Account x) < 2 ^ 16 \<and> length (ReadRequest_Thing x) < 2 ^ 16 \<and> length (ReadRequest_Items x) < 2 ^ 16 \<and> list_all fits_ReadItem (ReadRequest_Items x)"

lemma wired_ReadRequest [wire]:
  "wired (Pack_ReadRequest x) Unpack_ReadRequest (fits_ReadRequest x) (Size_ReadRequest x) 17432316 x"
  unfolding Pack_ReadRequest_def Unpack_ReadRequest_def
  by (rule wired_eq, (rule wire | simp add: fits_ReadRequest_def Size_ReadRequest_def)+)

lemma reader_ReadRequest [reads]: "reader Unpack_ReadRequest"
  unfolding Unpack_ReadRequest_def by (rule reads reader_bind)+

record response_doc =
  ResponseDoc_Status :: byte
  ResponseDoc_Doc :: doc

subsection \<open>\<open>ResponseDoc\<close>\<close>

definition Pack_ResponseDoc :: "response_doc \<Rightarrow> writer" where
  "Pack_ResponseDoc x =
     bindM (write_word (ResponseDoc_Status x)) (\<lambda>_.
     bindM (Pack_Doc (ResponseDoc_Doc x)) (\<lambda>_.
     returnM ()))"

definition Unpack_ResponseDoc :: "response_doc reader" where
  "Unpack_ResponseDoc =
     bindM read_word (\<lambda>status.
     bindM Unpack_Doc (\<lambda>doc.
     returnM \<lparr>ResponseDoc_Status = status, ResponseDoc_Doc = doc\<rparr>))"

definition Size_ResponseDoc :: "response_doc \<Rightarrow> uint32" where
  "Size_ResponseDoc x = 1 + Size_Doc (ResponseDoc_Doc x)"

definition fits_ResponseDoc :: "response_doc \<Rightarrow> bool" where
  "fits_ResponseDoc x \<longleftrightarrow> fits_Doc (ResponseDoc_Doc x)"

lemma wired_ResponseDoc [wire]:
  "wired (Pack_ResponseDoc x) Unpack_ResponseDoc (fits_ResponseDoc x) (Size_ResponseDoc x) 4294967572 x"
  unfolding Pack_ResponseDoc_def Unpack_ResponseDoc_def
  by (rule wired_eq, (rule wire | simp add: fits_ResponseDoc_def Size_ResponseDoc_def)+)

lemma reader_ResponseDoc [reads]: "reader Unpack_ResponseDoc"
  unfolding Unpack_ResponseDoc_def by (rule reads reader_bind)+

subsection \<open>\<open>ReadResponse\<close>\<close>

definition Pack_ReadResponse :: "response_doc list \<Rightarrow> writer" where
  "Pack_ReadResponse x =
     bindM (write_slice TYPE(16) ''Items'' Pack_ResponseDoc x) (\<lambda>_.
     returnM ())"

definition Unpack_ReadResponse :: "response_doc list reader" where
  "Unpack_ReadResponse =
     bindM (read_slice TYPE(16) Unpack_ResponseDoc) (\<lambda>items.
     returnM items)"

definition Size_ReadResponse :: "response_doc list \<Rightarrow> uint32" where
  "Size_ReadResponse x = 2 + total_size Size_ResponseDoc x"

definition fits_ReadResponse :: "response_doc list \<Rightarrow> bool" where
  "fits_ReadResponse x \<longleftrightarrow> length x < 2 ^ 16 \<and> list_all fits_ResponseDoc x"

lemma wired_ReadResponse [wire]:
  "wired (Pack_ReadResponse x) Unpack_ReadResponse (fits_ReadResponse x) (Size_ReadResponse x) 281470699831022 x"
  unfolding Pack_ReadResponse_def Unpack_ReadResponse_def
  by (rule wired_eq, (rule wire | simp add: fits_ReadResponse_def Size_ReadResponse_def)+)

lemma reader_ReadResponse [reads]: "reader Unpack_ReadResponse"
  unfolding Unpack_ReadResponse_def by (rule reads reader_bind)+

record delete_request =
  DeleteRequest_Account :: string
  DeleteRequest_Thing :: string
  DeleteRequest_DocName :: string

subsection \<open>\<open>DeleteRequest\<close>\<close>

definition Pack_DeleteRequest :: "delete_request \<Rightarrow> writer" where
  "Pack_DeleteRequest x =
     bindM (write_string TYPE(16) ''Account'' (DeleteRequest_Account x)) (\<lambda>_.
     bindM (write_string TYPE(16) ''Thing'' (DeleteRequest_Thing x)) (\<lambda>_.
     bindM (write_string TYPE(16) ''DocName'' (DeleteRequest_DocName x)) (\<lambda>_.
     returnM ())))"

definition Unpack_DeleteRequest :: "delete_request reader" where
  "Unpack_DeleteRequest =
     bindM (read_string TYPE(16)) (\<lambda>account.
     bindM (read_string TYPE(16)) (\<lambda>thing.
     bindM (read_string TYPE(16)) (\<lambda>docName.
     returnM \<lparr>DeleteRequest_Account = account, DeleteRequest_Thing = thing, DeleteRequest_DocName = docName\<rparr>)))"

definition Size_DeleteRequest :: "delete_request \<Rightarrow> uint32" where
  "Size_DeleteRequest x = 2 + of_nat (length (DeleteRequest_Account x)) + 2 + of_nat (length (DeleteRequest_Thing x)) + 2 + of_nat (length (DeleteRequest_DocName x))"

definition fits_DeleteRequest :: "delete_request \<Rightarrow> bool" where
  "fits_DeleteRequest x \<longleftrightarrow> length (DeleteRequest_Account x) < 2 ^ 16 \<and> length (DeleteRequest_Thing x) < 2 ^ 16 \<and> length (DeleteRequest_DocName x) < 2 ^ 16"

lemma wired_DeleteRequest [wire]:
  "wired (Pack_DeleteRequest x) Unpack_DeleteRequest (fits_DeleteRequest x) (Size_DeleteRequest x) 196611 x"
  unfolding Pack_DeleteRequest_def Unpack_DeleteRequest_def
  by (rule wired_eq, (rule wire | simp add: fits_DeleteRequest_def Size_DeleteRequest_def)+)

lemma reader_DeleteRequest [reads]: "reader Unpack_DeleteRequest"
  unfolding Unpack_DeleteRequest_def by (rule reads reader_bind)+

datatype doc_request =
    DocRequestWithWrite write_request
  | DocRequestWithRead read_request
  | DocRequestWithDeleteReq delete_request
  | DocRequestWithUser
  | DocRequestWithThing
  | DocRequestInvalid

subsection \<open>\<open>DocRequest\<close>\<close>

primrec Tag_DocRequest :: "doc_request \<Rightarrow> 8 word" where
  "Tag_DocRequest (DocRequestWithWrite x) = 0"
| "Tag_DocRequest (DocRequestWithRead x) = 1"
| "Tag_DocRequest (DocRequestWithDeleteReq x) = 2"
| "Tag_DocRequest DocRequestWithUser = 3"
| "Tag_DocRequest DocRequestWithThing = 4"
| "Tag_DocRequest DocRequestInvalid = 255"

text \<open>\<open>m.value.Pack\<close>, on the structure that the message holds.\<close>

primrec packValue_DocRequest :: "doc_request \<Rightarrow> writer" where
  "packValue_DocRequest (DocRequestWithWrite x) = Pack_WriteRequest x"
| "packValue_DocRequest (DocRequestWithRead x) = Pack_ReadRequest x"
| "packValue_DocRequest (DocRequestWithDeleteReq x) = Pack_DeleteRequest x"
| "packValue_DocRequest DocRequestWithUser = Pack_Void ()"
| "packValue_DocRequest DocRequestWithThing = Pack_Void ()"
| "packValue_DocRequest DocRequestInvalid = returnM ()"

definition Pack_DocRequest :: "doc_request \<Rightarrow> writer" where
  "Pack_DocRequest m = bindM (write_word (Tag_DocRequest m)) (\<lambda>_. packValue_DocRequest m)"

definition unpackStruct_DocRequest :: "8 word \<Rightarrow> doc_request reader" where
  "unpackStruct_DocRequest tag =
     (if tag = 0 then bindM Unpack_WriteRequest (\<lambda>x. returnM (DocRequestWithWrite x))
      else if tag = 1 then bindM Unpack_ReadRequest (\<lambda>x. returnM (DocRequestWithRead x))
      else if tag = 2 then bindM Unpack_DeleteRequest (\<lambda>x. returnM (DocRequestWithDeleteReq x))
      else if tag = 3 then bindM Unpack_Void (\<lambda>_. returnM DocRequestWithUser)
      else if tag = 4 then bindM Unpack_Void (\<lambda>_. returnM DocRequestWithThing)
      else failM (Errorf ''invalid tag to unpackStruct''))"

definition Unpack_DocRequest :: "doc_request reader" where
  "Unpack_DocRequest = bindM read_word (\<lambda>tag. if tag = 255 then returnM DocRequestInvalid else unpackStruct_DocRequest tag)"

primrec Size_DocRequest :: "doc_request \<Rightarrow> uint32" where
  "Size_DocRequest (DocRequestWithWrite x) = 1 + Size_WriteRequest x"
| "Size_DocRequest (DocRequestWithRead x) = 1 + Size_ReadRequest x"
| "Size_DocRequest (DocRequestWithDeleteReq x) = 1 + Size_DeleteRequest x"
| "Size_DocRequest DocRequestWithUser = 1 + Size_Void ()"
| "Size_DocRequest DocRequestWithThing = 1 + Size_Void ()"
| "Size_DocRequest DocRequestInvalid = 1"

primrec fits_DocRequest :: "doc_request \<Rightarrow> bool" where
  "fits_DocRequest (DocRequestWithWrite x) = fits_WriteRequest x"
| "fits_DocRequest (DocRequestWithRead x) = fits_ReadRequest x"
| "fits_DocRequest (DocRequestWithDeleteReq x) = fits_DeleteRequest x"
| "fits_DocRequest DocRequestWithUser = True"
| "fits_DocRequest DocRequestWithThing = True"
| "fits_DocRequest DocRequestInvalid = True"

lemma wired_DocRequest [wire]:
  "wired (Pack_DocRequest m) Unpack_DocRequest (fits_DocRequest m) (Size_DocRequest m) 4295164183 m"
proof (cases m)
  case (DocRequestWithWrite x)
  show ?thesis unfolding DocRequestWithWrite Pack_DocRequest_def Unpack_DocRequest_def
    by (rule wired_eq, rule wired_member [where f = DocRequestWithWrite, OF wired_WriteRequest [of "x"]])
      (simp_all add: unpackStruct_DocRequest_def)
next
  case (DocRequestWithRead x)
  show ?thesis unfolding DocRequestWithRead Pack_DocRequest_def Unpack_DocRequest_def
    by (rule wired_eq, rule wired_member [where f = DocRequestWithRead, OF wired_ReadRequest [of "x"]])
      (simp_all add: unpackStruct_DocRequest_def)
next
  case (DocRequestWithDeleteReq x)
  show ?thesis unfolding DocRequestWithDeleteReq Pack_DocRequest_def Unpack_DocRequest_def
    by (rule wired_eq, rule wired_member [where f = DocRequestWithDeleteReq, OF wired_DeleteRequest [of "x"]])
      (simp_all add: unpackStruct_DocRequest_def)
next
  case DocRequestWithUser
  show ?thesis unfolding DocRequestWithUser Pack_DocRequest_def Unpack_DocRequest_def
    by (rule wired_eq, rule wired_member [where f = "\<lambda>_. DocRequestWithUser", OF wired_Void [of "()"]])
      (simp_all add: unpackStruct_DocRequest_def)
next
  case DocRequestWithThing
  show ?thesis unfolding DocRequestWithThing Pack_DocRequest_def Unpack_DocRequest_def
    by (rule wired_eq, rule wired_member [where f = "\<lambda>_. DocRequestWithThing", OF wired_Void [of "()"]])
      (simp_all add: unpackStruct_DocRequest_def)
next
  case DocRequestInvalid
  show ?thesis unfolding DocRequestInvalid Pack_DocRequest_def Unpack_DocRequest_def
    by (rule wired_eq, rule wired_invalid) simp_all
qed

lemma reader_DocRequest [reads]: "reader Unpack_DocRequest"
  unfolding Unpack_DocRequest_def unpackStruct_DocRequest_def by (rule reads reader_bind)+

subsection \<open>\<open>ErrorResponse\<close>\<close>

definition Pack_ErrorResponse :: "byte \<Rightarrow> writer" where
  "Pack_ErrorResponse x =
     bindM (write_word x) (\<lambda>_.
     returnM ())"

definition Unpack_ErrorResponse :: "byte reader" where
  "Unpack_ErrorResponse =
     bindM read_word (\<lambda>err.
     returnM err)"

definition Size_ErrorResponse :: "byte \<Rightarrow> uint32" where
  "Size_ErrorResponse x = 1"

lemma wired_ErrorResponse [wire]:
  "wired (Pack_ErrorResponse x) Unpack_ErrorResponse True (Size_ErrorResponse x) 1 x"
  unfolding Pack_ErrorResponse_def Unpack_ErrorResponse_def
  by (rule wired_eq, (rule wire | simp add: Size_ErrorResponse_def)+)

lemma reader_ErrorResponse [reads]: "reader Unpack_ErrorResponse"
  unfolding Unpack_ErrorResponse_def by (rule reads reader_bind)+

subsection \<open>\<open>UserResponse\<close>\<close>

definition Pack_UserResponse :: "string \<Rightarrow> writer" where
  "Pack_UserResponse x =
     bindM (write_string TYPE(8) ''UserId'' x) (\<lambda>_.
     returnM ())"

definition Unpack_UserResponse :: "string reader" where
  "Unpack_UserResponse =
     bindM (read_string TYPE(8)) (\<lambda>userId.
     returnM userId)"

definition Size_UserResponse :: "string \<Rightarrow> uint32" where
  "Size_UserResponse x = 1 + of_nat (length x)"

definition fits_UserResponse :: "string \<Rightarrow> bool" where
  "fits_UserResponse x \<longleftrightarrow> length x < 2 ^ 8"

lemma wired_UserResponse [wire]:
  "wired (Pack_UserResponse x) Unpack_UserResponse (fits_UserResponse x) (Size_UserResponse x) 256 x"
  unfolding Pack_UserResponse_def Unpack_UserResponse_def
  by (rule wired_eq, (rule wire | simp add: fits_UserResponse_def Size_UserResponse_def)+)

lemma reader_UserResponse [reads]: "reader Unpack_UserResponse"
  unfolding Unpack_UserResponse_def by (rule reads reader_bind)+

subsection \<open>\<open>ThingResponse\<close>\<close>

definition Pack_ThingResponse :: "string \<Rightarrow> writer" where
  "Pack_ThingResponse x =
     bindM (write_string TYPE(8) ''ThingName'' x) (\<lambda>_.
     returnM ())"

definition Unpack_ThingResponse :: "string reader" where
  "Unpack_ThingResponse =
     bindM (read_string TYPE(8)) (\<lambda>thingName.
     returnM thingName)"

definition Size_ThingResponse :: "string \<Rightarrow> uint32" where
  "Size_ThingResponse x = 1 + of_nat (length x)"

definition fits_ThingResponse :: "string \<Rightarrow> bool" where
  "fits_ThingResponse x \<longleftrightarrow> length x < 2 ^ 8"

lemma wired_ThingResponse [wire]:
  "wired (Pack_ThingResponse x) Unpack_ThingResponse (fits_ThingResponse x) (Size_ThingResponse x) 256 x"
  unfolding Pack_ThingResponse_def Unpack_ThingResponse_def
  by (rule wired_eq, (rule wire | simp add: fits_ThingResponse_def Size_ThingResponse_def)+)

lemma reader_ThingResponse [reads]: "reader Unpack_ThingResponse"
  unfolding Unpack_ThingResponse_def by (rule reads reader_bind)+

datatype doc_response =
    DocResponseWithWrite write_response
  | DocResponseWithRead "response_doc list"
  | DocResponseWithDeleteResp
  | DocResponseWithErr byte
  | DocResponseWithUser string
  | DocResponseWithThing string
  | DocResponseInvalid

subsection \<open>\<open>DocResponse\<close>\<close>

primrec Tag_DocResponse :: "doc_response \<Rightarrow> 8 word" where
  "Tag_DocResponse (DocResponseWithWrite x) = 0"
| "Tag_DocResponse (DocResponseWithRead x) = 1"
| "Tag_DocResponse DocResponseWithDeleteResp = 2"
| "Tag_DocResponse (DocResponseWithErr x) = 3"
| "Tag_DocResponse (DocResponseWithUser x) = 4"
| "Tag_DocResponse (DocResponseWithThing x) = 5"
| "Tag_DocResponse DocResponseInvalid = 255"

text \<open>\<open>m.value.Pack\<close>, on the structure that the message holds.\<close>

primrec packValue_DocResponse :: "doc_response \<Rightarrow> writer" where
  "packValue_DocResponse (DocResponseWithWrite x) = Pack_WriteResponse x"
| "packValue_DocResponse (DocResponseWithRead x) = Pack_ReadResponse x"
| "packValue_DocResponse DocResponseWithDeleteResp = Pack_Void ()"
| "packValue_DocResponse (DocResponseWithErr x) = Pack_ErrorResponse x"
| "packValue_DocResponse (DocResponseWithUser x) = Pack_UserResponse x"
| "packValue_DocResponse (DocResponseWithThing x) = Pack_ThingResponse x"
| "packValue_DocResponse DocResponseInvalid = returnM ()"

definition Pack_DocResponse :: "doc_response \<Rightarrow> writer" where
  "Pack_DocResponse m = bindM (write_word (Tag_DocResponse m)) (\<lambda>_. packValue_DocResponse m)"

definition unpackStruct_DocResponse :: "8 word \<Rightarrow> doc_response reader" where
  "unpackStruct_DocResponse tag =
     (if tag = 0 then bindM Unpack_WriteResponse (\<lambda>x. returnM (DocResponseWithWrite x))
      else if tag = 1 then bindM Unpack_ReadResponse (\<lambda>x. returnM (DocResponseWithRead x))
      else if tag = 2 then bindM Unpack_Void (\<lambda>_. returnM DocResponseWithDeleteResp)
      else if tag = 3 then bindM Unpack_ErrorResponse (\<lambda>x. returnM (DocResponseWithErr x))
      else if tag = 4 then bindM Unpack_UserResponse (\<lambda>x. returnM (DocResponseWithUser x))
      else if tag = 5 then bindM Unpack_ThingResponse (\<lambda>x. returnM (DocResponseWithThing x))
      else failM (Errorf ''invalid tag to unpackStruct''))"

definition Unpack_DocResponse :: "doc_response reader" where
  "Unpack_DocResponse = bindM read_word (\<lambda>tag. if tag = 255 then returnM DocResponseInvalid else unpackStruct_DocResponse tag)"

primrec Size_DocResponse :: "doc_response \<Rightarrow> uint32" where
  "Size_DocResponse (DocResponseWithWrite x) = 1 + Size_WriteResponse x"
| "Size_DocResponse (DocResponseWithRead x) = 1 + Size_ReadResponse x"
| "Size_DocResponse DocResponseWithDeleteResp = 1 + Size_Void ()"
| "Size_DocResponse (DocResponseWithErr x) = 1 + Size_ErrorResponse x"
| "Size_DocResponse (DocResponseWithUser x) = 1 + Size_UserResponse x"
| "Size_DocResponse (DocResponseWithThing x) = 1 + Size_ThingResponse x"
| "Size_DocResponse DocResponseInvalid = 1"

primrec fits_DocResponse :: "doc_response \<Rightarrow> bool" where
  "fits_DocResponse (DocResponseWithWrite x) = True"
| "fits_DocResponse (DocResponseWithRead x) = fits_ReadResponse x"
| "fits_DocResponse DocResponseWithDeleteResp = True"
| "fits_DocResponse (DocResponseWithErr x) = True"
| "fits_DocResponse (DocResponseWithUser x) = fits_UserResponse x"
| "fits_DocResponse (DocResponseWithThing x) = fits_ThingResponse x"
| "fits_DocResponse DocResponseInvalid = True"

lemma wired_DocResponse [wire]:
  "wired (Pack_DocResponse m) Unpack_DocResponse (fits_DocResponse m) (Size_DocResponse m) 281470699831023 m"
proof (cases m)
  case (DocResponseWithWrite x)
  show ?thesis unfolding DocResponseWithWrite Pack_DocResponse_def Unpack_DocResponse_def
    by (rule wired_eq, rule wired_member [where f = DocResponseWithWrite, OF wired_WriteResponse [of "x"]])
      (simp_all add: unpackStruct_DocResponse_def)
next
  case (DocResponseWithRead x)
  show ?thesis unfolding DocResponseWithRead Pack_DocResponse_def Unpack_DocResponse_def
    by (rule wired_eq, rule wired_member [where f = DocResponseWithRead, OF wired_ReadResponse [of "x"]])
      (simp_all add: unpackStruct_DocResponse_def)
next
  case DocResponseWithDeleteResp
  show ?thesis unfolding DocResponseWithDeleteResp Pack_DocResponse_def Unpack_DocResponse_def
    by (rule wired_eq, rule wired_member [where f = "\<lambda>_. DocResponseWithDeleteResp", OF wired_Void [of "()"]])
      (simp_all add: unpackStruct_DocResponse_def)
next
  case (DocResponseWithErr x)
  show ?thesis unfolding DocResponseWithErr Pack_DocResponse_def Unpack_DocResponse_def
    by (rule wired_eq, rule wired_member [where f = DocResponseWithErr, OF wired_ErrorResponse [of "x"]])
      (simp_all add: unpackStruct_DocResponse_def)
next
  case (DocResponseWithUser x)
  show ?thesis unfolding DocResponseWithUser Pack_DocResponse_def Unpack_DocResponse_def
    by (rule wired_eq, rule wired_member [where f = DocResponseWithUser, OF wired_UserResponse [of "x"]])
      (simp_all add: unpackStruct_DocResponse_def)
next
  case (DocResponseWithThing x)
  show ?thesis unfolding DocResponseWithThing Pack_DocResponse_def Unpack_DocResponse_def
    by (rule wired_eq, rule wired_member [where f = DocResponseWithThing, OF wired_ThingResponse [of "x"]])
      (simp_all add: unpackStruct_DocResponse_def)
next
  case DocResponseInvalid
  show ?thesis unfolding DocResponseInvalid Pack_DocResponse_def Unpack_DocResponse_def
    by (rule wired_eq, rule wired_invalid) simp_all
qed

lemma reader_DocResponse [reads]: "reader Unpack_DocResponse"
  unfolding Unpack_DocResponse_def unpackStruct_DocResponse_def by (rule reads reader_bind)+

section \<open>Microphone\<close>

subsection \<open>\<open>StreamOpen\<close>\<close>

definition Pack_StreamOpen :: "string \<Rightarrow> writer" where
  "Pack_StreamOpen x =
     bindM (write_string TYPE(8) ''Session'' x) (\<lambda>_.
     returnM ())"

definition Unpack_StreamOpen :: "string reader" where
  "Unpack_StreamOpen =
     bindM (read_string TYPE(8)) (\<lambda>session.
     returnM session)"

definition Size_StreamOpen :: "string \<Rightarrow> uint32" where
  "Size_StreamOpen x = 1 + of_nat (length x)"

definition fits_StreamOpen :: "string \<Rightarrow> bool" where
  "fits_StreamOpen x \<longleftrightarrow> length x < 2 ^ 8"

lemma wired_StreamOpen [wire]:
  "wired (Pack_StreamOpen x) Unpack_StreamOpen (fits_StreamOpen x) (Size_StreamOpen x) 256 x"
  unfolding Pack_StreamOpen_def Unpack_StreamOpen_def
  by (rule wired_eq, (rule wire | simp add: fits_StreamOpen_def Size_StreamOpen_def)+)

lemma reader_StreamOpen [reads]: "reader Unpack_StreamOpen"
  unfolding Unpack_StreamOpen_def by (rule reads reader_bind)+

record hotword =
  Hotword_Mode :: byte
  Hotword_Locale :: string
  Hotword_Timezone :: string
  Hotword_NoLogging :: bool

subsection \<open>\<open>Hotword\<close>\<close>

definition Pack_Hotword :: "hotword \<Rightarrow> writer" where
  "Pack_Hotword x =
     bindM (write_word (Hotword_Mode x)) (\<lambda>_.
     bindM (write_string TYPE(8) ''Locale'' (Hotword_Locale x)) (\<lambda>_.
     bindM (write_string TYPE(8) ''Timezone'' (Hotword_Timezone x)) (\<lambda>_.
     bindM (write_bool (Hotword_NoLogging x)) (\<lambda>_.
     returnM ()))))"

definition Unpack_Hotword :: "hotword reader" where
  "Unpack_Hotword =
     bindM read_word (\<lambda>mode.
     bindM (read_string TYPE(8)) (\<lambda>locale.
     bindM (read_string TYPE(8)) (\<lambda>timezone.
     bindM read_bool (\<lambda>noLogging.
     returnM \<lparr>Hotword_Mode = mode, Hotword_Locale = locale, Hotword_Timezone = timezone, Hotword_NoLogging = noLogging\<rparr>))))"

definition Size_Hotword :: "hotword \<Rightarrow> uint32" where
  "Size_Hotword x = 1 + 1 + of_nat (length (Hotword_Locale x)) + 1 + of_nat (length (Hotword_Timezone x)) + 1"

definition fits_Hotword :: "hotword \<Rightarrow> bool" where
  "fits_Hotword x \<longleftrightarrow> length (Hotword_Locale x) < 2 ^ 8 \<and> length (Hotword_Timezone x) < 2 ^ 8"

lemma wired_Hotword [wire]:
  "wired (Pack_Hotword x) Unpack_Hotword (fits_Hotword x) (Size_Hotword x) 514 x"
  unfolding Pack_Hotword_def Unpack_Hotword_def
  by (rule wired_eq, (rule wire | simp add: fits_Hotword_def Size_Hotword_def)+)

lemma reader_Hotword [reads]: "reader Unpack_Hotword"
  unfolding Unpack_Hotword_def by (rule reads reader_bind)+

subsection \<open>\<open>Filename\<close>\<close>

definition Pack_Filename :: "string \<Rightarrow> writer" where
  "Pack_Filename x =
     bindM (write_string TYPE(8) ''File'' x) (\<lambda>_.
     returnM ())"

definition Unpack_Filename :: "string reader" where
  "Unpack_Filename =
     bindM (read_string TYPE(8)) (\<lambda>file.
     returnM file)"

definition Size_Filename :: "string \<Rightarrow> uint32" where
  "Size_Filename x = 1 + of_nat (length x)"

definition fits_Filename :: "string \<Rightarrow> bool" where
  "fits_Filename x \<longleftrightarrow> length x < 2 ^ 8"

lemma wired_Filename [wire]:
  "wired (Pack_Filename x) Unpack_Filename (fits_Filename x) (Size_Filename x) 256 x"
  unfolding Pack_Filename_def Unpack_Filename_def
  by (rule wired_eq, (rule wire | simp add: fits_Filename_def Size_Filename_def)+)

lemma reader_Filename [reads]: "reader Unpack_Filename"
  unfolding Unpack_Filename_def by (rule reads reader_bind)+

subsection \<open>\<open>AudioData\<close>\<close>

definition Pack_AudioData :: "16 word list \<Rightarrow> writer" where
  "Pack_AudioData x =
     bindM (write_bulk TYPE(16) ''Data'' (le_bytes 2) x) (\<lambda>_.
     returnM ())"

definition Unpack_AudioData :: "16 word list reader" where
  "Unpack_AudioData =
     bindM (read_bulk_slice TYPE(16) 2 le_value) (\<lambda>data.
     returnM data)"

definition Size_AudioData :: "16 word list \<Rightarrow> uint32" where
  "Size_AudioData x = 2 + of_nat (length x) * 2"

definition fits_AudioData :: "16 word list \<Rightarrow> bool" where
  "fits_AudioData x \<longleftrightarrow> length x < 2 ^ 16"

lemma wired_AudioData [wire]:
  "wired (Pack_AudioData x) Unpack_AudioData (fits_AudioData x) (Size_AudioData x) 131072 x"
  unfolding Pack_AudioData_def Unpack_AudioData_def
  by (rule wired_eq, (rule wire | simp add: fits_AudioData_def Size_AudioData_def)+)

lemma reader_AudioData [reads]: "reader Unpack_AudioData"
  unfolding Unpack_AudioData_def by (rule reads reader_bind)+

record intent_result =
  IntentResult_Intent :: string
  IntentResult_Parameters :: string
  IntentResult_Metadata :: string

subsection \<open>\<open>IntentResult\<close>\<close>

definition Pack_IntentResult :: "intent_result \<Rightarrow> writer" where
  "Pack_IntentResult x =
     bindM (write_string TYPE(8) ''Intent'' (IntentResult_Intent x)) (\<lambda>_.
     bindM (write_string TYPE(16) ''Parameters'' (IntentResult_Parameters x)) (\<lambda>_.
     bindM (write_string TYPE(16) ''Metadata'' (IntentResult_Metadata x)) (\<lambda>_.
     returnM ())))"

definition Unpack_IntentResult :: "intent_result reader" where
  "Unpack_IntentResult =
     bindM (read_string TYPE(8)) (\<lambda>intent.
     bindM (read_string TYPE(16)) (\<lambda>parameters.
     bindM (read_string TYPE(16)) (\<lambda>metadata.
     returnM \<lparr>IntentResult_Intent = intent, IntentResult_Parameters = parameters, IntentResult_Metadata = metadata\<rparr>)))"

definition Size_IntentResult :: "intent_result \<Rightarrow> uint32" where
  "Size_IntentResult x = 1 + of_nat (length (IntentResult_Intent x)) + 2 + of_nat (length (IntentResult_Parameters x)) + 2 + of_nat (length (IntentResult_Metadata x))"

definition fits_IntentResult :: "intent_result \<Rightarrow> bool" where
  "fits_IntentResult x \<longleftrightarrow> length (IntentResult_Intent x) < 2 ^ 8 \<and> length (IntentResult_Parameters x) < 2 ^ 16 \<and> length (IntentResult_Metadata x) < 2 ^ 16"

lemma wired_IntentResult [wire]:
  "wired (Pack_IntentResult x) Unpack_IntentResult (fits_IntentResult x) (Size_IntentResult x) 131330 x"
  unfolding Pack_IntentResult_def Unpack_IntentResult_def
  by (rule wired_eq, (rule wire | simp add: fits_IntentResult_def Size_IntentResult_def)+)

lemma reader_IntentResult [reads]: "reader Unpack_IntentResult"
  unfolding Unpack_IntentResult_def by (rule reads reader_bind)+

record intent_error =
  IntentError_Error :: byte
  IntentError_Extra :: string

subsection \<open>\<open>IntentError\<close>\<close>

definition Pack_IntentError :: "intent_error \<Rightarrow> writer" where
  "Pack_IntentError x =
     bindM (write_word (IntentError_Error x)) (\<lambda>_.
     bindM (write_string TYPE(8) ''Extra'' (IntentError_Extra x)) (\<lambda>_.
     returnM ()))"

definition Unpack_IntentError :: "intent_error reader" where
  "Unpack_IntentError =
     bindM read_word (\<lambda>error.
     bindM (read_string TYPE(8)) (\<lambda>extra.
     returnM \<lparr>IntentError_Error = error, IntentError_Extra = extra\<rparr>))"

definition Size_IntentError :: "intent_error \<Rightarrow> uint32" where
  "Size_IntentError x = 1 + 1 + of_nat (length (IntentError_Extra x))"

definition fits_IntentError :: "intent_error \<Rightarrow> bool" where
  "fits_IntentError x \<longleftrightarrow> length (IntentError_Extra x) < 2 ^ 8"

lemma wired_IntentError [wire]:
  "wired (Pack_IntentError x) Unpack_IntentError (fits_IntentError x) (Size_IntentError x) 257 x"
  unfolding Pack_IntentError_def Unpack_IntentError_def
  by (rule wired_eq, (rule wire | simp add: fits_IntentError_def Size_IntentError_def)+)

lemma reader_IntentError [reads]: "reader Unpack_IntentError"
  unfolding Unpack_IntentError_def by (rule reads reader_bind)+

record connection_result =
  ConnectionResult_Code :: byte
  ConnectionResult_Status :: string
  ConnectionResult_NumPackets :: byte
  ConnectionResult_ExpectedPackets :: byte

subsection \<open>\<open>ConnectionResult\<close>\<close>

definition Pack_ConnectionResult :: "connection_result \<Rightarrow> writer" where
  "Pack_ConnectionResult x =
     bindM (write_word (ConnectionResult_Code x)) (\<lambda>_.
     bindM (write_string TYPE(8) ''Status'' (ConnectionResult_Status x)) (\<lambda>_.
     bindM (write_word (ConnectionResult_NumPackets x)) (\<lambda>_.
     bindM (write_word (ConnectionResult_ExpectedPackets x)) (\<lambda>_.
     returnM ()))))"

definition Unpack_ConnectionResult :: "connection_result reader" where
  "Unpack_ConnectionResult =
     bindM read_word (\<lambda>code.
     bindM (read_string TYPE(8)) (\<lambda>status.
     bindM read_word (\<lambda>numPackets.
     bindM read_word (\<lambda>expectedPackets.
     returnM \<lparr>ConnectionResult_Code = code, ConnectionResult_Status = status, ConnectionResult_NumPackets = numPackets, ConnectionResult_ExpectedPackets = expectedPackets\<rparr>))))"

definition Size_ConnectionResult :: "connection_result \<Rightarrow> uint32" where
  "Size_ConnectionResult x = 1 + 1 + of_nat (length (ConnectionResult_Status x)) + 1 + 1"

definition fits_ConnectionResult :: "connection_result \<Rightarrow> bool" where
  "fits_ConnectionResult x \<longleftrightarrow> length (ConnectionResult_Status x) < 2 ^ 8"

lemma wired_ConnectionResult [wire]:
  "wired (Pack_ConnectionResult x) Unpack_ConnectionResult (fits_ConnectionResult x) (Size_ConnectionResult x) 259 x"
  unfolding Pack_ConnectionResult_def Unpack_ConnectionResult_def
  by (rule wired_eq, (rule wire | simp add: fits_ConnectionResult_def Size_ConnectionResult_def)+)

lemma reader_ConnectionResult [reads]: "reader Unpack_ConnectionResult"
  unfolding Unpack_ConnectionResult_def by (rule reads reader_bind)+

datatype mic_message =
    MicMessageWithHotword hotword
  | MicMessageWithAudio "16 word list"
  | MicMessageWithAudioDone
  | MicMessageWithConnectionCheck
  | MicMessageWithStopSignal
  | MicMessageWithTestStarted
  | MicMessageWithStreamTimeout
  | MicMessageWithConnectionResult connection_result
  | MicMessageWithDebugFile string
  | MicMessageWithResult intent_result
  | MicMessageWithError intent_error
  | MicMessageWithStreamOpen string
  | MicMessageInvalid

subsection \<open>\<open>Message\<close>\<close>

primrec Tag_MicMessage :: "mic_message \<Rightarrow> 8 word" where
  "Tag_MicMessage (MicMessageWithHotword x) = 0"
| "Tag_MicMessage (MicMessageWithAudio x) = 1"
| "Tag_MicMessage MicMessageWithAudioDone = 2"
| "Tag_MicMessage MicMessageWithConnectionCheck = 3"
| "Tag_MicMessage MicMessageWithStopSignal = 4"
| "Tag_MicMessage MicMessageWithTestStarted = 5"
| "Tag_MicMessage MicMessageWithStreamTimeout = 6"
| "Tag_MicMessage (MicMessageWithConnectionResult x) = 7"
| "Tag_MicMessage (MicMessageWithDebugFile x) = 8"
| "Tag_MicMessage (MicMessageWithResult x) = 9"
| "Tag_MicMessage (MicMessageWithError x) = 10"
| "Tag_MicMessage (MicMessageWithStreamOpen x) = 11"
| "Tag_MicMessage MicMessageInvalid = 255"

text \<open>\<open>m.value.Pack\<close>, on the structure that the message holds.\<close>

primrec packValue_MicMessage :: "mic_message \<Rightarrow> writer" where
  "packValue_MicMessage (MicMessageWithHotword x) = Pack_Hotword x"
| "packValue_MicMessage (MicMessageWithAudio x) = Pack_AudioData x"
| "packValue_MicMessage MicMessageWithAudioDone = Pack_Void ()"
| "packValue_MicMessage MicMessageWithConnectionCheck = Pack_Void ()"
| "packValue_MicMessage MicMessageWithStopSignal = Pack_Void ()"
| "packValue_MicMessage MicMessageWithTestStarted = Pack_Void ()"
| "packValue_MicMessage MicMessageWithStreamTimeout = Pack_Void ()"
| "packValue_MicMessage (MicMessageWithConnectionResult x) = Pack_ConnectionResult x"
| "packValue_MicMessage (MicMessageWithDebugFile x) = Pack_Filename x"
| "packValue_MicMessage (MicMessageWithResult x) = Pack_IntentResult x"
| "packValue_MicMessage (MicMessageWithError x) = Pack_IntentError x"
| "packValue_MicMessage (MicMessageWithStreamOpen x) = Pack_StreamOpen x"
| "packValue_MicMessage MicMessageInvalid = returnM ()"

definition Pack_MicMessage :: "mic_message \<Rightarrow> writer" where
  "Pack_MicMessage m = bindM (write_word (Tag_MicMessage m)) (\<lambda>_. packValue_MicMessage m)"

definition unpackStruct_MicMessage :: "8 word \<Rightarrow> mic_message reader" where
  "unpackStruct_MicMessage tag =
     (if tag = 0 then bindM Unpack_Hotword (\<lambda>x. returnM (MicMessageWithHotword x))
      else if tag = 1 then bindM Unpack_AudioData (\<lambda>x. returnM (MicMessageWithAudio x))
      else if tag = 2 then bindM Unpack_Void (\<lambda>_. returnM MicMessageWithAudioDone)
      else if tag = 3 then bindM Unpack_Void (\<lambda>_. returnM MicMessageWithConnectionCheck)
      else if tag = 4 then bindM Unpack_Void (\<lambda>_. returnM MicMessageWithStopSignal)
      else if tag = 5 then bindM Unpack_Void (\<lambda>_. returnM MicMessageWithTestStarted)
      else if tag = 6 then bindM Unpack_Void (\<lambda>_. returnM MicMessageWithStreamTimeout)
      else if tag = 7 then bindM Unpack_ConnectionResult (\<lambda>x. returnM (MicMessageWithConnectionResult x))
      else if tag = 8 then bindM Unpack_Filename (\<lambda>x. returnM (MicMessageWithDebugFile x))
      else if tag = 9 then bindM Unpack_IntentResult (\<lambda>x. returnM (MicMessageWithResult x))
      else if tag = 10 then bindM Unpack_IntentError (\<lambda>x. returnM (MicMessageWithError x))
      else if tag = 11 then bindM Unpack_StreamOpen (\<lambda>x. returnM (MicMessageWithStreamOpen x))
      else failM (Errorf ''invalid tag to unpackStruct''))"

definition Unpack_MicMessage :: "mic_message reader" where
  "Unpack_MicMessage = bindM read_word (\<lambda>tag. if tag = 255 then returnM MicMessageInvalid else unpackStruct_MicMessage tag)"

primrec Size_MicMessage :: "mic_message \<Rightarrow> uint32" where
  "Size_MicMessage (MicMessageWithHotword x) = 1 + Size_Hotword x"
| "Size_MicMessage (MicMessageWithAudio x) = 1 + Size_AudioData x"
| "Size_MicMessage MicMessageWithAudioDone = 1 + Size_Void ()"
| "Size_MicMessage MicMessageWithConnectionCheck = 1 + Size_Void ()"
| "Size_MicMessage MicMessageWithStopSignal = 1 + Size_Void ()"
| "Size_MicMessage MicMessageWithTestStarted = 1 + Size_Void ()"
| "Size_MicMessage MicMessageWithStreamTimeout = 1 + Size_Void ()"
| "Size_MicMessage (MicMessageWithConnectionResult x) = 1 + Size_ConnectionResult x"
| "Size_MicMessage (MicMessageWithDebugFile x) = 1 + Size_Filename x"
| "Size_MicMessage (MicMessageWithResult x) = 1 + Size_IntentResult x"
| "Size_MicMessage (MicMessageWithError x) = 1 + Size_IntentError x"
| "Size_MicMessage (MicMessageWithStreamOpen x) = 1 + Size_StreamOpen x"
| "Size_MicMessage MicMessageInvalid = 1"

primrec fits_MicMessage :: "mic_message \<Rightarrow> bool" where
  "fits_MicMessage (MicMessageWithHotword x) = fits_Hotword x"
| "fits_MicMessage (MicMessageWithAudio x) = fits_AudioData x"
| "fits_MicMessage MicMessageWithAudioDone = True"
| "fits_MicMessage MicMessageWithConnectionCheck = True"
| "fits_MicMessage MicMessageWithStopSignal = True"
| "fits_MicMessage MicMessageWithTestStarted = True"
| "fits_MicMessage MicMessageWithStreamTimeout = True"
| "fits_MicMessage (MicMessageWithConnectionResult x) = fits_ConnectionResult x"
| "fits_MicMessage (MicMessageWithDebugFile x) = fits_Filename x"
| "fits_MicMessage (MicMessageWithResult x) = fits_IntentResult x"
| "fits_MicMessage (MicMessageWithError x) = fits_IntentError x"
| "fits_MicMessage (MicMessageWithStreamOpen x) = fits_StreamOpen x"
| "fits_MicMessage MicMessageInvalid = True"

lemma wired_MicMessage [wire]:
  "wired (Pack_MicMessage m) Unpack_MicMessage (fits_MicMessage m) (Size_MicMessage m) 131331 m"
proof (cases m)
  case (MicMessageWithHotword x)
  show ?thesis unfolding MicMessageWithHotword Pack_MicMessage_def Unpack_MicMessage_def
    by (rule wired_eq, rule wired_member [where f = MicMessageWithHotword, OF wired_Hotword [of "x"]])
      (simp_all add: unpackStruct_MicMessage_def)
next
  case (MicMessageWithAudio x)
  show ?thesis unfolding MicMessageWithAudio Pack_MicMessage_def Unpack_MicMessage_def
    by (rule wired_eq, rule wired_member [where f = MicMessageWithAudio, OF wired_AudioData [of "x"]])
      (simp_all add: unpackStruct_MicMessage_def)
next
  case MicMessageWithAudioDone
  show ?thesis unfolding MicMessageWithAudioDone Pack_MicMessage_def Unpack_MicMessage_def
    by (rule wired_eq, rule wired_member [where f = "\<lambda>_. MicMessageWithAudioDone", OF wired_Void [of "()"]])
      (simp_all add: unpackStruct_MicMessage_def)
next
  case MicMessageWithConnectionCheck
  show ?thesis unfolding MicMessageWithConnectionCheck Pack_MicMessage_def Unpack_MicMessage_def
    by (rule wired_eq, rule wired_member [where f = "\<lambda>_. MicMessageWithConnectionCheck", OF wired_Void [of "()"]])
      (simp_all add: unpackStruct_MicMessage_def)
next
  case MicMessageWithStopSignal
  show ?thesis unfolding MicMessageWithStopSignal Pack_MicMessage_def Unpack_MicMessage_def
    by (rule wired_eq, rule wired_member [where f = "\<lambda>_. MicMessageWithStopSignal", OF wired_Void [of "()"]])
      (simp_all add: unpackStruct_MicMessage_def)
next
  case MicMessageWithTestStarted
  show ?thesis unfolding MicMessageWithTestStarted Pack_MicMessage_def Unpack_MicMessage_def
    by (rule wired_eq, rule wired_member [where f = "\<lambda>_. MicMessageWithTestStarted", OF wired_Void [of "()"]])
      (simp_all add: unpackStruct_MicMessage_def)
next
  case MicMessageWithStreamTimeout
  show ?thesis unfolding MicMessageWithStreamTimeout Pack_MicMessage_def Unpack_MicMessage_def
    by (rule wired_eq, rule wired_member [where f = "\<lambda>_. MicMessageWithStreamTimeout", OF wired_Void [of "()"]])
      (simp_all add: unpackStruct_MicMessage_def)
next
  case (MicMessageWithConnectionResult x)
  show ?thesis unfolding MicMessageWithConnectionResult Pack_MicMessage_def Unpack_MicMessage_def
    by (rule wired_eq, rule wired_member [where f = MicMessageWithConnectionResult, OF wired_ConnectionResult [of "x"]])
      (simp_all add: unpackStruct_MicMessage_def)
next
  case (MicMessageWithDebugFile x)
  show ?thesis unfolding MicMessageWithDebugFile Pack_MicMessage_def Unpack_MicMessage_def
    by (rule wired_eq, rule wired_member [where f = MicMessageWithDebugFile, OF wired_Filename [of "x"]])
      (simp_all add: unpackStruct_MicMessage_def)
next
  case (MicMessageWithResult x)
  show ?thesis unfolding MicMessageWithResult Pack_MicMessage_def Unpack_MicMessage_def
    by (rule wired_eq, rule wired_member [where f = MicMessageWithResult, OF wired_IntentResult [of "x"]])
      (simp_all add: unpackStruct_MicMessage_def)
next
  case (MicMessageWithError x)
  show ?thesis unfolding MicMessageWithError Pack_MicMessage_def Unpack_MicMessage_def
    by (rule wired_eq, rule wired_member [where f = MicMessageWithError, OF wired_IntentError [of "x"]])
      (simp_all add: unpackStruct_MicMessage_def)
next
  case (MicMessageWithStreamOpen x)
  show ?thesis unfolding MicMessageWithStreamOpen Pack_MicMessage_def Unpack_MicMessage_def
    by (rule wired_eq, rule wired_member [where f = MicMessageWithStreamOpen, OF wired_StreamOpen [of "x"]])
      (simp_all add: unpackStruct_MicMessage_def)
next
  case MicMessageInvalid
  show ?thesis unfolding MicMessageInvalid Pack_MicMessage_def Unpack_MicMessage_def
    by (rule wired_eq, rule wired_invalid) simp_all
qed

lemma reader_MicMessage [reads]: "reader Unpack_MicMessage"
  unfolding Unpack_MicMessage_def unpackStruct_MicMessage_def by (rule reads reader_bind)+

section \<open>Logs\<close>

subsection \<open>\<open>UploadResponse\<close>\<close>

definition Pack_UploadResponse :: "string \<Rightarrow> writer" where
  "Pack_UploadResponse x =
     bindM (write_string TYPE(16) ''LogUrl'' x) (\<lambda>_.
     returnM ())"

definition Unpack_UploadResponse :: "string reader" where
  "Unpack_UploadResponse =
     bindM (read_string TYPE(16)) (\<lambda>logUrl.
     returnM logUrl)"

definition Size_UploadResponse :: "string \<Rightarrow> uint32" where
  "Size_UploadResponse x = 2 + of_nat (length x)"

definition fits_UploadResponse :: "string \<Rightarrow> bool" where
  "fits_UploadResponse x \<longleftrightarrow> length x < 2 ^ 16"

lemma wired_UploadResponse [wire]:
  "wired (Pack_UploadResponse x) Unpack_UploadResponse (fits_UploadResponse x) (Size_UploadResponse x) 65537 x"
  unfolding Pack_UploadResponse_def Unpack_UploadResponse_def
  by (rule wired_eq, (rule wire | simp add: fits_UploadResponse_def Size_UploadResponse_def)+)

lemma reader_UploadResponse [reads]: "reader Unpack_UploadResponse"
  unfolding Unpack_UploadResponse_def by (rule reads reader_bind)+

subsection \<open>\<open>UploadRequest\<close>\<close>

definition Pack_UploadRequest :: "string \<Rightarrow> writer" where
  "Pack_UploadRequest x =
     bindM (write_string TYPE(16) ''LogFileName'' x) (\<lambda>_.
     returnM ())"

definition Unpack_UploadRequest :: "string reader" where
  "Unpack_UploadRequest =
     bindM (read_string TYPE(16)) (\<lambda>logFileName.
     returnM logFileName)"

definition Size_UploadRequest :: "string \<Rightarrow> uint32" where
  "Size_UploadRequest x = 2 + of_nat (length x)"

definition fits_UploadRequest :: "string \<Rightarrow> bool" where
  "fits_UploadRequest x \<longleftrightarrow> length x < 2 ^ 16"

lemma wired_UploadRequest [wire]:
  "wired (Pack_UploadRequest x) Unpack_UploadRequest (fits_UploadRequest x) (Size_UploadRequest x) 65537 x"
  unfolding Pack_UploadRequest_def Unpack_UploadRequest_def
  by (rule wired_eq, (rule wire | simp add: fits_UploadRequest_def Size_UploadRequest_def)+)

lemma reader_UploadRequest [reads]: "reader Unpack_UploadRequest"
  unfolding Unpack_UploadRequest_def by (rule reads reader_bind)+

datatype log_collector_request =
    LogCollectorRequestWithUpload string
  | LogCollectorRequestInvalid

subsection \<open>\<open>LogCollectorRequest\<close>\<close>

primrec Tag_LogCollectorRequest :: "log_collector_request \<Rightarrow> 8 word" where
  "Tag_LogCollectorRequest (LogCollectorRequestWithUpload x) = 0"
| "Tag_LogCollectorRequest LogCollectorRequestInvalid = 255"

text \<open>\<open>m.value.Pack\<close>, on the structure that the message holds.\<close>

primrec packValue_LogCollectorRequest :: "log_collector_request \<Rightarrow> writer" where
  "packValue_LogCollectorRequest (LogCollectorRequestWithUpload x) = Pack_UploadRequest x"
| "packValue_LogCollectorRequest LogCollectorRequestInvalid = returnM ()"

definition Pack_LogCollectorRequest :: "log_collector_request \<Rightarrow> writer" where
  "Pack_LogCollectorRequest m = bindM (write_word (Tag_LogCollectorRequest m)) (\<lambda>_. packValue_LogCollectorRequest m)"

definition unpackStruct_LogCollectorRequest :: "8 word \<Rightarrow> log_collector_request reader" where
  "unpackStruct_LogCollectorRequest tag =
     (if tag = 0 then bindM Unpack_UploadRequest (\<lambda>x. returnM (LogCollectorRequestWithUpload x))
      else failM (Errorf ''invalid tag to unpackStruct''))"

definition Unpack_LogCollectorRequest :: "log_collector_request reader" where
  "Unpack_LogCollectorRequest = bindM read_word (\<lambda>tag. if tag = 255 then returnM LogCollectorRequestInvalid else unpackStruct_LogCollectorRequest tag)"

primrec Size_LogCollectorRequest :: "log_collector_request \<Rightarrow> uint32" where
  "Size_LogCollectorRequest (LogCollectorRequestWithUpload x) = 1 + Size_UploadRequest x"
| "Size_LogCollectorRequest LogCollectorRequestInvalid = 1"

primrec fits_LogCollectorRequest :: "log_collector_request \<Rightarrow> bool" where
  "fits_LogCollectorRequest (LogCollectorRequestWithUpload x) = fits_UploadRequest x"
| "fits_LogCollectorRequest LogCollectorRequestInvalid = True"

lemma wired_LogCollectorRequest [wire]:
  "wired (Pack_LogCollectorRequest m) Unpack_LogCollectorRequest (fits_LogCollectorRequest m) (Size_LogCollectorRequest m) 65538 m"
proof (cases m)
  case (LogCollectorRequestWithUpload x)
  show ?thesis unfolding LogCollectorRequestWithUpload Pack_LogCollectorRequest_def Unpack_LogCollectorRequest_def
    by (rule wired_eq, rule wired_member [where f = LogCollectorRequestWithUpload, OF wired_UploadRequest [of "x"]])
      (simp_all add: unpackStruct_LogCollectorRequest_def)
next
  case LogCollectorRequestInvalid
  show ?thesis unfolding LogCollectorRequestInvalid Pack_LogCollectorRequest_def Unpack_LogCollectorRequest_def
    by (rule wired_eq, rule wired_invalid) simp_all
qed

lemma reader_LogCollectorRequest [reads]: "reader Unpack_LogCollectorRequest"
  unfolding Unpack_LogCollectorRequest_def unpackStruct_LogCollectorRequest_def by (rule reads reader_bind)+

subsection \<open>\<open>LogCollectorErrorResponse\<close>\<close>

definition Pack_LogCollectorErrorResponse :: "byte \<Rightarrow> writer" where
  "Pack_LogCollectorErrorResponse x =
     bindM (write_word x) (\<lambda>_.
     returnM ())"

definition Unpack_LogCollectorErrorResponse :: "byte reader" where
  "Unpack_LogCollectorErrorResponse =
     bindM read_word (\<lambda>err.
     returnM err)"

definition Size_LogCollectorErrorResponse :: "byte \<Rightarrow> uint32" where
  "Size_LogCollectorErrorResponse x = 1"

lemma wired_LogCollectorErrorResponse [wire]:
  "wired (Pack_LogCollectorErrorResponse x) Unpack_LogCollectorErrorResponse True (Size_LogCollectorErrorResponse x) 1 x"
  unfolding Pack_LogCollectorErrorResponse_def Unpack_LogCollectorErrorResponse_def
  by (rule wired_eq, (rule wire | simp add: Size_LogCollectorErrorResponse_def)+)

lemma reader_LogCollectorErrorResponse [reads]: "reader Unpack_LogCollectorErrorResponse"
  unfolding Unpack_LogCollectorErrorResponse_def by (rule reads reader_bind)+

datatype log_collector_response =
    LogCollectorResponseWithUpload string
  | LogCollectorResponseWithErr byte
  | LogCollectorResponseInvalid

subsection \<open>\<open>LogCollectorResponse\<close>\<close>

primrec Tag_LogCollectorResponse :: "log_collector_response \<Rightarrow> 8 word" where
  "Tag_LogCollectorResponse (LogCollectorResponseWithUpload x) = 0"
| "Tag_LogCollectorResponse (LogCollectorResponseWithErr x) = 1"
| "Tag_LogCollectorResponse LogCollectorResponseInvalid = 255"

text \<open>\<open>m.value.Pack\<close>, on the structure that the message holds.\<close>

primrec packValue_LogCollectorResponse :: "log_collector_response \<Rightarrow> writer" where
  "packValue_LogCollectorResponse (LogCollectorResponseWithUpload x) = Pack_UploadResponse x"
| "packValue_LogCollectorResponse (LogCollectorResponseWithErr x) = Pack_LogCollectorErrorResponse x"
| "packValue_LogCollectorResponse LogCollectorResponseInvalid = returnM ()"

definition Pack_LogCollectorResponse :: "log_collector_response \<Rightarrow> writer" where
  "Pack_LogCollectorResponse m = bindM (write_word (Tag_LogCollectorResponse m)) (\<lambda>_. packValue_LogCollectorResponse m)"

definition unpackStruct_LogCollectorResponse :: "8 word \<Rightarrow> log_collector_response reader" where
  "unpackStruct_LogCollectorResponse tag =
     (if tag = 0 then bindM Unpack_UploadResponse (\<lambda>x. returnM (LogCollectorResponseWithUpload x))
      else if tag = 1 then bindM Unpack_LogCollectorErrorResponse (\<lambda>x. returnM (LogCollectorResponseWithErr x))
      else failM (Errorf ''invalid tag to unpackStruct''))"

definition Unpack_LogCollectorResponse :: "log_collector_response reader" where
  "Unpack_LogCollectorResponse = bindM read_word (\<lambda>tag. if tag = 255 then returnM LogCollectorResponseInvalid else unpackStruct_LogCollectorResponse tag)"

primrec Size_LogCollectorResponse :: "log_collector_response \<Rightarrow> uint32" where
  "Size_LogCollectorResponse (LogCollectorResponseWithUpload x) = 1 + Size_UploadResponse x"
| "Size_LogCollectorResponse (LogCollectorResponseWithErr x) = 1 + Size_LogCollectorErrorResponse x"
| "Size_LogCollectorResponse LogCollectorResponseInvalid = 1"

primrec fits_LogCollectorResponse :: "log_collector_response \<Rightarrow> bool" where
  "fits_LogCollectorResponse (LogCollectorResponseWithUpload x) = fits_UploadResponse x"
| "fits_LogCollectorResponse (LogCollectorResponseWithErr x) = True"
| "fits_LogCollectorResponse LogCollectorResponseInvalid = True"

lemma wired_LogCollectorResponse [wire]:
  "wired (Pack_LogCollectorResponse m) Unpack_LogCollectorResponse (fits_LogCollectorResponse m) (Size_LogCollectorResponse m) 65538 m"
proof (cases m)
  case (LogCollectorResponseWithUpload x)
  show ?thesis unfolding LogCollectorResponseWithUpload Pack_LogCollectorResponse_def Unpack_LogCollectorResponse_def
    by (rule wired_eq, rule wired_member [where f = LogCollectorResponseWithUpload, OF wired_UploadResponse [of "x"]])
      (simp_all add: unpackStruct_LogCollectorResponse_def)
next
  case (LogCollectorResponseWithErr x)
  show ?thesis unfolding LogCollectorResponseWithErr Pack_LogCollectorResponse_def Unpack_LogCollectorResponse_def
    by (rule wired_eq, rule wired_member [where f = LogCollectorResponseWithErr, OF wired_LogCollectorErrorResponse [of "x"]])
      (simp_all add: unpackStruct_LogCollectorResponse_def)
next
  case LogCollectorResponseInvalid
  show ?thesis unfolding LogCollectorResponseInvalid Pack_LogCollectorResponse_def Unpack_LogCollectorResponse_def
    by (rule wired_eq, rule wired_invalid) simp_all
qed

lemma reader_LogCollectorResponse [reads]: "reader Unpack_LogCollectorResponse"
  unfolding Unpack_LogCollectorResponse_def unpackStruct_LogCollectorResponse_def by (rule reads reader_bind)+

section \<open>Off-board vision\<close>

record offboard_image_ready =
  OffboardImageReady_Timestamp :: uint32
  OffboardImageReady_NumRows :: uint32
  OffboardImageReady_NumCols :: uint32
  OffboardImageReady_NumChannels :: uint32
  OffboardImageReady_IsCompressed :: bool
  OffboardImageReady_IsEncrypted :: bool
  OffboardImageReady_ProcTypes :: "string list"
  OffboardImageReady_Filename :: string

subsection \<open>\<open>OffboardImageReady\<close>\<close>

definition Pack_OffboardImageReady :: "offboard_image_ready \<Rightarrow> writer" where
  "Pack_OffboardImageReady x =
     bindM (write_word (OffboardImageReady_Timestamp x)) (\<lambda>_.
     bindM (write_word (OffboardImageReady_NumRows x)) (\<lambda>_.
     bindM (write_word (OffboardImageReady_NumCols x)) (\<lambda>_.
     bindM (write_word (OffboardImageReady_NumChannels x)) (\<lambda>_.
     bindM (write_bool (OffboardImageReady_IsCompressed x)) (\<lambda>_.
     bindM (write_bool (OffboardImageReady_IsEncrypted x)) (\<lambda>_.
     bindM (write_slice TYPE(8) ''ProcTypes'' (write_string TYPE(8) ''ProcTypes[idx]'') (OffboardImageReady_ProcTypes x)) (\<lambda>_.
     bindM (write_string TYPE(8) ''Filename'' (OffboardImageReady_Filename x)) (\<lambda>_.
     returnM ()))))))))"

definition Unpack_OffboardImageReady :: "offboard_image_ready reader" where
  "Unpack_OffboardImageReady =
     bindM read_word (\<lambda>timestamp.
     bindM read_word (\<lambda>numRows.
     bindM read_word (\<lambda>numCols.
     bindM read_word (\<lambda>numChannels.
     bindM read_bool (\<lambda>isCompressed.
     bindM read_bool (\<lambda>isEncrypted.
     bindM (read_slice TYPE(8) (read_string TYPE(8))) (\<lambda>procTypes.
     bindM (read_string TYPE(8)) (\<lambda>filename.
     returnM \<lparr>OffboardImageReady_Timestamp = timestamp, OffboardImageReady_NumRows = numRows, OffboardImageReady_NumCols = numCols, OffboardImageReady_NumChannels = numChannels, OffboardImageReady_IsCompressed = isCompressed, OffboardImageReady_IsEncrypted = isEncrypted, OffboardImageReady_ProcTypes = procTypes, OffboardImageReady_Filename = filename\<rparr>))))))))"

definition Size_OffboardImageReady :: "offboard_image_ready \<Rightarrow> uint32" where
  "Size_OffboardImageReady x = 4 + 4 + 4 + 4 + 1 + 1 + 1 + total_size (\<lambda>s. 1 + of_nat (length s)) (OffboardImageReady_ProcTypes x) + 1 + of_nat (length (OffboardImageReady_Filename x))"

definition fits_OffboardImageReady :: "offboard_image_ready \<Rightarrow> bool" where
  "fits_OffboardImageReady x \<longleftrightarrow> length (OffboardImageReady_ProcTypes x) < 2 ^ 8 \<and> list_all (\<lambda>s. length s < 2 ^ 8) (OffboardImageReady_ProcTypes x) \<and> length (OffboardImageReady_Filename x) < 2 ^ 8"

lemma wired_OffboardImageReady [wire]:
  "wired (Pack_OffboardImageReady x) Unpack_OffboardImageReady (fits_OffboardImageReady x) (Size_OffboardImageReady x) 65555 x"
  unfolding Pack_OffboardImageReady_def Unpack_OffboardImageReady_def
  by (rule wired_eq, (rule wire | simp add: fits_OffboardImageReady_def Size_OffboardImageReady_def)+)

lemma reader_OffboardImageReady [reads]: "reader Unpack_OffboardImageReady"
  unfolding Unpack_OffboardImageReady_def by (rule reads reader_bind)+

record offboard_result_ready =
  OffboardResultReady_Timestamp :: uint32
  OffboardResultReady_JsonResult :: string

subsection \<open>\<open>OffboardResultReady\<close>\<close>

definition Pack_OffboardResultReady :: "offboard_result_ready \<Rightarrow> writer" where
  "Pack_OffboardResultReady x =
     bindM (write_word (OffboardResultReady_Timestamp x)) (\<lambda>_.
     bindM (write_string TYPE(16) ''JsonResult'' (OffboardResultReady_JsonResult x)) (\<lambda>_.
     returnM ()))"

definition Unpack_OffboardResultReady :: "offboard_result_ready reader" where
  "Unpack_OffboardResultReady =
     bindM read_word (\<lambda>timestamp.
     bindM (read_string TYPE(16)) (\<lambda>jsonResult.
     returnM \<lparr>OffboardResultReady_Timestamp = timestamp, OffboardResultReady_JsonResult = jsonResult\<rparr>))"

definition Size_OffboardResultReady :: "offboard_result_ready \<Rightarrow> uint32" where
  "Size_OffboardResultReady x = 4 + 2 + of_nat (length (OffboardResultReady_JsonResult x))"

definition fits_OffboardResultReady :: "offboard_result_ready \<Rightarrow> bool" where
  "fits_OffboardResultReady x \<longleftrightarrow> length (OffboardResultReady_JsonResult x) < 2 ^ 16"

lemma wired_OffboardResultReady [wire]:
  "wired (Pack_OffboardResultReady x) Unpack_OffboardResultReady (fits_OffboardResultReady x) (Size_OffboardResultReady x) 65541 x"
  unfolding Pack_OffboardResultReady_def Unpack_OffboardResultReady_def
  by (rule wired_eq, (rule wire | simp add: fits_OffboardResultReady_def Size_OffboardResultReady_def)+)

lemma reader_OffboardResultReady [reads]: "reader Unpack_OffboardResultReady"
  unfolding Unpack_OffboardResultReady_def by (rule reads reader_bind)+

end
