(* ===== verification/Clad_Services.thy ===== *)
theory Clad_Services
  imports Clad_Cloud
begin

text \<open>
  The messages between the robot's processes and the cloud services, as message types that their
  users can rely on: what one process packs the other one reads back.
\<close>

interpretation tokenRequest: wire_codec Pack_TokenRequest Unpack_TokenRequest fits_TokenRequest Size_TokenRequest 769
  by unfold_locales (rule wired_TokenRequest, rule reader_TokenRequest)

interpretation tokenResponse: wire_codec Pack_TokenResponse Unpack_TokenResponse fits_TokenResponse Size_TokenResponse 131076
  by unfold_locales (rule wired_TokenResponse, rule reader_TokenResponse)

interpretation docRequest: wire_codec Pack_DocRequest Unpack_DocRequest fits_DocRequest Size_DocRequest 4295164183
  by unfold_locales (rule wired_DocRequest, rule reader_DocRequest)

interpretation docResponse: wire_codec Pack_DocResponse Unpack_DocResponse fits_DocResponse Size_DocResponse 281470699831023
  by unfold_locales (rule wired_DocResponse, rule reader_DocResponse)

interpretation micMessage: wire_codec Pack_MicMessage Unpack_MicMessage fits_MicMessage Size_MicMessage 131331
  by unfold_locales (rule wired_MicMessage, rule reader_MicMessage)

interpretation logRequest: wire_codec Pack_LogCollectorRequest Unpack_LogCollectorRequest
    fits_LogCollectorRequest Size_LogCollectorRequest 65538
  by unfold_locales (rule wired_LogCollectorRequest, rule reader_LogCollectorRequest)

interpretation logResponse: wire_codec Pack_LogCollectorResponse Unpack_LogCollectorResponse
    fits_LogCollectorResponse Size_LogCollectorResponse 65538
  by unfold_locales (rule wired_LogCollectorResponse, rule reader_LogCollectorResponse)

interpretation offboardImage: wire_codec Pack_OffboardImageReady Unpack_OffboardImageReady
    fits_OffboardImageReady Size_OffboardImageReady 65555
  by unfold_locales (rule wired_OffboardImageReady, rule reader_OffboardImageReady)

interpretation offboardResult: wire_codec Pack_OffboardResultReady Unpack_OffboardResultReady
    fits_OffboardResultReady Size_OffboardResultReady 65541
  by unfold_locales (rule wired_OffboardResultReady, rule reader_OffboardResultReady)


end
