(* ===== verification/Clad_Switchboard.thy ===== *)
theory Clad_Switchboard
  imports Clad_Token
begin

text \<open>
  The messages between the gateway and the switchboard, which holds the Bluetooth connection:
  \<open>internal/clad/gateway/switchboard.go\<close>.
\<close>

subsection \<open>\<open>SwitchboardError\<close>\<close>

definition Pack_SwitchboardError :: "unit \<Rightarrow> writer" where
  "Pack_SwitchboardError x =
     returnM ()"

definition Unpack_SwitchboardError :: "unit reader" where
  "Unpack_SwitchboardError =
     returnM ()"

definition Size_SwitchboardError :: "unit \<Rightarrow> uint32" where
  "Size_SwitchboardError x = 0"

lemma wired_SwitchboardError [wire]:
  "wired (Pack_SwitchboardError x) Unpack_SwitchboardError True (Size_SwitchboardError x) 0 x"
  unfolding Pack_SwitchboardError_def Unpack_SwitchboardError_def
  by (rule wired_eq, (rule wire | simp add: Size_SwitchboardError_def)+)

lemma reader_SwitchboardError [reads]: "reader Unpack_SwitchboardError"
  unfolding Unpack_SwitchboardError_def by (rule reads reader_bind)+

subsection \<open>\<open>ExternalConnectionRequest\<close>\<close>

definition Pack_ExternalConnectionRequest :: "unit \<Rightarrow> writer" where
  "Pack_ExternalConnectionRequest x =
     returnM ()"

definition Unpack_ExternalConnectionRequest :: "unit reader" where
  "Unpack_ExternalConnectionRequest =
     returnM ()"

definition Size_ExternalConnectionRequest :: "unit \<Rightarrow> uint32" where
  "Size_ExternalConnectionRequest x = 0"

lemma wired_ExternalConnectionRequest [wire]:
  "wired (Pack_ExternalConnectionRequest x) Unpack_ExternalConnectionRequest True (Size_ExternalConnectionRequest x) 0 x"
  unfolding Pack_ExternalConnectionRequest_def Unpack_ExternalConnectionRequest_def
  by (rule wired_eq, (rule wire | simp add: Size_ExternalConnectionRequest_def)+)

lemma reader_ExternalConnectionRequest [reads]: "reader Unpack_ExternalConnectionRequest"
  unfolding Unpack_ExternalConnectionRequest_def by (rule reads reader_bind)+

record external_connection_response =
  ExternalConnectionResponse_IsConnected :: bool
  ExternalConnectionResponse_ConnectionId :: string

subsection \<open>\<open>ExternalConnectionResponse\<close>\<close>

definition Pack_ExternalConnectionResponse :: "external_connection_response \<Rightarrow> writer" where
  "Pack_ExternalConnectionResponse x =
     bindM (write_bool (ExternalConnectionResponse_IsConnected x)) (\<lambda>_.
     bindM (write_string TYPE(16) ''ConnectionId'' (ExternalConnectionResponse_ConnectionId x)) (\<lambda>_.
     returnM ()))"

definition Unpack_ExternalConnectionResponse :: "external_connection_response reader" where
  "Unpack_ExternalConnectionResponse =
     bindM read_bool (\<lambda>isConnected.
     bindM (read_string TYPE(16)) (\<lambda>connectionId.
     returnM \<lparr>ExternalConnectionResponse_IsConnected = isConnected, ExternalConnectionResponse_ConnectionId = connectionId\<rparr>))"

definition Size_ExternalConnectionResponse :: "external_connection_response \<Rightarrow> uint32" where
  "Size_ExternalConnectionResponse x = 1 + 2 + of_nat (length (ExternalConnectionResponse_ConnectionId x))"

definition fits_ExternalConnectionResponse :: "external_connection_response \<Rightarrow> bool" where
  "fits_ExternalConnectionResponse x \<longleftrightarrow> length (ExternalConnectionResponse_ConnectionId x) < 2 ^ 16"

lemma wired_ExternalConnectionResponse [wire]:
  "wired (Pack_ExternalConnectionResponse x) Unpack_ExternalConnectionResponse (fits_ExternalConnectionResponse x) (Size_ExternalConnectionResponse x) 65538 x"
  unfolding Pack_ExternalConnectionResponse_def Unpack_ExternalConnectionResponse_def
  by (rule wired_eq, (rule wire | simp add: fits_ExternalConnectionResponse_def Size_ExternalConnectionResponse_def)+)

lemma reader_ExternalConnectionResponse [reads]: "reader Unpack_ExternalConnectionResponse"
  unfolding Unpack_ExternalConnectionResponse_def by (rule reads reader_bind)+

subsection \<open>\<open>ClientGuidRefreshRequest\<close>\<close>

definition Pack_ClientGuidRefreshRequest :: "unit \<Rightarrow> writer" where
  "Pack_ClientGuidRefreshRequest x =
     returnM ()"

definition Unpack_ClientGuidRefreshRequest :: "unit reader" where
  "Unpack_ClientGuidRefreshRequest =
     returnM ()"

definition Size_ClientGuidRefreshRequest :: "unit \<Rightarrow> uint32" where
  "Size_ClientGuidRefreshRequest x = 0"

lemma wired_ClientGuidRefreshRequest [wire]:
  "wired (Pack_ClientGuidRefreshRequest x) Unpack_ClientGuidRefreshRequest True (Size_ClientGuidRefreshRequest x) 0 x"
  unfolding Pack_ClientGuidRefreshRequest_def Unpack_ClientGuidRefreshRequest_def
  by (rule wired_eq, (rule wire | simp add: Size_ClientGuidRefreshRequest_def)+)

lemma reader_ClientGuidRefreshRequest [reads]: "reader Unpack_ClientGuidRefreshRequest"
  unfolding Unpack_ClientGuidRefreshRequest_def by (rule reads reader_bind)+

subsection \<open>\<open>ClientGuidRefreshResponse\<close>\<close>

definition Pack_ClientGuidRefreshResponse :: "unit \<Rightarrow> writer" where
  "Pack_ClientGuidRefreshResponse x =
     returnM ()"

definition Unpack_ClientGuidRefreshResponse :: "unit reader" where
  "Unpack_ClientGuidRefreshResponse =
     returnM ()"

definition Size_ClientGuidRefreshResponse :: "unit \<Rightarrow> uint32" where
  "Size_ClientGuidRefreshResponse x = 0"

lemma wired_ClientGuidRefreshResponse [wire]:
  "wired (Pack_ClientGuidRefreshResponse x) Unpack_ClientGuidRefreshResponse True (Size_ClientGuidRefreshResponse x) 0 x"
  unfolding Pack_ClientGuidRefreshResponse_def Unpack_ClientGuidRefreshResponse_def
  by (rule wired_eq, (rule wire | simp add: Size_ClientGuidRefreshResponse_def)+)

lemma reader_ClientGuidRefreshResponse [reads]: "reader Unpack_ClientGuidRefreshResponse"
  unfolding Unpack_ClientGuidRefreshResponse_def by (rule reads reader_bind)+

record sdk_proxy_request =
  SdkProxyRequest_ClientGuid :: string
  SdkProxyRequest_MessageId :: string
  SdkProxyRequest_Path :: string
  SdkProxyRequest_Json :: string

subsection \<open>\<open>SdkProxyRequest\<close>\<close>

definition Pack_SdkProxyRequest :: "sdk_proxy_request \<Rightarrow> writer" where
  "Pack_SdkProxyRequest x =
     bindM (write_string TYPE(8) ''ClientGuid'' (SdkProxyRequest_ClientGuid x)) (\<lambda>_.
     bindM (write_string TYPE(8) ''MessageId'' (SdkProxyRequest_MessageId x)) (\<lambda>_.
     bindM (write_string TYPE(8) ''Path'' (SdkProxyRequest_Path x)) (\<lambda>_.
     bindM (write_string TYPE(16) ''Json'' (SdkProxyRequest_Json x)) (\<lambda>_.
     returnM ()))))"

definition Unpack_SdkProxyRequest :: "sdk_proxy_request reader" where
  "Unpack_SdkProxyRequest =
     bindM (read_string TYPE(8)) (\<lambda>clientGuid.
     bindM (read_string TYPE(8)) (\<lambda>messageId.
     bindM (read_string TYPE(8)) (\<lambda>path.
     bindM (read_string TYPE(16)) (\<lambda>json.
     returnM \<lparr>SdkProxyRequest_ClientGuid = clientGuid, SdkProxyRequest_MessageId = messageId, SdkProxyRequest_Path = path, SdkProxyRequest_Json = json\<rparr>))))"

definition Size_SdkProxyRequest :: "sdk_proxy_request \<Rightarrow> uint32" where
  "Size_SdkProxyRequest x = 1 + of_nat (length (SdkProxyRequest_ClientGuid x)) + 1 + of_nat (length (SdkProxyRequest_MessageId x)) + 1 + of_nat (length (SdkProxyRequest_Path x)) + 2 + of_nat (length (SdkProxyRequest_Json x))"

definition fits_SdkProxyRequest :: "sdk_proxy_request \<Rightarrow> bool" where
  "fits_SdkProxyRequest x \<longleftrightarrow> length (SdkProxyRequest_ClientGuid x) < 2 ^ 8 \<and> length (SdkProxyRequest_MessageId x) < 2 ^ 8 \<and> length (SdkProxyRequest_Path x) < 2 ^ 8 \<and> length (SdkProxyRequest_Json x) < 2 ^ 16"

lemma wired_SdkProxyRequest [wire]:
  "wired (Pack_SdkProxyRequest x) Unpack_SdkProxyRequest (fits_SdkProxyRequest x) (Size_SdkProxyRequest x) 66305 x"
  unfolding Pack_SdkProxyRequest_def Unpack_SdkProxyRequest_def
  by (rule wired_eq, (rule wire | simp add: fits_SdkProxyRequest_def Size_SdkProxyRequest_def)+)

lemma reader_SdkProxyRequest [reads]: "reader Unpack_SdkProxyRequest"
  unfolding Unpack_SdkProxyRequest_def by (rule reads reader_bind)+

record sdk_proxy_response =
  SdkProxyResponse_MessageId :: string
  SdkProxyResponse_StatusCode :: uint16
  SdkProxyResponse_ContentType :: string
  SdkProxyResponse_Content :: string

subsection \<open>\<open>SdkProxyResponse\<close>\<close>

definition Pack_SdkProxyResponse :: "sdk_proxy_response \<Rightarrow> writer" where
  "Pack_SdkProxyResponse x =
     bindM (write_string TYPE(8) ''MessageId'' (SdkProxyResponse_MessageId x)) (\<lambda>_.
     bindM (write_word (SdkProxyResponse_StatusCode x)) (\<lambda>_.
     bindM (write_string TYPE(8) ''ContentType'' (SdkProxyResponse_ContentType x)) (\<lambda>_.
     bindM (write_string TYPE(16) ''Content'' (SdkProxyResponse_Content x)) (\<lambda>_.
     returnM ()))))"

definition Unpack_SdkProxyResponse :: "sdk_proxy_response reader" where
  "Unpack_SdkProxyResponse =
     bindM (read_string TYPE(8)) (\<lambda>messageId.
     bindM read_word (\<lambda>statusCode.
     bindM (read_string TYPE(8)) (\<lambda>contentType.
     bindM (read_string TYPE(16)) (\<lambda>content.
     returnM \<lparr>SdkProxyResponse_MessageId = messageId, SdkProxyResponse_StatusCode = statusCode, SdkProxyResponse_ContentType = contentType, SdkProxyResponse_Content = content\<rparr>))))"

definition Size_SdkProxyResponse :: "sdk_proxy_response \<Rightarrow> uint32" where
  "Size_SdkProxyResponse x = 1 + of_nat (length (SdkProxyResponse_MessageId x)) + 2 + 1 + of_nat (length (SdkProxyResponse_ContentType x)) + 2 + of_nat (length (SdkProxyResponse_Content x))"

definition fits_SdkProxyResponse :: "sdk_proxy_response \<Rightarrow> bool" where
  "fits_SdkProxyResponse x \<longleftrightarrow> length (SdkProxyResponse_MessageId x) < 2 ^ 8 \<and> length (SdkProxyResponse_ContentType x) < 2 ^ 8 \<and> length (SdkProxyResponse_Content x) < 2 ^ 16"

lemma wired_SdkProxyResponse [wire]:
  "wired (Pack_SdkProxyResponse x) Unpack_SdkProxyResponse (fits_SdkProxyResponse x) (Size_SdkProxyResponse x) 66051 x"
  unfolding Pack_SdkProxyResponse_def Unpack_SdkProxyResponse_def
  by (rule wired_eq, (rule wire | simp add: fits_SdkProxyResponse_def Size_SdkProxyResponse_def)+)

lemma reader_SdkProxyResponse [reads]: "reader Unpack_SdkProxyResponse"
  unfolding Unpack_SdkProxyResponse_def by (rule reads reader_bind)+

datatype switchboard_request =
    SwitchboardRequestWithSwitchboardError
  | SwitchboardRequestWithAuthRequest auth_request
  | SwitchboardRequestWithJwtRequest bool
  | SwitchboardRequestWithExternalConnectionRequest
  | SwitchboardRequestWithExternalConnectionResponse external_connection_response
  | SwitchboardRequestWithClientGuidRefreshResponse
  | SwitchboardRequestWithSdkProxyResponse sdk_proxy_response
  | SwitchboardRequestInvalid

subsection \<open>\<open>SwitchboardRequest\<close>\<close>

primrec Tag_SwitchboardRequest :: "switchboard_request \<Rightarrow> 8 word" where
  "Tag_SwitchboardRequest SwitchboardRequestWithSwitchboardError = 1"
| "Tag_SwitchboardRequest (SwitchboardRequestWithAuthRequest x) = 2"
| "Tag_SwitchboardRequest (SwitchboardRequestWithJwtRequest x) = 3"
| "Tag_SwitchboardRequest SwitchboardRequestWithExternalConnectionRequest = 4"
| "Tag_SwitchboardRequest (SwitchboardRequestWithExternalConnectionResponse x) = 5"
| "Tag_SwitchboardRequest SwitchboardRequestWithClientGuidRefreshResponse = 6"
| "Tag_SwitchboardRequest (SwitchboardRequestWithSdkProxyResponse x) = 7"
| "Tag_SwitchboardRequest SwitchboardRequestInvalid = 255"

text \<open>\<open>m.value.Pack\<close>, on the structure that the message holds.\<close>

primrec packValue_SwitchboardRequest :: "switchboard_request \<Rightarrow> writer" where
  "packValue_SwitchboardRequest SwitchboardRequestWithSwitchboardError = Pack_SwitchboardError ()"
| "packValue_SwitchboardRequest (SwitchboardRequestWithAuthRequest x) = Pack_AuthRequest x"
| "packValue_SwitchboardRequest (SwitchboardRequestWithJwtRequest x) = Pack_JwtRequest x"
| "packValue_SwitchboardRequest SwitchboardRequestWithExternalConnectionRequest = Pack_ExternalConnectionRequest ()"
| "packValue_SwitchboardRequest (SwitchboardRequestWithExternalConnectionResponse x) = Pack_ExternalConnectionResponse x"
| "packValue_SwitchboardRequest SwitchboardRequestWithClientGuidRefreshResponse = Pack_ClientGuidRefreshResponse ()"
| "packValue_SwitchboardRequest (SwitchboardRequestWithSdkProxyResponse x) = Pack_SdkProxyResponse x"
| "packValue_SwitchboardRequest SwitchboardRequestInvalid = returnM ()"

definition Pack_SwitchboardRequest :: "switchboard_request \<Rightarrow> writer" where
  "Pack_SwitchboardRequest m = bindM (write_word (Tag_SwitchboardRequest m)) (\<lambda>_. packValue_SwitchboardRequest m)"

definition unpackStruct_SwitchboardRequest :: "8 word \<Rightarrow> switchboard_request reader" where
  "unpackStruct_SwitchboardRequest tag =
     (if tag = 1 then bindM Unpack_SwitchboardError (\<lambda>_. returnM SwitchboardRequestWithSwitchboardError)
      else if tag = 2 then bindM Unpack_AuthRequest (\<lambda>x. returnM (SwitchboardRequestWithAuthRequest x))
      else if tag = 3 then bindM Unpack_JwtRequest (\<lambda>x. returnM (SwitchboardRequestWithJwtRequest x))
      else if tag = 4 then bindM Unpack_ExternalConnectionRequest (\<lambda>_. returnM SwitchboardRequestWithExternalConnectionRequest)
      else if tag = 5 then bindM Unpack_ExternalConnectionResponse (\<lambda>x. returnM (SwitchboardRequestWithExternalConnectionResponse x))
      else if tag = 6 then bindM Unpack_ClientGuidRefreshResponse (\<lambda>_. returnM SwitchboardRequestWithClientGuidRefreshResponse)
      else if tag = 7 then bindM Unpack_SdkProxyResponse (\<lambda>x. returnM (SwitchboardRequestWithSdkProxyResponse x))
      else failM (Errorf ''invalid tag to unpackStruct''))"

definition Unpack_SwitchboardRequest :: "switchboard_request reader" where
  "Unpack_SwitchboardRequest = bindM read_word (\<lambda>tag. if tag = 255 then returnM SwitchboardRequestInvalid else unpackStruct_SwitchboardRequest tag)"

primrec Size_SwitchboardRequest :: "switchboard_request \<Rightarrow> uint32" where
  "Size_SwitchboardRequest SwitchboardRequestWithSwitchboardError = 1 + Size_SwitchboardError ()"
| "Size_SwitchboardRequest (SwitchboardRequestWithAuthRequest x) = 1 + Size_AuthRequest x"
| "Size_SwitchboardRequest (SwitchboardRequestWithJwtRequest x) = 1 + Size_JwtRequest x"
| "Size_SwitchboardRequest SwitchboardRequestWithExternalConnectionRequest = 1 + Size_ExternalConnectionRequest ()"
| "Size_SwitchboardRequest (SwitchboardRequestWithExternalConnectionResponse x) = 1 + Size_ExternalConnectionResponse x"
| "Size_SwitchboardRequest SwitchboardRequestWithClientGuidRefreshResponse = 1 + Size_ClientGuidRefreshResponse ()"
| "Size_SwitchboardRequest (SwitchboardRequestWithSdkProxyResponse x) = 1 + Size_SdkProxyResponse x"
| "Size_SwitchboardRequest SwitchboardRequestInvalid = 1"

primrec fits_SwitchboardRequest :: "switchboard_request \<Rightarrow> bool" where
  "fits_SwitchboardRequest SwitchboardRequestWithSwitchboardError = True"
| "fits_SwitchboardRequest (SwitchboardRequestWithAuthRequest x) = fits_AuthRequest x"
| "fits_SwitchboardRequest (SwitchboardRequestWithJwtRequest x) = True"
| "fits_SwitchboardRequest SwitchboardRequestWithExternalConnectionRequest = True"
| "fits_SwitchboardRequest (SwitchboardRequestWithExternalConnectionResponse x) = fits_ExternalConnectionResponse x"
| "fits_SwitchboardRequest SwitchboardRequestWithClientGuidRefreshResponse = True"
| "fits_SwitchboardRequest (SwitchboardRequestWithSdkProxyResponse x) = fits_SdkProxyResponse x"
| "fits_SwitchboardRequest SwitchboardRequestInvalid = True"

lemma wired_SwitchboardRequest [wire]:
  "wired (Pack_SwitchboardRequest m) Unpack_SwitchboardRequest (fits_SwitchboardRequest m) (Size_SwitchboardRequest m) 66052 m"
proof (cases m)
  case SwitchboardRequestWithSwitchboardError
  show ?thesis unfolding SwitchboardRequestWithSwitchboardError Pack_SwitchboardRequest_def Unpack_SwitchboardRequest_def
    by (rule wired_eq, rule wired_member [where f = "\<lambda>_. SwitchboardRequestWithSwitchboardError", OF wired_SwitchboardError [of "()"]])
      (simp_all add: unpackStruct_SwitchboardRequest_def)
next
  case (SwitchboardRequestWithAuthRequest x)
  show ?thesis unfolding SwitchboardRequestWithAuthRequest Pack_SwitchboardRequest_def Unpack_SwitchboardRequest_def
    by (rule wired_eq, rule wired_member [where f = SwitchboardRequestWithAuthRequest, OF wired_AuthRequest [of "x"]])
      (simp_all add: unpackStruct_SwitchboardRequest_def)
next
  case (SwitchboardRequestWithJwtRequest x)
  show ?thesis unfolding SwitchboardRequestWithJwtRequest Pack_SwitchboardRequest_def Unpack_SwitchboardRequest_def
    by (rule wired_eq, rule wired_member [where f = SwitchboardRequestWithJwtRequest, OF wired_JwtRequest [of "x"]])
      (simp_all add: unpackStruct_SwitchboardRequest_def)
next
  case SwitchboardRequestWithExternalConnectionRequest
  show ?thesis unfolding SwitchboardRequestWithExternalConnectionRequest Pack_SwitchboardRequest_def Unpack_SwitchboardRequest_def
    by (rule wired_eq, rule wired_member [where f = "\<lambda>_. SwitchboardRequestWithExternalConnectionRequest", OF wired_ExternalConnectionRequest [of "()"]])
      (simp_all add: unpackStruct_SwitchboardRequest_def)
next
  case (SwitchboardRequestWithExternalConnectionResponse x)
  show ?thesis unfolding SwitchboardRequestWithExternalConnectionResponse Pack_SwitchboardRequest_def Unpack_SwitchboardRequest_def
    by (rule wired_eq, rule wired_member [where f = SwitchboardRequestWithExternalConnectionResponse, OF wired_ExternalConnectionResponse [of "x"]])
      (simp_all add: unpackStruct_SwitchboardRequest_def)
next
  case SwitchboardRequestWithClientGuidRefreshResponse
  show ?thesis unfolding SwitchboardRequestWithClientGuidRefreshResponse Pack_SwitchboardRequest_def Unpack_SwitchboardRequest_def
    by (rule wired_eq, rule wired_member [where f = "\<lambda>_. SwitchboardRequestWithClientGuidRefreshResponse", OF wired_ClientGuidRefreshResponse [of "()"]])
      (simp_all add: unpackStruct_SwitchboardRequest_def)
next
  case (SwitchboardRequestWithSdkProxyResponse x)
  show ?thesis unfolding SwitchboardRequestWithSdkProxyResponse Pack_SwitchboardRequest_def Unpack_SwitchboardRequest_def
    by (rule wired_eq, rule wired_member [where f = SwitchboardRequestWithSdkProxyResponse, OF wired_SdkProxyResponse [of "x"]])
      (simp_all add: unpackStruct_SwitchboardRequest_def)
next
  case SwitchboardRequestInvalid
  show ?thesis unfolding SwitchboardRequestInvalid Pack_SwitchboardRequest_def Unpack_SwitchboardRequest_def
    by (rule wired_eq, rule wired_invalid) simp_all
qed

lemma reader_SwitchboardRequest [reads]: "reader Unpack_SwitchboardRequest"
  unfolding Unpack_SwitchboardRequest_def unpackStruct_SwitchboardRequest_def by (rule reads reader_bind)+

datatype switchboard_response =
    SwitchboardResponseWithSwitchboardError
  | SwitchboardResponseWithAuthResponse auth_response
  | SwitchboardResponseWithJwtResponse jwt_response
  | SwitchboardResponseWithExternalConnectionRequest
  | SwitchboardResponseWithExternalConnectionResponse external_connection_response
  | SwitchboardResponseWithClientGuidRefreshRequest
  | SwitchboardResponseWithSdkProxyRequest sdk_proxy_request
  | SwitchboardResponseInvalid

subsection \<open>\<open>SwitchboardResponse\<close>\<close>

primrec Tag_SwitchboardResponse :: "switchboard_response \<Rightarrow> 8 word" where
  "Tag_SwitchboardResponse SwitchboardResponseWithSwitchboardError = 1"
| "Tag_SwitchboardResponse (SwitchboardResponseWithAuthResponse x) = 2"
| "Tag_SwitchboardResponse (SwitchboardResponseWithJwtResponse x) = 3"
| "Tag_SwitchboardResponse SwitchboardResponseWithExternalConnectionRequest = 4"
| "Tag_SwitchboardResponse (SwitchboardResponseWithExternalConnectionResponse x) = 5"
| "Tag_SwitchboardResponse SwitchboardResponseWithClientGuidRefreshRequest = 6"
| "Tag_SwitchboardResponse (SwitchboardResponseWithSdkProxyRequest x) = 7"
| "Tag_SwitchboardResponse SwitchboardResponseInvalid = 255"

text \<open>\<open>m.value.Pack\<close>, on the structure that the message holds.\<close>

primrec packValue_SwitchboardResponse :: "switchboard_response \<Rightarrow> writer" where
  "packValue_SwitchboardResponse SwitchboardResponseWithSwitchboardError = Pack_SwitchboardError ()"
| "packValue_SwitchboardResponse (SwitchboardResponseWithAuthResponse x) = Pack_AuthResponse x"
| "packValue_SwitchboardResponse (SwitchboardResponseWithJwtResponse x) = Pack_JwtResponse x"
| "packValue_SwitchboardResponse SwitchboardResponseWithExternalConnectionRequest = Pack_ExternalConnectionRequest ()"
| "packValue_SwitchboardResponse (SwitchboardResponseWithExternalConnectionResponse x) = Pack_ExternalConnectionResponse x"
| "packValue_SwitchboardResponse SwitchboardResponseWithClientGuidRefreshRequest = Pack_ClientGuidRefreshRequest ()"
| "packValue_SwitchboardResponse (SwitchboardResponseWithSdkProxyRequest x) = Pack_SdkProxyRequest x"
| "packValue_SwitchboardResponse SwitchboardResponseInvalid = returnM ()"

definition Pack_SwitchboardResponse :: "switchboard_response \<Rightarrow> writer" where
  "Pack_SwitchboardResponse m = bindM (write_word (Tag_SwitchboardResponse m)) (\<lambda>_. packValue_SwitchboardResponse m)"

definition unpackStruct_SwitchboardResponse :: "8 word \<Rightarrow> switchboard_response reader" where
  "unpackStruct_SwitchboardResponse tag =
     (if tag = 1 then bindM Unpack_SwitchboardError (\<lambda>_. returnM SwitchboardResponseWithSwitchboardError)
      else if tag = 2 then bindM Unpack_AuthResponse (\<lambda>x. returnM (SwitchboardResponseWithAuthResponse x))
      else if tag = 3 then bindM Unpack_JwtResponse (\<lambda>x. returnM (SwitchboardResponseWithJwtResponse x))
      else if tag = 4 then bindM Unpack_ExternalConnectionRequest (\<lambda>_. returnM SwitchboardResponseWithExternalConnectionRequest)
      else if tag = 5 then bindM Unpack_ExternalConnectionResponse (\<lambda>x. returnM (SwitchboardResponseWithExternalConnectionResponse x))
      else if tag = 6 then bindM Unpack_ClientGuidRefreshRequest (\<lambda>_. returnM SwitchboardResponseWithClientGuidRefreshRequest)
      else if tag = 7 then bindM Unpack_SdkProxyRequest (\<lambda>x. returnM (SwitchboardResponseWithSdkProxyRequest x))
      else failM (Errorf ''invalid tag to unpackStruct''))"

definition Unpack_SwitchboardResponse :: "switchboard_response reader" where
  "Unpack_SwitchboardResponse = bindM read_word (\<lambda>tag. if tag = 255 then returnM SwitchboardResponseInvalid else unpackStruct_SwitchboardResponse tag)"

primrec Size_SwitchboardResponse :: "switchboard_response \<Rightarrow> uint32" where
  "Size_SwitchboardResponse SwitchboardResponseWithSwitchboardError = 1 + Size_SwitchboardError ()"
| "Size_SwitchboardResponse (SwitchboardResponseWithAuthResponse x) = 1 + Size_AuthResponse x"
| "Size_SwitchboardResponse (SwitchboardResponseWithJwtResponse x) = 1 + Size_JwtResponse x"
| "Size_SwitchboardResponse SwitchboardResponseWithExternalConnectionRequest = 1 + Size_ExternalConnectionRequest ()"
| "Size_SwitchboardResponse (SwitchboardResponseWithExternalConnectionResponse x) = 1 + Size_ExternalConnectionResponse x"
| "Size_SwitchboardResponse SwitchboardResponseWithClientGuidRefreshRequest = 1 + Size_ClientGuidRefreshRequest ()"
| "Size_SwitchboardResponse (SwitchboardResponseWithSdkProxyRequest x) = 1 + Size_SdkProxyRequest x"
| "Size_SwitchboardResponse SwitchboardResponseInvalid = 1"

primrec fits_SwitchboardResponse :: "switchboard_response \<Rightarrow> bool" where
  "fits_SwitchboardResponse SwitchboardResponseWithSwitchboardError = True"
| "fits_SwitchboardResponse (SwitchboardResponseWithAuthResponse x) = fits_AuthResponse x"
| "fits_SwitchboardResponse (SwitchboardResponseWithJwtResponse x) = fits_JwtResponse x"
| "fits_SwitchboardResponse SwitchboardResponseWithExternalConnectionRequest = True"
| "fits_SwitchboardResponse (SwitchboardResponseWithExternalConnectionResponse x) = fits_ExternalConnectionResponse x"
| "fits_SwitchboardResponse SwitchboardResponseWithClientGuidRefreshRequest = True"
| "fits_SwitchboardResponse (SwitchboardResponseWithSdkProxyRequest x) = fits_SdkProxyRequest x"
| "fits_SwitchboardResponse SwitchboardResponseInvalid = True"

lemma wired_SwitchboardResponse [wire]:
  "wired (Pack_SwitchboardResponse m) Unpack_SwitchboardResponse (fits_SwitchboardResponse m) (Size_SwitchboardResponse m) 131076 m"
proof (cases m)
  case SwitchboardResponseWithSwitchboardError
  show ?thesis unfolding SwitchboardResponseWithSwitchboardError Pack_SwitchboardResponse_def Unpack_SwitchboardResponse_def
    by (rule wired_eq, rule wired_member [where f = "\<lambda>_. SwitchboardResponseWithSwitchboardError", OF wired_SwitchboardError [of "()"]])
      (simp_all add: unpackStruct_SwitchboardResponse_def)
next
  case (SwitchboardResponseWithAuthResponse x)
  show ?thesis unfolding SwitchboardResponseWithAuthResponse Pack_SwitchboardResponse_def Unpack_SwitchboardResponse_def
    by (rule wired_eq, rule wired_member [where f = SwitchboardResponseWithAuthResponse, OF wired_AuthResponse [of "x"]])
      (simp_all add: unpackStruct_SwitchboardResponse_def)
next
  case (SwitchboardResponseWithJwtResponse x)
  show ?thesis unfolding SwitchboardResponseWithJwtResponse Pack_SwitchboardResponse_def Unpack_SwitchboardResponse_def
    by (rule wired_eq, rule wired_member [where f = SwitchboardResponseWithJwtResponse, OF wired_JwtResponse [of "x"]])
      (simp_all add: unpackStruct_SwitchboardResponse_def)
next
  case SwitchboardResponseWithExternalConnectionRequest
  show ?thesis unfolding SwitchboardResponseWithExternalConnectionRequest Pack_SwitchboardResponse_def Unpack_SwitchboardResponse_def
    by (rule wired_eq, rule wired_member [where f = "\<lambda>_. SwitchboardResponseWithExternalConnectionRequest", OF wired_ExternalConnectionRequest [of "()"]])
      (simp_all add: unpackStruct_SwitchboardResponse_def)
next
  case (SwitchboardResponseWithExternalConnectionResponse x)
  show ?thesis unfolding SwitchboardResponseWithExternalConnectionResponse Pack_SwitchboardResponse_def Unpack_SwitchboardResponse_def
    by (rule wired_eq, rule wired_member [where f = SwitchboardResponseWithExternalConnectionResponse, OF wired_ExternalConnectionResponse [of "x"]])
      (simp_all add: unpackStruct_SwitchboardResponse_def)
next
  case SwitchboardResponseWithClientGuidRefreshRequest
  show ?thesis unfolding SwitchboardResponseWithClientGuidRefreshRequest Pack_SwitchboardResponse_def Unpack_SwitchboardResponse_def
    by (rule wired_eq, rule wired_member [where f = "\<lambda>_. SwitchboardResponseWithClientGuidRefreshRequest", OF wired_ClientGuidRefreshRequest [of "()"]])
      (simp_all add: unpackStruct_SwitchboardResponse_def)
next
  case (SwitchboardResponseWithSdkProxyRequest x)
  show ?thesis unfolding SwitchboardResponseWithSdkProxyRequest Pack_SwitchboardResponse_def Unpack_SwitchboardResponse_def
    by (rule wired_eq, rule wired_member [where f = SwitchboardResponseWithSdkProxyRequest, OF wired_SdkProxyRequest [of "x"]])
      (simp_all add: unpackStruct_SwitchboardResponse_def)
next
  case SwitchboardResponseInvalid
  show ?thesis unfolding SwitchboardResponseInvalid Pack_SwitchboardResponse_def Unpack_SwitchboardResponse_def
    by (rule wired_eq, rule wired_invalid) simp_all
qed

lemma reader_SwitchboardResponse [reads]: "reader Unpack_SwitchboardResponse"
  unfolding Unpack_SwitchboardResponse_def unpackStruct_SwitchboardResponse_def by (rule reads reader_bind)+

end
