(* ===== verification/Switchboard_Manager.thy ===== *)
theory Switchboard_Manager
  imports Listeners Clad_Switchboard
begin

text \<open>
  \<open>SwitchboardIpcManager\<close> of \<open>cloud/ipc_manager.go\<close>: the gateway's side of the socket to the
  switchboard. Its loop answers two kinds of request by itself and hands every message on to
  listeners. The messages are encoded and decoded by the code of \<open>switchboard.go\<close>.
\<close>

interpretation sbRequest: wire_codec Pack_SwitchboardRequest Unpack_SwitchboardRequest
    fits_SwitchboardRequest Size_SwitchboardRequest 66052
  by unfold_locales (rule wired_SwitchboardRequest, rule reader_SwitchboardRequest)

interpretation sbResponse: wire_codec Pack_SwitchboardResponse Unpack_SwitchboardResponse
    fits_SwitchboardResponse Size_SwitchboardResponse 131076
  by unfold_locales (rule wired_SwitchboardResponse, rule reader_SwitchboardResponse)

section \<open>The manager\<close>

record switchboard =
  sbManager :: "(8 word, switchboard_response) manager"
  sbSock :: "byte list list"          \<comment> \<open>datagrams written so far\<close>
  sbFaults :: "bool list"             \<comment> \<open>does the next write fail? the empty list: no more faults\<close>

definition wf_switchboard :: "switchboard \<Rightarrow> bool" where
  "wf_switchboard w \<longleftrightarrow> wf_manager Tag_SwitchboardResponse (sbManager w)"

definition Switchboard_CreateChannel :: "8 word \<Rightarrow> nat \<Rightarrow> (switchboard, nat) go" where
  "Switchboard_CreateChannel tag numChannels w =
     (let (c, m) = CreateChannel_reg tag numChannels (sbManager w) in (Ret c, w\<lparr>sbManager := m\<rparr>))"

definition Switchboard_deleteListenerCallback :: "nat \<Rightarrow> 8 word \<Rightarrow> (switchboard, unit) go" where
  "Switchboard_deleteListenerCallback listener tag w =
     (case deleteListenerUnsafe_reg listener tag (sbManager w) of
        None \<Rightarrow> (Panic, w) | Some m \<Rightarrow> (Ret (), w\<lparr>sbManager := m\<rparr>))"

definition Switchboard_SendToListeners :: "switchboard_response \<Rightarrow> (switchboard, unit) go" where
  "Switchboard_SendToListeners msg w =
     (case SendToListeners_reg (Tag_SwitchboardResponse msg) msg (sbManager w) of
        Sent m \<Rightarrow> (Ret (), w\<lparr>sbManager := m\<rparr>) | Deadlock \<Rightarrow> (Blocked, w) | SendPanic \<Rightarrow> (Crash, w))"

definition Switchboard_conn_Write :: "byte list \<Rightarrow> (switchboard, unit) go" where
  "Switchboard_conn_Write b w =
     (case sbFaults w of
        True # fs \<Rightarrow> (Fail SocketError, w\<lparr>sbFaults := fs\<rparr>)
      | fs \<Rightarrow> (Ret (), w\<lparr>sbFaults := tl fs, sbSock := sbSock w @ [b]\<rparr>))"

text \<open>The size goes first, in 16 bits.\<close>

definition Switchboard_Write :: "switchboard_request option \<Rightarrow> (switchboard, unit) go" where
  "Switchboard_Write msg w = (case msg of
      None \<Rightarrow> (Fail (GrpcError InvalidArgument ''Unable to parse request''), w)
    | Some m \<Rightarrow>
        (case bindM (write_word (ucast (Size_SwitchboardRequest m) :: uint16)) (\<lambda>_. Pack_SwitchboardRequest m) [] of
          (Ret _, data) \<Rightarrow> Switchboard_conn_Write data w
        | (Fail (Errorf e), _) \<Rightarrow> (Fail (GrpcError Internal e), w)
        | _ \<Rightarrow> (Panic, w)))"

text \<open>The errors of the answers' writes are ignored.\<close>

definition ignoring_error :: "(switchboard, unit) go \<Rightarrow> (switchboard, unit) go" where
  "ignoring_error m w = (case m w of (Fail e, w') \<Rightarrow> (Ret (), w') | r \<Rightarrow> r)"

definition handleSwitchboardMessages :: "switchboard_response \<Rightarrow> (switchboard, unit) go" where
  "handleSwitchboardMessages msg = (case msg of
      SwitchboardResponseWithSdkProxyRequest _ \<Rightarrow> returnM ()
    | SwitchboardResponseWithExternalConnectionRequest \<Rightarrow> ignoring_error (Switchboard_Write
        (Some (SwitchboardRequestWithExternalConnectionResponse
          \<lparr>ExternalConnectionResponse_IsConnected = True, ExternalConnectionResponse_ConnectionId = ''daima''\<rparr>)))
    | SwitchboardResponseWithClientGuidRefreshRequest \<Rightarrow> ignoring_error (Switchboard_Write
        (Some SwitchboardRequestWithClientGuidRefreshResponse))
    | _ \<Rightarrow> returnM ())"

text \<open>The loop, over the blocks that the socket returns; \<open>None\<close> is the nil block that ends it.\<close>

fun Switchboard_ProcessMessages :: "byte list option list \<Rightarrow> (switchboard, unit) go" where
  "Switchboard_ProcessMessages [] = returnM ()"
| "Switchboard_ProcessMessages (None # bs) = returnM ()"
| "Switchboard_ProcessMessages (Some b # bs) =
     (if length b < 2 then Switchboard_ProcessMessages bs
      else case Unpack_SwitchboardResponse (drop 2 b) of
          (Ret msg, _) \<Rightarrow> bindM (handleSwitchboardMessages msg) (\<lambda>_.
            bindM (Switchboard_SendToListeners msg) (\<lambda>_. Switchboard_ProcessMessages bs))
        | (Fail e, _) \<Rightarrow> Switchboard_ProcessMessages bs
        | _ \<Rightarrow> (\<lambda>w. (Crash, w)))"

section \<open>What is answered\<close>

definition replies :: "switchboard_response \<Rightarrow> switchboard_request list" where
  "replies msg = (case msg of
      SwitchboardResponseWithExternalConnectionRequest \<Rightarrow>
        [SwitchboardRequestWithExternalConnectionResponse
          \<lparr>ExternalConnectionResponse_IsConnected = True, ExternalConnectionResponse_ConnectionId = ''daima''\<rparr>]
    | SwitchboardResponseWithClientGuidRefreshRequest \<Rightarrow> [SwitchboardRequestWithClientGuidRefreshResponse]
    | _ \<Rightarrow> [])"

text \<open>The messages among the blocks up to the nil one: those that are long enough and can be decoded.\<close>

fun decoded :: "byte list option list \<Rightarrow> switchboard_response list" where
  "decoded [] = []"
| "decoded (None # bs) = []"
| "decoded (Some b # bs) =
     (if length b < 2 then [] else case Unpack_SwitchboardResponse (drop 2 b) of (Ret msg, _) \<Rightarrow> [msg] | _ \<Rightarrow> []) @ decoded bs"

text \<open>The datagram of a message: the size and the message.\<close>

definition switchboard_datagram :: "switchboard_request \<Rightarrow> byte list" where
  "switchboard_datagram m = le_bytes 2 (ucast (Size_SwitchboardRequest m) :: uint16) @ sbRequest.bytes m"

lemma Switchboard_Write_datagram:
  "fits_SwitchboardRequest m \<Longrightarrow> Switchboard_Write (Some m) w = Switchboard_conn_Write (switchboard_datagram m) w"
  by (simp add: Switchboard_Write_def switchboard_datagram_def bindM_def write_word_def binary_Write_def sbRequest.packed(1))

lemma replies_fit: "r \<in> set (replies m) \<Longrightarrow> fits_SwitchboardRequest r"
  by (auto simp: replies_def fits_ExternalConnectionResponse_def split: switchboard_response.splits)

lemma handle_replies:
  "sbFaults w = [] \<Longrightarrow> handleSwitchboardMessages m w = (Ret (), w\<lparr>sbSock := sbSock w @ map switchboard_datagram (replies m)\<rparr>)"
  by (cases m) (simp_all add: handleSwitchboardMessages_def replies_def returnM_def ignoring_error_def
      Switchboard_Write_datagram fits_ExternalConnectionResponse_def Switchboard_conn_Write_def)

lemma no_listeners_sent:
  assumes "wf_switchboard w" "\<forall>t. listeners (sbManager w) t = []"
  shows "Switchboard_SendToListeners m w = (Ret (), w)"
proof -
  have "managedChannels (sbManager w) (Tag_SwitchboardResponse m) = None"
    using wf_managerD(1) [OF assms(1) [unfolded wf_switchboard_def], of "Tag_SwitchboardResponse m"]
      spec [OF assms(2), of "Tag_SwitchboardResponse m"] by (auto simp: listeners_def split: option.splits)
  then show ?thesis by (simp add: Switchboard_SendToListeners_def SendToListeners_reg_def)
qed

lemma process_replies:
  "wf_switchboard w \<Longrightarrow> \<forall>t. listeners (sbManager w) t = [] \<Longrightarrow> sbFaults w = [] \<Longrightarrow>
   Switchboard_ProcessMessages bs w =
     (Ret (), w\<lparr>sbSock := sbSock w @ map switchboard_datagram (concat (map replies (decoded bs)))\<rparr>)"
proof (induction bs arbitrary: w rule: decoded.induct)
  case (3 b bs)
  show ?case
  proof (cases "length b < 2")
    case True
    with 3 show ?thesis by simp
  next
    case long: False
    show ?thesis
    proof (rule disjE [OF sbResponse.unpack_cases [of "drop 2 b"]], elim exE)
      fix msg rest
      assume u: "Unpack_SwitchboardResponse (drop 2 b) = (Ret msg, rest)"
      let ?v = "w\<lparr>sbSock := sbSock w @ map switchboard_datagram (replies msg)\<rparr>"
      have v: "wf_switchboard ?v" "\<forall>t. listeners (sbManager ?v) t = []" "sbFaults ?v = []"
        using 3(2-4) by (simp_all add: wf_switchboard_def)
      show ?thesis
        using long 3(1) [OF v] by (simp add: u bindM_def handle_replies [OF 3(4)] no_listeners_sent [OF v(1,2)])
    next
      assume "\<exists>e rest. Unpack_SwitchboardResponse (drop 2 b) = (Fail (Errorf e), rest)"
      then obtain e rest where "Unpack_SwitchboardResponse (drop 2 b) = (Fail (Errorf e), rest)" by (elim exE)
      with long 3 show ?thesis by simp
    qed
  qed
qed (simp_all add: returnM_def)

text \<open>What the other side reads from a datagram.\<close>

lemma datagram_read:
  "fits_SwitchboardRequest m \<Longrightarrow> length (switchboard_datagram m) = 2 + length (sbRequest.bytes m) \<and>
     Unpack_SwitchboardRequest (drop 2 (switchboard_datagram m)) = (Ret m, [])"
  using sbRequest.packed(2) [of m "[]"] by (simp add: switchboard_datagram_def)

section \<open>Properties\<close>

text \<open>
  C32. With nobody listening at the switchboard's manager, as in the gateway, its loop takes any blocks and
  comes to its end, having written just the answers to the requests among them, in order; each
  datagram is read by the other side as the answer, and a packed request is recognised behind any
  two bytes of length.
\<close>

theorem switchboard_answers:
  assumes "wf_switchboard w" "\<forall>t. listeners (sbManager w) t = []" "sbFaults w = []"
    and "length h = 2" "fits_SwitchboardResponse m"
  shows "(\<exists>ds. Switchboard_ProcessMessages bs w = (Ret (), w\<lparr>sbSock := sbSock w @ ds\<rparr>) \<and>
      map (\<lambda>d. Unpack_SwitchboardRequest (drop 2 d)) ds = map (\<lambda>r. (Ret r, [])) (concat (map replies (decoded bs)))) \<and>
    decoded (Some (h @ snd (Pack_SwitchboardResponse m []) @ junk) # bs) = m # decoded bs"
proof
  have "Unpack_SwitchboardRequest (drop 2 (switchboard_datagram r)) = (Ret r, [])"
    if "r \<in> set (concat (map replies (decoded bs)))" for r
    using that datagram_read replies_fit by auto
  then show "\<exists>ds. Switchboard_ProcessMessages bs w = (Ret (), w\<lparr>sbSock := sbSock w @ ds\<rparr>) \<and>
      map (\<lambda>d. Unpack_SwitchboardRequest (drop 2 d)) ds = map (\<lambda>r. (Ret r, [])) (concat (map replies (decoded bs)))"
    using process_replies [OF assms(1-3), of bs] by (intro exI conjI) (assumption, simp)
  show "decoded (Some (h @ snd (Pack_SwitchboardResponse m []) @ junk) # bs) = m # decoded bs"
    using sbResponse.packed(1) [OF assms(5), of "[]"] sbResponse.packed(2) [OF assms(5), of junk] assms(4)
    by simp
qed

theorem switchboard_answers_witness:
  defines "request \<equiv> [1, 0] @ snd (Pack_SwitchboardResponse SwitchboardResponseWithExternalConnectionRequest [])"
    and "w \<equiv> \<lparr>sbManager = empty_manager, sbSock = [], sbFaults = []\<rparr> :: switchboard"
  shows "\<exists>ds. Switchboard_ProcessMessages [Some request, Some [9], None] w = (Ret (), w\<lparr>sbSock := ds\<rparr>) \<and>
     map (\<lambda>d. Unpack_SwitchboardRequest (drop 2 d)) ds = [(Ret (SwitchboardRequestWithExternalConnectionResponse
       \<lparr>ExternalConnectionResponse_IsConnected = True, ExternalConnectionResponse_ConnectionId = ''daima''\<rparr>), [])]"
proof -
  have w: "wf_switchboard w" "\<forall>t. listeners (sbManager w) t = []" "sbFaults w = []"
    by (simp_all add: wf_switchboard_def w_def)
  have "fits_SwitchboardResponse SwitchboardResponseWithExternalConnectionRequest" by simp
  note th = switchboard_answers [OF w, of "[1, 0]", OF _ this]
  have "decoded [Some request, Some [9], None] = [SwitchboardResponseWithExternalConnectionRequest]"
    using th [of "[Some [9], None]" "[]"] by (simp add: request_def)
  moreover have "sbSock w = []" by (simp add: w_def)
  ultimately show ?thesis
    using th [of "[Some request, Some [9], None]" "[]"] by (simp add: replies_def)
qed

end
