(* ===== verification/Voice_Stream.thy ===== *)
theory Voice_Stream
  imports Clad_Services
begin

text \<open>
  The streamer of \<open>internal/voice/stream\<close>: one utterance, or one connection check. The audio is put
  into a buffer, cut into chunks and given to the speech recogniser, which answers with an intent.
  This holds the data of one streamer, what its goroutines do with it, and how answers of the speech
  services are turned into calls of the receiver. Which goroutine does what when is left to
  \<open>Voice_Process\<close>.

  The recogniser (\<open>vtr\<close>), the chipper client and the JSON encoder are not part of the repository's
  code: they are parameters.
\<close>

section \<open>Errors and calls\<close>

text \<open>Go \<open>error\<close> values: the two errors of a context, and those with only a text.\<close>

datatype voice_error = ContextDeadlineExceeded | ContextCanceled | OtherError string

primrec voice_error_text :: "voice_error \<Rightarrow> string" where
  "voice_error_text ContextDeadlineExceeded = ''context deadline exceeded''"
| "voice_error_text ContextCanceled = ''context canceled''"
| "voice_error_text (OtherError s) = s"

definition StreamType_Normal :: byte where "StreamType_Normal = 0"
definition StreamType_Blackjack :: byte where "StreamType_Blackjack = 1"
definition StreamType_KnowledgeGraph :: byte where "StreamType_KnowledgeGraph = 2"

definition ErrorType_Server :: byte where "ErrorType_Server = 0"
definition ErrorType_Timeout :: byte where "ErrorType_Timeout = 1"
definition ErrorType_Json :: byte where "ErrorType_Json = 2"
definition ErrorType_InvalidConfig :: byte where "ErrorType_InvalidConfig = 3"
definition ErrorType_Connecting :: byte where "ErrorType_Connecting = 4"
definition ErrorType_TLS :: byte where "ErrorType_TLS = 7"
definition ErrorType_Connectivity :: byte where "ErrorType_Connectivity = 8"

definition ConnectionCode_Available :: byte where "ConnectionCode_Available = 0"
definition ConnectionCode_Connectivity :: byte where "ConnectionCode_Connectivity = 1"
definition ConnectionCode_Tls :: byte where "ConnectionCode_Tls = 2"
definition ConnectionCode_Auth :: byte where "ConnectionCode_Auth = 3"
definition ConnectionCode_Bandwidth :: byte where "ConnectionCode_Bandwidth = 4"

lemmas cloud_codes =
  StreamType_Normal_def StreamType_Blackjack_def StreamType_KnowledgeGraph_def
  ErrorType_Server_def ErrorType_Timeout_def ErrorType_Json_def ErrorType_InvalidConfig_def
  ErrorType_Connecting_def ErrorType_TLS_def ErrorType_Connectivity_def
  ConnectionCode_Available_def ConnectionCode_Connectivity_def ConnectionCode_Tls_def
  ConnectionCode_Auth_def ConnectionCode_Bandwidth_def

text \<open>The methods of the \<open>Receiver\<close> interface, as calls.\<close>

datatype receiver_call =
    OnError byte voice_error
  | OnStreamOpen string
  | OnIntent intent_result
  | OnConnectionResult connection_result

section \<open>Answers of the speech services\<close>

text \<open>
  What the code reads of the chipper types; the confidence is the text that \<open>%f\<close> prints.
\<close>

record chipper_intent =
  ci_Action :: string
  ci_QueryText :: string
  ci_IntentConfidence :: string
  ci_Service :: string
  ci_Parameters :: "(string \<times> string) list"

record chipper_knowledge =
  ck_SpokenText :: string
  ck_CommandType :: string
  ck_QueryText :: string
  ck_DomainsUsed :: "string list"

record chipper_check =
  cc_Status :: string
  cc_FramesReceived :: uint32

text \<open>The message that the recogniser's answer is put into: an action and its parameters.\<close>

record intent_graph =
  ig_Action :: string
  ig_Parameters :: "(string \<times> string) list"

text \<open>
  The code outside the repository: the recogniser with its own state, the intent of a text, and of
  chipper the test and the two conversions; the JSON encoder, which may fail.
\<close>

record 'v services =
  vtr_Process :: "'v \<Rightarrow> byte list \<Rightarrow> string \<times> 'v"
  vtr_ProcessTextAll :: "string \<Rightarrow> string \<times> (string \<times> string) list"
  IsIntent :: "intent_graph \<Rightarrow> bool"
  ConvertToIntentResp :: "intent_graph \<Rightarrow> chipper_intent"
  ConvertToKnowledgeGraphResp :: "intent_graph \<Rightarrow> chipper_knowledge"
  json_Encode :: "(string \<times> string) list \<Rightarrow> string + string"

definition sendIntentResponse :: "'v services \<Rightarrow> chipper_intent \<Rightarrow> receiver_call" where
  "sendIntentResponse X r =
     (let metadata = ''text: '' @ ci_QueryText r @ ''  confidence: '' @ ci_IntentConfidence r @
            ''  handler: '' @ ci_Service r;
          answer = (\<lambda>params. OnIntent \<lparr>IntentResult_Intent = ci_Action r,
            IntentResult_Parameters = params, IntentResult_Metadata = metadata\<rparr>)
      in if ci_Parameters r \<noteq> []
         then case json_Encode X (ci_Parameters r) of
             Inl json \<Rightarrow> answer json
           | Inr e \<Rightarrow> OnError ErrorType_Json (OtherError e)
         else answer '''')"

text \<open>Decimal numbers, as \<open>%d\<close> prints them.\<close>

fun decimal :: "nat \<Rightarrow> string" where
  "decimal n = (if n < 10 then [char_of (48 + n)] else decimal (n div 10) @ [char_of (48 + n mod 10)])"

declare decimal.simps [simp del]

definition sendKGResponse :: "'v services \<Rightarrow> chipper_knowledge \<Rightarrow> bool \<Rightarrow> receiver_call" where
  "sendKGResponse X r bypass =
     (let params = [(''answer'', ck_SpokenText r), (''answer_type'', ck_CommandType r),
              (''query_text'', ck_QueryText r)] @
            map (\<lambda>(i, d). (''domains.'' @ decimal i, d)) (enumerate 0 (ck_DomainsUsed r))
      in case json_Encode X params of
          Inr e \<Rightarrow> OnError ErrorType_Json (OtherError e)
        | Inl json \<Rightarrow> OnIntent \<lparr>
            IntentResult_Intent = (if bypass then ''intent_knowledge_response_extend_bypass''
                                   else ''intent_knowledge_response_extend''),
            IntentResult_Parameters = json, IntentResult_Metadata = ''''\<rparr>)"

definition sendIntentGraphResponse :: "'v services \<Rightarrow> intent_graph \<Rightarrow> receiver_call" where
  "sendIntentGraphResponse X r =
     (if IsIntent X r then sendIntentResponse X (ConvertToIntentResp X r)
      else sendKGResponse X (ConvertToKnowledgeGraphResp X r) True)"

definition sendConnectionCheckResponse :: "chipper_check \<Rightarrow> nat \<Rightarrow> nat \<Rightarrow> receiver_call" where
  "sendConnectionCheckResponse r totalAudioMs audioPerRequestMs = OnConnectionResult \<lparr>
     ConnectionResult_Code = (if cc_Status r = ''Success'' then ConnectionCode_Available else ConnectionCode_Bandwidth),
     ConnectionResult_Status = cc_Status r,
     ConnectionResult_NumPackets = ucast (cc_FramesReceived r),
     ConnectionResult_ExpectedPackets = of_nat (totalAudioMs div audioPerRequestMs)\<rparr>"

definition errorReason :: "voice_error \<Rightarrow> byte" where
  "errorReason e = (if e = ContextDeadlineExceeded then ErrorType_Timeout else ErrorType_Server)"

section \<open>The streamer\<close>

text \<open>
  The languages and modes of \<open>chipperpb\<close> that the code names; a language that is not set is the
  zero value. The timeout is in seconds, 0 for none.
\<close>

datatype language = FRENCH | GERMAN | ENGLISH_US | ENGLISH_UK | ENGLISH_AU
datatype robot_mode = VOICE_COMMAND | GAME

record stream_opts =
  so_Compress :: bool
  so_SaveAudio :: bool
  so_Language :: "language option"
  so_NoDas :: bool
  so_Timeout :: nat

datatype stream_option =
    WithKnowledgeGraphOptions (streamOpts: stream_opts) string
  | WithIntentGraphOptions (streamOpts: stream_opts) nat robot_mode byte
  | WithConnectionCheckOptions (streamOpts: stream_opts) nat nat

definition is_check :: "stream_option \<Rightarrow> bool" where
  "is_check opt = (case opt of WithConnectionCheckOptions _ _ _ \<Rightarrow> True | _ \<Rightarrow> False)"

lemma is_check_simps [simp]:
  "\<not> is_check (WithKnowledgeGraphOptions so tz)" "\<not> is_check (WithIntentGraphOptions so h m mode)"
  "is_check (WithConnectionCheckOptions so a b)"
  by (simp_all add: is_check_def)

text \<open>
  The connection \<open>conn\<close> is nil in this build, in which \<open>init\<close> does not connect. \<open>st_err\<close> is
  \<open>ctx.Err()\<close>: not \<open>None\<close> once the context is done. \<open>st_buffering\<close>: \<open>bufferRoutine\<close> runs, and \<open>byteChan\<close>
  and \<open>audioStream\<close> are open; \<open>st_watching\<close>: \<open>cancelResponse\<close> waits for the context;
  \<open>st_listening\<close>: the routine that feeds the recogniser runs; \<open>st_taken\<close>: the chunks it has fed.
\<close>

record streamer =
  st_opt :: stream_option
  st_err :: "voice_error option"
  st_closed :: bool
  st_buffering :: bool
  st_audioBuf :: "byte list"
  st_audioStream :: "byte list list"
  st_responded :: bool
  st_watching :: bool
  st_listening :: bool
  st_taken :: "byte list list"

text \<open>\<open>NewStreamer\<close> and the goroutines that \<open>init\<close> starts.\<close>

definition NewStreamer :: "stream_option \<Rightarrow> streamer" where
  "NewStreamer opt = \<lparr>st_opt = opt, st_err = None, st_closed = False, st_buffering = True, st_audioBuf = [],
     st_audioStream = [], st_responded = False, st_watching = True, st_listening = True, st_taken = []\<rparr>"

definition streamer_timeout :: "streamer \<Rightarrow> nat" where
  "streamer_timeout s = so_Timeout (streamOpts (st_opt s))"

text \<open>
  \<open>AddSamples\<close>: \<open>binary.Write\<close> of the samples and a send on \<open>byteChan\<close>, which \<open>bufferRoutine\<close> takes at
  once when it runs; when it has ended the channel is closed and the send panics.
\<close>

definition sample_bytes :: "16 word list \<Rightarrow> byte list" where
  "sample_bytes samples = concat (map le16 samples)"

definition addBytes :: "byte list \<Rightarrow> (streamer, unit) go" where
  "addBytes b s = (if st_buffering s then (Ret (), s\<lparr>st_audioBuf := st_audioBuf s @ b\<rparr>) else (Panic, s))"

definition AddSamples :: "16 word list \<Rightarrow> (streamer, unit) go" where
  "AddSamples samples s = (if is_check (st_opt s) then (Ret (), s) else addBytes (sample_bytes samples) s)"

text \<open>\<open>Close\<close> and \<open>CloseSend\<close>, with no connection; the context keeps its first error.\<close>

definition cancel_with :: "voice_error \<Rightarrow> streamer \<Rightarrow> streamer" where
  "cancel_with e s = s\<lparr>st_err := (case st_err s of None \<Rightarrow> Some e | x \<Rightarrow> x)\<rparr>"

definition Streamer_Close :: "streamer \<Rightarrow> streamer" where
  "Streamer_Close s = cancel_with ContextCanceled (s\<lparr>st_closed := True\<rparr>)"

definition Streamer_CloseSend :: "(streamer, unit) go" where
  "Streamer_CloseSend = failM (Errorf ''cannot CloseSend on nil stream'')"

text \<open>
  The branches of \<open>bufferRoutine\<close>'s \<open>select\<close>, beside taking bytes: a chunk goes to the channel
  \<open>audioStream\<close>, which holds 10, or the context is done.
\<close>

definition can_stream :: "nat \<Rightarrow> streamer \<Rightarrow> bool" where
  "can_stream streamSize s \<longleftrightarrow>
     st_buffering s \<and> streamSize \<le> length (st_audioBuf s) \<and> length (st_audioStream s) < 10"

definition stream_chunk :: "nat \<Rightarrow> streamer \<Rightarrow> streamer" where
  "stream_chunk streamSize s = s\<lparr>st_audioStream := st_audioStream s @ [take streamSize (st_audioBuf s)],
     st_audioBuf := drop streamSize (st_audioBuf s)\<rparr>"

definition can_end_buffer :: "streamer \<Rightarrow> bool" where
  "can_end_buffer s \<longleftrightarrow> st_buffering s \<and> st_err s \<noteq> None"

definition end_buffer :: "streamer \<Rightarrow> streamer" where
  "end_buffer s = s\<lparr>st_buffering := False\<rparr>"

text \<open>
  The routine of \<open>init\<close> that ranges over \<open>audioStream\<close>: it gives one chunk after the other to the
  recogniser until a text comes, answers with its intent and returns. That it speeds the processor up
  meanwhile is left out.
\<close>

definition can_hear :: "streamer \<Rightarrow> bool" where
  "can_hear s \<longleftrightarrow> st_listening s \<and> st_audioStream s \<noteq> []"

definition hear_chunk :: "'v services \<Rightarrow> 'v \<Rightarrow> streamer \<Rightarrow> receiver_call option \<times> 'v \<times> streamer" where
  "hear_chunk X v s =
     (let c = hd (st_audioStream s);
          (text, v') = vtr_Process X v c;
          s' = s\<lparr>st_audioStream := tl (st_audioStream s), st_taken := st_taken s @ [c]\<rparr>
      in if text \<noteq> '''' then
           let (intent, params) = vtr_ProcessTextAll X text
           in (Some (sendIntentGraphResponse X \<lparr>ig_Action = intent, ig_Parameters = params\<rparr>), v',
               s'\<lparr>st_listening := False\<rparr>)
         else (None, v', s'))"

text \<open>\<open>cancelResponse\<close>, once the context is done.\<close>

definition cancelResponse :: "streamer \<Rightarrow> receiver_call option \<times> streamer" where
  "cancelResponse s = (case st_err s of
      None \<Rightarrow> (None, s)
    | Some e \<Rightarrow>
        let s' = s\<lparr>st_watching := False\<rparr> in
        if st_closed s then (None, s')
        else if st_responded s then (None, s')
        else (Some (OnError ErrorType_Timeout e), s'\<lparr>st_responded := True\<rparr>))"

text \<open>
  \<open>responseRoutine\<close>, with what \<open>WaitForResponse\<close> returned; it answers only if nothing did before. This
  build does not start it.
\<close>

datatype chipper_response =
    IntentGraphResponse intent_graph
  | KnowledgeGraphResponse chipper_knowledge
  | ConnectionCheckResponse chipper_check
  | UnknownResponse

definition responseRoutine :: "'v services \<Rightarrow> chipper_response + voice_error \<Rightarrow> (streamer, receiver_call option) go" where
  "responseRoutine X outcome s =
     (if st_responded s then (Ret None, s)
      else let s' = s\<lparr>st_responded := True\<rparr> in
        if st_closed s then (Ret None, s')
        else case outcome of
          Inr e \<Rightarrow> (Ret (Some (OnError (errorReason e) e)), s')
        | Inl (IntentGraphResponse r) \<Rightarrow> (Ret (Some (sendIntentGraphResponse X r)), s')
        | Inl (KnowledgeGraphResponse r) \<Rightarrow> (Ret (Some (sendKGResponse X r False)), s')
        | Inl (ConnectionCheckResponse r) \<Rightarrow> (case st_opt s of
              WithConnectionCheckOptions _ audioMs requestMs \<Rightarrow>
                (if requestMs = 0 then (Panic, s') else (Ret (Some (sendConnectionCheckResponse r audioMs requestMs)), s'))
            | _ \<Rightarrow> (Panic, s'))
        | Inl UnknownResponse \<Rightarrow> (Ret None, s'))"

end
