(* ===== verification/Voice_Process.thy ===== *)
theory Voice_Process
  imports Voice_Stream
begin

text \<open>
  The voice process of \<open>internal/voice/process.go\<close>: its loop takes messages of the microphone process
  and answers of the streamers, keeps at most one streamer as the current one, and writes to the
  microphone processes and to the readers of intents.

  An event is one step of one goroutine: the loop takes a message or a call that a streamer's
  goroutine offers, or a goroutine of a streamer goes on, or time passes. A list of events is one
  interleaving; an event that cannot happen in a state is passed over.
\<close>

section \<open>Languages\<close>

text \<open>\<open>strings.Split\<close> with a separator of one character; the two tests of ASCII letters in lower case.\<close>

fun split_at :: "char \<Rightarrow> string \<Rightarrow> string list" where
  "split_at c [] = ['''']"
| "split_at c (x # xs) = (case split_at c xs of
      [] \<Rightarrow> [[x]] | p # ps \<Rightarrow> if x = c then '''' # p # ps else (x # p) # ps)"

definition ascii_lower :: "char \<Rightarrow> char" where
  "ascii_lower c = (if of_char c \<in> {65..90::nat} then char_of (of_char c + 32 :: nat) else c)"

definition getLanguage :: "string \<Rightarrow> language + string" where
  "getLanguage locale =
     (let strs = (let s = split_at CHR ''-'' locale in if length s \<noteq> 2 then split_at CHR ''_'' locale else s) in
      if length strs \<noteq> 2 then Inr (''invalid locale string '' @ locale)
      else let lang = map ascii_lower (strs ! 0); country = map ascii_lower (strs ! 1) in
        if lang = ''fr'' then Inl FRENCH
        else if lang = ''de'' then Inl GERMAN
        else if lang \<noteq> ''en'' then Inl ENGLISH_US
        else if country = ''gb'' then Inl ENGLISH_UK
        else if country = ''au'' then Inl ENGLISH_AU
        else Inl ENGLISH_US)"

definition modeMap :: "byte \<Rightarrow> robot_mode option" where
  "modeMap mode = (if mode = StreamType_Normal then Some VOICE_COMMAND
     else if mode = StreamType_Blackjack then Some GAME else None)"

section \<open>State\<close>

text \<open>Who is written to: a microphone process or a reader of intents, by its number.\<close>

datatype target = Mic nat | AI nat

text \<open>
  A streamer is known by its number. \<open>vo_pending\<close> holds the calls whose goroutines wait for the loop
  to take them: the channels have no room. \<open>vo_sent\<close> holds the datagrams written so far; \<open>vo_faults\<close>
  says which of the next writes fail. \<open>vo_errors\<close> is what the error listener heard.
\<close>

record 'v voice =
  vo_compress :: bool
  vo_chunkMs :: nat
  vo_handler :: nat
  vo_saveAudio :: bool
  vo_errListener :: bool
  vo_receivers :: nat
  vo_intents :: nat
  vo_streams :: "streamer list"
  vo_strm :: "nat option"
  vo_pending :: "(nat \<times> receiver_call) list"
  vo_cancelled :: bool
  vo_running :: bool
  vo_faults :: "bool list"
  vo_sent :: "(target \<times> byte list) list"
  vo_errors :: "voice_error list"
  vo_vtr :: 'v

definition ChunkSamples :: "'v voice \<Rightarrow> nat" where
  "ChunkSamples w = 16000 * vo_chunkMs w div 1000"

definition StreamSize :: "'v voice \<Rightarrow> nat" where
  "StreamSize w = ChunkSamples w * (16 div 8)"

definition defaultChipperOptions :: "'v voice \<Rightarrow> stream_opts" where
  "defaultChipperOptions w = \<lparr>so_Compress = vo_compress w, so_SaveAudio = False, so_Language = None,
     so_NoDas = False, so_Timeout = 9\<rparr>"

definition DefaultAudioLenMs :: nat where "DefaultAudioLenMs = 6000"
definition DefaultChunkMs :: nat where "DefaultChunkMs = 120"

section \<open>Writing\<close>

text \<open>\<open>IPCMsgSender.Send\<close>: a message that cannot be packed, or not be written, is lost; this is only logged.\<close>

definition Send :: "target \<Rightarrow> mic_message \<Rightarrow> 'v voice \<Rightarrow> 'v voice" where
  "Send t msg w = (case Pack_MicMessage msg [] of
      (Ret _, d) \<Rightarrow> (case vo_faults w of
          True # fs \<Rightarrow> w\<lparr>vo_faults := fs\<rparr>
        | fs \<Rightarrow> w\<lparr>vo_faults := tl fs, vo_sent := vo_sent w @ [(t, d)]\<rparr>)
    | _ \<Rightarrow> w)"

definition writeResponse :: "mic_message \<Rightarrow> 'v voice \<Rightarrow> 'v voice" where
  "writeResponse msg w = fold (\<lambda>r. Send (AI r) msg) [0..<vo_intents w] w"

definition writeMic :: "mic_message \<Rightarrow> 'v voice \<Rightarrow> 'v voice" where
  "writeMic msg w = fold (\<lambda>r. Send (Mic r) msg) [0..<vo_receivers w] w"

definition writeError :: "byte \<Rightarrow> string \<Rightarrow> 'v voice \<Rightarrow> 'v voice" where
  "writeError reason text = writeResponse (MicMessageWithError \<lparr>IntentError_Error = reason, IntentError_Extra = text\<rparr>)"

definition signalMicStop :: "'v voice \<Rightarrow> 'v voice" where
  "signalMicStop = writeMic MicMessageWithStopSignal"

definition respondToConnectionCheck :: "connection_result + byte \<times> voice_error \<Rightarrow> 'v voice \<Rightarrow> 'v voice" where
  "respondToConnectionCheck res = writeMic (MicMessageWithConnectionResult (case res of
      Inl r \<Rightarrow> r
    | Inr (kind, e) \<Rightarrow> \<lparr>
        ConnectionResult_Code = (if kind = ErrorType_TLS then ConnectionCode_Tls
          else if kind = ErrorType_Connectivity then ConnectionCode_Connectivity
          else if kind = ErrorType_Timeout then ConnectionCode_Bandwidth
          else ConnectionCode_Auth),
        ConnectionResult_Status = voice_error_text e, ConnectionResult_NumPackets = 0,
        ConnectionResult_ExpectedPackets = of_nat (DefaultAudioLenMs div DefaultChunkMs)\<rparr>))"

section \<open>Messages of the microphone process\<close>

definition on_stream :: "nat \<Rightarrow> (streamer \<Rightarrow> streamer) \<Rightarrow> 'v voice \<Rightarrow> 'v voice" where
  "on_stream i f w = w\<lparr>vo_streams := (vo_streams w)[i := f (vo_streams w ! i)]\<rparr>"

text \<open>\<open>strm.Close()\<close> if there is a current streamer; it stays the current one.\<close>

definition close_current :: "'v voice \<Rightarrow> 'v voice" where
  "close_current w = (case vo_strm w of None \<Rightarrow> w | Some i \<Rightarrow> on_stream i Streamer_Close w)"

definition newStream :: "stream_option \<Rightarrow> 'v voice \<Rightarrow> 'v voice" where
  "newStream opt w = w\<lparr>
     vo_streams := vo_streams w @ [if vo_cancelled w then cancel_with ContextCanceled (NewStreamer opt) else NewStreamer opt],
     vo_strm := Some (length (vo_streams w))\<rparr>"

definition hotword_event :: "hotword \<Rightarrow> bool \<Rightarrow> 'v voice \<Rightarrow> 'v voice" where
  "hotword_event hw isTest w0 =
     (let w1 = close_current w0;
          w = (if isTest then writeMic MicMessageWithTestStarted w1 else w1);
          mode = Hotword_Mode hw;
          locale = (if Hotword_Locale hw = '''' then ''en-US'' else Hotword_Locale hw)
      in if modeMap mode = None \<and> mode \<noteq> StreamType_KnowledgeGraph
         then writeError ErrorType_InvalidConfig (''unknown mode '' @ decimal (unat mode)) w
         else case getLanguage locale of
           Inr e \<Rightarrow> writeError ErrorType_InvalidConfig e w
         | Inl language \<Rightarrow>
             let so = (defaultChipperOptions w)\<lparr>so_SaveAudio := vo_saveAudio w, so_Language := Some language,
                        so_NoDas := Hotword_NoLogging hw\<rparr>
             in newStream (case modeMap mode of
                  None \<Rightarrow> WithKnowledgeGraphOptions so (Hotword_Timezone hw)
                | Some serverMode \<Rightarrow> WithIntentGraphOptions so (vo_handler w) serverMode mode) w)"

definition check_event :: "'v voice \<Rightarrow> 'v voice" where
  "check_event w0 = (let w = close_current w0 in
     newStream (WithConnectionCheckOptions (defaultChipperOptions w) DefaultAudioLenMs DefaultChunkMs) w)"

text \<open>A panic in the loop ends the process.\<close>

definition audio_event :: "16 word list \<Rightarrow> ('v voice, unit) go" where
  "audio_event samples w = (case vo_strm w of
      None \<Rightarrow> (Ret (), w)
    | Some i \<Rightarrow> (case AddSamples samples (vo_streams w ! i) of
          (Ret _, s) \<Rightarrow> (Ret (), on_stream i (\<lambda>_. s) w)
        | _ \<Rightarrow> (Crash, w)))"

definition message_event :: "mic_message \<Rightarrow> bool \<Rightarrow> ('v voice, unit) go" where
  "message_event msg isTest w = (case msg of
      MicMessageWithHotword hw \<Rightarrow> (Ret (), hotword_event hw isTest w)
    | MicMessageWithDebugFile _ \<Rightarrow> (Ret (), writeResponse msg w)
    | MicMessageWithAudioDone \<Rightarrow> (Ret (), w)     \<comment> \<open>\<open>CloseSend\<close> only returns an error, which is logged\<close>
    | MicMessageWithAudio samples \<Rightarrow> audio_event samples w
    | MicMessageWithConnectionCheck \<Rightarrow> (Ret (), check_event w)
    | _ \<Rightarrow> (Ret (), w))"

section \<open>Calls of the streamers\<close>

text \<open>
  A streamer's goroutine calls its receiver. The receiver of a connection check has no channel for
  intents, the other one none for connection results. The channels are closed when the loop has
  ended: a send then panics.
\<close>

definition offer :: "nat \<Rightarrow> receiver_call \<Rightarrow> ('v voice, unit) go" where
  "offer i call w =
     (if (case call of OnIntent _ \<Rightarrow> is_check (st_opt (vo_streams w ! i))
                     | OnConnectionResult _ \<Rightarrow> \<not> is_check (st_opt (vo_streams w ! i)) | _ \<Rightarrow> False) then (Ret (), w)
      else if vo_running w then (Ret (), w\<lparr>vo_pending := vo_pending w @ [(i, call)]\<rparr>)
      else (Crash, w))"

text \<open>\<open>strm.Close(); strm = nil\<close>\<close>

definition finish_current :: "'v voice \<Rightarrow> 'v voice" where
  "finish_current w = (close_current w)\<lparr>vo_strm := None\<rparr>"

text \<open>The loop takes a call: one from a streamer that is not the current one is ignored.\<close>

definition intent_taken :: "intent_result \<Rightarrow> 'v voice \<Rightarrow> 'v voice" where
  "intent_taken r w = finish_current (writeResponse (MicMessageWithResult r) (signalMicStop w))"

definition error_taken :: "byte \<Rightarrow> voice_error \<Rightarrow> 'v voice \<Rightarrow> 'v voice" where
  "error_taken kind e w =
     (let w' = writeError kind (voice_error_text e) (signalMicStop w)
      in finish_current (if vo_errListener w' then w'\<lparr>vo_errors := vo_errors w' @ [e]\<rparr> else w'))"

definition check_error_taken :: "byte \<Rightarrow> voice_error \<Rightarrow> 'v voice \<Rightarrow> 'v voice" where
  "check_error_taken kind e w = finish_current (respondToConnectionCheck (Inr (kind, e)) w)"

definition check_result_taken :: "connection_result \<Rightarrow> 'v voice \<Rightarrow> 'v voice" where
  "check_result_taken r w = finish_current (respondToConnectionCheck (Inl r) w)"

definition call_taken :: "nat \<Rightarrow> receiver_call \<Rightarrow> 'v voice \<Rightarrow> 'v voice" where
  "call_taken i call w =
     (if vo_strm w \<noteq> Some i then w
      else if is_check (st_opt (vo_streams w ! i)) then
        (case call of
           OnError kind e \<Rightarrow> check_error_taken kind e w
         | OnConnectionResult r \<Rightarrow> check_result_taken r w
         | _ \<Rightarrow> w)
      else
        (case call of
           OnIntent r \<Rightarrow> intent_taken r w
         | OnError kind e \<Rightarrow> error_taken kind e w
         | OnStreamOpen session \<Rightarrow> writeResponse (MicMessageWithStreamOpen session) w
         | _ \<Rightarrow> w))"

section \<open>Events\<close>

datatype voice_event =
    Message mic_message bool  \<comment> \<open>the loop takes a message; is it from a test receiver?\<close>
  | HandOver nat              \<comment> \<open>the loop takes a call that waits\<close>
  | ChunkReady nat            \<comment> \<open>a streamer's \<open>bufferRoutine\<close> passes a chunk on\<close>
  | ChunkHeard nat            \<comment> \<open>a streamer's chunk is given to the recogniser\<close>
  | BufferEnd nat             \<comment> \<open>a streamer's \<open>bufferRoutine\<close> sees that the context is done\<close>
  | Deadline nat              \<comment> \<open>a streamer's time is up\<close>
  | TimeoutSeen nat           \<comment> \<open>a streamer's \<open>cancelResponse\<close> sees that the context is done\<close>
  | CancelAll                 \<comment> \<open>the context of \<open>Run\<close> is cancelled\<close>
  | StopSeen                  \<comment> \<open>the loop sees it, ends, and its channels are closed\<close>

definition enabled :: "voice_event \<Rightarrow> 'v voice \<Rightarrow> bool" where
  "enabled e w = (case e of
      Message _ _ \<Rightarrow> vo_running w
    | HandOver n \<Rightarrow> vo_running w \<and> n < length (vo_pending w)
    | ChunkReady i \<Rightarrow> i < length (vo_streams w) \<and> can_stream (StreamSize w) (vo_streams w ! i)
    | ChunkHeard i \<Rightarrow> i < length (vo_streams w) \<and> can_hear (vo_streams w ! i)
    | BufferEnd i \<Rightarrow> i < length (vo_streams w) \<and> can_end_buffer (vo_streams w ! i)
    | Deadline i \<Rightarrow> i < length (vo_streams w) \<and> st_err (vo_streams w ! i) = None \<and>
        streamer_timeout (vo_streams w ! i) \<noteq> 0
    | TimeoutSeen i \<Rightarrow> i < length (vo_streams w) \<and> st_watching (vo_streams w ! i) \<and> st_err (vo_streams w ! i) \<noteq> None
    | CancelAll \<Rightarrow> True
    | StopSeen \<Rightarrow> vo_running w \<and> vo_cancelled w)"

definition perform :: "'v services \<Rightarrow> voice_event \<Rightarrow> ('v voice, unit) go" where
  "perform X e w = (case e of
      Message msg isTest \<Rightarrow> message_event msg isTest w
    | HandOver n \<Rightarrow> (case vo_pending w ! n of (i, call) \<Rightarrow>
        (Ret (), call_taken i call (w\<lparr>vo_pending := take n (vo_pending w) @ drop (Suc n) (vo_pending w)\<rparr>)))
    | ChunkReady i \<Rightarrow> (Ret (), on_stream i (stream_chunk (StreamSize w)) w)
    | ChunkHeard i \<Rightarrow> (case hear_chunk X (vo_vtr w) (vo_streams w ! i) of (answer, v, s) \<Rightarrow>
        (case answer of
           None \<Rightarrow> (Ret (), on_stream i (\<lambda>_. s) (w\<lparr>vo_vtr := v\<rparr>))
         | Some call \<Rightarrow> offer i call (on_stream i (\<lambda>_. s) (w\<lparr>vo_vtr := v\<rparr>))))
    | BufferEnd i \<Rightarrow> (Ret (), on_stream i end_buffer w)
    | Deadline i \<Rightarrow> (Ret (), on_stream i (cancel_with ContextDeadlineExceeded) w)
    | TimeoutSeen i \<Rightarrow> (case cancelResponse (vo_streams w ! i) of
        (None, s) \<Rightarrow> (Ret (), on_stream i (\<lambda>_. s) w)
      | (Some call, s) \<Rightarrow> offer i call (on_stream i (\<lambda>_. s) w))
    | CancelAll \<Rightarrow> (Ret (), w\<lparr>vo_cancelled := True, vo_streams := map (cancel_with ContextCanceled) (vo_streams w)\<rparr>)
    | StopSeen \<Rightarrow> (if vo_pending w = [] then (Ret (), w\<lparr>vo_running := False\<rparr>) else (Crash, w)))"

fun voice_run :: "'v services \<Rightarrow> voice_event list \<Rightarrow> ('v voice, unit) go" where
  "voice_run X [] = returnM ()"
| "voice_run X (e # es) = (\<lambda>w. if enabled e w then bindM (perform X e) (\<lambda>_. voice_run X es) w else voice_run X es w)"

text \<open>\<open>Run\<close> at the top of its loop: options, receivers and intent writers as they were set.\<close>

definition voice_start :: "nat \<Rightarrow> bool \<Rightarrow> nat \<Rightarrow> nat \<Rightarrow> bool list \<Rightarrow> 'v \<Rightarrow> 'v voice" where
  "voice_start chunkMs listener receivers intents faults v =
     \<lparr>vo_compress = False, vo_chunkMs = chunkMs, vo_handler = 0, vo_saveAudio = False, vo_errListener = listener,
      vo_receivers = receivers, vo_intents = intents, vo_streams = [], vo_strm = None, vo_pending = [],
      vo_cancelled = False, vo_running = True, vo_faults = faults, vo_sent = [], vo_errors = [], vo_vtr = v\<rparr>"

end
