(* ===== verification/Voice_Loop.thy ===== *)
theory Voice_Loop
  imports Voice_Process
begin

text \<open>
  What the voice process does over whole runs, for every interleaving of its loop with the goroutines
  of its streamers: what is written to whom, where the audio goes, how checks end, when it panics.
\<close>

named_theorems voice_frame "what an operation of the voice process leaves alone"

section \<open>Writing\<close>

text \<open>What a target has read, decoded from the datagrams written to it.\<close>

definition message_of :: "byte list \<Rightarrow> mic_message option" where
  "message_of d = (case Unpack_MicMessage d of (Ret m, _) \<Rightarrow> Some m | _ \<Rightarrow> None)"

definition heard_by :: "target \<Rightarrow> 'v voice \<Rightarrow> mic_message list" where
  "heard_by t w = List.map_filter (\<lambda>(t', d). if t' = t then message_of d else None) (vo_sent w)"

lemma message_of_bytes [simp]: "fits_MicMessage m \<Longrightarrow> message_of (micMessage.bytes m) = Some m"
  using micMessage.packed(2) [of m "[]"] by (simp add: message_of_def)

lemma Send_cases:
  obtains fs where "Send t m w = w\<lparr>vo_faults := fs\<rparr>"
  | fs where "fits_MicMessage m" "Send t m w = w\<lparr>vo_faults := fs, vo_sent := vo_sent w @ [(t, micMessage.bytes m)]\<rparr>"
proof (cases "fits_MicMessage m")
  case True
  then have d: "Pack_MicMessage m [] = (Ret (), micMessage.bytes m)" using micMessage.packed(1) [OF True, of "[]"] by simp
  show ?thesis
  proof (cases "\<exists>fs. vo_faults w = True # fs")
    case True
    then obtain fs where "vo_faults w = True # fs" by blast
    with d have "Send t m w = w\<lparr>vo_faults := fs\<rparr>" by (simp add: Send_def)
    then show ?thesis by (rule that(1))
  next
    case False
    then have "Send t m w = w\<lparr>vo_faults := tl (vo_faults w), vo_sent := vo_sent w @ [(t, micMessage.bytes m)]\<rparr>"
      using d by (auto simp: Send_def split: list.splits bool.splits)
    with \<open>fits_MicMessage m\<close> show ?thesis by (rule that(2))
  qed
next
  case False
  then obtain e buf where "Pack_MicMessage m [] = (Fail (Errorf e), buf)" using micMessage.not_packed by blast
  then have "Send t m w = w\<lparr>vo_faults := vo_faults w\<rparr>" by (simp add: Send_def)
  then show ?thesis using that by blast
qed

lemma Send_fits:
  "fits_MicMessage m \<Longrightarrow> vo_faults w = [] \<Longrightarrow> Send t m w = w\<lparr>vo_faults := [], vo_sent := vo_sent w @ [(t, micMessage.bytes m)]\<rparr>"
  using micMessage.packed(1) [of m "[]"] by (simp add: Send_def)

lemma Send_frame [voice_frame]:
  "vo_streams (Send t m w) = vo_streams w" "vo_strm (Send t m w) = vo_strm w"
  "vo_pending (Send t m w) = vo_pending w" "vo_running (Send t m w) = vo_running w"
  "vo_cancelled (Send t m w) = vo_cancelled w" "vo_chunkMs (Send t m w) = vo_chunkMs w"
  "vo_intents (Send t m w) = vo_intents w" "vo_receivers (Send t m w) = vo_receivers w"
  "vo_errListener (Send t m w) = vo_errListener w" "vo_vtr (Send t m w) = vo_vtr w"
  by (cases rule: Send_cases [of t m w]; simp)+

lemma fold_frame: "(\<And>r w. f (g r w) = f w) \<Longrightarrow> f (fold g rs w) = f w"
  by (induction rs arbitrary: w) simp_all

lemmas writes_def = writeResponse_def writeMic_def writeError_def signalMicStop_def respondToConnectionCheck_def

lemma writes_frame [voice_frame]:
  "vo_streams (writeResponse m w) = vo_streams w" "vo_strm (writeResponse m w) = vo_strm w"
  "vo_pending (writeResponse m w) = vo_pending w" "vo_running (writeResponse m w) = vo_running w"
  "vo_cancelled (writeResponse m w) = vo_cancelled w" "vo_chunkMs (writeResponse m w) = vo_chunkMs w"
  "vo_streams (writeMic m w) = vo_streams w" "vo_strm (writeMic m w) = vo_strm w"
  "vo_pending (writeMic m w) = vo_pending w" "vo_running (writeMic m w) = vo_running w"
  "vo_cancelled (writeMic m w) = vo_cancelled w" "vo_chunkMs (writeMic m w) = vo_chunkMs w"
  by (simp_all add: writes_def fold_frame voice_frame)

lemma error_frame [voice_frame]:
  "vo_streams (writeError k t w) = vo_streams w" "vo_strm (writeError k t w) = vo_strm w"
  "vo_pending (writeError k t w) = vo_pending w" "vo_running (writeError k t w) = vo_running w"
  "vo_cancelled (writeError k t w) = vo_cancelled w" "vo_chunkMs (writeError k t w) = vo_chunkMs w"
  "vo_streams (signalMicStop w) = vo_streams w" "vo_strm (signalMicStop w) = vo_strm w"
  "vo_pending (signalMicStop w) = vo_pending w" "vo_running (signalMicStop w) = vo_running w"
  "vo_cancelled (signalMicStop w) = vo_cancelled w" "vo_chunkMs (signalMicStop w) = vo_chunkMs w"
  "vo_streams (respondToConnectionCheck res w) = vo_streams w" "vo_strm (respondToConnectionCheck res w) = vo_strm w"
  "vo_pending (respondToConnectionCheck res w) = vo_pending w" "vo_running (respondToConnectionCheck res w) = vo_running w"
  "vo_cancelled (respondToConnectionCheck res w) = vo_cancelled w" "vo_chunkMs (respondToConnectionCheck res w) = vo_chunkMs w"
  by (simp_all add: writeError_def signalMicStop_def respondToConnectionCheck_def voice_frame)

text \<open>At most one copy of the message arrives at each target that is written to, and none elsewhere.\<close>

definition at_most_one :: "'a \<Rightarrow> 'a list \<Rightarrow> 'a list \<Rightarrow> bool" where
  "at_most_one m old new \<longleftrightarrow> new = old \<or> new = old @ [m]"

lemma received_append: "vo_sent w' = vo_sent w @ [(t, d)] \<Longrightarrow>
    heard_by t' w' = heard_by t' w @ (if t' = t then case message_of d of Some m \<Rightarrow> [m] | None \<Rightarrow> [] else [])"
  by (simp add: heard_by_def map_filter_def split: option.split)

lemma received_cong: "vo_sent w' = vo_sent w \<Longrightarrow> heard_by t w' = heard_by t w"
  by (simp add: heard_by_def)

lemma Send_received: "at_most_one m (heard_by t w) (heard_by t (Send t m w))" "t' \<noteq> t \<Longrightarrow> heard_by t' (Send t m w) = heard_by t' w"
proof -
  show "at_most_one m (heard_by t w) (heard_by t (Send t m w))"
  proof (cases rule: Send_cases [of t m w])
    case (1 fs)
    then have "vo_sent (Send t m w) = vo_sent w" by simp
    from received_cong [OF this] show ?thesis by (simp add: at_most_one_def)
  next
    case (2 fs)
    then have "vo_sent (Send t m w) = vo_sent w @ [(t, micMessage.bytes m)]" by simp
    from received_append [OF this, of t] 2(1) show ?thesis by (simp add: at_most_one_def)
  qed
  show "heard_by t' (Send t m w) = heard_by t' w" if "t' \<noteq> t"
  proof (cases rule: Send_cases [of t m w])
    case (1 fs)
    then have "vo_sent (Send t m w) = vo_sent w" by simp
    from received_cong [OF this] show ?thesis .
  next
    case (2 fs)
    then have "vo_sent (Send t m w) = vo_sent w @ [(t, micMessage.bytes m)]" by simp
    from received_append [OF this, of t'] that show ?thesis by simp
  qed
qed

lemma fold_Send_received:
  "(\<And>r. t \<noteq> T r) \<Longrightarrow> heard_by t (fold (\<lambda>r. Send (T r) m) rs w) = heard_by t w"
  by (induction rs arbitrary: w) (simp_all add: Send_received(2))

lemma fold_Send_received_one:
  fixes w :: "'v voice"
  assumes "inj T" "distinct rs"
  shows "at_most_one m (heard_by (T k) w) (heard_by (T k) (fold (\<lambda>r. Send (T r) m) rs w))"
  using assms(2)
proof (induction rs arbitrary: w)
  case (Cons r rs)
  show ?case
  proof (cases "r = k")
    case True
    then have "heard_by (T k) (fold (\<lambda>r. Send (T r) m) rs v) = heard_by (T k) v" for v :: "'v voice"
      using Cons.prems assms(1)
    proof (induction rs arbitrary: v)
      case (Cons q qs)
      then show ?case using Send_received(2) [of "T k" "T q"] by (auto simp: inj_eq)
    qed simp
    with True Send_received(1) [of m "T k" w] show ?thesis by simp
  next
    case False
    then have "heard_by (T k) (Send (T r) m w) = heard_by (T k) w"
      using Send_received(2) [of "T k" "T r"] assms(1) by (simp add: inj_eq)
    with Cons.IH [of "Send (T r) m w"] Cons.prems show ?thesis by simp
  qed
qed (simp add: at_most_one_def)

lemma writeResponse_received:
  "at_most_one m (heard_by (AI k) w) (heard_by (AI k) (writeResponse m w))"
  "heard_by (Mic k) (writeResponse m w) = heard_by (Mic k) w"
  unfolding writeResponse_def by (simp_all add: fold_Send_received fold_Send_received_one inj_def)

lemma writeMic_received:
  "at_most_one m (heard_by (Mic k) w) (heard_by (Mic k) (writeMic m w))"
  "heard_by (AI k) (writeMic m w) = heard_by (AI k) w"
  unfolding writeMic_def by (simp_all add: fold_Send_received fold_Send_received_one inj_def)

section \<open>The current streamer\<close>

lemma on_stream_frame [voice_frame]:
  "vo_strm (on_stream i f w) = vo_strm w" "vo_pending (on_stream i f w) = vo_pending w"
  "vo_running (on_stream i f w) = vo_running w" "vo_cancelled (on_stream i f w) = vo_cancelled w"
  "vo_chunkMs (on_stream i f w) = vo_chunkMs w" "vo_sent (on_stream i f w) = vo_sent w"
  "length (vo_streams (on_stream i f w)) = length (vo_streams w)"
  by (simp_all add: on_stream_def)

lemma on_stream_nth: "j < length (vo_streams w) \<Longrightarrow>
    vo_streams (on_stream i f w) ! j = (if i = j then f (vo_streams w ! j) else vo_streams w ! j)"
  by (cases "i = j") (simp_all add: on_stream_def)

lemma close_frame [voice_frame]:
  "vo_strm (close_current w) = vo_strm w" "vo_pending (close_current w) = vo_pending w"
  "vo_running (close_current w) = vo_running w" "vo_cancelled (close_current w) = vo_cancelled w"
  "vo_chunkMs (close_current w) = vo_chunkMs w" "vo_sent (close_current w) = vo_sent w"
  "length (vo_streams (close_current w)) = length (vo_streams w)"
  by (simp_all add: close_current_def voice_frame split: option.split)

lemma finish_frame [voice_frame]:
  "vo_strm (finish_current w) = None" "vo_pending (finish_current w) = vo_pending w"
  "vo_running (finish_current w) = vo_running w" "vo_chunkMs (finish_current w) = vo_chunkMs w"
  "vo_sent (finish_current w) = vo_sent w" "vo_streams (finish_current w) = vo_streams (close_current w)"
  by (simp_all add: finish_current_def voice_frame)

lemma newStream_frame [voice_frame]:
  "vo_pending (newStream opt w) = vo_pending w" "vo_chunkMs (newStream opt w) = vo_chunkMs w"
  "vo_sent (newStream opt w) = vo_sent w" "vo_strm (newStream opt w) = Some (length (vo_streams w))"
  "length (vo_streams (newStream opt w)) = Suc (length (vo_streams w))"
  by (simp_all add: newStream_def)

lemma received_frame [voice_frame]:
  "heard_by t (on_stream i f w) = heard_by t w" "heard_by t (close_current w) = heard_by t w"
  "heard_by t (finish_current w) = heard_by t w" "heard_by t (newStream opt w) = heard_by t w"
  by (simp_all add: heard_by_def voice_frame)

text \<open>A hotword closes the current streamer; it is refused with an error, or opens the next one.\<close>

definition hotword_ready :: "bool \<Rightarrow> 'v voice \<Rightarrow> 'v voice" where
  "hotword_ready isTest w = (if isTest then writeMic MicMessageWithTestStarted (close_current w) else close_current w)"

lemma hotword_cases:
  obtains why where "hotword_event hw isTest w = writeError ErrorType_InvalidConfig why (hotword_ready isTest w)"
  | opt where "\<not> is_check opt" "hotword_event hw isTest w = newStream opt (hotword_ready isTest w)"
proof -
  let ?w = "hotword_ready isTest w"
  let ?loc = "if Hotword_Locale hw = '''' then ''en-US'' else Hotword_Locale hw"
  show ?thesis
  proof (cases "modeMap (Hotword_Mode hw) = None \<and> Hotword_Mode hw \<noteq> StreamType_KnowledgeGraph")
    case True
    then show ?thesis using that(1) by (simp add: hotword_event_def hotword_ready_def Let_def)
  next
    case False
    show ?thesis
    proof (cases "getLanguage ?loc")
      case (Inr e)
      have "hotword_event hw isTest w = writeError ErrorType_InvalidConfig e ?w"
        unfolding hotword_event_def Let_def Inr if_not_P [OF False] by (simp add: hotword_ready_def)
      then show ?thesis by (rule that(1))
    next
      case (Inl language)
      let ?so = "(defaultChipperOptions ?w)\<lparr>so_SaveAudio := vo_saveAudio ?w, so_Language := Some language,
        so_NoDas := Hotword_NoLogging hw\<rparr>"
      let ?opt = "case modeMap (Hotword_Mode hw) of None \<Rightarrow> WithKnowledgeGraphOptions ?so (Hotword_Timezone hw)
        | Some m \<Rightarrow> WithIntentGraphOptions ?so (vo_handler ?w) m (Hotword_Mode hw)"
      have "hotword_event hw isTest w = newStream ?opt ?w"
        unfolding hotword_event_def Let_def hotword_ready_def [symmetric] Inl if_not_P [OF False] sum.case by (rule refl)
      moreover have "\<not> is_check ?opt" by (simp split: option.split)
      ultimately show ?thesis using that(2) by blast
    qed
  qed
qed

lemma ready_frame [voice_frame]:
  "vo_strm (hotword_ready t w) = vo_strm w" "vo_pending (hotword_ready t w) = vo_pending w"
  "vo_running (hotword_ready t w) = vo_running w" "vo_chunkMs (hotword_ready t w) = vo_chunkMs w"
  "vo_streams (hotword_ready t w) = vo_streams (close_current w)"
  "heard_by (AI k) (hotword_ready t w) = heard_by (AI k) w"
  by (simp_all add: hotword_ready_def voice_frame writeMic_received)

section \<open>What a streamer keeps\<close>

definition content :: "streamer \<Rightarrow> byte list" where
  "content s = concat (st_taken s) @ concat (st_audioStream s) @ st_audioBuf s"

definition chunks_ok :: "nat \<Rightarrow> streamer \<Rightarrow> bool" where
  "chunks_ok n s \<longleftrightarrow> (\<forall>c \<in> set (st_taken s @ st_audioStream s). length c = n) \<and> length (st_audioStream s) \<le> 10"

lemma chunks_ok_add [simp]: "chunks_ok n (s\<lparr>st_audioBuf := b\<rparr>) = chunks_ok n s"
  by (simp add: chunks_ok_def)

definition silent :: "streamer \<Rightarrow> bool" where
  "silent s \<longleftrightarrow> st_audioBuf s = [] \<and> st_audioStream s = []"

definition moved :: "nat \<Rightarrow> streamer \<Rightarrow> streamer \<Rightarrow> bool" where
  "moved n s s' \<longleftrightarrow> st_opt s' = st_opt s \<and> content s' = content s \<and> (chunks_ok n s \<longrightarrow> chunks_ok n s') \<and>
     (0 < n \<and> silent s \<longrightarrow> silent s')"

lemma moved_refl [simp]: "moved n s s" by (simp add: moved_def)

lemma moved_trans: "moved n s s' \<Longrightarrow> moved n s' s'' \<Longrightarrow> moved n s s''" by (simp add: moved_def)

lemmas streamer_defs = content_def chunks_ok_def silent_def moved_def

lemma moved_quiet [simp]:
  "moved n s (cancel_with e s)" "moved n s (Streamer_Close s)" "moved n s (end_buffer s)"
  "moved n s (snd (cancelResponse s))"
  by (auto simp: streamer_defs cancel_with_def Streamer_Close_def end_buffer_def cancelResponse_def Let_def split: option.split)

lemma moved_chunk: "can_stream n s \<Longrightarrow> moved n s (stream_chunk n s)"
  by (auto simp: streamer_defs can_stream_def stream_chunk_def)

lemma moved_hear: "can_hear s \<Longrightarrow> hear_chunk X v s = (answer, v', s') \<Longrightarrow> moved n s s'"
  by (cases "st_audioStream s")
    (auto simp: streamer_defs can_hear_def hear_chunk_def Let_def split: prod.splits if_splits)

definition fresh :: "nat \<Rightarrow> streamer \<Rightarrow> bool" where
  "fresh n s \<longleftrightarrow> content s = [] \<and> chunks_ok n s \<and> silent s"

lemma fresh_new [simp]: "fresh n (NewStreamer opt)" "fresh n (cancel_with e (NewStreamer opt))"
  by (simp_all add: fresh_def streamer_defs NewStreamer_def cancel_with_def)

definition all_moved :: "nat \<Rightarrow> streamer list \<Rightarrow> streamer list \<Rightarrow> bool" where
  "all_moved n xs ys \<longleftrightarrow> length xs \<le> length ys \<and> (\<forall>i < length xs. moved n (xs ! i) (ys ! i)) \<and>
     (\<forall>i. length xs \<le> i \<longrightarrow> i < length ys \<longrightarrow> fresh n (ys ! i))"

lemma all_moved_refl [simp]: "all_moved n xs xs" by (simp add: all_moved_def)

lemma all_moved_update: "moved n (xs ! i) s \<Longrightarrow> all_moved n xs (xs[i := s])"
  by (cases "i < length xs") (auto simp: all_moved_def nth_list_update)

lemma all_moved_snoc: "all_moved n xs ys \<Longrightarrow> length ys = length xs \<Longrightarrow> fresh n s \<Longrightarrow> all_moved n xs (ys @ [s])"
  by (auto simp: all_moved_def nth_append)

lemma close_moved: "all_moved n (vo_streams w) (vo_streams (close_current w))"
  by (simp add: close_current_def on_stream_def all_moved_update split: option.split)

lemma newStream_streams: "\<exists>s. vo_streams (newStream opt w) = vo_streams w @ [s] \<and> st_opt s = opt \<and> fresh n s"
  by (simp add: newStream_def) (simp add: cancel_with_def NewStreamer_def)

section \<open>One event\<close>

lemma close_streams:
  "vo_streams (close_current w) =
    (case vo_strm w of None \<Rightarrow> vo_streams w | Some i \<Rightarrow> (vo_streams w)[i := Streamer_Close (vo_streams w ! i)])"
  by (simp add: close_current_def on_stream_def split: option.split)

lemma taken_frame [voice_frame]:
  "vo_streams (intent_taken r w) = vo_streams (close_current w)" "vo_strm (intent_taken r w) = None"
  "vo_pending (intent_taken r w) = vo_pending w" "vo_chunkMs (intent_taken r w) = vo_chunkMs w"
  "vo_running (intent_taken r w) = vo_running w"
  "vo_streams (error_taken k e w) = vo_streams (close_current w)" "vo_strm (error_taken k e w) = None"
  "vo_pending (error_taken k e w) = vo_pending w" "vo_chunkMs (error_taken k e w) = vo_chunkMs w"
  "vo_running (error_taken k e w) = vo_running w"
  "vo_streams (check_error_taken k e w) = vo_streams (close_current w)" "vo_strm (check_error_taken k e w) = None"
  "vo_pending (check_error_taken k e w) = vo_pending w" "vo_chunkMs (check_error_taken k e w) = vo_chunkMs w"
  "vo_running (check_error_taken k e w) = vo_running w"
  "vo_streams (check_result_taken c w) = vo_streams (close_current w)" "vo_strm (check_result_taken c w) = None"
  "vo_pending (check_result_taken c w) = vo_pending w" "vo_chunkMs (check_result_taken c w) = vo_chunkMs w"
  "vo_running (check_result_taken c w) = vo_running w"
  by (simp_all add: intent_taken_def error_taken_def check_error_taken_def check_result_taken_def Let_def
      voice_frame close_streams split: option.split)

lemma call_taken_frame [voice_frame]:
  "vo_pending (call_taken i call w) = vo_pending w" "vo_chunkMs (call_taken i call w) = vo_chunkMs w"
  "vo_running (call_taken i call w) = vo_running w"
  by (simp_all add: call_taken_def voice_frame split: receiver_call.split)

lemma call_taken_moved: "all_moved n (vo_streams w) (vo_streams (call_taken i call w))"
  by (simp add: call_taken_def voice_frame close_moved split: receiver_call.split)

lemma hotword_moved: "all_moved n (vo_streams w) (vo_streams (hotword_event hw t w))"
proof (rule hotword_cases [of hw t w])
  fix opt assume "hotword_event hw t w = newStream opt (hotword_ready t w)"
  moreover obtain s where "vo_streams (newStream opt (hotword_ready t w)) = vo_streams (close_current w) @ [s]" "fresh n s"
    using newStream_streams [of opt "hotword_ready t w" n] by (auto simp: voice_frame)
  ultimately show ?thesis by (simp add: all_moved_snoc close_moved voice_frame)
qed (simp add: voice_frame close_moved)

lemma check_moved: "all_moved n (vo_streams w) (vo_streams (check_event w))"
proof -
  obtain s opt where "vo_streams (check_event w) = vo_streams (close_current w) @ [s]" "fresh n s" "st_opt s = opt"
    using newStream_streams [of _ "close_current w" n] unfolding check_event_def Let_def by blast
  then show ?thesis by (simp add: all_moved_snoc close_moved voice_frame)
qed

lemma event_chunkMs [voice_frame]:
  "vo_chunkMs (hotword_event hw t w) = vo_chunkMs w" "vo_chunkMs (check_event w) = vo_chunkMs w"
  by (rule hotword_cases [of hw t w]; simp add: voice_frame) (simp add: check_event_def Let_def voice_frame)

lemma offer_cases:
  assumes "offer i call w = (Ret (), w')"
  shows "w' = w \<or> w' = w\<lparr>vo_pending := vo_pending w @ [(i, call)]\<rparr>"
  using assms by (auto simp: offer_def split: if_splits)

definition is_audio :: "voice_event \<Rightarrow> bool" where
  "is_audio e = (case e of Message m _ \<Rightarrow> (case m of MicMessageWithAudio _ \<Rightarrow> True | _ \<Rightarrow> False) | _ \<Rightarrow> False)"

lemma message_moved:
  assumes "\<not> is_audio (Message msg t)" "message_event msg t w = (Ret (), w')"
  shows "all_moved n (vo_streams w) (vo_streams w') \<and> vo_chunkMs w' = vo_chunkMs w"
  using assms by (cases msg) (auto simp: message_event_def is_audio_def voice_frame hotword_moved check_moved)

lemma on_stream_moved: "moved n (vo_streams w ! i) (f (vo_streams w ! i)) \<Longrightarrow> all_moved n (vo_streams w) (vo_streams (on_stream i f w))"
  by (simp add: on_stream_def all_moved_update)

lemma answered_moved:
  assumes "(case answer of None \<Rightarrow> (Ret (), v) | Some call \<Rightarrow> offer i call v) = (Ret (), w')"
  shows "vo_streams w' = vo_streams v \<and> vo_chunkMs w' = vo_chunkMs v \<and> vo_strm w' = vo_strm v \<and>
    vo_sent w' = vo_sent v \<and> vo_running w' = vo_running v \<and>
    (vo_pending w' = vo_pending v \<or> (\<exists>call. answer = Some call \<and> vo_pending w' = vo_pending v @ [(i, call)]))"
  using assms by (cases answer) (auto dest: offer_cases)

lemma perform_heard:
  "perform X (ChunkHeard i) w = (case hear_chunk X (vo_vtr w) (vo_streams w ! i) of (answer, v, s) \<Rightarrow>
     (case answer of None \<Rightarrow> (Ret (), on_stream i (\<lambda>_. s) (w\<lparr>vo_vtr := v\<rparr>))
        | Some call \<Rightarrow> offer i call (on_stream i (\<lambda>_. s) (w\<lparr>vo_vtr := v\<rparr>))))"
  by (simp add: perform_def)

lemma perform_timeout:
  "perform X (TimeoutSeen i) w = (case cancelResponse (vo_streams w ! i) of (answer, s) \<Rightarrow>
     (case answer of None \<Rightarrow> (Ret (), on_stream i (\<lambda>_. s) w) | Some call \<Rightarrow> offer i call (on_stream i (\<lambda>_. s) w)))"
  by (simp add: perform_def split: prod.split option.split)

lemma perform_moved:
  assumes "enabled e w" "perform X e w = (Ret (), w')" "\<not> is_audio e"
  shows "all_moved (StreamSize w) (vo_streams w) (vo_streams w') \<and> vo_chunkMs w' = vo_chunkMs w"
proof (cases e)
  case (Message msg t)
  with assms message_moved show ?thesis by (simp add: perform_def)
next
  case (HandOver n)
  with assms(2) show ?thesis
    using call_taken_moved [of _ "w\<lparr>vo_pending := take n (vo_pending w) @ drop (Suc n) (vo_pending w)\<rparr>"]
    by (auto simp: perform_def voice_frame split: prod.splits)
next
  case (ChunkReady i)
  with assms(1,2) show ?thesis
    by (auto simp: perform_def enabled_def voice_frame intro!: on_stream_moved moved_chunk)
next
  case (ChunkHeard i)
  obtain answer v s where h: "hear_chunk X (vo_vtr w) (vo_streams w ! i) = (answer, v, s)" by (cases rule: prod_cases3)
  with assms(1) ChunkHeard have "moved (StreamSize w) (vo_streams w ! i) s" by (auto simp: enabled_def intro: moved_hear)
  then show ?thesis
    using assms(2) answered_moved [of "on_stream i (\<lambda>_. s) (w\<lparr>vo_vtr := v\<rparr>)" i answer w']
    unfolding ChunkHeard perform_heard h by (simp add: voice_frame) (simp add: on_stream_def all_moved_update)
next
  case (BufferEnd i)
  with assms(2) show ?thesis by (auto simp: perform_def voice_frame intro!: on_stream_moved)
next
  case (Deadline i)
  with assms(2) show ?thesis by (auto simp: perform_def voice_frame intro!: on_stream_moved)
next
  case (TimeoutSeen i)
  obtain answer s where h: "cancelResponse (vo_streams w ! i) = (answer, s)" by fastforce
  then have "moved (StreamSize w) (vo_streams w ! i) s" using moved_quiet(4) [of _ "vo_streams w ! i"] by simp
  then show ?thesis
    using assms(2) answered_moved [of "on_stream i (\<lambda>_. s) w" i answer w']
    unfolding TimeoutSeen perform_timeout h by (simp add: voice_frame) (simp add: on_stream_def all_moved_update)
next
  case CancelAll
  with assms(2) show ?thesis by (auto simp: perform_def all_moved_def)
next
  case StopSeen
  with assms(2) show ?thesis by (auto simp: perform_def split: if_splits)
qed

lemma perform_audio:
  assumes "perform X (Message (MicMessageWithAudio b) t) w = (Ret (), w')"
  shows "w' = w \<and> (\<forall>i. vo_strm w = Some i \<longrightarrow> is_check (st_opt (vo_streams w ! i))) \<or>
    (\<exists>i. vo_strm w = Some i \<and> \<not> is_check (st_opt (vo_streams w ! i)) \<and>
         w' = on_stream i (\<lambda>s. s\<lparr>st_audioBuf := st_audioBuf s @ sample_bytes b\<rparr>) w)"
proof (cases "vo_strm w")
  case None
  with assms show ?thesis by (simp add: perform_def message_event_def audio_event_def)
next
  case (Some i)
  with assms show ?thesis
    by (auto simp: perform_def message_event_def audio_event_def AddSamples_def addBytes_def on_stream_def split: if_splits)
qed

definition tidy :: "'v voice \<Rightarrow> bool" where
  "tidy w \<longleftrightarrow> (\<forall>i. vo_strm w = Some i \<longrightarrow> i < length (vo_streams w)) \<and>
     (\<forall>(i, call) \<in> set (vo_pending w). i < length (vo_streams w))"

text \<open>Everything but a call that is offered keeps the waiting calls, or takes one away.\<close>

lemma perform_pending:
  assumes "enabled e w" "perform X e w = (Ret (), w')"
  obtains "set (vo_pending w') \<subseteq> set (vo_pending w)"
  | i answer v s where "e = ChunkHeard i" "hear_chunk X (vo_vtr w) (vo_streams w ! i) = (Some answer, v, s)"
      "vo_pending w' = vo_pending w @ [(i, answer)]"
  | i answer s where "e = TimeoutSeen i" "cancelResponse (vo_streams w ! i) = (Some answer, s)"
      "vo_pending w' = vo_pending w @ [(i, answer)]"
proof (cases e)
  case (Message msg t)
  have "vo_pending (hotword_event hw u w) = vo_pending w" for hw u
    by (rule hotword_cases [of hw u w]) (simp_all add: voice_frame)
  then have "vo_pending w' = vo_pending w" using assms(2) unfolding Message
    by (cases msg) (auto simp: perform_def message_event_def voice_frame check_event_def Let_def audio_event_def
        split: option.splits outcome.splits prod.splits)
  then show ?thesis using that(1) by simp
next
  case (HandOver n)
  with assms(2) have "vo_pending w' = take n (vo_pending w) @ drop (Suc n) (vo_pending w)"
    by (auto simp: perform_def voice_frame split: prod.splits)
  then show ?thesis using that(1) by (simp add: set_take_subset set_drop_subset)
next
  case (ChunkHeard i)
  obtain answer v s where h: "hear_chunk X (vo_vtr w) (vo_streams w ! i) = (answer, v, s)" by (cases rule: prod_cases3)
  have "(case answer of None \<Rightarrow> (Ret (), on_stream i (\<lambda>_. s) (w\<lparr>vo_vtr := v\<rparr>))
      | Some call \<Rightarrow> offer i call (on_stream i (\<lambda>_. s) (w\<lparr>vo_vtr := v\<rparr>))) = (Ret (), w')"
    using assms(2) unfolding ChunkHeard perform_heard h by simp
  from answered_moved [OF this] have "vo_pending w' = vo_pending w \<or> (\<exists>call. answer = Some call \<and> vo_pending w' = vo_pending w @ [(i, call)])"
    by (simp add: voice_frame)
  then show ?thesis
  proof
    assume "\<exists>call. answer = Some call \<and> vo_pending w' = vo_pending w @ [(i, call)]"
    then obtain call where "answer = Some call" "vo_pending w' = vo_pending w @ [(i, call)]" by blast
    with ChunkHeard h show ?thesis using that(2) by blast
  qed (use that(1) in simp)
next
  case (TimeoutSeen i)
  obtain answer s where h: "cancelResponse (vo_streams w ! i) = (answer, s)" by fastforce
  have "(case answer of None \<Rightarrow> (Ret (), on_stream i (\<lambda>_. s) w) | Some call \<Rightarrow> offer i call (on_stream i (\<lambda>_. s) w)) = (Ret (), w')"
    using assms(2) unfolding TimeoutSeen perform_timeout h by simp
  from answered_moved [OF this] have "vo_pending w' = vo_pending w \<or> (\<exists>call. answer = Some call \<and> vo_pending w' = vo_pending w @ [(i, call)])"
    by (simp add: voice_frame)
  then show ?thesis
  proof
    assume "\<exists>call. answer = Some call \<and> vo_pending w' = vo_pending w @ [(i, call)]"
    then obtain call where "answer = Some call" "vo_pending w' = vo_pending w @ [(i, call)]" by blast
    with TimeoutSeen h show ?thesis using that(3) by blast
  qed (use that(1) in simp)
qed (use assms(2) that(1) in \<open>auto simp: perform_def voice_frame split: if_splits\<close>)

text \<open>The streams only grow; the current one is as before, gone, or new.\<close>

lemma perform_streams:
  assumes "enabled e w" "perform X e w = (Ret (), w')"
  shows "length (vo_streams w) \<le> length (vo_streams w') \<and> vo_chunkMs w' = vo_chunkMs w \<and>
    (\<forall>i < length (vo_streams w). st_opt (vo_streams w' ! i) = st_opt (vo_streams w ! i))"
proof (cases "is_audio e")
  case True
  then obtain b t where "e = Message (MicMessageWithAudio b) t" by (auto simp: is_audio_def split: voice_event.splits mic_message.splits)
  with perform_audio [of X b t w w'] assms(2) show ?thesis by (auto simp: voice_frame on_stream_nth)
next
  case False
  with perform_moved [OF assms] show ?thesis by (simp add: all_moved_def moved_def)
qed

lemma perform_current:
  assumes "enabled e w" "perform X e w = (Ret (), w')"
  shows "vo_strm w' = vo_strm w \<or> vo_strm w' = None \<or> vo_strm w' = Some (length (vo_streams w)) \<and> length (vo_streams w) < length (vo_streams w')"
proof (cases e)
  case (Message msg t)
  have "vo_strm (hotword_event hw u w) = vo_strm w \<or> vo_strm (hotword_event hw u w) = Some (length (vo_streams w)) \<and>
      length (vo_streams w) < length (vo_streams (hotword_event hw u w))" for hw u
    by (rule hotword_cases [of hw u w]) (simp_all add: voice_frame)
  then show ?thesis using assms(2) unfolding Message
    by (cases msg) (auto simp: perform_def message_event_def voice_frame check_event_def Let_def audio_event_def
        split: option.splits outcome.splits prod.splits)
next
  case (HandOver n)
  with assms(2) show ?thesis
    by (auto simp: perform_def call_taken_def voice_frame split: prod.splits receiver_call.splits if_splits)
next
  case (ChunkHeard i)
  obtain answer v s where h: "hear_chunk X (vo_vtr w) (vo_streams w ! i) = (answer, v, s)" by (cases rule: prod_cases3)
  show ?thesis using assms(2) answered_moved [of "on_stream i (\<lambda>_. s) (w\<lparr>vo_vtr := v\<rparr>)" i answer w']
    unfolding ChunkHeard perform_heard h by (simp add: voice_frame)
next
  case (TimeoutSeen i)
  obtain answer s where h: "cancelResponse (vo_streams w ! i) = (answer, s)" by fastforce
  show ?thesis using assms(2) answered_moved [of "on_stream i (\<lambda>_. s) w" i answer w']
    unfolding TimeoutSeen perform_timeout h by (simp add: voice_frame)
qed (use assms(2) in \<open>auto simp: perform_def voice_frame split: if_splits\<close>)

lemma perform_sane:
  assumes "tidy w" "enabled e w" "perform X e w = (Ret (), w')"
  shows "tidy w'"
proof -
  have longer: "length (vo_streams w) \<le> length (vo_streams w')" using perform_streams [OF assms(2,3)] by blast
  moreover have "i < length (vo_streams w')" if "vo_strm w' = Some i" for i
    using perform_current [OF assms(2,3)]
  proof (elim disjE conjE)
    assume "vo_strm w' = vo_strm w"
    with that assms(1) have "i < length (vo_streams w)" by (simp add: tidy_def)
    with longer show ?thesis by simp
  qed (use that in simp_all)
  moreover have "\<forall>(i, call) \<in> set (vo_pending w'). i < length (vo_streams w')"
  proof (rule perform_pending [OF assms(2,3)])
    assume "set (vo_pending w') \<subseteq> set (vo_pending w)"
    with assms(1) calculation show ?thesis by (fastforce simp: tidy_def)
  next
    fix i answer v s assume "e = ChunkHeard i" "vo_pending w' = vo_pending w @ [(i, answer)]"
    with assms(1,2) calculation show ?thesis by (fastforce simp: tidy_def enabled_def)
  next
    fix i answer s assume "e = TimeoutSeen i" "vo_pending w' = vo_pending w @ [(i, answer)]"
    with assms(1,2) calculation show ?thesis by (fastforce simp: tidy_def enabled_def)
  qed
  ultimately show ?thesis by (simp add: tidy_def)
qed

lemma start_sane [simp]: "tidy (voice_start chunkMs listener receivers intents faults v)"
  by (simp add: tidy_def voice_start_def)

text \<open>An invariant of the events holds along every run.\<close>

lemma run_invariant:
  assumes "voice_run X es w = (Ret (), w')" "P w"
    and "\<And>e v v'. P v \<Longrightarrow> enabled e v \<Longrightarrow> perform X e v = (Ret (), v') \<Longrightarrow> P v'"
  shows "P w'"
  using assms(1,2)
proof (induction es arbitrary: w)
  case (Cons e es)
  then show ?case
    by (auto simp: bindM_def split: if_splits prod.splits outcome.splits dest: assms(3))
qed (simp add: returnM_def)

section \<open>Where the audio goes\<close>

text \<open>
  The bytes of all samples that came while streamer \<open>i\<close> was the current one of a running loop.
\<close>

definition spoken :: "voice_event \<Rightarrow> 'v voice \<Rightarrow> nat \<Rightarrow> byte list" where
  "spoken e w i = (case e of Message (MicMessageWithAudio b) _ \<Rightarrow>
      if vo_running w \<and> vo_strm w = Some i \<and> \<not> is_check (st_opt (vo_streams w ! i)) then sample_bytes b else []
    | _ \<Rightarrow> [])"

fun audio_of :: "'v services \<Rightarrow> voice_event list \<Rightarrow> 'v voice \<Rightarrow> nat \<Rightarrow> byte list" where
  "audio_of X [] w i = []"
| "audio_of X (e # es) w i = spoken e w i @ audio_of X es (if enabled e w then snd (perform X e w) else w) i"

definition content_at :: "'v voice \<Rightarrow> nat \<Rightarrow> byte list" where
  "content_at w i = (if i < length (vo_streams w) then content (vo_streams w ! i) else [])"

lemma spoken_other [simp]: "\<not> is_audio e \<Longrightarrow> spoken e w i = []"
  by (auto simp: spoken_def is_audio_def split: voice_event.split mic_message.split)

lemma perform_content:
  assumes "tidy w" "enabled e w" "perform X e w = (Ret (), w')"
  shows "content_at w' i = content_at w i @ spoken e w i"
proof (cases "is_audio e")
  case True
  then obtain b t where e: "e = Message (MicMessageWithAudio b) t" by (auto simp: is_audio_def split: voice_event.splits mic_message.splits)
  with assms(2) have "vo_running w" by (simp add: enabled_def)
  then show ?thesis
    using perform_audio [of X b t w w'] assms(1,3) unfolding e
    by (auto simp: content_at_def content_def spoken_def voice_frame on_stream_nth tidy_def)
next
  case False
  with perform_moved [OF assms(2,3) False] show ?thesis
    by (simp add: content_at_def all_moved_def moved_def fresh_def not_less)
qed

lemma run_content:
  "tidy w \<Longrightarrow> voice_run X es w = (Ret (), w') \<Longrightarrow> content_at w' i = content_at w i @ audio_of X es w i"
proof (induction es arbitrary: w)
  case (Cons e es)
  show ?case
  proof (cases "enabled e w")
    case True
    with Cons.prems(2) obtain v where v: "perform X e w = (Ret (), v)" "voice_run X es v = (Ret (), w')"
      by (auto simp: bindM_def split: prod.splits outcome.splits)
    with Cons.IH [OF perform_sane [OF Cons.prems(1) True v(1)] v(2)] perform_content [OF Cons.prems(1) True v(1), of i] True
    show ?thesis by simp
  next
    case False
    moreover have "spoken e w i = []" if "\<not> enabled e w"
      using that by (auto simp: spoken_def enabled_def split: voice_event.split mic_message.split)
    ultimately show ?thesis using Cons by simp
  qed
qed (simp add: returnM_def)

lemma perform_chunks:
  assumes "enabled e w" "perform X e w = (Ret (), w')"
    and "vo_chunkMs w = ms" "\<forall>s \<in> set (vo_streams w). chunks_ok (StreamSize w) s"
  shows "vo_chunkMs w' = ms \<and> (\<forall>s \<in> set (vo_streams w'). chunks_ok (StreamSize w') s)"
proof -
  have n: "StreamSize w' = StreamSize w" using perform_streams [OF assms(1,2)] by (simp add: StreamSize_def ChunkSamples_def)
  have "chunks_ok (StreamSize w) (vo_streams w' ! i)" if "i < length (vo_streams w')" for i
  proof (cases "is_audio e")
    case True
    then obtain b t where "e = Message (MicMessageWithAudio b) t" by (auto simp: is_audio_def split: voice_event.splits mic_message.splits)
    with perform_audio [of X b t w w'] assms(2,4) that show ?thesis
      by (auto simp: voice_frame on_stream_nth)
  next
    case False
    with perform_moved [OF assms(1,2) False] assms(4) that show ?thesis
      by (cases "i < length (vo_streams w)") (simp_all add: all_moved_def moved_def fresh_def)
  qed
  then show ?thesis using n perform_streams [OF assms(1,2)] assms(3) by (simp add: all_set_conv_all_nth)
qed

section \<open>Results of hotwords\<close>

definition is_result :: "mic_message \<Rightarrow> bool" where
  "is_result m = (case m of MicMessageWithResult _ \<Rightarrow> True | _ \<Rightarrow> False)"

definition results :: "nat \<Rightarrow> 'v voice \<Rightarrow> nat" where
  "results k w = length (filter is_result (heard_by (AI k) w))"

definition hotwords :: "voice_event list \<Rightarrow> nat" where
  "hotwords es = length (filter (\<lambda>e. case e of Message (MicMessageWithHotword _) _ \<Rightarrow> True | _ \<Rightarrow> False) es)"

text \<open>Is the loop waiting for the result of an utterance?\<close>

definition awaiting :: "'v voice \<Rightarrow> nat" where
  "awaiting w = (case vo_strm w of None \<Rightarrow> 0 | Some i \<Rightarrow> if is_check (st_opt (vo_streams w ! i)) then 0 else 1)"

lemma results_frame [voice_frame]:
  "results k (on_stream i f w) = results k w" "results k (close_current w) = results k w"
  "results k (finish_current w) = results k w" "results k (newStream opt w) = results k w"
  "results k (writeMic m w) = results k w" "results k (hotword_ready t w) = results k w"
  "results k (signalMicStop w) = results k w" "results k (respondToConnectionCheck res w) = results k w"
  by (simp_all add: results_def voice_frame writeMic_received signalMicStop_def respondToConnectionCheck_def)

lemma results_cong: "vo_sent w' = vo_sent w \<Longrightarrow> results k w' = results k w"
  by (simp add: results_def heard_by_def)

lemma results_writeResponse: "results k (writeResponse m w) \<le> results k w + (if is_result m then 1 else 0)"
  using writeResponse_received(1) [of m k w] by (auto simp: results_def at_most_one_def)

lemma results_error: "results k (writeError r t w) \<le> results k w"
  using results_writeResponse [of k "MicMessageWithError \<lparr>IntentError_Error = r, IntentError_Extra = t\<rparr>" w]
  by (simp add: writeError_def is_result_def)

lemma results_taken:
  "results k (intent_taken r w) \<le> Suc (results k w)" "results k (error_taken c e w) \<le> results k w"
  "results k (check_error_taken c e w) = results k w" "results k (check_result_taken q w) = results k w"
proof -
  show "results k (intent_taken r w) \<le> Suc (results k w)"
    using results_writeResponse [of k "MicMessageWithResult r" "signalMicStop w"]
    by (simp add: intent_taken_def voice_frame is_result_def)
  let ?w = "writeError c (voice_error_text e) (signalMicStop w)"
  have "results k (error_taken c e w) = results k ?w"
    using results_cong [of "?w\<lparr>vo_errors := vo_errors ?w @ [e]\<rparr>" ?w k] by (simp add: error_taken_def Let_def voice_frame)
  with results_error [of k c "voice_error_text e" "signalMicStop w"]
  show "results k (error_taken c e w) \<le> results k w" by (simp add: voice_frame)
qed (simp_all add: check_error_taken_def check_result_taken_def voice_frame)

lemma call_taken_results: "results k (call_taken i call w) + awaiting (call_taken i call w) \<le> results k w + awaiting w"
proof (cases "vo_strm w = Some i")
  case True
  show ?thesis
  proof (cases "is_check (st_opt (vo_streams w ! i))")
    case check: True
    with True show ?thesis
      by (cases call) (simp_all add: call_taken_def awaiting_def voice_frame results_taken(3,4))
  next
    case False
    have open_call: "results k (writeResponse (MicMessageWithStreamOpen session) w) \<le> results k w" for session
      using results_writeResponse [of k "MicMessageWithStreamOpen session" w] by (simp add: is_result_def)
    from True False show ?thesis
      using results_taken(1,2) [where k = k and w = w] open_call
      by (cases call) (simp_all add: call_taken_def awaiting_def voice_frame le_SucI)
  qed
qed (simp add: call_taken_def)

lemma message_results:
  assumes "message_event msg t w = (Ret (), w')"
  shows "results k w' + awaiting w' \<le> results k w + awaiting w + hotwords [Message msg t]"
proof (cases msg)
  case (MicMessageWithHotword hw)
  have "results k (hotword_event hw t w) \<le> results k w"
    by (rule hotword_cases [of hw t w]) (use results_error [of k _ _ "hotword_ready t w"] in \<open>simp_all add: voice_frame\<close>)
  moreover have "awaiting (hotword_event hw t w) \<le> 1" by (simp add: awaiting_def split: option.split)
  ultimately show ?thesis using assms MicMessageWithHotword by (auto simp: message_event_def hotwords_def)
next
  case (MicMessageWithAudio b)
  then have "perform X (Message (MicMessageWithAudio b) t) w = (Ret (), w')" for X :: "'a services"
    using assms by (simp add: perform_def)
  from perform_audio [OF this] show ?thesis
    by (auto simp: awaiting_def voice_frame hotwords_def split: option.split)
next
  case MicMessageWithConnectionCheck
  obtain s opt where "vo_streams (check_event w) = vo_streams (close_current w) @ [s]" "st_opt s = opt" "is_check opt"
    using newStream_streams [of _ "close_current w"] unfolding check_event_def Let_def by (metis is_check_simps(3))
  then have "awaiting (check_event w) = 0"
    by (simp add: awaiting_def check_event_def Let_def voice_frame nth_append)
  with MicMessageWithConnectionCheck assms show ?thesis
    by (auto simp: message_event_def hotwords_def check_event_def Let_def voice_frame)
next
  case (MicMessageWithDebugFile f)
  with assms results_writeResponse [of k msg w] show ?thesis
    by (auto simp: message_event_def hotwords_def is_result_def awaiting_def voice_frame split: option.split)
qed (use assms in \<open>auto simp: message_event_def hotwords_def\<close>)

lemma perform_quiet:
  assumes "enabled e w" "perform X e w = (r, w')"
    and "\<not> (\<exists>msg t. e = Message msg t)" "\<not> (\<exists>n. e = HandOver n)"
  shows "vo_sent w' = vo_sent w \<and> vo_strm w' = vo_strm w"
proof -
  have offered: "vo_sent v' = vo_sent v \<and> vo_strm v' = vo_strm v"
    if "(case answer of None \<Rightarrow> (Ret (), v) | Some call \<Rightarrow> offer i call v) = (r, v')" for answer i and v v' :: "'a voice"
    using that by (cases answer) (auto simp: offer_def split: if_splits)
  show ?thesis
  proof (cases e)
    case (ChunkHeard i)
    obtain answer v s where h: "hear_chunk X (vo_vtr w) (vo_streams w ! i) = (answer, v, s)" by (cases rule: prod_cases3)
    show ?thesis using assms(2) offered [of "on_stream i (\<lambda>_. s) (w\<lparr>vo_vtr := v\<rparr>)" i answer w']
      unfolding ChunkHeard perform_heard h by (simp add: voice_frame)
  next
    case (TimeoutSeen i)
    obtain answer s where h: "cancelResponse (vo_streams w ! i) = (answer, s)" by fastforce
    show ?thesis using assms(2) offered [of "on_stream i (\<lambda>_. s) w" i answer w']
      unfolding TimeoutSeen perform_timeout h by (simp add: voice_frame)
  qed (use assms in \<open>auto simp: perform_def voice_frame split: if_splits\<close>)
qed

lemma perform_results:
  assumes "tidy w" "enabled e w" "perform X e w = (Ret (), w')"
  shows "results k w' + awaiting w' \<le> results k w + awaiting w + hotwords [e]"
proof -
  have unhurt: ?thesis if "\<not> (\<exists>msg t. e = Message msg t)" "\<not> (\<exists>n. e = HandOver n)"
    using assms(1) perform_quiet [OF assms(2,3) that] perform_streams [OF assms(2,3)]
    by (auto simp: awaiting_def tidy_def results_cong [of w' w] split: option.split)
  show ?thesis
  proof (cases e)
    case (Message msg t)
    with assms(3) message_results [of msg t w w' k] show ?thesis by (simp add: perform_def)
  next
    case (HandOver n)
    let ?v = "w\<lparr>vo_pending := take n (vo_pending w) @ drop (Suc n) (vo_pending w)\<rparr>"
    obtain i call where "vo_pending w ! n = (i, call)" by fastforce
    with HandOver assms(3) have "w' = call_taken i call ?v" by (simp add: perform_def)
    moreover have "awaiting ?v = awaiting w" "results k ?v = results k w"
      by (simp_all add: awaiting_def results_cong [of ?v w] split: option.split)
    ultimately show ?thesis using call_taken_results [of k i call ?v] by simp
  qed (use unhurt in simp_all)
qed

lemma perform_crash_quiet:
  assumes "enabled e w" "perform X e w = (r, w')" "r \<noteq> Ret ()"
  shows "results k w' = results k w"
proof -
  have "vo_sent w' = vo_sent w"
  proof (cases e)
    case (Message msg t)
    with assms(2,3) show ?thesis
      by (cases msg) (auto simp: perform_def message_event_def audio_event_def split: option.splits outcome.splits prod.splits)
  next
    case (HandOver n)
    with assms(2,3) show ?thesis by (auto simp: perform_def split: prod.splits)
  qed (use perform_quiet [OF assms(1,2)] in simp_all)
  then show ?thesis by (rule results_cong)
qed

lemma hotwords_Cons: "hotwords (e # es) = hotwords [e] + hotwords es"
  by (simp add: hotwords_def)

lemma run_results: "tidy w \<Longrightarrow> results k (snd (voice_run X es w)) \<le> results k w + awaiting w + hotwords es"
proof (induction es arbitrary: w)
  case (Cons e es)
  show ?case
  proof (cases "enabled e w")
    case True
    obtain r v where r: "perform X e w = (r, v)" by fastforce
    show ?thesis
    proof (cases "r = Ret ()")
      case ret: True
      with r have p: "perform X e w = (Ret (), v)" by simp
      have "results k (snd (voice_run X es v)) \<le> results k v + awaiting v + hotwords es"
        by (rule Cons.IH [OF perform_sane [OF Cons.prems True p]])
      with perform_results [OF Cons.prems True p, of k] True p show ?thesis
        by (simp add: bindM_def hotwords_Cons [of e es])
    next
      case False
      with r True perform_crash_quiet [OF True r False, of k] show ?thesis
        by (cases r) (simp_all add: bindM_def)
    qed
  next
    case False
    with Cons.IH [OF Cons.prems] show ?thesis by (simp add: hotwords_Cons [of e es])
  qed
qed (simp add: returnM_def)

section \<open>Connection checks\<close>

definition check_answer_ok :: "mic_message \<Rightarrow> bool" where
  "check_answer_ok m = (case m of
      MicMessageWithConnectionResult r \<Rightarrow> ConnectionResult_Code r = ConnectionCode_Bandwidth \<and> ConnectionResult_NumPackets r = 0
    | _ \<Rightarrow> True)"

definition unhurt :: "'v voice \<Rightarrow> bool" where
  "unhurt w \<longleftrightarrow> tidy w \<and> 0 < StreamSize w \<and>
     (\<forall>i < length (vo_streams w). is_check (st_opt (vo_streams w ! i)) \<longrightarrow> silent (vo_streams w ! i)) \<and>
     (\<forall>(i, call) \<in> set (vo_pending w). is_check (st_opt (vo_streams w ! i)) \<longrightarrow> (\<exists>e. call = OnError ErrorType_Timeout e)) \<and>
     (\<forall>k. list_all check_answer_ok (heard_by (Mic k) w))"

lemma one_ok: "at_most_one m old new \<Longrightarrow> check_answer_ok m \<Longrightarrow> list_all check_answer_ok old \<Longrightarrow> list_all check_answer_ok new"
  by (auto simp: at_most_one_def)

lemma writeMic_ok:
  "check_answer_ok m \<Longrightarrow> list_all check_answer_ok (heard_by (Mic k) w) \<Longrightarrow>
   list_all check_answer_ok (heard_by (Mic k) (writeMic m w))"
  by (rule one_ok [OF writeMic_received(1)])

lemma writes_ok:
  assumes "list_all check_answer_ok (heard_by (Mic k) w)"
  shows "list_all check_answer_ok (heard_by (Mic k) (signalMicStop w))"
    and "list_all check_answer_ok (heard_by (Mic k) (respondToConnectionCheck (Inr (ErrorType_Timeout, e)) w))"
    and "list_all check_answer_ok (heard_by (Mic k) (hotword_ready t w))"
  using assms
  by (simp_all add: signalMicStop_def respondToConnectionCheck_def hotword_ready_def writeMic_ok voice_frame
      check_answer_ok_def cloud_codes)

lemma error_received: "heard_by (Mic k) (writeError r t w) = heard_by (Mic k) w"
  by (simp add: writeError_def writeResponse_received)

lemma received_errors: "heard_by t (w\<lparr>vo_errors := es\<rparr>) = heard_by t w"
  by (simp add: heard_by_def)

lemma call_taken_ok:
  assumes "list_all check_answer_ok (heard_by (Mic k) w)"
    and "is_check (st_opt (vo_streams w ! i)) \<longrightarrow> (\<exists>e. call = OnError ErrorType_Timeout e)"
  shows "list_all check_answer_ok (heard_by (Mic k) (call_taken i call w))"
proof (cases "is_check (st_opt (vo_streams w ! i))")
  case True
  with assms show ?thesis by (auto simp: call_taken_def check_error_taken_def voice_frame writes_ok(2))
next
  case False
  have "list_all check_answer_ok (heard_by (Mic k) (intent_taken r w))"
    "list_all check_answer_ok (heard_by (Mic k) (error_taken c e w))" for r c e
    using assms(1) by (simp_all add: intent_taken_def error_taken_def Let_def voice_frame writeResponse_received(2)
        error_received received_errors writes_ok(1))
  with False assms(1) show ?thesis
    by (simp add: call_taken_def writeResponse_received(2) split: receiver_call.split)
qed

lemma message_ok:
  assumes "message_event msg t w = (Ret (), w')" "list_all check_answer_ok (heard_by (Mic k) w)"
  shows "list_all check_answer_ok (heard_by (Mic k) w')"
proof (cases msg)
  case (MicMessageWithHotword hw)
  have "list_all check_answer_ok (heard_by (Mic k) (hotword_event hw t w))"
    by (rule hotword_cases [of hw t w]) (simp_all add: error_received voice_frame writes_ok(3) assms(2))
  with MicMessageWithHotword assms(1) show ?thesis by (simp add: message_event_def)
next
  case (MicMessageWithAudio b)
  then have "perform X (Message (MicMessageWithAudio b) t) w = (Ret (), w')" for X :: "'a services"
    using assms(1) by (simp add: perform_def)
  from perform_audio [OF this] assms(2) show ?thesis by (auto simp: voice_frame)
qed (use assms in \<open>auto simp: message_event_def voice_frame check_event_def Let_def writeResponse_received(2)\<close>)

lemma perform_mic:
  assumes "unhurt w" "enabled e w" "perform X e w = (Ret (), w')"
  shows "list_all check_answer_ok (heard_by (Mic k) w')"
proof -
  have ok: "list_all check_answer_ok (heard_by (Mic k) w)" using assms(1) by (simp add: unhurt_def)
  have unhurt: ?thesis if "\<not> (\<exists>msg t. e = Message msg t)" "\<not> (\<exists>n. e = HandOver n)"
    using ok perform_quiet [OF assms(2,3) that] received_cong [of w' w "Mic k"] by simp
  show ?thesis
  proof (cases e)
    case (Message msg t)
    with assms(3) have "message_event msg t w = (Ret (), w')" by (simp add: perform_def)
    from message_ok [OF this ok] show ?thesis .
  next
    case (HandOver n)
    let ?v = "w\<lparr>vo_pending := take n (vo_pending w) @ drop (Suc n) (vo_pending w)\<rparr>"
    obtain i call where c: "vo_pending w ! n = (i, call)" by fastforce
    have "(i, call) \<in> set (vo_pending w)" using HandOver assms(2) c nth_mem [of n "vo_pending w"] by (simp add: enabled_def)
    then have "is_check (st_opt (vo_streams ?v ! i)) \<longrightarrow> (\<exists>e. call = OnError ErrorType_Timeout e)"
      using assms(1) by (auto simp: unhurt_def)
    moreover have "list_all check_answer_ok (heard_by (Mic k) ?v)" using ok received_cong [of ?v w "Mic k"] by simp
    ultimately have "list_all check_answer_ok (heard_by (Mic k) (call_taken i call ?v))" by (rule call_taken_ok [rotated])
    with HandOver c assms(3) show ?thesis by (simp add: perform_def)
  qed (use unhurt in simp_all)
qed

lemma perform_silent:
  assumes "unhurt w" "enabled e w" "perform X e w = (Ret (), w')" "i < length (vo_streams w')" "is_check (st_opt (vo_streams w' ! i))"
  shows "silent (vo_streams w' ! i)"
proof (cases "is_audio e")
  case True
  then obtain b t where "e = Message (MicMessageWithAudio b) t" by (auto simp: is_audio_def split: voice_event.splits mic_message.splits)
  with perform_audio [of X b t w w'] assms show ?thesis by (auto simp: voice_frame on_stream_nth unhurt_def split: if_splits)
next
  case False
  with perform_moved [OF assms(2,3) False] assms show ?thesis
    by (cases "i < length (vo_streams w)") (simp_all add: all_moved_def moved_def fresh_def unhurt_def)
qed

lemma perform_calm:
  assumes "unhurt w" "enabled e w" "perform X e w = (Ret (), w')"
  shows "unhurt w'"
proof -
  have tidy: "tidy w" and silent: "\<And>i. i < length (vo_streams w) \<Longrightarrow> is_check (st_opt (vo_streams w ! i)) \<Longrightarrow> silent (vo_streams w ! i)"
    and pending: "\<And>i call. (i, call) \<in> set (vo_pending w) \<Longrightarrow> is_check (st_opt (vo_streams w ! i)) \<Longrightarrow> \<exists>e. call = OnError ErrorType_Timeout e"
    using assms(1) by (auto simp: unhurt_def)
  have opt: "\<And>i. i < length (vo_streams w) \<Longrightarrow> st_opt (vo_streams w' ! i) = st_opt (vo_streams w ! i)"
    and ms: "StreamSize w' = StreamSize w"
    using perform_streams [OF assms(2,3)] by (simp_all add: StreamSize_def ChunkSamples_def)
  have old: "\<exists>e. call = OnError ErrorType_Timeout e"
    if "(i, call) \<in> set (vo_pending w)" "is_check (st_opt (vo_streams w' ! i))" for i call
  proof -
    have "i < length (vo_streams w)" using tidy that(1) by (auto simp: tidy_def)
    with that opt pending show ?thesis by simp
  qed
  have "\<forall>(i, call) \<in> set (vo_pending w'). is_check (st_opt (vo_streams w' ! i)) \<longrightarrow> (\<exists>e. call = OnError ErrorType_Timeout e)"
  proof (rule perform_pending [OF assms(2,3)])
    assume "set (vo_pending w') \<subseteq> set (vo_pending w)"
    with old show ?thesis by (auto dest: subsetD)
  next
    fix i answer v s
    assume e: "e = ChunkHeard i" "vo_pending w' = vo_pending w @ [(i, answer)]"
    then have "i < length (vo_streams w)" "\<not> is_check (st_opt (vo_streams w ! i))"
      using assms(2) silent [of i] by (auto simp: enabled_def can_hear_def silent_def)
    with e(2) old opt show ?thesis by auto
  next
    fix i answer s
    assume "cancelResponse (vo_streams w ! i) = (Some answer, s)" "vo_pending w' = vo_pending w @ [(i, answer)]"
    with old show ?thesis by (auto simp: cancelResponse_def Let_def split: option.splits if_splits)
  qed
  with perform_mic [OF assms] perform_silent [OF assms] perform_sane [OF tidy assms(2,3)] ms assms(1)
  show ?thesis by (simp add: unhurt_def)
qed

section \<open>Properties\<close>

text \<open>
  C5. For every interleaving of the voice process with its streamers: what a streamer has given to
  the recogniser, what it holds ready and what it still buffers are, put together, just the bytes of
  the audio that came while it was the current one of the loop, in order; every chunk that is given
  to the recogniser has the size that the options ask for, and never more than ten of them wait.
\<close>

theorem audio_reaches_recogniser:
  assumes "voice_run X es (voice_start ms listener rs ns faults v) = (Ret (), w)"
    and "i < length (vo_streams w)" "s = vo_streams w ! i"
  shows "concat (st_taken s) @ concat (st_audioStream s) @ st_audioBuf s =
      audio_of X es (voice_start ms listener rs ns faults v) i \<and>
    (\<forall>c \<in> set (st_taken s @ st_audioStream s). length c = 16000 * ms div 1000 * 2) \<and>
    length (st_audioStream s) \<le> 10"
proof -
  let ?w = "voice_start ms listener rs ns faults v"
  have "content_at w i = content_at ?w i @ audio_of X es ?w i" by (rule run_content [OF start_sane assms(1)])
  moreover have "vo_chunkMs w = ms \<and> (\<forall>s \<in> set (vo_streams w). chunks_ok (StreamSize w) s)"
    by (rule run_invariant [OF assms(1)]) (simp add: voice_start_def, elim conjE, rule perform_chunks, assumption+)
  ultimately show ?thesis using assms(2,3) nth_mem [OF assms(2)]
    by (auto simp: content_at_def content_def chunks_ok_def StreamSize_def ChunkSamples_def voice_start_def)
qed

text \<open>
  C6. However the goroutines of the streamers, the deadlines and the loop interleave, and whichever
  writes fail, no reader of intents gets more results than there were hotwords: an answer of a
  streamer that was replaced or has answered is ignored.
\<close>

theorem one_result_per_hotword:
  "length (filter is_result (heard_by (AI k) (snd (voice_run X es (voice_start ms listener rs ns faults v))))) \<le> hotwords es"
  using run_results [OF start_sane, of k X es ms listener rs ns faults v]
  by (simp add: results_def heard_by_def awaiting_def voice_start_def)

text \<open>
  A connection check never finds out about the connection, because the streamer does not connect: whatever
  happens, each result of a check that a microphone process gets says that the bandwidth is too low and no packet arrived.
\<close>

theorem checks_never_succeed:
  assumes "voice_run X es (voice_start ms listener rs ns faults v) = (Ret (), w)" "0 < ms"
    and "MicMessageWithConnectionResult r \<in> set (heard_by (Mic k) w)"
  shows "ConnectionResult_Code r = ConnectionCode_Bandwidth \<and> ConnectionResult_NumPackets r = 0"
proof -
  have "16000 \<le> 16000 * ms" using assms(2) by simp
  then have "0 < 16000 * ms div 1000" by linarith
  then have "unhurt (voice_start ms listener rs ns faults v)"
    by (simp add: unhurt_def) (simp add: voice_start_def StreamSize_def ChunkSamples_def heard_by_def)
  with assms(1) have "unhurt w" by (rule run_invariant) (rule perform_calm)
  with assms(3) show ?thesis by (fastforce simp: unhurt_def list_all_iff check_answer_ok_def)
qed

text \<open>
  Audio that comes when the current streamer has ended makes the process panic: the streamer's
  channel is closed and the loop sends on it. That happens when the time of an utterance is up and
  the microphone is quicker than the timeout error, and when a hotword with an unknown mode comes during an
  utterance, which closes the streamer but keeps it as the current one. Once the loop has taken the
  timeout error the audio does no harm.
\<close>

theorem audio_after_end_crashes:
  assumes "vo_running w" "vo_strm w = Some i" "i < length (vo_streams w)"
    and s: "s = vo_streams w ! i" "\<not> is_check (st_opt s)" "st_err s = None" "st_buffering s" "streamer_timeout s \<noteq> 0"
      "st_watching s" "\<not> st_closed s" "\<not> st_responded s"
    and hw: "modeMap (Hotword_Mode hw) = None" "Hotword_Mode hw \<noteq> StreamType_KnowledgeGraph"
  shows "fst (voice_run X [Deadline i, BufferEnd i, Message (MicMessageWithAudio b) t] w) = Crash \<and>
    fst (voice_run X [Message (MicMessageWithHotword hw) False, BufferEnd i, Message (MicMessageWithAudio b) t] w) = Crash \<and>
    fst (voice_run X [Deadline i, BufferEnd i, TimeoutSeen i, HandOver (length (vo_pending w)),
      Message (MicMessageWithAudio b) t] w) = Ret ()"
proof (intro conjI)
  note ev = enabled_def perform_def bindM_def returnM_def message_event_def audio_event_def AddSamples_def addBytes_def
    voice_frame on_stream_nth can_end_buffer_def end_buffer_def cancel_with_def
  show "fst (voice_run X [Deadline i, BufferEnd i, Message (MicMessageWithAudio b) t] w) = Crash"
    using assms by (simp add: ev)
  have "hotword_event hw False w = writeError ErrorType_InvalidConfig (''unknown mode '' @ decimal (unat (Hotword_Mode hw))) (close_current w)"
    using hw by (simp add: hotword_event_def Let_def)
  then show "fst (voice_run X [Message (MicMessageWithHotword hw) False, BufferEnd i, Message (MicMessageWithAudio b) t] w) = Crash"
    using assms by (simp add: ev close_current_def Streamer_Close_def)
  show "fst (voice_run X [Deadline i, BufferEnd i, TimeoutSeen i, HandOver (length (vo_pending w)),
      Message (MicMessageWithAudio b) t] w) = Ret ()"
    using assms by (simp add: ev cancelResponse_def offer_def call_taken_def)
qed

section \<open>Examples\<close>

text \<open>A recogniser that hears nothing, and a hotword in the usual mode and language.\<close>

definition deaf :: "unit services" where
  "deaf = \<lparr>vtr_Process = \<lambda>v c. ('''', v), vtr_ProcessTextAll = \<lambda>s. ('''', []), IsIntent = \<lambda>r. True,
     ConvertToIntentResp = \<lambda>r. \<lparr>ci_Action = ig_Action r, ci_QueryText = '''', ci_IntentConfidence = '''',
       ci_Service = '''', ci_Parameters = ig_Parameters r\<rparr>,
     ConvertToKnowledgeGraphResp = \<lambda>r. \<lparr>ck_SpokenText = '''', ck_CommandType = '''', ck_QueryText = '''', ck_DomainsUsed = []\<rparr>,
     json_Encode = \<lambda>ps. Inl ''''\<rparr>"

definition hey_vector :: voice_event where
  "hey_vector = Message (MicMessageWithHotword
     \<lparr>Hotword_Mode = 0, Hotword_Locale = '''', Hotword_Timezone = '''', Hotword_NoLogging = False\<rparr>) False"

lemma getLanguage_default: "getLanguage ''en-US'' = Inl ENGLISH_US" by code_simp

lemma twenty_samples: "sample_bytes (replicate 20 5) = concat (replicate 20 [5, 0])" by code_simp

lemma twenty_samples_length: "length (sample_bytes (replicate 20 5)) = 40"
  unfolding twenty_samples by code_simp

lemmas voice_eval = hey_vector_def voice_start_def enabled_def perform_def bindM_def returnM_def message_event_def
  hotword_event_def Let_def close_current_def modeMap_def cloud_codes getLanguage_default newStream_def
  audio_event_def AddSamples_def addBytes_def on_stream_def NewStreamer_def can_stream_def stream_chunk_def
  StreamSize_def ChunkSamples_def can_hear_def hear_chunk_def deaf_def twenty_samples_length spoken_def

theorem audio_reaches_recogniser_witness:
  defines "es \<equiv> [hey_vector, Message (MicMessageWithAudio (replicate 20 5)) False, ChunkReady 0, ChunkHeard 0]"
  defines "w \<equiv> snd (voice_run deaf es (voice_start 1 False 1 1 [] ()))"
  shows "map length (st_taken (vo_streams w ! 0)) = [32] \<and>
    concat (st_taken (vo_streams w ! 0)) @ concat (st_audioStream (vo_streams w ! 0)) @ st_audioBuf (vo_streams w ! 0) =
      concat (replicate 20 [5, 0])"
proof
  have "fst (voice_run deaf es (voice_start 1 False 1 1 [] ())) = Ret ()"
    unfolding es_def by (simp add: voice_eval del: replicate.simps)
  then have "voice_run deaf es (voice_start 1 False 1 1 [] ()) = (Ret (), w)" by (simp add: w_def prod_eq_iff)
  note th = audio_reaches_recogniser [OF this, of 0, OF _ refl]
  have "0 < length (vo_streams w)" unfolding w_def es_def by (simp add: voice_eval del: replicate.simps)
  moreover have "audio_of deaf es (voice_start 1 False 1 1 [] ()) 0 = sample_bytes (replicate 20 5)"
    unfolding es_def by (simp add: voice_eval del: replicate.simps)
  ultimately show "concat (st_taken (vo_streams w ! 0)) @ concat (st_audioStream (vo_streams w ! 0)) @
      st_audioBuf (vo_streams w ! 0) = concat (replicate 20 [5, 0])"
    using conjunct1 [OF th] by (simp only: twenty_samples)
  show "map length (st_taken (vo_streams w ! 0)) = [32]"
    unfolding w_def es_def by (simp add: voice_eval del: replicate.simps)
qed

lemma check_run:
  "let w = voice_run X [Message MicMessageWithConnectionCheck False, Deadline 0, TimeoutSeen 0, HandOver 0]
       (voice_start 120 False 1 1 [] v)
   in fst w = Ret () \<and> heard_by (Mic 0) (snd w) = [MicMessageWithConnectionResult
      \<lparr>ConnectionResult_Code = 4, ConnectionResult_Status = ''context deadline exceeded'',
       ConnectionResult_NumPackets = 0, ConnectionResult_ExpectedPackets = 50\<rparr>]"
proof -
  let ?r = "\<lparr>ConnectionResult_Code = 4, ConnectionResult_Status = ''context deadline exceeded'',
       ConnectionResult_NumPackets = 0, ConnectionResult_ExpectedPackets = 50\<rparr>"
  have f: "fits_MicMessage (MicMessageWithConnectionResult ?r)" by (simp add: fits_ConnectionResult_def)
  show ?thesis
    by (simp add: voice_eval check_event_def offer_def cancelResponse_def cancel_with_def call_taken_def check_error_taken_def
        respondToConnectionCheck_def writeMic_def Send_fits [OF f] finish_current_def heard_by_def map_filter_def
        message_of_bytes [OF f] defaultChipperOptions_def streamer_timeout_def DefaultAudioLenMs_def DefaultChunkMs_def)
qed

theorem checks_never_succeed_witness:
  defines "w \<equiv> snd (voice_run deaf [Message MicMessageWithConnectionCheck False, Deadline 0, TimeoutSeen 0, HandOver 0]
    (voice_start 120 False 1 1 [] ()))"
  shows "\<exists>r. heard_by (Mic 0) w = [MicMessageWithConnectionResult r] \<and>
    ConnectionResult_Code r = ConnectionCode_Bandwidth \<and> ConnectionResult_NumPackets r = 0"
proof -
  have r: "voice_run deaf [Message MicMessageWithConnectionCheck False, Deadline 0, TimeoutSeen 0, HandOver 0]
      (voice_start 120 False 1 1 [] ()) = (Ret (), w)"
    using check_run [of deaf "()"] by (simp add: w_def prod_eq_iff Let_def del: voice_run.simps)
  have "heard_by (Mic 0) w = [MicMessageWithConnectionResult \<lparr>ConnectionResult_Code = 4,
      ConnectionResult_Status = ''context deadline exceeded'', ConnectionResult_NumPackets = 0,
      ConnectionResult_ExpectedPackets = 50\<rparr>]"
    using check_run [of deaf "()"] by (simp add: w_def Let_def del: voice_run.simps)
  with checks_never_succeed [OF r, of _ 0] show ?thesis by (intro exI conjI) (assumption, simp_all)
qed

theorem audio_after_end_crashes_witness:
  defines "w \<equiv> snd (voice_run deaf [hey_vector] (voice_start 120 False 1 1 [] ()))"
  shows "fst (voice_run deaf [Deadline 0, BufferEnd 0, Message (MicMessageWithAudio [7]) False] w) = Crash \<and>
    fst (voice_run deaf [Deadline 0, BufferEnd 0, TimeoutSeen 0, HandOver 0, Message (MicMessageWithAudio [7]) False] w) = Ret ()"
proof -
  let ?hw = "\<lparr>Hotword_Mode = 9, Hotword_Locale = '''', Hotword_Timezone = '''', Hotword_NoLogging = False\<rparr>"
  have "vo_running w" "vo_strm w = Some 0" "0 < length (vo_streams w)" "\<not> is_check (st_opt (vo_streams w ! 0))"
    "st_err (vo_streams w ! 0) = None" "st_buffering (vo_streams w ! 0)" "streamer_timeout (vo_streams w ! 0) \<noteq> 0"
    "st_watching (vo_streams w ! 0)" "\<not> st_closed (vo_streams w ! 0)" "\<not> st_responded (vo_streams w ! 0)"
    unfolding w_def by (simp_all add: voice_eval defaultChipperOptions_def streamer_timeout_def)
  note th = audio_after_end_crashes [OF this(1-3) refl this(4-10), of ?hw deaf "[7]" False]
  have "modeMap (Hotword_Mode ?hw) = None" "Hotword_Mode ?hw \<noteq> StreamType_KnowledgeGraph" "vo_pending w = []"
    unfolding w_def by (simp_all add: voice_eval defaultChipperOptions_def streamer_timeout_def)
  with th show ?thesis by simp
qed

end
