(* ===== verification/Gateway_Server.thy ===== *)
theory Gateway_Server
  imports Rpc_Special
begin

text \<open>
  What stands between a client's HTTP request and a handler: \<open>cloud/gateway.go\<close>, \<open>checkAuth\<close> of
  \<open>cloud/config.go\<close> and \<open>cloud/multilimiter.go\<close>. The gRPC server, which takes a request apart and calls
  the interceptor with the handler of its method, and \<open>rate.Limiter\<close> are library code: parameters.
\<close>

section \<open>Authorization\<close>

text \<open>
  \<open>http.Request\<close>, with its header as a map from canonical names; \<open>Header.Get\<close> returns the first value.
\<close>

record http_request =
  ProtoMajor :: nat
  Header :: "string \<rightharpoonup> string list"

definition Header_Get :: "string \<Rightarrow> http_request \<Rightarrow> string" where
  "Header_Get name r = (case Header r name of Some (v # vs) \<Rightarrow> v | _ \<Rightarrow> '''')"

definition HasPrefix :: "string \<Rightarrow> string \<Rightarrow> bool" where
  "HasPrefix s p \<longleftrightarrow> take (length p) s = p"

definition checkAuth :: "http_request \<Rightarrow> string + go_error" where
  "checkAuth r = (case Header r ''Authorization'' of
      None \<Rightarrow> Inr (GrpcError Unauthenticated ''No auth token'')
    | Some auth \<Rightarrow>
        if length auth \<noteq> 1 then Inr (GrpcError Unauthenticated ''Too many auth tokens'')
        else if \<not> HasPrefix (auth ! 0) ''Bearer '' \<and> \<not> HasPrefix (auth ! 0) ''Basic ''
        then Inr (GrpcError Unauthenticated ''Unknown auth header'')
        else Inl (auth ! 0))"

datatype 'a http_reply = NotFound | HttpError nat string | Served 'a

definition ErrorDesc :: "go_error \<Rightarrow> string" where
  "ErrorDesc e = (case e of GrpcError _ s \<Rightarrow> s | Errorf s \<Rightarrow> s | _ \<Rightarrow> '''')"

definition grpcHandlerFunc :: "(http_request \<Rightarrow> 'w \<Rightarrow> 'a \<times> 'w) \<Rightarrow> http_request \<Rightarrow> 'w \<Rightarrow> 'a http_reply \<times> 'w" where
  "grpcHandlerFunc ServeHTTP r w =
     (if ProtoMajor r = 2 \<and> contains (Header_Get ''Content-Type'' r) ''application/grpc'' then
        (case checkAuth r of
           Inr e \<Rightarrow> (HttpError 401 (ErrorDesc e), w)
         | Inl _ \<Rightarrow> (case ServeHTTP r w of (a, w') \<Rightarrow> (Served a, w')))
      else (NotFound, w))"

section \<open>Interceptors\<close>

text \<open>
  The global \<open>numCommandsSentFromSDK\<close> stands beside the state that the handler works on. \<open>why\<close> is
  the text of a panic, which becomes an error of the request; a panic in another goroutine is not
  recovered.
\<close>

definition on_handler :: "('w, 'a) go \<Rightarrow> (uint32 \<times> 'w, 'a) go" where
  "on_handler h s = (case h (snd s) of (r, w) \<Rightarrow> (r, (fst s, w)))"

definition recovering :: "string \<Rightarrow> ('s, 'a) go \<Rightarrow> ('s, 'a) go" where
  "recovering why m s = (case m s of (Panic, s') \<Rightarrow> (Fail (GrpcError Internal why), s') | x \<Rightarrow> x)"

definition LoggingUnaryInterceptor :: "string \<Rightarrow> ('w, 'a) go \<Rightarrow> (uint32 \<times> 'w, 'a) go" where
  "LoggingUnaryInterceptor why h = recovering why (\<lambda>(n, w). on_handler h (n + 1, w))"

definition LoggingStreamInterceptor :: "string \<Rightarrow> ('w, unit) go \<Rightarrow> (uint32 \<times> 'w, unit) go" where
  "LoggingStreamInterceptor why h = recovering why (\<lambda>(n, w). on_handler h (n + 1, w))"

lemma interceptors_eq:
  "LoggingUnaryInterceptor why h (n, w) =
     ((case fst (h w) of Panic \<Rightarrow> Fail (GrpcError Internal why) | r \<Rightarrow> r), (n + 1, snd (h w)))"
  "LoggingStreamInterceptor why g (n, w) =
     ((case fst (g w) of Panic \<Rightarrow> Fail (GrpcError Internal why) | r \<Rightarrow> r), (n + 1, snd (g w)))"
  by (simp_all add: LoggingUnaryInterceptor_def LoggingStreamInterceptor_def recovering_def on_handler_def
      split: prod.split outcome.split)

text \<open>
  A request that is not authorized changes nothing; one that is served is counted and does not end
  in a panic.
\<close>

lemma refused_unchanged:
  "checkAuth r = Inr e \<Longrightarrow> snd (grpcHandlerFunc serve r s) = s \<and> (\<forall>a. fst (grpcHandlerFunc serve r s) \<noteq> Served a)"
  by (simp add: grpcHandlerFunc_def)

lemma served_no_panic:
  "grpcHandlerFunc (\<lambda>_. LoggingUnaryInterceptor why h) r (n, w) = (Served a, s) \<Longrightarrow>
     a \<noteq> Panic \<and> fst s = n + 1 \<and> snd s = snd (h w)"
  by (auto simp: grpcHandlerFunc_def interceptors_eq split: if_splits sum.splits outcome.splits)

section \<open>Rate limits\<close>

text \<open>
  \<open>MultiLimiter.Allow\<close> at some time, with \<open>rate.Limiter\<close>'s \<open>Allow\<close> as a parameter: it answers and
  changes the limiter.
\<close>

fun MultiLimiter_Allow :: "('t \<Rightarrow> 'l \<Rightarrow> bool \<times> 'l) \<Rightarrow> 't \<Rightarrow> 'l list \<Rightarrow> bool \<times> 'l list" where
  "MultiLimiter_Allow allow now [] = (True, [])"
| "MultiLimiter_Allow allow now (l # ls) = (case allow now l of
      (passed, l') \<Rightarrow> if \<not> passed then (False, l' # ls)
        else case MultiLimiter_Allow allow now ls of (passed', ls') \<Rightarrow> (passed', l' # ls'))"

text \<open>Of calls at some times, those that a limiter lets through.\<close>

fun granted :: "('t \<Rightarrow> 's \<Rightarrow> bool \<times> 's) \<Rightarrow> 't list \<Rightarrow> 's \<Rightarrow> 't list" where
  "granted f [] s = []"
| "granted f (t # ts) s = (case f t s of (passed, s') \<Rightarrow> (if passed then [t] else []) @ granted f ts s')"

lemma granted_none [simp]: "granted (MultiLimiter_Allow allow) ts [] = ts"
  by (induction ts) simp_all

lemma granted_Cons:
  "granted (MultiLimiter_Allow allow) ts (l # ls) = granted (MultiLimiter_Allow allow) (granted allow ts l) ls"
  by (induction ts arbitrary: l ls) (simp_all split: prod.split)

lemma granted_all: "granted (MultiLimiter_Allow allow) ts ls = fold (\<lambda>l ts. granted allow ts l) ls ts"
  by (induction ls arbitrary: ts) (simp_all add: granted_Cons)

text \<open>
  Calls of the three rate-limited handlers at some times, each through the interceptor, with the
  handler's own limiter, and the answers.
\<close>

fun limited_calls ::
  "('t \<Rightarrow> 'l \<Rightarrow> bool \<times> 'l) \<Rightarrow> (bool \<Rightarrow> ('w, 'a) go) \<Rightarrow> string \<Rightarrow> 't list \<Rightarrow> 'l list \<Rightarrow> uint32 \<times> 'w \<Rightarrow> ('t \<times> 'a outcome) list" where
  "limited_calls allow h why [] ls s = []"
| "limited_calls allow h why (t # ts) ls s = (case MultiLimiter_Allow allow t ls of
      (passed, ls') \<Rightarrow> (case LoggingUnaryInterceptor why (h passed) s of
          (r, s') \<Rightarrow> (t, r) # limited_calls allow h why ts ls' s'))"

lemma limited_calls_granted:
  assumes "\<And>passed w. good (fst (LoggingUnaryInterceptor why (h passed) w)) = passed"
  shows "map fst (filter (good \<circ> snd) (limited_calls allow h why ts ls s)) = granted (MultiLimiter_Allow allow) ts ls"
proof (induction ts arbitrary: ls s)
  case (Cons t ts)
  obtain passed ls' where a: "MultiLimiter_Allow allow t ls = (passed, ls')" by fastforce
  obtain r s' where i: "LoggingUnaryInterceptor why (h passed) s = (r, s')" by (rule prod.exhaust)
  with assms [of passed s] have "good r = passed" by simp
  then show ?case using Cons a i by simp
qed simp

section \<open>Properties\<close>

text \<open>
  Authentications and log uploads are let through just at the times that pass through the
  handler's limiters one after the other, as through filters: a later limiter only counts the calls
  that the earlier ones let through, and an earlier one counts also calls that a later one refuses.
  All other calls fail with ResourceExhausted.
\<close>

theorem limiters_are_filters:
  "map fst (filter (\<lambda>(t, r). r = Ret (RESPONSE_RECEIVED, AUTHORIZED, []))
     (limited_calls allow (UserAuthentication True) why ts ls s)) = fold (\<lambda>l ts. granted allow ts l) ls ts \<and>
   map fst (filter (\<lambda>(t, r). r = Ret \<lparr>Status = Some OK, Fields = []\<rparr>)
     (limited_calls allow UploadDebugLogs why ts ls s)) = fold (\<lambda>l ts. granted allow ts l) ls ts \<and>
   list_all (\<lambda>(t, r). r = Ret (RESPONSE_RECEIVED, AUTHORIZED, []) \<or>
       r = Fail (GrpcError ResourceExhausted ''Maximum auth rate exceeded. Please wait and try again later.''))
     (limited_calls allow (UserAuthentication True) why ts ls s)"
proof (intro conjI)
  have auth: "fst (LoggingUnaryInterceptor why (UserAuthentication True passed) q) =
      (if passed then Ret (RESPONSE_RECEIVED, AUTHORIZED, [])
       else Fail (GrpcError ResourceExhausted ''Maximum auth rate exceeded. Please wait and try again later.''))" for passed q
    by (cases q) (simp add: interceptors_eq UserAuthentication_def returnM_def failM_def)
  have upload: "(fst (LoggingUnaryInterceptor why (UploadDebugLogs passed) q) = Ret \<lparr>Status = Some OK, Fields = []\<rparr>) = passed" for passed q
    by (cases q) (simp add: interceptors_eq UploadDebugLogs_def returnM_def failM_def)
  show "map fst (filter (\<lambda>(t, r). r = Ret (RESPONSE_RECEIVED, AUTHORIZED, []))
      (limited_calls allow (UserAuthentication True) why ts ls s)) = fold (\<lambda>l ts. granted allow ts l) ls ts"
    using limited_calls_granted [of "\<lambda>r. r = Ret (RESPONSE_RECEIVED, AUTHORIZED, [])" why "UserAuthentication True" allow ts ls s]
    by (simp add: auth granted_all o_def case_prod_unfold)
  show "map fst (filter (\<lambda>(t, r). r = Ret \<lparr>Status = Some OK, Fields = []\<rparr>)
      (limited_calls allow UploadDebugLogs why ts ls s)) = fold (\<lambda>l ts. granted allow ts l) ls ts"
    using limited_calls_granted [of "\<lambda>r. r = Ret \<lparr>Status = Some OK, Fields = []\<rparr>" why UploadDebugLogs allow ts ls s]
    by (simp add: upload granted_all o_def case_prod_unfold)
  show "list_all (\<lambda>(t, r). r = Ret (RESPONSE_RECEIVED, AUTHORIZED, []) \<or>
       r = Fail (GrpcError ResourceExhausted ''Maximum auth rate exceeded. Please wait and try again later.''))
     (limited_calls allow (UserAuthentication True) why ts ls s)"
  proof (induction ts arbitrary: ls s)
    case (Cons t ts)
    obtain passed ls' where a: "MultiLimiter_Allow allow t ls = (passed, ls')" by fastforce
    obtain r s' where "LoggingUnaryInterceptor why (UserAuthentication True passed) s = (r, s')" by (rule prod.exhaust)
    with Cons a auth [of passed s] show ?case by auto
  qed simp
qed

end
