(* ===== verification/Token_Identity.thy ===== *)
theory Token_Identity
  imports Go_Prelude
begin

text \<open>
  The robot's own access token, \<open>internal/token/identity\<close>: the claims of a token, and the provider that keeps
  one in memory and in a file. The JWT parser and the time parser are library code, and so parameters;
  operations on files are outcomes. Times are in seconds.
\<close>

section \<open>Tokens\<close>

text \<open>\<open>TokenInfo\<close>; the fields of the token service alone (purging and revoking) are left out.\<close>

record token_info =
  tk_Id :: string
  tk_Type :: string
  tk_RequestorId :: string
  tk_UserId :: string
  tk_IssuedAt :: int
  tk_ExpiresAt :: int
  tk_Raw :: string
  tk_Permissions :: "(string \<times> string) list option"

text \<open>A value of the claims map: a string, an object (here with its JSON texts), or anything else.\<close>

datatype claim = ClaimString string | ClaimObject "(string \<times> string) list" | ClaimOther

definition claim_string :: "(string \<rightharpoonup> claim) \<Rightarrow> string \<Rightarrow> string option" where
  "claim_string claims name = (case claims name of Some (ClaimString s) \<Rightarrow> Some s | _ \<Rightarrow> None)"

definition errorMissingClaim :: "string \<Rightarrow> string" where
  "errorMissingClaim claim = ''missing claim '' @ claim"

text \<open>
  \<open>jwt.Token\<close>: the raw text, and the claims, \<open>None\<close> when they are no \<open>MapClaims\<close>. \<open>parseTime\<close> is
  \<open>time.ParseInLocation\<close> with RFC 3339 and UTC.
\<close>

record jwt_token =
  jwt_Raw :: string
  jwt_Claims :: "(string \<rightharpoonup> claim) option"

definition FromJwtToken :: "(string \<Rightarrow> int + string) \<Rightarrow> jwt_token option \<Rightarrow> token_info + string" where
  "FromJwtToken parseTime t = (case t of
      None \<Rightarrow> Inr ''missing token''
    | Some t \<Rightarrow> (case jwt_Claims t of
        None \<Rightarrow> Inr ''missing claims''
      | Some claims \<Rightarrow>
        (case claim_string claims ''token_id'' of None \<Rightarrow> Inr (errorMissingClaim ''token_id'') | Some i \<Rightarrow>
        (case claim_string claims ''token_type'' of None \<Rightarrow> Inr (errorMissingClaim ''token_type'') | Some tp \<Rightarrow>
        (case claim_string claims ''user_id'' of None \<Rightarrow> Inr (errorMissingClaim ''user_id'') | Some user \<Rightarrow>
        (case claim_string claims ''requestor_id'' of None \<Rightarrow> Inr (errorMissingClaim ''requestor_id'') | Some requestor \<Rightarrow>
        (case claim_string claims ''iat'' of None \<Rightarrow> Inr (errorMissingClaim ''iat'') | Some iat \<Rightarrow>
        (case parseTime iat of Inr e \<Rightarrow> Inr e | Inl issued \<Rightarrow>
        (case claim_string claims ''expires'' of None \<Rightarrow> Inr (errorMissingClaim ''expires'') | Some ex \<Rightarrow>
        (case parseTime ex of Inr e \<Rightarrow> Inr e | Inl expires \<Rightarrow>
          Inl \<lparr>tk_Id = i, tk_Type = tp, tk_RequestorId = requestor, tk_UserId = user, tk_IssuedAt = issued,
            tk_ExpiresAt = expires, tk_Raw = jwt_Raw t,
            tk_Permissions = (case claims ''permissions'' of Some (ClaimObject ps) \<Rightarrow> Some ps | _ \<Rightarrow> None)\<rparr>))))))))))"

text \<open>\<open>tokWrapper\<close>: a token is due for a refresh three hours before it expires.\<close>

definition RefreshTime :: "token_info \<Rightarrow> int" where
  "RefreshTime t = tk_ExpiresAt t - 3 * 60 * 60"

section \<open>The provider\<close>

text \<open>
  \<open>jwtFile\<close> is the token's file, \<open>tmpFile\<close> the one beside it that is written first. \<open>diskFaults\<close> says which of the
  next operations on the disk fail.
\<close>

record provider =
  currentToken :: "token_info option"
  jwtFile :: "string option"
  tmpFile :: "string option"
  diskFaults :: "bool list"

definition disk :: "(provider \<Rightarrow> provider) \<Rightarrow> provider \<Rightarrow> bool \<times> provider" where
  "disk f p = (case diskFaults p of
      True # fs \<Rightarrow> (False, p\<lparr>diskFaults := fs\<rparr>)
    | fs \<Rightarrow> (True, f (p\<lparr>diskFaults := tl fs\<rparr>)))"

text \<open>The library's parsers.\<close>

record parsers =
  ParseUnverified :: "string \<Rightarrow> jwt_token + string"
  ParseTime :: "string \<Rightarrow> int + string"

definition parseToken :: "parsers \<Rightarrow> string \<Rightarrow> token_info + string" where
  "parseToken P tok = (case ParseUnverified P tok of
      Inr e \<Rightarrow> Inr e | Inl t \<Rightarrow> FromJwtToken (ParseTime P) (Some t))"

text \<open>
  \<open>saveToken\<close>: the directory, whose creation fails other than because it exists when the disk does; a file
  beside the token's; then the renaming. A failed write may have written a part of that file, which
  nobody reads.
\<close>

definition saveToken :: "string \<Rightarrow> provider \<Rightarrow> bool \<times> provider" where
  "saveToken tok p =
     (case disk (\<lambda>p. p) p of (ok1, p1) \<Rightarrow> if \<not> ok1 then (False, p1)
      else case disk (\<lambda>p. p\<lparr>tmpFile := Some tok\<rparr>) p1 of (ok2, p2) \<Rightarrow> if \<not> ok2 then (False, p2)
      else disk (\<lambda>p. p\<lparr>jwtFile := tmpFile p, tmpFile := None\<rparr>) p2)"

definition ParseAndStoreToken :: "parsers \<Rightarrow> string \<Rightarrow> provider \<Rightarrow> (token_info + string) \<times> provider" where
  "ParseAndStoreToken P tok p = (case parseToken P tok of
      Inr e \<Rightarrow> (Inr e, p)
    | Inl t \<Rightarrow> (case saveToken tok p of (saved, p') \<Rightarrow>
        if \<not> saved then (Inr ''cannot save token'', p') else (Inl t, p'\<lparr>currentToken := Some t\<rparr>)))"

text \<open>
  \<open>init\<close>: the directory, whose absence ends it; then the file, if it can be read. A token that cannot
  be parsed is removed, and so is one without a user.
\<close>

definition provider_init :: "parsers \<Rightarrow> provider \<Rightarrow> string option \<times> provider" where
  "provider_init P p =
     (case disk (\<lambda>p. p) p of (ok1, p1) \<Rightarrow> if \<not> ok1 then (Some ''token mkdir + stat error'', p1)
      else case disk (\<lambda>p. p) p1 of (ok2, p2) \<Rightarrow>
        (case (if ok2 then jwtFile p2 else None) of
           None \<Rightarrow> (None, p2)
         | Some buf \<Rightarrow> (case parseToken P buf of
             Inr e \<Rightarrow> (Some e, snd (disk (\<lambda>p. p\<lparr>jwtFile := None\<rparr>) p2))
           | Inl t \<Rightarrow> if tk_UserId t = '''' then (None, snd (disk (\<lambda>p. p\<lparr>jwtFile := None\<rparr>) p2))
               else (None, p2\<lparr>currentToken := Some t\<rparr>))))"

section \<open>Memory and disk agree\<close>

text \<open>
  The token in memory is the one that the file holds, so that it is there again after a restart.
\<close>

definition coherent :: "parsers \<Rightarrow> provider \<Rightarrow> bool" where
  "coherent P p \<longleftrightarrow> (\<forall>t. currentToken p = Some t \<longrightarrow> (\<exists>raw. jwtFile p = Some raw \<and> parseToken P raw = Inl t))"

lemma disk_cases:
  "(\<exists>fs. disk f p = (False, p\<lparr>diskFaults := fs\<rparr>)) \<or> (\<exists>fs. disk f p = (True, f (p\<lparr>diskFaults := fs\<rparr>)))"
  by (auto simp: disk_def split: list.split bool.split)

lemma disk_id: "\<exists>b. disk (\<lambda>p. p) q = (b, q\<lparr>diskFaults := tl (diskFaults q)\<rparr>)"
  by (auto simp: disk_def split: list.split bool.split)

lemma saveToken_cases:
  "(\<exists>p'. saveToken tok p = (False, p') \<and> jwtFile p' = jwtFile p \<and> currentToken p' = currentToken p) \<or>
   (\<exists>p'. saveToken tok p = (True, p') \<and> jwtFile p' = Some tok \<and> currentToken p' = currentToken p)"
proof -
  obtain b fs where a: "disk (\<lambda>p. p) p = (b, p\<lparr>diskFaults := fs\<rparr>)" using disk_id by blast
  let ?p = "p\<lparr>diskFaults := fs\<rparr>"
  show ?thesis
  proof (cases b)
    case True
    from disk_cases [of "\<lambda>p. p\<lparr>tmpFile := Some tok\<rparr>" ?p] show ?thesis
    proof (elim disjE exE)
      fix gs assume w: "disk (\<lambda>p. p\<lparr>tmpFile := Some tok\<rparr>) ?p = (True, ?p\<lparr>diskFaults := gs\<rparr>\<lparr>tmpFile := Some tok\<rparr>)"
      let ?q = "?p\<lparr>diskFaults := gs\<rparr>\<lparr>tmpFile := Some tok\<rparr>"
      from disk_cases [of "\<lambda>p. p\<lparr>jwtFile := tmpFile p, tmpFile := None\<rparr>" ?q] show ?thesis
        by (elim disjE exE) (use a w True in \<open>simp_all add: saveToken_def\<close>)
    qed (use a True in \<open>simp add: saveToken_def\<close>)
  qed (use a in \<open>simp add: saveToken_def\<close>)
qed

lemma ParseAndStoreToken_cases:
  "(\<exists>e p'. ParseAndStoreToken P tok p = (Inr e, p') \<and> jwtFile p' = jwtFile p \<and> currentToken p' = currentToken p) \<or>
   (\<exists>t p'. ParseAndStoreToken P tok p = (Inl t, p') \<and> parseToken P tok = Inl t \<and> jwtFile p' = Some tok \<and>
      currentToken p' = Some t)"
proof (cases "parseToken P tok")
  case (Inl t)
  from saveToken_cases [of tok p] show ?thesis
    by (elim disjE exE conjE) (use Inl in \<open>simp_all add: ParseAndStoreToken_def\<close>)
qed (simp add: ParseAndStoreToken_def)

lemma ParseAndStoreToken_coherent: "coherent P p \<Longrightarrow> coherent P (snd (ParseAndStoreToken P tok p))"
  using ParseAndStoreToken_cases [of P tok p] by (elim disjE exE conjE) (simp_all add: coherent_def)

lemma provider_init_coherent: "currentToken p = None \<Longrightarrow> coherent P (snd (provider_init P p))"
proof -
  assume none: "currentToken p = None"
  have removed: "currentToken (snd (disk (\<lambda>p. p\<lparr>jwtFile := None\<rparr>) q)) = currentToken q" for q
    using disk_cases [of "\<lambda>p. p\<lparr>jwtFile := None\<rparr>" q] by (elim disjE exE) simp_all
  obtain b fs where a: "disk (\<lambda>p. p) p = (b, p\<lparr>diskFaults := fs\<rparr>)" using disk_id by blast
  obtain c gs where r: "disk (\<lambda>p. p) (p\<lparr>diskFaults := fs\<rparr>) = (c, p\<lparr>diskFaults := fs\<rparr>\<lparr>diskFaults := gs\<rparr>)" using disk_id by blast
  show ?thesis
    using none a r removed by (auto simp: provider_init_def coherent_def split: option.split sum.split)
qed

text \<open>A token that was parsed and stored is the one that the next start finds, if it belongs to a user.\<close>

lemma stored_token_found:
  assumes "ParseAndStoreToken P tok p = (Inl t, p')" "tk_UserId t \<noteq> ''''" "diskFaults p' = []"
  shows "provider_init P (p'\<lparr>currentToken := None\<rparr>) = (None, p')"
  using ParseAndStoreToken_cases [of P tok p] assms
  by (elim disjE exE conjE) (simp_all add: provider_init_def disk_def)

end
