(* ===== verification/Service_Loop.thy ===== *)
theory Service_Loop
  imports Clad_Services
begin

text \<open>
  What the servers of tokens and of documents have in common: a connection whose blocks are requests,
  each of which is decoded, handled and answered, until the connection ends. The interface is the
  locale \<open>request_server\<close>; the servers provide it in the theories of their components.
\<close>

section \<open>A connection\<close>

text \<open>The datagrams written so far, and which of the next writes fail; that is only logged.\<close>

record conn =
  conn_sent :: "byte list list"
  conn_faults :: "bool list"

definition conn_Write :: "byte list \<Rightarrow> conn \<Rightarrow> conn" where
  "conn_Write d c = (case conn_faults c of
      True # fs \<Rightarrow> c\<lparr>conn_faults := fs\<rparr>
    | fs \<Rightarrow> c\<lparr>conn_faults := tl fs, conn_sent := conn_sent c @ [d]\<rparr>)"

text \<open>\<open>if resp != nil\<close>: pack it and write it; a response that cannot be packed is dropped.\<close>

definition respond :: "('r \<Rightarrow> writer) \<Rightarrow> 'r option \<Rightarrow> conn \<Rightarrow> conn" where
  "respond pack resp c = (case resp of
      None \<Rightarrow> c
    | Some m \<Rightarrow> (case pack m [] of (Ret _, d) \<Rightarrow> conn_Write d c | _ \<Rightarrow> c))"

section \<open>What a server answers\<close>

text \<open>The requests among the blocks, up to the one that ends the connection.\<close>

fun requests :: "'q reader \<Rightarrow> byte list option list \<Rightarrow> 'q list" where
  "requests unpack [] = []"
| "requests unpack (None # bs) = []"
| "requests unpack (Some b # bs) =
     (if b = [] then [] else case unpack b of (Ret q, _) \<Rightarrow> q # requests unpack bs | _ \<Rightarrow> requests unpack bs)"

text \<open>The responses to some requests, one after the other, and the server's state after them.\<close>

fun responses :: "('q \<Rightarrow> ('w, 'r option) go) \<Rightarrow> 'q list \<Rightarrow> 'w \<Rightarrow> 'r list" where
  "responses handle [] w = []"
| "responses handle (q # qs) w = (case handle q w of
      (Ret r, w') \<Rightarrow> (case r of None \<Rightarrow> [] | Some m \<Rightarrow> [m]) @ responses handle qs w' | _ \<Rightarrow> [])"

fun state_after :: "('q \<Rightarrow> ('w, 'r option) go) \<Rightarrow> 'q list \<Rightarrow> 'w \<Rightarrow> 'w" where
  "state_after handle [] w = w"
| "state_after handle (q # qs) w = state_after handle qs (snd (handle q w))"

definition always_returns :: "('q \<Rightarrow> ('w, 'r) go) \<Rightarrow> 'q \<Rightarrow> bool" where
  "always_returns handle q \<longleftrightarrow> (\<forall>w. \<exists>r w'. handle q w = (Ret r, w'))"

locale request_server = wire_codec pack unpack_response fits sz most
  for pack :: "'r \<Rightarrow> writer" and unpack_response :: "'r reader" and fits :: "'r \<Rightarrow> bool"
    and sz :: "'r \<Rightarrow> uint32" and most :: nat +
  fixes unpack_request :: "'q reader" and handle :: "'q \<Rightarrow> ('w, 'r option) go"
    and serve :: "byte list option list \<Rightarrow> ('w \<times> conn, unit) go"
  assumes request_reader: "reader unpack_request"
    and ends: "serve [] s = (Ret (), s)" "serve (None # bs) s = (Ret (), s)" "serve (Some [] # bs) s = (Ret (), s)"
    and skips: "b \<noteq> [] \<Longrightarrow> unpack_request b = (Fail e, rest) \<Longrightarrow> serve (Some b # bs) s = serve bs s"
    and serves: "b \<noteq> [] \<Longrightarrow> unpack_request b = (Ret q, rest) \<Longrightarrow> handle q w = (Ret resp, w') \<Longrightarrow>
      serve (Some b # bs) (w, c) = serve bs (w', respond pack resp c)"
begin

lemma respond_fits:
  assumes "conn_faults c = []"
  shows "respond pack resp c = c\<lparr>conn_sent := conn_sent c @
    map bytes (filter fits (case resp of None \<Rightarrow> [] | Some m \<Rightarrow> [m]))\<rparr>"
proof (cases resp)
  case (Some m)
  show ?thesis
  proof (cases "fits m")
    case True
    then show ?thesis using Some assms packed(1) [OF True, of "[]"] by (simp add: respond_def conn_Write_def)
  next
    case False
    then obtain e d where "pack m [] = (Fail (Errorf e), d)" using not_packed by blast
    with False Some show ?thesis by (simp add: respond_def)
  qed
qed (simp add: respond_def)

text \<open>
  If the handler returns, at least in the states that a condition holds of, and keeps the condition, the server comes to the connection's end, having written just the
  responses that can be packed, in order, and each is read back as itself.
\<close>

lemma answers_while:
  "I w \<Longrightarrow> \<forall>q \<in> set (requests unpack_request bs). \<forall>v. I v \<longrightarrow> (\<exists>r v'. handle q v = (Ret r, v') \<and> I v') \<Longrightarrow> conn_faults c = [] \<Longrightarrow>
   serve bs (w, c) = (Ret (), (state_after handle (requests unpack_request bs) w,
     c\<lparr>conn_sent := conn_sent c @ map bytes (filter fits (responses handle (requests unpack_request bs) w))\<rparr>))"
proof (induction bs arbitrary: w c)
  case (Cons x bs)
  show ?case
  proof (cases "x = None \<or> x = Some []")
    case True
    then show ?thesis by (auto simp: ends)
  next
    case False
    then obtain b where x: "x = Some b" "b \<noteq> []" by (cases x) auto
    show ?thesis
    proof (rule readerE [OF request_reader, of b])
      fix q d rest assume "b = d @ rest" "\<And>r. unpack_request (d @ r) = (Ret q, r)"
      then have u: "unpack_request b = (Ret q, rest)" by simp
      with Cons.prems(2) x have q: "\<forall>v. I v \<longrightarrow> (\<exists>r v'. handle q v = (Ret r, v') \<and> I v')"
        "\<forall>q \<in> set (requests unpack_request bs). \<forall>v. I v \<longrightarrow> (\<exists>r v'. handle q v = (Ret r, v') \<and> I v')"
        by simp_all
      obtain r w' where h: "handle q w = (Ret r, w')" "I w'" using q(1) Cons.prems(1) by blast
      have "conn_faults (respond pack r c) = []" using Cons.prems(3) by (simp add: respond_fits)
      from Cons.IH [OF h(2) q(2) this] serves [OF x(2) u h(1), of bs c] x u h(1) respond_fits [OF Cons.prems(3), of r]
      show ?thesis by (simp split: option.split)
    next
      fix e rest assume u: "unpack_request b = (Fail (Errorf e), rest)"
      with skips [OF x(2) u, of bs "(w, c)"] Cons x show ?thesis by simp
    qed
  qed
qed (simp add: ends)

lemma answers:
  "\<forall>q \<in> set (requests unpack_request bs). always_returns handle q \<Longrightarrow> conn_faults c = [] \<Longrightarrow>
   serve bs (w, c) = (Ret (), (state_after handle (requests unpack_request bs) w,
     c\<lparr>conn_sent := conn_sent c @ map bytes (filter fits (responses handle (requests unpack_request bs) w))\<rparr>))"
  by (rule answers_while [of "\<lambda>_. True"]) (auto simp: always_returns_def)

end

end
