(* ===== verification/Token_Service.thy ===== *)
theory Token_Service
  imports Token_Identity Service_Loop
begin

text \<open>
  The token service, \<open>internal/token\<close>: requests for tokens, taken one at a time from a queue and
  answered with the help of the remote service; the server of the robot's processes; the handler that
  refreshes the token after another service was denied. The remote service is a list of outcomes;
  the calls that reach it are recorded. An answer of the service is taken to hold a bundle of tokens; the
  code panics on one without.
\<close>

section \<open>The remote service\<close>

text \<open>An error with its gRPC status code, of which the code looks at two.\<close>

datatype rpc_code = RpcInvalidArgument | RpcPermissionDenied | RpcOther
datatype token_error = TokenErr (error_code: rpc_code) string

datatype rpc_outcome =
    DialError token_error
  | CallError token_error
  | Bundle (ClientToken: string) (BundleToken: string)

datatype token_call =
    AssociatePrimaryUser string
  | AssociateSecondaryClient string string string
  | ReassociatePrimaryUser string string
  | RefreshToken

type_synonym credentials = "string \<rightharpoonup> string"

text \<open>
  \<open>tw_cert\<close> is the gateway's certificate, if its file can be read; \<open>tw_clock\<close> the next readings of the
  clock. \<open>tw_denied\<close> and \<open>tw_backoff\<close> are the fields of \<open>backoffHandler\<close>: was a retry denied, and does a
  backoff run?
\<close>

record token_world =
  tw_provider :: provider
  tw_cert :: "string option"
  tw_clock :: "int list"
  tw_rpcs :: "rpc_outcome list"
  tw_calls :: "(credentials \<times> token_call) list"
  tw_denied :: bool
  tw_backoff :: bool

definition now :: "token_world \<Rightarrow> int \<times> token_world" where
  "now w = (case tw_clock w of [] \<Rightarrow> (0, w) | t # ts \<Rightarrow> (t, w\<lparr>tw_clock := ts\<rparr>))"

definition getConnection :: "token_world \<Rightarrow> token_error option \<times> token_world" where
  "getConnection w = (case tw_rpcs w of DialError e # rs \<Rightarrow> (Some e, w\<lparr>tw_rpcs := rs\<rparr>) | _ \<Rightarrow> (None, w))"

definition invoke :: "credentials \<Rightarrow> token_call \<Rightarrow> token_world \<Rightarrow> (rpc_outcome + token_error) \<times> token_world" where
  "invoke creds call w =
     (let w' = w\<lparr>tw_calls := tw_calls w @ [(creds, call)], tw_rpcs := tl (tw_rpcs w)\<rparr>
      in case tw_rpcs w of
          Bundle c t # _ \<Rightarrow> (Inl (Bundle c t), w')
        | CallError e # _ \<Rightarrow> (Inr e, w')
        | _ \<Rightarrow> (Inr (TokenErr RpcOther ''no answer''), w'))"

text \<open>\<open>associatePrimary\<close> sends the gateway's certificate.\<close>

definition associatePrimary :: "credentials \<Rightarrow> token_world \<Rightarrow> (rpc_outcome + token_error) \<times> token_world" where
  "associatePrimary creds w = (case tw_cert w of
      None \<Rightarrow> (Inr (TokenErr RpcOther ''cannot read certificate''), w)
    | Some cert \<Rightarrow> invoke creds (AssociatePrimaryUser cert) w)"

section \<open>Requests\<close>

definition TokenError_NoError :: byte where "TokenError_NoError = 0"
definition TokenError_NullToken :: byte where "TokenError_NullToken = 1"
definition TokenError_InvalidToken :: byte where "TokenError_InvalidToken = 2"
definition TokenError_Connection :: byte where "TokenError_Connection = 3"
definition TokenError_WrongAccount :: byte where "TokenError_WrongAccount = 4"

lemmas token_errors = TokenError_NoError_def TokenError_NullToken_def TokenError_InvalidToken_def
  TokenError_Connection_def TokenError_WrongAccount_def

definition tokenMetadata :: "string \<Rightarrow> string \<Rightarrow> credentials" where
  "tokenMetadata appKey jwtToken = [''anki-app-key'' \<mapsto> appKey, ''anki-access-token'' \<mapsto> jwtToken]"

definition sessionMetadata :: "string \<Rightarrow> string \<Rightarrow> credentials" where
  "sessionMetadata appKey sessionToken = [''anki-app-key'' \<mapsto> appKey, ''anki-user-session'' \<mapsto> sessionToken]"

definition jwtErrorResp :: "byte \<Rightarrow> token_response" where
  "jwtErrorResp code = TokenResponseWithJwt \<lparr>JwtResponse_JwtToken = '''', JwtResponse_Error = code\<rparr>"

definition jwtTokenResp :: "string \<Rightarrow> token_response" where
  "jwtTokenResp t = TokenResponseWithJwt \<lparr>JwtResponse_JwtToken = t, JwtResponse_Error = TokenError_NoError\<rparr>"

definition authErrorResp :: "byte \<Rightarrow> token_response" where
  "authErrorResp code = TokenResponseWithAuth
     \<lparr>AuthResponse_AppToken = '''', AuthResponse_JwtToken = '''', AuthResponse_Error = code\<rparr>"

text \<open>\<open>ParseAndStoreToken\<close> of the provider, as part of the world.\<close>

definition storeToken :: "parsers \<Rightarrow> string \<Rightarrow> token_world \<Rightarrow> (token_info + token_error) \<times> token_world" where
  "storeToken P tok w = (case ParseAndStoreToken P tok (tw_provider w) of
      (Inl t, p) \<Rightarrow> (Inl t, w\<lparr>tw_provider := p\<rparr>)
    | (Inr e, p) \<Rightarrow> (Inr (TokenErr RpcOther e), w\<lparr>tw_provider := p\<rparr>))"

definition handleJwtRequest ::
  "parsers \<Rightarrow> string \<Rightarrow> bool \<Rightarrow> token_world \<Rightarrow> (token_response \<times> token_error option) \<times> token_world" where
  "handleJwtRequest P appKey forceRefresh w =
     (case currentToken (tw_provider w) of
        None \<Rightarrow> ((jwtErrorResp TokenError_NullToken, None), w)
      | Some existing \<Rightarrow> (case now w of (time, w) \<Rightarrow>
          if time > RefreshTime existing \<or> forceRefresh then
            (case getConnection w of
               (Some e, w) \<Rightarrow> ((jwtErrorResp TokenError_Connection, Some e), w)
             | (None, w) \<Rightarrow> (case invoke (tokenMetadata appKey (tk_Raw existing)) RefreshToken w of
                 (Inr e, w) \<Rightarrow> ((jwtErrorResp TokenError_Connection, Some e), w)
               | (Inl bundle, w) \<Rightarrow> (case storeToken P (BundleToken bundle) w of
                   (Inr e, w) \<Rightarrow> ((jwtErrorResp TokenError_InvalidToken, Some e), w)
                 | (Inl tok, w) \<Rightarrow> ((jwtTokenResp (tk_Raw tok), None), w))))
          else ((jwtTokenResp (tk_Raw existing), None), w)))"

definition authRequester ::
  "parsers \<Rightarrow> (token_world \<Rightarrow> (rpc_outcome + token_error) \<times> token_world) \<Rightarrow> bool \<Rightarrow> token_world \<Rightarrow>
     (token_response \<times> token_error option) \<times> token_world" where
  "authRequester P requester parseJwt w =
     (case getConnection w of
        (Some e, w) \<Rightarrow> ((authErrorResp TokenError_Connection, Some e), w)
      | (None, w) \<Rightarrow> (case requester w of
          (Inr e, w) \<Rightarrow> ((authErrorResp (if error_code e = RpcInvalidArgument then TokenError_WrongAccount
                          else TokenError_Connection), Some e), w)
        | (Inl bundle, w) \<Rightarrow>
            (case (if parseJwt then map_prod (map_sum (\<lambda>_. ()) id) id (storeToken P (BundleToken bundle) w) else (Inl (), w)) of
               (Inr e, w) \<Rightarrow> ((authErrorResp TokenError_InvalidToken, Some e), w)
             | (Inl _, w) \<Rightarrow> ((TokenResponseWithAuth \<lparr>AuthResponse_AppToken = ClientToken bundle,
                 AuthResponse_JwtToken = BundleToken bundle, AuthResponse_Error = TokenError_NoError\<rparr>, None), w))))"

definition handleAuthRequest ::
  "parsers \<Rightarrow> string \<Rightarrow> string \<Rightarrow> token_world \<Rightarrow> (token_response \<times> token_error option) \<times> token_world" where
  "handleAuthRequest P appKey session =
     authRequester P (associatePrimary (sessionMetadata appKey session)) True"

definition handleSecondaryAuthRequest ::
  "parsers \<Rightarrow> string \<Rightarrow> secondary_auth_request \<Rightarrow> token_world \<Rightarrow> (token_response \<times> token_error option) \<times> token_world" where
  "handleSecondaryAuthRequest P appKey req w =
     (case currentToken (tw_provider w) of
        None \<Rightarrow> ((authErrorResp TokenError_NullToken, None), w)
      | Some existing \<Rightarrow> authRequester P (invoke (tokenMetadata appKey (tk_Raw existing))
          (AssociateSecondaryClient (SecondaryAuthRequest_SessionToken req) (SecondaryAuthRequest_ClientName req)
            (SecondaryAuthRequest_AppId req))) False w)"

definition handleReassociateRequest ::
  "parsers \<Rightarrow> string \<Rightarrow> reassociate_request \<Rightarrow> token_world \<Rightarrow> (token_response \<times> token_error option) \<times> token_world" where
  "handleReassociateRequest P appKey req =
     authRequester P (invoke (sessionMetadata appKey (ReassociateRequest_SessionToken req))
       (ReassociatePrimaryUser (ReassociateRequest_ClientName req) (ReassociateRequest_AppId req))) False"

definition is_jwt :: "token_request \<Rightarrow> bool" where
  "is_jwt m = (case m of TokenRequestWithJwt _ \<Rightarrow> True | _ \<Rightarrow> False)"

text \<open>\<open>tokenQueue.handleRequest\<close>; a message without a known tag has no response.\<close>

definition queue_handleRequest ::
  "parsers \<Rightarrow> string \<Rightarrow> token_request \<Rightarrow> token_world \<Rightarrow> (token_response option \<times> token_error option) \<times> token_world" where
  "queue_handleRequest P appKey m w =
     (case (case m of
          TokenRequestWithAuth a \<Rightarrow> map_prod (map_prod Some id) id (handleAuthRequest P appKey (AuthRequest_SessionToken a) w)
        | TokenRequestWithSecondary s \<Rightarrow> map_prod (map_prod Some id) id (handleSecondaryAuthRequest P appKey s w)
        | TokenRequestWithReassociate r \<Rightarrow> map_prod (map_prod Some id) id (handleReassociateRequest P appKey r w)
        | TokenRequestWithJwt force \<Rightarrow> map_prod (map_prod Some id) id (handleJwtRequest P appKey force w)
        | TokenRequestInvalid \<Rightarrow> ((None, None), w)) of
      ((resp, err), w') \<Rightarrow>
        ((resp, err), if err = None \<and> \<not> is_jwt m then w'\<lparr>tw_denied := False\<rparr> else w'))"

section \<open>Users of the queue\<close>

text \<open>\<open>accessor.Credentials\<close>; it asks only for the token it has, or for one that is due.\<close>

definition Credentials :: "parsers \<Rightarrow> string \<Rightarrow> token_world \<Rightarrow> (credentials + token_error) \<times> token_world" where
  "Credentials P appKey w = (case queue_handleRequest P appKey (TokenRequestWithJwt False) w of
      ((_, Some e), w') \<Rightarrow> (Inr e, w')
    | ((Some (TokenResponseWithJwt jwt), None), w') \<Rightarrow>
        (if JwtResponse_Error jwt \<noteq> TokenError_NoError then (Inr (TokenErr RpcOther ''jwt error code''), w')
         else (Inl (tokenMetadata appKey (JwtResponse_JwtToken jwt)), w'))
    | (_, w') \<Rightarrow> (Inr (TokenErr RpcOther ''jwt error code''), w'))"

definition accessor_UserID :: "token_world \<Rightarrow> string" where
  "accessor_UserID w = (case currentToken (tw_provider w) of None \<Rightarrow> '''' | Some t \<Rightarrow> tk_UserId t)"

text \<open>\<open>Server.handleConn\<close>, over the blocks of the connection; errors are only logged.\<close>

definition server_handleRequest ::
  "parsers \<Rightarrow> string \<Rightarrow> token_request \<Rightarrow> (token_world, token_response option) go" where
  "server_handleRequest P appKey m w = (case queue_handleRequest P appKey m w of ((resp, _), w') \<Rightarrow> (Ret resp, w'))"

fun token_handleConn :: "parsers \<Rightarrow> string \<Rightarrow> byte list option list \<Rightarrow> (token_world \<times> conn, unit) go" where
  "token_handleConn P appKey [] s = (Ret (), s)"
| "token_handleConn P appKey (None # bs) s = (Ret (), s)"
| "token_handleConn P appKey (Some b # bs) (w, c) =
     (if b = [] then (Ret (), (w, c))
      else case Unpack_TokenRequest b of
          (Ret msg, _) \<Rightarrow> (case server_handleRequest P appKey msg w of
              (Ret resp, w') \<Rightarrow> token_handleConn P appKey bs (w', respond Pack_TokenResponse resp c)
            | (_, w') \<Rightarrow> (Crash, (w', c)))
        | (Fail e, _) \<Rightarrow> token_handleConn P appKey bs (w, c)
        | _ \<Rightarrow> (Crash, (w, c)))"

section \<open>Backoff\<close>

text \<open>
  \<open>backoffHandler\<close>: an error of another service may start a backoff, in which the token is refreshed
  again and again until that succeeds, is denied or takes too long; each try is an event, and the end.
\<close>

datatype backoff_event =
    ErrorHeard token_error    \<comment> \<open>\<open>OnError\<close>\<close>
  | Retry                     \<comment> \<open>\<open>retry\<close>, called by the backoff that runs\<close>
  | BackoffEnds               \<comment> \<open>\<open>reset\<close>, after \<open>backoff.Retry\<close> has returned\<close>
  | Request token_request     \<comment> \<open>a request of somebody else\<close>

definition OnError_denied :: "token_error \<Rightarrow> token_world \<Rightarrow> token_world" where
  "OnError_denied e w =
     (if error_code e \<noteq> RpcPermissionDenied then w
      else if tw_backoff w then w
      else if tw_denied w then w
      else w\<lparr>tw_backoff := True\<rparr>)"

definition retry :: "parsers \<Rightarrow> string \<Rightarrow> token_world \<Rightarrow> token_world" where
  "retry P appKey w = (case queue_handleRequest P appKey (TokenRequestWithJwt True) w of
      ((_, Some e), w') \<Rightarrow> (if error_code e = RpcPermissionDenied then w'\<lparr>tw_denied := True\<rparr> else w')
    | (_, w') \<Rightarrow> w')"

definition backoff_step :: "parsers \<Rightarrow> string \<Rightarrow> backoff_event \<Rightarrow> token_world \<Rightarrow> token_world" where
  "backoff_step P appKey e w = (case e of
      ErrorHeard err \<Rightarrow> OnError_denied err w
    | Retry \<Rightarrow> if tw_backoff w then retry P appKey w else w
    | BackoffEnds \<Rightarrow> w\<lparr>tw_backoff := False\<rparr>
    | Request m \<Rightarrow> snd (queue_handleRequest P appKey m w))"

end
