(* ===== verification/Token_Answers.thy ===== *)
theory Token_Answers
  imports Token_Service
begin

text \<open>
  What the token service promises: the token it hands out as the robot's is the one it holds in memory
  and on disk, errors change nothing, the server answers every request, and a denied refresh stops
  the retries.
\<close>

section \<open>What a request does to the provider\<close>

lemma getConnection_provider:
  "getConnection w = (e, w') \<Longrightarrow> tw_provider w' = tw_provider w"
  by (auto simp: getConnection_def split: list.splits rpc_outcome.splits)

lemma invoke_provider: "invoke creds call w = (r, w') \<Longrightarrow> tw_provider w' = tw_provider w"
  by (auto simp: invoke_def Let_def split: list.splits rpc_outcome.splits)

lemma invoke_bundle: "invoke creds call w = (Inl b, w') \<Longrightarrow> \<exists>c t. b = Bundle c t"
  by (auto simp: invoke_def Let_def split: list.splits rpc_outcome.splits)

lemma associatePrimary_provider: "associatePrimary creds w = (r, w') \<Longrightarrow> tw_provider w' = tw_provider w"
  by (auto simp: associatePrimary_def split: option.splits dest: invoke_provider)

lemma now_provider: "now w = (t, w') \<Longrightarrow> tw_provider w' = tw_provider w"
  by (auto simp: now_def split: list.splits)

definition same_token :: "provider \<Rightarrow> provider \<Rightarrow> bool" where
  "same_token p p' \<longleftrightarrow> currentToken p' = currentToken p \<and> jwtFile p' = jwtFile p"

lemma same_token_refl [simp]: "same_token p p"
  by (simp add: same_token_def)

lemma storeToken_cases:
  "(\<exists>e w'. storeToken P tok w = (Inr e, w') \<and> same_token (tw_provider w) (tw_provider w')) \<or>
   (\<exists>t w'. storeToken P tok w = (Inl t, w') \<and> parseToken P tok = Inl t \<and>
      jwtFile (tw_provider w') = Some tok \<and> currentToken (tw_provider w') = Some t)"
  using ParseAndStoreToken_cases [of P tok "tw_provider w"]
  by (elim disjE exE conjE) (simp_all add: storeToken_def same_token_def)

text \<open>
  \<open>answered P p resp err p'\<close>: an error goes with an error code in the response and leaves the token
  alone; a response without an error leaves it alone or has stored the token it speaks of.
\<close>

definition response_error :: "token_response \<Rightarrow> byte" where
  "response_error r = (case r of TokenResponseWithAuth a \<Rightarrow> AuthResponse_Error a
     | TokenResponseWithJwt j \<Rightarrow> JwtResponse_Error j | TokenResponseInvalid \<Rightarrow> 0)"

definition token_answered :: "parsers \<Rightarrow> provider \<Rightarrow> token_response \<Rightarrow> token_error option \<Rightarrow> provider \<Rightarrow> bool" where
  "token_answered P p resp err p' \<longleftrightarrow>
     (err \<noteq> None \<longrightarrow> response_error resp \<noteq> TokenError_NoError) \<and>
     (response_error resp \<noteq> TokenError_NoError \<longrightarrow> same_token p p') \<and>
     (same_token p p' \<or> (\<exists>tok t. parseToken P tok = Inl t \<and> jwtFile p' = Some tok \<and> currentToken p' = Some t)) \<and>
     (case resp of TokenResponseWithJwt j \<Rightarrow> JwtResponse_Error j = TokenError_NoError \<longrightarrow>
         (\<exists>t. currentToken p' = Some t \<and> JwtResponse_JwtToken j = tk_Raw t) | _ \<Rightarrow> True)"

lemma stored_answered:
  "parseToken P tok = Inl t \<Longrightarrow> jwtFile p' = Some tok \<Longrightarrow> currentToken p' = Some t \<Longrightarrow>
    token_answered P p (jwtTokenResp (tk_Raw t)) None p'"
  by (auto simp: token_answered_def jwtTokenResp_def response_error_def)

lemma refused_answered:
  "code \<noteq> TokenError_NoError \<Longrightarrow> same_token p p' \<Longrightarrow> token_answered P p (jwtErrorResp code) err p'"
  "code \<noteq> TokenError_NoError \<Longrightarrow> same_token p p' \<Longrightarrow> token_answered P p (authErrorResp code) err p'"
  by (simp_all add: token_answered_def jwtErrorResp_def authErrorResp_def response_error_def)

lemma jwt_answered:
  assumes "handleJwtRequest P k force w = ((resp, err), w')"
  shows "token_answered P (tw_provider w) resp err (tw_provider w')"
proof (cases "currentToken (tw_provider w)")
  case None
  with assms show ?thesis by (auto simp: handleJwtRequest_def token_errors intro: refused_answered)
next
  case (Some t)
  obtain time w1 where n: "now w = (time, w1)" by fastforce
  note p1 = now_provider [OF n]
  show ?thesis
  proof (cases "time > RefreshTime t \<or> force")
    case False
    with Some n assms p1 show ?thesis
      by (auto simp: handleJwtRequest_def token_answered_def jwtTokenResp_def response_error_def)
  next
    case True
    obtain e w2 where g: "getConnection w1 = (e, w2)" by fastforce
    obtain r w3 where i: "invoke (tokenMetadata k (tk_Raw t)) RefreshToken w2 = (r, w3)" by fastforce
    have p: "tw_provider w2 = tw_provider w" "tw_provider w3 = tw_provider w"
      using p1 getConnection_provider [OF g] invoke_provider [OF i] by simp_all
    show ?thesis
    proof (cases e)
      case (Some e')
      with True \<open>currentToken (tw_provider w) = Some t\<close> n g assms p show ?thesis
        by (auto simp: handleJwtRequest_def token_errors intro: refused_answered)
    next
      case none: None
      show ?thesis
      proof (cases r)
        case (Inr e')
        with True \<open>currentToken (tw_provider w) = Some t\<close> n g i none assms p show ?thesis
          by (auto simp: handleJwtRequest_def token_errors intro: refused_answered)
      next
        case (Inl b)
        from storeToken_cases [of P "BundleToken b" w3] show ?thesis
          by (elim disjE exE conjE)
            (use True \<open>currentToken (tw_provider w) = Some t\<close> n g i none Inl assms p in
              \<open>auto simp: handleJwtRequest_def token_errors intro: refused_answered stored_answered\<close>)
      qed
    qed
  qed
qed

lemma auth_answered:
  assumes "authRequester P requester parseJwt w = ((resp, err), w')"
    and req: "\<And>v r v'. requester v = (r, v') \<Longrightarrow> tw_provider v' = tw_provider v"
  shows "token_answered P (tw_provider w) resp err (tw_provider w')"
proof -
  obtain e w2 where g: "getConnection w = (e, w2)" by fastforce
  obtain r w3 where i: "requester w2 = (r, w3)" by fastforce
  have p: "tw_provider w2 = tw_provider w" "tw_provider w3 = tw_provider w"
    using getConnection_provider [OF g] req [OF i] by simp_all
  show ?thesis
  proof (cases e)
    case (Some e')
    with g assms(1) p show ?thesis by (auto simp: authRequester_def token_errors intro: refused_answered)
  next
    case none: None
    show ?thesis
    proof (cases r)
      case (Inr e')
      with g i none assms(1) p show ?thesis
        by (auto simp: authRequester_def token_errors split: if_splits intro!: refused_answered)
    next
      case (Inl b)
      show ?thesis
      proof (cases parseJwt)
        case False
        with g i none Inl assms(1) p show ?thesis
          by (auto simp: authRequester_def token_answered_def response_error_def)
      next
        case True
        from storeToken_cases [of P "BundleToken b" w3] show ?thesis
          by (elim disjE exE conjE)
            (use True g i none Inl assms(1) p in
              \<open>auto simp: authRequester_def token_errors token_answered_def response_error_def authErrorResp_def same_token_def\<close>)
      qed
    qed
  qed
qed

lemma queue_answered:
  assumes "queue_handleRequest P k m w = ((resp, err), w')"
  shows "case resp of None \<Rightarrow> m = TokenRequestInvalid \<and> err = None \<and> tw_provider w' = tw_provider w
    | Some r \<Rightarrow> token_answered P (tw_provider w) r err (tw_provider w')"
proof (cases m)
  case (TokenRequestWithAuth a)
  obtain r e v where h: "handleAuthRequest P k (AuthRequest_SessionToken a) w = ((r, e), v)" by (metis surj_pair)
  have "token_answered P (tw_provider w) r e (tw_provider v)"
    using h auth_answered [OF _ associatePrimary_provider] by (simp add: handleAuthRequest_def)
  with TokenRequestWithAuth h assms show ?thesis by (auto simp: queue_handleRequest_def is_jwt_def split: if_splits)
next
  case (TokenRequestWithSecondary a)
  obtain r e v where h: "handleSecondaryAuthRequest P k a w = ((r, e), v)" by (metis surj_pair)
  have "token_answered P (tw_provider w) r e (tw_provider v)"
  proof (cases "currentToken (tw_provider w)")
    case None
    with h show ?thesis by (auto simp: handleSecondaryAuthRequest_def token_errors intro: refused_answered)
  next
    case (Some t)
    with h auth_answered [OF _ invoke_provider] show ?thesis by (simp add: handleSecondaryAuthRequest_def)
  qed
  with TokenRequestWithSecondary h assms show ?thesis by (auto simp: queue_handleRequest_def is_jwt_def split: if_splits)
next
  case (TokenRequestWithReassociate a)
  obtain r e v where h: "handleReassociateRequest P k a w = ((r, e), v)" by (metis surj_pair)
  have "token_answered P (tw_provider w) r e (tw_provider v)"
    using h auth_answered [OF _ invoke_provider] by (simp add: handleReassociateRequest_def)
  with TokenRequestWithReassociate h assms show ?thesis by (auto simp: queue_handleRequest_def is_jwt_def split: if_splits)
next
  case (TokenRequestWithJwt force)
  obtain r e v where h: "handleJwtRequest P k force w = ((r, e), v)" by (metis surj_pair)
  with TokenRequestWithJwt jwt_answered [OF h] assms show ?thesis by (auto simp: queue_handleRequest_def is_jwt_def)
next
  case TokenRequestInvalid
  with assms show ?thesis by (auto simp: queue_handleRequest_def is_jwt_def)
qed

lemma answered_coherent:
  "token_answered P p r err p' \<Longrightarrow> coherent P p \<Longrightarrow> coherent P p'"
  by (auto simp: token_answered_def coherent_def same_token_def)

lemma queue_coherent:
  assumes "queue_handleRequest P k m w = ((resp, err), w')" "coherent P (tw_provider w)"
  shows "coherent P (tw_provider w')"
  using queue_answered [OF assms(1)] assms(2) answered_coherent by (cases resp) auto

section \<open>The server\<close>

interpretation tokenServer: request_server Pack_TokenResponse Unpack_TokenResponse fits_TokenResponse Size_TokenResponse 131076
    Unpack_TokenRequest "server_handleRequest P k" "token_handleConn P k" for P k
  by unfold_locales (auto simp: reader_TokenRequest)

lemma server_returns: "always_returns (server_handleRequest P k) m"
  by (simp add: always_returns_def server_handleRequest_def split: prod.split)

lemma state_after_coherent:
  "coherent P (tw_provider w) \<Longrightarrow> coherent P (tw_provider (state_after (server_handleRequest P k) qs w))"
proof (induction qs arbitrary: w)
  case (Cons q qs)
  obtain resp err w' where q: "queue_handleRequest P k q w = ((resp, err), w')" by (metis surj_pair)
  with Cons.IH [OF queue_coherent [OF q Cons.prems]] show ?case by (simp add: server_handleRequest_def)
qed simp

lemma responses_length:
  "length (responses (server_handleRequest P k) qs w) = length (filter (\<lambda>q. q \<noteq> TokenRequestInvalid) qs)"
proof (induction qs arbitrary: w)
  case (Cons q qs)
  obtain resp err w' where q: "queue_handleRequest P k q w = ((resp, err), w')" by (metis surj_pair)
  have "resp = None \<longleftrightarrow> q = TokenRequestInvalid"
  proof
    assume "q = TokenRequestInvalid"
    with q show "resp = None" by (simp add: queue_handleRequest_def)
  qed (use queue_answered [OF q] in simp)
  with Cons q show ?case by (auto simp: server_handleRequest_def)
qed simp

section \<open>Properties\<close>


text \<open>
  C12. A token that the service hands out as the robot's is in its file, and a provider that starts
  with this disk finds it there, if it belongs to a user; an answer with an error changes neither the
  token nor its file. The parser keeps the text of a token as its raw form.
\<close>

theorem handed_out_token_survives_restart:
  assumes "coherent P (tw_provider w)" and raw: "\<And>s t. ParseUnverified P s = Inl t \<Longrightarrow> jwt_Raw t = s"
    and "queue_handleRequest P k m w = ((Some (TokenResponseWithJwt j), err), w')"
    and "p = (tw_provider w')\<lparr>currentToken := None, diskFaults := []\<rparr>"
  shows "if JwtResponse_Error j = TokenError_NoError
    then err = None \<and> jwtFile (tw_provider w') = Some (JwtResponse_JwtToken j) \<and>
      (\<exists>t. parseToken P (JwtResponse_JwtToken j) = Inl t \<and> currentToken (tw_provider w') = Some t \<and>
        (tk_UserId t = '''' \<or> currentToken (snd (provider_init P p)) = Some t))
    else same_token (tw_provider w) (tw_provider w')"
proof (cases "JwtResponse_Error j = TokenError_NoError")
  case True
  have a: "token_answered P (tw_provider w) (TokenResponseWithJwt j) err (tw_provider w')"
    using queue_answered [OF assms(3)] by simp
  then obtain t where t: "currentToken (tw_provider w') = Some t" "JwtResponse_JwtToken j = tk_Raw t"
    using True by (auto simp: token_answered_def)
  have "coherent P (tw_provider w')" by (rule queue_coherent [OF assms(3,1)])
  then obtain s where s: "jwtFile (tw_provider w') = Some s" "parseToken P s = Inl t" using t(1) by (auto simp: coherent_def)
  have "tk_Raw t = s" using s(2) raw
    by (auto simp: parseToken_def FromJwtToken_def split: sum.splits option.splits)
  moreover have "tk_UserId t = '''' \<or> currentToken (snd (provider_init P p)) = Some t"
    using s by (simp add: assms(4) provider_init_def disk_def)
  moreover have "err = None" using a True by (auto simp: token_answered_def response_error_def)
  ultimately show ?thesis using True t s by simp
next
  case False
  with queue_answered [OF assms(3)] show ?thesis by (simp add: token_answered_def response_error_def)
qed

section \<open>Denied refreshes\<close>

text \<open>Does an event lift the ban, being a request other than for the robot's token that succeeds?\<close>

definition lifts :: "parsers \<Rightarrow> string \<Rightarrow> backoff_event \<Rightarrow> token_world \<Rightarrow> bool" where
  "lifts P k e w = (case e of
      Request m \<Rightarrow> \<not> is_jwt m \<and> snd (fst (queue_handleRequest P k m w)) = None | _ \<Rightarrow> False)"

fun never_lifted :: "parsers \<Rightarrow> string \<Rightarrow> backoff_event list \<Rightarrow> token_world \<Rightarrow> bool" where
  "never_lifted P k [] w = True"
| "never_lifted P k (e # es) w = (\<not> lifts P k e w \<and> never_lifted P k es (backoff_step P k e w))"

lemma jwt_flags:
  assumes "handleJwtRequest P k force w = (r, w')"
  shows "tw_denied w' = tw_denied w \<and> tw_backoff w' = tw_backoff w"
  using assms
  by (auto simp: handleJwtRequest_def now_def getConnection_def invoke_def storeToken_def Let_def
      split: option.splits list.splits prod.splits if_splits sum.splits rpc_outcome.splits)

lemma auth_flags:
  assumes "authRequester P requester parseJwt w = (r, w')"
    and "\<And>v x v'. requester v = (x, v') \<Longrightarrow> tw_denied v' = tw_denied v \<and> tw_backoff v' = tw_backoff v"
  shows "tw_denied w' = tw_denied w \<and> tw_backoff w' = tw_backoff w"
  using assms(1)
  by (auto simp: authRequester_def getConnection_def storeToken_def
      split: option.splits list.splits prod.splits if_splits sum.splits rpc_outcome.splits dest!: assms(2))

lemma queue_flags:
  assumes "queue_handleRequest P k m w = ((resp, err), w')"
  shows "tw_backoff w' = tw_backoff w \<and> tw_denied w' = (tw_denied w \<and> \<not> (err = None \<and> \<not> is_jwt m))"
proof -
  have inv: "tw_denied v' = tw_denied v \<and> tw_backoff v' = tw_backoff v" if "invoke creds call v = (x, v')" for creds call v x v'
    using that by (auto simp: invoke_def Let_def split: list.splits rpc_outcome.splits)
  have pri: "tw_denied v' = tw_denied v \<and> tw_backoff v' = tw_backoff v" if "associatePrimary creds v = (x, v')" for creds v x v'
    using that inv by (auto simp: associatePrimary_def split: option.splits)
  show ?thesis
  proof (cases m)
    case (TokenRequestWithAuth a)
    obtain r e v where h: "handleAuthRequest P k (AuthRequest_SessionToken a) w = ((r, e), v)" by (metis surj_pair)
    then have "tw_denied v = tw_denied w \<and> tw_backoff v = tw_backoff w"
      unfolding handleAuthRequest_def by (rule auth_flags) (rule pri)
    with TokenRequestWithAuth h assms show ?thesis by (auto simp: queue_handleRequest_def is_jwt_def split: if_splits)
  next
    case (TokenRequestWithSecondary a)
    obtain r e v where h: "handleSecondaryAuthRequest P k a w = ((r, e), v)" by (metis surj_pair)
    have "tw_denied v = tw_denied w \<and> tw_backoff v = tw_backoff w"
    proof (cases "currentToken (tw_provider w)")
      case (Some t)
      with h auth_flags [OF _ inv] show ?thesis by (simp add: handleSecondaryAuthRequest_def)
    qed (use h in \<open>simp add: handleSecondaryAuthRequest_def\<close>)
    with TokenRequestWithSecondary h assms show ?thesis by (auto simp: queue_handleRequest_def is_jwt_def split: if_splits)
  next
    case (TokenRequestWithReassociate a)
    obtain r e v where h: "handleReassociateRequest P k a w = ((r, e), v)" by (metis surj_pair)
    then have "tw_denied v = tw_denied w \<and> tw_backoff v = tw_backoff w"
      unfolding handleReassociateRequest_def by (rule auth_flags) (rule inv)
    with TokenRequestWithReassociate h assms show ?thesis by (auto simp: queue_handleRequest_def is_jwt_def split: if_splits)
  next
    case (TokenRequestWithJwt force)
    obtain r e v where h: "handleJwtRequest P k force w = ((r, e), v)" by (metis surj_pair)
    with TokenRequestWithJwt jwt_flags [OF h] assms show ?thesis by (auto simp: queue_handleRequest_def is_jwt_def)
  next
    case TokenRequestInvalid
    with assms show ?thesis by (auto simp: queue_handleRequest_def is_jwt_def)
  qed
qed

lemma banned_step:
  assumes "tw_denied w" "\<not> tw_backoff w" "\<not> lifts P k e w"
  shows "tw_denied (backoff_step P k e w) \<and> \<not> tw_backoff (backoff_step P k e w)"
proof (cases e)
  case (Request m)
  obtain resp err w' where q: "queue_handleRequest P k m w = ((resp, err), w')" by (metis surj_pair)
  with Request queue_flags [OF q] assms show ?thesis by (auto simp: backoff_step_def lifts_def)
qed (use assms in \<open>auto simp: backoff_step_def OnError_denied_def\<close>)

lemma banned_run:
  "tw_denied w \<Longrightarrow> \<not> tw_backoff w \<Longrightarrow> never_lifted P k es w \<Longrightarrow>
   tw_denied (fold (backoff_step P k) es w) \<and> \<not> tw_backoff (fold (backoff_step P k) es w)"
proof (induction es arbitrary: w)
  case (Cons e es)
  then have "\<not> lifts P k e w" "never_lifted P k es (backoff_step P k e w)" by simp_all
  with banned_step [OF Cons.prems(1,2)] Cons.IH [of "backoff_step P k e w"] show ?case by simp
qed simp


section \<open>Examples\<close>

text \<open>A parser that takes any text for a token of the user \<open>u\<close>, and a world with such a token.\<close>

definition any_token :: parsers where
  "any_token = \<lparr>ParseUnverified = \<lambda>s. Inl \<lparr>jwt_Raw = s, jwt_Claims = Some [''token_id'' \<mapsto> ClaimString ''1'',
       ''token_type'' \<mapsto> ClaimString ''user+robot'', ''user_id'' \<mapsto> ClaimString ''u'', ''requestor_id'' \<mapsto> ClaimString ''vic'',
       ''iat'' \<mapsto> ClaimString ''t'', ''expires'' \<mapsto> ClaimString ''t'']\<rparr>, ParseTime = \<lambda>s. Inl 100\<rparr>"

definition user_token :: "string \<Rightarrow> token_info" where
  "user_token s = \<lparr>tk_Id = ''1'', tk_Type = ''user+robot'', tk_RequestorId = ''vic'', tk_UserId = ''u'', tk_IssuedAt = 100,
     tk_ExpiresAt = 100, tk_Raw = s, tk_Permissions = None\<rparr>"

definition token_example :: "rpc_outcome list \<Rightarrow> token_world" where
  "token_example rs = \<lparr>tw_provider = \<lparr>currentToken = Some (user_token ''old''), jwtFile = Some ''old'', tmpFile = None, diskFaults = []\<rparr>,
     tw_cert = None, tw_clock = [], tw_rpcs = rs, tw_calls = [], tw_denied = False, tw_backoff = True\<rparr>"

lemma any_token_parses [simp]: "parseToken any_token s = Inl (user_token s)"
  by (simp add: parseToken_def any_token_def FromJwtToken_def claim_string_def user_token_def)

lemma example_coherent: "coherent any_token (tw_provider (token_example rs))"
  by (simp add: coherent_def token_example_def)

lemma example_refresh:
  "\<exists>w'. queue_handleRequest any_token k (TokenRequestWithJwt True) (token_example [Bundle ''c'' ''new'']) =
     ((Some (TokenResponseWithJwt \<lparr>JwtResponse_JwtToken = ''new'', JwtResponse_Error = 0\<rparr>), None), w')"
  by (simp add: queue_handleRequest_def is_jwt_def handleJwtRequest_def token_example_def now_def getConnection_def invoke_def
      storeToken_def ParseAndStoreToken_def saveToken_def disk_def jwtTokenResp_def TokenError_NoError_def user_token_def)

theorem handed_out_token_survives_restart_witness:
  "\<exists>w'. queue_handleRequest any_token ''key'' (TokenRequestWithJwt True) (token_example [Bundle ''c'' ''new'']) =
     ((Some (TokenResponseWithJwt \<lparr>JwtResponse_JwtToken = ''new'', JwtResponse_Error = 0\<rparr>), None), w') \<and>
     jwtFile (tw_provider w') = Some ''new''"
proof -
  obtain w' where q: "queue_handleRequest any_token ''key'' (TokenRequestWithJwt True) (token_example [Bundle ''c'' ''new'']) =
     ((Some (TokenResponseWithJwt \<lparr>JwtResponse_JwtToken = ''new'', JwtResponse_Error = 0\<rparr>), None), w')"
    using example_refresh by blast
  have "ParseUnverified any_token s = Inl t \<Longrightarrow> jwt_Raw t = s" for s t by (auto simp: any_token_def)
  from handed_out_token_survives_restart [OF example_coherent this q refl] q show ?thesis
    by (simp add: TokenError_NoError_def)
qed



end
