(* ===== verification/Jdocs_Service.thy ===== *)
theory Jdocs_Service
  imports Service_Loop
begin

text \<open>
  The service for the robot's documents, \<open>internal/jdocs\<close>: conversions between the messages of the
  robot's processes and those of the remote service, the requests, and the server of the robot's
  processes. In this build reading and writing do not reach the remote service any more.
\<close>

section \<open>Conversions\<close>

text \<open>The messages of \<open>jdocspb\<close>, with the fields that the code names.\<close>

record pb_jdoc =
  Jdoc_DocVersion :: uint64
  Jdoc_FmtVersion :: uint64
  Jdoc_ClientMetadata :: string
  Jdoc_JsonDoc :: string

record pb_write_req =
  WriteDocReq_UserId :: string
  WriteDocReq_Thing :: string
  WriteDocReq_DocName :: string
  WriteDocReq_Doc :: pb_jdoc

record pb_read_req =
  ReadDocsReq_UserId :: string
  ReadDocsReq_Thing :: string
  ReadDocsReq_Items :: "(string \<times> uint64) list"

record pb_delete_req =
  DeleteDocReq_UserId :: string
  DeleteDocReq_Thing :: string
  DeleteDocReq_DocName :: string

definition cladDoc_toProto :: "doc \<Rightarrow> pb_jdoc" where
  "cladDoc_toProto c = \<lparr>Jdoc_DocVersion = Doc_DocVersion c, Jdoc_FmtVersion = Doc_FmtVersion c,
     Jdoc_ClientMetadata = Doc_Metadata c, Jdoc_JsonDoc = Doc_JsonDoc c\<rparr>"

definition pbDoc_toClad :: "pb_jdoc \<Rightarrow> doc" where
  "pbDoc_toClad p = \<lparr>Doc_DocVersion = Jdoc_DocVersion p, Doc_FmtVersion = Jdoc_FmtVersion p,
     Doc_Metadata = Jdoc_ClientMetadata p, Doc_JsonDoc = Jdoc_JsonDoc p\<rparr>"

definition cladWriteReq_toProto :: "write_request \<Rightarrow> pb_write_req" where
  "cladWriteReq_toProto c = \<lparr>WriteDocReq_UserId = WriteRequest_Account c, WriteDocReq_Thing = WriteRequest_Thing c,
     WriteDocReq_DocName = WriteRequest_DocName c, WriteDocReq_Doc = cladDoc_toProto (WriteRequest_Doc c)\<rparr>"

definition cladReadReq_toProto :: "read_request \<Rightarrow> pb_read_req" where
  "cladReadReq_toProto c = \<lparr>ReadDocsReq_UserId = ReadRequest_Account c, ReadDocsReq_Thing = ReadRequest_Thing c,
     ReadDocsReq_Items = map (\<lambda>i. (ReadItem_DocName i, ReadItem_MyDocVersion i)) (ReadRequest_Items c)\<rparr>"

definition cladDeleteReq_toProto :: "delete_request \<Rightarrow> pb_delete_req" where
  "cladDeleteReq_toProto c = \<lparr>DeleteDocReq_UserId = DeleteRequest_Account c, DeleteDocReq_Thing = DeleteRequest_Thing c,
     DeleteDocReq_DocName = DeleteRequest_DocName c\<rparr>"

text \<open>Answers of the remote service; a document may be absent, which the conversion does not expect.\<close>

datatype pb_read_status = UNCHANGED | CHANGED | NOT_FOUND | OtherReadStatus
datatype pb_write_status = ACCEPTED | REJECTED_BAD_DOC_VERSION | REJECTED_BAD_FMT_VERSION | OtherWriteStatus

definition ReadStatus_Unchanged :: byte where "ReadStatus_Unchanged = 0"
definition ReadStatus_Changed :: byte where "ReadStatus_Changed = 1"
definition ReadStatus_NotFound :: byte where "ReadStatus_NotFound = 2"
definition WriteStatus_Accepted :: byte where "WriteStatus_Accepted = 0"
definition WriteStatus_RejectedDocVersion :: byte where "WriteStatus_RejectedDocVersion = 1"
definition WriteStatus_RejectedFmtVersion :: byte where "WriteStatus_RejectedFmtVersion = 2"
definition DocError_ErrorConnecting :: byte where "DocError_ErrorConnecting = 0"

text \<open>A status that the map does not have is the zero value.\<close>

definition readStatusMap :: "pb_read_status \<Rightarrow> byte" where
  "readStatusMap s = (case s of UNCHANGED \<Rightarrow> ReadStatus_Unchanged | CHANGED \<Rightarrow> ReadStatus_Changed
     | NOT_FOUND \<Rightarrow> ReadStatus_NotFound | OtherReadStatus \<Rightarrow> 0)"

definition writeStatusMap :: "pb_write_status \<Rightarrow> byte" where
  "writeStatusMap s = (case s of ACCEPTED \<Rightarrow> WriteStatus_Accepted
     | REJECTED_BAD_DOC_VERSION \<Rightarrow> WriteStatus_RejectedDocVersion
     | REJECTED_BAD_FMT_VERSION \<Rightarrow> WriteStatus_RejectedFmtVersion | OtherWriteStatus \<Rightarrow> 0)"

definition protoWriteResp_toClad :: "uint64 \<times> pb_write_status \<Rightarrow> write_response" where
  "protoWriteResp_toClad p = \<lparr>WriteResponse_Status = writeStatusMap (snd p), WriteResponse_LatestVersion = fst p\<rparr>"

fun protoReadResp_toClad :: "(pb_read_status \<times> pb_jdoc option) list \<Rightarrow> ('w, response_doc list) go" where
  "protoReadResp_toClad [] = returnM []"
| "protoReadResp_toClad ((s, d) # ps) = (case d of
      None \<Rightarrow> panicM
    | Some j \<Rightarrow> bindM (protoReadResp_toClad ps) (\<lambda>rs.
        returnM (\<lparr>ResponseDoc_Status = readStatusMap s, ResponseDoc_Doc = pbDoc_toClad j\<rparr> # rs)))"

lemma document_round_trip [simp]: "pbDoc_toClad (cladDoc_toProto d) = d" "cladDoc_toProto (pbDoc_toClad j) = j"
  by (simp_all add: pbDoc_toClad_def cladDoc_toProto_def)

section \<open>Requests\<close>

text \<open>
  \<open>tokener\<close> is the accessor's user and certificate name, if there is an accessor. The world: does the
  next dial succeed; how the next deletions end; the deletions that were called for; how often the
  weather was asked for; the errors that the listener heard.
\<close>

record jdocs_world =
  jd_dials :: "bool list"
  jd_results :: "bool list"
  jd_deletes :: "pb_delete_req list"
  jd_weather :: nat
  jd_errors :: "string list"

type_synonym tokener = "(string \<times> string) option"

definition handleUserRequest :: "tokener \<Rightarrow> doc_response" where
  "handleUserRequest tokener = DocResponseWithUser (case tokener of None \<Rightarrow> '''' | Some (user, _) \<Rightarrow> user)"

definition handleThingRequest :: "tokener \<Rightarrow> (jdocs_world, doc_response) go" where
  "handleThingRequest tokener = (case tokener of None \<Rightarrow> panicM | Some (_, thing) \<Rightarrow> returnM (DocResponseWithThing thing))"

text \<open>Is one name a part of another? \<open>strings.Contains\<close>\<close>

fun is_part :: "string \<Rightarrow> string \<Rightarrow> bool" where
  "is_part p [] = (p = [])"
| "is_part p (c # s) = (take (length p) (c # s) = p \<or> is_part p s)"

definition writeRequest :: "write_request \<Rightarrow> jdocs_world \<Rightarrow> doc_response \<times> jdocs_world" where
  "writeRequest cladReq w =
     (let req = cladWriteReq_toProto cladReq
      in (DocResponseWithWrite \<lparr>WriteResponse_Status = WriteStatus_Accepted, WriteResponse_LatestVersion = 0\<rparr>,
          if is_part ''RobotSettings'' (WriteDocReq_DocName req) then w\<lparr>jd_weather := Suc (jd_weather w)\<rparr> else w))"

definition no_doc :: doc where
  "no_doc = \<lparr>Doc_DocVersion = 0, Doc_FmtVersion = 0, Doc_Metadata = '''', Doc_JsonDoc = ''''\<rparr>"

definition readRequest :: "read_request \<Rightarrow> doc_response" where
  "readRequest cladReq = DocResponseWithRead (map (\<lambda>_. \<lparr>ResponseDoc_Status = ReadStatus_NotFound, ResponseDoc_Doc = no_doc\<rparr>)
     (ReadDocsReq_Items (cladReadReq_toProto cladReq)))"

text \<open>
  \<open>newConn\<close> drops the error of its dial: the client of a failed dial has no connection, and a call
  with it panics.
\<close>

definition deleteRequest :: "delete_request \<Rightarrow> (jdocs_world, doc_response \<times> string option) go" where
  "deleteRequest cladReq w =
     (let req = cladDeleteReq_toProto cladReq;
          dialled = (case jd_dials w of [] \<Rightarrow> True | d # _ \<Rightarrow> d);
          w1 = w\<lparr>jd_dials := tl (jd_dials w)\<rparr>
      in if \<not> dialled then (Panic, w1)
         else let w2 = w1\<lparr>jd_deletes := jd_deletes w1 @ [req], jd_results := tl (jd_results w1)\<rparr>
           in case jd_results w1 of
                False # _ \<Rightarrow> (Ret (DocResponseWithErr DocError_ErrorConnecting, Some ''call failed''), w2)
              | _ \<Rightarrow> (Ret (DocResponseWithDeleteResp, None), w2))"

text \<open>\<open>client.handleRequest\<close>, with \<open>handleConnectionless\<close> first and then \<open>conn.handleRequest\<close>\<close>

definition jdocs_handleRequest :: "tokener \<Rightarrow> doc_request \<Rightarrow> (jdocs_world, doc_response option \<times> string option) go" where
  "jdocs_handleRequest tokener req = (case req of
      DocRequestWithUser \<Rightarrow> returnM (Some (handleUserRequest tokener), None)
    | DocRequestWithThing \<Rightarrow> bindM (handleThingRequest tokener) (\<lambda>r. returnM (Some r, None))
    | DocRequestWithRead r \<Rightarrow> (\<lambda>w. (Ret (Some (readRequest r), None), w\<lparr>jd_dials := tl (jd_dials w)\<rparr>))
    | DocRequestWithWrite r \<Rightarrow> (\<lambda>w. case writeRequest r (w\<lparr>jd_dials := tl (jd_dials w)\<rparr>) of
        (resp, w') \<Rightarrow> (Ret (Some resp, None), w'))
    | DocRequestWithDeleteReq r \<Rightarrow> bindM (deleteRequest r) (\<lambda>(resp, err). returnM (Some resp, err))
    | DocRequestInvalid \<Rightarrow> (\<lambda>w. (Ret (None, Some ''Major error: received unknown tag 255''), w\<lparr>jd_dials := tl (jd_dials w)\<rparr>)))"

section \<open>The server\<close>

text \<open>The part of \<open>handleConn\<close> between decoding and answering: an error is told to the listener. No panic is recovered.\<close>

definition jdocs_handle :: "tokener \<Rightarrow> bool \<Rightarrow> doc_request \<Rightarrow> (jdocs_world, doc_response option) go" where
  "jdocs_handle tokener listener req w = (case jdocs_handleRequest tokener req w of
      (Ret (resp, err), w') \<Rightarrow> (Ret resp, case err of
          Some e \<Rightarrow> if listener then w'\<lparr>jd_errors := jd_errors w' @ [e]\<rparr> else w' | None \<Rightarrow> w')
    | (_, w') \<Rightarrow> (Crash, w'))"

fun jdocs_handleConn :: "tokener \<Rightarrow> bool \<Rightarrow> byte list option list \<Rightarrow> (jdocs_world \<times> conn, unit) go" where
  "jdocs_handleConn tokener listener [] s = (Ret (), s)"
| "jdocs_handleConn tokener listener (None # bs) s = (Ret (), s)"
| "jdocs_handleConn tokener listener (Some b # bs) (w, c) =
     (if b = [] then (Ret (), (w, c))
      else case Unpack_DocRequest b of
          (Ret msg, _) \<Rightarrow> (case jdocs_handle tokener listener msg w of
              (Ret resp, w') \<Rightarrow> jdocs_handleConn tokener listener bs (w', respond Pack_DocResponse resp c)
            | (_, w') \<Rightarrow> (Crash, (w', c)))
        | (Fail e, _) \<Rightarrow> jdocs_handleConn tokener listener bs (w, c)
        | _ \<Rightarrow> (Crash, (w, c)))"

interpretation jdocsServer: request_server Pack_DocResponse Unpack_DocResponse fits_DocResponse Size_DocResponse 281470699831023
    Unpack_DocRequest "jdocs_handle tokener listener" "jdocs_handleConn tokener listener" for tokener listener
  by unfold_locales (auto simp: reader_DocRequest)

section \<open>What is answered\<close>

text \<open>The answer to each request but a deletion: it does not depend on what was asked before.\<close>

definition doc_answer :: "string \<Rightarrow> string \<Rightarrow> doc_request \<Rightarrow> doc_response list" where
  "doc_answer user thing req = (case req of
      DocRequestWithWrite _ \<Rightarrow>
        [DocResponseWithWrite \<lparr>WriteResponse_Status = WriteStatus_Accepted, WriteResponse_LatestVersion = 0\<rparr>]
    | DocRequestWithRead r \<Rightarrow> [DocResponseWithRead (replicate (length (ReadRequest_Items r))
        \<lparr>ResponseDoc_Status = ReadStatus_NotFound, ResponseDoc_Doc = no_doc\<rparr>)]
    | DocRequestWithUser \<Rightarrow> [DocResponseWithUser user]
    | DocRequestWithThing \<Rightarrow> [DocResponseWithThing thing]
    | _ \<Rightarrow> [])"

definition is_delete :: "doc_request \<Rightarrow> bool" where
  "is_delete req = (case req of DocRequestWithDeleteReq _ \<Rightarrow> True | _ \<Rightarrow> False)"

lemma jdocs_handle_answer:
  assumes "\<not> is_delete q"
  shows "\<exists>resp w'. jdocs_handle (Some (user, thing)) listener q w = (Ret resp, w') \<and>
    (case resp of None \<Rightarrow> [] | Some r \<Rightarrow> [r]) = doc_answer user thing q"
  using assms
  by (cases q) (simp_all add: jdocs_handle_def jdocs_handleRequest_def doc_answer_def is_delete_def handleUserRequest_def
      handleThingRequest_def readRequest_def cladReadReq_toProto_def writeRequest_def returnM_def bindM_def map_replicate_const)

lemma jdocs_responses:
  "\<forall>q \<in> set qs. \<not> is_delete q \<Longrightarrow>
    responses (jdocs_handle (Some (user, thing)) listener) qs w = concat (map (doc_answer user thing) qs)"
proof (induction qs arbitrary: w)
  case (Cons q qs)
  from jdocs_handle_answer [of q user thing listener w] Cons.prems obtain resp w'
    where "jdocs_handle (Some (user, thing)) listener q w = (Ret resp, w')"
      "(case resp of None \<Rightarrow> [] | Some r \<Rightarrow> [r]) = doc_answer user thing q" by auto
  with Cons show ?case by simp
qed simp

text \<open>The requests that end the process.\<close>

lemma jdocs_crashes:
  "jdocs_handle None listener DocRequestWithThing w = (Crash, w)"
  "jd_dials w = False # ds \<Longrightarrow> fst (jdocs_handle tokener listener (DocRequestWithDeleteReq r) w) = Crash"
  by (simp_all add: jdocs_handle_def jdocs_handleRequest_def handleThingRequest_def deleteRequest_def panicM_def bindM_def Let_def)

section \<open>Properties\<close>

text \<open>
  Without deletions the documents' server comes to the end of any connection, having answered
  each request as if it were the only one, each answer being read back as itself up to those too
  long for the wire: every document that is written is accepted, and none is ever found.
\<close>

theorem documents_are_forgotten:
  assumes "conn_faults c = []" "qs = requests Unpack_DocRequest bs" "\<forall>q \<in> set qs. \<not> is_delete q"
  shows "\<exists>w' ds. jdocs_handleConn (Some (user, thing)) listener bs (w, c) = (Ret (), (w', c\<lparr>conn_sent := conn_sent c @ ds\<rparr>)) \<and>
    map Unpack_DocResponse ds = map (\<lambda>r. (Ret r, [])) (filter fits_DocResponse (concat (map (doc_answer user thing) qs)))"
proof -
  have "\<forall>q \<in> set (requests Unpack_DocRequest bs). always_returns (jdocs_handle (Some (user, thing)) listener) q"
    using jdocs_handle_answer assms(2,3) unfolding always_returns_def by blast
  from jdocsServer.answers [OF this assms(1), of w] jdocs_responses [OF assms(3)] assms(2)
  have "jdocs_handleConn (Some (user, thing)) listener bs (w, c) =
      (Ret (), (state_after (jdocs_handle (Some (user, thing)) listener) qs w,
        c\<lparr>conn_sent := conn_sent c @ map docResponse.bytes (filter fits_DocResponse (concat (map (doc_answer user thing) qs)))\<rparr>))"
    by simp
  moreover have "map Unpack_DocResponse (map docResponse.bytes (filter fits_DocResponse rs)) =
      map (\<lambda>r. (Ret r, [])) (filter fits_DocResponse rs)" for rs
    using docResponse.packed(2) [of _ "[]"] by simp
  ultimately show ?thesis by blast
qed

theorem documents_are_forgotten_witness:
  defines "d \<equiv> \<lparr>Doc_DocVersion = 1, Doc_FmtVersion = 1, Doc_Metadata = '''', Doc_JsonDoc = ''x''\<rparr>"
  defines "wr \<equiv> DocRequestWithWrite \<lparr>WriteRequest_Account = ''u'', WriteRequest_Thing = ''t'', WriteRequest_DocName = ''n'',
      WriteRequest_Doc = d\<rparr>"
    and "rd \<equiv> DocRequestWithRead \<lparr>ReadRequest_Account = ''u'', ReadRequest_Thing = ''t'',
      ReadRequest_Items = [\<lparr>ReadItem_DocName = ''n'', ReadItem_MyDocVersion = 0\<rparr>]\<rparr>"
  shows "\<exists>w' ds. jdocs_handleConn (Some (''u'', ''t'')) False [Some (docRequest.bytes wr), Some (docRequest.bytes rd), None]
      (\<lparr>jd_dials = [], jd_results = [], jd_deletes = [], jd_weather = 0, jd_errors = []\<rparr>, \<lparr>conn_sent = [], conn_faults = []\<rparr>) =
      (Ret (), (w', \<lparr>conn_sent = ds, conn_faults = []\<rparr>)) \<and>
    map Unpack_DocResponse ds =
      [(Ret (DocResponseWithWrite \<lparr>WriteResponse_Status = WriteStatus_Accepted, WriteResponse_LatestVersion = 0\<rparr>), []),
       (Ret (DocResponseWithRead [\<lparr>ResponseDoc_Status = ReadStatus_NotFound, ResponseDoc_Doc = no_doc\<rparr>]), [])]"
proof -
  have f: "fits_DocRequest wr" "fits_DocRequest rd"
    by (simp_all add: wr_def rd_def d_def fits_WriteRequest_def fits_ReadRequest_def fits_Doc_def fits_ReadItem_def)
  have "Unpack_DocRequest [] \<noteq> (Ret m, [])" for m by (simp add: Unpack_DocRequest_def read_word_def binary_Read_def bindM_def)
  then have "docRequest.bytes wr \<noteq> []" "docRequest.bytes rd \<noteq> []"
    using docRequest.packed(2) [OF f(1), of "[]"] docRequest.packed(2) [OF f(2), of "[]"] by auto
  then have qs: "[wr, rd] = requests Unpack_DocRequest [Some (docRequest.bytes wr), Some (docRequest.bytes rd), None]"
    using docRequest.packed(2) [OF f(1), of "[]"] docRequest.packed(2) [OF f(2), of "[]"] by simp
  have "\<forall>q \<in> set [wr, rd]. \<not> is_delete q" by (simp add: wr_def rd_def is_delete_def)
  from documents_are_forgotten [OF _ qs this, of "\<lparr>conn_sent = [], conn_faults = []\<rparr>"] show ?thesis
    by (simp add: wr_def rd_def doc_answer_def fits_ReadResponse_def fits_ResponseDoc_def fits_Doc_def no_doc_def)
qed

end
