(* ===== verification/Ipc_Stream.thy ===== *)
theory Ipc_Stream
  imports Go_Bytes
begin

text \<open>
  Messages over a stream socket, \<open>stream.go\<close> and \<open>baseconn.go\<close> of \<open>internal/ipc\<close>: each goes with its
  length in four bytes in front, and a goroutine of the receiver takes them apart again.

  The bytes that have come are a list of segments: one \<open>Read\<close> of the socket returns bytes of the
  first segment only, as many as it has room for.
\<close>

section \<open>The socket\<close>

text \<open>\<open>net.Conn.Read\<close> with room for \<open>k\<close> bytes; no segment is the end of the stream.\<close>

definition net_Read :: "nat \<Rightarrow> byte list list \<Rightarrow> (byte list \<times> byte list list) option" where
  "net_Read k segs = (if k = 0 then Some ([], segs) else case segs of
      [] \<Rightarrow> None
    | s # ss \<Rightarrow> Some (take k s, if length s \<le> k then ss else drop k s # ss))"

text \<open>\<open>io.ReadFull\<close>, which \<open>binary.Read\<close> uses: it reads until it has all.\<close>

fun ReadFull :: "nat \<Rightarrow> byte list list \<Rightarrow> (byte list \<times> byte list list) option" where
  "ReadFull 0 segs = Some ([], segs)"
| "ReadFull (Suc n) [] = None"
| "ReadFull (Suc n) (s # ss) =
     (if Suc n < length s then Some (take (Suc n) s, drop (Suc n) s # ss)
      else case ReadFull (Suc n - length s) ss of None \<Rightarrow> None | Some (b, segs) \<Rightarrow> Some (s @ b, segs))"

section \<open>Streams of messages\<close>

text \<open>\<open>binary.BigEndian\<close> on 32 bits.\<close>

definition be_bytes32 :: "uint32 \<Rightarrow> byte list" where
  "be_bytes32 n = rev (le_bytes 4 n)"

definition be_value32 :: "byte list \<Rightarrow> uint32" where
  "be_value32 b = le_value (rev b)"

lemma be_bytes32_back [simp]: "be_value32 (be_bytes32 n) = n" "length (be_bytes32 n) = 4"
  by (simp_all add: be_value32_def be_bytes32_def)

text \<open>What \<open>streamConn.Write\<close> writes, in two writes.\<close>

definition stream_Write :: "byte list \<Rightarrow> byte list list" where
  "stream_Write b = [be_bytes32 (of_nat (length b)), b]"

text \<open>
  \<open>streamConn.Read\<close> with a buffer of \<open>room\<close> bytes: a message that is longer is only read as far as there is
  room; the rest stays where it is.
\<close>

definition stream_Read :: "nat \<Rightarrow> byte list list \<Rightarrow> (byte list \<times> byte list list) option" where
  "stream_Read room segs = (case ReadFull 4 segs of
      None \<Rightarrow> None
    | Some (h, segs') \<Rightarrow> net_Read (min (unat (be_value32 h)) room) segs')"

lemma ReadFull_length:
  "ReadFull n segs = Some (b, segs') \<Longrightarrow> length b = n \<and> length (concat segs) = n + length (concat segs')"
proof (induction n segs arbitrary: b rule: ReadFull.induct)
  case (3 n s ss)
  show ?case
  proof (cases "Suc n < length s")
    case True
    with 3(2) show ?thesis by auto
  next
    case False
    with 3(2) obtain c where c: "ReadFull (Suc n - length s) ss = Some (c, segs')" "b = s @ c"
      by (auto split: option.splits prod.splits)
    from 3(1) [OF False c(1)] c(2) False show ?thesis by auto
  qed
qed auto

lemma net_Read_length: "net_Read k segs = Some (b, segs') \<Longrightarrow> length (concat segs) = length b + length (concat segs')"
  by (auto simp: net_Read_def split: if_splits list.splits)

lemma stream_Read_shrinks:
  "stream_Read room segs = Some (b, segs') \<Longrightarrow> length (concat segs') < length (concat segs)"
  by (auto simp: stream_Read_def split: option.splits prod.splits dest!: ReadFull_length net_Read_length)

text \<open>
  The goroutine of \<open>newBaseConn\<close>, up to an error of its reads: the messages it passes on; one of no bytes
  is passed over.
\<close>

function received_messages :: "nat \<Rightarrow> byte list list \<Rightarrow> byte list list" where
  "received_messages room segs = (case stream_Read room segs of
      None \<Rightarrow> []
    | Some (b, segs') \<Rightarrow> (if b = [] then [] else [b]) @ received_messages room segs')"
  by auto

termination
  by (relation "measure (\<lambda>(room, segs). length (concat segs))") (auto dest: stream_Read_shrinks simp del: length_concat)

declare received_messages.simps [simp del]

section \<open>Whole messages\<close>

text \<open>
  The network may join what was written, and may cut a length, but here no message: the parts of the
  stream that stay whole are the bytes of the lengths and the messages, and a segment is a group of
  these parts.
\<close>

definition message_parts :: "byte list \<Rightarrow> byte list list" where
  "message_parts m = map (\<lambda>x. [x]) (be_bytes32 (of_nat (length m))) @ (if m = [] then [] else [m])"

definition grouped :: "byte list list list \<Rightarrow> byte list list \<Rightarrow> bool" where
  "grouped gs parts \<longleftrightarrow> concat gs = parts \<and> (\<forall>g \<in> set gs. g \<noteq> []) \<and> (\<forall>p \<in> set parts. p \<noteq> [])"

definition peel :: "byte list list list \<Rightarrow> byte list list list" where
  "peel gs = (case gs of (p # g) # gs' \<Rightarrow> if g = [] then gs' else g # gs' | _ \<Rightarrow> [])"

lemma grouped_peel:
  assumes "grouped gs (p # parts)"
  obtains g gs' where "gs = (p # g) # gs'" "grouped (peel gs) parts" "p \<noteq> []"
proof -
  obtain h gs' where gs: "gs = h # gs'" using assms by (cases gs) (auto simp: grouped_def)
  then obtain q g where h: "h = q # g" using assms by (cases h) (auto simp: grouped_def)
  with gs assms have "q = p" by (simp add: grouped_def)
  with gs h assms that show thesis by (auto simp: grouped_def peel_def)
qed

lemma read_part:
  assumes "grouped gs (p # parts)"
  shows "net_Read (length p) (map concat gs) = Some (p, map concat (peel gs))"
proof -
  obtain g gs' where gs: "gs = (p # g) # gs'" "grouped (peel gs) parts" "p \<noteq> []" using grouped_peel [OF assms] .
  have "concat g \<noteq> []" if "g \<noteq> []"
    using that gs(1) assms by (cases g) (auto simp: grouped_def)
  with gs show ?thesis by (auto simp: net_Read_def peel_def)
qed

lemma read_byte:
  assumes "grouped gs ([x] # parts)"
  shows "ReadFull (Suc n) (map concat gs) =
    (case ReadFull n (map concat (peel gs)) of None \<Rightarrow> None | Some (b, segs) \<Rightarrow> Some (x # b, segs))"
proof -
  obtain g gs' where gs: "gs = ([x] # g) # gs'" "grouped (peel gs) parts" using grouped_peel [OF assms] .
  show ?thesis
  proof (cases "g = []")
    case True
    with gs(1) show ?thesis by (cases n) (simp_all add: peel_def split: option.split)
  next
    case False
    then have "concat g \<noteq> []" using gs(1) assms by (cases g) (auto simp: grouped_def)
    then obtain y ys where c: "concat g = y # ys" by (cases "concat g") auto
    with False gs(1) show ?thesis
      by (cases n) (auto simp: peel_def split: option.split)
  qed
qed

lemma read_bytes:
  "grouped gs (map (\<lambda>x. [x]) xs @ parts) \<Longrightarrow>
   \<exists>gs'. ReadFull (length xs) (map concat gs) = Some (xs, map concat gs') \<and> grouped gs' parts"
proof (induction xs arbitrary: gs)
  case (Cons x xs)
  then have g: "grouped gs ([x] # (map (\<lambda>x. [x]) xs @ parts))" by simp
  then have "grouped (peel gs) (map (\<lambda>x. [x]) xs @ parts)" using grouped_peel by blast
  from Cons.IH [OF this] read_byte [OF g, of "length xs"] show ?case by auto
qed auto

lemma read_message:
  assumes "grouped gs (message_parts m @ parts)" "length m \<le> room" "length m < 2 ^ 32"
  shows "\<exists>gs'. stream_Read room (map concat gs) = Some (m, map concat gs') \<and> grouped gs' parts"
proof -
  let ?h = "be_bytes32 (of_nat (length m))"
  obtain gs1 where r: "ReadFull 4 (map concat gs) = Some (?h, map concat gs1)"
      "grouped gs1 ((if m = [] then [] else [m]) @ parts)"
    using read_bytes [of gs ?h "(if m = [] then [] else [m]) @ parts"] assms(1) by (auto simp: message_parts_def)
  have n: "unat (be_value32 ?h) = length m" using assms(3) by (simp add: unat_of_nat take_bit_nat_eq_self)
  show ?thesis
  proof (cases "m = []")
    case True
    with r n show ?thesis by (auto simp: stream_Read_def net_Read_def)
  next
    case False
    then have g: "grouped gs1 (m # parts)" using r(2) by simp
    then have "grouped (peel gs1) parts" using grouped_peel by blast
    moreover have "stream_Read room (map concat gs) = Some (m, map concat (peel gs1))"
      using r(1) n read_part [OF g] assms(2) by (simp add: stream_Read_def min_absorb1)
    ultimately show ?thesis by blast
  qed
qed

lemma read_messages:
  "grouped gs (concat (map message_parts ms)) \<Longrightarrow> \<forall>m \<in> set ms. length m \<le> room \<and> length m < 2 ^ 32 \<Longrightarrow>
   received_messages room (map concat gs) = filter (\<lambda>m. m \<noteq> []) ms"
proof (induction ms arbitrary: gs)
  case Nil
  then have "gs = []" by (cases gs) (auto simp: grouped_def)
  then show ?case by (simp add: received_messages.simps stream_Read_def numeral_eq_Suc)
next
  case (Cons m ms)
  obtain gs' where "stream_Read room (map concat gs) = Some (m, map concat gs')" "grouped gs' (concat (map message_parts ms))"
    using read_message [of gs m "concat (map message_parts ms)" room] Cons.prems by auto
  with Cons show ?case by (simp add: received_messages.simps [of room "map concat gs"])
qed

section \<open>Properties\<close>

text \<open>
  C24. Messages of at most 32768 bytes that are written to a stream are received in order and
  unchanged, but for those without bytes, however the network joins the writes and cuts the lengths, as
  long as it does not cut a message. It may also pass every write on as it is.
\<close>

theorem stream_messages_arrive:
  assumes "\<forall>m \<in> set ms. length m \<le> 32768"
    and "grouped gs (concat (map message_parts ms))"
  shows "received_messages 32768 (map concat gs) = filter (\<lambda>m. m \<noteq> []) ms \<and>
    concat (map concat gs) = concat (concat (map stream_Write ms))"
proof
  show "received_messages 32768 (map concat gs) = filter (\<lambda>m. m \<noteq> []) ms"
    by (rule read_messages [OF assms(2)]) (use assms(1) in fastforce)
  have "concat (map concat gs) = concat (concat gs)" by (induction gs) auto
  also have "\<dots> = concat (concat (map message_parts ms))" using assms(2) by (simp add: grouped_def)
  also have "\<dots> = concat (concat (map stream_Write ms))"
  proof (induction ms)
    case (Cons m ms)
    have "concat (map (\<lambda>x. [x]) xs) = xs" for xs :: "byte list" by (induction xs) auto
    with Cons show ?case by (simp add: message_parts_def stream_Write_def)
  qed simp
  finally show "concat (map concat gs) = concat (concat (map stream_Write ms))" .
qed

theorem stream_messages_arrive_witness:
  "received_messages 32768 [[0], [0, 0, 2, 7, 8, 0, 0, 0, 1, 9]] = [[7, 8], [9]]"
proof -
  have h: "be_bytes32 2 = [0, 0, 0, 2]" "be_bytes32 1 = [0, 0, 0, 1]" by code_simp+
  let ?gs = "[[[0]], [[0], [0], [2], [7, 8], [0], [0], [0], [1], [9]]] :: byte list list list"
  have "grouped ?gs (concat (map message_parts [[7, 8], [9]]))"
    by (simp add: grouped_def message_parts_def h)
  from stream_messages_arrive [OF _ this] show ?thesis by simp
qed

section \<open>What a cut does\<close>

text \<open>
  When the network cuts a message, or a message is longer than the receiver's buffer, what is left of
  it is taken for the length of the next one: messages are lost and made up.
\<close>

lemma example_lengths:
  "be_value32 [0, 0, 0, 6] = 6" "be_value32 [0, 0, 0, 1] = 1" "be_value32 [0, 0, 2, 5] = 517"
  "be_value32 [0, 0, 0, 0] = 0"
  by code_simp+

lemma ReadFull_4:
  "ReadFull 4 ([a, b, c, d] # ss) = Some ([a, b, c, d], ss)"
  "ReadFull 4 ((a # b # c # d # x # xs) # ss) = Some ([a, b, c, d], (x # xs) # ss)"
  "ReadFull 4 [] = None"
  by (simp_all add: numeral_eq_Suc)

lemma messages_cut:
  "received_messages 32768 [[0, 0, 0, 6], [1, 1], [0, 0, 0, 1, 0, 0, 0, 2, 5, 5]] = [[1, 1], [0], [5]]"
  by (simp add: received_messages.simps stream_Read_def ReadFull_4 example_lengths net_Read_def)

end
