(* ===== verification/Ipc_Routing.thy ===== *)
theory Ipc_Routing
  imports Go_Bytes
begin

text \<open>
  Datagram servers (\<open>dgram.go\<close> of \<open>internal/ipc\<close>), which turn the datagrams of one socket into
  connections of clients, and the routing of messages between named clients (\<open>internal/ipc/multi\<close>).
\<close>

section \<open>The datagram server\<close>

definition connPacket :: "byte list" where
  "connPacket = [65, 78, 75, 73, 67, 79, 78, 78]"     \<comment> \<open>\<open>ANKICONN\<close>\<close>

text \<open>
  The clients by address with the messages put on their channels, and the addresses in the order in
  which they were announced as new clients. The reader waits for each client to take its message.
\<close>

record 'a packet_listener =
  pl_clients :: "'a \<rightharpoonup> byte list list"
  pl_new :: "'a list"

definition no_packets :: "'a packet_listener" where
  "no_packets = \<lparr>pl_clients = (\<lambda>_. None), pl_new = []\<rparr>"

text \<open>One round of the reader: a datagram, read into a buffer of 32768 bytes, and its sender.\<close>

definition packet_step :: "'a \<times> byte list \<Rightarrow> 'a packet_listener \<Rightarrow> 'a packet_listener" where
  "packet_step = (\<lambda>(addr, d) p.
     let buf = take 32768 d; isConnPacket = (length buf = length connPacket \<and> buf = connPacket)
     in case pl_clients p addr of
         Some msgs \<Rightarrow> if isConnPacket then p else p\<lparr>pl_clients := (pl_clients p)(addr \<mapsto> msgs @ [buf])\<rparr>
       | None \<Rightarrow> if isConnPacket then p\<lparr>pl_clients := (pl_clients p)(addr \<mapsto> []), pl_new := pl_new p @ [addr]\<rparr>
           else p)"

text \<open>A client: it writes the handshake and then its messages.\<close>

definition newDatagramClient :: "byte list list \<Rightarrow> byte list list" where
  "newDatagramClient msgs = connPacket # msgs"

text \<open>What a client's datagrams mean by themselves: those after its first handshake, without later ones.\<close>

definition session_of :: "byte list list \<Rightarrow> byte list list option" where
  "session_of ds = (case dropWhile (\<lambda>d. d \<noteq> connPacket) ds of
      [] \<Rightarrow> None | _ # rest \<Rightarrow> Some (filter (\<lambda>d. d \<noteq> connPacket) rest))"

definition from_addr :: "'a \<Rightarrow> ('a \<times> byte list) list \<Rightarrow> byte list list" where
  "from_addr a ds = map (take 32768 \<circ> snd) (filter (\<lambda>d. fst d = a) ds)"

lemma dropWhile_snoc: "dropWhile P (xs @ [x]) = (if dropWhile P xs = [] then (if P x then [] else [x]) else dropWhile P xs @ [x])"
  by (induction xs) auto

lemma session_of_snoc:
  "session_of (ds @ [d]) = (case session_of ds of
      None \<Rightarrow> if d = connPacket then Some [] else None
    | Some ms \<Rightarrow> Some (if d = connPacket then ms else ms @ [d]))"
  by (cases "dropWhile (\<lambda>d. d \<noteq> connPacket) ds") (simp_all add: session_of_def dropWhile_snoc del: dropWhile_eq_Nil_conv)

lemma from_addr_snoc: "from_addr a (ds @ [(b, d)]) = from_addr a ds @ (if b = a then [take 32768 d] else [])"
  by (simp add: from_addr_def)

lemma packet_step_clients:
  "pl_clients (packet_step (b, d) p) = (pl_clients p)(b := (case pl_clients p b of
      None \<Rightarrow> if take 32768 d = connPacket then Some [] else None
    | Some ms \<Rightarrow> Some (if take 32768 d = connPacket then ms else ms @ [take 32768 d])))"
proof -
  have "length (take 32768 d) = length connPacket \<and> take 32768 d = connPacket \<longleftrightarrow> take 32768 d = connPacket"
    by (rule iffI, erule conjunct2, rule conjI, erule arg_cong)
  then show ?thesis unfolding packet_step_def Let_def prod.case
    by (simp only:) (simp add: fun_upd_idem split: option.split)
qed

lemma packet_clients: "pl_clients (fold packet_step ds no_packets) a = session_of (from_addr a ds)"
proof (induction ds rule: rev_induct)
  case Nil
  then show ?case by (simp add: no_packets_def session_of_def from_addr_def)
next
  case (snoc x ds)
  obtain b d where x: "x = (b, d)" by fastforce
  show ?case
  proof (cases "b = a")
    case True
    with snoc show ?thesis unfolding x by (simp add: packet_step_clients from_addr_snoc session_of_snoc)
  next
    case False
    with snoc show ?thesis unfolding x by (simp add: packet_step_clients from_addr_snoc)
  qed
qed

lemma packet_new:
  "distinct (pl_new (fold packet_step ds no_packets)) \<and>
   set (pl_new (fold packet_step ds no_packets)) = dom (pl_clients (fold packet_step ds no_packets))"
proof (induction ds rule: rev_induct)
  case Nil
  then show ?case by (simp add: no_packets_def dom_def)
next
  case (snoc x ds)
  obtain b d where x: "x = (b, d)" by fastforce
  let ?p = "fold packet_step ds no_packets"
  show ?case
    using snoc unfolding x by (auto simp: packet_step_def Let_def dom_def split: option.split)
qed

section \<open>Routing between named clients\<close>

text \<open>Names are bytes. A block is a name, a zero byte, and the message.\<close>

definition getBufferForMessage :: "byte list \<Rightarrow> byte list \<Rightarrow> byte list" where
  "getBufferForMessage dest buf = (dest @ [0]) @ buf"

text \<open>\<open>receiveInternal\<close>: nothing, an error, or the sender and the message.\<close>

datatype parsed_block = Nothing | NoIdentifier | From "byte list" "byte list"

definition receiveInternal :: "byte list option \<Rightarrow> parsed_block" where
  "receiveInternal b = (case b of
      None \<Rightarrow> Nothing
    | Some buf \<Rightarrow> if buf = [] then Nothing
        else (case index_of 0 buf of
            None \<Rightarrow> NoIdentifier
          | Some i \<Rightarrow> if i = 0 then NoIdentifier else From (take i buf) (drop (Suc i) buf)))"

text \<open>
  The server: the clients by name, each with the endpoint it connected from, and what was written to
  each endpoint. A client that connects again under a name takes the name over.
\<close>

record routing =
  rt_clients :: "byte list \<rightharpoonup> nat"
  rt_written :: "nat \<Rightarrow> byte list list"

datatype routing_event =
    Connected nat "byte list"       \<comment> \<open>an endpoint and the name it sent first\<close>
  | Incoming "byte list" "byte list" \<comment> \<open>the name of the sender and its block\<close>

definition no_routes :: routing where
  "no_routes = \<lparr>rt_clients = (\<lambda>_. None), rt_written = (\<lambda>_. [])\<rparr>"

text \<open>\<open>endpointListener\<close> takes the destination off a block; one without a zero byte goes to the empty name, which nobody has.\<close>

definition destination :: "byte list \<Rightarrow> byte list \<times> byte list" where
  "destination buf = (case index_of 0 buf of
      None \<Rightarrow> ([], drop 1 buf) | Some i \<Rightarrow> (take i buf, drop (Suc i) buf))"

definition route :: "routing_event \<Rightarrow> routing \<Rightarrow> routing" where
  "route e r = (case e of
      Connected i name \<Rightarrow> if name = [] then r else r\<lparr>rt_clients := (rt_clients r)(name \<mapsto> i)\<rparr>
    | Incoming src buf \<Rightarrow> (case destination buf of (dest, msg) \<Rightarrow>
        (case rt_clients r dest of
           None \<Rightarrow> r
         | Some i \<Rightarrow> r\<lparr>rt_written := (rt_written r)(i := rt_written r i @ [getBufferForMessage src msg])\<rparr>)))"

text \<open>\<open>clientImpl.Send\<close> of the client \<open>src\<close>, as it reaches the server.\<close>

definition send_to :: "byte list \<times> byte list \<times> byte list \<Rightarrow> routing_event" where
  "send_to = (\<lambda>(src, dest, msg). Incoming src (getBufferForMessage dest msg))"

lemma index_of_name: "0 \<notin> set name \<Longrightarrow> index_of 0 (name @ 0 # msg) = Some (length name)"
  by (induction name) auto

lemma destination_sent [simp]: "0 \<notin> set dest \<Longrightarrow> destination (getBufferForMessage dest msg) = (dest, msg)"
  by (simp add: destination_def getBufferForMessage_def index_of_name)

lemma receive_sent:
  "0 \<notin> set src \<Longrightarrow> src \<noteq> [] \<Longrightarrow> receiveInternal (Some (getBufferForMessage src msg)) = From src msg"
  by (cases "length src") (simp_all add: receiveInternal_def getBufferForMessage_def index_of_name)

definition good_name :: "byte list \<Rightarrow> bool" where
  "good_name n \<longleftrightarrow> n \<noteq> [] \<and> 0 \<notin> set n"

text \<open>The messages among some that are for an endpoint, when the clients are connected as \<open>who\<close> says.\<close>

definition messages_for :: "(byte list \<rightharpoonup> nat) \<Rightarrow> nat \<Rightarrow> (byte list \<times> byte list \<times> byte list) list \<Rightarrow> (byte list \<times> byte list) list" where
  "messages_for who i sends = map (\<lambda>(src, dest, msg). (src, msg)) (filter (\<lambda>(src, dest, msg). who dest = Some i) sends)"

lemma route_send:
  "0 \<notin> set dest \<Longrightarrow> route (send_to (src, dest, msg)) r = (case rt_clients r dest of
      None \<Rightarrow> r
    | Some i \<Rightarrow> r\<lparr>rt_written := (rt_written r)(i := rt_written r i @ [getBufferForMessage src msg])\<rparr>)"
  by (simp add: route_def send_to_def)

lemma route_sends:
  "\<forall>(src, dest, msg) \<in> set sends. good_name dest \<Longrightarrow>
   fold route (map send_to sends) r = r\<lparr>rt_written := (\<lambda>i. rt_written r i @
     map (\<lambda>(src, msg). getBufferForMessage src msg) (messages_for (rt_clients r) i sends))\<rparr>"
proof (induction sends arbitrary: r)
  case (Cons x sends)
  obtain src dest msg where x: "x = (src, dest, msg)" by (cases x)
  with Cons.prems have d: "0 \<notin> set dest" by (simp add: good_name_def)
  have IH: "fold route (map send_to sends) s = s\<lparr>rt_written := (\<lambda>i. rt_written s i @
     map (\<lambda>(src, msg). getBufferForMessage src msg) (messages_for (rt_clients s) i sends))\<rparr>" for s
    by (rule Cons.IH) (use Cons.prems in simp)
  show ?case
  proof (cases "rt_clients r dest")
    case None
    then show ?thesis using IH [of r] d by (simp add: x route_send messages_for_def)
  next
    case (Some j)
    then show ?thesis using IH d by (simp add: x route_send messages_for_def fun_eq_iff)
  qed
qed (simp add: messages_for_def)

section \<open>Properties\<close>

text \<open>
  C25. From the datagrams of all clients, in whatever order they come mixed, each client's connection
  receives just its own, in order, those after its first handshake and without further handshakes;
  what comes before the handshake is dropped. Each client is announced once.
\<close>

theorem datagrams_sorted_by_client:
  "pl_clients (fold packet_step ds no_packets) a = session_of (from_addr a ds) \<and>
   distinct (pl_new (fold packet_step ds no_packets)) \<and>
   (a \<in> set (pl_new (fold packet_step ds no_packets)) \<longleftrightarrow> connPacket \<in> set (from_addr a ds))"
proof -
  have "session_of xs = None \<longleftrightarrow> connPacket \<notin> set xs" for xs
    by (induction xs) (auto simp: session_of_def split: list.splits)
  from this [of "from_addr a ds"] show ?thesis using packet_clients [of ds a] packet_new [of ds] by (auto simp: dom_def)
qed

text \<open>
  C27. A message that one named client sends to another arrives there unchanged and with its sender's
  name, messages between the same clients in order; a message for a name that nobody has is
  dropped. Names must not be empty or contain a zero byte.
\<close>

theorem messages_routed:
  assumes "\<forall>(src, dest, msg) \<in> set sends. good_name src \<and> good_name dest"
  shows "map (receiveInternal \<circ> Some) (rt_written (fold route (map send_to sends) r) i) =
    map (receiveInternal \<circ> Some) (rt_written r i) @
    map (\<lambda>(src, msg). From src msg) (messages_for (rt_clients r) i sends)"
proof -
  have d: "\<forall>(src, dest, msg) \<in> set sends. good_name dest" using assms by auto
  have "map (receiveInternal \<circ> Some) (map (\<lambda>(src, msg). getBufferForMessage src msg) (messages_for (rt_clients r) i sends)) =
      map (\<lambda>(src, msg). From src msg) (messages_for (rt_clients r) i sends)"
    using assms by (auto simp: messages_for_def good_name_def intro!: receive_sent)
  then show ?thesis using route_sends [OF d, of r] by simp
qed

theorem messages_routed_witness:
  "map (receiveInternal \<circ> Some) (rt_written (fold route [Connected 3 [97], Connected 4 [98],
      send_to ([97], [98], [0, 7]), send_to ([97], [99], [5]), send_to ([98], [98], [])] no_routes) 4) =
    [From [97] [0, 7], From [98] []]"
proof -
  let ?r = "fold route [Connected 3 [97], Connected 4 [98]] no_routes"
  let ?s = "[([97], [98], [0, 7]), ([97], [99], [5]), ([98], [98], [])] :: (byte list \<times> byte list \<times> byte list) list"
  have "\<forall>(src, dest, msg) \<in> set ?s. good_name src \<and> good_name dest" by (simp add: good_name_def)
  from messages_routed [OF this, of ?r 4] show ?thesis
    by (simp add: no_routes_def messages_for_def route_def [of "Connected _ _"])
qed

end
