(* ===== verification/Token_Refresh.thy ===== *)
theory Token_Refresh
  imports Token_Service
begin

text \<open>
  Users of the token queue that keep time: the routine that refreshes the robot's token before it
  expires (\<open>refresher.go\<close> of \<open>internal/token\<close>), and the temporary credentials for the storage service
  (\<open>sts.go\<close>, \<open>accessor.go\<close>). Also the check of a client's token against its hash
  (\<open>compare_and_hash.go\<close>). Times are in seconds.
\<close>

section \<open>The refresher\<close>

text \<open>
  The routine between its sleeps: it looks for a token, or it holds one that seems to be issued in the future
  and waits for the clock to be set. It ends when its context is done during a sleep.
\<close>

datatype refresher = LooksForToken | WaitsForClock token_info | Stopped

definition tokSleep :: int where "tokSleep = 5 * 60"
definition ntpSleep :: int where "ntpSleep = 20"

text \<open>With a token, from the test of the clock to the next sleep: the sleep's length comes with the state.\<close>

definition refresh_round :: "parsers \<Rightarrow> string \<Rightarrow> token_info \<Rightarrow> token_world \<Rightarrow> (refresher \<times> int) \<times> token_world" where
  "refresh_round P appKey tok w =
     (case now w of (time, w) \<Rightarrow>
        if time < tk_IssuedAt tok then ((WaitsForClock tok, ntpSleep), w)
        else case now w of (time, w) \<Rightarrow>
          let refreshDuration = RefreshTime tok - time + 10
          in if refreshDuration \<le> 0
             then case queue_handleRequest P appKey (TokenRequestWithJwt False) w of (_, w) \<Rightarrow>
               ((LooksForToken, tokSleep), w)
             else ((LooksForToken, refreshDuration), w))"

text \<open>\<open>refreshRoutine\<close> from one sleep to the next.\<close>

definition refresh_wake :: "parsers \<Rightarrow> string \<Rightarrow> refresher \<Rightarrow> token_world \<Rightarrow> (refresher \<times> int) \<times> token_world" where
  "refresh_wake P appKey r w = (case r of
      LooksForToken \<Rightarrow> (case currentToken (tw_provider w) of
          None \<Rightarrow> ((LooksForToken, tokSleep), w)
        | Some tok \<Rightarrow> refresh_round P appKey tok w)
    | WaitsForClock tok \<Rightarrow> refresh_round P appKey tok w
    | Stopped \<Rightarrow> ((Stopped, 0), w))"

text \<open>
  A run: the sleep is over, the context is done during it, or in the meantime somebody else has a
  request. The sleeps are kept, the newest last.
\<close>

datatype refresh_event = Wake | ContextDone | OtherRequest token_request

record refresh_run =
  rr_state :: refresher
  rr_sleeps :: "int list"
  rr_world :: token_world

definition refresh_step :: "parsers \<Rightarrow> string \<Rightarrow> refresh_event \<Rightarrow> refresh_run \<Rightarrow> refresh_run" where
  "refresh_step P appKey e r = (case e of
      Wake \<Rightarrow> if rr_state r = Stopped then r
        else (case refresh_wake P appKey (rr_state r) (rr_world r) of ((s, d), w) \<Rightarrow>
          \<lparr>rr_state = s, rr_sleeps = rr_sleeps r @ [d], rr_world = w\<rparr>)
    | ContextDone \<Rightarrow> r\<lparr>rr_state := Stopped\<rparr>
    | OtherRequest m \<Rightarrow> r\<lparr>rr_world := snd (queue_handleRequest P appKey m (rr_world r))\<rparr>)"

text \<open>\<open>initRefresher\<close> starts the routine, which looks for a token at once.\<close>

definition initRefresher :: "token_world \<Rightarrow> refresh_run" where
  "initRefresher w = \<lparr>rr_state = LooksForToken, rr_sleeps = [], rr_world = w\<rparr>"

section \<open>Credentials for the storage service\<close>

text \<open>
  The temporary token of the token service and the credentials made from it; \<open>testableTime\<close> is the
  clock. A cache is empty at first.
\<close>

record sts_token =
  sts_AccessKeyId :: string
  sts_SecretAccessKey :: string
  sts_SessionToken :: string
  sts_Expiration :: string

record aws_credentials =
  AccessKeyID :: string
  SecretAccessKey :: string
  SessionToken :: string

record sts_cache =
  sc_expiration :: int
  sc_credentials :: "aws_credentials option"

definition empty_cache :: sts_cache where
  "empty_cache = \<lparr>sc_expiration = 0, sc_credentials = None\<rparr>"

text \<open>
  The remote service as the cache sees it: outcomes as for the queue. An answer may lack the temporary
  token, on which the code panics.
\<close>

datatype sts_outcome =
    StsDialError token_error
  | StsCallError token_error
  | StsBundle "sts_token option"

record sts_world =
  sw_token :: token_world
  sw_cache :: sts_cache      \<comment> \<open>the field of the \<open>accessor\<close>\<close>
  sw_rpcs :: "sts_outcome list"
  sw_calls :: "credentials list"

definition TokenRefreshWindow :: int where "TokenRefreshWindow = 60 * 60"

definition sts_add :: "parsers \<Rightarrow> string \<Rightarrow> aws_credentials \<Rightarrow> sts_cache \<Rightarrow> sts_cache" where
  "sts_add P expiration creds c = (case ParseTime P expiration of
      Inr _ \<Rightarrow> c | Inl t \<Rightarrow> \<lparr>sc_expiration = t, sc_credentials = Some creds\<rparr>)"

definition sts_expired :: "sts_cache \<Rightarrow> token_world \<Rightarrow> bool \<times> token_world" where
  "sts_expired c w = (if sc_credentials c = None then (True, w)
     else case now w of (t, w) \<Rightarrow> (t > sc_expiration c - TokenRefreshWindow, w))"

text \<open>\<open>refreshStsCredentials\<close> over a new connection.\<close>

definition refreshStsCredentials :: "credentials \<Rightarrow> (sts_world, sts_token option + token_error) go" where
  "refreshStsCredentials creds w = (case sw_rpcs w of
      StsDialError e # rs \<Rightarrow> (Ret (Inr e), w\<lparr>sw_rpcs := rs\<rparr>)
    | StsCallError e # rs \<Rightarrow> (Ret (Inr e), w\<lparr>sw_rpcs := rs, sw_calls := sw_calls w @ [creds]\<rparr>)
    | StsBundle t # rs \<Rightarrow> (Ret (Inl t), w\<lparr>sw_rpcs := rs, sw_calls := sw_calls w @ [creds]\<rparr>)
    | [] \<Rightarrow> (Ret (Inr (TokenErr RpcOther ''no answer'')), w\<lparr>sw_calls := sw_calls w @ [creds]\<rparr>))"

definition aws_of :: "sts_token \<Rightarrow> aws_credentials" where
  "aws_of t = \<lparr>AccessKeyID = sts_AccessKeyId t, SecretAccessKey = sts_SecretAccessKey t, SessionToken = sts_SessionToken t\<rparr>"

text \<open>\<open>getStsCredentials\<close> of a cache, which is returned changed.\<close>

definition getStsCredentials ::
  "parsers \<Rightarrow> string \<Rightarrow> sts_cache \<Rightarrow> (sts_world, (aws_credentials + token_error) \<times> sts_cache) go" where
  "getStsCredentials P appKey c w =
     (case sts_expired c (sw_token w) of (expired, tw) \<Rightarrow>
      case (if \<not> expired then sc_credentials c else None) of
        Some creds \<Rightarrow> (Ret (Inl creds, c), w\<lparr>sw_token := tw\<rparr>)
      | None \<Rightarrow> (case Credentials P appKey tw of
            (Inr e, tw) \<Rightarrow> (Ret (Inr e, c), w\<lparr>sw_token := tw\<rparr>)
          | (Inl perRPCCreds, tw) \<Rightarrow> (case refreshStsCredentials perRPCCreds (w\<lparr>sw_token := tw\<rparr>) of
              (Ret (Inr e), w) \<Rightarrow> (Ret (Inr e, c), w)
            | (Ret (Inl None), w) \<Rightarrow> (Panic, w)
            | (Ret (Inl (Some t)), w) \<Rightarrow> (Ret (Inl (aws_of t), sts_add P (sts_Expiration t) (aws_of t) c), w)
            | (_, w) \<Rightarrow> (Panic, w))))"

text \<open>
  The accessor's method has a value for its receiver: it works on a copy of the accessor, and so on a
  copy of its cache, which is dropped when it returns.
\<close>

definition GetStsCredentials :: "parsers \<Rightarrow> string \<Rightarrow> (sts_world, aws_credentials + token_error) go" where
  "GetStsCredentials P appKey w = (case getStsCredentials P appKey (sw_cache w) w of
      (Ret (r, copy), w') \<Rightarrow> (Ret r, w')
    | (_, w') \<Rightarrow> (Panic, w'))"

section \<open>Hashed client tokens\<close>

text \<open>
  \<open>decode\<close> is base64 and \<open>sha\<close> is SHA-256; \<open>runtime\<close> is \<open>PerRuntimeToken\<close>, which nothing in the repository sets, so
  that it is empty.
\<close>

definition newFromHash :: "byte list \<Rightarrow> (byte list \<times> byte list) + string" where
  "newFromHash hashedToken =
     (if length hashedToken > 32 + 16 then Inr ''Hash too long''
      else if length hashedToken < 32 + 16 then Inr ''Hash too short''
      else Inl (take 32 hashedToken, drop 32 hashedToken))"

definition hash_token :: "(byte list \<Rightarrow> byte list) \<Rightarrow> byte list \<Rightarrow> byte list \<Rightarrow> byte list" where
  "hash_token sha tok salt = sha (tok @ salt)"

definition CompareHashAndToken ::
  "(string \<Rightarrow> byte list + string) \<Rightarrow> (byte list \<Rightarrow> byte list) \<Rightarrow> string \<Rightarrow> string \<Rightarrow> string \<Rightarrow> string option" where
  "CompareHashAndToken decode sha runtime hashedToken tok =
     (if runtime = tok then None
      else case decode hashedToken of Inr e \<Rightarrow> Some e
      | Inl hashedBytes \<Rightarrow> (case decode tok of Inr e \<Rightarrow> Some e
        | Inl tokenBytes \<Rightarrow> (case newFromHash hashedBytes of Inr e \<Rightarrow> Some e
          | Inl (h, salt) \<Rightarrow> if h = hash_token sha tokenBytes salt then None else Some ''Hash mismatch'')))"

section \<open>The queue seen from its users\<close>

lemma queue_jwt: "queue_handleRequest P k (TokenRequestWithJwt force) w =
    (case handleJwtRequest P k force w of ((r, e), w') \<Rightarrow> ((Some r, e), w'))"
  by (simp add: queue_handleRequest_def is_jwt_def split: prod.split)

lemma storeToken_ok:
  "parseToken P tok = Inl t \<Longrightarrow> diskFaults (tw_provider w) = [] \<Longrightarrow>
   \<exists>p. storeToken P tok w = (Inl t, w\<lparr>tw_provider := p\<rparr>) \<and> currentToken p = Some t"
  by (simp add: storeToken_def ParseAndStoreToken_def saveToken_def disk_def) (rule exI, rule conjI, rule refl, simp)

text \<open>A token that is due, and an answer of the service: the token is exchanged.\<close>

lemma due_refreshed:
  assumes "currentToken (tw_provider w) = Some t" "tw_clock w = time # ts" "time > RefreshTime t"
    and "tw_rpcs w = Bundle c raw # rs" "parseToken P raw = Inl new" "diskFaults (tw_provider w) = []"
  shows "\<exists>p. queue_handleRequest P k (TokenRequestWithJwt False) w = ((Some (jwtTokenResp (tk_Raw new)), None),
      w\<lparr>tw_clock := ts, tw_calls := tw_calls w @ [(tokenMetadata k (tk_Raw t), RefreshToken)], tw_rpcs := rs, tw_provider := p\<rparr>) \<and>
    currentToken p = Some new"
proof -
  let ?w = "w\<lparr>tw_clock := ts, tw_calls := tw_calls w @ [(tokenMetadata k (tk_Raw t), RefreshToken)], tw_rpcs := rs\<rparr>"
  obtain p where "storeToken P raw ?w = (Inl new, ?w\<lparr>tw_provider := p\<rparr>)" "currentToken p = Some new"
    using storeToken_ok [OF assms(5), of ?w] assms(6) by auto
  with assms(1-4) show ?thesis
    by (auto simp: queue_jwt handleJwtRequest_def now_def getConnection_def invoke_def Let_def)
qed

section \<open>The refresher is in time\<close>

lemma wake_not_due:
  assumes "currentToken (tw_provider w) = Some t" "tw_clock w = t1 # t2 # ts" "tk_IssuedAt t \<le> t1" "t2 < RefreshTime t + 10"
  shows "refresh_wake P k LooksForToken w = ((LooksForToken, RefreshTime t + 10 - t2), w\<lparr>tw_clock := ts\<rparr>)"
  using assms by (simp add: refresh_wake_def refresh_round_def now_def Let_def algebra_simps)

lemma wake_due:
  assumes "currentToken (tw_provider w) = Some t" "tw_clock w = t1 # t2 # ts" "tk_IssuedAt t \<le> t1" "RefreshTime t + 10 \<le> t2"
  shows "refresh_wake P k LooksForToken w =
    ((LooksForToken, tokSleep), snd (queue_handleRequest P k (TokenRequestWithJwt False) (w\<lparr>tw_clock := ts\<rparr>)))"
  using assms by (simp add: refresh_wake_def refresh_round_def now_def Let_def split: prod.split)

lemma storeToken_calls: "storeToken P tok v = (r, v') \<Longrightarrow> tw_calls v' = tw_calls v"
  by (auto simp: storeToken_def split: prod.splits sum.splits)

text \<open>The refresher never asks for a token that the queue would hand out from memory.\<close>

lemma refresher_reaches_service:
  assumes "currentToken (tw_provider w) = Some t" "tw_clock w = t1 # t2 # t3 # ts" "t2 \<le> t3" "tk_IssuedAt t \<le> t1"
    "RefreshTime t + 10 \<le> t2"
  shows "case refresh_wake P k LooksForToken w of (_, w') \<Rightarrow>
    (\<exists>e rs. tw_rpcs w = DialError e # rs \<and> tw_rpcs w' = rs) \<or>
    tw_calls w' = tw_calls w @ [(tokenMetadata k (tk_Raw t), RefreshToken)]"
  using assms by (auto simp: wake_due [OF assms(1,2,4,5)] queue_jwt handleJwtRequest_def now_def getConnection_def invoke_def Let_def
      split: list.split rpc_outcome.split prod.split sum.split dest!: storeToken_calls)

section \<open>The cache of storage credentials\<close>

lemma empty_cache_credentials [simp]: "sc_credentials empty_cache = None"
  by (simp add: empty_cache_def)

lemma refreshSts_called:
  "refreshStsCredentials creds w = (r, w') \<Longrightarrow> sw_cache w' = sw_cache w \<and>
    length (sw_calls w) + (case r of Ret (Inl _) \<Rightarrow> 1 | _ \<Rightarrow> 0) \<le> length (sw_calls w')"
  by (auto simp: refreshStsCredentials_def split: list.splits sts_outcome.splits)

lemma sts_cached:
  "sc_credentials c = Some creds \<Longrightarrow> tw_clock (sw_token w) = t # ts \<Longrightarrow> t \<le> sc_expiration c - TokenRefreshWindow \<Longrightarrow>
   getStsCredentials P k c w = (Ret (Inl creds, c), w\<lparr>sw_token := (sw_token w)\<lparr>tw_clock := ts\<rparr>\<rparr>)"
  by (simp add: getStsCredentials_def sts_expired_def now_def)

lemma GetSts_called:
  assumes "GetStsCredentials P k w = (r, w')" "sw_cache w = empty_cache"
  shows "sw_cache w' = empty_cache \<and>
    length (sw_calls w) + (case r of Ret (Inl _) \<Rightarrow> 1 | _ \<Rightarrow> 0) \<le> length (sw_calls w')"
proof (cases "Credentials P k (sw_token w)")
  case (Pair q tw)
  have g: "GetStsCredentials P k w = (case (case q of Inr e \<Rightarrow> (Ret (Inr e, empty_cache), w\<lparr>sw_token := tw\<rparr>)
      | Inl creds \<Rightarrow> (case refreshStsCredentials creds (w\<lparr>sw_token := tw\<rparr>) of
              (Ret (Inr e), w) \<Rightarrow> (Ret (Inr e, empty_cache), w)
            | (Ret (Inl None), w) \<Rightarrow> (Panic, w)
            | (Ret (Inl (Some t)), w) \<Rightarrow> (Ret (Inl (aws_of t), sts_add P (sts_Expiration t) (aws_of t) empty_cache), w)
            | (_, w) \<Rightarrow> (Panic, w))) of (Ret (r, copy), w') \<Rightarrow> (Ret r, w') | (_, w') \<Rightarrow> (Panic, w'))"
    using Pair assms(2) by (simp add: GetStsCredentials_def getStsCredentials_def sts_expired_def)
  show ?thesis
  proof (cases q)
    case (Inr e)
    with g assms show ?thesis by auto
  next
    case (Inl creds)
    obtain x v where c: "refreshStsCredentials creds (w\<lparr>sw_token := tw\<rparr>) = (x, v)" by (rule prod.exhaust)
    from refreshSts_called [OF c] g assms Inl c show ?thesis
      by (auto split: outcome.splits sum.splits option.splits)
  qed
qed

text \<open>Uses of the accessor one after the other: how many times it gave credentials.\<close>

fun sts_uses :: "parsers \<Rightarrow> string \<Rightarrow> nat \<Rightarrow> sts_world \<Rightarrow> nat \<times> sts_world" where
  "sts_uses P k 0 w = (0, w)"
| "sts_uses P k (Suc n) w = (case GetStsCredentials P k w of
      (r, w') \<Rightarrow> (case sts_uses P k n w' of (m, w'') \<Rightarrow> (m + (case r of Ret (Inl _) \<Rightarrow> 1 | _ \<Rightarrow> 0), w'')))"

section \<open>Hashed tokens\<close>

lemma CompareHashAndToken_iff:
  "CompareHashAndToken decode sha runtime hashed tok = None \<longleftrightarrow>
     runtime = tok \<or> (\<exists>h t. decode hashed = Inl h \<and> length h = 48 \<and> decode tok = Inl t \<and> take 32 h = sha (t @ drop 32 h))"
  by (auto simp: CompareHashAndToken_def newFromHash_def hash_token_def split: sum.split)

text \<open>As long as \<open>PerRuntimeToken\<close> is not set, the empty token is the right one for any hash.\<close>

lemma empty_token_accepted: "CompareHashAndToken decode sha '''' hashed '''' = None"
  by (simp add: CompareHashAndToken_def)

section \<open>Properties\<close>

text \<open>
  C23. A token that is good now is exchanged before it expires: the refresher sleeps until ten seconds
  after the token is due, and then sends a request that the queue passes on to the remote service with the token, whose answer is
  stored; for that the clock must not go back, and the refresher must wake up less than three hours
  late.
\<close>

theorem refreshed_before_expiry:
  assumes "currentToken (tw_provider w) = Some t" "tk_IssuedAt t \<le> t1" "t2 < RefreshTime t + 10"
    and clock: "tw_clock w = t1 # t2 # t3 # t4 # t5 # ts" "sorted [t1, t2, t3, t4, t5]"
    and r: "r = refresh_step P k Wake (initRefresher w)"
    and wakes: "t2 + last (rr_sleeps r) \<le> t3" "t4 < t2 + last (rr_sleeps r) + 3 * 60 * 60 - 10"
    and answer: "tw_rpcs w = Bundle c raw # rs" "parseToken P raw = Inl new" "diskFaults (tw_provider w) = []"
  shows "t4 < tk_ExpiresAt t \<and>
    rr_sleeps (refresh_step P k Wake r) = [RefreshTime t + 10 - t2, tokSleep] \<and>
    currentToken (tw_provider (rr_world (refresh_step P k Wake r))) = Some new \<and>
    tw_calls (rr_world (refresh_step P k Wake r)) = tw_calls w @ [(tokenMetadata k (tk_Raw t), RefreshToken)]"
proof -
  have r': "r = \<lparr>rr_state = LooksForToken, rr_sleeps = [RefreshTime t + 10 - t2], rr_world = w\<lparr>tw_clock := t3 # t4 # t5 # ts\<rparr>\<rparr>"
    using wake_not_due [OF assms(1) clock(1) assms(2,3), of P k] by (simp add: r refresh_step_def initRefresher_def)
  with wakes clock(2) have due: "RefreshTime t + 10 \<le> t4" "RefreshTime t < t5" "tk_IssuedAt t \<le> t3" "t4 < tk_ExpiresAt t"
    using assms(2) by (auto simp: RefreshTime_def)
  obtain p where "snd (queue_handleRequest P k (TokenRequestWithJwt False) (w\<lparr>tw_clock := t5 # ts\<rparr>)) =
      w\<lparr>tw_clock := ts, tw_calls := tw_calls w @ [(tokenMetadata k (tk_Raw t), RefreshToken)], tw_rpcs := rs, tw_provider := p\<rparr>"
      "currentToken p = Some new"
    using due_refreshed [of "w\<lparr>tw_clock := t5 # ts\<rparr>" t t5 ts c raw rs P new k] assms(1) answer due(2) by auto
  with wake_due [of "rr_world r" t t3 t4 "t5 # ts" P k] assms(1) due r' show ?thesis
    by (simp add: refresh_step_def)
qed

text \<open>
  The cache of storage credentials would give them again until an hour before they expire, without a
  call of the remote service; but through the accessor it stays empty, and however often credentials
  are asked for, each time they are given the service was called for them.
\<close>

theorem sts_cache_never_used:
  assumes "sts_uses P k n w = (m, w')" "sw_cache w = empty_cache"
    and "sc_credentials c = Some creds" "tw_clock (sw_token v) = t # ts" "t \<le> sc_expiration c - TokenRefreshWindow"
  shows "sw_cache w' = empty_cache \<and> length (sw_calls w) + m \<le> length (sw_calls w') \<and>
    getStsCredentials P k c v = (Ret (Inl creds, c), v\<lparr>sw_token := (sw_token v)\<lparr>tw_clock := ts\<rparr>\<rparr>)"
proof -
  have "sw_cache w' = empty_cache \<and> length (sw_calls w) + m \<le> length (sw_calls w')"
    using assms(1,2)
  proof (induction n arbitrary: w m w')
    case (Suc n)
    obtain r v where g: "GetStsCredentials P k w = (r, v)" by (rule prod.exhaust)
    obtain l u where u: "sts_uses P k n v = (l, u)" by (rule prod.exhaust)
    from GetSts_called [OF g Suc.prems(2)] Suc.IH [OF u] Suc.prems g u show ?case by auto
  qed simp
  with sts_cached [OF assms(3-5)] show ?thesis by blast
qed

section \<open>Examples\<close>

definition refresh_parsers :: parsers where
  "refresh_parsers = \<lparr>ParseUnverified = \<lambda>s. Inl \<lparr>jwt_Raw = s, jwt_Claims = Some (\<lambda>c. Some (ClaimString c))\<rparr>, ParseTime = \<lambda>s. Inl 90000\<rparr>"

definition day_token :: "string \<Rightarrow> int \<Rightarrow> token_info" where
  "day_token s expires = \<lparr>tk_Id = ''token_id'', tk_Type = ''token_type'', tk_RequestorId = ''requestor_id'', tk_UserId = ''user_id'',
     tk_IssuedAt = (if expires = 90000 then 90000 else 0), tk_ExpiresAt = expires, tk_Raw = s, tk_Permissions = None\<rparr>"

lemma refresh_parses: "parseToken refresh_parsers s = Inl (day_token s 90000)"
  by (simp add: parseToken_def refresh_parsers_def FromJwtToken_def claim_string_def day_token_def)

definition refresh_example :: token_world where
  "refresh_example = \<lparr>tw_provider = \<lparr>currentToken = Some (day_token ''old'' 86400), jwtFile = Some ''old'', tmpFile = None, diskFaults = []\<rparr>,
     tw_cert = None, tw_clock = [3600, 3600, 75615, 75615, 75616], tw_rpcs = [Bundle ''c'' ''new''], tw_calls = [],
     tw_denied = False, tw_backoff = False\<rparr>"

theorem refreshed_before_expiry_witness:
  "rr_sleeps (refresh_step refresh_parsers ''key'' Wake (refresh_step refresh_parsers ''key'' Wake (initRefresher refresh_example))) =
     [72010, 300] \<and>
   currentToken (tw_provider (rr_world (refresh_step refresh_parsers ''key'' Wake
     (refresh_step refresh_parsers ''key'' Wake (initRefresher refresh_example))))) = Some (day_token ''new'' 90000)"
proof -
  let ?r = "refresh_step refresh_parsers ''key'' Wake (initRefresher refresh_example)"
  have s: "rr_sleeps ?r = [72010]"
    by (simp add: refresh_step_def initRefresher_def refresh_wake_def refresh_round_def refresh_example_def now_def RefreshTime_def
        day_token_def)
  show ?thesis
    using refreshed_before_expiry [of refresh_example "day_token ''old'' 86400" 3600 3600 75615 75615 75616 "[]" ?r refresh_parsers
        "''key''" "''c''" "''new''" "[]" "day_token ''new'' 90000"] s
    by (simp add: refresh_parses refresh_example_def day_token_def RefreshTime_def tokSleep_def)
qed

definition sts_example :: sts_world where
  "sts_example = \<lparr>sw_token = refresh_example, sw_cache = empty_cache,
     sw_rpcs = replicate 2 (StsBundle (Some \<lparr>sts_AccessKeyId = ''a'', sts_SecretAccessKey = ''s'', sts_SessionToken = ''t'',
       sts_Expiration = ''x''\<rparr>)), sw_calls = []\<rparr>"

theorem sts_cache_never_used_witness:
  "length (sw_calls (snd (sts_uses refresh_parsers ''key'' 2 sts_example))) = 2 \<and> fst (sts_uses refresh_parsers ''key'' 2 sts_example) = 2"
proof -
  let ?c = "\<lparr>sc_expiration = 90000, sc_credentials = Some \<lparr>AccessKeyID = ''a'', SecretAccessKey = ''s'', SessionToken = ''t''\<rparr>\<rparr>"
  have e: "fst (sts_uses refresh_parsers ''key'' 2 sts_example) = 2" "length (sw_calls (snd (sts_uses refresh_parsers ''key'' 2 sts_example))) \<le> 2"
    by (simp_all add: numeral_2_eq_2 sts_example_def GetStsCredentials_def getStsCredentials_def sts_expired_def empty_cache_def
        Credentials_def queue_jwt handleJwtRequest_def refresh_example_def now_def RefreshTime_def day_token_def jwtTokenResp_def
        TokenError_NoError_def refreshStsCredentials_def)
  obtain w' where w': "sts_uses refresh_parsers ''key'' 2 sts_example = (2, w')" using e(1) by (cases "sts_uses refresh_parsers ''key'' 2 sts_example") simp
  have "sw_cache sts_example = empty_cache" "sw_calls sts_example = []"
    "tw_clock (sw_token sts_example) = [3600, 3600, 75615, 75615, 75616]"
    by (simp_all add: sts_example_def refresh_example_def)
  from sts_cache_never_used [OF w' this(1), of ?c _ sts_example, OF _ this(3)] this(2)
  have "2 \<le> length (sw_calls w')" by (simp add: TokenRefreshWindow_def)
  with e w' show ?thesis by simp
qed

end
