(* ===== verification/Log_Collector.thy ===== *)
theory Log_Collector
  imports Token_Refresh
begin

text \<open>
  The log collector, \<open>internal/logcollector\<close>: the server to which the robot's processes send the names of
  log files, which it uploads to a storage service with credentials of the token service. It is the
  third server that provides \<open>request_server\<close>.
\<close>

section \<open>Uploading\<close>

text \<open>
  The options, the robot's certificate name and the library functions that make up the key of a file:
  base64, the format of the time, and \<open>path.Join\<close> and \<open>path.Base\<close>.
\<close>

record log_options =
  lo_s3BasePrefix :: string
  lo_certCommonName :: string
  lo_base64 :: "string \<Rightarrow> string"
  lo_Format :: "int \<Rightarrow> string"
  lo_Join :: "string list \<Rightarrow> string"
  lo_Base :: "string \<Rightarrow> string"

text \<open>
  The accessor with the token service behind it; whether the next sessions can be made and the next files be opened;
  the outcomes of the next uploads; the uploads so far, with key and file.
\<close>

record log_world =
  lw_sts :: sts_world
  lw_sessions :: "bool list"
  lw_opens :: "bool list"
  lw_results :: "(string + string) list"
  lw_uploads :: "(string \<times> string) list"

text \<open>
  \<open>newLogCollector\<close>: a missing accessor makes it panic; it asks for credentials and makes a session with them.
\<close>

definition newLogCollector :: "parsers \<Rightarrow> string \<Rightarrow> bool \<Rightarrow> (log_world, token_error option) go" where
  "newLogCollector P appKey tokener w =
     (if \<not> tokener then (Panic, w)
      else case GetStsCredentials P appKey (lw_sts w) of
          (Ret (Inl _), s) \<Rightarrow> (case lw_sessions w of
              False # rs \<Rightarrow> (Ret (Some (TokenErr RpcOther ''session'')), w\<lparr>lw_sts := s, lw_sessions := rs\<rparr>)
            | rs \<Rightarrow> (Ret None, w\<lparr>lw_sts := s, lw_sessions := tl rs\<rparr>))
        | (Ret (Inr e), s) \<Rightarrow> (Ret (Some e), w\<lparr>lw_sts := s\<rparr>)
        | (_, s) \<Rightarrow> (Panic, w\<lparr>lw_sts := s\<rparr>))"

definition upload_user :: "log_world \<Rightarrow> string" where
  "upload_user w = (let u = accessor_UserID (sw_token (lw_sts w)) in if u = '''' then ''unknown-user-id'' else u)"

definition upload_key :: "log_options \<Rightarrow> string \<Rightarrow> int \<Rightarrow> string \<Rightarrow> string" where
  "upload_key L user timestamp logFilePath =
     (let s3Prefix = lo_Join L [lo_s3BasePrefix L, user, lo_base64 L (lo_certCommonName L)];
          s3FileName = lo_Format L timestamp @ ''-'' @ lo_Base L logFilePath
      in lo_Join L [s3Prefix, s3FileName])"

definition Upload :: "log_options \<Rightarrow> string \<Rightarrow> log_world \<Rightarrow> (string + token_error) \<times> log_world" where
  "Upload L logFilePath w =
     (case now (sw_token (lw_sts w)) of (timestamp, tw) \<Rightarrow>
        let s3Key = upload_key L (upload_user w) timestamp logFilePath;
            w1 = w\<lparr>lw_sts := (lw_sts w)\<lparr>sw_token := tw\<rparr>\<rparr>
        in case lw_opens w1 of
            False # os \<Rightarrow> (Inr (TokenErr RpcOther ''open''), w1\<lparr>lw_opens := os\<rparr>)
          | os \<Rightarrow> let w2 = w1\<lparr>lw_opens := tl os, lw_uploads := lw_uploads w1 @ [(s3Key, logFilePath)],
                        lw_results := tl (lw_results w1)\<rparr>
              in (case lw_results w1 of
                    Inl location # _ \<Rightarrow> (Inl location, w2)
                  | Inr e # _ \<Rightarrow> (Inr (TokenErr RpcOther e), w2)
                  | [] \<Rightarrow> (Inr (TokenErr RpcOther ''no answer''), w2)))"

definition LogCollectorError_ErrorConnecting :: byte where "LogCollectorError_ErrorConnecting = 0"

definition uploadRequest :: "log_options \<Rightarrow> string \<Rightarrow> log_world \<Rightarrow> (log_collector_response \<times> token_error option) \<times> log_world" where
  "uploadRequest L name w = (case Upload L name w of
      (Inr e, w') \<Rightarrow> ((LogCollectorResponseWithErr LogCollectorError_ErrorConnecting, Some e), w')
    | (Inl url, w') \<Rightarrow> ((LogCollectorResponseWithUpload url, None), w'))"

text \<open>
  \<open>handleRequest\<close> of the client, with that of \<open>cladHandler\<close>: each request makes a collector of its own. The
  error listener is called after the return only, that is, never.
\<close>

definition log_handleRequest ::
  "parsers \<Rightarrow> string \<Rightarrow> log_options \<Rightarrow> bool \<Rightarrow> log_collector_request \<Rightarrow>
     (log_world, log_collector_response option \<times> token_error option) go" where
  "log_handleRequest P appKey L tokener req w = (case newLogCollector P appKey tokener w of
      (Ret (Some e), w') \<Rightarrow> (Ret (Some (LogCollectorResponseWithErr LogCollectorError_ErrorConnecting), Some e), w')
    | (Ret None, w') \<Rightarrow> (case req of
          LogCollectorRequestWithUpload name \<Rightarrow> (case uploadRequest L name w' of ((r, e), w'') \<Rightarrow> (Ret (Some r, e), w''))
        | LogCollectorRequestInvalid \<Rightarrow>
            (Ret (None, Some (TokenErr RpcOther ''Major error: received unknown tag 255'')), w'))
    | (_, w') \<Rightarrow> (Panic, w'))"

text \<open>Errors are only logged, and no panic is recovered.\<close>

definition log_handle ::
  "parsers \<Rightarrow> string \<Rightarrow> log_options \<Rightarrow> bool \<Rightarrow> log_collector_request \<Rightarrow> (log_world, log_collector_response option) go" where
  "log_handle P appKey L tokener req w = (case log_handleRequest P appKey L tokener req w of
      (Ret (resp, _), w') \<Rightarrow> (Ret resp, w')
    | (_, w') \<Rightarrow> (Crash, w'))"

fun log_handleConn :: "parsers \<Rightarrow> string \<Rightarrow> log_options \<Rightarrow> bool \<Rightarrow> byte list option list \<Rightarrow> (log_world \<times> conn, unit) go" where
  "log_handleConn P appKey L tokener [] s = (Ret (), s)"
| "log_handleConn P appKey L tokener (None # bs) s = (Ret (), s)"
| "log_handleConn P appKey L tokener (Some b # bs) (w, c) =
     (if b = [] then (Ret (), (w, c))
      else case Unpack_LogCollectorRequest b of
          (Ret msg, _) \<Rightarrow> (case log_handle P appKey L tokener msg w of
              (Ret resp, w') \<Rightarrow> log_handleConn P appKey L tokener bs (w', respond Pack_LogCollectorResponse resp c)
            | (_, w') \<Rightarrow> (Crash, (w', c)))
        | (Fail e, _) \<Rightarrow> log_handleConn P appKey L tokener bs (w, c)
        | _ \<Rightarrow> (Crash, (w, c)))"

interpretation logServer: request_server Pack_LogCollectorResponse Unpack_LogCollectorResponse fits_LogCollectorResponse
    Size_LogCollectorResponse 65538 Unpack_LogCollectorRequest "log_handle P k L tokener" "log_handleConn P k L tokener"
    for P k L tokener
  by unfold_locales (auto simp: reader_LogCollectorRequest)

section \<open>What an upload takes\<close>

lemma GetSts_uploads: "GetStsCredentials P k w = (Ret (Inl creds), w') \<Longrightarrow> sw_cache w = empty_cache \<Longrightarrow>
    Suc (length (sw_calls w)) \<le> length (sw_calls w')"
  using GetSts_called [of P k w "Ret (Inl creds)" w'] by simp

text \<open>
  An answer with a location: the file was uploaded, under a key with the user, the robot, the time and
  the file's name, and credentials were fetched just for it.
\<close>

lemma uploaded:
  assumes "log_handleRequest P k L True (LogCollectorRequestWithUpload name) w = (Ret (Some (LogCollectorResponseWithUpload url), e), w')"
    and "sw_cache (lw_sts w) = empty_cache"
  shows "e = None \<and> (\<exists>user timestamp. lw_uploads w' = lw_uploads w @ [(upload_key L user timestamp name, name)]) \<and>
    length (sw_calls (lw_sts w)) < length (sw_calls (lw_sts w'))"
proof -
  obtain r s where g: "GetStsCredentials P k (lw_sts w) = (r, s)" by (rule prod.exhaust)
  show ?thesis
  proof (cases "\<exists>creds. r = Ret (Inl creds)")
    case True
    then obtain creds where r: "r = Ret (Inl creds)" by blast
    have "length (sw_calls (lw_sts w)) < length (sw_calls s)" using GetSts_uploads g r assms(2) by fastforce
    with assms(1) g r show ?thesis
      by (auto simp: log_handleRequest_def newLogCollector_def uploadRequest_def Upload_def now_def Let_def
          split: list.splits bool.splits sum.splits) ((rule exI)+, rule refl)+
  next
    case False
    with assms(1) g show ?thesis
      by (cases r) (auto simp: log_handleRequest_def newLogCollector_def split: sum.splits)
  qed
qed

text \<open>Without a token there are no credentials.\<close>

lemma no_token_no_credentials:
  assumes "currentToken (tw_provider (sw_token s)) = None" "sw_cache s = empty_cache"
  shows "\<exists>e. GetStsCredentials P k s = (Ret (Inr e), s)"
  using assms
  by (simp add: GetStsCredentials_def getStsCredentials_def sts_expired_def Credentials_def queue_jwt handleJwtRequest_def
      jwtErrorResp_def token_errors)

lemma no_token_refused:
  assumes "currentToken (tw_provider (sw_token (lw_sts w))) = None" "sw_cache (lw_sts w) = empty_cache"
  shows "log_handle P k L True q w = (Ret (Some (LogCollectorResponseWithErr 0)), w)"
  using no_token_no_credentials [OF assms, of P k]
  by (auto simp: log_handle_def log_handleRequest_def newLogCollector_def LogCollectorError_ErrorConnecting_def)

text \<open>Without an accessor every request ends the process.\<close>

lemma no_accessor_crashes: "log_handle P k L False q w = (Crash, w)"
  by (simp add: log_handle_def log_handleRequest_def newLogCollector_def)

section \<open>Properties\<close>

text \<open>
  As long as the robot has no token the server of the log collector answers every request of a
  connection with an error, uploads nothing and changes nothing: the name for users without a token,
  which the code has for uploads, is never used.
\<close>

theorem uploads_need_a_token:
  assumes "currentToken (tw_provider (sw_token (lw_sts w))) = None" "sw_cache (lw_sts w) = empty_cache" "conn_faults c = []"
  shows "\<exists>ds. log_handleConn P k L True bs (w, c) = (Ret (), (w, c\<lparr>conn_sent := conn_sent c @ ds\<rparr>)) \<and>
    map Unpack_LogCollectorResponse ds =
      map (\<lambda>q. (Ret (LogCollectorResponseWithErr 0), [])) (requests Unpack_LogCollectorRequest bs)"
proof -
  let ?h = "log_handle P k L True" and ?e = "LogCollectorResponseWithErr 0"
  note h = no_token_refused [OF assms(1,2), of P k L]
  have s: "state_after ?h qs w = w" and r: "responses ?h qs w = map (\<lambda>q. ?e) qs" for qs
    by (induction qs) (simp_all add: h)
  let ?ds = "map logResponse.bytes (map (\<lambda>q. ?e) (requests Unpack_LogCollectorRequest bs))"
  have "filter fits_LogCollectorResponse (map (\<lambda>q. ?e) qs) = map (\<lambda>q. ?e) qs" for qs :: "log_collector_request list"
    by (induction qs) simp_all
  then have "log_handleConn P k L True bs (w, c) = (Ret (), (w, c\<lparr>conn_sent := conn_sent c @ ?ds\<rparr>))"
    using logServer.answers_while [of "\<lambda>v. v = w" w bs P k L True c, OF refl _ assms(3)] h s r by simp
  moreover have "map Unpack_LogCollectorResponse ?ds = map (\<lambda>q. (Ret ?e, [])) (requests Unpack_LogCollectorRequest bs)"
    using logResponse.packed(2) [of ?e "[]"] by simp
  ultimately show ?thesis by blast
qed

theorem uploads_need_a_token_witness:
  "fst (log_handleConn refresh_parsers ''key'' \<lparr>lo_s3BasePrefix = [], lo_certCommonName = ''vic'', lo_base64 = \<lambda>s. s, lo_Format = \<lambda>t. ''now'',
      lo_Join = concat, lo_Base = \<lambda>s. s\<rparr> True [Some [0, 1, 0, 97], Some [0], None]
      (\<lparr>lw_sts = \<lparr>sw_token = \<lparr>tw_provider = \<lparr>currentToken = None, jwtFile = None, tmpFile = None, diskFaults = []\<rparr>, tw_cert = None,
          tw_clock = [], tw_rpcs = [], tw_calls = [], tw_denied = False, tw_backoff = False\<rparr>, sw_cache = empty_cache, sw_rpcs = [],
          sw_calls = []\<rparr>, lw_sessions = [], lw_opens = [], lw_results = [], lw_uploads = []\<rparr>, \<lparr>conn_sent = [], conn_faults = []\<rparr>)) = Ret ()"
  (is "fst (log_handleConn _ _ ?L _ ?bs (?w, ?c)) = _")
  using uploads_need_a_token [of ?w ?c refresh_parsers "''key''" ?L ?bs] by auto

end
