(* ===== verification/Ipc_Conn.thy ===== *)
theory Ipc_Conn
  imports Go_Bytes "HOL-Library.Sublist"
begin

text \<open>
  The life of connections and of the servers that accept them: \<open>baseconn.go\<close> and \<open>baseserver.go\<close> of
  \<open>internal/ipc\<close>. A connection has a goroutine that reads its socket and offers each message on a channel
  without room; those who read the connection race with it and with those who close it.
\<close>

section \<open>A connection\<close>

text \<open>
  \<open>bc_socket\<close> holds the results of the next reads of the socket, each with the error's absence; an
  error may come at any time. \<open>bc_offer\<close>: the message that the goroutine offers; \<open>bc_reading\<close>: it runs;
  \<open>bc_killed\<close>: the channel \<open>kill\<close> is closed; \<open>bc_chan_closed\<close>: the channel \<open>read\<close> is; \<open>bc_closers\<close>: how many calls of
  \<open>Close\<close> wait for the goroutine to end. \<open>bc_taken\<close> are the messages that were read from the connection.
\<close>

record base_conn =
  bc_socket :: "byte list list"
  bc_offer :: "byte list option"
  bc_reading :: bool
  bc_killed :: bool
  bc_chan_closed :: bool
  bc_closers :: nat
  bc_taken :: "byte list list"

definition newBaseConn :: "byte list list \<Rightarrow> base_conn" where
  "newBaseConn ms = \<lparr>bc_socket = ms, bc_offer = None, bc_reading = True, bc_killed = False, bc_chan_closed = False,
     bc_closers = 0, bc_taken = []\<rparr>"

text \<open>What a step shows to the users of the connection: a result of \<open>Read\<close> or \<open>ReadBlock\<close>, or that a \<open>Close\<close> panics.\<close>

datatype conn_result = Silent | Got "byte list option" | ClosePanics

text \<open>
  The steps: the goroutine reads a message and offers it, passes over an empty one, or ends with an error;
  it is killed while it offers and goes on. A reader takes the offered message, or nil when the
  connection is killed; \<open>Read\<close> returns no bytes when nothing is offered. \<open>Close\<close> kills the connection and closes its socket,
  and when the goroutine has ended it closes the channel \<open>read\<close>.
\<close>

inductive conn_step :: "base_conn \<Rightarrow> conn_result \<Rightarrow> base_conn \<Rightarrow> bool" where
  offers: "bc_reading s \<Longrightarrow> bc_offer s = None \<Longrightarrow> bc_socket s = m # ms \<Longrightarrow> m \<noteq> [] \<Longrightarrow>
    conn_step s Silent (s\<lparr>bc_socket := ms, bc_offer := Some m\<rparr>)"
| passes_over: "bc_reading s \<Longrightarrow> bc_offer s = None \<Longrightarrow> bc_socket s = [] # ms \<Longrightarrow>
    conn_step s Silent (s\<lparr>bc_socket := ms\<rparr>)"
| read_fails: "bc_reading s \<Longrightarrow> bc_offer s = None \<Longrightarrow>
    conn_step s Silent (s\<lparr>bc_reading := False, bc_killed := True\<rparr>)"
| drops: "bc_offer s = Some m \<Longrightarrow> bc_killed s \<Longrightarrow>
    conn_step s Silent (s\<lparr>bc_offer := None\<rparr>)"
| takes: "bc_offer s = Some m \<Longrightarrow>
    conn_step s (Got (Some m)) (s\<lparr>bc_offer := None, bc_taken := bc_taken s @ [m]\<rparr>)"
| takes_nil: "bc_killed s \<Longrightarrow> conn_step s (Got None) s"
| nothing_there: "bc_offer s = None \<Longrightarrow> \<not> bc_killed s \<Longrightarrow> conn_step s (Got (Some [])) s"
| close_kills: "conn_step s Silent (s\<lparr>bc_killed := True, bc_closers := Suc (bc_closers s)\<rparr>)"
| close_ends: "bc_closers s = Suc n \<Longrightarrow> \<not> bc_reading s \<Longrightarrow> \<not> bc_chan_closed s \<Longrightarrow>
    conn_step s Silent (s\<lparr>bc_closers := n, bc_chan_closed := True\<rparr>)"
| close_panics: "bc_closers s = Suc n \<Longrightarrow> \<not> bc_reading s \<Longrightarrow> bc_chan_closed s \<Longrightarrow>
    conn_step s ClosePanics s"

inductive_cases conn_stepE: "conn_step s r s'"

inductive conn_reaches :: "base_conn \<Rightarrow> base_conn \<Rightarrow> bool" where
  start: "conn_reaches s s"
| further: "conn_reaches s s' \<Longrightarrow> conn_step s' r s'' \<Longrightarrow> conn_reaches s s''"

text \<open>\<open>Write\<close>: refused once the connection is killed, otherwise the socket's.\<close>

definition baseConn_Write :: "base_conn \<Rightarrow> byte list \<Rightarrow> (byte list \<Rightarrow> nat + string) \<Rightarrow> nat + string" where
  "baseConn_Write s b conn_Write = (if bc_killed s then Inr ''connection has been closed'' else conn_Write b)"

text \<open>The messages of a socket that count.\<close>

definition solid :: "byte list list \<Rightarrow> byte list list" where
  "solid ms = filter (\<lambda>m. m \<noteq> []) ms"

text \<open>
  The invariant: the messages taken, the one that is offered and those to come make up what the socket had, up to
  losses once the connection is killed; a goroutine that has ended offers nothing, and a connection is
  killed before anything of it is closed.
\<close>

definition conn_inv :: "byte list list \<Rightarrow> base_conn \<Rightarrow> bool" where
  "conn_inv ms s \<longleftrightarrow>
     (let all = bc_taken s @ (case bc_offer s of None \<Rightarrow> [] | Some m \<Rightarrow> [m]) @ solid (bc_socket s)
      in subseq all (solid ms) \<and> (bc_killed s \<or> all = solid ms)) \<and>
     (bc_reading s \<or> bc_offer s = None \<and> bc_killed s) \<and>
     (bc_chan_closed s \<or> 0 < bc_closers s \<longrightarrow> bc_killed s) \<and> (bc_chan_closed s \<longrightarrow> \<not> bc_reading s)"

lemma conn_inv_start: "conn_inv ms (newBaseConn ms)"
  by (simp add: conn_inv_def newBaseConn_def)

lemma conn_inv_step: "conn_step s r s' \<Longrightarrow> conn_inv ms s \<Longrightarrow> conn_inv ms s'"
proof (induction rule: conn_step.induct)
  case (drops s m)
  have "subseq (bc_taken s @ solid (bc_socket s)) (bc_taken s @ m # solid (bc_socket s))"
    by (intro list_emb_append_mono subseq_order.order_refl list_emb_Cons)
  with drops show ?case unfolding conn_inv_def Let_def by (auto intro: subseq_order.order_trans)
qed (auto simp: conn_inv_def solid_def Let_def split: option.splits)

lemma conn_reaches_inv: "conn_reaches s s' \<Longrightarrow> conn_inv ms s \<Longrightarrow> conn_inv ms s'"
  by (induction rule: conn_reaches.induct) (auto intro: conn_inv_step)

section \<open>A server\<close>

text \<open>
  The connections are numbered as they are accepted. \<open>sv_conns\<close> are those the server keeps, \<open>sv_pending\<close> those
  whose goroutine waits to hand them over, \<open>sv_handed\<close> those that were; \<open>sv_closed\<close> those whose \<open>Close\<close> was called: a
  second call panics, as it does for a connection by itself.
\<close>

record base_server =
  sv_open :: bool
  sv_conns :: "nat list"
  sv_pending :: "nat list"
  sv_handed :: "nat list"
  sv_closed :: "nat list"
  sv_next :: nat

definition newBaseServer :: base_server where
  "newBaseServer = \<lparr>sv_open = True, sv_conns = [], sv_pending = [], sv_handed = [], sv_closed = [], sv_next = 0\<rparr>"

definition conn_Close :: "nat \<Rightarrow> (base_server, unit) go" where
  "conn_Close c s = (if c \<in> set (sv_closed s) then (Panic, s) else (Ret (), s\<lparr>sv_closed := sv_closed s @ [c]\<rparr>))"

text \<open>\<open>remove\<close> takes out the first such connection.\<close>

definition server_remove :: "nat \<Rightarrow> base_server \<Rightarrow> base_server" where
  "server_remove c s = s\<lparr>sv_conns := remove1 c (sv_conns s)\<rparr>"

definition serverConn_Close :: "nat \<Rightarrow> (base_server, unit) go" where
  "serverConn_Close c s = conn_Close c (server_remove c s)"

fun close_all :: "nat list \<Rightarrow> (base_server, unit) go" where
  "close_all [] = returnM ()"
| "close_all (c # cs) = bindM (conn_Close c) (\<lambda>_. close_all cs)"

text \<open>\<open>Close\<close>: the goroutines that wait to hand a connection over end; closing \<open>kill\<close> again panics.\<close>

definition baseServer_Close :: "(base_server, unit) go" where
  "baseServer_Close s = (if \<not> sv_open s then (Panic, s)
     else close_all (sv_conns s) (s\<lparr>sv_open := False, sv_pending := []\<rparr>))"

datatype server_event =
    Accepted           \<comment> \<open>the listener accepts a connection\<close>
  | HandedOver nat     \<comment> \<open>a user takes a connection from the channel of new ones\<close>
  | ConnClosed nat     \<comment> \<open>a user closes a connection\<close>
  | ServerClosed

definition server_event :: "server_event \<Rightarrow> (base_server, unit) go" where
  "server_event e s = (case e of
      Accepted \<Rightarrow> (Ret (), if sv_open s then s\<lparr>sv_conns := sv_conns s @ [sv_next s], sv_pending := sv_pending s @ [sv_next s],
          sv_next := Suc (sv_next s)\<rparr> else s)
    | HandedOver c \<Rightarrow> (Ret (), if c \<in> set (sv_pending s)
          then s\<lparr>sv_pending := remove1 c (sv_pending s), sv_handed := sv_handed s @ [c]\<rparr> else s)
    | ConnClosed c \<Rightarrow> if c \<in> set (sv_handed s) then serverConn_Close c s else (Ret (), s)
    | ServerClosed \<Rightarrow> baseServer_Close s)"

fun server_run :: "server_event list \<Rightarrow> (base_server, unit) go" where
  "server_run [] = returnM ()"
| "server_run (e # es) = bindM (server_event e) (\<lambda>_. server_run es)"

lemma server_run_snoc: "server_run (es @ [e]) = bindM (server_run es) (\<lambda>_. server_event e)"
  by (induction es) (auto simp: bindM_def returnM_def fun_eq_iff split: outcome.split prod.split)

text \<open>An open server keeps just the connections that were accepted and not closed.\<close>

definition server_inv :: "base_server \<Rightarrow> bool" where
  "server_inv s \<longleftrightarrow> sv_open s \<and> distinct (sv_conns s) \<and> distinct (sv_closed s) \<and>
     set (sv_conns s) \<inter> set (sv_closed s) = {} \<and> set (sv_conns s) \<union> set (sv_closed s) = {..<sv_next s} \<and>
     set (sv_pending s) \<union> set (sv_handed s) \<subseteq> {..<sv_next s}"

lemma close_all_ok:
  "distinct cs \<Longrightarrow> set cs \<inter> set (sv_closed s) = {} \<Longrightarrow> close_all cs s = (Ret (), s\<lparr>sv_closed := sv_closed s @ cs\<rparr>)"
proof (induction cs arbitrary: s)
  case (Cons c cs)
  then show ?case using Cons.IH [of "s\<lparr>sv_closed := sv_closed s @ [c]\<rparr>"] by (simp add: bindM_def conn_Close_def)
qed (simp add: returnM_def)

lemma closed_at_end:
  assumes "server_inv s"
  shows "\<exists>s'. server_event ServerClosed s = (Ret (), s') \<and> distinct (sv_closed s') \<and> set (sv_closed s') = {..<sv_next s} \<and>
    sv_handed s' = sv_handed s \<and> \<not> sv_open s'"
  using assms close_all_ok [of "sv_conns s" "s\<lparr>sv_open := False, sv_pending := []\<rparr>"]
  by (auto simp: server_event_def baseServer_Close_def server_inv_def)

lemma server_inv_event:
  assumes "server_inv s" "e \<noteq> ServerClosed" "\<And>c. e = ConnClosed c \<Longrightarrow> c \<notin> set (sv_closed s)"
  shows "\<exists>s'. server_event e s = (Ret (), s') \<and> server_inv s' \<and>
    set (sv_closed s') \<subseteq> set (sv_closed s) \<union> (case e of ConnClosed c \<Rightarrow> {c} | _ \<Rightarrow> {})"
proof (cases e)
  case Accepted
  with assms(1) show ?thesis by (auto simp: server_event_def server_inv_def lessThan_Suc)
next
  case (HandedOver c)
  with assms(1) show ?thesis by (auto simp: server_event_def server_inv_def dest: notin_set_remove1)
next
  case (ConnClosed c)
  with assms(1,3) show ?thesis
    by (auto simp: server_event_def server_inv_def serverConn_Close_def server_remove_def conn_Close_def)
qed (use assms(2) in simp)

definition closings :: "server_event list \<Rightarrow> nat list" where
  "closings es = List.map_filter (\<lambda>e. case e of ConnClosed c \<Rightarrow> Some c | _ \<Rightarrow> None) es"


lemma closings_simps [simp]:
  "closings [] = []"
  "closings (e # es) = (case e of ConnClosed c \<Rightarrow> c # closings es | _ \<Rightarrow> closings es)"
  by (simp_all add: closings_def map_filter_def split: server_event.split)

lemma closings_append [simp]: "closings (es @ fs) = closings es @ closings fs"
  by (induction es) (simp_all split: server_event.split)

lemma server_run_inv:
  "ServerClosed \<notin> set es \<Longrightarrow> distinct (closings es) \<Longrightarrow>
   \<exists>s. server_run es newBaseServer = (Ret (), s) \<and> server_inv s \<and> set (sv_closed s) \<subseteq> set (closings es)"
proof (induction es rule: rev_induct)
  case Nil
  then show ?case by (simp add: returnM_def newBaseServer_def server_inv_def)
next
  case (snoc e es)
  then obtain s where s: "server_run es newBaseServer = (Ret (), s)" "server_inv s" "set (sv_closed s) \<subseteq> set (closings es)"
    by auto
  have "e \<noteq> ServerClosed" "\<And>c. e = ConnClosed c \<Longrightarrow> c \<notin> set (sv_closed s)" using snoc.prems s(3) by auto
  from server_inv_event [OF s(2) this] s snoc.prems(1) show ?case
    by (auto simp: server_run_snoc bindM_def split: server_event.splits)
qed

section \<open>Properties\<close>

text \<open>
  C11. Whatever the goroutine, the readers and those who close a connection do, and in whatever order:
  what is read from it are messages of the socket in their order, each once and none without bytes, and
  none is left out before the connection is killed, be it closed or its socket failed. When a call of \<open>Close\<close> has
  returned, all reads return nil, writes are refused, and another call of \<open>Close\<close> panics when it comes to its end.
\<close>

theorem connection_reads_in_order:
  assumes "conn_reaches (newBaseConn ms) s"
  shows "subseq (bc_taken s) (solid ms) \<and> (bc_killed s \<or> prefix (bc_taken s) (solid ms)) \<and>
    (if bc_chan_closed s then (\<forall>r s'. \<not> conn_step s (Got (Some r)) s') \<and> (\<exists>e. baseConn_Write s b socket = Inr e) \<and>
       (\<exists>s'. conn_step s Silent s' \<and> conn_step s' ClosePanics s')
     else \<forall>s'. \<not> conn_step s ClosePanics s')"
proof -
  have inv: "conn_inv ms s" by (rule conn_reaches_inv [OF assms conn_inv_start])
  have all: "subseq (bc_taken s @ (case bc_offer s of None \<Rightarrow> [] | Some m \<Rightarrow> [m]) @ solid (bc_socket s)) (solid ms)"
    using inv by (simp add: conn_inv_def Let_def)
  have "subseq (bc_taken s) (solid ms)" by (rule subseq_order.order_trans [OF _ all], rule prefix_imp_subseq) simp
  moreover have "bc_killed s \<or> prefix (bc_taken s) (solid ms)"
    using inv by (auto simp: conn_inv_def Let_def prefix_def dest: sym)
  moreover have "(\<forall>r s'. \<not> conn_step s (Got (Some r)) s') \<and> (\<exists>e. baseConn_Write s b socket = Inr e) \<and>
      (\<exists>s'. conn_step s Silent s' \<and> conn_step s' ClosePanics s')" if "bc_chan_closed s"
  proof (intro conjI)
    have s: "bc_offer s = None" "bc_killed s" "\<not> bc_reading s" using inv that by (auto simp: conn_inv_def)
    then show "\<forall>r s'. \<not> conn_step s (Got (Some r)) s'" "\<exists>e. baseConn_Write s b socket = Inr e"
      by (auto elim: conn_stepE simp: baseConn_Write_def)
    show "\<exists>s'. conn_step s Silent s' \<and> conn_step s' ClosePanics s'"
      using close_kills [of s] close_panics [of "s\<lparr>bc_killed := True, bc_closers := Suc (bc_closers s)\<rparr>" "bc_closers s"] s(3) that
      by auto
  qed
  moreover have "\<forall>s'. \<not> conn_step s ClosePanics s'" if "\<not> bc_chan_closed s"
    using that by (auto elim: conn_stepE)
  ultimately show ?thesis by simp
qed



text \<open>One message is read; the second is dropped when the connection is closed while it is offered.\<close>

theorem connection_reads_in_order_witness:
  "\<exists>s. conn_reaches (newBaseConn [[1], [], [2], [3]]) s \<and> bc_taken s = [[1], [3]] \<and> subseq (bc_taken s) [[1], [2], [3]]"
proof -
  let ?c = "\<lambda>ms off k taken. \<lparr>bc_socket = ms, bc_offer = off, bc_reading = True, bc_killed = k, bc_chan_closed = False,
    bc_closers = (if k then 1 else 0), bc_taken = taken\<rparr>"
  have s1: "conn_step (?c [[1], [], [2], [3]] None False []) Silent (?c [[], [2], [3]] (Some [1]) False [])"
    using offers [of "?c [[1], [], [2], [3]] None False []" "[1]"] by simp
  have s2: "conn_step (?c [[], [2], [3]] (Some [1]) False []) (Got (Some [1])) (?c [[], [2], [3]] None False [[1]])"
    using takes [of "?c [[], [2], [3]] (Some [1]) False []"] by simp
  have s3: "conn_step (?c [[], [2], [3]] None False [[1]]) Silent (?c [[2], [3]] None False [[1]])"
    using passes_over [of "?c [[], [2], [3]] None False [[1]]"] by simp
  have s4: "conn_step (?c [[2], [3]] None False [[1]]) Silent (?c [[3]] (Some [2]) False [[1]])"
    using offers [of "?c [[2], [3]] None False [[1]]" "[2]"] by simp
  have s5: "conn_step (?c [[3]] (Some [2]) False [[1]]) Silent (?c [[3]] (Some [2]) True [[1]])"
    using close_kills [of "?c [[3]] (Some [2]) False [[1]]"] by simp
  have s6: "conn_step (?c [[3]] (Some [2]) True [[1]]) Silent (?c [[3]] None True [[1]])"
    using drops [of "?c [[3]] (Some [2]) True [[1]]"] by simp
  have s7: "conn_step (?c [[3]] None True [[1]]) Silent (?c [] (Some [3]) True [[1]])"
    using offers [of "?c [[3]] None True [[1]]" "[3]"] by simp
  have s8: "conn_step (?c [] (Some [3]) True [[1]]) (Got (Some [3])) (?c [] None True [[1], [3]])"
    using takes [of "?c [] (Some [3]) True [[1]]"] by simp
  have n: "newBaseConn [[1], [], [2], [3]] = ?c [[1], [], [2], [3]] None False []" by (simp add: newBaseConn_def)
  have "conn_reaches (?c [[1], [], [2], [3]] None False []) (?c [[3]] (Some [2]) False [[1]])"
    by (rule further [OF further [OF further [OF further [OF start s1] s2] s3] s4])
  then have "conn_reaches (?c [[1], [], [2], [3]] None False []) (?c [] None True [[1], [3]])"
    by (rule further [OF further [OF further [OF further [OF _ s5] s6] s7] s8])
  then have r: "conn_reaches (newBaseConn [[1], [], [2], [3]]) (?c [] None True [[1], [3]])" unfolding n .
  from connection_reads_in_order [OF r, of "[]" "\<lambda>_. Inl 0"] have "subseq [[1], [3]] [[1], [2], [3 :: byte]]" by (simp add: solid_def)
  with r show ?thesis by (intro exI [of _ "?c [] None True [[1], [3]]"]) simp
qed


end
