(* ===== verification/Clad_Unions.thy ===== *)
theory Clad_Unions
  imports Clad_Codec
begin

text \<open>
  How the generated CLAD code keeps a union: a pointer to a tag, and a value whose type is only known
  when the program runs. Everywhere else a union is a datatype. Here is what the generated code does with the pair,
  generically, and the locale \<open>tagged_union\<close>, which says when a datatype stands for it; each
  union provides it in the theories that follow.
\<close>

section \<open>Tag and value\<close>

text \<open>Both are nil in the zero value. A value that is not nil is taken to point to something.\<close>

record 'v tagged =
  u_tag :: "byte option"
  u_value :: "'v option"

definition nil_union :: "'v tagged" where
  "nil_union = \<lparr>u_tag = None, u_value = None\<rparr>"

text \<open>\<open>SetX\<close>, \<open>NewUnionWithX\<close> and \<open>GetX\<close>, whose type assertion panics on a value of another type: \<open>proj\<close>.\<close>

definition union_set :: "byte \<Rightarrow> 'v \<Rightarrow> 'v tagged \<Rightarrow> 'v tagged" where
  "union_set t v m = m\<lparr>u_tag := Some t, u_value := Some v\<rparr>"

definition union_new :: "byte \<Rightarrow> 'v \<Rightarrow> 'v tagged" where
  "union_new t v = union_set t v nil_union"

definition union_get :: "byte \<Rightarrow> ('v \<Rightarrow> 'a option) \<Rightarrow> 'v tagged \<Rightarrow> 'a option outcome" where
  "union_get t proj m = (if u_tag m \<noteq> Some t then Ret None
     else case Option.bind (u_value m) proj of None \<Rightarrow> Panic | Some x \<Rightarrow> Ret (Some x))"

definition union_Tag :: "'v tagged \<Rightarrow> byte" where
  "union_Tag m = (case u_tag m of None \<Rightarrow> 255 | Some t \<Rightarrow> t)"

definition union_Size :: "('v \<Rightarrow> uint32) \<Rightarrow> 'v tagged \<Rightarrow> uint32 outcome" where
  "union_Size size_value m = (if union_Tag m = 255 then Ret 1
     else case u_value m of None \<Rightarrow> Panic | Some v \<Rightarrow> Ret (1 + size_value v))"

definition union_Pack :: "('v \<Rightarrow> writer) \<Rightarrow> 'v tagged \<Rightarrow> writer" where
  "union_Pack pack_value m = bindM (write_word (union_Tag m)) (\<lambda>_.
     if union_Tag m = 255 then returnM ()
     else case u_value m of None \<Rightarrow> panicM | Some v \<Rightarrow> pack_value v)"

text \<open>
  \<open>Unpack\<close> into a union: what it returns, the union after it, and the rest of the buffer. When the structure cannot be
  read the tag says that nothing is there, and the value is the old one.
\<close>

definition union_Unpack :: "(byte \<Rightarrow> 'v reader) \<Rightarrow> 'v tagged \<Rightarrow> byte list \<Rightarrow> unit outcome \<times> 'v tagged \<times> byte list" where
  "union_Unpack unpack_value m buf = (case read_word buf of
      (Ret tag, buf') \<Rightarrow>
        if tag = 255 then (Ret (), \<lparr>u_tag = Some tag, u_value = None\<rparr>, buf')
        else (case unpack_value tag buf' of
            (Ret v, rest) \<Rightarrow> (Ret (), \<lparr>u_tag = Some tag, u_value = Some v\<rparr>, rest)
          | (Fail e, rest) \<Rightarrow> (Fail e, m\<lparr>u_tag := Some 255\<rparr>, rest)
          | (_, rest) \<Rightarrow> (Panic, m\<lparr>u_tag := Some tag\<rparr>, rest))
    | (Fail e, buf') \<Rightarrow> (Fail e, m, buf')
    | (_, buf') \<Rightarrow> (Panic, m, buf'))"

section \<open>The datatype that a union stands for\<close>

lemma bind_if: "bindM (if b then m else m') k = (if b then bindM m k else bindM m' k)"
  by simp

text \<open>\<open>con t v\<close>: the message with the tag \<open>t\<close> and the value \<open>v\<close>, if the value's type is that of the tag.\<close>

definition union_abs :: "(byte \<Rightarrow> 'v \<Rightarrow> 'm option) \<Rightarrow> 'm \<Rightarrow> 'v tagged \<Rightarrow> 'm option" where
  "union_abs con invalid m = (if union_Tag m = 255 then Some invalid else Option.bind (u_value m) (con (union_Tag m)))"

text \<open>The unions that come about by the operations on them.\<close>

inductive union_made :: "(byte \<Rightarrow> 'v \<Rightarrow> 'm option) \<Rightarrow> (byte \<Rightarrow> 'v reader) \<Rightarrow> 'v tagged \<Rightarrow> bool"
  for con :: "byte \<Rightarrow> 'v \<Rightarrow> 'm option" and unpack_value :: "byte \<Rightarrow> 'v reader" where
  made_nil: "union_made con unpack_value nil_union"
| made_set: "union_made con unpack_value m \<Longrightarrow> con t v = Some a \<Longrightarrow> union_made con unpack_value (union_set t v m)"
| made_read: "union_made con unpack_value m \<Longrightarrow> union_Unpack unpack_value m buf = (r, m', rest) \<Longrightarrow> union_made con unpack_value m'"

text \<open>
  What is wanted of a union: in each that comes about the value has the type of the tag, and it
  stands for a message; its tag, its size and the bytes it is written as are those of the message, and reading
  bytes into it gives what reading a message from them gives.
\<close>

definition union_safe ::
  "(byte \<Rightarrow> 'v \<Rightarrow> 'm option) \<Rightarrow> 'm \<Rightarrow> ('m \<Rightarrow> byte) \<Rightarrow> ('v \<Rightarrow> writer) \<Rightarrow> ('v \<Rightarrow> uint32) \<Rightarrow> (byte \<Rightarrow> 'v reader) \<Rightarrow>
   ('m \<Rightarrow> writer) \<Rightarrow> 'm reader \<Rightarrow> ('m \<Rightarrow> uint32) \<Rightarrow> bool" where
  "union_safe con invalid tag_of pack_value size_value unpack_value Pack Unpack Size \<longleftrightarrow>
     (\<forall>m. union_made con unpack_value m \<longrightarrow>
       (\<exists>a. union_abs con invalid m = Some a \<and> union_Tag m = tag_of a \<and> union_Size size_value m = Ret (Size a) \<and>
         union_Pack pack_value m = Pack a) \<and>
       (\<forall>buf. case union_Unpack unpack_value m buf of
           (Ret _, m', rest) \<Rightarrow> (\<exists>a. Unpack buf = (Ret a, rest) \<and> union_abs con invalid m' = Some a)
         | (Fail e, m', rest) \<Rightarrow> Unpack buf = (Fail e, rest) \<and> (m' = m \<or> union_abs con invalid m' = Some invalid)
         | _ \<Rightarrow> False))"

text \<open>No getter panics on a union that comes about; \<open>panics\<close>: does one?\<close>

definition getters_safe :: "(byte \<Rightarrow> 'v \<Rightarrow> 'm option) \<Rightarrow> (byte \<Rightarrow> 'v reader) \<Rightarrow> ('v tagged \<Rightarrow> bool) \<Rightarrow> bool" where
  "getters_safe con unpack_value panics \<longleftrightarrow> (\<forall>m. union_made con unpack_value m \<longrightarrow> \<not> panics m)"

locale tagged_union =
  fixes con :: "byte \<Rightarrow> 'v \<Rightarrow> 'm option" and invalid :: 'm and tag_of :: "'m \<Rightarrow> byte" and value_of :: "'m \<Rightarrow> 'v option"
    and pack_value :: "'v \<Rightarrow> writer" and size_value :: "'v \<Rightarrow> uint32" and unpack_value :: "byte \<Rightarrow> 'v reader"
    and Pack :: "'m \<Rightarrow> writer" and Unpack :: "'m reader" and Size :: "'m \<Rightarrow> uint32"
  assumes con_iff: "con t v = Some a \<longleftrightarrow> tag_of a = t \<and> value_of a = Some v"
    and invalid: "tag_of a = 255 \<longleftrightarrow> a = invalid" "value_of a = None \<longleftrightarrow> a = invalid"
    and packs: "Pack a = bindM (write_word (tag_of a)) (\<lambda>_. case value_of a of None \<Rightarrow> returnM () | Some v \<Rightarrow> pack_value v)"
    and sizes: "Size a = (case value_of a of None \<Rightarrow> 1 | Some v \<Rightarrow> 1 + size_value v)"
    and unpacks: "Unpack = bindM read_word (\<lambda>tag. if tag = 255 then returnM invalid
      else bindM (unpack_value tag) (\<lambda>v. case con tag v of None \<Rightarrow> panicM | Some a \<Rightarrow> returnM a))"
    and unpack_reader: "reader Unpack"
begin

lemma abs_nil: "union_abs con invalid nil_union = Some invalid"
  by (simp add: union_abs_def union_Tag_def nil_union_def)

lemma abs_set:
  assumes "con t v = Some a"
  shows "union_abs con invalid (union_set t v m) = Some a"
proof -
  from assms have "tag_of a = t" "value_of a = Some v" by (simp_all add: con_iff)
  then have "t \<noteq> 255" using invalid [of a] by auto
  with assms show ?thesis by (simp add: union_abs_def union_Tag_def union_set_def)
qed

lemma abs_new: "con t v = Some a \<Longrightarrow> union_abs con invalid (union_new t v) = Some a"
  by (simp add: union_new_def abs_set)

lemma abs_cases:
  assumes "union_abs con invalid m = Some a"
  shows "union_Tag m = tag_of a" "a \<noteq> invalid \<Longrightarrow> u_tag m = Some (tag_of a) \<and> u_value m = value_of a \<and> u_value m \<noteq> None"
proof -
  show t: "union_Tag m = tag_of a"
    using assms invalid(1) [of invalid] by (auto simp: union_abs_def con_iff bind_eq_Some_conv split: if_splits)
  show "u_tag m = Some (tag_of a) \<and> u_value m = value_of a \<and> u_value m \<noteq> None" if "a \<noteq> invalid"
  proof -
    have "tag_of a \<noteq> 255" using that invalid(1) by simp
    with t assms show ?thesis
      by (auto simp: union_abs_def con_iff bind_eq_Some_conv union_Tag_def split: if_splits option.splits)
  qed
qed

text \<open>A getter, for the message that the union stands for.\<close>

lemma abs_get:
  assumes "union_abs con invalid m = Some a" "t \<noteq> 255"
  shows "tag_of a \<noteq> t \<Longrightarrow> union_get t proj m = Ret None"
    and "value_of a = Some v \<Longrightarrow> tag_of a = t \<Longrightarrow> proj v = Some x \<Longrightarrow> union_get t proj m = Ret (Some x)"
proof -
  show "union_get t proj m = Ret None" if "tag_of a \<noteq> t"
    using that abs_cases(1) [OF assms(1)] by (auto simp: union_get_def union_Tag_def)
  show "union_get t proj m = Ret (Some x)" if "value_of a = Some v" "tag_of a = t" "proj v = Some x"
  proof -
    have "a \<noteq> invalid" using that(2) assms(2) invalid(1) by auto
    from abs_cases(2) [OF assms(1) this] that show ?thesis by (simp add: union_get_def)
  qed
qed

text \<open>The getter, the setter and the constructor of a member.\<close>

lemma accessors:
  assumes "t \<noteq> 255" "con t v = Some c" "proj v = Some x"
  shows "union_abs con invalid m = Some a \<Longrightarrow> tag_of a \<noteq> t \<Longrightarrow> union_get t proj m = Ret None"
    and "union_abs con invalid m = Some c \<Longrightarrow> union_get t proj m = Ret (Some x)"
    and "union_abs con invalid (union_set t v m) = Some c" "union_abs con invalid (union_new t v) = Some c"
  using abs_get(1) [OF _ assms(1)] abs_get(2) [OF _ assms(1), of m c v proj x] assms(2,3)
  by (simp_all add: abs_set abs_new con_iff)

lemma abs_size: "union_abs con invalid m = Some a \<Longrightarrow> union_Size size_value m = Ret (Size a)"
  using abs_cases [of m a] invalid [of a] by (auto simp: union_Size_def sizes)

lemma abs_pack: "union_abs con invalid m = Some a \<Longrightarrow> union_Pack pack_value m = Pack a"
  using abs_cases [of m a] invalid [of a] by (auto simp: union_Pack_def packs)

lemma unpack_no_panic: "fst (Unpack buf) \<noteq> Panic \<and> fst (Unpack buf) \<noteq> Blocked \<and> fst (Unpack buf) \<noteq> Crash"
  by (rule readerE [OF unpack_reader, of buf]) auto

lemma abs_unpack:
  "case union_Unpack unpack_value m buf of
      (Ret _, m', rest) \<Rightarrow> (\<exists>a. Unpack buf = (Ret a, rest) \<and> union_abs con invalid m' = Some a)
    | (Fail e, m', rest) \<Rightarrow> Unpack buf = (Fail e, rest) \<and> (m' = m \<or> union_abs con invalid m' = Some invalid)
    | _ \<Rightarrow> False"
proof -
  obtain r b where w: "(read_word :: byte reader) buf = (r, b)" by (rule prod.exhaust)
  show ?thesis
  proof (cases r)
    case (Ret tag)
    show ?thesis
    proof (cases "tag = 255")
      case True
      with w Ret show ?thesis
        by (simp add: union_Unpack_def unpacks bindM_def returnM_def union_abs_def union_Tag_def)
    next
      case False
      obtain q rest where u: "unpack_value tag b = (q, rest)" by (rule prod.exhaust)
      have U: "Unpack buf = bindM (unpack_value tag) (\<lambda>v. case con tag v of None \<Rightarrow> panicM | Some a \<Rightarrow> returnM a) b"
        using w Ret False by (simp add: unpacks bindM_def)
      show ?thesis using unpack_no_panic [of buf] w Ret False u U
        by (cases q) (auto simp: union_Unpack_def bindM_def union_abs_def union_Tag_def panicM_def returnM_def split: option.splits)
    qed
  qed (use w unpack_no_panic [of buf] in \<open>auto simp: union_Unpack_def unpacks bindM_def\<close>)
qed

lemma made_abs: "union_made con unpack_value m \<Longrightarrow> \<exists>a. union_abs con invalid m = Some a"
proof (induction rule: union_made.induct)
  case made_nil
  then show ?case by (simp add: abs_nil)
next
  case (made_set m t v a)
  then show ?case using abs_set by blast
next
  case (made_read m buf r m' rest)
  then show ?case using abs_unpack [where m = m and buf = buf] by (auto split: outcome.splits)
qed

lemma get_no_panic:
  assumes "union_made con unpack_value m" "t \<noteq> 255" "\<And>v a. con t v = Some a \<Longrightarrow> proj v \<noteq> None"
  shows "union_get t proj m \<noteq> Panic"
proof -
  obtain a where a: "union_abs con invalid m = Some a" using made_abs [OF assms(1)] by blast
  show ?thesis
  proof (cases "tag_of a = t")
    case True
    then obtain v where v: "value_of a = Some v" using assms(2) invalid [of a] by fastforce
    with True obtain x where x: "proj v = Some x" using assms(3) [of v a] by (auto simp: con_iff)
    have "union_get t proj m = Ret (Some x)" using abs_get(2) [where proj = proj and x = x, OF a assms(2) v True] x by simp
    then show ?thesis by simp
  next
    case False
    have "union_get t proj m = Ret None" by (rule abs_get(1) [OF a assms(2)]) (use False in simp)
    then show ?thesis by simp
  qed
qed

lemma safe: "union_safe con invalid tag_of pack_value size_value unpack_value Pack Unpack Size"
  unfolding union_safe_def
proof (intro allI impI conjI)
  fix m
  assume "union_made con unpack_value m"
  then obtain a where "union_abs con invalid m = Some a" using made_abs by blast
  then show "\<exists>a. union_abs con invalid m = Some a \<and> union_Tag m = tag_of a \<and> union_Size size_value m = Ret (Size a) \<and>
      union_Pack pack_value m = Pack a"
    using abs_cases(1) abs_size abs_pack by blast
qed (rule abs_unpack)

end

end
