(* ===== verification/Unions_Cloud.thy ===== *)
theory Unions_Cloud
  imports Clad_Cloud Clad_Unions
begin

text \<open>
  The unions of \<open>internal/clad/cloud\<close> as the generated code keeps them, with their getters, setters and
  constructors.
\<close>

section \<open>\<open>TokenRequest\<close>\<close>

text \<open>The types of its values.\<close>

datatype TokenRequest_value =
    V_TokenRequest_AuthRequest auth_request
  | V_TokenRequest_SecondaryAuthRequest secondary_auth_request
  | V_TokenRequest_ReassociateRequest reassociate_request
  | V_TokenRequest_JwtRequest bool

primrec con_TokenRequest :: "byte \<Rightarrow> TokenRequest_value \<Rightarrow> token_request option" where
  "con_TokenRequest t (V_TokenRequest_AuthRequest x) = (if t = 0 then Some (TokenRequestWithAuth x) else None)"
| "con_TokenRequest t (V_TokenRequest_SecondaryAuthRequest x) = (if t = 1 then Some (TokenRequestWithSecondary x) else None)"
| "con_TokenRequest t (V_TokenRequest_ReassociateRequest x) = (if t = 2 then Some (TokenRequestWithReassociate x) else None)"
| "con_TokenRequest t (V_TokenRequest_JwtRequest x) = (if t = 3 then Some (TokenRequestWithJwt x) else None)"

primrec value_of_TokenRequest :: "token_request \<Rightarrow> TokenRequest_value option" where
  "value_of_TokenRequest (TokenRequestWithAuth x) = Some (V_TokenRequest_AuthRequest x)"
| "value_of_TokenRequest (TokenRequestWithSecondary x) = Some (V_TokenRequest_SecondaryAuthRequest x)"
| "value_of_TokenRequest (TokenRequestWithReassociate x) = Some (V_TokenRequest_ReassociateRequest x)"
| "value_of_TokenRequest (TokenRequestWithJwt x) = Some (V_TokenRequest_JwtRequest x)"
| "value_of_TokenRequest TokenRequestInvalid = None"

primrec TokenRequest_packValue :: "TokenRequest_value \<Rightarrow> writer" where
  "TokenRequest_packValue (V_TokenRequest_AuthRequest x) = Pack_AuthRequest x"
| "TokenRequest_packValue (V_TokenRequest_SecondaryAuthRequest x) = Pack_SecondaryAuthRequest x"
| "TokenRequest_packValue (V_TokenRequest_ReassociateRequest x) = Pack_ReassociateRequest x"
| "TokenRequest_packValue (V_TokenRequest_JwtRequest x) = Pack_JwtRequest x"

primrec TokenRequest_sizeValue :: "TokenRequest_value \<Rightarrow> uint32" where
  "TokenRequest_sizeValue (V_TokenRequest_AuthRequest x) = Size_AuthRequest x"
| "TokenRequest_sizeValue (V_TokenRequest_SecondaryAuthRequest x) = Size_SecondaryAuthRequest x"
| "TokenRequest_sizeValue (V_TokenRequest_ReassociateRequest x) = Size_ReassociateRequest x"
| "TokenRequest_sizeValue (V_TokenRequest_JwtRequest x) = Size_JwtRequest x"

definition TokenRequest_unpackValue :: "byte \<Rightarrow> TokenRequest_value reader" where
  "TokenRequest_unpackValue tag =
     (if tag = 0 then bindM Unpack_AuthRequest (\<lambda>x. returnM (V_TokenRequest_AuthRequest x))
      else if tag = 1 then bindM Unpack_SecondaryAuthRequest (\<lambda>x. returnM (V_TokenRequest_SecondaryAuthRequest x))
      else if tag = 2 then bindM Unpack_ReassociateRequest (\<lambda>x. returnM (V_TokenRequest_ReassociateRequest x))
      else if tag = 3 then bindM Unpack_JwtRequest (\<lambda>x. returnM (V_TokenRequest_JwtRequest x))
      else failM (Errorf ''invalid tag to unpackStruct''))"

lemma con_TokenRequest_iff: "con_TokenRequest t v = Some a \<longleftrightarrow> Tag_TokenRequest a = t \<and> value_of_TokenRequest a = Some v"
proof
  show "con_TokenRequest t v = Some a \<Longrightarrow> Tag_TokenRequest a = t \<and> value_of_TokenRequest a = Some v"
    by (cases v) (auto split: if_splits prod.splits)
  show "Tag_TokenRequest a = t \<and> value_of_TokenRequest a = Some v \<Longrightarrow> con_TokenRequest t v = Some a"
    by (cases a) (auto)
qed

lemma unpackStruct_TokenRequest_value: "unpackStruct_TokenRequest tag =
    bindM (TokenRequest_unpackValue tag) (\<lambda>v. case con_TokenRequest tag v of None \<Rightarrow> panicM | Some a \<Rightarrow> returnM a)"
  by (simp add: unpackStruct_TokenRequest_def TokenRequest_unpackValue_def bind_if bindM_assoc cong: if_cong)

interpretation tokenRequestUnion: tagged_union con_TokenRequest TokenRequestInvalid Tag_TokenRequest value_of_TokenRequest TokenRequest_packValue TokenRequest_sizeValue TokenRequest_unpackValue
    Pack_TokenRequest Unpack_TokenRequest Size_TokenRequest
proof unfold_locales
  fix a :: token_request
  show "Tag_TokenRequest a = 255 \<longleftrightarrow> a = TokenRequestInvalid" "value_of_TokenRequest a = None \<longleftrightarrow> a = TokenRequestInvalid" by (cases a; simp)+
  show "Pack_TokenRequest a = bindM (write_word (Tag_TokenRequest a)) (\<lambda>_. case value_of_TokenRequest a of None \<Rightarrow> returnM () | Some v \<Rightarrow> TokenRequest_packValue v)"
    by (cases a) (simp_all add: Pack_TokenRequest_def)
  show "Size_TokenRequest a = (case value_of_TokenRequest a of None \<Rightarrow> 1 | Some v \<Rightarrow> 1 + TokenRequest_sizeValue v)" by (cases a) simp_all
  show "reader Unpack_TokenRequest" by (rule reads)
qed (simp_all add: con_TokenRequest_iff Unpack_TokenRequest_def unpackStruct_TokenRequest_value cong: if_cong)

abbreviation abs_TokenRequest :: "TokenRequest_value tagged \<Rightarrow> token_request option" where
  "abs_TokenRequest \<equiv> union_abs con_TokenRequest TokenRequestInvalid"

definition TokenRequest_GetAuth :: "TokenRequest_value tagged \<Rightarrow> auth_request option outcome" where
  "TokenRequest_GetAuth = union_get 0 (\<lambda>v. case v of V_TokenRequest_AuthRequest x \<Rightarrow> Some x | _ \<Rightarrow> None)"

definition TokenRequest_SetAuth :: "auth_request \<Rightarrow> TokenRequest_value tagged \<Rightarrow> TokenRequest_value tagged" where
  "TokenRequest_SetAuth x = union_set 0 (V_TokenRequest_AuthRequest x)"

definition NewTokenRequestWithAuth :: "auth_request \<Rightarrow> TokenRequest_value tagged" where
  "NewTokenRequestWithAuth x = union_new 0 (V_TokenRequest_AuthRequest x)"

lemma TokenRequest_Auth:
  "abs_TokenRequest m = Some y \<Longrightarrow> Tag_TokenRequest y \<noteq> 0 \<Longrightarrow> TokenRequest_GetAuth m = Ret None"
  "abs_TokenRequest m = Some (TokenRequestWithAuth x) \<Longrightarrow> TokenRequest_GetAuth m = Ret (Some x)"
  "abs_TokenRequest (TokenRequest_SetAuth x m) = Some (TokenRequestWithAuth x)"
  "abs_TokenRequest (NewTokenRequestWithAuth x) = Some (TokenRequestWithAuth x)"
  unfolding TokenRequest_GetAuth_def TokenRequest_SetAuth_def NewTokenRequestWithAuth_def
  by (rule tokenRequestUnion.accessors [where v = "V_TokenRequest_AuthRequest x" and x = "x"], (assumption | simp)+)+

definition TokenRequest_GetSecondary :: "TokenRequest_value tagged \<Rightarrow> secondary_auth_request option outcome" where
  "TokenRequest_GetSecondary = union_get 1 (\<lambda>v. case v of V_TokenRequest_SecondaryAuthRequest x \<Rightarrow> Some x | _ \<Rightarrow> None)"

definition TokenRequest_SetSecondary :: "secondary_auth_request \<Rightarrow> TokenRequest_value tagged \<Rightarrow> TokenRequest_value tagged" where
  "TokenRequest_SetSecondary x = union_set 1 (V_TokenRequest_SecondaryAuthRequest x)"

definition NewTokenRequestWithSecondary :: "secondary_auth_request \<Rightarrow> TokenRequest_value tagged" where
  "NewTokenRequestWithSecondary x = union_new 1 (V_TokenRequest_SecondaryAuthRequest x)"

lemma TokenRequest_Secondary:
  "abs_TokenRequest m = Some y \<Longrightarrow> Tag_TokenRequest y \<noteq> 1 \<Longrightarrow> TokenRequest_GetSecondary m = Ret None"
  "abs_TokenRequest m = Some (TokenRequestWithSecondary x) \<Longrightarrow> TokenRequest_GetSecondary m = Ret (Some x)"
  "abs_TokenRequest (TokenRequest_SetSecondary x m) = Some (TokenRequestWithSecondary x)"
  "abs_TokenRequest (NewTokenRequestWithSecondary x) = Some (TokenRequestWithSecondary x)"
  unfolding TokenRequest_GetSecondary_def TokenRequest_SetSecondary_def NewTokenRequestWithSecondary_def
  by (rule tokenRequestUnion.accessors [where v = "V_TokenRequest_SecondaryAuthRequest x" and x = "x"], (assumption | simp)+)+

definition TokenRequest_GetReassociate :: "TokenRequest_value tagged \<Rightarrow> reassociate_request option outcome" where
  "TokenRequest_GetReassociate = union_get 2 (\<lambda>v. case v of V_TokenRequest_ReassociateRequest x \<Rightarrow> Some x | _ \<Rightarrow> None)"

definition TokenRequest_SetReassociate :: "reassociate_request \<Rightarrow> TokenRequest_value tagged \<Rightarrow> TokenRequest_value tagged" where
  "TokenRequest_SetReassociate x = union_set 2 (V_TokenRequest_ReassociateRequest x)"

definition NewTokenRequestWithReassociate :: "reassociate_request \<Rightarrow> TokenRequest_value tagged" where
  "NewTokenRequestWithReassociate x = union_new 2 (V_TokenRequest_ReassociateRequest x)"

lemma TokenRequest_Reassociate:
  "abs_TokenRequest m = Some y \<Longrightarrow> Tag_TokenRequest y \<noteq> 2 \<Longrightarrow> TokenRequest_GetReassociate m = Ret None"
  "abs_TokenRequest m = Some (TokenRequestWithReassociate x) \<Longrightarrow> TokenRequest_GetReassociate m = Ret (Some x)"
  "abs_TokenRequest (TokenRequest_SetReassociate x m) = Some (TokenRequestWithReassociate x)"
  "abs_TokenRequest (NewTokenRequestWithReassociate x) = Some (TokenRequestWithReassociate x)"
  unfolding TokenRequest_GetReassociate_def TokenRequest_SetReassociate_def NewTokenRequestWithReassociate_def
  by (rule tokenRequestUnion.accessors [where v = "V_TokenRequest_ReassociateRequest x" and x = "x"], (assumption | simp)+)+

definition TokenRequest_GetJwt :: "TokenRequest_value tagged \<Rightarrow> bool option outcome" where
  "TokenRequest_GetJwt = union_get 3 (\<lambda>v. case v of V_TokenRequest_JwtRequest x \<Rightarrow> Some x | _ \<Rightarrow> None)"

definition TokenRequest_SetJwt :: "bool \<Rightarrow> TokenRequest_value tagged \<Rightarrow> TokenRequest_value tagged" where
  "TokenRequest_SetJwt x = union_set 3 (V_TokenRequest_JwtRequest x)"

definition NewTokenRequestWithJwt :: "bool \<Rightarrow> TokenRequest_value tagged" where
  "NewTokenRequestWithJwt x = union_new 3 (V_TokenRequest_JwtRequest x)"

lemma TokenRequest_Jwt:
  "abs_TokenRequest m = Some y \<Longrightarrow> Tag_TokenRequest y \<noteq> 3 \<Longrightarrow> TokenRequest_GetJwt m = Ret None"
  "abs_TokenRequest m = Some (TokenRequestWithJwt x) \<Longrightarrow> TokenRequest_GetJwt m = Ret (Some x)"
  "abs_TokenRequest (TokenRequest_SetJwt x m) = Some (TokenRequestWithJwt x)"
  "abs_TokenRequest (NewTokenRequestWithJwt x) = Some (TokenRequestWithJwt x)"
  unfolding TokenRequest_GetJwt_def TokenRequest_SetJwt_def NewTokenRequestWithJwt_def
  by (rule tokenRequestUnion.accessors [where v = "V_TokenRequest_JwtRequest x" and x = "x"], (assumption | simp)+)+

definition panics_TokenRequest :: "TokenRequest_value tagged \<Rightarrow> bool" where
  "panics_TokenRequest m \<longleftrightarrow> TokenRequest_GetAuth m = Panic \<or>
     TokenRequest_GetSecondary m = Panic \<or>
     TokenRequest_GetReassociate m = Panic \<or>
     TokenRequest_GetJwt m = Panic"

lemma getters_TokenRequest: "getters_safe con_TokenRequest TokenRequest_unpackValue panics_TokenRequest"
  unfolding getters_safe_def panics_TokenRequest_def de_Morgan_disj TokenRequest_GetAuth_def TokenRequest_GetSecondary_def TokenRequest_GetReassociate_def TokenRequest_GetJwt_def
  by (intro allI impI conjI; rule tokenRequestUnion.get_no_panic, assumption, simp, case_tac v; simp)

section \<open>\<open>TokenResponse\<close>\<close>

text \<open>The types of its values.\<close>

datatype TokenResponse_value =
    V_TokenResponse_AuthResponse auth_response
  | V_TokenResponse_JwtResponse jwt_response

primrec con_TokenResponse :: "byte \<Rightarrow> TokenResponse_value \<Rightarrow> token_response option" where
  "con_TokenResponse t (V_TokenResponse_AuthResponse x) = (if t = 0 then Some (TokenResponseWithAuth x) else None)"
| "con_TokenResponse t (V_TokenResponse_JwtResponse x) = (if t = 1 then Some (TokenResponseWithJwt x) else None)"

primrec value_of_TokenResponse :: "token_response \<Rightarrow> TokenResponse_value option" where
  "value_of_TokenResponse (TokenResponseWithAuth x) = Some (V_TokenResponse_AuthResponse x)"
| "value_of_TokenResponse (TokenResponseWithJwt x) = Some (V_TokenResponse_JwtResponse x)"
| "value_of_TokenResponse TokenResponseInvalid = None"

primrec TokenResponse_packValue :: "TokenResponse_value \<Rightarrow> writer" where
  "TokenResponse_packValue (V_TokenResponse_AuthResponse x) = Pack_AuthResponse x"
| "TokenResponse_packValue (V_TokenResponse_JwtResponse x) = Pack_JwtResponse x"

primrec TokenResponse_sizeValue :: "TokenResponse_value \<Rightarrow> uint32" where
  "TokenResponse_sizeValue (V_TokenResponse_AuthResponse x) = Size_AuthResponse x"
| "TokenResponse_sizeValue (V_TokenResponse_JwtResponse x) = Size_JwtResponse x"

definition TokenResponse_unpackValue :: "byte \<Rightarrow> TokenResponse_value reader" where
  "TokenResponse_unpackValue tag =
     (if tag = 0 then bindM Unpack_AuthResponse (\<lambda>x. returnM (V_TokenResponse_AuthResponse x))
      else if tag = 1 then bindM Unpack_JwtResponse (\<lambda>x. returnM (V_TokenResponse_JwtResponse x))
      else failM (Errorf ''invalid tag to unpackStruct''))"

lemma con_TokenResponse_iff: "con_TokenResponse t v = Some a \<longleftrightarrow> Tag_TokenResponse a = t \<and> value_of_TokenResponse a = Some v"
proof
  show "con_TokenResponse t v = Some a \<Longrightarrow> Tag_TokenResponse a = t \<and> value_of_TokenResponse a = Some v"
    by (cases v) (auto split: if_splits prod.splits)
  show "Tag_TokenResponse a = t \<and> value_of_TokenResponse a = Some v \<Longrightarrow> con_TokenResponse t v = Some a"
    by (cases a) (auto)
qed

lemma unpackStruct_TokenResponse_value: "unpackStruct_TokenResponse tag =
    bindM (TokenResponse_unpackValue tag) (\<lambda>v. case con_TokenResponse tag v of None \<Rightarrow> panicM | Some a \<Rightarrow> returnM a)"
  by (simp add: unpackStruct_TokenResponse_def TokenResponse_unpackValue_def bind_if bindM_assoc cong: if_cong)

interpretation tokenResponseUnion: tagged_union con_TokenResponse TokenResponseInvalid Tag_TokenResponse value_of_TokenResponse TokenResponse_packValue TokenResponse_sizeValue TokenResponse_unpackValue
    Pack_TokenResponse Unpack_TokenResponse Size_TokenResponse
proof unfold_locales
  fix a :: token_response
  show "Tag_TokenResponse a = 255 \<longleftrightarrow> a = TokenResponseInvalid" "value_of_TokenResponse a = None \<longleftrightarrow> a = TokenResponseInvalid" by (cases a; simp)+
  show "Pack_TokenResponse a = bindM (write_word (Tag_TokenResponse a)) (\<lambda>_. case value_of_TokenResponse a of None \<Rightarrow> returnM () | Some v \<Rightarrow> TokenResponse_packValue v)"
    by (cases a) (simp_all add: Pack_TokenResponse_def)
  show "Size_TokenResponse a = (case value_of_TokenResponse a of None \<Rightarrow> 1 | Some v \<Rightarrow> 1 + TokenResponse_sizeValue v)" by (cases a) simp_all
  show "reader Unpack_TokenResponse" by (rule reads)
qed (simp_all add: con_TokenResponse_iff Unpack_TokenResponse_def unpackStruct_TokenResponse_value cong: if_cong)

abbreviation abs_TokenResponse :: "TokenResponse_value tagged \<Rightarrow> token_response option" where
  "abs_TokenResponse \<equiv> union_abs con_TokenResponse TokenResponseInvalid"

definition TokenResponse_GetAuth :: "TokenResponse_value tagged \<Rightarrow> auth_response option outcome" where
  "TokenResponse_GetAuth = union_get 0 (\<lambda>v. case v of V_TokenResponse_AuthResponse x \<Rightarrow> Some x | _ \<Rightarrow> None)"

definition TokenResponse_SetAuth :: "auth_response \<Rightarrow> TokenResponse_value tagged \<Rightarrow> TokenResponse_value tagged" where
  "TokenResponse_SetAuth x = union_set 0 (V_TokenResponse_AuthResponse x)"

definition NewTokenResponseWithAuth :: "auth_response \<Rightarrow> TokenResponse_value tagged" where
  "NewTokenResponseWithAuth x = union_new 0 (V_TokenResponse_AuthResponse x)"

lemma TokenResponse_Auth:
  "abs_TokenResponse m = Some y \<Longrightarrow> Tag_TokenResponse y \<noteq> 0 \<Longrightarrow> TokenResponse_GetAuth m = Ret None"
  "abs_TokenResponse m = Some (TokenResponseWithAuth x) \<Longrightarrow> TokenResponse_GetAuth m = Ret (Some x)"
  "abs_TokenResponse (TokenResponse_SetAuth x m) = Some (TokenResponseWithAuth x)"
  "abs_TokenResponse (NewTokenResponseWithAuth x) = Some (TokenResponseWithAuth x)"
  unfolding TokenResponse_GetAuth_def TokenResponse_SetAuth_def NewTokenResponseWithAuth_def
  by (rule tokenResponseUnion.accessors [where v = "V_TokenResponse_AuthResponse x" and x = "x"], (assumption | simp)+)+

definition TokenResponse_GetJwt :: "TokenResponse_value tagged \<Rightarrow> jwt_response option outcome" where
  "TokenResponse_GetJwt = union_get 1 (\<lambda>v. case v of V_TokenResponse_JwtResponse x \<Rightarrow> Some x | _ \<Rightarrow> None)"

definition TokenResponse_SetJwt :: "jwt_response \<Rightarrow> TokenResponse_value tagged \<Rightarrow> TokenResponse_value tagged" where
  "TokenResponse_SetJwt x = union_set 1 (V_TokenResponse_JwtResponse x)"

definition NewTokenResponseWithJwt :: "jwt_response \<Rightarrow> TokenResponse_value tagged" where
  "NewTokenResponseWithJwt x = union_new 1 (V_TokenResponse_JwtResponse x)"

lemma TokenResponse_Jwt:
  "abs_TokenResponse m = Some y \<Longrightarrow> Tag_TokenResponse y \<noteq> 1 \<Longrightarrow> TokenResponse_GetJwt m = Ret None"
  "abs_TokenResponse m = Some (TokenResponseWithJwt x) \<Longrightarrow> TokenResponse_GetJwt m = Ret (Some x)"
  "abs_TokenResponse (TokenResponse_SetJwt x m) = Some (TokenResponseWithJwt x)"
  "abs_TokenResponse (NewTokenResponseWithJwt x) = Some (TokenResponseWithJwt x)"
  unfolding TokenResponse_GetJwt_def TokenResponse_SetJwt_def NewTokenResponseWithJwt_def
  by (rule tokenResponseUnion.accessors [where v = "V_TokenResponse_JwtResponse x" and x = "x"], (assumption | simp)+)+

definition panics_TokenResponse :: "TokenResponse_value tagged \<Rightarrow> bool" where
  "panics_TokenResponse m \<longleftrightarrow> TokenResponse_GetAuth m = Panic \<or>
     TokenResponse_GetJwt m = Panic"

lemma getters_TokenResponse: "getters_safe con_TokenResponse TokenResponse_unpackValue panics_TokenResponse"
  unfolding getters_safe_def panics_TokenResponse_def de_Morgan_disj TokenResponse_GetAuth_def TokenResponse_GetJwt_def
  by (intro allI impI conjI; rule tokenResponseUnion.get_no_panic, assumption, simp, case_tac v; simp)

section \<open>\<open>DocRequest\<close>\<close>

text \<open>The types of its values.\<close>

datatype DocRequest_value =
    V_DocRequest_WriteRequest write_request
  | V_DocRequest_ReadRequest read_request
  | V_DocRequest_DeleteRequest delete_request
  | V_DocRequest_Void

primrec con_DocRequest :: "byte \<Rightarrow> DocRequest_value \<Rightarrow> doc_request option" where
  "con_DocRequest t (V_DocRequest_WriteRequest x) = (if t = 0 then Some (DocRequestWithWrite x) else None)"
| "con_DocRequest t (V_DocRequest_ReadRequest x) = (if t = 1 then Some (DocRequestWithRead x) else None)"
| "con_DocRequest t (V_DocRequest_DeleteRequest x) = (if t = 2 then Some (DocRequestWithDeleteReq x) else None)"
| "con_DocRequest t V_DocRequest_Void = (if t = 3 then Some (DocRequestWithUser) else if t = 4 then Some (DocRequestWithThing) else None)"

primrec value_of_DocRequest :: "doc_request \<Rightarrow> DocRequest_value option" where
  "value_of_DocRequest (DocRequestWithWrite x) = Some (V_DocRequest_WriteRequest x)"
| "value_of_DocRequest (DocRequestWithRead x) = Some (V_DocRequest_ReadRequest x)"
| "value_of_DocRequest (DocRequestWithDeleteReq x) = Some (V_DocRequest_DeleteRequest x)"
| "value_of_DocRequest DocRequestWithUser = Some (V_DocRequest_Void)"
| "value_of_DocRequest DocRequestWithThing = Some (V_DocRequest_Void)"
| "value_of_DocRequest DocRequestInvalid = None"

primrec DocRequest_packValue :: "DocRequest_value \<Rightarrow> writer" where
  "DocRequest_packValue (V_DocRequest_WriteRequest x) = Pack_WriteRequest x"
| "DocRequest_packValue (V_DocRequest_ReadRequest x) = Pack_ReadRequest x"
| "DocRequest_packValue (V_DocRequest_DeleteRequest x) = Pack_DeleteRequest x"
| "DocRequest_packValue V_DocRequest_Void = Pack_Void ()"

primrec DocRequest_sizeValue :: "DocRequest_value \<Rightarrow> uint32" where
  "DocRequest_sizeValue (V_DocRequest_WriteRequest x) = Size_WriteRequest x"
| "DocRequest_sizeValue (V_DocRequest_ReadRequest x) = Size_ReadRequest x"
| "DocRequest_sizeValue (V_DocRequest_DeleteRequest x) = Size_DeleteRequest x"
| "DocRequest_sizeValue V_DocRequest_Void = Size_Void ()"

definition DocRequest_unpackValue :: "byte \<Rightarrow> DocRequest_value reader" where
  "DocRequest_unpackValue tag =
     (if tag = 0 then bindM Unpack_WriteRequest (\<lambda>x. returnM (V_DocRequest_WriteRequest x))
      else if tag = 1 then bindM Unpack_ReadRequest (\<lambda>x. returnM (V_DocRequest_ReadRequest x))
      else if tag = 2 then bindM Unpack_DeleteRequest (\<lambda>x. returnM (V_DocRequest_DeleteRequest x))
      else if tag = 3 then bindM Unpack_Void (\<lambda>x. returnM V_DocRequest_Void)
      else if tag = 4 then bindM Unpack_Void (\<lambda>x. returnM V_DocRequest_Void)
      else failM (Errorf ''invalid tag to unpackStruct''))"

lemma con_DocRequest_iff: "con_DocRequest t v = Some a \<longleftrightarrow> Tag_DocRequest a = t \<and> value_of_DocRequest a = Some v"
proof
  show "con_DocRequest t v = Some a \<Longrightarrow> Tag_DocRequest a = t \<and> value_of_DocRequest a = Some v"
    by (cases v) (auto split: if_splits prod.splits)
  show "Tag_DocRequest a = t \<and> value_of_DocRequest a = Some v \<Longrightarrow> con_DocRequest t v = Some a"
    by (cases a) (auto)
qed

lemma unpackStruct_DocRequest_value: "unpackStruct_DocRequest tag =
    bindM (DocRequest_unpackValue tag) (\<lambda>v. case con_DocRequest tag v of None \<Rightarrow> panicM | Some a \<Rightarrow> returnM a)"
  by (simp add: unpackStruct_DocRequest_def DocRequest_unpackValue_def bind_if bindM_assoc cong: if_cong)

interpretation docRequestUnion: tagged_union con_DocRequest DocRequestInvalid Tag_DocRequest value_of_DocRequest DocRequest_packValue DocRequest_sizeValue DocRequest_unpackValue
    Pack_DocRequest Unpack_DocRequest Size_DocRequest
proof unfold_locales
  fix a :: doc_request
  show "Tag_DocRequest a = 255 \<longleftrightarrow> a = DocRequestInvalid" "value_of_DocRequest a = None \<longleftrightarrow> a = DocRequestInvalid" by (cases a; simp)+
  show "Pack_DocRequest a = bindM (write_word (Tag_DocRequest a)) (\<lambda>_. case value_of_DocRequest a of None \<Rightarrow> returnM () | Some v \<Rightarrow> DocRequest_packValue v)"
    by (cases a) (simp_all add: Pack_DocRequest_def)
  show "Size_DocRequest a = (case value_of_DocRequest a of None \<Rightarrow> 1 | Some v \<Rightarrow> 1 + DocRequest_sizeValue v)" by (cases a) simp_all
  show "reader Unpack_DocRequest" by (rule reads)
qed (simp_all add: con_DocRequest_iff Unpack_DocRequest_def unpackStruct_DocRequest_value cong: if_cong)

abbreviation abs_DocRequest :: "DocRequest_value tagged \<Rightarrow> doc_request option" where
  "abs_DocRequest \<equiv> union_abs con_DocRequest DocRequestInvalid"

definition DocRequest_GetWrite :: "DocRequest_value tagged \<Rightarrow> write_request option outcome" where
  "DocRequest_GetWrite = union_get 0 (\<lambda>v. case v of V_DocRequest_WriteRequest x \<Rightarrow> Some x | _ \<Rightarrow> None)"

definition DocRequest_SetWrite :: "write_request \<Rightarrow> DocRequest_value tagged \<Rightarrow> DocRequest_value tagged" where
  "DocRequest_SetWrite x = union_set 0 (V_DocRequest_WriteRequest x)"

definition NewDocRequestWithWrite :: "write_request \<Rightarrow> DocRequest_value tagged" where
  "NewDocRequestWithWrite x = union_new 0 (V_DocRequest_WriteRequest x)"

lemma DocRequest_Write:
  "abs_DocRequest m = Some y \<Longrightarrow> Tag_DocRequest y \<noteq> 0 \<Longrightarrow> DocRequest_GetWrite m = Ret None"
  "abs_DocRequest m = Some (DocRequestWithWrite x) \<Longrightarrow> DocRequest_GetWrite m = Ret (Some x)"
  "abs_DocRequest (DocRequest_SetWrite x m) = Some (DocRequestWithWrite x)"
  "abs_DocRequest (NewDocRequestWithWrite x) = Some (DocRequestWithWrite x)"
  unfolding DocRequest_GetWrite_def DocRequest_SetWrite_def NewDocRequestWithWrite_def
  by (rule docRequestUnion.accessors [where v = "V_DocRequest_WriteRequest x" and x = "x"], (assumption | simp)+)+

definition DocRequest_GetRead :: "DocRequest_value tagged \<Rightarrow> read_request option outcome" where
  "DocRequest_GetRead = union_get 1 (\<lambda>v. case v of V_DocRequest_ReadRequest x \<Rightarrow> Some x | _ \<Rightarrow> None)"

definition DocRequest_SetRead :: "read_request \<Rightarrow> DocRequest_value tagged \<Rightarrow> DocRequest_value tagged" where
  "DocRequest_SetRead x = union_set 1 (V_DocRequest_ReadRequest x)"

definition NewDocRequestWithRead :: "read_request \<Rightarrow> DocRequest_value tagged" where
  "NewDocRequestWithRead x = union_new 1 (V_DocRequest_ReadRequest x)"

lemma DocRequest_Read:
  "abs_DocRequest m = Some y \<Longrightarrow> Tag_DocRequest y \<noteq> 1 \<Longrightarrow> DocRequest_GetRead m = Ret None"
  "abs_DocRequest m = Some (DocRequestWithRead x) \<Longrightarrow> DocRequest_GetRead m = Ret (Some x)"
  "abs_DocRequest (DocRequest_SetRead x m) = Some (DocRequestWithRead x)"
  "abs_DocRequest (NewDocRequestWithRead x) = Some (DocRequestWithRead x)"
  unfolding DocRequest_GetRead_def DocRequest_SetRead_def NewDocRequestWithRead_def
  by (rule docRequestUnion.accessors [where v = "V_DocRequest_ReadRequest x" and x = "x"], (assumption | simp)+)+

definition DocRequest_GetDeleteReq :: "DocRequest_value tagged \<Rightarrow> delete_request option outcome" where
  "DocRequest_GetDeleteReq = union_get 2 (\<lambda>v. case v of V_DocRequest_DeleteRequest x \<Rightarrow> Some x | _ \<Rightarrow> None)"

definition DocRequest_SetDeleteReq :: "delete_request \<Rightarrow> DocRequest_value tagged \<Rightarrow> DocRequest_value tagged" where
  "DocRequest_SetDeleteReq x = union_set 2 (V_DocRequest_DeleteRequest x)"

definition NewDocRequestWithDeleteReq :: "delete_request \<Rightarrow> DocRequest_value tagged" where
  "NewDocRequestWithDeleteReq x = union_new 2 (V_DocRequest_DeleteRequest x)"

lemma DocRequest_DeleteReq:
  "abs_DocRequest m = Some y \<Longrightarrow> Tag_DocRequest y \<noteq> 2 \<Longrightarrow> DocRequest_GetDeleteReq m = Ret None"
  "abs_DocRequest m = Some (DocRequestWithDeleteReq x) \<Longrightarrow> DocRequest_GetDeleteReq m = Ret (Some x)"
  "abs_DocRequest (DocRequest_SetDeleteReq x m) = Some (DocRequestWithDeleteReq x)"
  "abs_DocRequest (NewDocRequestWithDeleteReq x) = Some (DocRequestWithDeleteReq x)"
  unfolding DocRequest_GetDeleteReq_def DocRequest_SetDeleteReq_def NewDocRequestWithDeleteReq_def
  by (rule docRequestUnion.accessors [where v = "V_DocRequest_DeleteRequest x" and x = "x"], (assumption | simp)+)+

definition DocRequest_GetUser :: "DocRequest_value tagged \<Rightarrow> unit option outcome" where
  "DocRequest_GetUser = union_get 3 (\<lambda>v. case v of V_DocRequest_Void \<Rightarrow> Some () | _ \<Rightarrow> None)"

definition DocRequest_SetUser :: "unit \<Rightarrow> DocRequest_value tagged \<Rightarrow> DocRequest_value tagged" where
  "DocRequest_SetUser x = union_set 3 V_DocRequest_Void"

definition NewDocRequestWithUser :: "unit \<Rightarrow> DocRequest_value tagged" where
  "NewDocRequestWithUser x = union_new 3 V_DocRequest_Void"

lemma DocRequest_User:
  "abs_DocRequest m = Some y \<Longrightarrow> Tag_DocRequest y \<noteq> 3 \<Longrightarrow> DocRequest_GetUser m = Ret None"
  "abs_DocRequest m = Some DocRequestWithUser \<Longrightarrow> DocRequest_GetUser m = Ret (Some ())"
  "abs_DocRequest (DocRequest_SetUser x m) = Some DocRequestWithUser"
  "abs_DocRequest (NewDocRequestWithUser x) = Some DocRequestWithUser"
  unfolding DocRequest_GetUser_def DocRequest_SetUser_def NewDocRequestWithUser_def
  by (rule docRequestUnion.accessors [where v = "V_DocRequest_Void" and x = "()"], (assumption | simp)+)+

definition DocRequest_GetThing :: "DocRequest_value tagged \<Rightarrow> unit option outcome" where
  "DocRequest_GetThing = union_get 4 (\<lambda>v. case v of V_DocRequest_Void \<Rightarrow> Some () | _ \<Rightarrow> None)"

definition DocRequest_SetThing :: "unit \<Rightarrow> DocRequest_value tagged \<Rightarrow> DocRequest_value tagged" where
  "DocRequest_SetThing x = union_set 4 V_DocRequest_Void"

definition NewDocRequestWithThing :: "unit \<Rightarrow> DocRequest_value tagged" where
  "NewDocRequestWithThing x = union_new 4 V_DocRequest_Void"

lemma DocRequest_Thing:
  "abs_DocRequest m = Some y \<Longrightarrow> Tag_DocRequest y \<noteq> 4 \<Longrightarrow> DocRequest_GetThing m = Ret None"
  "abs_DocRequest m = Some DocRequestWithThing \<Longrightarrow> DocRequest_GetThing m = Ret (Some ())"
  "abs_DocRequest (DocRequest_SetThing x m) = Some DocRequestWithThing"
  "abs_DocRequest (NewDocRequestWithThing x) = Some DocRequestWithThing"
  unfolding DocRequest_GetThing_def DocRequest_SetThing_def NewDocRequestWithThing_def
  by (rule docRequestUnion.accessors [where v = "V_DocRequest_Void" and x = "()"], (assumption | simp)+)+

definition panics_DocRequest :: "DocRequest_value tagged \<Rightarrow> bool" where
  "panics_DocRequest m \<longleftrightarrow> DocRequest_GetWrite m = Panic \<or>
     DocRequest_GetRead m = Panic \<or>
     DocRequest_GetDeleteReq m = Panic \<or>
     DocRequest_GetUser m = Panic \<or>
     DocRequest_GetThing m = Panic"

lemma getters_DocRequest: "getters_safe con_DocRequest DocRequest_unpackValue panics_DocRequest"
  unfolding getters_safe_def panics_DocRequest_def de_Morgan_disj DocRequest_GetWrite_def DocRequest_GetRead_def DocRequest_GetDeleteReq_def DocRequest_GetUser_def
    DocRequest_GetThing_def
  by (intro allI impI conjI; rule docRequestUnion.get_no_panic, assumption, simp, case_tac v; simp)

section \<open>\<open>DocResponse\<close>\<close>

text \<open>The types of its values.\<close>

datatype DocResponse_value =
    V_DocResponse_WriteResponse write_response
  | V_DocResponse_ReadResponse "response_doc list"
  | V_DocResponse_Void
  | V_DocResponse_ErrorResponse byte
  | V_DocResponse_UserResponse string
  | V_DocResponse_ThingResponse string

primrec con_DocResponse :: "byte \<Rightarrow> DocResponse_value \<Rightarrow> doc_response option" where
  "con_DocResponse t (V_DocResponse_WriteResponse x) = (if t = 0 then Some (DocResponseWithWrite x) else None)"
| "con_DocResponse t (V_DocResponse_ReadResponse x) = (if t = 1 then Some (DocResponseWithRead x) else None)"
| "con_DocResponse t V_DocResponse_Void = (if t = 2 then Some (DocResponseWithDeleteResp) else None)"
| "con_DocResponse t (V_DocResponse_ErrorResponse x) = (if t = 3 then Some (DocResponseWithErr x) else None)"
| "con_DocResponse t (V_DocResponse_UserResponse x) = (if t = 4 then Some (DocResponseWithUser x) else None)"
| "con_DocResponse t (V_DocResponse_ThingResponse x) = (if t = 5 then Some (DocResponseWithThing x) else None)"

primrec value_of_DocResponse :: "doc_response \<Rightarrow> DocResponse_value option" where
  "value_of_DocResponse (DocResponseWithWrite x) = Some (V_DocResponse_WriteResponse x)"
| "value_of_DocResponse (DocResponseWithRead x) = Some (V_DocResponse_ReadResponse x)"
| "value_of_DocResponse DocResponseWithDeleteResp = Some (V_DocResponse_Void)"
| "value_of_DocResponse (DocResponseWithErr x) = Some (V_DocResponse_ErrorResponse x)"
| "value_of_DocResponse (DocResponseWithUser x) = Some (V_DocResponse_UserResponse x)"
| "value_of_DocResponse (DocResponseWithThing x) = Some (V_DocResponse_ThingResponse x)"
| "value_of_DocResponse DocResponseInvalid = None"

primrec DocResponse_packValue :: "DocResponse_value \<Rightarrow> writer" where
  "DocResponse_packValue (V_DocResponse_WriteResponse x) = Pack_WriteResponse x"
| "DocResponse_packValue (V_DocResponse_ReadResponse x) = Pack_ReadResponse x"
| "DocResponse_packValue V_DocResponse_Void = Pack_Void ()"
| "DocResponse_packValue (V_DocResponse_ErrorResponse x) = Pack_ErrorResponse x"
| "DocResponse_packValue (V_DocResponse_UserResponse x) = Pack_UserResponse x"
| "DocResponse_packValue (V_DocResponse_ThingResponse x) = Pack_ThingResponse x"

primrec DocResponse_sizeValue :: "DocResponse_value \<Rightarrow> uint32" where
  "DocResponse_sizeValue (V_DocResponse_WriteResponse x) = Size_WriteResponse x"
| "DocResponse_sizeValue (V_DocResponse_ReadResponse x) = Size_ReadResponse x"
| "DocResponse_sizeValue V_DocResponse_Void = Size_Void ()"
| "DocResponse_sizeValue (V_DocResponse_ErrorResponse x) = Size_ErrorResponse x"
| "DocResponse_sizeValue (V_DocResponse_UserResponse x) = Size_UserResponse x"
| "DocResponse_sizeValue (V_DocResponse_ThingResponse x) = Size_ThingResponse x"

definition DocResponse_unpackValue :: "byte \<Rightarrow> DocResponse_value reader" where
  "DocResponse_unpackValue tag =
     (if tag = 0 then bindM Unpack_WriteResponse (\<lambda>x. returnM (V_DocResponse_WriteResponse x))
      else if tag = 1 then bindM Unpack_ReadResponse (\<lambda>x. returnM (V_DocResponse_ReadResponse x))
      else if tag = 2 then bindM Unpack_Void (\<lambda>x. returnM V_DocResponse_Void)
      else if tag = 3 then bindM Unpack_ErrorResponse (\<lambda>x. returnM (V_DocResponse_ErrorResponse x))
      else if tag = 4 then bindM Unpack_UserResponse (\<lambda>x. returnM (V_DocResponse_UserResponse x))
      else if tag = 5 then bindM Unpack_ThingResponse (\<lambda>x. returnM (V_DocResponse_ThingResponse x))
      else failM (Errorf ''invalid tag to unpackStruct''))"

lemma con_DocResponse_iff: "con_DocResponse t v = Some a \<longleftrightarrow> Tag_DocResponse a = t \<and> value_of_DocResponse a = Some v"
proof
  show "con_DocResponse t v = Some a \<Longrightarrow> Tag_DocResponse a = t \<and> value_of_DocResponse a = Some v"
    by (cases v) (auto split: if_splits prod.splits)
  show "Tag_DocResponse a = t \<and> value_of_DocResponse a = Some v \<Longrightarrow> con_DocResponse t v = Some a"
    by (cases a) (auto)
qed

lemma unpackStruct_DocResponse_value: "unpackStruct_DocResponse tag =
    bindM (DocResponse_unpackValue tag) (\<lambda>v. case con_DocResponse tag v of None \<Rightarrow> panicM | Some a \<Rightarrow> returnM a)"
  by (simp add: unpackStruct_DocResponse_def DocResponse_unpackValue_def bind_if bindM_assoc cong: if_cong)

interpretation docResponseUnion: tagged_union con_DocResponse DocResponseInvalid Tag_DocResponse value_of_DocResponse DocResponse_packValue DocResponse_sizeValue DocResponse_unpackValue
    Pack_DocResponse Unpack_DocResponse Size_DocResponse
proof unfold_locales
  fix a :: doc_response
  show "Tag_DocResponse a = 255 \<longleftrightarrow> a = DocResponseInvalid" "value_of_DocResponse a = None \<longleftrightarrow> a = DocResponseInvalid" by (cases a; simp)+
  show "Pack_DocResponse a = bindM (write_word (Tag_DocResponse a)) (\<lambda>_. case value_of_DocResponse a of None \<Rightarrow> returnM () | Some v \<Rightarrow> DocResponse_packValue v)"
    by (cases a) (simp_all add: Pack_DocResponse_def)
  show "Size_DocResponse a = (case value_of_DocResponse a of None \<Rightarrow> 1 | Some v \<Rightarrow> 1 + DocResponse_sizeValue v)" by (cases a) simp_all
  show "reader Unpack_DocResponse" by (rule reads)
qed (simp_all add: con_DocResponse_iff Unpack_DocResponse_def unpackStruct_DocResponse_value cong: if_cong)

abbreviation abs_DocResponse :: "DocResponse_value tagged \<Rightarrow> doc_response option" where
  "abs_DocResponse \<equiv> union_abs con_DocResponse DocResponseInvalid"

definition DocResponse_GetWrite :: "DocResponse_value tagged \<Rightarrow> write_response option outcome" where
  "DocResponse_GetWrite = union_get 0 (\<lambda>v. case v of V_DocResponse_WriteResponse x \<Rightarrow> Some x | _ \<Rightarrow> None)"

definition DocResponse_SetWrite :: "write_response \<Rightarrow> DocResponse_value tagged \<Rightarrow> DocResponse_value tagged" where
  "DocResponse_SetWrite x = union_set 0 (V_DocResponse_WriteResponse x)"

definition NewDocResponseWithWrite :: "write_response \<Rightarrow> DocResponse_value tagged" where
  "NewDocResponseWithWrite x = union_new 0 (V_DocResponse_WriteResponse x)"

lemma DocResponse_Write:
  "abs_DocResponse m = Some y \<Longrightarrow> Tag_DocResponse y \<noteq> 0 \<Longrightarrow> DocResponse_GetWrite m = Ret None"
  "abs_DocResponse m = Some (DocResponseWithWrite x) \<Longrightarrow> DocResponse_GetWrite m = Ret (Some x)"
  "abs_DocResponse (DocResponse_SetWrite x m) = Some (DocResponseWithWrite x)"
  "abs_DocResponse (NewDocResponseWithWrite x) = Some (DocResponseWithWrite x)"
  unfolding DocResponse_GetWrite_def DocResponse_SetWrite_def NewDocResponseWithWrite_def
  by (rule docResponseUnion.accessors [where v = "V_DocResponse_WriteResponse x" and x = "x"], (assumption | simp)+)+

definition DocResponse_GetRead :: "DocResponse_value tagged \<Rightarrow> (response_doc list) option outcome" where
  "DocResponse_GetRead = union_get 1 (\<lambda>v. case v of V_DocResponse_ReadResponse x \<Rightarrow> Some x | _ \<Rightarrow> None)"

definition DocResponse_SetRead :: "(response_doc list) \<Rightarrow> DocResponse_value tagged \<Rightarrow> DocResponse_value tagged" where
  "DocResponse_SetRead x = union_set 1 (V_DocResponse_ReadResponse x)"

definition NewDocResponseWithRead :: "(response_doc list) \<Rightarrow> DocResponse_value tagged" where
  "NewDocResponseWithRead x = union_new 1 (V_DocResponse_ReadResponse x)"

lemma DocResponse_Read:
  "abs_DocResponse m = Some y \<Longrightarrow> Tag_DocResponse y \<noteq> 1 \<Longrightarrow> DocResponse_GetRead m = Ret None"
  "abs_DocResponse m = Some (DocResponseWithRead x) \<Longrightarrow> DocResponse_GetRead m = Ret (Some x)"
  "abs_DocResponse (DocResponse_SetRead x m) = Some (DocResponseWithRead x)"
  "abs_DocResponse (NewDocResponseWithRead x) = Some (DocResponseWithRead x)"
  unfolding DocResponse_GetRead_def DocResponse_SetRead_def NewDocResponseWithRead_def
  by (rule docResponseUnion.accessors [where v = "V_DocResponse_ReadResponse x" and x = "x"], (assumption | simp)+)+

definition DocResponse_GetDeleteResp :: "DocResponse_value tagged \<Rightarrow> unit option outcome" where
  "DocResponse_GetDeleteResp = union_get 2 (\<lambda>v. case v of V_DocResponse_Void \<Rightarrow> Some () | _ \<Rightarrow> None)"

definition DocResponse_SetDeleteResp :: "unit \<Rightarrow> DocResponse_value tagged \<Rightarrow> DocResponse_value tagged" where
  "DocResponse_SetDeleteResp x = union_set 2 V_DocResponse_Void"

definition NewDocResponseWithDeleteResp :: "unit \<Rightarrow> DocResponse_value tagged" where
  "NewDocResponseWithDeleteResp x = union_new 2 V_DocResponse_Void"

lemma DocResponse_DeleteResp:
  "abs_DocResponse m = Some y \<Longrightarrow> Tag_DocResponse y \<noteq> 2 \<Longrightarrow> DocResponse_GetDeleteResp m = Ret None"
  "abs_DocResponse m = Some DocResponseWithDeleteResp \<Longrightarrow> DocResponse_GetDeleteResp m = Ret (Some ())"
  "abs_DocResponse (DocResponse_SetDeleteResp x m) = Some DocResponseWithDeleteResp"
  "abs_DocResponse (NewDocResponseWithDeleteResp x) = Some DocResponseWithDeleteResp"
  unfolding DocResponse_GetDeleteResp_def DocResponse_SetDeleteResp_def NewDocResponseWithDeleteResp_def
  by (rule docResponseUnion.accessors [where v = "V_DocResponse_Void" and x = "()"], (assumption | simp)+)+

definition DocResponse_GetErr :: "DocResponse_value tagged \<Rightarrow> byte option outcome" where
  "DocResponse_GetErr = union_get 3 (\<lambda>v. case v of V_DocResponse_ErrorResponse x \<Rightarrow> Some x | _ \<Rightarrow> None)"

definition DocResponse_SetErr :: "byte \<Rightarrow> DocResponse_value tagged \<Rightarrow> DocResponse_value tagged" where
  "DocResponse_SetErr x = union_set 3 (V_DocResponse_ErrorResponse x)"

definition NewDocResponseWithErr :: "byte \<Rightarrow> DocResponse_value tagged" where
  "NewDocResponseWithErr x = union_new 3 (V_DocResponse_ErrorResponse x)"

lemma DocResponse_Err:
  "abs_DocResponse m = Some y \<Longrightarrow> Tag_DocResponse y \<noteq> 3 \<Longrightarrow> DocResponse_GetErr m = Ret None"
  "abs_DocResponse m = Some (DocResponseWithErr x) \<Longrightarrow> DocResponse_GetErr m = Ret (Some x)"
  "abs_DocResponse (DocResponse_SetErr x m) = Some (DocResponseWithErr x)"
  "abs_DocResponse (NewDocResponseWithErr x) = Some (DocResponseWithErr x)"
  unfolding DocResponse_GetErr_def DocResponse_SetErr_def NewDocResponseWithErr_def
  by (rule docResponseUnion.accessors [where v = "V_DocResponse_ErrorResponse x" and x = "x"], (assumption | simp)+)+

definition DocResponse_GetUser :: "DocResponse_value tagged \<Rightarrow> string option outcome" where
  "DocResponse_GetUser = union_get 4 (\<lambda>v. case v of V_DocResponse_UserResponse x \<Rightarrow> Some x | _ \<Rightarrow> None)"

definition DocResponse_SetUser :: "string \<Rightarrow> DocResponse_value tagged \<Rightarrow> DocResponse_value tagged" where
  "DocResponse_SetUser x = union_set 4 (V_DocResponse_UserResponse x)"

definition NewDocResponseWithUser :: "string \<Rightarrow> DocResponse_value tagged" where
  "NewDocResponseWithUser x = union_new 4 (V_DocResponse_UserResponse x)"

lemma DocResponse_User:
  "abs_DocResponse m = Some y \<Longrightarrow> Tag_DocResponse y \<noteq> 4 \<Longrightarrow> DocResponse_GetUser m = Ret None"
  "abs_DocResponse m = Some (DocResponseWithUser x) \<Longrightarrow> DocResponse_GetUser m = Ret (Some x)"
  "abs_DocResponse (DocResponse_SetUser x m) = Some (DocResponseWithUser x)"
  "abs_DocResponse (NewDocResponseWithUser x) = Some (DocResponseWithUser x)"
  unfolding DocResponse_GetUser_def DocResponse_SetUser_def NewDocResponseWithUser_def
  by (rule docResponseUnion.accessors [where v = "V_DocResponse_UserResponse x" and x = "x"], (assumption | simp)+)+

definition DocResponse_GetThing :: "DocResponse_value tagged \<Rightarrow> string option outcome" where
  "DocResponse_GetThing = union_get 5 (\<lambda>v. case v of V_DocResponse_ThingResponse x \<Rightarrow> Some x | _ \<Rightarrow> None)"

definition DocResponse_SetThing :: "string \<Rightarrow> DocResponse_value tagged \<Rightarrow> DocResponse_value tagged" where
  "DocResponse_SetThing x = union_set 5 (V_DocResponse_ThingResponse x)"

definition NewDocResponseWithThing :: "string \<Rightarrow> DocResponse_value tagged" where
  "NewDocResponseWithThing x = union_new 5 (V_DocResponse_ThingResponse x)"

lemma DocResponse_Thing:
  "abs_DocResponse m = Some y \<Longrightarrow> Tag_DocResponse y \<noteq> 5 \<Longrightarrow> DocResponse_GetThing m = Ret None"
  "abs_DocResponse m = Some (DocResponseWithThing x) \<Longrightarrow> DocResponse_GetThing m = Ret (Some x)"
  "abs_DocResponse (DocResponse_SetThing x m) = Some (DocResponseWithThing x)"
  "abs_DocResponse (NewDocResponseWithThing x) = Some (DocResponseWithThing x)"
  unfolding DocResponse_GetThing_def DocResponse_SetThing_def NewDocResponseWithThing_def
  by (rule docResponseUnion.accessors [where v = "V_DocResponse_ThingResponse x" and x = "x"], (assumption | simp)+)+

definition panics_DocResponse :: "DocResponse_value tagged \<Rightarrow> bool" where
  "panics_DocResponse m \<longleftrightarrow> DocResponse_GetWrite m = Panic \<or>
     DocResponse_GetRead m = Panic \<or>
     DocResponse_GetDeleteResp m = Panic \<or>
     DocResponse_GetErr m = Panic \<or>
     DocResponse_GetUser m = Panic \<or>
     DocResponse_GetThing m = Panic"

lemma getters_DocResponse: "getters_safe con_DocResponse DocResponse_unpackValue panics_DocResponse"
  unfolding getters_safe_def panics_DocResponse_def de_Morgan_disj DocResponse_GetWrite_def DocResponse_GetRead_def DocResponse_GetDeleteResp_def DocResponse_GetErr_def
    DocResponse_GetUser_def DocResponse_GetThing_def
  by (intro allI impI conjI; rule docResponseUnion.get_no_panic, assumption, simp, case_tac v; simp)

section \<open>\<open>Message\<close>\<close>

text \<open>The types of its values.\<close>

datatype MicMessage_value =
    V_MicMessage_Hotword hotword
  | V_MicMessage_AudioData "16 word list"
  | V_MicMessage_Void
  | V_MicMessage_ConnectionResult connection_result
  | V_MicMessage_Filename string
  | V_MicMessage_IntentResult intent_result
  | V_MicMessage_IntentError intent_error
  | V_MicMessage_StreamOpen string

primrec con_MicMessage :: "byte \<Rightarrow> MicMessage_value \<Rightarrow> mic_message option" where
  "con_MicMessage t (V_MicMessage_Hotword x) = (if t = 0 then Some (MicMessageWithHotword x) else None)"
| "con_MicMessage t (V_MicMessage_AudioData x) = (if t = 1 then Some (MicMessageWithAudio x) else None)"
| "con_MicMessage t V_MicMessage_Void = (if t = 2 then Some (MicMessageWithAudioDone) else if t = 3 then Some (MicMessageWithConnectionCheck) else if t = 4 then Some (MicMessageWithStopSignal) else if t = 5 then Some (MicMessageWithTestStarted) else if t = 6 then Some (MicMessageWithStreamTimeout) else None)"
| "con_MicMessage t (V_MicMessage_ConnectionResult x) = (if t = 7 then Some (MicMessageWithConnectionResult x) else None)"
| "con_MicMessage t (V_MicMessage_Filename x) = (if t = 8 then Some (MicMessageWithDebugFile x) else None)"
| "con_MicMessage t (V_MicMessage_IntentResult x) = (if t = 9 then Some (MicMessageWithResult x) else None)"
| "con_MicMessage t (V_MicMessage_IntentError x) = (if t = 10 then Some (MicMessageWithError x) else None)"
| "con_MicMessage t (V_MicMessage_StreamOpen x) = (if t = 11 then Some (MicMessageWithStreamOpen x) else None)"

primrec value_of_MicMessage :: "mic_message \<Rightarrow> MicMessage_value option" where
  "value_of_MicMessage (MicMessageWithHotword x) = Some (V_MicMessage_Hotword x)"
| "value_of_MicMessage (MicMessageWithAudio x) = Some (V_MicMessage_AudioData x)"
| "value_of_MicMessage MicMessageWithAudioDone = Some (V_MicMessage_Void)"
| "value_of_MicMessage MicMessageWithConnectionCheck = Some (V_MicMessage_Void)"
| "value_of_MicMessage MicMessageWithStopSignal = Some (V_MicMessage_Void)"
| "value_of_MicMessage MicMessageWithTestStarted = Some (V_MicMessage_Void)"
| "value_of_MicMessage MicMessageWithStreamTimeout = Some (V_MicMessage_Void)"
| "value_of_MicMessage (MicMessageWithConnectionResult x) = Some (V_MicMessage_ConnectionResult x)"
| "value_of_MicMessage (MicMessageWithDebugFile x) = Some (V_MicMessage_Filename x)"
| "value_of_MicMessage (MicMessageWithResult x) = Some (V_MicMessage_IntentResult x)"
| "value_of_MicMessage (MicMessageWithError x) = Some (V_MicMessage_IntentError x)"
| "value_of_MicMessage (MicMessageWithStreamOpen x) = Some (V_MicMessage_StreamOpen x)"
| "value_of_MicMessage MicMessageInvalid = None"

primrec MicMessage_packValue :: "MicMessage_value \<Rightarrow> writer" where
  "MicMessage_packValue (V_MicMessage_Hotword x) = Pack_Hotword x"
| "MicMessage_packValue (V_MicMessage_AudioData x) = Pack_AudioData x"
| "MicMessage_packValue V_MicMessage_Void = Pack_Void ()"
| "MicMessage_packValue (V_MicMessage_ConnectionResult x) = Pack_ConnectionResult x"
| "MicMessage_packValue (V_MicMessage_Filename x) = Pack_Filename x"
| "MicMessage_packValue (V_MicMessage_IntentResult x) = Pack_IntentResult x"
| "MicMessage_packValue (V_MicMessage_IntentError x) = Pack_IntentError x"
| "MicMessage_packValue (V_MicMessage_StreamOpen x) = Pack_StreamOpen x"

primrec MicMessage_sizeValue :: "MicMessage_value \<Rightarrow> uint32" where
  "MicMessage_sizeValue (V_MicMessage_Hotword x) = Size_Hotword x"
| "MicMessage_sizeValue (V_MicMessage_AudioData x) = Size_AudioData x"
| "MicMessage_sizeValue V_MicMessage_Void = Size_Void ()"
| "MicMessage_sizeValue (V_MicMessage_ConnectionResult x) = Size_ConnectionResult x"
| "MicMessage_sizeValue (V_MicMessage_Filename x) = Size_Filename x"
| "MicMessage_sizeValue (V_MicMessage_IntentResult x) = Size_IntentResult x"
| "MicMessage_sizeValue (V_MicMessage_IntentError x) = Size_IntentError x"
| "MicMessage_sizeValue (V_MicMessage_StreamOpen x) = Size_StreamOpen x"

definition MicMessage_unpackValue :: "byte \<Rightarrow> MicMessage_value reader" where
  "MicMessage_unpackValue tag =
     (if tag = 0 then bindM Unpack_Hotword (\<lambda>x. returnM (V_MicMessage_Hotword x))
      else if tag = 1 then bindM Unpack_AudioData (\<lambda>x. returnM (V_MicMessage_AudioData x))
      else if tag = 2 then bindM Unpack_Void (\<lambda>x. returnM V_MicMessage_Void)
      else if tag = 3 then bindM Unpack_Void (\<lambda>x. returnM V_MicMessage_Void)
      else if tag = 4 then bindM Unpack_Void (\<lambda>x. returnM V_MicMessage_Void)
      else if tag = 5 then bindM Unpack_Void (\<lambda>x. returnM V_MicMessage_Void)
      else if tag = 6 then bindM Unpack_Void (\<lambda>x. returnM V_MicMessage_Void)
      else if tag = 7 then bindM Unpack_ConnectionResult (\<lambda>x. returnM (V_MicMessage_ConnectionResult x))
      else if tag = 8 then bindM Unpack_Filename (\<lambda>x. returnM (V_MicMessage_Filename x))
      else if tag = 9 then bindM Unpack_IntentResult (\<lambda>x. returnM (V_MicMessage_IntentResult x))
      else if tag = 10 then bindM Unpack_IntentError (\<lambda>x. returnM (V_MicMessage_IntentError x))
      else if tag = 11 then bindM Unpack_StreamOpen (\<lambda>x. returnM (V_MicMessage_StreamOpen x))
      else failM (Errorf ''invalid tag to unpackStruct''))"

lemma con_MicMessage_iff: "con_MicMessage t v = Some a \<longleftrightarrow> Tag_MicMessage a = t \<and> value_of_MicMessage a = Some v"
proof
  show "con_MicMessage t v = Some a \<Longrightarrow> Tag_MicMessage a = t \<and> value_of_MicMessage a = Some v"
    by (cases v) (auto split: if_splits prod.splits)
  show "Tag_MicMessage a = t \<and> value_of_MicMessage a = Some v \<Longrightarrow> con_MicMessage t v = Some a"
    by (cases a) (auto)
qed

lemma unpackStruct_MicMessage_value: "unpackStruct_MicMessage tag =
    bindM (MicMessage_unpackValue tag) (\<lambda>v. case con_MicMessage tag v of None \<Rightarrow> panicM | Some a \<Rightarrow> returnM a)"
  by (simp add: unpackStruct_MicMessage_def MicMessage_unpackValue_def bind_if bindM_assoc cong: if_cong)

interpretation micMessageUnion: tagged_union con_MicMessage MicMessageInvalid Tag_MicMessage value_of_MicMessage MicMessage_packValue MicMessage_sizeValue MicMessage_unpackValue
    Pack_MicMessage Unpack_MicMessage Size_MicMessage
proof unfold_locales
  fix a :: mic_message
  show "Tag_MicMessage a = 255 \<longleftrightarrow> a = MicMessageInvalid" "value_of_MicMessage a = None \<longleftrightarrow> a = MicMessageInvalid" by (cases a; simp)+
  show "Pack_MicMessage a = bindM (write_word (Tag_MicMessage a)) (\<lambda>_. case value_of_MicMessage a of None \<Rightarrow> returnM () | Some v \<Rightarrow> MicMessage_packValue v)"
    by (cases a) (simp_all add: Pack_MicMessage_def)
  show "Size_MicMessage a = (case value_of_MicMessage a of None \<Rightarrow> 1 | Some v \<Rightarrow> 1 + MicMessage_sizeValue v)" by (cases a) simp_all
  show "reader Unpack_MicMessage" by (rule reads)
qed (simp_all add: con_MicMessage_iff Unpack_MicMessage_def unpackStruct_MicMessage_value cong: if_cong)

abbreviation abs_MicMessage :: "MicMessage_value tagged \<Rightarrow> mic_message option" where
  "abs_MicMessage \<equiv> union_abs con_MicMessage MicMessageInvalid"

definition MicMessage_GetHotword :: "MicMessage_value tagged \<Rightarrow> hotword option outcome" where
  "MicMessage_GetHotword = union_get 0 (\<lambda>v. case v of V_MicMessage_Hotword x \<Rightarrow> Some x | _ \<Rightarrow> None)"

definition MicMessage_SetHotword :: "hotword \<Rightarrow> MicMessage_value tagged \<Rightarrow> MicMessage_value tagged" where
  "MicMessage_SetHotword x = union_set 0 (V_MicMessage_Hotword x)"

definition NewMicMessageWithHotword :: "hotword \<Rightarrow> MicMessage_value tagged" where
  "NewMicMessageWithHotword x = union_new 0 (V_MicMessage_Hotword x)"

lemma MicMessage_Hotword:
  "abs_MicMessage m = Some y \<Longrightarrow> Tag_MicMessage y \<noteq> 0 \<Longrightarrow> MicMessage_GetHotword m = Ret None"
  "abs_MicMessage m = Some (MicMessageWithHotword x) \<Longrightarrow> MicMessage_GetHotword m = Ret (Some x)"
  "abs_MicMessage (MicMessage_SetHotword x m) = Some (MicMessageWithHotword x)"
  "abs_MicMessage (NewMicMessageWithHotword x) = Some (MicMessageWithHotword x)"
  unfolding MicMessage_GetHotword_def MicMessage_SetHotword_def NewMicMessageWithHotword_def
  by (rule micMessageUnion.accessors [where v = "V_MicMessage_Hotword x" and x = "x"], (assumption | simp)+)+

definition MicMessage_GetAudio :: "MicMessage_value tagged \<Rightarrow> (16 word list) option outcome" where
  "MicMessage_GetAudio = union_get 1 (\<lambda>v. case v of V_MicMessage_AudioData x \<Rightarrow> Some x | _ \<Rightarrow> None)"

definition MicMessage_SetAudio :: "(16 word list) \<Rightarrow> MicMessage_value tagged \<Rightarrow> MicMessage_value tagged" where
  "MicMessage_SetAudio x = union_set 1 (V_MicMessage_AudioData x)"

definition NewMicMessageWithAudio :: "(16 word list) \<Rightarrow> MicMessage_value tagged" where
  "NewMicMessageWithAudio x = union_new 1 (V_MicMessage_AudioData x)"

lemma MicMessage_Audio:
  "abs_MicMessage m = Some y \<Longrightarrow> Tag_MicMessage y \<noteq> 1 \<Longrightarrow> MicMessage_GetAudio m = Ret None"
  "abs_MicMessage m = Some (MicMessageWithAudio x) \<Longrightarrow> MicMessage_GetAudio m = Ret (Some x)"
  "abs_MicMessage (MicMessage_SetAudio x m) = Some (MicMessageWithAudio x)"
  "abs_MicMessage (NewMicMessageWithAudio x) = Some (MicMessageWithAudio x)"
  unfolding MicMessage_GetAudio_def MicMessage_SetAudio_def NewMicMessageWithAudio_def
  by (rule micMessageUnion.accessors [where v = "V_MicMessage_AudioData x" and x = "x"], (assumption | simp)+)+

definition MicMessage_GetAudioDone :: "MicMessage_value tagged \<Rightarrow> unit option outcome" where
  "MicMessage_GetAudioDone = union_get 2 (\<lambda>v. case v of V_MicMessage_Void \<Rightarrow> Some () | _ \<Rightarrow> None)"

definition MicMessage_SetAudioDone :: "unit \<Rightarrow> MicMessage_value tagged \<Rightarrow> MicMessage_value tagged" where
  "MicMessage_SetAudioDone x = union_set 2 V_MicMessage_Void"

definition NewMicMessageWithAudioDone :: "unit \<Rightarrow> MicMessage_value tagged" where
  "NewMicMessageWithAudioDone x = union_new 2 V_MicMessage_Void"

lemma MicMessage_AudioDone:
  "abs_MicMessage m = Some y \<Longrightarrow> Tag_MicMessage y \<noteq> 2 \<Longrightarrow> MicMessage_GetAudioDone m = Ret None"
  "abs_MicMessage m = Some MicMessageWithAudioDone \<Longrightarrow> MicMessage_GetAudioDone m = Ret (Some ())"
  "abs_MicMessage (MicMessage_SetAudioDone x m) = Some MicMessageWithAudioDone"
  "abs_MicMessage (NewMicMessageWithAudioDone x) = Some MicMessageWithAudioDone"
  unfolding MicMessage_GetAudioDone_def MicMessage_SetAudioDone_def NewMicMessageWithAudioDone_def
  by (rule micMessageUnion.accessors [where v = "V_MicMessage_Void" and x = "()"], (assumption | simp)+)+

definition MicMessage_GetConnectionCheck :: "MicMessage_value tagged \<Rightarrow> unit option outcome" where
  "MicMessage_GetConnectionCheck = union_get 3 (\<lambda>v. case v of V_MicMessage_Void \<Rightarrow> Some () | _ \<Rightarrow> None)"

definition MicMessage_SetConnectionCheck :: "unit \<Rightarrow> MicMessage_value tagged \<Rightarrow> MicMessage_value tagged" where
  "MicMessage_SetConnectionCheck x = union_set 3 V_MicMessage_Void"

definition NewMicMessageWithConnectionCheck :: "unit \<Rightarrow> MicMessage_value tagged" where
  "NewMicMessageWithConnectionCheck x = union_new 3 V_MicMessage_Void"

lemma MicMessage_ConnectionCheck:
  "abs_MicMessage m = Some y \<Longrightarrow> Tag_MicMessage y \<noteq> 3 \<Longrightarrow> MicMessage_GetConnectionCheck m = Ret None"
  "abs_MicMessage m = Some MicMessageWithConnectionCheck \<Longrightarrow> MicMessage_GetConnectionCheck m = Ret (Some ())"
  "abs_MicMessage (MicMessage_SetConnectionCheck x m) = Some MicMessageWithConnectionCheck"
  "abs_MicMessage (NewMicMessageWithConnectionCheck x) = Some MicMessageWithConnectionCheck"
  unfolding MicMessage_GetConnectionCheck_def MicMessage_SetConnectionCheck_def NewMicMessageWithConnectionCheck_def
  by (rule micMessageUnion.accessors [where v = "V_MicMessage_Void" and x = "()"], (assumption | simp)+)+

definition MicMessage_GetStopSignal :: "MicMessage_value tagged \<Rightarrow> unit option outcome" where
  "MicMessage_GetStopSignal = union_get 4 (\<lambda>v. case v of V_MicMessage_Void \<Rightarrow> Some () | _ \<Rightarrow> None)"

definition MicMessage_SetStopSignal :: "unit \<Rightarrow> MicMessage_value tagged \<Rightarrow> MicMessage_value tagged" where
  "MicMessage_SetStopSignal x = union_set 4 V_MicMessage_Void"

definition NewMicMessageWithStopSignal :: "unit \<Rightarrow> MicMessage_value tagged" where
  "NewMicMessageWithStopSignal x = union_new 4 V_MicMessage_Void"

lemma MicMessage_StopSignal:
  "abs_MicMessage m = Some y \<Longrightarrow> Tag_MicMessage y \<noteq> 4 \<Longrightarrow> MicMessage_GetStopSignal m = Ret None"
  "abs_MicMessage m = Some MicMessageWithStopSignal \<Longrightarrow> MicMessage_GetStopSignal m = Ret (Some ())"
  "abs_MicMessage (MicMessage_SetStopSignal x m) = Some MicMessageWithStopSignal"
  "abs_MicMessage (NewMicMessageWithStopSignal x) = Some MicMessageWithStopSignal"
  unfolding MicMessage_GetStopSignal_def MicMessage_SetStopSignal_def NewMicMessageWithStopSignal_def
  by (rule micMessageUnion.accessors [where v = "V_MicMessage_Void" and x = "()"], (assumption | simp)+)+

definition MicMessage_GetTestStarted :: "MicMessage_value tagged \<Rightarrow> unit option outcome" where
  "MicMessage_GetTestStarted = union_get 5 (\<lambda>v. case v of V_MicMessage_Void \<Rightarrow> Some () | _ \<Rightarrow> None)"

definition MicMessage_SetTestStarted :: "unit \<Rightarrow> MicMessage_value tagged \<Rightarrow> MicMessage_value tagged" where
  "MicMessage_SetTestStarted x = union_set 5 V_MicMessage_Void"

definition NewMicMessageWithTestStarted :: "unit \<Rightarrow> MicMessage_value tagged" where
  "NewMicMessageWithTestStarted x = union_new 5 V_MicMessage_Void"

lemma MicMessage_TestStarted:
  "abs_MicMessage m = Some y \<Longrightarrow> Tag_MicMessage y \<noteq> 5 \<Longrightarrow> MicMessage_GetTestStarted m = Ret None"
  "abs_MicMessage m = Some MicMessageWithTestStarted \<Longrightarrow> MicMessage_GetTestStarted m = Ret (Some ())"
  "abs_MicMessage (MicMessage_SetTestStarted x m) = Some MicMessageWithTestStarted"
  "abs_MicMessage (NewMicMessageWithTestStarted x) = Some MicMessageWithTestStarted"
  unfolding MicMessage_GetTestStarted_def MicMessage_SetTestStarted_def NewMicMessageWithTestStarted_def
  by (rule micMessageUnion.accessors [where v = "V_MicMessage_Void" and x = "()"], (assumption | simp)+)+

definition MicMessage_GetStreamTimeout :: "MicMessage_value tagged \<Rightarrow> unit option outcome" where
  "MicMessage_GetStreamTimeout = union_get 6 (\<lambda>v. case v of V_MicMessage_Void \<Rightarrow> Some () | _ \<Rightarrow> None)"

definition MicMessage_SetStreamTimeout :: "unit \<Rightarrow> MicMessage_value tagged \<Rightarrow> MicMessage_value tagged" where
  "MicMessage_SetStreamTimeout x = union_set 6 V_MicMessage_Void"

definition NewMicMessageWithStreamTimeout :: "unit \<Rightarrow> MicMessage_value tagged" where
  "NewMicMessageWithStreamTimeout x = union_new 6 V_MicMessage_Void"

lemma MicMessage_StreamTimeout:
  "abs_MicMessage m = Some y \<Longrightarrow> Tag_MicMessage y \<noteq> 6 \<Longrightarrow> MicMessage_GetStreamTimeout m = Ret None"
  "abs_MicMessage m = Some MicMessageWithStreamTimeout \<Longrightarrow> MicMessage_GetStreamTimeout m = Ret (Some ())"
  "abs_MicMessage (MicMessage_SetStreamTimeout x m) = Some MicMessageWithStreamTimeout"
  "abs_MicMessage (NewMicMessageWithStreamTimeout x) = Some MicMessageWithStreamTimeout"
  unfolding MicMessage_GetStreamTimeout_def MicMessage_SetStreamTimeout_def NewMicMessageWithStreamTimeout_def
  by (rule micMessageUnion.accessors [where v = "V_MicMessage_Void" and x = "()"], (assumption | simp)+)+

definition MicMessage_GetConnectionResult :: "MicMessage_value tagged \<Rightarrow> connection_result option outcome" where
  "MicMessage_GetConnectionResult = union_get 7 (\<lambda>v. case v of V_MicMessage_ConnectionResult x \<Rightarrow> Some x | _ \<Rightarrow> None)"

definition MicMessage_SetConnectionResult :: "connection_result \<Rightarrow> MicMessage_value tagged \<Rightarrow> MicMessage_value tagged" where
  "MicMessage_SetConnectionResult x = union_set 7 (V_MicMessage_ConnectionResult x)"

definition NewMicMessageWithConnectionResult :: "connection_result \<Rightarrow> MicMessage_value tagged" where
  "NewMicMessageWithConnectionResult x = union_new 7 (V_MicMessage_ConnectionResult x)"

lemma MicMessage_ConnectionResult:
  "abs_MicMessage m = Some y \<Longrightarrow> Tag_MicMessage y \<noteq> 7 \<Longrightarrow> MicMessage_GetConnectionResult m = Ret None"
  "abs_MicMessage m = Some (MicMessageWithConnectionResult x) \<Longrightarrow> MicMessage_GetConnectionResult m = Ret (Some x)"
  "abs_MicMessage (MicMessage_SetConnectionResult x m) = Some (MicMessageWithConnectionResult x)"
  "abs_MicMessage (NewMicMessageWithConnectionResult x) = Some (MicMessageWithConnectionResult x)"
  unfolding MicMessage_GetConnectionResult_def MicMessage_SetConnectionResult_def NewMicMessageWithConnectionResult_def
  by (rule micMessageUnion.accessors [where v = "V_MicMessage_ConnectionResult x" and x = "x"], (assumption | simp)+)+

definition MicMessage_GetDebugFile :: "MicMessage_value tagged \<Rightarrow> string option outcome" where
  "MicMessage_GetDebugFile = union_get 8 (\<lambda>v. case v of V_MicMessage_Filename x \<Rightarrow> Some x | _ \<Rightarrow> None)"

definition MicMessage_SetDebugFile :: "string \<Rightarrow> MicMessage_value tagged \<Rightarrow> MicMessage_value tagged" where
  "MicMessage_SetDebugFile x = union_set 8 (V_MicMessage_Filename x)"

definition NewMicMessageWithDebugFile :: "string \<Rightarrow> MicMessage_value tagged" where
  "NewMicMessageWithDebugFile x = union_new 8 (V_MicMessage_Filename x)"

lemma MicMessage_DebugFile:
  "abs_MicMessage m = Some y \<Longrightarrow> Tag_MicMessage y \<noteq> 8 \<Longrightarrow> MicMessage_GetDebugFile m = Ret None"
  "abs_MicMessage m = Some (MicMessageWithDebugFile x) \<Longrightarrow> MicMessage_GetDebugFile m = Ret (Some x)"
  "abs_MicMessage (MicMessage_SetDebugFile x m) = Some (MicMessageWithDebugFile x)"
  "abs_MicMessage (NewMicMessageWithDebugFile x) = Some (MicMessageWithDebugFile x)"
  unfolding MicMessage_GetDebugFile_def MicMessage_SetDebugFile_def NewMicMessageWithDebugFile_def
  by (rule micMessageUnion.accessors [where v = "V_MicMessage_Filename x" and x = "x"], (assumption | simp)+)+

definition MicMessage_GetResult :: "MicMessage_value tagged \<Rightarrow> intent_result option outcome" where
  "MicMessage_GetResult = union_get 9 (\<lambda>v. case v of V_MicMessage_IntentResult x \<Rightarrow> Some x | _ \<Rightarrow> None)"

definition MicMessage_SetResult :: "intent_result \<Rightarrow> MicMessage_value tagged \<Rightarrow> MicMessage_value tagged" where
  "MicMessage_SetResult x = union_set 9 (V_MicMessage_IntentResult x)"

definition NewMicMessageWithResult :: "intent_result \<Rightarrow> MicMessage_value tagged" where
  "NewMicMessageWithResult x = union_new 9 (V_MicMessage_IntentResult x)"

lemma MicMessage_Result:
  "abs_MicMessage m = Some y \<Longrightarrow> Tag_MicMessage y \<noteq> 9 \<Longrightarrow> MicMessage_GetResult m = Ret None"
  "abs_MicMessage m = Some (MicMessageWithResult x) \<Longrightarrow> MicMessage_GetResult m = Ret (Some x)"
  "abs_MicMessage (MicMessage_SetResult x m) = Some (MicMessageWithResult x)"
  "abs_MicMessage (NewMicMessageWithResult x) = Some (MicMessageWithResult x)"
  unfolding MicMessage_GetResult_def MicMessage_SetResult_def NewMicMessageWithResult_def
  by (rule micMessageUnion.accessors [where v = "V_MicMessage_IntentResult x" and x = "x"], (assumption | simp)+)+

definition MicMessage_GetError :: "MicMessage_value tagged \<Rightarrow> intent_error option outcome" where
  "MicMessage_GetError = union_get 10 (\<lambda>v. case v of V_MicMessage_IntentError x \<Rightarrow> Some x | _ \<Rightarrow> None)"

definition MicMessage_SetError :: "intent_error \<Rightarrow> MicMessage_value tagged \<Rightarrow> MicMessage_value tagged" where
  "MicMessage_SetError x = union_set 10 (V_MicMessage_IntentError x)"

definition NewMicMessageWithError :: "intent_error \<Rightarrow> MicMessage_value tagged" where
  "NewMicMessageWithError x = union_new 10 (V_MicMessage_IntentError x)"

lemma MicMessage_Error:
  "abs_MicMessage m = Some y \<Longrightarrow> Tag_MicMessage y \<noteq> 10 \<Longrightarrow> MicMessage_GetError m = Ret None"
  "abs_MicMessage m = Some (MicMessageWithError x) \<Longrightarrow> MicMessage_GetError m = Ret (Some x)"
  "abs_MicMessage (MicMessage_SetError x m) = Some (MicMessageWithError x)"
  "abs_MicMessage (NewMicMessageWithError x) = Some (MicMessageWithError x)"
  unfolding MicMessage_GetError_def MicMessage_SetError_def NewMicMessageWithError_def
  by (rule micMessageUnion.accessors [where v = "V_MicMessage_IntentError x" and x = "x"], (assumption | simp)+)+

definition MicMessage_GetStreamOpen :: "MicMessage_value tagged \<Rightarrow> string option outcome" where
  "MicMessage_GetStreamOpen = union_get 11 (\<lambda>v. case v of V_MicMessage_StreamOpen x \<Rightarrow> Some x | _ \<Rightarrow> None)"

definition MicMessage_SetStreamOpen :: "string \<Rightarrow> MicMessage_value tagged \<Rightarrow> MicMessage_value tagged" where
  "MicMessage_SetStreamOpen x = union_set 11 (V_MicMessage_StreamOpen x)"

definition NewMicMessageWithStreamOpen :: "string \<Rightarrow> MicMessage_value tagged" where
  "NewMicMessageWithStreamOpen x = union_new 11 (V_MicMessage_StreamOpen x)"

lemma MicMessage_StreamOpen:
  "abs_MicMessage m = Some y \<Longrightarrow> Tag_MicMessage y \<noteq> 11 \<Longrightarrow> MicMessage_GetStreamOpen m = Ret None"
  "abs_MicMessage m = Some (MicMessageWithStreamOpen x) \<Longrightarrow> MicMessage_GetStreamOpen m = Ret (Some x)"
  "abs_MicMessage (MicMessage_SetStreamOpen x m) = Some (MicMessageWithStreamOpen x)"
  "abs_MicMessage (NewMicMessageWithStreamOpen x) = Some (MicMessageWithStreamOpen x)"
  unfolding MicMessage_GetStreamOpen_def MicMessage_SetStreamOpen_def NewMicMessageWithStreamOpen_def
  by (rule micMessageUnion.accessors [where v = "V_MicMessage_StreamOpen x" and x = "x"], (assumption | simp)+)+

definition panics_MicMessage :: "MicMessage_value tagged \<Rightarrow> bool" where
  "panics_MicMessage m \<longleftrightarrow> MicMessage_GetHotword m = Panic \<or>
     MicMessage_GetAudio m = Panic \<or>
     MicMessage_GetAudioDone m = Panic \<or>
     MicMessage_GetConnectionCheck m = Panic \<or>
     MicMessage_GetStopSignal m = Panic \<or>
     MicMessage_GetTestStarted m = Panic \<or>
     MicMessage_GetStreamTimeout m = Panic \<or>
     MicMessage_GetConnectionResult m = Panic \<or>
     MicMessage_GetDebugFile m = Panic \<or>
     MicMessage_GetResult m = Panic \<or>
     MicMessage_GetError m = Panic \<or>
     MicMessage_GetStreamOpen m = Panic"

lemma getters_MicMessage: "getters_safe con_MicMessage MicMessage_unpackValue panics_MicMessage"
  unfolding getters_safe_def panics_MicMessage_def de_Morgan_disj MicMessage_GetHotword_def MicMessage_GetAudio_def MicMessage_GetAudioDone_def MicMessage_GetConnectionCheck_def
    MicMessage_GetStopSignal_def MicMessage_GetTestStarted_def MicMessage_GetStreamTimeout_def MicMessage_GetConnectionResult_def
    MicMessage_GetDebugFile_def MicMessage_GetResult_def MicMessage_GetError_def MicMessage_GetStreamOpen_def
  by (intro allI impI conjI; rule micMessageUnion.get_no_panic, assumption, simp, case_tac v; simp)

section \<open>\<open>LogCollectorRequest\<close>\<close>

text \<open>The types of its values.\<close>

datatype LogCollectorRequest_value =
    V_LogCollectorRequest_UploadRequest string

primrec con_LogCollectorRequest :: "byte \<Rightarrow> LogCollectorRequest_value \<Rightarrow> log_collector_request option" where
  "con_LogCollectorRequest t (V_LogCollectorRequest_UploadRequest x) = (if t = 0 then Some (LogCollectorRequestWithUpload x) else None)"

primrec value_of_LogCollectorRequest :: "log_collector_request \<Rightarrow> LogCollectorRequest_value option" where
  "value_of_LogCollectorRequest (LogCollectorRequestWithUpload x) = Some (V_LogCollectorRequest_UploadRequest x)"
| "value_of_LogCollectorRequest LogCollectorRequestInvalid = None"

primrec LogCollectorRequest_packValue :: "LogCollectorRequest_value \<Rightarrow> writer" where
  "LogCollectorRequest_packValue (V_LogCollectorRequest_UploadRequest x) = Pack_UploadRequest x"

primrec LogCollectorRequest_sizeValue :: "LogCollectorRequest_value \<Rightarrow> uint32" where
  "LogCollectorRequest_sizeValue (V_LogCollectorRequest_UploadRequest x) = Size_UploadRequest x"

definition LogCollectorRequest_unpackValue :: "byte \<Rightarrow> LogCollectorRequest_value reader" where
  "LogCollectorRequest_unpackValue tag =
     (if tag = 0 then bindM Unpack_UploadRequest (\<lambda>x. returnM (V_LogCollectorRequest_UploadRequest x))
      else failM (Errorf ''invalid tag to unpackStruct''))"

lemma con_LogCollectorRequest_iff: "con_LogCollectorRequest t v = Some a \<longleftrightarrow> Tag_LogCollectorRequest a = t \<and> value_of_LogCollectorRequest a = Some v"
proof
  show "con_LogCollectorRequest t v = Some a \<Longrightarrow> Tag_LogCollectorRequest a = t \<and> value_of_LogCollectorRequest a = Some v"
    by (cases v) (auto split: if_splits prod.splits)
  show "Tag_LogCollectorRequest a = t \<and> value_of_LogCollectorRequest a = Some v \<Longrightarrow> con_LogCollectorRequest t v = Some a"
    by (cases a) (auto)
qed

lemma unpackStruct_LogCollectorRequest_value: "unpackStruct_LogCollectorRequest tag =
    bindM (LogCollectorRequest_unpackValue tag) (\<lambda>v. case con_LogCollectorRequest tag v of None \<Rightarrow> panicM | Some a \<Rightarrow> returnM a)"
  by (simp add: unpackStruct_LogCollectorRequest_def LogCollectorRequest_unpackValue_def bind_if bindM_assoc cong: if_cong)

interpretation logCollectorRequestUnion: tagged_union con_LogCollectorRequest LogCollectorRequestInvalid Tag_LogCollectorRequest value_of_LogCollectorRequest LogCollectorRequest_packValue LogCollectorRequest_sizeValue LogCollectorRequest_unpackValue
    Pack_LogCollectorRequest Unpack_LogCollectorRequest Size_LogCollectorRequest
proof unfold_locales
  fix a :: log_collector_request
  show "Tag_LogCollectorRequest a = 255 \<longleftrightarrow> a = LogCollectorRequestInvalid" "value_of_LogCollectorRequest a = None \<longleftrightarrow> a = LogCollectorRequestInvalid" by (cases a; simp)+
  show "Pack_LogCollectorRequest a = bindM (write_word (Tag_LogCollectorRequest a)) (\<lambda>_. case value_of_LogCollectorRequest a of None \<Rightarrow> returnM () | Some v \<Rightarrow> LogCollectorRequest_packValue v)"
    by (cases a) (simp_all add: Pack_LogCollectorRequest_def)
  show "Size_LogCollectorRequest a = (case value_of_LogCollectorRequest a of None \<Rightarrow> 1 | Some v \<Rightarrow> 1 + LogCollectorRequest_sizeValue v)" by (cases a) simp_all
  show "reader Unpack_LogCollectorRequest" by (rule reads)
qed (simp_all add: con_LogCollectorRequest_iff Unpack_LogCollectorRequest_def unpackStruct_LogCollectorRequest_value cong: if_cong)

abbreviation abs_LogCollectorRequest :: "LogCollectorRequest_value tagged \<Rightarrow> log_collector_request option" where
  "abs_LogCollectorRequest \<equiv> union_abs con_LogCollectorRequest LogCollectorRequestInvalid"

definition LogCollectorRequest_GetUpload :: "LogCollectorRequest_value tagged \<Rightarrow> string option outcome" where
  "LogCollectorRequest_GetUpload = union_get 0 (\<lambda>v. case v of V_LogCollectorRequest_UploadRequest x \<Rightarrow> Some x)"

definition LogCollectorRequest_SetUpload :: "string \<Rightarrow> LogCollectorRequest_value tagged \<Rightarrow> LogCollectorRequest_value tagged" where
  "LogCollectorRequest_SetUpload x = union_set 0 (V_LogCollectorRequest_UploadRequest x)"

definition NewLogCollectorRequestWithUpload :: "string \<Rightarrow> LogCollectorRequest_value tagged" where
  "NewLogCollectorRequestWithUpload x = union_new 0 (V_LogCollectorRequest_UploadRequest x)"

lemma LogCollectorRequest_Upload:
  "abs_LogCollectorRequest m = Some y \<Longrightarrow> Tag_LogCollectorRequest y \<noteq> 0 \<Longrightarrow> LogCollectorRequest_GetUpload m = Ret None"
  "abs_LogCollectorRequest m = Some (LogCollectorRequestWithUpload x) \<Longrightarrow> LogCollectorRequest_GetUpload m = Ret (Some x)"
  "abs_LogCollectorRequest (LogCollectorRequest_SetUpload x m) = Some (LogCollectorRequestWithUpload x)"
  "abs_LogCollectorRequest (NewLogCollectorRequestWithUpload x) = Some (LogCollectorRequestWithUpload x)"
  unfolding LogCollectorRequest_GetUpload_def LogCollectorRequest_SetUpload_def NewLogCollectorRequestWithUpload_def
  by (rule logCollectorRequestUnion.accessors [where v = "V_LogCollectorRequest_UploadRequest x" and x = "x"], (assumption | simp)+)+

definition panics_LogCollectorRequest :: "LogCollectorRequest_value tagged \<Rightarrow> bool" where
  "panics_LogCollectorRequest m \<longleftrightarrow> LogCollectorRequest_GetUpload m = Panic"

lemma getters_LogCollectorRequest: "getters_safe con_LogCollectorRequest LogCollectorRequest_unpackValue panics_LogCollectorRequest"
  unfolding getters_safe_def panics_LogCollectorRequest_def de_Morgan_disj LogCollectorRequest_GetUpload_def
  by (intro allI impI conjI; rule logCollectorRequestUnion.get_no_panic, assumption, simp, case_tac v; simp)

section \<open>\<open>LogCollectorResponse\<close>\<close>

text \<open>The types of its values.\<close>

datatype LogCollectorResponse_value =
    V_LogCollectorResponse_UploadResponse string
  | V_LogCollectorResponse_LogCollectorErrorResponse byte

primrec con_LogCollectorResponse :: "byte \<Rightarrow> LogCollectorResponse_value \<Rightarrow> log_collector_response option" where
  "con_LogCollectorResponse t (V_LogCollectorResponse_UploadResponse x) = (if t = 0 then Some (LogCollectorResponseWithUpload x) else None)"
| "con_LogCollectorResponse t (V_LogCollectorResponse_LogCollectorErrorResponse x) = (if t = 1 then Some (LogCollectorResponseWithErr x) else None)"

primrec value_of_LogCollectorResponse :: "log_collector_response \<Rightarrow> LogCollectorResponse_value option" where
  "value_of_LogCollectorResponse (LogCollectorResponseWithUpload x) = Some (V_LogCollectorResponse_UploadResponse x)"
| "value_of_LogCollectorResponse (LogCollectorResponseWithErr x) = Some (V_LogCollectorResponse_LogCollectorErrorResponse x)"
| "value_of_LogCollectorResponse LogCollectorResponseInvalid = None"

primrec LogCollectorResponse_packValue :: "LogCollectorResponse_value \<Rightarrow> writer" where
  "LogCollectorResponse_packValue (V_LogCollectorResponse_UploadResponse x) = Pack_UploadResponse x"
| "LogCollectorResponse_packValue (V_LogCollectorResponse_LogCollectorErrorResponse x) = Pack_LogCollectorErrorResponse x"

primrec LogCollectorResponse_sizeValue :: "LogCollectorResponse_value \<Rightarrow> uint32" where
  "LogCollectorResponse_sizeValue (V_LogCollectorResponse_UploadResponse x) = Size_UploadResponse x"
| "LogCollectorResponse_sizeValue (V_LogCollectorResponse_LogCollectorErrorResponse x) = Size_LogCollectorErrorResponse x"

definition LogCollectorResponse_unpackValue :: "byte \<Rightarrow> LogCollectorResponse_value reader" where
  "LogCollectorResponse_unpackValue tag =
     (if tag = 0 then bindM Unpack_UploadResponse (\<lambda>x. returnM (V_LogCollectorResponse_UploadResponse x))
      else if tag = 1 then bindM Unpack_LogCollectorErrorResponse (\<lambda>x. returnM (V_LogCollectorResponse_LogCollectorErrorResponse x))
      else failM (Errorf ''invalid tag to unpackStruct''))"

lemma con_LogCollectorResponse_iff: "con_LogCollectorResponse t v = Some a \<longleftrightarrow> Tag_LogCollectorResponse a = t \<and> value_of_LogCollectorResponse a = Some v"
proof
  show "con_LogCollectorResponse t v = Some a \<Longrightarrow> Tag_LogCollectorResponse a = t \<and> value_of_LogCollectorResponse a = Some v"
    by (cases v) (auto split: if_splits prod.splits)
  show "Tag_LogCollectorResponse a = t \<and> value_of_LogCollectorResponse a = Some v \<Longrightarrow> con_LogCollectorResponse t v = Some a"
    by (cases a) (auto)
qed

lemma unpackStruct_LogCollectorResponse_value: "unpackStruct_LogCollectorResponse tag =
    bindM (LogCollectorResponse_unpackValue tag) (\<lambda>v. case con_LogCollectorResponse tag v of None \<Rightarrow> panicM | Some a \<Rightarrow> returnM a)"
  by (simp add: unpackStruct_LogCollectorResponse_def LogCollectorResponse_unpackValue_def bind_if bindM_assoc cong: if_cong)

interpretation logCollectorResponseUnion: tagged_union con_LogCollectorResponse LogCollectorResponseInvalid Tag_LogCollectorResponse value_of_LogCollectorResponse LogCollectorResponse_packValue LogCollectorResponse_sizeValue LogCollectorResponse_unpackValue
    Pack_LogCollectorResponse Unpack_LogCollectorResponse Size_LogCollectorResponse
proof unfold_locales
  fix a :: log_collector_response
  show "Tag_LogCollectorResponse a = 255 \<longleftrightarrow> a = LogCollectorResponseInvalid" "value_of_LogCollectorResponse a = None \<longleftrightarrow> a = LogCollectorResponseInvalid" by (cases a; simp)+
  show "Pack_LogCollectorResponse a = bindM (write_word (Tag_LogCollectorResponse a)) (\<lambda>_. case value_of_LogCollectorResponse a of None \<Rightarrow> returnM () | Some v \<Rightarrow> LogCollectorResponse_packValue v)"
    by (cases a) (simp_all add: Pack_LogCollectorResponse_def)
  show "Size_LogCollectorResponse a = (case value_of_LogCollectorResponse a of None \<Rightarrow> 1 | Some v \<Rightarrow> 1 + LogCollectorResponse_sizeValue v)" by (cases a) simp_all
  show "reader Unpack_LogCollectorResponse" by (rule reads)
qed (simp_all add: con_LogCollectorResponse_iff Unpack_LogCollectorResponse_def unpackStruct_LogCollectorResponse_value cong: if_cong)

abbreviation abs_LogCollectorResponse :: "LogCollectorResponse_value tagged \<Rightarrow> log_collector_response option" where
  "abs_LogCollectorResponse \<equiv> union_abs con_LogCollectorResponse LogCollectorResponseInvalid"

definition LogCollectorResponse_GetUpload :: "LogCollectorResponse_value tagged \<Rightarrow> string option outcome" where
  "LogCollectorResponse_GetUpload = union_get 0 (\<lambda>v. case v of V_LogCollectorResponse_UploadResponse x \<Rightarrow> Some x | _ \<Rightarrow> None)"

definition LogCollectorResponse_SetUpload :: "string \<Rightarrow> LogCollectorResponse_value tagged \<Rightarrow> LogCollectorResponse_value tagged" where
  "LogCollectorResponse_SetUpload x = union_set 0 (V_LogCollectorResponse_UploadResponse x)"

definition NewLogCollectorResponseWithUpload :: "string \<Rightarrow> LogCollectorResponse_value tagged" where
  "NewLogCollectorResponseWithUpload x = union_new 0 (V_LogCollectorResponse_UploadResponse x)"

lemma LogCollectorResponse_Upload:
  "abs_LogCollectorResponse m = Some y \<Longrightarrow> Tag_LogCollectorResponse y \<noteq> 0 \<Longrightarrow> LogCollectorResponse_GetUpload m = Ret None"
  "abs_LogCollectorResponse m = Some (LogCollectorResponseWithUpload x) \<Longrightarrow> LogCollectorResponse_GetUpload m = Ret (Some x)"
  "abs_LogCollectorResponse (LogCollectorResponse_SetUpload x m) = Some (LogCollectorResponseWithUpload x)"
  "abs_LogCollectorResponse (NewLogCollectorResponseWithUpload x) = Some (LogCollectorResponseWithUpload x)"
  unfolding LogCollectorResponse_GetUpload_def LogCollectorResponse_SetUpload_def NewLogCollectorResponseWithUpload_def
  by (rule logCollectorResponseUnion.accessors [where v = "V_LogCollectorResponse_UploadResponse x" and x = "x"], (assumption | simp)+)+

definition LogCollectorResponse_GetErr :: "LogCollectorResponse_value tagged \<Rightarrow> byte option outcome" where
  "LogCollectorResponse_GetErr = union_get 1 (\<lambda>v. case v of V_LogCollectorResponse_LogCollectorErrorResponse x \<Rightarrow> Some x | _ \<Rightarrow> None)"

definition LogCollectorResponse_SetErr :: "byte \<Rightarrow> LogCollectorResponse_value tagged \<Rightarrow> LogCollectorResponse_value tagged" where
  "LogCollectorResponse_SetErr x = union_set 1 (V_LogCollectorResponse_LogCollectorErrorResponse x)"

definition NewLogCollectorResponseWithErr :: "byte \<Rightarrow> LogCollectorResponse_value tagged" where
  "NewLogCollectorResponseWithErr x = union_new 1 (V_LogCollectorResponse_LogCollectorErrorResponse x)"

lemma LogCollectorResponse_Err:
  "abs_LogCollectorResponse m = Some y \<Longrightarrow> Tag_LogCollectorResponse y \<noteq> 1 \<Longrightarrow> LogCollectorResponse_GetErr m = Ret None"
  "abs_LogCollectorResponse m = Some (LogCollectorResponseWithErr x) \<Longrightarrow> LogCollectorResponse_GetErr m = Ret (Some x)"
  "abs_LogCollectorResponse (LogCollectorResponse_SetErr x m) = Some (LogCollectorResponseWithErr x)"
  "abs_LogCollectorResponse (NewLogCollectorResponseWithErr x) = Some (LogCollectorResponseWithErr x)"
  unfolding LogCollectorResponse_GetErr_def LogCollectorResponse_SetErr_def NewLogCollectorResponseWithErr_def
  by (rule logCollectorResponseUnion.accessors [where v = "V_LogCollectorResponse_LogCollectorErrorResponse x" and x = "x"], (assumption | simp)+)+

definition panics_LogCollectorResponse :: "LogCollectorResponse_value tagged \<Rightarrow> bool" where
  "panics_LogCollectorResponse m \<longleftrightarrow> LogCollectorResponse_GetUpload m = Panic \<or>
     LogCollectorResponse_GetErr m = Panic"

lemma getters_LogCollectorResponse: "getters_safe con_LogCollectorResponse LogCollectorResponse_unpackValue panics_LogCollectorResponse"
  unfolding getters_safe_def panics_LogCollectorResponse_def de_Morgan_disj LogCollectorResponse_GetUpload_def LogCollectorResponse_GetErr_def
  by (intro allI impI conjI; rule logCollectorResponseUnion.get_no_panic, assumption, simp, case_tac v; simp)

end
