(* ===== verification/Unions_Engine.thy ===== *)
theory Unions_Engine
  imports Clad_From_Robot Clad_Unions
begin

text \<open>
  The unions of the messages to and from the engine as the generated code of \<open>internal/clad/gateway\<close> keeps
  them, with their getters, setters and constructors.
\<close>

section \<open>\<open>ActionCompletedUnion\<close>\<close>

text \<open>The types of its values.\<close>

datatype ActionCompletedUnion_value =
    V_ActionCompletedUnion_AnimationCompleted string

primrec con_ActionCompletedUnion :: "byte \<Rightarrow> ActionCompletedUnion_value \<Rightarrow> action_completed option" where
  "con_ActionCompletedUnion t (V_ActionCompletedUnion_AnimationCompleted x) = (if t = 1 then Some (AnimationCompleted x) else None)"

primrec value_of_ActionCompletedUnion :: "action_completed \<Rightarrow> ActionCompletedUnion_value option" where
  "value_of_ActionCompletedUnion (AnimationCompleted x) = Some (V_ActionCompletedUnion_AnimationCompleted x)"
| "value_of_ActionCompletedUnion ActionCompletedInvalid = None"

primrec ActionCompletedUnion_packValue :: "ActionCompletedUnion_value \<Rightarrow> writer" where
  "ActionCompletedUnion_packValue (V_ActionCompletedUnion_AnimationCompleted x) = Pack_AnimationCompleted x"

primrec ActionCompletedUnion_sizeValue :: "ActionCompletedUnion_value \<Rightarrow> uint32" where
  "ActionCompletedUnion_sizeValue (V_ActionCompletedUnion_AnimationCompleted x) = Size_AnimationCompleted x"

definition ActionCompletedUnion_unpackValue :: "byte \<Rightarrow> ActionCompletedUnion_value reader" where
  "ActionCompletedUnion_unpackValue tag =
     (if tag = 1 then bindM Unpack_AnimationCompleted (\<lambda>x. returnM (V_ActionCompletedUnion_AnimationCompleted x))
      else failM (Errorf ''invalid tag to unpackStruct''))"

lemma con_ActionCompletedUnion_iff: "con_ActionCompletedUnion t v = Some a \<longleftrightarrow> Tag_ActionCompletedUnion a = t \<and> value_of_ActionCompletedUnion a = Some v"
proof
  show "con_ActionCompletedUnion t v = Some a \<Longrightarrow> Tag_ActionCompletedUnion a = t \<and> value_of_ActionCompletedUnion a = Some v"
    by (cases v) (auto split: if_splits prod.splits)
  show "Tag_ActionCompletedUnion a = t \<and> value_of_ActionCompletedUnion a = Some v \<Longrightarrow> con_ActionCompletedUnion t v = Some a"
    by (cases a) (auto)
qed

lemma unpackStruct_ActionCompletedUnion_value: "unpackStruct_ActionCompletedUnion tag =
    bindM (ActionCompletedUnion_unpackValue tag) (\<lambda>v. case con_ActionCompletedUnion tag v of None \<Rightarrow> panicM | Some a \<Rightarrow> returnM a)"
  by (simp add: unpackStruct_ActionCompletedUnion_def ActionCompletedUnion_unpackValue_def bind_if bindM_assoc cong: if_cong)

interpretation actionCompletedUnionUnion: tagged_union con_ActionCompletedUnion ActionCompletedInvalid Tag_ActionCompletedUnion value_of_ActionCompletedUnion ActionCompletedUnion_packValue ActionCompletedUnion_sizeValue ActionCompletedUnion_unpackValue
    Pack_ActionCompletedUnion Unpack_ActionCompletedUnion Size_ActionCompletedUnion
proof unfold_locales
  fix a :: action_completed
  show "Tag_ActionCompletedUnion a = 255 \<longleftrightarrow> a = ActionCompletedInvalid" "value_of_ActionCompletedUnion a = None \<longleftrightarrow> a = ActionCompletedInvalid" by (cases a; simp)+
  show "Pack_ActionCompletedUnion a = bindM (write_word (Tag_ActionCompletedUnion a)) (\<lambda>_. case value_of_ActionCompletedUnion a of None \<Rightarrow> returnM () | Some v \<Rightarrow> ActionCompletedUnion_packValue v)"
    by (cases a) (simp_all add: Pack_ActionCompletedUnion_def)
  show "Size_ActionCompletedUnion a = (case value_of_ActionCompletedUnion a of None \<Rightarrow> 1 | Some v \<Rightarrow> 1 + ActionCompletedUnion_sizeValue v)" by (cases a) simp_all
  show "reader Unpack_ActionCompletedUnion" by (rule reads)
qed (simp_all add: con_ActionCompletedUnion_iff Unpack_ActionCompletedUnion_def unpackStruct_ActionCompletedUnion_value cong: if_cong)

abbreviation abs_ActionCompletedUnion :: "ActionCompletedUnion_value tagged \<Rightarrow> action_completed option" where
  "abs_ActionCompletedUnion \<equiv> union_abs con_ActionCompletedUnion ActionCompletedInvalid"

definition ActionCompletedUnion_GetAnimationCompleted :: "ActionCompletedUnion_value tagged \<Rightarrow> string option outcome" where
  "ActionCompletedUnion_GetAnimationCompleted = union_get 1 (\<lambda>v. case v of V_ActionCompletedUnion_AnimationCompleted x \<Rightarrow> Some x)"

definition ActionCompletedUnion_SetAnimationCompleted :: "string \<Rightarrow> ActionCompletedUnion_value tagged \<Rightarrow> ActionCompletedUnion_value tagged" where
  "ActionCompletedUnion_SetAnimationCompleted x = union_set 1 (V_ActionCompletedUnion_AnimationCompleted x)"

definition NewActionCompletedUnionWithAnimationCompleted :: "string \<Rightarrow> ActionCompletedUnion_value tagged" where
  "NewActionCompletedUnionWithAnimationCompleted x = union_new 1 (V_ActionCompletedUnion_AnimationCompleted x)"

lemma ActionCompletedUnion_AnimationCompleted:
  "abs_ActionCompletedUnion m = Some y \<Longrightarrow> Tag_ActionCompletedUnion y \<noteq> 1 \<Longrightarrow> ActionCompletedUnion_GetAnimationCompleted m = Ret None"
  "abs_ActionCompletedUnion m = Some (AnimationCompleted x) \<Longrightarrow> ActionCompletedUnion_GetAnimationCompleted m = Ret (Some x)"
  "abs_ActionCompletedUnion (ActionCompletedUnion_SetAnimationCompleted x m) = Some (AnimationCompleted x)"
  "abs_ActionCompletedUnion (NewActionCompletedUnionWithAnimationCompleted x) = Some (AnimationCompleted x)"
  unfolding ActionCompletedUnion_GetAnimationCompleted_def ActionCompletedUnion_SetAnimationCompleted_def NewActionCompletedUnionWithAnimationCompleted_def
  by (rule actionCompletedUnionUnion.accessors [where v = "V_ActionCompletedUnion_AnimationCompleted x" and x = "x"], (assumption | simp)+)+

definition panics_ActionCompletedUnion :: "ActionCompletedUnion_value tagged \<Rightarrow> bool" where
  "panics_ActionCompletedUnion m \<longleftrightarrow> ActionCompletedUnion_GetAnimationCompleted m = Panic"

lemma getters_ActionCompletedUnion: "getters_safe con_ActionCompletedUnion ActionCompletedUnion_unpackValue panics_ActionCompletedUnion"
  unfolding getters_safe_def panics_ActionCompletedUnion_def de_Morgan_disj ActionCompletedUnion_GetAnimationCompleted_def
  by (intro allI impI conjI; rule actionCompletedUnionUnion.get_no_panic, assumption, simp, case_tac v; simp)

section \<open>\<open>Event\<close>\<close>

text \<open>The types of its values.\<close>

datatype Event_value =
    V_Event_RequiredEmptyMessage

primrec con_Event :: "byte \<Rightarrow> Event_value \<Rightarrow> clad_event option" where
  "con_Event t V_Event_RequiredEmptyMessage = (if t = 0 then Some (ReplaceMe) else None)"

primrec value_of_Event :: "clad_event \<Rightarrow> Event_value option" where
  "value_of_Event ReplaceMe = Some (V_Event_RequiredEmptyMessage)"
| "value_of_Event EventInvalid = None"

primrec Event_packValue :: "Event_value \<Rightarrow> writer" where
  "Event_packValue V_Event_RequiredEmptyMessage = Pack_RequiredEmptyMessage ()"

primrec Event_sizeValue :: "Event_value \<Rightarrow> uint32" where
  "Event_sizeValue V_Event_RequiredEmptyMessage = Size_RequiredEmptyMessage ()"

definition Event_unpackValue :: "byte \<Rightarrow> Event_value reader" where
  "Event_unpackValue tag =
     (if tag = 0 then bindM Unpack_RequiredEmptyMessage (\<lambda>x. returnM V_Event_RequiredEmptyMessage)
      else failM (Errorf ''invalid tag to unpackStruct''))"

lemma con_Event_iff: "con_Event t v = Some a \<longleftrightarrow> Tag_Event a = t \<and> value_of_Event a = Some v"
proof
  show "con_Event t v = Some a \<Longrightarrow> Tag_Event a = t \<and> value_of_Event a = Some v"
    by (cases v) (auto split: if_splits prod.splits)
  show "Tag_Event a = t \<and> value_of_Event a = Some v \<Longrightarrow> con_Event t v = Some a"
    by (cases a) (auto)
qed

lemma unpackStruct_Event_value: "unpackStruct_Event tag =
    bindM (Event_unpackValue tag) (\<lambda>v. case con_Event tag v of None \<Rightarrow> panicM | Some a \<Rightarrow> returnM a)"
  by (simp add: unpackStruct_Event_def Event_unpackValue_def bind_if bindM_assoc cong: if_cong)

interpretation eventUnion: tagged_union con_Event EventInvalid Tag_Event value_of_Event Event_packValue Event_sizeValue Event_unpackValue
    Pack_Event Unpack_Event Size_Event
proof unfold_locales
  fix a :: clad_event
  show "Tag_Event a = 255 \<longleftrightarrow> a = EventInvalid" "value_of_Event a = None \<longleftrightarrow> a = EventInvalid" by (cases a; simp)+
  show "Pack_Event a = bindM (write_word (Tag_Event a)) (\<lambda>_. case value_of_Event a of None \<Rightarrow> returnM () | Some v \<Rightarrow> Event_packValue v)"
    by (cases a) (simp_all add: Pack_Event_def)
  show "Size_Event a = (case value_of_Event a of None \<Rightarrow> 1 | Some v \<Rightarrow> 1 + Event_sizeValue v)" by (cases a) simp_all
  show "reader Unpack_Event" by (rule reads)
qed (simp_all add: con_Event_iff Unpack_Event_def unpackStruct_Event_value cong: if_cong)

abbreviation abs_Event :: "Event_value tagged \<Rightarrow> clad_event option" where
  "abs_Event \<equiv> union_abs con_Event EventInvalid"

definition Event_GetReplaceMe :: "Event_value tagged \<Rightarrow> unit option outcome" where
  "Event_GetReplaceMe = union_get 0 (\<lambda>v. case v of V_Event_RequiredEmptyMessage \<Rightarrow> Some ())"

definition Event_SetReplaceMe :: "unit \<Rightarrow> Event_value tagged \<Rightarrow> Event_value tagged" where
  "Event_SetReplaceMe x = union_set 0 V_Event_RequiredEmptyMessage"

definition NewEventWithReplaceMe :: "unit \<Rightarrow> Event_value tagged" where
  "NewEventWithReplaceMe x = union_new 0 V_Event_RequiredEmptyMessage"

lemma Event_ReplaceMe:
  "abs_Event m = Some y \<Longrightarrow> Tag_Event y \<noteq> 0 \<Longrightarrow> Event_GetReplaceMe m = Ret None"
  "abs_Event m = Some ReplaceMe \<Longrightarrow> Event_GetReplaceMe m = Ret (Some ())"
  "abs_Event (Event_SetReplaceMe x m) = Some ReplaceMe"
  "abs_Event (NewEventWithReplaceMe x) = Some ReplaceMe"
  unfolding Event_GetReplaceMe_def Event_SetReplaceMe_def NewEventWithReplaceMe_def
  by (rule eventUnion.accessors [where v = "V_Event_RequiredEmptyMessage" and x = "()"], (assumption | simp)+)+

definition panics_Event :: "Event_value tagged \<Rightarrow> bool" where
  "panics_Event m \<longleftrightarrow> Event_GetReplaceMe m = Panic"

lemma getters_Event: "getters_safe con_Event Event_unpackValue panics_Event"
  unfolding getters_safe_def panics_Event_def de_Morgan_disj Event_GetReplaceMe_def
  by (intro allI impI conjI; rule eventUnion.get_no_panic, assumption, simp, case_tac v; simp)

section \<open>\<open>MessageRobotToExternal\<close>\<close>

text \<open>The types of its values.\<close>

datatype MessageRobotToExternal_value =
    V_MessageRobotToExternal_UiDeviceConnected string
  | V_MessageRobotToExternal_RobotCompletedAction robot_completed_action
  | V_MessageRobotToExternal_Event clad_event
  | V_MessageRobotToExternal_EnrolledNamesResponse "known_face list"
  | V_MessageRobotToExternal_RobotObservedFace clad_observed_face
  | V_MessageRobotToExternal_RobotChangedObservedFaceID "int32 \<times> int32"
  | V_MessageRobotToExternal_ObjectConnectionState "uint32 \<times> string \<times> int32 \<times> bool"
  | V_MessageRobotToExternal_ObjectMoved "uint32 \<times> uint32"
  | V_MessageRobotToExternal_ObjectStoppedMoving "uint32 \<times> uint32"
  | V_MessageRobotToExternal_ObjectUpAxisChanged "uint32 \<times> uint32 \<times> byte"
  | V_MessageRobotToExternal_ObjectTapped "uint32 \<times> uint32"
  | V_MessageRobotToExternal_ObjectAccel object_accel
  | V_MessageRobotToExternal_RobotObservedObject clad_observed_object
  | V_MessageRobotToExternal_ObjectAvailable "string \<times> int32 \<times> 8 word"
  | V_MessageRobotToExternal_RobotDeletedFixedCustomObjects
  | V_MessageRobotToExternal_RobotDeletedCustomMarkerObjects
  | V_MessageRobotToExternal_CreatedFixedCustomObject uint32
  | V_MessageRobotToExternal_DefinedCustomObject bool
  | V_MessageRobotToExternal_MemoryMapMessageBegin map_begin
  | V_MessageRobotToExternal_MemoryMapMessage "map_quad list"
  | V_MessageRobotToExternal_MemoryMapMessageEnd

primrec con_MessageRobotToExternal :: "byte \<Rightarrow> MessageRobotToExternal_value \<Rightarrow> robot_to_external option" where
  "con_MessageRobotToExternal t (V_MessageRobotToExternal_UiDeviceConnected x) = (if t = 0 then Some (UiDeviceConnected x) else None)"
| "con_MessageRobotToExternal t (V_MessageRobotToExternal_RobotCompletedAction x) = (if t = 1 then Some (RobotCompletedAction x) else None)"
| "con_MessageRobotToExternal t (V_MessageRobotToExternal_Event x) = (if t = 2 then Some (CladEvent x) else None)"
| "con_MessageRobotToExternal t (V_MessageRobotToExternal_EnrolledNamesResponse x) = (if t = 5 then Some (EnrolledNamesResponse x) else None)"
| "con_MessageRobotToExternal t (V_MessageRobotToExternal_RobotObservedFace x) = (if t = 6 then Some (RobotObservedFaceClad x) else None)"
| "con_MessageRobotToExternal t (V_MessageRobotToExternal_RobotChangedObservedFaceID x) = (if t = 7 then Some (case x of (a, b) \<Rightarrow> RobotChangedObservedFaceIDClad a b) else None)"
| "con_MessageRobotToExternal t (V_MessageRobotToExternal_ObjectConnectionState x) = (if t = 10 then Some (case x of (a, b, c, d) \<Rightarrow> ObjectConnectionStateClad a b c d) else None)"
| "con_MessageRobotToExternal t (V_MessageRobotToExternal_ObjectMoved x) = (if t = 11 then Some (case x of (a, b) \<Rightarrow> ObjectMovedClad a b) else None)"
| "con_MessageRobotToExternal t (V_MessageRobotToExternal_ObjectStoppedMoving x) = (if t = 12 then Some (case x of (a, b) \<Rightarrow> ObjectStoppedMovingClad a b) else None)"
| "con_MessageRobotToExternal t (V_MessageRobotToExternal_ObjectUpAxisChanged x) = (if t = 13 then Some (case x of (a, b, c) \<Rightarrow> ObjectUpAxisChangedClad a b c) else None)"
| "con_MessageRobotToExternal t (V_MessageRobotToExternal_ObjectTapped x) = (if t = 14 then Some (case x of (a, b) \<Rightarrow> ObjectTappedClad a b) else None)"
| "con_MessageRobotToExternal t (V_MessageRobotToExternal_ObjectAccel x) = (if t = 15 then Some (ObjectAccelClad x) else None)"
| "con_MessageRobotToExternal t (V_MessageRobotToExternal_RobotObservedObject x) = (if t = 16 then Some (RobotObservedObjectClad x) else None)"
| "con_MessageRobotToExternal t (V_MessageRobotToExternal_ObjectAvailable x) = (if t = 17 then Some (case x of (a, b, c) \<Rightarrow> ObjectAvailableClad a b c) else None)"
| "con_MessageRobotToExternal t V_MessageRobotToExternal_RobotDeletedFixedCustomObjects = (if t = 18 then Some (RobotDeletedFixedCustomObjects) else None)"
| "con_MessageRobotToExternal t V_MessageRobotToExternal_RobotDeletedCustomMarkerObjects = (if t = 19 then Some (RobotDeletedCustomMarkerObjects) else None)"
| "con_MessageRobotToExternal t (V_MessageRobotToExternal_CreatedFixedCustomObject x) = (if t = 20 then Some (CreatedFixedCustomObject x) else None)"
| "con_MessageRobotToExternal t (V_MessageRobotToExternal_DefinedCustomObject x) = (if t = 21 then Some (DefinedCustomObject x) else None)"
| "con_MessageRobotToExternal t (V_MessageRobotToExternal_MemoryMapMessageBegin x) = (if t = 22 then Some (MemoryMapMessageBegin x) else None)"
| "con_MessageRobotToExternal t (V_MessageRobotToExternal_MemoryMapMessage x) = (if t = 23 then Some (MemoryMapMessage x) else None)"
| "con_MessageRobotToExternal t V_MessageRobotToExternal_MemoryMapMessageEnd = (if t = 24 then Some (MemoryMapMessageEnd) else None)"

primrec value_of_MessageRobotToExternal :: "robot_to_external \<Rightarrow> MessageRobotToExternal_value option" where
  "value_of_MessageRobotToExternal (UiDeviceConnected x) = Some (V_MessageRobotToExternal_UiDeviceConnected x)"
| "value_of_MessageRobotToExternal (RobotCompletedAction x) = Some (V_MessageRobotToExternal_RobotCompletedAction x)"
| "value_of_MessageRobotToExternal (CladEvent x) = Some (V_MessageRobotToExternal_Event x)"
| "value_of_MessageRobotToExternal (EnrolledNamesResponse x) = Some (V_MessageRobotToExternal_EnrolledNamesResponse x)"
| "value_of_MessageRobotToExternal (RobotObservedFaceClad x) = Some (V_MessageRobotToExternal_RobotObservedFace x)"
| "value_of_MessageRobotToExternal (RobotChangedObservedFaceIDClad a b) = Some (V_MessageRobotToExternal_RobotChangedObservedFaceID (a, b))"
| "value_of_MessageRobotToExternal (ObjectConnectionStateClad a b c d) = Some (V_MessageRobotToExternal_ObjectConnectionState (a, b, c, d))"
| "value_of_MessageRobotToExternal (ObjectMovedClad a b) = Some (V_MessageRobotToExternal_ObjectMoved (a, b))"
| "value_of_MessageRobotToExternal (ObjectStoppedMovingClad a b) = Some (V_MessageRobotToExternal_ObjectStoppedMoving (a, b))"
| "value_of_MessageRobotToExternal (ObjectUpAxisChangedClad a b c) = Some (V_MessageRobotToExternal_ObjectUpAxisChanged (a, b, c))"
| "value_of_MessageRobotToExternal (ObjectTappedClad a b) = Some (V_MessageRobotToExternal_ObjectTapped (a, b))"
| "value_of_MessageRobotToExternal (ObjectAccelClad x) = Some (V_MessageRobotToExternal_ObjectAccel x)"
| "value_of_MessageRobotToExternal (RobotObservedObjectClad x) = Some (V_MessageRobotToExternal_RobotObservedObject x)"
| "value_of_MessageRobotToExternal (ObjectAvailableClad a b c) = Some (V_MessageRobotToExternal_ObjectAvailable (a, b, c))"
| "value_of_MessageRobotToExternal RobotDeletedFixedCustomObjects = Some (V_MessageRobotToExternal_RobotDeletedFixedCustomObjects)"
| "value_of_MessageRobotToExternal RobotDeletedCustomMarkerObjects = Some (V_MessageRobotToExternal_RobotDeletedCustomMarkerObjects)"
| "value_of_MessageRobotToExternal (CreatedFixedCustomObject x) = Some (V_MessageRobotToExternal_CreatedFixedCustomObject x)"
| "value_of_MessageRobotToExternal (DefinedCustomObject x) = Some (V_MessageRobotToExternal_DefinedCustomObject x)"
| "value_of_MessageRobotToExternal (MemoryMapMessageBegin x) = Some (V_MessageRobotToExternal_MemoryMapMessageBegin x)"
| "value_of_MessageRobotToExternal (MemoryMapMessage x) = Some (V_MessageRobotToExternal_MemoryMapMessage x)"
| "value_of_MessageRobotToExternal MemoryMapMessageEnd = Some (V_MessageRobotToExternal_MemoryMapMessageEnd)"
| "value_of_MessageRobotToExternal RobotInvalid = None"

primrec MessageRobotToExternal_packValue :: "MessageRobotToExternal_value \<Rightarrow> writer" where
  "MessageRobotToExternal_packValue (V_MessageRobotToExternal_UiDeviceConnected x) = Pack_UiDeviceConnected x"
| "MessageRobotToExternal_packValue (V_MessageRobotToExternal_RobotCompletedAction x) = Pack_RobotCompletedAction x"
| "MessageRobotToExternal_packValue (V_MessageRobotToExternal_Event x) = Pack_Event x"
| "MessageRobotToExternal_packValue (V_MessageRobotToExternal_EnrolledNamesResponse x) = Pack_EnrolledNamesResponse x"
| "MessageRobotToExternal_packValue (V_MessageRobotToExternal_RobotObservedFace x) = Pack_RobotObservedFace x"
| "MessageRobotToExternal_packValue (V_MessageRobotToExternal_RobotChangedObservedFaceID x) = Pack_RobotChangedObservedFaceID x"
| "MessageRobotToExternal_packValue (V_MessageRobotToExternal_ObjectConnectionState x) = Pack_ObjectConnectionState x"
| "MessageRobotToExternal_packValue (V_MessageRobotToExternal_ObjectMoved x) = Pack_ObjectMoved x"
| "MessageRobotToExternal_packValue (V_MessageRobotToExternal_ObjectStoppedMoving x) = Pack_ObjectStoppedMoving x"
| "MessageRobotToExternal_packValue (V_MessageRobotToExternal_ObjectUpAxisChanged x) = Pack_ObjectUpAxisChanged x"
| "MessageRobotToExternal_packValue (V_MessageRobotToExternal_ObjectTapped x) = Pack_ObjectTapped x"
| "MessageRobotToExternal_packValue (V_MessageRobotToExternal_ObjectAccel x) = Pack_ObjectAccel x"
| "MessageRobotToExternal_packValue (V_MessageRobotToExternal_RobotObservedObject x) = Pack_RobotObservedObject x"
| "MessageRobotToExternal_packValue (V_MessageRobotToExternal_ObjectAvailable x) = Pack_ObjectAvailable x"
| "MessageRobotToExternal_packValue V_MessageRobotToExternal_RobotDeletedFixedCustomObjects = Pack_RobotDeletedFixedCustomObjects ()"
| "MessageRobotToExternal_packValue V_MessageRobotToExternal_RobotDeletedCustomMarkerObjects = Pack_RobotDeletedCustomMarkerObjects ()"
| "MessageRobotToExternal_packValue (V_MessageRobotToExternal_CreatedFixedCustomObject x) = Pack_CreatedFixedCustomObject x"
| "MessageRobotToExternal_packValue (V_MessageRobotToExternal_DefinedCustomObject x) = Pack_DefinedCustomObject x"
| "MessageRobotToExternal_packValue (V_MessageRobotToExternal_MemoryMapMessageBegin x) = Pack_MemoryMapMessageBegin x"
| "MessageRobotToExternal_packValue (V_MessageRobotToExternal_MemoryMapMessage x) = Pack_MemoryMapMessage x"
| "MessageRobotToExternal_packValue V_MessageRobotToExternal_MemoryMapMessageEnd = Pack_MemoryMapMessageEnd ()"

primrec MessageRobotToExternal_sizeValue :: "MessageRobotToExternal_value \<Rightarrow> uint32" where
  "MessageRobotToExternal_sizeValue (V_MessageRobotToExternal_UiDeviceConnected x) = Size_UiDeviceConnected x"
| "MessageRobotToExternal_sizeValue (V_MessageRobotToExternal_RobotCompletedAction x) = Size_RobotCompletedAction x"
| "MessageRobotToExternal_sizeValue (V_MessageRobotToExternal_Event x) = Size_Event x"
| "MessageRobotToExternal_sizeValue (V_MessageRobotToExternal_EnrolledNamesResponse x) = Size_EnrolledNamesResponse x"
| "MessageRobotToExternal_sizeValue (V_MessageRobotToExternal_RobotObservedFace x) = Size_RobotObservedFace x"
| "MessageRobotToExternal_sizeValue (V_MessageRobotToExternal_RobotChangedObservedFaceID x) = Size_RobotChangedObservedFaceID x"
| "MessageRobotToExternal_sizeValue (V_MessageRobotToExternal_ObjectConnectionState x) = Size_ObjectConnectionState x"
| "MessageRobotToExternal_sizeValue (V_MessageRobotToExternal_ObjectMoved x) = Size_ObjectMoved x"
| "MessageRobotToExternal_sizeValue (V_MessageRobotToExternal_ObjectStoppedMoving x) = Size_ObjectStoppedMoving x"
| "MessageRobotToExternal_sizeValue (V_MessageRobotToExternal_ObjectUpAxisChanged x) = Size_ObjectUpAxisChanged x"
| "MessageRobotToExternal_sizeValue (V_MessageRobotToExternal_ObjectTapped x) = Size_ObjectTapped x"
| "MessageRobotToExternal_sizeValue (V_MessageRobotToExternal_ObjectAccel x) = Size_ObjectAccel x"
| "MessageRobotToExternal_sizeValue (V_MessageRobotToExternal_RobotObservedObject x) = Size_RobotObservedObject x"
| "MessageRobotToExternal_sizeValue (V_MessageRobotToExternal_ObjectAvailable x) = Size_ObjectAvailable x"
| "MessageRobotToExternal_sizeValue V_MessageRobotToExternal_RobotDeletedFixedCustomObjects = Size_RobotDeletedFixedCustomObjects ()"
| "MessageRobotToExternal_sizeValue V_MessageRobotToExternal_RobotDeletedCustomMarkerObjects = Size_RobotDeletedCustomMarkerObjects ()"
| "MessageRobotToExternal_sizeValue (V_MessageRobotToExternal_CreatedFixedCustomObject x) = Size_CreatedFixedCustomObject x"
| "MessageRobotToExternal_sizeValue (V_MessageRobotToExternal_DefinedCustomObject x) = Size_DefinedCustomObject x"
| "MessageRobotToExternal_sizeValue (V_MessageRobotToExternal_MemoryMapMessageBegin x) = Size_MemoryMapMessageBegin x"
| "MessageRobotToExternal_sizeValue (V_MessageRobotToExternal_MemoryMapMessage x) = Size_MemoryMapMessage x"
| "MessageRobotToExternal_sizeValue V_MessageRobotToExternal_MemoryMapMessageEnd = Size_MemoryMapMessageEnd ()"

definition MessageRobotToExternal_unpackValue :: "byte \<Rightarrow> MessageRobotToExternal_value reader" where
  "MessageRobotToExternal_unpackValue tag =
     (if tag = 0 then bindM Unpack_UiDeviceConnected (\<lambda>x. returnM (V_MessageRobotToExternal_UiDeviceConnected x))
      else if tag = 1 then bindM Unpack_RobotCompletedAction (\<lambda>x. returnM (V_MessageRobotToExternal_RobotCompletedAction x))
      else if tag = 2 then bindM Unpack_Event (\<lambda>x. returnM (V_MessageRobotToExternal_Event x))
      else if tag = 5 then bindM Unpack_EnrolledNamesResponse (\<lambda>x. returnM (V_MessageRobotToExternal_EnrolledNamesResponse x))
      else if tag = 6 then bindM Unpack_RobotObservedFace (\<lambda>x. returnM (V_MessageRobotToExternal_RobotObservedFace x))
      else if tag = 7 then bindM Unpack_RobotChangedObservedFaceID (\<lambda>x. returnM (V_MessageRobotToExternal_RobotChangedObservedFaceID x))
      else if tag = 10 then bindM Unpack_ObjectConnectionState (\<lambda>x. returnM (V_MessageRobotToExternal_ObjectConnectionState x))
      else if tag = 11 then bindM Unpack_ObjectMoved (\<lambda>x. returnM (V_MessageRobotToExternal_ObjectMoved x))
      else if tag = 12 then bindM Unpack_ObjectStoppedMoving (\<lambda>x. returnM (V_MessageRobotToExternal_ObjectStoppedMoving x))
      else if tag = 13 then bindM Unpack_ObjectUpAxisChanged (\<lambda>x. returnM (V_MessageRobotToExternal_ObjectUpAxisChanged x))
      else if tag = 14 then bindM Unpack_ObjectTapped (\<lambda>x. returnM (V_MessageRobotToExternal_ObjectTapped x))
      else if tag = 15 then bindM Unpack_ObjectAccel (\<lambda>x. returnM (V_MessageRobotToExternal_ObjectAccel x))
      else if tag = 16 then bindM Unpack_RobotObservedObject (\<lambda>x. returnM (V_MessageRobotToExternal_RobotObservedObject x))
      else if tag = 17 then bindM Unpack_ObjectAvailable (\<lambda>x. returnM (V_MessageRobotToExternal_ObjectAvailable x))
      else if tag = 18 then bindM Unpack_RobotDeletedFixedCustomObjects (\<lambda>x. returnM V_MessageRobotToExternal_RobotDeletedFixedCustomObjects)
      else if tag = 19 then bindM Unpack_RobotDeletedCustomMarkerObjects (\<lambda>x. returnM V_MessageRobotToExternal_RobotDeletedCustomMarkerObjects)
      else if tag = 20 then bindM Unpack_CreatedFixedCustomObject (\<lambda>x. returnM (V_MessageRobotToExternal_CreatedFixedCustomObject x))
      else if tag = 21 then bindM Unpack_DefinedCustomObject (\<lambda>x. returnM (V_MessageRobotToExternal_DefinedCustomObject x))
      else if tag = 22 then bindM Unpack_MemoryMapMessageBegin (\<lambda>x. returnM (V_MessageRobotToExternal_MemoryMapMessageBegin x))
      else if tag = 23 then bindM Unpack_MemoryMapMessage (\<lambda>x. returnM (V_MessageRobotToExternal_MemoryMapMessage x))
      else if tag = 24 then bindM Unpack_MemoryMapMessageEnd (\<lambda>x. returnM V_MessageRobotToExternal_MemoryMapMessageEnd)
      else failM (Errorf ''invalid tag to unpackStruct''))"

lemma con_MessageRobotToExternal_iff: "con_MessageRobotToExternal t v = Some a \<longleftrightarrow> robotTag a = t \<and> value_of_MessageRobotToExternal a = Some v"
proof
  show "con_MessageRobotToExternal t v = Some a \<Longrightarrow> robotTag a = t \<and> value_of_MessageRobotToExternal a = Some v"
    by (cases v) (auto simp: robot_tag_defs split: if_splits prod.splits)
  show "robotTag a = t \<and> value_of_MessageRobotToExternal a = Some v \<Longrightarrow> con_MessageRobotToExternal t v = Some a"
    by (cases a) (auto simp: robot_tag_defs)
qed

lemma unpackStruct_MessageRobotToExternal_value: "unpackStruct_MessageRobotToExternal tag =
    bindM (MessageRobotToExternal_unpackValue tag) (\<lambda>v. case con_MessageRobotToExternal tag v of None \<Rightarrow> panicM | Some a \<Rightarrow> returnM a)"
  by (simp add: unpackStruct_MessageRobotToExternal_def MessageRobotToExternal_unpackValue_def bind_if bindM_assoc cong: if_cong)

interpretation messageRobotToExternalUnion: tagged_union con_MessageRobotToExternal RobotInvalid robotTag value_of_MessageRobotToExternal MessageRobotToExternal_packValue MessageRobotToExternal_sizeValue MessageRobotToExternal_unpackValue
    Pack_MessageRobotToExternal Unpack_MessageRobotToExternal Size_MessageRobotToExternal
proof unfold_locales
  fix a :: robot_to_external
  show "robotTag a = 255 \<longleftrightarrow> a = RobotInvalid" "value_of_MessageRobotToExternal a = None \<longleftrightarrow> a = RobotInvalid" by (cases a; simp add: robot_tag_defs)+
  show "Pack_MessageRobotToExternal a = bindM (write_word (robotTag a)) (\<lambda>_. case value_of_MessageRobotToExternal a of None \<Rightarrow> returnM () | Some v \<Rightarrow> MessageRobotToExternal_packValue v)"
    by (cases a) (simp_all add: Pack_MessageRobotToExternal_def)
  show "Size_MessageRobotToExternal a = (case value_of_MessageRobotToExternal a of None \<Rightarrow> 1 | Some v \<Rightarrow> 1 + MessageRobotToExternal_sizeValue v)" by (cases a) simp_all
  show "reader Unpack_MessageRobotToExternal" by (rule reads)
qed (simp_all add: con_MessageRobotToExternal_iff Unpack_MessageRobotToExternal_def unpackStruct_MessageRobotToExternal_value cong: if_cong)

abbreviation abs_MessageRobotToExternal :: "MessageRobotToExternal_value tagged \<Rightarrow> robot_to_external option" where
  "abs_MessageRobotToExternal \<equiv> union_abs con_MessageRobotToExternal RobotInvalid"

definition MessageRobotToExternal_GetUiDeviceConnected :: "MessageRobotToExternal_value tagged \<Rightarrow> string option outcome" where
  "MessageRobotToExternal_GetUiDeviceConnected = union_get 0 (\<lambda>v. case v of V_MessageRobotToExternal_UiDeviceConnected x \<Rightarrow> Some x | _ \<Rightarrow> None)"

definition MessageRobotToExternal_SetUiDeviceConnected :: "string \<Rightarrow> MessageRobotToExternal_value tagged \<Rightarrow> MessageRobotToExternal_value tagged" where
  "MessageRobotToExternal_SetUiDeviceConnected x = union_set 0 (V_MessageRobotToExternal_UiDeviceConnected x)"

definition NewMessageRobotToExternalWithUiDeviceConnected :: "string \<Rightarrow> MessageRobotToExternal_value tagged" where
  "NewMessageRobotToExternalWithUiDeviceConnected x = union_new 0 (V_MessageRobotToExternal_UiDeviceConnected x)"

lemma MessageRobotToExternal_UiDeviceConnected:
  "abs_MessageRobotToExternal m = Some y \<Longrightarrow> robotTag y \<noteq> 0 \<Longrightarrow> MessageRobotToExternal_GetUiDeviceConnected m = Ret None"
  "abs_MessageRobotToExternal m = Some (UiDeviceConnected x) \<Longrightarrow> MessageRobotToExternal_GetUiDeviceConnected m = Ret (Some x)"
  "abs_MessageRobotToExternal (MessageRobotToExternal_SetUiDeviceConnected x m) = Some (UiDeviceConnected x)"
  "abs_MessageRobotToExternal (NewMessageRobotToExternalWithUiDeviceConnected x) = Some (UiDeviceConnected x)"
  unfolding MessageRobotToExternal_GetUiDeviceConnected_def MessageRobotToExternal_SetUiDeviceConnected_def NewMessageRobotToExternalWithUiDeviceConnected_def
  by (rule messageRobotToExternalUnion.accessors [where v = "V_MessageRobotToExternal_UiDeviceConnected x" and x = "x"], (assumption | simp)+)+

definition MessageRobotToExternal_GetRobotCompletedAction :: "MessageRobotToExternal_value tagged \<Rightarrow> robot_completed_action option outcome" where
  "MessageRobotToExternal_GetRobotCompletedAction = union_get 1 (\<lambda>v. case v of V_MessageRobotToExternal_RobotCompletedAction x \<Rightarrow> Some x | _ \<Rightarrow> None)"

definition MessageRobotToExternal_SetRobotCompletedAction :: "robot_completed_action \<Rightarrow> MessageRobotToExternal_value tagged \<Rightarrow> MessageRobotToExternal_value tagged" where
  "MessageRobotToExternal_SetRobotCompletedAction x = union_set 1 (V_MessageRobotToExternal_RobotCompletedAction x)"

definition NewMessageRobotToExternalWithRobotCompletedAction :: "robot_completed_action \<Rightarrow> MessageRobotToExternal_value tagged" where
  "NewMessageRobotToExternalWithRobotCompletedAction x = union_new 1 (V_MessageRobotToExternal_RobotCompletedAction x)"

lemma MessageRobotToExternal_RobotCompletedAction:
  "abs_MessageRobotToExternal m = Some y \<Longrightarrow> robotTag y \<noteq> 1 \<Longrightarrow> MessageRobotToExternal_GetRobotCompletedAction m = Ret None"
  "abs_MessageRobotToExternal m = Some (RobotCompletedAction x) \<Longrightarrow> MessageRobotToExternal_GetRobotCompletedAction m = Ret (Some x)"
  "abs_MessageRobotToExternal (MessageRobotToExternal_SetRobotCompletedAction x m) = Some (RobotCompletedAction x)"
  "abs_MessageRobotToExternal (NewMessageRobotToExternalWithRobotCompletedAction x) = Some (RobotCompletedAction x)"
  unfolding MessageRobotToExternal_GetRobotCompletedAction_def MessageRobotToExternal_SetRobotCompletedAction_def NewMessageRobotToExternalWithRobotCompletedAction_def
  by (rule messageRobotToExternalUnion.accessors [where v = "V_MessageRobotToExternal_RobotCompletedAction x" and x = "x"], (assumption | simp)+)+

definition MessageRobotToExternal_GetEvent :: "MessageRobotToExternal_value tagged \<Rightarrow> clad_event option outcome" where
  "MessageRobotToExternal_GetEvent = union_get 2 (\<lambda>v. case v of V_MessageRobotToExternal_Event x \<Rightarrow> Some x | _ \<Rightarrow> None)"

definition MessageRobotToExternal_SetEvent :: "clad_event \<Rightarrow> MessageRobotToExternal_value tagged \<Rightarrow> MessageRobotToExternal_value tagged" where
  "MessageRobotToExternal_SetEvent x = union_set 2 (V_MessageRobotToExternal_Event x)"

definition NewMessageRobotToExternalWithEvent :: "clad_event \<Rightarrow> MessageRobotToExternal_value tagged" where
  "NewMessageRobotToExternalWithEvent x = union_new 2 (V_MessageRobotToExternal_Event x)"

lemma MessageRobotToExternal_Event:
  "abs_MessageRobotToExternal m = Some y \<Longrightarrow> robotTag y \<noteq> 2 \<Longrightarrow> MessageRobotToExternal_GetEvent m = Ret None"
  "abs_MessageRobotToExternal m = Some (CladEvent x) \<Longrightarrow> MessageRobotToExternal_GetEvent m = Ret (Some x)"
  "abs_MessageRobotToExternal (MessageRobotToExternal_SetEvent x m) = Some (CladEvent x)"
  "abs_MessageRobotToExternal (NewMessageRobotToExternalWithEvent x) = Some (CladEvent x)"
  unfolding MessageRobotToExternal_GetEvent_def MessageRobotToExternal_SetEvent_def NewMessageRobotToExternalWithEvent_def
  by (rule messageRobotToExternalUnion.accessors [where v = "V_MessageRobotToExternal_Event x" and x = "x"], (assumption | simp)+)+

definition MessageRobotToExternal_GetEnrolledNamesResponse :: "MessageRobotToExternal_value tagged \<Rightarrow> (known_face list) option outcome" where
  "MessageRobotToExternal_GetEnrolledNamesResponse = union_get 5 (\<lambda>v. case v of V_MessageRobotToExternal_EnrolledNamesResponse x \<Rightarrow> Some x | _ \<Rightarrow> None)"

definition MessageRobotToExternal_SetEnrolledNamesResponse :: "(known_face list) \<Rightarrow> MessageRobotToExternal_value tagged \<Rightarrow> MessageRobotToExternal_value tagged" where
  "MessageRobotToExternal_SetEnrolledNamesResponse x = union_set 5 (V_MessageRobotToExternal_EnrolledNamesResponse x)"

definition NewMessageRobotToExternalWithEnrolledNamesResponse :: "(known_face list) \<Rightarrow> MessageRobotToExternal_value tagged" where
  "NewMessageRobotToExternalWithEnrolledNamesResponse x = union_new 5 (V_MessageRobotToExternal_EnrolledNamesResponse x)"

lemma MessageRobotToExternal_EnrolledNamesResponse:
  "abs_MessageRobotToExternal m = Some y \<Longrightarrow> robotTag y \<noteq> 5 \<Longrightarrow> MessageRobotToExternal_GetEnrolledNamesResponse m = Ret None"
  "abs_MessageRobotToExternal m = Some (EnrolledNamesResponse x) \<Longrightarrow> MessageRobotToExternal_GetEnrolledNamesResponse m = Ret (Some x)"
  "abs_MessageRobotToExternal (MessageRobotToExternal_SetEnrolledNamesResponse x m) = Some (EnrolledNamesResponse x)"
  "abs_MessageRobotToExternal (NewMessageRobotToExternalWithEnrolledNamesResponse x) = Some (EnrolledNamesResponse x)"
  unfolding MessageRobotToExternal_GetEnrolledNamesResponse_def MessageRobotToExternal_SetEnrolledNamesResponse_def NewMessageRobotToExternalWithEnrolledNamesResponse_def
  by (rule messageRobotToExternalUnion.accessors [where v = "V_MessageRobotToExternal_EnrolledNamesResponse x" and x = "x"], (assumption | simp)+)+

definition MessageRobotToExternal_GetRobotObservedFace :: "MessageRobotToExternal_value tagged \<Rightarrow> clad_observed_face option outcome" where
  "MessageRobotToExternal_GetRobotObservedFace = union_get 6 (\<lambda>v. case v of V_MessageRobotToExternal_RobotObservedFace x \<Rightarrow> Some x | _ \<Rightarrow> None)"

definition MessageRobotToExternal_SetRobotObservedFace :: "clad_observed_face \<Rightarrow> MessageRobotToExternal_value tagged \<Rightarrow> MessageRobotToExternal_value tagged" where
  "MessageRobotToExternal_SetRobotObservedFace x = union_set 6 (V_MessageRobotToExternal_RobotObservedFace x)"

definition NewMessageRobotToExternalWithRobotObservedFace :: "clad_observed_face \<Rightarrow> MessageRobotToExternal_value tagged" where
  "NewMessageRobotToExternalWithRobotObservedFace x = union_new 6 (V_MessageRobotToExternal_RobotObservedFace x)"

lemma MessageRobotToExternal_RobotObservedFace:
  "abs_MessageRobotToExternal m = Some y \<Longrightarrow> robotTag y \<noteq> 6 \<Longrightarrow> MessageRobotToExternal_GetRobotObservedFace m = Ret None"
  "abs_MessageRobotToExternal m = Some (RobotObservedFaceClad x) \<Longrightarrow> MessageRobotToExternal_GetRobotObservedFace m = Ret (Some x)"
  "abs_MessageRobotToExternal (MessageRobotToExternal_SetRobotObservedFace x m) = Some (RobotObservedFaceClad x)"
  "abs_MessageRobotToExternal (NewMessageRobotToExternalWithRobotObservedFace x) = Some (RobotObservedFaceClad x)"
  unfolding MessageRobotToExternal_GetRobotObservedFace_def MessageRobotToExternal_SetRobotObservedFace_def NewMessageRobotToExternalWithRobotObservedFace_def
  by (rule messageRobotToExternalUnion.accessors [where v = "V_MessageRobotToExternal_RobotObservedFace x" and x = "x"], (assumption | simp)+)+

definition MessageRobotToExternal_GetRobotChangedObservedFaceID :: "MessageRobotToExternal_value tagged \<Rightarrow> (int32 \<times> int32) option outcome" where
  "MessageRobotToExternal_GetRobotChangedObservedFaceID = union_get 7 (\<lambda>v. case v of V_MessageRobotToExternal_RobotChangedObservedFaceID x \<Rightarrow> Some x | _ \<Rightarrow> None)"

definition MessageRobotToExternal_SetRobotChangedObservedFaceID :: "(int32 \<times> int32) \<Rightarrow> MessageRobotToExternal_value tagged \<Rightarrow> MessageRobotToExternal_value tagged" where
  "MessageRobotToExternal_SetRobotChangedObservedFaceID x = union_set 7 (V_MessageRobotToExternal_RobotChangedObservedFaceID x)"

definition NewMessageRobotToExternalWithRobotChangedObservedFaceID :: "(int32 \<times> int32) \<Rightarrow> MessageRobotToExternal_value tagged" where
  "NewMessageRobotToExternalWithRobotChangedObservedFaceID x = union_new 7 (V_MessageRobotToExternal_RobotChangedObservedFaceID x)"

lemma MessageRobotToExternal_RobotChangedObservedFaceID:
  "abs_MessageRobotToExternal m = Some y \<Longrightarrow> robotTag y \<noteq> 7 \<Longrightarrow> MessageRobotToExternal_GetRobotChangedObservedFaceID m = Ret None"
  "abs_MessageRobotToExternal m = Some (RobotChangedObservedFaceIDClad a b) \<Longrightarrow> MessageRobotToExternal_GetRobotChangedObservedFaceID m = Ret (Some (a, b))"
  "abs_MessageRobotToExternal (MessageRobotToExternal_SetRobotChangedObservedFaceID (a, b) m) = Some (RobotChangedObservedFaceIDClad a b)"
  "abs_MessageRobotToExternal (NewMessageRobotToExternalWithRobotChangedObservedFaceID (a, b)) = Some (RobotChangedObservedFaceIDClad a b)"
  unfolding MessageRobotToExternal_GetRobotChangedObservedFaceID_def MessageRobotToExternal_SetRobotChangedObservedFaceID_def NewMessageRobotToExternalWithRobotChangedObservedFaceID_def
  by (rule messageRobotToExternalUnion.accessors [where v = "V_MessageRobotToExternal_RobotChangedObservedFaceID (a, b)" and x = "(a, b)"], (assumption | simp)+)+

definition MessageRobotToExternal_GetObjectConnectionState :: "MessageRobotToExternal_value tagged \<Rightarrow> (uint32 \<times> string \<times> int32 \<times> bool) option outcome" where
  "MessageRobotToExternal_GetObjectConnectionState = union_get 10 (\<lambda>v. case v of V_MessageRobotToExternal_ObjectConnectionState x \<Rightarrow> Some x | _ \<Rightarrow> None)"

definition MessageRobotToExternal_SetObjectConnectionState :: "(uint32 \<times> string \<times> int32 \<times> bool) \<Rightarrow> MessageRobotToExternal_value tagged \<Rightarrow> MessageRobotToExternal_value tagged" where
  "MessageRobotToExternal_SetObjectConnectionState x = union_set 10 (V_MessageRobotToExternal_ObjectConnectionState x)"

definition NewMessageRobotToExternalWithObjectConnectionState :: "(uint32 \<times> string \<times> int32 \<times> bool) \<Rightarrow> MessageRobotToExternal_value tagged" where
  "NewMessageRobotToExternalWithObjectConnectionState x = union_new 10 (V_MessageRobotToExternal_ObjectConnectionState x)"

lemma MessageRobotToExternal_ObjectConnectionState:
  "abs_MessageRobotToExternal m = Some y \<Longrightarrow> robotTag y \<noteq> 10 \<Longrightarrow> MessageRobotToExternal_GetObjectConnectionState m = Ret None"
  "abs_MessageRobotToExternal m = Some (ObjectConnectionStateClad a b c d) \<Longrightarrow> MessageRobotToExternal_GetObjectConnectionState m = Ret (Some (a, b, c, d))"
  "abs_MessageRobotToExternal (MessageRobotToExternal_SetObjectConnectionState (a, b, c, d) m) = Some (ObjectConnectionStateClad a b c d)"
  "abs_MessageRobotToExternal (NewMessageRobotToExternalWithObjectConnectionState (a, b, c, d)) = Some (ObjectConnectionStateClad a b c d)"
  unfolding MessageRobotToExternal_GetObjectConnectionState_def MessageRobotToExternal_SetObjectConnectionState_def NewMessageRobotToExternalWithObjectConnectionState_def
  by (rule messageRobotToExternalUnion.accessors [where v = "V_MessageRobotToExternal_ObjectConnectionState (a, b, c, d)" and x = "(a, b, c, d)"], (assumption | simp)+)+

definition MessageRobotToExternal_GetObjectMoved :: "MessageRobotToExternal_value tagged \<Rightarrow> (uint32 \<times> uint32) option outcome" where
  "MessageRobotToExternal_GetObjectMoved = union_get 11 (\<lambda>v. case v of V_MessageRobotToExternal_ObjectMoved x \<Rightarrow> Some x | _ \<Rightarrow> None)"

definition MessageRobotToExternal_SetObjectMoved :: "(uint32 \<times> uint32) \<Rightarrow> MessageRobotToExternal_value tagged \<Rightarrow> MessageRobotToExternal_value tagged" where
  "MessageRobotToExternal_SetObjectMoved x = union_set 11 (V_MessageRobotToExternal_ObjectMoved x)"

definition NewMessageRobotToExternalWithObjectMoved :: "(uint32 \<times> uint32) \<Rightarrow> MessageRobotToExternal_value tagged" where
  "NewMessageRobotToExternalWithObjectMoved x = union_new 11 (V_MessageRobotToExternal_ObjectMoved x)"

lemma MessageRobotToExternal_ObjectMoved:
  "abs_MessageRobotToExternal m = Some y \<Longrightarrow> robotTag y \<noteq> 11 \<Longrightarrow> MessageRobotToExternal_GetObjectMoved m = Ret None"
  "abs_MessageRobotToExternal m = Some (ObjectMovedClad a b) \<Longrightarrow> MessageRobotToExternal_GetObjectMoved m = Ret (Some (a, b))"
  "abs_MessageRobotToExternal (MessageRobotToExternal_SetObjectMoved (a, b) m) = Some (ObjectMovedClad a b)"
  "abs_MessageRobotToExternal (NewMessageRobotToExternalWithObjectMoved (a, b)) = Some (ObjectMovedClad a b)"
  unfolding MessageRobotToExternal_GetObjectMoved_def MessageRobotToExternal_SetObjectMoved_def NewMessageRobotToExternalWithObjectMoved_def
  by (rule messageRobotToExternalUnion.accessors [where v = "V_MessageRobotToExternal_ObjectMoved (a, b)" and x = "(a, b)"], (assumption | simp)+)+

definition MessageRobotToExternal_GetObjectStoppedMoving :: "MessageRobotToExternal_value tagged \<Rightarrow> (uint32 \<times> uint32) option outcome" where
  "MessageRobotToExternal_GetObjectStoppedMoving = union_get 12 (\<lambda>v. case v of V_MessageRobotToExternal_ObjectStoppedMoving x \<Rightarrow> Some x | _ \<Rightarrow> None)"

definition MessageRobotToExternal_SetObjectStoppedMoving :: "(uint32 \<times> uint32) \<Rightarrow> MessageRobotToExternal_value tagged \<Rightarrow> MessageRobotToExternal_value tagged" where
  "MessageRobotToExternal_SetObjectStoppedMoving x = union_set 12 (V_MessageRobotToExternal_ObjectStoppedMoving x)"

definition NewMessageRobotToExternalWithObjectStoppedMoving :: "(uint32 \<times> uint32) \<Rightarrow> MessageRobotToExternal_value tagged" where
  "NewMessageRobotToExternalWithObjectStoppedMoving x = union_new 12 (V_MessageRobotToExternal_ObjectStoppedMoving x)"

lemma MessageRobotToExternal_ObjectStoppedMoving:
  "abs_MessageRobotToExternal m = Some y \<Longrightarrow> robotTag y \<noteq> 12 \<Longrightarrow> MessageRobotToExternal_GetObjectStoppedMoving m = Ret None"
  "abs_MessageRobotToExternal m = Some (ObjectStoppedMovingClad a b) \<Longrightarrow> MessageRobotToExternal_GetObjectStoppedMoving m = Ret (Some (a, b))"
  "abs_MessageRobotToExternal (MessageRobotToExternal_SetObjectStoppedMoving (a, b) m) = Some (ObjectStoppedMovingClad a b)"
  "abs_MessageRobotToExternal (NewMessageRobotToExternalWithObjectStoppedMoving (a, b)) = Some (ObjectStoppedMovingClad a b)"
  unfolding MessageRobotToExternal_GetObjectStoppedMoving_def MessageRobotToExternal_SetObjectStoppedMoving_def NewMessageRobotToExternalWithObjectStoppedMoving_def
  by (rule messageRobotToExternalUnion.accessors [where v = "V_MessageRobotToExternal_ObjectStoppedMoving (a, b)" and x = "(a, b)"], (assumption | simp)+)+

definition MessageRobotToExternal_GetObjectUpAxisChanged :: "MessageRobotToExternal_value tagged \<Rightarrow> (uint32 \<times> uint32 \<times> byte) option outcome" where
  "MessageRobotToExternal_GetObjectUpAxisChanged = union_get 13 (\<lambda>v. case v of V_MessageRobotToExternal_ObjectUpAxisChanged x \<Rightarrow> Some x | _ \<Rightarrow> None)"

definition MessageRobotToExternal_SetObjectUpAxisChanged :: "(uint32 \<times> uint32 \<times> byte) \<Rightarrow> MessageRobotToExternal_value tagged \<Rightarrow> MessageRobotToExternal_value tagged" where
  "MessageRobotToExternal_SetObjectUpAxisChanged x = union_set 13 (V_MessageRobotToExternal_ObjectUpAxisChanged x)"

definition NewMessageRobotToExternalWithObjectUpAxisChanged :: "(uint32 \<times> uint32 \<times> byte) \<Rightarrow> MessageRobotToExternal_value tagged" where
  "NewMessageRobotToExternalWithObjectUpAxisChanged x = union_new 13 (V_MessageRobotToExternal_ObjectUpAxisChanged x)"

lemma MessageRobotToExternal_ObjectUpAxisChanged:
  "abs_MessageRobotToExternal m = Some y \<Longrightarrow> robotTag y \<noteq> 13 \<Longrightarrow> MessageRobotToExternal_GetObjectUpAxisChanged m = Ret None"
  "abs_MessageRobotToExternal m = Some (ObjectUpAxisChangedClad a b c) \<Longrightarrow> MessageRobotToExternal_GetObjectUpAxisChanged m = Ret (Some (a, b, c))"
  "abs_MessageRobotToExternal (MessageRobotToExternal_SetObjectUpAxisChanged (a, b, c) m) = Some (ObjectUpAxisChangedClad a b c)"
  "abs_MessageRobotToExternal (NewMessageRobotToExternalWithObjectUpAxisChanged (a, b, c)) = Some (ObjectUpAxisChangedClad a b c)"
  unfolding MessageRobotToExternal_GetObjectUpAxisChanged_def MessageRobotToExternal_SetObjectUpAxisChanged_def NewMessageRobotToExternalWithObjectUpAxisChanged_def
  by (rule messageRobotToExternalUnion.accessors [where v = "V_MessageRobotToExternal_ObjectUpAxisChanged (a, b, c)" and x = "(a, b, c)"], (assumption | simp)+)+

definition MessageRobotToExternal_GetObjectTapped :: "MessageRobotToExternal_value tagged \<Rightarrow> (uint32 \<times> uint32) option outcome" where
  "MessageRobotToExternal_GetObjectTapped = union_get 14 (\<lambda>v. case v of V_MessageRobotToExternal_ObjectTapped x \<Rightarrow> Some x | _ \<Rightarrow> None)"

definition MessageRobotToExternal_SetObjectTapped :: "(uint32 \<times> uint32) \<Rightarrow> MessageRobotToExternal_value tagged \<Rightarrow> MessageRobotToExternal_value tagged" where
  "MessageRobotToExternal_SetObjectTapped x = union_set 14 (V_MessageRobotToExternal_ObjectTapped x)"

definition NewMessageRobotToExternalWithObjectTapped :: "(uint32 \<times> uint32) \<Rightarrow> MessageRobotToExternal_value tagged" where
  "NewMessageRobotToExternalWithObjectTapped x = union_new 14 (V_MessageRobotToExternal_ObjectTapped x)"

lemma MessageRobotToExternal_ObjectTapped:
  "abs_MessageRobotToExternal m = Some y \<Longrightarrow> robotTag y \<noteq> 14 \<Longrightarrow> MessageRobotToExternal_GetObjectTapped m = Ret None"
  "abs_MessageRobotToExternal m = Some (ObjectTappedClad a b) \<Longrightarrow> MessageRobotToExternal_GetObjectTapped m = Ret (Some (a, b))"
  "abs_MessageRobotToExternal (MessageRobotToExternal_SetObjectTapped (a, b) m) = Some (ObjectTappedClad a b)"
  "abs_MessageRobotToExternal (NewMessageRobotToExternalWithObjectTapped (a, b)) = Some (ObjectTappedClad a b)"
  unfolding MessageRobotToExternal_GetObjectTapped_def MessageRobotToExternal_SetObjectTapped_def NewMessageRobotToExternalWithObjectTapped_def
  by (rule messageRobotToExternalUnion.accessors [where v = "V_MessageRobotToExternal_ObjectTapped (a, b)" and x = "(a, b)"], (assumption | simp)+)+

definition MessageRobotToExternal_GetObjectAccel :: "MessageRobotToExternal_value tagged \<Rightarrow> object_accel option outcome" where
  "MessageRobotToExternal_GetObjectAccel = union_get 15 (\<lambda>v. case v of V_MessageRobotToExternal_ObjectAccel x \<Rightarrow> Some x | _ \<Rightarrow> None)"

definition MessageRobotToExternal_SetObjectAccel :: "object_accel \<Rightarrow> MessageRobotToExternal_value tagged \<Rightarrow> MessageRobotToExternal_value tagged" where
  "MessageRobotToExternal_SetObjectAccel x = union_set 15 (V_MessageRobotToExternal_ObjectAccel x)"

definition NewMessageRobotToExternalWithObjectAccel :: "object_accel \<Rightarrow> MessageRobotToExternal_value tagged" where
  "NewMessageRobotToExternalWithObjectAccel x = union_new 15 (V_MessageRobotToExternal_ObjectAccel x)"

lemma MessageRobotToExternal_ObjectAccel:
  "abs_MessageRobotToExternal m = Some y \<Longrightarrow> robotTag y \<noteq> 15 \<Longrightarrow> MessageRobotToExternal_GetObjectAccel m = Ret None"
  "abs_MessageRobotToExternal m = Some (ObjectAccelClad x) \<Longrightarrow> MessageRobotToExternal_GetObjectAccel m = Ret (Some x)"
  "abs_MessageRobotToExternal (MessageRobotToExternal_SetObjectAccel x m) = Some (ObjectAccelClad x)"
  "abs_MessageRobotToExternal (NewMessageRobotToExternalWithObjectAccel x) = Some (ObjectAccelClad x)"
  unfolding MessageRobotToExternal_GetObjectAccel_def MessageRobotToExternal_SetObjectAccel_def NewMessageRobotToExternalWithObjectAccel_def
  by (rule messageRobotToExternalUnion.accessors [where v = "V_MessageRobotToExternal_ObjectAccel x" and x = "x"], (assumption | simp)+)+

definition MessageRobotToExternal_GetRobotObservedObject :: "MessageRobotToExternal_value tagged \<Rightarrow> clad_observed_object option outcome" where
  "MessageRobotToExternal_GetRobotObservedObject = union_get 16 (\<lambda>v. case v of V_MessageRobotToExternal_RobotObservedObject x \<Rightarrow> Some x | _ \<Rightarrow> None)"

definition MessageRobotToExternal_SetRobotObservedObject :: "clad_observed_object \<Rightarrow> MessageRobotToExternal_value tagged \<Rightarrow> MessageRobotToExternal_value tagged" where
  "MessageRobotToExternal_SetRobotObservedObject x = union_set 16 (V_MessageRobotToExternal_RobotObservedObject x)"

definition NewMessageRobotToExternalWithRobotObservedObject :: "clad_observed_object \<Rightarrow> MessageRobotToExternal_value tagged" where
  "NewMessageRobotToExternalWithRobotObservedObject x = union_new 16 (V_MessageRobotToExternal_RobotObservedObject x)"

lemma MessageRobotToExternal_RobotObservedObject:
  "abs_MessageRobotToExternal m = Some y \<Longrightarrow> robotTag y \<noteq> 16 \<Longrightarrow> MessageRobotToExternal_GetRobotObservedObject m = Ret None"
  "abs_MessageRobotToExternal m = Some (RobotObservedObjectClad x) \<Longrightarrow> MessageRobotToExternal_GetRobotObservedObject m = Ret (Some x)"
  "abs_MessageRobotToExternal (MessageRobotToExternal_SetRobotObservedObject x m) = Some (RobotObservedObjectClad x)"
  "abs_MessageRobotToExternal (NewMessageRobotToExternalWithRobotObservedObject x) = Some (RobotObservedObjectClad x)"
  unfolding MessageRobotToExternal_GetRobotObservedObject_def MessageRobotToExternal_SetRobotObservedObject_def NewMessageRobotToExternalWithRobotObservedObject_def
  by (rule messageRobotToExternalUnion.accessors [where v = "V_MessageRobotToExternal_RobotObservedObject x" and x = "x"], (assumption | simp)+)+

definition MessageRobotToExternal_GetObjectAvailable :: "MessageRobotToExternal_value tagged \<Rightarrow> (string \<times> int32 \<times> 8 word) option outcome" where
  "MessageRobotToExternal_GetObjectAvailable = union_get 17 (\<lambda>v. case v of V_MessageRobotToExternal_ObjectAvailable x \<Rightarrow> Some x | _ \<Rightarrow> None)"

definition MessageRobotToExternal_SetObjectAvailable :: "(string \<times> int32 \<times> 8 word) \<Rightarrow> MessageRobotToExternal_value tagged \<Rightarrow> MessageRobotToExternal_value tagged" where
  "MessageRobotToExternal_SetObjectAvailable x = union_set 17 (V_MessageRobotToExternal_ObjectAvailable x)"

definition NewMessageRobotToExternalWithObjectAvailable :: "(string \<times> int32 \<times> 8 word) \<Rightarrow> MessageRobotToExternal_value tagged" where
  "NewMessageRobotToExternalWithObjectAvailable x = union_new 17 (V_MessageRobotToExternal_ObjectAvailable x)"

lemma MessageRobotToExternal_ObjectAvailable:
  "abs_MessageRobotToExternal m = Some y \<Longrightarrow> robotTag y \<noteq> 17 \<Longrightarrow> MessageRobotToExternal_GetObjectAvailable m = Ret None"
  "abs_MessageRobotToExternal m = Some (ObjectAvailableClad a b c) \<Longrightarrow> MessageRobotToExternal_GetObjectAvailable m = Ret (Some (a, b, c))"
  "abs_MessageRobotToExternal (MessageRobotToExternal_SetObjectAvailable (a, b, c) m) = Some (ObjectAvailableClad a b c)"
  "abs_MessageRobotToExternal (NewMessageRobotToExternalWithObjectAvailable (a, b, c)) = Some (ObjectAvailableClad a b c)"
  unfolding MessageRobotToExternal_GetObjectAvailable_def MessageRobotToExternal_SetObjectAvailable_def NewMessageRobotToExternalWithObjectAvailable_def
  by (rule messageRobotToExternalUnion.accessors [where v = "V_MessageRobotToExternal_ObjectAvailable (a, b, c)" and x = "(a, b, c)"], (assumption | simp)+)+

definition MessageRobotToExternal_GetRobotDeletedFixedCustomObjects :: "MessageRobotToExternal_value tagged \<Rightarrow> unit option outcome" where
  "MessageRobotToExternal_GetRobotDeletedFixedCustomObjects = union_get 18 (\<lambda>v. case v of V_MessageRobotToExternal_RobotDeletedFixedCustomObjects \<Rightarrow> Some () | _ \<Rightarrow> None)"

definition MessageRobotToExternal_SetRobotDeletedFixedCustomObjects :: "unit \<Rightarrow> MessageRobotToExternal_value tagged \<Rightarrow> MessageRobotToExternal_value tagged" where
  "MessageRobotToExternal_SetRobotDeletedFixedCustomObjects x = union_set 18 V_MessageRobotToExternal_RobotDeletedFixedCustomObjects"

definition NewMessageRobotToExternalWithRobotDeletedFixedCustomObjects :: "unit \<Rightarrow> MessageRobotToExternal_value tagged" where
  "NewMessageRobotToExternalWithRobotDeletedFixedCustomObjects x = union_new 18 V_MessageRobotToExternal_RobotDeletedFixedCustomObjects"

lemma MessageRobotToExternal_RobotDeletedFixedCustomObjects:
  "abs_MessageRobotToExternal m = Some y \<Longrightarrow> robotTag y \<noteq> 18 \<Longrightarrow> MessageRobotToExternal_GetRobotDeletedFixedCustomObjects m = Ret None"
  "abs_MessageRobotToExternal m = Some RobotDeletedFixedCustomObjects \<Longrightarrow> MessageRobotToExternal_GetRobotDeletedFixedCustomObjects m = Ret (Some ())"
  "abs_MessageRobotToExternal (MessageRobotToExternal_SetRobotDeletedFixedCustomObjects x m) = Some RobotDeletedFixedCustomObjects"
  "abs_MessageRobotToExternal (NewMessageRobotToExternalWithRobotDeletedFixedCustomObjects x) = Some RobotDeletedFixedCustomObjects"
  unfolding MessageRobotToExternal_GetRobotDeletedFixedCustomObjects_def MessageRobotToExternal_SetRobotDeletedFixedCustomObjects_def NewMessageRobotToExternalWithRobotDeletedFixedCustomObjects_def
  by (rule messageRobotToExternalUnion.accessors [where v = "V_MessageRobotToExternal_RobotDeletedFixedCustomObjects" and x = "()"], (assumption | simp)+)+

definition MessageRobotToExternal_GetRobotDeletedCustomMarkerObjects :: "MessageRobotToExternal_value tagged \<Rightarrow> unit option outcome" where
  "MessageRobotToExternal_GetRobotDeletedCustomMarkerObjects = union_get 19 (\<lambda>v. case v of V_MessageRobotToExternal_RobotDeletedCustomMarkerObjects \<Rightarrow> Some () | _ \<Rightarrow> None)"

definition MessageRobotToExternal_SetRobotDeletedCustomMarkerObjects :: "unit \<Rightarrow> MessageRobotToExternal_value tagged \<Rightarrow> MessageRobotToExternal_value tagged" where
  "MessageRobotToExternal_SetRobotDeletedCustomMarkerObjects x = union_set 19 V_MessageRobotToExternal_RobotDeletedCustomMarkerObjects"

definition NewMessageRobotToExternalWithRobotDeletedCustomMarkerObjects :: "unit \<Rightarrow> MessageRobotToExternal_value tagged" where
  "NewMessageRobotToExternalWithRobotDeletedCustomMarkerObjects x = union_new 19 V_MessageRobotToExternal_RobotDeletedCustomMarkerObjects"

lemma MessageRobotToExternal_RobotDeletedCustomMarkerObjects:
  "abs_MessageRobotToExternal m = Some y \<Longrightarrow> robotTag y \<noteq> 19 \<Longrightarrow> MessageRobotToExternal_GetRobotDeletedCustomMarkerObjects m = Ret None"
  "abs_MessageRobotToExternal m = Some RobotDeletedCustomMarkerObjects \<Longrightarrow> MessageRobotToExternal_GetRobotDeletedCustomMarkerObjects m = Ret (Some ())"
  "abs_MessageRobotToExternal (MessageRobotToExternal_SetRobotDeletedCustomMarkerObjects x m) = Some RobotDeletedCustomMarkerObjects"
  "abs_MessageRobotToExternal (NewMessageRobotToExternalWithRobotDeletedCustomMarkerObjects x) = Some RobotDeletedCustomMarkerObjects"
  unfolding MessageRobotToExternal_GetRobotDeletedCustomMarkerObjects_def MessageRobotToExternal_SetRobotDeletedCustomMarkerObjects_def NewMessageRobotToExternalWithRobotDeletedCustomMarkerObjects_def
  by (rule messageRobotToExternalUnion.accessors [where v = "V_MessageRobotToExternal_RobotDeletedCustomMarkerObjects" and x = "()"], (assumption | simp)+)+

definition MessageRobotToExternal_GetCreatedFixedCustomObject :: "MessageRobotToExternal_value tagged \<Rightarrow> uint32 option outcome" where
  "MessageRobotToExternal_GetCreatedFixedCustomObject = union_get 20 (\<lambda>v. case v of V_MessageRobotToExternal_CreatedFixedCustomObject x \<Rightarrow> Some x | _ \<Rightarrow> None)"

definition MessageRobotToExternal_SetCreatedFixedCustomObject :: "uint32 \<Rightarrow> MessageRobotToExternal_value tagged \<Rightarrow> MessageRobotToExternal_value tagged" where
  "MessageRobotToExternal_SetCreatedFixedCustomObject x = union_set 20 (V_MessageRobotToExternal_CreatedFixedCustomObject x)"

definition NewMessageRobotToExternalWithCreatedFixedCustomObject :: "uint32 \<Rightarrow> MessageRobotToExternal_value tagged" where
  "NewMessageRobotToExternalWithCreatedFixedCustomObject x = union_new 20 (V_MessageRobotToExternal_CreatedFixedCustomObject x)"

lemma MessageRobotToExternal_CreatedFixedCustomObject:
  "abs_MessageRobotToExternal m = Some y \<Longrightarrow> robotTag y \<noteq> 20 \<Longrightarrow> MessageRobotToExternal_GetCreatedFixedCustomObject m = Ret None"
  "abs_MessageRobotToExternal m = Some (CreatedFixedCustomObject x) \<Longrightarrow> MessageRobotToExternal_GetCreatedFixedCustomObject m = Ret (Some x)"
  "abs_MessageRobotToExternal (MessageRobotToExternal_SetCreatedFixedCustomObject x m) = Some (CreatedFixedCustomObject x)"
  "abs_MessageRobotToExternal (NewMessageRobotToExternalWithCreatedFixedCustomObject x) = Some (CreatedFixedCustomObject x)"
  unfolding MessageRobotToExternal_GetCreatedFixedCustomObject_def MessageRobotToExternal_SetCreatedFixedCustomObject_def NewMessageRobotToExternalWithCreatedFixedCustomObject_def
  by (rule messageRobotToExternalUnion.accessors [where v = "V_MessageRobotToExternal_CreatedFixedCustomObject x" and x = "x"], (assumption | simp)+)+

definition MessageRobotToExternal_GetDefinedCustomObject :: "MessageRobotToExternal_value tagged \<Rightarrow> bool option outcome" where
  "MessageRobotToExternal_GetDefinedCustomObject = union_get 21 (\<lambda>v. case v of V_MessageRobotToExternal_DefinedCustomObject x \<Rightarrow> Some x | _ \<Rightarrow> None)"

definition MessageRobotToExternal_SetDefinedCustomObject :: "bool \<Rightarrow> MessageRobotToExternal_value tagged \<Rightarrow> MessageRobotToExternal_value tagged" where
  "MessageRobotToExternal_SetDefinedCustomObject x = union_set 21 (V_MessageRobotToExternal_DefinedCustomObject x)"

definition NewMessageRobotToExternalWithDefinedCustomObject :: "bool \<Rightarrow> MessageRobotToExternal_value tagged" where
  "NewMessageRobotToExternalWithDefinedCustomObject x = union_new 21 (V_MessageRobotToExternal_DefinedCustomObject x)"

lemma MessageRobotToExternal_DefinedCustomObject:
  "abs_MessageRobotToExternal m = Some y \<Longrightarrow> robotTag y \<noteq> 21 \<Longrightarrow> MessageRobotToExternal_GetDefinedCustomObject m = Ret None"
  "abs_MessageRobotToExternal m = Some (DefinedCustomObject x) \<Longrightarrow> MessageRobotToExternal_GetDefinedCustomObject m = Ret (Some x)"
  "abs_MessageRobotToExternal (MessageRobotToExternal_SetDefinedCustomObject x m) = Some (DefinedCustomObject x)"
  "abs_MessageRobotToExternal (NewMessageRobotToExternalWithDefinedCustomObject x) = Some (DefinedCustomObject x)"
  unfolding MessageRobotToExternal_GetDefinedCustomObject_def MessageRobotToExternal_SetDefinedCustomObject_def NewMessageRobotToExternalWithDefinedCustomObject_def
  by (rule messageRobotToExternalUnion.accessors [where v = "V_MessageRobotToExternal_DefinedCustomObject x" and x = "x"], (assumption | simp)+)+

definition MessageRobotToExternal_GetMemoryMapMessageBegin :: "MessageRobotToExternal_value tagged \<Rightarrow> map_begin option outcome" where
  "MessageRobotToExternal_GetMemoryMapMessageBegin = union_get 22 (\<lambda>v. case v of V_MessageRobotToExternal_MemoryMapMessageBegin x \<Rightarrow> Some x | _ \<Rightarrow> None)"

definition MessageRobotToExternal_SetMemoryMapMessageBegin :: "map_begin \<Rightarrow> MessageRobotToExternal_value tagged \<Rightarrow> MessageRobotToExternal_value tagged" where
  "MessageRobotToExternal_SetMemoryMapMessageBegin x = union_set 22 (V_MessageRobotToExternal_MemoryMapMessageBegin x)"

definition NewMessageRobotToExternalWithMemoryMapMessageBegin :: "map_begin \<Rightarrow> MessageRobotToExternal_value tagged" where
  "NewMessageRobotToExternalWithMemoryMapMessageBegin x = union_new 22 (V_MessageRobotToExternal_MemoryMapMessageBegin x)"

lemma MessageRobotToExternal_MemoryMapMessageBegin:
  "abs_MessageRobotToExternal m = Some y \<Longrightarrow> robotTag y \<noteq> 22 \<Longrightarrow> MessageRobotToExternal_GetMemoryMapMessageBegin m = Ret None"
  "abs_MessageRobotToExternal m = Some (MemoryMapMessageBegin x) \<Longrightarrow> MessageRobotToExternal_GetMemoryMapMessageBegin m = Ret (Some x)"
  "abs_MessageRobotToExternal (MessageRobotToExternal_SetMemoryMapMessageBegin x m) = Some (MemoryMapMessageBegin x)"
  "abs_MessageRobotToExternal (NewMessageRobotToExternalWithMemoryMapMessageBegin x) = Some (MemoryMapMessageBegin x)"
  unfolding MessageRobotToExternal_GetMemoryMapMessageBegin_def MessageRobotToExternal_SetMemoryMapMessageBegin_def NewMessageRobotToExternalWithMemoryMapMessageBegin_def
  by (rule messageRobotToExternalUnion.accessors [where v = "V_MessageRobotToExternal_MemoryMapMessageBegin x" and x = "x"], (assumption | simp)+)+

definition MessageRobotToExternal_GetMemoryMapMessage :: "MessageRobotToExternal_value tagged \<Rightarrow> (map_quad list) option outcome" where
  "MessageRobotToExternal_GetMemoryMapMessage = union_get 23 (\<lambda>v. case v of V_MessageRobotToExternal_MemoryMapMessage x \<Rightarrow> Some x | _ \<Rightarrow> None)"

definition MessageRobotToExternal_SetMemoryMapMessage :: "(map_quad list) \<Rightarrow> MessageRobotToExternal_value tagged \<Rightarrow> MessageRobotToExternal_value tagged" where
  "MessageRobotToExternal_SetMemoryMapMessage x = union_set 23 (V_MessageRobotToExternal_MemoryMapMessage x)"

definition NewMessageRobotToExternalWithMemoryMapMessage :: "(map_quad list) \<Rightarrow> MessageRobotToExternal_value tagged" where
  "NewMessageRobotToExternalWithMemoryMapMessage x = union_new 23 (V_MessageRobotToExternal_MemoryMapMessage x)"

lemma MessageRobotToExternal_MemoryMapMessage:
  "abs_MessageRobotToExternal m = Some y \<Longrightarrow> robotTag y \<noteq> 23 \<Longrightarrow> MessageRobotToExternal_GetMemoryMapMessage m = Ret None"
  "abs_MessageRobotToExternal m = Some (MemoryMapMessage x) \<Longrightarrow> MessageRobotToExternal_GetMemoryMapMessage m = Ret (Some x)"
  "abs_MessageRobotToExternal (MessageRobotToExternal_SetMemoryMapMessage x m) = Some (MemoryMapMessage x)"
  "abs_MessageRobotToExternal (NewMessageRobotToExternalWithMemoryMapMessage x) = Some (MemoryMapMessage x)"
  unfolding MessageRobotToExternal_GetMemoryMapMessage_def MessageRobotToExternal_SetMemoryMapMessage_def NewMessageRobotToExternalWithMemoryMapMessage_def
  by (rule messageRobotToExternalUnion.accessors [where v = "V_MessageRobotToExternal_MemoryMapMessage x" and x = "x"], (assumption | simp)+)+

definition MessageRobotToExternal_GetMemoryMapMessageEnd :: "MessageRobotToExternal_value tagged \<Rightarrow> unit option outcome" where
  "MessageRobotToExternal_GetMemoryMapMessageEnd = union_get 24 (\<lambda>v. case v of V_MessageRobotToExternal_MemoryMapMessageEnd \<Rightarrow> Some () | _ \<Rightarrow> None)"

definition MessageRobotToExternal_SetMemoryMapMessageEnd :: "unit \<Rightarrow> MessageRobotToExternal_value tagged \<Rightarrow> MessageRobotToExternal_value tagged" where
  "MessageRobotToExternal_SetMemoryMapMessageEnd x = union_set 24 V_MessageRobotToExternal_MemoryMapMessageEnd"

definition NewMessageRobotToExternalWithMemoryMapMessageEnd :: "unit \<Rightarrow> MessageRobotToExternal_value tagged" where
  "NewMessageRobotToExternalWithMemoryMapMessageEnd x = union_new 24 V_MessageRobotToExternal_MemoryMapMessageEnd"

lemma MessageRobotToExternal_MemoryMapMessageEnd:
  "abs_MessageRobotToExternal m = Some y \<Longrightarrow> robotTag y \<noteq> 24 \<Longrightarrow> MessageRobotToExternal_GetMemoryMapMessageEnd m = Ret None"
  "abs_MessageRobotToExternal m = Some MemoryMapMessageEnd \<Longrightarrow> MessageRobotToExternal_GetMemoryMapMessageEnd m = Ret (Some ())"
  "abs_MessageRobotToExternal (MessageRobotToExternal_SetMemoryMapMessageEnd x m) = Some MemoryMapMessageEnd"
  "abs_MessageRobotToExternal (NewMessageRobotToExternalWithMemoryMapMessageEnd x) = Some MemoryMapMessageEnd"
  unfolding MessageRobotToExternal_GetMemoryMapMessageEnd_def MessageRobotToExternal_SetMemoryMapMessageEnd_def NewMessageRobotToExternalWithMemoryMapMessageEnd_def
  by (rule messageRobotToExternalUnion.accessors [where v = "V_MessageRobotToExternal_MemoryMapMessageEnd" and x = "()"], (assumption | simp)+)+

definition panics_MessageRobotToExternal :: "MessageRobotToExternal_value tagged \<Rightarrow> bool" where
  "panics_MessageRobotToExternal m \<longleftrightarrow> MessageRobotToExternal_GetUiDeviceConnected m = Panic \<or>
     MessageRobotToExternal_GetRobotCompletedAction m = Panic \<or>
     MessageRobotToExternal_GetEvent m = Panic \<or>
     MessageRobotToExternal_GetEnrolledNamesResponse m = Panic \<or>
     MessageRobotToExternal_GetRobotObservedFace m = Panic \<or>
     MessageRobotToExternal_GetRobotChangedObservedFaceID m = Panic \<or>
     MessageRobotToExternal_GetObjectConnectionState m = Panic \<or>
     MessageRobotToExternal_GetObjectMoved m = Panic \<or>
     MessageRobotToExternal_GetObjectStoppedMoving m = Panic \<or>
     MessageRobotToExternal_GetObjectUpAxisChanged m = Panic \<or>
     MessageRobotToExternal_GetObjectTapped m = Panic \<or>
     MessageRobotToExternal_GetObjectAccel m = Panic \<or>
     MessageRobotToExternal_GetRobotObservedObject m = Panic \<or>
     MessageRobotToExternal_GetObjectAvailable m = Panic \<or>
     MessageRobotToExternal_GetRobotDeletedFixedCustomObjects m = Panic \<or>
     MessageRobotToExternal_GetRobotDeletedCustomMarkerObjects m = Panic \<or>
     MessageRobotToExternal_GetCreatedFixedCustomObject m = Panic \<or>
     MessageRobotToExternal_GetDefinedCustomObject m = Panic \<or>
     MessageRobotToExternal_GetMemoryMapMessageBegin m = Panic \<or>
     MessageRobotToExternal_GetMemoryMapMessage m = Panic \<or>
     MessageRobotToExternal_GetMemoryMapMessageEnd m = Panic"

lemma getters_MessageRobotToExternal: "getters_safe con_MessageRobotToExternal MessageRobotToExternal_unpackValue panics_MessageRobotToExternal"
  unfolding getters_safe_def panics_MessageRobotToExternal_def de_Morgan_disj MessageRobotToExternal_GetUiDeviceConnected_def MessageRobotToExternal_GetRobotCompletedAction_def MessageRobotToExternal_GetEvent_def MessageRobotToExternal_GetEnrolledNamesResponse_def
    MessageRobotToExternal_GetRobotObservedFace_def MessageRobotToExternal_GetRobotChangedObservedFaceID_def MessageRobotToExternal_GetObjectConnectionState_def MessageRobotToExternal_GetObjectMoved_def
    MessageRobotToExternal_GetObjectStoppedMoving_def MessageRobotToExternal_GetObjectUpAxisChanged_def MessageRobotToExternal_GetObjectTapped_def MessageRobotToExternal_GetObjectAccel_def
    MessageRobotToExternal_GetRobotObservedObject_def MessageRobotToExternal_GetObjectAvailable_def MessageRobotToExternal_GetRobotDeletedFixedCustomObjects_def MessageRobotToExternal_GetRobotDeletedCustomMarkerObjects_def
    MessageRobotToExternal_GetCreatedFixedCustomObject_def MessageRobotToExternal_GetDefinedCustomObject_def MessageRobotToExternal_GetMemoryMapMessageBegin_def MessageRobotToExternal_GetMemoryMapMessage_def
    MessageRobotToExternal_GetMemoryMapMessageEnd_def
  by (intro allI impI conjI; rule messageRobotToExternalUnion.get_no_panic, assumption, simp, case_tac v; simp)

section \<open>\<open>MessageExternalToRobot\<close>\<close>

text \<open>The types of its values.\<close>

datatype MessageExternalToRobot_value =
    V_MessageExternalToRobot_UiDeviceConnectionWrongVersion string
  | V_MessageExternalToRobot_MoveHead float32
  | V_MessageExternalToRobot_MoveLift float32
  | V_MessageExternalToRobot_DriveArc drive_arc
  | V_MessageExternalToRobot_RobotHistoryRequest
  | V_MessageExternalToRobot_DisplayFaceImageRGBChunk face_image_chunk
  | V_MessageExternalToRobot_AppIntent "string \<times> string"
  | V_MessageExternalToRobot_CancelFaceEnrollment
  | V_MessageExternalToRobot_RequestEnrolledNames
  | V_MessageExternalToRobot_UpdateEnrolledFaceByID "int32 \<times> string \<times> string"
  | V_MessageExternalToRobot_EraseEnrolledFaceByID int32
  | V_MessageExternalToRobot_EraseAllEnrolledFaces
  | V_MessageExternalToRobot_SetFaceToEnroll set_face_to_enroll
  | V_MessageExternalToRobot_EnableVisionMode enable_vision_mode
  | V_MessageExternalToRobot_GotoPose goto_pose
  | V_MessageExternalToRobot_DriveStraight drive_straight
  | V_MessageExternalToRobot_TurnInPlace turn_in_place
  | V_MessageExternalToRobot_SetHeadAngle set_head_angle
  | V_MessageExternalToRobot_SetLiftHeight set_lift_height
  | V_MessageExternalToRobot_AlignWithObject align_with_object
  | V_MessageExternalToRobot_SetLiftAngle set_lift_angle
  | V_MessageExternalToRobot_DeleteCustomMarkerObjects
  | V_MessageExternalToRobot_DeleteFixedCustomObjects
  | V_MessageExternalToRobot_UndefineAllCustomMarkerObjects
  | V_MessageExternalToRobot_CreateFixedCustomObject "pose_struct3d \<times> float32 \<times> float32 \<times> float32"
  | V_MessageExternalToRobot_DefineCustomBox define_custom_box
  | V_MessageExternalToRobot_DefineCustomCube define_custom_cube
  | V_MessageExternalToRobot_DefineCustomWall define_custom_wall
  | V_MessageExternalToRobot_SetMemoryMapBroadcastFrequency_sec float32

primrec con_MessageExternalToRobot :: "byte \<Rightarrow> MessageExternalToRobot_value \<Rightarrow> external_to_robot option" where
  "con_MessageExternalToRobot t (V_MessageExternalToRobot_UiDeviceConnectionWrongVersion x) = (if t = 0 then Some (UiDeviceConnectionWrongVersionClad x) else None)"
| "con_MessageExternalToRobot t (V_MessageExternalToRobot_MoveHead x) = (if t = 3 then Some (MoveHead x) else None)"
| "con_MessageExternalToRobot t (V_MessageExternalToRobot_MoveLift x) = (if t = 4 then Some (MoveLift x) else None)"
| "con_MessageExternalToRobot t (V_MessageExternalToRobot_DriveArc x) = (if t = 5 then Some (DriveArcClad x) else None)"
| "con_MessageExternalToRobot t V_MessageExternalToRobot_RobotHistoryRequest = (if t = 6 then Some (RobotHistoryRequestClad) else None)"
| "con_MessageExternalToRobot t (V_MessageExternalToRobot_DisplayFaceImageRGBChunk x) = (if t = 8 then Some (DisplayFaceImageRGBChunk x) else None)"
| "con_MessageExternalToRobot t (V_MessageExternalToRobot_AppIntent x) = (if t = 9 then Some (case x of (a, b) \<Rightarrow> AppIntentClad a b) else None)"
| "con_MessageExternalToRobot t V_MessageExternalToRobot_CancelFaceEnrollment = (if t = 10 then Some (CancelFaceEnrollmentClad) else None)"
| "con_MessageExternalToRobot t V_MessageExternalToRobot_RequestEnrolledNames = (if t = 11 then Some (RequestEnrolledNamesClad) else None)"
| "con_MessageExternalToRobot t (V_MessageExternalToRobot_UpdateEnrolledFaceByID x) = (if t = 12 then Some (case x of (a, b, c) \<Rightarrow> UpdateEnrolledFaceByIDClad a b c) else None)"
| "con_MessageExternalToRobot t (V_MessageExternalToRobot_EraseEnrolledFaceByID x) = (if t = 13 then Some (EraseEnrolledFaceByIDClad x) else None)"
| "con_MessageExternalToRobot t V_MessageExternalToRobot_EraseAllEnrolledFaces = (if t = 14 then Some (EraseAllEnrolledFacesClad) else None)"
| "con_MessageExternalToRobot t (V_MessageExternalToRobot_SetFaceToEnroll x) = (if t = 15 then Some (SetFaceToEnrollClad x) else None)"
| "con_MessageExternalToRobot t (V_MessageExternalToRobot_EnableVisionMode x) = (if t = 16 then Some (EnableVisionModeClad x) else None)"
| "con_MessageExternalToRobot t (V_MessageExternalToRobot_GotoPose x) = (if t = 18 then Some (GotoPoseClad x) else None)"
| "con_MessageExternalToRobot t (V_MessageExternalToRobot_DriveStraight x) = (if t = 19 then Some (DriveStraightClad x) else None)"
| "con_MessageExternalToRobot t (V_MessageExternalToRobot_TurnInPlace x) = (if t = 20 then Some (TurnInPlaceClad x) else None)"
| "con_MessageExternalToRobot t (V_MessageExternalToRobot_SetHeadAngle x) = (if t = 21 then Some (SetHeadAngleClad x) else None)"
| "con_MessageExternalToRobot t (V_MessageExternalToRobot_SetLiftHeight x) = (if t = 22 then Some (SetLiftHeightClad x) else None)"
| "con_MessageExternalToRobot t (V_MessageExternalToRobot_AlignWithObject x) = (if t = 24 then Some (AlignWithObjectClad x) else None)"
| "con_MessageExternalToRobot t (V_MessageExternalToRobot_SetLiftAngle x) = (if t = 25 then Some (SetLiftAngleClad x) else None)"
| "con_MessageExternalToRobot t V_MessageExternalToRobot_DeleteCustomMarkerObjects = (if t = 26 then Some (DeleteCustomMarkerObjects) else None)"
| "con_MessageExternalToRobot t V_MessageExternalToRobot_DeleteFixedCustomObjects = (if t = 27 then Some (DeleteFixedCustomObjects) else None)"
| "con_MessageExternalToRobot t V_MessageExternalToRobot_UndefineAllCustomMarkerObjects = (if t = 28 then Some (UndefineAllCustomMarkerObjects) else None)"
| "con_MessageExternalToRobot t (V_MessageExternalToRobot_CreateFixedCustomObject x) = (if t = 29 then Some (case x of (a, b, c, d) \<Rightarrow> CreateFixedCustomObjectClad a b c d) else None)"
| "con_MessageExternalToRobot t (V_MessageExternalToRobot_DefineCustomBox x) = (if t = 30 then Some (DefineCustomBox x) else None)"
| "con_MessageExternalToRobot t (V_MessageExternalToRobot_DefineCustomCube x) = (if t = 31 then Some (DefineCustomCube x) else None)"
| "con_MessageExternalToRobot t (V_MessageExternalToRobot_DefineCustomWall x) = (if t = 32 then Some (DefineCustomWall x) else None)"
| "con_MessageExternalToRobot t (V_MessageExternalToRobot_SetMemoryMapBroadcastFrequency_sec x) = (if t = 33 then Some (SetMemoryMapBroadcastFrequency_sec x) else None)"

primrec value_of_MessageExternalToRobot :: "external_to_robot \<Rightarrow> MessageExternalToRobot_value option" where
  "value_of_MessageExternalToRobot (UiDeviceConnectionWrongVersionClad x) = Some (V_MessageExternalToRobot_UiDeviceConnectionWrongVersion x)"
| "value_of_MessageExternalToRobot (MoveHead x) = Some (V_MessageExternalToRobot_MoveHead x)"
| "value_of_MessageExternalToRobot (MoveLift x) = Some (V_MessageExternalToRobot_MoveLift x)"
| "value_of_MessageExternalToRobot (DriveArcClad x) = Some (V_MessageExternalToRobot_DriveArc x)"
| "value_of_MessageExternalToRobot RobotHistoryRequestClad = Some (V_MessageExternalToRobot_RobotHistoryRequest)"
| "value_of_MessageExternalToRobot (DisplayFaceImageRGBChunk x) = Some (V_MessageExternalToRobot_DisplayFaceImageRGBChunk x)"
| "value_of_MessageExternalToRobot (AppIntentClad a b) = Some (V_MessageExternalToRobot_AppIntent (a, b))"
| "value_of_MessageExternalToRobot CancelFaceEnrollmentClad = Some (V_MessageExternalToRobot_CancelFaceEnrollment)"
| "value_of_MessageExternalToRobot RequestEnrolledNamesClad = Some (V_MessageExternalToRobot_RequestEnrolledNames)"
| "value_of_MessageExternalToRobot (UpdateEnrolledFaceByIDClad a b c) = Some (V_MessageExternalToRobot_UpdateEnrolledFaceByID (a, b, c))"
| "value_of_MessageExternalToRobot (EraseEnrolledFaceByIDClad x) = Some (V_MessageExternalToRobot_EraseEnrolledFaceByID x)"
| "value_of_MessageExternalToRobot EraseAllEnrolledFacesClad = Some (V_MessageExternalToRobot_EraseAllEnrolledFaces)"
| "value_of_MessageExternalToRobot (SetFaceToEnrollClad x) = Some (V_MessageExternalToRobot_SetFaceToEnroll x)"
| "value_of_MessageExternalToRobot (EnableVisionModeClad x) = Some (V_MessageExternalToRobot_EnableVisionMode x)"
| "value_of_MessageExternalToRobot (GotoPoseClad x) = Some (V_MessageExternalToRobot_GotoPose x)"
| "value_of_MessageExternalToRobot (DriveStraightClad x) = Some (V_MessageExternalToRobot_DriveStraight x)"
| "value_of_MessageExternalToRobot (TurnInPlaceClad x) = Some (V_MessageExternalToRobot_TurnInPlace x)"
| "value_of_MessageExternalToRobot (SetHeadAngleClad x) = Some (V_MessageExternalToRobot_SetHeadAngle x)"
| "value_of_MessageExternalToRobot (SetLiftHeightClad x) = Some (V_MessageExternalToRobot_SetLiftHeight x)"
| "value_of_MessageExternalToRobot (AlignWithObjectClad x) = Some (V_MessageExternalToRobot_AlignWithObject x)"
| "value_of_MessageExternalToRobot (SetLiftAngleClad x) = Some (V_MessageExternalToRobot_SetLiftAngle x)"
| "value_of_MessageExternalToRobot DeleteCustomMarkerObjects = Some (V_MessageExternalToRobot_DeleteCustomMarkerObjects)"
| "value_of_MessageExternalToRobot DeleteFixedCustomObjects = Some (V_MessageExternalToRobot_DeleteFixedCustomObjects)"
| "value_of_MessageExternalToRobot UndefineAllCustomMarkerObjects = Some (V_MessageExternalToRobot_UndefineAllCustomMarkerObjects)"
| "value_of_MessageExternalToRobot (CreateFixedCustomObjectClad a b c d) = Some (V_MessageExternalToRobot_CreateFixedCustomObject (a, b, c, d))"
| "value_of_MessageExternalToRobot (DefineCustomBox x) = Some (V_MessageExternalToRobot_DefineCustomBox x)"
| "value_of_MessageExternalToRobot (DefineCustomCube x) = Some (V_MessageExternalToRobot_DefineCustomCube x)"
| "value_of_MessageExternalToRobot (DefineCustomWall x) = Some (V_MessageExternalToRobot_DefineCustomWall x)"
| "value_of_MessageExternalToRobot (SetMemoryMapBroadcastFrequency_sec x) = Some (V_MessageExternalToRobot_SetMemoryMapBroadcastFrequency_sec x)"
| "value_of_MessageExternalToRobot ExternalInvalid = None"

primrec MessageExternalToRobot_packValue :: "MessageExternalToRobot_value \<Rightarrow> writer" where
  "MessageExternalToRobot_packValue (V_MessageExternalToRobot_UiDeviceConnectionWrongVersion x) = Pack_UiDeviceConnectionWrongVersion x"
| "MessageExternalToRobot_packValue (V_MessageExternalToRobot_MoveHead x) = Pack_MoveHead x"
| "MessageExternalToRobot_packValue (V_MessageExternalToRobot_MoveLift x) = Pack_MoveLift x"
| "MessageExternalToRobot_packValue (V_MessageExternalToRobot_DriveArc x) = Pack_DriveArc x"
| "MessageExternalToRobot_packValue V_MessageExternalToRobot_RobotHistoryRequest = Pack_RobotHistoryRequest ()"
| "MessageExternalToRobot_packValue (V_MessageExternalToRobot_DisplayFaceImageRGBChunk x) = Pack_DisplayFaceImageRGBChunk x"
| "MessageExternalToRobot_packValue (V_MessageExternalToRobot_AppIntent x) = Pack_AppIntent x"
| "MessageExternalToRobot_packValue V_MessageExternalToRobot_CancelFaceEnrollment = Pack_CancelFaceEnrollment ()"
| "MessageExternalToRobot_packValue V_MessageExternalToRobot_RequestEnrolledNames = Pack_RequestEnrolledNames ()"
| "MessageExternalToRobot_packValue (V_MessageExternalToRobot_UpdateEnrolledFaceByID x) = Pack_UpdateEnrolledFaceByID x"
| "MessageExternalToRobot_packValue (V_MessageExternalToRobot_EraseEnrolledFaceByID x) = Pack_EraseEnrolledFaceByID x"
| "MessageExternalToRobot_packValue V_MessageExternalToRobot_EraseAllEnrolledFaces = Pack_EraseAllEnrolledFaces ()"
| "MessageExternalToRobot_packValue (V_MessageExternalToRobot_SetFaceToEnroll x) = Pack_SetFaceToEnroll x"
| "MessageExternalToRobot_packValue (V_MessageExternalToRobot_EnableVisionMode x) = Pack_EnableVisionMode x"
| "MessageExternalToRobot_packValue (V_MessageExternalToRobot_GotoPose x) = Pack_GotoPose x"
| "MessageExternalToRobot_packValue (V_MessageExternalToRobot_DriveStraight x) = Pack_DriveStraight x"
| "MessageExternalToRobot_packValue (V_MessageExternalToRobot_TurnInPlace x) = Pack_TurnInPlace x"
| "MessageExternalToRobot_packValue (V_MessageExternalToRobot_SetHeadAngle x) = Pack_SetHeadAngle x"
| "MessageExternalToRobot_packValue (V_MessageExternalToRobot_SetLiftHeight x) = Pack_SetLiftHeight x"
| "MessageExternalToRobot_packValue (V_MessageExternalToRobot_AlignWithObject x) = Pack_AlignWithObject x"
| "MessageExternalToRobot_packValue (V_MessageExternalToRobot_SetLiftAngle x) = Pack_SetLiftAngle x"
| "MessageExternalToRobot_packValue V_MessageExternalToRobot_DeleteCustomMarkerObjects = Pack_DeleteCustomMarkerObjects ()"
| "MessageExternalToRobot_packValue V_MessageExternalToRobot_DeleteFixedCustomObjects = Pack_DeleteFixedCustomObjects ()"
| "MessageExternalToRobot_packValue V_MessageExternalToRobot_UndefineAllCustomMarkerObjects = Pack_UndefineAllCustomMarkerObjects ()"
| "MessageExternalToRobot_packValue (V_MessageExternalToRobot_CreateFixedCustomObject x) = Pack_CreateFixedCustomObject x"
| "MessageExternalToRobot_packValue (V_MessageExternalToRobot_DefineCustomBox x) = Pack_DefineCustomBox x"
| "MessageExternalToRobot_packValue (V_MessageExternalToRobot_DefineCustomCube x) = Pack_DefineCustomCube x"
| "MessageExternalToRobot_packValue (V_MessageExternalToRobot_DefineCustomWall x) = Pack_DefineCustomWall x"
| "MessageExternalToRobot_packValue (V_MessageExternalToRobot_SetMemoryMapBroadcastFrequency_sec x) = Pack_SetMemoryMapBroadcastFrequency_sec x"

primrec MessageExternalToRobot_sizeValue :: "MessageExternalToRobot_value \<Rightarrow> uint32" where
  "MessageExternalToRobot_sizeValue (V_MessageExternalToRobot_UiDeviceConnectionWrongVersion x) = Size_UiDeviceConnectionWrongVersion x"
| "MessageExternalToRobot_sizeValue (V_MessageExternalToRobot_MoveHead x) = Size_MoveHead x"
| "MessageExternalToRobot_sizeValue (V_MessageExternalToRobot_MoveLift x) = Size_MoveLift x"
| "MessageExternalToRobot_sizeValue (V_MessageExternalToRobot_DriveArc x) = Size_DriveArc x"
| "MessageExternalToRobot_sizeValue V_MessageExternalToRobot_RobotHistoryRequest = Size_RobotHistoryRequest ()"
| "MessageExternalToRobot_sizeValue (V_MessageExternalToRobot_DisplayFaceImageRGBChunk x) = Size_DisplayFaceImageRGBChunk x"
| "MessageExternalToRobot_sizeValue (V_MessageExternalToRobot_AppIntent x) = Size_AppIntent x"
| "MessageExternalToRobot_sizeValue V_MessageExternalToRobot_CancelFaceEnrollment = Size_CancelFaceEnrollment ()"
| "MessageExternalToRobot_sizeValue V_MessageExternalToRobot_RequestEnrolledNames = Size_RequestEnrolledNames ()"
| "MessageExternalToRobot_sizeValue (V_MessageExternalToRobot_UpdateEnrolledFaceByID x) = Size_UpdateEnrolledFaceByID x"
| "MessageExternalToRobot_sizeValue (V_MessageExternalToRobot_EraseEnrolledFaceByID x) = Size_EraseEnrolledFaceByID x"
| "MessageExternalToRobot_sizeValue V_MessageExternalToRobot_EraseAllEnrolledFaces = Size_EraseAllEnrolledFaces ()"
| "MessageExternalToRobot_sizeValue (V_MessageExternalToRobot_SetFaceToEnroll x) = Size_SetFaceToEnroll x"
| "MessageExternalToRobot_sizeValue (V_MessageExternalToRobot_EnableVisionMode x) = Size_EnableVisionMode x"
| "MessageExternalToRobot_sizeValue (V_MessageExternalToRobot_GotoPose x) = Size_GotoPose x"
| "MessageExternalToRobot_sizeValue (V_MessageExternalToRobot_DriveStraight x) = Size_DriveStraight x"
| "MessageExternalToRobot_sizeValue (V_MessageExternalToRobot_TurnInPlace x) = Size_TurnInPlace x"
| "MessageExternalToRobot_sizeValue (V_MessageExternalToRobot_SetHeadAngle x) = Size_SetHeadAngle x"
| "MessageExternalToRobot_sizeValue (V_MessageExternalToRobot_SetLiftHeight x) = Size_SetLiftHeight x"
| "MessageExternalToRobot_sizeValue (V_MessageExternalToRobot_AlignWithObject x) = Size_AlignWithObject x"
| "MessageExternalToRobot_sizeValue (V_MessageExternalToRobot_SetLiftAngle x) = Size_SetLiftAngle x"
| "MessageExternalToRobot_sizeValue V_MessageExternalToRobot_DeleteCustomMarkerObjects = Size_DeleteCustomMarkerObjects ()"
| "MessageExternalToRobot_sizeValue V_MessageExternalToRobot_DeleteFixedCustomObjects = Size_DeleteFixedCustomObjects ()"
| "MessageExternalToRobot_sizeValue V_MessageExternalToRobot_UndefineAllCustomMarkerObjects = Size_UndefineAllCustomMarkerObjects ()"
| "MessageExternalToRobot_sizeValue (V_MessageExternalToRobot_CreateFixedCustomObject x) = Size_CreateFixedCustomObject x"
| "MessageExternalToRobot_sizeValue (V_MessageExternalToRobot_DefineCustomBox x) = Size_DefineCustomBox x"
| "MessageExternalToRobot_sizeValue (V_MessageExternalToRobot_DefineCustomCube x) = Size_DefineCustomCube x"
| "MessageExternalToRobot_sizeValue (V_MessageExternalToRobot_DefineCustomWall x) = Size_DefineCustomWall x"
| "MessageExternalToRobot_sizeValue (V_MessageExternalToRobot_SetMemoryMapBroadcastFrequency_sec x) = Size_SetMemoryMapBroadcastFrequency_sec x"

definition MessageExternalToRobot_unpackValue :: "byte \<Rightarrow> MessageExternalToRobot_value reader" where
  "MessageExternalToRobot_unpackValue tag =
     (if tag = 0 then bindM Unpack_UiDeviceConnectionWrongVersion (\<lambda>x. returnM (V_MessageExternalToRobot_UiDeviceConnectionWrongVersion x))
      else if tag = 3 then bindM Unpack_MoveHead (\<lambda>x. returnM (V_MessageExternalToRobot_MoveHead x))
      else if tag = 4 then bindM Unpack_MoveLift (\<lambda>x. returnM (V_MessageExternalToRobot_MoveLift x))
      else if tag = 5 then bindM Unpack_DriveArc (\<lambda>x. returnM (V_MessageExternalToRobot_DriveArc x))
      else if tag = 6 then bindM Unpack_RobotHistoryRequest (\<lambda>x. returnM V_MessageExternalToRobot_RobotHistoryRequest)
      else if tag = 8 then bindM Unpack_DisplayFaceImageRGBChunk (\<lambda>x. returnM (V_MessageExternalToRobot_DisplayFaceImageRGBChunk x))
      else if tag = 9 then bindM Unpack_AppIntent (\<lambda>x. returnM (V_MessageExternalToRobot_AppIntent x))
      else if tag = 10 then bindM Unpack_CancelFaceEnrollment (\<lambda>x. returnM V_MessageExternalToRobot_CancelFaceEnrollment)
      else if tag = 11 then bindM Unpack_RequestEnrolledNames (\<lambda>x. returnM V_MessageExternalToRobot_RequestEnrolledNames)
      else if tag = 12 then bindM Unpack_UpdateEnrolledFaceByID (\<lambda>x. returnM (V_MessageExternalToRobot_UpdateEnrolledFaceByID x))
      else if tag = 13 then bindM Unpack_EraseEnrolledFaceByID (\<lambda>x. returnM (V_MessageExternalToRobot_EraseEnrolledFaceByID x))
      else if tag = 14 then bindM Unpack_EraseAllEnrolledFaces (\<lambda>x. returnM V_MessageExternalToRobot_EraseAllEnrolledFaces)
      else if tag = 15 then bindM Unpack_SetFaceToEnroll (\<lambda>x. returnM (V_MessageExternalToRobot_SetFaceToEnroll x))
      else if tag = 16 then bindM Unpack_EnableVisionMode (\<lambda>x. returnM (V_MessageExternalToRobot_EnableVisionMode x))
      else if tag = 18 then bindM Unpack_GotoPose (\<lambda>x. returnM (V_MessageExternalToRobot_GotoPose x))
      else if tag = 19 then bindM Unpack_DriveStraight (\<lambda>x. returnM (V_MessageExternalToRobot_DriveStraight x))
      else if tag = 20 then bindM Unpack_TurnInPlace (\<lambda>x. returnM (V_MessageExternalToRobot_TurnInPlace x))
      else if tag = 21 then bindM Unpack_SetHeadAngle (\<lambda>x. returnM (V_MessageExternalToRobot_SetHeadAngle x))
      else if tag = 22 then bindM Unpack_SetLiftHeight (\<lambda>x. returnM (V_MessageExternalToRobot_SetLiftHeight x))
      else if tag = 24 then bindM Unpack_AlignWithObject (\<lambda>x. returnM (V_MessageExternalToRobot_AlignWithObject x))
      else if tag = 25 then bindM Unpack_SetLiftAngle (\<lambda>x. returnM (V_MessageExternalToRobot_SetLiftAngle x))
      else if tag = 26 then bindM Unpack_DeleteCustomMarkerObjects (\<lambda>x. returnM V_MessageExternalToRobot_DeleteCustomMarkerObjects)
      else if tag = 27 then bindM Unpack_DeleteFixedCustomObjects (\<lambda>x. returnM V_MessageExternalToRobot_DeleteFixedCustomObjects)
      else if tag = 28 then bindM Unpack_UndefineAllCustomMarkerObjects (\<lambda>x. returnM V_MessageExternalToRobot_UndefineAllCustomMarkerObjects)
      else if tag = 29 then bindM Unpack_CreateFixedCustomObject (\<lambda>x. returnM (V_MessageExternalToRobot_CreateFixedCustomObject x))
      else if tag = 30 then bindM Unpack_DefineCustomBox (\<lambda>x. returnM (V_MessageExternalToRobot_DefineCustomBox x))
      else if tag = 31 then bindM Unpack_DefineCustomCube (\<lambda>x. returnM (V_MessageExternalToRobot_DefineCustomCube x))
      else if tag = 32 then bindM Unpack_DefineCustomWall (\<lambda>x. returnM (V_MessageExternalToRobot_DefineCustomWall x))
      else if tag = 33 then bindM Unpack_SetMemoryMapBroadcastFrequency_sec (\<lambda>x. returnM (V_MessageExternalToRobot_SetMemoryMapBroadcastFrequency_sec x))
      else failM (Errorf ''invalid tag to unpackStruct''))"

lemma con_MessageExternalToRobot_iff: "con_MessageExternalToRobot t v = Some a \<longleftrightarrow> Tag_MessageExternalToRobot a = t \<and> value_of_MessageExternalToRobot a = Some v"
proof
  show "con_MessageExternalToRobot t v = Some a \<Longrightarrow> Tag_MessageExternalToRobot a = t \<and> value_of_MessageExternalToRobot a = Some v"
    by (cases v) (auto split: if_splits prod.splits)
  show "Tag_MessageExternalToRobot a = t \<and> value_of_MessageExternalToRobot a = Some v \<Longrightarrow> con_MessageExternalToRobot t v = Some a"
    by (cases a) (auto)
qed

lemma unpackStruct_MessageExternalToRobot_value: "unpackStruct_MessageExternalToRobot tag =
    bindM (MessageExternalToRobot_unpackValue tag) (\<lambda>v. case con_MessageExternalToRobot tag v of None \<Rightarrow> panicM | Some a \<Rightarrow> returnM a)"
  by (simp add: unpackStruct_MessageExternalToRobot_def MessageExternalToRobot_unpackValue_def bind_if bindM_assoc cong: if_cong)

interpretation messageExternalToRobotUnion: tagged_union con_MessageExternalToRobot ExternalInvalid Tag_MessageExternalToRobot value_of_MessageExternalToRobot MessageExternalToRobot_packValue MessageExternalToRobot_sizeValue MessageExternalToRobot_unpackValue
    Pack_MessageExternalToRobot Unpack_MessageExternalToRobot Size_MessageExternalToRobot
proof unfold_locales
  fix a :: external_to_robot
  show "Tag_MessageExternalToRobot a = 255 \<longleftrightarrow> a = ExternalInvalid" "value_of_MessageExternalToRobot a = None \<longleftrightarrow> a = ExternalInvalid" by (cases a; simp)+
  show "Pack_MessageExternalToRobot a = bindM (write_word (Tag_MessageExternalToRobot a)) (\<lambda>_. case value_of_MessageExternalToRobot a of None \<Rightarrow> returnM () | Some v \<Rightarrow> MessageExternalToRobot_packValue v)"
    by (cases a) (simp_all add: Pack_MessageExternalToRobot_def)
  show "Size_MessageExternalToRobot a = (case value_of_MessageExternalToRobot a of None \<Rightarrow> 1 | Some v \<Rightarrow> 1 + MessageExternalToRobot_sizeValue v)" by (cases a) simp_all
  show "reader Unpack_MessageExternalToRobot" by (rule reads)
qed (simp_all add: con_MessageExternalToRobot_iff Unpack_MessageExternalToRobot_def unpackStruct_MessageExternalToRobot_value cong: if_cong)

abbreviation abs_MessageExternalToRobot :: "MessageExternalToRobot_value tagged \<Rightarrow> external_to_robot option" where
  "abs_MessageExternalToRobot \<equiv> union_abs con_MessageExternalToRobot ExternalInvalid"

definition MessageExternalToRobot_GetUiDeviceConnectionWrongVersion :: "MessageExternalToRobot_value tagged \<Rightarrow> string option outcome" where
  "MessageExternalToRobot_GetUiDeviceConnectionWrongVersion = union_get 0 (\<lambda>v. case v of V_MessageExternalToRobot_UiDeviceConnectionWrongVersion x \<Rightarrow> Some x | _ \<Rightarrow> None)"

definition MessageExternalToRobot_SetUiDeviceConnectionWrongVersion :: "string \<Rightarrow> MessageExternalToRobot_value tagged \<Rightarrow> MessageExternalToRobot_value tagged" where
  "MessageExternalToRobot_SetUiDeviceConnectionWrongVersion x = union_set 0 (V_MessageExternalToRobot_UiDeviceConnectionWrongVersion x)"

definition NewMessageExternalToRobotWithUiDeviceConnectionWrongVersion :: "string \<Rightarrow> MessageExternalToRobot_value tagged" where
  "NewMessageExternalToRobotWithUiDeviceConnectionWrongVersion x = union_new 0 (V_MessageExternalToRobot_UiDeviceConnectionWrongVersion x)"

lemma MessageExternalToRobot_UiDeviceConnectionWrongVersion:
  "abs_MessageExternalToRobot m = Some y \<Longrightarrow> Tag_MessageExternalToRobot y \<noteq> 0 \<Longrightarrow> MessageExternalToRobot_GetUiDeviceConnectionWrongVersion m = Ret None"
  "abs_MessageExternalToRobot m = Some (UiDeviceConnectionWrongVersionClad x) \<Longrightarrow> MessageExternalToRobot_GetUiDeviceConnectionWrongVersion m = Ret (Some x)"
  "abs_MessageExternalToRobot (MessageExternalToRobot_SetUiDeviceConnectionWrongVersion x m) = Some (UiDeviceConnectionWrongVersionClad x)"
  "abs_MessageExternalToRobot (NewMessageExternalToRobotWithUiDeviceConnectionWrongVersion x) = Some (UiDeviceConnectionWrongVersionClad x)"
  unfolding MessageExternalToRobot_GetUiDeviceConnectionWrongVersion_def MessageExternalToRobot_SetUiDeviceConnectionWrongVersion_def NewMessageExternalToRobotWithUiDeviceConnectionWrongVersion_def
  by (rule messageExternalToRobotUnion.accessors [where v = "V_MessageExternalToRobot_UiDeviceConnectionWrongVersion x" and x = "x"], (assumption | simp)+)+

definition MessageExternalToRobot_GetMoveHead :: "MessageExternalToRobot_value tagged \<Rightarrow> float32 option outcome" where
  "MessageExternalToRobot_GetMoveHead = union_get 3 (\<lambda>v. case v of V_MessageExternalToRobot_MoveHead x \<Rightarrow> Some x | _ \<Rightarrow> None)"

definition MessageExternalToRobot_SetMoveHead :: "float32 \<Rightarrow> MessageExternalToRobot_value tagged \<Rightarrow> MessageExternalToRobot_value tagged" where
  "MessageExternalToRobot_SetMoveHead x = union_set 3 (V_MessageExternalToRobot_MoveHead x)"

definition NewMessageExternalToRobotWithMoveHead :: "float32 \<Rightarrow> MessageExternalToRobot_value tagged" where
  "NewMessageExternalToRobotWithMoveHead x = union_new 3 (V_MessageExternalToRobot_MoveHead x)"

lemma MessageExternalToRobot_MoveHead:
  "abs_MessageExternalToRobot m = Some y \<Longrightarrow> Tag_MessageExternalToRobot y \<noteq> 3 \<Longrightarrow> MessageExternalToRobot_GetMoveHead m = Ret None"
  "abs_MessageExternalToRobot m = Some (MoveHead x) \<Longrightarrow> MessageExternalToRobot_GetMoveHead m = Ret (Some x)"
  "abs_MessageExternalToRobot (MessageExternalToRobot_SetMoveHead x m) = Some (MoveHead x)"
  "abs_MessageExternalToRobot (NewMessageExternalToRobotWithMoveHead x) = Some (MoveHead x)"
  unfolding MessageExternalToRobot_GetMoveHead_def MessageExternalToRobot_SetMoveHead_def NewMessageExternalToRobotWithMoveHead_def
  by (rule messageExternalToRobotUnion.accessors [where v = "V_MessageExternalToRobot_MoveHead x" and x = "x"], (assumption | simp)+)+

definition MessageExternalToRobot_GetMoveLift :: "MessageExternalToRobot_value tagged \<Rightarrow> float32 option outcome" where
  "MessageExternalToRobot_GetMoveLift = union_get 4 (\<lambda>v. case v of V_MessageExternalToRobot_MoveLift x \<Rightarrow> Some x | _ \<Rightarrow> None)"

definition MessageExternalToRobot_SetMoveLift :: "float32 \<Rightarrow> MessageExternalToRobot_value tagged \<Rightarrow> MessageExternalToRobot_value tagged" where
  "MessageExternalToRobot_SetMoveLift x = union_set 4 (V_MessageExternalToRobot_MoveLift x)"

definition NewMessageExternalToRobotWithMoveLift :: "float32 \<Rightarrow> MessageExternalToRobot_value tagged" where
  "NewMessageExternalToRobotWithMoveLift x = union_new 4 (V_MessageExternalToRobot_MoveLift x)"

lemma MessageExternalToRobot_MoveLift:
  "abs_MessageExternalToRobot m = Some y \<Longrightarrow> Tag_MessageExternalToRobot y \<noteq> 4 \<Longrightarrow> MessageExternalToRobot_GetMoveLift m = Ret None"
  "abs_MessageExternalToRobot m = Some (MoveLift x) \<Longrightarrow> MessageExternalToRobot_GetMoveLift m = Ret (Some x)"
  "abs_MessageExternalToRobot (MessageExternalToRobot_SetMoveLift x m) = Some (MoveLift x)"
  "abs_MessageExternalToRobot (NewMessageExternalToRobotWithMoveLift x) = Some (MoveLift x)"
  unfolding MessageExternalToRobot_GetMoveLift_def MessageExternalToRobot_SetMoveLift_def NewMessageExternalToRobotWithMoveLift_def
  by (rule messageExternalToRobotUnion.accessors [where v = "V_MessageExternalToRobot_MoveLift x" and x = "x"], (assumption | simp)+)+

definition MessageExternalToRobot_GetDriveArc :: "MessageExternalToRobot_value tagged \<Rightarrow> drive_arc option outcome" where
  "MessageExternalToRobot_GetDriveArc = union_get 5 (\<lambda>v. case v of V_MessageExternalToRobot_DriveArc x \<Rightarrow> Some x | _ \<Rightarrow> None)"

definition MessageExternalToRobot_SetDriveArc :: "drive_arc \<Rightarrow> MessageExternalToRobot_value tagged \<Rightarrow> MessageExternalToRobot_value tagged" where
  "MessageExternalToRobot_SetDriveArc x = union_set 5 (V_MessageExternalToRobot_DriveArc x)"

definition NewMessageExternalToRobotWithDriveArc :: "drive_arc \<Rightarrow> MessageExternalToRobot_value tagged" where
  "NewMessageExternalToRobotWithDriveArc x = union_new 5 (V_MessageExternalToRobot_DriveArc x)"

lemma MessageExternalToRobot_DriveArc:
  "abs_MessageExternalToRobot m = Some y \<Longrightarrow> Tag_MessageExternalToRobot y \<noteq> 5 \<Longrightarrow> MessageExternalToRobot_GetDriveArc m = Ret None"
  "abs_MessageExternalToRobot m = Some (DriveArcClad x) \<Longrightarrow> MessageExternalToRobot_GetDriveArc m = Ret (Some x)"
  "abs_MessageExternalToRobot (MessageExternalToRobot_SetDriveArc x m) = Some (DriveArcClad x)"
  "abs_MessageExternalToRobot (NewMessageExternalToRobotWithDriveArc x) = Some (DriveArcClad x)"
  unfolding MessageExternalToRobot_GetDriveArc_def MessageExternalToRobot_SetDriveArc_def NewMessageExternalToRobotWithDriveArc_def
  by (rule messageExternalToRobotUnion.accessors [where v = "V_MessageExternalToRobot_DriveArc x" and x = "x"], (assumption | simp)+)+

definition MessageExternalToRobot_GetRobotHistoryRequest :: "MessageExternalToRobot_value tagged \<Rightarrow> unit option outcome" where
  "MessageExternalToRobot_GetRobotHistoryRequest = union_get 6 (\<lambda>v. case v of V_MessageExternalToRobot_RobotHistoryRequest \<Rightarrow> Some () | _ \<Rightarrow> None)"

definition MessageExternalToRobot_SetRobotHistoryRequest :: "unit \<Rightarrow> MessageExternalToRobot_value tagged \<Rightarrow> MessageExternalToRobot_value tagged" where
  "MessageExternalToRobot_SetRobotHistoryRequest x = union_set 6 V_MessageExternalToRobot_RobotHistoryRequest"

definition NewMessageExternalToRobotWithRobotHistoryRequest :: "unit \<Rightarrow> MessageExternalToRobot_value tagged" where
  "NewMessageExternalToRobotWithRobotHistoryRequest x = union_new 6 V_MessageExternalToRobot_RobotHistoryRequest"

lemma MessageExternalToRobot_RobotHistoryRequest:
  "abs_MessageExternalToRobot m = Some y \<Longrightarrow> Tag_MessageExternalToRobot y \<noteq> 6 \<Longrightarrow> MessageExternalToRobot_GetRobotHistoryRequest m = Ret None"
  "abs_MessageExternalToRobot m = Some RobotHistoryRequestClad \<Longrightarrow> MessageExternalToRobot_GetRobotHistoryRequest m = Ret (Some ())"
  "abs_MessageExternalToRobot (MessageExternalToRobot_SetRobotHistoryRequest x m) = Some RobotHistoryRequestClad"
  "abs_MessageExternalToRobot (NewMessageExternalToRobotWithRobotHistoryRequest x) = Some RobotHistoryRequestClad"
  unfolding MessageExternalToRobot_GetRobotHistoryRequest_def MessageExternalToRobot_SetRobotHistoryRequest_def NewMessageExternalToRobotWithRobotHistoryRequest_def
  by (rule messageExternalToRobotUnion.accessors [where v = "V_MessageExternalToRobot_RobotHistoryRequest" and x = "()"], (assumption | simp)+)+

definition MessageExternalToRobot_GetDisplayFaceImageRGBChunk :: "MessageExternalToRobot_value tagged \<Rightarrow> face_image_chunk option outcome" where
  "MessageExternalToRobot_GetDisplayFaceImageRGBChunk = union_get 8 (\<lambda>v. case v of V_MessageExternalToRobot_DisplayFaceImageRGBChunk x \<Rightarrow> Some x | _ \<Rightarrow> None)"

definition MessageExternalToRobot_SetDisplayFaceImageRGBChunk :: "face_image_chunk \<Rightarrow> MessageExternalToRobot_value tagged \<Rightarrow> MessageExternalToRobot_value tagged" where
  "MessageExternalToRobot_SetDisplayFaceImageRGBChunk x = union_set 8 (V_MessageExternalToRobot_DisplayFaceImageRGBChunk x)"

definition NewMessageExternalToRobotWithDisplayFaceImageRGBChunk :: "face_image_chunk \<Rightarrow> MessageExternalToRobot_value tagged" where
  "NewMessageExternalToRobotWithDisplayFaceImageRGBChunk x = union_new 8 (V_MessageExternalToRobot_DisplayFaceImageRGBChunk x)"

lemma MessageExternalToRobot_DisplayFaceImageRGBChunk:
  "abs_MessageExternalToRobot m = Some y \<Longrightarrow> Tag_MessageExternalToRobot y \<noteq> 8 \<Longrightarrow> MessageExternalToRobot_GetDisplayFaceImageRGBChunk m = Ret None"
  "abs_MessageExternalToRobot m = Some (DisplayFaceImageRGBChunk x) \<Longrightarrow> MessageExternalToRobot_GetDisplayFaceImageRGBChunk m = Ret (Some x)"
  "abs_MessageExternalToRobot (MessageExternalToRobot_SetDisplayFaceImageRGBChunk x m) = Some (DisplayFaceImageRGBChunk x)"
  "abs_MessageExternalToRobot (NewMessageExternalToRobotWithDisplayFaceImageRGBChunk x) = Some (DisplayFaceImageRGBChunk x)"
  unfolding MessageExternalToRobot_GetDisplayFaceImageRGBChunk_def MessageExternalToRobot_SetDisplayFaceImageRGBChunk_def NewMessageExternalToRobotWithDisplayFaceImageRGBChunk_def
  by (rule messageExternalToRobotUnion.accessors [where v = "V_MessageExternalToRobot_DisplayFaceImageRGBChunk x" and x = "x"], (assumption | simp)+)+

definition MessageExternalToRobot_GetAppIntent :: "MessageExternalToRobot_value tagged \<Rightarrow> (string \<times> string) option outcome" where
  "MessageExternalToRobot_GetAppIntent = union_get 9 (\<lambda>v. case v of V_MessageExternalToRobot_AppIntent x \<Rightarrow> Some x | _ \<Rightarrow> None)"

definition MessageExternalToRobot_SetAppIntent :: "(string \<times> string) \<Rightarrow> MessageExternalToRobot_value tagged \<Rightarrow> MessageExternalToRobot_value tagged" where
  "MessageExternalToRobot_SetAppIntent x = union_set 9 (V_MessageExternalToRobot_AppIntent x)"

definition NewMessageExternalToRobotWithAppIntent :: "(string \<times> string) \<Rightarrow> MessageExternalToRobot_value tagged" where
  "NewMessageExternalToRobotWithAppIntent x = union_new 9 (V_MessageExternalToRobot_AppIntent x)"

lemma MessageExternalToRobot_AppIntent:
  "abs_MessageExternalToRobot m = Some y \<Longrightarrow> Tag_MessageExternalToRobot y \<noteq> 9 \<Longrightarrow> MessageExternalToRobot_GetAppIntent m = Ret None"
  "abs_MessageExternalToRobot m = Some (AppIntentClad a b) \<Longrightarrow> MessageExternalToRobot_GetAppIntent m = Ret (Some (a, b))"
  "abs_MessageExternalToRobot (MessageExternalToRobot_SetAppIntent (a, b) m) = Some (AppIntentClad a b)"
  "abs_MessageExternalToRobot (NewMessageExternalToRobotWithAppIntent (a, b)) = Some (AppIntentClad a b)"
  unfolding MessageExternalToRobot_GetAppIntent_def MessageExternalToRobot_SetAppIntent_def NewMessageExternalToRobotWithAppIntent_def
  by (rule messageExternalToRobotUnion.accessors [where v = "V_MessageExternalToRobot_AppIntent (a, b)" and x = "(a, b)"], (assumption | simp)+)+

definition MessageExternalToRobot_GetCancelFaceEnrollment :: "MessageExternalToRobot_value tagged \<Rightarrow> unit option outcome" where
  "MessageExternalToRobot_GetCancelFaceEnrollment = union_get 10 (\<lambda>v. case v of V_MessageExternalToRobot_CancelFaceEnrollment \<Rightarrow> Some () | _ \<Rightarrow> None)"

definition MessageExternalToRobot_SetCancelFaceEnrollment :: "unit \<Rightarrow> MessageExternalToRobot_value tagged \<Rightarrow> MessageExternalToRobot_value tagged" where
  "MessageExternalToRobot_SetCancelFaceEnrollment x = union_set 10 V_MessageExternalToRobot_CancelFaceEnrollment"

definition NewMessageExternalToRobotWithCancelFaceEnrollment :: "unit \<Rightarrow> MessageExternalToRobot_value tagged" where
  "NewMessageExternalToRobotWithCancelFaceEnrollment x = union_new 10 V_MessageExternalToRobot_CancelFaceEnrollment"

lemma MessageExternalToRobot_CancelFaceEnrollment:
  "abs_MessageExternalToRobot m = Some y \<Longrightarrow> Tag_MessageExternalToRobot y \<noteq> 10 \<Longrightarrow> MessageExternalToRobot_GetCancelFaceEnrollment m = Ret None"
  "abs_MessageExternalToRobot m = Some CancelFaceEnrollmentClad \<Longrightarrow> MessageExternalToRobot_GetCancelFaceEnrollment m = Ret (Some ())"
  "abs_MessageExternalToRobot (MessageExternalToRobot_SetCancelFaceEnrollment x m) = Some CancelFaceEnrollmentClad"
  "abs_MessageExternalToRobot (NewMessageExternalToRobotWithCancelFaceEnrollment x) = Some CancelFaceEnrollmentClad"
  unfolding MessageExternalToRobot_GetCancelFaceEnrollment_def MessageExternalToRobot_SetCancelFaceEnrollment_def NewMessageExternalToRobotWithCancelFaceEnrollment_def
  by (rule messageExternalToRobotUnion.accessors [where v = "V_MessageExternalToRobot_CancelFaceEnrollment" and x = "()"], (assumption | simp)+)+

definition MessageExternalToRobot_GetRequestEnrolledNames :: "MessageExternalToRobot_value tagged \<Rightarrow> unit option outcome" where
  "MessageExternalToRobot_GetRequestEnrolledNames = union_get 11 (\<lambda>v. case v of V_MessageExternalToRobot_RequestEnrolledNames \<Rightarrow> Some () | _ \<Rightarrow> None)"

definition MessageExternalToRobot_SetRequestEnrolledNames :: "unit \<Rightarrow> MessageExternalToRobot_value tagged \<Rightarrow> MessageExternalToRobot_value tagged" where
  "MessageExternalToRobot_SetRequestEnrolledNames x = union_set 11 V_MessageExternalToRobot_RequestEnrolledNames"

definition NewMessageExternalToRobotWithRequestEnrolledNames :: "unit \<Rightarrow> MessageExternalToRobot_value tagged" where
  "NewMessageExternalToRobotWithRequestEnrolledNames x = union_new 11 V_MessageExternalToRobot_RequestEnrolledNames"

lemma MessageExternalToRobot_RequestEnrolledNames:
  "abs_MessageExternalToRobot m = Some y \<Longrightarrow> Tag_MessageExternalToRobot y \<noteq> 11 \<Longrightarrow> MessageExternalToRobot_GetRequestEnrolledNames m = Ret None"
  "abs_MessageExternalToRobot m = Some RequestEnrolledNamesClad \<Longrightarrow> MessageExternalToRobot_GetRequestEnrolledNames m = Ret (Some ())"
  "abs_MessageExternalToRobot (MessageExternalToRobot_SetRequestEnrolledNames x m) = Some RequestEnrolledNamesClad"
  "abs_MessageExternalToRobot (NewMessageExternalToRobotWithRequestEnrolledNames x) = Some RequestEnrolledNamesClad"
  unfolding MessageExternalToRobot_GetRequestEnrolledNames_def MessageExternalToRobot_SetRequestEnrolledNames_def NewMessageExternalToRobotWithRequestEnrolledNames_def
  by (rule messageExternalToRobotUnion.accessors [where v = "V_MessageExternalToRobot_RequestEnrolledNames" and x = "()"], (assumption | simp)+)+

definition MessageExternalToRobot_GetUpdateEnrolledFaceByID :: "MessageExternalToRobot_value tagged \<Rightarrow> (int32 \<times> string \<times> string) option outcome" where
  "MessageExternalToRobot_GetUpdateEnrolledFaceByID = union_get 12 (\<lambda>v. case v of V_MessageExternalToRobot_UpdateEnrolledFaceByID x \<Rightarrow> Some x | _ \<Rightarrow> None)"

definition MessageExternalToRobot_SetUpdateEnrolledFaceByID :: "(int32 \<times> string \<times> string) \<Rightarrow> MessageExternalToRobot_value tagged \<Rightarrow> MessageExternalToRobot_value tagged" where
  "MessageExternalToRobot_SetUpdateEnrolledFaceByID x = union_set 12 (V_MessageExternalToRobot_UpdateEnrolledFaceByID x)"

definition NewMessageExternalToRobotWithUpdateEnrolledFaceByID :: "(int32 \<times> string \<times> string) \<Rightarrow> MessageExternalToRobot_value tagged" where
  "NewMessageExternalToRobotWithUpdateEnrolledFaceByID x = union_new 12 (V_MessageExternalToRobot_UpdateEnrolledFaceByID x)"

lemma MessageExternalToRobot_UpdateEnrolledFaceByID:
  "abs_MessageExternalToRobot m = Some y \<Longrightarrow> Tag_MessageExternalToRobot y \<noteq> 12 \<Longrightarrow> MessageExternalToRobot_GetUpdateEnrolledFaceByID m = Ret None"
  "abs_MessageExternalToRobot m = Some (UpdateEnrolledFaceByIDClad a b c) \<Longrightarrow> MessageExternalToRobot_GetUpdateEnrolledFaceByID m = Ret (Some (a, b, c))"
  "abs_MessageExternalToRobot (MessageExternalToRobot_SetUpdateEnrolledFaceByID (a, b, c) m) = Some (UpdateEnrolledFaceByIDClad a b c)"
  "abs_MessageExternalToRobot (NewMessageExternalToRobotWithUpdateEnrolledFaceByID (a, b, c)) = Some (UpdateEnrolledFaceByIDClad a b c)"
  unfolding MessageExternalToRobot_GetUpdateEnrolledFaceByID_def MessageExternalToRobot_SetUpdateEnrolledFaceByID_def NewMessageExternalToRobotWithUpdateEnrolledFaceByID_def
  by (rule messageExternalToRobotUnion.accessors [where v = "V_MessageExternalToRobot_UpdateEnrolledFaceByID (a, b, c)" and x = "(a, b, c)"], (assumption | simp)+)+

definition MessageExternalToRobot_GetEraseEnrolledFaceByID :: "MessageExternalToRobot_value tagged \<Rightarrow> int32 option outcome" where
  "MessageExternalToRobot_GetEraseEnrolledFaceByID = union_get 13 (\<lambda>v. case v of V_MessageExternalToRobot_EraseEnrolledFaceByID x \<Rightarrow> Some x | _ \<Rightarrow> None)"

definition MessageExternalToRobot_SetEraseEnrolledFaceByID :: "int32 \<Rightarrow> MessageExternalToRobot_value tagged \<Rightarrow> MessageExternalToRobot_value tagged" where
  "MessageExternalToRobot_SetEraseEnrolledFaceByID x = union_set 13 (V_MessageExternalToRobot_EraseEnrolledFaceByID x)"

definition NewMessageExternalToRobotWithEraseEnrolledFaceByID :: "int32 \<Rightarrow> MessageExternalToRobot_value tagged" where
  "NewMessageExternalToRobotWithEraseEnrolledFaceByID x = union_new 13 (V_MessageExternalToRobot_EraseEnrolledFaceByID x)"

lemma MessageExternalToRobot_EraseEnrolledFaceByID:
  "abs_MessageExternalToRobot m = Some y \<Longrightarrow> Tag_MessageExternalToRobot y \<noteq> 13 \<Longrightarrow> MessageExternalToRobot_GetEraseEnrolledFaceByID m = Ret None"
  "abs_MessageExternalToRobot m = Some (EraseEnrolledFaceByIDClad x) \<Longrightarrow> MessageExternalToRobot_GetEraseEnrolledFaceByID m = Ret (Some x)"
  "abs_MessageExternalToRobot (MessageExternalToRobot_SetEraseEnrolledFaceByID x m) = Some (EraseEnrolledFaceByIDClad x)"
  "abs_MessageExternalToRobot (NewMessageExternalToRobotWithEraseEnrolledFaceByID x) = Some (EraseEnrolledFaceByIDClad x)"
  unfolding MessageExternalToRobot_GetEraseEnrolledFaceByID_def MessageExternalToRobot_SetEraseEnrolledFaceByID_def NewMessageExternalToRobotWithEraseEnrolledFaceByID_def
  by (rule messageExternalToRobotUnion.accessors [where v = "V_MessageExternalToRobot_EraseEnrolledFaceByID x" and x = "x"], (assumption | simp)+)+

definition MessageExternalToRobot_GetEraseAllEnrolledFaces :: "MessageExternalToRobot_value tagged \<Rightarrow> unit option outcome" where
  "MessageExternalToRobot_GetEraseAllEnrolledFaces = union_get 14 (\<lambda>v. case v of V_MessageExternalToRobot_EraseAllEnrolledFaces \<Rightarrow> Some () | _ \<Rightarrow> None)"

definition MessageExternalToRobot_SetEraseAllEnrolledFaces :: "unit \<Rightarrow> MessageExternalToRobot_value tagged \<Rightarrow> MessageExternalToRobot_value tagged" where
  "MessageExternalToRobot_SetEraseAllEnrolledFaces x = union_set 14 V_MessageExternalToRobot_EraseAllEnrolledFaces"

definition NewMessageExternalToRobotWithEraseAllEnrolledFaces :: "unit \<Rightarrow> MessageExternalToRobot_value tagged" where
  "NewMessageExternalToRobotWithEraseAllEnrolledFaces x = union_new 14 V_MessageExternalToRobot_EraseAllEnrolledFaces"

lemma MessageExternalToRobot_EraseAllEnrolledFaces:
  "abs_MessageExternalToRobot m = Some y \<Longrightarrow> Tag_MessageExternalToRobot y \<noteq> 14 \<Longrightarrow> MessageExternalToRobot_GetEraseAllEnrolledFaces m = Ret None"
  "abs_MessageExternalToRobot m = Some EraseAllEnrolledFacesClad \<Longrightarrow> MessageExternalToRobot_GetEraseAllEnrolledFaces m = Ret (Some ())"
  "abs_MessageExternalToRobot (MessageExternalToRobot_SetEraseAllEnrolledFaces x m) = Some EraseAllEnrolledFacesClad"
  "abs_MessageExternalToRobot (NewMessageExternalToRobotWithEraseAllEnrolledFaces x) = Some EraseAllEnrolledFacesClad"
  unfolding MessageExternalToRobot_GetEraseAllEnrolledFaces_def MessageExternalToRobot_SetEraseAllEnrolledFaces_def NewMessageExternalToRobotWithEraseAllEnrolledFaces_def
  by (rule messageExternalToRobotUnion.accessors [where v = "V_MessageExternalToRobot_EraseAllEnrolledFaces" and x = "()"], (assumption | simp)+)+

definition MessageExternalToRobot_GetSetFaceToEnroll :: "MessageExternalToRobot_value tagged \<Rightarrow> set_face_to_enroll option outcome" where
  "MessageExternalToRobot_GetSetFaceToEnroll = union_get 15 (\<lambda>v. case v of V_MessageExternalToRobot_SetFaceToEnroll x \<Rightarrow> Some x | _ \<Rightarrow> None)"

definition MessageExternalToRobot_SetSetFaceToEnroll :: "set_face_to_enroll \<Rightarrow> MessageExternalToRobot_value tagged \<Rightarrow> MessageExternalToRobot_value tagged" where
  "MessageExternalToRobot_SetSetFaceToEnroll x = union_set 15 (V_MessageExternalToRobot_SetFaceToEnroll x)"

definition NewMessageExternalToRobotWithSetFaceToEnroll :: "set_face_to_enroll \<Rightarrow> MessageExternalToRobot_value tagged" where
  "NewMessageExternalToRobotWithSetFaceToEnroll x = union_new 15 (V_MessageExternalToRobot_SetFaceToEnroll x)"

lemma MessageExternalToRobot_SetFaceToEnroll:
  "abs_MessageExternalToRobot m = Some y \<Longrightarrow> Tag_MessageExternalToRobot y \<noteq> 15 \<Longrightarrow> MessageExternalToRobot_GetSetFaceToEnroll m = Ret None"
  "abs_MessageExternalToRobot m = Some (SetFaceToEnrollClad x) \<Longrightarrow> MessageExternalToRobot_GetSetFaceToEnroll m = Ret (Some x)"
  "abs_MessageExternalToRobot (MessageExternalToRobot_SetSetFaceToEnroll x m) = Some (SetFaceToEnrollClad x)"
  "abs_MessageExternalToRobot (NewMessageExternalToRobotWithSetFaceToEnroll x) = Some (SetFaceToEnrollClad x)"
  unfolding MessageExternalToRobot_GetSetFaceToEnroll_def MessageExternalToRobot_SetSetFaceToEnroll_def NewMessageExternalToRobotWithSetFaceToEnroll_def
  by (rule messageExternalToRobotUnion.accessors [where v = "V_MessageExternalToRobot_SetFaceToEnroll x" and x = "x"], (assumption | simp)+)+

definition MessageExternalToRobot_GetEnableVisionMode :: "MessageExternalToRobot_value tagged \<Rightarrow> enable_vision_mode option outcome" where
  "MessageExternalToRobot_GetEnableVisionMode = union_get 16 (\<lambda>v. case v of V_MessageExternalToRobot_EnableVisionMode x \<Rightarrow> Some x | _ \<Rightarrow> None)"

definition MessageExternalToRobot_SetEnableVisionMode :: "enable_vision_mode \<Rightarrow> MessageExternalToRobot_value tagged \<Rightarrow> MessageExternalToRobot_value tagged" where
  "MessageExternalToRobot_SetEnableVisionMode x = union_set 16 (V_MessageExternalToRobot_EnableVisionMode x)"

definition NewMessageExternalToRobotWithEnableVisionMode :: "enable_vision_mode \<Rightarrow> MessageExternalToRobot_value tagged" where
  "NewMessageExternalToRobotWithEnableVisionMode x = union_new 16 (V_MessageExternalToRobot_EnableVisionMode x)"

lemma MessageExternalToRobot_EnableVisionMode:
  "abs_MessageExternalToRobot m = Some y \<Longrightarrow> Tag_MessageExternalToRobot y \<noteq> 16 \<Longrightarrow> MessageExternalToRobot_GetEnableVisionMode m = Ret None"
  "abs_MessageExternalToRobot m = Some (EnableVisionModeClad x) \<Longrightarrow> MessageExternalToRobot_GetEnableVisionMode m = Ret (Some x)"
  "abs_MessageExternalToRobot (MessageExternalToRobot_SetEnableVisionMode x m) = Some (EnableVisionModeClad x)"
  "abs_MessageExternalToRobot (NewMessageExternalToRobotWithEnableVisionMode x) = Some (EnableVisionModeClad x)"
  unfolding MessageExternalToRobot_GetEnableVisionMode_def MessageExternalToRobot_SetEnableVisionMode_def NewMessageExternalToRobotWithEnableVisionMode_def
  by (rule messageExternalToRobotUnion.accessors [where v = "V_MessageExternalToRobot_EnableVisionMode x" and x = "x"], (assumption | simp)+)+

definition MessageExternalToRobot_GetGotoPose :: "MessageExternalToRobot_value tagged \<Rightarrow> goto_pose option outcome" where
  "MessageExternalToRobot_GetGotoPose = union_get 18 (\<lambda>v. case v of V_MessageExternalToRobot_GotoPose x \<Rightarrow> Some x | _ \<Rightarrow> None)"

definition MessageExternalToRobot_SetGotoPose :: "goto_pose \<Rightarrow> MessageExternalToRobot_value tagged \<Rightarrow> MessageExternalToRobot_value tagged" where
  "MessageExternalToRobot_SetGotoPose x = union_set 18 (V_MessageExternalToRobot_GotoPose x)"

definition NewMessageExternalToRobotWithGotoPose :: "goto_pose \<Rightarrow> MessageExternalToRobot_value tagged" where
  "NewMessageExternalToRobotWithGotoPose x = union_new 18 (V_MessageExternalToRobot_GotoPose x)"

lemma MessageExternalToRobot_GotoPose:
  "abs_MessageExternalToRobot m = Some y \<Longrightarrow> Tag_MessageExternalToRobot y \<noteq> 18 \<Longrightarrow> MessageExternalToRobot_GetGotoPose m = Ret None"
  "abs_MessageExternalToRobot m = Some (GotoPoseClad x) \<Longrightarrow> MessageExternalToRobot_GetGotoPose m = Ret (Some x)"
  "abs_MessageExternalToRobot (MessageExternalToRobot_SetGotoPose x m) = Some (GotoPoseClad x)"
  "abs_MessageExternalToRobot (NewMessageExternalToRobotWithGotoPose x) = Some (GotoPoseClad x)"
  unfolding MessageExternalToRobot_GetGotoPose_def MessageExternalToRobot_SetGotoPose_def NewMessageExternalToRobotWithGotoPose_def
  by (rule messageExternalToRobotUnion.accessors [where v = "V_MessageExternalToRobot_GotoPose x" and x = "x"], (assumption | simp)+)+

definition MessageExternalToRobot_GetDriveStraight :: "MessageExternalToRobot_value tagged \<Rightarrow> drive_straight option outcome" where
  "MessageExternalToRobot_GetDriveStraight = union_get 19 (\<lambda>v. case v of V_MessageExternalToRobot_DriveStraight x \<Rightarrow> Some x | _ \<Rightarrow> None)"

definition MessageExternalToRobot_SetDriveStraight :: "drive_straight \<Rightarrow> MessageExternalToRobot_value tagged \<Rightarrow> MessageExternalToRobot_value tagged" where
  "MessageExternalToRobot_SetDriveStraight x = union_set 19 (V_MessageExternalToRobot_DriveStraight x)"

definition NewMessageExternalToRobotWithDriveStraight :: "drive_straight \<Rightarrow> MessageExternalToRobot_value tagged" where
  "NewMessageExternalToRobotWithDriveStraight x = union_new 19 (V_MessageExternalToRobot_DriveStraight x)"

lemma MessageExternalToRobot_DriveStraight:
  "abs_MessageExternalToRobot m = Some y \<Longrightarrow> Tag_MessageExternalToRobot y \<noteq> 19 \<Longrightarrow> MessageExternalToRobot_GetDriveStraight m = Ret None"
  "abs_MessageExternalToRobot m = Some (DriveStraightClad x) \<Longrightarrow> MessageExternalToRobot_GetDriveStraight m = Ret (Some x)"
  "abs_MessageExternalToRobot (MessageExternalToRobot_SetDriveStraight x m) = Some (DriveStraightClad x)"
  "abs_MessageExternalToRobot (NewMessageExternalToRobotWithDriveStraight x) = Some (DriveStraightClad x)"
  unfolding MessageExternalToRobot_GetDriveStraight_def MessageExternalToRobot_SetDriveStraight_def NewMessageExternalToRobotWithDriveStraight_def
  by (rule messageExternalToRobotUnion.accessors [where v = "V_MessageExternalToRobot_DriveStraight x" and x = "x"], (assumption | simp)+)+

definition MessageExternalToRobot_GetTurnInPlace :: "MessageExternalToRobot_value tagged \<Rightarrow> turn_in_place option outcome" where
  "MessageExternalToRobot_GetTurnInPlace = union_get 20 (\<lambda>v. case v of V_MessageExternalToRobot_TurnInPlace x \<Rightarrow> Some x | _ \<Rightarrow> None)"

definition MessageExternalToRobot_SetTurnInPlace :: "turn_in_place \<Rightarrow> MessageExternalToRobot_value tagged \<Rightarrow> MessageExternalToRobot_value tagged" where
  "MessageExternalToRobot_SetTurnInPlace x = union_set 20 (V_MessageExternalToRobot_TurnInPlace x)"

definition NewMessageExternalToRobotWithTurnInPlace :: "turn_in_place \<Rightarrow> MessageExternalToRobot_value tagged" where
  "NewMessageExternalToRobotWithTurnInPlace x = union_new 20 (V_MessageExternalToRobot_TurnInPlace x)"

lemma MessageExternalToRobot_TurnInPlace:
  "abs_MessageExternalToRobot m = Some y \<Longrightarrow> Tag_MessageExternalToRobot y \<noteq> 20 \<Longrightarrow> MessageExternalToRobot_GetTurnInPlace m = Ret None"
  "abs_MessageExternalToRobot m = Some (TurnInPlaceClad x) \<Longrightarrow> MessageExternalToRobot_GetTurnInPlace m = Ret (Some x)"
  "abs_MessageExternalToRobot (MessageExternalToRobot_SetTurnInPlace x m) = Some (TurnInPlaceClad x)"
  "abs_MessageExternalToRobot (NewMessageExternalToRobotWithTurnInPlace x) = Some (TurnInPlaceClad x)"
  unfolding MessageExternalToRobot_GetTurnInPlace_def MessageExternalToRobot_SetTurnInPlace_def NewMessageExternalToRobotWithTurnInPlace_def
  by (rule messageExternalToRobotUnion.accessors [where v = "V_MessageExternalToRobot_TurnInPlace x" and x = "x"], (assumption | simp)+)+

definition MessageExternalToRobot_GetSetHeadAngle :: "MessageExternalToRobot_value tagged \<Rightarrow> set_head_angle option outcome" where
  "MessageExternalToRobot_GetSetHeadAngle = union_get 21 (\<lambda>v. case v of V_MessageExternalToRobot_SetHeadAngle x \<Rightarrow> Some x | _ \<Rightarrow> None)"

definition MessageExternalToRobot_SetSetHeadAngle :: "set_head_angle \<Rightarrow> MessageExternalToRobot_value tagged \<Rightarrow> MessageExternalToRobot_value tagged" where
  "MessageExternalToRobot_SetSetHeadAngle x = union_set 21 (V_MessageExternalToRobot_SetHeadAngle x)"

definition NewMessageExternalToRobotWithSetHeadAngle :: "set_head_angle \<Rightarrow> MessageExternalToRobot_value tagged" where
  "NewMessageExternalToRobotWithSetHeadAngle x = union_new 21 (V_MessageExternalToRobot_SetHeadAngle x)"

lemma MessageExternalToRobot_SetHeadAngle:
  "abs_MessageExternalToRobot m = Some y \<Longrightarrow> Tag_MessageExternalToRobot y \<noteq> 21 \<Longrightarrow> MessageExternalToRobot_GetSetHeadAngle m = Ret None"
  "abs_MessageExternalToRobot m = Some (SetHeadAngleClad x) \<Longrightarrow> MessageExternalToRobot_GetSetHeadAngle m = Ret (Some x)"
  "abs_MessageExternalToRobot (MessageExternalToRobot_SetSetHeadAngle x m) = Some (SetHeadAngleClad x)"
  "abs_MessageExternalToRobot (NewMessageExternalToRobotWithSetHeadAngle x) = Some (SetHeadAngleClad x)"
  unfolding MessageExternalToRobot_GetSetHeadAngle_def MessageExternalToRobot_SetSetHeadAngle_def NewMessageExternalToRobotWithSetHeadAngle_def
  by (rule messageExternalToRobotUnion.accessors [where v = "V_MessageExternalToRobot_SetHeadAngle x" and x = "x"], (assumption | simp)+)+

definition MessageExternalToRobot_GetSetLiftHeight :: "MessageExternalToRobot_value tagged \<Rightarrow> set_lift_height option outcome" where
  "MessageExternalToRobot_GetSetLiftHeight = union_get 22 (\<lambda>v. case v of V_MessageExternalToRobot_SetLiftHeight x \<Rightarrow> Some x | _ \<Rightarrow> None)"

definition MessageExternalToRobot_SetSetLiftHeight :: "set_lift_height \<Rightarrow> MessageExternalToRobot_value tagged \<Rightarrow> MessageExternalToRobot_value tagged" where
  "MessageExternalToRobot_SetSetLiftHeight x = union_set 22 (V_MessageExternalToRobot_SetLiftHeight x)"

definition NewMessageExternalToRobotWithSetLiftHeight :: "set_lift_height \<Rightarrow> MessageExternalToRobot_value tagged" where
  "NewMessageExternalToRobotWithSetLiftHeight x = union_new 22 (V_MessageExternalToRobot_SetLiftHeight x)"

lemma MessageExternalToRobot_SetLiftHeight:
  "abs_MessageExternalToRobot m = Some y \<Longrightarrow> Tag_MessageExternalToRobot y \<noteq> 22 \<Longrightarrow> MessageExternalToRobot_GetSetLiftHeight m = Ret None"
  "abs_MessageExternalToRobot m = Some (SetLiftHeightClad x) \<Longrightarrow> MessageExternalToRobot_GetSetLiftHeight m = Ret (Some x)"
  "abs_MessageExternalToRobot (MessageExternalToRobot_SetSetLiftHeight x m) = Some (SetLiftHeightClad x)"
  "abs_MessageExternalToRobot (NewMessageExternalToRobotWithSetLiftHeight x) = Some (SetLiftHeightClad x)"
  unfolding MessageExternalToRobot_GetSetLiftHeight_def MessageExternalToRobot_SetSetLiftHeight_def NewMessageExternalToRobotWithSetLiftHeight_def
  by (rule messageExternalToRobotUnion.accessors [where v = "V_MessageExternalToRobot_SetLiftHeight x" and x = "x"], (assumption | simp)+)+

definition MessageExternalToRobot_GetAlignWithObject :: "MessageExternalToRobot_value tagged \<Rightarrow> align_with_object option outcome" where
  "MessageExternalToRobot_GetAlignWithObject = union_get 24 (\<lambda>v. case v of V_MessageExternalToRobot_AlignWithObject x \<Rightarrow> Some x | _ \<Rightarrow> None)"

definition MessageExternalToRobot_SetAlignWithObject :: "align_with_object \<Rightarrow> MessageExternalToRobot_value tagged \<Rightarrow> MessageExternalToRobot_value tagged" where
  "MessageExternalToRobot_SetAlignWithObject x = union_set 24 (V_MessageExternalToRobot_AlignWithObject x)"

definition NewMessageExternalToRobotWithAlignWithObject :: "align_with_object \<Rightarrow> MessageExternalToRobot_value tagged" where
  "NewMessageExternalToRobotWithAlignWithObject x = union_new 24 (V_MessageExternalToRobot_AlignWithObject x)"

lemma MessageExternalToRobot_AlignWithObject:
  "abs_MessageExternalToRobot m = Some y \<Longrightarrow> Tag_MessageExternalToRobot y \<noteq> 24 \<Longrightarrow> MessageExternalToRobot_GetAlignWithObject m = Ret None"
  "abs_MessageExternalToRobot m = Some (AlignWithObjectClad x) \<Longrightarrow> MessageExternalToRobot_GetAlignWithObject m = Ret (Some x)"
  "abs_MessageExternalToRobot (MessageExternalToRobot_SetAlignWithObject x m) = Some (AlignWithObjectClad x)"
  "abs_MessageExternalToRobot (NewMessageExternalToRobotWithAlignWithObject x) = Some (AlignWithObjectClad x)"
  unfolding MessageExternalToRobot_GetAlignWithObject_def MessageExternalToRobot_SetAlignWithObject_def NewMessageExternalToRobotWithAlignWithObject_def
  by (rule messageExternalToRobotUnion.accessors [where v = "V_MessageExternalToRobot_AlignWithObject x" and x = "x"], (assumption | simp)+)+

definition MessageExternalToRobot_GetSetLiftAngle :: "MessageExternalToRobot_value tagged \<Rightarrow> set_lift_angle option outcome" where
  "MessageExternalToRobot_GetSetLiftAngle = union_get 25 (\<lambda>v. case v of V_MessageExternalToRobot_SetLiftAngle x \<Rightarrow> Some x | _ \<Rightarrow> None)"

definition MessageExternalToRobot_SetSetLiftAngle :: "set_lift_angle \<Rightarrow> MessageExternalToRobot_value tagged \<Rightarrow> MessageExternalToRobot_value tagged" where
  "MessageExternalToRobot_SetSetLiftAngle x = union_set 25 (V_MessageExternalToRobot_SetLiftAngle x)"

definition NewMessageExternalToRobotWithSetLiftAngle :: "set_lift_angle \<Rightarrow> MessageExternalToRobot_value tagged" where
  "NewMessageExternalToRobotWithSetLiftAngle x = union_new 25 (V_MessageExternalToRobot_SetLiftAngle x)"

lemma MessageExternalToRobot_SetLiftAngle:
  "abs_MessageExternalToRobot m = Some y \<Longrightarrow> Tag_MessageExternalToRobot y \<noteq> 25 \<Longrightarrow> MessageExternalToRobot_GetSetLiftAngle m = Ret None"
  "abs_MessageExternalToRobot m = Some (SetLiftAngleClad x) \<Longrightarrow> MessageExternalToRobot_GetSetLiftAngle m = Ret (Some x)"
  "abs_MessageExternalToRobot (MessageExternalToRobot_SetSetLiftAngle x m) = Some (SetLiftAngleClad x)"
  "abs_MessageExternalToRobot (NewMessageExternalToRobotWithSetLiftAngle x) = Some (SetLiftAngleClad x)"
  unfolding MessageExternalToRobot_GetSetLiftAngle_def MessageExternalToRobot_SetSetLiftAngle_def NewMessageExternalToRobotWithSetLiftAngle_def
  by (rule messageExternalToRobotUnion.accessors [where v = "V_MessageExternalToRobot_SetLiftAngle x" and x = "x"], (assumption | simp)+)+

definition MessageExternalToRobot_GetDeleteCustomMarkerObjects :: "MessageExternalToRobot_value tagged \<Rightarrow> unit option outcome" where
  "MessageExternalToRobot_GetDeleteCustomMarkerObjects = union_get 26 (\<lambda>v. case v of V_MessageExternalToRobot_DeleteCustomMarkerObjects \<Rightarrow> Some () | _ \<Rightarrow> None)"

definition MessageExternalToRobot_SetDeleteCustomMarkerObjects :: "unit \<Rightarrow> MessageExternalToRobot_value tagged \<Rightarrow> MessageExternalToRobot_value tagged" where
  "MessageExternalToRobot_SetDeleteCustomMarkerObjects x = union_set 26 V_MessageExternalToRobot_DeleteCustomMarkerObjects"

definition NewMessageExternalToRobotWithDeleteCustomMarkerObjects :: "unit \<Rightarrow> MessageExternalToRobot_value tagged" where
  "NewMessageExternalToRobotWithDeleteCustomMarkerObjects x = union_new 26 V_MessageExternalToRobot_DeleteCustomMarkerObjects"

lemma MessageExternalToRobot_DeleteCustomMarkerObjects:
  "abs_MessageExternalToRobot m = Some y \<Longrightarrow> Tag_MessageExternalToRobot y \<noteq> 26 \<Longrightarrow> MessageExternalToRobot_GetDeleteCustomMarkerObjects m = Ret None"
  "abs_MessageExternalToRobot m = Some DeleteCustomMarkerObjects \<Longrightarrow> MessageExternalToRobot_GetDeleteCustomMarkerObjects m = Ret (Some ())"
  "abs_MessageExternalToRobot (MessageExternalToRobot_SetDeleteCustomMarkerObjects x m) = Some DeleteCustomMarkerObjects"
  "abs_MessageExternalToRobot (NewMessageExternalToRobotWithDeleteCustomMarkerObjects x) = Some DeleteCustomMarkerObjects"
  unfolding MessageExternalToRobot_GetDeleteCustomMarkerObjects_def MessageExternalToRobot_SetDeleteCustomMarkerObjects_def NewMessageExternalToRobotWithDeleteCustomMarkerObjects_def
  by (rule messageExternalToRobotUnion.accessors [where v = "V_MessageExternalToRobot_DeleteCustomMarkerObjects" and x = "()"], (assumption | simp)+)+

definition MessageExternalToRobot_GetDeleteFixedCustomObjects :: "MessageExternalToRobot_value tagged \<Rightarrow> unit option outcome" where
  "MessageExternalToRobot_GetDeleteFixedCustomObjects = union_get 27 (\<lambda>v. case v of V_MessageExternalToRobot_DeleteFixedCustomObjects \<Rightarrow> Some () | _ \<Rightarrow> None)"

definition MessageExternalToRobot_SetDeleteFixedCustomObjects :: "unit \<Rightarrow> MessageExternalToRobot_value tagged \<Rightarrow> MessageExternalToRobot_value tagged" where
  "MessageExternalToRobot_SetDeleteFixedCustomObjects x = union_set 27 V_MessageExternalToRobot_DeleteFixedCustomObjects"

definition NewMessageExternalToRobotWithDeleteFixedCustomObjects :: "unit \<Rightarrow> MessageExternalToRobot_value tagged" where
  "NewMessageExternalToRobotWithDeleteFixedCustomObjects x = union_new 27 V_MessageExternalToRobot_DeleteFixedCustomObjects"

lemma MessageExternalToRobot_DeleteFixedCustomObjects:
  "abs_MessageExternalToRobot m = Some y \<Longrightarrow> Tag_MessageExternalToRobot y \<noteq> 27 \<Longrightarrow> MessageExternalToRobot_GetDeleteFixedCustomObjects m = Ret None"
  "abs_MessageExternalToRobot m = Some DeleteFixedCustomObjects \<Longrightarrow> MessageExternalToRobot_GetDeleteFixedCustomObjects m = Ret (Some ())"
  "abs_MessageExternalToRobot (MessageExternalToRobot_SetDeleteFixedCustomObjects x m) = Some DeleteFixedCustomObjects"
  "abs_MessageExternalToRobot (NewMessageExternalToRobotWithDeleteFixedCustomObjects x) = Some DeleteFixedCustomObjects"
  unfolding MessageExternalToRobot_GetDeleteFixedCustomObjects_def MessageExternalToRobot_SetDeleteFixedCustomObjects_def NewMessageExternalToRobotWithDeleteFixedCustomObjects_def
  by (rule messageExternalToRobotUnion.accessors [where v = "V_MessageExternalToRobot_DeleteFixedCustomObjects" and x = "()"], (assumption | simp)+)+

definition MessageExternalToRobot_GetUndefineAllCustomMarkerObjects :: "MessageExternalToRobot_value tagged \<Rightarrow> unit option outcome" where
  "MessageExternalToRobot_GetUndefineAllCustomMarkerObjects = union_get 28 (\<lambda>v. case v of V_MessageExternalToRobot_UndefineAllCustomMarkerObjects \<Rightarrow> Some () | _ \<Rightarrow> None)"

definition MessageExternalToRobot_SetUndefineAllCustomMarkerObjects :: "unit \<Rightarrow> MessageExternalToRobot_value tagged \<Rightarrow> MessageExternalToRobot_value tagged" where
  "MessageExternalToRobot_SetUndefineAllCustomMarkerObjects x = union_set 28 V_MessageExternalToRobot_UndefineAllCustomMarkerObjects"

definition NewMessageExternalToRobotWithUndefineAllCustomMarkerObjects :: "unit \<Rightarrow> MessageExternalToRobot_value tagged" where
  "NewMessageExternalToRobotWithUndefineAllCustomMarkerObjects x = union_new 28 V_MessageExternalToRobot_UndefineAllCustomMarkerObjects"

lemma MessageExternalToRobot_UndefineAllCustomMarkerObjects:
  "abs_MessageExternalToRobot m = Some y \<Longrightarrow> Tag_MessageExternalToRobot y \<noteq> 28 \<Longrightarrow> MessageExternalToRobot_GetUndefineAllCustomMarkerObjects m = Ret None"
  "abs_MessageExternalToRobot m = Some UndefineAllCustomMarkerObjects \<Longrightarrow> MessageExternalToRobot_GetUndefineAllCustomMarkerObjects m = Ret (Some ())"
  "abs_MessageExternalToRobot (MessageExternalToRobot_SetUndefineAllCustomMarkerObjects x m) = Some UndefineAllCustomMarkerObjects"
  "abs_MessageExternalToRobot (NewMessageExternalToRobotWithUndefineAllCustomMarkerObjects x) = Some UndefineAllCustomMarkerObjects"
  unfolding MessageExternalToRobot_GetUndefineAllCustomMarkerObjects_def MessageExternalToRobot_SetUndefineAllCustomMarkerObjects_def NewMessageExternalToRobotWithUndefineAllCustomMarkerObjects_def
  by (rule messageExternalToRobotUnion.accessors [where v = "V_MessageExternalToRobot_UndefineAllCustomMarkerObjects" and x = "()"], (assumption | simp)+)+

definition MessageExternalToRobot_GetCreateFixedCustomObject :: "MessageExternalToRobot_value tagged \<Rightarrow> (pose_struct3d \<times> float32 \<times> float32 \<times> float32) option outcome" where
  "MessageExternalToRobot_GetCreateFixedCustomObject = union_get 29 (\<lambda>v. case v of V_MessageExternalToRobot_CreateFixedCustomObject x \<Rightarrow> Some x | _ \<Rightarrow> None)"

definition MessageExternalToRobot_SetCreateFixedCustomObject :: "(pose_struct3d \<times> float32 \<times> float32 \<times> float32) \<Rightarrow> MessageExternalToRobot_value tagged \<Rightarrow> MessageExternalToRobot_value tagged" where
  "MessageExternalToRobot_SetCreateFixedCustomObject x = union_set 29 (V_MessageExternalToRobot_CreateFixedCustomObject x)"

definition NewMessageExternalToRobotWithCreateFixedCustomObject :: "(pose_struct3d \<times> float32 \<times> float32 \<times> float32) \<Rightarrow> MessageExternalToRobot_value tagged" where
  "NewMessageExternalToRobotWithCreateFixedCustomObject x = union_new 29 (V_MessageExternalToRobot_CreateFixedCustomObject x)"

lemma MessageExternalToRobot_CreateFixedCustomObject:
  "abs_MessageExternalToRobot m = Some y \<Longrightarrow> Tag_MessageExternalToRobot y \<noteq> 29 \<Longrightarrow> MessageExternalToRobot_GetCreateFixedCustomObject m = Ret None"
  "abs_MessageExternalToRobot m = Some (CreateFixedCustomObjectClad a b c d) \<Longrightarrow> MessageExternalToRobot_GetCreateFixedCustomObject m = Ret (Some (a, b, c, d))"
  "abs_MessageExternalToRobot (MessageExternalToRobot_SetCreateFixedCustomObject (a, b, c, d) m) = Some (CreateFixedCustomObjectClad a b c d)"
  "abs_MessageExternalToRobot (NewMessageExternalToRobotWithCreateFixedCustomObject (a, b, c, d)) = Some (CreateFixedCustomObjectClad a b c d)"
  unfolding MessageExternalToRobot_GetCreateFixedCustomObject_def MessageExternalToRobot_SetCreateFixedCustomObject_def NewMessageExternalToRobotWithCreateFixedCustomObject_def
  by (rule messageExternalToRobotUnion.accessors [where v = "V_MessageExternalToRobot_CreateFixedCustomObject (a, b, c, d)" and x = "(a, b, c, d)"], (assumption | simp)+)+

definition MessageExternalToRobot_GetDefineCustomBox :: "MessageExternalToRobot_value tagged \<Rightarrow> define_custom_box option outcome" where
  "MessageExternalToRobot_GetDefineCustomBox = union_get 30 (\<lambda>v. case v of V_MessageExternalToRobot_DefineCustomBox x \<Rightarrow> Some x | _ \<Rightarrow> None)"

definition MessageExternalToRobot_SetDefineCustomBox :: "define_custom_box \<Rightarrow> MessageExternalToRobot_value tagged \<Rightarrow> MessageExternalToRobot_value tagged" where
  "MessageExternalToRobot_SetDefineCustomBox x = union_set 30 (V_MessageExternalToRobot_DefineCustomBox x)"

definition NewMessageExternalToRobotWithDefineCustomBox :: "define_custom_box \<Rightarrow> MessageExternalToRobot_value tagged" where
  "NewMessageExternalToRobotWithDefineCustomBox x = union_new 30 (V_MessageExternalToRobot_DefineCustomBox x)"

lemma MessageExternalToRobot_DefineCustomBox:
  "abs_MessageExternalToRobot m = Some y \<Longrightarrow> Tag_MessageExternalToRobot y \<noteq> 30 \<Longrightarrow> MessageExternalToRobot_GetDefineCustomBox m = Ret None"
  "abs_MessageExternalToRobot m = Some (DefineCustomBox x) \<Longrightarrow> MessageExternalToRobot_GetDefineCustomBox m = Ret (Some x)"
  "abs_MessageExternalToRobot (MessageExternalToRobot_SetDefineCustomBox x m) = Some (DefineCustomBox x)"
  "abs_MessageExternalToRobot (NewMessageExternalToRobotWithDefineCustomBox x) = Some (DefineCustomBox x)"
  unfolding MessageExternalToRobot_GetDefineCustomBox_def MessageExternalToRobot_SetDefineCustomBox_def NewMessageExternalToRobotWithDefineCustomBox_def
  by (rule messageExternalToRobotUnion.accessors [where v = "V_MessageExternalToRobot_DefineCustomBox x" and x = "x"], (assumption | simp)+)+

definition MessageExternalToRobot_GetDefineCustomCube :: "MessageExternalToRobot_value tagged \<Rightarrow> define_custom_cube option outcome" where
  "MessageExternalToRobot_GetDefineCustomCube = union_get 31 (\<lambda>v. case v of V_MessageExternalToRobot_DefineCustomCube x \<Rightarrow> Some x | _ \<Rightarrow> None)"

definition MessageExternalToRobot_SetDefineCustomCube :: "define_custom_cube \<Rightarrow> MessageExternalToRobot_value tagged \<Rightarrow> MessageExternalToRobot_value tagged" where
  "MessageExternalToRobot_SetDefineCustomCube x = union_set 31 (V_MessageExternalToRobot_DefineCustomCube x)"

definition NewMessageExternalToRobotWithDefineCustomCube :: "define_custom_cube \<Rightarrow> MessageExternalToRobot_value tagged" where
  "NewMessageExternalToRobotWithDefineCustomCube x = union_new 31 (V_MessageExternalToRobot_DefineCustomCube x)"

lemma MessageExternalToRobot_DefineCustomCube:
  "abs_MessageExternalToRobot m = Some y \<Longrightarrow> Tag_MessageExternalToRobot y \<noteq> 31 \<Longrightarrow> MessageExternalToRobot_GetDefineCustomCube m = Ret None"
  "abs_MessageExternalToRobot m = Some (DefineCustomCube x) \<Longrightarrow> MessageExternalToRobot_GetDefineCustomCube m = Ret (Some x)"
  "abs_MessageExternalToRobot (MessageExternalToRobot_SetDefineCustomCube x m) = Some (DefineCustomCube x)"
  "abs_MessageExternalToRobot (NewMessageExternalToRobotWithDefineCustomCube x) = Some (DefineCustomCube x)"
  unfolding MessageExternalToRobot_GetDefineCustomCube_def MessageExternalToRobot_SetDefineCustomCube_def NewMessageExternalToRobotWithDefineCustomCube_def
  by (rule messageExternalToRobotUnion.accessors [where v = "V_MessageExternalToRobot_DefineCustomCube x" and x = "x"], (assumption | simp)+)+

definition MessageExternalToRobot_GetDefineCustomWall :: "MessageExternalToRobot_value tagged \<Rightarrow> define_custom_wall option outcome" where
  "MessageExternalToRobot_GetDefineCustomWall = union_get 32 (\<lambda>v. case v of V_MessageExternalToRobot_DefineCustomWall x \<Rightarrow> Some x | _ \<Rightarrow> None)"

definition MessageExternalToRobot_SetDefineCustomWall :: "define_custom_wall \<Rightarrow> MessageExternalToRobot_value tagged \<Rightarrow> MessageExternalToRobot_value tagged" where
  "MessageExternalToRobot_SetDefineCustomWall x = union_set 32 (V_MessageExternalToRobot_DefineCustomWall x)"

definition NewMessageExternalToRobotWithDefineCustomWall :: "define_custom_wall \<Rightarrow> MessageExternalToRobot_value tagged" where
  "NewMessageExternalToRobotWithDefineCustomWall x = union_new 32 (V_MessageExternalToRobot_DefineCustomWall x)"

lemma MessageExternalToRobot_DefineCustomWall:
  "abs_MessageExternalToRobot m = Some y \<Longrightarrow> Tag_MessageExternalToRobot y \<noteq> 32 \<Longrightarrow> MessageExternalToRobot_GetDefineCustomWall m = Ret None"
  "abs_MessageExternalToRobot m = Some (DefineCustomWall x) \<Longrightarrow> MessageExternalToRobot_GetDefineCustomWall m = Ret (Some x)"
  "abs_MessageExternalToRobot (MessageExternalToRobot_SetDefineCustomWall x m) = Some (DefineCustomWall x)"
  "abs_MessageExternalToRobot (NewMessageExternalToRobotWithDefineCustomWall x) = Some (DefineCustomWall x)"
  unfolding MessageExternalToRobot_GetDefineCustomWall_def MessageExternalToRobot_SetDefineCustomWall_def NewMessageExternalToRobotWithDefineCustomWall_def
  by (rule messageExternalToRobotUnion.accessors [where v = "V_MessageExternalToRobot_DefineCustomWall x" and x = "x"], (assumption | simp)+)+

definition MessageExternalToRobot_GetSetMemoryMapBroadcastFrequencySec :: "MessageExternalToRobot_value tagged \<Rightarrow> float32 option outcome" where
  "MessageExternalToRobot_GetSetMemoryMapBroadcastFrequencySec = union_get 33 (\<lambda>v. case v of V_MessageExternalToRobot_SetMemoryMapBroadcastFrequency_sec x \<Rightarrow> Some x | _ \<Rightarrow> None)"

definition MessageExternalToRobot_SetSetMemoryMapBroadcastFrequencySec :: "float32 \<Rightarrow> MessageExternalToRobot_value tagged \<Rightarrow> MessageExternalToRobot_value tagged" where
  "MessageExternalToRobot_SetSetMemoryMapBroadcastFrequencySec x = union_set 33 (V_MessageExternalToRobot_SetMemoryMapBroadcastFrequency_sec x)"

definition NewMessageExternalToRobotWithSetMemoryMapBroadcastFrequencySec :: "float32 \<Rightarrow> MessageExternalToRobot_value tagged" where
  "NewMessageExternalToRobotWithSetMemoryMapBroadcastFrequencySec x = union_new 33 (V_MessageExternalToRobot_SetMemoryMapBroadcastFrequency_sec x)"

lemma MessageExternalToRobot_SetMemoryMapBroadcastFrequencySec:
  "abs_MessageExternalToRobot m = Some y \<Longrightarrow> Tag_MessageExternalToRobot y \<noteq> 33 \<Longrightarrow> MessageExternalToRobot_GetSetMemoryMapBroadcastFrequencySec m = Ret None"
  "abs_MessageExternalToRobot m = Some (SetMemoryMapBroadcastFrequency_sec x) \<Longrightarrow> MessageExternalToRobot_GetSetMemoryMapBroadcastFrequencySec m = Ret (Some x)"
  "abs_MessageExternalToRobot (MessageExternalToRobot_SetSetMemoryMapBroadcastFrequencySec x m) = Some (SetMemoryMapBroadcastFrequency_sec x)"
  "abs_MessageExternalToRobot (NewMessageExternalToRobotWithSetMemoryMapBroadcastFrequencySec x) = Some (SetMemoryMapBroadcastFrequency_sec x)"
  unfolding MessageExternalToRobot_GetSetMemoryMapBroadcastFrequencySec_def MessageExternalToRobot_SetSetMemoryMapBroadcastFrequencySec_def NewMessageExternalToRobotWithSetMemoryMapBroadcastFrequencySec_def
  by (rule messageExternalToRobotUnion.accessors [where v = "V_MessageExternalToRobot_SetMemoryMapBroadcastFrequency_sec x" and x = "x"], (assumption | simp)+)+

definition panics_MessageExternalToRobot :: "MessageExternalToRobot_value tagged \<Rightarrow> bool" where
  "panics_MessageExternalToRobot m \<longleftrightarrow> MessageExternalToRobot_GetUiDeviceConnectionWrongVersion m = Panic \<or>
     MessageExternalToRobot_GetMoveHead m = Panic \<or>
     MessageExternalToRobot_GetMoveLift m = Panic \<or>
     MessageExternalToRobot_GetDriveArc m = Panic \<or>
     MessageExternalToRobot_GetRobotHistoryRequest m = Panic \<or>
     MessageExternalToRobot_GetDisplayFaceImageRGBChunk m = Panic \<or>
     MessageExternalToRobot_GetAppIntent m = Panic \<or>
     MessageExternalToRobot_GetCancelFaceEnrollment m = Panic \<or>
     MessageExternalToRobot_GetRequestEnrolledNames m = Panic \<or>
     MessageExternalToRobot_GetUpdateEnrolledFaceByID m = Panic \<or>
     MessageExternalToRobot_GetEraseEnrolledFaceByID m = Panic \<or>
     MessageExternalToRobot_GetEraseAllEnrolledFaces m = Panic \<or>
     MessageExternalToRobot_GetSetFaceToEnroll m = Panic \<or>
     MessageExternalToRobot_GetEnableVisionMode m = Panic \<or>
     MessageExternalToRobot_GetGotoPose m = Panic \<or>
     MessageExternalToRobot_GetDriveStraight m = Panic \<or>
     MessageExternalToRobot_GetTurnInPlace m = Panic \<or>
     MessageExternalToRobot_GetSetHeadAngle m = Panic \<or>
     MessageExternalToRobot_GetSetLiftHeight m = Panic \<or>
     MessageExternalToRobot_GetAlignWithObject m = Panic \<or>
     MessageExternalToRobot_GetSetLiftAngle m = Panic \<or>
     MessageExternalToRobot_GetDeleteCustomMarkerObjects m = Panic \<or>
     MessageExternalToRobot_GetDeleteFixedCustomObjects m = Panic \<or>
     MessageExternalToRobot_GetUndefineAllCustomMarkerObjects m = Panic \<or>
     MessageExternalToRobot_GetCreateFixedCustomObject m = Panic \<or>
     MessageExternalToRobot_GetDefineCustomBox m = Panic \<or>
     MessageExternalToRobot_GetDefineCustomCube m = Panic \<or>
     MessageExternalToRobot_GetDefineCustomWall m = Panic \<or>
     MessageExternalToRobot_GetSetMemoryMapBroadcastFrequencySec m = Panic"

lemma getters_MessageExternalToRobot: "getters_safe con_MessageExternalToRobot MessageExternalToRobot_unpackValue panics_MessageExternalToRobot"
  unfolding getters_safe_def panics_MessageExternalToRobot_def de_Morgan_disj MessageExternalToRobot_GetUiDeviceConnectionWrongVersion_def MessageExternalToRobot_GetMoveHead_def MessageExternalToRobot_GetMoveLift_def MessageExternalToRobot_GetDriveArc_def
    MessageExternalToRobot_GetRobotHistoryRequest_def MessageExternalToRobot_GetDisplayFaceImageRGBChunk_def MessageExternalToRobot_GetAppIntent_def MessageExternalToRobot_GetCancelFaceEnrollment_def
    MessageExternalToRobot_GetRequestEnrolledNames_def MessageExternalToRobot_GetUpdateEnrolledFaceByID_def MessageExternalToRobot_GetEraseEnrolledFaceByID_def MessageExternalToRobot_GetEraseAllEnrolledFaces_def
    MessageExternalToRobot_GetSetFaceToEnroll_def MessageExternalToRobot_GetEnableVisionMode_def MessageExternalToRobot_GetGotoPose_def MessageExternalToRobot_GetDriveStraight_def
    MessageExternalToRobot_GetTurnInPlace_def MessageExternalToRobot_GetSetHeadAngle_def MessageExternalToRobot_GetSetLiftHeight_def MessageExternalToRobot_GetAlignWithObject_def
    MessageExternalToRobot_GetSetLiftAngle_def MessageExternalToRobot_GetDeleteCustomMarkerObjects_def MessageExternalToRobot_GetDeleteFixedCustomObjects_def MessageExternalToRobot_GetUndefineAllCustomMarkerObjects_def
    MessageExternalToRobot_GetCreateFixedCustomObject_def MessageExternalToRobot_GetDefineCustomBox_def MessageExternalToRobot_GetDefineCustomCube_def MessageExternalToRobot_GetDefineCustomWall_def
    MessageExternalToRobot_GetSetMemoryMapBroadcastFrequencySec_def
  by (intro allI impI conjI; rule messageExternalToRobotUnion.get_no_panic, assumption, simp, case_tac v; simp)

end
