(* ===== verification/Unions_Switchboard.thy ===== *)
theory Unions_Switchboard
  imports Clad_Switchboard Clad_Unions
begin

text \<open>
  The unions of the switchboard's socket as the generated code keeps them, with their getters, setters and
  constructors.
\<close>

section \<open>\<open>SwitchboardRequest\<close>\<close>

text \<open>The types of its values.\<close>

datatype SwitchboardRequest_value =
    V_SwitchboardRequest_SwitchboardError
  | V_SwitchboardRequest_AuthRequest auth_request
  | V_SwitchboardRequest_JwtRequest bool
  | V_SwitchboardRequest_ExternalConnectionRequest
  | V_SwitchboardRequest_ExternalConnectionResponse external_connection_response
  | V_SwitchboardRequest_ClientGuidRefreshResponse
  | V_SwitchboardRequest_SdkProxyResponse sdk_proxy_response

primrec con_SwitchboardRequest :: "byte \<Rightarrow> SwitchboardRequest_value \<Rightarrow> switchboard_request option" where
  "con_SwitchboardRequest t V_SwitchboardRequest_SwitchboardError = (if t = 1 then Some (SwitchboardRequestWithSwitchboardError) else None)"
| "con_SwitchboardRequest t (V_SwitchboardRequest_AuthRequest x) = (if t = 2 then Some (SwitchboardRequestWithAuthRequest x) else None)"
| "con_SwitchboardRequest t (V_SwitchboardRequest_JwtRequest x) = (if t = 3 then Some (SwitchboardRequestWithJwtRequest x) else None)"
| "con_SwitchboardRequest t V_SwitchboardRequest_ExternalConnectionRequest = (if t = 4 then Some (SwitchboardRequestWithExternalConnectionRequest) else None)"
| "con_SwitchboardRequest t (V_SwitchboardRequest_ExternalConnectionResponse x) = (if t = 5 then Some (SwitchboardRequestWithExternalConnectionResponse x) else None)"
| "con_SwitchboardRequest t V_SwitchboardRequest_ClientGuidRefreshResponse = (if t = 6 then Some (SwitchboardRequestWithClientGuidRefreshResponse) else None)"
| "con_SwitchboardRequest t (V_SwitchboardRequest_SdkProxyResponse x) = (if t = 7 then Some (SwitchboardRequestWithSdkProxyResponse x) else None)"

primrec value_of_SwitchboardRequest :: "switchboard_request \<Rightarrow> SwitchboardRequest_value option" where
  "value_of_SwitchboardRequest SwitchboardRequestWithSwitchboardError = Some (V_SwitchboardRequest_SwitchboardError)"
| "value_of_SwitchboardRequest (SwitchboardRequestWithAuthRequest x) = Some (V_SwitchboardRequest_AuthRequest x)"
| "value_of_SwitchboardRequest (SwitchboardRequestWithJwtRequest x) = Some (V_SwitchboardRequest_JwtRequest x)"
| "value_of_SwitchboardRequest SwitchboardRequestWithExternalConnectionRequest = Some (V_SwitchboardRequest_ExternalConnectionRequest)"
| "value_of_SwitchboardRequest (SwitchboardRequestWithExternalConnectionResponse x) = Some (V_SwitchboardRequest_ExternalConnectionResponse x)"
| "value_of_SwitchboardRequest SwitchboardRequestWithClientGuidRefreshResponse = Some (V_SwitchboardRequest_ClientGuidRefreshResponse)"
| "value_of_SwitchboardRequest (SwitchboardRequestWithSdkProxyResponse x) = Some (V_SwitchboardRequest_SdkProxyResponse x)"
| "value_of_SwitchboardRequest SwitchboardRequestInvalid = None"

primrec SwitchboardRequest_packValue :: "SwitchboardRequest_value \<Rightarrow> writer" where
  "SwitchboardRequest_packValue V_SwitchboardRequest_SwitchboardError = Pack_SwitchboardError ()"
| "SwitchboardRequest_packValue (V_SwitchboardRequest_AuthRequest x) = Pack_AuthRequest x"
| "SwitchboardRequest_packValue (V_SwitchboardRequest_JwtRequest x) = Pack_JwtRequest x"
| "SwitchboardRequest_packValue V_SwitchboardRequest_ExternalConnectionRequest = Pack_ExternalConnectionRequest ()"
| "SwitchboardRequest_packValue (V_SwitchboardRequest_ExternalConnectionResponse x) = Pack_ExternalConnectionResponse x"
| "SwitchboardRequest_packValue V_SwitchboardRequest_ClientGuidRefreshResponse = Pack_ClientGuidRefreshResponse ()"
| "SwitchboardRequest_packValue (V_SwitchboardRequest_SdkProxyResponse x) = Pack_SdkProxyResponse x"

primrec SwitchboardRequest_sizeValue :: "SwitchboardRequest_value \<Rightarrow> uint32" where
  "SwitchboardRequest_sizeValue V_SwitchboardRequest_SwitchboardError = Size_SwitchboardError ()"
| "SwitchboardRequest_sizeValue (V_SwitchboardRequest_AuthRequest x) = Size_AuthRequest x"
| "SwitchboardRequest_sizeValue (V_SwitchboardRequest_JwtRequest x) = Size_JwtRequest x"
| "SwitchboardRequest_sizeValue V_SwitchboardRequest_ExternalConnectionRequest = Size_ExternalConnectionRequest ()"
| "SwitchboardRequest_sizeValue (V_SwitchboardRequest_ExternalConnectionResponse x) = Size_ExternalConnectionResponse x"
| "SwitchboardRequest_sizeValue V_SwitchboardRequest_ClientGuidRefreshResponse = Size_ClientGuidRefreshResponse ()"
| "SwitchboardRequest_sizeValue (V_SwitchboardRequest_SdkProxyResponse x) = Size_SdkProxyResponse x"

definition SwitchboardRequest_unpackValue :: "byte \<Rightarrow> SwitchboardRequest_value reader" where
  "SwitchboardRequest_unpackValue tag =
     (if tag = 1 then bindM Unpack_SwitchboardError (\<lambda>x. returnM V_SwitchboardRequest_SwitchboardError)
      else if tag = 2 then bindM Unpack_AuthRequest (\<lambda>x. returnM (V_SwitchboardRequest_AuthRequest x))
      else if tag = 3 then bindM Unpack_JwtRequest (\<lambda>x. returnM (V_SwitchboardRequest_JwtRequest x))
      else if tag = 4 then bindM Unpack_ExternalConnectionRequest (\<lambda>x. returnM V_SwitchboardRequest_ExternalConnectionRequest)
      else if tag = 5 then bindM Unpack_ExternalConnectionResponse (\<lambda>x. returnM (V_SwitchboardRequest_ExternalConnectionResponse x))
      else if tag = 6 then bindM Unpack_ClientGuidRefreshResponse (\<lambda>x. returnM V_SwitchboardRequest_ClientGuidRefreshResponse)
      else if tag = 7 then bindM Unpack_SdkProxyResponse (\<lambda>x. returnM (V_SwitchboardRequest_SdkProxyResponse x))
      else failM (Errorf ''invalid tag to unpackStruct''))"

lemma con_SwitchboardRequest_iff: "con_SwitchboardRequest t v = Some a \<longleftrightarrow> Tag_SwitchboardRequest a = t \<and> value_of_SwitchboardRequest a = Some v"
proof
  show "con_SwitchboardRequest t v = Some a \<Longrightarrow> Tag_SwitchboardRequest a = t \<and> value_of_SwitchboardRequest a = Some v"
    by (cases v) (auto split: if_splits prod.splits)
  show "Tag_SwitchboardRequest a = t \<and> value_of_SwitchboardRequest a = Some v \<Longrightarrow> con_SwitchboardRequest t v = Some a"
    by (cases a) (auto)
qed

lemma unpackStruct_SwitchboardRequest_value: "unpackStruct_SwitchboardRequest tag =
    bindM (SwitchboardRequest_unpackValue tag) (\<lambda>v. case con_SwitchboardRequest tag v of None \<Rightarrow> panicM | Some a \<Rightarrow> returnM a)"
  by (simp add: unpackStruct_SwitchboardRequest_def SwitchboardRequest_unpackValue_def bind_if bindM_assoc cong: if_cong)

interpretation switchboardRequestUnion: tagged_union con_SwitchboardRequest SwitchboardRequestInvalid Tag_SwitchboardRequest value_of_SwitchboardRequest SwitchboardRequest_packValue SwitchboardRequest_sizeValue SwitchboardRequest_unpackValue
    Pack_SwitchboardRequest Unpack_SwitchboardRequest Size_SwitchboardRequest
proof unfold_locales
  fix a :: switchboard_request
  show "Tag_SwitchboardRequest a = 255 \<longleftrightarrow> a = SwitchboardRequestInvalid" "value_of_SwitchboardRequest a = None \<longleftrightarrow> a = SwitchboardRequestInvalid" by (cases a; simp)+
  show "Pack_SwitchboardRequest a = bindM (write_word (Tag_SwitchboardRequest a)) (\<lambda>_. case value_of_SwitchboardRequest a of None \<Rightarrow> returnM () | Some v \<Rightarrow> SwitchboardRequest_packValue v)"
    by (cases a) (simp_all add: Pack_SwitchboardRequest_def)
  show "Size_SwitchboardRequest a = (case value_of_SwitchboardRequest a of None \<Rightarrow> 1 | Some v \<Rightarrow> 1 + SwitchboardRequest_sizeValue v)" by (cases a) simp_all
  show "reader Unpack_SwitchboardRequest" by (rule reads)
qed (simp_all add: con_SwitchboardRequest_iff Unpack_SwitchboardRequest_def unpackStruct_SwitchboardRequest_value cong: if_cong)

abbreviation abs_SwitchboardRequest :: "SwitchboardRequest_value tagged \<Rightarrow> switchboard_request option" where
  "abs_SwitchboardRequest \<equiv> union_abs con_SwitchboardRequest SwitchboardRequestInvalid"

definition SwitchboardRequest_GetSwitchboardError :: "SwitchboardRequest_value tagged \<Rightarrow> unit option outcome" where
  "SwitchboardRequest_GetSwitchboardError = union_get 1 (\<lambda>v. case v of V_SwitchboardRequest_SwitchboardError \<Rightarrow> Some () | _ \<Rightarrow> None)"

definition SwitchboardRequest_SetSwitchboardError :: "unit \<Rightarrow> SwitchboardRequest_value tagged \<Rightarrow> SwitchboardRequest_value tagged" where
  "SwitchboardRequest_SetSwitchboardError x = union_set 1 V_SwitchboardRequest_SwitchboardError"

definition NewSwitchboardRequestWithSwitchboardError :: "unit \<Rightarrow> SwitchboardRequest_value tagged" where
  "NewSwitchboardRequestWithSwitchboardError x = union_new 1 V_SwitchboardRequest_SwitchboardError"

lemma SwitchboardRequest_SwitchboardError:
  "abs_SwitchboardRequest m = Some y \<Longrightarrow> Tag_SwitchboardRequest y \<noteq> 1 \<Longrightarrow> SwitchboardRequest_GetSwitchboardError m = Ret None"
  "abs_SwitchboardRequest m = Some SwitchboardRequestWithSwitchboardError \<Longrightarrow> SwitchboardRequest_GetSwitchboardError m = Ret (Some ())"
  "abs_SwitchboardRequest (SwitchboardRequest_SetSwitchboardError x m) = Some SwitchboardRequestWithSwitchboardError"
  "abs_SwitchboardRequest (NewSwitchboardRequestWithSwitchboardError x) = Some SwitchboardRequestWithSwitchboardError"
  unfolding SwitchboardRequest_GetSwitchboardError_def SwitchboardRequest_SetSwitchboardError_def NewSwitchboardRequestWithSwitchboardError_def
  by (rule switchboardRequestUnion.accessors [where v = "V_SwitchboardRequest_SwitchboardError" and x = "()"], (assumption | simp)+)+

definition SwitchboardRequest_GetAuthRequest :: "SwitchboardRequest_value tagged \<Rightarrow> auth_request option outcome" where
  "SwitchboardRequest_GetAuthRequest = union_get 2 (\<lambda>v. case v of V_SwitchboardRequest_AuthRequest x \<Rightarrow> Some x | _ \<Rightarrow> None)"

definition SwitchboardRequest_SetAuthRequest :: "auth_request \<Rightarrow> SwitchboardRequest_value tagged \<Rightarrow> SwitchboardRequest_value tagged" where
  "SwitchboardRequest_SetAuthRequest x = union_set 2 (V_SwitchboardRequest_AuthRequest x)"

definition NewSwitchboardRequestWithAuthRequest :: "auth_request \<Rightarrow> SwitchboardRequest_value tagged" where
  "NewSwitchboardRequestWithAuthRequest x = union_new 2 (V_SwitchboardRequest_AuthRequest x)"

lemma SwitchboardRequest_AuthRequest:
  "abs_SwitchboardRequest m = Some y \<Longrightarrow> Tag_SwitchboardRequest y \<noteq> 2 \<Longrightarrow> SwitchboardRequest_GetAuthRequest m = Ret None"
  "abs_SwitchboardRequest m = Some (SwitchboardRequestWithAuthRequest x) \<Longrightarrow> SwitchboardRequest_GetAuthRequest m = Ret (Some x)"
  "abs_SwitchboardRequest (SwitchboardRequest_SetAuthRequest x m) = Some (SwitchboardRequestWithAuthRequest x)"
  "abs_SwitchboardRequest (NewSwitchboardRequestWithAuthRequest x) = Some (SwitchboardRequestWithAuthRequest x)"
  unfolding SwitchboardRequest_GetAuthRequest_def SwitchboardRequest_SetAuthRequest_def NewSwitchboardRequestWithAuthRequest_def
  by (rule switchboardRequestUnion.accessors [where v = "V_SwitchboardRequest_AuthRequest x" and x = "x"], (assumption | simp)+)+

definition SwitchboardRequest_GetJwtRequest :: "SwitchboardRequest_value tagged \<Rightarrow> bool option outcome" where
  "SwitchboardRequest_GetJwtRequest = union_get 3 (\<lambda>v. case v of V_SwitchboardRequest_JwtRequest x \<Rightarrow> Some x | _ \<Rightarrow> None)"

definition SwitchboardRequest_SetJwtRequest :: "bool \<Rightarrow> SwitchboardRequest_value tagged \<Rightarrow> SwitchboardRequest_value tagged" where
  "SwitchboardRequest_SetJwtRequest x = union_set 3 (V_SwitchboardRequest_JwtRequest x)"

definition NewSwitchboardRequestWithJwtRequest :: "bool \<Rightarrow> SwitchboardRequest_value tagged" where
  "NewSwitchboardRequestWithJwtRequest x = union_new 3 (V_SwitchboardRequest_JwtRequest x)"

lemma SwitchboardRequest_JwtRequest:
  "abs_SwitchboardRequest m = Some y \<Longrightarrow> Tag_SwitchboardRequest y \<noteq> 3 \<Longrightarrow> SwitchboardRequest_GetJwtRequest m = Ret None"
  "abs_SwitchboardRequest m = Some (SwitchboardRequestWithJwtRequest x) \<Longrightarrow> SwitchboardRequest_GetJwtRequest m = Ret (Some x)"
  "abs_SwitchboardRequest (SwitchboardRequest_SetJwtRequest x m) = Some (SwitchboardRequestWithJwtRequest x)"
  "abs_SwitchboardRequest (NewSwitchboardRequestWithJwtRequest x) = Some (SwitchboardRequestWithJwtRequest x)"
  unfolding SwitchboardRequest_GetJwtRequest_def SwitchboardRequest_SetJwtRequest_def NewSwitchboardRequestWithJwtRequest_def
  by (rule switchboardRequestUnion.accessors [where v = "V_SwitchboardRequest_JwtRequest x" and x = "x"], (assumption | simp)+)+

definition SwitchboardRequest_GetExternalConnectionRequest :: "SwitchboardRequest_value tagged \<Rightarrow> unit option outcome" where
  "SwitchboardRequest_GetExternalConnectionRequest = union_get 4 (\<lambda>v. case v of V_SwitchboardRequest_ExternalConnectionRequest \<Rightarrow> Some () | _ \<Rightarrow> None)"

definition SwitchboardRequest_SetExternalConnectionRequest :: "unit \<Rightarrow> SwitchboardRequest_value tagged \<Rightarrow> SwitchboardRequest_value tagged" where
  "SwitchboardRequest_SetExternalConnectionRequest x = union_set 4 V_SwitchboardRequest_ExternalConnectionRequest"

definition NewSwitchboardRequestWithExternalConnectionRequest :: "unit \<Rightarrow> SwitchboardRequest_value tagged" where
  "NewSwitchboardRequestWithExternalConnectionRequest x = union_new 4 V_SwitchboardRequest_ExternalConnectionRequest"

lemma SwitchboardRequest_ExternalConnectionRequest:
  "abs_SwitchboardRequest m = Some y \<Longrightarrow> Tag_SwitchboardRequest y \<noteq> 4 \<Longrightarrow> SwitchboardRequest_GetExternalConnectionRequest m = Ret None"
  "abs_SwitchboardRequest m = Some SwitchboardRequestWithExternalConnectionRequest \<Longrightarrow> SwitchboardRequest_GetExternalConnectionRequest m = Ret (Some ())"
  "abs_SwitchboardRequest (SwitchboardRequest_SetExternalConnectionRequest x m) = Some SwitchboardRequestWithExternalConnectionRequest"
  "abs_SwitchboardRequest (NewSwitchboardRequestWithExternalConnectionRequest x) = Some SwitchboardRequestWithExternalConnectionRequest"
  unfolding SwitchboardRequest_GetExternalConnectionRequest_def SwitchboardRequest_SetExternalConnectionRequest_def NewSwitchboardRequestWithExternalConnectionRequest_def
  by (rule switchboardRequestUnion.accessors [where v = "V_SwitchboardRequest_ExternalConnectionRequest" and x = "()"], (assumption | simp)+)+

definition SwitchboardRequest_GetExternalConnectionResponse :: "SwitchboardRequest_value tagged \<Rightarrow> external_connection_response option outcome" where
  "SwitchboardRequest_GetExternalConnectionResponse = union_get 5 (\<lambda>v. case v of V_SwitchboardRequest_ExternalConnectionResponse x \<Rightarrow> Some x | _ \<Rightarrow> None)"

definition SwitchboardRequest_SetExternalConnectionResponse :: "external_connection_response \<Rightarrow> SwitchboardRequest_value tagged \<Rightarrow> SwitchboardRequest_value tagged" where
  "SwitchboardRequest_SetExternalConnectionResponse x = union_set 5 (V_SwitchboardRequest_ExternalConnectionResponse x)"

definition NewSwitchboardRequestWithExternalConnectionResponse :: "external_connection_response \<Rightarrow> SwitchboardRequest_value tagged" where
  "NewSwitchboardRequestWithExternalConnectionResponse x = union_new 5 (V_SwitchboardRequest_ExternalConnectionResponse x)"

lemma SwitchboardRequest_ExternalConnectionResponse:
  "abs_SwitchboardRequest m = Some y \<Longrightarrow> Tag_SwitchboardRequest y \<noteq> 5 \<Longrightarrow> SwitchboardRequest_GetExternalConnectionResponse m = Ret None"
  "abs_SwitchboardRequest m = Some (SwitchboardRequestWithExternalConnectionResponse x) \<Longrightarrow> SwitchboardRequest_GetExternalConnectionResponse m = Ret (Some x)"
  "abs_SwitchboardRequest (SwitchboardRequest_SetExternalConnectionResponse x m) = Some (SwitchboardRequestWithExternalConnectionResponse x)"
  "abs_SwitchboardRequest (NewSwitchboardRequestWithExternalConnectionResponse x) = Some (SwitchboardRequestWithExternalConnectionResponse x)"
  unfolding SwitchboardRequest_GetExternalConnectionResponse_def SwitchboardRequest_SetExternalConnectionResponse_def NewSwitchboardRequestWithExternalConnectionResponse_def
  by (rule switchboardRequestUnion.accessors [where v = "V_SwitchboardRequest_ExternalConnectionResponse x" and x = "x"], (assumption | simp)+)+

definition SwitchboardRequest_GetClientGuidRefreshResponse :: "SwitchboardRequest_value tagged \<Rightarrow> unit option outcome" where
  "SwitchboardRequest_GetClientGuidRefreshResponse = union_get 6 (\<lambda>v. case v of V_SwitchboardRequest_ClientGuidRefreshResponse \<Rightarrow> Some () | _ \<Rightarrow> None)"

definition SwitchboardRequest_SetClientGuidRefreshResponse :: "unit \<Rightarrow> SwitchboardRequest_value tagged \<Rightarrow> SwitchboardRequest_value tagged" where
  "SwitchboardRequest_SetClientGuidRefreshResponse x = union_set 6 V_SwitchboardRequest_ClientGuidRefreshResponse"

definition NewSwitchboardRequestWithClientGuidRefreshResponse :: "unit \<Rightarrow> SwitchboardRequest_value tagged" where
  "NewSwitchboardRequestWithClientGuidRefreshResponse x = union_new 6 V_SwitchboardRequest_ClientGuidRefreshResponse"

lemma SwitchboardRequest_ClientGuidRefreshResponse:
  "abs_SwitchboardRequest m = Some y \<Longrightarrow> Tag_SwitchboardRequest y \<noteq> 6 \<Longrightarrow> SwitchboardRequest_GetClientGuidRefreshResponse m = Ret None"
  "abs_SwitchboardRequest m = Some SwitchboardRequestWithClientGuidRefreshResponse \<Longrightarrow> SwitchboardRequest_GetClientGuidRefreshResponse m = Ret (Some ())"
  "abs_SwitchboardRequest (SwitchboardRequest_SetClientGuidRefreshResponse x m) = Some SwitchboardRequestWithClientGuidRefreshResponse"
  "abs_SwitchboardRequest (NewSwitchboardRequestWithClientGuidRefreshResponse x) = Some SwitchboardRequestWithClientGuidRefreshResponse"
  unfolding SwitchboardRequest_GetClientGuidRefreshResponse_def SwitchboardRequest_SetClientGuidRefreshResponse_def NewSwitchboardRequestWithClientGuidRefreshResponse_def
  by (rule switchboardRequestUnion.accessors [where v = "V_SwitchboardRequest_ClientGuidRefreshResponse" and x = "()"], (assumption | simp)+)+

definition SwitchboardRequest_GetSdkProxyResponse :: "SwitchboardRequest_value tagged \<Rightarrow> sdk_proxy_response option outcome" where
  "SwitchboardRequest_GetSdkProxyResponse = union_get 7 (\<lambda>v. case v of V_SwitchboardRequest_SdkProxyResponse x \<Rightarrow> Some x | _ \<Rightarrow> None)"

definition SwitchboardRequest_SetSdkProxyResponse :: "sdk_proxy_response \<Rightarrow> SwitchboardRequest_value tagged \<Rightarrow> SwitchboardRequest_value tagged" where
  "SwitchboardRequest_SetSdkProxyResponse x = union_set 7 (V_SwitchboardRequest_SdkProxyResponse x)"

definition NewSwitchboardRequestWithSdkProxyResponse :: "sdk_proxy_response \<Rightarrow> SwitchboardRequest_value tagged" where
  "NewSwitchboardRequestWithSdkProxyResponse x = union_new 7 (V_SwitchboardRequest_SdkProxyResponse x)"

lemma SwitchboardRequest_SdkProxyResponse:
  "abs_SwitchboardRequest m = Some y \<Longrightarrow> Tag_SwitchboardRequest y \<noteq> 7 \<Longrightarrow> SwitchboardRequest_GetSdkProxyResponse m = Ret None"
  "abs_SwitchboardRequest m = Some (SwitchboardRequestWithSdkProxyResponse x) \<Longrightarrow> SwitchboardRequest_GetSdkProxyResponse m = Ret (Some x)"
  "abs_SwitchboardRequest (SwitchboardRequest_SetSdkProxyResponse x m) = Some (SwitchboardRequestWithSdkProxyResponse x)"
  "abs_SwitchboardRequest (NewSwitchboardRequestWithSdkProxyResponse x) = Some (SwitchboardRequestWithSdkProxyResponse x)"
  unfolding SwitchboardRequest_GetSdkProxyResponse_def SwitchboardRequest_SetSdkProxyResponse_def NewSwitchboardRequestWithSdkProxyResponse_def
  by (rule switchboardRequestUnion.accessors [where v = "V_SwitchboardRequest_SdkProxyResponse x" and x = "x"], (assumption | simp)+)+

definition panics_SwitchboardRequest :: "SwitchboardRequest_value tagged \<Rightarrow> bool" where
  "panics_SwitchboardRequest m \<longleftrightarrow> SwitchboardRequest_GetSwitchboardError m = Panic \<or>
     SwitchboardRequest_GetAuthRequest m = Panic \<or>
     SwitchboardRequest_GetJwtRequest m = Panic \<or>
     SwitchboardRequest_GetExternalConnectionRequest m = Panic \<or>
     SwitchboardRequest_GetExternalConnectionResponse m = Panic \<or>
     SwitchboardRequest_GetClientGuidRefreshResponse m = Panic \<or>
     SwitchboardRequest_GetSdkProxyResponse m = Panic"

lemma getters_SwitchboardRequest: "getters_safe con_SwitchboardRequest SwitchboardRequest_unpackValue panics_SwitchboardRequest"
  unfolding getters_safe_def panics_SwitchboardRequest_def de_Morgan_disj SwitchboardRequest_GetSwitchboardError_def SwitchboardRequest_GetAuthRequest_def SwitchboardRequest_GetJwtRequest_def SwitchboardRequest_GetExternalConnectionRequest_def
    SwitchboardRequest_GetExternalConnectionResponse_def SwitchboardRequest_GetClientGuidRefreshResponse_def SwitchboardRequest_GetSdkProxyResponse_def
  by (intro allI impI conjI; rule switchboardRequestUnion.get_no_panic, assumption, simp, case_tac v; simp)

section \<open>\<open>SwitchboardResponse\<close>\<close>

text \<open>The types of its values.\<close>

datatype SwitchboardResponse_value =
    V_SwitchboardResponse_SwitchboardError
  | V_SwitchboardResponse_AuthResponse auth_response
  | V_SwitchboardResponse_JwtResponse jwt_response
  | V_SwitchboardResponse_ExternalConnectionRequest
  | V_SwitchboardResponse_ExternalConnectionResponse external_connection_response
  | V_SwitchboardResponse_ClientGuidRefreshRequest
  | V_SwitchboardResponse_SdkProxyRequest sdk_proxy_request

primrec con_SwitchboardResponse :: "byte \<Rightarrow> SwitchboardResponse_value \<Rightarrow> switchboard_response option" where
  "con_SwitchboardResponse t V_SwitchboardResponse_SwitchboardError = (if t = 1 then Some (SwitchboardResponseWithSwitchboardError) else None)"
| "con_SwitchboardResponse t (V_SwitchboardResponse_AuthResponse x) = (if t = 2 then Some (SwitchboardResponseWithAuthResponse x) else None)"
| "con_SwitchboardResponse t (V_SwitchboardResponse_JwtResponse x) = (if t = 3 then Some (SwitchboardResponseWithJwtResponse x) else None)"
| "con_SwitchboardResponse t V_SwitchboardResponse_ExternalConnectionRequest = (if t = 4 then Some (SwitchboardResponseWithExternalConnectionRequest) else None)"
| "con_SwitchboardResponse t (V_SwitchboardResponse_ExternalConnectionResponse x) = (if t = 5 then Some (SwitchboardResponseWithExternalConnectionResponse x) else None)"
| "con_SwitchboardResponse t V_SwitchboardResponse_ClientGuidRefreshRequest = (if t = 6 then Some (SwitchboardResponseWithClientGuidRefreshRequest) else None)"
| "con_SwitchboardResponse t (V_SwitchboardResponse_SdkProxyRequest x) = (if t = 7 then Some (SwitchboardResponseWithSdkProxyRequest x) else None)"

primrec value_of_SwitchboardResponse :: "switchboard_response \<Rightarrow> SwitchboardResponse_value option" where
  "value_of_SwitchboardResponse SwitchboardResponseWithSwitchboardError = Some (V_SwitchboardResponse_SwitchboardError)"
| "value_of_SwitchboardResponse (SwitchboardResponseWithAuthResponse x) = Some (V_SwitchboardResponse_AuthResponse x)"
| "value_of_SwitchboardResponse (SwitchboardResponseWithJwtResponse x) = Some (V_SwitchboardResponse_JwtResponse x)"
| "value_of_SwitchboardResponse SwitchboardResponseWithExternalConnectionRequest = Some (V_SwitchboardResponse_ExternalConnectionRequest)"
| "value_of_SwitchboardResponse (SwitchboardResponseWithExternalConnectionResponse x) = Some (V_SwitchboardResponse_ExternalConnectionResponse x)"
| "value_of_SwitchboardResponse SwitchboardResponseWithClientGuidRefreshRequest = Some (V_SwitchboardResponse_ClientGuidRefreshRequest)"
| "value_of_SwitchboardResponse (SwitchboardResponseWithSdkProxyRequest x) = Some (V_SwitchboardResponse_SdkProxyRequest x)"
| "value_of_SwitchboardResponse SwitchboardResponseInvalid = None"

primrec SwitchboardResponse_packValue :: "SwitchboardResponse_value \<Rightarrow> writer" where
  "SwitchboardResponse_packValue V_SwitchboardResponse_SwitchboardError = Pack_SwitchboardError ()"
| "SwitchboardResponse_packValue (V_SwitchboardResponse_AuthResponse x) = Pack_AuthResponse x"
| "SwitchboardResponse_packValue (V_SwitchboardResponse_JwtResponse x) = Pack_JwtResponse x"
| "SwitchboardResponse_packValue V_SwitchboardResponse_ExternalConnectionRequest = Pack_ExternalConnectionRequest ()"
| "SwitchboardResponse_packValue (V_SwitchboardResponse_ExternalConnectionResponse x) = Pack_ExternalConnectionResponse x"
| "SwitchboardResponse_packValue V_SwitchboardResponse_ClientGuidRefreshRequest = Pack_ClientGuidRefreshRequest ()"
| "SwitchboardResponse_packValue (V_SwitchboardResponse_SdkProxyRequest x) = Pack_SdkProxyRequest x"

primrec SwitchboardResponse_sizeValue :: "SwitchboardResponse_value \<Rightarrow> uint32" where
  "SwitchboardResponse_sizeValue V_SwitchboardResponse_SwitchboardError = Size_SwitchboardError ()"
| "SwitchboardResponse_sizeValue (V_SwitchboardResponse_AuthResponse x) = Size_AuthResponse x"
| "SwitchboardResponse_sizeValue (V_SwitchboardResponse_JwtResponse x) = Size_JwtResponse x"
| "SwitchboardResponse_sizeValue V_SwitchboardResponse_ExternalConnectionRequest = Size_ExternalConnectionRequest ()"
| "SwitchboardResponse_sizeValue (V_SwitchboardResponse_ExternalConnectionResponse x) = Size_ExternalConnectionResponse x"
| "SwitchboardResponse_sizeValue V_SwitchboardResponse_ClientGuidRefreshRequest = Size_ClientGuidRefreshRequest ()"
| "SwitchboardResponse_sizeValue (V_SwitchboardResponse_SdkProxyRequest x) = Size_SdkProxyRequest x"

definition SwitchboardResponse_unpackValue :: "byte \<Rightarrow> SwitchboardResponse_value reader" where
  "SwitchboardResponse_unpackValue tag =
     (if tag = 1 then bindM Unpack_SwitchboardError (\<lambda>x. returnM V_SwitchboardResponse_SwitchboardError)
      else if tag = 2 then bindM Unpack_AuthResponse (\<lambda>x. returnM (V_SwitchboardResponse_AuthResponse x))
      else if tag = 3 then bindM Unpack_JwtResponse (\<lambda>x. returnM (V_SwitchboardResponse_JwtResponse x))
      else if tag = 4 then bindM Unpack_ExternalConnectionRequest (\<lambda>x. returnM V_SwitchboardResponse_ExternalConnectionRequest)
      else if tag = 5 then bindM Unpack_ExternalConnectionResponse (\<lambda>x. returnM (V_SwitchboardResponse_ExternalConnectionResponse x))
      else if tag = 6 then bindM Unpack_ClientGuidRefreshRequest (\<lambda>x. returnM V_SwitchboardResponse_ClientGuidRefreshRequest)
      else if tag = 7 then bindM Unpack_SdkProxyRequest (\<lambda>x. returnM (V_SwitchboardResponse_SdkProxyRequest x))
      else failM (Errorf ''invalid tag to unpackStruct''))"

lemma con_SwitchboardResponse_iff: "con_SwitchboardResponse t v = Some a \<longleftrightarrow> Tag_SwitchboardResponse a = t \<and> value_of_SwitchboardResponse a = Some v"
proof
  show "con_SwitchboardResponse t v = Some a \<Longrightarrow> Tag_SwitchboardResponse a = t \<and> value_of_SwitchboardResponse a = Some v"
    by (cases v) (auto split: if_splits prod.splits)
  show "Tag_SwitchboardResponse a = t \<and> value_of_SwitchboardResponse a = Some v \<Longrightarrow> con_SwitchboardResponse t v = Some a"
    by (cases a) (auto)
qed

lemma unpackStruct_SwitchboardResponse_value: "unpackStruct_SwitchboardResponse tag =
    bindM (SwitchboardResponse_unpackValue tag) (\<lambda>v. case con_SwitchboardResponse tag v of None \<Rightarrow> panicM | Some a \<Rightarrow> returnM a)"
  by (simp add: unpackStruct_SwitchboardResponse_def SwitchboardResponse_unpackValue_def bind_if bindM_assoc cong: if_cong)

interpretation switchboardResponseUnion: tagged_union con_SwitchboardResponse SwitchboardResponseInvalid Tag_SwitchboardResponse value_of_SwitchboardResponse SwitchboardResponse_packValue SwitchboardResponse_sizeValue SwitchboardResponse_unpackValue
    Pack_SwitchboardResponse Unpack_SwitchboardResponse Size_SwitchboardResponse
proof unfold_locales
  fix a :: switchboard_response
  show "Tag_SwitchboardResponse a = 255 \<longleftrightarrow> a = SwitchboardResponseInvalid" "value_of_SwitchboardResponse a = None \<longleftrightarrow> a = SwitchboardResponseInvalid" by (cases a; simp)+
  show "Pack_SwitchboardResponse a = bindM (write_word (Tag_SwitchboardResponse a)) (\<lambda>_. case value_of_SwitchboardResponse a of None \<Rightarrow> returnM () | Some v \<Rightarrow> SwitchboardResponse_packValue v)"
    by (cases a) (simp_all add: Pack_SwitchboardResponse_def)
  show "Size_SwitchboardResponse a = (case value_of_SwitchboardResponse a of None \<Rightarrow> 1 | Some v \<Rightarrow> 1 + SwitchboardResponse_sizeValue v)" by (cases a) simp_all
  show "reader Unpack_SwitchboardResponse" by (rule reads)
qed (simp_all add: con_SwitchboardResponse_iff Unpack_SwitchboardResponse_def unpackStruct_SwitchboardResponse_value cong: if_cong)

abbreviation abs_SwitchboardResponse :: "SwitchboardResponse_value tagged \<Rightarrow> switchboard_response option" where
  "abs_SwitchboardResponse \<equiv> union_abs con_SwitchboardResponse SwitchboardResponseInvalid"

definition SwitchboardResponse_GetSwitchboardError :: "SwitchboardResponse_value tagged \<Rightarrow> unit option outcome" where
  "SwitchboardResponse_GetSwitchboardError = union_get 1 (\<lambda>v. case v of V_SwitchboardResponse_SwitchboardError \<Rightarrow> Some () | _ \<Rightarrow> None)"

definition SwitchboardResponse_SetSwitchboardError :: "unit \<Rightarrow> SwitchboardResponse_value tagged \<Rightarrow> SwitchboardResponse_value tagged" where
  "SwitchboardResponse_SetSwitchboardError x = union_set 1 V_SwitchboardResponse_SwitchboardError"

definition NewSwitchboardResponseWithSwitchboardError :: "unit \<Rightarrow> SwitchboardResponse_value tagged" where
  "NewSwitchboardResponseWithSwitchboardError x = union_new 1 V_SwitchboardResponse_SwitchboardError"

lemma SwitchboardResponse_SwitchboardError:
  "abs_SwitchboardResponse m = Some y \<Longrightarrow> Tag_SwitchboardResponse y \<noteq> 1 \<Longrightarrow> SwitchboardResponse_GetSwitchboardError m = Ret None"
  "abs_SwitchboardResponse m = Some SwitchboardResponseWithSwitchboardError \<Longrightarrow> SwitchboardResponse_GetSwitchboardError m = Ret (Some ())"
  "abs_SwitchboardResponse (SwitchboardResponse_SetSwitchboardError x m) = Some SwitchboardResponseWithSwitchboardError"
  "abs_SwitchboardResponse (NewSwitchboardResponseWithSwitchboardError x) = Some SwitchboardResponseWithSwitchboardError"
  unfolding SwitchboardResponse_GetSwitchboardError_def SwitchboardResponse_SetSwitchboardError_def NewSwitchboardResponseWithSwitchboardError_def
  by (rule switchboardResponseUnion.accessors [where v = "V_SwitchboardResponse_SwitchboardError" and x = "()"], (assumption | simp)+)+

definition SwitchboardResponse_GetAuthResponse :: "SwitchboardResponse_value tagged \<Rightarrow> auth_response option outcome" where
  "SwitchboardResponse_GetAuthResponse = union_get 2 (\<lambda>v. case v of V_SwitchboardResponse_AuthResponse x \<Rightarrow> Some x | _ \<Rightarrow> None)"

definition SwitchboardResponse_SetAuthResponse :: "auth_response \<Rightarrow> SwitchboardResponse_value tagged \<Rightarrow> SwitchboardResponse_value tagged" where
  "SwitchboardResponse_SetAuthResponse x = union_set 2 (V_SwitchboardResponse_AuthResponse x)"

definition NewSwitchboardResponseWithAuthResponse :: "auth_response \<Rightarrow> SwitchboardResponse_value tagged" where
  "NewSwitchboardResponseWithAuthResponse x = union_new 2 (V_SwitchboardResponse_AuthResponse x)"

lemma SwitchboardResponse_AuthResponse:
  "abs_SwitchboardResponse m = Some y \<Longrightarrow> Tag_SwitchboardResponse y \<noteq> 2 \<Longrightarrow> SwitchboardResponse_GetAuthResponse m = Ret None"
  "abs_SwitchboardResponse m = Some (SwitchboardResponseWithAuthResponse x) \<Longrightarrow> SwitchboardResponse_GetAuthResponse m = Ret (Some x)"
  "abs_SwitchboardResponse (SwitchboardResponse_SetAuthResponse x m) = Some (SwitchboardResponseWithAuthResponse x)"
  "abs_SwitchboardResponse (NewSwitchboardResponseWithAuthResponse x) = Some (SwitchboardResponseWithAuthResponse x)"
  unfolding SwitchboardResponse_GetAuthResponse_def SwitchboardResponse_SetAuthResponse_def NewSwitchboardResponseWithAuthResponse_def
  by (rule switchboardResponseUnion.accessors [where v = "V_SwitchboardResponse_AuthResponse x" and x = "x"], (assumption | simp)+)+

definition SwitchboardResponse_GetJwtResponse :: "SwitchboardResponse_value tagged \<Rightarrow> jwt_response option outcome" where
  "SwitchboardResponse_GetJwtResponse = union_get 3 (\<lambda>v. case v of V_SwitchboardResponse_JwtResponse x \<Rightarrow> Some x | _ \<Rightarrow> None)"

definition SwitchboardResponse_SetJwtResponse :: "jwt_response \<Rightarrow> SwitchboardResponse_value tagged \<Rightarrow> SwitchboardResponse_value tagged" where
  "SwitchboardResponse_SetJwtResponse x = union_set 3 (V_SwitchboardResponse_JwtResponse x)"

definition NewSwitchboardResponseWithJwtResponse :: "jwt_response \<Rightarrow> SwitchboardResponse_value tagged" where
  "NewSwitchboardResponseWithJwtResponse x = union_new 3 (V_SwitchboardResponse_JwtResponse x)"

lemma SwitchboardResponse_JwtResponse:
  "abs_SwitchboardResponse m = Some y \<Longrightarrow> Tag_SwitchboardResponse y \<noteq> 3 \<Longrightarrow> SwitchboardResponse_GetJwtResponse m = Ret None"
  "abs_SwitchboardResponse m = Some (SwitchboardResponseWithJwtResponse x) \<Longrightarrow> SwitchboardResponse_GetJwtResponse m = Ret (Some x)"
  "abs_SwitchboardResponse (SwitchboardResponse_SetJwtResponse x m) = Some (SwitchboardResponseWithJwtResponse x)"
  "abs_SwitchboardResponse (NewSwitchboardResponseWithJwtResponse x) = Some (SwitchboardResponseWithJwtResponse x)"
  unfolding SwitchboardResponse_GetJwtResponse_def SwitchboardResponse_SetJwtResponse_def NewSwitchboardResponseWithJwtResponse_def
  by (rule switchboardResponseUnion.accessors [where v = "V_SwitchboardResponse_JwtResponse x" and x = "x"], (assumption | simp)+)+

definition SwitchboardResponse_GetExternalConnectionRequest :: "SwitchboardResponse_value tagged \<Rightarrow> unit option outcome" where
  "SwitchboardResponse_GetExternalConnectionRequest = union_get 4 (\<lambda>v. case v of V_SwitchboardResponse_ExternalConnectionRequest \<Rightarrow> Some () | _ \<Rightarrow> None)"

definition SwitchboardResponse_SetExternalConnectionRequest :: "unit \<Rightarrow> SwitchboardResponse_value tagged \<Rightarrow> SwitchboardResponse_value tagged" where
  "SwitchboardResponse_SetExternalConnectionRequest x = union_set 4 V_SwitchboardResponse_ExternalConnectionRequest"

definition NewSwitchboardResponseWithExternalConnectionRequest :: "unit \<Rightarrow> SwitchboardResponse_value tagged" where
  "NewSwitchboardResponseWithExternalConnectionRequest x = union_new 4 V_SwitchboardResponse_ExternalConnectionRequest"

lemma SwitchboardResponse_ExternalConnectionRequest:
  "abs_SwitchboardResponse m = Some y \<Longrightarrow> Tag_SwitchboardResponse y \<noteq> 4 \<Longrightarrow> SwitchboardResponse_GetExternalConnectionRequest m = Ret None"
  "abs_SwitchboardResponse m = Some SwitchboardResponseWithExternalConnectionRequest \<Longrightarrow> SwitchboardResponse_GetExternalConnectionRequest m = Ret (Some ())"
  "abs_SwitchboardResponse (SwitchboardResponse_SetExternalConnectionRequest x m) = Some SwitchboardResponseWithExternalConnectionRequest"
  "abs_SwitchboardResponse (NewSwitchboardResponseWithExternalConnectionRequest x) = Some SwitchboardResponseWithExternalConnectionRequest"
  unfolding SwitchboardResponse_GetExternalConnectionRequest_def SwitchboardResponse_SetExternalConnectionRequest_def NewSwitchboardResponseWithExternalConnectionRequest_def
  by (rule switchboardResponseUnion.accessors [where v = "V_SwitchboardResponse_ExternalConnectionRequest" and x = "()"], (assumption | simp)+)+

definition SwitchboardResponse_GetExternalConnectionResponse :: "SwitchboardResponse_value tagged \<Rightarrow> external_connection_response option outcome" where
  "SwitchboardResponse_GetExternalConnectionResponse = union_get 5 (\<lambda>v. case v of V_SwitchboardResponse_ExternalConnectionResponse x \<Rightarrow> Some x | _ \<Rightarrow> None)"

definition SwitchboardResponse_SetExternalConnectionResponse :: "external_connection_response \<Rightarrow> SwitchboardResponse_value tagged \<Rightarrow> SwitchboardResponse_value tagged" where
  "SwitchboardResponse_SetExternalConnectionResponse x = union_set 5 (V_SwitchboardResponse_ExternalConnectionResponse x)"

definition NewSwitchboardResponseWithExternalConnectionResponse :: "external_connection_response \<Rightarrow> SwitchboardResponse_value tagged" where
  "NewSwitchboardResponseWithExternalConnectionResponse x = union_new 5 (V_SwitchboardResponse_ExternalConnectionResponse x)"

lemma SwitchboardResponse_ExternalConnectionResponse:
  "abs_SwitchboardResponse m = Some y \<Longrightarrow> Tag_SwitchboardResponse y \<noteq> 5 \<Longrightarrow> SwitchboardResponse_GetExternalConnectionResponse m = Ret None"
  "abs_SwitchboardResponse m = Some (SwitchboardResponseWithExternalConnectionResponse x) \<Longrightarrow> SwitchboardResponse_GetExternalConnectionResponse m = Ret (Some x)"
  "abs_SwitchboardResponse (SwitchboardResponse_SetExternalConnectionResponse x m) = Some (SwitchboardResponseWithExternalConnectionResponse x)"
  "abs_SwitchboardResponse (NewSwitchboardResponseWithExternalConnectionResponse x) = Some (SwitchboardResponseWithExternalConnectionResponse x)"
  unfolding SwitchboardResponse_GetExternalConnectionResponse_def SwitchboardResponse_SetExternalConnectionResponse_def NewSwitchboardResponseWithExternalConnectionResponse_def
  by (rule switchboardResponseUnion.accessors [where v = "V_SwitchboardResponse_ExternalConnectionResponse x" and x = "x"], (assumption | simp)+)+

definition SwitchboardResponse_GetClientGuidRefreshRequest :: "SwitchboardResponse_value tagged \<Rightarrow> unit option outcome" where
  "SwitchboardResponse_GetClientGuidRefreshRequest = union_get 6 (\<lambda>v. case v of V_SwitchboardResponse_ClientGuidRefreshRequest \<Rightarrow> Some () | _ \<Rightarrow> None)"

definition SwitchboardResponse_SetClientGuidRefreshRequest :: "unit \<Rightarrow> SwitchboardResponse_value tagged \<Rightarrow> SwitchboardResponse_value tagged" where
  "SwitchboardResponse_SetClientGuidRefreshRequest x = union_set 6 V_SwitchboardResponse_ClientGuidRefreshRequest"

definition NewSwitchboardResponseWithClientGuidRefreshRequest :: "unit \<Rightarrow> SwitchboardResponse_value tagged" where
  "NewSwitchboardResponseWithClientGuidRefreshRequest x = union_new 6 V_SwitchboardResponse_ClientGuidRefreshRequest"

lemma SwitchboardResponse_ClientGuidRefreshRequest:
  "abs_SwitchboardResponse m = Some y \<Longrightarrow> Tag_SwitchboardResponse y \<noteq> 6 \<Longrightarrow> SwitchboardResponse_GetClientGuidRefreshRequest m = Ret None"
  "abs_SwitchboardResponse m = Some SwitchboardResponseWithClientGuidRefreshRequest \<Longrightarrow> SwitchboardResponse_GetClientGuidRefreshRequest m = Ret (Some ())"
  "abs_SwitchboardResponse (SwitchboardResponse_SetClientGuidRefreshRequest x m) = Some SwitchboardResponseWithClientGuidRefreshRequest"
  "abs_SwitchboardResponse (NewSwitchboardResponseWithClientGuidRefreshRequest x) = Some SwitchboardResponseWithClientGuidRefreshRequest"
  unfolding SwitchboardResponse_GetClientGuidRefreshRequest_def SwitchboardResponse_SetClientGuidRefreshRequest_def NewSwitchboardResponseWithClientGuidRefreshRequest_def
  by (rule switchboardResponseUnion.accessors [where v = "V_SwitchboardResponse_ClientGuidRefreshRequest" and x = "()"], (assumption | simp)+)+

definition SwitchboardResponse_GetSdkProxyRequest :: "SwitchboardResponse_value tagged \<Rightarrow> sdk_proxy_request option outcome" where
  "SwitchboardResponse_GetSdkProxyRequest = union_get 7 (\<lambda>v. case v of V_SwitchboardResponse_SdkProxyRequest x \<Rightarrow> Some x | _ \<Rightarrow> None)"

definition SwitchboardResponse_SetSdkProxyRequest :: "sdk_proxy_request \<Rightarrow> SwitchboardResponse_value tagged \<Rightarrow> SwitchboardResponse_value tagged" where
  "SwitchboardResponse_SetSdkProxyRequest x = union_set 7 (V_SwitchboardResponse_SdkProxyRequest x)"

definition NewSwitchboardResponseWithSdkProxyRequest :: "sdk_proxy_request \<Rightarrow> SwitchboardResponse_value tagged" where
  "NewSwitchboardResponseWithSdkProxyRequest x = union_new 7 (V_SwitchboardResponse_SdkProxyRequest x)"

lemma SwitchboardResponse_SdkProxyRequest:
  "abs_SwitchboardResponse m = Some y \<Longrightarrow> Tag_SwitchboardResponse y \<noteq> 7 \<Longrightarrow> SwitchboardResponse_GetSdkProxyRequest m = Ret None"
  "abs_SwitchboardResponse m = Some (SwitchboardResponseWithSdkProxyRequest x) \<Longrightarrow> SwitchboardResponse_GetSdkProxyRequest m = Ret (Some x)"
  "abs_SwitchboardResponse (SwitchboardResponse_SetSdkProxyRequest x m) = Some (SwitchboardResponseWithSdkProxyRequest x)"
  "abs_SwitchboardResponse (NewSwitchboardResponseWithSdkProxyRequest x) = Some (SwitchboardResponseWithSdkProxyRequest x)"
  unfolding SwitchboardResponse_GetSdkProxyRequest_def SwitchboardResponse_SetSdkProxyRequest_def NewSwitchboardResponseWithSdkProxyRequest_def
  by (rule switchboardResponseUnion.accessors [where v = "V_SwitchboardResponse_SdkProxyRequest x" and x = "x"], (assumption | simp)+)+

definition panics_SwitchboardResponse :: "SwitchboardResponse_value tagged \<Rightarrow> bool" where
  "panics_SwitchboardResponse m \<longleftrightarrow> SwitchboardResponse_GetSwitchboardError m = Panic \<or>
     SwitchboardResponse_GetAuthResponse m = Panic \<or>
     SwitchboardResponse_GetJwtResponse m = Panic \<or>
     SwitchboardResponse_GetExternalConnectionRequest m = Panic \<or>
     SwitchboardResponse_GetExternalConnectionResponse m = Panic \<or>
     SwitchboardResponse_GetClientGuidRefreshRequest m = Panic \<or>
     SwitchboardResponse_GetSdkProxyRequest m = Panic"

lemma getters_SwitchboardResponse: "getters_safe con_SwitchboardResponse SwitchboardResponse_unpackValue panics_SwitchboardResponse"
  unfolding getters_safe_def panics_SwitchboardResponse_def de_Morgan_disj SwitchboardResponse_GetSwitchboardError_def SwitchboardResponse_GetAuthResponse_def SwitchboardResponse_GetJwtResponse_def SwitchboardResponse_GetExternalConnectionRequest_def
    SwitchboardResponse_GetExternalConnectionResponse_def SwitchboardResponse_GetClientGuidRefreshRequest_def SwitchboardResponse_GetSdkProxyRequest_def
  by (intro allI impI conjI; rule switchboardResponseUnion.get_no_panic, assumption, simp, case_tac v; simp)

end
