(* ===== verification/Offboard_Vision.thy ===== *)
theory Offboard_Vision
  imports Service_Loop "HOL-Library.Sublist"
begin

text \<open>
  The service that has images analysed elsewhere, \<open>internal/offboard_vision\<close>, which every build but the
  shipping one runs: the server over a connection (\<open>client_dev.go\<close>), and the page through which a developer
  asks it (\<open>handlers_dev.go\<close>). Errors that happen side by side are put together by \<open>internal/util/multierror.go\<close>.

  Parameters are the files, \<open>url.Parse\<close> and \<open>path.Join\<close>; what a dial, a download, the remote call and the
  generator of identifiers give are outcomes.
\<close>

section \<open>Several errors as one\<close>

datatype error_value = Plain string | Multi "error_value list"

definition Append :: "error_value option \<Rightarrow> error_value list \<Rightarrow> error_value list" where
  "Append err es = (case err of None \<Rightarrow> es | Some e \<Rightarrow> es @ [e])"

fun AppendMulti :: "error_value option list \<Rightarrow> error_value list \<Rightarrow> error_value list" where
  "AppendMulti [] es = es"
| "AppendMulti (err # errs) es = AppendMulti errs (case err of None \<Rightarrow> es | Some e \<Rightarrow> es @ [e])"

definition NewErrors :: "error_value option list \<Rightarrow> error_value list" where
  "NewErrors errs = AppendMulti errs []"

definition Errors_Error :: "error_value list \<Rightarrow> error_value option" where
  "Errors_Error es = (case es of [] \<Rightarrow> None | [e] \<Rightarrow> Some e | _ \<Rightarrow> Some (Multi es))"

text \<open>\<open>strings.Join\<close>, and the text of an error.\<close>

fun strings_Join :: "string list \<Rightarrow> string \<Rightarrow> string" where
  "strings_Join [] sep = []"
| "strings_Join [s] sep = s"
| "strings_Join (s # ss) sep = s @ sep @ strings_Join ss sep"

fun multierror_Error :: "error_value \<Rightarrow> string" where
  "multierror_Error (Plain s) = s"
| "multierror_Error (Multi es) = (case map multierror_Error es of
      [] \<Rightarrow> []
    | [s] \<Rightarrow> s
    | strs \<Rightarrow> ''[{'' @ strings_Join strs ''}, {'' @ ''}]'')"

lemma AppendMulti_values: "AppendMulti errs es = es @ List.map_filter (\<lambda>x. x) errs"
  by (induction errs arbitrary: es) (auto simp: List.map_filter_def split: option.split)

lemma no_error_iff: "Errors_Error (NewErrors errs) = None \<longleftrightarrow> set errs \<subseteq> {None}"
proof -
  have "List.map_filter (\<lambda>x. x) errs = [] \<longleftrightarrow> set errs \<subseteq> {None}"
    by (induction errs) (auto simp: List.map_filter_simps split: option.split)
  moreover have "Errors_Error es = None \<longleftrightarrow> es = []" for es by (auto simp: Errors_Error_def split: list.splits)
  ultimately show ?thesis by (simp add: NewErrors_def AppendMulti_values)
qed

section \<open>The service\<close>

text \<open>\<open>ImageRequest\<close>; the name of the group stands for the configuration.\<close>

record image_request =
  ir_Session :: string
  ir_DeviceId :: string
  ir_Lang :: string
  ir_ImageData :: "byte list"
  ir_TimestampMs :: uint32
  ir_Modes :: "string list"
  ir_GroupName :: string

text \<open>A dial waits until there is a connection, without a limit.\<close>

datatype dial = Dialled | DialFails string | DialHangs

datatype download = BadRequest string | NoResponse string | BodyFails string | Downloaded "byte list"

text \<open>
  The address from the configuration, which may be missing, and outcomes: dials, downloads, new
  identifiers, answers with their raw text and time. Then what the service did: the requests it sent, the addresses it
  downloaded from, with whether it used its own certificates, and the connections that are open.
\<close>

record vision_world =
  vw_url :: "string option"
  vw_dials :: "dial list"
  vw_downloads :: "download list"
  vw_uuids :: "string list"
  vw_answers :: "((string \<times> uint32) + string) list"
  vw_asked :: "(string \<times> image_request) list"
  vw_gets :: "(string \<times> bool) list"
  vw_open :: nat

record vision_env =
  ve_disk :: "string \<Rightarrow> byte list + string"
  ve_Parse :: "string \<Rightarrow> (string \<times> string) option"   \<comment> \<open>the scheme, and the address as text\<close>
  ve_deviceID :: string

text \<open>The result, and whether the name was an address at all.\<close>

definition fetchURLData :: "vision_env \<Rightarrow> string \<Rightarrow> vision_world \<Rightarrow> ((byte list + string) \<times> bool) \<times> vision_world" where
  "fetchURLData E path w = (case ve_Parse E path of
      None \<Rightarrow> ((Inl [], False), w)
    | Some (scheme, text) \<Rightarrow>
        if scheme \<noteq> ''http'' \<and> scheme \<noteq> ''https'' then ((Inl [], False), w)
        else let w1 = w\<lparr>vw_downloads := tl (vw_downloads w)\<rparr>;
                 w2 = w1\<lparr>vw_gets := vw_gets w @ [(text, scheme = ''https'')]\<rparr>
             in (case vw_downloads w of
                  [] \<Rightarrow> ((Inr ''no response'', True), w2)
                | BadRequest e # _ \<Rightarrow> ((Inr e, True), w1)
                | NoResponse e # _ \<Rightarrow> ((Inr e, True), w2)
                | BodyFails e # _ \<Rightarrow> ((Inr e, True), w2)
                | Downloaded buf # _ \<Rightarrow> ((Inl buf, True), w2)))"

definition read_image :: "vision_env \<Rightarrow> string \<Rightarrow> vision_world \<Rightarrow> (byte list + string) \<times> vision_world" where
  "read_image E name w = (case fetchURLData E name w of
      ((r, True), w') \<Rightarrow> (r, w')
    | ((_, False), w') \<Rightarrow> (ve_disk E name, w'))"

text \<open>The goroutine that dials, up to the point where it is waited for; a missing address is a nil pointer.\<close>

definition vision_dial :: "(vision_world, string + string) go" where
  "vision_dial w = (case vw_url w of
      None \<Rightarrow> (Crash, w)
    | Some url \<Rightarrow> (case vw_dials w of
          Dialled # ds \<Rightarrow> (Ret (Inl url), w\<lparr>vw_dials := ds, vw_open := vw_open w + 1\<rparr>)
        | DialFails e # ds \<Rightarrow> (Ret (Inr e), w\<lparr>vw_dials := ds\<rparr>)
        | DialHangs # ds \<Rightarrow> (Blocked, w\<lparr>vw_dials := ds\<rparr>)
        | [] \<Rightarrow> (Ret (Inr ''no connection''), w)))"

definition rpcClose :: "string + string \<Rightarrow> (vision_world, unit) go" where
  "rpcClose d w = (case d of Inl _ \<Rightarrow> (Ret (), w\<lparr>vw_open := vw_open w - 1\<rparr>) | Inr _ \<Rightarrow> (Ret (), w))"

definition image_request_for :: "vision_env \<Rightarrow> string \<Rightarrow> offboard_image_ready \<Rightarrow> byte list \<Rightarrow> image_request" where
  "image_request_for E uuid msg fileData = \<lparr>ir_Session = take 16 uuid, ir_DeviceId = ve_deviceID E, ir_Lang = ''en'',
     ir_ImageData = fileData, ir_TimestampMs = OffboardImageReady_Timestamp msg, ir_Modes = [''people'', ''faces''],
     ir_GroupName = ''offboard_vision''\<rparr>"

definition AnalyzeImage :: "vision_env \<Rightarrow> string \<Rightarrow> offboard_image_ready \<Rightarrow> byte list \<Rightarrow> (vision_world, offboard_result_ready + string) go" where
  "AnalyzeImage E url msg fileData w =
     (let uuid = (case vw_uuids w of [] \<Rightarrow> [] | u # _ \<Rightarrow> u);
          w' = w\<lparr>vw_uuids := tl (vw_uuids w), vw_answers := tl (vw_answers w),
            vw_asked := vw_asked w @ [(url, image_request_for E uuid msg fileData)]\<rparr>
      in (case vw_answers w of
            Inl (raw, time) # _ \<Rightarrow> (Ret (Inl \<lparr>OffboardResultReady_Timestamp = time, OffboardResultReady_JsonResult = raw\<rparr>), w')
          | Inr e # _ \<Rightarrow> (Ret (Inr e), w')
          | [] \<Rightarrow> (Ret (Inr ''no answer''), w')))"

definition vision_handleRequest :: "vision_env \<Rightarrow> offboard_image_ready \<Rightarrow> (vision_world, offboard_result_ready + string) go" where
  "vision_handleRequest E msg =
     bindM vision_dial (\<lambda>rpc. bindM (\<lambda>w. case read_image E (OffboardImageReady_Filename msg) w of (r, w') \<Rightarrow> (Ret r, w')) (\<lambda>file.
       deferM (rpcClose rpc) (
         let rpcErr = (case rpc of Inl _ \<Rightarrow> None | Inr e \<Rightarrow> Some (Plain e));
             fileErr = (case file of Inl _ \<Rightarrow> None | Inr e \<Rightarrow> Some (Plain e))
         in case (Errors_Error (NewErrors [rpcErr, fileErr]), rpc, file) of
              (None, Inl url, Inl fileData) \<Rightarrow> AnalyzeImage E url msg fileData
            | (Some e, _, _) \<Rightarrow> returnM (Inr (multierror_Error e))
            | _ \<Rightarrow> returnM (Inr []))))"

text \<open>An error is only logged, and a result that cannot be packed is dropped.\<close>

definition vision_handle :: "vision_env \<Rightarrow> offboard_image_ready \<Rightarrow> (vision_world, offboard_result_ready option) go" where
  "vision_handle E msg = bindM (vision_handleRequest E msg) (\<lambda>r. returnM (case r of Inl resp \<Rightarrow> Some resp | Inr _ \<Rightarrow> None))"

fun vision_handleConn :: "vision_env \<Rightarrow> byte list option list \<Rightarrow> (vision_world \<times> conn, unit) go" where
  "vision_handleConn E [] s = (Ret (), s)"
| "vision_handleConn E (None # bs) s = (Ret (), s)"
| "vision_handleConn E (Some b # bs) (w, c) =
     (if b = [] then (Ret (), (w, c))
      else case Unpack_OffboardImageReady b of
          (Ret msg, _) \<Rightarrow> (case vision_handle E msg w of
              (Ret resp, w') \<Rightarrow> vision_handleConn E bs (w', respond Pack_OffboardResultReady resp c)
            | (Blocked, w') \<Rightarrow> (Blocked, (w', c))
            | (_, w') \<Rightarrow> (Crash, (w', c)))
        | (Fail e, _) \<Rightarrow> vision_handleConn E bs (w, c)
        | _ \<Rightarrow> (Crash, (w, c)))"

interpretation visionServer: request_server Pack_OffboardResultReady Unpack_OffboardResultReady fits_OffboardResultReady
    Size_OffboardResultReady 65541 Unpack_OffboardImageReady "vision_handle E" "vision_handleConn E"
    for E
  by unfold_locales (auto simp: reader_OffboardImageReady)

section \<open>What the service does with a request\<close>

text \<open>A request in the order of its steps, when the dial ends.\<close>

definition can_end :: "vision_world \<Rightarrow> bool" where
  "can_end w \<longleftrightarrow> vw_url w \<noteq> None \<and> DialHangs \<notin> set (vw_dials w)"

definition dialled :: "vision_world \<Rightarrow> bool" where
  "dialled w \<longleftrightarrow> (case vw_dials w of Dialled # _ \<Rightarrow> True | _ \<Rightarrow> False)"

text \<open>What an answer of the remote service becomes.\<close>

definition result_of :: "(string \<times> uint32) + string \<Rightarrow> offboard_result_ready list" where
  "result_of a = (case a of Inl (raw, time) \<Rightarrow> [\<lparr>OffboardResultReady_Timestamp = time, OffboardResultReady_JsonResult = raw\<rparr>] | Inr _ \<Rightarrow> [])"

lemma handled:
  assumes "can_end w"
    and f: "read_image E (OffboardImageReady_Filename msg) (w\<lparr>vw_dials := tl (vw_dials w), vw_open := vw_open w + (if dialled w then 1 else 0)\<rparr>) = (file, w1)"
  shows "\<exists>r w'. vision_handle E msg w = (Ret r, w') \<and> can_end w' \<and> vw_open w' = vw_open w \<and> vw_dials w' = tl (vw_dials w) \<and> vw_url w' = vw_url w \<and>
    (if dialled w \<and> (\<exists>buf. file = Inl buf)
     then vw_asked w' = vw_asked w @ [(the (vw_url w), image_request_for E (case vw_uuids w of [] \<Rightarrow> [] | u # _ \<Rightarrow> u) msg (projl file))] \<and>
       vw_answers w' = tl (vw_answers w) \<and> vw_uuids w' = tl (vw_uuids w) \<and>
       (case r of None \<Rightarrow> [] | Some m \<Rightarrow> [m]) = (case vw_answers w of [] \<Rightarrow> [] | a # _ \<Rightarrow> result_of a)
     else r = None \<and> vw_asked w' = vw_asked w \<and> vw_answers w' = vw_answers w \<and> vw_uuids w' = vw_uuids w)"
proof -
  let ?v = "w\<lparr>vw_dials := tl (vw_dials w), vw_open := vw_open w + (if dialled w then 1 else 0)\<rparr>"
  have w1: "vw_open w1 = vw_open ?v" "vw_dials w1 = vw_dials ?v" "vw_url w1 = vw_url ?v"
      "vw_asked w1 = vw_asked ?v" "vw_answers w1 = vw_answers ?v" "vw_uuids w1 = vw_uuids ?v"
    using f by (auto simp: read_image_def fetchURLData_def Let_def split: option.splits prod.splits if_splits list.splits
        download.splits)
  have d: "vision_dial w = (Ret (if dialled w then Inl (the (vw_url w)) else Inr (case vw_dials w of DialFails e # _ \<Rightarrow> e | _ \<Rightarrow> ''no connection'')), ?v)"
    using assms(1) by (auto simp: vision_dial_def can_end_def dialled_def split: list.splits dial.splits)
  have c: "can_end w1" using assms(1) w1(2,3) by (cases "vw_dials w") (auto simp: can_end_def)
  show ?thesis
  proof (cases "dialled w")
    case True
    with d f w1 c show ?thesis
      by (auto simp: vision_handle_def vision_handleRequest_def bindM_def deferM_def rpcClose_def result_of_def can_end_def
          NewErrors_def Errors_Error_def AnalyzeImage_def returnM_def Let_def split: list.splits sum.splits)
  next
    case False
    with d f w1 c show ?thesis
      by (auto simp: vision_handle_def vision_handleRequest_def bindM_def deferM_def rpcClose_def
          NewErrors_def Errors_Error_def returnM_def Let_def split: sum.splits)
  qed
qed

lemma handles: 
  assumes "can_end w"
  shows "\<exists>r w'. vision_handle E msg w = (Ret r, w') \<and> can_end w' \<and> vw_open w' = vw_open w \<and>
    (\<exists>as. vw_answers w = as @ vw_answers w' \<and> subseq (case r of None \<Rightarrow> [] | Some m \<Rightarrow> [m]) (concat (map result_of as)))"
proof -
  obtain r1 w1 where "read_image E (OffboardImageReady_Filename msg) (w\<lparr>vw_dials := tl (vw_dials w),
      vw_open := vw_open w + (if dialled w then 1 else 0)\<rparr>) = (r1, w1)" by (rule prod.exhaust)
  from handled [OF assms this] obtain r w' where r: "vision_handle E msg w = (Ret r, w')" "can_end w'" "vw_open w' = vw_open w"
      "(vw_answers w' = tl (vw_answers w) \<and> (case r of None \<Rightarrow> [] | Some m \<Rightarrow> [m]) = (case vw_answers w of [] \<Rightarrow> [] | a # _ \<Rightarrow> result_of a)) \<or>
       (vw_answers w' = vw_answers w \<and> r = None)"
    by (auto split: if_splits)
  then show ?thesis
    by (cases "vw_answers w") (auto intro: exI [of _ "[]"] exI [of _ "[hd (vw_answers w)]"])
qed

text \<open>The responses are answers of the remote service, in order, and every connection to it is closed.\<close>

lemma run_general:
  "can_end w \<Longrightarrow> vw_open (state_after (vision_handle E) qs w) = vw_open w \<and>
    subseq (responses (vision_handle E) qs w) (concat (map result_of (vw_answers w)))"
proof (induction qs arbitrary: w)
  case (Cons q qs)
  from handles [OF Cons.prems, of E q] obtain r w' us where r: "vision_handle E q w = (Ret r, w')" "can_end w'" "vw_open w' = vw_open w"
      "vw_answers w = us @ vw_answers w'" "subseq (case r of None \<Rightarrow> [] | Some m \<Rightarrow> [m]) (concat (map result_of us))"
    by blast
  from Cons.IH [OF r(2)] r(1,3,4) list_emb_append_mono [OF r(5)] show ?case by simp
qed simp

text \<open>When every dial succeeds and every file can be read, each request reaches the remote service, with its image.\<close>

definition is_address :: "vision_env \<Rightarrow> string \<Rightarrow> bool" where
  "is_address E name \<longleftrightarrow> (case ve_Parse E name of None \<Rightarrow> False | Some (scheme, _) \<Rightarrow> scheme = ''http'' \<or> scheme = ''https'')"

definition all_served :: "vision_env \<Rightarrow> offboard_image_ready list \<Rightarrow> byte list list \<Rightarrow> vision_world \<Rightarrow> bool" where
  "all_served E qs images w \<longleftrightarrow> take (length qs) (vw_dials w) = replicate (length qs) Dialled \<and>
     list_all (\<lambda>q. \<not> is_address E (OffboardImageReady_Filename q)) qs \<and>
     map (\<lambda>q. ve_disk E (OffboardImageReady_Filename q)) qs = map Inl images \<and>
     length qs \<le> length (vw_answers w) \<and> length qs \<le> length (vw_uuids w)"

lemma disk_read: "\<not> is_address E name \<Longrightarrow> read_image E name w = (ve_disk E name, w)"
  by (auto simp: is_address_def read_image_def fetchURLData_def split: option.splits)

lemma served_one:
  assumes "can_end w" "all_served E (q # qs) images w"
  shows "\<exists>buf bufs a u r w'. images = buf # bufs \<and> vw_answers w = a # vw_answers w' \<and> vw_uuids w = u # vw_uuids w' \<and>
    vision_handle E q w = (Ret r, w') \<and> (case r of None \<Rightarrow> [] | Some m \<Rightarrow> [m]) = result_of a \<and> can_end w' \<and>
    vw_url w' = vw_url w \<and> all_served E qs bufs w' \<and> vw_asked w' = vw_asked w @ [(the (vw_url w), image_request_for E u q buf)]"
proof -
  from assms(2) obtain buf bufs a us u vs where i: "images = buf # bufs" "vw_answers w = a # us" "vw_uuids w = u # vs"
    by (cases images; cases "vw_answers w"; cases "vw_uuids w") (auto simp: all_served_def)
  from assms(2) have d: "dialled w" "take (length qs) (tl (vw_dials w)) = replicate (length qs) Dialled"
    by (cases "vw_dials w"; auto simp: all_served_def dialled_def)+
  from assms(2) i have f: "\<not> is_address E (OffboardImageReady_Filename q)" "ve_disk E (OffboardImageReady_Filename q) = Inl buf"
    by (simp_all add: all_served_def)
  show ?thesis
    using handled [OF assms(1) disk_read [OF f(1)]] assms(2) i d f(2) by (fastforce simp: all_served_def)
qed

lemma run_served:
  "can_end w \<Longrightarrow> all_served E qs images w \<Longrightarrow>
   responses (vision_handle E) qs w = concat (map result_of (take (length qs) (vw_answers w))) \<and>
   vw_asked (state_after (vision_handle E) qs w) = vw_asked w @
     map (\<lambda>(q, u, buf). (the (vw_url w), image_request_for E u q buf)) (zip qs (zip (vw_uuids w) images))"
proof (induction qs arbitrary: images w)
  case (Cons q qs)
  from served_one [OF Cons.prems] obtain buf bufs a u r w' where r: "images = buf # bufs" "vw_answers w = a # vw_answers w'"
      "vw_uuids w = u # vw_uuids w'" "vision_handle E q w = (Ret r, w')" "(case r of None \<Rightarrow> [] | Some m \<Rightarrow> [m]) = result_of a"
      "can_end w'" "vw_url w' = vw_url w" "all_served E qs bufs w'"
      "vw_asked w' = vw_asked w @ [(the (vw_url w), image_request_for E u q buf)]"
    by blast
  from Cons.IH [OF r(6,8)] r show ?case by simp
qed simp

text \<open>A configuration without an address ends the process, and a dial may hang for ever.\<close>

lemma no_address_crashes: "vw_url w = None \<Longrightarrow> vision_handle E q w = (Crash, w)"
  by (simp add: vision_handle_def vision_handleRequest_def vision_dial_def bindM_def)

lemma dial_hangs: "vw_url w = Some url \<Longrightarrow> vw_dials w = DialHangs # ds \<Longrightarrow> vision_handle E q w = (Blocked, w\<lparr>vw_dials := ds\<rparr>)"
  by (simp add: vision_handle_def vision_handleRequest_def vision_dial_def bindM_def)

section \<open>The page of the developers\<close>

record page_env =
  pe_Join :: "string \<Rightarrow> string \<Rightarrow> string"
  pe_PathUnescape :: "string \<Rightarrow> string option"
  pe_Scheme :: "string \<Rightarrow> string option"    \<comment> \<open>of the parsed address\<close>
  pe_missing :: "string \<Rightarrow> bool"
  pe_Indent :: "string \<Rightarrow> string"

record page =
  pg_status :: nat
  pg_body :: string

text \<open>Whether the page has a connection, what the next attempts to make one give, and the rest of the world.\<close>

record 's page_state =
  ps_client :: bool
  ps_connects :: "string option list"
  ps_rest :: 's

definition imageDir :: string where
  "imageDir = ''/anki/data/assets/cozmo_resources/webserver/cloud/offboard_vision/images''"

definition cacheDir :: string where
  "cacheDir = ''/data/data/com.anki.victor/cache/offboard_vision''"

definition page_file :: "page_env \<Rightarrow> string \<Rightarrow> string option" where
  "page_file E reqFile =
     (let local_file = (let f = pe_Join E imageDir reqFile in if \<not> pe_missing E f then Some f
            else let f = pe_Join E cacheDir reqFile in if pe_missing E f then None else Some f)
      in case pe_PathUnescape E reqFile of None \<Rightarrow> local_file
         | Some escapedFile \<Rightarrow> (case pe_Scheme E escapedFile of
               None \<Rightarrow> local_file
             | Some scheme \<Rightarrow> if scheme \<noteq> [] then Some escapedFile else local_file))"

definition page_message :: "string \<Rightarrow> string \<Rightarrow> offboard_image_ready" where
  "page_message name type = \<lparr>OffboardImageReady_Timestamp = 0, OffboardImageReady_NumRows = 0, OffboardImageReady_NumCols = 0,
     OffboardImageReady_NumChannels = 0, OffboardImageReady_IsCompressed = False, OffboardImageReady_IsEncrypted = False,
     OffboardImageReady_ProcTypes = [type], OffboardImageReady_Filename = name\<rparr>"

definition vision_error_text :: "go_error \<Rightarrow> string" where
  "vision_error_text e = (case e of Errorf s \<Rightarrow> s | _ \<Rightarrow> [])"

definition page_connect :: "('s page_state, string option) go" where
  "page_connect st = (if ps_client st then (Ret None, st) else case ps_connects st of
      Some e # cs \<Rightarrow> (Ret (Some e), st\<lparr>ps_connects := cs\<rparr>)
    | cs \<Rightarrow> (Ret None, st\<lparr>ps_connects := tl cs, ps_client := True\<rparr>))"

definition page_rest :: "('s, 'a) go \<Rightarrow> ('s page_state, 'a) go" where
  "page_rest m st = (case m (ps_rest st) of (r, s) \<Rightarrow> (r, st\<lparr>ps_rest := s\<rparr>))"

text \<open>\<open>reqHandler\<close>, over the writing to the connection (an error or not) and the waiting for a message.\<close>

definition reqHandler ::
  "page_env \<Rightarrow> (byte list \<Rightarrow> ('s, string option) go) \<Rightarrow> ('s, byte list option) go \<Rightarrow> string \<Rightarrow> string \<Rightarrow> ('s page_state, page) go" where
  "reqHandler E send receive reqFile reqType =
     bindM page_connect (\<lambda>err. case err of
       Some e \<Rightarrow> returnM \<lparr>pg_status = 500, pg_body = ''Error connecting to server: '' @ e\<rparr>
     | None \<Rightarrow>
       if reqFile = [] then returnM \<lparr>pg_status = 400, pg_body = ''Request must include file=[filename]''\<rparr>
       else case page_file E reqFile of
           None \<Rightarrow> returnM \<lparr>pg_status = 400, pg_body = ''File does not exist: '' @ reqFile\<rparr>
         | Some name \<Rightarrow> (case Pack_OffboardImageReady (page_message name reqType) [] of
               (Ret _, buf) \<Rightarrow> bindM (page_rest (send buf)) (\<lambda>err. case err of
                   Some e \<Rightarrow> returnM \<lparr>pg_status = 500, pg_body = ''Error sending message: '' @ e\<rparr>
                 | None \<Rightarrow> bindM (page_rest receive) (\<lambda>respBuf.
                     case Unpack_OffboardResultReady (case respBuf of None \<Rightarrow> [] | Some b \<Rightarrow> b) of
                       (Ret resp, _) \<Rightarrow> returnM \<lparr>pg_status = 200, pg_body = ''image: '' @ name @ [CHR 0x0A, CHR 0x0A]
                           @ pe_Indent E (OffboardResultReady_JsonResult resp)\<rparr>
                     | (Fail e, _) \<Rightarrow> returnM \<lparr>pg_status = 500, pg_body = ''Error unpacking response: '' @ vision_error_text e\<rparr>
                     | _ \<Rightarrow> panicM))
             | (Fail e, _) \<Rightarrow> returnM \<lparr>pg_status = 500, pg_body = ''Error packing message: '' @ vision_error_text e\<rparr>
             | _ \<Rightarrow> panicM))"

text \<open>The page with the server behind it: what the server has sent and the page has not read yet.\<close>

definition served_send :: "vision_env \<Rightarrow> byte list \<Rightarrow> (vision_world \<times> byte list list, string option) go" where
  "served_send E buf s = (case s of (w, waiting) \<Rightarrow>
     (case vision_handleConn E [Some buf] (w, \<lparr>conn_sent = waiting, conn_faults = []\<rparr>) of
        (Crash, (w', c)) \<Rightarrow> (Crash, (w', conn_sent c))
      | (_, (w', c)) \<Rightarrow> (Ret None, (w', conn_sent c))))"

definition served_receive :: "(vision_world \<times> byte list list, byte list option) go" where
  "served_receive s = (case s of (w, d # ds) \<Rightarrow> (Ret (Some d), (w, ds)) | (w, []) \<Rightarrow> (Blocked, (w, [])))"

lemma image_bytes: "fits_OffboardImageReady q \<Longrightarrow> offboardImage.bytes q \<noteq> []"
  using offboardImage.packed(2) [of q "[]"]
  by (auto simp: Unpack_OffboardImageReady_def read_word_def binary_Read_def bindM_def)

lemma page_served:
  assumes "ps_client st" "ps_rest st = (w, [])" "reqFile \<noteq> []" "page_file PE reqFile = Some name"
    and fits: "fits_OffboardImageReady (page_message name reqType)"
    and h: "vision_handle E (page_message name reqType) w = (Ret r, w')"
  shows "fst (reqHandler PE (served_send E) served_receive reqFile reqType st) =
    (case filter fits_OffboardResultReady (case r of None \<Rightarrow> [] | Some m \<Rightarrow> [m]) of
       [] \<Rightarrow> Blocked
     | m # _ \<Rightarrow> Ret \<lparr>pg_status = 200, pg_body = ''image: '' @ name @ [CHR 0x0A, CHR 0x0A]
         @ pe_Indent PE (OffboardResultReady_JsonResult m)\<rparr>)"
proof -
  let ?q = "page_message name reqType" and ?ms = "filter fits_OffboardResultReady (case r of None \<Rightarrow> [] | Some m \<Rightarrow> [m])"
  have p: "Pack_OffboardImageReady ?q [] = (Ret (), offboardImage.bytes ?q)" using offboardImage.packed(1) [OF fits, of "[]"] by simp
  have "vision_handleConn E [Some (offboardImage.bytes ?q)] (w, \<lparr>conn_sent = [], conn_faults = []\<rparr>) =
      (Ret (), (w', \<lparr>conn_sent = map offboardResult.bytes ?ms, conn_faults = []\<rparr>))"
    using h image_bytes [OF fits] offboardImage.packed(2) [OF fits, of "[]"]
      visionServer.respond_fits [of "\<lparr>conn_sent = [], conn_faults = []\<rparr>" r]
    by simp
  with assms(1-4) p have "fst (reqHandler PE (served_send E) served_receive reqFile reqType st) =
      (case map offboardResult.bytes ?ms of [] \<Rightarrow> Blocked
       | d # _ \<Rightarrow> (case Unpack_OffboardResultReady d of
             (Ret resp, _) \<Rightarrow> Ret \<lparr>pg_status = 200, pg_body = ''image: '' @ name @ [CHR 0x0A, CHR 0x0A]
               @ pe_Indent PE (OffboardResultReady_JsonResult resp)\<rparr>
           | (Fail e, _) \<Rightarrow> Ret \<lparr>pg_status = 500, pg_body = ''Error unpacking response: '' @ vision_error_text e\<rparr>
           | _ \<Rightarrow> Panic))"
    by (simp add: reqHandler_def page_connect_def page_rest_def served_send_def served_receive_def bindM_def returnM_def panicM_def
        split: list.split prod.split outcome.split)
  then show ?thesis using offboardResult.packed(2) [of _ "[]"] by (cases r) auto
qed

section \<open>Properties\<close>


text \<open>
  The page that asks the service for a local image shows what the remote service answered; when the
  dial fails, the file cannot be read, or the remote call fails or answers more than a message can hold, the server
  sends nothing and the page waits for ever.
\<close>

theorem page_shows_answer_or_waits:
  assumes "ps_client st" "ps_rest st = (w, [])" "can_end w" "reqFile \<noteq> []" "page_file PE reqFile = Some name"
    and "length name < 256" "length reqType < 256" "\<not> is_address E name"
  shows "fst (reqHandler PE (served_send E) served_receive reqFile reqType st) =
    (case (dialled w, ve_disk E name, vw_answers w) of
       (True, Inl buf, Inl (raw, time) # _) \<Rightarrow>
         if length raw < 65536
         then Ret \<lparr>pg_status = 200, pg_body = ''image: '' @ name @ [CHR 0x0A, CHR 0x0A] @ pe_Indent PE raw\<rparr>
         else Blocked
     | _ \<Rightarrow> Blocked)"
proof -
  let ?q = "page_message name reqType"
  have fits: "fits_OffboardImageReady ?q" using assms(6,7) by (simp add: fits_OffboardImageReady_def page_message_def)
  have "\<not> is_address E (OffboardImageReady_Filename ?q)" "OffboardImageReady_Filename ?q = name"
    using assms(8) by (simp_all add: page_message_def)
  from handled [OF assms(3) disk_read [OF this(1)]] this(2)
  obtain r w' where h: "vision_handle E ?q w = (Ret r, w')" and
      r: "if dialled w \<and> (\<exists>buf. ve_disk E name = Inl buf)
          then (case r of None \<Rightarrow> [] | Some m \<Rightarrow> [m]) = (case vw_answers w of [] \<Rightarrow> [] | a # _ \<Rightarrow> result_of a) else r = None"
    by (auto split: if_splits)
  show ?thesis unfolding page_served [OF assms(1,2,4,5) fits h]
    using r by (auto simp: result_of_def fits_OffboardResultReady_def split: list.splits sum.splits bool.splits option.splits if_splits)
qed

text \<open>Two images, of which the second cannot be read; and a page whose image is analysed.\<close>

definition vision_example :: vision_world where
  "vision_example = \<lparr>vw_url = Some ''vision'', vw_dials = [Dialled], vw_downloads = [], vw_uuids = [''0123456789abcdef-0''],
     vw_answers = [Inl (''{}'', 7)], vw_asked = [], vw_gets = [], vw_open = 0\<rparr>"

definition vision_files :: vision_env where
  "vision_files = \<lparr>ve_disk = \<lambda>name. if name = ''/a'' then Inl [1, 2] else Inr ''missing'', ve_Parse = \<lambda>s. None, ve_deviceID = ''vic''\<rparr>"


theorem page_shows_answer_or_waits_witness:
  "fst (reqHandler \<lparr>pe_Join = \<lambda>d f. ''/a'', pe_PathUnescape = Some, pe_Scheme = \<lambda>s. Some [], pe_missing = \<lambda>f. False, pe_Indent = \<lambda>s. s\<rparr>
      (served_send vision_files) served_receive ''a'' ''faces'' \<lparr>ps_client = True, ps_connects = [], ps_rest = (vision_example, [])\<rparr>) =
    Ret \<lparr>pg_status = 200, pg_body = ''image: /a'' @ [CHR 0x0A, CHR 0x0A] @ ''{}''\<rparr>"
  (is "fst (reqHandler ?PE _ _ _ _ ?st) = _")
  using page_shows_answer_or_waits [of ?st vision_example "''a''" ?PE "''/a''" "''faces''" vision_files]
  by (simp add: page_file_def is_address_def vision_files_def vision_example_def can_end_def dialled_def)


end
