(* ===== verification/Connection_Monitor.thy ===== *)
theory Connection_Monitor
  imports Go_Prelude "HOL-Library.Signed_Division"
begin

text \<open>
  The connection page of the cloud process, \<open>internal/cloudproc/dev/connect.go\<close>: every five seconds a check is
  started, whose result goes into a ring of 720 places, and a page shows the results, successes in a row as
  one line. Checks run in goroutines of their own; their steps, the ticks and the page interleave. Times are in milliseconds.
\<close>

section \<open>The ring\<close>

record connection =
  cn_stamp :: int
  cn_ms :: int
  cn_err :: "string option"

text \<open>A check that has been started, one that has written its time, and one whose result is written but not counted.\<close>

datatype check = Launched nat int | Stamped nat int | Written nat

text \<open>The shared data, the variables of the routine, and the checks that run.\<close>

record monitor =
  mo_storage :: "connection list"
  mo_head :: nat
  mo_count :: int
  mo_i :: nat
  mo_circled :: bool
  mo_checks :: "check list"

definition storage_size :: nat where "storage_size = 720"

definition start_monitor :: monitor where
  "start_monitor = \<lparr>mo_storage = replicate storage_size \<lparr>cn_stamp = 0, cn_ms = 0, cn_err = None\<rparr>, mo_head = 0, mo_count = 0,
     mo_i = 0, mo_circled = False, mo_checks = []\<rparr>"

text \<open>The time at which there was an answer, or an error of the request or of the call.\<close>

datatype check_result = Reached int | Unreached string

datatype monitor_event = Tick int | Stamps nat | Writes nat check_result | Counts nat

definition monitor_tick :: "int \<Rightarrow> monitor \<Rightarrow> monitor" where
  "monitor_tick ts m =
     (let dest = mo_i m;
          i = mo_i m + 1;
          circled = (mo_circled m \<or> i \<ge> length (mo_storage m));
          i = (if i \<ge> length (mo_storage m) then 0 else i);
          m = m\<lparr>mo_i := i, mo_circled := circled, mo_checks := mo_checks m @ [Launched dest ts]\<rparr>
      in if circled then m\<lparr>mo_head := (i + 1) mod length (mo_storage m), mo_count := mo_count m - 1\<rparr> else m)"

text \<open>A step of the check with a number in the list; \<open>None\<close> when it is not at this step.\<close>

definition monitor_event :: "monitor_event \<Rightarrow> monitor \<Rightarrow> monitor option" where
  "monitor_event e m = (case e of
      Tick ts \<Rightarrow> Some (monitor_tick ts m)
    | Stamps k \<Rightarrow> (case drop k (mo_checks m) of
          Launched d ts # _ \<Rightarrow> Some (m\<lparr>mo_storage := (mo_storage m)[d := (mo_storage m ! d)\<lparr>cn_stamp := ts\<rparr>],
            mo_checks := (mo_checks m)[k := Stamped d ts]\<rparr>)
        | _ \<Rightarrow> None)
    | Writes k r \<Rightarrow> (case drop k (mo_checks m) of
          Stamped d ts # _ \<Rightarrow> Some (m\<lparr>mo_checks := (mo_checks m)[k := Written d],
            mo_storage := (mo_storage m)[d := (case r of
                Reached now \<Rightarrow> (mo_storage m ! d)\<lparr>cn_ms := now - ts, cn_err := None\<rparr>
              | Unreached e \<Rightarrow> (mo_storage m ! d)\<lparr>cn_ms := -1, cn_err := Some e\<rparr>)]\<rparr>)
        | _ \<Rightarrow> None)
    | Counts k \<Rightarrow> (case drop k (mo_checks m) of
          Written d # _ \<Rightarrow> Some (m\<lparr>mo_count := mo_count m + 1, mo_checks := take k (mo_checks m) @ drop (k + 1) (mo_checks m)\<rparr>)
        | _ \<Rightarrow> None))"

fun monitor_run :: "monitor_event list \<Rightarrow> monitor \<Rightarrow> monitor option" where
  "monitor_run [] m = Some m"
| "monitor_run (e # es) m = Option.bind (monitor_event e m) (monitor_run es)"

text \<open>The places that the page goes through.\<close>

definition shown_connections :: "monitor \<Rightarrow> connection list" where
  "shown_connections m = map (\<lambda>i. mo_storage m ! ((mo_head m + i) mod length (mo_storage m))) [0..<nat (mo_count m)]"

section \<open>The page\<close>

datatype page_line =
    Success int int                      \<comment> \<open>its time, and how long it took\<close>
  | Successes int int nat int int int    \<comment> \<open>first and last time, how many, least, most and average time taken\<close>
  | Failed int string

definition MaxInt32 :: int where "MaxInt32 = 2 ^ 31 - 1"

definition successStringer :: "connection list \<Rightarrow> page_line list" where
  "successStringer arr = (case arr of
      [] \<Rightarrow> []
    | [c] \<Rightarrow> [Success (cn_stamp c) (cn_ms c)]
    | _ \<Rightarrow> [Successes (cn_stamp (hd arr)) (cn_stamp (last arr)) (length arr)
        (foldl (\<lambda>m c. if cn_ms c < m then cn_ms c else m) MaxInt32 arr)
        (foldl (\<lambda>m c. if cn_ms c > m then cn_ms c else m) 0 arr)
        (foldl (\<lambda>s c. s + cn_ms c) 0 arr sdiv int (length arr))])"

fun page_lines :: "connection list \<Rightarrow> connection list \<Rightarrow> page_line list" where
  "page_lines consecutive [] = successStringer consecutive"
| "page_lines consecutive (src # srcs) = (case cn_err src of
      None \<Rightarrow> page_lines (consecutive @ [src]) srcs
    | Some e \<Rightarrow> successStringer consecutive @ [Failed (cn_stamp src) e] @ page_lines [] srcs)"

definition connectHandler :: "monitor \<Rightarrow> nat \<times> page_line list" where
  "connectHandler m = (nat (mo_count m), page_lines [] (shown_connections m))"

section \<open>Checks that end before the next tick\<close>

lemma monitor_run_append: "monitor_run (es @ fs) m = Option.bind (monitor_run es m) (monitor_run fs)"
  by (induction es arbitrary: m) (auto split: bind_splits)

definition check_round :: "int \<times> check_result \<Rightarrow> monitor_event list" where
  "check_round p = [Tick (fst p), Stamps 0, Writes 0 (snd p), Counts 0]"

definition entry :: "int \<times> check_result \<Rightarrow> connection" where
  "entry p = (case snd p of
      Reached now \<Rightarrow> \<lparr>cn_stamp = fst p, cn_ms = now - fst p, cn_err = None\<rparr>
    | Unreached e \<Rightarrow> \<lparr>cn_stamp = fst p, cn_ms = -1, cn_err = Some e\<rparr>)"

text \<open>The state after some rounds.\<close>

definition monitor_after :: "(int \<times> check_result) list \<Rightarrow> monitor \<Rightarrow> bool" where
  "monitor_after rs m \<longleftrightarrow> mo_i m = length rs mod storage_size \<and> mo_circled m = (storage_size \<le> length rs) \<and> mo_checks m = [] \<and>
     length (mo_storage m) = storage_size \<and>
     (\<forall>j < length rs. length rs \<le> j + storage_size \<longrightarrow> mo_storage m ! (j mod storage_size) = entry (rs ! j)) \<and>
     mo_count m = (if storage_size \<le> length rs then int storage_size - 1 else int (length rs)) \<and>
     mo_head m = (if storage_size \<le> length rs then (length rs + 1) mod storage_size else 0)"

lemma mod_same_window:
  fixes j k n :: nat
  assumes "j mod n = k mod n" "j < k" "k < j + n"
  shows False
proof -
  have "n dvd k - j" using assms(1,2) by (metis less_imp_le_nat mod_eq_dvd_iff_nat)
  with assms(2,3) show False by (auto dest: dvd_imp_le)
qed

lemma check_ends:
  assumes "mo_checks m = [Launched d ts]" "d < length (mo_storage m)"
  shows "monitor_run [Stamps 0, Writes 0 r, Counts 0] m =
    Some (m\<lparr>mo_storage := (mo_storage m)[d := entry (ts, r)], mo_count := mo_count m + 1, mo_checks := []\<rparr>)"
  using assms by (cases "mo_storage m ! d"; cases r) (simp_all add: monitor_event_def entry_def)

lemma round_done:
  assumes "monitor_after rs m"
  shows "\<exists>m'. monitor_run (check_round p) m = Some m' \<and> monitor_after (rs @ [p]) m'"
proof -
  let ?k = "length rs" and ?N = storage_size
  have N: "0 < ?N" by (simp add: storage_size_def)
  then have l: "?k mod ?N < ?N" by simp
  have m: "mo_i m = ?k mod ?N" "mo_circled m = (?N \<le> ?k)" "mo_checks m = []" "length (mo_storage m) = ?N"
      "\<And>j. j < ?k \<Longrightarrow> ?k \<le> j + ?N \<Longrightarrow> mo_storage m ! (j mod ?N) = entry (rs ! j)"
      "mo_count m = (if ?N \<le> ?k then int ?N - 1 else int ?k)" "mo_head m = (if ?N \<le> ?k then (?k + 1) mod ?N else 0)"
    using assms by (auto simp: monitor_after_def)
  have i: "?k mod ?N + 1 \<ge> ?N \<longleftrightarrow> (?k + 1) mod ?N = 0" "\<not> ?k mod ?N + 1 \<ge> ?N \<Longrightarrow> (?k + 1) mod ?N = ?k mod ?N + 1"
    using l by (auto simp: mod_Suc)
  have c: "(?N \<le> ?k \<or> ?k mod ?N + 1 \<ge> ?N) = (?N \<le> ?k + 1)"
    using l by (cases "?k < ?N") auto
  let ?s = "(mo_storage m)[?k mod ?N := entry p]"
  have s: "?s ! (j mod ?N) = entry ((rs @ [p]) ! j)" if "j < ?k + 1" "?k + 1 \<le> j + ?N" for j
  proof (cases "j = ?k")
    case False
    with that have "j < ?k" "?k < j + ?N" by auto
    moreover from this have "j mod ?N \<noteq> ?k mod ?N" using mod_same_window [of j ?N ?k] by blast
    ultimately show ?thesis using m(5) [of j] by (simp add: nth_append)
  qed (use m(4) N in simp)
  define m' where "m' = \<lparr>mo_storage = ?s, mo_head = (if ?N \<le> ?k + 1 then (?k + 2) mod ?N else 0),
      mo_count = (if ?N \<le> ?k + 1 then int ?N - 1 else int (?k + 1)), mo_i = (?k + 1) mod ?N, mo_circled = (?N \<le> ?k + 1), mo_checks = []\<rparr>"
  have h: "Suc ((?k + 1) mod ?N) mod ?N = (?k + 2) mod ?N" by (simp add: mod_Suc_eq)
  let ?t = "monitor_tick (fst p) m"
  have t: "mo_checks ?t = [Launched (?k mod ?N) (fst p)]" "mo_storage ?t = mo_storage m" "mo_i ?t = (?k + 1) mod ?N"
      "mo_circled ?t = (?N \<le> ?k + 1)"
      "mo_head ?t = (if ?N \<le> ?k + 1 then (?k + 2) mod ?N else 0)"
      "mo_count ?t = (if ?N \<le> ?k + 1 then int ?N - 1 else int (?k + 1)) - 1"
    using m(1-4,6,7) i c h by (auto simp: monitor_tick_def Let_def)
  have "monitor_run (check_round p) m = Some (?t\<lparr>mo_storage := ?s, mo_count := mo_count ?t + 1, mo_checks := []\<rparr>)"
    using check_ends [OF t(1), of "snd p"] m(4) l t(2) by (simp add: check_round_def monitor_event_def)
  also have "?t\<lparr>mo_storage := ?s, mo_count := mo_count ?t + 1, mo_checks := []\<rparr> = m'"
    using t(3-6) by (simp add: m'_def)
  finally have "monitor_run (check_round p) m = Some m'" .
  moreover have "monitor_after (rs @ [p]) m'"
    using s N m(4) by (auto simp: monitor_after_def m'_def)
  ultimately show ?thesis by blast
qed

section \<open>What the page shows\<close>

lemma shown_window:
  assumes "monitor_after rs m" "length (mo_storage n) = storage_size" "mo_head n = (if storage_size \<le> length rs + d then (length rs + d + 1) mod storage_size else 0)"
    and "mo_count n = (if storage_size \<le> length rs + d then int storage_size - 1 - int d else int (length rs))" "d \<le> 1"
    and "\<And>j. j mod storage_size \<noteq> length rs mod storage_size \<or> d = 0 \<Longrightarrow> mo_storage n ! (j mod storage_size) = mo_storage m ! (j mod storage_size)"
  shows "shown_connections n = map entry (drop (length rs - (storage_size - 1 - d)) rs)"
proof (rule nth_equalityI)
  let ?k = "length rs" and ?N = storage_size
  have N: "2 < ?N" by (simp add: storage_size_def)
  show l: "length (shown_connections n) = length (map entry (drop (?k - (?N - 1 - d)) rs))"
    using N assms(4,5) by (auto simp: shown_connections_def)
  fix i assume "i < length (shown_connections n)"
  then have i: "i < (if ?N \<le> ?k + d then ?N - 1 - d else ?k)" using N assms(4,5) by (auto simp: shown_connections_def split: if_splits)
  define j where "j = (if ?N \<le> ?k + d then ?k + d + 1 + i - ?N else i)"
  have "(mo_head n + i) mod ?N = j mod ?N"
  proof (cases "?N \<le> ?k + d")
    case True
    then have "(mo_head n + i) mod ?N = (?k + d + 1 + i) mod ?N" using assms(3) by (simp add: mod_simps)
    also have "?k + d + 1 + i = j + ?N" using True by (simp add: j_def)
    finally show ?thesis by simp
  qed (use assms(3) i in \<open>simp add: j_def\<close>)
  moreover have j: "j < ?k" "?k \<le> j + ?N" "d = 0 \<or> ?k < j + ?N" "j = (?k - (?N - 1 - d)) + i"
    using i assms(5) N by (auto simp: j_def split: if_splits)
  moreover have "j mod ?N \<noteq> ?k mod ?N \<or> d = 0" using j mod_same_window [of j ?N ?k] by blast
  then have "mo_storage n ! (j mod ?N) = mo_storage m ! (j mod ?N)" by (rule assms(6))
  moreover have "mo_storage m ! (j mod ?N) = entry (rs ! j)" using assms(1) j(1,2) by (simp add: monitor_after_def)
  moreover have "shown_connections n ! i = mo_storage n ! ((mo_head n + i) mod ?N)" using \<open>i < length (shown_connections n)\<close> assms(2) by (simp add: shown_connections_def)
  moreover have "map entry (drop (?k - (?N - 1 - d)) rs) ! i = entry (rs ! j)"
    using \<open>i < length (shown_connections n)\<close> l unfolding j(4) by simp
  ultimately show "shown_connections n ! i = map entry (drop (?k - (?N - 1 - d)) rs) ! i" by simp
qed

lemma shown_after: "monitor_after rs m \<Longrightarrow> shown_connections m = map entry (drop (length rs - (storage_size - 1)) rs)"
  using shown_window [of rs m m 0] by (simp add: monitor_after_def)

lemma shown_in_flight:
  assumes "monitor_after rs m"
  shows "shown_connections (monitor_tick ts m) = map entry (drop (length rs - (storage_size - 2)) rs)"
    and "monitor_run [Tick ts, Stamps 0] m = Some n \<Longrightarrow> shown_connections n = map entry (drop (length rs - (storage_size - 2)) rs)"
    and "monitor_run [Tick ts, Stamps 0, Writes 0 r] m = Some n \<Longrightarrow> shown_connections n = map entry (drop (length rs - (storage_size - 2)) rs)"
proof -
  let ?k = "length rs" and ?N = storage_size and ?t = "monitor_tick ts m"
  have l: "?k mod ?N < ?N" by (simp add: storage_size_def)
  have m: "mo_i m = ?k mod ?N" "mo_circled m = (?N \<le> ?k)" "mo_checks m = []" "length (mo_storage m) = ?N"
      "mo_count m = (if ?N \<le> ?k then int ?N - 1 else int ?k)" "mo_head m = (if ?N \<le> ?k then (?k + 1) mod ?N else 0)"
    using assms by (auto simp: monitor_after_def)
  have i: "?k mod ?N + 1 \<ge> ?N \<longleftrightarrow> (?k + 1) mod ?N = 0" "\<not> ?k mod ?N + 1 \<ge> ?N \<Longrightarrow> (?k + 1) mod ?N = ?k mod ?N + 1"
    using l by (auto simp: mod_Suc)
  have c: "(?N \<le> ?k \<or> ?k mod ?N + 1 \<ge> ?N) = (?N \<le> ?k + 1)" using l by (cases "?k < ?N") auto
  have h: "Suc ((?k + 1) mod ?N) mod ?N = (?k + 2) mod ?N" by (simp add: mod_Suc_eq)
  have t: "mo_checks ?t = [Launched (?k mod ?N) ts]" "mo_storage ?t = mo_storage m"
      "mo_head ?t = (if ?N \<le> ?k + 1 then (?k + 1 + 1) mod ?N else 0)"
      "mo_count ?t = (if ?N \<le> ?k + 1 then int ?N - 1 - int 1 else int ?k)"
    using m i c h by (auto simp: monitor_tick_def Let_def)
  have w: "shown_connections v = map entry (drop (?k - (?N - 2)) rs)"
    if "mo_storage v = (mo_storage m)[?k mod ?N := x]" "mo_head v = mo_head ?t" "mo_count v = mo_count ?t" for v x
    using shown_window [OF assms, of v 1] that t(3,4) m(4) l by (simp add: numeral_2_eq_2)
  show "shown_connections ?t = map entry (drop (?k - (?N - 2)) rs)" using w [of ?t "mo_storage m ! (?k mod ?N)"] t(2) by simp
  show "shown_connections n = map entry (drop (?k - (?N - 2)) rs)" if "monitor_run [Tick ts, Stamps 0] m = Some n"
    using that w [of n] t(1,2) by (auto simp: monitor_event_def)
  show "shown_connections n = map entry (drop (?k - (?N - 2)) rs)" if "monitor_run [Tick ts, Stamps 0, Writes 0 r] m = Some n"
    using that w [of n] t(1,2) m(4) l by (auto simp: monitor_event_def)
qed

lemma rounds_run: "\<exists>m. monitor_run (concat (map check_round rs)) start_monitor = Some m \<and> monitor_after rs m"
proof (induction rs rule: rev_induct)
  case Nil
  show ?case by (simp add: start_monitor_def monitor_after_def storage_size_def)
next
  case (snoc p rs)
  then obtain m where m: "monitor_run (concat (map check_round rs)) start_monitor = Some m" "monitor_after rs m" by blast
  with round_done [OF m(2), of p] show ?case by (auto simp: monitor_run_append)
qed

text \<open>The lines of the page: one for each failure, and one for all successes between two failures.\<close>

definition group_line :: "connection list \<Rightarrow> page_line list" where
  "group_line g = (case cn_err (hd g) of None \<Rightarrow> successStringer g | Some e \<Rightarrow> [Failed (cn_stamp (hd g)) e])"

definition grouped :: "connection list list \<Rightarrow> bool" where
  "grouped gs \<longleftrightarrow> list_all (\<lambda>g. g \<noteq> [] \<and> (list_all (\<lambda>c. cn_err c = None) g \<or> length g = 1)) gs \<and>
     successively (\<lambda>g h. cn_err (hd g) \<noteq> None \<or> cn_err (hd h) \<noteq> None) gs"

lemma grouped_Cons: "grouped (g # gs) \<longleftrightarrow> g \<noteq> [] \<and> (list_all (\<lambda>c. cn_err c = None) g \<or> length g = 1) \<and> grouped gs \<and>
    (gs = [] \<or> cn_err (hd g) \<noteq> None \<or> cn_err (hd (hd gs)) \<noteq> None)"
  by (cases gs) (auto simp: grouped_def)

lemma page_grouped:
  "list_all (\<lambda>c. cn_err c = None) cs \<Longrightarrow>
   \<exists>gs. page_lines cs srcs = concat (map group_line gs) \<and> concat gs = cs @ srcs \<and> grouped gs"
proof (induction srcs arbitrary: cs)
  case Nil
  show ?case
  proof (cases "cs = []")
    case True
    then show ?thesis by (intro exI [of _ "[]"]) (simp add: grouped_def successStringer_def)
  next
    case False
    with Nil have "cn_err (hd cs) = None" by (cases cs) auto
    with Nil False show ?thesis by (intro exI [of _ "[cs]"]) (simp add: grouped_def group_line_def)
  qed
next
  case (Cons src srcs)
  show ?case
  proof (cases "cn_err src")
    case None
    with Cons.IH [of "cs @ [src]"] Cons.prems show ?thesis by simp
  next
    case (Some e)
    obtain gs where gs: "page_lines [] srcs = concat (map group_line gs)" "concat gs = srcs" "grouped gs" using Cons.IH [of "[]"] by auto
    then have g: "grouped ([src] # gs)" using Some by (simp add: grouped_Cons)
    show ?thesis
    proof (cases "cs = []")
      case True
      moreover have "group_line [src] = [Failed (cn_stamp src) e]" using Some by (simp add: group_line_def)
      ultimately show ?thesis using g gs Some by (intro exI [of _ "[src] # gs"]) (simp add: successStringer_def)
    next
      case False
      with Cons.prems have "cn_err (hd cs) = None" by (cases cs) auto
      then have "group_line cs = successStringer cs" "group_line [src] = [Failed (cn_stamp src) e]" using Some by (simp_all add: group_line_def)
      with False Cons.prems g gs Some show ?thesis
        by (intro exI [of _ "cs # [src] # gs"]) (simp add: grouped_Cons [of cs])
    qed
  qed
qed

text \<open>The numbers of a line of successes.\<close>

lemma least_taken:
  "foldl (\<lambda>m c. if cn_ms c < m then cn_ms c else m) b cs \<le> b \<and> (\<forall>c \<in> set cs. foldl (\<lambda>m c. if cn_ms c < m then cn_ms c else m) b cs \<le> cn_ms c)"
proof (induction cs arbitrary: b)
  case (Cons c cs)
  from Cons [of "cn_ms c"] Cons [of b] show ?case by fastforce
qed simp

lemma most_taken:
  "b \<le> foldl (\<lambda>m c. if cn_ms c > m then cn_ms c else m) b cs \<and> (\<forall>c \<in> set cs. cn_ms c \<le> foldl (\<lambda>m c. if cn_ms c > m then cn_ms c else m) b cs)"
proof (induction cs arbitrary: b)
  case (Cons c cs)
  from Cons [of "cn_ms c"] Cons [of b] show ?case by fastforce
qed simp

lemma sum_taken: "foldl (\<lambda>s c. s + cn_ms c) b cs = b + sum_list (map cn_ms cs)"
  by (induction cs arbitrary: b) auto

lemma success_numbers:
  assumes "successStringer g = [Successes f l n lo hi avg]" "\<forall>c \<in> set g. 0 \<le> cn_ms c"
  shows "n = length g \<and> (\<forall>c \<in> set g. lo \<le> cn_ms c \<and> cn_ms c \<le> hi) \<and> lo \<le> avg \<and> avg \<le> hi"
proof -
  have g: "2 \<le> length g" and n: "n = length g" and lo: "lo = foldl (\<lambda>m c. if cn_ms c < m then cn_ms c else m) MaxInt32 g"
      and hi: "hi = foldl (\<lambda>m c. if cn_ms c > m then cn_ms c else m) 0 g" and avg: "avg = foldl (\<lambda>s c. s + cn_ms c) 0 g sdiv int (length g)"
    using assms(1) by (auto simp: successStringer_def split: list.splits)
  have g0: "g \<noteq> []" using g by auto
  have b: "\<forall>c \<in> set g. lo \<le> cn_ms c \<and> cn_ms c \<le> hi" using least_taken [of MaxInt32 g] most_taken [of 0 g] lo hi by blast
  have s: "int (length g) * lo \<le> sum_list (map cn_ms g)" "sum_list (map cn_ms g) \<le> int (length g) * hi"
    using b by (induction g) (auto simp: algebra_simps)
  have "0 \<le> sum_list (map cn_ms g)" using assms(2) by (induction g) auto
  then have a: "avg = sum_list (map cn_ms g) div int (length g)" using avg g
    by (auto simp: sum_taken signed_divide_int_def sgn_if)
  have "lo \<le> avg" using zdiv_mono1 [OF s(1), of "int (length g)"] g0 unfolding a by simp
  moreover have "avg \<le> hi" using zdiv_mono1 [OF s(2), of "int (length g)"] g0 unfolding a by simp
  ultimately show ?thesis using n b by blast
qed

text \<open>
  A check that takes longer than the time between two ticks: the page counts the second result but shows the
  first check, which still runs, as a success that took no time.
\<close>

lemma running_check_shown_as_success:
  "map_option connectHandler (monitor_run [Tick 5000, Stamps 0, Tick 10000, Stamps 1, Writes 1 (Unreached ''down''), Counts 1] start_monitor) =
    Some (1, [Success 5000 0])"
  by (simp add: start_monitor_def storage_size_def monitor_event_def monitor_tick_def connectHandler_def shown_connections_def
      successStringer_def Let_def)

section \<open>Properties\<close>

text \<open>
  C22. If each check ends before the next tick, the page shows the last 719 results, in order, or all when
  there are fewer, and while a check runs the last 718: each failure as a line, and all successes between two
  failures as one line.
\<close>

theorem connection_page_shows_last_results:
  "\<exists>m. monitor_run (concat (map check_round rs)) start_monitor = Some m \<and>
    shown_connections m = map entry (drop (length rs - 719) rs) \<and>
    (\<exists>gs. connectHandler m = (length (shown_connections m), concat (map group_line gs)) \<and> concat gs = shown_connections m \<and> grouped gs) \<and>
    (\<exists>n. monitor_run (concat (map check_round rs) @ [Tick ts, Stamps 0, Writes 0 r]) start_monitor = Some n \<and>
      shown_connections n = map entry (drop (length rs - 718) rs))"
proof -
  obtain m where m: "monitor_run (concat (map check_round rs)) start_monitor = Some m" "monitor_after rs m" using rounds_run by blast
  obtain m' where "monitor_run (check_round (ts, r)) m = Some m'" using round_done [OF m(2), of "(ts, r)"] by blast
  then obtain n where n: "monitor_run [Tick ts, Stamps 0, Writes 0 r] m = Some n"
    by (auto simp: check_round_def bind_eq_Some_conv)
  then have "monitor_run (concat (map check_round rs) @ [Tick ts, Stamps 0, Writes 0 r]) start_monitor = Some n"
    using m(1) by (simp only: monitor_run_append bind.bind_lunit)
  moreover have "shown_connections n = map entry (drop (length rs - 718) rs)"
    using shown_in_flight(3) [OF m(2) n] by (simp add: storage_size_def)
  moreover have "shown_connections m = map entry (drop (length rs - 719) rs)" using shown_after [OF m(2)] by (simp add: storage_size_def)
  moreover obtain gs where "page_lines [] (shown_connections m) = concat (map group_line gs)" "concat gs = shown_connections m" "grouped gs"
    using page_grouped [of "[]" "shown_connections m"] by auto
  moreover have "nat (mo_count m) = length (shown_connections m)" by (simp add: shown_connections_def)
  ultimately show ?thesis using m(1) unfolding connectHandler_def by metis
qed


end
