(* ===== verification/Device_Files.thy ===== *)
theory Device_Files
  imports Go_Bytes
begin

text \<open>
  What the processes read about the robot itself, \<open>internal/robot\<close>: the factory's files with the robot's
  certificate (\<open>cert.go\<close>), its number and versions (\<open>esn_vicos.go\<close>, \<open>esn.go\<close>), the error code on its face (\<open>error.go\<close>); and
  the addresses of the services, \<open>internal/config/urls.go\<close>. Files, commands and the parsers of the libraries are
  parameters. What was read once is kept in a variable of the process.
\<close>

section \<open>Certificates\<close>

record certificate =
  Subject_CommonName :: string
  Subject_Organization :: "string list"
  NotAfter :: int      \<comment> \<open>in seconds\<close>

record device_cert_record =
  dcr_CommonName :: string
  dcr_KeysDigest :: string
  dcr_CertDigest :: string
  dcr_CertSignatureAlgorithm :: string
  dcr_CertSignature :: string

record device_env =
  de_ReadFile :: "string \<Rightarrow> byte list + string"
  de_Join :: "string \<Rightarrow> string \<Rightarrow> string"
  de_Unmarshal :: "byte list \<Rightarrow> device_cert_record + string"
  de_pem_Decode :: "byte list \<Rightarrow> (string \<times> byte list) option"
  de_ParsePKCS8PrivateKey :: "byte list \<Rightarrow> string option"     \<comment> \<open>an error or none\<close>
  de_ParseCertificate :: "byte list \<Rightarrow> certificate + string"

datatype factory_error =
    FileError string
  | ParsingJSON string
  | CommonNameMismatch string string
  | PEMTypeMismatch string string
  | ParsingKey string
  | ParsingCertificate string
  | WrongNumberOfOrganizations nat
  | OrganizationMismatch string
  | NotAfterTooSoon int

definition CertFilename :: string where "CertFilename = ''AnkiRobotDeviceCert.pem''"
definition KeysFilename :: string where "KeysFilename = ''AnkiRobotDeviceKeys.pem''"

text \<open>The first of January 2100.\<close>

definition invalidTooSoon :: int where "invalidTooSoon = 4102444800"

definition check_info :: "device_env \<Rightarrow> string \<Rightarrow> string \<Rightarrow> factory_error option" where
  "check_info E cloudDir canonicalESN =
     (let expCommonName = ''vic:'' @ canonicalESN;
          infoFile = de_Join E cloudDir (''Info'' @ canonicalESN @ ''.json'')
      in case de_ReadFile E infoFile of
           Inr e \<Rightarrow> Some (FileError e)
         | Inl raw \<Rightarrow> (case de_Unmarshal E raw of
             Inr e \<Rightarrow> Some (ParsingJSON e)
           | Inl dcr \<Rightarrow> if dcr_CommonName dcr \<noteq> expCommonName then Some (CommonNameMismatch expCommonName (dcr_CommonName dcr)) else None))"

text \<open>A file without a PEM block gives a nil block, whose type is read.\<close>

definition check_keys :: "device_env \<Rightarrow> string \<Rightarrow> factory_error option outcome" where
  "check_keys E cloudDir = (case de_ReadFile E (de_Join E cloudDir KeysFilename) of
      Inr e \<Rightarrow> Ret (Some (FileError e))
    | Inl pem \<Rightarrow> (case de_pem_Decode E pem of
        None \<Rightarrow> Panic
      | Some (type, bytes) \<Rightarrow>
          if type \<noteq> ''PRIVATE KEY'' then Ret (Some (PEMTypeMismatch ''PRIVATE KEY'' type))
          else Ret (map_option ParsingKey (de_ParsePKCS8PrivateKey E bytes))))"

definition check_certificate :: "certificate \<Rightarrow> string \<Rightarrow> factory_error option" where
  "check_certificate cert expCommonName =
     (if Subject_CommonName cert \<noteq> expCommonName then Some (CommonNameMismatch expCommonName (Subject_CommonName cert))
      else if length (Subject_Organization cert) \<noteq> 1 then Some (WrongNumberOfOrganizations (length (Subject_Organization cert)))
      else if Subject_Organization cert ! 0 \<noteq> ''Anki Inc.'' then Some (OrganizationMismatch (Subject_Organization cert ! 0))
      else if \<not> invalidTooSoon < NotAfter cert then Some (NotAfterTooSoon (NotAfter cert)) else None)"

definition check_cert :: "device_env \<Rightarrow> string \<Rightarrow> string \<Rightarrow> factory_error option outcome" where
  "check_cert E cloudDir canonicalESN = (case de_ReadFile E (de_Join E cloudDir CertFilename) of
      Inr e \<Rightarrow> Ret (Some (FileError e))
    | Inl pem \<Rightarrow> (case de_pem_Decode E pem of
        None \<Rightarrow> Panic
      | Some (type, bytes) \<Rightarrow>
          if type \<noteq> ''CERTIFICATE'' then Ret (Some (PEMTypeMismatch ''CERTIFICATE'' type))
          else (case de_ParseCertificate E bytes of
              Inr e \<Rightarrow> Ret (Some (ParsingCertificate e))
            | Inl cert \<Rightarrow> Ret (check_certificate cert (''vic:'' @ canonicalESN)))))"

definition CheckFactoryCloudFiles :: "device_env \<Rightarrow> string \<Rightarrow> string \<Rightarrow> factory_error option outcome" where
  "CheckFactoryCloudFiles E cloudDir canonicalESN = (case check_info E cloudDir canonicalESN of
      Some e \<Rightarrow> Ret (Some e)
    | None \<Rightarrow> (case check_keys E cloudDir of
        Ret None \<Rightarrow> check_cert E cloudDir canonicalESN
      | r \<Rightarrow> r))"

definition PEMData :: "device_env \<Rightarrow> string \<Rightarrow> byte list + string" where
  "PEMData E cloudDir = de_ReadFile E (de_Join E cloudDir CertFilename)"

definition ParseX509Certificate :: "device_env \<Rightarrow> string \<Rightarrow> (certificate + string) outcome" where
  "ParseX509Certificate E cloudDir = (case PEMData E cloudDir of
      Inr e \<Rightarrow> Ret (Inr e)
    | Inl pem \<Rightarrow> (case de_pem_Decode E pem of None \<Rightarrow> Panic | Some (_, bytes) \<Rightarrow> Ret (de_ParseCertificate E bytes)))"

text \<open>The state is the variable \<open>certCommonName\<close>.\<close>

definition CertCommonName :: "device_env \<Rightarrow> string \<Rightarrow> (string, string + string) go" where
  "CertCommonName E cloudDir cached =
     (if cached \<noteq> [] then (Ret (Inl cached), cached)
      else case ParseX509Certificate E cloudDir of
          Ret (Inl cert) \<Rightarrow> (Ret (Inl (Subject_CommonName cert)), Subject_CommonName cert)
        | Ret (Inr e) \<Rightarrow> (Ret (Inr e), cached)
        | _ \<Rightarrow> (Panic, cached))"

section \<open>Number and versions\<close>

text \<open>The variables, and what the commands give: the number of the robot, its properties, and the file of the boot.\<close>

record robot_vars =
  rv_esn :: string
  rv_osVersion :: string
  rv_ankiVersion :: string
  rv_victorVersion :: string
  rv_bootID :: string

record robot_env =
  re_emr_cat :: "string + string"
  re_getprop :: "string \<Rightarrow> string option"
  re_boot_id :: "string + string"

definition ReadESN :: "robot_env \<Rightarrow> robot_vars \<Rightarrow> (string + string) \<times> robot_vars" where
  "ReadESN R v = (if rv_esn v \<noteq> [] then (Inl (rv_esn v), v)
     else case re_emr_cat R of
        Inr e \<Rightarrow> (Inr e, v)
      | Inl raw \<Rightarrow> (Inl (TrimSpace raw), v\<lparr>rv_esn := TrimSpace raw\<rparr>))"

definition runCmd :: "robot_env \<Rightarrow> string \<Rightarrow> string" where
  "runCmd R arg = (case re_getprop R arg of None \<Rightarrow> [] | Some raw \<Rightarrow> TrimSpace raw)"

fun first_prop :: "robot_env \<Rightarrow> string list \<Rightarrow> string" where
  "first_prop R [] = []"
| "first_prop R (arg # args) = (let str = runCmd R arg in if str \<noteq> [] then str else first_prop R args)"

definition propArgs :: "string list" where
  "propArgs = [''ro.build.fingerprint'', ''ro.revision'', ''ro.anki.os_build_comment'', ''ro.build.version.release'']"

definition OSVersion :: "robot_env \<Rightarrow> robot_vars \<Rightarrow> string \<times> robot_vars" where
  "OSVersion R v = (if rv_osVersion v \<noteq> [] then (rv_osVersion v, v)
     else let str = first_prop R propArgs in (str, if str \<noteq> [] then v\<lparr>rv_osVersion := str\<rparr> else v))"

definition AnkiVersion :: "robot_env \<Rightarrow> robot_vars \<Rightarrow> string \<times> robot_vars" where
  "AnkiVersion R v = (if rv_ankiVersion v \<noteq> [] then (rv_ankiVersion v, v)
     else case re_getprop R ''ro.anki.version'' of None \<Rightarrow> ([], v)
        | Some raw \<Rightarrow> (TrimSpace raw, v\<lparr>rv_ankiVersion := TrimSpace raw\<rparr>))"

definition VictorVersion :: "robot_env \<Rightarrow> robot_vars \<Rightarrow> string \<times> robot_vars" where
  "VictorVersion R v = (if rv_victorVersion v \<noteq> [] then (rv_victorVersion v, v)
     else case re_getprop R ''ro.anki.victor.version'' of None \<Rightarrow> ([], v)
        | Some raw \<Rightarrow> (TrimSpace raw, v\<lparr>rv_victorVersion := TrimSpace raw\<rparr>))"

definition OSUserAgent :: "robot_env \<Rightarrow> robot_vars \<Rightarrow> string option \<times> robot_vars" where
  "OSUserAgent R v = (case OSVersion R v of (ver, v') \<Rightarrow> (if ver = [] then None else Some (''Victor/'' @ ver), v'))"

text \<open>The file's text is kept as it is, its last newline included.\<close>

definition BootID :: "robot_env \<Rightarrow> robot_vars \<Rightarrow> string \<times> robot_vars" where
  "BootID R v = (if rv_bootID v = [] then (case re_boot_id R of
        Inr _ \<Rightarrow> ([], v)
      | Inl raw \<Rightarrow> (raw, v\<lparr>rv_bootID := raw\<rparr>))
     else (rv_bootID v, v))"

section \<open>Addresses\<close>

record URLs =
  url_JDocs :: string
  url_Token :: string
  url_Chipper :: string
  url_Check :: string
  url_LogFiles :: string
  url_AppKey :: string
  url_OffboardVision :: "string option"

definition DefaultURLs :: URLs where
  "DefaultURLs = \<lparr>url_JDocs = ''jdocs-dev.api.anki.com:443'', url_Token = ''token-dev.api.anki.com:443'',
     url_Chipper = ''chipper-dev.api.anki.com:443'', url_Check = ''conncheck.global.anki-dev-services.com/ok'',
     url_LogFiles = ''s3://anki-device-logs-dev/victor'', url_AppKey = [], url_OffboardVision = None\<rparr>"

definition LoadURLs :: "(string \<Rightarrow> byte list + string) \<Rightarrow> (byte list \<Rightarrow> URLs + string) \<Rightarrow> string \<Rightarrow> URLs + string" where
  "LoadURLs ReadFile Unmarshal filename =
     (case ReadFile (if filename = [] then ''/anki/data/assets/cozmo_resources/config/server_config.json'' else filename) of
        Inr e \<Rightarrow> Inr e | Inl raw \<Rightarrow> Unmarshal raw)"

text \<open>The state is the variable \<open>Env\<close>.\<close>

definition SetGlobal :: "(string \<Rightarrow> byte list + string) \<Rightarrow> (byte list \<Rightarrow> URLs + string) \<Rightarrow> string \<Rightarrow> URLs \<Rightarrow> string option \<times> URLs" where
  "SetGlobal ReadFile Unmarshal filename Env = (case LoadURLs ReadFile Unmarshal filename of
      Inr e \<Rightarrow> (Some e, Env) | Inl urls \<Rightarrow> (None, urls))"

section \<open>What was read once\<close>

lemma esn_kept: "ReadESN R v = (Inl n, v') \<Longrightarrow> n \<noteq> [] \<Longrightarrow> ReadESN R' v' = (Inl n, v')"
  by (auto simp: ReadESN_def split: if_splits sum.splits)

lemma first_prop_found:
  "first_prop R args = (case filter (\<lambda>a. runCmd R a \<noteq> []) args of [] \<Rightarrow> [] | a # _ \<Rightarrow> runCmd R a)"
  by (induction args) (auto simp: Let_def)

lemma os_version_kept: "OSVersion R v = (n, v') \<Longrightarrow> n \<noteq> [] \<Longrightarrow> OSVersion R' v' = (n, v')"
  by (auto simp: OSVersion_def Let_def split: if_splits)

text \<open>The directory of a later call does not matter.\<close>

lemma common_name_kept:
  "CertCommonName E dir c = (Ret (Inl n), c') \<Longrightarrow> n \<noteq> [] \<Longrightarrow> CertCommonName E' dir' c' = (Ret (Inl n), c')"
  by (auto simp: CertCommonName_def split: if_splits outcome.splits sum.splits)

lemma urls_kept_on_error: "SetGlobal r u f Env = (Some e, Env') \<Longrightarrow> Env' = Env"
  by (auto simp: SetGlobal_def split: sum.splits)

section \<open>The factory's files\<close>

definition certified :: "device_env \<Rightarrow> string \<Rightarrow> string \<Rightarrow> certificate \<Rightarrow> bool" where
  "certified E cloudDir name cert \<longleftrightarrow> (\<exists>pem bytes. de_ReadFile E (de_Join E cloudDir CertFilename) = Inl pem \<and>
     de_pem_Decode E pem = Some (''CERTIFICATE'', bytes) \<and> de_ParseCertificate E bytes = Inl cert) \<and>
     Subject_CommonName cert = name \<and> Subject_Organization cert = [''Anki Inc.''] \<and> invalidTooSoon < NotAfter cert"

lemma check_certificate_ok:
  "check_certificate cert name = None \<longleftrightarrow>
    Subject_CommonName cert = name \<and> Subject_Organization cert = [''Anki Inc.''] \<and> invalidTooSoon < NotAfter cert"
  by (cases "Subject_Organization cert") (auto simp: check_certificate_def)

lemma check_cert_ok: "check_cert E dir esn = Ret None \<longleftrightarrow> (\<exists>cert. certified E dir (''vic:'' @ esn) cert)"
  by (auto simp: check_cert_def certified_def check_certificate_ok split: sum.splits option.splits)

text \<open>Files that pass the check give the process the robot's name.\<close>

lemma checked_files_name_robot:
  assumes "CheckFactoryCloudFiles E dir esn = Ret None"
  shows "CertCommonName E dir [] = (Ret (Inl (''vic:'' @ esn)), ''vic:'' @ esn)"
proof -
  from assms have "check_cert E dir esn = Ret None"
    by (auto simp: CheckFactoryCloudFiles_def split: option.splits outcome.splits)
  then show ?thesis unfolding check_cert_ok
    by (auto simp: certified_def CertCommonName_def ParseX509Certificate_def PEMData_def)
qed

lemma no_pem_panics:
  "check_info E dir esn = None \<Longrightarrow> de_ReadFile E (de_Join E dir KeysFilename) = Inl pem \<Longrightarrow> de_pem_Decode E pem = None \<Longrightarrow>
   CheckFactoryCloudFiles E dir esn = Panic"
  by (simp add: CheckFactoryCloudFiles_def check_keys_def)

end
