(* ===== verification/Token_Queue.thy ===== *)
theory Token_Queue
  imports Token_Answers
begin

text \<open>
  The token server as several callers see it at once: the channel that its \<open>Run\<close> makes, the callers that wait to
  send on it, and the routine that takes one request at a time (\<open>queue.go\<close>, \<open>Server.handleRequest\<close> of
  \<open>token.go\<close>). And the page that gives a robot its first token, \<open>handlers_dev.go\<close>.
\<close>

section \<open>The queue\<close>

text \<open>
  Callers are numbered. A caller that sends on the nil channel, before \<open>init\<close> has made the channel, waits for
  ever. Which of the waiting callers the routine serves next is left open.
\<close>

record token_queue =
  tq_made :: bool
  tq_running :: bool
  tq_waiting :: "(nat \<times> token_request) list"
  tq_stuck :: "nat list"
  tq_answers :: "(nat \<times> token_response option \<times> token_error option) list"
  tq_world :: token_world

definition new_queue :: "token_world \<Rightarrow> token_queue" where
  "new_queue w = \<lparr>tq_made = False, tq_running = False, tq_waiting = [], tq_stuck = [], tq_answers = [], tq_world = w\<rparr>"

datatype queue_event = QueueInit | Asks nat token_request | Serves nat | QueueStops

definition queue_event :: "parsers \<Rightarrow> string \<Rightarrow> queue_event \<Rightarrow> token_queue \<Rightarrow> token_queue option" where
  "queue_event P appKey e q = (case e of
      QueueInit \<Rightarrow> if tq_made q then None else Some (q\<lparr>tq_made := True, tq_running := True\<rparr>)
    | Asks c m \<Rightarrow> Some (if tq_made q then q\<lparr>tq_waiting := tq_waiting q @ [(c, m)]\<rparr> else q\<lparr>tq_stuck := tq_stuck q @ [c]\<rparr>)
    | Serves i \<Rightarrow>
        if \<not> tq_running q then None
        else (case drop i (tq_waiting q) of
            [] \<Rightarrow> None
          | (c, m) # rest \<Rightarrow> (case queue_handleRequest P appKey m (tq_world q) of
              (r, w) \<Rightarrow> Some (q\<lparr>tq_waiting := take i (tq_waiting q) @ rest, tq_answers := tq_answers q @ [(c, r)], tq_world := w\<rparr>)))
    | QueueStops \<Rightarrow> if tq_running q then Some (q\<lparr>tq_running := False\<rparr>) else None)"

fun queue_run :: "parsers \<Rightarrow> string \<Rightarrow> queue_event list \<Rightarrow> token_queue \<Rightarrow> token_queue option" where
  "queue_run P appKey [] q = Some q"
| "queue_run P appKey (e # es) q = Option.bind (queue_event P appKey e q) (queue_run P appKey es)"

text \<open>Some requests, one after the other.\<close>

fun one_by_one :: "parsers \<Rightarrow> string \<Rightarrow> (nat \<times> token_request) list \<Rightarrow> token_world \<Rightarrow>
    (nat \<times> token_response option \<times> token_error option) list \<times> token_world" where
  "one_by_one P appKey [] w = ([], w)"
| "one_by_one P appKey ((c, m) # qs) w = (case queue_handleRequest P appKey m w of
      (r, w') \<Rightarrow> (case one_by_one P appKey qs w' of (rs, w'') \<Rightarrow> ((c, r) # rs, w'')))"

fun asked :: "queue_event list \<Rightarrow> (nat \<times> token_request) list" where
  "asked [] = []"
| "asked (Asks c m # es) = (c, m) # asked es"
| "asked (_ # es) = asked es"

lemma one_by_one_snoc:
  "one_by_one P k (qs @ [(c, m)]) w = (case one_by_one P k qs w of (rs, w') \<Rightarrow>
    (case queue_handleRequest P k m w' of (r, w'') \<Rightarrow> (rs @ [(c, r)], w'')))"
  by (induction qs arbitrary: w) (auto split: prod.split)

lemma queue_run_append: "queue_run P k (es @ fs) q = Option.bind (queue_run P k es q) (queue_run P k fs)"
  by (induction es arbitrary: q) (auto split: bind_splits)

lemma asked_append: "asked (es @ fs) = asked es @ asked fs"
  by (induction es rule: asked.induct) auto

lemma before_init:
  "QueueInit \<notin> set es \<Longrightarrow> queue_run P k es (new_queue w) = Some q \<Longrightarrow> q = (new_queue w)\<lparr>tq_stuck := map fst (asked es)\<rparr>"
proof (induction es arbitrary: q rule: rev_induct)
  case (snoc e es)
  then obtain p where "queue_run P k es (new_queue w) = Some p" "queue_event P k e p = Some q"
    by (auto simp: queue_run_append bind_eq_Some_conv)
  with snoc show ?case by (cases e) (auto simp: queue_event_def new_queue_def asked_append)
qed (simp add: new_queue_def)

lemma after_init:
  assumes "queue_run P k es q = Some q'" "tq_made q"
    and "one_by_one P k qs w = (tq_answers q, tq_world q)"
  shows "\<exists>qs'. one_by_one P k (qs @ qs') w = (tq_answers q', tq_world q') \<and> tq_stuck q' = tq_stuck q \<and> tq_made q' \<and>
    mset (tq_waiting q) + mset (asked es) = mset qs' + mset (tq_waiting q')"
  using assms
proof (induction es arbitrary: q qs)
  case Nil
  then show ?case by (intro exI [of _ "[]"]) simp
next
  case (Cons e es)
  then obtain p where p: "queue_event P k e q = Some p" "queue_run P k es p = Some q'" by (auto simp: bind_eq_Some_conv)
  show ?case
  proof (cases e)
    case (Serves i)
    with p(1) obtain c m rest r v where s: "drop i (tq_waiting q) = (c, m) # rest" "queue_handleRequest P k m (tq_world q) = (r, v)"
        "p = q\<lparr>tq_waiting := take i (tq_waiting q) @ rest, tq_answers := tq_answers q @ [(c, r)], tq_world := v\<rparr>"
      by (auto simp: queue_event_def split: if_splits list.splits prod.splits)
    have "mset (tq_waiting q) = mset (take i (tq_waiting q)) + mset ((c, m) # rest)"
      using s(1) by (metis append_take_drop_id mset_append)
    moreover have "one_by_one P k (qs @ [(c, m)]) w = (tq_answers p, tq_world p)"
      using Cons.prems(3) s by (simp add: one_by_one_snoc)
    from Cons.IH [OF p(2) _ this] Cons.prems(2) s(3) obtain qs' where
      "one_by_one P k (qs @ (c, m) # qs') w = (tq_answers q', tq_world q')" "tq_stuck q' = tq_stuck p" "tq_made q'"
      "mset (tq_waiting p) + mset (asked es) = mset qs' + mset (tq_waiting q')" by auto
    ultimately show ?thesis using s(3) Serves by (intro exI [of _ "(c, m) # qs'"]) simp
  next
    case (Asks c m)
    with p(1) Cons.prems(2,3) Cons.IH [OF p(2), of qs] show ?thesis by (auto simp: queue_event_def)
  qed (use p Cons.prems Cons.IH [OF p(2), of qs] in \<open>auto simp: queue_event_def split: if_splits\<close>)
qed

section \<open>The page for a robot without a token\<close>

text \<open>\<open>Init\<close> of the provider shows an error on the robot's face, if it can; the codes written so far are kept.\<close>

definition WriteFaceErrorCode :: "bool \<Rightarrow> nat \<Rightarrow> nat list \<Rightarrow> nat list" where
  "WriteFaceErrorCode writable code face = (if writable then face @ [code] else face)"

definition provider_Init :: "parsers \<Rightarrow> bool \<Rightarrow> provider \<times> nat list \<Rightarrow> string option \<times> provider \<times> nat list" where
  "provider_Init P writable s = (case s of (p, face) \<Rightarrow> (case provider_init P p of
      (None, p') \<Rightarrow> (None, p', face)
    | (Some e, p') \<Rightarrow> (Some e, p', WriteFaceErrorCode writable 851 face)))"

text \<open>
  The page makes a provider of its own, which reads the same disk. \<open>made\<close> is the error of that, if any; \<open>form\<close> the
  token of the form, if it can be parsed. The texts of the page leave out the errors of the queue; the last case, an answer of another
  kind than the request's, does not arise.
\<close>

definition provisionHandler ::
  "parsers \<Rightarrow> string \<Rightarrow> bool \<Rightarrow> string option \<Rightarrow> string + string \<Rightarrow> token_world \<times> nat list \<Rightarrow> (nat \<times> string) \<times> token_world \<times> nat list" where
  "provisionHandler P appKey writable made form s = (case s of (w, face) \<Rightarrow>
     (case made of Some e \<Rightarrow> ((500, ''Error initializing identity provider: '' @ e), w, face)
      | None \<Rightarrow> (case provider_Init P writable ((tw_provider w)\<lparr>currentToken := None\<rparr>, face) of (_, p, face) \<Rightarrow>
          let w = w\<lparr>tw_provider := p\<lparr>currentToken := currentToken (tw_provider w)\<rparr>\<rparr>
          in if (case currentToken p of None \<Rightarrow> False | Some existing \<Rightarrow> tk_UserId existing \<noteq> [])
             then ((400, ''No auth necessary, robot already has token!''), w, face)
             else (case form of
                 Inr e \<Rightarrow> ((400, ''Error parsing form: '' @ e), w, face)
               | Inl tok \<Rightarrow> if tok = [] then ((400, ''No token value provided in request''), w, face)
                   else (case queue_handleRequest P appKey (TokenRequestWithAuth
                         \<lparr>AuthRequest_SessionToken = tok, AuthRequest_ClientName = [], AuthRequest_AppId = []\<rparr>) w of
                       ((_, Some _), w) \<Rightarrow> ((500, ''Error attempting authorization: ''), w, face)
                     | ((Some (TokenResponseWithAuth a), None), w) \<Rightarrow>
                         if AuthResponse_Error a \<noteq> TokenError_NoError
                         then ((500, ''Unexpected error response from token authorization: ''), w, face)
                         else ((200, ''Robot should now be authorized!''), w, face)
                     | (_, w) \<Rightarrow> ((500, []), w, face))))))"

lemma auth_stores:
  assumes "authRequester P requester True w = ((resp, None), w')"
  shows "\<exists>tok t. parseToken P tok = Inl t \<and> jwtFile (tw_provider w') = Some tok \<and> currentToken (tw_provider w') = Some t"
proof -
  obtain e v where g: "getConnection w = (e, v)" by (rule prod.exhaust)
  obtain r u where q: "requester v = (r, u)" by (rule prod.exhaust)
  from assms g q obtain b where b: "e = None" "r = Inl b" by (auto simp: authRequester_def split: option.splits sum.splits)
  from storeToken_cases [of P "BundleToken b" u] show ?thesis
    using assms g q b by (elim disjE exE conjE) (auto simp: authRequester_def)
qed

section \<open>Properties\<close>

text \<open>
  C15. Whatever the callers and the routine do, and in whatever order: the requests that were answered were
  handled one at a time, each caller got the answer to its own request, every other request made after the channel
  still waits to be taken, and those made before it are never taken.
\<close>

theorem queue_serialises:
  assumes "queue_run P k (es @ QueueInit # fs) (new_queue w) = Some q" "QueueInit \<notin> set es"
  shows "\<exists>qs. one_by_one P k qs w = (tq_answers q, tq_world q) \<and>
    mset (asked fs) = mset qs + mset (tq_waiting q) \<and> tq_stuck q = map fst (asked es)"
proof -
  from assms(1) obtain p where p: "queue_run P k es (new_queue w) = Some p" "queue_run P k (QueueInit # fs) p = Some q"
    by (auto simp: queue_run_append bind_eq_Some_conv)
  from before_init [OF assms(2) p(1)] p(2) have
    "queue_run P k fs ((new_queue w)\<lparr>tq_stuck := map fst (asked es), tq_made := True, tq_running := True\<rparr>) = Some q"
    by (simp add: queue_event_def new_queue_def)
  from after_init [OF this, of "[]" w] show ?thesis by (auto simp: new_queue_def)
qed

text \<open>
  When the page says that the robot is authorised, the token that the remote service gave is in memory and
  in the file; from then on the page refuses, and changes nothing, as long as the token belongs to a user and the disk works.
\<close>

theorem provisioned_robot_has_token:
  assumes "provisionHandler P k b made form (w, face) = ((200, s), w', face')"
  shows "\<exists>tok t. parseToken P tok = Inl t \<and> jwtFile (tw_provider w') = Some tok \<and> currentToken (tw_provider w') = Some t \<and>
    (tk_UserId t \<noteq> [] \<and> diskFaults (tw_provider w') = [] \<longrightarrow>
      provisionHandler P k b None form' (w', face') = ((400, ''No auth necessary, robot already has token!''), w', face'))"
proof -
  obtain m v resp where q: "queue_handleRequest P k (TokenRequestWithAuth m) v = ((resp, None), w')"
    using assms by (auto simp: provisionHandler_def Let_def split: option.splits prod.splits sum.splits if_splits token_response.splits)
  obtain r e u where a: "authRequester P (associatePrimary (sessionMetadata k (AuthRequest_SessionToken m))) True v = ((r, e), u)"
    by (metis surj_pair)
  with q have "e = None" "tw_provider w' = tw_provider u"
    by (auto simp: queue_handleRequest_def handleAuthRequest_def split: if_splits)
  with auth_stores a obtain tok t where t: "parseToken P tok = Inl t" "jwtFile (tw_provider w') = Some tok"
      "currentToken (tw_provider w') = Some t" by metis
  moreover have "provisionHandler P k b None form' (w', face') = ((400, ''No auth necessary, robot already has token!''), w', face')"
    if "tk_UserId t \<noteq> []" "diskFaults (tw_provider w') = []"
    using t that by (simp add: provisionHandler_def provider_Init_def provider_init_def disk_def)
  ultimately show ?thesis by blast
qed

theorem queue_serialises_witness:
  "\<exists>q. queue_run any_token ''key'' ([Asks 0 (TokenRequestWithJwt False)] @ QueueInit # [Asks 1 (TokenRequestWithJwt False), Serves 0])
      (new_queue (token_example [])) = Some q \<and> tq_stuck q = [0] \<and> map fst (tq_answers q) = [1]"
  (is "\<exists>q. ?run = Some q \<and> _")
proof -
  obtain q where q: "?run = Some q" "map fst (tq_answers q) = [1]"
    by (cases "queue_handleRequest any_token ''key'' (TokenRequestWithJwt False) (token_example [])")
      (simp add: queue_event_def new_queue_def)
  with queue_serialises [OF q(1)] show ?thesis by auto
qed

theorem provisioned_robot_has_token_witness:
  "\<exists>w. provisionHandler any_token ''key'' True None (Inl ''session'')
      ((token_example [Bundle ''c'' ''new''])\<lparr>tw_provider := \<lparr>currentToken = None, jwtFile = None, tmpFile = None, diskFaults = []\<rparr>,
        tw_cert := Some ''cert''\<rparr>, []) = ((200, ''Robot should now be authorized!''), w, []) \<and>
    currentToken (tw_provider w) = Some (user_token ''new'') \<and>
    provisionHandler any_token ''key'' True None (Inl ''again'') (w, []) = ((400, ''No auth necessary, robot already has token!''), w, [])"
  (is "\<exists>w. provisionHandler _ _ _ _ _ (?w, []) = _ \<and> _")
proof -
  obtain w where w: "provisionHandler any_token ''key'' True None (Inl ''session'') (?w, []) = ((200, ''Robot should now be authorized!''), w, [])"
      "currentToken (tw_provider w) = Some (user_token ''new'')" "diskFaults (tw_provider w) = []"
    by (simp add: provisionHandler_def provider_Init_def provider_init_def disk_def token_example_def queue_handleRequest_def is_jwt_def
        handleAuthRequest_def authRequester_def getConnection_def associatePrimary_def invoke_def storeToken_def ParseAndStoreToken_def
        saveToken_def)
  with provisioned_robot_has_token [OF w(1), of "Inl ''again''"] show ?thesis by (auto simp: user_token_def)
qed


end
