(* ===== verification/Cloud_Process.thy ===== *)
theory Cloud_Process
  imports Device_Files Token_Queue
begin

text \<open>
  The start of the cloud process, \<open>internal/cloudproc\<close>: the options of the process and of its services (\<open>opts.go\<close> here
  and in \<open>jdocs\<close>, \<open>logcollector\<close>, \<open>token\<close> and \<open>voice\<close>), the provider of identities, and \<open>Run\<close>, which starts the
  services that the options ask for. Accessors of tokens, listeners of errors and clients are names.
\<close>

section \<open>Options of the services\<close>

text \<open>Every option is a function on a structure of options; applied one after the other.\<close>

record token_options =
  to_server :: bool
  to_socketNameSuffix :: string

datatype token_option = TokenWithServer | TokenWithSocketNameSuffix string

fun token_apply :: "token_option \<Rightarrow> token_options \<Rightarrow> token_options" where
  "token_apply TokenWithServer r = r\<lparr>to_server := True\<rparr>"
| "token_apply (TokenWithSocketNameSuffix s) r = r\<lparr>to_socketNameSuffix := s\<rparr>"

record ('a, 'l) jdocs_options =
  jo_server :: bool
  jo_socketNameSuffix :: string
  jo_tokener :: "'a option"
  jo_errListener :: "'l option"

datatype ('a, 'l) jdocs_option =
  JdocsWithServer | JdocsWithSocketNameSuffix string | JdocsWithTokener 'a | JdocsWithErrorListener 'l

fun jdocs_apply :: "('a, 'l) jdocs_option \<Rightarrow> ('a, 'l) jdocs_options \<Rightarrow> ('a, 'l) jdocs_options" where
  "jdocs_apply JdocsWithServer r = r\<lparr>jo_server := True\<rparr>"
| "jdocs_apply (JdocsWithSocketNameSuffix s) r = r\<lparr>jo_socketNameSuffix := s\<rparr>"
| "jdocs_apply (JdocsWithTokener a) r = r\<lparr>jo_tokener := Some a\<rparr>"
| "jdocs_apply (JdocsWithErrorListener l) r = r\<lparr>jo_errListener := Some l\<rparr>"

text \<open>\<open>ParseUrl\<close> gives the host and the path.\<close>

record ('a, 'l, 'h) collector_options =
  lc_server :: bool
  lc_socketNameSuffix :: string
  lc_tokener :: "'a option"
  lc_httpClient :: "'h option"
  lc_errListener :: "'l option"
  lc_bucketName :: string
  lc_s3BasePrefix :: string
  lc_awsRegion :: string
  lc_endpoint :: string
  lc_s3ForcePathStyle :: bool
  lc_disableSSL :: bool

datatype ('a, 'l, 'h) collector_option =
    LogWithServer
  | LogWithSocketNameSuffix string
  | LogWithHTTPClient 'h
  | LogWithTokener 'a
  | LogWithEndpoint string
  | LogWithS3ForcePathStyle bool
  | LogWithDisableSSL bool
  | LogWithS3UrlPrefix string
  | LogWithAwsRegion string
  | LogWithErrorListener 'l

fun collector_apply :: "(string \<Rightarrow> (string \<times> string) option) \<Rightarrow> ('a, 'l, 'h) collector_option \<Rightarrow>
    ('a, 'l, 'h) collector_options \<Rightarrow> ('a, 'l, 'h) collector_options" where
  "collector_apply ParseUrl LogWithServer r = r\<lparr>lc_server := True\<rparr>"
| "collector_apply ParseUrl (LogWithSocketNameSuffix s) r = r\<lparr>lc_socketNameSuffix := s\<rparr>"
| "collector_apply ParseUrl (LogWithHTTPClient h) r = r\<lparr>lc_httpClient := Some h\<rparr>"
| "collector_apply ParseUrl (LogWithTokener a) r = r\<lparr>lc_tokener := Some a\<rparr>"
| "collector_apply ParseUrl (LogWithEndpoint s) r = r\<lparr>lc_endpoint := s\<rparr>"
| "collector_apply ParseUrl (LogWithS3ForcePathStyle b) r = r\<lparr>lc_s3ForcePathStyle := b\<rparr>"
| "collector_apply ParseUrl (LogWithDisableSSL b) r = r\<lparr>lc_disableSSL := b\<rparr>"
| "collector_apply ParseUrl (LogWithS3UrlPrefix s) r = (case ParseUrl s of
      None \<Rightarrow> r | Some (host, path) \<Rightarrow> r\<lparr>lc_bucketName := host, lc_s3BasePrefix := path\<rparr>)"
| "collector_apply ParseUrl (LogWithAwsRegion s) r = r\<lparr>lc_awsRegion := s\<rparr>"
| "collector_apply ParseUrl (LogWithErrorListener l) r = r\<lparr>lc_errListener := Some l\<rparr>"

datatype handler = HandlerDefault | HandlerGoogle | HandlerMicrosoft | HandlerAmazon

record ('a, 'l) voice_options =
  vo_compress :: bool
  vo_chunkMs :: nat
  vo_handler :: handler
  vo_saveAudio :: bool
  vo_tokener :: "'a option"
  vo_requireToken :: bool
  vo_errListener :: "'l option"

datatype ('a, 'l) voice_option =
    VoiceWithCompression bool
  | VoiceWithChunkMs nat
  | VoiceWithHandler handler
  | VoiceWithSaveAudio bool
  | VoiceWithRequireToken
  | VoiceWithTokener 'a
  | VoiceWithErrorListener 'l

fun voice_apply :: "('a, 'l) voice_option \<Rightarrow> ('a, 'l) voice_options \<Rightarrow> ('a, 'l) voice_options" where
  "voice_apply (VoiceWithCompression b) r = r\<lparr>vo_compress := b\<rparr>"
| "voice_apply (VoiceWithChunkMs n) r = r\<lparr>vo_chunkMs := n\<rparr>"
| "voice_apply (VoiceWithHandler h) r = r\<lparr>vo_handler := h\<rparr>"
| "voice_apply (VoiceWithSaveAudio b) r = r\<lparr>vo_saveAudio := b\<rparr>"
| "voice_apply VoiceWithRequireToken r = r\<lparr>vo_requireToken := True\<rparr>"
| "voice_apply (VoiceWithTokener a) r = r\<lparr>vo_tokener := Some a\<rparr>"
| "voice_apply (VoiceWithErrorListener l) r = r\<lparr>vo_errListener := Some l\<rparr>"

section \<open>Options of the process\<close>

text \<open>The documents and logs are off while their options are nil, which is not the same as no options.\<close>

record ('a, 'l, 'h, 'p) cloud_options =
  co_voice :: bool
  co_identityProvider :: "'p option"
  co_voiceOpts :: "('a, 'l) voice_option list"
  co_tokenOpts :: "token_option list"
  co_jdocOpts :: "('a, 'l) jdocs_option list option"
  co_logcollectorOpts :: "('a, 'l, 'h) collector_option list option"

datatype ('a, 'l, 'h, 'p) cloud_option =
    WithVoice
  | WithIdentityProvider 'p
  | WithVoiceOptions "('a, 'l) voice_option list"
  | WithTokenOptions "token_option list"
  | WithJdocs "('a, 'l) jdocs_option list"
  | WithLogCollectorOptions "('a, 'l, 'h) collector_option list"

definition more_options :: "'o list \<Rightarrow> 'o list option \<Rightarrow> 'o list option" where
  "more_options os old = (case old of None \<Rightarrow> Some os | Some old \<Rightarrow> Some (old @ os))"

fun cloud_apply :: "('a, 'l, 'h, 'p) cloud_option \<Rightarrow> ('a, 'l, 'h, 'p) cloud_options \<Rightarrow> ('a, 'l, 'h, 'p) cloud_options" where
  "cloud_apply WithVoice r = r\<lparr>co_voice := True\<rparr>"
| "cloud_apply (WithIdentityProvider p) r = r\<lparr>co_identityProvider := Some p\<rparr>"
| "cloud_apply (WithVoiceOptions os) r = r\<lparr>co_voiceOpts := co_voiceOpts r @ os\<rparr>"
| "cloud_apply (WithTokenOptions os) r = r\<lparr>co_tokenOpts := co_tokenOpts r @ os\<rparr>"
| "cloud_apply (WithJdocs os) r = r\<lparr>co_jdocOpts := more_options os (co_jdocOpts r)\<rparr>"
| "cloud_apply (WithLogCollectorOptions os) r = r\<lparr>co_logcollectorOpts := more_options os (co_logcollectorOpts r)\<rparr>"

section \<open>The provider of identities\<close>

record file_provider =
  fp_jwtPath :: string
  fp_certCommonName :: string

definition DefaultTokenPath :: string where
  "DefaultTokenPath = ''/data/data/com.anki.victor/persistent/token''"

definition DefaultCloudDir :: string where
  "DefaultCloudDir = ''/factory/cloud''"

text \<open>\<open>getTLSCert\<close> gives an error or none; the state is the variable of \<open>CertCommonName\<close>.\<close>

definition NewFileProvider :: "device_env \<Rightarrow> (string \<Rightarrow> string option) \<Rightarrow> string \<Rightarrow> string \<Rightarrow> (string, file_provider + string) go" where
  "NewFileProvider E getTLSCert jwtPath cloudDir =
     (let jwtPath = (if jwtPath = [] then DefaultTokenPath else jwtPath);
          cloudDir = (if cloudDir = [] then DefaultCloudDir else cloudDir)
      in bindM (CertCommonName E cloudDir) (\<lambda>r. case r of
           Inr e \<Rightarrow> returnM (Inr e)
         | Inl name \<Rightarrow> (case getTLSCert cloudDir of
             Some e \<Rightarrow> returnM (Inr e)
           | None \<Rightarrow> returnM (Inl \<lparr>fp_jwtPath = jwtPath, fp_certCommonName = name\<rparr>))))"

section \<open>The start\<close>

datatype ('a, 'l, 'h) service =
    DevServer
  | TokenServer token_options
  | VoiceService "('a, 'l) voice_options"
  | JdocsService "('a, 'l) jdocs_options"
  | LogService "('a, 'l, 'h) collector_options"
  | VisionService

text \<open>\<open>Run\<close> of each service applies its options to the zero structure, the voice service to one with a chunk length.\<close>

definition token_Run_options :: "token_option list \<Rightarrow> token_options" where
  "token_Run_options os = fold token_apply os \<lparr>to_server = False, to_socketNameSuffix = []\<rparr>"

definition jdocs_Run_options :: "('a, 'l) jdocs_option list \<Rightarrow> ('a, 'l) jdocs_options" where
  "jdocs_Run_options os =
     fold jdocs_apply os \<lparr>jo_server = False, jo_socketNameSuffix = [], jo_tokener = None, jo_errListener = None\<rparr>"

definition collector_Run_options ::
  "(string \<Rightarrow> (string \<times> string) option) \<Rightarrow> ('a, 'l, 'h) collector_option list \<Rightarrow> ('a, 'l, 'h) collector_options" where
  "collector_Run_options ParseUrl os = fold (collector_apply ParseUrl) os
     \<lparr>lc_server = False, lc_socketNameSuffix = [], lc_tokener = None, lc_httpClient = None, lc_errListener = None, lc_bucketName = [],
       lc_s3BasePrefix = [], lc_awsRegion = [], lc_endpoint = [], lc_s3ForcePathStyle = False, lc_disableSSL = False\<rparr>"

definition voice_Run_options :: "('a, 'l) voice_option list \<Rightarrow> ('a, 'l) voice_options" where
  "voice_Run_options os = fold voice_apply os
     \<lparr>vo_compress = False, vo_chunkMs = 120, vo_handler = HandlerDefault, vo_saveAudio = False, vo_tokener = None,
       vo_requireToken = False, vo_errListener = None\<rparr>"

text \<open>
  \<open>Run\<close>: what it starts, in this order, with the options each service then has. \<open>initProvider\<close> is the error of the
  provider's \<open>Init\<close>, if any; \<open>tokener\<close> and \<open>listener\<close> are the accessor and the listener of the token server.
\<close>

definition started_services ::
  "(string \<Rightarrow> (string \<times> string) option) \<Rightarrow> 'a \<Rightarrow> 'l \<Rightarrow> ('a, 'l, 'h, 'p) cloud_options \<Rightarrow> ('a, 'l, 'h) service list" where
  "started_services ParseUrl tokener listener opts =
     [TokenServer (token_Run_options (co_tokenOpts opts))] @
     (if co_voice opts then [VoiceService (voice_Run_options ([VoiceWithTokener tokener, VoiceWithErrorListener listener] @ co_voiceOpts opts))]
      else []) @
     (case co_jdocOpts opts of None \<Rightarrow> []
      | Some os \<Rightarrow> [JdocsService (jdocs_Run_options ([JdocsWithTokener tokener, JdocsWithErrorListener listener] @ os))]) @
     (case co_logcollectorOpts opts of None \<Rightarrow> []
      | Some os \<Rightarrow> [LogService (collector_Run_options ParseUrl ([LogWithTokener tokener, LogWithErrorListener listener] @ os))]) @
     [VisionService]"

definition cloudproc_Run ::
  "(string \<Rightarrow> (string \<times> string) option) \<Rightarrow> bool \<Rightarrow> 'a \<Rightarrow> 'l \<Rightarrow> (string, 'p + string) go \<Rightarrow> ('p \<Rightarrow> string option) \<Rightarrow>
   ('a, 'l, 'h, 'p) cloud_option list \<Rightarrow> (string, ('a, 'l, 'h) service list) go" where
  "cloudproc_Run ParseUrl dev tokener listener newProvider initProvider procOptions =
     (let opts = fold cloud_apply procOptions \<lparr>co_voice = False, co_identityProvider = None, co_voiceOpts = [], co_tokenOpts = [],
            co_jdocOpts = None, co_logcollectorOpts = None\<rparr>;
          launched = (if dev then [DevServer] else [])
      in bindM (case co_identityProvider opts of None \<Rightarrow> newProvider | Some p \<Rightarrow> returnM (Inl p)) (\<lambda>identityProvider.
           case identityProvider of
             Inr e \<Rightarrow> returnM launched
           | Inl p \<Rightarrow> (case initProvider p of
               Some e \<Rightarrow> returnM launched
             | None \<Rightarrow> returnM (launched @ started_services ParseUrl tokener listener opts))))"

text \<open>The socket that a service listens on, if it has one.\<close>

definition socket_name :: "string \<Rightarrow> string \<Rightarrow> string" where
  "socket_name socketName sfx = (if sfx \<noteq> [] then socketName @ ''_'' @ sfx else socketName)"

fun listens_on :: "('a, 'l, 'h) service \<Rightarrow> string option" where
  "listens_on DevServer = None"
| "listens_on (TokenServer r) = (if to_server r then Some (socket_name ''token_server'' (to_socketNameSuffix r)) else None)"
| "listens_on (VoiceService _) = None"
| "listens_on (JdocsService r) = (if jo_server r then Some (socket_name ''jdocs_server'' (jo_socketNameSuffix r)) else None)"
| "listens_on (LogService r) = (if lc_server r then Some (socket_name ''logcollector_server'' (lc_socketNameSuffix r)) else None)"
| "listens_on VisionService = Some ''offboard_vision_server''"

section \<open>What the options amount to\<close>

text \<open>A field holds what the last option that sets it says; a flag is set by one option.\<close>

lemma fold_field:
  assumes "\<And>x r. f (ap x r) = (case g x of None \<Rightarrow> f r | Some v \<Rightarrow> v)"
  shows "f (fold ap xs r) = last (f r # List.map_filter g xs)"
  by (induction xs arbitrary: r) (simp_all add: assms List.map_filter_simps split: option.split)

lemma fold_flag:
  assumes "\<And>x r. f (ap x r) = (f r \<or> x = on)"
  shows "f (fold ap xs r) = (f r \<or> on \<in> set xs)"
  by (induction xs arbitrary: r) (auto simp: assms)

definition jdocs_tokeners :: "('a, 'l) jdocs_option list \<Rightarrow> 'a list" where
  "jdocs_tokeners = List.map_filter (\<lambda>x. case x of JdocsWithTokener a \<Rightarrow> Some a | _ \<Rightarrow> None)"

definition jdocs_suffixes :: "('a, 'l) jdocs_option list \<Rightarrow> string list" where
  "jdocs_suffixes = List.map_filter (\<lambda>x. case x of JdocsWithSocketNameSuffix s \<Rightarrow> Some s | _ \<Rightarrow> None)"

definition log_tokeners :: "('a, 'l, 'h) collector_option list \<Rightarrow> 'a list" where
  "log_tokeners = List.map_filter (\<lambda>x. case x of LogWithTokener a \<Rightarrow> Some a | _ \<Rightarrow> None)"

definition voice_tokeners :: "('a, 'l) voice_option list \<Rightarrow> 'a list" where
  "voice_tokeners = List.map_filter (\<lambda>x. case x of VoiceWithTokener a \<Rightarrow> Some a | _ \<Rightarrow> None)"

lemma last_Some: "last (Some x # map Some xs) = Some (last (x # xs))"
  by (induction xs arbitrary: x) auto

lemma map_filter_Some: "List.map_filter (\<lambda>x. map_option Some (g x)) xs = map Some (List.map_filter g xs)"
  by (induction xs) (auto simp: List.map_filter_simps split: option.split)

lemma last_option:
  assumes "\<And>x r. f (ap x r) = (case g x of None \<Rightarrow> f r | Some v \<Rightarrow> Some v)" "f r = Some d"
  shows "f (fold ap xs r) = Some (last (d # List.map_filter g xs))"
proof -
  have "f (fold ap xs r) = last (f r # List.map_filter (\<lambda>x. map_option Some (g x)) xs)"
    by (rule fold_field) (simp add: assms(1) split: option.split)
  then show ?thesis by (simp only: assms(2) map_filter_Some last_Some)
qed

lemma jdocs_run:
  "jo_server (jdocs_Run_options ([JdocsWithTokener a, JdocsWithErrorListener l] @ os)) = (JdocsWithServer \<in> set os)"
  "jo_tokener (jdocs_Run_options ([JdocsWithTokener a, JdocsWithErrorListener l] @ os)) = Some (last (a # jdocs_tokeners os))"
  "jo_socketNameSuffix (jdocs_Run_options ([JdocsWithTokener a, JdocsWithErrorListener l] @ os)) = last ([] # jdocs_suffixes os)"
proof -
  let ?r = "jdocs_apply (JdocsWithErrorListener l) (jdocs_apply (JdocsWithTokener a)
    \<lparr>jo_server = False, jo_socketNameSuffix = [], jo_tokener = None, jo_errListener = None\<rparr>)"
  have r: "jdocs_Run_options ([JdocsWithTokener a, JdocsWithErrorListener l] @ os) = fold jdocs_apply os ?r"
    by (simp add: jdocs_Run_options_def)
  have s: "jo_server (jdocs_apply x r) = (jo_server r \<or> x = JdocsWithServer)" for x and r :: "('a, 'l) jdocs_options" by (cases x) auto
  show "jo_server (jdocs_Run_options ([JdocsWithTokener a, JdocsWithErrorListener l] @ os)) = (JdocsWithServer \<in> set os)"
    unfolding r fold_flag [where f = jo_server, OF s] by simp
  have t: "jo_tokener (jdocs_apply x r) = (case (case x of JdocsWithTokener a \<Rightarrow> Some a | _ \<Rightarrow> None) of None \<Rightarrow> jo_tokener r | Some v \<Rightarrow> Some v)"
    for x and r :: "('a, 'l) jdocs_options" by (cases x) auto
  show "jo_tokener (jdocs_Run_options ([JdocsWithTokener a, JdocsWithErrorListener l] @ os)) = Some (last (a # jdocs_tokeners os))"
    unfolding r jdocs_tokeners_def by (rule last_option [where f = jo_tokener], rule t) simp
  have u: "jo_socketNameSuffix (jdocs_apply x r) = (case (case x of JdocsWithSocketNameSuffix s \<Rightarrow> Some s | _ \<Rightarrow> None) of
      None \<Rightarrow> jo_socketNameSuffix r | Some v \<Rightarrow> v)" for x and r :: "('a, 'l) jdocs_options" by (cases x) auto
  show "jo_socketNameSuffix (jdocs_Run_options ([JdocsWithTokener a, JdocsWithErrorListener l] @ os)) = last ([] # jdocs_suffixes os)"
    unfolding r jdocs_suffixes_def fold_field [where f = jo_socketNameSuffix, OF u] by simp
qed

lemma collector_run:
  "lc_server (collector_Run_options ParseUrl ([LogWithTokener a, LogWithErrorListener l] @ os)) = (LogWithServer \<in> set os)"
  "lc_tokener (collector_Run_options ParseUrl ([LogWithTokener a, LogWithErrorListener l] @ os)) = Some (last (a # log_tokeners os))"
proof -
  let ?z = "\<lparr>lc_server = False, lc_socketNameSuffix = [], lc_tokener = None, lc_httpClient = None, lc_errListener = None, lc_bucketName = [],
       lc_s3BasePrefix = [], lc_awsRegion = [], lc_endpoint = [], lc_s3ForcePathStyle = False, lc_disableSSL = False\<rparr>"
  let ?r = "collector_apply ParseUrl (LogWithErrorListener l) (collector_apply ParseUrl (LogWithTokener a) ?z)"
  have r: "collector_Run_options ParseUrl ([LogWithTokener a, LogWithErrorListener l] @ os) = fold (collector_apply ParseUrl) os ?r"
    by (simp add: collector_Run_options_def)
  have s: "lc_server (collector_apply ParseUrl x r) = (lc_server r \<or> x = LogWithServer)" for x and r :: "('a, 'l, 'h) collector_options"
    by (cases x) (auto split: option.split)
  show "lc_server (collector_Run_options ParseUrl ([LogWithTokener a, LogWithErrorListener l] @ os)) = (LogWithServer \<in> set os)"
    unfolding r fold_flag [where f = lc_server, OF s] by simp
  have t: "lc_tokener (collector_apply ParseUrl x r) = (case (case x of LogWithTokener a \<Rightarrow> Some a | _ \<Rightarrow> None) of None \<Rightarrow> lc_tokener r | Some v \<Rightarrow> Some v)"
    for x and r :: "('a, 'l, 'h) collector_options" by (cases x) (auto split: option.split)
  show "lc_tokener (collector_Run_options ParseUrl ([LogWithTokener a, LogWithErrorListener l] @ os)) = Some (last (a # log_tokeners os))"
    unfolding r log_tokeners_def by (rule last_option [where f = lc_tokener], rule t) simp
qed

lemma voice_run:
  "vo_requireToken (voice_Run_options ([VoiceWithTokener a, VoiceWithErrorListener l] @ os)) = (VoiceWithRequireToken \<in> set os)"
  "vo_tokener (voice_Run_options ([VoiceWithTokener a, VoiceWithErrorListener l] @ os)) = Some (last (a # voice_tokeners os))"
proof -
  let ?r = "voice_apply (VoiceWithErrorListener l) (voice_apply (VoiceWithTokener a)
    \<lparr>vo_compress = False, vo_chunkMs = 120, vo_handler = HandlerDefault, vo_saveAudio = False, vo_tokener = None,
       vo_requireToken = False, vo_errListener = None\<rparr>)"
  have r: "voice_Run_options ([VoiceWithTokener a, VoiceWithErrorListener l] @ os) = fold voice_apply os ?r"
    by (simp add: voice_Run_options_def)
  have s: "vo_requireToken (voice_apply x r) = (vo_requireToken r \<or> x = VoiceWithRequireToken)" for x and r :: "('a, 'l) voice_options"
    by (cases x) auto
  show "vo_requireToken (voice_Run_options ([VoiceWithTokener a, VoiceWithErrorListener l] @ os)) = (VoiceWithRequireToken \<in> set os)"
    unfolding r fold_flag [where f = vo_requireToken, OF s] by simp
  have t: "vo_tokener (voice_apply x r) = (case (case x of VoiceWithTokener a \<Rightarrow> Some a | _ \<Rightarrow> None) of None \<Rightarrow> vo_tokener r | Some v \<Rightarrow> Some v)"
    for x and r :: "('a, 'l) voice_options" by (cases x) auto
  show "vo_tokener (voice_Run_options ([VoiceWithTokener a, VoiceWithErrorListener l] @ os)) = Some (last (a # voice_tokeners os))"
    unfolding r voice_tokeners_def by (rule last_option [where f = vo_tokener], rule t) simp
qed

definition jdocs_asked :: "('a, 'l, 'h, 'p) cloud_option list \<Rightarrow> ('a, 'l) jdocs_option list list" where
  "jdocs_asked = List.map_filter (\<lambda>x. case x of WithJdocs os \<Rightarrow> Some os | _ \<Rightarrow> None)"

definition logs_asked :: "('a, 'l, 'h, 'p) cloud_option list \<Rightarrow> ('a, 'l, 'h) collector_option list list" where
  "logs_asked = List.map_filter (\<lambda>x. case x of WithLogCollectorOptions os \<Rightarrow> Some os | _ \<Rightarrow> None)"

definition voice_asked :: "('a, 'l, 'h, 'p) cloud_option list \<Rightarrow> ('a, 'l) voice_option list" where
  "voice_asked xs = concat (List.map_filter (\<lambda>x. case x of WithVoiceOptions os \<Rightarrow> Some os | _ \<Rightarrow> None) xs)"

lemma cloud_fold:
  "co_voice (fold cloud_apply xs r) = (co_voice r \<or> WithVoice \<in> set xs)"
  "co_voiceOpts (fold cloud_apply xs r) = co_voiceOpts r @ voice_asked xs"
  "co_jdocOpts (fold cloud_apply xs r) = (if jdocs_asked xs = [] then co_jdocOpts r else more_options (concat (jdocs_asked xs)) (co_jdocOpts r))"
  "co_logcollectorOpts (fold cloud_apply xs r) =
    (if logs_asked xs = [] then co_logcollectorOpts r else more_options (concat (logs_asked xs)) (co_logcollectorOpts r))"
proof (induction xs arbitrary: r)
  case (Cons x xs)
  { case 1 then show ?case by (cases x) (auto simp: Cons)
  next case 2 then show ?case by (cases x) (auto simp: Cons voice_asked_def List.map_filter_simps)
  next case 3 then show ?case
      by (cases x) (auto simp: Cons jdocs_asked_def List.map_filter_simps more_options_def split: option.splits)
  next case 4 then show ?case
      by (cases x) (auto simp: Cons logs_asked_def List.map_filter_simps more_options_def split: option.splits) }
qed (simp_all add: voice_asked_def jdocs_asked_def logs_asked_def List.map_filter_simps)

lemma asked_sets:
  "set (jdocs_asked os) = {js. WithJdocs js \<in> set os}" "set (logs_asked os) = {gs. WithLogCollectorOptions gs \<in> set os}"
proof (induction os)
  case (Cons x xs)
  { case 1 show ?case using Cons(1) by (cases x) (auto simp: jdocs_asked_def List.map_filter_simps)
  next case 2 show ?case using Cons(2) by (cases x) (auto simp: logs_asked_def List.map_filter_simps) }
qed (simp_all add: jdocs_asked_def logs_asked_def List.map_filter_simps)

text \<open>The sockets of different services have different names.\<close>

lemma sockets_differ:
  "distinct (List.map_filter listens_on (started_services U a l opts))"
  by (auto simp: started_services_def List.map_filter_simps socket_name_def split: option.split)

section \<open>Properties\<close>




end
