(* ===== verification/Voice_Receiver.thy ===== *)
theory Voice_Receiver
  imports Clad_Services "HOL-Library.Sublist"
begin

text \<open>
  How messages come from a microphone's socket to the voice process, \<open>internal/voice/receive.go\<close> and the
  goroutine that \<open>addMultiplexRoutine\<close> of \<open>process.go\<close> starts: the reader decodes the blocks of the socket and sends
  them to the receiver's channel, from which the other goroutine sends them on to the channel of the process's loop.
\<close>

section \<open>One message\<close>

text \<open>A block without bytes is no message, and neither is one that cannot be read.\<close>

fun decoded :: "byte list option list \<Rightarrow> mic_message list" where
  "decoded [] = []"
| "decoded (None # bs) = []"
| "decoded (Some b # bs) = (if b = [] then decoded bs
     else case Unpack_MicMessage b of (Ret m, _) \<Rightarrow> m # decoded bs | _ \<Rightarrow> decoded bs)"

text \<open>\<open>Read\<close> of the other end, which does not look whether there was a block.\<close>

definition ipcIO_Read :: "byte list option \<Rightarrow> mic_message outcome" where
  "ipcIO_Read block = fst (Unpack_MicMessage (case block of None \<Rightarrow> [] | Some b \<Rightarrow> b))"

section \<open>The goroutines\<close>

text \<open>
  The reader looks at its own kill channel, then waits for a block; the other goroutine waits for a message or the
  process's kill channel. A send waits until somebody receives.
\<close>

datatype socket_reader = Looking | Reading | Sending mic_message | ReaderDone
datatype multiplexer = Receiving | Forwarding mic_message | MultiplexerDone

text \<open>The blocks still to be read, what the loop of the process took with the mark of a test, and who was told to stop.\<close>

record receiver =
  rc_blocks :: "byte list option list"
  rc_reader :: socket_reader
  rc_mux :: multiplexer
  rc_isTest :: bool
  rc_taken :: "(mic_message \<times> bool) list"
  rc_reader_kill :: bool
  rc_process_kill :: bool

definition NewIpcReceiver :: "byte list option list \<Rightarrow> bool \<Rightarrow> receiver" where
  "NewIpcReceiver bs isTest = \<lparr>rc_blocks = bs, rc_reader = Looking, rc_mux = Receiving, rc_isTest = isTest, rc_taken = [],
     rc_reader_kill = False, rc_process_kill = False\<rparr>"

inductive receiver_step :: "receiver \<Rightarrow> receiver \<Rightarrow> bool" where
  reader_returns: "rc_reader s = Looking \<Longrightarrow> rc_reader_kill s \<Longrightarrow> receiver_step s (s\<lparr>rc_reader := ReaderDone\<rparr>)"
| reader_goes_on: "rc_reader s = Looking \<Longrightarrow> \<not> rc_reader_kill s \<Longrightarrow> receiver_step s (s\<lparr>rc_reader := Reading\<rparr>)"
| reads_nothing: "rc_reader s = Reading \<Longrightarrow> rc_blocks s = Some [] # bs \<Longrightarrow>
    receiver_step s (s\<lparr>rc_reader := Looking, rc_blocks := bs\<rparr>)"
| reads_closed: "rc_reader s = Reading \<Longrightarrow> rc_blocks s = None # bs \<Longrightarrow> receiver_step s (s\<lparr>rc_reader := Looking\<rparr>)"
| reads_garbage: "rc_reader s = Reading \<Longrightarrow> rc_blocks s = Some b # bs \<Longrightarrow> b \<noteq> [] \<Longrightarrow> Unpack_MicMessage b = (Fail e, rest) \<Longrightarrow>
    receiver_step s (s\<lparr>rc_reader := Looking, rc_blocks := bs\<rparr>)"
| reads_message: "rc_reader s = Reading \<Longrightarrow> rc_blocks s = Some b # bs \<Longrightarrow> b \<noteq> [] \<Longrightarrow> Unpack_MicMessage b = (Ret m, rest) \<Longrightarrow>
    receiver_step s (s\<lparr>rc_reader := Sending m, rc_blocks := bs\<rparr>)"
| hands_over: "rc_reader s = Sending m \<Longrightarrow> rc_mux s = Receiving \<Longrightarrow>
    receiver_step s (s\<lparr>rc_reader := Looking, rc_mux := Forwarding m\<rparr>)"
| multiplexer_returns: "rc_mux s = Receiving \<Longrightarrow> rc_process_kill s \<Longrightarrow> receiver_step s (s\<lparr>rc_mux := MultiplexerDone\<rparr>)"
| process_takes: "rc_mux s = Forwarding m \<Longrightarrow> \<not> rc_process_kill s \<Longrightarrow>
    receiver_step s (s\<lparr>rc_mux := Receiving, rc_taken := rc_taken s @ [(m, rc_isTest s)]\<rparr>)"
| reader_told: "receiver_step s (s\<lparr>rc_reader_kill := True\<rparr>)"
| process_ends: "receiver_step s (s\<lparr>rc_process_kill := True\<rparr>)"

inductive_cases receiver_stepE: "receiver_step s s'"

definition in_reader :: "receiver \<Rightarrow> mic_message list" where
  "in_reader s = (case rc_reader s of Sending m \<Rightarrow> [m] | _ \<Rightarrow> [])"

definition in_mux :: "receiver \<Rightarrow> mic_message list" where
  "in_mux s = (case rc_mux s of Forwarding m \<Rightarrow> [m] | _ \<Rightarrow> [])"

text \<open>Every message is taken, on its way, or still to be read; and once the loop has ended nothing is taken.\<close>

definition receiver_inv :: "byte list option list \<Rightarrow> bool \<Rightarrow> receiver \<Rightarrow> bool" where
  "receiver_inv bs isTest s \<longleftrightarrow> rc_isTest s = isTest \<and>
     map fst (rc_taken s) @ in_mux s @ in_reader s @ decoded (rc_blocks s) = decoded bs \<and> set (map snd (rc_taken s)) \<subseteq> {isTest}"

lemma receiver_inv_step:
  assumes "receiver_step s s'" "receiver_inv bs isTest s"
  shows "receiver_inv bs isTest s'"
  using assms by (cases rule: receiver_step.cases) (auto simp: receiver_inv_def in_mux_def in_reader_def)

lemma receiver_inv_run: "receiver_step\<^sup>*\<^sup>* s s' \<Longrightarrow> receiver_inv bs isTest s \<Longrightarrow> receiver_inv bs isTest s'"
  by (induction rule: rtranclp_induct) (auto intro: receiver_inv_step)

lemma nothing_taken_after_end:
  assumes "receiver_step\<^sup>*\<^sup>* s s'" "rc_process_kill s"
  shows "rc_process_kill s' \<and> rc_taken s' = rc_taken s \<and> (rc_mux s = Forwarding m \<longrightarrow> rc_mux s' = Forwarding m) \<and>
    (rc_mux s = MultiplexerDone \<and> rc_reader s = Sending m \<longrightarrow> rc_mux s' = MultiplexerDone \<and> rc_reader s' = Sending m)"
  using assms
proof (induction rule: rtranclp_induct)
  case (step t u)
  then have "rc_process_kill t" "rc_taken t = rc_taken s" "rc_mux s = Forwarding m \<longrightarrow> rc_mux t = Forwarding m"
    "rc_mux s = MultiplexerDone \<and> rc_reader s = Sending m \<longrightarrow> rc_mux t = MultiplexerDone \<and> rc_reader t = Sending m" by auto
  with step.hyps(2) show ?case by (cases rule: receiver_step.cases) auto
qed simp

text \<open>A connection that is closed keeps the reader busy until it is told to stop.\<close>

lemma closed_connection_spins:
  assumes "rc_reader s = Looking" "rc_blocks s = None # bs" "\<not> rc_reader_kill s"
  shows "receiver_step s (s\<lparr>rc_reader := Reading\<rparr>) \<and> receiver_step (s\<lparr>rc_reader := Reading\<rparr>) s"
proof -
  have "receiver_step (s\<lparr>rc_reader := Reading\<rparr>) ((s\<lparr>rc_reader := Reading\<rparr>)\<lparr>rc_reader := Looking\<rparr>)"
    using assms(2) by (intro reads_closed [where bs = bs]) simp_all
  moreover have "(s\<lparr>rc_reader := Reading\<rparr>)\<lparr>rc_reader := Looking\<rparr> = s" using assms(1) by (cases s) simp
  ultimately show ?thesis using assms by (auto intro: reader_goes_on)
qed

section \<open>Properties\<close>

text \<open>
  C13. Whatever the socket's reader, the goroutine behind it and the process do, and in whatever order:
  the process takes the messages of the socket in their order, each once, with the mark of its receiver, and at most two
  others were read. When the process has ended, it takes nothing more, and a message that was under way then stays with
  its goroutine for ever.
\<close>

theorem microphone_messages_in_order:
  assumes "receiver_step\<^sup>*\<^sup>* (NewIpcReceiver bs isTest) s"
  shows "prefix (map fst (rc_taken s)) (decoded bs) \<and> set (map snd (rc_taken s)) \<subseteq> {isTest} \<and>
    (\<exists>ms. length ms \<le> 2 \<and> map fst (rc_taken s) @ ms @ decoded (rc_blocks s) = decoded bs) \<and>
    (rc_process_kill s \<longrightarrow> (\<forall>s'. receiver_step\<^sup>*\<^sup>* s s' \<longrightarrow> rc_taken s' = rc_taken s \<and>
      (rc_mux s = Forwarding m \<longrightarrow> rc_mux s' = Forwarding m)))"
proof -
  have "receiver_inv bs isTest (NewIpcReceiver bs isTest)" by (simp add: receiver_inv_def NewIpcReceiver_def in_mux_def in_reader_def)
  from receiver_inv_run [OF assms this] have i: "map fst (rc_taken s) @ in_mux s @ in_reader s @ decoded (rc_blocks s) = decoded bs"
      "set (map snd (rc_taken s)) \<subseteq> {isTest}" by (simp_all add: receiver_inv_def)
  have "length (in_mux s @ in_reader s) \<le> 2" by (simp add: in_mux_def in_reader_def split: multiplexer.split socket_reader.split)
  moreover have "map fst (rc_taken s) @ (in_mux s @ in_reader s) @ decoded (rc_blocks s) = decoded bs" using i(1) by simp
  moreover have "prefix (map fst (rc_taken s)) (decoded bs)" using i(1) by (metis prefixI)
  ultimately show ?thesis using i(2) nothing_taken_after_end by blast
qed

theorem microphone_messages_in_order_witness:
  "\<exists>s. receiver_step\<^sup>*\<^sup>* (NewIpcReceiver [Some (micMessage.bytes MicMessageWithStopSignal), None] True) s \<and>
    rc_taken s = [(MicMessageWithStopSignal, True)] \<and> prefix (map fst (rc_taken s)) [MicMessageWithStopSignal]"
proof -
  let ?b = "micMessage.bytes MicMessageWithStopSignal"
  have fits: "fits_MicMessage MicMessageWithStopSignal" by simp
  have u: "Unpack_MicMessage ?b = (Ret MicMessageWithStopSignal, [])" using micMessage.packed(2) [OF fits, of "[]"] by simp
  have b: "?b \<noteq> []" using u by (auto simp: Unpack_MicMessage_def read_word_def binary_Read_def bindM_def)
  let ?s = "\<lambda>bs r x t. \<lparr>rc_blocks = bs, rc_reader = r, rc_mux = x, rc_isTest = True, rc_taken = t, rc_reader_kill = False, rc_process_kill = False\<rparr>"
  have "receiver_step (NewIpcReceiver [Some ?b, None] True) (?s [Some ?b, None] Reading Receiving [])"
    using reader_goes_on [of "NewIpcReceiver [Some ?b, None] True"] by (simp add: NewIpcReceiver_def)
  moreover have "receiver_step (?s [Some ?b, None] Reading Receiving []) (?s [None] (Sending MicMessageWithStopSignal) Receiving [])"
    using reads_message [of "?s [Some ?b, None] Reading Receiving []", OF _ _ b u] by simp
  moreover have "receiver_step (?s [None] (Sending MicMessageWithStopSignal) Receiving []) (?s [None] Looking (Forwarding MicMessageWithStopSignal) [])"
    using hands_over [of "?s [None] (Sending MicMessageWithStopSignal) Receiving []"] by simp
  moreover have "receiver_step (?s [None] Looking (Forwarding MicMessageWithStopSignal) []) (?s [None] Looking Receiving [(MicMessageWithStopSignal, True)])"
    using process_takes [of "?s [None] Looking (Forwarding MicMessageWithStopSignal) []"] by simp
  ultimately have r: "receiver_step\<^sup>*\<^sup>* (NewIpcReceiver [Some ?b, None] True) (?s [None] Looking Receiving [(MicMessageWithStopSignal, True)])"
    by (rule four_steps)
  from microphone_messages_in_order [OF r] b u have "prefix [MicMessageWithStopSignal] [MicMessageWithStopSignal]" by simp
  with r show ?thesis by (intro exI [of _ "?s [None] Looking Receiving [(MicMessageWithStopSignal, True)]"]) simp
qed


end
