(* ===== verification/Ipc_Multi.thy ===== *)
theory Ipc_Multi
  imports Ipc_Routing
begin

text \<open>
  The server of \<open>internal/ipc/multi\<close> with its goroutines: one waits for each new connection's name, one sets up a
  listener for each named endpoint and announces it, one listens to each endpoint, and one routes, as
  \<open>route\<close> says. \<open>Close\<close> ends them over closed channels.
\<close>

section \<open>The goroutines\<close>

text \<open>\<open>SetupDone\<close>: both channels to the routing goroutine are closed.\<close>

datatype endpoint_setup = Ranging | Announcing nat "byte list" | AwaitingListeners | SetupDone

datatype router = RouterRuns | RouterReturned

text \<open>
  Connections whose name is awaited; endpoints that wait to be set up; those listened to; and listeners that wait to
  pass on a block. A panic of any goroutine ends the process.
\<close>

record multi =
  mu_base_closed :: bool
  mu_killed :: bool
  mu_handshaking :: "nat list"
  mu_named :: "(nat \<times> byte list) list"
  mu_ret_closed :: bool
  mu_setup :: endpoint_setup
  mu_listening :: "(nat \<times> byte list) list"
  mu_passing :: "(nat \<times> byte list \<times> byte list) list"
  mu_router :: router
  mu_routing :: routing
  mu_crashed :: bool

definition NewServer :: multi where
  "NewServer = \<lparr>mu_base_closed = False, mu_killed = False, mu_handshaking = [], mu_named = [], mu_ret_closed = False,
     mu_setup = Ranging, mu_listening = [], mu_passing = [], mu_router = RouterRuns, mu_routing = no_routes, mu_crashed = False\<rparr>"

inductive multi_step :: "multi \<Rightarrow> multi \<Rightarrow> bool" where
  connects: "\<not> mu_base_closed s \<Longrightarrow> multi_step s (s\<lparr>mu_handshaking := mu_handshaking s @ [i]\<rparr>)"
| names: "i \<in> set (mu_handshaking s) \<Longrightarrow> name \<noteq> [] \<Longrightarrow>
    multi_step s (s\<lparr>mu_handshaking := remove1 i (mu_handshaking s), mu_named := mu_named s @ [(i, name)]\<rparr>)"
| goes_unnamed: "i \<in> set (mu_handshaking s) \<Longrightarrow> multi_step s (s\<lparr>mu_handshaking := remove1 i (mu_handshaking s)\<rparr>)"
| handshakes_end: "mu_base_closed s \<Longrightarrow> multi_step s (s\<lparr>mu_ret_closed := True\<rparr>)"
| sets_up: "(i, name) \<in> set (mu_named s) \<Longrightarrow> mu_setup s = Ranging \<Longrightarrow> \<not> mu_ret_closed s \<Longrightarrow>
    multi_step s (s\<lparr>mu_named := remove1 (i, name) (mu_named s), mu_listening := mu_listening s @ [(i, name)], mu_setup := Announcing i name\<rparr>)"
| sends_on_closed: "(i, name) \<in> set (mu_named s) \<Longrightarrow> mu_ret_closed s \<Longrightarrow> multi_step s (s\<lparr>mu_crashed := True\<rparr>)"
| announces: "mu_setup s = Announcing i name \<Longrightarrow> mu_router s = RouterRuns \<Longrightarrow>
    multi_step s (s\<lparr>mu_setup := Ranging, mu_routing := route (Connected i name) (mu_routing s)\<rparr>)"
| range_ends: "mu_setup s = Ranging \<Longrightarrow> mu_ret_closed s \<Longrightarrow> multi_step s (s\<lparr>mu_setup := AwaitingListeners\<rparr>)"
| listens: "(i, name) \<in> set (mu_listening s) \<Longrightarrow> b \<noteq> [] \<Longrightarrow>
    multi_step s (s\<lparr>mu_listening := remove1 (i, name) (mu_listening s), mu_passing := mu_passing s @ [(i, name, b)]\<rparr>)"
| listener_ends: "(i, name) \<in> set (mu_listening s) \<Longrightarrow> multi_step s (s\<lparr>mu_listening := remove1 (i, name) (mu_listening s)\<rparr>)"
| passes: "(i, name, b) \<in> set (mu_passing s) \<Longrightarrow> mu_router s = RouterRuns \<Longrightarrow>
    multi_step s (s\<lparr>mu_passing := remove1 (i, name, b) (mu_passing s), mu_listening := mu_listening s @ [(i, name)],
      mu_routing := route (Incoming name b) (mu_routing s)\<rparr>)"
| listener_killed: "(i, name, b) \<in> set (mu_passing s) \<Longrightarrow> mu_killed s \<Longrightarrow> multi_step s (s\<lparr>mu_passing := remove1 (i, name, b) (mu_passing s)\<rparr>)"
| setup_ends: "mu_setup s = AwaitingListeners \<Longrightarrow> mu_listening s = [] \<Longrightarrow> mu_passing s = [] \<Longrightarrow> multi_step s (s\<lparr>mu_setup := SetupDone\<rparr>)"
| receives_nil: "mu_setup s = SetupDone \<Longrightarrow> mu_router s = RouterRuns \<Longrightarrow> multi_step s (s\<lparr>mu_crashed := True\<rparr>)"
| router_killed: "mu_router s = RouterRuns \<Longrightarrow> mu_killed s \<Longrightarrow> multi_step s (s\<lparr>mu_router := RouterReturned\<rparr>)"
| base_closes: "multi_step s (s\<lparr>mu_base_closed := True\<rparr>)"
| kills: "mu_base_closed s \<Longrightarrow> multi_step s (s\<lparr>mu_killed := True\<rparr>)"

text \<open>\<open>Close\<close> returns when all goroutines that the server waits for have ended.\<close>

definition close_returns :: "multi \<Rightarrow> bool" where
  "close_returns s \<longleftrightarrow> mu_killed s \<and> mu_ret_closed s \<and> mu_setup s = SetupDone \<and> mu_router s = RouterReturned"

section \<open>What holds while the server is open\<close>

definition multi_inv :: "multi \<Rightarrow> bool" where
  "multi_inv s \<longleftrightarrow> (mu_ret_closed s \<or> mu_killed s \<or> mu_crashed s \<longrightarrow> mu_base_closed s) \<and>
     (mu_setup s \<in> {AwaitingListeners, SetupDone} \<longrightarrow> mu_ret_closed s) \<and> (mu_router s = RouterReturned \<longrightarrow> mu_killed s) \<and>
     (\<exists>es. mu_routing s = fold route es no_routes)"

lemma routed_more: "\<exists>es. r = fold route es no_routes \<Longrightarrow> \<exists>es. route e r = fold route es no_routes"
  by (elim exE, rule_tac x = "es @ [e]" in exI) simp

lemma multi_inv_step:
  assumes "multi_step s s'" "multi_inv s"
  shows "multi_inv s'"
  using assms by (cases rule: multi_step.cases) (auto simp: multi_inv_def intro: routed_more)

lemma multi_inv_run: "multi_step\<^sup>*\<^sup>* s s' \<Longrightarrow> multi_inv s \<Longrightarrow> multi_inv s'"
  by (induction rule: rtranclp_induct) (auto intro: multi_inv_step)

lemma multi_inv_start: "multi_inv NewServer"
  by (auto simp: multi_inv_def NewServer_def intro: exI [of _ "[]"])

section \<open>Closing\<close>

text \<open>When the routing has ended before an endpoint is announced, setting up never ends, nor does \<open>Close\<close>.\<close>

lemma setup_stuck:
  assumes "multi_step\<^sup>*\<^sup>* s s'" "mu_setup s = Announcing i name" "mu_router s = RouterReturned"
  shows "mu_setup s' = Announcing i name \<and> mu_router s' = RouterReturned"
  using assms
proof (induction rule: rtranclp_induct)
  case (step t u)
  then have "mu_setup t = Announcing i name" "mu_router t = RouterReturned" by auto
  with step.hyps(2) show ?case by (cases rule: multi_step.cases) auto
qed simp

lemma steps: "multi_step\<^sup>*\<^sup>* s t \<Longrightarrow> multi_step t u \<Longrightarrow> multi_step\<^sup>*\<^sup>* s u"
  by (rule rtranclp.rtrancl_into_rtrancl)

text \<open>A server without clients that is closed: the channels may be closed before the routing goroutine looks at the kill channel.\<close>

lemma close_may_crash:
  assumes "mu_handshaking s = []" "mu_listening s = []" "mu_passing s = []" "mu_setup s = Ranging" "mu_router s = RouterRuns"
  shows "\<exists>s'. multi_step\<^sup>*\<^sup>* s s' \<and> mu_killed s' \<and> mu_crashed s'"
proof -
  let ?c = "s\<lparr>mu_base_closed := True\<rparr>" let ?k = "?c\<lparr>mu_killed := True\<rparr>" let ?r = "?k\<lparr>mu_ret_closed := True\<rparr>"
  let ?w = "?r\<lparr>mu_setup := AwaitingListeners\<rparr>" let ?d = "?w\<lparr>mu_setup := SetupDone\<rparr>" let ?x = "?d\<lparr>mu_crashed := True\<rparr>"
  have "multi_step\<^sup>*\<^sup>* s ?c" by (rule r_into_rtranclp, rule base_closes)
  then have "multi_step\<^sup>*\<^sup>* s ?k" by (rule steps) (rule kills, simp)
  then have "multi_step\<^sup>*\<^sup>* s ?r" by (rule steps) (rule handshakes_end, simp)
  then have "multi_step\<^sup>*\<^sup>* s ?w" by (rule steps) (rule range_ends, use assms in simp_all)
  then have "multi_step\<^sup>*\<^sup>* s ?d" by (rule steps) (rule setup_ends, use assms in simp_all)
  then have "multi_step\<^sup>*\<^sup>* s ?x" by (rule steps) (rule receives_nil, use assms in simp_all)
  then show ?thesis by (intro exI [of _ ?x]) simp
qed

text \<open>The same server may close in order.\<close>

lemma close_may_return:
  assumes "mu_handshaking s = []" "mu_listening s = []" "mu_passing s = []" "mu_setup s = Ranging" "mu_router s = RouterRuns"
  shows "\<exists>s'. multi_step\<^sup>*\<^sup>* s s' \<and> close_returns s' \<and> mu_crashed s' = mu_crashed s"
proof -
  let ?c = "s\<lparr>mu_base_closed := True\<rparr>" let ?k = "?c\<lparr>mu_killed := True\<rparr>" let ?q = "?k\<lparr>mu_router := RouterReturned\<rparr>"
  let ?r = "?q\<lparr>mu_ret_closed := True\<rparr>"
  let ?w = "?r\<lparr>mu_setup := AwaitingListeners\<rparr>" let ?d = "?w\<lparr>mu_setup := SetupDone\<rparr>"
  have "multi_step\<^sup>*\<^sup>* s ?c" by (rule r_into_rtranclp, rule base_closes)
  then have "multi_step\<^sup>*\<^sup>* s ?k" by (rule steps) (rule kills, simp)
  then have "multi_step\<^sup>*\<^sup>* s ?q" by (rule steps) (rule router_killed, use assms in simp_all)
  then have "multi_step\<^sup>*\<^sup>* s ?r" by (rule steps) (rule handshakes_end, simp)
  then have "multi_step\<^sup>*\<^sup>* s ?w" by (rule steps) (rule range_ends, use assms in simp_all)
  then have "multi_step\<^sup>*\<^sup>* s ?d" by (rule steps) (rule setup_ends, use assms in simp_all)
  then show ?thesis by (intro exI [of _ ?d]) (simp add: close_returns_def)
qed

section \<open>Properties\<close>



end
